(* ===== verification/Prelude.thy ===== *)
theory Prelude
  imports "HOL-Library.Word" "HOL-Library.Sublist" "HOL-Library.Code_Target_Numeral"
begin

text \<open>
  What every component of the development shares: the outcome type (a Rust
  \<open>Result\<close> in which a panic is a separate value), its sequencing operators and
  their success rules, and the parts of Rust's standard library on byte strings that
  the sources use. A Rust \<open>str\<close> is the list of its UTF-8 bytes, one \<open>char\<close> per byte;
  a \<open>Vec<u8>\<close> is a list of 8-bit words.
\<close>

named_theorems outcome_simps \<open>success and failure rules of the outcome operators\<close>

named_theorems str_simps \<open>success rules of the string operations\<close>

type_synonym byte = "8 word"
type_synonym bytes = "byte list"

section \<open>Outcomes: Ok, Err and panic\<close>

text \<open>
  \<open>Inr x\<close> is Rust's \<open>Ok(x)\<close>, \<open>Inl (Err e)\<close> is \<open>Err(e)\<close>, and \<open>Inl (Panic why)\<close> is a
  panic (an index out of range, an \<open>expect\<close> that fails).
\<close>

datatype 'e fault = Err 'e | Panic string

type_synonym ('e, 'a) outcome = "'e fault + 'a"

abbreviation fail :: "'e \<Rightarrow> ('e, 'a) outcome" where
  "fail e \<equiv> Inl (Err e)"

abbreviation panic :: "string \<Rightarrow> ('e, 'a) outcome" where
  "panic why \<equiv> Inl (Panic why)"

text \<open>The \<open>?\<close> operator.\<close>

definition rbind :: "('e, 'a) outcome \<Rightarrow> ('a \<Rightarrow> ('e, 'b) outcome) \<Rightarrow> ('e, 'b) outcome" where
  "rbind m f = (case m of Inl x \<Rightarrow> Inl x | Inr a \<Rightarrow> f a)"

text \<open>\<open>if !cond { return Err(e); }\<close>\<close>

definition ensure :: "bool \<Rightarrow> 'e \<Rightarrow> ('e, unit) outcome" where
  "ensure b e = (if b then Inr () else fail e)"

text \<open>\<open>Option::ok_or\<close>, and \<open>map_err(|_| e)\<close> on a \<open>Result\<close> whose error carries nothing.\<close>

definition ok_or :: "'e \<Rightarrow> 'a option \<Rightarrow> ('e, 'a) outcome" where
  "ok_or e m = (case m of None \<Rightarrow> fail e | Some a \<Rightarrow> Inr a)"

definition map_err :: "('e \<Rightarrow> 'f) \<Rightarrow> ('e, 'a) outcome \<Rightarrow> ('f, 'a) outcome" where
  "map_err g m = (case m of Inl (Err e) \<Rightarrow> fail (g e) | Inl (Panic why) \<Rightarrow> panic why | Inr a \<Rightarrow> Inr a)"

text \<open>\<open>Option::expect\<close>\<close>

definition expect :: "string \<Rightarrow> 'a option \<Rightarrow> ('e, 'a) outcome" where
  "expect why m = (case m of None \<Rightarrow> panic why | Some a \<Rightarrow> Inr a)"

text \<open>\<open>iter().map(f).collect::<Result<Vec<_>, _>>()\<close>: stops at the first error.\<close>

primrec traverse :: "('a \<Rightarrow> ('e, 'b) outcome) \<Rightarrow> 'a list \<Rightarrow> ('e, 'b list) outcome" where
  "traverse f [] = Inr []"
| "traverse f (x # xs) = rbind (f x) (\<lambda>y. rbind (traverse f xs) (\<lambda>ys. Inr (y # ys)))"

text \<open>\<open>for x in xs { check(x)?; }\<close>\<close>

primrec for_each :: "('a \<Rightarrow> ('e, unit) outcome) \<Rightarrow> 'a list \<Rightarrow> ('e, unit) outcome" where
  "for_each f [] = Inr ()"
| "for_each f (x # xs) = rbind (f x) (\<lambda>_. for_each f xs)"

text \<open>The slices \<open>&xs[..n]\<close> and \<open>&xs[a..b]\<close> panic out of range.\<close>

definition slice_to :: "nat \<Rightarrow> 'a list \<Rightarrow> ('e, 'a list) outcome" where
  "slice_to n xs = (if n \<le> length xs then Inr (take n xs) else panic ''slice index out of range'')"

definition subslice :: "nat \<Rightarrow> nat \<Rightarrow> 'a list \<Rightarrow> ('e, 'a list) outcome" where
  "subslice a b xs = (if a \<le> b \<and> b \<le> length xs then Inr (take (b - a) (drop a xs))
     else panic ''slice index out of range'')"

definition index_at :: "'a list \<Rightarrow> nat \<Rightarrow> ('e, 'a) outcome" where
  "index_at xs i = (if i < length xs then Inr (xs ! i) else panic ''index out of range'')"

fun panics :: "('e, 'a) outcome \<Rightarrow> bool" where
  "panics (Inl (Panic _)) = True"
| "panics _ = False"

fun is_ok :: "('e, 'a) outcome \<Rightarrow> bool" where
  "is_ok (Inr _) = True"
| "is_ok (Inl _) = False"

lemma rbind_simps [simp]:
  "rbind (Inl x) f = Inl x"
  "rbind (Inr a) f = f a"
  by (simp_all add: rbind_def)

lemma rbind_cong [fundef_cong]:
  "m = m' \<Longrightarrow> (\<And>a. m' = Inr a \<Longrightarrow> f a = g a) \<Longrightarrow> rbind m f = rbind m' g"
  by (simp add: rbind_def split: sum.split)

lemma rbind_assoc: "rbind (rbind m f) g = rbind m (\<lambda>x. rbind (f x) g)"
  by (cases m) simp_all

lemma rbind_eq_Inr [outcome_simps]: "rbind m f = Inr b \<longleftrightarrow> (\<exists>a. m = Inr a \<and> f a = Inr b)"
  by (cases m) simp_all

lemma rbind_eq_Inl [outcome_simps]:
  "rbind m f = Inl x \<longleftrightarrow> m = Inl x \<or> (\<exists>a. m = Inr a \<and> f a = Inl x)"
  by (cases m) auto

lemma ensure_simps [simp]: "ensure True e = Inr ()" "ensure False e = fail e"
  by (simp_all add: ensure_def)

lemma ensure_eq_Inr [outcome_simps]: "ensure b e = Inr u \<longleftrightarrow> b"
  by (cases b) simp_all

lemma ensure_eq_Inl [outcome_simps]: "ensure b e = Inl x \<longleftrightarrow> \<not> b \<and> x = Err e"
  by (cases b) auto

lemma ok_or_simps [simp]: "ok_or e None = fail e" "ok_or e (Some a) = Inr a"
  by (simp_all add: ok_or_def)

lemma ok_or_eq_Inr [outcome_simps]: "ok_or e m = Inr a \<longleftrightarrow> m = Some a"
  by (cases m) simp_all

lemma ok_or_eq_Inl [outcome_simps]: "ok_or e m = Inl x \<longleftrightarrow> m = None \<and> x = Err e"
  by (cases m) auto

lemma map_err_simps [simp]:
  "map_err g (Inr a) = Inr a"
  "map_err g (fail e) = fail (g e)"
  "map_err g (panic why) = panic why"
  by (simp_all add: map_err_def)

lemma map_err_eq_Inr [outcome_simps]: "map_err g m = Inr a \<longleftrightarrow> m = Inr a"
  by (auto simp: map_err_def split: sum.splits fault.splits)

lemma expect_simps [simp]: "expect why None = panic why" "expect why (Some a) = Inr a"
  by (simp_all add: expect_def)

lemma expect_eq_Inr [outcome_simps]: "expect why m = Inr a \<longleftrightarrow> m = Some a"
  by (cases m) simp_all

lemma slice_to_eq_Inr [outcome_simps]:
  "slice_to n xs = Inr ys \<longleftrightarrow> n \<le> length xs \<and> ys = take n xs"
  by (auto simp: slice_to_def)

lemma subslice_eq_Inr [outcome_simps]:
  "subslice a b xs = Inr ys \<longleftrightarrow> a \<le> b \<and> b \<le> length xs \<and> ys = take (b - a) (drop a xs)"
  by (auto simp: subslice_def)

lemma index_at_eq_Inr [outcome_simps]: "index_at xs i = Inr x \<longleftrightarrow> i < length xs \<and> x = xs ! i"
  by (auto simp: index_at_def)

lemma traverse_eq_Inr:
  "traverse f xs = Inr ys \<longleftrightarrow> list_all2 (\<lambda>x y. f x = Inr y) xs ys"
  by (induction xs arbitrary: ys) (auto simp: outcome_simps list_all2_Cons1)

lemma for_each_eq_Inr [outcome_simps]:
  "for_each f xs = Inr u \<longleftrightarrow> (\<forall>x \<in> set xs. f x = Inr ())"
  by (induction xs) (auto simp: outcome_simps)

lemma list_all2_in_set: "list_all2 R xs ys \<Longrightarrow> x \<in> set xs \<Longrightarrow> \<exists>y \<in> set ys. R x y"
  by (induction rule: list_all2_induct) auto

lemma list_all2_in_set2: "list_all2 R xs ys \<Longrightarrow> y \<in> set ys \<Longrightarrow> \<exists>x \<in> set xs. R x y"
  by (induction rule: list_all2_induct) auto

lemma traverse_cong [fundef_cong]:
  "xs = ys \<Longrightarrow> (\<And>x. x \<in> set ys \<Longrightarrow> f x = g x) \<Longrightarrow> traverse f xs = traverse g ys"
  by (induction xs arbitrary: ys) (auto cong: rbind_cong)

lemma panics_rbind [simp]:
  "panics (rbind m f) \<longleftrightarrow> panics m \<or> (\<exists>a. m = Inr a \<and> panics (f a))"
proof (cases m)
  case (Inl x)
  then show ?thesis by (cases x) simp_all
qed simp

lemma panics_basic [simp]:
  "\<not> panics (ensure b e)" "\<not> panics (ok_or e' m)" "\<not> panics (fail e'')" "\<not> panics (Inr a)"
  by (simp_all add: ensure_def ok_or_def split: option.split)

lemma panics_map_err [simp]: "panics (map_err g m) = panics m"
  by (simp add: map_err_def split: sum.split fault.split)

lemma panics_slice [simp]:
  "panics (slice_to n xs) \<longleftrightarrow> length xs < n"
  "panics (subslice a b ys) \<longleftrightarrow> \<not> (a \<le> b \<and> b \<le> length ys)"
  by (auto simp: slice_to_def subslice_def)

lemma panics_traverse: "(\<And>x. x \<in> set xs \<Longrightarrow> \<not> panics (f x)) \<Longrightarrow> \<not> panics (traverse f xs)"
  by (induction xs) auto

lemma panics_for_each: "(\<And>x. x \<in> set xs \<Longrightarrow> \<not> panics (f x)) \<Longrightarrow> \<not> panics (for_each f xs)"
  by (induction xs) auto

lemma panics_expect [simp]: "panics (expect why m) \<longleftrightarrow> m = None"
  by (cases m) simp_all

lemma is_ok_iff: "is_ok m \<longleftrightarrow> (\<exists>a. m = Inr a)"
  by (cases m) simp_all

text \<open>\<open>first()\<close>\<close>

definition first_of :: "'a list \<Rightarrow> 'a option" where
  "first_of xs = (case xs of [] \<Rightarrow> None | x # _ \<Rightarrow> Some x)"

lemma first_of_Some [outcome_simps]: "first_of xs = Some x \<longleftrightarrow> (\<exists>rest. xs = x # rest)"
  by (cases xs) (auto simp: first_of_def)

section \<open>Bytes and characters\<close>

definition byte_of :: "char \<Rightarrow> byte" where
  "byte_of c = of_nat (of_char c)"

definition char_at :: "byte \<Rightarrow> char" where
  "char_at b = char_of (unat b)"

lemma of_char_less_256 [simp]: "(of_char c :: nat) < 256"
  by (metis nat_of_char_less_256)

lemma unat_byte_of [simp]: "unat (byte_of c) = of_char c"
  by (simp add: byte_of_def unat_of_nat)

lemma char_at_byte_of [simp]: "char_at (byte_of c) = c"
  by (simp add: char_at_def)

lemma byte_of_char_at [simp]: "byte_of (char_at b) = b"
proof -
  have "unat b < 256" using unsigned_less [of b, where 'a = nat] by simp
  then show ?thesis by (simp add: byte_of_def char_at_def of_char_of)
qed

lemma byte_of_inject [simp]: "byte_of c = byte_of d \<longleftrightarrow> c = d"
  by (metis char_at_byte_of)

text \<open>\<open>str::as_bytes\<close>; its inverse is \<open>str::from_utf8\<close>, partial on ill-formed UTF-8.\<close>

definition as_bytes :: "string \<Rightarrow> bytes" where
  "as_bytes s = map byte_of s"

lemma as_bytes_simps [simp]:
  "as_bytes [] = []"
  "as_bytes (c # s) = byte_of c # as_bytes s"
  "as_bytes (s @ t) = as_bytes s @ as_bytes t"
  "length (as_bytes s) = length s"
  by (simp_all add: as_bytes_def)

lemma as_bytes_inject [simp]: "as_bytes s = as_bytes t \<longleftrightarrow> s = t"
  unfolding as_bytes_def by (rule inj_map_eq_map) (simp add: inj_def)

definition utf8_tail :: "byte \<Rightarrow> bool" where
  "utf8_tail b \<longleftrightarrow> 128 \<le> unat b \<and> unat b \<le> 191"

text \<open>Well-formed UTF-8 (Unicode Standard, Table 3-7), as \<open>str::from_utf8\<close> checks it.\<close>

fun utf8_valid :: "bytes \<Rightarrow> bool" where
  "utf8_valid [] = True"
| "utf8_valid (b # bs) =
     (let n = unat b in
      if n < 128 then utf8_valid bs
      else if 194 \<le> n \<and> n \<le> 223 then
        (case bs of c # r \<Rightarrow> utf8_tail c \<and> utf8_valid r | _ \<Rightarrow> False)
      else if 224 \<le> n \<and> n \<le> 239 then
        (case bs of c # d # r \<Rightarrow>
           utf8_tail c \<and> (n = 224 \<longrightarrow> 160 \<le> unat c) \<and> (n = 237 \<longrightarrow> unat c \<le> 159) \<and>
           utf8_tail d \<and> utf8_valid r | _ \<Rightarrow> False)
      else if 240 \<le> n \<and> n \<le> 244 then
        (case bs of c # d # e # r \<Rightarrow>
           utf8_tail c \<and> (n = 240 \<longrightarrow> 144 \<le> unat c) \<and> (n = 244 \<longrightarrow> unat c \<le> 143) \<and>
           utf8_tail d \<and> utf8_tail e \<and> utf8_valid r | _ \<Rightarrow> False)
      else False)"

declare utf8_valid.simps(2) [simp del]

definition from_utf8 :: "bytes \<Rightarrow> string option" where
  "from_utf8 bs = (if utf8_valid bs then Some (map char_at bs) else None)"

lemma from_utf8_Some: "from_utf8 bs = Some s \<longleftrightarrow> utf8_valid bs \<and> bs = as_bytes s"
proof
  assume "from_utf8 bs = Some s"
  then show "utf8_valid bs \<and> bs = as_bytes s"
    by (auto simp: from_utf8_def as_bytes_def map_idI split: if_splits)
next
  assume "utf8_valid bs \<and> bs = as_bytes s"
  then show "from_utf8 bs = Some s" by (auto simp: from_utf8_def as_bytes_def map_idI)
qed

section \<open>Rust string operations\<close>

definition is_digit :: "char \<Rightarrow> bool" where
  "is_digit c \<longleftrightarrow> 48 \<le> (of_char c :: nat) \<and> (of_char c :: nat) \<le> 57"

definition is_upper :: "char \<Rightarrow> bool" where
  "is_upper c \<longleftrightarrow> 65 \<le> (of_char c :: nat) \<and> (of_char c :: nat) \<le> 90"

definition is_lower :: "char \<Rightarrow> bool" where
  "is_lower c \<longleftrightarrow> 97 \<le> (of_char c :: nat) \<and> (of_char c :: nat) \<le> 122"

definition is_alnum :: "char \<Rightarrow> bool" where
  "is_alnum c \<longleftrightarrow> is_digit c \<or> is_upper c \<or> is_lower c"

definition is_hexdigit :: "char \<Rightarrow> bool" where
  "is_hexdigit c \<longleftrightarrow> is_digit c
     \<or> (65 \<le> (of_char c :: nat) \<and> (of_char c :: nat) \<le> 70)
     \<or> (97 \<le> (of_char c :: nat) \<and> (of_char c :: nat) \<le> 102)"

definition lower_char :: "char \<Rightarrow> char" where
  "lower_char c = (if is_upper c then char_of ((of_char c :: nat) + 32) else c)"

definition to_lower :: "string \<Rightarrow> string" where
  "to_lower s = map lower_char s"

lemma to_lower_simps [simp]:
  "to_lower [] = []" "to_lower (c # s) = lower_char c # to_lower s"
  "to_lower (s @ t) = to_lower s @ to_lower t" "length (to_lower s) = length s"
  by (simp_all add: to_lower_def)

lemma of_char_lower: "(of_char (lower_char c) :: nat) = (if is_upper c then of_char c + 32 else of_char c)"
  by (simp add: lower_char_def is_upper_def of_char_of)

lemma lower_char_idem [simp]: "lower_char (lower_char c) = lower_char c"
  using of_char_lower [of c] by (auto simp: lower_char_def is_upper_def split: if_splits)

lemma to_lower_idem [simp]: "to_lower (to_lower s) = to_lower s"
  by (simp add: to_lower_def)

lemma is_hexdigit_lower [simp]: "is_hexdigit (lower_char c) = is_hexdigit c"
  using of_char_lower [of c]
  by (auto simp: is_hexdigit_def is_digit_def is_upper_def split: if_splits)

definition eq_ignore_case :: "string \<Rightarrow> string \<Rightarrow> bool" where
  "eq_ignore_case s t \<longleftrightarrow> to_lower s = to_lower t"

definition strip_prefix :: "'a list \<Rightarrow> 'a list \<Rightarrow> 'a list option" where
  "strip_prefix p s = (if take (length p) s = p then Some (drop (length p) s) else None)"

definition strip_suffix :: "'a list \<Rightarrow> 'a list \<Rightarrow> 'a list option" where
  "strip_suffix p s = map_option rev (strip_prefix (rev p) (rev s))"

definition starts_with :: "'a list \<Rightarrow> 'a list \<Rightarrow> bool" where
  "starts_with p s \<longleftrightarrow> take (length p) s = p"

definition or_else :: "'a \<Rightarrow> 'a option \<Rightarrow> 'a" where
  "or_else d m = (case m of None \<Rightarrow> d | Some a \<Rightarrow> a)"

lemma or_else_simps [simp]: "or_else d None = d" "or_else d (Some a) = a"
  by (simp_all add: or_else_def)

lemma strip_prefix_Some [str_simps]: "strip_prefix p s = Some t \<longleftrightarrow> s = p @ t"
proof -
  have "take (length p) s = p \<Longrightarrow> s = p @ drop (length p) s"
    by (metis append_take_drop_id)
  then show ?thesis by (auto simp: strip_prefix_def)
qed

lemma strip_prefix_None [str_simps]: "strip_prefix p s = None \<longleftrightarrow> (\<forall>t. s \<noteq> p @ t)"
  by (metis strip_prefix_Some not_None_eq)

lemma strip_prefix_append [simp]: "strip_prefix p (p @ t) = Some t"
  by (simp add: strip_prefix_Some)

lemma strip_suffix_Some [str_simps]: "strip_suffix p s = Some t \<longleftrightarrow> s = t @ p"
proof -
  have "strip_suffix p s = Some t \<longleftrightarrow> strip_prefix (rev p) (rev s) = Some (rev t)"
    by (auto simp: strip_suffix_def)
  also have "\<dots> \<longleftrightarrow> rev s = rev p @ rev t" by (rule strip_prefix_Some)
  also have "\<dots> \<longleftrightarrow> s = t @ p" by (metis rev_append rev_rev_ident)
  finally show ?thesis .
qed

lemma starts_with_iff [str_simps]: "starts_with p s \<longleftrightarrow> (\<exists>t. s = p @ t)"
  by (metis starts_with_def append_eq_conv_conj append_take_drop_id)

text \<open>\<open>str::split_once(c)\<close> and \<open>str::split(c)\<close>\<close>

fun split_once :: "char \<Rightarrow> string \<Rightarrow> (string \<times> string) option" where
  "split_once c [] = None"
| "split_once c (x # xs) = (if x = c then Some ([], xs)
     else map_option (\<lambda>(a, b). (x # a, b)) (split_once c xs))"

lemma split_once_Some [str_simps]:
  "split_once c s = Some (a, b) \<longleftrightarrow> s = a @ c # b \<and> c \<notin> set a"
proof (induction s arbitrary: a)
  case (Cons x xs)
  then show ?case by (cases a) auto
qed simp

lemma split_once_None [str_simps]: "split_once c s = None \<longleftrightarrow> c \<notin> set s"
  by (induction s) auto

fun split_on :: "char \<Rightarrow> string \<Rightarrow> string list" where
  "split_on c [] = [[]]"
| "split_on c (x # xs) = (if x = c then [] # split_on c xs
     else (case split_on c xs of [] \<Rightarrow> [[x]] | y # ys \<Rightarrow> (x # y) # ys))"

lemma split_on_nonempty [simp]: "split_on c s \<noteq> []"
  by (induction s) (auto split: list.split)

text \<open>\<open>[&str]::join\<close>\<close>

fun join_with :: "'a list \<Rightarrow> 'a list list \<Rightarrow> 'a list" where
  "join_with sep [] = []"
| "join_with sep [x] = x"
| "join_with sep (x # y # ys) = x @ sep @ join_with sep (y # ys)"

lemma join_split_on: "join_with [c] (split_on c s) = s"
proof (induction s)
  case (Cons x xs)
  obtain y ys where "split_on c xs = y # ys" by (cases "split_on c xs") auto
  with Cons show ?case by (cases ys) auto
qed simp

text \<open>
  \<open>str::trim\<close>, on text without characters beyond ASCII (header values that passed
  \<open>HeaderValue::to_str\<close>).
\<close>

definition is_space :: "char \<Rightarrow> bool" where
  "is_space c \<longleftrightarrow> (of_char c :: nat) = 32 \<or> (9 \<le> (of_char c :: nat) \<and> (of_char c :: nat) \<le> 13)"

definition trim :: "string \<Rightarrow> string" where
  "trim s = rev (dropWhile is_space (rev (dropWhile is_space s)))"

section \<open>Decimal numbers\<close>

definition digit_char :: "nat \<Rightarrow> char" where
  "digit_char d = char_of (48 + d)"

fun decimal :: "nat \<Rightarrow> string" where
  "decimal n = (if n < 10 then [digit_char n] else decimal (n div 10) @ [digit_char (n mod 10)])"

declare decimal.simps [simp del]

definition digit_val :: "char \<Rightarrow> nat" where
  "digit_val c = of_char c - 48"

definition digits_val :: "string \<Rightarrow> nat" where
  "digits_val s = foldl (\<lambda>n c. 10 * n + digit_val c) 0 s"

text \<open>\<open>str::parse::<u64>\<close> (and \<open>usize\<close> on a 64-bit target): an optional plus sign, then digits.\<close>

definition parse_u64 :: "string \<Rightarrow> nat option" where
  "parse_u64 s = (let ds = (case s of c # t \<Rightarrow> (if c = CHR ''+'' then t else s) | [] \<Rightarrow> s)
     in if ds \<noteq> [] \<and> list_all is_digit ds \<and> digits_val ds < 2 ^ 64 then Some (digits_val ds) else None)"

lemma digit_char_props [simp]:
  "d < 10 \<Longrightarrow> is_digit (digit_char d)"
  "d < 10 \<Longrightarrow> digit_val (digit_char d) = d"
  by (simp_all add: is_digit_def digit_char_def digit_val_def of_char_of)

lemma decimal_digits: "list_all is_digit (decimal n) \<and> decimal n \<noteq> []"
proof (induction n rule: decimal.induct)
  case (1 n)
  then show ?case by (subst (1 2) decimal.simps) simp
qed

lemma digits_val_snoc: "digits_val (s @ [c]) = 10 * digits_val s + digit_val c"
  by (simp add: digits_val_def)

lemma digits_val_decimal [simp]: "digits_val (decimal n) = n"
proof (induction n rule: decimal.induct)
  case (1 n)
  show ?case
  proof (cases "n < 10")
    case True
    then show ?thesis by (subst decimal.simps) (simp add: digits_val_def)
  next
    case False
    then have "digits_val (decimal n) = 10 * (n div 10) + n mod 10"
      using "1" by (subst decimal.simps) (simp add: digits_val_snoc)
    then show ?thesis by simp
  qed
qed

lemma decimal_inject [simp]: "decimal m = decimal n \<longleftrightarrow> m = n"
  by (metis digits_val_decimal)

lemma parse_u64_decimal [simp]: "n < 2 ^ 64 \<Longrightarrow> parse_u64 (decimal n) = Some n"
proof -
  assume "n < 2 ^ 64"
  have d: "list_all is_digit (decimal n)" "decimal n \<noteq> []" using decimal_digits by auto
  then obtain c t where ct: "decimal n = c # t" by (cases "decimal n") auto
  with d have "c \<noteq> CHR ''+''" by (auto simp: is_digit_def)
  then have "(case decimal n of c # t \<Rightarrow> (if c = CHR ''+'' then t else decimal n) | [] \<Rightarrow> decimal n) = decimal n"
    using ct by simp
  with d \<open>n < 2 ^ 64\<close> show ?thesis by (simp add: parse_u64_def)
qed

section \<open>Little-endian words\<close>

definition to_le_bytes32 :: "32 word \<Rightarrow> bytes" where
  "to_le_bytes32 w = [ucast w, ucast (drop_bit 8 w), ucast (drop_bit 16 w), ucast (drop_bit 24 w)]"

end
