(* ===== verification/Json.thy ===== *)
theory Json
  imports Prelude
begin

text \<open>
  The JSON value the sources exchange with \<open>serde_json\<close> (the public enum
  \<open>serde_json::Value\<close> and its accessors; numbers keep their decimal text, because
  \<open>Cargo.toml\<close> turns \<open>arbitrary_precision\<close> on), and the operations of code outside the
  repository as one record of functions. Parsing and printing, hexadecimal coding and
  hashing are never defined here: every definition that uses them takes the record.
\<close>

datatype json =
    JNull
  | JBool bool
  | JNum string
  | JStr string
  | JArr "json list"
  | JObj "(string \<times> json) list"

fun is_null :: "json \<Rightarrow> bool" where
  "is_null JNull = True"
| "is_null _ = False"

fun is_object :: "json \<Rightarrow> bool" where
  "is_object (JObj _) = True"
| "is_object _ = False"

fun is_array :: "json \<Rightarrow> bool" where
  "is_array (JArr _) = True"
| "is_array _ = False"

fun as_str :: "json \<Rightarrow> string option" where
  "as_str (JStr s) = Some s"
| "as_str _ = None"

fun as_array :: "json \<Rightarrow> json list option" where
  "as_array (JArr xs) = Some xs"
| "as_array _ = None"

fun as_object :: "json \<Rightarrow> (string \<times> json) list option" where
  "as_object (JObj kvs) = Some kvs"
| "as_object _ = None"

fun as_u64 :: "json \<Rightarrow> nat option" where
  "as_u64 (JNum t) = parse_u64 t"
| "as_u64 _ = None"

text \<open>\<open>Value::get(name)\<close>, \<open>Value::get_mut(name)\<close> with an update, and \<open>&value[name]\<close>.\<close>

fun jget :: "json \<Rightarrow> string \<Rightarrow> json option" where
  "jget (JObj kvs) k = map_of kvs k"
| "jget _ k = None"

fun assoc_set :: "'k \<Rightarrow> 'v \<Rightarrow> ('k \<times> 'v) list \<Rightarrow> ('k \<times> 'v) list" where
  "assoc_set k v [] = []"
| "assoc_set k v ((k', v') # kvs) = (if k = k' then (k', v) # kvs else (k', v') # assoc_set k v kvs)"

fun jset :: "json \<Rightarrow> string \<Rightarrow> json \<Rightarrow> json" where
  "jset (JObj kvs) k v = JObj (assoc_set k v kvs)"
| "jset j k v = j"

definition jindex :: "json \<Rightarrow> string \<Rightarrow> json" where
  "jindex j k = (case jget j k of None \<Rightarrow> JNull | Some v \<Rightarrow> v)"

lemma as_value_Some [str_simps]:
  "as_str j = Some s \<longleftrightarrow> j = JStr s"
  "as_array j = Some xs \<longleftrightarrow> j = JArr xs"
  "as_object j = Some kvs \<longleftrightarrow> j = JObj kvs"
  by (cases j; auto)+

lemma map_of_assoc_set:
  "map_of (assoc_set k v kvs) x = (if x = k \<and> map_of kvs k \<noteq> None then Some v else map_of kvs x)"
  by (induction k v kvs rule: assoc_set.induct) auto

lemma assoc_set_keys [simp]: "map fst (assoc_set k v kvs) = map fst kvs"
  by (induction k v kvs rule: assoc_set.induct) auto

lemma jget_jset:
  "jget (jset j k v) x = (if x = k \<and> jget j k \<noteq> None then Some v else jget j x)"
  by (cases j) (simp_all add: map_of_assoc_set)

lemma jget_jset_other [simp]: "x \<noteq> k \<Longrightarrow> jget (jset j k v) x = jget j x"
  by (simp add: jget_jset)

lemma jget_Some_object: "jget j k = Some v \<Longrightarrow> is_object j"
  by (cases j) simp_all

lemma is_object_jset [simp]: "is_object (jset j k v) = is_object j"
  by (cases j) simp_all

lemma size_map_of: "map_of kvs k = Some v \<Longrightarrow> size v < Suc (size_list (size_prod (\<lambda>_. 0) size) kvs)"
  by (induction kvs) (auto split: if_splits)

lemma size_jget: "jget j k = Some v \<Longrightarrow> size v < size j"
  using size_map_of by (cases j) auto

section \<open>Operations of code outside the repository\<close>

text \<open>
  \<open>hex::decode\<close> and \<open>hex::encode\<close>; the digests of \<open>sha2\<close> and \<open>sha3\<close>;
  \<open>serde_json::from_slice::<Value>\<close> (and \<open>from_str\<close>, on the bytes of the text) and
  \<open>Value::to_string\<close>.
\<close>

record prims =
  hex_decode :: "string \<Rightarrow> bytes option"
  hex_encode :: "bytes \<Rightarrow> string"
  sha256_digest :: "bytes \<Rightarrow> bytes"
  sha384_digest :: "bytes \<Rightarrow> bytes"
  keccak256_digest :: "bytes \<Rightarrow> bytes"
  json_parse :: "bytes \<Rightarrow> json option"
  json_print :: "json \<Rightarrow> string"

text \<open>
  What the code relies on: fixed digest lengths, a hexadecimal codec that round-trips,
  and a JSON printer whose output parses back.
\<close>

definition digest_lengths :: "'z prims_scheme \<Rightarrow> bool" where
  "digest_lengths P \<longleftrightarrow> (\<forall>x. length (sha256_digest P x) = 32) \<and> (\<forall>x. length (sha384_digest P x) = 48)
     \<and> (\<forall>x. length (keccak256_digest P x) = 32)"

definition hex_roundtrip :: "'z prims_scheme \<Rightarrow> bool" where
  "hex_roundtrip P \<longleftrightarrow> (\<forall>b. hex_decode P (hex_encode P b) = Some b)"

definition json_roundtrip :: "'z prims_scheme \<Rightarrow> bool" where
  "json_roundtrip P \<longleftrightarrow> (\<forall>j. json_parse P (as_bytes (json_print P j)) = Some j)"

lemma digest_lengthsD:
  "digest_lengths P \<Longrightarrow> length (sha256_digest P x) = 32"
  "digest_lengths P \<Longrightarrow> length (sha384_digest P x) = 48"
  "digest_lengths P \<Longrightarrow> length (keccak256_digest P x) = 32"
  by (simp_all add: digest_lengths_def)

lemma hex_encode_inject: "hex_roundtrip P \<Longrightarrow> hex_encode P a = hex_encode P b \<longleftrightarrow> a = b"
  by (metis hex_roundtrip_def option.inject)

section \<open>Hexadecimal input (\<open>util.rs\<close>)\<close>

text \<open>A \<open>Result<Vec<u8>, ()>\<close> carries no error value and is an option.\<close>

definition decode_hex :: "'z prims_scheme \<Rightarrow> string \<Rightarrow> bytes option" where
  "decode_hex P value =
     (let normalized = (case strip_prefix ''0x'' value of Some t \<Rightarrow> t
        | None \<Rightarrow> or_else value (strip_prefix ''0X'' value))
      in hex_decode P normalized)"

definition require_hex_length :: "'z prims_scheme \<Rightarrow> string \<Rightarrow> nat \<Rightarrow> bytes option" where
  "require_hex_length P value n =
     (case decode_hex P value of None \<Rightarrow> None
      | Some bytes \<Rightarrow> if length bytes \<noteq> n then None else Some bytes)"

definition sha256 :: "'z prims_scheme \<Rightarrow> bytes \<Rightarrow> bytes" where
  "sha256 P value = sha256_digest P value"

definition sha384 :: "'z prims_scheme \<Rightarrow> bytes \<Rightarrow> bytes" where
  "sha384 P value = sha384_digest P value"

lemma require_hex_length_Some [str_simps]:
  "require_hex_length P s n = Some b \<longleftrightarrow> decode_hex P s = Some b \<and> length b = n"
  by (auto simp: require_hex_length_def split: option.splits)

end
