(* ===== verification/Types.thy ===== *)
theory Types
  imports Json
begin

text \<open>
  The data of \<open>types.rs\<close> and \<open>compose_manager.rs\<close>, constructor by constructor and field
  by field. Trait objects the caller may supply (\<open>TdxQuoteVerifier\<close>,
  \<open>GpuEvidenceVerifier\<close>, \<open>DeploymentVerifier\<close>) are functions and appear where they are used.
\<close>

datatype signing_algo = Ecdsa | Ed25519

definition signing_algo_name :: "signing_algo \<Rightarrow> string" where
  "signing_algo_name a = (case a of Ecdsa \<Rightarrow> ''ecdsa'' | Ed25519 \<Rightarrow> ''ed25519'')"

record signing_identity =
  si_algo :: signing_algo
  si_address :: string

record image_provenance_policy =
  ip_repository :: string
  ip_workflow :: string
  ip_git_ref :: "string option"
  ip_commit :: "string option"
  ip_issuer :: string

definition default_image_provenance_issuer :: string where
  "default_image_provenance_issuer = ''https://token.actions.githubusercontent.com''"

definition image_provenance_policy_new :: "string \<Rightarrow> string \<Rightarrow> image_provenance_policy" where
  "image_provenance_policy_new repository workflow =
     \<lparr>ip_repository = repository, ip_workflow = workflow, ip_git_ref = None, ip_commit = None,
      ip_issuer = default_image_provenance_issuer\<rparr>"

record verified_image_provenance =
  vip_digest :: string
  vip_repository :: string
  vip_workflow :: string
  vip_git_ref :: string
  vip_commit :: string
  vip_certificate_identity :: string
  vip_issuer :: string
  vip_predicate_type :: string

datatype image_provenance_failure_reason =
    NoAttestations | InvalidBundle | UntrustedIdentity | InvalidStatement
  | DigestMismatch | SourceMismatch | CommitMismatch | TrustRootUnavailable

datatype deployment_images_failure_reason =
    EmptyPolicy | InvalidAppCompose | InvalidDockerCompose | UnresolvedImage
  | ImageMissing | ImageNotPinned | ServiceMissing

datatype attestation_event_log = Log_Json string | Log_Entries "json list"

record attestation_evidence =
  ev_nonce :: string
  ev_signer :: signing_identity
  ev_intel_quote :: string
  ev_event_log :: attestation_event_log
  ev_app_compose :: string

section \<open>Compose Manager actions\<close>

datatype action_value = Action_String string | Action_Strings "string list"

record compose_manager_action =
  cma_action :: string
  cma_timestamp :: string
  cma_commit :: "string option"
  cma_file :: "string option"
  cma_file_sha256 :: "string option"
  cma_image :: "string option"
  cma_services :: "string list option"
  cma_extra :: "(string \<times> action_value) list"

record compose_manager_attestation =
  cm_actions :: "compose_manager_action list"
  cm_actions_hash :: string
  cm_nonce :: string
  cm_intel_quote :: string
  cm_event_log :: attestation_event_log
  cm_reported_quote_data :: "string option"

section \<open>Reports\<close>

record model_attestation =
  ma_signing_public_key :: "string option"
  ma_compose_manager :: "compose_manager_attestation option"
  ma_evidence :: attestation_evidence
  ma_reported_quote_data :: "string option"
  ma_nvidia_payload :: "string option"

record gateway_attestation =
  ga_evidence :: attestation_evidence
  ga_spki_fingerprint :: "string option"
  ga_reported_quote_data :: string

datatype tcb_status =
    UpToDate | SwHardeningNeeded | ConfigurationNeeded | ConfigurationAndSwHardeningNeeded
  | OutOfDate | OutOfDateConfigurationNeeded | TdRelaunchAdvised
  | TdRelaunchAdvisedConfigurationNeeded | Revoked | Unknown

record tdx_quote =
  q_tcb_status :: tcb_status
  q_advisory_ids :: "string list"
  q_debug_enabled :: bool
  q_report_data :: bytes
  q_mr_config_id :: bytes
  q_rt_mr3 :: bytes

record attestation_policy =
  accepted_tcb_statuses :: "tcb_status list option"

datatype gpu_evidence_requirement = IfPresent | Required

record model_attestation_policy =
  mp_accepted_tcb_statuses :: "tcb_status list option"
  mp_gpu_evidence :: gpu_evidence_requirement

record runtime_measurements =
  os_image_hash :: "string option"
  compose_hash :: "string option"

record verified_compose_manager =
  vcm_actions :: "compose_manager_action list"
  vcm_tcb_status :: tcb_status
  vcm_advisory_ids :: "string list"
  vcm_runtime_measurements :: runtime_measurements

record measured_deployment =
  md_compose_manager :: "verified_compose_manager option"
  md_app_compose :: string
  md_runtime_measurements :: runtime_measurements

datatype deployment_provenance_status = NotChecked | Provenance_Verified

record verified_evidence =
  ve_signer :: signing_identity
  ve_tcb_status :: tcb_status
  ve_advisory_ids :: "string list"
  ve_deployment :: measured_deployment
  ve_deployment_provenance :: deployment_provenance_status

datatype gateway_tls_binding = No_Tls_Binding | Attested (attested_fingerprint: string)

datatype gpu_evidence_status = NotProvided | Gpu_Verified

record verified_model_attestation =
  vm_signing_public_key :: "string option"
  vm_evidence :: verified_evidence
  vm_gpu_evidence :: gpu_evidence_status

record verified_gateway_attestation =
  vg_evidence :: verified_evidence
  vg_tls_binding :: gateway_tls_binding

datatype completion_signature_kind = ProviderTee | Gateway

record completion_signature =
  cs_kind :: completion_signature_kind
  cs_signed_text :: string
  cs_signature :: string
  cs_signer :: signing_identity

section \<open>Client bindings\<close>

record model_client_binding =
  mcb_nonce :: string

record gateway_client_binding =
  gcb_nonce :: string
  gcb_spki_fingerprint :: "string option"

record fetched_model_attestations =
  fm_attestations :: "model_attestation list"
  fm_client_binding :: model_client_binding

record gateway_fetch_options =
  gfo_signing_algo :: "signing_algo option"
  gfo_include_spki_fingerprint :: bool

definition default_gateway_fetch_options :: gateway_fetch_options where
  "default_gateway_fetch_options =
     \<lparr>gfo_signing_algo = None, gfo_include_spki_fingerprint = True\<rparr>"

record ohttp_attestation =
  oa_signing_algo :: signing_algo
  oa_signing_key :: string
  oa_key_config :: string
  oa_signature :: string

record fetched_gateway_attestation =
  fg_ohttp_attestation :: "ohttp_attestation option"
  fg_attestation :: gateway_attestation
  fg_client_binding :: gateway_client_binding

record model_metadata =
  provider_type :: string
  attestation_supported :: bool

end
