(* ===== verification/Errors.thy ===== *)
theory Errors
  imports Types
begin

text \<open>
  \<open>errors.rs\<close>: the three error enums, their stable codes and their retry classification.
  Variants two enums share carry the enum as a prefix.
\<close>

datatype api_resource =
    Res_ModelAttestation | Res_ModelMetadata | Res_Completion | Res_SystemOne | Res_Ohttp
  | Res_GatewayAttestation | Res_CompletionSignature | Res_ImageProvenance

datatype api_transport_reason = Request | ResponseBody

type_synonym u16 = "16 word"

datatype api_error =
    CompletionNotFound
  | DuplicateCompletionId
  | Api_InvalidInput string string "string option" "string option"
  | Transport api_resource api_transport_reason
  | HttpStatus api_resource u16
  | InvalidJson api_resource
  | BodyTooLarge api_resource
  | InvalidResponse string string string
  | Api_NonceMismatch api_resource
  | ModelAttestationSignerNotFound
  | AmbiguousModelAttestationSigner nat nat
  | CompletionSignatureUnavailable string string

fun api_code :: "api_error \<Rightarrow> string" where
  "api_code CompletionNotFound = ''api.completion_not_found''"
| "api_code DuplicateCompletionId = ''api.duplicate_completion_id''"
| "api_code (Api_InvalidInput _ _ _ _) = ''api.invalid_input''"
| "api_code (Transport _ _) = ''api.transport_failed''"
| "api_code (HttpStatus _ _) = ''api.http_status''"
| "api_code (InvalidJson _) = ''api.invalid_json''"
| "api_code (BodyTooLarge _) = ''api.body_too_large''"
| "api_code (InvalidResponse _ _ _) = ''api.invalid_response''"
| "api_code (Api_NonceMismatch _) = ''api.nonce_mismatch''"
| "api_code ModelAttestationSignerNotFound = ''api.model_attestation_signer_not_found''"
| "api_code (AmbiguousModelAttestationSigner _ _) = ''api.ambiguous_model_attestation_signer''"
| "api_code (CompletionSignatureUnavailable _ _) = ''api.completion_signature_unavailable''"

fun api_retryable :: "api_error \<Rightarrow> bool" where
  "api_retryable (Transport resource _) = (resource \<noteq> Res_SystemOne)"
| "api_retryable (HttpStatus resource status) =
     (resource \<noteq> Res_SystemOne \<and>
      ((resource = Res_CompletionSignature \<and> status = 404) \<or> status = 408 \<or> status = 425
       \<or> status = 429 \<or> 500 \<le> status))"
| "api_retryable _ = False"

datatype verification_error =
    Protocol string string
  | Ver_InvalidInput string string
  | QuoteCollateralUnavailable
  | QuoteVerificationFailed string
  | QuoteInvalidResult string
  | QuoteUnsupportedReportType
  | DebugEnabled
  | TcbStatusNotAllowed tcb_status "tcb_status list" "string list"
  | GpuEvidenceRequired
  | SpkiFingerprintRequired
  | Ver_NonceMismatch string
  | ReportDataInvalid string
  | ReportDataMismatch string
  | SpkiFingerprintMismatch
  | EventLogInvalid string string
  | Rtmr3Mismatch string
  | MrConfigIdInvalid string
  | AppComposeMrConfigIdMismatch
  | GpuPayloadInvalid string
  | NrasRequestFailed string "u16 option" bool
  | NrasResponseInvalid string
  | NvidiaJwksRequestFailed string "u16 option" bool
  | NvidiaJwtVerificationFailed string
  | GpuAttestationRejected string
  | DeploymentProvenanceRejected
  | ComposeManagerActionsMismatch
  | ComposeManagerDeploymentInvalid string
  | ComposeFileRequestFailed string string string "u16 option" bool
  | ComposeFileHashMismatch string string string
  | ImageProvenanceVerificationFailed string "image_provenance_failure_reason list"
  | DeploymentImagesInvalid deployment_images_failure_reason "string option" "string option"
  | ImageProvenanceRequestFailed string string api_error
  | SignatureKindMismatch completion_signature_kind completion_signature_kind
  | SignaturePayloadMismatch string
  | SignatureFormatInvalid string string
  | SignatureInvalid signing_algo
  | SignatureSignerMismatch

fun ver_code :: "verification_error \<Rightarrow> string" where
  "ver_code (Protocol code _) = code"
| "ver_code (Ver_InvalidInput _ _) = ''input.invalid''"
| "ver_code QuoteCollateralUnavailable = ''quote.collateral_unavailable''"
| "ver_code (QuoteVerificationFailed _) = ''quote.verification_failed''"
| "ver_code (QuoteInvalidResult _) = ''quote.invalid_result''"
| "ver_code QuoteUnsupportedReportType = ''quote.unsupported_report_type''"
| "ver_code DebugEnabled = ''policy.debug_enabled''"
| "ver_code (TcbStatusNotAllowed _ _ _) = ''policy.tcb_status_not_allowed''"
| "ver_code GpuEvidenceRequired = ''policy.gpu_evidence_required''"
| "ver_code SpkiFingerprintRequired = ''binding.spki_fingerprint_required''"
| "ver_code (Ver_NonceMismatch _) = ''binding.nonce_mismatch''"
| "ver_code (ReportDataInvalid _) = ''binding.report_data_invalid''"
| "ver_code (ReportDataMismatch _) = ''binding.report_data_mismatch''"
| "ver_code SpkiFingerprintMismatch = ''binding.spki_fingerprint_mismatch''"
| "ver_code (EventLogInvalid _ _) = ''measurement.event_log_invalid''"
| "ver_code (Rtmr3Mismatch _) = ''measurement.rtmr3_mismatch''"
| "ver_code (MrConfigIdInvalid _) = ''measurement.mrconfigid_invalid''"
| "ver_code AppComposeMrConfigIdMismatch = ''measurement.app_compose_mrconfigid_mismatch''"
| "ver_code (GpuPayloadInvalid _) = ''gpu.payload_invalid''"
| "ver_code (NrasRequestFailed _ _ _) = ''gpu.nras_request_failed''"
| "ver_code (NrasResponseInvalid _) = ''gpu.nras_response_invalid''"
| "ver_code (NvidiaJwksRequestFailed _ _ _) = ''gpu.jwks_request_failed''"
| "ver_code (NvidiaJwtVerificationFailed _) = ''gpu.jwt_verification_failed''"
| "ver_code (GpuAttestationRejected _) = ''gpu.attestation_rejected''"
| "ver_code DeploymentProvenanceRejected = ''provenance.verification_failed''"
| "ver_code ComposeManagerActionsMismatch = ''binding.compose_manager_actions_mismatch''"
| "ver_code (ComposeManagerDeploymentInvalid _) = ''provenance.compose_manager_deployment_invalid''"
| "ver_code (ComposeFileRequestFailed _ _ _ _ _) = ''provenance.compose_file_request_failed''"
| "ver_code (ComposeFileHashMismatch _ _ _) = ''provenance.compose_file_hash_mismatch''"
| "ver_code (ImageProvenanceVerificationFailed _ _) = ''provenance.image_verification_failed''"
| "ver_code (DeploymentImagesInvalid _ _ _) = ''provenance.deployment_images_invalid''"
| "ver_code (ImageProvenanceRequestFailed _ _ _) = ''provenance.image_request_failed''"
| "ver_code (SignatureKindMismatch _ _) = ''signature.kind_mismatch''"
| "ver_code (SignaturePayloadMismatch _) = ''signature.payload_mismatch''"
| "ver_code (SignatureFormatInvalid _ _) = ''signature.format_invalid''"
| "ver_code (SignatureInvalid _) = ''signature.invalid''"
| "ver_code SignatureSignerMismatch = ''signature.signer_mismatch''"

fun ver_retryable :: "verification_error \<Rightarrow> bool" where
  "ver_retryable QuoteCollateralUnavailable = True"
| "ver_retryable (ComposeFileRequestFailed _ _ _ _ retryable) = retryable"
| "ver_retryable (NrasRequestFailed _ _ retryable) = retryable"
| "ver_retryable (NvidiaJwksRequestFailed _ _ retryable) = retryable"
| "ver_retryable (ImageProvenanceRequestFailed _ _ source) = api_retryable source"
| "ver_retryable _ = False"

datatype inference_error = Api api_error | Verification verification_error

fun inf_code :: "inference_error \<Rightarrow> string" where
  "inf_code (Api e) = api_code e"
| "inf_code (Verification e) = ver_code e"

fun inf_retryable :: "inference_error \<Rightarrow> bool" where
  "inf_retryable (Api e) = api_retryable e"
| "inf_retryable (Verification e) = ver_retryable e"

definition protocol :: "string \<Rightarrow> string \<Rightarrow> verification_error" where
  "protocol code reason = Protocol code reason"

type_synonym 'a ver = "(verification_error, 'a) outcome"
type_synonym 'a api = "(api_error, 'a) outcome"
type_synonym 'a inf = "(inference_error, 'a) outcome"

text \<open>\<open>#[from]\<close>: the \<open>?\<close> operator lifts either stage's error into \<open>InferenceError\<close>.\<close>

definition lift_api :: "'a api \<Rightarrow> 'a inf" where
  "lift_api m = map_err Api m"

definition lift_ver :: "'a ver \<Rightarrow> 'a inf" where
  "lift_ver m = map_err Verification m"

lemma lift_simps [simp]:
  "lift_api (Inr a) = Inr a" "lift_api (fail e) = fail (Api e)" "lift_api (panic w) = panic w"
  "lift_ver (Inr a) = Inr a" "lift_ver (fail v) = fail (Verification v)" "lift_ver (panic w) = panic w"
  by (simp_all add: lift_api_def lift_ver_def)

lemma lift_eq_Inr [outcome_simps]:
  "lift_api m = Inr a \<longleftrightarrow> m = Inr a"
  "lift_ver n = Inr b \<longleftrightarrow> n = Inr b"
  by (simp_all add: lift_api_def lift_ver_def outcome_simps)

lemma panics_lift [simp]: "panics (lift_api m) = panics m" "panics (lift_ver n) = panics n"
  by (simp_all add: lift_api_def lift_ver_def)

section \<open>Retryable errors are transport or status failures\<close>

definition resource_of :: "api_error \<Rightarrow> api_resource option" where
  "resource_of e = (case e of Transport r _ \<Rightarrow> Some r | HttpStatus r _ \<Rightarrow> Some r | InvalidJson r \<Rightarrow> Some r
     | BodyTooLarge r \<Rightarrow> Some r | Api_NonceMismatch r \<Rightarrow> Some r | _ \<Rightarrow> None)"

lemma api_retryable_resource: "api_retryable e \<Longrightarrow> \<exists>r. resource_of e = Some r \<and> r \<noteq> Res_SystemOne"
  by (cases e) (auto simp: resource_of_def)

lemma api_code_not_signature_unavailable:
  "api_code e = ''api.completion_signature_unavailable'' \<longleftrightarrow> (\<exists>a b. e = CompletionSignatureUnavailable a b)"
  by (cases e) auto

end
