(* ===== verification/Instances.thy ===== *)
theory Instances
  imports Json
begin

text \<open>
  One concrete instance of the external operations, on which the witnesses evaluate the
  model: the real hexadecimal codec, a self-delimiting text form of JSON values with its
  parser, and digests of the right lengths (the input's bytes, cut or padded). The lemmas
  show that it satisfies the hypotheses the properties state about these operations.
\<close>

section \<open>Hexadecimal\<close>

definition nibble_char :: "nat \<Rightarrow> char" where
  "nibble_char n = char_of (if n < 10 then 48 + n else 87 + n)"

definition nibble_val :: "char \<Rightarrow> nat option" where
  "nibble_val c = (let n = of_char c in
     if 48 \<le> n \<and> n \<le> 57 then Some (n - 48)
     else if 97 \<le> n \<and> n \<le> 102 then Some (n - 87)
     else if 65 \<le> n \<and> n \<le> 70 then Some (n - 55)
     else None)"

fun demo_hex_encode :: "bytes \<Rightarrow> string" where
  "demo_hex_encode [] = []"
| "demo_hex_encode (b # bs) = nibble_char (unat b div 16) # nibble_char (unat b mod 16) # demo_hex_encode bs"

fun demo_hex_decode :: "string \<Rightarrow> bytes option" where
  "demo_hex_decode [] = Some []"
| "demo_hex_decode [_] = None"
| "demo_hex_decode (c # d # cs) =
     (case (nibble_val c, nibble_val d, demo_hex_decode cs) of
        (Some h, Some l, Some bs) \<Rightarrow> Some (of_nat (16 * h + l) # bs)
      | _ \<Rightarrow> None)"

lemma nibble_val_char: "n < 16 \<Longrightarrow> nibble_val (nibble_char n) = Some n"
  by (simp add: nibble_val_def nibble_char_def of_char_of Let_def)

lemma nibble_char_hexdigit: "n < 16 \<Longrightarrow> is_hexdigit (nibble_char n)"
  by (simp add: nibble_char_def is_hexdigit_def is_digit_def of_char_of)

lemma unat_byte_less: "unat (b :: byte) < 256"
  using unsigned_less [of b, where 'a = nat] by simp

lemma demo_hex_roundtrip: "demo_hex_decode (demo_hex_encode bs) = Some bs"
proof (induction bs)
  case (Cons b bs)
  have "unat b div 16 < 16" using unat_byte_less [of b] by simp
  with Cons show ?case by (simp add: nibble_val_char)
qed simp

lemma demo_hex_format: "length (demo_hex_encode bs) = 2 * length bs \<and> list_all is_hexdigit (demo_hex_encode bs)"
proof (induction bs)
  case (Cons b bs)
  have "unat b div 16 < 16" using unat_byte_less [of b] by simp
  with Cons show ?case by (simp add: nibble_char_hexdigit)
qed simp

section \<open>A text form of JSON values\<close>

fun put_str :: "string \<Rightarrow> string" where
  "put_str [] = ''.''"
| "put_str (c # cs) = CHR '','' # c # put_str cs"

fun put_json :: "json \<Rightarrow> string" where
  "put_json JNull = ''n''"
| "put_json (JBool b) = (if b then ''t'' else ''f'')"
| "put_json (JNum s) = CHR ''#'' # put_str s"
| "put_json (JStr s) = CHR ''s'' # put_str s"
| "put_json (JArr xs) = CHR ''a'' # concat (map (\<lambda>x. CHR ''i'' # put_json x) xs) @ ''.''"
| "put_json (JObj kvs) = CHR ''o'' # concat (map (\<lambda>(k, v). CHR ''i'' # put_str k @ put_json v) kvs) @ ''.''"

fun get_str :: "string \<Rightarrow> (string \<times> string) option" where
  "get_str (a # cs) =
     (if a = CHR ''.'' then Some ([], cs)
      else if a = CHR '','' then
        (case cs of c # ds \<Rightarrow> map_option (\<lambda>(s, r). (c # s, r)) (get_str ds) | [] \<Rightarrow> None)
      else None)"
| "get_str [] = None"

text \<open>The parser takes fuel; the length of the text is enough.\<close>

fun get_json :: "nat \<Rightarrow> string \<Rightarrow> (json \<times> string) option"
and get_items :: "nat \<Rightarrow> string \<Rightarrow> (json list \<times> string) option"
and get_members :: "nat \<Rightarrow> string \<Rightarrow> ((string \<times> json) list \<times> string) option" where
  "get_json fuel s =
     (case fuel of 0 \<Rightarrow> None | Suc n \<Rightarrow> (case s of [] \<Rightarrow> None | c # cs \<Rightarrow>
      if c = CHR ''n'' then Some (JNull, cs)
      else if c = CHR ''t'' then Some (JBool True, cs)
      else if c = CHR ''f'' then Some (JBool False, cs)
      else if c = CHR ''#'' then map_option (\<lambda>(s, r). (JNum s, r)) (get_str cs)
      else if c = CHR ''s'' then map_option (\<lambda>(s, r). (JStr s, r)) (get_str cs)
      else if c = CHR ''a'' then map_option (\<lambda>(xs, r). (JArr xs, r)) (get_items n cs)
      else if c = CHR ''o'' then map_option (\<lambda>(kvs, r). (JObj kvs, r)) (get_members n cs)
      else None))"
| "get_items fuel s =
     (case fuel of 0 \<Rightarrow> None | Suc n \<Rightarrow> (case s of [] \<Rightarrow> None | c # cs \<Rightarrow>
      if c = CHR ''.'' then Some ([], cs)
      else if c = CHR ''i'' then
        (case get_json n cs of
           Some (x, r) \<Rightarrow> map_option (\<lambda>(xs, r'). (x # xs, r')) (get_items n r)
         | None \<Rightarrow> None)
      else None))"
| "get_members fuel s =
     (case fuel of 0 \<Rightarrow> None | Suc n \<Rightarrow> (case s of [] \<Rightarrow> None | c # cs \<Rightarrow>
      if c = CHR ''.'' then Some ([], cs)
      else if c = CHR ''i'' then
        (case get_str cs of
           Some (k, r) \<Rightarrow>
             (case get_json n r of
                Some (x, r') \<Rightarrow> map_option (\<lambda>(kvs, r''). ((k, x) # kvs, r'')) (get_members n r')
              | None \<Rightarrow> None)
         | None \<Rightarrow> None)
      else None))"

definition demo_json_parse :: "bytes \<Rightarrow> json option" where
  "demo_json_parse bs =
     (case get_json (Suc (length bs)) (map char_at bs) of Some (j, []) \<Rightarrow> Some j | _ \<Rightarrow> None)"

lemma get_put_str: "get_str (put_str s @ r) = Some (s, r)"
  by (induction s) simp_all

lemma put_json_nonempty: "0 < length (put_json j)"
  by (cases j) simp_all

lemma get_put_items:
  assumes "\<And>x n r. x \<in> set xs \<Longrightarrow> length (put_json x) \<le> n \<Longrightarrow> get_json n (put_json x @ r) = Some (x, r)"
    and "length (concat (map (\<lambda>x. CHR ''i'' # put_json x) xs)) < n"
  shows "get_items n (concat (map (\<lambda>x. CHR ''i'' # put_json x) xs) @ ''.'' @ r) = Some (xs, r)"
  using assms
proof (induction xs arbitrary: n)
  case Nil
  then show ?case by (cases n) simp_all
next
  case (Cons x xs)
  then obtain m where n: "n = Suc m" by (cases n) auto
  have "get_json m (put_json x @ concat (map (\<lambda>x. CHR ''i'' # put_json x) xs) @ ''.'' @ r)
      = Some (x, concat (map (\<lambda>x. CHR ''i'' # put_json x) xs) @ ''.'' @ r)"
    using Cons.prems(1) [of x m] Cons.prems(2) n by simp
  moreover have "get_items m (concat (map (\<lambda>x. CHR ''i'' # put_json x) xs) @ ''.'' @ r) = Some (xs, r)"
    using Cons.IH [of m] Cons.prems n by simp
  ultimately show ?case using n by simp
qed

lemma get_put_members:
  assumes "\<And>k x n r. (k, x) \<in> set kvs \<Longrightarrow> length (put_json x) \<le> n \<Longrightarrow> get_json n (put_json x @ r) = Some (x, r)"
    and "length (concat (map (\<lambda>(k, v). CHR ''i'' # put_str k @ put_json v) kvs)) < n"
  shows "get_members n (concat (map (\<lambda>(k, v). CHR ''i'' # put_str k @ put_json v) kvs) @ ''.'' @ r) = Some (kvs, r)"
  using assms
proof (induction kvs arbitrary: n)
  case Nil
  then show ?case by (cases n) simp_all
next
  case (Cons kv kvs)
  obtain k x where kv: "kv = (k, x)" by fastforce
  from Cons.prems obtain m where n: "n = Suc m" by (cases n) auto
  let ?rest = "concat (map (\<lambda>(k, v). CHR ''i'' # put_str k @ put_json v) kvs) @ ''.'' @ r"
  have "get_json m (put_json x @ ?rest) = Some (x, ?rest)"
    using Cons.prems(1) [of k x m] Cons.prems(2) n kv by simp
  moreover have "get_members m ?rest = Some (kvs, r)"
    using Cons.IH [of m] Cons.prems n kv by fastforce
  ultimately show ?case using n kv by (simp add: get_put_str)
qed

lemma get_put_json: "length (put_json j) \<le> n \<Longrightarrow> get_json n (put_json j @ r) = Some (j, r)"
proof (induction j arbitrary: n r)
  case (JArr xs)
  then obtain m where "n = Suc m" by (cases n) auto
  with JArr show ?case using get_put_items [of xs m r] by simp
next
  case (JObj kvs)
  then obtain m where n: "n = Suc m" by (cases n) auto
  have "get_json n' (put_json x @ r') = Some (x, r')"
    if "(k, x) \<in> set kvs" "length (put_json x) \<le> n'" for k x n' r'
    using JObj.IH [OF that(1), of x] that(2) by simp
  with JObj.prems n show ?case using get_put_members [of kvs m r] by simp
next
  case JNull
  then show ?case by (cases n) simp_all
next
  case (JBool b)
  then show ?case by (cases n; cases b) simp_all
next
  case (JNum t)
  then show ?case by (cases n) (simp_all add: get_put_str)
next
  case (JStr t)
  then show ?case by (cases n) (simp_all add: get_put_str)
qed

declare get_json.simps [simp del] get_items.simps [simp del] get_members.simps [simp del]

lemma demo_json_roundtrip: "demo_json_parse (as_bytes (put_json j)) = Some j"
proof -
  have "map char_at (as_bytes (put_json j)) = put_json j" by (simp add: as_bytes_def map_idI)
  with get_put_json [of j "Suc (length (put_json j))" "[]"] show ?thesis by (simp add: demo_json_parse_def)
qed

section \<open>The instance\<close>

named_theorems demo_defs \<open>unfolding the instance and its extensions\<close>

definition demo_digest :: "nat \<Rightarrow> bytes \<Rightarrow> bytes" where
  "demo_digest n x = take n (rev x @ replicate n 1)"

definition demo_prims :: prims where
  "demo_prims = \<lparr>hex_decode = demo_hex_decode, hex_encode = demo_hex_encode,
     sha256_digest = demo_digest 32, sha384_digest = demo_digest 48, keccak256_digest = demo_digest 32,
     json_parse = demo_json_parse, json_print = put_json\<rparr>"

declare demo_prims_def [demo_defs] prims.defs [demo_defs]

lemma demo_digest_length: "length (demo_digest n x) = n"
  by (simp add: demo_digest_def)

lemma demo_laws: "digest_lengths demo_prims" "hex_roundtrip demo_prims" "json_roundtrip demo_prims"
  by (simp_all add: digest_lengths_def hex_roundtrip_def json_roundtrip_def demo_prims_def
      demo_digest_length demo_hex_roundtrip demo_json_roundtrip)

end
