(* ===== verification/Bindings.thy ===== *)
theory Bindings
  imports Errors Instances
begin

text \<open>
  \<open>bindings.rs\<close>: the comparisons that tie quote contents to the client's nonce, the signer,
  the TLS peer and the app compose file. Slices and \<open>copy_from_slice\<close> panic out of range,
  as in the source.
\<close>

definition nonce_reason :: string where
  "nonce_reason = ''expected a 32-byte hexadecimal nonce''"

definition verify_reported_nonce :: "'z prims_scheme \<Rightarrow> string \<Rightarrow> string \<Rightarrow> string \<Rightarrow> unit ver" where
  "verify_reported_nonce P reported_nonce nonce source =
     rbind (ok_or (Ver_InvalidInput ''nonce'' nonce_reason) (require_hex_length P nonce 32)) (\<lambda>expected.
     rbind (ok_or (Ver_InvalidInput
              (if source = ''nvidia_payload'' then ''nvidia_payload.nonce'' else ''attestation.nonce'')
              nonce_reason) (require_hex_length P reported_nonce 32)) (\<lambda>reported.
     ensure (expected = reported) (Ver_NonceMismatch source)))"

definition address_length :: "signing_algo \<Rightarrow> nat" where
  "address_length algo = (case algo of Ecdsa \<Rightarrow> 20 | Ed25519 \<Rightarrow> 32)"

definition validate_signing_identity :: "'z prims_scheme \<Rightarrow> signing_identity \<Rightarrow> signing_identity ver" where
  "validate_signing_identity P signer =
     (let expected_length = address_length (si_algo signer) in
      rbind (ok_or (Ver_InvalidInput ''attestation.signer.signing_address''
               (''expected a '' @ decimal expected_length @ ''-byte hexadecimal signing address''))
               (require_hex_length P (si_address signer) expected_length)) (\<lambda>_.
      Inr signer))"

definition verify_advertised_report_data :: "'z prims_scheme \<Rightarrow> string option \<Rightarrow> bytes \<Rightarrow> unit ver" where
  "verify_advertised_report_data P advertised_report_data quote_report_data =
     (case advertised_report_data of
        None \<Rightarrow> Inr ()
      | Some text \<Rightarrow>
          rbind (ok_or (ReportDataInvalid ''reported_quote_data'') (require_hex_length P text 64)) (\<lambda>advertised.
          ensure (advertised = quote_report_data) (ReportDataMismatch ''reported_quote_data'')))"

definition verify_quote_report_data_nonce :: "'z prims_scheme \<Rightarrow> bytes \<Rightarrow> string \<Rightarrow> unit ver" where
  "verify_quote_report_data_nonce P report_data nonce =
     rbind (ensure (length report_data = 64) (ReportDataInvalid ''quote_report_data'')) (\<lambda>_.
     rbind (ok_or (Ver_InvalidInput ''nonce'' nonce_reason) (require_hex_length P nonce 32)) (\<lambda>expected_nonce.
     rbind (subslice 32 64 report_data) (\<lambda>tail.
     ensure (tail = expected_nonce) (Ver_NonceMismatch ''quote_report_data''))))"

definition decode_signing_address :: "'z prims_scheme \<Rightarrow> string \<Rightarrow> bytes ver" where
  "decode_signing_address P value =
     ok_or (Ver_InvalidInput ''attestation.signer.signing_address'' ''expected hexadecimal signing address'')
       (decode_hex P value)"

text \<open>\<open>expected[..len].copy_from_slice(&address)\<close> on 32 zero bytes.\<close>

definition pad32 :: "bytes \<Rightarrow> bytes ver" where
  "pad32 address = (if length address \<le> 32 then Inr (address @ replicate (32 - length address) 0)
     else panic ''range end index out of range'')"

definition verify_report_data_binding :: "'z prims_scheme \<Rightarrow> bytes \<Rightarrow> string \<Rightarrow> string \<Rightarrow> unit ver" where
  "verify_report_data_binding P report_data nonce signing_address =
     rbind (verify_quote_report_data_nonce P report_data nonce) (\<lambda>_.
     rbind (decode_signing_address P signing_address) (\<lambda>address.
     rbind (pad32 address) (\<lambda>expected.
     rbind (slice_to 32 report_data) (\<lambda>head.
     ensure (head = expected) (ReportDataMismatch ''signer_binding'')))))"

definition spki_reason :: string where
  "spki_reason = ''expected a 32-byte hexadecimal SPKI fingerprint''"

definition verify_report_data_binding_with_tls_fingerprint ::
  "'z prims_scheme \<Rightarrow> bytes \<Rightarrow> string \<Rightarrow> string \<Rightarrow> string \<Rightarrow> string \<Rightarrow> string ver" where
  "verify_report_data_binding_with_tls_fingerprint P report_data nonce signing_address
       reported_spki_fingerprint peer_spki_fingerprint =
     rbind (verify_quote_report_data_nonce P report_data nonce) (\<lambda>_.
     rbind (ok_or (Ver_InvalidInput ''attestation.spki_fingerprint'' spki_reason)
              (require_hex_length P reported_spki_fingerprint 32)) (\<lambda>reported.
     rbind (decode_signing_address P signing_address) (\<lambda>address.
     rbind (slice_to 32 report_data) (\<lambda>head.
     rbind (ensure (head = sha256 P (address @ reported)) (ReportDataMismatch ''signer_tls_binding'')) (\<lambda>_.
     rbind (ok_or (Ver_InvalidInput ''client_binding.spki_fingerprint'' spki_reason)
              (require_hex_length P peer_spki_fingerprint 32)) (\<lambda>peer.
     rbind (ensure (reported = peer) SpkiFingerprintMismatch) (\<lambda>_.
     Inr (hex_encode P reported))))))))"

definition verify_app_compose_mrconfigid_binding :: "'z prims_scheme \<Rightarrow> string \<Rightarrow> bytes \<Rightarrow> unit ver" where
  "verify_app_compose_mrconfigid_binding P app_compose mr_config_id =
     rbind (ensure (\<not> length mr_config_id < 33) (MrConfigIdInvalid ''wrong_length'')) (\<lambda>_.
     rbind (index_at mr_config_id 0) (\<lambda>version.
     rbind (ensure (version = 1) (MrConfigIdInvalid ''unsupported_version'')) (\<lambda>_.
     rbind (subslice 1 33 mr_config_id) (\<lambda>measured.
     ensure (measured = sha256 P (as_bytes app_compose)) AppComposeMrConfigIdMismatch))))"

section \<open>What success means\<close>

named_theorems binding_ok \<open>success of each check as the facts it establishes\<close>

lemma verify_reported_nonce_ok [binding_ok]:
  "verify_reported_nonce P reported nonce source = Inr u \<longleftrightarrow>
     (\<exists>n. decode_hex P nonce = Some n \<and> decode_hex P reported = Some n \<and> length n = 32)"
  by (auto simp: verify_reported_nonce_def outcome_simps str_simps)

lemma validate_signing_identity_ok [binding_ok]:
  "validate_signing_identity P s = Inr s' \<longleftrightarrow>
     s' = s \<and> (\<exists>a. decode_hex P (si_address s) = Some a \<and> length a = address_length (si_algo s))"
  by (auto simp: validate_signing_identity_def outcome_simps str_simps Let_def)

lemma verify_advertised_report_data_ok [binding_ok]:
  "verify_advertised_report_data P adv data = Inr u \<longleftrightarrow>
     (\<forall>t. adv = Some t \<longrightarrow> decode_hex P t = Some data \<and> length data = 64)"
  by (auto simp: verify_advertised_report_data_def outcome_simps str_simps split: option.splits)

lemma verify_quote_report_data_nonce_ok [binding_ok]:
  "verify_quote_report_data_nonce P data nonce = Inr u \<longleftrightarrow>
     length data = 64 \<and> decode_hex P nonce = Some (drop 32 data)"
  by (auto simp: verify_quote_report_data_nonce_def outcome_simps str_simps)

lemma decode_signing_address_ok [binding_ok]:
  "decode_signing_address P s = Inr a \<longleftrightarrow> decode_hex P s = Some a"
  by (simp add: decode_signing_address_def outcome_simps)

lemma pad32_ok [binding_ok]:
  "pad32 a = Inr p \<longleftrightarrow> length a \<le> 32 \<and> p = a @ replicate (32 - length a) 0"
  by (auto simp: pad32_def)

lemma verify_report_data_binding_ok [binding_ok]:
  "verify_report_data_binding P data nonce address = Inr u \<longleftrightarrow>
     (\<exists>a n. decode_hex P address = Some a \<and> decode_hex P nonce = Some n \<and> length a \<le> 32 \<and> length n = 32
        \<and> data = a @ replicate (32 - length a) 0 @ n)" (is "?L = ?R")
proof
  assume ?L
  then obtain a where "length data = 64" "decode_hex P nonce = Some (drop 32 data)"
      "decode_hex P address = Some a" "length a \<le> 32" "take 32 data = a @ replicate (32 - length a) 0"
    by (auto simp: verify_report_data_binding_def outcome_simps binding_ok)
  then show ?R by (metis append_assoc append_take_drop_id length_drop add_diff_cancel_right' numeral_Bit0)
next
  assume ?R
  then show ?L by (auto simp: verify_report_data_binding_def outcome_simps binding_ok)
qed

lemma verify_report_data_binding_tls_ok [binding_ok]:
  "verify_report_data_binding_with_tls_fingerprint P data nonce address reported peer = Inr fp \<longleftrightarrow>
     (\<exists>a n f. decode_hex P address = Some a \<and> decode_hex P nonce = Some n \<and> length n = 32
        \<and> decode_hex P reported = Some f \<and> decode_hex P peer = Some f \<and> length f = 32
        \<and> length data = 64 \<and> take 32 data = sha256 P (a @ f) \<and> drop 32 data = n \<and> fp = hex_encode P f)"
  by (auto simp: verify_report_data_binding_with_tls_fingerprint_def outcome_simps binding_ok str_simps)

lemma verify_app_compose_ok [binding_ok]:
  "verify_app_compose_mrconfigid_binding P compose m = Inr u \<longleftrightarrow>
     33 \<le> length m \<and> m ! 0 = 1 \<and> take 32 (drop 1 m) = sha256 P (as_bytes compose)"
  by (auto simp: verify_app_compose_mrconfigid_binding_def outcome_simps)

section \<open>Panics\<close>

lemma verify_reported_nonce_no_panic [simp]: "\<not> panics (verify_reported_nonce P r n s)"
  by (simp add: verify_reported_nonce_def)

lemma validate_signing_identity_no_panic [simp]: "\<not> panics (validate_signing_identity P s)"
  by (simp add: validate_signing_identity_def Let_def)

lemma verify_advertised_report_data_no_panic [simp]: "\<not> panics (verify_advertised_report_data P a d)"
  by (simp add: verify_advertised_report_data_def split: option.split)

lemma verify_quote_report_data_nonce_no_panic [simp]: "\<not> panics (verify_quote_report_data_nonce P d n)"
  by (auto simp: verify_quote_report_data_nonce_def outcome_simps)

lemma decode_signing_address_no_panic [simp]: "\<not> panics (decode_signing_address P s)"
  by (simp add: decode_signing_address_def)

lemma panics_pad32 [simp]: "panics (pad32 a) \<longleftrightarrow> 32 < length a"
  by (simp add: pad32_def)

lemma panics_index_at [simp]: "panics (index_at xs i) \<longleftrightarrow> length xs \<le> i"
  by (simp add: index_at_def not_less)

lemma verify_report_data_binding_panics:
  "panics (verify_report_data_binding P data nonce address) \<longleftrightarrow>
     length data = 64 \<and> decode_hex P nonce = Some (drop 32 data)
     \<and> (\<exists>a. decode_hex P address = Some a \<and> 32 < length a)"
  by (auto simp: verify_report_data_binding_def outcome_simps binding_ok)

lemma verify_report_data_binding_tls_no_panic [simp]:
  "\<not> panics (verify_report_data_binding_with_tls_fingerprint P d n a r p)"
  by (auto simp: verify_report_data_binding_with_tls_fingerprint_def outcome_simps binding_ok)

lemma verify_app_compose_no_panic [simp]: "\<not> panics (verify_app_compose_mrconfigid_binding P c m)"
  by (auto simp: verify_app_compose_mrconfigid_binding_def outcome_simps)

end
