(* ===== verification/Event_Log.thy ===== *)
theory Event_Log
  imports Errors Instances
begin

text \<open>
  \<open>event_log.rs\<close>: parsing dstack's event log, the digest of one event, and the replay of
  RTMR3. The loop over the events carries the register, the number of RTMR3 events and the
  measurements found so far. The lemmas give the replay's meaning: the register is the
  chained SHA-384 of the digests of the log's RTMR3 events, and a reported measurement is
  the payload of an event whose own hash is one of these digests.
\<close>

definition dstack_runtime_event_type :: "32 word" where
  "dstack_runtime_event_type = 0x08000001"

record event_log_entry =
  el_path :: string
  el_digest :: string
  el_event_type :: "32 word"
  el_event :: string
  el_event_payload :: string
  el_imr :: "32 word"

section \<open>Parsing\<close>

definition optional_string :: "json \<Rightarrow> string \<Rightarrow> string \<Rightarrow> string option ver" where
  "optional_string object field path =
     (case jget object field of
        None \<Rightarrow> Inr None
      | Some (JStr value) \<Rightarrow> Inr (Some value)
      | Some _ \<Rightarrow> fail (EventLogInvalid (path @ ''.'' @ field) ''invalid_type''))"

definition required_string :: "json \<Rightarrow> string \<Rightarrow> string \<Rightarrow> string ver" where
  "required_string object field path =
     rbind (optional_string object field path) (\<lambda>value.
     ok_or (EventLogInvalid (path @ ''.'' @ field) ''invalid_type'') value)"

definition optional_u32 :: "json \<Rightarrow> string \<Rightarrow> string \<Rightarrow> 32 word option ver" where
  "optional_u32 object field path =
     (case jget object field of
        None \<Rightarrow> Inr None
      | Some value \<Rightarrow>
          (case as_u64 value of
             Some n \<Rightarrow> if n < 2 ^ 32 then Inr (Some (of_nat n))
               else fail (EventLogInvalid (path @ ''.'' @ field) ''invalid_type'')
           | None \<Rightarrow> fail (EventLogInvalid (path @ ''.'' @ field) ''invalid_type'')))"

definition required_u32 :: "json \<Rightarrow> string \<Rightarrow> string \<Rightarrow> 32 word ver" where
  "required_u32 object field path =
     rbind (optional_u32 object field path) (\<lambda>value.
     ok_or (EventLogInvalid (path @ ''.'' @ field) ''invalid_type'') value)"

definition parse_event_log_entry :: "json \<Rightarrow> nat \<Rightarrow> event_log_entry ver" where
  "parse_event_log_entry value index =
     (let path = ''event_log['' @ decimal index @ '']'' in
      rbind (ensure (is_object value) (EventLogInvalid path ''invalid_type'')) (\<lambda>_.
      rbind (required_string value ''digest'' path) (\<lambda>digest.
      rbind (optional_string value ''event'' path) (\<lambda>event.
      rbind (optional_string value ''event_payload'' path) (\<lambda>event_payload.
      rbind (required_u32 value ''imr'' path) (\<lambda>imr.
      rbind (optional_u32 value ''event_type'' path) (\<lambda>event_type.
      Inr \<lparr>el_path = path, el_digest = digest, el_event_type = or_else 0 event_type,
           el_event = or_else [] event, el_event_payload = or_else [] event_payload,
           el_imr = imr\<rparr>)))))))"

definition parse_event_log :: "'z prims_scheme \<Rightarrow> attestation_event_log \<Rightarrow> event_log_entry list ver" where
  "parse_event_log P event_log =
     rbind (case event_log of
        Log_Json value \<Rightarrow> ok_or (EventLogInvalid ''event_log'' ''invalid_json'') (json_parse P (as_bytes value))
      | Log_Entries entries \<Rightarrow> Inr (JArr entries)) (\<lambda>value.
     rbind (ok_or (EventLogInvalid ''event_log'' ''invalid_type'') (as_array value)) (\<lambda>entries.
     traverse (\<lambda>(index, value). parse_event_log_entry value index) (enumerate 0 entries)))"

section \<open>Digests\<close>

definition decode_event_hex :: "'z prims_scheme \<Rightarrow> string \<Rightarrow> string \<Rightarrow> bool \<Rightarrow> bytes ver" where
  "decode_event_hex P value path allow_empty =
     (let normalized = (case strip_prefix ''0x'' value of Some t \<Rightarrow> t
        | None \<Rightarrow> or_else value (strip_prefix ''0X'' value)) in
      rbind (ensure (\<not> ((\<not> allow_empty \<and> normalized = []) \<or> length normalized mod 2 \<noteq> 0))
              (EventLogInvalid path ''invalid_hex'')) (\<lambda>_.
      ok_or (EventLogInvalid path ''invalid_hex'') (decode_hex P value)))"

text \<open>The bytes a runtime event's digest covers.\<close>

definition runtime_event_data :: "string \<Rightarrow> bytes \<Rightarrow> bytes" where
  "runtime_event_data event payload =
     to_le_bytes32 dstack_runtime_event_type @ as_bytes '':'' @ as_bytes event @ as_bytes '':'' @ payload"

definition event_digest :: "'z prims_scheme \<Rightarrow> event_log_entry \<Rightarrow> bytes ver" where
  "event_digest P entry =
     (let digest_path = el_path entry @ ''.digest'' in
      if el_event_type entry = dstack_runtime_event_type then
        rbind (decode_event_hex P (el_event_payload entry) (el_path entry @ ''.event_payload'') True) (\<lambda>payload.
        let computed = sha384 P (runtime_event_data (el_event entry) payload) in
        if el_digest entry \<noteq> [] then
          rbind (decode_event_hex P (el_digest entry) digest_path False) (\<lambda>stored.
          rbind (ensure (length stored = 48) (EventLogInvalid digest_path ''wrong_length'')) (\<lambda>_.
          rbind (ensure (stored = computed) (EventLogInvalid digest_path ''digest_mismatch'')) (\<lambda>_.
          Inr computed)))
        else Inr computed)
      else
        rbind (decode_event_hex P (el_digest entry) digest_path False) (\<lambda>digest.
        rbind (ensure (length digest = 48) (EventLogInvalid digest_path ''wrong_length'')) (\<lambda>_.
        Inr digest)))"

section \<open>Replay\<close>

definition note_measurement :: "event_log_entry \<Rightarrow> runtime_measurements \<Rightarrow> runtime_measurements" where
  "note_measurement event m =
     (if el_event_type event = dstack_runtime_event_type then
        if el_event event = ''os-image-hash'' then m\<lparr>os_image_hash := Some (el_event_payload event)\<rparr>
        else if el_event event = ''compose-hash'' then m\<lparr>compose_hash := Some (el_event_payload event)\<rparr>
        else m
      else m)"

fun replay_events :: "'z prims_scheme \<Rightarrow> event_log_entry list \<Rightarrow> bytes \<Rightarrow> nat \<Rightarrow> runtime_measurements
    \<Rightarrow> (bytes \<times> nat \<times> runtime_measurements) ver" where
  "replay_events P [] replayed count m = Inr (replayed, count, m)"
| "replay_events P (event # events) replayed count m =
     (if el_imr event \<noteq> 3 then replay_events P events replayed count m
      else rbind (event_digest P event) (\<lambda>digest.
        replay_events P events (sha384 P (replayed @ digest)) (count + 1) (note_measurement event m)))"

definition no_measurements :: runtime_measurements where
  "no_measurements = \<lparr>os_image_hash = None, compose_hash = None\<rparr>"

definition verify_and_replay_rtmr3 ::
  "'z prims_scheme \<Rightarrow> attestation_event_log \<Rightarrow> bytes \<Rightarrow> runtime_measurements ver" where
  "verify_and_replay_rtmr3 P event_log quoted_rtmr3 =
     rbind (ensure (length quoted_rtmr3 = 48) (Rtmr3Mismatch ''wrong_length'')) (\<lambda>_.
     rbind (parse_event_log P event_log) (\<lambda>events.
     rbind (replay_events P events (replicate 48 0) 0 no_measurements) (\<lambda>(replayed, count, measurements).
     rbind (ensure (count \<noteq> 0) (Rtmr3Mismatch ''no_events'')) (\<lambda>_.
     rbind (ensure (replayed = quoted_rtmr3) (Rtmr3Mismatch ''replay_mismatch'')) (\<lambda>_.
     Inr measurements)))))"

section \<open>Reference: the register as a hash chain\<close>

definition rtmr3_events :: "event_log_entry list \<Rightarrow> event_log_entry list" where
  "rtmr3_events events = filter (\<lambda>e. el_imr e = 3) events"

definition extend_rtmr :: "'z prims_scheme \<Rightarrow> bytes \<Rightarrow> bytes \<Rightarrow> bytes" where
  "extend_rtmr P register digest = sha384 P (register @ digest)"

definition rtmr3_chain :: "'z prims_scheme \<Rightarrow> bytes list \<Rightarrow> bytes" where
  "rtmr3_chain P digests = foldl (extend_rtmr P) (replicate 48 0) digests"

lemma replay_events_ok:
  "replay_events P events r n m = Inr (r', n', m') \<longleftrightarrow>
     (\<exists>ds. list_all2 (\<lambda>e d. event_digest P e = Inr d) (rtmr3_events events) ds
        \<and> r' = foldl (extend_rtmr P) r ds \<and> n' = n + length ds
        \<and> m' = fold note_measurement (rtmr3_events events) m)"
proof (induction events arbitrary: r n m)
  case Nil
  then show ?case by (auto simp: rtmr3_events_def)
next
  case (Cons e events)
  show ?case
  proof (cases "el_imr e = 3")
    case True
    then have "rtmr3_events (e # events) = e # rtmr3_events events"
      by (simp add: rtmr3_events_def)
    moreover have "(\<exists>ds. list_all2 R (e # es) ds \<and> Q ds) \<longleftrightarrow> (\<exists>d ds. R e d \<and> list_all2 R es ds \<and> Q (d # ds))"
      for R :: "event_log_entry \<Rightarrow> bytes \<Rightarrow> bool" and es Q
      by (auto simp: list_all2_Cons1)
    ultimately show ?thesis using True
      by (auto simp: Cons.IH outcome_simps extend_rtmr_def)
  next
    case False
    then show ?thesis by (simp add: Cons.IH rtmr3_events_def)
  qed
qed

lemma verify_and_replay_ok:
  "verify_and_replay_rtmr3 P log q = Inr m \<longleftrightarrow>
     length q = 48 \<and>
     (\<exists>events ds. parse_event_log P log = Inr events
        \<and> list_all2 (\<lambda>e d. event_digest P e = Inr d) (rtmr3_events events) ds
        \<and> ds \<noteq> [] \<and> rtmr3_chain P ds = q
        \<and> m = fold note_measurement (rtmr3_events events) no_measurements)"
proof -
  have "replay_events P events (replicate 48 0) 0 no_measurements = Inr x \<longleftrightarrow>
      (\<exists>ds. list_all2 (\<lambda>e d. event_digest P e = Inr d) (rtmr3_events events) ds
        \<and> x = (rtmr3_chain P ds, length ds, fold note_measurement (rtmr3_events events) no_measurements))"
    for events x
    by (cases x) (auto simp: replay_events_ok rtmr3_chain_def)
  then show ?thesis
    by (auto simp: verify_and_replay_rtmr3_def outcome_simps)
qed

section \<open>Authenticity of the measurements\<close>

lemma event_digest_runtime:
  "event_digest P e = Inr d \<Longrightarrow> el_event_type e = dstack_runtime_event_type \<Longrightarrow>
   \<exists>p. decode_hex P (el_event_payload e) = Some p \<and> d = sha384 P (runtime_event_data (el_event e) p)"
  by (auto simp: event_digest_def decode_event_hex_def Let_def outcome_simps split: if_splits)

lemma event_digest_length:
  "digest_lengths P \<Longrightarrow> event_digest P e = Inr d \<Longrightarrow> length d = 48"
  by (auto simp: event_digest_def decode_event_hex_def Let_def outcome_simps sha384_def
      digest_lengthsD split: if_splits)

lemma fold_note_compose_hash:
  "compose_hash (fold note_measurement es m) = Some h \<Longrightarrow>
     compose_hash m = Some h \<or>
     (\<exists>e \<in> set es. el_event_type e = dstack_runtime_event_type \<and> el_event e = ''compose-hash''
        \<and> el_event_payload e = h)"
  by (induction es arbitrary: m) (fastforce simp: note_measurement_def split: if_splits)+

lemma fold_note_os_image_hash:
  "os_image_hash (fold note_measurement es m) = Some h \<Longrightarrow>
     os_image_hash m = Some h \<or>
     (\<exists>e \<in> set es. el_event_type e = dstack_runtime_event_type \<and> el_event e = ''os-image-hash''
        \<and> el_event_payload e = h)"
  by (induction es arbitrary: m) (fastforce simp: note_measurement_def split: if_splits)+

text \<open>A payload is authenticated by a chain of digests when the event carrying it was extended.\<close>

definition measured_in :: "'z prims_scheme \<Rightarrow> string \<Rightarrow> string \<Rightarrow> bytes list \<Rightarrow> bool" where
  "measured_in P event payload ds \<longleftrightarrow>
     (\<exists>p. decode_hex P payload = Some p \<and> sha384 P (runtime_event_data event p) \<in> set ds)"

lemma measured_inI:
  assumes "list_all2 (\<lambda>e d. event_digest P e = Inr d) es ds" and "e \<in> set es"
    and "el_event_type e = dstack_runtime_event_type"
  shows "measured_in P (el_event e) (el_event_payload e) ds"
proof -
  from list_all2_in_set [OF assms(1,2)]
  obtain d where "d \<in> set ds" "event_digest P e = Inr d" by blast
  with event_digest_runtime [OF this(2) assms(3)] show ?thesis
    by (auto simp: measured_in_def)
qed

section \<open>Two logs for one register\<close>

lemma foldl_snoc: "foldl f a (xs @ [x]) = f (foldl f a xs) x"
  by simp

text \<open>
  Two digest lists with one register are equal, unless they exhibit a SHA-384 collision or a
  preimage of the register's initial value.
\<close>

lemma rtmr3_chain_inject:
  assumes "digest_lengths P"
    and "\<forall>d \<in> set ds. length d = 48" and "\<forall>d \<in> set es. length d = 48"
    and "rtmr3_chain P ds = rtmr3_chain P es"
  shows "ds = es \<or> (\<exists>x y. x \<noteq> y \<and> sha384 P x = sha384 P y) \<or> (\<exists>x. sha384 P x = replicate 48 0)"
  using assms(2-4)
proof (induction ds arbitrary: es rule: rev_induct)
  case Nil
  then show ?case
    by (cases es rule: rev_cases) (auto simp: rtmr3_chain_def extend_rtmr_def dest: sym)
next
  case (snoc d ds)
  show ?case
  proof (cases es rule: rev_cases)
    case Nil
    with snoc.prems show ?thesis by (auto simp: rtmr3_chain_def extend_rtmr_def)
  next
    case (snoc es' e)
    let ?r = "rtmr3_chain P ds" and ?s = "rtmr3_chain P es'"
    from snoc snoc.prems have eq: "sha384 P (?r @ d) = sha384 P (?s @ e)"
      by (simp add: rtmr3_chain_def extend_rtmr_def)
    show ?thesis
    proof (cases "?r @ d = ?s @ e")
      case False
      with eq show ?thesis by blast
    next
      case True
      moreover from snoc snoc.prems have "length d = length e" by simp
      ultimately have "?r = ?s" "d = e" by auto
      moreover from snoc snoc.prems have "\<forall>d \<in> set ds. length d = 48" "\<forall>d \<in> set es'. length d = 48"
        by auto
      ultimately show ?thesis using snoc.IH [of es'] snoc by blast
    qed
  qed
qed

section \<open>Properties\<close>

text \<open>C11: RTMR3 replay is exact. Verification of a log against a quoted register succeeds with
  measurements \<open>m\<close> precisely when the register has 48 bytes, the log parses, every RTMR3 event
  has a valid digest, there is at least one, the SHA-384 chain of these digests from 48 zero
  bytes is the register, and \<open>m\<close> are the last measurements those events report. Events of other
  registers do not matter.\<close>

lemma rtmr3_replay_exact:
  "verify_and_replay_rtmr3 P log register = Inr m \<longleftrightarrow>
     length register = 48 \<and>
     (\<exists>events ds. parse_event_log P log = Inr events
        \<and> list_all2 (\<lambda>e d. event_digest P e = Inr d) (rtmr3_events events) ds
        \<and> ds \<noteq> [] \<and> rtmr3_chain P ds = register
        \<and> m = fold note_measurement (rtmr3_events events) no_measurements)"
  by (rule verify_and_replay_ok)

text \<open>C14: Measurements are authenticated. A compose hash (or OS image hash) that verification
  reports decodes to a payload whose runtime-event digest is one of the digests chained
  into the quoted register.\<close>

lemma measurements_authenticated:
  assumes "verify_and_replay_rtmr3 P log register = Inr m"
    and "compose_hash m = Some h \<and> event = ''compose-hash'' \<or> os_image_hash m = Some h \<and> event = ''os-image-hash''"
  shows "\<exists>ds. rtmr3_chain P ds = register \<and> measured_in P event h ds"
proof -
  from assms(1) obtain events ds where
      ds: "list_all2 (\<lambda>e d. event_digest P e = Inr d) (rtmr3_events events) ds" "rtmr3_chain P ds = register"
    and m: "m = fold note_measurement (rtmr3_events events) no_measurements"
    unfolding verify_and_replay_ok by blast
  have "\<exists>e \<in> set (rtmr3_events events). el_event_type e = dstack_runtime_event_type \<and> el_event e = event
      \<and> el_event_payload e = h"
    using assms(2) fold_note_compose_hash [of "rtmr3_events events" no_measurements h]
      fold_note_os_image_hash [of "rtmr3_events events" no_measurements h]
    unfolding m by (auto simp: no_measurements_def)
  with measured_inI [OF ds(1)] ds(2) show ?thesis by blast
qed

definition demo_log :: attestation_event_log where
  "demo_log = Log_Entries [JObj [(''digest'', JStr []), (''event'', JStr ''compose-hash''),
     (''event_payload'', JStr ''ab''), (''imr'', JNum ''3''), (''event_type'', JNum ''134217729'')]]"

definition demo_register :: bytes where
  "demo_register = rtmr3_chain demo_prims [sha384 demo_prims (runtime_event_data ''compose-hash'' [0xab])]"

definition demo_measurements :: runtime_measurements where
  "demo_measurements = \<lparr>os_image_hash = None, compose_hash = Some ''ab''\<rparr>"

lemma demo_replay: "verify_and_replay_rtmr3 demo_prims demo_log demo_register = Inr demo_measurements"
  by code_simp

lemma measurements_authenticated_witness:
  "\<exists>ds. rtmr3_chain demo_prims ds = demo_register \<and> measured_in demo_prims ''compose-hash'' ''ab'' ds"
  by (rule measurements_authenticated [OF demo_replay]) (simp add: demo_measurements_def)

text \<open>A register stands for one list of events. If two logs verify against the same register,
  the digests of their RTMR3 events are the same list, unless SHA-384 collides or a preimage
  of the register's initial value is known.\<close>

lemma register_determines_digests:
  assumes "digest_lengths P"
    and "verify_and_replay_rtmr3 P log register = Inr m" and "verify_and_replay_rtmr3 P log' register = Inr m'"
  shows "\<exists>events events' ds ds'.
     parse_event_log P log = Inr events \<and> list_all2 (\<lambda>e d. event_digest P e = Inr d) (rtmr3_events events) ds
     \<and> parse_event_log P log' = Inr events' \<and> list_all2 (\<lambda>e d. event_digest P e = Inr d) (rtmr3_events events') ds'
     \<and> (ds = ds' \<or> (\<exists>x y. x \<noteq> y \<and> sha384 P x = sha384 P y) \<or> (\<exists>x. sha384 P x = replicate 48 0))"
proof -
  have len: "length d = 48" if "list_all2 (\<lambda>e d. event_digest P e = Inr d) es ds" "d \<in> set ds" for es ds d
    using list_all2_in_set2 [OF that] event_digest_length [OF assms(1)] by blast
  from assms(2) obtain events ds where 1: "parse_event_log P log = Inr events"
      "list_all2 (\<lambda>e d. event_digest P e = Inr d) (rtmr3_events events) ds" "rtmr3_chain P ds = register"
    unfolding verify_and_replay_ok by blast
  from assms(3) obtain events' ds' where 2: "parse_event_log P log' = Inr events'"
      "list_all2 (\<lambda>e d. event_digest P e = Inr d) (rtmr3_events events') ds'" "rtmr3_chain P ds' = register"
    unfolding verify_and_replay_ok by blast
  have "ds = ds' \<or> (\<exists>x y. x \<noteq> y \<and> sha384 P x = sha384 P y) \<or> (\<exists>x. sha384 P x = replicate 48 0)"
    using rtmr3_chain_inject [OF assms(1), of ds ds'] len [OF 1(2)] len [OF 2(2)] 1(3) 2(3) by simp
  with 1 2 show ?thesis by blast
qed

lemma register_determines_digests_witness:
  "\<exists>events events' ds ds'.
     parse_event_log demo_prims demo_log = Inr events
     \<and> list_all2 (\<lambda>e d. event_digest demo_prims e = Inr d) (rtmr3_events events) ds
     \<and> parse_event_log demo_prims demo_log = Inr events'
     \<and> list_all2 (\<lambda>e d. event_digest demo_prims e = Inr d) (rtmr3_events events') ds'
     \<and> (ds = ds' \<or> (\<exists>x y. x \<noteq> y \<and> sha384 demo_prims x = sha384 demo_prims y) \<or> (\<exists>x. sha384 demo_prims x = replicate 48 0))"
  by (rule register_determines_digests [OF demo_laws(1) demo_replay demo_replay])

end
