(* ===== verification/Http.thy ===== *)
theory Http
  imports Errors Instances
begin

text \<open>
  What the components exchange with \<open>reqwest\<close>, \<open>url\<close> and \<open>serde\<close>. Sending a request, parsing
  and joining URLs and reading a JSON document are operations of the environment record; the
  header operations and the derived \<open>Deserialize\<close> implementations are written out, because
  the sources depend on which headers survive and which documents a wire type accepts.
\<close>

section \<open>Headers\<close>

text \<open>
  A \<open>HeaderMap\<close>: lower-case names with their values, in order; a name may repeat.
  \<open>insert\<close> replaces every value of the name.
\<close>

type_synonym headers = "(string \<times> string) list"

definition header_remove :: "string \<Rightarrow> headers \<Rightarrow> headers" where
  "header_remove name h = filter (\<lambda>(k, _). k \<noteq> name) h"

definition header_insert :: "string \<Rightarrow> string \<Rightarrow> headers \<Rightarrow> headers" where
  "header_insert name v h = header_remove name h @ [(name, v)]"

definition header_get_all :: "string \<Rightarrow> headers \<Rightarrow> string list" where
  "header_get_all name h = map snd (filter (\<lambda>(k, _). k = name) h)"

definition header_get :: "string \<Rightarrow> headers \<Rightarrow> string option" where
  "header_get name h = map_of h name"

definition header_contains :: "string \<Rightarrow> headers \<Rightarrow> bool" where
  "header_contains name h \<longleftrightarrow> name \<in> fst ` set h"

text \<open>\<open>HeaderValue::from_str\<close> accepts visible ASCII and tabs; so does \<open>to_str\<close>.\<close>

definition visible_ascii :: "char \<Rightarrow> bool" where
  "visible_ascii c \<longleftrightarrow> (32 \<le> (of_char c :: nat) \<and> (of_char c :: nat) < 127) \<or> (of_char c :: nat) = 9"

definition header_from_str :: "string \<Rightarrow> string option" where
  "header_from_str s = (if list_all visible_ascii s then Some s else None)"

definition header_to_str :: "string \<Rightarrow> string option" where
  "header_to_str v = (if list_all visible_ascii v then Some v else None)"

text \<open>
  \<open>HeaderName::from_bytes\<close> takes token characters and lower-cases them; \<open>HeaderValue::from_bytes\<close>
  takes visible characters, blanks, tabs and bytes from 128 on.
\<close>

definition header_name_from_bytes :: "string \<Rightarrow> string option" where
  "header_name_from_bytes s =
     (if s \<noteq> [] \<and> list_all (\<lambda>c. is_alnum c \<or> c \<in> set ''!#$%&'' \<or> c \<in> set ''*+-.^_`|~'' \<or> of_char c = (39 :: nat)) s
      then Some (to_lower s) else None)"

definition header_value_from_bytes :: "bytes \<Rightarrow> string option" where
  "header_value_from_bytes v =
     (if list_all (\<lambda>b. (32 \<le> b \<and> b \<noteq> 127) \<or> b = 9) v then Some (map char_at v) else None)"

lemma header_get_insert [simp]:
  "header_get n (header_insert m v h) = (if n = m then Some v else header_get n h)"
proof -
  have "map_of (header_remove m h) n = (if n = m then None else map_of h n)"
    by (induction h) (auto simp: header_remove_def)
  then show ?thesis
    by (auto simp: header_get_def header_insert_def map_add_def split: option.split)
qed

lemma header_get_remove [simp]:
  "header_get n (header_remove m h) = (if n = m then None else header_get n h)"
  unfolding header_get_def by (induction h) (auto simp: header_remove_def)

lemma header_contains_simps [simp]:
  "header_contains n (header_insert m v h) \<longleftrightarrow> n = m \<or> header_contains n h"
  "header_contains n (header_remove m h) \<longleftrightarrow> n \<noteq> m \<and> header_contains n h"
  by (force simp: header_contains_def header_insert_def header_remove_def image_iff)+

lemma header_get_None: "header_get n h = None \<longleftrightarrow> \<not> header_contains n h"
  by (simp add: header_get_def header_contains_def map_of_eq_None_iff)

section \<open>URLs, requests and responses\<close>

record url =
  u_scheme :: string
  u_username :: string
  u_password :: "string option"
  u_host :: "string option"
  u_port :: "nat option"
  u_path :: string
  u_query :: "string option"
  u_fragment :: "string option"

record http_request =
  rq_method :: string
  rq_url :: string
  rq_headers :: headers
  rq_body :: bytes

text \<open>A request the caller built; its body is absent when it is missing or streamed.\<close>

record client_request =
  cr_method :: string
  cr_url :: url
  cr_headers :: headers
  cr_body :: "bytes option"

text \<open>
  What the sources configure of a \<open>reqwest::Client\<close>: the redirect policy, the system proxy,
  whether the peer certificate is recorded and whether plain HTTP is refused, and, for a client
  of \<open>pinned_tls.rs\<close>, the SPKI digests its certificate verifier admits.
\<close>

record http_client =
  hc_redirects :: bool
  hc_proxy :: bool
  hc_tls_info :: bool
  hc_https_only :: bool
  hc_pins :: "bytes list option"

text \<open>\<open>Client::new()\<close>, and \<open>Client::builder().redirect(Policy::none()).build()\<close>.\<close>

definition default_client :: http_client where
  "default_client = \<lparr>hc_redirects = True, hc_proxy = True, hc_tls_info = False, hc_https_only = False,
     hc_pins = None\<rparr>"

definition no_redirect_client :: http_client where
  "no_redirect_client = default_client\<lparr>hc_redirects := False\<rparr>"

text \<open>
  A response body arrives in chunks and may break off. \<open>rs_peer_certificate\<close> is the DER
  certificate \<open>TlsInfo\<close> carries, absent on a client that does not record it.
\<close>

record http_response =
  rs_status :: u16
  rs_headers :: headers
  rs_content_length :: "nat option"
  rs_chunks :: "bytes list"
  rs_broken :: bool
  rs_peer_certificate :: "bytes option"

definition whole_body :: "http_response \<Rightarrow> bytes option" where
  "whole_body r = (if rs_broken r then None else Some (concat (rs_chunks r)))"

definition is_success :: "u16 \<Rightarrow> bool" where
  "is_success s \<longleftrightarrow> 200 \<le> s \<and> s < 300"

definition is_server_error :: "u16 \<Rightarrow> bool" where
  "is_server_error s \<longleftrightarrow> 500 \<le> s \<and> s < 600"

text \<open>
  \<open>serde_fault\<close> is the first error \<open>serde_json\<close> reports on a text a wire type rejects:
  nothing for a syntax error or an early end, else the path of the offending value.
  \<open>json_document\<close> reads one JSON text as it is, repeated keys included, and
  \<open>decode_text\<close> is \<open>Response::text\<close>'s charset conversion.
\<close>

record net_prims = prims +
  url_parse :: "string \<Rightarrow> url option"
  url_join :: "url \<Rightarrow> string \<Rightarrow> url option"
  url_text :: "url \<Rightarrow> string"
  url_push :: "url \<Rightarrow> string \<Rightarrow> url option"
  url_pop_if_empty :: "url \<Rightarrow> url"
  url_append_pairs :: "url \<Rightarrow> (string \<times> string) list \<Rightarrow> url"
  url_query_pairs :: "url \<Rightarrow> (string \<times> string) list"
  form_encode :: "string \<Rightarrow> string \<Rightarrow> string"
  http_send :: "http_client \<Rightarrow> http_request \<Rightarrow> http_response option"
  decode_text :: "headers \<Rightarrow> bytes \<Rightarrow> string"
  json_document :: "bytes \<Rightarrow> json option"
  serde_fault :: "string \<Rightarrow> bytes \<Rightarrow> string option"
  spki_der :: "bytes \<Rightarrow> bytes option"

definition response_text :: "'z net_prims_scheme \<Rightarrow> http_response \<Rightarrow> string option" where
  "response_text P r = map_option (decode_text P (rs_headers r)) (whole_body r)"

section \<open>Derived deserialisation\<close>

text \<open>
  A derived struct reads an object, in which a field of the struct must not repeat, or an
  array of its fields in order, in which only trailing fields with a default may be missing.
  \<open>struct_view\<close> gives the fields of either as an object.
\<close>

fun occurrences :: "string \<Rightarrow> (string \<times> json) list \<Rightarrow> nat" where
  "occurrences k [] = 0"
| "occurrences k ((k', _) # kvs) = (if k = k' then Suc (occurrences k kvs) else occurrences k kvs)"

definition no_repeats :: "string list \<Rightarrow> (string \<times> json) list \<Rightarrow> bool" where
  "no_repeats names kvs \<longleftrightarrow> list_all (\<lambda>f. occurrences f kvs \<le> 1) names"

definition struct_view :: "string list \<Rightarrow> nat \<Rightarrow> json \<Rightarrow> (string \<times> json) list option" where
  "struct_view names required j =
     (case j of
        JObj kvs \<Rightarrow> if no_repeats names kvs then Some kvs else None
      | JArr xs \<Rightarrow> if required \<le> length xs \<and> length xs \<le> length names then Some (zip names xs) else None
      | _ \<Rightarrow> None)"

text \<open>A required field, and an \<open>Option\<close> field (missing and \<open>null\<close> are \<open>None\<close>).\<close>

definition need :: "(string \<times> json) list \<Rightarrow> string \<Rightarrow> (json \<Rightarrow> 'a option) \<Rightarrow> 'a option" where
  "need kvs k decode = Option.bind (map_of kvs k) decode"

definition want :: "(string \<times> json) list \<Rightarrow> string \<Rightarrow> (json \<Rightarrow> 'a option) \<Rightarrow> 'a option option" where
  "want kvs k decode =
     (case map_of kvs k of
        None \<Rightarrow> Some None
      | Some JNull \<Rightarrow> Some None
      | Some j \<Rightarrow> map_option Some (decode j))"

text \<open>A unit variant is its name, or an object with the name as only key and \<open>null\<close>.\<close>

fun unit_variant :: "json \<Rightarrow> string option" where
  "unit_variant (JStr s) = Some s"
| "unit_variant (JObj [(s, JNull)]) = Some s"
| "unit_variant _ = None"

fun as_bool :: "json \<Rightarrow> bool option" where
  "as_bool (JBool b) = Some b"
| "as_bool _ = None"

text \<open>\<open>Vec<T>\<close>, element by element.\<close>

fun all_some :: "'a option list \<Rightarrow> 'a list option" where
  "all_some [] = Some []"
| "all_some (None # _) = None"
| "all_some (Some x # xs) = map_option ((#) x) (all_some xs)"

definition vec_of :: "(json \<Rightarrow> 'a option) \<Rightarrow> json \<Rightarrow> 'a list option" where
  "vec_of decode j = Option.bind (as_array j) (\<lambda>xs. all_some (map decode xs))"

definition signing_algo_of :: "json \<Rightarrow> signing_algo option" where
  "signing_algo_of j = Option.bind (unit_variant j) (\<lambda>s.
     if s = ''ecdsa'' then Some Ecdsa else if s = ''ed25519'' then Some Ed25519 else None)"

lemma need_Some [str_simps]: "need kvs k d = Some x \<longleftrightarrow> (\<exists>j. map_of kvs k = Some j \<and> d j = Some x)"
  by (auto simp: need_def bind_eq_Some_conv)

lemma all_some_Some: "all_some ms = Some xs \<longleftrightarrow> ms = map Some xs"
  by (induction ms arbitrary: xs rule: all_some.induct) auto

lemma signing_algo_of_name [simp]: "signing_algo_of (JStr (signing_algo_name a)) = Some a"
  by (cases a) (simp_all add: signing_algo_of_def signing_algo_name_def)

section \<open>The instance\<close>

text \<open>
  URLs of the instance keep their text as the path of an HTTPS URL; a client of the instance
  gets no reply, and a text is its bytes.
\<close>

definition demo_url :: "string \<Rightarrow> url" where
  "demo_url path = \<lparr>u_scheme = ''https'', u_username = [], u_password = None, u_host = Some ''h'', u_port = None,
     u_path = path, u_query = None, u_fragment = None\<rparr>"

definition demo_net :: net_prims where
  "demo_net = prims.extend demo_prims (net_prims.fields (\<lambda>s. Some (demo_url s))
     (\<lambda>u s. Some (u\<lparr>u_path := u_path u @ s\<rparr>)) u_path (\<lambda>u s. Some (u\<lparr>u_path := u_path u @ ''/'' @ s\<rparr>)) (\<lambda>u. u)
     (\<lambda>u kvs. u\<lparr>u_query := Some (concat (map (\<lambda>(k, v). k @ ''='' @ v) kvs))\<rparr>) (\<lambda>_. []) (\<lambda>k v. k @ ''='' @ v)
     (\<lambda>_ _. None) (\<lambda>_ b. map char_at b) demo_json_parse (\<lambda>_ _. None) (\<lambda>_. None))"

declare demo_net_def [demo_defs] net_prims.defs [demo_defs]

end
