(* ===== verification/Quote.thy ===== *)
theory Quote
  imports Http
begin

text \<open>
  \<open>quote.rs\<close>: the built-in TDX quote verifier. DCAP itself (\<open>dcap_qvl\<close>: the quote parser,
  the collateral client and the verification against Intel's roots) and the system clock are
  operations of the environment record; the order of the steps, the error of each, and the
  reading of the verified report are the code's.
\<close>

unbundle bit_operations_syntax

record td10_report =
  td_attributes :: bytes
  td_report_data :: bytes
  td_mr_config_id :: bytes
  td_rt_mr3 :: bytes

record verified_report =
  vr_status :: string
  vr_advisory_ids :: "string list"
  vr_td10 :: "td10_report option"

record 'c dcap_prims = net_prims +
  dcap_parse :: "bytes \<Rightarrow> bool"
  dcap_collateral :: "string \<Rightarrow> bytes \<Rightarrow> 'c option"
  dcap_verify :: "bytes \<Rightarrow> 'c \<Rightarrow> nat \<Rightarrow> verified_report option"
  unix_time :: "nat option"

definition default_intel_pccs_url :: string where
  "default_intel_pccs_url = ''https://api.trustedservices.intel.com''"

definition parse_tcb_status :: "string \<Rightarrow> tcb_status ver" where
  "parse_tcb_status status =
     (if status = ''UpToDate'' then Inr UpToDate
      else if status = ''SWHardeningNeeded'' then Inr SwHardeningNeeded
      else if status = ''ConfigurationNeeded'' then Inr ConfigurationNeeded
      else if status = ''ConfigurationAndSWHardeningNeeded'' then Inr ConfigurationAndSwHardeningNeeded
      else if status = ''OutOfDate'' then Inr OutOfDate
      else if status = ''OutOfDateConfigurationNeeded'' then Inr OutOfDateConfigurationNeeded
      else if status = ''TDRelaunchAdvised'' then Inr TdRelaunchAdvised
      else if status = ''TDRelaunchAdvisedConfigurationNeeded'' then Inr TdRelaunchAdvisedConfigurationNeeded
      else if status = ''Revoked'' then Inr Revoked
      else if status = ''Unknown'' then Inr Unknown
      else fail (QuoteInvalidResult ''unsupported_tcb_status''))"

definition verify_tdx_quote :: "('c, 'z) dcap_prims_scheme \<Rightarrow> string \<Rightarrow> string \<Rightarrow> tdx_quote ver" where
  "verify_tdx_quote P pccs_url intel_quote =
     rbind (ok_or (QuoteVerificationFailed ''invalid_encoding'') (decode_hex P intel_quote)) (\<lambda>quote_bytes.
     rbind (ensure (dcap_parse P quote_bytes) (QuoteVerificationFailed ''invalid_quote'')) (\<lambda>_.
     rbind (ok_or QuoteCollateralUnavailable (dcap_collateral P pccs_url quote_bytes)) (\<lambda>collateral.
     rbind (ok_or (QuoteVerificationFailed ''verifier_error'') (unix_time P)) (\<lambda>current_time.
     rbind (ok_or (QuoteVerificationFailed ''verifier_error'')
              (dcap_verify P quote_bytes collateral current_time)) (\<lambda>verified.
     rbind (ok_or QuoteUnsupportedReportType (vr_td10 verified)) (\<lambda>td10.
     rbind (parse_tcb_status (vr_status verified)) (\<lambda>tcb_status.
     rbind (index_at (td_attributes td10) 0) (\<lambda>attributes.
     Inr \<lparr>q_tcb_status = tcb_status, q_advisory_ids = vr_advisory_ids verified,
          q_debug_enabled = (attributes AND 0x01 \<noteq> 0),
          q_report_data = td_report_data td10, q_mr_config_id = td_mr_config_id td10,
          q_rt_mr3 = td_rt_mr3 td10\<rparr>))))))))"

section \<open>What success means\<close>

text \<open>The TCB status names are distinct: a status is parsed from exactly one text.\<close>

definition tcb_status_name :: "tcb_status \<Rightarrow> string" where
  "tcb_status_name s = (case s of
      UpToDate \<Rightarrow> ''UpToDate'' | SwHardeningNeeded \<Rightarrow> ''SWHardeningNeeded''
    | ConfigurationNeeded \<Rightarrow> ''ConfigurationNeeded''
    | ConfigurationAndSwHardeningNeeded \<Rightarrow> ''ConfigurationAndSWHardeningNeeded''
    | OutOfDate \<Rightarrow> ''OutOfDate'' | OutOfDateConfigurationNeeded \<Rightarrow> ''OutOfDateConfigurationNeeded''
    | TdRelaunchAdvised \<Rightarrow> ''TDRelaunchAdvised''
    | TdRelaunchAdvisedConfigurationNeeded \<Rightarrow> ''TDRelaunchAdvisedConfigurationNeeded''
    | Revoked \<Rightarrow> ''Revoked'' | Unknown \<Rightarrow> ''Unknown'')"

lemma parse_tcb_status_ok: "parse_tcb_status t = Inr s \<longleftrightarrow> t = tcb_status_name s"
proof
  show "parse_tcb_status t = Inr s \<Longrightarrow> t = tcb_status_name s"
    by (auto simp: parse_tcb_status_def tcb_status_name_def split: if_splits)
  show "t = tcb_status_name s \<Longrightarrow> parse_tcb_status t = Inr s"
    by (cases s) (simp_all add: parse_tcb_status_def tcb_status_name_def)
qed

lemma panics_parse_tcb_status [simp]: "\<not> panics (parse_tcb_status t)"
  by (simp add: parse_tcb_status_def)

text \<open>A quote DCAP accepts at this time, against collateral of this server.\<close>

definition dcap_accepts :: "('c, 'z) dcap_prims_scheme \<Rightarrow> string \<Rightarrow> bytes \<Rightarrow> verified_report \<Rightarrow> bool" where
  "dcap_accepts P pccs_url quote report \<longleftrightarrow>
     (\<exists>c t. dcap_collateral P pccs_url quote = Some c \<and> unix_time P = Some t
        \<and> dcap_verify P quote c t = Some report)"

lemma verify_tdx_quote_ok:
  "verify_tdx_quote P url intel = Inr q \<longleftrightarrow>
     (\<exists>quote report td.
        decode_hex P intel = Some quote \<and> dcap_parse P quote \<and> dcap_accepts P url quote report
        \<and> vr_td10 report = Some td \<and> vr_status report = tcb_status_name (q_tcb_status q)
        \<and> td_attributes td \<noteq> [] \<and> (q_debug_enabled q \<longleftrightarrow> td_attributes td ! 0 AND 1 \<noteq> 0)
        \<and> q_advisory_ids q = vr_advisory_ids report \<and> q_report_data q = td_report_data td
        \<and> q_mr_config_id q = td_mr_config_id td \<and> q_rt_mr3 q = td_rt_mr3 td)"
  by (cases q) (auto simp: verify_tdx_quote_def outcome_simps parse_tcb_status_ok dcap_accepts_def)

section \<open>The instance\<close>

definition demo_dcap :: "unit dcap_prims" where
  "demo_dcap = net_prims.extend demo_net (dcap_prims.fields (\<lambda>_. True) (\<lambda>_ _. Some ()) (\<lambda>_ _ _. None) (Some 0))"

declare demo_dcap_def [demo_defs] dcap_prims.defs [demo_defs]

end
