(* ===== verification/Attestation.thy ===== *)
theory Attestation
  imports Bindings Event_Log Quote
begin

text \<open>
  \<open>attestation.rs\<close> and \<open>deployment_verifier.rs\<close>: the checks every report goes through.
  A caller's \<open>TdxQuoteVerifier\<close> and \<open>DeploymentVerifier\<close> are functions; without the first
  the built-in verifier of \<open>quote.rs\<close> runs.
\<close>

type_synonym tdx_verifier = "string \<Rightarrow> tdx_quote ver"
type_synonym deployment_verifier = "measured_deployment \<Rightarrow> unit ver"

definition default_accepted_tcb_statuses :: "tcb_status list" where
  "default_accepted_tcb_statuses = [UpToDate, OutOfDate, TdRelaunchAdvised]"

record verified_dstack_quote =
  vq_attestation :: attestation_evidence
  vq_quote :: tdx_quote
  vq_signer :: signing_identity

definition accepted_statuses :: "attestation_policy option \<Rightarrow> tcb_status list" where
  "accepted_statuses policy =
     or_else default_accepted_tcb_statuses (Option.bind policy accepted_tcb_statuses)"

definition verify_tdx_quote_policy ::
  "('c, 'z) dcap_prims_scheme \<Rightarrow> string \<Rightarrow> attestation_policy option \<Rightarrow> tdx_verifier option \<Rightarrow> tdx_quote ver" where
  "verify_tdx_quote_policy P intel_quote policy tdx_quote_verifier =
     (let verifier = or_else (verify_tdx_quote P default_intel_pccs_url) tdx_quote_verifier in
      rbind (verifier intel_quote) (\<lambda>quote.
      rbind (ensure (\<not> q_debug_enabled quote) DebugEnabled) (\<lambda>_.
      let accepted = accepted_statuses policy in
      rbind (ensure (q_tcb_status quote \<in> set accepted)
               (TcbStatusNotAllowed (q_tcb_status quote) accepted (q_advisory_ids quote))) (\<lambda>_.
      Inr quote))))"

definition verify_dstack_quote ::
  "('c, 'z) dcap_prims_scheme \<Rightarrow> attestation_evidence \<Rightarrow> string \<Rightarrow> attestation_policy option
     \<Rightarrow> tdx_verifier option \<Rightarrow> string option \<Rightarrow> verified_dstack_quote ver" where
  "verify_dstack_quote P attestation nonce policy tdx_quote_verifier advertised_report_data =
     rbind (verify_reported_nonce P (ev_nonce attestation) nonce ''attestation_nonce'') (\<lambda>_.
     rbind (validate_signing_identity P (ev_signer attestation)) (\<lambda>signer.
     rbind (verify_tdx_quote_policy P (ev_intel_quote attestation) policy tdx_quote_verifier) (\<lambda>quote.
     rbind (verify_advertised_report_data P advertised_report_data (q_report_data quote)) (\<lambda>_.
     Inr \<lparr>vq_attestation = attestation, vq_quote = quote, vq_signer = signer\<rparr>))))"

definition verify_dstack_deployment :: "'z prims_scheme \<Rightarrow> verified_dstack_quote \<Rightarrow> measured_deployment ver" where
  "verify_dstack_deployment P verified =
     rbind (verify_and_replay_rtmr3 P (ev_event_log (vq_attestation verified))
              (q_rt_mr3 (vq_quote verified))) (\<lambda>runtime_measurements.
     rbind (verify_app_compose_mrconfigid_binding P (ev_app_compose (vq_attestation verified))
              (q_mr_config_id (vq_quote verified))) (\<lambda>_.
     Inr \<lparr>md_compose_manager = None, md_app_compose = ev_app_compose (vq_attestation verified),
          md_runtime_measurements = runtime_measurements\<rparr>))"

definition run_deployment_verifier ::
  "measured_deployment \<Rightarrow> deployment_verifier option \<Rightarrow> deployment_provenance_status ver" where
  "run_deployment_verifier deployment verifier =
     (case verifier of
        Some verify \<Rightarrow> rbind (verify deployment) (\<lambda>_. Inr Provenance_Verified)
      | None \<Rightarrow> Inr NotChecked)"

section \<open>What success means\<close>

text \<open>A quote the verifier in force returned, in production mode, with a status the policy accepts.\<close>

definition quote_trusted ::
  "('c, 'z) dcap_prims_scheme \<Rightarrow> string \<Rightarrow> attestation_policy option \<Rightarrow> tdx_verifier option \<Rightarrow> tdx_quote \<Rightarrow> bool" where
  "quote_trusted P intel policy verifier q \<longleftrightarrow>
     or_else (verify_tdx_quote P default_intel_pccs_url) verifier intel = Inr q
     \<and> \<not> q_debug_enabled q \<and> q_tcb_status q \<in> set (accepted_statuses policy)"

lemma verify_tdx_quote_policy_ok [binding_ok]:
  "verify_tdx_quote_policy P intel policy verifier = Inr q \<longleftrightarrow> quote_trusted P intel policy verifier q"
  by (auto simp: verify_tdx_quote_policy_def quote_trusted_def outcome_simps Let_def)

text \<open>The signer's address has its algorithm's length, and the report echoes the client's nonce.\<close>

definition evidence_fresh :: "'z prims_scheme \<Rightarrow> attestation_evidence \<Rightarrow> string \<Rightarrow> bytes \<Rightarrow> bytes \<Rightarrow> bool" where
  "evidence_fresh P ev nonce n a \<longleftrightarrow>
     decode_hex P nonce = Some n \<and> decode_hex P (ev_nonce ev) = Some n \<and> length n = 32
     \<and> decode_hex P (si_address (ev_signer ev)) = Some a \<and> length a = address_length (si_algo (ev_signer ev))"

lemma address_length_le_32 [simp]: "address_length algo \<le> 32"
  by (simp add: address_length_def split: signing_algo.split)

lemma evidence_fresh_length: "evidence_fresh P ev nonce n a \<Longrightarrow> length a \<le> 32"
  by (simp add: evidence_fresh_def)

lemma verify_dstack_quote_ok [binding_ok]:
  "verify_dstack_quote P ev nonce policy verifier adv = Inr v \<longleftrightarrow>
     (\<exists>n a q. evidence_fresh P ev nonce n a \<and> quote_trusted P (ev_intel_quote ev) policy verifier q
        \<and> (\<forall>t. adv = Some t \<longrightarrow> decode_hex P t = Some (q_report_data q) \<and> length (q_report_data q) = 64)
        \<and> v = \<lparr>vq_attestation = ev, vq_quote = q, vq_signer = ev_signer ev\<rparr>)"
  by (auto simp: verify_dstack_quote_def outcome_simps binding_ok evidence_fresh_def)

text \<open>
  The deployment a quote measures: RTMR3 is the chain of the digests of the log's RTMR3
  events, the measurements are those of the log, and \<open>MRCONFIGID\<close> holds version 1 and the hash
  of the compose file.
\<close>

definition deployment_measured ::
  "'z prims_scheme \<Rightarrow> tdx_quote \<Rightarrow> attestation_event_log \<Rightarrow> string \<Rightarrow> runtime_measurements \<Rightarrow> bool" where
  "deployment_measured P q log app_compose m \<longleftrightarrow>
     verify_and_replay_rtmr3 P log (q_rt_mr3 q) = Inr m
     \<and> 33 \<le> length (q_mr_config_id q) \<and> q_mr_config_id q ! 0 = 1
     \<and> take 32 (drop 1 (q_mr_config_id q)) = sha256 P (as_bytes app_compose)"

lemma verify_dstack_deployment_ok [binding_ok]:
  "verify_dstack_deployment P v = Inr d \<longleftrightarrow>
     deployment_measured P (vq_quote v) (ev_event_log (vq_attestation v)) (ev_app_compose (vq_attestation v))
       (md_runtime_measurements d)
     \<and> md_compose_manager d = None \<and> md_app_compose d = ev_app_compose (vq_attestation v)"
  by (auto simp: verify_dstack_deployment_def deployment_measured_def outcome_simps binding_ok)

lemma run_deployment_verifier_ok [binding_ok]:
  "run_deployment_verifier d verifier = Inr s \<longleftrightarrow>
     (case verifier of None \<Rightarrow> s = NotChecked | Some f \<Rightarrow> f d = Inr () \<and> s = Provenance_Verified)"
  by (auto simp: run_deployment_verifier_def outcome_simps split: option.split)

section \<open>Panics\<close>

lemma parse_event_log_no_panic [simp]: "\<not> panics (parse_event_log P log)"
proof -
  have o: "\<not> panics (optional_string v f p)" "\<not> panics (optional_u32 v f p)" for v f p
    by (auto simp: optional_string_def optional_u32_def split: option.split json.split)
  have "\<not> panics (parse_event_log_entry v i)" for v i
    by (simp add: parse_event_log_entry_def Let_def o required_string_def required_u32_def)
  then show ?thesis
    by (auto simp: parse_event_log_def intro!: panics_traverse split: attestation_event_log.splits)
qed

lemma event_digest_no_panic [simp]: "\<not> panics (event_digest P e)"
  by (auto simp: event_digest_def decode_event_hex_def Let_def)

lemma replay_events_no_panic [simp]: "\<not> panics (replay_events P es r n m)"
  by (induction es arbitrary: r n m) auto

lemma verify_and_replay_no_panic [simp]: "\<not> panics (verify_and_replay_rtmr3 P log q)"
  by (auto simp: verify_and_replay_rtmr3_def)

lemma verify_dstack_deployment_no_panic [simp]: "\<not> panics (verify_dstack_deployment P v)"
  by (simp add: verify_dstack_deployment_def)

text \<open>Only the caller's verifier (or DCAP's attribute field, which has eight bytes) could panic.\<close>

definition verifier_total :: "(string \<Rightarrow> 'a ver) \<Rightarrow> bool" where
  "verifier_total f \<longleftrightarrow> (\<forall>x. \<not> panics (f x))"

lemma verify_dstack_quote_no_panic:
  "verifier_total (or_else (verify_tdx_quote P default_intel_pccs_url) verifier) \<Longrightarrow>
   \<not> panics (verify_dstack_quote P ev nonce policy verifier adv)"
  by (simp add: verify_dstack_quote_def verify_tdx_quote_policy_def verifier_total_def Let_def)

end
