(* ===== verification/Json_Text.thy ===== *)
theory Json_Text
  imports Json
begin

text \<open>
  Documents as \<open>serde_json\<close> can hold and print them: the literal of a number follows the grammar of JSON (with
  \<open>arbitrary_precision\<close> it is kept as it is), a string is the UTF-8 bytes of a Rust string, and no key is the reserved name
  under which that feature passes numbers. What the development relies on of the printer is stated for such documents only.
\<close>

section \<open>Documents\<close>

fun skip_digits :: "string \<Rightarrow> string" where
  "skip_digits [] = []"
| "skip_digits (c # cs) = (if is_digit c then skip_digits cs else c # cs)"

definition some_digits :: "string \<Rightarrow> string option" where
  "some_digits t = (case t of [] \<Rightarrow> None | c # cs \<Rightarrow> if is_digit c then Some (skip_digits cs) else None)"

definition integer_part :: "string \<Rightarrow> string option" where
  "integer_part t = (case t of c # cs \<Rightarrow> if c = CHR ''0'' then Some cs else some_digits t | [] \<Rightarrow> None)"

definition fraction_part :: "string \<Rightarrow> string option" where
  "fraction_part t = (case t of c # cs \<Rightarrow> if c = CHR ''.'' then some_digits cs else Some t | [] \<Rightarrow> Some [])"

definition exponent_part :: "string \<Rightarrow> string option" where
  "exponent_part t =
     (case t of
        [] \<Rightarrow> Some []
      | c # cs \<Rightarrow> if c \<notin> {CHR ''e'', CHR ''E''} then Some t
          else some_digits (case cs of s # ds \<Rightarrow> if s \<in> {CHR ''+'', CHR ''-''} then ds else cs | [] \<Rightarrow> []))"

definition number_literal :: "string \<Rightarrow> bool" where
  "number_literal t \<longleftrightarrow>
     Option.bind (integer_part (or_else t (strip_prefix ''-'' t))) (\<lambda>t.
     Option.bind (fraction_part t) exponent_part) = Some []"

definition rust_string :: "string \<Rightarrow> bool" where
  "rust_string s \<longleftrightarrow> utf8_valid (as_bytes s)"

lemma rust_ascii: "list_all (\<lambda>c. (of_char c :: nat) < 128) s \<Longrightarrow> rust_string s"
  by (induction s) (simp_all add: rust_string_def utf8_valid.simps(2) [of "byte_of c" for c] unat_byte_of)

definition number_key :: string where
  "number_key = ''$serde_json::private::Number''"

fun serde_document :: "json \<Rightarrow> bool" where
  "serde_document JNull \<longleftrightarrow> True"
| "serde_document (JBool _) \<longleftrightarrow> True"
| "serde_document (JNum t) \<longleftrightarrow> number_literal t"
| "serde_document (JStr s) \<longleftrightarrow> rust_string s"
| "serde_document (JArr xs) \<longleftrightarrow> (\<forall>x \<in> set xs. serde_document x)"
| "serde_document (JObj kvs) \<longleftrightarrow> (\<forall>(k, v) \<in> set kvs. rust_string k \<and> k \<noteq> number_key \<and> serde_document v)"

text \<open>How deep arrays and objects nest: the reader refuses more than 127 levels.\<close>

fun nesting :: "json \<Rightarrow> nat" where
  "nesting (JArr xs) = Suc (foldr (\<lambda>x n. max (nesting x) n) xs 0)"
| "nesting (JObj kvs) = Suc (foldr (\<lambda>(k, v) n. max (nesting v) n) kvs 0)"
| "nesting _ = 0"

definition readable :: "json \<Rightarrow> bool" where
  "readable j \<longleftrightarrow> serde_document j \<and> nesting j \<le> 127"

section \<open>The printer\<close>

text \<open>Documented behaviour of \<open>serde_json::to_vec\<close>: it writes JSON, whose grammar is unambiguous, without spaces.\<close>

definition prints_uniquely :: "'z prims_scheme \<Rightarrow> bool" where
  "prints_uniquely P \<longleftrightarrow> (\<forall>i j. serde_document i \<and> serde_document j \<and> json_print P i = json_print P j \<longrightarrow> i = j)"

end
