(* ===== verification/Compose_Manager.thy ===== *)
theory Compose_Manager
  imports Attestation Json_Text
begin

text \<open>
  \<open>compose_manager.rs\<close>: the action log Compose Manager reports, bound to a quote through the
  hash of its canonical JSON text. An action is serialised as an object whose keys are in
  byte order (a \<open>BTreeMap\<close>), the absent fields left out and the unknown fields kept.
\<close>

section \<open>Ordered objects\<close>

fun str_less :: "string \<Rightarrow> string \<Rightarrow> bool" where
  "str_less _ [] = False"
| "str_less [] (_ # _) = True"
| "str_less (x # xs) (y # ys) =
     ((of_char x :: nat) < of_char y \<or> (x = y \<and> str_less xs ys))"

text \<open>\<open>BTreeMap::insert\<close>\<close>

fun bt_insert :: "string \<Rightarrow> 'v \<Rightarrow> (string \<times> 'v) list \<Rightarrow> (string \<times> 'v) list" where
  "bt_insert k v [] = [(k, v)]"
| "bt_insert k v ((k', v') # kvs) =
     (if k = k' then (k, v) # kvs
      else if str_less k k' then (k, v) # (k', v') # kvs
      else (k', v') # bt_insert k v kvs)"

definition bt_insert_opt :: "string \<Rightarrow> 'v option \<Rightarrow> (string \<times> 'v) list \<Rightarrow> (string \<times> 'v) list" where
  "bt_insert_opt k v kvs = (case v of None \<Rightarrow> kvs | Some x \<Rightarrow> bt_insert k x kvs)"

section \<open>Canonical form\<close>

fun action_value_json :: "action_value \<Rightarrow> json" where
  "action_value_json (Action_String s) = JStr s"
| "action_value_json (Action_Strings ss) = JArr (map JStr ss)"

text \<open>\<open>#[derive(Serialize)]\<close>: the fields in order, then the flattened rest.\<close>

definition action_object :: "compose_manager_action \<Rightarrow> (string \<times> json) list" where
  "action_object a =
     fold (\<lambda>(k, v). bt_insert k (action_value_json v)) (cma_extra a)
      (bt_insert_opt ''services'' (map_option (\<lambda>ss. JArr (map JStr ss)) (cma_services a))
      (bt_insert_opt ''image'' (map_option JStr (cma_image a))
      (bt_insert_opt ''file_sha256'' (map_option JStr (cma_file_sha256 a))
      (bt_insert_opt ''file'' (map_option JStr (cma_file a))
      (bt_insert_opt ''commit'' (map_option JStr (cma_commit a))
      (bt_insert ''timestamp'' (JStr (cma_timestamp a))
      (bt_insert ''action'' (JStr (cma_action a)) [])))))))"

definition canonical_actions :: "'z prims_scheme \<Rightarrow> compose_manager_action list \<Rightarrow> bytes" where
  "canonical_actions P actions = as_bytes (json_print P (JArr (map (JObj \<circ> action_object) actions)))"

definition verify_compose_manager_attestation ::
  "('c, 'z) dcap_prims_scheme \<Rightarrow> compose_manager_attestation \<Rightarrow> string \<Rightarrow> string
     \<Rightarrow> attestation_policy option \<Rightarrow> tdx_verifier option \<Rightarrow> verified_compose_manager ver" where
  "verify_compose_manager_attestation P attestation app_compose nonce policy verifier =
     rbind (verify_reported_nonce P (cm_nonce attestation) nonce ''compose_manager_attestation'') (\<lambda>_.
     rbind (verify_tdx_quote_policy P (cm_intel_quote attestation) policy verifier) (\<lambda>quote.
     rbind (verify_advertised_report_data P (cm_reported_quote_data attestation) (q_report_data quote)) (\<lambda>_.
     rbind (verify_quote_report_data_nonce P (q_report_data quote) nonce) (\<lambda>_.
     let hash = sha256 P (canonical_actions P (cm_actions attestation)) in
     rbind (ok_or ComposeManagerActionsMismatch (require_hex_length P (cm_actions_hash attestation) 32)) (\<lambda>reported_hash.
     rbind (ensure (hash = reported_hash) ComposeManagerActionsMismatch) (\<lambda>_.
     rbind (slice_to 32 (q_report_data quote)) (\<lambda>head.
     rbind (ensure (head = hash) ComposeManagerActionsMismatch) (\<lambda>_.
     rbind (verify_app_compose_mrconfigid_binding P app_compose (q_mr_config_id quote)) (\<lambda>_.
     rbind (verify_and_replay_rtmr3 P (cm_event_log attestation) (q_rt_mr3 quote)) (\<lambda>runtime_measurements.
     Inr \<lparr>vcm_actions = cm_actions attestation, vcm_tcb_status = q_tcb_status quote,
          vcm_advisory_ids = q_advisory_ids quote,
          vcm_runtime_measurements = runtime_measurements\<rparr>))))))))))"

section \<open>What success means\<close>

text \<open>The quote's report data is the hash of the canonical actions followed by the client's nonce.\<close>

definition actions_quoted ::
  "('c, 'z) dcap_prims_scheme \<Rightarrow> compose_manager_attestation \<Rightarrow> string \<Rightarrow> string
     \<Rightarrow> attestation_policy option \<Rightarrow> tdx_verifier option \<Rightarrow> tdx_quote \<Rightarrow> bool" where
  "actions_quoted P att app_compose nonce policy verifier q \<longleftrightarrow>
     quote_trusted P (cm_intel_quote att) policy verifier q
     \<and> (\<exists>n. decode_hex P nonce = Some n \<and> decode_hex P (cm_nonce att) = Some n \<and> length n = 32
          \<and> q_report_data q = sha256 P (canonical_actions P (cm_actions att)) @ n)
     \<and> length (sha256 P (canonical_actions P (cm_actions att))) = 32
     \<and> decode_hex P (cm_actions_hash att) = Some (sha256 P (canonical_actions P (cm_actions att)))
     \<and> (\<forall>t. cm_reported_quote_data att = Some t \<longrightarrow> decode_hex P t = Some (q_report_data q))"

lemma verify_compose_manager_ok [binding_ok]:
  "verify_compose_manager_attestation P att compose nonce policy verifier = Inr v \<longleftrightarrow>
     (\<exists>q m. actions_quoted P att compose nonce policy verifier q
        \<and> deployment_measured P q (cm_event_log att) compose m
        \<and> v = \<lparr>vcm_actions = cm_actions att, vcm_tcb_status = q_tcb_status q,
               vcm_advisory_ids = q_advisory_ids q, vcm_runtime_measurements = m\<rparr>)"
proof -
  let ?h = "sha256 P (canonical_actions P (cm_actions att))"
  have split: "d = h @ n \<longleftrightarrow> take 32 d = h \<and> drop 32 d = n" if "length h = 32" for d h n :: bytes
    using that by (metis append_eq_conv_conj append_take_drop_id)
  have flat: "actions_quoted P att compose nonce policy verifier q \<longleftrightarrow>
      quote_trusted P (cm_intel_quote att) policy verifier q \<and> length (q_report_data q) = 64
      \<and> decode_hex P nonce = Some (drop 32 (q_report_data q))
      \<and> decode_hex P (cm_nonce att) = Some (drop 32 (q_report_data q))
      \<and> take 32 (q_report_data q) = ?h \<and> length ?h = 32
      \<and> decode_hex P (cm_actions_hash att) = Some ?h
      \<and> (\<forall>t. cm_reported_quote_data att = Some t \<longrightarrow> decode_hex P t = Some (q_report_data q))" for q
    unfolding actions_quoted_def by (cases "length ?h = 32") (auto simp: split)
  show ?thesis
    unfolding verify_compose_manager_attestation_def deployment_measured_def flat
    by (auto simp: outcome_simps binding_ok str_simps Let_def)
qed

lemma verify_compose_manager_no_panic:
  assumes "verifier_total (or_else (verify_tdx_quote P default_intel_pccs_url) verifier)"
  shows "\<not> panics (verify_compose_manager_attestation P att compose nonce policy verifier)"
  using assms
  by (auto simp: verify_compose_manager_attestation_def verify_tdx_quote_policy_def Let_def
      verifier_total_def binding_ok verify_quote_report_data_nonce_def outcome_simps str_simps)

section \<open>The canonical form determines the actions\<close>

definition known_fields :: "string list" where
  "known_fields = [''action'', ''timestamp'', ''commit'', ''file'', ''file_sha256'', ''image'', ''services'']"

fun ordered_keys :: "(string \<times> 'v) list \<Rightarrow> bool" where
  "ordered_keys [] = True"
| "ordered_keys ((k, v) # kvs) \<longleftrightarrow> (\<forall>k' \<in> fst ` set kvs. str_less k k') \<and> ordered_keys kvs"

text \<open>
  An action as the code can hold it after reading one: its texts are Rust strings, and the extra fields are a
  \<open>BTreeMap\<close> without the names of the struct's own fields and without \<open>serde_json\<close>'s reserved key.
\<close>

fun value_texts :: "action_value \<Rightarrow> string list" where
  "value_texts (Action_String s) = [s]"
| "value_texts (Action_Strings ss) = ss"

definition action_texts :: "compose_manager_action \<Rightarrow> string list" where
  "action_texts a = cma_action a # cma_timestamp a
     # concat (map (case_option [] (\<lambda>t. [t])) [cma_commit a, cma_file a, cma_file_sha256 a, cma_image a])
     @ case_option [] id (cma_services a) @ concat (map (\<lambda>(k, v). k # value_texts v) (cma_extra a))"

definition action_wf :: "compose_manager_action \<Rightarrow> bool" where
  "action_wf a \<longleftrightarrow> ordered_keys (cma_extra a) \<and> (\<forall>k \<in> fst ` set (cma_extra a). k \<notin> set known_fields \<and> k \<noteq> number_key)
     \<and> list_all rust_string (action_texts a)"

lemma str_less_irrefl [simp]: "\<not> str_less k k"
  by (induction k) auto

lemma str_less_trans: "str_less a b \<Longrightarrow> str_less b c \<Longrightarrow> str_less a c"
proof (induction a b arbitrary: c rule: str_less.induct)
  case (2 y ys)
  then show ?case by (cases c) auto
next
  case (3 x xs y ys)
  then show ?case by (cases c) (auto intro: less_trans)
qed simp

lemma str_less_total: "a \<noteq> b \<Longrightarrow> \<not> str_less a b \<Longrightarrow> str_less b a"
proof (induction a b rule: str_less.induct)
  case (1 a)
  then show ?case by (cases a) auto
next
  case (3 x xs y ys)
  have "(of_char x :: nat) = of_char y \<longleftrightarrow> x = y" by simp
  with 3 show ?case by (auto simp: not_less less_le)
qed simp

lemma map_of_bt_insert [simp]: "map_of (bt_insert k v kvs) = (map_of kvs)(k \<mapsto> v)"
  by (induction k v kvs rule: bt_insert.induct) auto

lemma keys_bt_insert [simp]: "fst ` set (bt_insert k v kvs) = insert k (fst ` set kvs)"
  by (induction k v kvs rule: bt_insert.induct) auto

lemma map_of_bt_insert_opt [simp]:
  "map_of (bt_insert_opt k v kvs) = (case v of None \<Rightarrow> map_of kvs | Some x \<Rightarrow> (map_of kvs)(k \<mapsto> x))"
  by (simp add: bt_insert_opt_def split: option.split)

lemma map_of_fold_bt_insert:
  "map_of (fold (\<lambda>(k, v). bt_insert k (f v)) es kvs) k =
     (case map_of (rev es) k of Some v \<Rightarrow> Some (f v) | None \<Rightarrow> map_of kvs k)"
proof (induction es arbitrary: kvs)
  case (Cons e es)
  then show ?case by (cases e) (auto simp: map_add_def split: option.split)
qed simp

lemma ordered_keys_distinct: "ordered_keys kvs \<Longrightarrow> distinct (map fst kvs)"
  by (induction kvs rule: ordered_keys.induct) auto

lemma ordered_keys_eq:
  "ordered_keys xs \<Longrightarrow> ordered_keys ys \<Longrightarrow> map_of xs = map_of ys \<Longrightarrow> xs = ys"
proof (induction xs arbitrary: ys)
  case Nil
  have "map_of ys k = None" for k using fun_cong [OF Nil.prems(3), of k] by simp
  then have "set ys = {}" unfolding map_of_eq_None_iff by force
  then show ?case by simp
next
  case (Cons x xs)
  obtain k v where x: "x = (k, v)" by fastforce
  have "ys \<noteq> []" using fun_cong [OF Cons.prems(3), of k] x by auto
  then obtain k' v' zs where ys: "ys = (k', v') # zs" by (cases ys) auto
  have dom: "insert k (fst ` set xs) = insert k' (fst ` set zs)"
    using arg_cong [OF Cons.prems(3), of dom] x ys unfolding dom_map_of_conv_image_fst by simp
  have "k = k'"
  proof (rule ccontr)
    assume "k \<noteq> k'"
    with dom have "k \<in> fst ` set zs" "k' \<in> fst ` set xs" by auto
    then have "str_less k' k" "str_less k k'" using Cons.prems(1,2) x ys by auto
    then show False using str_less_trans str_less_irrefl by blast
  qed
  have n: "k \<notin> fst ` set xs" "k \<notin> fst ` set zs"
    using Cons.prems(1,2) x ys \<open>k = k'\<close> by auto
  have "v = v'" using Cons.prems(3) x ys \<open>k = k'\<close> by (auto simp: fun_eq_iff dest: spec [of _ k])
  have "map_of xs i = map_of zs i" for i
    using fun_cong [OF Cons.prems(3), of i] x ys \<open>k = k'\<close> n
    by (cases "i = k") (auto simp: map_of_eq_None_iff [THEN iffD2])
  then have "xs = zs" using Cons.IH Cons.prems(1,2) x ys by (simp add: ext)
  with x ys \<open>k = k'\<close> \<open>v = v'\<close> show ?case by simp
qed

lemma action_value_json_inject [simp]: "action_value_json v = action_value_json w \<longleftrightarrow> v = w"
  by (cases v; cases w) (auto simp: inj_map_eq_map inj_def)

lemma map_of_rev_ordered: "ordered_keys es \<Longrightarrow> map_of (rev es) = map_of es"
  by (rule map_of_inject_set [THEN iffD2])
    (auto simp: ordered_keys_distinct rev_map [symmetric])

lemma JStr_map_inject [simp]: "map JStr xs = map JStr ys \<longleftrightarrow> xs = ys"
  by (simp add: inj_map_eq_map inj_def)

lemma map_option_JStr_inject [simp]: "map_option JStr x = map_option JStr y \<longleftrightarrow> x = y"
  by (cases x; cases y) auto

lemma map_option_JArr_inject [simp]:
  "map_option (\<lambda>ss. JArr (map JStr ss)) x = map_option (\<lambda>ss. JArr (map JStr ss)) y \<longleftrightarrow> x = y"
  by (cases x; cases y) auto

text \<open>The lookups the canonical object answers.\<close>

lemma action_object_lookup:
  assumes "action_wf a"
  shows "map_of (action_object a) ''action'' = Some (JStr (cma_action a))"
    "map_of (action_object a) ''timestamp'' = Some (JStr (cma_timestamp a))"
    "map_of (action_object a) ''commit'' = map_option JStr (cma_commit a)"
    "map_of (action_object a) ''file'' = map_option JStr (cma_file a)"
    "map_of (action_object a) ''file_sha256'' = map_option JStr (cma_file_sha256 a)"
    "map_of (action_object a) ''image'' = map_option JStr (cma_image a)"
    "map_of (action_object a) ''services'' = map_option (\<lambda>ss. JArr (map JStr ss)) (cma_services a)"
    "k \<notin> set known_fields \<Longrightarrow> map_of (action_object a) k = map_option action_value_json (map_of (cma_extra a) k)"
proof -
  have none: "map_of (cma_extra a) f = None" if "f \<in> set known_fields" for f
    using assms that unfolding action_wf_def map_of_eq_None_iff by blast
  note step = action_object_def map_of_fold_bt_insert map_of_rev_ordered [OF assms [unfolded action_wf_def, THEN conjunct1]]
  show "map_of (action_object a) ''action'' = Some (JStr (cma_action a))"
    by (simp add: step none known_fields_def split: option.split)
  show "map_of (action_object a) ''timestamp'' = Some (JStr (cma_timestamp a))"
    by (simp add: step none known_fields_def split: option.split)
  show "map_of (action_object a) ''commit'' = map_option JStr (cma_commit a)"
    by (simp add: step none known_fields_def split: option.split)
  show "map_of (action_object a) ''file'' = map_option JStr (cma_file a)"
    by (simp add: step none known_fields_def split: option.split)
  show "map_of (action_object a) ''file_sha256'' = map_option JStr (cma_file_sha256 a)"
    by (simp add: step none known_fields_def split: option.split)
  show "map_of (action_object a) ''image'' = map_option JStr (cma_image a)"
    by (simp add: step none known_fields_def split: option.split)
  show "map_of (action_object a) ''services'' = map_option (\<lambda>ss. JArr (map JStr ss)) (cma_services a)"
    by (simp add: step none known_fields_def split: option.split)
  show "k \<notin> set known_fields \<Longrightarrow>
      map_of (action_object a) k = map_option action_value_json (map_of (cma_extra a) k)"
    by (simp add: step known_fields_def split: option.split)
qed

lemma action_object_inject:
  assumes "action_wf a" and "action_wf b" and eq: "action_object a = action_object b"
  shows "a = b"
proof -
  note la = action_object_lookup [OF assms(1)] and lb = action_object_lookup [OF assms(2)]
  have "map_of (cma_extra a) k = map_of (cma_extra b) k" for k
  proof (cases "k \<in> set known_fields")
    case True
    then show ?thesis using assms(1,2) by (metis action_wf_def map_of_eq_None_iff)
  next
    case False
    then have "map_option action_value_json (map_of (cma_extra a) k)
        = map_option action_value_json (map_of (cma_extra b) k)"
      using la(8) lb(8) eq by metis
    then show ?thesis by (cases "map_of (cma_extra a) k"; cases "map_of (cma_extra b) k") auto
  qed
  then have "cma_extra a = cma_extra b"
    using assms(1,2) by (auto simp: action_wf_def intro: ordered_keys_eq ext)
  moreover have "cma_action a = cma_action b" "cma_timestamp a = cma_timestamp b"
    using la(1,2) lb(1,2) eq by auto
  moreover have "cma_commit a = cma_commit b" "cma_file a = cma_file b"
      "cma_file_sha256 a = cma_file_sha256 b" "cma_image a = cma_image b" "cma_services a = cma_services b"
    using la(3-7) lb(3-7) eq by (metis map_option_JStr_inject map_option_JArr_inject)+
  ultimately show ?thesis by simp
qed

lemma bt_insert_set: "set (bt_insert k v kvs) \<subseteq> insert (k, v) (set kvs)"
  by (induction k v kvs rule: bt_insert.induct) auto

lemma document_bt_insert:
  "serde_document (JObj kvs) \<Longrightarrow> rust_string k \<Longrightarrow> k \<noteq> number_key \<Longrightarrow> serde_document v \<Longrightarrow> serde_document (JObj (bt_insert k v kvs))"
  using bt_insert_set [of k v kvs] by (auto dest: subsetD)

lemma document_bt_insert_opt:
  "serde_document (JObj kvs) \<Longrightarrow> rust_string k \<Longrightarrow> k \<noteq> number_key \<Longrightarrow> (\<And>v. x = Some v \<Longrightarrow> serde_document v)
     \<Longrightarrow> serde_document (JObj (bt_insert_opt k x kvs))"
  by (cases x) (auto simp only: bt_insert_opt_def option.case intro: document_bt_insert)

lemma document_bt_inserts:
  "serde_document (JObj kvs) \<Longrightarrow> (\<And>k v. (k, v) \<in> set es \<Longrightarrow> rust_string k \<and> k \<noteq> number_key \<and> serde_document (f v))
     \<Longrightarrow> serde_document (JObj (fold (\<lambda>(k, v). bt_insert k (f v)) es kvs))"
proof (induction es arbitrary: kvs)
  case (Cons e es)
  obtain k v where e: "e = (k, v)" by force
  show ?case
    unfolding e fold_Cons comp_def prod.case
    by (rule Cons.IH) (use Cons.prems e in \<open>auto simp del: serde_document.simps intro!: document_bt_insert\<close>)
qed simp

lemma known_field_keys: "k \<in> set known_fields \<Longrightarrow> rust_string k \<and> k \<noteq> number_key"
  by (auto simp: known_fields_def number_key_def rust_ascii)

lemma action_document:
  assumes "action_wf a"
  shows "serde_document (JObj (action_object a))"
proof -
  have texts: "rust_string t" if "t \<in> set (action_texts a)" for t
    using assms that by (simp add: action_wf_def list_all_iff)
  have keys: "rust_string k \<and> k \<noteq> number_key \<and> serde_document (action_value_json v)" if "(k, v) \<in> set (cma_extra a)" for k v
  proof -
    have "set (k # value_texts v) \<subseteq> set (action_texts a)" using that by (auto simp: action_texts_def)
    then have "rust_string k" "\<forall>t \<in> set (value_texts v). rust_string t" using texts by auto
    moreover have "k \<noteq> number_key" using assms that by (force simp: action_wf_def)
    ultimately show ?thesis by (cases v) auto
  qed
  have known: "rust_string k \<and> k \<noteq> number_key" if "k \<in> set known_fields" for k using that by (rule known_field_keys)
  note string = known [THEN conjunct1] and key = known [THEN conjunct2]
  have own: "serde_document (JStr (cma_action a))" "serde_document (JStr (cma_timestamp a))"
      "map_option JStr (cma_commit a) = Some v \<Longrightarrow> serde_document v" "map_option JStr (cma_file a) = Some v \<Longrightarrow> serde_document v"
      "map_option JStr (cma_file_sha256 a) = Some v \<Longrightarrow> serde_document v" "map_option JStr (cma_image a) = Some v \<Longrightarrow> serde_document v"
      "map_option (\<lambda>ss. JArr (map JStr ss)) (cma_services a) = Some v \<Longrightarrow> serde_document v" for v
    using texts by (auto simp: action_texts_def)
  note one = document_bt_insert [OF _ string key] and optional = document_bt_insert_opt [OF _ string key]
  have start: "serde_document (JObj [])" by simp
  note object = optional [OF optional [OF optional [OF optional [OF optional [OF one [OF one [OF start _ _ own(1)] _ _ own(2)] _ _ own(3)]
    _ _ own(4)] _ _ own(5)] _ _ own(6)] _ _ own(7)]
  show ?thesis
    unfolding action_object_def
    by (rule document_bt_inserts [OF object keys]) (simp_all add: known_fields_def)
qed

lemma canonical_actions_inject:
  assumes "prints_uniquely P" and "list_all action_wf as" and "list_all action_wf bs"
    and "canonical_actions P as = canonical_actions P bs"
  shows "as = bs"
proof -
  have "serde_document (JArr (map (JObj \<circ> action_object) cs))" if "list_all action_wf cs" for cs
    using that action_document by (auto simp: list_all_iff simp del: serde_document.simps(6))
  moreover have "json_print P (JArr (map (JObj \<circ> action_object) as)) = json_print P (JArr (map (JObj \<circ> action_object) bs))"
    using assms(4) by (simp add: canonical_actions_def)
  ultimately have "map (JObj \<circ> action_object) as = map (JObj \<circ> action_object) bs"
    using assms(1-3) unfolding prints_uniquely_def by blast
  then show ?thesis using assms(2,3)
  proof (induction as arbitrary: bs)
    case (Cons a as)
    then show ?case by (cases bs) (auto intro: action_object_inject)
  qed auto
qed

section \<open>Properties\<close>

text \<open>C15: A quote determines the Compose Manager actions. Two logs that verify with the same quote,
  read as the code reads them, hold the same list of actions, field for field and with the
  same unknown fields, unless the very texts the code hashes for them, the canonical JSON of either log, are two different
  byte strings with one SHA-256 digest.\<close>

lemma quote_determines_actions:
  assumes "prints_uniquely P"
    and "list_all action_wf (cm_actions att)" and "list_all action_wf (cm_actions att')"
    and "verify_compose_manager_attestation P att compose nonce policy verifier = Inr v"
    and "verify_compose_manager_attestation P att' compose' nonce' policy' verifier = Inr v'"
    and "cm_intel_quote att = cm_intel_quote att'"
  shows "vcm_actions v = vcm_actions v'
     \<or> canonical_actions P (cm_actions att) \<noteq> canonical_actions P (cm_actions att')
       \<and> sha256 P (canonical_actions P (cm_actions att)) = sha256 P (canonical_actions P (cm_actions att'))"
proof (cases "canonical_actions P (cm_actions att) = canonical_actions P (cm_actions att')")
  case True
  with canonical_actions_inject [OF assms(1-3)] assms(4,5) show ?thesis
    by (auto simp: verify_compose_manager_ok)
next
  case False
  from assms(4) obtain q where q: "actions_quoted P att compose nonce policy verifier q"
    by (auto simp: verify_compose_manager_ok)
  from assms(5) obtain q' where q': "actions_quoted P att' compose' nonce' policy' verifier q'"
    by (auto simp: verify_compose_manager_ok)
  from q q' assms(6) have "q = q'" by (auto simp: actions_quoted_def quote_trusted_def)
  with q q' have "sha256 P (canonical_actions P (cm_actions att)) = sha256 P (canonical_actions P (cm_actions att'))"
    by (auto simp: actions_quoted_def)
  with False show ?thesis by blast
qed

definition demo_action :: compose_manager_action where
  "demo_action = \<lparr>cma_action = ''up'', cma_timestamp = ''1'', cma_commit = None, cma_file = Some ''f'',
     cma_file_sha256 = None, cma_image = None, cma_services = None, cma_extra = [(''z'', Action_String ''1'')]\<rparr>"

definition demo_actions_hash :: bytes where
  "demo_actions_hash = sha256 demo_prims (canonical_actions demo_prims [demo_action])"

definition demo_manager :: compose_manager_attestation where
  "demo_manager = \<lparr>cm_actions = [demo_action], cm_actions_hash = demo_hex_encode demo_actions_hash,
     cm_nonce = replicate 64 (CHR ''0''), cm_intel_quote = [], cm_event_log = demo_log, cm_reported_quote_data = None\<rparr>"

definition demo_manager_verifier :: tdx_verifier where
  "demo_manager_verifier = (\<lambda>_. Inr \<lparr>q_tcb_status = UpToDate, q_advisory_ids = [], q_debug_enabled = False,
     q_report_data = demo_actions_hash @ replicate 32 0, q_mr_config_id = 1 # sha256 demo_prims [],
     q_rt_mr3 = demo_register\<rparr>)"

definition demo_verified_manager :: verified_compose_manager where
  "demo_verified_manager = \<lparr>vcm_actions = [demo_action], vcm_tcb_status = UpToDate, vcm_advisory_ids = [],
     vcm_runtime_measurements = demo_measurements\<rparr>"

lemma demo_manager_verifies:
  "verify_compose_manager_attestation demo_dcap demo_manager [] (replicate 64 (CHR ''0'')) None (Some demo_manager_verifier)
     = Inr demo_verified_manager"
  by code_simp

lemma quote_determines_actions_witness:
  "vcm_actions demo_verified_manager = vcm_actions demo_verified_manager
     \<or> canonical_actions demo_dcap (cm_actions demo_manager) \<noteq> canonical_actions demo_dcap (cm_actions demo_manager)
       \<and> sha256 demo_dcap (canonical_actions demo_dcap (cm_actions demo_manager))
         = sha256 demo_dcap (canonical_actions demo_dcap (cm_actions demo_manager))"
proof (rule quote_determines_actions [OF _ _ _ demo_manager_verifies demo_manager_verifies refl])
  have "json_print demo_dcap = put_json" by (simp add: demo_defs)
  moreover have "i = j" if "put_json i = put_json j" for i j
    by (metis demo_json_roundtrip option.inject that)
  ultimately show "prints_uniquely demo_dcap" by (simp only: prints_uniquely_def simp_thms) blast
  have "action_wf demo_action"
  proof -
    have "list_all rust_string (action_texts demo_action)"
      by (simp add: action_texts_def demo_action_def rust_ascii)
    then show ?thesis by (simp add: action_wf_def) (simp add: demo_action_def known_fields_def number_key_def)
  qed
  then show "list_all action_wf (cm_actions demo_manager)" "list_all action_wf (cm_actions demo_manager)"
    by (simp_all add: demo_manager_def)
qed

end
