(* ===== verification/Nvidia.thy ===== *)
theory Nvidia
  imports Quote
begin

text \<open>
  \<open>nvidia.rs\<close>: the built-in GPU evidence verifier. It submits the payload to NRAS, takes the
  overall token of the reply, and checks it under a key of NVIDIA's key set. The token
  library (\<open>jsonwebtoken\<close>) and the HTTP client are operations of the environment.
\<close>

datatype jwt_error_kind =
    ExpiredSignature | ImmatureSignature | InvalidSignature | InvalidAlgorithm | InvalidAlgorithmName
  | OtherJwtError

datatype jwt_algorithm = ES384 | OtherAlgorithm

record jwt_header =
  jh_alg :: jwt_algorithm
  jh_kid :: "string option"

record jwk =
  jwk_kid :: "string option"
  jwk_key :: json

record jwt_validation =
  jv_algorithm :: jwt_algorithm
  jv_issuer :: "string list"
  jv_required_spec_claims :: "string list"
  jv_validate_nbf :: bool
  jv_validate_aud :: bool
  jv_leeway :: nat

record nras_claims =
  overall_attestation_result :: bool
  eat_nonce :: string
  claim_exp :: nat
  claim_iat :: nat

record 'c jwt_prims = "'c dcap_prims" +
  jwt_decode_header :: "string \<Rightarrow> jwt_error_kind + jwt_header"
  jwks_decode :: "bytes \<Rightarrow> jwk list option"
  decoding_key :: "jwk \<Rightarrow> bytes option"
  jwt_decode :: "string \<Rightarrow> bytes \<Rightarrow> jwt_validation \<Rightarrow> jwt_error_kind + nras_claims"
  jwt_now :: nat
  secp256k1_point :: "bytes \<Rightarrow> bool"

definition default_nvidia_nras_url :: string where
  "default_nvidia_nras_url = ''https://nras.attestation.nvidia.com/v3/attest/gpu''"

definition default_nvidia_jwks_url :: string where
  "default_nvidia_jwks_url = ''https://nras.attestation.nvidia.com/.well-known/jwks.json''"

definition nvidia_issuer :: string where
  "nvidia_issuer = ''https://nras.attestation.nvidia.com''"

record nras_verifier =
  nras_client :: http_client
  nras_url :: string
  nras_jwks_url :: string

definition with_client :: "http_client \<Rightarrow> string \<Rightarrow> nras_verifier" where
  "with_client client url = \<lparr>nras_client = client, nras_url = url, nras_jwks_url = default_nvidia_jwks_url\<rparr>"

definition nras_verifier_new :: "string \<Rightarrow> nras_verifier" where
  "nras_verifier_new url = with_client default_client url"

definition with_jwks_url :: "nras_verifier \<Rightarrow> string \<Rightarrow> nras_verifier" where
  "with_jwks_url v url = v\<lparr>nras_jwks_url := url\<rparr>"

section \<open>The token\<close>

definition invalid_nras_response :: "string \<Rightarrow> verification_error" where
  "invalid_nras_response reason = NrasResponseInvalid reason"

definition jwt_failure :: "string \<Rightarrow> verification_error" where
  "jwt_failure reason = NvidiaJwtVerificationFailed reason"

definition map_jwt_error :: "jwt_error_kind \<Rightarrow> verification_error" where
  "map_jwt_error kind = jwt_failure (case kind of
      ExpiredSignature \<Rightarrow> ''expired''
    | ImmatureSignature \<Rightarrow> ''not_yet_valid''
    | InvalidSignature \<Rightarrow> ''invalid_signature''
    | InvalidAlgorithm \<Rightarrow> ''unsupported_algorithm''
    | InvalidAlgorithmName \<Rightarrow> ''unsupported_algorithm''
    | OtherJwtError \<Rightarrow> ''invalid_claims'')"

definition jwt_result :: "jwt_error_kind + 'a \<Rightarrow> 'a ver" where
  "jwt_result m = (case m of Inl kind \<Rightarrow> fail (map_jwt_error kind) | Inr a \<Rightarrow> Inr a)"

fun entry_token :: "json list \<Rightarrow> string option" where
  "entry_token (JStr tag # JStr jwt # _) = (if tag = ''JWT'' then Some jwt else None)"
| "entry_token _ = None"

definition decode_nras_overall_attestation_jwt :: "json \<Rightarrow> string ver" where
  "decode_nras_overall_attestation_jwt raw =
     rbind (ok_or (invalid_nras_response ''invalid_schema'') (as_array raw)) (\<lambda>entries.
     rbind (ok_or (invalid_nras_response ''invalid_schema'')
              (first_of entries)) (\<lambda>first.
     rbind (ok_or (invalid_nras_response ''invalid_schema'') (as_array first)) (\<lambda>entry.
     ok_or (invalid_nras_response ''invalid_schema'') (entry_token entry))))"

definition nras_validation :: jwt_validation where
  "nras_validation = \<lparr>jv_algorithm = ES384, jv_issuer = [nvidia_issuer],
     jv_required_spec_claims = [''exp'', ''nbf'', ''iss''], jv_validate_nbf = True,
     jv_validate_aud = False, jv_leeway = 0\<rparr>"

definition verify_nras_jwt :: "('c, 'z) jwt_prims_scheme \<Rightarrow> string \<Rightarrow> jwk list \<Rightarrow> bytes \<Rightarrow> unit ver" where
  "verify_nras_jwt P jwt jwks nonce =
     rbind (jwt_result (jwt_decode_header P jwt)) (\<lambda>header.
     rbind (ensure (jh_alg header = ES384) (jwt_failure ''unsupported_algorithm'')) (\<lambda>_.
     rbind (ok_or (jwt_failure ''key_not_found'') (jh_kid header)) (\<lambda>kid.
     rbind (ok_or (jwt_failure ''key_not_found'') (List.find (\<lambda>k. jwk_kid k = Some kid) jwks)) (\<lambda>jwk.
     rbind (ok_or (invalid_nras_response ''invalid_jwks'') (decoding_key P jwk)) (\<lambda>key.
     rbind (jwt_result (jwt_decode P jwt key nras_validation)) (\<lambda>claims.
     let now = jwt_now P in
     rbind (ensure (\<not> claim_exp claims \<le> now) (jwt_failure ''expired'')) (\<lambda>_.
     rbind (ensure (\<not> claim_iat claims > now) (jwt_failure ''not_yet_valid'')) (\<lambda>_.
     rbind (ok_or (jwt_failure ''invalid_claims'') (hex_decode P (eat_nonce claims))) (\<lambda>actual_nonce.
     rbind (ensure (length actual_nonce = 32) (jwt_failure ''invalid_claims'')) (\<lambda>_.
     rbind (ensure (actual_nonce = nonce) (jwt_failure ''nonce_mismatch'')) (\<lambda>_.
     ensure (overall_attestation_result claims) (GpuAttestationRejected ''nras''))))))))))))"

section \<open>The adapter\<close>

definition nvidia_retryable :: "u16 \<Rightarrow> bool" where
  "nvidia_retryable status \<longleftrightarrow> status = 408 \<or> status = 429 \<or> is_server_error status"

definition post_evidence :: "string \<Rightarrow> string \<Rightarrow> http_request" where
  "post_evidence url payload = \<lparr>rq_method = ''POST'', rq_url = url,
     rq_headers = [(''content-type'', ''application/json'')], rq_body = as_bytes payload\<rparr>"

definition get_plain :: "string \<Rightarrow> http_request" where
  "get_plain url = \<lparr>rq_method = ''GET'', rq_url = url, rq_headers = [], rq_body = []\<rparr>"

definition nras_verify :: "('c, 'z) jwt_prims_scheme \<Rightarrow> nras_verifier \<Rightarrow> string \<Rightarrow> unit ver" where
  "nras_verify P verifier nvidia_payload =
     rbind (ok_or (GpuPayloadInvalid ''invalid_json'') (json_parse P (as_bytes nvidia_payload))) (\<lambda>raw.
     rbind (ok_or (GpuPayloadInvalid ''nonce_missing'') (Option.bind (jget raw ''nonce'') as_str)) (\<lambda>nonce_text.
     rbind (ok_or (Ver_InvalidInput ''nvidia_payload.nonce'' ''expected a 32-byte hexadecimal nonce'')
              (require_hex_length P nonce_text 32)) (\<lambda>nonce.
     rbind (ok_or (NrasRequestFailed ''transport'' None True)
              (http_send P (nras_client verifier) (post_evidence (nras_url verifier) nvidia_payload))) (\<lambda>response.
     rbind (ensure (is_success (rs_status response))
              (NrasRequestFailed ''http_status'' (Some (rs_status response)) (nvidia_retryable (rs_status response)))) (\<lambda>_.
     rbind (ok_or (invalid_nras_response ''invalid_json'')
              (Option.bind (whole_body response) (json_parse P))) (\<lambda>reply.
     rbind (decode_nras_overall_attestation_jwt reply) (\<lambda>jwt.
     rbind (ok_or (NvidiaJwksRequestFailed ''transport'' None True)
              (http_send P (nras_client verifier) (get_plain (nras_jwks_url verifier)))) (\<lambda>keys_response.
     rbind (ensure (is_success (rs_status keys_response))
              (NvidiaJwksRequestFailed ''http_status'' (Some (rs_status keys_response))
                 (nvidia_retryable (rs_status keys_response)))) (\<lambda>_.
     rbind (ok_or (invalid_nras_response ''invalid_jwks'')
              (Option.bind (whole_body keys_response) (jwks_decode P))) (\<lambda>jwks.
     verify_nras_jwt P jwt jwks nonce))))))))))"

section \<open>What success means\<close>

lemma jwt_result_ok [outcome_simps]: "jwt_result m = Inr a \<longleftrightarrow> m = Inr a"
  by (simp add: jwt_result_def split: sum.split)

lemma panics_jwt_result [simp]: "\<not> panics (jwt_result m)"
  by (simp add: jwt_result_def split: sum.split)

text \<open>
  A token approves a nonce under a key set: its key is in the set, it verifies under that key
  as an ES384 token of NVIDIA's issuer, it is in force, names the nonce and says the GPU passed.
\<close>

definition token_approves :: "('c, 'z) jwt_prims_scheme \<Rightarrow> string \<Rightarrow> jwk list \<Rightarrow> bytes \<Rightarrow> bool" where
  "token_approves P jwt jwks nonce \<longleftrightarrow>
     (\<exists>header kid jwk key claims.
        jwt_decode_header P jwt = Inr header \<and> jh_alg header = ES384 \<and> jh_kid header = Some kid
        \<and> List.find (\<lambda>k. jwk_kid k = Some kid) jwks = Some jwk \<and> decoding_key P jwk = Some key
        \<and> jwt_decode P jwt key nras_validation = Inr claims
        \<and> claim_iat claims \<le> jwt_now P \<and> jwt_now P < claim_exp claims
        \<and> hex_decode P (eat_nonce claims) = Some nonce \<and> overall_attestation_result claims)"

lemma verify_nras_jwt_ok:
  "verify_nras_jwt P jwt jwks nonce = Inr u \<longleftrightarrow> token_approves P jwt jwks nonce \<and> length nonce = 32"
  by (auto simp: verify_nras_jwt_def token_approves_def outcome_simps Let_def not_le not_less)

lemma entry_token_Some: "entry_token e = Some jwt \<longleftrightarrow> (\<exists>more. e = JStr ''JWT'' # JStr jwt # more)"
  by (cases e rule: entry_token.cases) auto

lemma decode_nras_jwt_ok:
  "decode_nras_overall_attestation_jwt raw = Inr jwt \<longleftrightarrow>
     (\<exists>more rest. raw = JArr (JArr (JStr ''JWT'' # JStr jwt # more) # rest))"
  by (auto simp: decode_nras_overall_attestation_jwt_def outcome_simps str_simps
      entry_token_Some)

text \<open>The nonce a payload carries, as the adapter and \<open>model.rs\<close> read it.\<close>

definition payload_nonce :: "'z prims_scheme \<Rightarrow> string \<Rightarrow> string option" where
  "payload_nonce P payload =
     Option.bind (json_parse P (as_bytes payload)) (\<lambda>raw. Option.bind (jget raw ''nonce'') as_str)"

definition nras_approves :: "('c, 'z) jwt_prims_scheme \<Rightarrow> nras_verifier \<Rightarrow> string \<Rightarrow> bytes \<Rightarrow> bool" where
  "nras_approves P v payload nonce \<longleftrightarrow>
     (\<exists>r1 r2 b1 b2 jwt more rest jwks.
        http_send P (nras_client v) (post_evidence (nras_url v) payload) = Some r1 \<and> is_success (rs_status r1)
        \<and> whole_body r1 = Some b1 \<and> json_parse P b1 = Some (JArr (JArr (JStr ''JWT'' # JStr jwt # more) # rest))
        \<and> http_send P (nras_client v) (get_plain (nras_jwks_url v)) = Some r2 \<and> is_success (rs_status r2)
        \<and> whole_body r2 = Some b2 \<and> jwks_decode P b2 = Some jwks \<and> token_approves P jwt jwks nonce)"

lemma nras_verify_ok:
  "nras_verify P v payload = Inr u \<longleftrightarrow>
     (\<exists>text nonce. payload_nonce P payload = Some text \<and> decode_hex P text = Some nonce
        \<and> length nonce = 32 \<and> nras_approves P v payload nonce)" (is "?L \<longleftrightarrow> ?R")
proof
  assume ?L
  then obtain raw t nonce r1 b1 reply jwt r2 b2 jwks where
      "json_parse P (as_bytes payload) = Some raw" "jget raw ''nonce'' = Some (JStr t)"
      "decode_hex P t = Some nonce" "length nonce = 32"
      "http_send P (nras_client v) (post_evidence (nras_url v) payload) = Some r1" "is_success (rs_status r1)"
      "whole_body r1 = Some b1" "json_parse P b1 = Some reply"
      "decode_nras_overall_attestation_jwt reply = Inr jwt"
      "http_send P (nras_client v) (get_plain (nras_jwks_url v)) = Some r2" "is_success (rs_status r2)"
      "whole_body r2 = Some b2" "jwks_decode P b2 = Some jwks" "token_approves P jwt jwks nonce"
    by (auto simp: nras_verify_def outcome_simps str_simps bind_eq_Some_conv verify_nras_jwt_ok)
  then show ?R
    unfolding payload_nonce_def nras_approves_def decode_nras_jwt_ok by fastforce
next
  assume ?R
  then show ?L
    by (auto simp: payload_nonce_def nras_approves_def nras_verify_def require_hex_length_def
        bind_eq_Some_conv decode_nras_jwt_ok [THEN iffD2] verify_nras_jwt_ok)
qed

lemma nras_verify_no_panic [simp]: "\<not> panics (nras_verify P v payload)"
proof -
  have "\<not> panics (decode_nras_overall_attestation_jwt raw)" for raw
    by (simp add: decode_nras_overall_attestation_jwt_def)
  then show ?thesis
    by (simp add: nras_verify_def verify_nras_jwt_def Let_def)
qed

section \<open>The instance\<close>

definition demo_jwt :: "unit jwt_prims" where
  "demo_jwt = dcap_prims.extend demo_dcap (jwt_prims.fields (\<lambda>_. Inl OtherJwtError) (\<lambda>_. None) (\<lambda>_. None)
     (\<lambda>_ _ _. Inl OtherJwtError) 0 (\<lambda>_. True))"

declare demo_jwt_def [demo_defs] jwt_prims.defs [demo_defs]

section \<open>Properties\<close>

text \<open>C16: The built-in GPU verifier is exact. It accepts a payload precisely when the payload's nonce
  is 32 bytes of hexadecimal and NRAS, asked about this very payload, answered with a token
  that a key of the key set (fetched successfully) verifies as an ES384 token of NVIDIA's
  issuer, in force now, naming that nonce and stating that the GPU passed. Neither HTTP
  request carries any other header.\<close>

lemma nras_verification_exact:
  "nras_verify P v payload = Inr u \<longleftrightarrow>
     (\<exists>t nonce. payload_nonce P payload = Some t \<and> decode_hex P t = Some nonce
        \<and> length nonce = 32 \<and> nras_approves P v payload nonce)"
  by (rule nras_verify_ok)

end
