(* ===== verification/Reports.thy ===== *)
theory Reports
  imports Attestation Compose_Manager Nvidia
begin

text \<open>
  \<open>gateway.rs\<close> and \<open>model.rs\<close>: verification of a whole report. The three verifiers a caller
  may pass are one record; a missing TDX or GPU verifier is the built-in one, a missing
  deployment verifier leaves the provenance unchecked.
\<close>

record model_verifiers =
  mv_tdx_quote :: "tdx_verifier option"
  mv_gpu_evidence :: "(string \<Rightarrow> unit ver) option"
  mv_deployment :: "deployment_verifier option"

record attestation_verifiers =
  av_tdx_quote :: "tdx_verifier option"
  av_deployment :: "deployment_verifier option"

section \<open>Gateway\<close>

definition verify_gateway_attestation ::
  "('c, 'z) dcap_prims_scheme \<Rightarrow> gateway_attestation \<Rightarrow> gateway_client_binding
     \<Rightarrow> attestation_policy option \<Rightarrow> attestation_verifiers \<Rightarrow> verified_gateway_attestation ver" where
  "verify_gateway_attestation P attestation client_binding policy verifiers =
     rbind (verify_dstack_quote P (ga_evidence attestation) (gcb_nonce client_binding) policy
              (av_tdx_quote verifiers) (Some (ga_reported_quote_data attestation))) (\<lambda>verified_quote.
     rbind (case ga_spki_fingerprint attestation of
        Some reported_spki_fingerprint \<Rightarrow>
          rbind (ok_or SpkiFingerprintRequired (gcb_spki_fingerprint client_binding)) (\<lambda>peer_spki_fingerprint.
          rbind (verify_report_data_binding_with_tls_fingerprint P
                   (q_report_data (vq_quote verified_quote)) (gcb_nonce client_binding)
                   (si_address (vq_signer verified_quote)) reported_spki_fingerprint
                   peer_spki_fingerprint) (\<lambda>spki_fingerprint.
          Inr (Attested spki_fingerprint)))
      | None \<Rightarrow>
          rbind (verify_report_data_binding P (q_report_data (vq_quote verified_quote))
                   (gcb_nonce client_binding) (si_address (vq_signer verified_quote))) (\<lambda>_.
          Inr No_Tls_Binding)) (\<lambda>tls_binding.
     rbind (verify_dstack_deployment P verified_quote) (\<lambda>deployment.
     rbind (run_deployment_verifier deployment (av_deployment verifiers)) (\<lambda>deployment_provenance.
     Inr \<lparr>vg_evidence = \<lparr>ve_signer = vq_signer verified_quote,
            ve_tcb_status = q_tcb_status (vq_quote verified_quote),
            ve_advisory_ids = q_advisory_ids (vq_quote verified_quote),
            ve_deployment = deployment, ve_deployment_provenance = deployment_provenance\<rparr>,
          vg_tls_binding = tls_binding\<rparr>))))"

section \<open>Model\<close>

definition verify_gpu_evidence ::
  "('c, 'z) jwt_prims_scheme \<Rightarrow> string option \<Rightarrow> string \<Rightarrow> gpu_evidence_requirement
     \<Rightarrow> (string \<Rightarrow> unit ver) option \<Rightarrow> gpu_evidence_status ver" where
  "verify_gpu_evidence P payload nonce requirement verifier =
     (case payload of
        None \<Rightarrow> (case requirement of IfPresent \<Rightarrow> Inr NotProvided | Required \<Rightarrow> fail GpuEvidenceRequired)
      | Some payload \<Rightarrow>
          rbind (ok_or (GpuPayloadInvalid ''invalid_json'') (json_parse P (as_bytes payload))) (\<lambda>parsed.
          rbind (ok_or (GpuPayloadInvalid ''nonce_missing'')
                   (Option.bind (jget parsed ''nonce'') as_str)) (\<lambda>reported_nonce.
          rbind (verify_reported_nonce P reported_nonce nonce ''nvidia_payload'') (\<lambda>_.
          let verifier = or_else (nras_verify P (nras_verifier_new default_nvidia_nras_url)) verifier in
          rbind (verifier payload) (\<lambda>_. Inr Gpu_Verified)))))"

definition model_key_mismatch :: verification_error where
  "model_key_mismatch = protocol ''binding.model_public_key_mismatch'' ''model key does not match the attested signer''"

text \<open>\<open>key.remove(0)\<close> on an uncompressed SEC1 point.\<close>

definition point_bytes :: "bytes \<Rightarrow> bytes" where
  "point_bytes key = (if length key = 65 \<and> key ! 0 = 4 then tl key else key)"

definition verify_signing_public_key ::
  "('c, 'z) jwt_prims_scheme \<Rightarrow> model_attestation \<Rightarrow> string option ver" where
  "verify_signing_public_key P attestation =
     (case ma_signing_public_key attestation of
        None \<Rightarrow> Inr None
      | Some text \<Rightarrow>
          rbind (ok_or model_key_mismatch (decode_hex P text)) (\<lambda>decoded.
          let signer = ev_signer (ma_evidence attestation) in
          rbind (ok_or model_key_mismatch (decode_hex P (si_address signer))) (\<lambda>address.
          rbind (case si_algo signer of
              Ed25519 \<Rightarrow> Inr (decoded, length decoded = 32 \<and> decoded = address)
            | Ecdsa \<Rightarrow>
                let key = point_bytes decoded in
                Inr (key, length key = 64 \<and> secp256k1_point P (4 # key)
                     \<and> drop 12 (keccak256_digest P key) = address)) (\<lambda>(key, matches).
          rbind (ensure matches model_key_mismatch) (\<lambda>_.
          Inr (Some (hex_encode P key)))))))"

definition verify_model_with_tls ::
  "('c, 'z) jwt_prims_scheme \<Rightarrow> model_attestation \<Rightarrow> model_client_binding
     \<Rightarrow> model_attestation_policy option \<Rightarrow> model_verifiers \<Rightarrow> string option \<Rightarrow> verified_model_attestation ver" where
  "verify_model_with_tls P attestation client_binding policy verifiers fingerprint =
     (let common_policy = map_option (\<lambda>p. \<lparr>accepted_tcb_statuses = mp_accepted_tcb_statuses p\<rparr>) policy;
          nonce = mcb_nonce client_binding in
      rbind (verify_dstack_quote P (ma_evidence attestation) nonce common_policy
               (mv_tdx_quote verifiers) (ma_reported_quote_data attestation)) (\<lambda>verified_quote.
      rbind (case fingerprint of
          Some fingerprint \<Rightarrow>
            rbind (verify_report_data_binding_with_tls_fingerprint P
                     (q_report_data (vq_quote verified_quote)) nonce
                     (si_address (vq_signer verified_quote)) fingerprint fingerprint) (\<lambda>_. Inr ())
        | None \<Rightarrow>
            verify_report_data_binding P (q_report_data (vq_quote verified_quote)) nonce
              (si_address (vq_signer verified_quote))) (\<lambda>_.
      rbind (case ma_compose_manager attestation of
          Some manager \<Rightarrow>
            rbind (verify_compose_manager_attestation P manager (ev_app_compose (ma_evidence attestation))
                     nonce common_policy (mv_tdx_quote verifiers)) (\<lambda>m. Inr (Some m))
        | None \<Rightarrow> Inr None) (\<lambda>manager.
      rbind (verify_dstack_deployment P verified_quote) (\<lambda>measured.
      let deployment = measured\<lparr>md_compose_manager := manager\<rparr> in
      rbind (run_deployment_verifier deployment (mv_deployment verifiers)) (\<lambda>deployment_provenance.
      rbind (verify_gpu_evidence P (ma_nvidia_payload attestation) nonce
               (case policy of Some p \<Rightarrow> mp_gpu_evidence p | None \<Rightarrow> IfPresent)
               (mv_gpu_evidence verifiers)) (\<lambda>gpu_evidence.
      rbind (verify_signing_public_key P attestation) (\<lambda>signing_public_key.
      Inr \<lparr>vm_signing_public_key = signing_public_key,
           vm_evidence = \<lparr>ve_signer = vq_signer verified_quote,
             ve_tcb_status = q_tcb_status (vq_quote verified_quote),
             ve_advisory_ids = q_advisory_ids (vq_quote verified_quote),
             ve_deployment = deployment, ve_deployment_provenance = deployment_provenance\<rparr>,
           vm_gpu_evidence = gpu_evidence\<rparr>))))))))"

definition verify_model_attestation ::
  "('c, 'z) jwt_prims_scheme \<Rightarrow> model_attestation \<Rightarrow> model_client_binding
     \<Rightarrow> model_attestation_policy option \<Rightarrow> model_verifiers \<Rightarrow> verified_model_attestation ver" where
  "verify_model_attestation P attestation client_binding policy verifiers =
     verify_model_with_tls P attestation client_binding policy verifiers None"

section \<open>What success means\<close>

text \<open>
  The two layouts of the 64 bytes of report data: the zero-padded signer address or the hash
  of address and TLS fingerprint, then the nonce.
\<close>

definition binds_signer :: "bytes \<Rightarrow> bytes \<Rightarrow> bytes \<Rightarrow> bool" where
  "binds_signer data a n \<longleftrightarrow> length a \<le> 32 \<and> length n = 32 \<and> data = a @ replicate (32 - length a) 0 @ n"

definition binds_tls :: "'z prims_scheme \<Rightarrow> bytes \<Rightarrow> bytes \<Rightarrow> bytes \<Rightarrow> bytes \<Rightarrow> bool" where
  "binds_tls P data a n f \<longleftrightarrow> length f = 32 \<and> length n = 32 \<and> length data = 64
     \<and> take 32 data = sha256 P (a @ f) \<and> drop 32 data = n"

text \<open>Report data in one layout never also fits the other, unless the hash ends in the padding.\<close>

lemma binds_tls_eq:
  "length (sha256 P (a @ f)) = 32 \<Longrightarrow>
   binds_tls P data a n f \<longleftrightarrow> length f = 32 \<and> length n = 32 \<and> data = sha256 P (a @ f) @ n"
  unfolding binds_tls_def by (metis append_eq_conv_conj append_take_drop_id length_append numeral_Bit0)

definition provenance_run :: "deployment_verifier option \<Rightarrow> measured_deployment \<Rightarrow> deployment_provenance_status \<Rightarrow> bool" where
  "provenance_run verifier d s \<longleftrightarrow>
     (case verifier of None \<Rightarrow> s = NotChecked | Some f \<Rightarrow> f d = Inr () \<and> s = Provenance_Verified)"

definition gateway_tls_ok ::
  "'z prims_scheme \<Rightarrow> gateway_attestation \<Rightarrow> gateway_client_binding \<Rightarrow> bytes \<Rightarrow> bytes \<Rightarrow> bytes \<Rightarrow> gateway_tls_binding \<Rightarrow> bool" where
  "gateway_tls_ok P att binding data a n tls \<longleftrightarrow>
     (case ga_spki_fingerprint att of
        None \<Rightarrow> binds_signer data a n \<and> tls = No_Tls_Binding
      | Some reported \<Rightarrow> (\<exists>peer f. gcb_spki_fingerprint binding = Some peer
          \<and> decode_hex P reported = Some f \<and> decode_hex P peer = Some f
          \<and> binds_tls P data a n f \<and> tls = Attested (hex_encode P f)))"

lemma verify_gateway_attestation_eq:
  "verify_gateway_attestation P att binding policy vs = Inr v \<longleftrightarrow>
     (\<exists>n a q.
        evidence_fresh P (ga_evidence att) (gcb_nonce binding) n a
        \<and> quote_trusted P (ev_intel_quote (ga_evidence att)) policy (av_tdx_quote vs) q
        \<and> decode_hex P (ga_reported_quote_data att) = Some (q_report_data q)
        \<and> gateway_tls_ok P att binding (q_report_data q) a n (vg_tls_binding v)
        \<and> deployment_measured P q (ev_event_log (ga_evidence att)) (ev_app_compose (ga_evidence att))
             (md_runtime_measurements (ve_deployment (vg_evidence v)))
        \<and> provenance_run (av_deployment vs) (ve_deployment (vg_evidence v)) (ve_deployment_provenance (vg_evidence v))
        \<and> md_compose_manager (ve_deployment (vg_evidence v)) = None
        \<and> md_app_compose (ve_deployment (vg_evidence v)) = ev_app_compose (ga_evidence att)
        \<and> ve_signer (vg_evidence v) = ev_signer (ga_evidence att)
        \<and> ve_tcb_status (vg_evidence v) = q_tcb_status q
        \<and> ve_advisory_ids (vg_evidence v) = q_advisory_ids q)" (is "?L \<longleftrightarrow> ?R")
proof
  assume ?L
  then obtain vq tls d prov where
      vq: "verify_dstack_quote P (ga_evidence att) (gcb_nonce binding) policy (av_tdx_quote vs)
        (Some (ga_reported_quote_data att)) = Inr vq"
    and tls: "case ga_spki_fingerprint att of
      Some r \<Rightarrow> \<exists>p f. gcb_spki_fingerprint binding = Some p \<and>
        verify_report_data_binding_with_tls_fingerprint P (q_report_data (vq_quote vq)) (gcb_nonce binding)
          (si_address (vq_signer vq)) r p = Inr f \<and> tls = Attested f
    | None \<Rightarrow> verify_report_data_binding P (q_report_data (vq_quote vq)) (gcb_nonce binding)
          (si_address (vq_signer vq)) = Inr () \<and> tls = No_Tls_Binding"
    and d: "verify_dstack_deployment P vq = Inr d" "run_deployment_verifier d (av_deployment vs) = Inr prov"
    and v: "v = \<lparr>vg_evidence = \<lparr>ve_signer = vq_signer vq, ve_tcb_status = q_tcb_status (vq_quote vq),
        ve_advisory_ids = q_advisory_ids (vq_quote vq), ve_deployment = d,
        ve_deployment_provenance = prov\<rparr>, vg_tls_binding = tls\<rparr>"
    by (auto simp: verify_gateway_attestation_def outcome_simps split: option.splits)
  from vq obtain q n a where *: "evidence_fresh P (ga_evidence att) (gcb_nonce binding) n a"
      "quote_trusted P (ev_intel_quote (ga_evidence att)) policy (av_tdx_quote vs) q"
      "decode_hex P (ga_reported_quote_data att) = Some (q_report_data q)"
      "vq = \<lparr>vq_attestation = ga_evidence att, vq_quote = q, vq_signer = ev_signer (ga_evidence att)\<rparr>"
    by (auto simp: binding_ok)
  have "gateway_tls_ok P att binding (q_report_data q) a n tls"
    using tls *(1) unfolding *(4)
    by (auto simp: evidence_fresh_def gateway_tls_ok_def binds_signer_def binds_tls_def binding_ok
        split: option.splits)
  moreover have "deployment_measured P q (ev_event_log (ga_evidence att)) (ev_app_compose (ga_evidence att))
      (md_runtime_measurements d)" "provenance_run (av_deployment vs) d prov"
      "md_compose_manager d = None" "md_app_compose d = ev_app_compose (ga_evidence att)"
    using d unfolding *(4) by (simp_all add: binding_ok provenance_run_def)
  ultimately show ?R
    using * unfolding v by auto
next
  assume ?R
  then obtain n a q where *: "evidence_fresh P (ga_evidence att) (gcb_nonce binding) n a"
      "quote_trusted P (ev_intel_quote (ga_evidence att)) policy (av_tdx_quote vs) q"
      "decode_hex P (ga_reported_quote_data att) = Some (q_report_data q)"
      "gateway_tls_ok P att binding (q_report_data q) a n (vg_tls_binding v)"
    and rest: "deployment_measured P q (ev_event_log (ga_evidence att)) (ev_app_compose (ga_evidence att))
        (md_runtime_measurements (ve_deployment (vg_evidence v)))"
      "provenance_run (av_deployment vs) (ve_deployment (vg_evidence v)) (ve_deployment_provenance (vg_evidence v))"
      "md_compose_manager (ve_deployment (vg_evidence v)) = None"
      "md_app_compose (ve_deployment (vg_evidence v)) = ev_app_compose (ga_evidence att)"
      "ve_signer (vg_evidence v) = ev_signer (ga_evidence att)"
      "ve_tcb_status (vg_evidence v) = q_tcb_status q"
      "ve_advisory_ids (vg_evidence v) = q_advisory_ids q"
    by blast
  let ?v = "\<lparr>vq_attestation = ga_evidence att, vq_quote = q, vq_signer = ev_signer (ga_evidence att)\<rparr>"
  have len: "length (q_report_data q) = 64"
    using *(4) by (auto simp: gateway_tls_ok_def binds_signer_def binds_tls_def split: option.splits)
  have quote: "verify_dstack_quote P (ga_evidence att) (gcb_nonce binding) policy (av_tdx_quote vs)
      (Some (ga_reported_quote_data att)) = Inr ?v"
    using *(1-3) len unfolding verify_dstack_quote_ok by auto
  have deployment: "verify_dstack_deployment P ?v = Inr (ve_deployment (vg_evidence v))"
    "run_deployment_verifier (ve_deployment (vg_evidence v)) (av_deployment vs)
      = Inr (ve_deployment_provenance (vg_evidence v))"
    using rest by (simp_all add: binding_ok provenance_run_def)
  have tls: "case ga_spki_fingerprint att of
      Some r \<Rightarrow> \<exists>p f. gcb_spki_fingerprint binding = Some p \<and>
        verify_report_data_binding_with_tls_fingerprint P (q_report_data q) (gcb_nonce binding)
          (si_address (ev_signer (ga_evidence att))) r p = Inr f \<and> vg_tls_binding v = Attested f
    | None \<Rightarrow> verify_report_data_binding P (q_report_data q) (gcb_nonce binding)
          (si_address (ev_signer (ga_evidence att))) = Inr () \<and> vg_tls_binding v = No_Tls_Binding"
    using *(1,4)
    by (auto simp: evidence_fresh_def gateway_tls_ok_def binds_signer_def binds_tls_def binding_ok
        split: option.splits)
  show ?L
    using tls rest(5-7) deployment(2)
    by (cases v; cases "vg_evidence v")
      (auto simp: verify_gateway_attestation_def quote deployment split: option.splits)
qed

section \<open>Model reports\<close>

definition gpu_requirement :: "model_attestation_policy option \<Rightarrow> gpu_evidence_requirement" where
  "gpu_requirement policy = (case policy of Some p \<Rightarrow> mp_gpu_evidence p | None \<Rightarrow> IfPresent)"

definition common_policy :: "model_attestation_policy option \<Rightarrow> attestation_policy option" where
  "common_policy policy = map_option (\<lambda>p. \<lparr>accepted_tcb_statuses = mp_accepted_tcb_statuses p\<rparr>) policy"

definition gpu_verifier_in_force ::
  "('c, 'z) jwt_prims_scheme \<Rightarrow> model_verifiers \<Rightarrow> string \<Rightarrow> unit ver" where
  "gpu_verifier_in_force P vs = or_else (nras_verify P (nras_verifier_new default_nvidia_nras_url)) (mv_gpu_evidence vs)"

text \<open>GPU evidence names the client's nonce and passed; only evidence the policy allows to be absent is.\<close>

definition gpu_ok ::
  "('c, 'z) jwt_prims_scheme \<Rightarrow> string option \<Rightarrow> bytes \<Rightarrow> gpu_evidence_requirement
     \<Rightarrow> (string \<Rightarrow> unit ver) \<Rightarrow> gpu_evidence_status \<Rightarrow> bool" where
  "gpu_ok P payload n requirement verify status \<longleftrightarrow>
     (case payload of
        None \<Rightarrow> requirement = IfPresent \<and> status = NotProvided
      | Some p \<Rightarrow> (\<exists>t. payload_nonce P p = Some t \<and> decode_hex P t = Some n) \<and> verify p = Inr ()
          \<and> status = Gpu_Verified)"

text \<open>The encryption key is the attested signer's: its bytes, or the SEC1 point with its address.\<close>

definition key_of_signer :: "('c, 'z) jwt_prims_scheme \<Rightarrow> signing_algo \<Rightarrow> bytes \<Rightarrow> bytes \<Rightarrow> bytes \<Rightarrow> bool" where
  "key_of_signer P algo a decoded key \<longleftrightarrow>
     (case algo of
        Ed25519 \<Rightarrow> key = decoded \<and> decoded = a \<and> length a = 32
      | Ecdsa \<Rightarrow> length key = 64 \<and> (decoded = key \<or> decoded = 4 # key) \<and> secp256k1_point P (4 # key)
          \<and> drop 12 (keccak256_digest P key) = a)"

definition model_key_ok :: "('c, 'z) jwt_prims_scheme \<Rightarrow> model_attestation \<Rightarrow> bytes \<Rightarrow> string option \<Rightarrow> bool" where
  "model_key_ok P att a result \<longleftrightarrow>
     (case ma_signing_public_key att of
        None \<Rightarrow> result = None
      | Some t \<Rightarrow> (\<exists>decoded key. decode_hex P t = Some decoded
          \<and> key_of_signer P (si_algo (ev_signer (ma_evidence att))) a decoded key
          \<and> result = Some (hex_encode P key)))"

lemma verify_gpu_evidence_ok:
  "verify_gpu_evidence P payload nonce requirement (mv_gpu_evidence vs) = Inr s \<and> decode_hex P nonce = Some n
     \<and> length n = 32 \<longleftrightarrow>
   gpu_ok P payload n requirement (gpu_verifier_in_force P vs) s \<and> decode_hex P nonce = Some n \<and> length n = 32"
proof (cases payload)
  case None
  then show ?thesis
    by (cases requirement) (auto simp: verify_gpu_evidence_def gpu_ok_def)
next
  case (Some p)
  then show ?thesis
    by (auto simp: verify_gpu_evidence_def gpu_ok_def payload_nonce_def gpu_verifier_in_force_def
        outcome_simps binding_ok bind_eq_Some_conv Let_def)
qed

lemma verify_signing_public_key_ok:
  assumes "decode_hex P (si_address (ev_signer (ma_evidence att))) = Some a"
  shows "verify_signing_public_key P att = Inr r \<longleftrightarrow> model_key_ok P att a r"
proof (cases "ma_signing_public_key att")
  case None
  then show ?thesis by (auto simp: verify_signing_public_key_def model_key_ok_def)
next
  case (Some t)
  have strip: "(\<exists>key. length key = 64 \<and> (d = key \<or> d = 4 # key) \<and> Q key) \<longleftrightarrow>
      length (point_bytes d) = 64 \<and> Q (point_bytes d)" for d :: bytes and Q
    by (cases d) (auto simp: point_bytes_def, rule exI [of _ d], auto)
  show ?thesis
  proof (cases "si_algo (ev_signer (ma_evidence att))")
    case Ecdsa
    have "verify_signing_public_key P att = Inr r \<longleftrightarrow>
        (\<exists>d. decode_hex P t = Some d \<and> length (point_bytes d) = 64
           \<and> (secp256k1_point P (4 # point_bytes d) \<and> drop 12 (keccak256_digest P (point_bytes d)) = a
             \<and> r = Some (hex_encode P (point_bytes d))))"
      using Some Ecdsa assms by (auto simp: verify_signing_public_key_def outcome_simps Let_def)
    also have "\<dots> \<longleftrightarrow> model_key_ok P att a r"
      using Some Ecdsa by (simp add: model_key_ok_def key_of_signer_def strip)
    finally show ?thesis .
  next
    case Ed25519
    with Some assms show ?thesis
      by (auto simp: verify_signing_public_key_def model_key_ok_def key_of_signer_def outcome_simps Let_def)
  qed
qed

definition model_layout_ok :: "('c, 'z) jwt_prims_scheme \<Rightarrow> string option \<Rightarrow> bytes \<Rightarrow> bytes \<Rightarrow> bytes \<Rightarrow> bool" where
  "model_layout_ok P fingerprint data a n \<longleftrightarrow>
     (case fingerprint of None \<Rightarrow> binds_signer data a n
      | Some t \<Rightarrow> (\<exists>f. decode_hex P t = Some f \<and> binds_tls P data a n f))"

text \<open>The Compose Manager log of a report, when there is one, is bound to the same app compose and nonce.\<close>

definition manager_ok ::
  "('c, 'z) dcap_prims_scheme \<Rightarrow> model_attestation \<Rightarrow> string \<Rightarrow> attestation_policy option
     \<Rightarrow> tdx_verifier option \<Rightarrow> verified_compose_manager option \<Rightarrow> bool" where
  "manager_ok P att nonce policy verifier manager \<longleftrightarrow>
     (case ma_compose_manager att of
        None \<Rightarrow> manager = None
      | Some c \<Rightarrow> (\<exists>v. verify_compose_manager_attestation P c (ev_app_compose (ma_evidence att)) nonce policy verifier
            = Inr v \<and> manager = Some v))"

definition advertised_matches :: "'z prims_scheme \<Rightarrow> string option \<Rightarrow> bytes \<Rightarrow> bool" where
  "advertised_matches P advertised data \<longleftrightarrow>
     (case advertised of None \<Rightarrow> True | Some t \<Rightarrow> decode_hex P t = Some data)"

lemma verify_model_with_tls_eq:
  "verify_model_with_tls P att binding policy vs fp = Inr v \<longleftrightarrow>
     (\<exists>n a q.
        evidence_fresh P (ma_evidence att) (mcb_nonce binding) n a
        \<and> quote_trusted P (ev_intel_quote (ma_evidence att)) (common_policy policy) (mv_tdx_quote vs) q
        \<and> advertised_matches P (ma_reported_quote_data att) (q_report_data q)
        \<and> model_layout_ok P fp (q_report_data q) a n
        \<and> manager_ok P att (mcb_nonce binding) (common_policy policy) (mv_tdx_quote vs)
             (md_compose_manager (ve_deployment (vm_evidence v)))
        \<and> deployment_measured P q (ev_event_log (ma_evidence att)) (ev_app_compose (ma_evidence att))
             (md_runtime_measurements (ve_deployment (vm_evidence v)))
        \<and> provenance_run (mv_deployment vs) (ve_deployment (vm_evidence v)) (ve_deployment_provenance (vm_evidence v))
        \<and> gpu_ok P (ma_nvidia_payload att) n (gpu_requirement policy) (gpu_verifier_in_force P vs) (vm_gpu_evidence v)
        \<and> model_key_ok P att a (vm_signing_public_key v)
        \<and> md_app_compose (ve_deployment (vm_evidence v)) = ev_app_compose (ma_evidence att)
        \<and> ve_signer (vm_evidence v) = ev_signer (ma_evidence att)
        \<and> ve_tcb_status (vm_evidence v) = q_tcb_status q
        \<and> ve_advisory_ids (vm_evidence v) = q_advisory_ids q)" (is "?L \<longleftrightarrow> ?R")
proof
  let ?policy = "common_policy policy" and ?nonce = "mcb_nonce binding"
  assume ?L
  then obtain vq manager d prov gpu key where
      vq: "verify_dstack_quote P (ma_evidence att) ?nonce ?policy (mv_tdx_quote vs)
        (ma_reported_quote_data att) = Inr vq"
    and layout: "case fp of
      Some t \<Rightarrow> \<exists>f. verify_report_data_binding_with_tls_fingerprint P (q_report_data (vq_quote vq)) ?nonce
          (si_address (vq_signer vq)) t t = Inr f
    | None \<Rightarrow> verify_report_data_binding P (q_report_data (vq_quote vq)) ?nonce (si_address (vq_signer vq)) = Inr ()"
    and manager: "manager_ok P att ?nonce ?policy (mv_tdx_quote vs) manager"
    and d: "verify_dstack_deployment P vq = Inr d"
      "run_deployment_verifier (d\<lparr>md_compose_manager := manager\<rparr>) (mv_deployment vs) = Inr prov"
    and gpu: "verify_gpu_evidence P (ma_nvidia_payload att) ?nonce (gpu_requirement policy) (mv_gpu_evidence vs) = Inr gpu"
    and key: "verify_signing_public_key P att = Inr key"
    and v: "v = \<lparr>vm_signing_public_key = key, vm_evidence = \<lparr>ve_signer = vq_signer vq,
        ve_tcb_status = q_tcb_status (vq_quote vq), ve_advisory_ids = q_advisory_ids (vq_quote vq),
        ve_deployment = d\<lparr>md_compose_manager := manager\<rparr>, ve_deployment_provenance = prov\<rparr>,
        vm_gpu_evidence = gpu\<rparr>"
    by (auto simp: verify_model_with_tls_def common_policy_def [symmetric] gpu_requirement_def [symmetric]
        manager_ok_def outcome_simps Let_def split: option.splits)
  from vq obtain q n a where *: "evidence_fresh P (ma_evidence att) ?nonce n a"
      "quote_trusted P (ev_intel_quote (ma_evidence att)) ?policy (mv_tdx_quote vs) q"
      "advertised_matches P (ma_reported_quote_data att) (q_report_data q)"
      "vq = \<lparr>vq_attestation = ma_evidence att, vq_quote = q, vq_signer = ev_signer (ma_evidence att)\<rparr>"
    by (auto simp: binding_ok advertised_matches_def split: option.splits)
  have fresh: "decode_hex P ?nonce = Some n" "length n = 32"
      "decode_hex P (si_address (ev_signer (ma_evidence att))) = Some a" "length a \<le> 32"
    using *(1) by (auto simp: evidence_fresh_def)
  have "model_layout_ok P fp (q_report_data q) a n"
    using layout fresh unfolding *(4)
    by (auto simp: model_layout_ok_def binds_signer_def binds_tls_def binding_ok split: option.splits)
  moreover have "deployment_measured P q (ev_event_log (ma_evidence att)) (ev_app_compose (ma_evidence att))
      (md_runtime_measurements d)" "provenance_run (mv_deployment vs) (d\<lparr>md_compose_manager := manager\<rparr>) prov"
      "md_app_compose d = ev_app_compose (ma_evidence att)"
    using d unfolding *(4) by (simp_all add: binding_ok provenance_run_def)
  moreover have "gpu_ok P (ma_nvidia_payload att) n (gpu_requirement policy) (gpu_verifier_in_force P vs) gpu"
    using gpu fresh(1,2) verify_gpu_evidence_ok by blast
  moreover have "model_key_ok P att a key"
    using key verify_signing_public_key_ok [OF fresh(3)] by blast
  ultimately show ?R
    using * manager unfolding v by auto
next
  let ?policy = "common_policy policy" and ?nonce = "mcb_nonce binding"
    and ?d = "ve_deployment (vm_evidence v)"
  assume ?R
  then obtain n a q where *: "evidence_fresh P (ma_evidence att) ?nonce n a"
      "quote_trusted P (ev_intel_quote (ma_evidence att)) ?policy (mv_tdx_quote vs) q"
      "advertised_matches P (ma_reported_quote_data att) (q_report_data q)"
      "model_layout_ok P fp (q_report_data q) a n"
    and manager: "manager_ok P att ?nonce ?policy (mv_tdx_quote vs) (md_compose_manager ?d)"
    and rest: "deployment_measured P q (ev_event_log (ma_evidence att)) (ev_app_compose (ma_evidence att))
        (md_runtime_measurements ?d)" "provenance_run (mv_deployment vs) ?d (ve_deployment_provenance (vm_evidence v))"
      "md_app_compose ?d = ev_app_compose (ma_evidence att)" "ve_signer (vm_evidence v) = ev_signer (ma_evidence att)"
      "ve_tcb_status (vm_evidence v) = q_tcb_status q" "ve_advisory_ids (vm_evidence v) = q_advisory_ids q"
    and gpu: "gpu_ok P (ma_nvidia_payload att) n (gpu_requirement policy) (gpu_verifier_in_force P vs) (vm_gpu_evidence v)"
    and key: "model_key_ok P att a (vm_signing_public_key v)"
    by blast
  let ?v = "\<lparr>vq_attestation = ma_evidence att, vq_quote = q, vq_signer = ev_signer (ma_evidence att)\<rparr>"
  have fresh: "decode_hex P ?nonce = Some n" "length n = 32"
      "decode_hex P (si_address (ev_signer (ma_evidence att))) = Some a" "length a \<le> 32"
    using *(1) by (auto simp: evidence_fresh_def)
  have len: "length (q_report_data q) = 64"
    using *(4) by (auto simp: model_layout_ok_def binds_signer_def binds_tls_def split: option.splits)
  have quote: "verify_dstack_quote P (ma_evidence att) ?nonce ?policy (mv_tdx_quote vs)
      (ma_reported_quote_data att) = Inr ?v"
    using *(1-3) len unfolding verify_dstack_quote_ok advertised_matches_def by auto
  have deployment: "verify_dstack_deployment P ?v = Inr (?d\<lparr>md_compose_manager := None\<rparr>)"
      "run_deployment_verifier ?d (mv_deployment vs) = Inr (ve_deployment_provenance (vm_evidence v))"
    using rest by (simp_all add: binding_ok provenance_run_def)
  have layout: "case fp of
      Some t \<Rightarrow> \<exists>f. verify_report_data_binding_with_tls_fingerprint P (q_report_data q) ?nonce
          (si_address (ev_signer (ma_evidence att))) t t = Inr f
    | None \<Rightarrow> verify_report_data_binding P (q_report_data q) ?nonce (si_address (ev_signer (ma_evidence att))) = Inr ()"
    using *(4) fresh
    by (auto simp: model_layout_ok_def binds_signer_def binds_tls_def binding_ok split: option.splits)
  have gpu': "verify_gpu_evidence P (ma_nvidia_payload att) ?nonce (gpu_requirement policy) (mv_gpu_evidence vs)
      = Inr (vm_gpu_evidence v)"
    using gpu fresh(1,2) verify_gpu_evidence_ok by blast
  have key': "verify_signing_public_key P att = Inr (vm_signing_public_key v)"
    using key verify_signing_public_key_ok [OF fresh(3)] by blast
  have upd: "d\<lparr>md_compose_manager := m\<rparr> = d" if "md_compose_manager d = m" for d :: measured_deployment and m
    using that by (cases d) simp
  show ?L
    using layout manager rest(4-6) deployment(2) gpu' key'
    by (cases v; cases "vm_evidence v")
      (auto simp: verify_model_with_tls_def common_policy_def [symmetric] gpu_requirement_def [symmetric]
        manager_ok_def quote deployment Let_def upd split: option.splits)
qed

section \<open>Panics\<close>

text \<open>
  After \<open>validate_signing_identity\<close> the address fits the 32 bytes it is copied into, so no
  slice of the report checks is out of range: only a verifier the caller supplies can panic.
\<close>

lemma verify_dstack_quote_address:
  "verify_dstack_quote P ev nonce policy verifier adv = Inr v \<Longrightarrow>
   \<exists>a. decode_hex P (si_address (vq_signer v)) = Some a \<and> length a \<le> 32"
  by (auto simp: binding_ok evidence_fresh_def)

lemma verify_report_data_binding_no_panic:
  assumes "verify_dstack_quote P ev nonce policy verifier adv = Inr v"
  shows "\<not> panics (verify_report_data_binding P data nonce (si_address (vq_signer v)))"
  using verify_dstack_quote_address [OF assms] by (auto simp: verify_report_data_binding_panics)

definition deployment_verifier_total :: "deployment_verifier option \<Rightarrow> bool" where
  "deployment_verifier_total vd \<longleftrightarrow> (case vd of None \<Rightarrow> True | Some f \<Rightarrow> \<forall>d. \<not> panics (f d))"

lemma run_deployment_verifier_no_panic:
  "deployment_verifier_total vd \<Longrightarrow> \<not> panics (run_deployment_verifier d vd)"
  by (auto simp: run_deployment_verifier_def deployment_verifier_total_def split: option.splits)

lemma verify_gateway_attestation_no_panic_aux:
  assumes "verifier_total (or_else (verify_tdx_quote P default_intel_pccs_url) (av_tdx_quote vs))"
    and "deployment_verifier_total (av_deployment vs)"
  shows "\<not> panics (verify_gateway_attestation P att binding policy vs)"
  using assms(2)
  by (auto simp: verify_gateway_attestation_def verify_dstack_quote_no_panic [OF assms(1)]
      run_deployment_verifier_no_panic dest!: verify_report_data_binding_no_panic split: option.splits)

lemma verify_model_with_tls_no_panic_aux:
  assumes "verifier_total (or_else (verify_tdx_quote P default_intel_pccs_url) (mv_tdx_quote vs))"
    and "deployment_verifier_total (mv_deployment vs)" and "verifier_total (gpu_verifier_in_force P vs)"
  shows "\<not> panics (verify_model_with_tls P att binding policy vs fp)"
proof -
  have gpu: "\<not> panics (verify_gpu_evidence P payload nonce r (mv_gpu_evidence vs))" for payload nonce r
    using assms(3)
    by (auto simp: verify_gpu_evidence_def gpu_verifier_in_force_def verifier_total_def Let_def
        split: option.splits gpu_evidence_requirement.splits)
  have key: "\<not> panics (verify_signing_public_key P att)"
    by (auto simp: verify_signing_public_key_def Let_def split: option.splits signing_algo.splits)
  show ?thesis
    using assms(2)
    by (auto simp: verify_model_with_tls_def Let_def verify_dstack_quote_no_panic [OF assms(1)]
      verify_compose_manager_no_panic [OF assms(1)] gpu key
      run_deployment_verifier_no_panic dest!: verify_report_data_binding_no_panic split: option.splits)
qed

section \<open>Properties\<close>

text \<open>C1: Gateway verification is exact. It succeeds with \<open>v\<close> precisely when: the report echoes the
  client's 32-byte nonce and its signer's address has its algorithm's length; the TDX verifier
  in force returned the quote, not in debug mode and with a TCB status the policy accepts; the
  advertised report data is the quote's; the report data binds the signer and the nonce, and,
  when the report names a TLS key, also that key, which is the peer's; RTMR3 and \<open>MRCONFIGID\<close>
  measure the reported log and app compose; and the caller's deployment verifier accepted.
  What \<open>v\<close> reports is this signer, status, deployment and TLS binding.\<close>

lemma gateway_verification_exact:
  "verify_gateway_attestation P att binding policy vs = Inr v \<longleftrightarrow>
     (\<exists>n a q.
        evidence_fresh P (ga_evidence att) (gcb_nonce binding) n a
        \<and> quote_trusted P (ev_intel_quote (ga_evidence att)) policy (av_tdx_quote vs) q
        \<and> decode_hex P (ga_reported_quote_data att) = Some (q_report_data q)
        \<and> gateway_tls_ok P att binding (q_report_data q) a n (vg_tls_binding v)
        \<and> deployment_measured P q (ev_event_log (ga_evidence att)) (ev_app_compose (ga_evidence att))
             (md_runtime_measurements (ve_deployment (vg_evidence v)))
        \<and> provenance_run (av_deployment vs) (ve_deployment (vg_evidence v)) (ve_deployment_provenance (vg_evidence v))
        \<and> md_compose_manager (ve_deployment (vg_evidence v)) = None
        \<and> md_app_compose (ve_deployment (vg_evidence v)) = ev_app_compose (ga_evidence att)
        \<and> ve_signer (vg_evidence v) = ev_signer (ga_evidence att)
        \<and> ve_tcb_status (vg_evidence v) = q_tcb_status q
        \<and> ve_advisory_ids (vg_evidence v) = q_advisory_ids q)"
  by (rule verify_gateway_attestation_eq)

text \<open>C2: Model verification is exact, on the direct (TLS-bound) and the Gateway path alike. Beyond
  the checks of a Gateway report it requires that a Compose Manager log verifies under the
  same nonce, policy and app compose, that GPU evidence names the client's nonce and passed
  (or is absent and not required), and that an advertised encryption key is the signer's.\<close>

lemma model_verification_exact:
  "verify_model_with_tls P att binding policy vs fp = Inr v \<longleftrightarrow>
     (\<exists>n a q.
        evidence_fresh P (ma_evidence att) (mcb_nonce binding) n a
        \<and> quote_trusted P (ev_intel_quote (ma_evidence att)) (common_policy policy) (mv_tdx_quote vs) q
        \<and> advertised_matches P (ma_reported_quote_data att) (q_report_data q)
        \<and> model_layout_ok P fp (q_report_data q) a n
        \<and> manager_ok P att (mcb_nonce binding) (common_policy policy) (mv_tdx_quote vs)
             (md_compose_manager (ve_deployment (vm_evidence v)))
        \<and> deployment_measured P q (ev_event_log (ma_evidence att)) (ev_app_compose (ma_evidence att))
             (md_runtime_measurements (ve_deployment (vm_evidence v)))
        \<and> provenance_run (mv_deployment vs) (ve_deployment (vm_evidence v)) (ve_deployment_provenance (vm_evidence v))
        \<and> gpu_ok P (ma_nvidia_payload att) n (gpu_requirement policy) (gpu_verifier_in_force P vs) (vm_gpu_evidence v)
        \<and> model_key_ok P att a (vm_signing_public_key v)
        \<and> md_app_compose (ve_deployment (vm_evidence v)) = ev_app_compose (ma_evidence att)
        \<and> ve_signer (vm_evidence v) = ev_signer (ma_evidence att)
        \<and> ve_tcb_status (vm_evidence v) = q_tcb_status q
        \<and> ve_advisory_ids (vm_evidence v) = q_advisory_ids q)"
  by (rule verify_model_with_tls_eq)

text \<open>C18: Report verification never panics of itself: if the verifiers the caller passes (or the
  built-in ones) do not, no slice, index or copy of the code is out of range, for any report.\<close>

lemma report_verification_no_panic:
  assumes "verifier_total (or_else (verify_tdx_quote P default_intel_pccs_url) (mv_tdx_quote vs))"
    and "deployment_verifier_total (mv_deployment vs)" and "verifier_total (gpu_verifier_in_force P vs)"
  shows "\<not> panics (verify_model_with_tls P att binding policy vs fp)
     \<and> \<not> panics (verify_gateway_attestation P gatt gbinding gpolicy
           \<lparr>av_tdx_quote = mv_tdx_quote vs, av_deployment = mv_deployment vs\<rparr>)"
  using verify_model_with_tls_no_panic_aux [OF assms]
    verify_gateway_attestation_no_panic_aux [of P "\<lparr>av_tdx_quote = mv_tdx_quote vs, av_deployment = mv_deployment vs\<rparr>"]
    assms(1,2) by simp

definition demo_model_verifiers :: model_verifiers where
  "demo_model_verifiers = \<lparr>mv_tdx_quote = Some (\<lambda>_. fail DebugEnabled), mv_gpu_evidence = None, mv_deployment = None\<rparr>"

lemma report_verification_no_panic_witness:
  "\<not> panics (verify_model_with_tls demo_jwt
      \<lparr>ma_signing_public_key = None, ma_compose_manager = None,
       ma_evidence = \<lparr>ev_nonce = [], ev_signer = \<lparr>si_algo = Ecdsa, si_address = []\<rparr>, ev_intel_quote = [],
         ev_event_log = Log_Entries [], ev_app_compose = []\<rparr>,
       ma_reported_quote_data = None, ma_nvidia_payload = None\<rparr>
      \<lparr>mcb_nonce = []\<rparr> None demo_model_verifiers None)"
  by (rule report_verification_no_panic [THEN conjunct1])
    (simp_all add: demo_model_verifiers_def verifier_total_def deployment_verifier_total_def gpu_verifier_in_force_def)

text \<open>A report answers one challenge. The same Gateway report verifies only under clients'
  nonces that denote the same 32 bytes, so a recorded report cannot be replayed to a client
  with a fresh nonce, whatever verifier and policy it uses.\<close>

lemma report_answers_one_nonce:
  assumes "verify_gateway_attestation P att binding policy vs = Inr v"
    and "verify_gateway_attestation P att binding' policy' vs' = Inr v'"
  shows "decode_hex P (gcb_nonce binding) = decode_hex P (gcb_nonce binding')"
  using assms unfolding verify_gateway_attestation_eq evidence_fresh_def by auto

definition demo_quote :: "bytes \<Rightarrow> tdx_quote" where
  "demo_quote data = \<lparr>q_tcb_status = UpToDate, q_advisory_ids = [], q_debug_enabled = False, q_report_data = data,
     q_mr_config_id = 1 # sha256 demo_prims [], q_rt_mr3 = demo_register\<rparr>"

definition demo_evidence :: attestation_evidence where
  "demo_evidence = \<lparr>ev_nonce = replicate 64 (CHR ''0''),
     ev_signer = \<lparr>si_algo = Ecdsa, si_address = replicate 40 (CHR ''0'')\<rparr>, ev_intel_quote = [],
     ev_event_log = demo_log, ev_app_compose = []\<rparr>"

definition demo_gateway_report :: gateway_attestation where
  "demo_gateway_report = \<lparr>ga_evidence = demo_evidence, ga_spki_fingerprint = None,
     ga_reported_quote_data = replicate 128 (CHR ''0'')\<rparr>"

definition demo_binding :: gateway_client_binding where
  "demo_binding = \<lparr>gcb_nonce = replicate 64 (CHR ''0''), gcb_spki_fingerprint = None\<rparr>"

definition demo_verifiers :: attestation_verifiers where
  "demo_verifiers = \<lparr>av_tdx_quote = Some (\<lambda>_. Inr (demo_quote (replicate 64 0))), av_deployment = None\<rparr>"

definition demo_verified_gateway :: verified_gateway_attestation where
  "demo_verified_gateway = \<lparr>vg_evidence = \<lparr>ve_signer = ev_signer demo_evidence, ve_tcb_status = UpToDate,
     ve_advisory_ids = [], ve_deployment = \<lparr>md_compose_manager = None, md_app_compose = [],
       md_runtime_measurements = demo_measurements\<rparr>, ve_deployment_provenance = NotChecked\<rparr>,
     vg_tls_binding = No_Tls_Binding\<rparr>"

lemma demo_gateway_verifies:
  "verify_gateway_attestation demo_jwt demo_gateway_report demo_binding None demo_verifiers = Inr demo_verified_gateway"
  by code_simp

lemma report_answers_one_nonce_witness:
  "decode_hex demo_jwt (gcb_nonce demo_binding) = decode_hex demo_jwt (gcb_nonce demo_binding)"
  by (rule report_answers_one_nonce [OF demo_gateway_verifies demo_gateway_verifies])

end
