(* ===== verification/Response_Signature.thy ===== *)
theory Response_Signature
  imports Reports
begin

text \<open>
  \<open>response.rs\<close>: verification of a completion signature over the exact bytes of request and
  response, against the signer of a verified report. Curve arithmetic is an operation of the
  environment; the signed text, the EIP-191 framing, the recovery id and the address are here.
\<close>

record 'c sig_prims = "'c jwt_prims" +
  ecdsa_parse :: "bytes \<Rightarrow> bool"
  ecdsa_recover :: "bytes \<Rightarrow> bytes \<Rightarrow> byte \<Rightarrow> bytes option"
  ed25519_key :: "bytes \<Rightarrow> bool"
  ed25519_verify :: "bytes \<Rightarrow> bytes \<Rightarrow> bytes \<Rightarrow> bool"

text \<open>Hexadecimal text has two digits for each byte.\<close>

definition hex_format :: "'z prims_scheme \<Rightarrow> bool" where
  "hex_format P \<longleftrightarrow> (\<forall>b. length (hex_encode P b) = 2 * length b \<and> list_all is_hexdigit (hex_encode P b))"

section \<open>The signed text\<close>

definition require_signature_kind :: "completion_signature \<Rightarrow> completion_signature_kind \<Rightarrow> unit ver" where
  "require_signature_kind signature expected =
     ensure (cs_kind signature = expected) (SignatureKindMismatch expected (cs_kind signature))"

definition canonical_model_id :: "'z prims_scheme \<Rightarrow> bytes \<Rightarrow> string ver" where
  "canonical_model_id P request_body =
     rbind (ok_or (SignaturePayloadMismatch ''invalid_json'') (json_parse P request_body)) (\<lambda>parsed.
     ok_or (SignaturePayloadMismatch ''missing_model'')
       (Option.bind (Option.bind (jget parsed ''model'') as_str)
         (\<lambda>model. if model \<noteq> [] then Some model else None)))"

definition gateway_text :: "'z prims_scheme \<Rightarrow> bytes \<Rightarrow> bytes \<Rightarrow> string" where
  "gateway_text P request_body response_body =
     hex_encode P (sha256 P request_body) @ '':'' @ hex_encode P (sha256 P response_body)"

definition model_text :: "'z prims_scheme \<Rightarrow> string \<Rightarrow> bytes \<Rightarrow> bytes \<Rightarrow> string" where
  "model_text P model request_body response_body =
     model @ '':'' @ hex_encode P (sha256 P request_body) @ '':'' @ hex_encode P (sha256 P response_body)"

section \<open>Signature bytes\<close>

definition signature_hex :: "'z prims_scheme \<Rightarrow> string \<Rightarrow> string \<Rightarrow> bytes ver" where
  "signature_hex P value field = ok_or (SignatureFormatInvalid field ''invalid_hex'') (decode_hex P value)"

definition normalize_recovery_id :: "byte \<Rightarrow> byte ver" where
  "normalize_recovery_id value =
     (let normalized = (if value = 27 \<or> value = 28 then value - 27
        else if 35 \<le> value then (value - 35) mod 2
        else value) in
      if normalized \<le> 3 then Inr normalized
      else fail (SignatureFormatInvalid ''signature'' ''invalid_recovery_id''))"

definition eip191_message :: "string \<Rightarrow> bytes" where
  "eip191_message signed_text =
     as_bytes (CHR 0x19 # ''Ethereum Signed Message:'' @ CHR 0x0A # decimal (length signed_text)) @ as_bytes signed_text"

definition verify_ecdsa_signature :: "('c, 'z) sig_prims_scheme \<Rightarrow> completion_signature \<Rightarrow> unit ver" where
  "verify_ecdsa_signature P signature =
     rbind (signature_hex P (cs_signature signature) ''signature'') (\<lambda>signature_bytes.
     rbind (signature_hex P (si_address (cs_signer signature)) ''signer.signing_address'') (\<lambda>signing_address.
     rbind (ensure (length signature_bytes = 65) (SignatureFormatInvalid ''signature'' ''wrong_length'')) (\<lambda>_.
     rbind (ensure (length signing_address = 20)
              (SignatureFormatInvalid ''signer.signing_address'' ''wrong_length'')) (\<lambda>_.
     let digest = keccak256_digest P (eip191_message (cs_signed_text signature)) in
     rbind (index_at signature_bytes 64) (\<lambda>v.
     rbind (normalize_recovery_id v) (\<lambda>recovery_id.
     rbind (slice_to 64 signature_bytes) (\<lambda>rs.
     rbind (ensure (ecdsa_parse P rs) (SignatureInvalid Ecdsa)) (\<lambda>_.
     rbind (ok_or (SignatureInvalid Ecdsa) (ecdsa_recover P digest rs recovery_id)) (\<lambda>public_key.
     rbind (ensure (length public_key = 65 \<and> public_key ! 0 = 4) (SignatureInvalid Ecdsa)) (\<lambda>_.
     let hash = keccak256_digest P (drop 1 public_key) in
     ensure (drop 12 hash = signing_address) (SignatureInvalid Ecdsa)))))))))))"

definition verify_ed25519_signature :: "('c, 'z) sig_prims_scheme \<Rightarrow> completion_signature \<Rightarrow> unit ver" where
  "verify_ed25519_signature P signature =
     rbind (signature_hex P (si_address (cs_signer signature)) ''signer.signing_address'') (\<lambda>public_key.
     rbind (signature_hex P (cs_signature signature) ''signature'') (\<lambda>signed.
     rbind (ensure (length public_key = 32)
              (SignatureFormatInvalid ''signer.signing_address'' ''wrong_length'')) (\<lambda>_.
     rbind (ensure (length signed = 64) (SignatureFormatInvalid ''signature'' ''wrong_length'')) (\<lambda>_.
     rbind (ensure (ed25519_key P public_key) (SignatureInvalid Ed25519)) (\<lambda>_.
     ensure (ed25519_verify P public_key (as_bytes (cs_signed_text signature)) signed)
       (SignatureInvalid Ed25519))))))"

definition verify_signature_bytes :: "('c, 'z) sig_prims_scheme \<Rightarrow> completion_signature \<Rightarrow> unit ver" where
  "verify_signature_bytes P signature =
     (case si_algo (cs_signer signature) of
        Ecdsa \<Rightarrow> verify_ecdsa_signature P signature
      | Ed25519 \<Rightarrow> verify_ed25519_signature P signature)"

definition verify_signature_text_and_bytes ::
  "('c, 'z) sig_prims_scheme \<Rightarrow> completion_signature \<Rightarrow> string \<Rightarrow> unit ver" where
  "verify_signature_text_and_bytes P signature expected_text =
     rbind (ensure (cs_signed_text signature = expected_text)
              (SignaturePayloadMismatch ''text_mismatch'')) (\<lambda>_.
     verify_signature_bytes P signature)"

definition verify_signature_matches_attestation ::
  "'z prims_scheme \<Rightarrow> completion_signature \<Rightarrow> signing_identity \<Rightarrow> unit ver" where
  "verify_signature_matches_attestation P signature signer =
     rbind (ok_or SignatureSignerMismatch (decode_hex P (si_address (cs_signer signature)))) (\<lambda>signature_address.
     rbind (ok_or SignatureSignerMismatch (decode_hex P (si_address signer))) (\<lambda>attestation_address.
     ensure (si_algo (cs_signer signature) = si_algo signer \<and> signature_address = attestation_address)
       SignatureSignerMismatch))"

section \<open>Responses\<close>

definition verify_model_response ::
  "('c, 'z) sig_prims_scheme \<Rightarrow> bytes \<Rightarrow> bytes \<Rightarrow> completion_signature \<Rightarrow> verified_model_attestation \<Rightarrow> unit ver" where
  "verify_model_response P request_body response_body signature attestation =
     rbind (require_signature_kind signature ProviderTee) (\<lambda>_.
     rbind (canonical_model_id P request_body) (\<lambda>model.
     rbind (verify_signature_text_and_bytes P signature (model_text P model request_body response_body)) (\<lambda>_.
     verify_signature_matches_attestation P signature (ve_signer (vm_evidence attestation)))))"

definition verify_gateway_response ::
  "('c, 'z) sig_prims_scheme \<Rightarrow> bytes \<Rightarrow> bytes \<Rightarrow> completion_signature \<Rightarrow> verified_gateway_attestation \<Rightarrow> unit ver" where
  "verify_gateway_response P request_body response_body signature attestation =
     rbind (require_signature_kind signature Gateway) (\<lambda>_.
     rbind (verify_signature_text_and_bytes P signature (gateway_text P request_body response_body)) (\<lambda>_.
     verify_signature_matches_attestation P signature (ve_signer (vg_evidence attestation))))"

section \<open>What success means\<close>

named_theorems sig_ok \<open>success of each signature check\<close>

lemma require_signature_kind_ok [sig_ok]: "require_signature_kind s k = Inr u \<longleftrightarrow> cs_kind s = k"
  by (simp add: require_signature_kind_def outcome_simps)

lemma signature_hex_ok [sig_ok]: "signature_hex P v f = Inr b \<longleftrightarrow> decode_hex P v = Some b"
  by (simp add: signature_hex_def outcome_simps)

text \<open>The model a request names.\<close>

definition request_model :: "'z prims_scheme \<Rightarrow> bytes \<Rightarrow> string \<Rightarrow> bool" where
  "request_model P body model \<longleftrightarrow> model \<noteq> [] \<and> (\<exists>j. json_parse P body = Some j \<and> jget j ''model'' = Some (JStr model))"

lemma canonical_model_id_ok [sig_ok]: "canonical_model_id P body = Inr m \<longleftrightarrow> request_model P body m"
  by (auto simp: canonical_model_id_def request_model_def outcome_simps str_simps bind_eq_Some_conv
      split: if_splits)

text \<open>
  The signature bytes are \<open>r\<close>, \<open>s\<close> and a recovery id, and the key recovered from the EIP-191 digest
  of the text has the signer's Ethereum address.
\<close>

definition ecdsa_signed :: "('c, 'z) sig_prims_scheme \<Rightarrow> bytes \<Rightarrow> string \<Rightarrow> bytes \<Rightarrow> bool" where
  "ecdsa_signed P address signed_text signature \<longleftrightarrow>
     length signature = 65 \<and> length address = 20 \<and>
     (\<exists>rid key. normalize_recovery_id (signature ! 64) = Inr rid \<and> ecdsa_parse P (take 64 signature)
        \<and> ecdsa_recover P (keccak256_digest P (eip191_message signed_text)) (take 64 signature) rid = Some (4 # key)
        \<and> length key = 64 \<and> drop 12 (keccak256_digest P key) = address)"

definition ed25519_signed :: "('c, 'z) sig_prims_scheme \<Rightarrow> bytes \<Rightarrow> string \<Rightarrow> bytes \<Rightarrow> bool" where
  "ed25519_signed P key signed_text signature \<longleftrightarrow>
     length key = 32 \<and> length signature = 64 \<and> ed25519_key P key \<and> ed25519_verify P key (as_bytes signed_text) signature"

definition signed_by :: "('c, 'z) sig_prims_scheme \<Rightarrow> signing_algo \<Rightarrow> bytes \<Rightarrow> string \<Rightarrow> bytes \<Rightarrow> bool" where
  "signed_by P algo address signed_text signature \<longleftrightarrow>
     (case algo of Ecdsa \<Rightarrow> ecdsa_signed P address signed_text signature
      | Ed25519 \<Rightarrow> ed25519_signed P address signed_text signature)"

lemma key_shape: "(length k = 65 \<and> k ! 0 = (4 :: byte)) \<longleftrightarrow> (\<exists>key. k = 4 # key \<and> length key = 64)"
  by (cases k) auto

lemma verify_ecdsa_signature_ok:
  "verify_ecdsa_signature P s = Inr u \<longleftrightarrow>
     (\<exists>a b. decode_hex P (si_address (cs_signer s)) = Some a \<and> decode_hex P (cs_signature s) = Some b
        \<and> ecdsa_signed P a (cs_signed_text s) b)" (is "?L \<longleftrightarrow> ?R")
proof
  assume ?L
  then show ?R
    by (auto simp: verify_ecdsa_signature_def ecdsa_signed_def outcome_simps sig_ok Let_def key_shape)
next
  assume ?R
  then show ?L
    by (auto simp: verify_ecdsa_signature_def ecdsa_signed_def signature_hex_def index_at_def slice_to_def Let_def)
qed

lemma verify_signature_bytes_ok [sig_ok]:
  "verify_signature_bytes P s = Inr u \<longleftrightarrow>
     (\<exists>a b. decode_hex P (si_address (cs_signer s)) = Some a \<and> decode_hex P (cs_signature s) = Some b
        \<and> signed_by P (si_algo (cs_signer s)) a (cs_signed_text s) b)"
  by (auto simp: verify_signature_bytes_def verify_ecdsa_signature_ok verify_ed25519_signature_def
      signed_by_def ed25519_signed_def outcome_simps sig_ok split: signing_algo.split)

text \<open>A signature of this kind and text by the signer of the report.\<close>

definition signature_by ::
  "('c, 'z) sig_prims_scheme \<Rightarrow> completion_signature \<Rightarrow> completion_signature_kind \<Rightarrow> string \<Rightarrow> signing_identity \<Rightarrow> bool" where
  "signature_by P s kind signed_text signer \<longleftrightarrow>
     cs_kind s = kind \<and> cs_signed_text s = signed_text \<and> si_algo (cs_signer s) = si_algo signer
     \<and> (\<exists>a b. decode_hex P (si_address signer) = Some a \<and> decode_hex P (si_address (cs_signer s)) = Some a
          \<and> decode_hex P (cs_signature s) = Some b \<and> signed_by P (si_algo signer) a signed_text b)"

lemma verify_signature_matches_attestation_ok [sig_ok]:
  "verify_signature_matches_attestation P s signer = Inr u \<longleftrightarrow>
     si_algo (cs_signer s) = si_algo signer
     \<and> (\<exists>a. decode_hex P (si_address (cs_signer s)) = Some a \<and> decode_hex P (si_address signer) = Some a)"
  by (auto simp: verify_signature_matches_attestation_def outcome_simps)

lemma verify_gateway_response_eq [sig_ok]:
  "verify_gateway_response P req resp s v = Inr u \<longleftrightarrow>
     signature_by P s Gateway (gateway_text P req resp) (ve_signer (vg_evidence v))"
  by (auto simp: verify_gateway_response_def verify_signature_text_and_bytes_def signature_by_def
      outcome_simps sig_ok)

lemma verify_model_response_eq [sig_ok]:
  "verify_model_response P req resp s v = Inr u \<longleftrightarrow>
     (\<exists>model. request_model P req model
        \<and> signature_by P s ProviderTee (model_text P model req resp) (ve_signer (vm_evidence v)))"
  by (auto simp: verify_model_response_def verify_signature_text_and_bytes_def signature_by_def
      outcome_simps sig_ok)

section \<open>The signed text determines what was signed\<close>

lemma hex_format_length: "hex_format P \<Longrightarrow> digest_lengths P \<Longrightarrow> length (hex_encode P (sha256 P x)) = 64"
  by (simp add: hex_format_def sha256_def digest_lengthsD)

lemma gateway_text_inject:
  assumes "hex_format P" and "digest_lengths P" and "hex_roundtrip P"
    and "gateway_text P a b = gateway_text P c d"
  shows "sha256 P a = sha256 P c \<and> sha256 P b = sha256 P d"
  using assms by (simp add: gateway_text_def hex_format_length hex_encode_inject)

lemma model_text_inject:
  assumes "hex_format P" and "digest_lengths P" and "hex_roundtrip P"
    and eq: "model_text P m a b = model_text P n c d"
  shows "m = n \<and> sha256 P a = sha256 P c \<and> sha256 P b = sha256 P d"
proof -
  note len = hex_format_length [OF assms(1,2)]
  from arg_cong [OF eq, of length] have "length m = length n" by (simp add: model_text_def len)
  with eq show ?thesis using assms(3) by (simp add: model_text_def len hex_encode_inject)
qed

lemma text_kinds_differ:
  assumes "hex_format P" and "digest_lengths P"
  shows "gateway_text P a b \<noteq> model_text P m c d"
  using hex_format_length [OF assms] by (auto simp: gateway_text_def model_text_def dest: arg_cong [of _ _ length])

section \<open>Panics\<close>

lemma verify_signature_bytes_no_panic [simp]: "\<not> panics (verify_signature_bytes P s)"
  by (auto simp: verify_signature_bytes_def verify_ecdsa_signature_def verify_ed25519_signature_def
      signature_hex_def normalize_recovery_id_def Let_def outcome_simps split: signing_algo.split)

lemma verify_responses_no_panic [simp]:
  "\<not> panics (verify_model_response P a b s vm)" "\<not> panics (verify_gateway_response P a b s vg)"
  by (simp_all add: verify_model_response_def verify_gateway_response_def verify_signature_text_and_bytes_def
      require_signature_kind_def canonical_model_id_def verify_signature_matches_attestation_def)

section \<open>The instance\<close>

text \<open>In the instance every well-formed signature verifies, under a fixed key of zeros.\<close>

definition demo_sig :: "unit sig_prims" where
  "demo_sig = jwt_prims.extend demo_jwt (sig_prims.fields (\<lambda>_. True) (\<lambda>_ _ _. Some (4 # replicate 64 0))
     (\<lambda>_. True) (\<lambda>_ _ _. True))"

declare demo_sig_def [demo_defs] sig_prims.defs [demo_defs]

lemma demo_sig_laws: "digest_lengths demo_sig" "hex_roundtrip demo_sig" "json_roundtrip demo_sig" "hex_format demo_sig"
  by (simp_all add: digest_lengths_def hex_roundtrip_def json_roundtrip_def hex_format_def demo_defs
      demo_digest_length demo_hex_roundtrip demo_json_roundtrip demo_hex_format)

section \<open>Properties\<close>

text \<open>C32: Response verification is exact. A Gateway response verifies precisely when the signature is
  of kind \<open>gateway\<close>, its text is the two hexadecimal SHA-256 hashes of the request and the response joined by
  a colon, its algorithm and address are those of the attested signer, and its bytes are that
  signer's signature of the text (for ECDSA: the key recovered from the EIP-191 digest has the
  address). A model response also needs the request's non-empty model as the text's prefix.\<close>

lemma response_verification_exact:
  "(verify_gateway_response P req resp s vg = Inr () \<longleftrightarrow>
      signature_by P s Gateway (gateway_text P req resp) (ve_signer (vg_evidence vg)))
   \<and> (verify_model_response P req resp s vm = Inr () \<longleftrightarrow>
      (\<exists>model. request_model P req model
         \<and> signature_by P s ProviderTee (model_text P model req resp) (ve_signer (vm_evidence vm))))"
  by (simp add: sig_ok)

text \<open>C10: A signature vouches for one exchange. If one signature verifies for two request and
  response pairs, as Gateway or as model responses and under any reports, both requests and
  both responses have the same SHA-256 hash; and no signature verifies in both roles.\<close>

lemma signature_binds_exchange:
  assumes "hex_format P" and "digest_lengths P" and "hex_roundtrip P"
    and "verify_gateway_response P req resp s vg = Inr () \<or> verify_model_response P req resp s vm = Inr ()"
    and "verify_gateway_response P req' resp' s vg' = Inr () \<or> verify_model_response P req' resp' s vm' = Inr ()"
  shows "sha256 P req = sha256 P req' \<and> sha256 P resp = sha256 P resp'
     \<and> \<not> (verify_gateway_response P req resp s vg = Inr () \<and> verify_model_response P req' resp' s vm' = Inr ())"
proof -
  have kinds: "\<not> (verify_gateway_response P a b s g = Inr () \<and> verify_model_response P c d s m = Inr ())" for a b c d g m
    by (auto simp: sig_ok signature_by_def)
  have "sha256 P req = sha256 P req' \<and> sha256 P resp = sha256 P resp'"
  proof (cases "cs_kind s")
    case Gateway
    with assms(4,5) have "gateway_text P req resp = gateway_text P req' resp'"
      by (auto simp: sig_ok signature_by_def)
    then show ?thesis by (rule gateway_text_inject [OF assms(1-3)])
  next
    case ProviderTee
    with assms(4,5) obtain m m' where "cs_signed_text s = model_text P m req resp"
        "cs_signed_text s = model_text P m' req' resp'"
      by (auto simp: sig_ok signature_by_def)
    then have "model_text P m req resp = model_text P m' req' resp'" by simp
    then show ?thesis using model_text_inject [OF assms(1-3)] by blast
  qed
  with kinds show ?thesis by blast
qed

definition demo_signature :: completion_signature where
  "demo_signature = \<lparr>cs_kind = Gateway, cs_signed_text = gateway_text demo_sig [1] [2],
     cs_signature = replicate 128 (CHR ''0''), cs_signer = \<lparr>si_algo = Ed25519, si_address = replicate 64 (CHR ''0'')\<rparr>\<rparr>"

definition demo_signed_gateway :: verified_gateway_attestation where
  "demo_signed_gateway = demo_verified_gateway\<lparr>vg_evidence := (vg_evidence demo_verified_gateway)
     \<lparr>ve_signer := \<lparr>si_algo = Ed25519, si_address = replicate 64 (CHR ''0'')\<rparr>\<rparr>\<rparr>"

lemma demo_response_verifies: "verify_gateway_response demo_sig [1] [2] demo_signature demo_signed_gateway = Inr ()"
  by code_simp

definition demo_signed_model :: verified_model_attestation where
  "demo_signed_model = \<lparr>vm_signing_public_key = None, vm_evidence = vg_evidence demo_signed_gateway,
     vm_gpu_evidence = NotProvided\<rparr>"

lemma signature_binds_exchange_witness:
  "sha256 demo_sig [1] = sha256 demo_sig [1] \<and> sha256 demo_sig [2] = sha256 demo_sig [2]
     \<and> \<not> (verify_gateway_response demo_sig [1] [2] demo_signature demo_signed_gateway = Inr ()
          \<and> verify_model_response demo_sig [1] [2] demo_signature demo_signed_model = Inr ())"
  by (rule signature_binds_exchange [OF demo_sig_laws(4,1,2) disjI1 [OF demo_response_verifies]
      disjI1 [OF demo_response_verifies]])

end
