(* ===== verification/Pinned_Tls.thy ===== *)
theory Pinned_Tls
  imports Http
begin

text \<open>
  \<open>pinned_tls.rs\<close>: HTTP clients that admit a server only when its certificate passes the
  ordinary WebPKI check and its public key is one of the pinned ones. The WebPKI verifier is a
  parameter (it answers whether the chain is valid for the server's name now); DER decoding of
  the certificate's public key is \<open>spki_der\<close>. The TLS stack's other callbacks delegate to the
  WebPKI verifier and are not modelled.
\<close>

definition pinned_client :: "'z net_prims_scheme \<Rightarrow> string list \<Rightarrow> http_client ver" where
  "pinned_client P fingerprints =
     rbind (ensure (fingerprints \<noteq> []) SpkiFingerprintRequired) (\<lambda>_.
     rbind (traverse (\<lambda>s. ok_or (protocol ''input.invalid'' ''expected a SHA256 SPKI fingerprint'')
              (require_hex_length P s 32)) fingerprints) (\<lambda>pins.
     Inr \<lparr>hc_redirects = False, hc_proxy = False, hc_tls_info = False, hc_https_only = True,
          hc_pins = Some pins\<rparr>))"

text \<open>The root store is the constant \<open>webpki_roots\<close>, which the WebPKI parameter stands for.\<close>

definition create_pinned_tls_client :: "'z net_prims_scheme \<Rightarrow> string list \<Rightarrow> http_client ver" where
  "create_pinned_tls_client P fingerprints = pinned_client P fingerprints"

datatype tls_error = WebPki_Rejected | BadEncoding | SpkiMismatch

text \<open>\<open>PinnedVerifier::verify_server_cert\<close>\<close>

definition verify_server_cert ::
  "'z net_prims_scheme \<Rightarrow> (bytes \<Rightarrow> bool) \<Rightarrow> bytes list \<Rightarrow> bytes \<Rightarrow> (tls_error, unit) outcome" where
  "verify_server_cert P webpki pins cert =
     rbind (ensure (webpki cert) WebPki_Rejected) (\<lambda>_.
     rbind (ok_or BadEncoding (spki_der P cert)) (\<lambda>der.
     ensure (list_ex (\<lambda>pin. pin = sha256 P der) pins) SpkiMismatch))"

section \<open>What success means\<close>

lemma traverse_ok_or:
  "traverse (\<lambda>s. ok_or e (f s)) xs = Inr ys \<longleftrightarrow> map f xs = map Some ys"
  by (induction xs arbitrary: ys) (auto simp: outcome_simps Cons_eq_map_conv)

lemma pinned_client_ok:
  "pinned_client P fps = Inr c \<longleftrightarrow>
     (\<exists>pins. fps \<noteq> [] \<and> map (\<lambda>s. require_hex_length P s 32) fps = map Some pins
        \<and> c = \<lparr>hc_redirects = False, hc_proxy = False, hc_tls_info = False, hc_https_only = True,
               hc_pins = Some pins\<rparr>)"
  by (auto simp: pinned_client_def outcome_simps traverse_ok_or)

lemma verify_server_cert_ok:
  "verify_server_cert P webpki pins cert = Inr u \<longleftrightarrow>
     webpki cert \<and> (\<exists>der. spki_der P cert = Some der \<and> sha256 P der \<in> set pins)"
  by (auto simp: verify_server_cert_def outcome_simps list_ex_iff)

lemma map_Some_set:
  assumes "map f xs = map Some ys"
  shows "y \<in> set ys \<longleftrightarrow> (\<exists>x \<in> set xs. f x = Some y)"
proof -
  have "f ` set xs = Some ` set ys"
    using arg_cong [OF assms, of set] by simp
  then have "Some y \<in> f ` set xs \<longleftrightarrow> y \<in> set ys"
    by auto
  then show ?thesis
    by (auto simp: image_iff eq_commute [of "Some y"])
qed

section \<open>Properties\<close>

text \<open>A pinned client never weakens TLS. It is built only from a non-empty list of 32-byte
  fingerprints, follows no redirect, uses no proxy and refuses plain HTTP; and it admits a server
  exactly when the ordinary WebPKI check admits the certificate and the SHA-256 digest of its
  public key is one of the listed fingerprints.\<close>

lemma pinned_client_admits:
  assumes "create_pinned_tls_client P fingerprints = Inr client"
  shows "\<exists>pins. hc_pins client = Some pins \<and> \<not> hc_redirects client \<and> \<not> hc_proxy client
     \<and> hc_https_only client \<and> fingerprints \<noteq> []
     \<and> (verify_server_cert P webpki pins cert = Inr () \<longleftrightarrow>
          webpki cert \<and> (\<exists>der s. spki_der P cert = Some der \<and> s \<in> set fingerprints
             \<and> decode_hex P s = Some (sha256 P der) \<and> length (sha256 P der) = 32))"
proof -
  obtain pins where pins: "map (\<lambda>s. require_hex_length P s 32) fingerprints = map Some pins"
      and client: "hc_pins client = Some pins" "\<not> hc_redirects client" "\<not> hc_proxy client"
        "hc_https_only client" "fingerprints \<noteq> []"
    using assms by (auto simp: create_pinned_tls_client_def pinned_client_ok)
  have "d \<in> set pins \<longleftrightarrow> (\<exists>s. s \<in> set fingerprints \<and> decode_hex P s = Some d \<and> length d = 32)" for d
    using map_Some_set [OF pins, of d] by (auto simp: str_simps)
  then have "verify_server_cert P webpki pins cert = Inr () \<longleftrightarrow>
      webpki cert \<and> (\<exists>der s. spki_der P cert = Some der \<and> s \<in> set fingerprints
         \<and> decode_hex P s = Some (sha256 P der) \<and> length (sha256 P der) = 32)"
    by (simp add: verify_server_cert_ok)
  then show ?thesis
    using client by blast
qed

text \<open>An environment in which every certificate is its own public key.\<close>

definition demo_tls :: net_prims where
  "demo_tls = demo_net\<lparr>spki_der := Some\<rparr>"

definition demo_pin :: string where
  "demo_pin = hex_encode demo_tls (sha256 demo_tls [1])"

lemma pinned_client_admits_witness:
  "\<exists>client pins. create_pinned_tls_client demo_tls [demo_pin] = Inr client \<and> hc_pins client = Some pins
     \<and> verify_server_cert demo_tls (\<lambda>_. True) pins [1] = Inr ()"
proof -
  have built: "create_pinned_tls_client demo_tls [demo_pin] =
      Inr \<lparr>hc_redirects = False, hc_proxy = False, hc_tls_info = False, hc_https_only = True,
           hc_pins = Some [sha256 demo_tls [1]]\<rparr>"
    by code_simp
  have "decode_hex demo_tls demo_pin = Some (sha256 demo_tls [1])" "length (sha256 demo_tls [1]) = 32"
    "spki_der demo_tls [1] = Some [1]"
    by code_simp+
  then show ?thesis
    using built pinned_client_admits [OF built, of "\<lambda>_. True" "[1]"] by auto
qed

end
