(* ===== verification/Cloud_Api.thy ===== *)
theory Cloud_Api
  imports Compose_Manager
begin

text \<open>
  \<open>cloud_api.rs\<close>: the client that fetches reports and completion signatures. Building the URL
  and the headers of every request, sending it, decoding the response into its wire type and
  mapping that to the domain types are written out; URL arithmetic, sending and reading a JSON
  document are operations of the environment. A fresh nonce is an argument.
\<close>

definition default_near_ai_cloud_base_url :: string where
  "default_near_ai_cloud_base_url = ''https://cloud-api.near.ai/v1''"

definition no_aliasing_header :: string where
  "no_aliasing_header = ''x-no-aliasing''"

section \<open>Input errors and checks\<close>

definition invalid_api_input :: "string \<Rightarrow> string \<Rightarrow> string option \<Rightarrow> string option \<Rightarrow> api_error" where
  "invalid_api_input field reason expected actual = Api_InvalidInput field reason expected actual"

definition invalid_base_url :: api_error where
  "invalid_base_url = invalid_api_input ''base_url'' ''invalid_url'' (Some ''an absolute HTTP(S) URL'') None"

definition parse_base_url :: "'z net_prims_scheme \<Rightarrow> string \<Rightarrow> url api" where
  "parse_base_url P text =
     rbind (ok_or invalid_base_url (url_parse P text)) (\<lambda>url.
     rbind (ensure (\<not> (u_scheme url \<notin> {''http'', ''https''} \<or> u_host url = None \<or> u_username url \<noteq> []
              \<or> u_password url \<noteq> None \<or> u_query url \<noteq> None \<or> u_fragment url \<noteq> None)) invalid_base_url) (\<lambda>_.
     Inr (if strip_suffix ''/'' (u_path url) = None then url\<lparr>u_path := u_path url @ ''/''\<rparr> else url)))"

definition completion_signature_kind_name :: "completion_signature_kind \<Rightarrow> string" where
  "completion_signature_kind_name kind = (case kind of ProviderTee \<Rightarrow> ''provider_tee'' | Gateway \<Rightarrow> ''gateway'')"

definition require_provider_signature :: "completion_signature \<Rightarrow> unit api" where
  "require_provider_signature signature =
     ensure (cs_kind signature = ProviderTee)
       (invalid_api_input ''signature.kind'' ''unsupported_value'' (Some ''provider_tee'')
          (Some (completion_signature_kind_name (cs_kind signature))))"

definition validate_input_signing_address ::
  "'z prims_scheme \<Rightarrow> string \<Rightarrow> signing_algo option \<Rightarrow> string \<Rightarrow> bytes api" where
  "validate_input_signing_address P signing_address signing_algo field =
     rbind (ok_or (invalid_api_input field ''invalid_hex'' None None) (decode_hex P signing_address)) (\<lambda>address.
     let (is_valid_length, expected) = (case signing_algo of
           Some Ecdsa \<Rightarrow> (length address = 20, ''20-byte hexadecimal signing address'')
         | Some Ed25519 \<Rightarrow> (length address = 32, ''32-byte hexadecimal signing address'')
         | None \<Rightarrow> (length address = 20 \<or> length address = 32, ''a 20- or 32-byte hexadecimal signing address''))
     in if is_valid_length then Inr address
        else fail (invalid_api_input field ''wrong_length'' (Some expected)
               (Some (decimal (length address) @ '' bytes''))))"

definition validate_input_signer :: "'z prims_scheme \<Rightarrow> signing_identity \<Rightarrow> string \<Rightarrow> bytes api" where
  "validate_input_signer P signer field =
     validate_input_signing_address P (si_address signer) (Some (si_algo signer)) (field @ ''.signing_address'')"

definition require_matching_api_nonce :: "'z prims_scheme \<Rightarrow> string \<Rightarrow> string \<Rightarrow> api_resource \<Rightarrow> unit api" where
  "require_matching_api_nonce P reported_nonce requested_nonce resource =
     ensure (case (decode_hex P reported_nonce, decode_hex P requested_nonce) of
               (Some reported, Some requested) \<Rightarrow> reported = requested
             | _ \<Rightarrow> False) (Api_NonceMismatch resource)"

section \<open>Selecting the signer's report\<close>

fun find_matching ::
  "'z prims_scheme \<Rightarrow> completion_signature \<Rightarrow> bytes \<Rightarrow> verified_model_attestation list \<Rightarrow> nat
     \<Rightarrow> nat option \<Rightarrow> nat \<Rightarrow> (nat option \<times> nat) api" where
  "find_matching P signature requested [] index matching_index matching_count = Inr (matching_index, matching_count)"
| "find_matching P signature requested (attestation # attestations) index matching_index matching_count =
     rbind (validate_input_signer P (ve_signer (vm_evidence attestation))
              (''attestations['' @ decimal index @ ''].signer'')) (\<lambda>address.
     if si_algo (ve_signer (vm_evidence attestation)) = si_algo (cs_signer signature) \<and> address = requested
     then find_matching P signature requested attestations (index + 1)
            (Some (or_else index matching_index)) (matching_count + 1)
     else find_matching P signature requested attestations (index + 1) matching_index matching_count)"

definition find_model_attestation_for_signature ::
  "'z prims_scheme \<Rightarrow> verified_model_attestation list \<Rightarrow> completion_signature \<Rightarrow> verified_model_attestation api" where
  "find_model_attestation_for_signature P attestations signature =
     rbind (require_provider_signature signature) (\<lambda>_.
     rbind (validate_input_signer P (cs_signer signature) ''signature.signer'') (\<lambda>requested.
     rbind (find_matching P signature requested attestations 0 None 0) (\<lambda>(matching_index, matching_count).
     rbind (ok_or ModelAttestationSignerNotFound matching_index) (\<lambda>index.
     if matching_count = 1 then index_at attestations index
     else fail (AmbiguousModelAttestationSigner matching_count (length attestations))))))"

section \<open>The client and its requests\<close>

record attestation_client =
  ac_headers :: headers
  ac_api_key :: "string option"
  ac_base_url :: url
  ac_client :: http_client
  ac_gateway_client :: http_client

definition from_parts :: "string option \<Rightarrow> url \<Rightarrow> attestation_client" where
  "from_parts api_key base_url =
     \<lparr>ac_headers = [], ac_api_key = api_key, ac_base_url = base_url, ac_client = no_redirect_client,
      ac_gateway_client = no_redirect_client\<lparr>hc_proxy := False, hc_tls_info := True\<rparr>\<rparr>"

definition attestation_client_new :: "'z net_prims_scheme \<Rightarrow> string option \<Rightarrow> attestation_client api" where
  "attestation_client_new P api_key =
     rbind (case parse_base_url P default_near_ai_cloud_base_url of
              Inl _ \<Rightarrow> panic ''the SDK's default Cloud API URL is valid'' | Inr u \<Rightarrow> Inr u) (\<lambda>base_url.
     Inr (from_parts api_key base_url))"

definition with_base_url :: "'z net_prims_scheme \<Rightarrow> string option \<Rightarrow> string \<Rightarrow> attestation_client api" where
  "with_base_url P api_key base_url =
     rbind (parse_base_url P base_url) (\<lambda>base_url. Inr (from_parts api_key base_url))"

definition with_headers :: "attestation_client \<Rightarrow> headers \<Rightarrow> attestation_client" where
  "with_headers client h = client\<lparr>ac_headers := h\<rparr>"

definition with_http_client :: "attestation_client \<Rightarrow> http_client \<Rightarrow> attestation_client" where
  "with_http_client self client = self\<lparr>ac_client := client, ac_gateway_client := client\<rparr>"

definition endpoint :: "'z net_prims_scheme \<Rightarrow> attestation_client \<Rightarrow> string \<Rightarrow> url api" where
  "endpoint P self path = ok_or invalid_base_url (url_join P (ac_base_url self) path)"

definition credential_headers :: "string list" where
  "credential_headers = [''authorization'', ''api-key'', ''x-api-key'']"

definition build_cloud_api_headers ::
  "attestation_client \<Rightarrow> bool \<Rightarrow> (string \<times> string) option \<Rightarrow> headers api" where
  "build_cloud_api_headers client authenticate extra_header =
     rbind
       (if \<not> authenticate then Inr (fold header_remove credential_headers (ac_headers client))
        else (case ac_api_key client of
            None \<Rightarrow> Inr (ac_headers client)
          | Some api_key \<Rightarrow>
              if api_key = [] then Inr (ac_headers client)
              else rbind (ok_or (invalid_api_input ''api_key'' ''invalid_header_value'' (Some ''an HTTP header value'') None)
                       (header_from_str (''Bearer '' @ api_key))) (\<lambda>authorization.
                   Inr (header_remove ''api-key'' (header_insert ''authorization'' authorization (ac_headers client))))))
       (\<lambda>h. case extra_header of
            None \<Rightarrow> Inr h
          | Some (name, v) \<Rightarrow>
              rbind (expect ''the SDK only supplies static valid header names'' (header_name_from_bytes name)) (\<lambda>name.
              rbind (expect ''the SDK only supplies static valid header values'' (header_from_str v)) (\<lambda>v.
              Inr (header_insert name v h))))"

record cloud_api_response =
  car_body :: string
  car_peer_spki_fingerprint :: "string option"

definition peer_spki_fingerprint :: "'z net_prims_scheme \<Rightarrow> http_response \<Rightarrow> string option" where
  "peer_spki_fingerprint P response =
     Option.bind (rs_peer_certificate response) (\<lambda>certificate.
     Option.bind (spki_der P certificate) (\<lambda>spki. Some (hex_encode P (sha256 P spki))))"

definition get_request :: "'z net_prims_scheme \<Rightarrow> url \<Rightarrow> headers \<Rightarrow> http_request" where
  "get_request P url h = \<lparr>rq_method = ''GET'', rq_url = url_text P url, rq_headers = h, rq_body = []\<rparr>"

definition get_cloud_api_response ::
  "'z net_prims_scheme \<Rightarrow> attestation_client \<Rightarrow> url \<Rightarrow> api_resource \<Rightarrow> (string \<times> string) option \<Rightarrow> bool \<Rightarrow> bool
     \<Rightarrow> cloud_api_response api" where
  "get_cloud_api_response P client url resource extra_header capture authenticate =
     rbind (build_cloud_api_headers client authenticate extra_header) (\<lambda>h.
     let http_client = (if capture then ac_gateway_client client else ac_client client) in
     rbind (ok_or (Transport resource Request) (http_send P http_client (get_request P url h))) (\<lambda>response.
     let peer = (if capture then peer_spki_fingerprint P response else None) in
     rbind (ok_or (Transport resource ResponseBody) (response_text P response)) (\<lambda>body.
     rbind (ensure (is_success (rs_status response)) (HttpStatus resource (rs_status response))) (\<lambda>_.
     Inr \<lparr>car_body = body, car_peer_spki_fingerprint = peer\<rparr>))))"

section \<open>Decoding a response body\<close>

definition response_error_path :: "string \<Rightarrow> string \<Rightarrow> string" where
  "response_error_path root_path nested_path =
     (if nested_path = [] \<or> nested_path = ''.'' then root_path
      else if root_path = [] \<or> nested_path = root_path then nested_path
      else if starts_with root_path nested_path
          \<and> (length root_path < length nested_path
             \<and> (nested_path ! length root_path = CHR ''.'' \<or> nested_path ! length root_path = CHR ''[''))
        then nested_path
      else if starts_with ''['' nested_path then root_path @ nested_path
      else root_path @ ''.'' @ nested_path)"

text \<open>
  The deserializer and its first error are parameters: \<open>decode\<close> is the value of a text that
  is one document of the wanted shape, and \<open>fault\<close> is the path of the first value of the wrong
  shape, absent when the text is not JSON, ends early or goes on after the value.
\<close>

definition decode_wire_response ::
  "(bytes \<Rightarrow> 'a option) \<Rightarrow> (bytes \<Rightarrow> string option) \<Rightarrow> string \<Rightarrow> api_resource \<Rightarrow> string \<Rightarrow> 'a api" where
  "decode_wire_response decode fault body resource root_path =
     (case decode (as_bytes body) of
        Some response \<Rightarrow> Inr response
      | None \<Rightarrow> fail (case fault (as_bytes body) of
            None \<Rightarrow> InvalidJson resource
          | Some path \<Rightarrow> InvalidResponse (response_error_path root_path path)
              ''the documented Cloud API response shape'' ''invalid''))"

text \<open>A derived wire type, and \<open>serde_json::Value\<close>, whose shape no document misses.\<close>

definition decode_as :: "'z net_prims_scheme \<Rightarrow> (json \<Rightarrow> 'a option) \<Rightarrow> string \<Rightarrow> api_resource \<Rightarrow> string \<Rightarrow> 'a api" where
  "decode_as P decode body resource root =
     decode_wire_response (\<lambda>b. Option.bind (json_document P b) decode) (serde_fault P root) body resource root"

definition decode_value :: "'z net_prims_scheme \<Rightarrow> string \<Rightarrow> api_resource \<Rightarrow> string \<Rightarrow> json api" where
  "decode_value P body resource root = decode_wire_response (json_parse P) (\<lambda>_. None) body resource root"

section \<open>Wire types\<close>

text \<open>\<open>serde_json::Value\<close> of a document: of a repeated key the last value stays, and an object is ordered.\<close>

fun value_of :: "json \<Rightarrow> json" where
  "value_of (JArr xs) = JArr (map value_of xs)"
| "value_of (JObj kvs) = JObj (fold (\<lambda>(k, v). bt_insert k v) (map (\<lambda>(k, v). (k, value_of v)) kvs) [])"
| "value_of j = j"

text \<open>\<open>#[serde(untagged)]\<close> enums take the first variant that fits.\<close>

fun event_log_of :: "json \<Rightarrow> attestation_event_log option" where
  "event_log_of (JStr s) = Some (Log_Json s)"
| "event_log_of (JArr xs) = Some (Log_Entries (map value_of xs))"
| "event_log_of _ = None"

fun action_value_of :: "json \<Rightarrow> action_value option" where
  "action_value_of (JStr s) = Some (Action_String s)"
| "action_value_of (JArr xs) = map_option Action_Strings (all_some (map as_str xs))"
| "action_value_of _ = None"

definition string_vec_of :: "json \<Rightarrow> string list option" where
  "string_vec_of = vec_of as_str"

text \<open>A struct with a flattened member reads objects only; what it does not name is the rest.\<close>

definition action_fields :: "string list" where
  "action_fields = [''action'', ''timestamp'', ''commit'', ''file'', ''file_sha256'', ''image'', ''services'']"

fun extra_values :: "(string \<times> json) list \<Rightarrow> (string \<times> action_value) list \<Rightarrow> (string \<times> action_value) list option" where
  "extra_values [] acc = Some acc"
| "extra_values ((k, j) # kvs) acc =
     (if k \<in> set action_fields then extra_values kvs acc
      else Option.bind (action_value_of j) (\<lambda>v. extra_values kvs (bt_insert k v acc)))"

definition action_of :: "json \<Rightarrow> compose_manager_action option" where
  "action_of j =
     Option.bind (as_object j) (\<lambda>kvs.
     if \<not> no_repeats action_fields kvs then None else
     Option.bind (need kvs ''action'' as_str) (\<lambda>action.
     Option.bind (need kvs ''timestamp'' as_str) (\<lambda>timestamp.
     Option.bind (want kvs ''commit'' as_str) (\<lambda>commit.
     Option.bind (want kvs ''file'' as_str) (\<lambda>file.
     Option.bind (want kvs ''file_sha256'' as_str) (\<lambda>file_sha256.
     Option.bind (want kvs ''image'' as_str) (\<lambda>image.
     Option.bind (want kvs ''services'' string_vec_of) (\<lambda>services.
     Option.bind (extra_values kvs []) (\<lambda>extra.
     Some \<lparr>cma_action = action, cma_timestamp = timestamp, cma_commit = commit, cma_file = file,
           cma_file_sha256 = file_sha256, cma_image = image, cma_services = services, cma_extra = extra\<rparr>)))))))))"

definition compose_manager_of :: "json \<Rightarrow> compose_manager_attestation option" where
  "compose_manager_of j =
     Option.bind (struct_view [''actions'', ''actions_hash'', ''nonce'', ''quote'', ''event_log'', ''report_data''] 6 j) (\<lambda>kvs.
     Option.bind (need kvs ''actions'' (vec_of action_of)) (\<lambda>actions.
     Option.bind (need kvs ''actions_hash'' as_str) (\<lambda>actions_hash.
     Option.bind (need kvs ''nonce'' as_str) (\<lambda>nonce.
     Option.bind (need kvs ''quote'' as_str) (\<lambda>quote.
     Option.bind (need kvs ''event_log'' event_log_of) (\<lambda>event_log.
     Option.bind (want kvs ''report_data'' as_str) (\<lambda>report_data.
     Some \<lparr>cm_actions = actions, cm_actions_hash = actions_hash, cm_nonce = nonce, cm_intel_quote = quote,
           cm_event_log = event_log, cm_reported_quote_data = report_data\<rparr>)))))))"

definition ohttp_attestation_of :: "json \<Rightarrow> ohttp_attestation option" where
  "ohttp_attestation_of j =
     Option.bind (struct_view [''signing_algo'', ''signing_key'', ''key_config'', ''signature''] 4 j) (\<lambda>kvs.
     Option.bind (need kvs ''signing_algo'' signing_algo_of) (\<lambda>algo.
     Option.bind (need kvs ''signing_key'' as_str) (\<lambda>key.
     Option.bind (need kvs ''key_config'' as_str) (\<lambda>config.
     Option.bind (need kvs ''signature'' as_str) (\<lambda>signature.
     Some \<lparr>oa_signing_algo = algo, oa_signing_key = key, oa_key_config = config, oa_signature = signature\<rparr>)))))"

definition model_metadata_of :: "json \<Rightarrow> model_metadata option" where
  "model_metadata_of j =
     Option.bind (struct_view [''providerType'', ''attestationSupported''] 2 j) (\<lambda>kvs.
     Option.bind (need kvs ''providerType'' as_str) (\<lambda>provider.
     Option.bind (need kvs ''attestationSupported'' as_bool) (\<lambda>supported.
     Some \<lparr>provider_type = provider, attestation_supported = supported\<rparr>)))"

definition metadata_response_of :: "json \<Rightarrow> model_metadata option" where
  "metadata_response_of j =
     Option.bind (struct_view [''metadata''] 1 j) (\<lambda>kvs. need kvs ''metadata'' model_metadata_of)"

section \<open>Reports\<close>

text \<open>\<open>tcb_info\<close> is an object, or a JSON text of one.\<close>

definition tcb_info_object_of :: "json \<Rightarrow> string option" where
  "tcb_info_object_of j = Option.bind (struct_view [''app_compose''] 1 j) (\<lambda>kvs. need kvs ''app_compose'' as_str)"

definition tcb_info_of :: "'z net_prims_scheme \<Rightarrow> json \<Rightarrow> string option" where
  "tcb_info_of P j =
     (case tcb_info_object_of j of
        Some app_compose \<Rightarrow> Some app_compose
      | None \<Rightarrow> Option.bind (as_str j) (\<lambda>text. Option.bind (json_document P (as_bytes text)) tcb_info_object_of))"

record wire_attestation =
  wa_request_nonce :: string
  wa_signing_algo :: signing_algo
  wa_signing_address :: string
  wa_intel_quote :: string
  wa_event_log :: attestation_event_log
  wa_tls_cert_fingerprint :: "string option"
  wa_report_data :: "string option"
  wa_app_compose :: string

definition wire_attestation_fields :: "string list" where
  "wire_attestation_fields = [''request_nonce'', ''signing_algo'', ''signing_address'', ''intel_quote'',
     ''event_log'', ''tls_cert_fingerprint'', ''report_data'', ''info'']"

definition wire_attestation_members :: "'z net_prims_scheme \<Rightarrow> (string \<times> json) list \<Rightarrow> wire_attestation option" where
  "wire_attestation_members P kvs =
     Option.bind (need kvs ''request_nonce'' as_str) (\<lambda>nonce.
     Option.bind (need kvs ''signing_algo'' signing_algo_of) (\<lambda>algo.
     Option.bind (need kvs ''signing_address'' as_str) (\<lambda>address.
     Option.bind (need kvs ''intel_quote'' as_str) (\<lambda>quote.
     Option.bind (need kvs ''event_log'' event_log_of) (\<lambda>event_log.
     Option.bind (want kvs ''tls_cert_fingerprint'' as_str) (\<lambda>fingerprint.
     Option.bind (want kvs ''report_data'' as_str) (\<lambda>report_data.
     Option.bind (need kvs ''info'' (\<lambda>info. Option.bind (struct_view [''tcb_info''] 1 info)
        (\<lambda>members. need members ''tcb_info'' (tcb_info_of P)))) (\<lambda>app_compose.
     Some \<lparr>wa_request_nonce = nonce, wa_signing_algo = algo, wa_signing_address = address, wa_intel_quote = quote,
           wa_event_log = event_log, wa_tls_cert_fingerprint = fingerprint, wa_report_data = report_data,
           wa_app_compose = app_compose\<rparr>))))))))"

definition wire_attestation_of :: "'z net_prims_scheme \<Rightarrow> json \<Rightarrow> wire_attestation option" where
  "wire_attestation_of P j =
     Option.bind (struct_view wire_attestation_fields 8 j) (wire_attestation_members P)"

record wire_model_attestation =
  wm_signing_public_key :: "string option"
  wm_compose_manager_attestation :: "compose_manager_attestation option"
  wm_attestation :: wire_attestation
  wm_nvidia_payload :: "string option"

definition wire_model_attestation_of :: "'z net_prims_scheme \<Rightarrow> json \<Rightarrow> wire_model_attestation option" where
  "wire_model_attestation_of P j =
     Option.bind (as_object j) (\<lambda>kvs.
     if \<not> no_repeats ([''signing_public_key'', ''compose_manager_attestation'', ''nvidia_payload'']
            @ wire_attestation_fields) kvs then None else
     Option.bind (want kvs ''signing_public_key'' as_str) (\<lambda>key.
     Option.bind (want kvs ''compose_manager_attestation'' compose_manager_of) (\<lambda>manager.
     Option.bind (want kvs ''nvidia_payload'' as_str) (\<lambda>payload.
     Option.bind (wire_attestation_members P kvs) (\<lambda>attestation.
     Some \<lparr>wm_signing_public_key = key, wm_compose_manager_attestation = manager,
           wm_attestation = attestation, wm_nvidia_payload = payload\<rparr>)))))"

text \<open>\<open>#[serde(default)]\<close>: no array at all is the empty array.\<close>

definition model_attestations_of :: "'z net_prims_scheme \<Rightarrow> json \<Rightarrow> wire_model_attestation list option" where
  "model_attestations_of P j =
     Option.bind (struct_view [''model_attestations''] 0 j) (\<lambda>kvs.
     case map_of kvs ''model_attestations'' of
       None \<Rightarrow> Some []
     | Some xs \<Rightarrow> vec_of (wire_model_attestation_of P) xs)"

record wire_gateway_response =
  wg_ohttp_attestation :: "ohttp_attestation option"
  wg_gateway_attestation :: wire_attestation

definition gateway_response_of :: "'z net_prims_scheme \<Rightarrow> json \<Rightarrow> wire_gateway_response option" where
  "gateway_response_of P j =
     Option.bind (struct_view [''ohttp_attestation'', ''gateway_attestation''] 2 j) (\<lambda>kvs.
     Option.bind (want kvs ''ohttp_attestation'' ohttp_attestation_of) (\<lambda>ohttp.
     Option.bind (need kvs ''gateway_attestation'' (wire_attestation_of P)) (\<lambda>gateway.
     Some \<lparr>wg_ohttp_attestation = ohttp, wg_gateway_attestation = gateway\<rparr>)))"

section \<open>Mapping reports\<close>

definition validate_api_nonce :: "'z prims_scheme \<Rightarrow> string \<Rightarrow> string \<Rightarrow> unit api" where
  "validate_api_nonce P v path =
     rbind (ok_or (InvalidResponse path ''a 32-byte hexadecimal nonce'' ''invalid'') (require_hex_length P v 32))
       (\<lambda>_. Inr ())"

definition validate_api_signing_identity :: "'z prims_scheme \<Rightarrow> signing_algo \<Rightarrow> string \<Rightarrow> string \<Rightarrow> unit api" where
  "validate_api_signing_identity P signing_algo signing_address path =
     (let expected = (case signing_algo of Ecdsa \<Rightarrow> 20 | Ed25519 \<Rightarrow> 32) in
      rbind (ok_or (InvalidResponse path (''a '' @ decimal expected @ ''-byte hexadecimal signing address'') ''invalid'')
               (require_hex_length P signing_address expected)) (\<lambda>_. Inr ()))"

definition map_evidence ::
  "'z prims_scheme \<Rightarrow> wire_attestation \<Rightarrow> string \<Rightarrow> (attestation_evidence \<times> string option) api" where
  "map_evidence P v path =
     rbind (validate_api_nonce P (wa_request_nonce v) (path @ ''.request_nonce'')) (\<lambda>_.
     rbind (validate_api_signing_identity P (wa_signing_algo v) (wa_signing_address v) (path @ ''.signing_address'')) (\<lambda>_.
     Inr (\<lparr>ev_nonce = wa_request_nonce v,
           ev_signer = \<lparr>si_algo = wa_signing_algo v, si_address = wa_signing_address v\<rparr>,
           ev_intel_quote = wa_intel_quote v, ev_event_log = wa_event_log v,
           ev_app_compose = wa_app_compose v\<rparr>, wa_report_data v)))"

definition map_model_attestation :: "'z prims_scheme \<Rightarrow> wire_model_attestation \<Rightarrow> string \<Rightarrow> model_attestation api" where
  "map_model_attestation P v path =
     rbind (map_evidence P (wm_attestation v) path) (\<lambda>(evidence, reported_quote_data).
     rbind (case wm_signing_public_key v of
              None \<Rightarrow> Inr ()
            | Some key \<Rightarrow> rbind (ok_or (InvalidResponse (path @ ''.signing_public_key'')
                 ''a hexadecimal public key'' ''invalid'') (decode_hex P key)) (\<lambda>_. Inr ())) (\<lambda>_.
     Inr \<lparr>ma_signing_public_key = wm_signing_public_key v,
          ma_compose_manager = wm_compose_manager_attestation v, ma_evidence = evidence,
          ma_reported_quote_data = reported_quote_data, ma_nvidia_payload = wm_nvidia_payload v\<rparr>))"

definition map_gateway_attestation :: "'z prims_scheme \<Rightarrow> wire_attestation \<Rightarrow> string \<Rightarrow> gateway_attestation api" where
  "map_gateway_attestation P v path =
     rbind (map_evidence P v path) (\<lambda>(evidence, reported_quote_data).
     rbind (ok_or (InvalidResponse (path @ ''.report_data'') ''a string'' ''missing'') reported_quote_data) (\<lambda>data.
     Inr \<lparr>ga_evidence = evidence, ga_spki_fingerprint = wa_tls_cert_fingerprint v,
          ga_reported_quote_data = data\<rparr>))"

definition decode_model_value :: "'z net_prims_scheme \<Rightarrow> json \<Rightarrow> model_attestation api" where
  "decode_model_value P v =
     rbind (decode_as P (wire_model_attestation_of P) (json_print P v) Res_ModelAttestation ''attestation'') (\<lambda>wire.
     map_model_attestation P wire ''attestation'')"

section \<open>Completion signatures\<close>

text \<open>\<open>OptionalSignatureField\<close>: an omitted field and a \<open>null\<close> one are told apart.\<close>

datatype 'a signature_field = Missing_Field | Null_Field | Value_Field 'a

fun is_missing :: "'a signature_field \<Rightarrow> bool" where
  "is_missing Missing_Field = True"
| "is_missing _ = False"

definition deserialize_optional_signature_field ::
  "(string \<times> json) list \<Rightarrow> string \<Rightarrow> (json \<Rightarrow> 'a option) \<Rightarrow> 'a signature_field option" where
  "deserialize_optional_signature_field kvs k decode =
     (case map_of kvs k of
        None \<Rightarrow> Some Missing_Field
      | Some JNull \<Rightarrow> Some Null_Field
      | Some j \<Rightarrow> map_option Value_Field (decode j))"

definition completion_signature_kind_of :: "json \<Rightarrow> completion_signature_kind option" where
  "completion_signature_kind_of j = Option.bind (unit_variant j) (\<lambda>s.
     if s = ''provider_tee'' then Some ProviderTee else if s = ''gateway'' then Some Gateway else None)"

record wire_signature_response =
  ws_text :: "string signature_field"
  ws_signature :: "string signature_field"
  ws_signing_address :: "string signature_field"
  ws_signing_algo :: "signing_algo signature_field"
  ws_signature_kind :: "completion_signature_kind signature_field"
  ws_error_code :: "string option"
  ws_message :: "string option"

definition signature_response_of :: "json \<Rightarrow> wire_signature_response option" where
  "signature_response_of j =
     Option.bind (struct_view [''text'', ''signature'', ''signing_address'', ''signing_algo'', ''signature_kind'',
        ''error_code'', ''message''] 0 j) (\<lambda>kvs.
     Option.bind (deserialize_optional_signature_field kvs ''text'' as_str) (\<lambda>t.
     Option.bind (deserialize_optional_signature_field kvs ''signature'' as_str) (\<lambda>sig.
     Option.bind (deserialize_optional_signature_field kvs ''signing_address'' as_str) (\<lambda>address.
     Option.bind (deserialize_optional_signature_field kvs ''signing_algo'' signing_algo_of) (\<lambda>algo.
     Option.bind (deserialize_optional_signature_field kvs ''signature_kind'' completion_signature_kind_of) (\<lambda>kind.
     Option.bind (want kvs ''error_code'' as_str) (\<lambda>error_code.
     Option.bind (want kvs ''message'' as_str) (\<lambda>message.
     Some \<lparr>ws_text = t, ws_signature = sig, ws_signing_address = address, ws_signing_algo = algo,
           ws_signature_kind = kind, ws_error_code = error_code, ws_message = message\<rparr>))))))))"

definition unavailable :: "wire_signature_response \<Rightarrow> (string \<times> string) option" where
  "unavailable self =
     (case (ws_error_code self, ws_message self) of
        (Some error_code, Some message) \<Rightarrow>
          if is_missing (ws_text self) \<and> is_missing (ws_signature self) \<and> is_missing (ws_signing_address self)
             \<and> is_missing (ws_signing_algo self) \<and> is_missing (ws_signature_kind self)
          then Some (error_code, message) else None
      | _ \<Rightarrow> None)"

definition require_signature_field :: "'a signature_field \<Rightarrow> string \<Rightarrow> 'a api" where
  "require_signature_field v field =
     (let missing = (\<lambda>actual. fail (InvalidResponse (''signature.'' @ field)
        ''the documented Cloud API response shape'' actual)) in
      case v of
        Value_Field x \<Rightarrow> Inr x
      | Missing_Field \<Rightarrow> missing ''missing''
      | Null_Field \<Rightarrow> missing ''null'')"

record wire_signature =
  wr_text :: string
  wr_signature :: string
  wr_signing_address :: string
  wr_signing_algo :: signing_algo
  wr_signature_kind :: completion_signature_kind

definition require_signature :: "wire_signature_response \<Rightarrow> wire_signature api" where
  "require_signature self =
     rbind (require_signature_field (ws_text self) ''text'') (\<lambda>t.
     rbind (require_signature_field (ws_signature self) ''signature'') (\<lambda>sig.
     rbind (require_signature_field (ws_signing_address self) ''signing_address'') (\<lambda>address.
     rbind (require_signature_field (ws_signing_algo self) ''signing_algo'') (\<lambda>algo.
     rbind (require_signature_field (ws_signature_kind self) ''signature_kind'') (\<lambda>kind.
     Inr \<lparr>wr_text = t, wr_signature = sig, wr_signing_address = address, wr_signing_algo = algo,
          wr_signature_kind = kind\<rparr>)))))"

definition map_completion_signature :: "'z prims_scheme \<Rightarrow> wire_signature_response \<Rightarrow> completion_signature api" where
  "map_completion_signature P v =
     (case unavailable v of
        Some (error_code, message) \<Rightarrow> fail (CompletionSignatureUnavailable error_code message)
      | None \<Rightarrow>
          rbind (require_signature v) (\<lambda>signature.
          rbind (validate_api_signing_identity P (wr_signing_algo signature) (wr_signing_address signature)
                   ''signature.signing_address'') (\<lambda>_.
          Inr \<lparr>cs_kind = wr_signature_kind signature, cs_signed_text = wr_text signature,
               cs_signature = wr_signature signature,
               cs_signer = \<lparr>si_algo = wr_signing_algo signature, si_address = wr_signing_address signature\<rparr>\<rparr>)))"

section \<open>Fetching\<close>

definition push_segment :: "'z net_prims_scheme \<Rightarrow> url \<Rightarrow> string \<Rightarrow> url api" where
  "push_segment P url segment = ok_or invalid_base_url (url_push P url segment)"

definition algo_query :: "signing_algo option \<Rightarrow> (string \<times> string) list" where
  "algo_query signing_algo = (case signing_algo of None \<Rightarrow> [] | Some a \<Rightarrow> [(''signing_algo'', signing_algo_name a)])"

text \<open>Without an algorithm \<open>query_pairs_mut\<close> is never called and the URL has no query.\<close>

definition append_algo :: "'z net_prims_scheme \<Rightarrow> url \<Rightarrow> signing_algo option \<Rightarrow> url" where
  "append_algo P url signing_algo =
     (case signing_algo of None \<Rightarrow> url | Some _ \<Rightarrow> url_append_pairs P url (algo_query signing_algo))"

definition fetch_model_metadata :: "'z net_prims_scheme \<Rightarrow> attestation_client \<Rightarrow> string \<Rightarrow> model_metadata api" where
  "fetch_model_metadata P self model =
     rbind (ensure (\<not> (model = [] \<or> model = ''.'' \<or> model = ''..''))
              (invalid_api_input ''model'' ''invalid_model'' None None)) (\<lambda>_.
     rbind (endpoint P self ''model/'') (\<lambda>url.
     rbind (push_segment P (url_pop_if_empty P url) model) (\<lambda>url.
     rbind (get_cloud_api_response P self url Res_ModelMetadata None False True) (\<lambda>response.
     decode_as P metadata_response_of (car_body response) Res_ModelMetadata ''model metadata''))))"

definition fetch_value ::
  "'z net_prims_scheme \<Rightarrow> attestation_client \<Rightarrow> string \<Rightarrow> (string \<times> string) list \<Rightarrow> api_resource \<Rightarrow> json api" where
  "fetch_value P self path query resource =
     rbind (endpoint P self path) (\<lambda>url.
     rbind (get_cloud_api_response P self (url_append_pairs P url query) resource None False False) (\<lambda>response.
     decode_value P (car_body response) resource path))"

text \<open>\<open>as_object_mut().insert("signature_kind", "provider_tee")\<close> where a signature names no kind.\<close>

definition default_signature_kind :: "json \<Rightarrow> json api" where
  "default_signature_kind v =
     (if jget v ''signature'' \<noteq> None \<and> jget v ''signature_kind'' = None then
        rbind (ok_or (invalid_api_input ''signature'' ''expected object'' None None) (as_object v)) (\<lambda>kvs.
        Inr (JObj (bt_insert ''signature_kind'' (JStr ''provider_tee'') kvs)))
      else Inr v)"

definition signature_response ::
  "'z net_prims_scheme \<Rightarrow> attestation_client \<Rightarrow> string \<Rightarrow> signing_algo option \<Rightarrow> cloud_api_response api" where
  "signature_response P self i algo =
     rbind (endpoint P self ''signature'') (\<lambda>url.
     rbind (push_segment P url i) (\<lambda>url.
     get_cloud_api_response P self (append_algo P url algo) Res_CompletionSignature None False True))"

definition direct_signature ::
  "'z net_prims_scheme \<Rightarrow> attestation_client \<Rightarrow> string \<Rightarrow> signing_algo option \<Rightarrow> completion_signature api" where
  "direct_signature P self i algo =
     rbind (signature_response P self i algo) (\<lambda>response.
     rbind (decode_value P (car_body response) Res_CompletionSignature ''signature'') (\<lambda>v.
     rbind (default_signature_kind v) (\<lambda>v.
     rbind (decode_as P signature_response_of (json_print P v) Res_CompletionSignature ''signature'') (\<lambda>wire.
     rbind (map_completion_signature P wire) (\<lambda>signature.
     rbind (require_provider_signature signature) (\<lambda>_.
     Inr signature))))))"

definition fetch_completion_signature ::
  "'z net_prims_scheme \<Rightarrow> attestation_client \<Rightarrow> string \<Rightarrow> signing_algo option \<Rightarrow> completion_signature api" where
  "fetch_completion_signature P self completion_id signing_algo =
     rbind (signature_response P self completion_id signing_algo) (\<lambda>response.
     rbind (decode_as P signature_response_of (car_body response) Res_CompletionSignature ''signature'') (\<lambda>wire.
     map_completion_signature P wire))"

definition model_query :: "string \<Rightarrow> string \<Rightarrow> signing_algo option \<Rightarrow> string option \<Rightarrow> (string \<times> string) list" where
  "model_query nonce model signing_algo signing_address =
     [(''model'', model), (''provider'', ''near''), (''nonce'', nonce), (''include_tls_fingerprint'', ''false'')]
     @ algo_query signing_algo
     @ (case signing_address of None \<Rightarrow> [] | Some a \<Rightarrow> [(''signing_address'', a)])"

fun map_model_attestations ::
  "'z prims_scheme \<Rightarrow> nat \<Rightarrow> wire_model_attestation list \<Rightarrow> model_attestation list api" where
  "map_model_attestations P index [] = Inr []"
| "map_model_attestations P index (v # vs) =
     rbind (map_model_attestation P v (''model_attestations['' @ decimal index @ '']'')) (\<lambda>a.
     rbind (map_model_attestations P (index + 1) vs) (\<lambda>attestations. Inr (a # attestations)))"

definition fetch_model_attestations ::
  "'z net_prims_scheme \<Rightarrow> string \<Rightarrow> attestation_client \<Rightarrow> string \<Rightarrow> signing_algo option \<Rightarrow> string option
     \<Rightarrow> fetched_model_attestations api" where
  "fetch_model_attestations P nonce self model signing_algo signing_address =
     rbind (case signing_address of None \<Rightarrow> Inr ()
            | Some a \<Rightarrow> rbind (validate_input_signing_address P a signing_algo ''signing_address'') (\<lambda>_. Inr ())) (\<lambda>_.
     rbind (endpoint P self ''attestation/report'') (\<lambda>url.
     rbind (get_cloud_api_response P self (url_append_pairs P url (model_query nonce model signing_algo signing_address))
              Res_ModelAttestation (Some (no_aliasing_header, ''true'')) False True) (\<lambda>response.
     rbind (decode_as P (model_attestations_of P) (car_body response) Res_ModelAttestation ''model_attestations'') (\<lambda>wire.
     rbind (map_model_attestations P 0 wire) (\<lambda>attestations.
     rbind (for_each (\<lambda>a. require_matching_api_nonce P (ev_nonce (ma_evidence a)) nonce Res_ModelAttestation)
              attestations) (\<lambda>_.
     Inr \<lparr>fm_attestations = attestations, fm_client_binding = \<lparr>mcb_nonce = nonce\<rparr>\<rparr>))))))"

definition gateway_query :: "string \<Rightarrow> gateway_fetch_options \<Rightarrow> (string \<times> string) list" where
  "gateway_query nonce options =
     [(''nonce'', nonce)] @ algo_query (gfo_signing_algo options)
     @ [(''include_tls_fingerprint'', if gfo_include_spki_fingerprint options then ''true'' else ''false'')]"

definition fetch_gateway_attestation ::
  "'z net_prims_scheme \<Rightarrow> string \<Rightarrow> attestation_client \<Rightarrow> gateway_fetch_options \<Rightarrow> fetched_gateway_attestation api" where
  "fetch_gateway_attestation P nonce self options =
     rbind (endpoint P self ''attestation/report'') (\<lambda>url.
     rbind (get_cloud_api_response P self (url_append_pairs P url (gateway_query nonce options))
              Res_GatewayAttestation None (gfo_include_spki_fingerprint options) False) (\<lambda>cloud_response.
     rbind (decode_as P (gateway_response_of P) (car_body cloud_response) Res_GatewayAttestation
              ''gateway_attestation'') (\<lambda>response.
     rbind (map_gateway_attestation P (wg_gateway_attestation response) ''gateway_attestation'') (\<lambda>attestation.
     rbind (case (gfo_include_spki_fingerprint options, ga_spki_fingerprint attestation \<noteq> None) of
              (True, False) \<Rightarrow> fail (InvalidResponse ''gateway_attestation.tls_cert_fingerprint'' ''present'' ''missing'')
            | (False, True) \<Rightarrow> fail (InvalidResponse ''gateway_attestation.tls_cert_fingerprint'' ''missing'' ''present'')
            | _ \<Rightarrow> Inr ()) (\<lambda>_.
     rbind (require_matching_api_nonce P (ev_nonce (ga_evidence attestation)) nonce Res_GatewayAttestation) (\<lambda>_.
     Inr \<lparr>fg_ohttp_attestation = wg_ohttp_attestation response, fg_attestation = attestation,
          fg_client_binding = \<lparr>gcb_nonce = nonce,
             gcb_spki_fingerprint = car_peer_spki_fingerprint cloud_response\<rparr>\<rparr>))))))"

section \<open>What success means\<close>

lemma validate_input_signer_ok:
  "validate_input_signer P signer field = Inr a \<longleftrightarrow>
     decode_hex P (si_address signer) = Some a \<and> length a = address_length (si_algo signer)"
  by (auto simp: validate_input_signer_def validate_input_signing_address_def outcome_simps address_length_def
      split: signing_algo.splits if_splits)

text \<open>A report of the signature's signer: the same algorithm and the same address bytes.\<close>

definition signer_matches :: "'z prims_scheme \<Rightarrow> completion_signature \<Rightarrow> verified_model_attestation \<Rightarrow> bool" where
  "signer_matches P signature a \<longleftrightarrow>
     si_algo (ve_signer (vm_evidence a)) = si_algo (cs_signer signature)
     \<and> decode_hex P (si_address (ve_signer (vm_evidence a))) = decode_hex P (si_address (cs_signer signature))"

definition signer_valid :: "'z prims_scheme \<Rightarrow> signing_identity \<Rightarrow> bool" where
  "signer_valid P signer \<longleftrightarrow>
     (\<exists>a. decode_hex P (si_address signer) = Some a \<and> length a = address_length (si_algo signer))"

lemma find_matching_ok:
  assumes "decode_hex P (si_address (cs_signer signature)) = Some requested"
  shows "find_matching P signature requested atts i mi mc = Inr (mi', mc') \<longleftrightarrow>
     list_all (\<lambda>a. signer_valid P (ve_signer (vm_evidence a))) atts
     \<and> mc' = mc + length (filter (signer_matches P signature) atts)
     \<and> mi' = (if mi = None then map_option (\<lambda>k. i + k) (List.find (\<lambda>k. signer_matches P signature (atts ! k)) [0..<length atts])
              else mi)"
proof (induction atts arbitrary: i mi mc)
  case (Cons a atts)
  have shift: "List.find (\<lambda>k. signer_matches P signature ((a # atts) ! k)) [0..<length (a # atts)] =
      (if signer_matches P signature a then Some 0
       else map_option Suc (List.find (\<lambda>k. signer_matches P signature (atts ! k)) [0..<length atts]))"
  proof -
    have "List.find Q (map Suc ks) = map_option Suc (List.find (\<lambda>k. Q (Suc k)) ks)" for Q ks
      by (induction ks) auto
    then show ?thesis
      by (simp add: upt_conv_Cons map_Suc_upt [symmetric] del: upt_Suc)
  qed
  have count: "(+) (Suc i) = (\<lambda>k. Suc (i + k))"
    by auto
  show ?case
  proof (cases "\<exists>x. \<forall>field. validate_input_signer P (ve_signer (vm_evidence a)) field = Inr x")
    case True
    then obtain x where x: "\<And>field. validate_input_signer P (ve_signer (vm_evidence a)) field = Inr x"
      by blast
    then have "signer_valid P (ve_signer (vm_evidence a))"
      "signer_matches P signature a \<longleftrightarrow> si_algo (ve_signer (vm_evidence a)) = si_algo (cs_signer signature) \<and> x = requested"
      by (auto simp: validate_input_signer_ok signer_valid_def signer_matches_def assms)
    then show ?thesis
      unfolding shift
      by (cases mi) (auto simp: x Cons.IH option.map_comp comp_def count)
  next
    case False
    then have "\<not> signer_valid P (ve_signer (vm_evidence a))"
      by (simp add: validate_input_signer_ok signer_valid_def)
    then show ?thesis
      by (auto simp: outcome_simps validate_input_signer_ok signer_valid_def)
  qed
qed (auto simp: outcome_simps)

lemma find_single:
  assumes "length (filter Q xs) = 1"
  shows "\<exists>k < length xs. List.find (\<lambda>k. Q (xs ! k)) [0..<length xs] = Some k \<and> filter Q xs = [xs ! k]"
proof -
  obtain x where x: "filter Q xs = [x]"
    using assms by (auto simp: length_Suc_conv)
  then have "x \<in> set xs" "Q x"
    using filter_eq_ConsD [OF x] by auto
  then obtain k where "List.find (\<lambda>k. Q (xs ! k)) [0..<length xs] = Some k"
    by (cases "List.find (\<lambda>k. Q (xs ! k)) [0..<length xs]") (auto simp: find_None_iff in_set_conv_nth)
  moreover from this have "k < length xs" "Q (xs ! k)"
    by (auto simp: find_Some_iff)
  moreover from this have "xs ! k \<in> set (filter Q xs)"
    by simp
  ultimately show ?thesis
    using x by auto
qed

text \<open>The configured headers without the three that carry credentials.\<close>

definition without_credentials :: "headers \<Rightarrow> headers" where
  "without_credentials h = fold header_remove credential_headers h"

lemma without_credentials_contains [simp]:
  "header_contains n (without_credentials h) \<longleftrightarrow> header_contains n h \<and> n \<notin> set credential_headers"
  by (auto simp: without_credentials_def credential_headers_def)

lemma build_headers_unauthenticated [simp]:
  "build_cloud_api_headers client False None = Inr (without_credentials (ac_headers client))"
  by (simp add: build_cloud_api_headers_def without_credentials_def)

text \<open>An authenticated request carries the key as its bearer token and no \<open>api-key\<close>.\<close>

lemma build_headers_authenticated:
  assumes "ac_api_key client = Some key" "key \<noteq> []" "build_cloud_api_headers client True None = Inr h"
  shows "header_get ''authorization'' h = Some (''Bearer '' @ key) \<and> \<not> header_contains ''api-key'' h"
  using assms by (auto simp: build_cloud_api_headers_def outcome_simps header_from_str_def split: if_splits)

lemma get_cloud_api_response_ok:
  "get_cloud_api_response P c url resource extra capture authenticate = Inr r \<longleftrightarrow>
     (\<exists>h response. build_cloud_api_headers c authenticate extra = Inr h
        \<and> http_send P (if capture then ac_gateway_client c else ac_client c) (get_request P url h) = Some response
        \<and> is_success (rs_status response) \<and> response_text P response = Some (car_body r)
        \<and> car_peer_spki_fingerprint r = (if capture then peer_spki_fingerprint P response else None))"
  by (cases r) (auto simp: get_cloud_api_response_def outcome_simps Let_def)

lemma get_cloud_api_response_same:
  assumes "ac_client c = ac_client c'" "ac_gateway_client c = ac_gateway_client c'"
    "without_credentials (ac_headers c) = without_credentials (ac_headers c')"
  shows "get_cloud_api_response P c url resource None capture False = get_cloud_api_response P c' url resource None capture False"
  using assms by (simp add: get_cloud_api_response_def)

lemma require_matching_api_nonce_ok:
  "require_matching_api_nonce P reported requested resource = Inr u \<longleftrightarrow>
     (\<exists>n. decode_hex P reported = Some n \<and> decode_hex P requested = Some n)"
  by (auto simp: require_matching_api_nonce_def outcome_simps split: option.splits)

lemma validate_api_signing_identity_ok:
  "validate_api_signing_identity P algo address path = Inr u \<longleftrightarrow>
     signer_valid P \<lparr>si_algo = algo, si_address = address\<rparr>"
  by (cases algo) (auto simp: validate_api_signing_identity_def signer_valid_def outcome_simps str_simps address_length_def)

lemma map_evidence_ok:
  "map_evidence P v path = Inr (e, data) \<longleftrightarrow>
     (\<exists>n. decode_hex P (wa_request_nonce v) = Some n \<and> length n = 32)
     \<and> signer_valid P (ev_signer e) \<and> data = wa_report_data v
     \<and> e = \<lparr>ev_nonce = wa_request_nonce v,
           ev_signer = \<lparr>si_algo = wa_signing_algo v, si_address = wa_signing_address v\<rparr>,
           ev_intel_quote = wa_intel_quote v, ev_event_log = wa_event_log v, ev_app_compose = wa_app_compose v\<rparr>"
  by (auto simp: map_evidence_def validate_api_nonce_def validate_api_signing_identity_ok outcome_simps str_simps)

lemma map_gateway_attestation_ok:
  "map_gateway_attestation P v path = Inr a \<longleftrightarrow>
     (\<exists>data. map_evidence P v path = Inr (ga_evidence a, Some data) \<and> ga_reported_quote_data a = data)
     \<and> ga_spki_fingerprint a = wa_tls_cert_fingerprint v"
  by (cases a) (auto simp: map_gateway_attestation_def outcome_simps)

lemma fetch_gateway_attestation_ok:
  assumes "fetch_gateway_attestation P nonce c options = Inr f"
  shows "\<exists>url response body j.
     url_join P (ac_base_url c) ''attestation/report'' = Some url
     \<and> http_send P (if gfo_include_spki_fingerprint options then ac_gateway_client c else ac_client c)
         (get_request P (url_append_pairs P url (gateway_query nonce options)) (without_credentials (ac_headers c)))
         = Some response
     \<and> is_success (rs_status response) \<and> response_text P response = Some body
     \<and> json_document P (as_bytes body) = Some j
     \<and> map_option wg_ohttp_attestation (gateway_response_of P j) = Some (fg_ohttp_attestation f)
     \<and> (gfo_include_spki_fingerprint options \<longleftrightarrow> ga_spki_fingerprint (fg_attestation f) \<noteq> None)
     \<and> (\<exists>n. decode_hex P nonce = Some n \<and> decode_hex P (ev_nonce (ga_evidence (fg_attestation f))) = Some n
          \<and> length n = 32)
     \<and> signer_valid P (ev_signer (ga_evidence (fg_attestation f)))
     \<and> fg_client_binding f = \<lparr>gcb_nonce = nonce, gcb_spki_fingerprint =
         (if gfo_include_spki_fingerprint options then peer_spki_fingerprint P response else None)\<rparr>"
proof -
  obtain url r wire a where
      url: "url_join P (ac_base_url c) ''attestation/report'' = Some url"
      and r: "get_cloud_api_response P c (url_append_pairs P url (gateway_query nonce options))
        Res_GatewayAttestation None (gfo_include_spki_fingerprint options) False = Inr r"
      and wire: "decode_as P (gateway_response_of P) (car_body r) Res_GatewayAttestation ''gateway_attestation'' = Inr wire"
      and a: "map_gateway_attestation P (wg_gateway_attestation wire) ''gateway_attestation'' = Inr a"
      and tls: "gfo_include_spki_fingerprint options \<longleftrightarrow> ga_spki_fingerprint a \<noteq> None"
      and nonce: "\<exists>n. decode_hex P (ev_nonce (ga_evidence a)) = Some n \<and> decode_hex P nonce = Some n"
      and f: "f = \<lparr>fg_ohttp_attestation = wg_ohttp_attestation wire, fg_attestation = a,
        fg_client_binding = \<lparr>gcb_nonce = nonce, gcb_spki_fingerprint = car_peer_spki_fingerprint r\<rparr>\<rparr>"
    using assms by (auto simp: fetch_gateway_attestation_def endpoint_def outcome_simps
        require_matching_api_nonce_ok split: bool.splits)
  have wire': "Option.bind (json_document P (as_bytes (car_body r))) (gateway_response_of P) = Some wire"
    using wire by (auto simp: decode_as_def decode_wire_response_def split: option.splits)
  have "signer_valid P (ev_signer (ga_evidence a))" "\<exists>n. decode_hex P (ev_nonce (ga_evidence a)) = Some n \<and> length n = 32"
    using a by (auto simp: map_gateway_attestation_ok map_evidence_ok)
  then show ?thesis
    using r wire' nonce tls unfolding f get_cloud_api_response_ok
    by (auto simp: url bind_eq_Some_conv)
qed

lemma signature_field_cases:
  "deserialize_optional_signature_field kvs k d = Some Missing_Field \<longleftrightarrow> map_of kvs k = None"
  "deserialize_optional_signature_field kvs k d = Some Null_Field \<longleftrightarrow> map_of kvs k = Some JNull"
  "deserialize_optional_signature_field kvs k d = Some (Value_Field x) \<longleftrightarrow>
     (\<exists>j. map_of kvs k = Some j \<and> j \<noteq> JNull \<and> d j = Some x)"
  by (auto simp: deserialize_optional_signature_field_def split: option.splits json.splits)

lemma want_Some_Some:
  "d JNull = None \<Longrightarrow> want kvs k d = Some (Some x) \<longleftrightarrow> (\<exists>j. map_of kvs k = Some j \<and> d j = Some x)"
  by (auto simp: want_def split: option.splits json.splits)

lemma is_missing_iff: "is_missing f \<longleftrightarrow> f = Missing_Field"
  by (cases f) auto

lemma signature_response_ofD:
  assumes "signature_response_of (JObj kvs) = Some w"
  shows "deserialize_optional_signature_field kvs ''text'' as_str = Some (ws_text w)"
    "deserialize_optional_signature_field kvs ''signature'' as_str = Some (ws_signature w)"
    "deserialize_optional_signature_field kvs ''signing_address'' as_str = Some (ws_signing_address w)"
    "deserialize_optional_signature_field kvs ''signing_algo'' signing_algo_of = Some (ws_signing_algo w)"
    "deserialize_optional_signature_field kvs ''signature_kind'' completion_signature_kind_of = Some (ws_signature_kind w)"
    "want kvs ''error_code'' as_str = Some (ws_error_code w)" "want kvs ''message'' as_str = Some (ws_message w)"
  using assms by (auto simp: signature_response_of_def struct_view_def bind_eq_Some_conv split: if_splits)

lemma require_signature_field_ok: "require_signature_field v field = Inr x \<longleftrightarrow> v = Value_Field x"
  by (cases v) (auto simp: require_signature_field_def)

lemma unavailable_iff:
  "unavailable w = Some (c, m) \<longleftrightarrow> ws_error_code w = Some c \<and> ws_message w = Some m
     \<and> ws_text w = Missing_Field \<and> ws_signature w = Missing_Field \<and> ws_signing_address w = Missing_Field
     \<and> ws_signing_algo w = Missing_Field \<and> ws_signature_kind w = Missing_Field"
  by (auto simp: unavailable_def is_missing_iff split: option.splits)

section \<open>Properties\<close>

text \<open>Gateway reports and direct-endpoint documents are requested without credentials. The result of
  either fetch is the same for any two clients whose configured headers agree outside
  \<open>authorization\<close>, \<open>api-key\<close> and \<open>x-api-key\<close>, whatever their API keys are, so no request it sends can
  depend on them; and the headers it does send are the configured ones without those three.\<close>

lemma evidence_requests_carry_no_credentials:
  assumes "ac_base_url c = ac_base_url c'" "ac_client c = ac_client c'" "ac_gateway_client c = ac_gateway_client c'"
    and "without_credentials (ac_headers c) = without_credentials (ac_headers c')"
  shows "fetch_gateway_attestation P nonce c options = fetch_gateway_attestation P nonce c' options
     \<and> fetch_value P c path query resource = fetch_value P c' path query resource
     \<and> build_cloud_api_headers c False None = Inr (without_credentials (ac_headers c))
     \<and> (\<forall>n. header_contains n (without_credentials (ac_headers c)) \<longleftrightarrow>
          header_contains n (ac_headers c) \<and> n \<notin> {''authorization'', ''api-key'', ''x-api-key''})"
proof -
  have "get_cloud_api_response P c url r None capture False = get_cloud_api_response P c' url r None capture False"
    for url r capture
    by (rule get_cloud_api_response_same) (use assms in auto)
  then show ?thesis
    by (auto simp: fetch_gateway_attestation_def fetch_value_def endpoint_def assms(1) credential_headers_def)
qed

definition demo_client :: attestation_client where
  "demo_client = from_parts (Some ''key'') (demo_url ''/v1/'')"

lemma evidence_requests_carry_no_credentials_witness:
  "fetch_gateway_attestation demo_net ''00'' demo_client default_gateway_fetch_options
     = fetch_gateway_attestation demo_net ''00'' (demo_client\<lparr>ac_api_key := None, ac_headers := [(''api-key'', ''secret'')]\<rparr>)
         default_gateway_fetch_options"
proof -
  let ?other = "demo_client\<lparr>ac_api_key := None, ac_headers := [(''api-key'', ''secret'')]\<rparr>"
  have "ac_base_url demo_client = ac_base_url ?other" "ac_client demo_client = ac_client ?other"
    "ac_gateway_client demo_client = ac_gateway_client ?other"
    "without_credentials (ac_headers demo_client) = without_credentials (ac_headers ?other)"
    by (simp_all add: demo_client_def from_parts_def without_credentials_def credential_headers_def header_remove_def)
  then show ?thesis
    using evidence_requests_carry_no_credentials [of demo_client ?other demo_net "''00''" default_gateway_fetch_options]
    by blast
qed

text \<open>A fetched Gateway report answers this fetch. When the fetch succeeds, the document came in a
  2xx response to the report URL asked with this nonce (on the proxy-free client that records the
  peer exactly when the fingerprint is wanted), the report names that 32-byte nonce, its signing
  address has the length of its algorithm, it carries a TLS fingerprint exactly when one was asked
  for, and the client binding pairs the nonce with the peer key of that very connection.\<close>

lemma fetched_gateway_report_answers:
  assumes "fetch_gateway_attestation P nonce c options = Inr f"
  shows "\<exists>url response body j.
     url_join P (ac_base_url c) ''attestation/report'' = Some url
     \<and> http_send P (if gfo_include_spki_fingerprint options then ac_gateway_client c else ac_client c)
         (get_request P (url_append_pairs P url (gateway_query nonce options)) (without_credentials (ac_headers c)))
         = Some response
     \<and> is_success (rs_status response) \<and> response_text P response = Some body
     \<and> json_document P (as_bytes body) = Some j
     \<and> map_option wg_ohttp_attestation (gateway_response_of P j) = Some (fg_ohttp_attestation f)
     \<and> (gfo_include_spki_fingerprint options \<longleftrightarrow> ga_spki_fingerprint (fg_attestation f) \<noteq> None)
     \<and> (\<exists>n. decode_hex P nonce = Some n \<and> decode_hex P (ev_nonce (ga_evidence (fg_attestation f))) = Some n
          \<and> length n = 32)
     \<and> signer_valid P (ev_signer (ga_evidence (fg_attestation f)))
     \<and> fg_client_binding f = \<lparr>gcb_nonce = nonce, gcb_spki_fingerprint =
         (if gfo_include_spki_fingerprint options then peer_spki_fingerprint P response else None)\<rparr>"
  using assms by (rule fetch_gateway_attestation_ok)

text \<open>A Gateway that answers every request with one report.\<close>

definition demo_nonce :: string where
  "demo_nonce = concat (replicate 32 ''ab'')"

definition demo_gateway_document :: json where
  "demo_gateway_document = JObj [(''gateway_attestation'', JObj [(''request_nonce'', JStr demo_nonce),
     (''signing_algo'', JStr ''ecdsa''), (''signing_address'', JStr (concat (replicate 20 ''01''))),
     (''intel_quote'', JStr ''00''), (''event_log'', JArr []), (''report_data'', JStr ''00''),
     (''info'', JObj [(''tcb_info'', JObj [(''app_compose'', JStr ''{}'')])])])]"

definition demo_cloud :: net_prims where
  "demo_cloud = demo_net\<lparr>http_send := (\<lambda>_ _. Some \<lparr>rs_status = 200, rs_headers = [], rs_content_length = None,
     rs_chunks = [], rs_broken = False, rs_peer_certificate = None\<rparr>),
     json_document := (\<lambda>_. Some demo_gateway_document)\<rparr>"

definition demo_options :: gateway_fetch_options where
  "demo_options = default_gateway_fetch_options\<lparr>gfo_include_spki_fingerprint := False\<rparr>"

lemma fetched_gateway_report_answers_witness:
  "\<exists>f. fetch_gateway_attestation demo_cloud demo_nonce demo_client demo_options = Inr f
     \<and> ga_spki_fingerprint (fg_attestation f) = None"
proof -
  have "is_ok (fetch_gateway_attestation demo_cloud demo_nonce demo_client demo_options)"
    by code_simp
  then obtain f where f: "fetch_gateway_attestation demo_cloud demo_nonce demo_client demo_options = Inr f"
    by (cases "fetch_gateway_attestation demo_cloud demo_nonce demo_client demo_options") auto
  have "\<not> gfo_include_spki_fingerprint demo_options"
    by (simp add: demo_options_def)
  then show ?thesis
    using f fetched_gateway_report_answers [OF f] by auto
qed

text \<open>Report selection is exact. It returns a report precisely when the signature is a provider
  signature, its signer and every report's signer have well-formed addresses, and that report is
  the only one whose algorithm and address bytes are the signature's: a missing signer and a
  repeated one are both refused.\<close>

lemma find_model_attestation_exact:
  "find_model_attestation_for_signature P attestations signature = Inr a \<longleftrightarrow>
     cs_kind signature = ProviderTee \<and> signer_valid P (cs_signer signature)
     \<and> list_all (\<lambda>a. signer_valid P (ve_signer (vm_evidence a))) attestations
     \<and> filter (signer_matches P signature) attestations = [a]" (is "?L \<longleftrightarrow> ?R")
proof
  assume ?L
  then obtain r i where r: "decode_hex P (si_address (cs_signer signature)) = Some r"
      and kind: "cs_kind signature = ProviderTee" and valid: "signer_valid P (cs_signer signature)"
      and found: "find_matching P signature r attestations 0 None 0 = Inr (Some i, 1)"
      and a: "index_at attestations i = Inr a"
    by (auto simp: find_model_attestation_for_signature_def require_provider_signature_def outcome_simps
        validate_input_signer_ok signer_valid_def split: if_splits)
  note f = found [unfolded find_matching_ok [OF r]]
  obtain k where "List.find (\<lambda>k. signer_matches P signature (attestations ! k)) [0..<length attestations] = Some k"
      "filter (signer_matches P signature) attestations = [attestations ! k]"
    using f find_single [of "signer_matches P signature" attestations] by auto
  then show ?R
    using f a kind valid by (auto simp: index_at_def split: if_splits)
next
  assume R: ?R
  then obtain r where r: "decode_hex P (si_address (cs_signer signature)) = Some r"
      "length r = address_length (si_algo (cs_signer signature))"
    by (auto simp: signer_valid_def)
  obtain k where k: "k < length attestations"
      "List.find (\<lambda>k. signer_matches P signature (attestations ! k)) [0..<length attestations] = Some k"
      "attestations ! k = a"
    using R find_single [of "signer_matches P signature" attestations] by auto
  then have "find_matching P signature r attestations 0 None 0 = Inr (Some k, 1)"
    unfolding find_matching_ok [OF r(1)] using R by simp
  moreover have "validate_input_signer P (cs_signer signature) field = Inr r" for field
    using r by (simp add: validate_input_signer_ok)
  ultimately show ?L
    using R k by (simp add: find_model_attestation_for_signature_def require_provider_signature_def index_at_def)
qed

text \<open>An unavailable signature is told from a broken one. On a decoded signature document, the mapping
  reports \<open>CompletionSignatureUnavailable\<close> with the provider's code and message exactly when both are
  there and none of the five signature fields occurs, not even as \<open>null\<close>; and it yields a signature
  exactly when all five are there with values, the signing address fitting its algorithm.\<close>

lemma signature_envelope_exact:
  assumes "signature_response_of (JObj kvs) = Some w"
  shows "(map_completion_signature P w = fail (CompletionSignatureUnavailable c m) \<longleftrightarrow>
       map_of kvs ''error_code'' = Some (JStr c) \<and> map_of kvs ''message'' = Some (JStr m)
       \<and> map_of kvs ''text'' = None \<and> map_of kvs ''signature'' = None \<and> map_of kvs ''signing_address'' = None
       \<and> map_of kvs ''signing_algo'' = None \<and> map_of kvs ''signature_kind'' = None)
    \<and> (map_completion_signature P w = Inr s \<longleftrightarrow>
       map_of kvs ''text'' = Some (JStr (cs_signed_text s)) \<and> map_of kvs ''signature'' = Some (JStr (cs_signature s))
       \<and> map_of kvs ''signing_address'' = Some (JStr (si_address (cs_signer s)))
       \<and> (\<exists>a. map_of kvs ''signing_algo'' = Some a \<and> a \<noteq> JNull \<and> signing_algo_of a = Some (si_algo (cs_signer s)))
       \<and> (\<exists>k. map_of kvs ''signature_kind'' = Some k \<and> k \<noteq> JNull \<and> completion_signature_kind_of k = Some (cs_kind s))
       \<and> signer_valid P (cs_signer s))"
proof -
  note w = signature_response_ofD [OF assms]
  have text_iff: "ws_text w = Missing_Field \<longleftrightarrow> map_of kvs ''text'' = None"
      "ws_text w = Value_Field t \<longleftrightarrow> map_of kvs ''text'' = Some (JStr t)" for t
    using w(1) signature_field_cases [of kvs "''text''" as_str] by (auto simp: str_simps)
  have signature_iff: "ws_signature w = Missing_Field \<longleftrightarrow> map_of kvs ''signature'' = None"
      "ws_signature w = Value_Field t \<longleftrightarrow> map_of kvs ''signature'' = Some (JStr t)" for t
    using w(2) signature_field_cases [of kvs "''signature''" as_str] by (auto simp: str_simps)
  have address_iff: "ws_signing_address w = Missing_Field \<longleftrightarrow> map_of kvs ''signing_address'' = None"
      "ws_signing_address w = Value_Field t \<longleftrightarrow> map_of kvs ''signing_address'' = Some (JStr t)" for t
    using w(3) signature_field_cases [of kvs "''signing_address''" as_str] by (auto simp: str_simps)
  have algo_iff: "ws_signing_algo w = Missing_Field \<longleftrightarrow> map_of kvs ''signing_algo'' = None"
      "ws_signing_algo w = Value_Field t \<longleftrightarrow>
        (\<exists>a. map_of kvs ''signing_algo'' = Some a \<and> a \<noteq> JNull \<and> signing_algo_of a = Some t)" for t
    using w(4) signature_field_cases [of kvs "''signing_algo''" signing_algo_of] by auto
  have kind_iff: "ws_signature_kind w = Missing_Field \<longleftrightarrow> map_of kvs ''signature_kind'' = None"
      "ws_signature_kind w = Value_Field t \<longleftrightarrow>
        (\<exists>k. map_of kvs ''signature_kind'' = Some k \<and> k \<noteq> JNull \<and> completion_signature_kind_of k = Some t)" for t
    using w(5) signature_field_cases [of kvs "''signature_kind''" completion_signature_kind_of] by auto
  have error_iff: "ws_error_code w = Some t \<longleftrightarrow> map_of kvs ''error_code'' = Some (JStr t)"
      "ws_message w = Some t \<longleftrightarrow> map_of kvs ''message'' = Some (JStr t)" for t
    using w(6,7) want_Some_Some [of as_str kvs "''error_code''" t] want_Some_Some [of as_str kvs "''message''" t]
    by (simp_all add: str_simps)
  have unavailable: "map_completion_signature P w = fail (CompletionSignatureUnavailable c m) \<longleftrightarrow>
      unavailable w = Some (c, m)"
    by (auto simp: map_completion_signature_def require_signature_def require_signature_field_def
        validate_api_signing_identity_def Let_def outcome_simps
        split: option.splits signature_field.splits)
  have signature: "map_completion_signature P w = Inr s \<longleftrightarrow>
      ws_text w = Value_Field (cs_signed_text s) \<and> ws_signature w = Value_Field (cs_signature s)
      \<and> ws_signing_address w = Value_Field (si_address (cs_signer s))
      \<and> ws_signing_algo w = Value_Field (si_algo (cs_signer s)) \<and> ws_signature_kind w = Value_Field (cs_kind s)
      \<and> signer_valid P (cs_signer s)"
    by (cases s; cases "cs_signer s"; cases "unavailable w")
      (auto simp: map_completion_signature_def require_signature_def require_signature_field_ok outcome_simps
        validate_api_signing_identity_ok unavailable_iff)
  show ?thesis
    unfolding unavailable signature unavailable_iff text_iff signature_iff address_iff algo_iff kind_iff error_iff
    by blast
qed

lemma signature_envelope_exact_witness:
  "\<exists>w. signature_response_of (JObj [(''error_code'', JStr ''e''), (''message'', JStr ''m'')]) = Some w
     \<and> map_completion_signature demo_net w = fail (CompletionSignatureUnavailable ''e'' ''m'')"
proof -
  have "signature_response_of (JObj [(''error_code'', JStr ''e''), (''message'', JStr ''m'')]) \<noteq> None"
    by code_simp
  then obtain w where w: "signature_response_of (JObj [(''error_code'', JStr ''e''), (''message'', JStr ''m'')]) = Some w"
    by blast
  show ?thesis
    using w signature_envelope_exact [OF w, of demo_net "''e''" "''m''"] by auto
qed

end
