(* ===== verification/Direct.thy ===== *)
theory Direct
  imports Cloud_Api Reports Response_Signature
begin

text \<open>
  \<open>direct.rs\<close>, the evidence of a direct endpoint: fetching its report set, verifying it and
  verifying responses against it. (The client over it is in \<open>Sessions\<close> and \<open>Inference\<close>.) The
  reports of a set are verified concurrently by the code; the model verifies them in order, so
  which of several errors is returned may differ, never whether one is.
\<close>

record direct_model_attestation =
  da_attestation :: model_attestation
  da_model_name :: string
  da_instance_id :: "string option"
  da_spki_fingerprint :: "string option"

record direct_client_binding =
  db_nonce :: string
  db_spki_fingerprint :: "string option"

record fetched_direct_attestations =
  fd_serving :: direct_model_attestation
  fd_attestations :: "direct_model_attestation list"
  fd_client_binding :: direct_client_binding
  fd_ohttp_attestation :: "ohttp_attestation option"

record verified_direct_attestation =
  vd_attestation :: verified_model_attestation
  vd_model_name :: string
  vd_instance_id :: "string option"
  vd_spki_fingerprint :: "string option"

record direct_verification_result =
  dr_serving :: verified_direct_attestation
  dr_attestations :: "verified_direct_attestation list"
  dr_tls_binding :: gateway_tls_binding
  dr_spki_fingerprints :: "string list"
  dr_verified_at :: "64 word"

section \<open>Fetching\<close>

definition invalid_direct :: "string \<Rightarrow> api_error" where
  "invalid_direct path = InvalidResponse path ''documented direct attestation shape'' ''missing or invalid''"

fun optional_text :: "json option \<Rightarrow> string \<Rightarrow> string option api" where
  "optional_text None name = Inr None"
| "optional_text (Some JNull) name = Inr None"
| "optional_text (Some (JStr s)) name = Inr (Some s)"
| "optional_text (Some _) name = fail (invalid_direct name)"

definition decode_direct :: "'z net_prims_scheme \<Rightarrow> json \<Rightarrow> direct_model_attestation api" where
  "decode_direct P v =
     rbind (ok_or (invalid_direct ''model_name'') (Option.bind (Option.bind (jget v ''model_name'') as_str)
              (\<lambda>s. if s \<noteq> [] then Some s else None))) (\<lambda>model_name.
     rbind (decode_model_value P v) (\<lambda>attestation.
     rbind (optional_text (Option.bind (jget v ''info'') (\<lambda>info. jget info ''instance_id'')) ''instance_id'') (\<lambda>instance_id.
     rbind (optional_text (jget v ''tls_cert_fingerprint'') ''tls_cert_fingerprint'') (\<lambda>spki_fingerprint.
     Inr \<lparr>da_attestation = attestation, da_model_name = model_name, da_instance_id = instance_id,
          da_spki_fingerprint = spki_fingerprint\<rparr>))))"

text \<open>Only the serving envelope supplies manager evidence: a nested one is dropped before decoding.\<close>

definition decode_bare :: "'z net_prims_scheme \<Rightarrow> json \<Rightarrow> direct_model_attestation api" where
  "decode_bare P v =
     rbind (ok_or (invalid_direct ''all_attestations'') (as_object v)) (\<lambda>kvs.
     decode_direct P (JObj (filter (\<lambda>(k, _). k \<noteq> ''compose_manager_attestation'') kvs)))"

definition set_manager :: "compose_manager_attestation option \<Rightarrow> direct_model_attestation \<Rightarrow> direct_model_attestation" where
  "set_manager m a = a\<lparr>da_attestation := (da_attestation a)\<lparr>ma_compose_manager := m\<rparr>\<rparr>"

definition position :: "('a \<Rightarrow> bool) \<Rightarrow> 'a list \<Rightarrow> nat option" where
  "position Q xs = List.find (\<lambda>k. Q (xs ! k)) [0..<length xs]"

definition check_report :: "'z prims_scheme \<Rightarrow> string \<Rightarrow> direct_model_attestation \<Rightarrow> unit api" where
  "check_report P nonce item =
     rbind (ensure (da_spki_fingerprint item = None) (invalid_direct ''tls_cert_fingerprint'')) (\<lambda>_.
     ensure (decode_hex P (ev_nonce (ma_evidence (da_attestation item))) = decode_hex P nonce)
       (Api_NonceMismatch Res_ModelAttestation))"

definition direct_query :: "string \<Rightarrow> signing_algo option \<Rightarrow> string option \<Rightarrow> (string \<times> string) list" where
  "direct_query nonce algo address =
     [(''nonce'', nonce), (''include_tls_fingerprint'', ''false'')] @ algo_query algo
     @ (case address of None \<Rightarrow> [] | Some a \<Rightarrow> [(''signing_address'', a)])"

definition fetch_direct_attestations ::
  "'z net_prims_scheme \<Rightarrow> string \<Rightarrow> attestation_client \<Rightarrow> signing_algo option \<Rightarrow> string option
     \<Rightarrow> fetched_direct_attestations api" where
  "fetch_direct_attestations P nonce api_client algo address =
     rbind (case address of None \<Rightarrow> Inr ()
            | Some a \<Rightarrow> rbind (validate_input_signing_address P a algo ''signing_address'') (\<lambda>_. Inr ())) (\<lambda>_.
     rbind (fetch_value P api_client ''attestation/report'' (direct_query nonce algo address) Res_ModelAttestation) (\<lambda>v.
     rbind (decode_direct P v) (\<lambda>serving.
     rbind (ok_or (invalid_direct ''all_attestations'') (Option.bind (Option.bind (jget v ''all_attestations'') as_array)
              (\<lambda>xs. if xs \<noteq> [] then Some xs else None))) (\<lambda>reports.
     rbind (traverse (decode_bare P) reports) (\<lambda>bare_attestations.
     let bare = set_manager None serving in
     rbind (ok_or (invalid_direct ''serving_attestation'') (position (\<lambda>report. report = bare) bare_attestations)) (\<lambda>index.
     let attestations = bare_attestations[index :=
           set_manager (ma_compose_manager (da_attestation serving)) (bare_attestations ! index)] in
     rbind (for_each (check_report P nonce) attestations) (\<lambda>_.
     rbind (case jget v ''ohttp_attestation'' of
              None \<Rightarrow> Inr None
            | Some o' \<Rightarrow> if is_null o' then Inr None
                else rbind (ok_or (invalid_direct ''ohttp_attestation'') (ohttp_attestation_of o')) (\<lambda>a. Inr (Some a))) (\<lambda>ohttp.
     Inr \<lparr>fd_serving = serving, fd_attestations = attestations,
          fd_client_binding = \<lparr>db_nonce = nonce, db_spki_fingerprint = None\<rparr>,
          fd_ohttp_attestation = ohttp\<rparr>))))))))"

section \<open>Verifying\<close>

text \<open>\<open>inference.rs::verified_at\<close>: milliseconds since the epoch, 0 before it; the cast wraps at 64 bits.\<close>

definition verified_at :: "nat option \<Rightarrow> 64 word" where
  "verified_at clock_millis = of_nat (or_else 0 clock_millis)"

definition verify_direct_model_attestation ::
  "('c, 'z) jwt_prims_scheme \<Rightarrow> direct_model_attestation \<Rightarrow> model_client_binding
     \<Rightarrow> model_attestation_policy option \<Rightarrow> model_verifiers \<Rightarrow> verified_direct_attestation ver" where
  "verify_direct_model_attestation P attestation binding policy verifiers =
     rbind (verify_model_with_tls P (da_attestation attestation) binding policy verifiers
              (da_spki_fingerprint attestation)) (\<lambda>verified.
     rbind (case da_spki_fingerprint attestation of
              None \<Rightarrow> Inr None
            | Some s \<Rightarrow> rbind (ok_or (protocol ''input.invalid'' ''invalid TLS fingerprint'') (require_hex_length P s 32))
                (\<lambda>b. Inr (Some (hex_encode P b)))) (\<lambda>fingerprint.
     Inr \<lparr>vd_attestation = verified, vd_model_name = da_model_name attestation,
          vd_instance_id = da_instance_id attestation, vd_spki_fingerprint = fingerprint\<rparr>))"

text \<open>The fingerprints of the verified reports, each once, in order.\<close>

fun collect_pins :: "verified_direct_attestation list \<Rightarrow> string list \<Rightarrow> string list" where
  "collect_pins [] pins = pins"
| "collect_pins (report # reports) pins =
     collect_pins reports
       (case vd_spki_fingerprint report of
          None \<Rightarrow> pins
        | Some pin \<Rightarrow> if pin \<in> set pins then pins else pins @ [pin])"

definition verify_direct_model_attestations ::
  "('c, 'z) jwt_prims_scheme \<Rightarrow> nat option \<Rightarrow> fetched_direct_attestations \<Rightarrow> model_attestation_policy option
     \<Rightarrow> model_verifiers \<Rightarrow> direct_verification_result ver" where
  "verify_direct_model_attestations P clock fetched policy verifiers =
     rbind (ensure (fd_attestations fetched \<noteq> []) (protocol ''policy.model_attestation_required'' ''empty report set'')) (\<lambda>_.
     rbind (ok_or (protocol ''input.invalid'' ''serving report missing from report set'')
              (position (\<lambda>v. v = fd_serving fetched) (fd_attestations fetched))) (\<lambda>index.
     let binding = \<lparr>mcb_nonce = db_nonce (fd_client_binding fetched)\<rparr> in
     rbind (traverse (\<lambda>report. verify_direct_model_attestation P report binding policy verifiers)
              (fd_attestations fetched)) (\<lambda>attestations.
     rbind (index_at attestations index) (\<lambda>serving.
     rbind (case vd_spki_fingerprint serving of
              Some pin \<Rightarrow>
                rbind (ok_or SpkiFingerprintRequired (db_spki_fingerprint (fd_client_binding fetched))) (\<lambda>peer.
                rbind (ensure (decode_hex P pin = decode_hex P peer) SpkiFingerprintMismatch) (\<lambda>_.
                Inr (Attested pin)))
            | None \<Rightarrow> Inr No_Tls_Binding) (\<lambda>tls_binding.
     Inr \<lparr>dr_serving = serving, dr_attestations = attestations, dr_tls_binding = tls_binding,
          dr_spki_fingerprints = collect_pins attestations [], dr_verified_at = verified_at clock\<rparr>)))))"

definition verify_direct_model_response ::
  "('c, 'z) sig_prims_scheme \<Rightarrow> bytes \<Rightarrow> bytes \<Rightarrow> completion_signature \<Rightarrow> verified_direct_attestation list
     \<Rightarrow> verified_direct_attestation list ver" where
  "verify_direct_model_response P request response signature attestations =
     rbind (ensure (cs_kind signature = ProviderTee) (SignatureKindMismatch ProviderTee (cs_kind signature))) (\<lambda>_.
     let matching = filter (\<lambda>a.
           si_algo (ve_signer (vm_evidence (vd_attestation a))) = si_algo (cs_signer signature)
           \<and> decode_hex P (si_address (ve_signer (vm_evidence (vd_attestation a))))
             = decode_hex P (si_address (cs_signer signature))) attestations in
     rbind (ok_or SignatureSignerMismatch (first_of matching)) (\<lambda>first.
     rbind (verify_model_response P request response signature (vd_attestation first)) (\<lambda>_.
     Inr matching)))"

text \<open>Reports may spell the same address differently.\<close>

definition same_signer :: "'z prims_scheme \<Rightarrow> signing_identity \<Rightarrow> signing_identity \<Rightarrow> bool" where
  "same_signer P left right \<longleftrightarrow>
     si_algo left = si_algo right
     \<and> (case (decode_hex P (si_address left), decode_hex P (si_address right)) of
          (Some l, Some r) \<Rightarrow> l = r
        | _ \<Rightarrow> False)"

section \<open>What success means\<close>

lemma position_Some:
  "position Q xs = Some i \<Longrightarrow> i < length xs \<and> Q (xs ! i)"
  by (auto simp: position_def find_Some_iff)

lemma traverse_list_all2:
  "traverse f xs = Inr ys \<longleftrightarrow> list_all2 (\<lambda>x y. f x = Inr y) xs ys"
  by (induction xs arbitrary: ys) (auto simp: outcome_simps list_all2_Cons1)

lemma collect_pins_set:
  "set (collect_pins reports pins) = set pins \<union> {p. \<exists>v \<in> set reports. vd_spki_fingerprint v = Some p}"
  by (induction reports pins rule: collect_pins.induct) (auto split: option.splits)

lemma collect_pins_distinct: "distinct pins \<Longrightarrow> distinct (collect_pins reports pins)"
  by (induction reports pins rule: collect_pins.induct) (auto split: option.splits)

lemma same_signer_iff:
  "same_signer P l r \<longleftrightarrow> si_algo l = si_algo r
     \<and> (\<exists>a. decode_hex P (si_address l) = Some a \<and> decode_hex P (si_address r) = Some a)"
  by (auto simp: same_signer_def split: option.splits)

text \<open>\<open>Value::to_string\<close> prints a document that reads back as the value.\<close>

definition document_roundtrip :: "'z net_prims_scheme \<Rightarrow> bool" where
  "document_roundtrip P \<longleftrightarrow> (\<forall>j. json_document P (as_bytes (json_print P j)) = Some j)"

lemma decode_as_ok:
  "decode_as P d body resource root = Inr x \<longleftrightarrow> Option.bind (json_document P (as_bytes body)) d = Some x"
  by (auto simp: decode_as_def decode_wire_response_def split: option.splits)

lemma want_missing: "map_of kvs k = None \<Longrightarrow> want kvs k d = Some None"
  by (simp add: want_def)

lemma map_of_filter_key: "map_of (filter (\<lambda>(k, _). k \<noteq> k') kvs) k' = None"
  by (induction kvs) auto

lemma decode_bare_no_manager:
  assumes "document_roundtrip P" and "decode_bare P v = Inr a"
  shows "ma_compose_manager (da_attestation a) = None"
proof -
  obtain kvs m where m: "decode_model_value P (JObj (filter (\<lambda>(k, _). k \<noteq> ''compose_manager_attestation'') kvs)) = Inr m"
      and a: "da_attestation a = m"
    using assms(2) by (auto simp: decode_bare_def decode_direct_def outcome_simps)
  let ?kvs = "filter (\<lambda>(k, _). k \<noteq> ''compose_manager_attestation'') kvs"
  obtain wire where "wire_model_attestation_of P (JObj ?kvs) = Some wire"
      and "map_model_attestation P wire ''attestation'' = Inr m"
    using m assms(1) by (auto simp: decode_model_value_def decode_as_ok outcome_simps document_roundtrip_def)
  then show ?thesis
    unfolding a by (auto simp: wire_model_attestation_of_def map_model_attestation_def bind_eq_Some_conv outcome_simps
        want_missing [OF map_of_filter_key] split: if_splits option.splits)
qed

lemma set_manager_same: "set_manager (ma_compose_manager (da_attestation a)) (set_manager m a) = a"
  by (cases a; cases "da_attestation a") (simp add: set_manager_def)

lemma check_report_ok:
  "check_report P nonce a = Inr u \<longleftrightarrow> da_spki_fingerprint a = None
     \<and> decode_hex P (ev_nonce (ma_evidence (da_attestation a))) = decode_hex P nonce"
  by (auto simp: check_report_def outcome_simps)

lemma for_each_list_all: "for_each f xs = Inr u \<longleftrightarrow> list_all (\<lambda>x. f x = Inr ()) xs"
  by (induction xs) (auto simp: outcome_simps)

section \<open>Properties\<close>

text \<open>A fetched direct report set is about this fetch. Its serving report is one of the set, at some
  position \<open>i\<close>; every report of the set names the fetch's nonce and carries no TLS fingerprint; and only
  the report at \<open>i\<close> can carry Compose Manager evidence. (It relies on printed JSON reading back.)\<close>

lemma direct_report_set_fetched:
  assumes "document_roundtrip P" and "fetch_direct_attestations P nonce client algo address = Inr f"
  shows "\<exists>i. i < length (fd_attestations f) \<and> fd_attestations f ! i = fd_serving f
     \<and> list_all (\<lambda>a. da_spki_fingerprint a = None
          \<and> decode_hex P (ev_nonce (ma_evidence (da_attestation a))) = decode_hex P nonce) (fd_attestations f)
     \<and> list_all (\<lambda>j. j = i \<or> ma_compose_manager (da_attestation (fd_attestations f ! j)) = None)
          [0..<length (fd_attestations f)]
     \<and> fd_client_binding f = \<lparr>db_nonce = nonce, db_spki_fingerprint = None\<rparr>"
proof -
  obtain serving reports bare i where
      bare: "traverse (decode_bare P) reports = Inr bare"
      and i: "position (\<lambda>report. report = set_manager None serving) bare = Some i"
      and f: "fd_serving f = serving"
        "fd_attestations f = bare[i := set_manager (ma_compose_manager (da_attestation serving)) (bare ! i)]"
        "fd_client_binding f = \<lparr>db_nonce = nonce, db_spki_fingerprint = None\<rparr>"
      and checked: "for_each (check_report P nonce) (fd_attestations f) = Inr ()"
    using assms(2) by (auto simp: fetch_direct_attestations_def outcome_simps Let_def)
  have len: "i < length bare" and at_i: "bare ! i = set_manager None serving"
    using position_Some [OF i] by auto
  have no_manager: "ma_compose_manager (da_attestation (bare ! j)) = None" if "j < length bare" for j
    using bare that decode_bare_no_manager [OF assms(1)]
    by (auto simp: traverse_list_all2 list_all2_conv_all_nth)
  show ?thesis
    using len checked
    by (intro exI [of _ i])
      (auto simp: f at_i set_manager_same for_each_list_all check_report_ok list_all_iff nth_list_update no_manager)
qed

text \<open>An endpoint that answers every request with a document of one report; \<open>n\<close> spells its nonce and
  \<open>a\<close> an address.\<close>

definition demo_report_members :: "(string \<times> json) list" where
  "demo_report_members = [(''model_name'', JStr ''m''), (''request_nonce'', JStr ''n''),
     (''signing_algo'', JStr ''ecdsa''), (''signing_address'', JStr ''a''),
     (''intel_quote'', JStr []), (''event_log'', JArr []), (''info'', JObj [(''tcb_info'', JObj [(''app_compose'', JStr [])])])]"

definition demo_direct_document :: json where
  "demo_direct_document = JObj (demo_report_members @ [(''all_attestations'', JArr [JObj demo_report_members])])"

definition demo_direct :: net_prims where
  "demo_direct = demo_net\<lparr>hex_decode := (\<lambda>s. Some (replicate (if s = ''n'' then 32 else 20) 0)),
     http_send := (\<lambda>_ _. Some \<lparr>rs_status = 200, rs_headers = [], rs_content_length = None,
     rs_chunks = [as_bytes (json_print demo_net demo_direct_document)], rs_broken = False,
     rs_peer_certificate = None\<rparr>)\<rparr>"

lemma demo_direct_roundtrip: "document_roundtrip demo_direct"
  using demo_laws by (simp add: document_roundtrip_def json_roundtrip_def demo_direct_def demo_defs)

lemma direct_report_set_fetched_witness:
  "\<exists>f. fetch_direct_attestations demo_direct ''n'' demo_client None None = Inr f
     \<and> fd_attestations f \<noteq> []"
proof -
  have "is_ok (fetch_direct_attestations demo_direct ''n'' demo_client None None)"
    by code_simp
  then obtain f where f: "fetch_direct_attestations demo_direct ''n'' demo_client None None = Inr f"
    by (cases "fetch_direct_attestations demo_direct ''n'' demo_client None None") auto
  show ?thesis
    using f direct_report_set_fetched [OF demo_direct_roundtrip f] by auto
qed

text \<open>C19: A verified direct report set is verified throughout. Every report of it verified under the one
  nonce and policy, the serving result is the result of the serving report, a serving report with a TLS
  fingerprint was fetched from a peer of that fingerprint, and the listed fingerprints are those of
  the verified reports, each once.\<close>

lemma direct_report_set_verified:
  assumes "verify_direct_model_attestations P clock f policy vs = Inr r"
  shows "list_all2 (\<lambda>a v. verify_direct_model_attestation P a \<lparr>mcb_nonce = db_nonce (fd_client_binding f)\<rparr> policy vs
            = Inr v) (fd_attestations f) (dr_attestations r)
     \<and> (\<exists>i < length (fd_attestations f). fd_attestations f ! i = fd_serving f \<and> dr_serving r = dr_attestations r ! i)
     \<and> (case vd_spki_fingerprint (dr_serving r) of
          None \<Rightarrow> dr_tls_binding r = No_Tls_Binding
        | Some pin \<Rightarrow> dr_tls_binding r = Attested pin
            \<and> (\<exists>peer. db_spki_fingerprint (fd_client_binding f) = Some peer \<and> decode_hex P pin = decode_hex P peer))
     \<and> distinct (dr_spki_fingerprints r)
     \<and> set (dr_spki_fingerprints r) = {p. \<exists>v \<in> set (dr_attestations r). vd_spki_fingerprint v = Some p}"
proof -
  obtain i vs' serving tls where
      i: "position (\<lambda>v. v = fd_serving f) (fd_attestations f) = Some i"
      and all: "list_all2 (\<lambda>a v. verify_direct_model_attestation P a \<lparr>mcb_nonce = db_nonce (fd_client_binding f)\<rparr>
        policy vs = Inr v) (fd_attestations f) vs'"
      and serving: "index_at vs' i = Inr serving"
      and tls: "case vd_spki_fingerprint serving of
          None \<Rightarrow> tls = No_Tls_Binding
        | Some pin \<Rightarrow> tls = Attested pin
            \<and> (\<exists>peer. db_spki_fingerprint (fd_client_binding f) = Some peer \<and> decode_hex P pin = decode_hex P peer)"
      and r: "r = \<lparr>dr_serving = serving, dr_attestations = vs', dr_tls_binding = tls,
        dr_spki_fingerprints = collect_pins vs' [], dr_verified_at = verified_at clock\<rparr>"
    using assms by (auto simp: verify_direct_model_attestations_def outcome_simps Let_def traverse_list_all2
        split: option.splits)
  have "serving = vs' ! i"
    using serving by (auto simp: index_at_def split: if_splits)
  then show ?thesis
    using all tls position_Some [OF i]
    by (auto simp: r collect_pins_set collect_pins_distinct split: option.splits)
qed

definition demo_direct_report :: direct_model_attestation where
  "demo_direct_report = \<lparr>da_attestation = \<lparr>ma_signing_public_key = None, ma_compose_manager = None,
       ma_evidence = demo_evidence, ma_reported_quote_data = None, ma_nvidia_payload = None\<rparr>,
     da_model_name = ''m'', da_instance_id = None, da_spki_fingerprint = None\<rparr>"

definition demo_direct_set :: fetched_direct_attestations where
  "demo_direct_set = \<lparr>fd_serving = demo_direct_report, fd_attestations = [demo_direct_report],
     fd_client_binding = \<lparr>db_nonce = gcb_nonce demo_binding, db_spki_fingerprint = None\<rparr>,
     fd_ohttp_attestation = None\<rparr>"

definition demo_direct_verifiers :: model_verifiers where
  "demo_direct_verifiers = \<lparr>mv_tdx_quote = av_tdx_quote demo_verifiers, mv_gpu_evidence = None, mv_deployment = None\<rparr>"

lemma direct_report_set_verified_witness:
  "\<exists>r. verify_direct_model_attestations demo_jwt (Some 0) demo_direct_set None demo_direct_verifiers = Inr r
     \<and> length (dr_attestations r) = 1 \<and> distinct (dr_spki_fingerprints r)"
proof -
  have "is_ok (verify_direct_model_attestations demo_jwt (Some 0) demo_direct_set None demo_direct_verifiers)"
    by code_simp
  then obtain r where r: "verify_direct_model_attestations demo_jwt (Some 0) demo_direct_set None demo_direct_verifiers = Inr r"
    by (cases "verify_direct_model_attestations demo_jwt (Some 0) demo_direct_set None demo_direct_verifiers") auto
  have "length (fd_attestations demo_direct_set) = 1"
    by (simp add: demo_direct_set_def)
  moreover note verified = direct_report_set_verified [OF r]
  ultimately have "length (dr_attestations r) = 1"
    using verified [THEN conjunct1, THEN list_all2_lengthD] by simp
  moreover have "distinct (dr_spki_fingerprints r)"
    using verified by blast
  ultimately show ?thesis
    using r by blast
qed

text \<open>C34: Response verification against a report set is exact, and checking one report stands for all. It
  returns precisely the non-empty list of the reports whose algorithm and address are the
  signature's, and each of those reports on its own verifies the response.\<close>

lemma direct_response_exact:
  "verify_direct_model_response P request response s atts = Inr ms \<longleftrightarrow>
     ms = filter (\<lambda>a. si_algo (ve_signer (vm_evidence (vd_attestation a))) = si_algo (cs_signer s)
             \<and> decode_hex P (si_address (ve_signer (vm_evidence (vd_attestation a))))
               = decode_hex P (si_address (cs_signer s))) atts
     \<and> ms \<noteq> [] \<and> list_all (\<lambda>m. verify_model_response P request response s (vd_attestation m) = Inr ()) ms"
  (is "?L \<longleftrightarrow> ms = ?ms \<and> _")
proof -
  have same: "verify_model_response P request response s (vd_attestation a) = Inr () \<longleftrightarrow>
      verify_model_response P request response s (vd_attestation b) = Inr ()"
    if "a \<in> set ?ms" "b \<in> set ?ms" for a b
    using that by (simp add: sig_ok signature_by_def)
  have "?L \<longleftrightarrow> cs_kind s = ProviderTee \<and> ms = ?ms \<and>
      (\<exists>first rest. ?ms = first # rest \<and> verify_model_response P request response s (vd_attestation first) = Inr ())"
    by (auto simp: verify_direct_model_response_def outcome_simps Let_def)
  also have "(\<exists>first rest. ?ms = first # rest \<and> verify_model_response P request response s (vd_attestation first) = Inr ())
      \<longleftrightarrow> ?ms \<noteq> [] \<and> list_all (\<lambda>m. verify_model_response P request response s (vd_attestation m) = Inr ()) ?ms"
  proof (cases ?ms)
    case (Cons a as)
    then have "list_all (\<lambda>m. verify_model_response P request response s (vd_attestation m) = Inr ()) ?ms \<longleftrightarrow>
        verify_model_response P request response s (vd_attestation a) = Inr ()"
      unfolding list_all_iff using same [of a] by (metis list.set_intros(1))
    then show ?thesis
      using Cons by (metis list.distinct(1) list.inject)
  qed simp
  also have "cs_kind s = ProviderTee \<and> ms = ?ms \<and> ?ms \<noteq> []
        \<and> list_all (\<lambda>m. verify_model_response P request response s (vd_attestation m) = Inr ()) ?ms
      \<longleftrightarrow> ms = ?ms \<and> ms \<noteq> []
        \<and> list_all (\<lambda>m. verify_model_response P request response s (vd_attestation m) = Inr ()) ms"
  proof -
    have "cs_kind s = ProviderTee" if "m \<in> set ms" "verify_model_response P request response s (vd_attestation m) = Inr ()"
      for m
      using that(2) by (auto simp: sig_ok signature_by_def)
    then show ?thesis
      unfolding list_all_iff by (metis last_in_set)
  qed
  finally show ?thesis .
qed

end
