(* ===== verification/Bhttp.thy ===== *)
theory Bhttp
  imports Errors Http
begin

text \<open>
  The Binary HTTP framing of \<open>ohttp.rs\<close> (RFC 9292): variable-length integers and vectors, the
  reader over a decrypted stream, field sections and padding. The stream arrives in pieces of any
  size and either ends authenticated or breaks; \<open>usize\<close> has 64 bits.
\<close>

unbundle bit_operations_syntax

definition message_limit :: nat where "message_limit = 2 ^ 30"
definition fields_limit :: nat where "fields_limit = 2 ^ 20"
definition chunk_size :: nat where "chunk_size = 16384"

definition hop_headers :: "string list" where
  "hop_headers = [''connection'', ''proxy-connection'', ''keep-alive'', ''transfer-encoding'',
     ''upgrade'', ''te'', ''trailer'']"

definition bhttp_error :: "string \<Rightarrow> verification_error" where
  "bhttp_error reason = protocol ''ohttp.decryption_failed'' reason"

section \<open>Writing\<close>

definition to_be_bytes64 :: "64 word \<Rightarrow> bytes" where
  "to_be_bytes64 w = map (\<lambda>i. ucast (drop_bit (8 * i) w)) (rev [0..<8])"

definition varint :: "nat \<Rightarrow> bytes \<Rightarrow> bytes" where
  "varint v out =
     (let (width, bits) = (if v < 64 then (1, 6) else if v < 16384 then (2, 14)
            else if v < 2 ^ 30 then (4, 30) else (8, 62));
          prefix = (if width = 1 then 0 else if width = 2 then 1 else if width = 4 then 2 else 3);
          encoded = to_be_bytes64 (of_nat v OR push_bit bits (of_nat prefix))
      in out @ drop (8 - width) encoded)"

definition vector :: "bytes \<Rightarrow> bytes \<Rightarrow> bytes" where
  "vector b out = varint (length b) out @ b"

section \<open>Reading a stream\<close>

record reader =
  rd_pieces :: "bytes list"
  rd_intact :: bool

text \<open>\<open>AsyncRead::read\<close> with a buffer of \<open>n\<close> bytes: some of what has arrived, nothing only at the end.\<close>

fun read_pieces :: "nat \<Rightarrow> bytes list \<Rightarrow> bytes \<times> bytes list" where
  "read_pieces n [] = ([], [])"
| "read_pieces n (p # ps) =
     (if p = [] then read_pieces n ps else (take n p, if length p \<le> n then ps else drop n p # ps))"

definition read :: "nat \<Rightarrow> reader \<Rightarrow> (bytes \<times> reader) option" where
  "read n r =
     (let (got, ps) = read_pieces n (rd_pieces r) in
      if got = [] \<and> \<not> rd_intact r then None else Some (got, r\<lparr>rd_pieces := ps\<rparr>))"

definition stream_text :: "reader \<Rightarrow> bytes" where
  "stream_text r = concat (rd_pieces r)"

lemma read_pieces_text:
  assumes "0 < n"
  shows "fst (read_pieces n ps) @ concat (snd (read_pieces n ps)) = concat ps
     \<and> length (fst (read_pieces n ps)) \<le> n \<and> (fst (read_pieces n ps) = [] \<longleftrightarrow> concat ps = [])"
  using assms by (induction n ps rule: read_pieces.induct) auto

lemma read_progress:
  assumes "read n r = Some (got, r')" "0 < n"
  shows "got @ stream_text r' = stream_text r" "length got \<le> n" "got = [] \<longleftrightarrow> stream_text r = []"
    "rd_intact r' = rd_intact r"
  using assms read_pieces_text [OF assms(2), of "rd_pieces r"]
  by (auto simp: read_def stream_text_def split: prod.splits if_splits)

text \<open>\<open>read_exact\<close>\<close>

function read_exact :: "nat \<Rightarrow> reader \<Rightarrow> (bytes \<times> reader) option" where
  "read_exact n r =
     (if n = 0 then Some ([], r)
      else case read n r of
          None \<Rightarrow> None
        | Some (got, r') \<Rightarrow>
            if got = [] then None
            else map_option (\<lambda>(more_bytes, r''). (got @ more_bytes, r'')) (read_exact (n - length got) r'))"
  by pat_completeness auto

termination
  by (relation "measure fst") auto

declare read_exact.simps [simp del]

definition exact :: "nat \<Rightarrow> reader \<Rightarrow> (bytes \<times> reader) ver" where
  "exact n r =
     rbind (ensure (n \<le> message_limit) (bhttp_error ''message too large'')) (\<lambda>_.
     ok_or (bhttp_error ''truncated or unauthenticated message'') (read_exact n r))"

definition be_step :: "64 word \<Rightarrow> byte \<Rightarrow> 64 word" where
  "be_step v b = push_bit 8 v OR ucast b"

definition integer :: "bool \<Rightarrow> reader \<Rightarrow> (64 word \<times> reader) ver" where
  "integer eof_zero r =
     rbind (ok_or (bhttp_error ''invalid OHTTP chunk'') (read 1 r)) (\<lambda>(first, r1).
     case first of
       [] \<Rightarrow> if eof_zero then Inr (0, r1) else fail (bhttp_error ''missing BHTTP integer'')
     | b # _ \<Rightarrow>
         rbind (exact (2 ^ unat (drop_bit 6 b) - 1) r1) (\<lambda>(following, r2).
         Inr (foldl be_step (ucast (b AND 63)) following, r2)))"

section \<open>What reading does\<close>

text \<open>One stream is another's after its first \<open>n\<close> bytes.\<close>

definition advanced :: "nat \<Rightarrow> reader \<Rightarrow> reader \<Rightarrow> bool" where
  "advanced n r r' \<longleftrightarrow> n \<le> length (stream_text r) \<and> stream_text r' = drop n (stream_text r) \<and> rd_intact r' = rd_intact r"

lemma read_exact_Some:
  "read_exact n r = Some (got, r') \<Longrightarrow> got = take n (stream_text r) \<and> advanced n r r'"
proof (induction n r arbitrary: got r' rule: read_exact.induct)
  case (1 n r)
  show ?case
  proof (cases "n = 0")
    case True
    with 1(2) show ?thesis by (simp add: read_exact.simps advanced_def)
  next
    case False
    with 1(2) obtain some r1 rest where some: "read n r = Some (some, r1)" "some \<noteq> []"
        and rest: "read_exact (n - length some) r1 = Some (rest, r')" and got: "got = some @ rest"
      by (subst (asm) read_exact.simps) (auto split: option.splits if_splits)
    have "rest = take (n - length some) (stream_text r1) \<and> advanced (n - length some) r1 r'"
      using 1(1) [OF False some(1) refl some(2) rest] .
    then show ?thesis
      using read_progress [OF some(1)] False
      by (auto simp: got advanced_def simp flip: read_progress(1) [OF some(1)])
  qed
qed

lemma read_exact_None:
  "read_exact n r = None \<Longrightarrow> length (stream_text r) < n"
proof (induction n r rule: read_exact.induct)
  case (1 n r)
  have n: "n \<noteq> 0"
    using "1.prems" by (cases "n = 0") (simp_all add: read_exact.simps)
  show ?case
  proof (cases "read n r")
    case None
    then have "fst (read_pieces n (rd_pieces r)) = []"
      by (auto simp: read_def split: prod.splits if_splits)
    then show ?thesis
      using read_pieces_text [of n "rd_pieces r"] n by (simp add: stream_text_def del: concat_eq_Nil_conv)
  next
    case (Some a)
    obtain some r1 where a: "read n r = Some (some, r1)" using Some by (cases a) auto
    show ?thesis
    proof (cases "some = []")
      case True
      then show ?thesis using read_progress(3) [OF a] n by simp
    next
      case False
      have "read_exact (n - length some) r1 = None"
        using 1(2) n a False by (subst (asm) read_exact.simps) auto
      from 1(1) [OF n a refl False this] show ?thesis
        using read_progress(1) [OF a, symmetric] n by simp
    qed
  qed
qed

lemma exact_ok:
  "exact n r = Inr (got, r') \<Longrightarrow> n \<le> message_limit \<and> got = take n (stream_text r) \<and> advanced n r r'"
  using read_exact_Some by (auto simp: exact_def outcome_simps)

lemma exact_succeeds:
  assumes "n \<le> length (stream_text r)" "n \<le> message_limit"
  shows "\<exists>r'. exact n r = Inr (take n (stream_text r), r') \<and> advanced n r r'"
proof (cases "read_exact n r")
  case None
  then show ?thesis using read_exact_None [OF None] assms(1) by simp
next
  case (Some a)
  then show ?thesis
    using read_exact_Some [of n r "fst a" "snd a"] assms(2) by (cases a) (auto simp: exact_def)
qed

lemma advanced_trans: "advanced m r r1 \<Longrightarrow> advanced n r1 r2 \<Longrightarrow> advanced (m + n) r r2"
  by (auto simp: advanced_def add.commute)

lemma read_1:
  "read 1 r = (case stream_text r of
      [] \<Rightarrow> if rd_intact r then Some ([], snd (the (read 1 r))) else None
    | b # _ \<Rightarrow> Some ([b], snd (the (read 1 r))))"
proof -
  have parts: "fst (read_pieces 1 (rd_pieces r)) @ concat (snd (read_pieces 1 (rd_pieces r))) = stream_text r"
      "length (fst (read_pieces 1 (rd_pieces r))) \<le> 1"
      "fst (read_pieces 1 (rd_pieces r)) = [] \<longleftrightarrow> stream_text r = []"
    using read_pieces_text [of 1 "rd_pieces r"] by (auto simp: stream_text_def)
  show ?thesis
  proof (cases "fst (read_pieces 1 (rd_pieces r))")
    case Nil
    then show ?thesis
      using parts by (auto simp: read_def split: prod.splits)
  next
    case (Cons b bs)
    then have "bs = []" "\<exists>t. stream_text r = b # t"
      using parts by (auto simp flip: parts(1))
    then show ?thesis
      using Cons by (auto simp: read_def split: prod.splits)
  qed
qed

lemma integer_advances:
  assumes "integer e r = Inr (v, r')"
  shows "(stream_text r = [] \<and> e \<and> v = 0 \<and> stream_text r' = [] \<and> rd_intact r' = rd_intact r)
     \<or> (\<exists>k > 0. advanced k r r')"
proof -
  obtain first r1 where first: "read 1 r = Some (first, r1)"
    using assms by (auto simp: integer_def outcome_simps)
  show ?thesis
  proof (cases first)
    case Nil
    then show ?thesis
      using assms first read_progress [OF first] by (auto simp: integer_def split: if_splits)
  next
    case (Cons b bs)
    have bs: "bs = []"
      using read_progress(2) [OF first] Cons by simp
    then obtain following where "exact (2 ^ unat (drop_bit 6 b) - 1) r1 = Inr (following, r')"
      using assms first Cons by (auto simp: integer_def outcome_simps)
    then have "advanced (2 ^ unat (drop_bit 6 b) - 1) r1 r'"
      using exact_ok by blast
    moreover have "advanced 1 r r1"
      using read_progress(1,4) [OF first] Cons bs
      by (auto simp: advanced_def simp flip: read_progress(1) [OF first])
    ultimately show ?thesis
      using advanced_trans by (metis add_gr_0 zero_less_one)
  qed
qed

section \<open>Fields\<close>

text \<open>\<open>room\<close> tells whether a \<open>HeaderMap\<close> takes one more value of a name (it is bounded).\<close>

definition insert_field ::
  "(headers \<Rightarrow> string \<Rightarrow> bool) \<Rightarrow> headers \<Rightarrow> bytes \<Rightarrow> bytes \<Rightarrow> headers ver" where
  "insert_field room h name v =
     rbind (ok_or (bhttp_error ''invalid field name'') (header_name_from_bytes (map char_at name))) (\<lambda>name.
     rbind (ensure (name \<notin> set hop_headers) (bhttp_error ''hop-by-hop BHTTP field'')) (\<lambda>_.
     rbind (ok_or (bhttp_error ''invalid field value'') (header_value_from_bytes v)) (\<lambda>v.
     rbind (ensure (room h name) (bhttp_error ''too many BHTTP fields'')) (\<lambda>_.
     Inr (h @ [(name, v)])))))"

definition get_byte :: "bytes \<Rightarrow> nat \<Rightarrow> string \<Rightarrow> byte ver" where
  "get_byte d i reason = ok_or (bhttp_error reason) (if i < length d then Some (d ! i) else None)"

fun slice_length :: "bytes \<Rightarrow> nat \<Rightarrow> nat \<Rightarrow> 64 word \<Rightarrow> (64 word \<times> nat) ver" where
  "slice_length d cursor 0 v = Inr (v, cursor)"
| "slice_length d cursor (Suc k) v =
     rbind (get_byte d cursor ''truncated length'') (\<lambda>b. slice_length d (cursor + 1) k (be_step v b))"

definition slice_vector :: "bytes \<Rightarrow> nat \<Rightarrow> (bytes \<times> nat) ver" where
  "slice_vector d cursor =
     rbind (get_byte d cursor ''truncated field'') (\<lambda>first.
     rbind (slice_length d (cursor + 1) (2 ^ unat (drop_bit 6 first) - 1) (ucast (first AND 63))) (\<lambda>(n, cursor).
     rbind (ensure (cursor + unat n < 2 ^ 64) (bhttp_error ''field too large'')) (\<lambda>_.
     rbind (ensure (cursor + unat n \<le> length d) (bhttp_error ''truncated field'')) (\<lambda>_.
     Inr (take (unat n) (drop cursor d), cursor + unat n)))))"

lemma slice_length_cursor: "slice_length d c k v = Inr (n, c') \<Longrightarrow> c' = c + k"
  by (induction d c k v rule: slice_length.induct) (auto simp: outcome_simps)

lemma slice_vector_cursor: "slice_vector d c = Inr (s, c') \<Longrightarrow> c < c' \<and> c' \<le> length d"
  by (auto simp: slice_vector_def outcome_simps dest!: slice_length_cursor)

function known_fields_loop ::
  "(headers \<Rightarrow> string \<Rightarrow> bool) \<Rightarrow> bytes \<Rightarrow> nat \<Rightarrow> headers \<Rightarrow> headers ver" where
  "known_fields_loop room d cursor h =
     (if cursor < length d then
        rbind (slice_vector d cursor) (\<lambda>(name, c1).
        rbind (slice_vector d c1) (\<lambda>(v, c2).
        rbind (insert_field room h name v) (\<lambda>h'.
        known_fields_loop room d c2 h')))
      else Inr h)"
  by pat_completeness auto

termination
  by (relation "measure (\<lambda>(room, d, cursor, h). length d - cursor)") (auto dest!: slice_vector_cursor)

declare known_fields_loop.simps [simp del]

function field_lines ::
  "(headers \<Rightarrow> string \<Rightarrow> bool) \<Rightarrow> reader \<Rightarrow> nat \<Rightarrow> headers \<Rightarrow> (headers \<times> reader) ver" where
  "field_lines room r so_far h =
     rbind (integer (so_far = 0) r) (\<lambda>(n, r1).
     if n = 0 then Inr (h, r1)
     else
       rbind (ensure (unat n \<le> fields_limit) (bhttp_error ''field too large'')) (\<lambda>_.
       rbind (exact (unat n) r1) (\<lambda>(name, r2).
       rbind (integer False r2) (\<lambda>(m, r3).
       rbind (ensure (unat m \<le> fields_limit) (bhttp_error ''field too large'')) (\<lambda>_.
       rbind (exact (unat m) r3) (\<lambda>(v, r4).
       let so_far = so_far + length name + length v in
       rbind (ensure (so_far \<le> fields_limit) (bhttp_error ''field section too large'')) (\<lambda>_.
       rbind (insert_field room h name v) (\<lambda>h'.
       field_lines room r4 so_far h'))))))))"
  by pat_completeness auto

lemma advanced_shorter: "advanced n r r' \<Longrightarrow> length (stream_text r') = length (stream_text r) - n"
  by (simp add: advanced_def)

lemma integer_shorter:
  assumes "integer e r = Inr (v, r')"
  shows "length (stream_text r') \<le> length (stream_text r)" "v \<noteq> 0 \<Longrightarrow> length (stream_text r') < length (stream_text r)"
  using integer_advances [OF assms] by (auto simp: advanced_def)

lemma exact_shorter: "exact n r = Inr (got, r') \<Longrightarrow> length (stream_text r') \<le> length (stream_text r)"
  by (auto dest!: exact_ok simp: advanced_def)

termination field_lines
  by (relation "measure (\<lambda>(room, r, so_far, h). length (stream_text r))")
    (auto dest!: integer_shorter(1) [where e = False] integer_shorter(2) [where e = "_ = _"] exact_shorter)

declare field_lines.simps [simp del]

definition fields_section ::
  "(headers \<Rightarrow> string \<Rightarrow> bool) \<Rightarrow> bool \<Rightarrow> reader \<Rightarrow> (headers \<times> reader) ver" where
  "fields_section room known r =
     (if known then
        rbind (integer True r) (\<lambda>(n, r1).
        rbind (ensure (unat n \<le> fields_limit) (bhttp_error ''field section too large'')) (\<lambda>_.
        rbind (exact (unat n) r1) (\<lambda>(d, r2).
        rbind (known_fields_loop room d 0 []) (\<lambda>h. Inr (h, r2)))))
      else field_lines room r 0 [])"

section \<open>Padding\<close>

function drain_padding :: "nat \<Rightarrow> reader \<Rightarrow> unit ver" where
  "drain_padding so_far r =
     rbind (ok_or (bhttp_error ''invalid final OHTTP chunk'') (read chunk_size r)) (\<lambda>(got, r').
     if got = [] then Inr ()
     else
       rbind (ensure (length got \<le> message_limit - so_far) (bhttp_error ''padding exceeds message limit'')) (\<lambda>_.
       rbind (ensure (list_all (\<lambda>b. b = 0) got) (bhttp_error ''invalid BHTTP padding'')) (\<lambda>_.
       drain_padding (so_far + length got) r')))"
  by pat_completeness auto

termination
proof (relation "measure (\<lambda>(so_far, r). length (stream_text r))", goal_cases)
  case (2 so_far r a got r')
  then have "got @ stream_text r' = stream_text r"
    using read_progress(1) [of chunk_size r got r'] by (auto simp: outcome_simps chunk_size_def)
  then show ?case
    using 2 by (simp flip: length_append) (metis length_append length_greater_0_conv less_add_same_cancel2)
qed simp

declare drain_padding.simps [simp del]

section \<open>Integers round-trip\<close>

lemma be_step_arith: "be_step v b = v * 256 + ucast b"
proof -
  have "push_bit 8 v AND ucast b = (0 :: 64 word)"
    by (rule bit_word_eqI) (auto simp: bit_simps dest: bit_imp_le_length)
  then have "be_step v b = push_bit 8 v + ucast b"
    by (simp add: be_step_def disjunctive_add_eq_or)
  then show ?thesis
    by (simp add: push_bit_eq_mult)
qed

lemma foldl_be_step:
  "foldl be_step (of_nat x) (map (\<lambda>i. of_nat (w div 256 ^ i)) (rev [0..<k])) = of_nat (x * 256 ^ k + w mod 256 ^ k)"
proof (induction k arbitrary: x)
  case (Suc k)
  have "be_step (of_nat x) (of_nat (w div 256 ^ k)) = of_nat (x * 256 + w div 256 ^ k mod 256)"
    by (simp add: be_step_arith ucast_eq unsigned_of_nat take_bit_eq_mod)
  then have "foldl be_step (of_nat x) (map (\<lambda>i. of_nat (w div 256 ^ i)) (rev [0..<Suc k])) =
      foldl be_step (of_nat (x * 256 + w div 256 ^ k mod 256)) (map (\<lambda>i. of_nat (w div 256 ^ i)) (rev [0..<k]))"
    by simp
  also have "\<dots> = of_nat ((x * 256 + w div 256 ^ k mod 256) * 256 ^ k + w mod 256 ^ k)"
    by (rule Suc.IH)
  also have "(x * 256 + w div 256 ^ k mod 256) * 256 ^ k + w mod 256 ^ k = x * 256 ^ Suc k + w mod 256 ^ Suc k"
  proof -
    have "w mod 256 ^ Suc k = 256 ^ k * (w div 256 ^ k mod 256) + w mod 256 ^ k"
      by (simp only: power_Suc2 mod_mult2_eq)
    then show ?thesis
      by (simp add: algebra_simps)
  qed
  finally show ?case .
qed simp

text \<open>The number of bytes \<open>varint\<close> writes, its two-bit length code, and the word it writes.\<close>

definition varint_width :: "nat \<Rightarrow> nat" where
  "varint_width v = (if v < 64 then 1 else if v < 16384 then 2 else if v < 2 ^ 30 then 4 else 8)"

definition varint_code :: "nat \<Rightarrow> nat" where
  "varint_code v = (if v < 64 then 0 else if v < 16384 then 1 else if v < 2 ^ 30 then 2 else 3)"

lemma varint_shape:
  "varint_width v = 2 ^ varint_code v" "varint_code v < 4" "0 < varint_width v" "varint_width v \<le> 8"
  "v < 2 ^ 62 \<Longrightarrow> v < 64 * 256 ^ (varint_width v - 1)"
  by (simp_all add: varint_width_def varint_code_def)

definition varint_word :: "nat \<Rightarrow> nat" where
  "varint_word v = v + varint_code v * (64 * 256 ^ (varint_width v - 1))"

lemma be_bytes_of_nat:
  assumes "w < 2 ^ 64" and "k \<le> 8"
  shows "drop (8 - k) (to_be_bytes64 (of_nat w)) = map (\<lambda>i. of_nat (w div 256 ^ i)) (rev [0..<k])"
proof -
  have "ucast (drop_bit (8 * i) (of_nat w :: 64 word)) = (of_nat (w div 256 ^ i) :: byte)" for i
  proof -
    have small: "w div 256 ^ i < 2 ^ 64"
      using assms(1) by (rule order_le_less_trans [OF div_le_dividend])
    have "unat (drop_bit (8 * i) (of_nat w :: 64 word)) = w div 2 ^ (8 * i)"
      using assms(1)
      by (simp only: unat_drop_bit_eq) (simp add: drop_bit_eq_div unsigned_of_nat take_bit_nat_eq_self)
    also have "\<dots> = unat (of_nat (w div 256 ^ i) :: 64 word)"
      using small by (simp add: unsigned_of_nat take_bit_nat_eq_self power_mult)
    finally have "drop_bit (8 * i) (of_nat w :: 64 word) = of_nat (w div 256 ^ i)"
      by (rule word_unat_eq_iff [THEN iffD2])
    then show ?thesis
      by (simp add: word_unat_eq_iff unsigned_of_nat unsigned_ucast_eq take_bit_of_nat)
  qed
  then have "to_be_bytes64 (of_nat w) = map (\<lambda>i. of_nat (w div 256 ^ i)) (rev [0..<8])"
    by (simp add: to_be_bytes64_def)
  moreover have "drop (8 - k) (rev [0..<8]) = rev [0..<k]"
    using assms(2) by (simp add: rev_take [symmetric] drop_rev take_upt min_def)
  ultimately show ?thesis
    by (simp add: drop_map)
qed


lemma varint_encodes:
  assumes "v < 2 ^ 62"
  shows "varint v out = out @ map (\<lambda>i. of_nat (varint_word v div 256 ^ i)) (rev [0..<varint_width v])"
    and "varint_word v < 2 ^ 64"
proof -
  obtain bits where bits: "bits = 8 * (varint_width v - 1) + 6" by blast
  have pow: "(2 :: nat) ^ bits = 64 * 256 ^ (varint_width v - 1)"
    by (simp add: bits power_add power_mult)
  have small: "v < 2 ^ bits"
    using varint_shape(5) [OF assms] by (simp add: pow)
  show w: "varint_word v < 2 ^ 64"
    using assms by (auto simp: varint_word_def varint_code_def varint_width_def)
  have "take_bit bits v = v"
    using small by (simp add: take_bit_nat_eq_self)
  then have disjoint: "v AND push_bit bits (varint_code v) = 0"
    by (metis (no_types, opaque_lifting) bit_and_iff bit_eqI bit_push_bit_iff bit_take_bit_iff bit_0_eq bot_apply
        bot_bool_def not_le)
  have "(of_nat v :: 64 word) OR push_bit bits (of_nat (varint_code v)) = of_nat (v OR push_bit bits (varint_code v))"
    by (simp add: of_nat_or_eq of_nat_push_bit)
  also have "v OR push_bit bits (varint_code v) = varint_word v"
    using disjunctive_add_eq_or [OF disjoint] by (simp add: varint_word_def push_bit_eq_mult pow)
  finally have "(of_nat v :: 64 word) OR push_bit bits (of_nat (varint_code v)) = of_nat (varint_word v)" .
  moreover have "varint v out = out @ drop (8 - varint_width v)
      (to_be_bytes64 (of_nat v OR push_bit bits (of_nat (varint_code v))))"
    by (auto simp: varint_def Let_def bits varint_width_def varint_code_def)
  ultimately show "varint v out = out @ map (\<lambda>i. of_nat (varint_word v div 256 ^ i)) (rev [0..<varint_width v])"
    using be_bytes_of_nat [OF w varint_shape(4)] by simp
qed


lemma unat_byte: "n < 256 \<Longrightarrow> unat (of_nat n :: byte) = n"
  by (simp add: unsigned_of_nat take_bit_nat_eq_self)

text \<open>The first byte holds the length code and the top six bits, the others the rest.\<close>

lemma varint_bytes:
  assumes "v < 2 ^ 62"
  obtains first following where "varint v [] = first # following" "length following = varint_width v - 1"
    "2 ^ unat (drop_bit 6 first) - 1 = varint_width v - 1"
    "foldl be_step (ucast (first AND 63)) following = of_nat v"
proof -
  let ?w = "varint_word v" and ?k = "varint_width v - 1"
  let ?first = "of_nat (?w div 256 ^ ?k) :: byte" and ?rest = "map (\<lambda>i. of_nat (?w div 256 ^ i)) (rev [0..<?k]) :: bytes"
  have k: "varint_width v = Suc ?k"
    using varint_shape(3) by simp
  have shape: "varint v [] = ?first # ?rest"
    unfolding varint_encodes(1) [OF assms] by (subst k) simp
  have v: "v < 64 * 256 ^ ?k" "v div 256 ^ ?k < 64"
    using varint_shape(5) [OF assms] by (simp_all add: less_mult_imp_div_less)
  have top: "?w div 256 ^ ?k = 64 * varint_code v + v div 256 ^ ?k"
    by (simp add: varint_word_def mult.commute [of _ "64 :: nat"] flip: mult.assoc)
  have "varint_code v \<le> 3"
    using varint_shape(2) [of v] by simp
  then have byte: "64 * varint_code v + v div 256 ^ ?k < 256"
    using v(2) by linarith
  then have unat_first: "unat ?first = 64 * varint_code v + v div 256 ^ ?k"
    unfolding top by (rule unat_byte)
  have "unat (drop_bit 6 ?first) = varint_code v"
    using v(2) by (simp only: unat_drop_bit_eq unat_first) (simp add: drop_bit_eq_div)
  then have len: "2 ^ unat (drop_bit 6 ?first) - 1 = ?k"
    by (simp add: varint_shape(1))
  have "unat (?first AND 63) = v div 256 ^ ?k"
  proof -
    have "?first AND 63 = take_bit 6 ?first"
      by (simp add: take_bit_eq_mask mask_eq_exp_minus_1)
    then show ?thesis
      using v(2) by (simp only: unsigned_take_bit_eq unat_first) (simp add: take_bit_eq_mod)
  qed
  moreover have "ucast b = (of_nat (unat b) :: 64 word)" for b :: byte
    by simp
  ultimately have low: "ucast (?first AND 63) = (of_nat (v div 256 ^ ?k) :: 64 word)"
    by (simp only:)
  have "?w mod 256 ^ ?k = v mod 256 ^ ?k"
    by (simp add: varint_word_def mult.commute [of _ "64 :: nat"] flip: mult.assoc)
  then have "foldl be_step (ucast (?first AND 63)) ?rest = of_nat (v div 256 ^ ?k * 256 ^ ?k + v mod 256 ^ ?k)"
    unfolding low foldl_be_step by simp
  also have "v div 256 ^ ?k * 256 ^ ?k + v mod 256 ^ ?k = v"
    by (rule div_mult_mod_eq)
  finally have fold: "foldl be_step (ucast (?first AND 63)) ?rest = of_nat v" .
  show thesis
    by (rule that [OF shape _ len fold]) simp
qed


lemma varint_append: "v < 2 ^ 62 \<Longrightarrow> varint v out = out @ varint v []"
  by (simp add: varint_encodes)

lemma vector_append: "length b < 2 ^ 62 \<Longrightarrow> vector b out = out @ vector b []"
  by (simp add: vector_def varint_append [of _ out])

lemma slice_length_read:
  "slice_length (pre @ bs @ post) (length pre) (length bs) v = Inr (foldl be_step v bs, length pre + length bs)"
proof (induction bs arbitrary: pre v)
  case (Cons b bs)
  from Cons.IH [of "pre @ [b]"] show ?case
    by (simp add: get_byte_def nth_append)
qed simp

text \<open>What \<open>vector\<close> writes, \<open>slice_vector\<close> reads, wherever it stands.\<close>

lemma slice_vector_reads:
  assumes "length b < 2 ^ 62" and "length pre + length (vector b []) < 2 ^ 64"
  shows "slice_vector (pre @ vector b [] @ post) (length pre) = Inr (b, length pre + length (vector b []))"
proof -
  obtain first following where bytes: "varint (length b) [] = first # following"
      "length following = varint_width (length b) - 1"
      "2 ^ unat (drop_bit 6 first) - 1 = varint_width (length b) - 1"
      "foldl be_step (ucast (first AND 63)) following = of_nat (length b)"
    using varint_bytes [OF assms(1)] by blast
  let ?d = "pre @ vector b [] @ post"
  have d: "?d = (pre @ [first]) @ following @ (b @ post)"
    by (simp add: vector_def bytes(1))
  have first: "get_byte ?d (length pre) ''truncated field'' = Inr first"
    by (simp add: vector_def bytes(1) get_byte_def nth_append)
  have "slice_length ?d (length pre + 1) (2 ^ unat (drop_bit 6 first) - 1) (ucast (first AND 63))
      = Inr (of_nat (length b), length pre + 1 + length following)"
    unfolding bytes(3) bytes(2) [symmetric] bytes(4) [symmetric] d
    using slice_length_read [of "pre @ [first]" following "b @ post"] by simp
  moreover have "unat (of_nat (length b) :: 64 word) = length b"
    using assms(1) by (simp add: unsigned_of_nat take_bit_nat_eq_self)
  ultimately show ?thesis
    using assms(2) unfolding slice_vector_def first
    by (simp add: vector_def bytes(1))
qed

text \<open>What \<open>varint\<close> writes, \<open>integer\<close> reads from any stream.\<close>

lemma integer_reads:
  assumes "v < 2 ^ 62" and "stream_text r = varint v [] @ post"
  shows "\<exists>r'. integer e r = Inr (of_nat v, r') \<and> stream_text r' = post \<and> rd_intact r' = rd_intact r"
proof -
  obtain first following where bytes: "varint v [] = first # following" "length following = varint_width v - 1"
      "2 ^ unat (drop_bit 6 first) - 1 = varint_width v - 1"
      "foldl be_step (ucast (first AND 63)) following = of_nat v"
    using varint_bytes [OF assms(1)] by blast
  obtain r1 where r1: "read 1 r = Some ([first], r1)"
    using read_1 [of r] assms(2) bytes(1) by auto
  have t1: "stream_text r1 = following @ post" "rd_intact r1 = rd_intact r"
    using read_progress [OF r1] assms(2) bytes(1) by auto
  have "length following \<le> message_limit"
    using bytes(2) varint_shape(4) [of v] by (simp add: message_limit_def)
  then obtain r' where "exact (length following) r1 = Inr (following, r')" "advanced (length following) r1 r'"
    using exact_succeeds [of "length following" r1] t1(1) by auto
  then show ?thesis
    using t1 by (auto simp: integer_def r1 bytes(3,4) bytes(2) [symmetric] advanced_def simp del: One_nat_def)
qed

lemma read_None: "0 < n \<Longrightarrow> read n r = None \<longleftrightarrow> stream_text r = [] \<and> \<not> rd_intact r"
  using read_pieces_text [of n "rd_pieces r"]
  by (auto simp: read_def stream_text_def split: prod.splits simp del: concat_eq_Nil_conv)

text \<open>Padding passes exactly when it is authenticated, all zero and within the limit.\<close>

lemma drain_padding_ok:
  "drain_padding so_far r = Inr u \<longleftrightarrow> rd_intact r \<and> list_all (\<lambda>b. b = 0) (stream_text r)
     \<and> (stream_text r = [] \<or> so_far + length (stream_text r) \<le> message_limit)"
proof (induction so_far r rule: drain_padding.induct)
  case (1 so_far r)
  have n: "0 < chunk_size" by (simp add: chunk_size_def)
  show ?case
  proof (cases "read chunk_size r")
    case None
    then show ?thesis
      using read_None [OF n, of r] by (subst drain_padding.simps) simp
  next
    case (Some a)
    obtain got r' where a: "read chunk_size r = Some (got, r')"
      using Some by (cases a) auto
    note p = read_progress [OF a n]
    show ?thesis
    proof (cases "got = []")
      case True
      then have "rd_intact r"
        using a by (auto simp: read_def split: prod.splits if_splits)
      then show ?thesis
        using a True p(3) by (subst drain_padding.simps) simp
    next
      case False
      have IH: "length got \<le> message_limit - so_far \<Longrightarrow> list_all (\<lambda>b. b = 0) got \<Longrightarrow>
          drain_padding (so_far + length got) r' = Inr u \<longleftrightarrow> rd_intact r' \<and> list_all (\<lambda>b. b = 0) (stream_text r')
            \<and> (stream_text r' = [] \<or> so_far + length got + length (stream_text r') \<le> message_limit)"
        using 1 [of "(got, r')" got r' "()" "()"] a False by simp
      have len: "length (stream_text r) = length got + length (stream_text r')" "stream_text r \<noteq> []"
          "list_all (\<lambda>b. b = 0) (stream_text r) \<longleftrightarrow> list_all (\<lambda>b. b = 0) got \<and> list_all (\<lambda>b. b = 0) (stream_text r')"
        using False by (simp_all flip: p(1))
      have "length got \<le> message_limit - so_far \<longleftrightarrow> so_far + length got \<le> message_limit"
        using False by (cases got) auto
      then show ?thesis
        using IH a False p(4) len
        by (subst drain_padding.simps) (auto simp: outcome_simps)
    qed
  qed
qed

end
