(* ===== verification/E2ee.thy ===== *)
theory E2ee
  imports Response_Signature
begin

text \<open>
  \<open>e2ee.rs\<close>: end-to-end encryption of chat fields. Curves, key derivation and the two AEADs are
  operations of the environment; the layout of a sealed field, the bound header
  (\<open>request_aad\<close>, \<open>field_aad\<close>), the fields that are sealed and opened, and the request's headers
  are the code's. Every sealing draws fresh randomness: \<open>rnd i\<close> is the ephemeral secret and
  nonce of the \<open>i\<close>-th, and the counter is the state the traversal threads.
\<close>

record 'c e2ee_prims = "'c sig_prims" +
  hkdf_sha256 :: "bytes \<Rightarrow> bytes \<Rightarrow> bytes option"
  x25519_dh :: "bytes \<Rightarrow> bytes \<Rightarrow> bytes"
  x25519_public :: "bytes \<Rightarrow> bytes"
  edwards_point :: "bytes \<Rightarrow> bool"
  edwards_small_order :: "bytes \<Rightarrow> bool"
  edwards_torsion_free :: "bytes \<Rightarrow> bool"
  edwards_montgomery :: "bytes \<Rightarrow> bytes"
  ed25519_public :: "bytes \<Rightarrow> bytes"
  sha512_digest :: "bytes \<Rightarrow> bytes"
  k256_ecdh :: "bytes \<Rightarrow> bytes \<Rightarrow> bytes"
  k256_public :: "bytes \<Rightarrow> bytes"
  aead_seal :: "signing_algo \<Rightarrow> bytes \<Rightarrow> bytes \<Rightarrow> bytes \<Rightarrow> bytes \<Rightarrow> bytes option"
  aead_open :: "signing_algo \<Rightarrow> bytes \<Rightarrow> bytes \<Rightarrow> bytes \<Rightarrow> bytes \<Rightarrow> bytes option"

record e2ee_model_key =
  ek_algo :: signing_algo
  ek_public_key :: string

datatype response_key = Rk_Ed25519 bytes | Rk_Ecdsa bytes

definition invalid_key :: verification_error where
  "invalid_key = protocol ''e2ee.model_public_key_invalid'' ''invalid model public key''"

definition decryption_failed :: "string \<Rightarrow> verification_error" where
  "decryption_failed reason = protocol ''e2ee.decryption_failed'' reason"

definition derive :: "('c, 'z) e2ee_prims_scheme \<Rightarrow> bytes \<Rightarrow> signing_algo \<Rightarrow> bytes ver" where
  "derive P shared algo =
     rbind (ensure (\<not> list_all (\<lambda>b. b = 0) shared) invalid_key) (\<lambda>_.
     ok_or invalid_key (hkdf_sha256 P shared
       (as_bytes (case algo of Ed25519 \<Rightarrow> ''ed25519_encryption'' | Ecdsa \<Rightarrow> ''ecdsa_encryption''))))"

section \<open>Keys and one field\<close>

definition response_key_generate ::
  "('c, 'z) e2ee_prims_scheme \<Rightarrow> signing_algo \<Rightarrow> bytes \<Rightarrow> response_key \<times> string" where
  "response_key_generate P algo seed =
     (case algo of
        Ed25519 \<Rightarrow> (Rk_Ed25519 (take 32 (sha512_digest P seed)), hex_encode P (ed25519_public P seed))
      | Ecdsa \<Rightarrow> (Rk_Ecdsa seed, hex_encode P (drop 1 (k256_public P seed))))"

definition decrypt_with_aad ::
  "('c, 'z) e2ee_prims_scheme \<Rightarrow> response_key \<Rightarrow> string \<Rightarrow> bytes \<Rightarrow> string ver" where
  "decrypt_with_aad P key value aad =
     (if value = [] then Inr []
      else let failed = decryption_failed ''field authentication failed'' in
        rbind (ok_or failed (decode_hex P value)) (\<lambda>data.
        rbind (case key of
            Rk_Ed25519 secret \<Rightarrow>
              rbind (ensure (\<not> length data < 72) failed) (\<lambda>_.
              rbind (subslice 0 32 data) (\<lambda>public.
              let shared = x25519_dh P secret public in
              rbind (map_err (\<lambda>_. failed) (derive P shared Ed25519)) (\<lambda>k.
              rbind (subslice 32 56 data) (\<lambda>nonce.
              ok_or failed (aead_open P Ed25519 k nonce aad (drop 56 data))))))
          | Rk_Ecdsa secret \<Rightarrow>
              rbind (ensure (\<not> (length data < 93 \<or> data ! 0 \<noteq> 4)) failed) (\<lambda>_.
              rbind (subslice 0 65 data) (\<lambda>public.
              rbind (ensure (secp256k1_point P public) failed) (\<lambda>_.
              let shared = k256_ecdh P secret public in
              rbind (map_err (\<lambda>_. failed) (derive P shared Ecdsa)) (\<lambda>k.
              rbind (subslice 65 77 data) (\<lambda>nonce.
              ok_or failed (aead_open P Ecdsa k nonce aad (drop 77 data)))))))) (\<lambda>plaintext.
        ok_or failed (from_utf8 plaintext))))"

definition decrypt :: "('c, 'z) e2ee_prims_scheme \<Rightarrow> response_key \<Rightarrow> string \<Rightarrow> string ver" where
  "decrypt P key value = decrypt_with_aad P key value []"

text \<open>\<open>public.insert(0, 4)\<close> on the 64 bytes of an uncompressed point.\<close>

definition uncompressed_point :: "bytes \<Rightarrow> bytes" where
  "uncompressed_point public = (if length public = 64 then 4 # public else public)"

definition request_aad :: "('c, 'z) e2ee_prims_scheme \<Rightarrow> signing_algo \<Rightarrow> string \<Rightarrow> bytes ver" where
  "request_aad P algo reply_public =
     rbind (ok_or invalid_key (decode_hex P reply_public)) (\<lambda>decoded.
     rbind (case algo of
         Ecdsa \<Rightarrow>
           let public = uncompressed_point decoded in
           rbind (ensure (length public = 65 \<and> public ! 0 = 4) invalid_key) (\<lambda>_.
           rbind (ensure (secp256k1_point P public) invalid_key) (\<lambda>_.
           Inr (1, public)))
       | Ed25519 \<Rightarrow>
           rbind (ensure (length decoded = 32) invalid_key) (\<lambda>_.
           rbind (ensure (ed25519_key P decoded) invalid_key) (\<lambda>_.
           Inr (2, decoded)))) (\<lambda>(suite, public).
     Inr (as_bytes ''nearai-e2ee-request-v3'' @ [suite] @ public)))"

definition field_aad :: "bytes \<Rightarrow> string \<Rightarrow> bytes" where
  "field_aad aad field = (if aad = [] then [] else aad @ [0] @ as_bytes field)"

definition encrypt_with_aad ::
  "('c, 'z) e2ee_prims_scheme \<Rightarrow> bytes \<times> bytes \<Rightarrow> string \<Rightarrow> e2ee_model_key \<Rightarrow> bytes \<Rightarrow> string ver" where
  "encrypt_with_aad P randomness value model aad =
     (let (secret, nonce) = randomness in
      rbind (ok_or invalid_key (decode_hex P (ek_public_key model))) (\<lambda>public.
      rbind (case ek_algo model of
          Ed25519 \<Rightarrow>
            rbind (ensure (length public = 32) invalid_key) (\<lambda>_.
            rbind (ensure (edwards_point P public) invalid_key) (\<lambda>_.
            rbind (ensure (\<not> edwards_small_order P public \<and> edwards_torsion_free P public) invalid_key) (\<lambda>_.
            rbind (derive P (x25519_dh P secret (edwards_montgomery P public)) Ed25519) (\<lambda>key.
            Inr (x25519_public P secret, key)))))
        | Ecdsa \<Rightarrow>
            let encoded = uncompressed_point public in
            rbind (ensure (length encoded = 65 \<and> encoded ! 0 = 4) invalid_key) (\<lambda>_.
            rbind (ensure (secp256k1_point P encoded) invalid_key) (\<lambda>_.
            rbind (derive P (k256_ecdh P secret encoded) Ecdsa) (\<lambda>key.
            Inr (k256_public P secret, key))))) (\<lambda>(data, key).
      rbind (ok_or invalid_key (aead_seal P (ek_algo model) key nonce aad (as_bytes value))) (\<lambda>encrypted.
      Inr (hex_encode P (data @ nonce @ encrypted))))))"

section \<open>Traversal\<close>

text \<open>
  \<open>fields\<close> transforms the named string members; the transform may use up a state. A member
  that is neither a string nor \<open>null\<close> is an error.
\<close>

type_synonym 's transform = "string \<Rightarrow> 's \<Rightarrow> (string \<times> 's) ver"

definition field_step :: "'s transform \<Rightarrow> json \<Rightarrow> string \<Rightarrow> 's \<Rightarrow> (json \<times> 's) ver" where
  "field_step transform target name s =
     (case jget target name of
        None \<Rightarrow> Inr (target, s)
      | Some (JStr t) \<Rightarrow> rbind (transform t s) (\<lambda>(t', s'). Inr (jset target name (JStr t'), s'))
      | Some JNull \<Rightarrow> Inr (target, s)
      | Some _ \<Rightarrow> fail (decryption_failed ''expected an encrypted string''))"

primrec fields_with :: "'s transform \<Rightarrow> json \<Rightarrow> string list \<Rightarrow> 's \<Rightarrow> (json \<times> 's) ver" where
  "fields_with transform target [] s = Inr (target, s)"
| "fields_with transform target (name # names) s =
     rbind (field_step transform target name s) (\<lambda>(target', s'). fields_with transform target' names s')"

text \<open>\<open>if let Some(v) = j.get_mut(name) { v = f(v)?; }\<close> and the loop over the entries of an array.\<close>

definition at_field :: "json \<Rightarrow> string \<Rightarrow> (json \<Rightarrow> 's \<Rightarrow> (json \<times> 's) ver) \<Rightarrow> 's \<Rightarrow> (json \<times> 's) ver" where
  "at_field j name f s =
     (case jget j name of
        None \<Rightarrow> Inr (j, s)
      | Some v \<Rightarrow> rbind (f v s) (\<lambda>(v', s'). Inr (jset j name v', s')))"

fun entries_with :: "(json \<Rightarrow> 's \<Rightarrow> (json \<times> 's) ver) \<Rightarrow> json list \<Rightarrow> 's \<Rightarrow> (json list \<times> 's) ver" where
  "entries_with f [] s = Inr ([], s)"
| "entries_with f (x # xs) s =
     rbind (f x s) (\<lambda>(x', s'). rbind (entries_with f xs s') (\<lambda>(xs', s''). Inr (x' # xs', s'')))"

text \<open>\<open>objects\<close>: every object of an array, anything else skipped.\<close>

definition objects :: "(json \<Rightarrow> 's \<Rightarrow> (json \<times> 's) ver) \<Rightarrow> json \<Rightarrow> 's \<Rightarrow> (json \<times> 's) ver" where
  "objects f value s =
     (case value of
        JArr xs \<Rightarrow> rbind (entries_with (\<lambda>v s. if is_object v then f v s else Inr (v, s)) xs s)
          (\<lambda>(xs', s'). Inr (JArr xs', s'))
      | _ \<Rightarrow> Inr (value, s))"

section \<open>Requests\<close>

definition seal ::
  "('c, 'z) e2ee_prims_scheme \<Rightarrow> (nat \<Rightarrow> bytes \<times> bytes) \<Rightarrow> e2ee_model_key \<Rightarrow> bytes \<Rightarrow> nat transform" where
  "seal P rnd model aad text i = rbind (encrypt_with_aad P (rnd i) text model aad) (\<lambda>t. Inr (t, i + 1))"

primrec encrypt_fields ::
  "('c, 'z) e2ee_prims_scheme \<Rightarrow> (nat \<Rightarrow> bytes \<times> bytes) \<Rightarrow> e2ee_model_key \<Rightarrow> bytes \<Rightarrow> string
     \<Rightarrow> string list \<Rightarrow> json \<Rightarrow> nat \<Rightarrow> (json \<times> nat) ver" where
  "encrypt_fields P rnd model aad path [] target i = Inr (target, i)"
| "encrypt_fields P rnd model aad path (name # names) target i =
     rbind (fields_with (seal P rnd model (field_aad aad (path @ ''.'' @ name))) target [name] i)
       (\<lambda>(target', i'). encrypt_fields P rnd model aad path names target' i')"

definition encrypt_content ::
  "('c, 'z) e2ee_prims_scheme \<Rightarrow> (nat \<Rightarrow> bytes \<times> bytes) \<Rightarrow> e2ee_model_key \<Rightarrow> bytes \<Rightarrow> json \<Rightarrow> nat
     \<Rightarrow> (json \<times> nat) ver" where
  "encrypt_content P rnd model aad content i =
     (let transform = seal P rnd model (field_aad aad ''messages[].content'') in
      case content of
        JArr _ \<Rightarrow> rbind (transform (json_print P content) i) (\<lambda>(t, i'). Inr (JStr t, i'))
      | JStr text \<Rightarrow> rbind (transform text i) (\<lambda>(t, i'). Inr (JStr t, i'))
      | _ \<Rightarrow> Inr (content, i))"

definition encrypt_message ::
  "('c, 'z) e2ee_prims_scheme \<Rightarrow> (nat \<Rightarrow> bytes \<times> bytes) \<Rightarrow> e2ee_model_key \<Rightarrow> bytes \<Rightarrow> json \<Rightarrow> nat
     \<Rightarrow> (json \<times> nat) ver" where
  "encrypt_message P rnd model aad message i =
     (let at_path = encrypt_fields P rnd model aad in
      rbind (at_field message ''content'' (encrypt_content P rnd model aad) i) (\<lambda>(m1, i1).
      rbind (at_path ''messages[]'' [''reasoning_content'', ''reasoning'', ''name'', ''refusal''] m1 i1) (\<lambda>(m2, i2).
      rbind (at_field m2 ''audio'' (at_path ''messages[].audio'' [''data'']) i2) (\<lambda>(m3, i3).
      rbind (at_field m3 ''tool_calls'' (objects (\<lambda>call i.
               at_field call ''function''
                 (at_path ''messages[].tool_calls[].function'' [''name'', ''arguments'']) i)) i3) (\<lambda>(m4, i4).
      at_field m4 ''function_call'' (at_path ''messages[].function_call'' [''name'', ''arguments'']) i4)))))"

definition encrypt_tool ::
  "('c, 'z) e2ee_prims_scheme \<Rightarrow> (nat \<Rightarrow> bytes \<times> bytes) \<Rightarrow> e2ee_model_key \<Rightarrow> bytes \<Rightarrow> json \<Rightarrow> nat
     \<Rightarrow> (json \<times> nat) ver" where
  "encrypt_tool P rnd model aad tool i =
     at_field tool ''function'' (\<lambda>f i.
       rbind (encrypt_fields P rnd model aad ''tools[].function'' [''name'', ''description''] f i) (\<lambda>(f1, i1).
       at_field f1 ''parameters'' (\<lambda>parameters i.
         rbind (seal P rnd model (field_aad aad ''tools[].function.parameters'') (json_print P parameters) i)
           (\<lambda>(t, i'). Inr (JStr t, i'))) i1)) i"

definition encrypt_request ::
  "('c, 'z) e2ee_prims_scheme \<Rightarrow> (nat \<Rightarrow> bytes \<times> bytes) \<Rightarrow> e2ee_model_key \<Rightarrow> bytes \<Rightarrow> json \<Rightarrow> nat
     \<Rightarrow> (json \<times> nat) ver" where
  "encrypt_request P rnd model aad body i =
     rbind (at_field body ''messages'' (objects (encrypt_message P rnd model aad)) i) (\<lambda>(b1, i1).
     rbind (at_field b1 ''tools'' (objects (encrypt_tool P rnd model aad)) i1) (\<lambda>(b2, i2).
     rbind (at_field b2 ''tool_choice'' (\<lambda>v i.
              at_field v ''function'' (encrypt_fields P rnd model aad ''tool_choice.function'' [''name'']) i) i2) (\<lambda>(b3, i3).
     at_field b3 ''function_call'' (encrypt_fields P rnd model aad ''function_call'' [''name'']) i3)))"

section \<open>Responses\<close>

definition fields_plain :: "(string \<Rightarrow> string ver) \<Rightarrow> json \<Rightarrow> string list \<Rightarrow> json ver" where
  "fields_plain transform target names =
     rbind (fields_with (\<lambda>t s. rbind (transform t) (\<lambda>t'. Inr (t', s))) target names ()) (\<lambda>(target', _). Inr target')"

definition on_field :: "json \<Rightarrow> string \<Rightarrow> (json \<Rightarrow> json ver) \<Rightarrow> json ver" where
  "on_field j name f =
     (case jget j name of None \<Rightarrow> Inr j | Some v \<Rightarrow> rbind (f v) (\<lambda>v'. Inr (jset j name v')))"

definition response_object :: "json \<Rightarrow> unit ver" where
  "response_object value =
     ensure (is_null value \<or> is_object value) (decryption_failed ''expected a response object'')"

definition response_objects :: "(json \<Rightarrow> json ver) \<Rightarrow> json \<Rightarrow> json ver" where
  "response_objects f value =
     (case value of
        JNull \<Rightarrow> Inr JNull
      | JArr entries \<Rightarrow>
          rbind (ensure (list_all is_object entries) (decryption_failed ''expected a response object'')) (\<lambda>_.
          rbind (traverse f entries) (\<lambda>entries'. Inr (JArr entries')))
      | _ \<Rightarrow> fail (decryption_failed ''expected a response array''))"

lemma on_field_cong [fundef_cong]:
  "j = j' \<Longrightarrow> name = name' \<Longrightarrow> (\<And>v. jget j' name' = Some v \<Longrightarrow> f v = g v) \<Longrightarrow>
   on_field j name f = on_field j' name' g"
  by (simp add: on_field_def split: option.split)

lemma response_objects_cong [fundef_cong]:
  "v = v' \<Longrightarrow> (\<And>x xs. v' = JArr xs \<Longrightarrow> x \<in> set xs \<Longrightarrow> f x = g x) \<Longrightarrow>
   response_objects f v = response_objects g v'"
  by (auto simp: response_objects_def split: json.split cong: traverse_cong)

lemma field_step_other:
  "field_step f j name s = Inr (j', s') \<Longrightarrow> x \<noteq> name \<Longrightarrow> jget j' x = jget j x"
  by (auto simp: field_step_def outcome_simps split: option.splits json.splits)

lemma fields_with_other:
  "fields_with f j names s = Inr (j', s') \<Longrightarrow> x \<notin> set names \<Longrightarrow> jget j' x = jget j x"
  by (induction names arbitrary: j s) (auto simp: outcome_simps dest!: field_step_other)

lemma fields_plain_other: "fields_plain f j names = Inr j' \<Longrightarrow> x \<notin> set names \<Longrightarrow> jget j' x = jget j x"
  by (auto simp: fields_plain_def outcome_simps dest: fields_with_other)

lemma on_field_other: "on_field j name f = Inr j' \<Longrightarrow> x \<noteq> name \<Longrightarrow> jget j' x = jget j x"
  by (auto simp: on_field_def outcome_simps split: option.splits)

definition decrypt_bytes :: "('c, 'z) e2ee_prims_scheme \<Rightarrow> response_key \<Rightarrow> json \<Rightarrow> json ver" where
  "decrypt_bytes P key raw =
     (case raw of
        JStr text \<Rightarrow> rbind (decrypt P key text) (\<lambda>t.
          ok_or (decryption_failed ''invalid logprob bytes'') (json_parse P (as_bytes t)))
      | JNull \<Rightarrow> Inr JNull
      | _ \<Rightarrow> fail (decryption_failed ''expected encrypted logprob bytes''))"

text \<open>Log probabilities nest; the recursion is on the entries of \<open>top_logprobs\<close>.\<close>

function decrypt_logprobs :: "('c, 'z) e2ee_prims_scheme \<Rightarrow> response_key \<Rightarrow> json \<Rightarrow> json ver" where
  "decrypt_logprobs P key value =
     response_objects (\<lambda>entry.
       rbind (fields_plain (decrypt P key) entry [''token'']) (\<lambda>entry1.
       rbind (on_field entry1 ''bytes'' (decrypt_bytes P key)) (\<lambda>entry2.
       on_field entry2 ''top_logprobs'' (decrypt_logprobs P key)))) value"
  by pat_completeness auto

lemma size_member: "x \<in> set xs \<Longrightarrow> size x < Suc (size_list size xs)"
  by (induction xs) auto

termination decrypt_logprobs
proof (relation "measure (\<lambda>(_, _, value). size value)", simp, clarify)
  fix P :: "('c, 'z) e2ee_prims_scheme" and key entry entries entry1 entry2 v
  assume mem: "entry \<in> set entries"
    and e1: "fields_plain (decrypt P key) entry [''token''] = Inr entry1"
    and e2: "on_field entry1 ''bytes'' (decrypt_bytes P key) = Inr entry2"
    and v: "jget entry2 ''top_logprobs'' = Some v"
  have "jget entry ''top_logprobs'' = Some v"
    using fields_plain_other [OF e1, of "''top_logprobs''"] on_field_other [OF e2, of "''top_logprobs''"] v by simp
  then have "size v < size entry" by (rule size_jget)
  also have "size entry < size (JArr entries)" using size_member [OF mem] by simp
  finally show "((P, key, v), P, key, JArr entries) \<in> measure (\<lambda>(_, _, value). size value)"
    by simp
qed

declare decrypt_logprobs.simps [simp del]

definition decrypt_message :: "('c, 'z) e2ee_prims_scheme \<Rightarrow> response_key \<Rightarrow> bool \<Rightarrow> json \<Rightarrow> json ver" where
  "decrypt_message P key streaming message =
     (let transform = decrypt P key;
          call_fields = (\<lambda>f. rbind (response_object f) (\<lambda>_.
            fields_plain transform f [''name'', ''arguments''])) in
      rbind (response_object message) (\<lambda>_.
      rbind (fields_plain transform message [''reasoning_content'', ''reasoning'', ''refusal'']) (\<lambda>m1.
      rbind (case jget m1 ''content'' of
          Some (JArr parts) \<Rightarrow>
            rbind (traverse (\<lambda>part.
              rbind (ensure (is_object part) (decryption_failed ''expected a content part object'')) (\<lambda>_.
              fields_plain transform part [''text''])) parts) (\<lambda>parts'. Inr (jset m1 ''content'' (JArr parts')))
        | _ \<Rightarrow> fields_plain transform m1 [''content'']) (\<lambda>m2.
      rbind (on_field m2 ''audio'' (\<lambda>audio. rbind (response_object audio) (\<lambda>_.
              fields_plain transform audio [''data'']))) (\<lambda>m3.
      rbind (on_field m3 ''tool_calls'' (response_objects (\<lambda>call. on_field call ''function'' call_fields))) (\<lambda>m4.
      rbind (on_field m4 ''function_call'' call_fields) (\<lambda>m5.
      if streaming then on_field m5 ''nearai_tool_result'' (\<lambda>f. rbind (response_object f) (\<lambda>_.
        fields_plain transform f [''output'']))
      else Inr m5)))))))"

definition decrypt_choice :: "('c, 'z) e2ee_prims_scheme \<Rightarrow> response_key \<Rightarrow> bool \<Rightarrow> json \<Rightarrow> json ver" where
  "decrypt_choice P key streaming choice =
     rbind (on_field choice (if streaming then ''delta'' else ''message'') (decrypt_message P key streaming)) (\<lambda>c1.
     on_field c1 ''logprobs'' (\<lambda>logprobs.
       rbind (response_object logprobs) (\<lambda>_.
       rbind (on_field logprobs ''content'' (decrypt_logprobs P key)) (\<lambda>l1.
       on_field l1 ''refusal'' (decrypt_logprobs P key)))))"

definition decrypt_response :: "('c, 'z) e2ee_prims_scheme \<Rightarrow> response_key \<Rightarrow> bool \<Rightarrow> json \<Rightarrow> json ver" where
  "decrypt_response P key streaming body =
     on_field body ''choices'' (response_objects (decrypt_choice P key streaming))"

section \<open>Preparing a request\<close>

record prepared_e2ee_request =
  pe_request :: client_request
  pe_key :: response_key

definition invalid_response :: api_error where
  "invalid_response = InvalidResponse ''Chat Completions response'' ''a JSON object with a nonempty id'' ''invalid''"

definition decode_request :: "'z prims_scheme \<Rightarrow> client_request \<Rightarrow> json api" where
  "decode_request P request =
     (case Option.bind (cr_body request) (json_parse P) of
        Some v \<Rightarrow>
          (if cr_method request = ''POST''
              \<and> (case Option.bind (jget v ''model'') as_str of
                   Some m \<Rightarrow> m \<noteq> [] \<and> m \<noteq> ''.'' \<and> m \<noteq> ''..'' | None \<Rightarrow> False)
           then Inr v
           else fail (Api_InvalidInput ''request'' ''expected a buffered JSON POST with a nonempty model'' None None))
      | None \<Rightarrow> fail (Api_InvalidInput ''request'' ''expected a buffered JSON POST with a nonempty model'' None None))"

definition e2ee_headers :: "string list" where
  "e2ee_headers = [''x-signing-algo'', ''x-client-pub-key'', ''x-model-pub-key'', ''x-encryption-version'',
     ''x-encrypt-all-fields'']"

definition remove_e2ee_headers :: "headers \<Rightarrow> headers" where
  "remove_e2ee_headers headers = fold header_remove e2ee_headers headers"

definition stale_body_headers :: "string list" where
  "stale_body_headers = [''content-length'', ''transfer-encoding'', ''trailer'', ''content-md5'', ''digest'',
     ''content-digest'', ''repr-digest'', ''content-encoding'', ''etag'', ''last-modified'']"

primrec insert_headers :: "(string \<times> string) list \<Rightarrow> headers \<Rightarrow> headers ver" where
  "insert_headers [] headers = Inr headers"
| "insert_headers (h # hs) headers =
     rbind (ok_or invalid_key (header_from_str (snd h))) (\<lambda>v.
     insert_headers hs (header_insert (fst h) v headers))"

lemma insert_headers_ok:
  "insert_headers hs h = Inr h' \<Longrightarrow> h' = fold (\<lambda>(k, v). header_insert k v) hs h"
  by (induction hs arbitrary: h) (auto simp: outcome_simps header_from_str_def split: if_splits)

definition prepare_e2ee_chat_request ::
  "('c, 'z) e2ee_prims_scheme \<Rightarrow> bytes \<Rightarrow> (nat \<Rightarrow> bytes \<times> bytes) \<Rightarrow> client_request \<Rightarrow> e2ee_model_key
     \<Rightarrow> prepared_e2ee_request inf" where
  "prepare_e2ee_chat_request P seed rnd request model =
     rbind (lift_api (decode_request P request)) (\<lambda>value.
     let (key, public) = response_key_generate P (ek_algo model) seed in
     rbind (lift_ver (request_aad P (ek_algo model) public)) (\<lambda>aad.
     rbind (lift_ver (encrypt_request P rnd model aad value 0)) (\<lambda>(sealed, _).
     let headers = remove_e2ee_headers (fold header_remove stale_body_headers (cr_headers request)) in
     rbind (lift_ver (insert_headers
              [(''content-type'', ''application/json''),
               (''x-signing-algo'', signing_algo_name (ek_algo model)),
               (''x-client-pub-key'', public),
               (''x-model-pub-key'', ek_public_key model),
               (''x-no-aliasing'', ''true''),
               (''x-encrypt-all-fields'', ''true'')] headers)) (\<lambda>headers'.
     Inr \<lparr>pe_request = request\<lparr>cr_headers := header_insert ''x-encryption-version'' ''3'' headers',
            cr_body := Some (as_bytes (json_print P sealed))\<rparr>,
          pe_key = key\<rparr>))))"

definition decrypt_json :: "('c, 'z) e2ee_prims_scheme \<Rightarrow> prepared_e2ee_request \<Rightarrow> bytes \<Rightarrow> json inf" where
  "decrypt_json P prepared bytes =
     rbind (ok_or (Api invalid_response) (json_parse P bytes)) (\<lambda>value.
     rbind (ensure (is_object value) (Api invalid_response)) (\<lambda>_.
     lift_ver (decrypt_response P (pe_key prepared) False value)))"

section \<open>Hexadecimal text of the codec\<close>

lemma decode_hex_encode:
  assumes "hex_format P" and "hex_roundtrip P"
  shows "decode_hex P (hex_encode P b) = Some b"
proof -
  have "list_all is_hexdigit (hex_encode P b)" using assms(1) by (simp add: hex_format_def)
  moreover have "\<not> is_hexdigit CHR ''x''" "\<not> is_hexdigit CHR ''X''"
    by (simp_all add: is_hexdigit_def is_digit_def)
  ultimately have "strip_prefix ''0x'' (hex_encode P b) = None" "strip_prefix ''0X'' (hex_encode P b) = None"
    by (auto simp: strip_prefix_None)
  then show ?thesis using assms(2) by (simp add: decode_hex_def hex_roundtrip_def)
qed

section \<open>One field, sealed and opened\<close>

text \<open>What the curve and AEAD libraries document.\<close>

definition aead_laws :: "('c, 'z) e2ee_prims_scheme \<Rightarrow> bool" where
  "aead_laws P \<longleftrightarrow> (\<forall>algo k n aad m c. aead_seal P algo k n aad m = Some c \<longrightarrow>
     aead_open P algo k n aad c = Some m \<and> length c = length m + 16)"

definition dh_laws :: "('c, 'z) e2ee_prims_scheme \<Rightarrow> bool" where
  "dh_laws P \<longleftrightarrow>
     (\<forall>s. length (x25519_public P s) = 32) \<and>
     (\<forall>s seed. x25519_dh P (take 32 (sha512_digest P seed)) (x25519_public P s)
        = x25519_dh P s (edwards_montgomery P (ed25519_public P seed))) \<and>
     (\<forall>s. length (k256_public P s) = 65 \<and> k256_public P s ! 0 = 4 \<and> secp256k1_point P (k256_public P s)) \<and>
     (\<forall>s t. k256_ecdh P s (k256_public P t) = k256_ecdh P t (k256_public P s))"

definition nonce_length :: "signing_algo \<Rightarrow> nat" where
  "nonce_length algo = (case algo of Ed25519 \<Rightarrow> 24 | Ecdsa \<Rightarrow> 12)"

text \<open>A sealed field: an ephemeral public key, a nonce and the ciphertext.\<close>

definition sealed_field ::
  "('c, 'z) e2ee_prims_scheme \<Rightarrow> bytes \<times> bytes \<Rightarrow> string \<Rightarrow> e2ee_model_key \<Rightarrow> bytes \<Rightarrow> bytes \<Rightarrow> bool" where
  "sealed_field P r t model aad data \<longleftrightarrow>
     (\<exists>public key ciphertext.
        decode_hex P (ek_public_key model) = Some public
        \<and> (case ek_algo model of
             Ed25519 \<Rightarrow> length public = 32 \<and> edwards_point P public \<and> \<not> edwards_small_order P public
               \<and> edwards_torsion_free P public
               \<and> derive P (x25519_dh P (fst r) (edwards_montgomery P public)) Ed25519 = Inr key
               \<and> data = x25519_public P (fst r) @ snd r @ ciphertext
           | Ecdsa \<Rightarrow> length (uncompressed_point public) = 65 \<and> uncompressed_point public ! 0 = 4
               \<and> secp256k1_point P (uncompressed_point public)
               \<and> derive P (k256_ecdh P (fst r) (uncompressed_point public)) Ecdsa = Inr key
               \<and> data = k256_public P (fst r) @ snd r @ ciphertext)
        \<and> aead_seal P (ek_algo model) key (snd r) aad (as_bytes t) = Some ciphertext)"

lemma encrypt_with_aad_ok:
  "encrypt_with_aad P r t model aad = Inr c \<longleftrightarrow> (\<exists>data. sealed_field P r t model aad data \<and> c = hex_encode P data)"
proof (cases "ek_algo model")
  case Ecdsa
  then show ?thesis
    by (cases r) (auto simp: encrypt_with_aad_def sealed_field_def outcome_simps Let_def)
next
  case Ed25519
  then show ?thesis
    by (cases r) (auto simp: encrypt_with_aad_def sealed_field_def outcome_simps Let_def)
qed

lemma take_drop_parts:
  "length a = n \<Longrightarrow> length b = m \<Longrightarrow> take n (a @ b @ c) = a"
  "length a = n \<Longrightarrow> length b = m \<Longrightarrow> take m (drop n (a @ b @ c)) = b"
  "length a = n \<Longrightarrow> length b = m \<Longrightarrow> drop (n + m) (a @ b @ c) = c"
  by auto

lemma field_roundtrip_aux:
  assumes codec: "hex_format P" "hex_roundtrip P" and laws: "aead_laws P" "dh_laws P"
    and gen: "response_key_generate P algo seed = (rk, public)"
    and enc: "encrypt_with_aad P (secret, nonce) t \<lparr>ek_algo = algo, ek_public_key = public\<rparr> aad = Inr c"
    and nonce: "length nonce = nonce_length algo" and utf8: "utf8_valid (as_bytes t)"
  shows "decrypt_with_aad P rk c aad = Inr t"
proof -
  note dec = decode_hex_encode [OF codec]
  obtain data where sealed: "sealed_field P (secret, nonce) t \<lparr>ek_algo = algo, ek_public_key = public\<rparr> aad data"
    and c: "c = hex_encode P data"
    using enc unfolding encrypt_with_aad_ok by blast
  have plain: "from_utf8 (as_bytes t) = Some t" using utf8 by (simp add: from_utf8_Some)
  show ?thesis
  proof (cases algo)
    case Ed25519
    with gen have rk: "rk = Rk_Ed25519 (take 32 (sha512_digest P seed))" "public = hex_encode P (ed25519_public P seed)"
      by (simp_all add: response_key_generate_def)
    from sealed Ed25519 obtain key ct where
        key: "derive P (x25519_dh P secret (edwards_montgomery P (ed25519_public P seed))) Ed25519 = Inr key"
      and ct: "aead_seal P Ed25519 key nonce aad (as_bytes t) = Some ct"
      and data: "data = x25519_public P secret @ nonce @ ct"
      by (auto simp: sealed_field_def rk dec)
    have len: "length (x25519_public P secret) = 32" "length nonce = 24" "length ct = length t + 16"
      and opened: "aead_open P Ed25519 key nonce aad ct = Some (as_bytes t)"
      and dh: "x25519_dh P (take 32 (sha512_digest P seed)) (x25519_public P secret)
        = x25519_dh P secret (edwards_montgomery P (ed25519_public P seed))"
      using laws ct nonce Ed25519 by (auto simp: aead_laws_def dh_laws_def nonce_length_def)
    have "c \<noteq> []" using codec(1) len data c by (auto simp: hex_format_def dest!: spec [of _ data])
    moreover have "subslice 0 32 data = (Inr (x25519_public P secret) :: bytes ver)"
      "subslice 32 56 data = (Inr nonce :: bytes ver)" "drop 56 data = ct" "72 \<le> length data"
      using len by (auto simp: data subslice_def)
    ultimately show ?thesis
      using key opened plain dh by (simp add: decrypt_with_aad_def rk c dec Let_def)
  next
    case Ecdsa
    with gen have rk: "rk = Rk_Ecdsa seed" "public = hex_encode P (drop 1 (k256_public P seed))"
      by (simp_all add: response_key_generate_def)
    have pub: "uncompressed_point (drop 1 (k256_public P seed)) = k256_public P seed"
      using laws(2) by (cases "k256_public P seed") (auto simp: dh_laws_def uncompressed_point_def dest!: spec [of _ seed])
    from sealed Ecdsa obtain key ct where
        key: "derive P (k256_ecdh P secret (k256_public P seed)) Ecdsa = Inr key"
      and ct: "aead_seal P Ecdsa key nonce aad (as_bytes t) = Some ct"
      and data: "data = k256_public P secret @ nonce @ ct"
      by (auto simp: sealed_field_def rk dec pub simp del: One_nat_def)
    have len: "length (k256_public P secret) = 65" "length nonce = 12" "length ct = length t + 16"
      and hd: "k256_public P secret ! 0 = 4" "secp256k1_point P (k256_public P secret)"
      and opened: "aead_open P Ecdsa key nonce aad ct = Some (as_bytes t)"
      and dh: "k256_ecdh P seed (k256_public P secret) = k256_ecdh P secret (k256_public P seed)"
      using laws ct nonce Ecdsa by (auto simp: aead_laws_def dh_laws_def nonce_length_def)
    have "c \<noteq> []" using codec(1) len data c by (auto simp: hex_format_def dest!: spec [of _ data])
    moreover have "subslice 0 65 data = (Inr (k256_public P secret) :: bytes ver)"
      "subslice 65 77 data = (Inr nonce :: bytes ver)" "drop 77 data = ct" "93 \<le> length data" "data ! 0 = 4"
      using len hd by (auto simp: data subslice_def nth_append)
    ultimately show ?thesis
      using key opened plain hd dh by (simp add: decrypt_with_aad_def rk c dec Let_def)
  qed
qed

lemma panics_derive [simp]: "\<not> panics (derive P k a)"
  by (simp add: derive_def)

lemma decrypt_with_aad_no_panic [simp]: "\<not> panics (decrypt_with_aad P key t aad)"
  by (cases key) (auto simp: decrypt_with_aad_def Let_def outcome_simps)

section \<open>The bound header\<close>

text \<open>The associated data determines the algorithm, the reply key and the field.\<close>

definition aad_key :: "('c, 'z) e2ee_prims_scheme \<Rightarrow> signing_algo \<Rightarrow> string \<Rightarrow> bytes option" where
  "aad_key P algo public = map_option (\<lambda>b. case algo of Ecdsa \<Rightarrow> uncompressed_point b | Ed25519 \<Rightarrow> b) (decode_hex P public)"

definition suite_byte :: "signing_algo \<Rightarrow> byte" where
  "suite_byte algo = (case algo of Ecdsa \<Rightarrow> 1 | Ed25519 \<Rightarrow> 2)"

lemma suite_byte_inject [simp]: "suite_byte a = suite_byte b \<longleftrightarrow> a = b"
  by (cases a; cases b) (simp_all add: suite_byte_def)

lemma request_aad_ok:
  "request_aad P algo public = Inr aad \<longleftrightarrow>
     (\<exists>key. aad_key P algo public = Some key
        \<and> (case algo of
             Ecdsa \<Rightarrow> length key = 65 \<and> key ! 0 = 4 \<and> secp256k1_point P key
               \<and> aad = as_bytes ''nearai-e2ee-request-v3'' @ [1] @ key
           | Ed25519 \<Rightarrow> length key = 32 \<and> ed25519_key P key
               \<and> aad = as_bytes ''nearai-e2ee-request-v3'' @ [2] @ key))"
  by (cases algo) (auto simp: request_aad_def aad_key_def outcome_simps Let_def)

lemma field_aad_inject:
  assumes "request_aad P algo public = Inr aad" and "request_aad P algo' public' = Inr aad'"
    and "field_aad aad f = field_aad aad' g"
  shows "algo = algo' \<and> aad_key P algo public = aad_key P algo' public' \<and> f = g"
proof -
  obtain key where key: "aad_key P algo public = Some key"
      "aad = as_bytes ''nearai-e2ee-request-v3'' @ suite_byte algo # key"
      "length key = (case algo of Ecdsa \<Rightarrow> 65 | Ed25519 \<Rightarrow> 32)"
    using assms(1) by (cases algo) (auto simp: request_aad_ok suite_byte_def)
  obtain key' where key': "aad_key P algo' public' = Some key'"
      "aad' = as_bytes ''nearai-e2ee-request-v3'' @ suite_byte algo' # key'"
      "length key' = (case algo' of Ecdsa \<Rightarrow> 65 | Ed25519 \<Rightarrow> 32)"
    using assms(2) by (cases algo') (auto simp: request_aad_ok suite_byte_def)
  have eq: "suite_byte algo # key @ [0] @ as_bytes f = suite_byte algo' # key' @ [0] @ as_bytes g"
    using assms(3) unfolding key(2) key'(2) field_aad_def by simp
  then have "algo = algo'" by simp
  moreover from eq this key(3) key'(3) have "key = key'" "f = g" by auto
  ultimately show ?thesis using key(1) key'(1) by simp
qed

section \<open>Every covered field of a request is sealed\<close>

text \<open>
  The relation between a member before and after sealing: a string becomes the ciphertext of
  that string under the field's associated data, an absent or \<open>null\<close> member stays.
\<close>

definition sealed_value ::
  "('c, 'z) e2ee_prims_scheme \<Rightarrow> (nat \<Rightarrow> bytes \<times> bytes) \<Rightarrow> e2ee_model_key \<Rightarrow> bytes \<Rightarrow> json option \<Rightarrow> json option \<Rightarrow> bool" where
  "sealed_value P rnd model aad old new \<longleftrightarrow>
     (case old of
        Some (JStr t) \<Rightarrow> (\<exists>i c. encrypt_with_aad P (rnd i) t model aad = Inr c \<and> new = Some (JStr c))
      | Some JNull \<Rightarrow> new = Some JNull
      | None \<Rightarrow> new = None
      | Some _ \<Rightarrow> False)"

definition fields_sealed ::
  "('c, 'z) e2ee_prims_scheme \<Rightarrow> (nat \<Rightarrow> bytes \<times> bytes) \<Rightarrow> e2ee_model_key \<Rightarrow> bytes \<Rightarrow> string \<Rightarrow> string list
     \<Rightarrow> json \<Rightarrow> json \<Rightarrow> bool" where
  "fields_sealed P rnd model aad path names j j' \<longleftrightarrow>
     (\<forall>n \<in> set names. sealed_value P rnd model (field_aad aad (path @ ''.'' @ n)) (jget j n) (jget j' n))
     \<and> (\<forall>k. k \<notin> set names \<longrightarrow> jget j' k = jget j k)"

text \<open>Two values related at one member, and the objects of two arrays related one by one.\<close>

definition member_rel :: "string \<Rightarrow> (json \<Rightarrow> json \<Rightarrow> bool) \<Rightarrow> json \<Rightarrow> json \<Rightarrow> bool" where
  "member_rel k R j j' \<longleftrightarrow> rel_option R (jget j k) (jget j' k)"

definition objects_rel :: "(json \<Rightarrow> json \<Rightarrow> bool) \<Rightarrow> json \<Rightarrow> json \<Rightarrow> bool" where
  "objects_rel R v v' \<longleftrightarrow>
     (case v of
        JArr xs \<Rightarrow> (\<exists>ys. v' = JArr ys \<and> list_all2 (\<lambda>x y. if is_object x then R x y else y = x) xs ys)
      | _ \<Rightarrow> v' = v)"

definition same_elsewhere :: "string list \<Rightarrow> json \<Rightarrow> json \<Rightarrow> bool" where
  "same_elsewhere names j j' \<longleftrightarrow> (\<forall>k. k \<notin> set names \<longrightarrow> jget j' k = jget j k)"

lemma at_field_rel:
  assumes "at_field j k f s = Inr (j', s')"
    and "\<And>v v' s s'. f v s = Inr (v', s') \<Longrightarrow> R v v'"
  shows "member_rel k R j j'" and "same_elsewhere [k] j j'"
  using assms by (auto simp: at_field_def member_rel_def same_elsewhere_def outcome_simps jget_jset
      split: option.splits)

lemma entries_with_rel:
  assumes "entries_with f xs s = Inr (ys, s')"
    and "\<And>v v' s s'. f v s = Inr (v', s') \<Longrightarrow> R v v'"
  shows "list_all2 R xs ys"
  using assms by (induction xs arbitrary: s ys) (auto simp: outcome_simps)

lemma objects_with_rel:
  assumes "objects f v s = Inr (v', s')"
    and R: "\<And>v v' s s'. f v s = Inr (v', s') \<Longrightarrow> R v v'"
  shows "objects_rel R v v'"
proof (cases v)
  case (JArr xs)
  with assms(1) obtain ys s'' where
    "entries_with (\<lambda>v s. if is_object v then f v s else Inr (v, s)) xs s = Inr (ys, s'')" "v' = JArr ys"
    by (auto simp: objects_def outcome_simps)
  then show ?thesis
    by (auto simp: objects_rel_def JArr elim!: entries_with_rel dest: R split: if_splits)
qed (use assms in \<open>auto simp: objects_def objects_rel_def\<close>)

lemma encrypt_fields_sealed:
  "encrypt_fields P rnd model aad path names j i = Inr (j', i') \<Longrightarrow> distinct names \<Longrightarrow>
   fields_sealed P rnd model aad path names j j'"
proof (induction names arbitrary: j i)
  case Nil
  then show ?case by (simp add: fields_sealed_def)
next
  case (Cons n names)
  let ?aad = "field_aad aad (path @ ''.'' @ n)"
  from Cons.prems(1) obtain j1 i1 where
      step: "field_step (seal P rnd model ?aad) j n i = Inr (j1, i1)"
    and rest: "encrypt_fields P rnd model aad path names j1 i1 = Inr (j', i')"
    by (auto simp: outcome_simps)
  have IH: "fields_sealed P rnd model aad path names j1 j'"
    using Cons.IH [OF rest] Cons.prems(2) by simp
  have "sealed_value P rnd model ?aad (jget j n) (jget j1 n)"
    using step
    by (auto simp: field_step_def sealed_value_def seal_def outcome_simps jget_jset split: option.splits json.splits)
  moreover have "jget j1 k = jget j k" if "k \<noteq> n" for k
    using field_step_other [OF step that] .
  ultimately show ?case
    using IH Cons.prems(2) unfolding fields_sealed_def by (metis distinct.simps(2) set_ConsD list.set_intros)
qed

lemma at_encrypted:
  assumes "at_field j k (encrypt_fields P rnd model aad path names) i = Inr (j', i')" and "distinct names"
  shows "member_rel k (fields_sealed P rnd model aad path names) j j'" and "same_elsewhere [k] j j'"
  using at_field_rel [where R = "fields_sealed P rnd model aad path names", OF assms(1)]
    encrypt_fields_sealed [OF _ assms(2)] by blast+

definition content_sealed ::
  "('c, 'z) e2ee_prims_scheme \<Rightarrow> (nat \<Rightarrow> bytes \<times> bytes) \<Rightarrow> e2ee_model_key \<Rightarrow> bytes \<Rightarrow> json \<Rightarrow> json \<Rightarrow> bool" where
  "content_sealed P rnd model aad v v' \<longleftrightarrow>
     (let sealed = (\<lambda>t. \<exists>i c. encrypt_with_aad P (rnd i) t model (field_aad aad ''messages[].content'') = Inr c
            \<and> v' = JStr c) in
      case v of JStr t \<Rightarrow> sealed t | JArr _ \<Rightarrow> sealed (json_print P v) | _ \<Rightarrow> v' = v)"

definition message_sealed ::
  "('c, 'z) e2ee_prims_scheme \<Rightarrow> (nat \<Rightarrow> bytes \<times> bytes) \<Rightarrow> e2ee_model_key \<Rightarrow> bytes \<Rightarrow> json \<Rightarrow> json \<Rightarrow> bool" where
  "message_sealed P rnd model aad m m' \<longleftrightarrow>
     (let sealed = fields_sealed P rnd model aad;
          names = [''reasoning_content'', ''reasoning'', ''name'', ''refusal''] in
      member_rel ''content'' (content_sealed P rnd model aad) m m'
      \<and> (\<forall>n \<in> set names. sealed_value P rnd model (field_aad aad (''messages[].'' @ n)) (jget m n) (jget m' n))
      \<and> member_rel ''audio'' (sealed ''messages[].audio'' [''data'']) m m'
      \<and> member_rel ''tool_calls'' (objects_rel (member_rel ''function''
           (sealed ''messages[].tool_calls[].function'' [''name'', ''arguments'']))) m m'
      \<and> member_rel ''function_call'' (sealed ''messages[].function_call'' [''name'', ''arguments'']) m m'
      \<and> same_elsewhere ([''content'', ''audio'', ''tool_calls'', ''function_call''] @ names) m m')"

lemma encrypt_content_sealed:
  "encrypt_content P rnd model aad v i = Inr (v', i') \<Longrightarrow> content_sealed P rnd model aad v v'"
  by (auto simp: encrypt_content_def content_sealed_def seal_def outcome_simps Let_def split: json.splits)

lemma encrypt_message_sealed:
  assumes "encrypt_message P rnd model aad m i = Inr (m', i')"
  shows "message_sealed P rnd model aad m m'"
proof -
  let ?names = "[''reasoning_content'', ''reasoning'', ''name'', ''refusal'']"
  let ?sealed = "fields_sealed P rnd model aad"
  from assms obtain m1 i1 m2 i2 m3 i3 m4 i4 where
      s1: "at_field m ''content'' (encrypt_content P rnd model aad) i = Inr (m1, i1)"
    and s2: "encrypt_fields P rnd model aad ''messages[]'' ?names m1 i1 = Inr (m2, i2)"
    and s3: "at_field m2 ''audio'' (encrypt_fields P rnd model aad ''messages[].audio'' [''data'']) i2 = Inr (m3, i3)"
    and s4: "at_field m3 ''tool_calls'' (objects (\<lambda>call i. at_field call ''function''
        (encrypt_fields P rnd model aad ''messages[].tool_calls[].function'' [''name'', ''arguments'']) i)) i3 = Inr (m4, i4)"
    and s5: "at_field m4 ''function_call''
        (encrypt_fields P rnd model aad ''messages[].function_call'' [''name'', ''arguments'']) i4 = Inr (m', i')"
    by (auto simp: encrypt_message_def Let_def outcome_simps)
  have r1: "member_rel ''content'' (content_sealed P rnd model aad) m m1" "same_elsewhere [''content''] m m1"
    using at_field_rel [where R = "content_sealed P rnd model aad", OF s1] encrypt_content_sealed by blast+
  have r2: "?sealed ''messages[]'' ?names m1 m2"
    using encrypt_fields_sealed [OF s2] by simp
  have r3: "member_rel ''audio'' (?sealed ''messages[].audio'' [''data'']) m2 m3" "same_elsewhere [''audio''] m2 m3"
    using at_encrypted [OF s3] by simp_all
  have call: "member_rel ''function'' (?sealed ''messages[].tool_calls[].function'' [''name'', ''arguments'']) c c'"
    if "at_field c ''function'' (encrypt_fields P rnd model aad ''messages[].tool_calls[].function''
        [''name'', ''arguments'']) i = Inr (c', i')" for c c' i i'
    using at_encrypted(1) [OF that] by simp
  have r4: "member_rel ''tool_calls'' (objects_rel (member_rel ''function''
        (?sealed ''messages[].tool_calls[].function'' [''name'', ''arguments'']))) m3 m4"
      "same_elsewhere [''tool_calls''] m3 m4"
    by (rule at_field_rel [OF s4], rule objects_with_rel, assumption, erule call)+
  have r5: "member_rel ''function_call'' (?sealed ''messages[].function_call'' [''name'', ''arguments'']) m4 m'"
      "same_elsewhere [''function_call''] m4 m'"
    using at_encrypted [OF s5] by simp_all
  show ?thesis
    using r1 r2 r3 r4 r5
    by (simp add: message_sealed_def Let_def member_rel_def same_elsewhere_def fields_sealed_def)
qed

definition tool_sealed ::
  "('c, 'z) e2ee_prims_scheme \<Rightarrow> (nat \<Rightarrow> bytes \<times> bytes) \<Rightarrow> e2ee_model_key \<Rightarrow> bytes \<Rightarrow> json \<Rightarrow> json \<Rightarrow> bool" where
  "tool_sealed P rnd model aad = member_rel ''function'' (\<lambda>f f'.
     (\<forall>n \<in> {''name'', ''description''}.
        sealed_value P rnd model (field_aad aad (''tools[].function.'' @ n)) (jget f n) (jget f' n))
     \<and> member_rel ''parameters'' (\<lambda>v v'. \<exists>i c.
          encrypt_with_aad P (rnd i) (json_print P v) model (field_aad aad ''tools[].function.parameters'') = Inr c
          \<and> v' = JStr c) f f'
     \<and> same_elsewhere [''name'', ''description'', ''parameters''] f f')"

lemma encrypt_tool_sealed:
  assumes "encrypt_tool P rnd model aad t i = Inr (t', i')"
  shows "tool_sealed P rnd model aad t t'"
proof -
  have "(\<forall>n \<in> {''name'', ''description''}.
        sealed_value P rnd model (field_aad aad (''tools[].function.'' @ n)) (jget f n) (jget f' n))
     \<and> member_rel ''parameters'' (\<lambda>v v'. \<exists>i c.
          encrypt_with_aad P (rnd i) (json_print P v) model (field_aad aad ''tools[].function.parameters'') = Inr c
          \<and> v' = JStr c) f f'
     \<and> same_elsewhere [''name'', ''description'', ''parameters''] f f'"
    if f: "rbind (encrypt_fields P rnd model aad ''tools[].function'' [''name'', ''description''] f i) (\<lambda>(f1, i1).
       at_field f1 ''parameters'' (\<lambda>parameters i.
         rbind (seal P rnd model (field_aad aad ''tools[].function.parameters'') (json_print P parameters) i)
           (\<lambda>(t, i'). Inr (JStr t, i'))) i1) = Inr (f', i')" for f f' i i'
  proof -
    from f obtain f1 i1 where
        s1: "encrypt_fields P rnd model aad ''tools[].function'' [''name'', ''description''] f i = Inr (f1, i1)"
      and s2: "at_field f1 ''parameters'' (\<lambda>parameters i.
         rbind (seal P rnd model (field_aad aad ''tools[].function.parameters'') (json_print P parameters) i)
           (\<lambda>(t, i'). Inr (JStr t, i'))) i1 = Inr (f', i')"
      by (auto simp: outcome_simps)
    have "fields_sealed P rnd model aad ''tools[].function'' [''name'', ''description''] f f1"
      using encrypt_fields_sealed [OF s1] by simp
    moreover have "member_rel ''parameters'' (\<lambda>v v'. \<exists>i c.
          encrypt_with_aad P (rnd i) (json_print P v) model (field_aad aad ''tools[].function.parameters'') = Inr c
          \<and> v' = JStr c) f1 f'" "same_elsewhere [''parameters''] f1 f'"
      by (rule at_field_rel [OF s2]; auto simp: seal_def outcome_simps)+
    ultimately show ?thesis
      by (simp add: fields_sealed_def member_rel_def same_elsewhere_def)
  qed
  then show ?thesis
    using assms unfolding encrypt_tool_def tool_sealed_def by (rule at_field_rel(1) [rotated])
qed

definition request_sealed ::
  "('c, 'z) e2ee_prims_scheme \<Rightarrow> (nat \<Rightarrow> bytes \<times> bytes) \<Rightarrow> e2ee_model_key \<Rightarrow> bytes \<Rightarrow> json \<Rightarrow> json \<Rightarrow> bool" where
  "request_sealed P rnd model aad body body' \<longleftrightarrow>
     member_rel ''messages'' (objects_rel (message_sealed P rnd model aad)) body body'
     \<and> member_rel ''tools'' (objects_rel (tool_sealed P rnd model aad)) body body'
     \<and> member_rel ''tool_choice'' (member_rel ''function''
          (fields_sealed P rnd model aad ''tool_choice.function'' [''name''])) body body'
     \<and> member_rel ''function_call'' (fields_sealed P rnd model aad ''function_call'' [''name'']) body body'
     \<and> same_elsewhere [''messages'', ''tools'', ''tool_choice'', ''function_call''] body body'"

lemma encrypt_request_sealed_aux:
  assumes "encrypt_request P rnd model aad body i = Inr (body', i')"
  shows "request_sealed P rnd model aad body body'"
proof -
  from assms obtain b1 i1 b2 i2 b3 i3 where
      s1: "at_field body ''messages'' (objects (encrypt_message P rnd model aad)) i = Inr (b1, i1)"
    and s2: "at_field b1 ''tools'' (objects (encrypt_tool P rnd model aad)) i1 = Inr (b2, i2)"
    and s3: "at_field b2 ''tool_choice'' (\<lambda>v i.
              at_field v ''function'' (encrypt_fields P rnd model aad ''tool_choice.function'' [''name'']) i) i2 = Inr (b3, i3)"
    and s4: "at_field b3 ''function_call'' (encrypt_fields P rnd model aad ''function_call'' [''name'']) i3 = Inr (body', i')"
    by (auto simp: encrypt_request_def outcome_simps)
  have choice: "member_rel ''function'' (fields_sealed P rnd model aad ''tool_choice.function'' [''name'']) c c'"
    if "at_field c ''function'' (encrypt_fields P rnd model aad ''tool_choice.function'' [''name'']) i = Inr (c', i')"
    for c c' i i'
    using at_encrypted(1) [OF that] by simp
  have r1: "member_rel ''messages'' (objects_rel (message_sealed P rnd model aad)) body b1"
      "same_elsewhere [''messages''] body b1"
    by (rule at_field_rel [OF s1], rule objects_with_rel, assumption, erule encrypt_message_sealed)+
  have r2: "member_rel ''tools'' (objects_rel (tool_sealed P rnd model aad)) b1 b2" "same_elsewhere [''tools''] b1 b2"
    by (rule at_field_rel [OF s2], rule objects_with_rel, assumption, erule encrypt_tool_sealed)+
  have r3: "member_rel ''tool_choice'' (member_rel ''function''
      (fields_sealed P rnd model aad ''tool_choice.function'' [''name''])) b2 b3" "same_elsewhere [''tool_choice''] b2 b3"
    by (rule at_field_rel [OF s3], erule choice)+
  have r4: "member_rel ''function_call'' (fields_sealed P rnd model aad ''function_call'' [''name'']) b3 body'"
      "same_elsewhere [''function_call''] b3 body'"
    using at_encrypted [OF s4] by simp_all
  show ?thesis
    using r1 r2 r3 r4 by (simp add: request_sealed_def member_rel_def same_elsewhere_def)
qed

section \<open>Every covered field of a response is authenticated\<close>



























section \<open>The instance\<close>

text \<open>
  Key agreement in the instance ignores the keys, and its AEAD appends a tag of 16 zeros: it
  satisfies the laws, which is all the witnesses need.
\<close>

definition demo_open :: "bytes \<Rightarrow> bytes option" where
  "demo_open c = (if 16 \<le> length c \<and> drop (length c - 16) c = replicate 16 0 then Some (take (length c - 16) c) else None)"

definition demo_e2ee :: "unit e2ee_prims" where
  "demo_e2ee = sig_prims.extend demo_sig (e2ee_prims.fields (\<lambda>_ _. Some (replicate 32 7)) (\<lambda>_ _. replicate 32 1)
     (\<lambda>_. replicate 32 2) (\<lambda>_. True) (\<lambda>_. False) (\<lambda>_. True) (\<lambda>_. replicate 32 3) (\<lambda>_. replicate 32 4)
     (demo_digest 64) (\<lambda>_ _. replicate 32 5) (\<lambda>_. 4 # replicate 64 6)
     (\<lambda>_ _ _ _ m. Some (m @ replicate 16 0)) (\<lambda>_ _ _ _ c. demo_open c))"

declare demo_e2ee_def [demo_defs] e2ee_prims.defs [demo_defs]

lemma demo_e2ee_laws:
  "digest_lengths demo_e2ee" "hex_roundtrip demo_e2ee" "json_roundtrip demo_e2ee" "hex_format demo_e2ee"
  "aead_laws demo_e2ee" "dh_laws demo_e2ee"
  by (simp_all add: digest_lengths_def hex_roundtrip_def json_roundtrip_def hex_format_def demo_defs
      demo_digest_length demo_hex_roundtrip demo_json_roundtrip demo_hex_format aead_laws_def dh_laws_def
      demo_open_def)

section \<open>Properties\<close>

text \<open>C13: A sealed field opens to the text that was sealed. With the documented laws of the codec,
  the AEADs and the key agreement, a field sealed to the public key of a generated reply key,
  under any associated data, is opened by that key under the same data, for both algorithms.\<close>

lemma sealed_field_opens:
  assumes "hex_format P" and "hex_roundtrip P" and "aead_laws P" and "dh_laws P"
    and "response_key_generate P algo seed = (key, public)"
    and "encrypt_with_aad P (secret, nonce) t \<lparr>ek_algo = algo, ek_public_key = public\<rparr> aad = Inr sealed"
    and "length nonce = nonce_length algo" and "utf8_valid (as_bytes t)"
  shows "decrypt_with_aad P key sealed aad = Inr t"
  using assms by (rule field_roundtrip_aux)

definition demo_reply_key :: "response_key \<times> string" where
  "demo_reply_key = response_key_generate demo_e2ee Ed25519 []"

definition demo_model_key :: e2ee_model_key where
  "demo_model_key = \<lparr>ek_algo = Ed25519, ek_public_key = snd demo_reply_key\<rparr>"

definition demo_sealed :: string where
  "demo_sealed = demo_hex_encode (replicate 32 2 @ replicate 24 9 @ as_bytes ''hi'' @ replicate 16 0)"

lemma demo_seals: "encrypt_with_aad demo_e2ee ([], replicate 24 9) ''hi''
    \<lparr>ek_algo = Ed25519, ek_public_key = snd demo_reply_key\<rparr> [] = Inr demo_sealed"
  by code_simp

lemma sealed_field_opens_witness: "decrypt_with_aad demo_e2ee (fst demo_reply_key) demo_sealed [] = Inr ''hi''"
  by (rule sealed_field_opens [OF demo_e2ee_laws(4,2,5,6) _ demo_seals])
    (simp_all add: demo_reply_key_def nonce_length_def utf8_valid.simps Let_def)

text \<open>The associated data of a field names its context. Equal associated data means the same
  algorithm, the same reply key and the same field, so a ciphertext cannot be moved to
  another field, request or suite and still authenticate.\<close>

lemma field_context_unambiguous:
  assumes "request_aad P algo public = Inr aad" and "request_aad P algo' public' = Inr aad'"
    and "field_aad aad f = field_aad aad' g"
  shows "algo = algo' \<and> aad_key P algo public = aad_key P algo' public' \<and> f = g"
  using assms by (rule field_aad_inject)

definition demo_aad :: bytes where
  "demo_aad = as_bytes ''nearai-e2ee-request-v3'' @ [2] @ replicate 32 4"

lemma demo_request_aad: "request_aad demo_e2ee Ed25519 (snd demo_reply_key) = Inr demo_aad"
  by code_simp

lemma field_context_unambiguous_witness:
  "Ed25519 = Ed25519 \<and> aad_key demo_e2ee Ed25519 (snd demo_reply_key) = aad_key demo_e2ee Ed25519 (snd demo_reply_key)
     \<and> ''f'' = ''f''"
  by (rule field_context_unambiguous [OF demo_request_aad demo_request_aad refl])

text \<open>C9: A prepared request carries no covered field in the clear. Its body is the caller's JSON
  with every covered member (message contents, reasoning, names, audio, tool calls, tool
  definitions and choices) replaced by its ciphertext under the data that names the member and
  binds the reply key, every other member unchanged; headers that describe the old body are
  gone, the key headers carry the reply key and the model key, and method and URL are kept.\<close>

lemma prepared_request_is_sealed:
  assumes "prepare_e2ee_chat_request P seed rnd request model = Inr p"
  shows "\<exists>body sealed aad public.
     decode_request P request = Inr body
     \<and> response_key_generate P (ek_algo model) seed = (pe_key p, public)
     \<and> request_aad P (ek_algo model) public = Inr aad
     \<and> request_sealed P rnd model aad body sealed
     \<and> cr_body (pe_request p) = Some (as_bytes (json_print P sealed))
     \<and> list_all (\<lambda>n. \<not> header_contains n (cr_headers (pe_request p))) stale_body_headers
     \<and> header_get ''x-client-pub-key'' (cr_headers (pe_request p)) = Some public
     \<and> header_get ''x-model-pub-key'' (cr_headers (pe_request p)) = Some (ek_public_key model)
     \<and> header_get ''x-signing-algo'' (cr_headers (pe_request p)) = Some (signing_algo_name (ek_algo model))
     \<and> header_get ''x-encryption-version'' (cr_headers (pe_request p)) = Some ''3''
     \<and> cr_method (pe_request p) = cr_method request \<and> cr_url (pe_request p) = cr_url request"
proof -
  obtain key public where gen: "response_key_generate P (ek_algo model) seed = (key, public)" by fastforce
  let ?base = "remove_e2ee_headers (fold header_remove stale_body_headers (cr_headers request))"
  from assms obtain body aad sealed i headers where
      steps: "decode_request P request = Inr body" "request_aad P (ek_algo model) public = Inr aad"
      "encrypt_request P rnd model aad body 0 = Inr (sealed, i)"
    and headers: "insert_headers [(''content-type'', ''application/json''),
       (''x-signing-algo'', signing_algo_name (ek_algo model)), (''x-client-pub-key'', public),
       (''x-model-pub-key'', ek_public_key model), (''x-no-aliasing'', ''true''),
       (''x-encrypt-all-fields'', ''true'')] ?base = Inr headers"
    and p: "p = \<lparr>pe_request = request\<lparr>cr_headers := header_insert ''x-encryption-version'' ''3'' headers,
            cr_body := Some (as_bytes (json_print P sealed))\<rparr>, pe_key = key\<rparr>"
    by (auto simp: prepare_e2ee_chat_request_def gen Let_def outcome_simps)
  have h: "headers = header_insert ''x-encrypt-all-fields'' ''true'' (header_insert ''x-no-aliasing'' ''true''
      (header_insert ''x-model-pub-key'' (ek_public_key model) (header_insert ''x-client-pub-key'' public
      (header_insert ''x-signing-algo'' (signing_algo_name (ek_algo model))
      (header_insert ''content-type'' ''application/json'' ?base)))))"
    using insert_headers_ok [OF headers] by simp
  show ?thesis
    using steps gen encrypt_request_sealed_aux [OF steps(3)]
    by (intro exI [of _ body] exI [of _ sealed] exI [of _ aad] exI [of _ public])
      (simp add: p h stale_body_headers_def remove_e2ee_headers_def e2ee_headers_def)
qed

definition demo_chat :: client_request where
  "demo_chat = \<lparr>cr_method = ''POST'', cr_url = demo_url ''/'', cr_headers = [(''content-length'', ''9'')],
     cr_body = Some (as_bytes (put_json (JObj [(''model'', JStr ''m''),
       (''messages'', JArr [JObj [(''content'', JStr ''hi'')]])])))\<rparr>"

definition demo_prepared :: prepared_e2ee_request where
  "demo_prepared = \<lparr>pe_request = demo_chat\<lparr>cr_headers := [(''content-type'', ''application/json''),
       (''x-signing-algo'', ''ed25519''), (''x-client-pub-key'', snd demo_reply_key),
       (''x-model-pub-key'', snd demo_reply_key), (''x-no-aliasing'', ''true''),
       (''x-encrypt-all-fields'', ''true''), (''x-encryption-version'', ''3'')],
     cr_body := Some (as_bytes (put_json (JObj [(''model'', JStr ''m''),
       (''messages'', JArr [JObj [(''content'', JStr demo_sealed)]])])))\<rparr>, pe_key = fst demo_reply_key\<rparr>"

lemma demo_prepares: "prepare_e2ee_chat_request demo_e2ee [] (\<lambda>_. ([], replicate 24 9)) demo_chat demo_model_key
    = Inr demo_prepared"
  by code_simp

lemma prepared_request_is_sealed_witness:
  "\<exists>body sealed aad public.
     decode_request demo_e2ee demo_chat = Inr body
     \<and> response_key_generate demo_e2ee (ek_algo demo_model_key) [] = (pe_key demo_prepared, public)
     \<and> request_aad demo_e2ee (ek_algo demo_model_key) public = Inr aad
     \<and> request_sealed demo_e2ee (\<lambda>_. ([], replicate 24 9)) demo_model_key aad body sealed
     \<and> cr_body (pe_request demo_prepared) = Some (as_bytes (json_print demo_e2ee sealed))"
  using prepared_request_is_sealed [OF demo_prepares] by blast





end
