(* ===== verification/Sse.thy ===== *)
theory Sse
  imports E2ee
begin

text \<open>
  \<open>sse.rs\<close>: the incremental record scanner, the reading of one record, its transformation and
  the state of a Messages stream. The scanner keeps an unfinished record in \<open>pending\<close> with
  the position it has scanned to and the start of its last line. The reference is a plain
  recursion over the whole input; the lemmas show that the scanner, fed any chunks, emits
  exactly the reference's records.
\<close>

section \<open>The scanner\<close>

record sse_decoder =
  sd_pending :: bytes
  sd_scan :: nat
  sd_line :: nat

definition sse_decoder_default :: sse_decoder where
  "sse_decoder_default = \<lparr>sd_pending = [], sd_scan = 0, sd_line = 0\<rparr>"

text \<open>\<open>a - b\<close> on \<open>usize\<close>\<close>

definition checked_sub :: "nat \<Rightarrow> nat \<Rightarrow> ('e, nat) outcome" where
  "checked_sub a b = (if b \<le> a then Inr (a - b) else panic ''attempt to subtract with overflow'')"

text \<open>The loop of \<open>scan_records\<close>: \<open>13\<close> is a carriage return, \<open>10\<close> a line feed.\<close>

function scan_loop ::
  "bool \<Rightarrow> bytes \<Rightarrow> nat \<Rightarrow> nat \<Rightarrow> nat \<Rightarrow> bytes list \<Rightarrow> ('e, nat \<times> nat \<times> nat \<times> bytes list) outcome" where
  "scan_loop eof pending scan line start records =
     (if scan < length pending then
        if pending ! scan \<noteq> 13 \<and> pending ! scan \<noteq> 10 then
          scan_loop eof pending (scan + 1) line start records
        else if pending ! scan = 13 \<and> scan + 1 = length pending \<and> \<not> eof then
          Inr (scan, line, start, records)
        else
          let stop = scan + (if pending ! scan = 13 \<and> scan + 1 < length pending \<and> pending ! (scan + 1) = 10
                then 2 else 1) in
          if scan = line then
            rbind (subslice start stop pending) (\<lambda>r.
            scan_loop eof pending stop stop stop (records @ [r]))
          else scan_loop eof pending stop stop start records
      else Inr (scan, line, start, records))"
  by pat_completeness auto

termination
  by (relation "measure (\<lambda>(eof, pending, scan, line, start, records). length pending - scan)") auto

declare scan_loop.simps [simp del]

definition scan_records :: "sse_decoder \<Rightarrow> bool \<Rightarrow> bytes list \<Rightarrow> ('e, sse_decoder \<times> bytes list) outcome" where
  "scan_records d eof records =
     rbind (scan_loop eof (sd_pending d) (sd_scan d) (sd_line d) 0 records) (\<lambda>(scan, line, start, records').
     rbind (slice_to start (sd_pending d)) (\<lambda>_.
     rbind (checked_sub scan start) (\<lambda>scan'.
     rbind (checked_sub line start) (\<lambda>line'.
     Inr (\<lparr>sd_pending = drop start (sd_pending d), sd_scan = scan', sd_line = line'\<rparr>, records')))))"

text \<open>\<open>bytes.chunks(n)\<close>\<close>

fun chunks_of :: "nat \<Rightarrow> 'a list \<Rightarrow> 'a list list" where
  "chunks_of n xs = (if n = 0 \<or> xs = [] then [] else take n xs # chunks_of n (drop n xs))"

declare chunks_of.simps [simp del]

fun push_parts :: "sse_decoder \<Rightarrow> bytes list \<Rightarrow> bytes list \<Rightarrow> ('e, sse_decoder \<times> bytes list) outcome" where
  "push_parts d [] records = Inr (d, records)"
| "push_parts d (part # parts) records =
     rbind (scan_records (d\<lparr>sd_pending := sd_pending d @ part\<rparr>) False records) (\<lambda>(d', records').
     push_parts d' parts records')"

definition push :: "sse_decoder \<Rightarrow> bytes \<Rightarrow> bool \<Rightarrow> ('e, sse_decoder \<times> bytes list) outcome" where
  "push d bytes eof =
     rbind (push_parts d (chunks_of 8192 bytes) []) (\<lambda>(d1, records).
     if eof then
       rbind (scan_records d1 True records) (\<lambda>(d2, records').
       Inr (sse_decoder_default,
            if sd_pending d2 \<noteq> [] then records' @ [sd_pending d2] else records'))
     else Inr (d1, records))"

section \<open>Reference: lines and records of a whole input\<close>

text \<open>
  \<open>ref_lines cr lf cur xs\<close> are the lines of \<open>xs\<close>, each with its ending, when \<open>cur\<close> has been read
  of the first; a last line without an ending is kept when it is not empty. A record ends
  with an empty line.
\<close>

fun ref_lines :: "'a \<Rightarrow> 'a \<Rightarrow> 'a list \<Rightarrow> 'a list \<Rightarrow> ('a list \<times> 'a list) list" where
  "ref_lines cr lf cur [] = (if cur = [] then [] else [(cur, [])])"
| "ref_lines cr lf cur (x # xs) =
     (if x \<noteq> cr \<and> x \<noteq> lf then ref_lines cr lf (cur @ [x]) xs
      else if x = cr then
        (case xs of
           [] \<Rightarrow> [(cur, [x])]
         | y # ys \<Rightarrow> if y = lf then (cur, [x, y]) # ref_lines cr lf [] ys
             else (cur, [x]) # ref_lines cr lf [] xs)
      else (cur, [x]) # ref_lines cr lf [] xs)"

fun ref_group :: "'a list \<Rightarrow> ('a list \<times> 'a list) list \<Rightarrow> 'a list list" where
  "ref_group cur [] = (if cur = [] then [] else [cur])"
| "ref_group cur ((line, ending) # ls) =
     (if line = [] \<and> ending \<noteq> [] then (cur @ ending) # ref_group [] ls
      else ref_group (cur @ line @ ending) ls)"

definition ref_records :: "bytes \<Rightarrow> bytes list" where
  "ref_records bs = ref_group [] (ref_lines 13 10 [] bs)"

text \<open>What a scanner in a given state emits when the input ends with \<open>rest\<close>.\<close>

definition future_at :: "bytes \<Rightarrow> nat \<Rightarrow> nat \<Rightarrow> nat \<Rightarrow> bytes list" where
  "future_at buf scan line start =
     ref_group (take (line - start) (drop start buf))
       (ref_lines 13 10 (take (scan - line) (drop line buf)) (drop scan buf))"

definition sse_future :: "sse_decoder \<Rightarrow> bytes \<Rightarrow> bytes list" where
  "sse_future d rest = future_at (sd_pending d @ rest) (sd_scan d) (sd_line d) 0"

definition sse_ok :: "sse_decoder \<Rightarrow> bool" where
  "sse_ok d \<longleftrightarrow> sd_line d \<le> sd_scan d \<and> sd_scan d \<le> length (sd_pending d)"

lemma ref_lines_plain:
  "\<forall>x \<in> set xs. x \<noteq> cr \<and> x \<noteq> lf \<Longrightarrow> ref_lines cr lf cur (xs @ ys) = ref_lines cr lf (cur @ xs) ys"
  by (induction xs arbitrary: cur) auto

lemma take_drop_snoc:
  "line \<le> scan \<Longrightarrow> scan < length buf \<Longrightarrow>
   take (Suc scan - line) (drop line buf) = take (scan - line) (drop line buf) @ [buf ! scan]"
  by (simp add: Suc_diff_le take_Suc_conv_app_nth)

lemma take_drop_join:
  "start \<le> line \<Longrightarrow> line \<le> scan \<Longrightarrow>
   take (line - start) (drop start buf) @ take (scan - line) (drop line buf) = take (scan - start) (drop start buf)"
proof -
  assume "start \<le> line" "line \<le> scan"
  then have "scan - start = (line - start) + (scan - line)" "drop line buf = drop (line - start) (drop start buf)"
    by simp_all
  then show ?thesis by (simp only: take_add)
qed

lemma take_drop_empty: "line \<le> scan \<Longrightarrow> scan \<le> length buf \<Longrightarrow> take (scan - line) (drop line buf) = [] \<longleftrightarrow> scan = line"
  by auto

text \<open>One step of the loop does not change the future.\<close>

lemma future_at_plain:
  assumes "line \<le> scan" "scan < length buf" "buf ! scan \<noteq> 13" "buf ! scan \<noteq> 10"
  shows "future_at buf scan line start = future_at buf (Suc scan) line start"
proof -
  have "drop scan buf = buf ! scan # drop (Suc scan) buf" using assms(2) by (simp add: Cons_nth_drop_Suc)
  with assms show ?thesis by (simp add: future_at_def take_drop_snoc)
qed

lemma ref_lines_end:
  assumes "scan < length buf" "buf ! scan = 13 \<or> buf ! scan = 10"
    and "stop = scan + (if buf ! scan = 13 \<and> scan + 1 < length buf \<and> buf ! (scan + 1) = 10 then 2 else 1)"
  shows "ref_lines 13 10 cur (drop scan buf)
     = (cur, take (stop - scan) (drop scan buf)) # ref_lines 13 10 [] (drop stop (buf :: bytes))"
    and "stop \<le> length buf" and "scan < stop"
proof -
  have d: "drop scan buf = buf ! scan # drop (Suc scan) buf" using assms(1) by (simp add: Cons_nth_drop_Suc)
  show "ref_lines 13 10 cur (drop scan buf)
     = (cur, take (stop - scan) (drop scan buf)) # ref_lines 13 10 [] (drop stop buf)"
  proof (cases "Suc scan < length buf")
    case True
    then have d2: "drop (Suc scan) buf = buf ! Suc scan # drop (Suc (Suc scan)) buf"
      by (simp add: Cons_nth_drop_Suc)
    show ?thesis using assms(2,3) True by (auto simp: d d2)
  next
    case False
    with assms(1) have "drop (Suc scan) buf = []" by simp
    with assms(2,3) False show ?thesis unfolding d by auto
  qed
  show "stop \<le> length buf" "scan < stop" using assms by (auto split: if_splits)
qed

lemma future_at_end:
  assumes inv: "start \<le> line" "line \<le> scan" and scan: "scan < length buf" "buf ! scan = 13 \<or> buf ! scan = 10"
    and stop: "stop = scan + (if buf ! scan = 13 \<and> scan + 1 < length buf \<and> buf ! (scan + 1) = 10 then 2 else 1)"
  shows "future_at buf scan line start =
     (if scan = line then take (stop - start) (drop start buf) # future_at buf stop stop stop
      else future_at buf stop stop start)"
proof -
  note e = ref_lines_end [OF scan stop]
  have join: "take (line - start) (drop start buf) @ take (scan - line) (drop line buf)
      @ take (stop - scan) (drop scan buf) = take (stop - start) (drop start buf)"
    using take_drop_join [OF inv, of buf] take_drop_join [of start scan stop buf] inv e(3)
    by (simp only: append_assoc [symmetric])
  have ne: "take (stop - scan) (drop scan buf) \<noteq> []" using e(3) scan(1) by simp
  show ?thesis
  proof (cases "scan = line")
    case True
    with join ne show ?thesis unfolding future_at_def e(1) by simp
  next
    case False
    with inv scan have "take (scan - line) (drop line buf) \<noteq> []" by simp
    with join False show ?thesis unfolding future_at_def e(1) by simp
  qed
qed

lemma future_at_done:
  assumes "start \<le> line" "line \<le> scan" "length buf \<le> scan"
  shows "future_at buf scan line start = (if start < length buf then [drop start buf] else [])"
proof -
  have "take (line - start) (drop start buf) @ drop line buf = drop start buf"
    using assms(1) by (metis append_take_drop_id drop_drop le_add_diff_inverse2)
  with assms show ?thesis by (auto simp: future_at_def)
qed

text \<open>
  The loop cannot run out of bounds; what it has emitted and what is left to emit, when any
  bytes follow (none after the end of the input), is what was left before.
\<close>

lemma scan_loop_correct:
  assumes "start \<le> line" "line \<le> scan" "scan \<le> length buf"
  shows "\<exists>scan' line' start' out.
     scan_loop eof buf scan line start records = (Inr (scan', line', start', records @ out) :: ('e, _) outcome)
     \<and> start' \<le> line' \<and> line' \<le> scan' \<and> scan' \<le> length buf \<and> (eof \<longrightarrow> scan' = length buf)
     \<and> (\<forall>rest. (eof \<longrightarrow> rest = []) \<longrightarrow>
          future_at (buf @ rest) scan line start = out @ future_at (buf @ rest) scan' line' start')"
  using assms
proof (induction "length buf - scan" arbitrary: scan line start records rule: less_induct)
  case less
  show ?case
  proof (cases "scan < length buf")
    case False
    with less.prems show ?thesis by (subst scan_loop.simps) (auto intro!: exI [of _ scan])
  next
    case scan: True
    show ?thesis
    proof (cases "buf ! scan \<noteq> 13 \<and> buf ! scan \<noteq> 10")
      case True
      have "future_at (buf @ rest) scan line start = future_at (buf @ rest) (Suc scan) line start" for rest
        using True scan less.prems by (intro future_at_plain) (auto simp: nth_append)
      with less.hyps [of "Suc scan" start line records] less.prems scan True show ?thesis
        by (subst scan_loop.simps) auto
    next
      case newline: False
      show ?thesis
      proof (cases "buf ! scan = 13 \<and> scan + 1 = length buf \<and> \<not> eof")
        case True
        with newline scan less.prems show ?thesis by (subst scan_loop.simps) auto
      next
        case False
        define stop where "stop = scan + (if buf ! scan = 13 \<and> scan + 1 < length buf \<and> buf ! (scan + 1) = 10
          then 2 else 1)"
        from newline have nl: "buf ! scan = 13 \<or> buf ! scan = 10" by simp
        have bounds: "stop \<le> length buf" "scan < stop" using ref_lines_end(2,3) [OF scan nl stop_def] by auto
        have dec: "length buf - stop < length buf - scan" using bounds scan by simp
        have step: "future_at (buf @ rest) scan line start =
            (if scan = line then take (stop - start) (drop start buf) # future_at (buf @ rest) stop stop stop
             else future_at (buf @ rest) stop stop start)" if "eof \<longrightarrow> rest = []" for rest
        proof -
          have "stop = scan + (if (buf @ rest) ! scan = 13 \<and> scan + 1 < length (buf @ rest)
              \<and> (buf @ rest) ! (scan + 1) = 10 then 2 else 1)"
            using scan False that unfolding stop_def by (cases "scan + 1 = length buf") (auto simp: nth_append)
          from future_at_end [OF less.prems(1,2) _ _ this] scan nl bounds show ?thesis
            by (simp add: nth_append)
        qed
        show ?thesis
        proof (cases "scan = line")
          case True
          have sub: "subslice start stop buf = (Inr (take (stop - start) (drop start buf)) :: ('e, bytes) outcome)"
            using bounds less.prems by (simp add: subslice_def)
          have loop: "scan_loop eof buf scan line start records
              = (scan_loop eof buf stop stop stop (records @ [take (stop - start) (drop start buf)]) :: ('e, _) outcome)"
            by (subst scan_loop.simps)
              (simp only: scan newline False eqTrueI [OF True] sub if_True if_False Let_def
                stop_def [symmetric] rbind_simps)
          from less.hyps [of stop stop stop "records @ [take (stop - start) (drop start buf)]", OF dec] bounds(1)
          obtain s' l' st' out where
              "scan_loop eof buf stop stop stop (records @ [take (stop - start) (drop start buf)])
                = (Inr (s', l', st', (records @ [take (stop - start) (drop start buf)]) @ out) :: ('e, _) outcome)"
            and inv: "st' \<le> l' \<and> l' \<le> s' \<and> s' \<le> length buf \<and> (eof \<longrightarrow> s' = length buf)"
            and fut: "\<forall>rest. (eof \<longrightarrow> rest = []) \<longrightarrow>
              future_at (buf @ rest) stop stop stop = out @ future_at (buf @ rest) s' l' st'"
            by auto
          with loop step True show ?thesis
            by (intro exI [of _ s'] exI [of _ l'] exI [of _ st']
                exI [of _ "take (stop - start) (drop start buf) # out"]) simp
        next
          case other: False
          have loop: "scan_loop eof buf scan line start records
              = (scan_loop eof buf stop stop start records :: ('e, _) outcome)"
            by (subst scan_loop.simps)
              (simp only: scan newline False other if_True if_False Let_def stop_def [symmetric])
          from less.hyps [of stop start stop records, OF dec] bounds less.prems step other show ?thesis
            unfolding loop by auto
        qed
      qed
    qed
  qed
qed

lemma future_at_shift:
  "start \<le> line \<Longrightarrow> line \<le> scan \<Longrightarrow>
   future_at buf scan line start = future_at (drop start buf) (scan - start) (line - start) 0"
  by (simp add: future_at_def)

lemma scan_records_correct:
  assumes "sse_ok d"
  shows "\<exists>d' out. scan_records d eof records = (Inr (d', records @ out) :: ('e, _) outcome) \<and> sse_ok d'
     \<and> (eof \<longrightarrow> sd_scan d' = length (sd_pending d'))
     \<and> (\<forall>rest. (eof \<longrightarrow> rest = []) \<longrightarrow> sse_future d rest = out @ sse_future d' rest)"
proof -
  have le: "0 \<le> sd_line d" "sd_line d \<le> sd_scan d" "sd_scan d \<le> length (sd_pending d)"
    using assms by (auto simp: sse_ok_def)
  obtain s l st out where loop: "scan_loop eof (sd_pending d) (sd_scan d) (sd_line d) 0 records
        = (Inr (s, l, st, records @ out) :: ('e, _) outcome)"
    and inv: "st \<le> l" "l \<le> s" "s \<le> length (sd_pending d)" "eof \<longrightarrow> s = length (sd_pending d)"
    and fut: "\<forall>rest. (eof \<longrightarrow> rest = []) \<longrightarrow>
      future_at (sd_pending d @ rest) (sd_scan d) (sd_line d) 0 = out @ future_at (sd_pending d @ rest) s l st"
    using scan_loop_correct [OF le, where 'e = 'e and eof = eof and records = records] by blast
  define d' where "d' = \<lparr>sd_pending = drop st (sd_pending d), sd_scan = s - st, sd_line = l - st\<rparr>"
  have "scan_records d eof records = (Inr (d', records @ out) :: ('e, _) outcome)"
    using inv by (simp add: scan_records_def loop slice_to_def checked_sub_def d'_def)
  moreover have "sse_ok d'" using inv by (simp add: sse_ok_def d'_def diff_le_mono)
  moreover have "sse_future d rest = out @ sse_future d' rest" if "eof \<longrightarrow> rest = []" for rest
    using fut that inv future_at_shift [of st l s "sd_pending d @ rest"] by (simp add: sse_future_def d'_def)
  moreover have "eof \<longrightarrow> sd_scan d' = length (sd_pending d')" using inv by (simp add: d'_def)
  ultimately show ?thesis by blast
qed

lemma push_parts_correct:
  assumes "sse_ok d"
  shows "\<exists>d' out. push_parts d parts records = (Inr (d', records @ out) :: ('e, _) outcome) \<and> sse_ok d'
     \<and> (\<forall>rest. sse_future d (concat parts @ rest) = out @ sse_future d' rest)"
  using assms
proof (induction parts arbitrary: d records)
  case Nil
  then show ?case by simp
next
  case (Cons part parts)
  let ?d = "d\<lparr>sd_pending := sd_pending d @ part\<rparr>"
  have "sse_ok ?d" using Cons.prems by (auto simp: sse_ok_def)
  from scan_records_correct [OF this, where 'e = 'e and eof = False and records = records]
  obtain d1 out1 where 1: "scan_records ?d False records = (Inr (d1, records @ out1) :: ('e, _) outcome)"
      "sse_ok d1" "\<forall>rest. sse_future ?d rest = out1 @ sse_future d1 rest" by auto
  from Cons.IH [OF 1(2), of "records @ out1"] obtain d2 out2 where
      2: "push_parts d1 parts (records @ out1) = (Inr (d2, (records @ out1) @ out2) :: ('e, _) outcome)"
      "sse_ok d2" "\<forall>rest. sse_future d1 (concat parts @ rest) = out2 @ sse_future d2 rest" by blast
  have "sse_future ?d rest = sse_future d (part @ rest)" for rest by (simp add: sse_future_def)
  with 1 2 show ?case
    by (intro exI [of _ d2] exI [of _ "out1 @ out2"]) simp
qed

lemma concat_chunks_of: "n \<noteq> 0 \<Longrightarrow> concat (chunks_of n xs) = xs"
  by (induction n xs rule: chunks_of.induct) (subst chunks_of.simps, auto)

lemma push_chunk:
  assumes "sse_ok d"
  shows "\<exists>d' out. push d bytes False = (Inr (d', out) :: ('e, _) outcome) \<and> sse_ok d'
     \<and> (\<forall>rest. sse_future d (bytes @ rest) = out @ sse_future d' rest)"
  using push_parts_correct [OF assms, where 'e = 'e and parts = "chunks_of 8192 bytes" and records = "[]"]
  by (auto simp: push_def concat_chunks_of)

lemma push_end:
  assumes "sse_ok d"
  shows "push d bytes True = (Inr (sse_decoder_default, sse_future d bytes) :: ('e, _) outcome)"
proof -
  from push_parts_correct [OF assms, where 'e = 'e and parts = "chunks_of 8192 bytes" and records = "[]"]
  obtain d1 out where 1: "push_parts d (chunks_of 8192 bytes) [] = (Inr (d1, out) :: ('e, _) outcome)" "sse_ok d1"
      "\<forall>rest. sse_future d (bytes @ rest) = out @ sse_future d1 rest"
    by (auto simp: concat_chunks_of)
  from scan_records_correct [OF 1(2), where 'e = 'e and eof = True and records = out]
  obtain d2 out2 where 2: "scan_records d1 True out = (Inr (d2, out @ out2) :: ('e, _) outcome)" "sse_ok d2"
      "sd_scan d2 = length (sd_pending d2)" "sse_future d1 [] = out2 @ sse_future d2 []" by auto
  have "sse_future d2 [] = (if sd_pending d2 \<noteq> [] then [sd_pending d2] else [])"
    using 2(2,3) future_at_done [of 0 "sd_line d2" "sd_scan d2" "sd_pending d2"]
    by (auto simp: sse_future_def sse_ok_def)
  with 1 2 show ?thesis by (auto simp: push_def dest: spec [of _ "[]"])
qed

section \<open>Interface: decoders that are fed in chunks\<close>

text \<open>
  A client feeds a decoder chunks and then ends the input. The laws say what a provider
  promises: no failure, and a fixed list of items for the bytes still to come.
\<close>

fun feed :: "('s \<Rightarrow> 'a list \<Rightarrow> bool \<Rightarrow> ('e, 's \<times> 'b list) outcome) \<Rightarrow> 's \<Rightarrow> 'a list list \<Rightarrow> ('e, 's \<times> 'b list) outcome" where
  "feed step s [] = step s [] True"
| "feed step s (c # cs) = rbind (step s c False) (\<lambda>(s', out). rbind (feed step s' cs) (\<lambda>(s'', out').
     Inr (s'', out @ out')))"

locale stream_decoder =
  fixes step :: "'s \<Rightarrow> 'a list \<Rightarrow> bool \<Rightarrow> ('e, 's \<times> 'b list) outcome"
    and init :: 's and ok :: "'s \<Rightarrow> bool" and future :: "'s \<Rightarrow> 'a list \<Rightarrow> 'b list"
  assumes init_ok: "ok init"
    and step_chunk: "ok s \<Longrightarrow> \<exists>s' out. step s xs False = Inr (s', out) \<and> ok s'
      \<and> (\<forall>rest. future s (xs @ rest) = out @ future s' rest)"
    and step_end: "ok s \<Longrightarrow> step s xs True = Inr (init, future s xs)"
begin

lemma feed_future: "ok s \<Longrightarrow> feed step s cs = Inr (init, future s (concat cs))"
proof (induction cs arbitrary: s)
  case Nil
  then show ?case by (simp add: step_end)
next
  case (Cons c cs)
  from step_chunk [OF Cons.prems, of c] obtain s' out where
    "step s c False = Inr (s', out)" "ok s'" "\<forall>rest. future s (c @ rest) = out @ future s' rest" by blast
  with Cons.IH show ?case by simp
qed

lemma feed_chunking: "concat cs = concat ds \<Longrightarrow> feed step init cs = feed step init ds"
  by (simp add: feed_future init_ok)

lemma feed_all: "feed step init cs = Inr (init, future init (concat cs))"
  by (rule feed_future [OF init_ok])

end

interpretation sse: stream_decoder push sse_decoder_default sse_ok sse_future
proof
  show "sse_ok sse_decoder_default" by (simp add: sse_ok_def sse_decoder_default_def)
next
  fix d xs
  assume "sse_ok d"
  then show "\<exists>d' out. push d xs False = (Inr (d', out) :: ('e, _) outcome) \<and> sse_ok d'
      \<and> (\<forall>rest. sse_future d (xs @ rest) = out @ sse_future d' rest)"
    by (rule push_chunk)
next
  fix d xs
  assume "sse_ok d"
  then show "push d xs True = (Inr (sse_decoder_default, sse_future d xs) :: ('e, _) outcome)"
    by (rule push_end)
qed

lemma sse_future_init: "sse_future sse_decoder_default bs = ref_records bs"
  by (simp add: sse_future_def future_at_def ref_records_def sse_decoder_default_def)

section \<open>The reference loses nothing\<close>

lemma concat_ref_lines: "concat (map (\<lambda>(l, e). l @ e) (ref_lines cr lf cur xs)) = cur @ xs"
  by (induction cr lf cur xs rule: ref_lines.induct) (auto split: list.split)

lemma concat_ref_group: "concat (ref_group cur ls) = cur @ concat (map (\<lambda>(l, e). l @ e) ls)"
  by (induction cur ls rule: ref_group.induct) auto

lemma concat_ref_records: "concat (ref_records bs) = bs"
  by (simp add: ref_records_def concat_ref_group concat_ref_lines)

lemma ref_group_nonempty: "r \<in> set (ref_group cur ls) \<Longrightarrow> r \<noteq> []"
  by (induction cur ls rule: ref_group.induct) (auto split: if_splits)

section \<open>Reading one record\<close>

abbreviation cr :: char where "cr \<equiv> CHR 0x0D"
abbreviation lf :: char where "lf \<equiv> CHR 0x0A"

text \<open>
  The index loop of \<open>lines\<close>: \<open>start\<close> is where the line began. Its slices are in range because
  \<open>start \<le> i\<close>, and fall on character boundaries because both endings are ASCII.
\<close>

function lines_loop :: "string \<Rightarrow> nat \<Rightarrow> nat \<Rightarrow> (string \<times> string) list \<Rightarrow> (string \<times> string) list" where
  "lines_loop record start i result =
     (if i < length record then
        if record ! i \<noteq> cr \<and> record ! i \<noteq> lf then lines_loop record start (i + 1) result
        else
          let stop = i + (if record ! i = cr \<and> i + 1 < length record \<and> record ! (i + 1) = lf then 2 else 1) in
          lines_loop record stop stop
            (result @ [(take (i - start) (drop start record), take (stop - i) (drop i record))])
      else if start < length record then result @ [(drop start record, [])] else result)"
  by pat_completeness auto

termination
  by (relation "measure (\<lambda>(record, start, i, result). length record - i)") auto

declare lines_loop.simps [simp del]

definition lines :: "string \<Rightarrow> (string \<times> string) list" where
  "lines record = lines_loop record 0 0 []"

definition data :: "string \<Rightarrow> string option" where
  "data line =
     (if line = ''data'' then Some []
      else map_option (\<lambda>s. or_else s (strip_prefix '' '' s)) (strip_prefix ''data:'' line))"

definition event_name :: "(string \<times> string) list \<Rightarrow> string option" where
  "event_name ls =
     first_of (rev (List.map_filter (\<lambda>(line, _).
       if line = ''event'' then Some []
       else map_option (\<lambda>name. or_else name (strip_prefix '' '' name)) (strip_prefix ''event:'' line)) ls))"

definition data_values :: "(string \<times> string) list \<Rightarrow> string list" where
  "data_values ls = List.map_filter (\<lambda>(line, _). data line) ls"

text \<open>The record with its last data line replaced by \<open>body\<close> and the other data lines left out.\<close>

fun rebuild :: "string \<Rightarrow> nat \<Rightarrow> (string \<times> string) list \<Rightarrow> string" where
  "rebuild body remaining [] = []"
| "rebuild body remaining ((line, ending) # ls) =
     (case data line of
        None \<Rightarrow> line @ ending @ rebuild body remaining ls
      | Some _ \<Rightarrow>
          (if remaining - 1 = 0 then ''data: '' @ body @ ending else []) @ rebuild body (remaining - 1) ls)"

definition receipt_of :: "bool \<Rightarrow> bool \<Rightarrow> json \<Rightarrow> json" where
  "receipt_of responses messages body =
     (if responses then jindex body ''response''
      else if messages then
        (if jindex body ''type'' = JStr ''message_start'' then jindex body ''message'' else JNull)
      else body)"

definition transform ::
  "('c, 'z) e2ee_prims_scheme \<Rightarrow> bytes \<Rightarrow> response_key option \<Rightarrow> string option \<Rightarrow> bool \<Rightarrow> bool
     \<Rightarrow> (bytes \<times> string option) inf" where
  "transform P record key rid responses messages =
     rbind (ok_or (Api invalid_response) (from_utf8 record)) (\<lambda>text.
     let ls = lines text;
         values = data_values ls;
         joined = join_with [lf] values in
     if values = [] \<or> joined = [] \<or> joined = ''[DONE]'' \<or> event_name ls = Some ''error'' then Inr (record, rid)
     else
       (case json_parse P (as_bytes joined) of
          None \<Rightarrow> if key = None then Inr (record, rid) else fail (Api invalid_response)
        | Some body \<Rightarrow>
            rbind (case Option.bind (jget (receipt_of responses messages body) ''id'') as_str of
                Some v \<Rightarrow>
                  if v \<noteq> [] then
                    rbind (ensure (rid = None \<or> rid = Some v) (Api invalid_response)) (\<lambda>_. Inr (Some v))
                  else Inr rid
              | None \<Rightarrow> Inr rid) (\<lambda>id'.
            (case key of
               None \<Rightarrow> Inr (record, id')
             | Some key \<Rightarrow>
                 rbind (ensure (is_object body) (Api invalid_response)) (\<lambda>_.
                 if jget body ''choices'' = None then Inr (record, id')
                 else
                   rbind (lift_ver (decrypt_response P key True body)) (\<lambda>body'.
                   Inr (as_bytes (rebuild (json_print P body') (length values) ls), id')))))))"

section \<open>The state of a Messages stream\<close>

record message_stream_state =
  ms_started :: bool
  ms_stopped :: bool

definition message_stream_default :: message_stream_state where
  "message_stream_default = \<lparr>ms_started = False, ms_stopped = False\<rparr>"

definition observe :: "'z prims_scheme \<Rightarrow> message_stream_state \<Rightarrow> bytes \<Rightarrow> message_stream_state inf" where
  "observe P s record =
     rbind (ok_or (Api invalid_response) (from_utf8 record)) (\<lambda>text.
     let ls = lines text in
     rbind (ensure (ls \<noteq> [] \<and> fst (last ls) = []) (Api invalid_response)) (\<lambda>_.
     let joined = join_with [lf] (data_values ls);
         name = event_name ls in
     rbind (ensure (name \<noteq> Some ''error'') (Api invalid_response)) (\<lambda>_.
     if joined = [] then Inr s
     else
       rbind (ok_or (Api invalid_response) (json_parse P (as_bytes joined))) (\<lambda>event.
       let kind = as_str (jindex event ''type'') in
       rbind (ensure (\<not> (ms_stopped s \<or> kind = Some ''error'' \<or> (case kind of None \<Rightarrow> True | Some k \<Rightarrow> k = [])
                \<or> (case name of None \<Rightarrow> False | Some n \<Rightarrow> Some n \<noteq> kind))) (Api invalid_response)) (\<lambda>_.
       if kind = Some ''message_start'' then
         rbind (ensure (\<not> ms_started s) (Api invalid_response)) (\<lambda>_. Inr (s\<lparr>ms_started := True\<rparr>))
       else if kind = Some ''message_stop'' then Inr (s\<lparr>ms_stopped := True\<rparr>)
       else Inr s)))))"

definition stream_finish :: "message_stream_state \<Rightarrow> unit inf" where
  "stream_finish s = ensure (ms_started s \<and> ms_stopped s) (Api invalid_response)"

section \<open>Decrypting a stream (\<open>e2ee.rs\<close>)\<close>

text \<open>
  \<open>decrypt_sse\<close> yields items until the source or a record fails: the result is the items
  yielded and how the stream ended.
\<close>

fun decrypt_records ::
  "('c, 'z) e2ee_prims_scheme \<Rightarrow> response_key \<Rightarrow> string option \<Rightarrow> bytes list \<Rightarrow> bytes list \<times> string option inf" where
  "decrypt_records P key rid [] = ([], Inr rid)"
| "decrypt_records P key rid (r # rs) =
     (case transform P r (Some key) rid False False of
        Inl f \<Rightarrow> ([], Inl f)
      | Inr (out, id') \<Rightarrow> (let (outs, fin) = decrypt_records P key id' rs in (out # outs, fin)))"

fun decrypt_sse_from ::
  "('c, 'z) e2ee_prims_scheme \<Rightarrow> response_key \<Rightarrow> sse_decoder \<Rightarrow> string option \<Rightarrow> bytes inf list
     \<Rightarrow> bytes list \<times> string option inf" where
  "decrypt_sse_from P key d rid [] =
     (case push d [] True of
        Inl f \<Rightarrow> ([], Inl f)
      | Inr (_, records) \<Rightarrow> decrypt_records P key rid records)"
| "decrypt_sse_from P key d rid (Inl f # source) = ([], Inl f)"
| "decrypt_sse_from P key d rid (Inr chunk # source) =
     (case push d chunk False of
        Inl f \<Rightarrow> ([], Inl f)
      | Inr (d', records) \<Rightarrow>
          (case decrypt_records P key rid records of
             (outs, Inl f) \<Rightarrow> (outs, Inl f)
           | (outs, Inr id') \<Rightarrow>
               (let (outs', fin) = decrypt_sse_from P key d' id' source in (outs @ outs', fin))))"

definition decrypt_sse ::
  "('c, 'z) e2ee_prims_scheme \<Rightarrow> prepared_e2ee_request \<Rightarrow> bytes inf list \<Rightarrow> bytes list \<times> string option inf" where
  "decrypt_sse P prepared source = decrypt_sse_from P (pe_key prepared) sse_decoder_default None source"

section \<open>Lines\<close>

lemma lines_loop_ref:
  assumes "start \<le> i" and "i \<le> length record"
  shows "lines_loop record start i result = result @ ref_lines cr lf (take (i - start) (drop start record)) (drop i record)"
  using assms
proof (induction "length record - i" arbitrary: i start result rule: less_induct)
  case less
  show ?case
  proof (cases "i < length record")
    case False
    with less.prems show ?thesis by (subst lines_loop.simps) auto
  next
    case i: True
    then have d: "drop i record = record ! i # drop (Suc i) record" by (simp add: Cons_nth_drop_Suc)
    show ?thesis
    proof (cases "record ! i \<noteq> cr \<and> record ! i \<noteq> lf")
      case True
      with less.hyps [of "Suc i" start result] less.prems i d show ?thesis
        by (subst lines_loop.simps) (simp add: Suc_diff_le take_Suc_conv_app_nth)
    next
      case False
      define stop where "stop = i + (if record ! i = cr \<and> i + 1 < length record \<and> record ! (i + 1) = lf then 2 else 1)"
      have bounds: "i < stop" "stop \<le> length record" using i by (auto simp: stop_def split: if_splits)
      have ref: "ref_lines cr lf cur (drop i record)
          = (cur, take (stop - i) (drop i record)) # ref_lines cr lf [] (drop stop record)" for cur
      proof (cases "Suc i < length record")
        case True
        then have d2: "drop (Suc i) record = record ! Suc i # drop (Suc (Suc i)) record"
          by (simp add: Cons_nth_drop_Suc)
        show ?thesis using False True stop_def by (auto simp: d d2)
      next
        case last: False
        with i have "drop (Suc i) record = []" by simp
        with False last stop_def show ?thesis by (auto simp: d)
      qed
      have "lines_loop record start i result = lines_loop record stop stop
          (result @ [(take (i - start) (drop start record), take (stop - i) (drop i record))])"
        by (subst lines_loop.simps) (simp only: i False if_True if_False Let_def stop_def [symmetric])
      also have "\<dots> = (result @ [(take (i - start) (drop start record), take (stop - i) (drop i record))])
          @ ref_lines cr lf [] (drop stop record)"
        using less.hyps [of stop stop] bounds i by simp
      finally show ?thesis by (simp add: ref)
    qed
  qed
qed

lemma lines_ref: "lines record = ref_lines cr lf [] record"
  by (simp add: lines_def lines_loop_ref)

lemma concat_lines: "concat (map (\<lambda>(l, e). l @ e) (lines record)) = record"
  by (simp add: lines_ref concat_ref_lines)

section \<open>What a record's transformation keeps\<close>

lemma transform_without_key:
  "transform P record None rid responses messages = Inr (out, id') \<Longrightarrow> out = record"
  by (auto simp: transform_def Let_def outcome_simps split: if_splits option.splits)

lemma transform_id:
  "transform P record key rid responses messages = Inr (out, id') \<Longrightarrow> rid = Some v \<Longrightarrow> id' = Some v"
  by (auto simp: transform_def Let_def outcome_simps split: if_splits option.splits)

lemma decrypt_records_append:
  "decrypt_records P key rid (rs @ rs') =
     (case decrypt_records P key rid rs of
        (outs, Inl f) \<Rightarrow> (outs, Inl f)
      | (outs, Inr id') \<Rightarrow> (let (outs', fin) = decrypt_records P key id' rs' in (outs @ outs', fin)))"
  by (induction rs arbitrary: rid) (auto split: sum.splits prod.splits)

lemma decrypt_sse_from_future:
  "sse_ok d \<Longrightarrow> decrypt_sse_from P key d rid (map Inr cs) = decrypt_records P key rid (sse_future d (concat cs))"
proof (induction cs arbitrary: d rid)
  case Nil
  then show ?case by (simp add: sse.step_end)
next
  case (Cons c cs)
  from sse.step_chunk [OF Cons.prems, of c] obtain d' out where
    "push d c False = (Inr (d', out) :: (inference_error, _) outcome)" "sse_ok d'"
    "\<forall>rest. sse_future d (c @ rest) = out @ sse_future d' rest" by blast
  with Cons.IH show ?case
    by (auto simp: decrypt_records_append split: sum.splits prod.splits)
qed

section \<open>What a complete Messages stream contains\<close>

text \<open>The type of the event a record carries, when it carries one.\<close>

definition event_kind :: "'z prims_scheme \<Rightarrow> bytes \<Rightarrow> string option" where
  "event_kind P record =
     Option.bind (from_utf8 record) (\<lambda>text.
     let joined = join_with [lf] (data_values (lines text)) in
     if joined = [] then None
     else Option.bind (json_parse P (as_bytes joined)) (\<lambda>event. as_str (jindex event ''type'')))"

fun observe_all :: "'z prims_scheme \<Rightarrow> message_stream_state \<Rightarrow> bytes list \<Rightarrow> message_stream_state inf" where
  "observe_all P s [] = Inr s"
| "observe_all P s (r # rs) = rbind (observe P s r) (\<lambda>s'. observe_all P s' rs)"

lemma observe_ok:
  "observe P s r = Inr s' \<Longrightarrow>
     (event_kind P r = None \<and> s' = s) \<or>
     (\<exists>k. event_kind P r = Some k \<and> k \<noteq> [] \<and> k \<noteq> ''error'' \<and> \<not> ms_stopped s
        \<and> (k = ''message_start'' \<longrightarrow> \<not> ms_started s)
        \<and> s' = \<lparr>ms_started = (ms_started s \<or> k = ''message_start''),
               ms_stopped = (k = ''message_stop'')\<rparr>)"
  by (cases s) (auto simp: observe_def event_kind_def Let_def outcome_simps split: if_splits option.splits)

definition stream_kinds :: "'z prims_scheme \<Rightarrow> bytes list \<Rightarrow> string list" where
  "stream_kinds P rs = List.map_filter (event_kind P) rs"

definition kinds_accepted :: "message_stream_state \<Rightarrow> string list \<Rightarrow> message_stream_state \<Rightarrow> bool" where
  "kinds_accepted s ks s' \<longleftrightarrow>
     (if ks = [] then s' = s
      else \<not> ms_stopped s \<and> ''error'' \<notin> set ks \<and> ''message_stop'' \<notin> set (butlast ks)
        \<and> (ms_stopped s' \<longleftrightarrow> last ks = ''message_stop'')
        \<and> (if ms_started s then ''message_start'' \<notin> set ks \<and> ms_started s'
            else count_list ks ''message_start'' = (if ms_started s' then 1 else 0)))"

lemma kinds_accepted_Cons:
  assumes "k \<noteq> ''error''" "\<not> ms_stopped s" "k = ''message_start'' \<longrightarrow> \<not> ms_started s"
    and "s1 = \<lparr>ms_started = (ms_started s \<or> k = ''message_start''), ms_stopped = (k = ''message_stop'')\<rparr>"
    and "kinds_accepted s1 ks s'"
  shows "kinds_accepted s (k # ks) s'"
proof (cases "ks = []")
  case True
  with assms show ?thesis by (auto simp: kinds_accepted_def)
next
  case False
  with assms show ?thesis
    by (cases "k = ''message_start''") (auto simp: kinds_accepted_def count_list_0_iff)
qed

lemma observe_all_kinds: "observe_all P s rs = Inr s' \<Longrightarrow> kinds_accepted s (stream_kinds P rs) s'"
proof (induction rs arbitrary: s)
  case Nil
  then show ?case by (simp add: stream_kinds_def kinds_accepted_def)
next
  case (Cons r rs)
  from Cons.prems obtain s1 where 1: "observe P s r = Inr s1" "observe_all P s1 rs = Inr s'"
    by (auto simp: outcome_simps)
  show ?case
  proof (cases "event_kind P r")
    case None
    with observe_ok [OF 1(1)] have "s1 = s" by auto
    with Cons.IH [OF 1(2)] None show ?thesis by (simp add: stream_kinds_def)
  next
    case (Some k)
    have kinds: "stream_kinds P (r # rs) = k # stream_kinds P rs" using Some by (simp add: stream_kinds_def)
    from observe_ok [OF 1(1)] Some have "k \<noteq> ''error''" "\<not> ms_stopped s"
        "k = ''message_start'' \<longrightarrow> \<not> ms_started s"
        "s1 = \<lparr>ms_started = (ms_started s \<or> k = ''message_start''), ms_stopped = (k = ''message_stop'')\<rparr>" by auto
    then show ?thesis unfolding kinds using Cons.IH [OF 1(2)] by (rule kinds_accepted_Cons)
  qed
qed

section \<open>Properties\<close>

text \<open>C8: The scanner is exact, total and lossless. However a byte stream is cut into chunks,
  feeding them and ending the input never fails an index, slice or subtraction, emits exactly
  the records of the reference splitter on the whole stream, returns to the initial state,
  and the records joined together are the stream.\<close>

lemma sse_scanner_exact:
  "feed push sse_decoder_default chunks = (Inr (sse_decoder_default, ref_records (concat chunks)) :: ('e, _) outcome)
     \<and> concat (ref_records (concat chunks)) = concat chunks"
  by (simp add: sse.feed_all sse_future_init concat_ref_records)

text \<open>Decryption of a stream does not depend on its chunking. For a source that delivers its
  bytes without failing, the items yielded and the way the stream ends are those of
  transforming the reference's records in order.\<close>

lemma decrypt_sse_chunking:
  "decrypt_sse P prepared (map Inr chunks)
     = decrypt_records P (pe_key prepared) None (ref_records (concat chunks))"
proof -
  have "sse_ok sse_decoder_default" by (simp add: sse_ok_def sse_decoder_default_def)
  then show ?thesis by (simp add: decrypt_sse_def decrypt_sse_from_future sse_future_init)
qed

text \<open>C17: A Messages stream that is accepted to its end is complete. Its events contain exactly one
  \<open>message_start\<close>, exactly one \<open>message_stop\<close>, which is the last event, and no \<open>error\<close>.\<close>

lemma complete_message_stream:
  assumes "observe_all P message_stream_default records = Inr s" and "stream_finish s = Inr ()"
  shows "count_list (stream_kinds P records) ''message_start'' = 1
     \<and> count_list (stream_kinds P records) ''message_stop'' = 1
     \<and> last (stream_kinds P records) = ''message_stop''
     \<and> ''error'' \<notin> set (stream_kinds P records)"
proof -
  let ?ks = "stream_kinds P records"
  have fin: "ms_started s" "ms_stopped s" using assms(2)
    by (simp_all add: stream_finish_def outcome_simps)
  from observe_all_kinds [OF assms(1)] fin
  have ne: "?ks \<noteq> []"
    and k: "''error'' \<notin> set ?ks" "''message_stop'' \<notin> set (butlast ?ks)" "last ?ks = ''message_stop''"
      "count_list ?ks ''message_start'' = 1"
    by (auto simp: kinds_accepted_def message_stream_default_def split: if_splits)
  have "count_list (butlast ?ks @ [last ?ks]) ''message_stop'' = 1"
    using k(2,3) by (simp add: count_list_0_iff)
  moreover have "butlast ?ks @ [last ?ks] = ?ks" using ne by simp
  ultimately have "count_list ?ks ''message_stop'' = 1" by (simp only:)
  with k show ?thesis by simp
qed

definition demo_event :: "string \<Rightarrow> bytes" where
  "demo_event kind = as_bytes (''data: '' @ put_json (JObj [(''type'', JStr kind)]) @ [lf, lf])"

text \<open>An instance whose JSON texts are single letters.\<close>

definition demo_letters :: prims where
  "demo_letters = demo_prims\<lparr>json_parse := (\<lambda>b. Some (JObj [(''type'',
     JStr (if b = as_bytes ''s'' then ''message_start'' else ''message_stop''))]))\<rparr>"

lemma complete_message_stream_witness:
  "count_list (stream_kinds demo_letters [as_bytes (''data: s'' @ [lf, lf]), as_bytes (''data: p'' @ [lf, lf])])
     ''message_start'' = 1"
proof -
  have "observe_all demo_letters message_stream_default [as_bytes (''data: s'' @ [lf, lf]), as_bytes (''data: p'' @ [lf, lf])]
      = Inr \<lparr>ms_started = True, ms_stopped = True\<rparr>" by code_simp
  from complete_message_stream [OF this] show ?thesis by (simp add: stream_finish_def)
qed

text \<open>A stream keeps its receipt. Without a decryption key a record passes unchanged, byte for
  byte; and once a record has named a receipt id, every later record that is accepted leaves
  that id in place, so one stream cannot deliver two receipts.\<close>

lemma transform_keeps_receipt:
  assumes "transform P record key rid responses messages = Inr (out, rid')"
  shows "(key \<noteq> None \<or> out = record) \<and> (rid = None \<or> rid' = rid)"
  using assms transform_without_key [of P "record" rid responses messages out rid']
    transform_id [of P "record" key rid responses messages out rid']
  by (cases key; cases rid) auto

lemma transform_keeps_receipt_witness:
  "transform demo_e2ee (demo_event ''x'') None (Some ''1'') False False = Inr (demo_event ''x'', Some ''1'')
     \<and> Some ''1'' = (Some ''1'' :: string option)"
proof -
  have run: "transform demo_e2ee (demo_event ''x'') None (Some ''1'') False False = Inr (demo_event ''x'', Some ''1'')"
    by code_simp
  show ?thesis
    using run transform_keeps_receipt [OF run] by simp
qed

end
