(* ===== verification/Ohttp.thy ===== *)
theory Ohttp
  imports Bhttp Cloud_Api E2ee Sse
begin

text \<open>
  \<open>ohttp.rs\<close>: oblivious HTTP. The key configuration is authenticated against the verified signer and
  reduced to one suite; a request is written as Binary HTTP, padded, sealed and sent to the relay with
  the few headers the relay needs; the decrypted reply is read incrementally with every length
  bounded. HPKE sealing and opening (crate \<open>ohttp\<close>) are operations of the environment.
\<close>

text \<open>
  \<open>ohttp_config_ok\<close> is \<open>ClientRequest::from_encoded_config\<close>; \<open>ohttp_start\<close> begins a stream under
  a configuration with fresh randomness, \<open>ohttp_write\<close> seals the whole plaintext and \<open>ohttp_open\<close>
  decrypts a response body, given as its chunks and whether it broke off: the plaintext in pieces, and
  whether its final chunk was authenticated. \<open>header_room\<close> is the capacity of a \<open>HeaderMap\<close>.
\<close>

record ('c, 'o) ohttp_prims = "'c e2ee_prims" +
  ohttp_config_ok :: "bytes \<Rightarrow> bool"
  ohttp_start :: "bytes \<Rightarrow> bytes \<Rightarrow> 'o option"
  ohttp_write :: "'o \<Rightarrow> bytes \<Rightarrow> bytes option"
  ohttp_open :: "'o \<Rightarrow> bytes list \<Rightarrow> bool \<Rightarrow> (bytes list \<times> bool) option"
  header_room :: "headers \<Rightarrow> string \<Rightarrow> bool"
  ed25519_verify_strict :: "bytes \<Rightarrow> bytes \<Rightarrow> bytes \<Rightarrow> bool"

section \<open>Key configuration\<close>

definition verify_ohttp_key_config ::
  "('c, 'o, 'z) ohttp_prims_scheme \<Rightarrow> ohttp_attestation \<Rightarrow> signing_identity \<Rightarrow> bytes ver" where
  "verify_ohttp_key_config P attestation signer =
     (let mismatch = protocol ''ohttp.signer_mismatch'' ''configuration signer differs from verified signer'';
          invalid = protocol ''ohttp.signature_invalid'' ''invalid key configuration signature'' in
      rbind (ensure (\<not> (si_algo signer \<noteq> Ed25519 \<or> oa_signing_algo attestation \<noteq> Ed25519)) mismatch) (\<lambda>_.
      rbind (ok_or mismatch (decode_hex P (oa_signing_key attestation))) (\<lambda>key.
      rbind (ok_or mismatch (decode_hex P (si_address signer))) (\<lambda>address.
      rbind (ensure (key = address) mismatch) (\<lambda>_.
      rbind (ensure (length key = 32) mismatch) (\<lambda>_.
      rbind (ok_or invalid (decode_hex P (oa_key_config attestation))) (\<lambda>config.
      rbind (ok_or invalid (decode_hex P (oa_signature attestation))) (\<lambda>signature.
      rbind (ensure (length signature = 64) invalid) (\<lambda>_.
      rbind (ensure (ed25519_key P key) invalid) (\<lambda>_.
      rbind (ensure (ed25519_verify_strict P key config signature) invalid) (\<lambda>_.
      Inr config)))))))))))"

record ohttp_client =
  oc_config :: bytes
  oc_relay :: url
  oc_client :: http_client
  oc_forwarded :: "string list"

definition create_ohttp_client ::
  "('c, 'o, 'z) ohttp_prims_scheme \<Rightarrow> bytes \<Rightarrow> string \<Rightarrow> http_client \<Rightarrow> string list \<Rightarrow> ohttp_client inf" where
  "create_ohttp_client P config base_url client forwarded_headers =
     (let invalid = Verification (protocol ''ohttp.key_config_invalid'' ''expected X25519/HKDF-SHA256/AES128-GCM'') in
      rbind (ensure (41 \<le> length config) invalid) (\<lambda>_.
      rbind (subslice 1 3 config) (\<lambda>kem.
      rbind (ensure (kem = [0, 32]) invalid) (\<lambda>_.
      rbind (index_at config 35) (\<lambda>high.
      rbind (index_at config 36) (\<lambda>low.
      let suites = unat high * 256 + unat low in
      rbind (ensure (\<not> (suites = 0 \<or> \<not> 4 dvd suites \<or> length config \<noteq> 37 + suites
               \<or> [0, 1, 0, 1] \<notin> set (chunks_of 4 (drop 37 config)))) invalid) (\<lambda>_.
      rbind (slice_to 35 config) (\<lambda>head.
      let selected = head @ [0, 4, 0, 1, 0, 1] in
      rbind (ensure (ohttp_config_ok P selected) invalid) (\<lambda>_.
      rbind (lift_api (parse_base_url P base_url)) (\<lambda>relay.
      Inr \<lparr>oc_config = selected, oc_relay = relay\<lparr>u_path := ''/ohttp''\<rparr>, oc_client = client,
           oc_forwarded = map to_lower forwarded_headers\<rparr>))))))))))"

section \<open>The inner request\<close>

text \<open>\<open>url[BeforeHost..AfterPort]\<close>, \<open>url[BeforePath..AfterQuery]\<close> and \<open>Url::origin\<close> of an HTTP(S) URL.\<close>

definition url_authority :: "url \<Rightarrow> string" where
  "url_authority u = or_else [] (u_host u) @ (case u_port u of None \<Rightarrow> [] | Some p \<Rightarrow> '':'' @ decimal p)"

definition url_path_query :: "url \<Rightarrow> string" where
  "url_path_query u = u_path u @ (case u_query u of None \<Rightarrow> [] | Some q \<Rightarrow> ''?'' @ q)"

definition url_origin :: "url \<Rightarrow> string \<times> string option \<times> nat" where
  "url_origin u = (u_scheme u, u_host u, or_else (if u_scheme u = ''https'' then 443 else 80) (u_port u))"

definition hop_by_hop :: "headers \<Rightarrow> string \<Rightarrow> bool" where
  "hop_by_hop h name \<longleftrightarrow>
     name \<in> set hop_headers
     \<or> list_ex (\<lambda>v. eq_ignore_case (trim v) name)
         (split_on (CHR '','') (or_else [] (Option.bind (header_get ''connection'' h) header_to_str)))"

definition inner_headers :: "headers \<Rightarrow> headers" where
  "inner_headers h = filter (\<lambda>(name, _). \<not> hop_by_hop h name) h"

definition field_bytes :: "headers \<Rightarrow> bytes" where
  "field_bytes h = fold (\<lambda>(name, v) out. vector (as_bytes v) (vector (as_bytes name) out)) h []"

definition control_data :: "client_request \<Rightarrow> string list" where
  "control_data request =
     [cr_method request, u_scheme (cr_url request),
      if header_contains ''host'' (cr_headers request) then [] else url_authority (cr_url request),
      url_path_query (cr_url request)]"

text \<open>\<open>resize(len.div_ceil(CHUNK) * CHUNK, 0)\<close>\<close>

definition pad :: "bytes \<Rightarrow> bytes" where
  "pad out = out @ replicate (((length out + chunk_size - 1) div chunk_size) * chunk_size - length out) 0"

definition encode :: "client_request \<Rightarrow> bytes inf" where
  "encode request =
     rbind (ok_or (Verification (bhttp_error ''buffered body required'')) (cr_body request)) (\<lambda>body.
     let out = fold (\<lambda>f. vector (as_bytes f)) (control_data request) [0];
         field_lines = field_bytes (inner_headers (cr_headers request)) in
     rbind (ensure (\<not> (fields_limit < length field_lines \<or> message_limit < length body))
              (Verification (bhttp_error ''message too large''))) (\<lambda>_.
     Inr (pad (vector body (vector field_lines out) @ [0]))))"

section \<open>The outer request\<close>

definition e2ee_request_headers :: "string list" where
  "e2ee_request_headers = [''host'', ''x-signing-algo'', ''x-client-pub-key'', ''x-model-pub-key'',
     ''x-encryption-version'', ''x-encrypt-all-fields'']"

definition forwards :: "string list \<Rightarrow> string \<Rightarrow> bool" where
  "forwards forwarded name \<longleftrightarrow>
     (name = ''authorization'' \<or> name \<in> set forwarded) \<and> \<not> starts_with ''content-'' name
     \<and> name \<notin> set hop_headers \<and> name \<notin> set e2ee_request_headers"

definition outer_headers :: "string list \<Rightarrow> headers \<Rightarrow> headers" where
  "outer_headers forwarded h =
     header_insert ''incremental'' ''?1'' (header_insert ''content-type'' ''message/ohttp-chunked-req''
       (filter (\<lambda>(name, _). forwards forwarded name) h))"

definition outer_request ::
  "('c, 'o, 'z) ohttp_prims_scheme \<Rightarrow> ohttp_client \<Rightarrow> headers \<Rightarrow> bytes \<Rightarrow> http_request" where
  "outer_request P self h body =
     \<lparr>rq_method = ''POST'', rq_url = url_text P (oc_relay self), rq_headers = outer_headers (oc_forwarded self) h,
      rq_body = body\<rparr>"

section \<open>The inner response\<close>

definition max_informational_responses :: nat where
  "max_informational_responses = 32"

function read_head ::
  "(headers \<Rightarrow> string \<Rightarrow> bool) \<Rightarrow> bool \<Rightarrow> nat \<Rightarrow> reader \<Rightarrow> ((u16 \<times> headers) \<times> reader) ver" where
  "read_head room known informational r =
     rbind (integer False r) (\<lambda>(code, r1).
     rbind (ensure (100 \<le> code \<and> code \<le> 599) (bhttp_error ''invalid BHTTP status'')) (\<lambda>_.
     rbind (ensure (\<not> (code < 200 \<and> max_informational_responses \<le> informational))
              (bhttp_error ''too many informational responses'')) (\<lambda>_.
     rbind (fields_section room known r1) (\<lambda>(h, r2).
     if 200 \<le> code then Inr ((ucast code, h), r2)
     else read_head room known (informational + 1) r2))))"
  by pat_completeness auto

termination
  by (relation "measure (\<lambda>(room, known, informational, r). max_informational_responses - informational)")
    (auto simp: outcome_simps not_le not_less)

declare read_head.simps [simp del]

fun content_length_loop :: "string list \<Rightarrow> nat option \<Rightarrow> nat option ver" where
  "content_length_loop [] result = Inr result"
| "content_length_loop (v # vs) result =
     rbind (ok_or (bhttp_error ''invalid Content-Length'') (header_to_str v)) (\<lambda>t.
     rbind (ensure (t \<noteq> [] \<and> list_all is_digit t) (bhttp_error ''invalid Content-Length'')) (\<lambda>_.
     rbind (ok_or (bhttp_error ''invalid Content-Length'') (parse_u64 t)) (\<lambda>n.
     rbind (ensure (case result of None \<Rightarrow> True | Some r \<Rightarrow> r = n) (bhttp_error ''conflicting Content-Length'')) (\<lambda>_.
     content_length_loop vs (Some n)))))"

definition content_length :: "headers \<Rightarrow> nat option ver" where
  "content_length h = content_length_loop (header_get_all ''content-length'' h) None"

text \<open>
  The body: the pieces yielded so far and how reading ended. \<open>yield_then\<close> puts pieces before what
  follows.
\<close>

type_synonym 'a yielding = "bytes list \<times> 'a ver"

definition yield_then :: "bytes list \<Rightarrow> 'a yielding \<Rightarrow> 'a yielding" where
  "yield_then ps y = (ps @ fst y, snd y)"

definition y_bind :: "'a yielding \<Rightarrow> ('a \<Rightarrow> 'b yielding) \<Rightarrow> 'b yielding" where
  "y_bind y f = (case snd y of Inl e \<Rightarrow> (fst y, Inl e) | Inr a \<Rightarrow> yield_then (fst y) (f a))"

definition exceeds :: "bool \<Rightarrow> nat option \<Rightarrow> nat \<Rightarrow> bool" where
  "exceeds no_body expected n \<longleftrightarrow> \<not> no_body \<and> (case expected of None \<Rightarrow> False | Some m \<Rightarrow> m < n)"

function read_content ::
  "bool \<Rightarrow> nat option \<Rightarrow> nat \<Rightarrow> nat \<Rightarrow> reader \<Rightarrow> (nat \<times> reader) yielding" where
  "read_content no_body expected remaining so_far r =
     (if remaining = 0 then ([], Inr (so_far, r))
      else case exact (min remaining chunk_size) r of
          Inl e \<Rightarrow> ([], Inl e)
        | Inr (piece, r') \<Rightarrow>
            if message_limit < so_far + length piece \<or> exceeds no_body expected (so_far + length piece)
            then ([], fail (bhttp_error ''content exceeds declared length or limit''))
            else yield_then (if no_body then [] else [piece])
                   (read_content no_body expected (remaining - length piece) (so_far + length piece) r'))"
  by pat_completeness auto

lemma exact_length: "exact n r = Inr (got, r') \<Longrightarrow> length got = n"
  by (auto dest!: exact_ok simp: advanced_def)

termination read_content
  by (relation "measure (\<lambda>(no_body, expected, remaining, so_far, r). remaining)")
    (auto dest!: exact_length simp: chunk_size_def)

declare read_content.simps [simp del]

lemma y_bind_cong [fundef_cong]:
  "y = y' \<Longrightarrow> (\<And>a. snd y' = Inr a \<Longrightarrow> f a = g a) \<Longrightarrow> y_bind y f = y_bind y' g"
  by (auto simp: y_bind_def split: sum.split)

lemma read_content_shorter:
  "snd (read_content no_body expected remaining so_far r) = Inr (t, r') \<Longrightarrow>
     length (stream_text r') \<le> length (stream_text r)"
proof (induction no_body expected remaining so_far r rule: read_content.induct)
  case (1 no_body expected remaining so_far r)
  show ?case
  proof (cases "remaining = 0")
    case True
    then show ?thesis using "1.prems" by (simp add: read_content.simps)
  next
    case False
    then obtain piece r1 where piece: "exact (min remaining chunk_size) r = Inr (piece, r1)"
        and ok: "\<not> (message_limit < so_far + length piece \<or> exceeds no_body expected (so_far + length piece))"
        and rest: "snd (read_content no_body expected (remaining - length piece) (so_far + length piece) r1) = Inr (t, r')"
      using "1.prems"
      by (subst (asm) read_content.simps) (auto simp: yield_then_def split: sum.splits if_splits)
    from "1.IH" [OF False piece refl ok rest] exact_shorter [OF piece] show ?thesis by simp
  qed
qed

function read_body ::
  "bool \<Rightarrow> bool \<Rightarrow> nat option \<Rightarrow> bool \<Rightarrow> nat \<Rightarrow> reader \<Rightarrow> (nat \<times> reader) yielding" where
  "read_body known no_body expected first so_far r =
     (case integer first r of
        Inl e \<Rightarrow> ([], Inl e)
      | Inr (n, r1) \<Rightarrow>
          if n = 0 then ([], Inr (so_far, r1))
          else if message_limit < unat n then ([], fail (bhttp_error ''content exceeds message limit''))
          else y_bind (read_content no_body expected (unat n) so_far r1) (\<lambda>(so_far', r2).
            if known then ([], Inr (so_far', r2))
            else read_body known no_body expected False so_far' r2))"
  by pat_completeness auto

termination
  by (relation "measure (\<lambda>(known, no_body, expected, first, so_far, r). length (stream_text r))")
    (auto dest!: integer_shorter(2) read_content_shorter)

declare read_body.simps [simp del]

definition read_end :: "(headers \<Rightarrow> string \<Rightarrow> bool) \<Rightarrow> bool \<Rightarrow> bool \<Rightarrow> nat option \<Rightarrow> nat \<Rightarrow> reader \<Rightarrow> unit ver" where
  "read_end room known no_body expected so_far r =
     rbind (ensure (\<not> (\<not> no_body \<and> expected \<noteq> None \<and> expected \<noteq> Some so_far)) (bhttp_error ''content length mismatch'')) (\<lambda>_.
     rbind (fields_section room known r) (\<lambda>(_, r').
     drain_padding so_far r'))"

definition body_stream ::
  "(headers \<Rightarrow> string \<Rightarrow> bool) \<Rightarrow> bool \<Rightarrow> bool \<Rightarrow> nat option \<Rightarrow> reader \<Rightarrow> unit yielding" where
  "body_stream room known no_body expected r =
     y_bind (read_body known no_body expected True 0 r) (\<lambda>(so_far, r'). ([], read_end room known no_body expected so_far r'))"

text \<open>\<open>InferenceResponse\<close>: its body is a stream of chunks that ends or fails.\<close>

record inference_response =
  ir_status :: u16
  ir_headers :: headers
  ir_body :: "bytes inf list"

definition stream_items :: "unit yielding \<Rightarrow> bytes inf list" where
  "stream_items y = map Inr (fst y) @
     (case snd y of Inr _ \<Rightarrow> [] | Inl (Err e) \<Rightarrow> [fail (Verification e)] | Inl (Panic why) \<Rightarrow> [panic why])"

definition no_body_status :: "string \<Rightarrow> u16 \<Rightarrow> bool" where
  "no_body_status verb status \<longleftrightarrow> verb = ''HEAD'' \<or> status = 204 \<or> status = 205 \<or> status = 304"

text \<open>Everything after decryption, on the plaintext stream.\<close>

definition receive ::
  "('c, 'o, 'z) ohttp_prims_scheme \<Rightarrow> string \<Rightarrow> reader \<Rightarrow> inference_response ver" where
  "receive P verb r =
     rbind (integer False r) (\<lambda>(framing, r1).
     rbind (ensure (framing = 1 \<or> framing = 3) (bhttp_error ''expected BHTTP response framing'')) (\<lambda>_.
     let known = (framing = 1) in
     rbind (read_head (header_room P) known 0 r1) (\<lambda>((status, h), r2).
     rbind (content_length h) (\<lambda>expected.
     let no_body = no_body_status verb status in
     Inr \<lparr>ir_status = status, ir_headers = h,
          ir_body = stream_items (body_stream (header_room P) known no_body expected r2)\<rparr>))))"

definition response_media_type :: "headers \<Rightarrow> string" where
  "response_media_type h =
     trim (hd (split_on (CHR '';'') (or_else [] (Option.bind (header_get ''content-type'' h) header_to_str))))"

definition send_ohttp ::
  "('c, 'o, 'z) ohttp_prims_scheme \<Rightarrow> bytes \<Rightarrow> ohttp_client \<Rightarrow> client_request \<Rightarrow> inference_response inf" where
  "send_ohttp P rnd self request =
     (let encryption = Verification (protocol ''ohttp.encryption_failed'' ''request encapsulation failed'') in
      rbind (ensure (url_origin (cr_url request) = url_origin (oc_relay self))
               (Verification (bhttp_error ''request origin differs from configured origin''))) (\<lambda>_.
      rbind (ensure (ohttp_config_ok P (oc_config self)) encryption) (\<lambda>_.
      rbind (ok_or encryption (ohttp_start P (oc_config self) rnd)) (\<lambda>encapsulated.
      rbind (encode request) (\<lambda>plaintext.
      rbind (ok_or encryption (ohttp_write P encapsulated plaintext)) (\<lambda>body.
      rbind (ok_or (Api (Transport Res_Ohttp Request))
               (http_send P (oc_client self) (outer_request P self (cr_headers request) body))) (\<lambda>response.
      rbind (ensure (is_success (rs_status response)) (Api (HttpStatus Res_Ohttp (rs_status response)))) (\<lambda>_.
      rbind (ensure (eq_ignore_case (response_media_type (rs_headers response)) ''message/ohttp-chunked-res'')
               (Verification (bhttp_error ''invalid response content type''))) (\<lambda>_.
      rbind (ok_or (Verification (bhttp_error ''response context failed''))
               (ohttp_open P encapsulated (rs_chunks response) (rs_broken response))) (\<lambda>(pieces, intact).
      lift_ver (receive P (cr_method request) \<lparr>rd_pieces = pieces, rd_intact = intact\<rparr>)))))))))))"

section \<open>The request reads back\<close>

text \<open>
  The reading side of \<open>encode\<close>, from the code's own \<open>slice_vector\<close> and field reader: framing
  indicator, four control strings, the field section, the content and what follows.
\<close>

definition parse_message :: "bytes \<Rightarrow> (bytes list \<times> headers \<times> bytes \<times> bytes) ver" where
  "parse_message d =
     rbind (index_at d 0) (\<lambda>framing.
     rbind (ensure (framing = 0) (bhttp_error ''expected BHTTP request framing'')) (\<lambda>_.
     rbind (slice_vector d 1) (\<lambda>(verb, c1).
     rbind (slice_vector d c1) (\<lambda>(scheme, c2).
     rbind (slice_vector d c2) (\<lambda>(authority, c3).
     rbind (slice_vector d c3) (\<lambda>(path, c4).
     rbind (slice_vector d c4) (\<lambda>(section_bytes, c5).
     rbind (known_fields_loop (\<lambda>_ _. True) section_bytes 0 []) (\<lambda>h.
     rbind (slice_vector d c5) (\<lambda>(body, c6).
     Inr ([verb, scheme, authority, path], h, body, drop c6 d))))))))))"

lemma slice_vector_at:
  assumes "drop c d = vector b [] @ post" "c \<le> length d" "length d < 2 ^ 62"
  shows "slice_vector d c = Inr (b, c + length (vector b [])) \<and> drop (c + length (vector b [])) d = post
     \<and> c + length (vector b []) \<le> length d"
proof -
  have d: "d = take c d @ vector b [] @ post"
    using assms(1) by (metis append_take_drop_id)
  have len: "length d = c + length (vector b []) + length post"
    using arg_cong [OF assms(1), of length] assms(2) by simp
  have "length b \<le> length (vector b [])"
    by (simp add: vector_def)
  then have small: "length b < 2 ^ 62" "length (take c d) + length (vector b []) < 2 ^ 64"
    using assms(2,3) len by simp_all
  have "slice_vector d c = Inr (b, c + length (vector b []))"
    using slice_vector_reads [OF small, of post] assms(2) by (simp flip: d)
  moreover have "drop (c + length (vector b [])) d = post"
    using assms(1) by (metis add.commute append_eq_conv_conj drop_drop)
  ultimately show ?thesis
    using len by simp
qed

text \<open>Headers as a \<open>HeaderMap\<close> holds them.\<close>

definition headers_wf :: "headers \<Rightarrow> bool" where
  "headers_wf h \<longleftrightarrow> list_all (\<lambda>(name, v). header_name_from_bytes name = Some name
     \<and> header_value_from_bytes (as_bytes v) = Some v) h"

definition field_text :: "headers \<Rightarrow> bytes" where
  "field_text h = concat (map (\<lambda>(name, v). vector (as_bytes name) [] @ vector (as_bytes v) []) h)"

lemma field_text_simps [simp]:
  "field_text [] = []"
  "field_text ((n, v) # h) = vector (as_bytes n) [] @ vector (as_bytes v) [] @ field_text h"
  by (simp_all add: field_text_def)

definition short_strings :: "string list \<Rightarrow> bool" where
  "short_strings ss \<longleftrightarrow> list_all (\<lambda>s. length s < 2 ^ 62) ss"

lemma map_char_at_as_bytes [simp]: "map char_at (as_bytes s) = s"
  by (simp add: as_bytes_def comp_def)

lemma field_bytes_text:
  assumes "short_strings (map fst h @ map snd h)"
  shows "field_bytes h = field_text h"
proof -
  have "fold (\<lambda>(name, v) out. vector (as_bytes v) (vector (as_bytes name) out)) h acc = acc @ field_text h" for acc
    using assms
  proof (induction h arbitrary: acc)
    case (Cons f h)
    obtain n v where f: "f = (n, v)" by (cases f)
    have short: "length n < 2 ^ 62" "length v < 2 ^ 62" "short_strings (map fst h @ map snd h)"
      using Cons.prems f by (auto simp: short_strings_def)
    have "vector (as_bytes v) (vector (as_bytes n) acc) = acc @ vector (as_bytes n) [] @ vector (as_bytes v) []"
      using short vector_append [of "as_bytes n" acc] vector_append [of "as_bytes v" "acc @ vector (as_bytes n) []"] by simp
    with Cons.IH [OF short(3)] show ?case
      by (simp add: f)
  qed simp
  from this [of "[]"] show ?thesis by (simp add: field_bytes_def)
qed

lemma known_fields_read:
  assumes "headers_wf h" "list_all (\<lambda>(n, _). n \<notin> set hop_headers) h"
    and "drop c d = field_text h" "c \<le> length d" "length d < 2 ^ 62"
  shows "known_fields_loop (\<lambda>_ _. True) d c acc = Inr (acc @ h)"
  using assms
proof (induction h arbitrary: c acc)
  case Nil
  then show ?case by (subst known_fields_loop.simps) auto
next
  case (Cons f h)
  obtain n v where f: "f = (n, v)" by (cases f)
  have drop_c: "drop c d = vector (as_bytes n) [] @ vector (as_bytes v) [] @ field_text h"
    using Cons.prems(3) f by simp
  note name = slice_vector_at [OF drop_c Cons.prems(4,5)]
  note val = slice_vector_at [OF name [THEN conjunct2, THEN conjunct1] name [THEN conjunct2, THEN conjunct2] Cons.prems(5)]
  have "vector (as_bytes n) [] \<noteq> []"
  proof -
    have "length (as_bytes n) < 2 ^ 62"
      using Cons.prems(5) arg_cong [OF drop_c, of length] Cons.prems(4) by (simp add: vector_def)
    then show ?thesis
      using varint_bytes [of "length (as_bytes n)"] by (metis append_is_Nil_conv list.distinct(1) vector_def)
  qed
  then have "c < length d"
    using drop_c Cons.prems(4) by (metis append_is_Nil_conv drop_all le_neq_implies_less le_refl)
  moreover have "insert_field (\<lambda>_ _. True) acc (as_bytes n) (as_bytes v) = Inr (acc @ [(n, v)])"
    using Cons.prems(1,2) f by (simp add: insert_field_def headers_wf_def)
  ultimately show ?case
    using name val Cons.IH [of "c + length (vector (as_bytes n) []) + length (vector (as_bytes v) [])" "acc @ [(n, v)]"]
      Cons.prems f
    by (subst known_fields_loop.simps) (simp add: headers_wf_def)
qed

lemma inner_headers_wf:
  "headers_wf h \<Longrightarrow> headers_wf (inner_headers h) \<and> list_all (\<lambda>(n, _). n \<notin> set hop_headers) (inner_headers h)"
  by (auto simp: headers_wf_def inner_headers_def list_all_iff hop_by_hop_def)

lemma pad_props: "chunk_size dvd length (pad out)" "\<exists>n. pad out = out @ replicate n 0"
proof -
  have "length out \<le> ((length out + chunk_size - 1) div chunk_size) * chunk_size"
    by (simp add: chunk_size_def)
  then show "chunk_size dvd length (pad out)"
    by (simp add: pad_def)
  show "\<exists>n. pad out = out @ replicate n 0"
    by (auto simp: pad_def)
qed

lemma control_fold:
  assumes "short_strings ss"
  shows "fold (\<lambda>f. vector (as_bytes f)) ss acc = acc @ concat (map (\<lambda>f. vector (as_bytes f) []) ss)"
  using assms
proof (induction ss arbitrary: acc)
  case (Cons f ss)
  then show ?case
    using vector_append [of "as_bytes f" acc] by (simp add: short_strings_def)
qed simp

lemma encode_parses:
  assumes "encode request = Inr out" and "headers_wf (cr_headers request)"
    and "short_strings (control_data request)"
    and "short_strings (map fst (inner_headers (cr_headers request)) @ map snd (inner_headers (cr_headers request)))"
    and "length out < 2 ^ 62"
  shows "\<exists>body n. cr_body request = Some body
     \<and> parse_message out = Inr (map as_bytes (control_data request), inner_headers (cr_headers request), body, replicate n 0)
     \<and> chunk_size dvd length out"
proof -
  let ?h = "inner_headers (cr_headers request)"
  define section_bytes where "section_bytes = field_bytes ?h"
  have section_text: "section_bytes = field_text ?h"
    unfolding section_bytes_def by (rule field_bytes_text [OF assms(4)])
  obtain body where body: "cr_body request = Some body" "length section_bytes \<le> fields_limit" "length body \<le> message_limit"
      and out: "out = pad (vector body (vector section_bytes
        (fold (\<lambda>f. vector (as_bytes f)) (control_data request) [0])) @ [0])"
    using assms(1) by (auto simp: encode_def Let_def section_bytes_def outcome_simps)
  obtain n where n: "out = vector body (vector section_bytes
      (fold (\<lambda>f. vector (as_bytes f)) (control_data request) [0])) @ replicate n 0"
    unfolding out using pad_props(2) by (metis append.assoc replicate_Suc append_Cons append_Nil)
  obtain verb scheme authority path where cd: "control_data request = [verb, scheme, authority, path]"
    by (simp add: control_data_def)
  have small: "length section_bytes < 2 ^ 62" "length body < 2 ^ 62"
    using body by (simp_all add: fields_limit_def message_limit_def)
  have layout: "out = 0 # vector (as_bytes verb) [] @ vector (as_bytes scheme) [] @ vector (as_bytes authority) []
      @ vector (as_bytes path) [] @ vector section_bytes [] @ vector body [] @ replicate n 0"
    unfolding n control_fold [OF assms(3)] unfolding cd
    by (simp add: vector_append [OF small(1), of "_ # _"] vector_append [OF small(2), of "_ # _"])
  have d1: "drop 1 out = vector (as_bytes verb) [] @ vector (as_bytes scheme) [] @ vector (as_bytes authority) []
      @ vector (as_bytes path) [] @ vector section_bytes [] @ vector body [] @ replicate n 0" "1 \<le> length out"
    by (simp_all add: layout)
  note v1 = slice_vector_at [OF d1 assms(5)]
  note v2 = slice_vector_at [OF v1 [THEN conjunct2, THEN conjunct1] v1 [THEN conjunct2, THEN conjunct2] assms(5)]
  note v3 = slice_vector_at [OF v2 [THEN conjunct2, THEN conjunct1] v2 [THEN conjunct2, THEN conjunct2] assms(5)]
  note v4 = slice_vector_at [OF v3 [THEN conjunct2, THEN conjunct1] v3 [THEN conjunct2, THEN conjunct2] assms(5)]
  note v5 = slice_vector_at [OF v4 [THEN conjunct2, THEN conjunct1] v4 [THEN conjunct2, THEN conjunct2] assms(5)]
  note v6 = slice_vector_at [OF v5 [THEN conjunct2, THEN conjunct1] v5 [THEN conjunct2, THEN conjunct2] assms(5)]
  have "known_fields_loop (\<lambda>_ _. True) section_bytes 0 [] = Inr ?h"
    using known_fields_read [of ?h 0 section_bytes "[]"] inner_headers_wf [OF assms(2)] small(1)
    by (simp add: section_text)
  moreover have "(index_at out 0 :: byte ver) = Inr 0"
    by (simp add: layout index_at_def)
  ultimately have "parse_message out = Inr (map as_bytes (control_data request), ?h, body, replicate n 0)"
    using v1 v2 v3 v4 v5 v6 by (simp add: parse_message_def cd)
  then show ?thesis
    using body(1) pad_props(1) out by blast
qed

section \<open>Reading does not depend on the pieces\<close>

definition same_stream :: "reader \<Rightarrow> reader \<Rightarrow> bool" where
  "same_stream r s \<longleftrightarrow> stream_text r = stream_text s \<and> rd_intact r = rd_intact s"

text \<open>Two readings agree when they fail alike, or give one result and leave equal streams.\<close>

definition agree :: "('e, 'a \<times> reader) outcome \<Rightarrow> ('e, 'a \<times> reader) outcome \<Rightarrow> bool" where
  "agree m m' \<longleftrightarrow> (case (m, m') of
      (Inl e, Inl e') \<Rightarrow> e = e'
    | (Inr (a, r), Inr (b, s)) \<Rightarrow> a = b \<and> same_stream r s
    | _ \<Rightarrow> False)"

lemma agree_cases:
  assumes "agree m m'"
  obtains e where "m = Inl e" "m' = Inl e" | a r s where "m = Inr (a, r)" "m' = Inr (a, s)" "same_stream r s"
  using assms by (cases m; cases m') (auto simp: agree_def)

lemma agree_bind:
  assumes "agree m m'" and "\<And>a r s. m = Inr (a, r) \<Longrightarrow> m' = Inr (a, s) \<Longrightarrow> same_stream r s \<Longrightarrow> agree (f (a, r)) (f (a, s))"
  shows "agree (rbind m f) (rbind m' f)"
  using assms(1) by (cases rule: agree_cases) (simp_all add: assms(2), simp add: agree_def)

lemma agree_same [simp]: "agree (Inl e) (Inl e)" "agree (Inr (a, r)) (Inr (a, s)) \<longleftrightarrow> same_stream r s"
  by (simp_all add: agree_def)

lemma agree_guard: "(b \<Longrightarrow> agree (f ()) (g ())) \<Longrightarrow> agree (rbind (ensure b e) f) (rbind (ensure b e) g)"
  by (cases b) simp_all

lemma agree_const: "(\<And>x. m = Inr x \<Longrightarrow> agree (f x) (g x)) \<Longrightarrow> agree (rbind m f) (rbind m g)"
  by (cases m) simp_all

lemma read_exact_agrees:
  assumes "same_stream r s"
  shows "agree (ok_or e (read_exact n r)) (ok_or e (read_exact n s))"
proof -
  have *: "read_exact n r = None \<longleftrightarrow> length (stream_text r) < n" for r
    using read_exact_None [of n r] read_exact_Some [of n r] by (cases "read_exact n r") (auto simp: advanced_def)
  show ?thesis
  proof (cases "length (stream_text r) < n")
    case True
    then have "read_exact n r = None" "read_exact n s = None"
      using assms * by (simp_all add: same_stream_def)
    then show ?thesis by simp
  next
    case False
    then obtain a r' b s' where "read_exact n r = Some (a, r')" "read_exact n s = Some (b, s')"
      using assms * [of r] * [of s] by (fastforce simp: same_stream_def)
    then show ?thesis
      using assms read_exact_Some [of n r a r'] read_exact_Some [of n s b s']
      by (auto simp: same_stream_def advanced_def)
  qed
qed

lemma exact_agrees: "same_stream r s \<Longrightarrow> agree (exact n r) (exact n s)"
  unfolding exact_def by (rule agree_guard) (rule read_exact_agrees)

lemma read_1_Some:
  assumes "read 1 r = Some (got, r')"
  shows "got = take 1 (stream_text r) \<and> stream_text r' = drop 1 (stream_text r) \<and> rd_intact r' = rd_intact r"
proof -
  note p = read_progress [OF assms zero_less_one]
  show ?thesis
  proof (cases got)
    case Nil
    then show ?thesis using p by simp
  next
    case (Cons b bs)
    then have "got = [b]" using p(2) by simp
    then show ?thesis using p(4) by (simp flip: p(1))
  qed
qed

lemma read_1_agrees:
  assumes "same_stream r s"
  shows "agree (ok_or e (read 1 r)) (ok_or e (read 1 s))"
proof (cases "read 1 r")
  case None
  then have "read 1 s = None"
    using assms by (simp add: read_None same_stream_def)
  with None show ?thesis by simp
next
  case (Some a)
  then have "read 1 s \<noteq> None"
    using assms read_None [of 1 r] read_None [of 1 s] by (simp add: same_stream_def)
  then obtain b where b: "read 1 s = Some b" by blast
  show ?thesis
    using Some b read_1_Some [of r "fst a" "snd a"] read_1_Some [of s "fst b" "snd b"] assms
    by (cases a; cases b) (simp add: same_stream_def)
qed

lemma integer_agrees:
  assumes "same_stream r s"
  shows "agree (integer e r) (integer e s)"
  unfolding integer_def
proof (rule agree_bind [OF read_1_agrees [OF assms]])
  fix a r1 s1
  assume "same_stream r1 s1"
  then show "agree
      (case (a, r1) of (first, r1) \<Rightarrow> case first of
         [] \<Rightarrow> if e then Inr (0, r1) else fail (bhttp_error ''missing BHTTP integer'')
       | b # _ \<Rightarrow> rbind (exact (2 ^ unat (drop_bit 6 b) - 1) r1) (\<lambda>(following, r2).
           Inr (foldl be_step (ucast (b AND 63)) following, r2)))
      (case (a, s1) of (first, r1) \<Rightarrow> case first of
         [] \<Rightarrow> if e then Inr (0, r1) else fail (bhttp_error ''missing BHTTP integer'')
       | b # _ \<Rightarrow> rbind (exact (2 ^ unat (drop_bit 6 b) - 1) r1) (\<lambda>(following, r2).
           Inr (foldl be_step (ucast (b AND 63)) following, r2)))"
    by (cases a) (auto intro!: agree_bind exact_agrees)
qed

lemma field_lines_agree:
  "same_stream r s \<Longrightarrow> agree (field_lines room r so_far h) (field_lines room s so_far h)"
proof (induction room r so_far h arbitrary: s rule: field_lines.induct)
  case (1 room r so_far h)
  show ?case
    unfolding field_lines.simps [of room r] field_lines.simps [of room s]
    by (intro agree_bind [OF integer_agrees [OF "1.prems"]])
      (auto intro!: agree_guard agree_const agree_bind [OF exact_agrees] agree_bind [OF integer_agrees]
        "1.IH" simp: Let_def)
qed

lemma fields_section_agrees:
  "same_stream r s \<Longrightarrow> agree (fields_section room known r) (fields_section room known s)"
  unfolding fields_section_def
  by (auto intro!: agree_bind [OF integer_agrees] agree_bind [OF exact_agrees] agree_guard agree_const field_lines_agree)

lemma read_head_agrees:
  "same_stream r s \<Longrightarrow> agree (read_head room known informational r) (read_head room known informational s)"
proof (induction room known informational r arbitrary: s rule: read_head.induct)
  case (1 room known informational r)
  show ?case
    unfolding read_head.simps [of room known informational r] read_head.simps [of room known informational s]
    by (intro agree_bind [OF integer_agrees [OF "1.prems"]])
      (auto intro!: agree_guard agree_bind [OF fields_section_agrees] "1.IH" [folded Suc_eq_plus1])
qed

definition y_agree :: "('a \<times> reader) yielding \<Rightarrow> ('a \<times> reader) yielding \<Rightarrow> bool" where
  "y_agree y y' \<longleftrightarrow> fst y = fst y' \<and> agree (snd y) (snd y')"

lemma y_agree_bind:
  assumes "y_agree y y'" and "\<And>a r s. snd y = Inr (a, r) \<Longrightarrow> same_stream r s \<Longrightarrow> y_agree (f (a, r)) (f (a, s))"
  shows "y_agree (y_bind y f) (y_bind y' f)"
proof -
  have "agree (snd y) (snd y')" "fst y = fst y'"
    using assms(1) by (simp_all add: y_agree_def)
  then show ?thesis
    by (cases rule: agree_cases)
      (use assms(2) in \<open>auto simp: y_agree_def y_bind_def yield_then_def\<close>)
qed

lemma read_content_agrees:
  "same_stream r s \<Longrightarrow> y_agree (read_content no_body expected remaining so_far r) (read_content no_body expected remaining so_far s)"
proof (induction no_body expected remaining so_far r arbitrary: s rule: read_content.induct)
  case (1 no_body expected remaining so_far r)
  show ?case
  proof (cases "remaining = 0")
    case True
    then show ?thesis
      using "1.prems" by (simp add: read_content.simps y_agree_def)
  next
    case False
    show ?thesis
      using exact_agrees [OF "1.prems", of "min remaining chunk_size"]
    proof (cases rule: agree_cases)
      case (1 e)
      then show ?thesis
        using False by (simp add: read_content.simps [of _ _ remaining] y_agree_def)
    next
      case (2 piece r1 s1)
      show ?thesis
        using False 2 "1.IH" [OF False 2(1) refl _ 2(3)]
        by (simp add: read_content.simps [of _ _ remaining] y_agree_def yield_then_def)
    qed
  qed
qed

lemma read_body_agrees:
  "same_stream r s \<Longrightarrow> y_agree (read_body known no_body expected first so_far r) (read_body known no_body expected first so_far s)"
proof (induction known no_body expected first so_far r arbitrary: s rule: read_body.induct)
  case (1 known no_body expected first so_far r)
  show ?case
    using integer_agrees [OF "1.prems", of first]
  proof (cases rule: agree_cases)
    case (1 e)
    then show ?thesis
      by (simp add: read_body.simps [of _ _ _ first] y_agree_def)
  next
    case (2 n r1 s1)
    show ?thesis
    proof (cases "n = 0 \<or> message_limit < unat n")
      case True
      then show ?thesis
        using 2 by (auto simp: read_body.simps [of _ _ _ first] y_agree_def)
    next
      case False
      have IH: "snd (read_content no_body expected (unat n) so_far r1) = Inr (t, r2) \<Longrightarrow> \<not> known \<Longrightarrow> same_stream r2 s2 \<Longrightarrow>
          y_agree (read_body known no_body expected False t r2) (read_body known no_body expected False t s2)" for t r2 s2
        using "1.IH" [OF 2(1) refl] False by auto
      have "y_agree (y_bind (read_content no_body expected (unat n) so_far r1) (\<lambda>(so_far', r2).
            if known then ([], Inr (so_far', r2)) else read_body known no_body expected False so_far' r2))
          (y_bind (read_content no_body expected (unat n) so_far s1) (\<lambda>(so_far', r2).
            if known then ([], Inr (so_far', r2)) else read_body known no_body expected False so_far' r2))"
      proof (rule y_agree_bind [OF read_content_agrees [OF 2(3)]])
        fix t r2 s2
        assume "snd (read_content no_body expected (unat n) so_far r1) = Inr (t, r2)" "same_stream r2 s2"
        then show "y_agree
            (case (t, r2) of (so_far', r2) \<Rightarrow> if known then ([], Inr (so_far', r2))
               else read_body known no_body expected False so_far' r2)
            (case (t, s2) of (so_far', r2) \<Rightarrow> if known then ([], Inr (so_far', r2))
               else read_body known no_body expected False so_far' r2)"
          using IH [of t r2 s2] by (auto simp: y_agree_def [of "([], _)"])
      qed
      then show ?thesis
        using False 2(1,2) by (simp add: read_body.simps [of _ _ _ first])
    qed
  qed
qed

lemma read_end_agrees:
  assumes "same_stream r s"
  shows "read_end room known no_body expected so_far r = Inr () \<longleftrightarrow> read_end room known no_body expected so_far s = Inr ()"
  using fields_section_agrees [OF assms, of room known]
  by (cases rule: agree_cases) (auto simp: read_end_def outcome_simps drain_padding_ok same_stream_def)

lemma body_stream_agrees:
  assumes "same_stream r s"
  shows "fst (body_stream room known no_body expected r) = fst (body_stream room known no_body expected s)
     \<and> (snd (body_stream room known no_body expected r) = Inr ()
          \<longleftrightarrow> snd (body_stream room known no_body expected s) = Inr ())"
proof -
  have y: "y_agree (read_body known no_body expected True 0 r) (read_body known no_body expected True 0 s)"
    by (rule read_body_agrees [OF assms])
  then have "agree (snd (read_body known no_body expected True 0 r)) (snd (read_body known no_body expected True 0 s))"
    by (simp add: y_agree_def)
  then show ?thesis
    by (cases rule: agree_cases)
      (use y read_end_agrees in \<open>auto simp: body_stream_def y_bind_def yield_then_def y_agree_def\<close>)
qed

section \<open>Bounds of a received body\<close>

lemma yield_then_simps [simp]: "fst (yield_then ps y) = ps @ fst y" "snd (yield_then ps y) = snd y"
  by (simp_all add: yield_then_def)

text \<open>The counts a body may reach: those within the message limit and, where there is a body, its declared length.\<close>

definition within_bounds :: "bool \<Rightarrow> nat option \<Rightarrow> nat \<Rightarrow> bool" where
  "within_bounds no_body expected n \<longleftrightarrow>
     n \<le> message_limit \<and> (\<forall>declared. \<not> no_body \<and> expected = Some declared \<longrightarrow> n \<le> declared)"

lemma within_bounds_iff: "within_bounds no_body expected n \<longleftrightarrow> \<not> (message_limit < n \<or> exceeds no_body expected n)"
  by (auto simp: within_bounds_def exceeds_def split: option.split)

lemma within_bounds_mono: "within_bounds no_body expected n \<Longrightarrow> m \<le> n \<Longrightarrow> within_bounds no_body expected m"
  by (fastforce simp: within_bounds_def)

lemma read_content_no_body: "fst (read_content True expected remaining so_far r) = []"
proof (induction True expected remaining so_far r rule: read_content.induct)
  case (1 expected remaining so_far r)
  then show ?case by (auto simp: read_content.simps [of _ _ remaining] split: sum.split)
qed

lemma read_body_no_body: "fst (read_body known True expected first so_far r) = []"
proof (induction known True expected first so_far r rule: read_body.induct)
  case (1 known expected first so_far r)
  then show ?case
    by (auto simp: read_body.simps [of _ _ _ first] y_bind_def read_content_no_body split: sum.split)
qed

lemma read_content_bounds:
  assumes "within_bounds no_body expected so_far"
  shows "within_bounds no_body expected (so_far + length (concat (fst (read_content no_body expected remaining so_far r))))
    \<and> (snd (read_content no_body expected remaining so_far r) = Inr (t, r') \<longrightarrow>
         within_bounds no_body expected t \<and> rd_intact r' = rd_intact r
         \<and> so_far + length (concat (fst (read_content no_body expected remaining so_far r))) \<le> t
         \<and> (no_body \<or> t = so_far + length (concat (fst (read_content no_body expected remaining so_far r)))))"
  using assms
proof (induction no_body expected remaining so_far r rule: read_content.induct)
  case (1 no_body expected remaining so_far r)
  show ?case
  proof (cases "remaining = 0 \<or> (\<exists>e. exact (min remaining chunk_size) r = Inl e)")
    case True
    then show ?thesis
      using "1.prems" by (auto simp: read_content.simps [of _ _ remaining])
  next
    case False
    then obtain piece r1 where piece: "exact (min remaining chunk_size) r = Inr (piece, r1)"
      by (cases "exact (min remaining chunk_size) r") auto
    have intact: "rd_intact r1 = rd_intact r"
      using exact_ok [OF piece] by (simp add: advanced_def)
    show ?thesis
    proof (cases "message_limit < so_far + length piece \<or> exceeds no_body expected (so_far + length piece)")
      case True
      then show ?thesis
        using False piece "1.prems" by (simp add: read_content.simps [of _ _ remaining])
    next
      case ok: False
      then have within: "within_bounds no_body expected (so_far + length piece)" by (simp add: within_bounds_iff)
      have less: "within_bounds no_body expected (so_far + n)" if "within_bounds no_body expected (so_far + (length piece + n))" for n
        using that by (rule within_bounds_mono) simp
      show ?thesis
        using "1.IH" [OF _ piece refl ok within] False ok piece intact less
        by (auto simp: read_content.simps [of _ _ remaining] add.assoc)
    qed
  qed
qed

lemma read_body_bounds:
  assumes "within_bounds no_body expected so_far"
  shows "within_bounds no_body expected (so_far + length (concat (fst (read_body known no_body expected first so_far r))))
    \<and> (snd (read_body known no_body expected first so_far r) = Inr (t, r') \<longrightarrow>
         within_bounds no_body expected t \<and> rd_intact r' = rd_intact r
         \<and> so_far + length (concat (fst (read_body known no_body expected first so_far r))) \<le> t
         \<and> (no_body \<or> t = so_far + length (concat (fst (read_body known no_body expected first so_far r)))))"
  using assms
proof (induction known no_body expected first so_far r rule: read_body.induct)
  case (1 known no_body expected first so_far r)
  show ?case
  proof (cases "integer first r")
    case (Inl e)
    then show ?thesis using "1.prems" by (simp add: read_body.simps [of _ _ _ first])
  next
    case (Inr a)
    then obtain n r1 where n: "integer first r = Inr (n, r1)" by (cases a) auto
    have intact: "rd_intact r1 = rd_intact r"
      using integer_advances [OF n] by (auto simp: advanced_def)
    show ?thesis
    proof (cases "n = 0 \<or> message_limit < unat n")
      case True
      then show ?thesis using n "1.prems" intact by (auto simp: read_body.simps [of _ _ _ first])
    next
      case False
      let ?c = "read_content no_body expected (unat n) so_far r1"
      have c: "within_bounds no_body expected (so_far + length (concat (fst ?c)))"
          "snd ?c = Inr (t, r2) \<Longrightarrow> within_bounds no_body expected t \<and> rd_intact r2 = rd_intact r1
             \<and> so_far + length (concat (fst ?c)) \<le> t \<and> (no_body \<or> t = so_far + length (concat (fst ?c)))" for t r2
        using read_content_bounds [OF "1.prems", of "unat n" r1 t r2]
          read_content_bounds [OF "1.prems", of "unat n" r1] by auto
      show ?thesis
      proof (cases "snd ?c")
        case (Inl e)
        then show ?thesis
          using n False c(1) by (simp add: read_body.simps [of _ _ _ first] y_bind_def)
      next
        case (Inr b)
        then obtain so_far' r2 where s: "snd ?c = Inr (so_far', r2)" by (cases b) auto
        note c2 = c(2) [OF s]
        show ?thesis
        proof (cases known)
          case True
          then show ?thesis
            using n False s c(1) c2 intact by (auto simp: read_body.simps [of _ _ _ first] y_bind_def)
        next
          case unknown: False
          have IH: "within_bounds no_body expected (so_far' + length (concat (fst (read_body known no_body expected False so_far' r2))))
              \<and> (snd (read_body known no_body expected False so_far' r2) = Inr (t, r') \<longrightarrow>
                  within_bounds no_body expected t \<and> rd_intact r' = rd_intact r2
                  \<and> so_far' + length (concat (fst (read_body known no_body expected False so_far' r2))) \<le> t
                  \<and> (no_body \<or> t = so_far' + length (concat (fst (read_body known no_body expected False so_far' r2)))))"
            using "1.IH" [OF n refl] False s unknown c2 by auto
          have more: "within_bounds no_body expected (so_far + (length (concat (fst ?c)) + n))"
            if "within_bounds no_body expected (so_far' + n)" for n
            using that by (rule within_bounds_mono) (use c2 in simp)
          show ?thesis
            using n False s c2 IH unknown intact c(1) more
            by (auto simp: read_body.simps [of _ _ _ first] y_bind_def add.assoc)
        qed
      qed
    qed
  qed
qed

lemma field_lines_intact: "field_lines room r so_far h = Inr (h', r') \<Longrightarrow> rd_intact r' = rd_intact r"
proof (induction room r so_far h rule: field_lines.induct)
  case (1 room r so_far h)
  have integer: "integer e r = Inr (v, r') \<Longrightarrow> rd_intact r' = rd_intact r" for e v r r'
    using integer_advances by (fastforce simp: advanced_def)
  have exact: "exact n r = Inr (got, r') \<Longrightarrow> rd_intact r' = rd_intact r" for n got r r'
    using exact_ok by (fastforce simp: advanced_def)
  obtain n r1 where n: "integer (so_far = 0) r = Inr (n, r1)"
    using "1.prems" by (subst (asm) field_lines.simps) (auto simp: outcome_simps)
  show ?case
  proof (cases "n = 0")
    case True
    then show ?thesis
      using "1.prems" n integer [OF n] by (subst (asm) field_lines.simps) auto
  next
    case False
    then obtain name r2 m r3 v r4 h1 where steps: "unat n \<le> fields_limit" "exact (unat n) r1 = Inr (name, r2)"
        "integer False r2 = Inr (m, r3)" "unat m \<le> fields_limit" "exact (unat m) r3 = Inr (v, r4)"
        "so_far + length name + length v \<le> fields_limit" "insert_field room h name v = Inr h1"
        "field_lines room r4 (so_far + length name + length v) h1 = Inr (h', r')"
      using "1.prems" n by (subst (asm) field_lines.simps) (auto simp: outcome_simps Let_def)
    have "rd_intact r' = rd_intact r4"
      using "1.IH" [OF n refl False _ steps(2) refl steps(3) refl _ steps(5) refl refl _ steps(7,8)] steps(1,4,6)
      by (simp add: ensure_def)
    then show ?thesis
      using integer [OF n] exact [OF steps(2)] integer [OF steps(3)] exact [OF steps(5)] by simp
  qed
qed

lemma fields_section_intact: "fields_section room known r = Inr (h, r') \<Longrightarrow> rd_intact r' = rd_intact r"
  using integer_advances exact_ok field_lines_intact
  by (fastforce simp: fields_section_def outcome_simps advanced_def split: if_splits)

text \<open>A body that ends cleanly was authenticated to its end and has the declared length.\<close>

lemma body_stream_bounds:
  "within_bounds no_body expected (length (concat (fst (body_stream room known no_body expected r))))"
  "no_body \<Longrightarrow> fst (body_stream room known no_body expected r) = []"
  "snd (body_stream room known no_body expected r) = Inr () \<Longrightarrow>
     rd_intact r \<and> (no_body \<or> expected = None
       \<or> expected = Some (length (concat (fst (body_stream room known no_body expected r)))))"
proof -
  let ?y = "read_body known no_body expected True 0 r"
  have fst_eq: "fst (body_stream room known no_body expected r) = fst ?y"
    by (auto simp: body_stream_def y_bind_def split: sum.split)
  have start: "within_bounds no_body expected 0" by (simp add: within_bounds_def)
  show "within_bounds no_body expected (length (concat (fst (body_stream room known no_body expected r))))"
    using read_body_bounds [OF start, where known = known and first = True and r = r] by (simp add: fst_eq)
  show "fst (body_stream room known no_body expected r) = []" if no_body
    unfolding fst_eq using that read_body_no_body by simp
  assume "snd (body_stream room known no_body expected r) = Inr ()"
  then obtain t r' where y: "snd ?y = Inr (t, r')" and fin: "read_end room known no_body expected t r' = Inr ()"
    by (auto simp: body_stream_def y_bind_def split: sum.splits)
  have b: "rd_intact r' = rd_intact r" "no_body \<or> t = length (concat (fst ?y))"
    using read_body_bounds [OF start, where known = known and first = True and r = r and t = t and r' = r'] y by auto
  obtain h r'' where "fields_section room known r' = Inr (h, r'')" "rd_intact r''"
      and "no_body \<or> expected = None \<or> expected = Some t"
    using fin by (auto simp: read_end_def outcome_simps drain_padding_ok)
  then show "rd_intact r \<and> (no_body \<or> expected = None
      \<or> expected = Some (length (concat (fst (body_stream room known no_body expected r)))))"
    using fields_section_intact b by (auto simp: fst_eq)
qed

section \<open>Keys and sending\<close>

lemma verify_ohttp_key_config_ok:
  "verify_ohttp_key_config P attestation signer = Inr config \<longleftrightarrow>
     si_algo signer = Ed25519 \<and> oa_signing_algo attestation = Ed25519
     \<and> (\<exists>key signature. decode_hex P (oa_signing_key attestation) = Some key \<and> decode_hex P (si_address signer) = Some key
          \<and> length key = 32 \<and> decode_hex P (oa_key_config attestation) = Some config
          \<and> decode_hex P (oa_signature attestation) = Some signature \<and> length signature = 64
          \<and> ed25519_key P key \<and> ed25519_verify_strict P key config signature)"
  by (auto simp: verify_ohttp_key_config_def outcome_simps Let_def)

lemma create_ohttp_client_ok:
  assumes "create_ohttp_client P config base_url client forwarded = Inr c"
  shows "oc_config c = take 35 config @ [0, 4, 0, 1, 0, 1] \<and> take 2 (drop 1 config) = [0, 32]
     \<and> ohttp_config_ok P (oc_config c) \<and> oc_client c = client \<and> oc_forwarded c = map to_lower forwarded
     \<and> u_path (oc_relay c) = ''/ohttp'' \<and> (\<exists>u. parse_base_url P base_url = Inr u \<and> url_origin (oc_relay c) = url_origin u)"
proof -
  obtain head relay where kem: "(subslice 1 3 config :: bytes inf) = Inr [0, 32]"
      and head: "(slice_to 35 config :: bytes inf) = Inr head"
      and ok: "ohttp_config_ok P (head @ [0, 4, 0, 1, 0, 1])" and relay: "parse_base_url P base_url = Inr relay"
      and c: "c = \<lparr>oc_config = head @ [0, 4, 0, 1, 0, 1], oc_relay = relay\<lparr>u_path := ''/ohttp''\<rparr>, oc_client = client,
        oc_forwarded = map to_lower forwarded\<rparr>"
    using assms by (fastforce simp: create_ohttp_client_def outcome_simps Let_def)
  have "head = take 35 config" "take 2 (drop 1 config) = [0, 32]"
    using head kem by (simp_all add: slice_to_def subslice_def split: if_splits)
  then show ?thesis
    using ok relay by (simp add: c url_origin_def)
qed

lemma outer_headers_contains:
  "header_contains n (outer_headers forwarded h) \<longleftrightarrow>
     n = ''content-type'' \<or> n = ''incremental'' \<or> (header_contains n h \<and> forwards forwarded n)"
proof -
  have contains: "header_contains n g \<longleftrightarrow> (\<exists>v. (n, v) \<in> set g)" for g
    unfolding header_contains_def by force
  have "header_contains n (filter (\<lambda>(name, _). forwards forwarded name) h) \<longleftrightarrow> header_contains n h \<and> forwards forwarded n"
    by (simp add: contains)
  then show ?thesis
    unfolding outer_headers_def header_contains_simps by blast
qed

lemma send_ohttp_ok:
  assumes "send_ohttp P rnd self request = Inr response"
  shows "\<exists>encapsulated plaintext body reply pieces intact.
     url_origin (cr_url request) = url_origin (oc_relay self)
     \<and> ohttp_start P (oc_config self) rnd = Some encapsulated \<and> encode request = Inr plaintext
     \<and> ohttp_write P encapsulated plaintext = Some body
     \<and> http_send P (oc_client self) (outer_request P self (cr_headers request) body) = Some reply
     \<and> ohttp_open P encapsulated (rs_chunks reply) (rs_broken reply) = Some (pieces, intact)
     \<and> receive P (cr_method request) \<lparr>rd_pieces = pieces, rd_intact = intact\<rparr> = Inr response"
  using assms by (auto simp: send_ohttp_def outcome_simps Let_def)

section \<open>What a caller of the stream sees\<close>

fun delivered :: "bytes inf list \<Rightarrow> bytes" where
  "delivered [] = []"
| "delivered (Inl f # items) = delivered items"
| "delivered (Inr c # items) = c @ delivered items"

definition complete_stream :: "bytes inf list \<Rightarrow> bool" where
  "complete_stream items \<longleftrightarrow> list_all is_ok items"

lemma stream_items_view:
  "delivered (stream_items y) = concat (fst y)" "complete_stream (stream_items y) \<longleftrightarrow> snd y = Inr ()"
proof -
  have "delivered (map Inr ps @ items) = concat ps @ delivered items" for ps items
    by (induction ps) auto
  then show "delivered (stream_items y) = concat (fst y)"
    by (auto simp: stream_items_def split: sum.split fault.split)
  have "list_all is_ok (map Inr ps :: bytes inf list)" for ps
    by (simp add: list_all_iff)
  then show "complete_stream (stream_items y) \<longleftrightarrow> snd y = Inr ()"
    by (auto simp: complete_stream_def stream_items_def split: sum.split fault.split)
qed

lemma read_head_status:
  "read_head room known informational r = Inr ((status, h), r') \<Longrightarrow>
     200 \<le> status \<and> status \<le> 599 \<and> rd_intact r' = rd_intact r"
proof (induction room known informational r rule: read_head.induct)
  case (1 room known informational r)
  then obtain code r1 where code: "integer False r = Inr (code, r1)" "100 \<le> code \<and> code \<le> 599"
    by (subst (asm) read_head.simps) (auto simp: outcome_simps)
  have intact: "rd_intact r1 = rd_intact r"
    using integer_advances [OF code(1)] by (auto simp: advanced_def)
  show ?case
  proof (cases "200 \<le> code")
    case True
    then have "status = ucast code" "fields_section room known r1 = Inr (h, r')"
      using "1.prems" code by (subst (asm) read_head.simps, auto simp: outcome_simps)+
    moreover from this(2) have "rd_intact r' = rd_intact r"
      using fields_section_intact intact by blast
    moreover have "unat code \<le> 599" "200 \<le> unat code"
      using code(2) True by (simp_all add: word_le_nat_alt)
    ultimately show ?thesis
      by (simp add: word_le_nat_alt unsigned_ucast_eq take_bit_nat_eq_self)
  next
    case False
    then obtain h1 r2 where "fields_section room known r1 = Inr (h1, r2)"
        "\<not> (code < 200 \<and> max_informational_responses \<le> informational)"
        "read_head room known (informational + 1) r2 = Inr ((status, h), r')"
      using "1.prems" code by (subst (asm) read_head.simps) (auto simp: outcome_simps)
    then show ?thesis
      using "1.IH" [OF code(1) refl] code(2) False intact fields_section_intact by (simp add: ensure_def)
  qed
qed

section \<open>The instance\<close>

text \<open>In the instance sealing changes nothing and the relay answers with what it was sent.\<close>

definition demo_ohttp :: "(unit, bytes) ohttp_prims" where
  "demo_ohttp = e2ee_prims.extend demo_e2ee (ohttp_prims.fields (\<lambda>_. True) (\<lambda>_ rnd. Some rnd) (\<lambda>_ t. Some t)
     (\<lambda>_ chunks broken. Some (chunks, \<not> broken)) (\<lambda>_ _. True) (\<lambda>_ _ _. True))"

declare demo_ohttp_def [demo_defs] ohttp_prims.defs [demo_defs]

section \<open>Properties\<close>

text \<open>An OHTTP key configuration is accepted exactly when the verified Gateway signer signed it: both
  algorithms are Ed25519, the configuration's signing key is the signer's own 32-byte address, and
  the 64-byte signature verifies (strictly) over the configuration bytes that are returned.\<close>

lemma ohttp_key_config_exact:
  "verify_ohttp_key_config P attestation signer = Inr config \<longleftrightarrow>
     si_algo signer = Ed25519 \<and> oa_signing_algo attestation = Ed25519
     \<and> (\<exists>key signature. decode_hex P (oa_signing_key attestation) = Some key \<and> decode_hex P (si_address signer) = Some key
          \<and> length key = 32 \<and> decode_hex P (oa_key_config attestation) = Some config
          \<and> decode_hex P (oa_signature attestation) = Some signature \<and> length signature = 64
          \<and> ed25519_key P key \<and> ed25519_verify_strict P key config signature)"
  by (rule verify_ohttp_key_config_ok)

text \<open>C20: A Binary HTTP request reads back. What \<open>encode\<close> writes parses, with the code's own vector and
  field reader, to the method, scheme, authority and path, to the request's headers without the
  hop-by-hop ones, to the body and then zeros only; its length is a multiple of 16384 bytes.\<close>

lemma ohttp_request_round_trip:
  assumes "encode request = Inr out" and "headers_wf (cr_headers request)"
    and "short_strings (control_data request)"
    and "short_strings (map fst (inner_headers (cr_headers request)) @ map snd (inner_headers (cr_headers request)))"
    and "length out < 2 ^ 62"
  shows "\<exists>body n. cr_body request = Some body
     \<and> parse_message out = Inr (map as_bytes (control_data request), inner_headers (cr_headers request), body, replicate n 0)
     \<and> chunk_size dvd length out"
  using assms by (rule encode_parses)

definition demo_inner_request :: client_request where
  "demo_inner_request = \<lparr>cr_method = ''POST'', cr_url = demo_url ''/v1'', cr_headers = [(''te'', ''x''), (''a'', ''b'')],
     cr_body = Some [1, 2]\<rparr>"

lemma demo_inner_encodes: "\<exists>out. encode demo_inner_request = Inr out \<and> length out < 2 ^ 62"
proof -
  define small where "small = vector [1, 2] (vector (field_bytes (inner_headers [(''te'', ''x''), (''a'', ''b'')]))
    (fold (\<lambda>f. vector (as_bytes f)) (control_data demo_inner_request) [0])) @ [0 :: byte]"
  have "length (field_bytes (inner_headers [(''te'', ''x''), (''a'', ''b'')])) = 4" "length small = 27"
    unfolding small_def by code_simp+
  then have "encode demo_inner_request = Inr (pad small)" "length (pad small) < 2 ^ 62"
    by (simp_all add: encode_def demo_inner_request_def small_def fields_limit_def message_limit_def pad_def
        chunk_size_def)
  then show ?thesis by blast
qed

lemma ohttp_request_round_trip_witness:
  "\<exists>out. encode demo_inner_request = Inr out \<and> is_ok (parse_message out)"
proof -
  obtain out where out: "encode demo_inner_request = Inr out" "length out < 2 ^ 62"
    using demo_inner_encodes by blast
  have "headers_wf (cr_headers demo_inner_request)" "short_strings (control_data demo_inner_request)"
    "short_strings (map fst (inner_headers (cr_headers demo_inner_request)) @ map snd (inner_headers (cr_headers demo_inner_request)))"
    by code_simp+
  from ohttp_request_round_trip [OF out(1) this out(2)] show ?thesis
    using out(1) by auto
qed

text \<open>C21: The relay sees the relay URL, sealed bytes and a few headers. When a request is sent, the one HTTP
  request is a POST to the configured relay whose body is the sealed encoding of the request, and
  whose headers are \<open>content-type\<close>, \<open>incremental\<close> and those of the request's headers that are
  authorization or configured, never \<open>content-*\<close>, hop-by-hop, \<open>host\<close> or encryption headers; the
  request was for the relay's own origin, and the response is read from the decrypted reply.\<close>

lemma ohttp_send_exposes_only:
  assumes "send_ohttp P rnd self request = Inr response"
  shows "(\<exists>encapsulated plaintext body reply pieces intact.
       url_origin (cr_url request) = url_origin (oc_relay self)
       \<and> ohttp_start P (oc_config self) rnd = Some encapsulated \<and> encode request = Inr plaintext
       \<and> ohttp_write P encapsulated plaintext = Some body
       \<and> http_send P (oc_client self) \<lparr>rq_method = ''POST'', rq_url = url_text P (oc_relay self),
            rq_headers = outer_headers (oc_forwarded self) (cr_headers request), rq_body = body\<rparr> = Some reply
       \<and> ohttp_open P encapsulated (rs_chunks reply) (rs_broken reply) = Some (pieces, intact)
       \<and> receive P (cr_method request) \<lparr>rd_pieces = pieces, rd_intact = intact\<rparr> = Inr response)
     \<and> (header_contains n (outer_headers (oc_forwarded self) (cr_headers request)) \<longleftrightarrow>
          n = ''content-type'' \<or> n = ''incremental''
          \<or> (header_contains n (cr_headers request) \<and> (n = ''authorization'' \<or> n \<in> set (oc_forwarded self))
             \<and> \<not> starts_with ''content-'' n \<and> n \<notin> set hop_headers \<and> n \<notin> set e2ee_request_headers))"
  using send_ohttp_ok [OF assms] outer_headers_contains [of n "oc_forwarded self" "cr_headers request"]
  unfolding outer_request_def forwards_def by blast

text \<open>An answer \<open>hi\<close> with status 200, in two pieces.\<close>

definition demo_answer :: "bytes list" where
  "demo_answer = [[1, 64, 200, 0, 2, 104], [105, 0, 0]]"

definition demo_relay :: "(unit, bytes) ohttp_prims" where
  "demo_relay = demo_ohttp\<lparr>http_send := (\<lambda>_ _. Some \<lparr>rs_status = 200,
     rs_headers = [(''content-type'', ''message/ohttp-chunked-res'')], rs_content_length = None,
     rs_chunks = demo_answer, rs_broken = False, rs_peer_certificate = None\<rparr>)\<rparr>"

definition demo_ohttp_client :: ohttp_client where
  "demo_ohttp_client = \<lparr>oc_config = [], oc_relay = demo_url ''/ohttp'', oc_client = no_redirect_client, oc_forwarded = []\<rparr>"

definition demo_answered :: inference_response where
  "demo_answered = \<lparr>ir_status = 200, ir_headers = [], ir_body = [Inr [104, 105]]\<rparr>"

lemma demo_received: "receive demo_relay ''POST'' \<lparr>rd_pieces = demo_answer, rd_intact = True\<rparr> = Inr demo_answered"
  by code_simp

lemma demo_sent: "send_ohttp demo_relay [] demo_ohttp_client demo_inner_request = Inr demo_answered"
proof -
  obtain out where "encode demo_inner_request = Inr out"
    using demo_inner_encodes by blast
  moreover have "ohttp_config_ok demo_relay c" "ohttp_start demo_relay c rnd = Some rnd" "ohttp_write demo_relay c t = Some t"
    "http_send demo_relay hc rq = Some \<lparr>rs_status = 200, rs_headers = [(''content-type'', ''message/ohttp-chunked-res'')],
       rs_content_length = None, rs_chunks = demo_answer, rs_broken = False, rs_peer_certificate = None\<rparr>"
    "ohttp_open demo_relay c chunks broken = Some (chunks, \<not> broken)" for c rnd t hc rq chunks broken
    by (simp_all add: demo_relay_def demo_defs)
  moreover have "eq_ignore_case (response_media_type [(''content-type'', ''message/ohttp-chunked-res'')])
      ''message/ohttp-chunked-res''"
    by code_simp
  moreover have "url_origin (cr_url demo_inner_request) = url_origin (oc_relay demo_ohttp_client)"
      "cr_method demo_inner_request = ''POST''" "is_success 200"
    by code_simp+
  ultimately show ?thesis
    using demo_received by (simp add: send_ohttp_def del: One_nat_def)
qed

lemma ohttp_send_exposes_only_witness:
  "\<not> header_contains ''host'' (outer_headers (oc_forwarded demo_ohttp_client) (cr_headers demo_inner_request))"
  using ohttp_send_exposes_only [OF demo_sent, of "''host''"] by (simp add: e2ee_request_headers_def)

text \<open>Reading a response does not depend on how the decrypted stream is cut. On two streams with the same
  text and ending, reading either fails with the same error or gives the same status and headers, the
  same delivered bytes, and completes on both or on neither.\<close>

lemma ohttp_response_chunking:
  assumes "same_stream r s"
  shows "case receive P verb r of
      Inl e \<Rightarrow> receive P verb s = Inl e
    | Inr a \<Rightarrow> (\<exists>b. receive P verb s = Inr b \<and> ir_status b = ir_status a \<and> ir_headers b = ir_headers a
        \<and> delivered (ir_body b) = delivered (ir_body a)
        \<and> (complete_stream (ir_body b) \<longleftrightarrow> complete_stream (ir_body a)))"
  using integer_agrees [OF assms, of False]
proof (cases rule: agree_cases)
  case (1 e)
  then show ?thesis by (simp add: receive_def)
next
  case (2 framing r1 s1)
  show ?thesis
  proof (cases "framing = 1 \<or> framing = 3")
    case False
    then show ?thesis using 2 by (simp add: receive_def)
  next
    case True
    show ?thesis
      using read_head_agrees [OF 2(3), of "header_room P" "framing = 1" 0]
    proof (cases rule: agree_cases)
      case (1 e)
      then show ?thesis using 2 True by (simp add: receive_def Let_def)
    next
      case (2 head r2 s2)
      note body = body_stream_agrees [OF 2(3)]
      show ?thesis
        using 2 \<open>integer False r = _\<close> \<open>integer False s = _\<close> True body
        by (cases head; cases "content_length (snd head)") (auto simp: receive_def Let_def stream_items_view)
    qed
  qed
qed

lemma ohttp_response_chunking_witness:
  "\<exists>b. receive demo_relay ''POST'' \<lparr>rd_pieces = [concat demo_answer], rd_intact = True\<rparr> = Inr b
     \<and> delivered (ir_body b) = [104, 105]"
proof -
  have same: "same_stream \<lparr>rd_pieces = demo_answer, rd_intact = True\<rparr> \<lparr>rd_pieces = [concat demo_answer], rd_intact = True\<rparr>"
    by (simp add: same_stream_def stream_text_def)
  have "delivered (ir_body demo_answered) = [104, 105]"
    by (simp add: demo_answered_def)
  then show ?thesis
    using ohttp_response_chunking [OF same, of demo_relay "''POST''"] by (auto simp: demo_received)
qed

text \<open>C22: A received response is bounded and honest about its end. Its status is from 200 to 599 and its
  Content-Length is readable. However the stream ends and however many bytes are sent, at most 2^30 bytes are delivered,
  none for a response without a body, and otherwise never more than a Content-Length says. The stream completes only if
  the decrypted stream was authenticated to its end and, for a response with a body, the bytes delivered are exactly as
  many as its Content-Length says, if it has one.\<close>

lemma ohttp_response_bounded:
  assumes "receive P verb r = Inr response"
  shows "200 \<le> ir_status response \<and> ir_status response \<le> 599
     \<and> length (delivered (ir_body response)) \<le> 2 ^ 30
     \<and> (\<exists>expected. content_length (ir_headers response) = Inr expected
          \<and> (if no_body_status verb (ir_status response) then delivered (ir_body response) = []
             else \<forall>declared. expected = Some declared \<longrightarrow> length (delivered (ir_body response)) \<le> declared)
          \<and> (complete_stream (ir_body response) \<longrightarrow> rd_intact r
               \<and> (no_body_status verb (ir_status response) \<or> expected = None
                  \<or> expected = Some (length (delivered (ir_body response))))))"
proof -
  obtain framing r1 status h r2 expected where framing: "integer False r = Inr (framing, r1)"
      and head: "read_head (header_room P) (framing = 1) 0 r1 = Inr ((status, h), r2)"
      and expected: "content_length h = Inr expected"
      and response: "response = \<lparr>ir_status = status, ir_headers = h, ir_body = stream_items
        (body_stream (header_room P) (framing = 1) (no_body_status verb status) expected r2)\<rparr>"
    using assms by (auto simp: receive_def outcome_simps Let_def)
  have "rd_intact r1 = rd_intact r"
    using integer_advances [OF framing] by (auto simp: advanced_def)
  then show ?thesis
    using body_stream_bounds [where room = "header_room P" and known = "framing = 1" and no_body = "no_body_status verb status"
        and expected = expected and r = r2]
      read_head_status [OF head] expected
    by (auto simp: response stream_items_view message_limit_def within_bounds_def)
qed

lemma ohttp_response_bounded_witness:
  "length (delivered (ir_body demo_answered)) \<le> 2 ^ 30 \<and> complete_stream (ir_body demo_answered)"
  using ohttp_response_bounded [OF demo_received] by (simp add: complete_stream_def demo_answered_def)

end
