(* ===== verification/Provenance.thy ===== *)
theory Provenance
  imports Cloud_Api
begin

text \<open>
  \<open>provenance.rs\<close>: image build provenance. The first half fetches inline attestation bundles from a
  GitHub-compatible endpoint page by page, with every page, cursor, header and total bounded; the second
  verifies one bundle: the DSSE envelope, the in-toto statement and its subject, the certificate's source
  claims and the SLSA predicate against the caller's policy. Sigstore's own verification, X.509 and DER
  reading and the embedded trust root are operations of the environment.
\<close>

section \<open>Sigstore, certificates and YAML\<close>

text \<open>
  What the sources read of a parsed bundle: its DSSE envelope, and its certificate or chain (DER);
  \<open>sb_log\<close> stands for the transparency log entries only Sigstore reads. A certificate is the
  extensions it carries, if any: object identifier and value.
\<close>

record dsse_envelope =
  de_signatures :: "bytes list"
  de_payload_type :: string
  de_payload :: bytes

datatype signature_content = DsseEnvelope dsse_envelope | MessageSignature

datatype verification_material = SingleCertificate bytes | X509CertificateChain "bytes list" | PublicKey

record sigstore_bundle =
  sb_content :: signature_content
  sb_material :: verification_material
  sb_log :: bytes

type_synonym extension = "string \<times> bytes"

text \<open>\<open>serde_yaml_ng::Value\<close>; its accessors see through tags.\<close>

datatype yaml =
    YNull
  | YBool bool
  | YNum string
  | YStr string
  | YSeq "yaml list"
  | YMap "(yaml \<times> yaml) list"
  | YTagged string yaml

text \<open>
  \<open>sigstore_verify root artifact bundle\<close> is \<open>Verifier::verify\<close> under the default policy: the
  certificate's identity and issuer. \<open>debug_text\<close> is the \<open>{:?}\<close> rendering of a string.
\<close>

record provenance_prims = net_prims +
  sigstore_trusted_root :: "bytes option"
  bundle_from_json :: "string \<Rightarrow> sigstore_bundle option"
  sha256_hash_from_hex :: "string \<Rightarrow> bytes option"
  sigstore_verify :: "bytes \<Rightarrow> bytes \<Rightarrow> sigstore_bundle \<Rightarrow> (string option \<times> string option) option"
  certificate_from_der :: "bytes \<Rightarrow> extension list option option"
  utf8_string_from_der :: "bytes \<Rightarrow> string option"
  yaml_from_str :: "string \<Rightarrow> yaml option"
  yaml_apply_merge :: "yaml \<Rightarrow> yaml option"
  debug_text :: "string \<Rightarrow> string"

section \<open>Input checks\<close>

definition is_commit :: "string \<Rightarrow> bool" where
  "is_commit v \<longleftrightarrow> length v = 40 \<and> list_all is_hexdigit v"

definition image_hash :: "string \<Rightarrow> string option" where
  "image_hash digest =
     Option.bind (strip_prefix ''sha256:'' digest) (\<lambda>v.
     if length v = 64 \<and> list_all is_hexdigit v then Some (to_lower v) else None)"

definition repository_part :: "string \<Rightarrow> bool" where
  "repository_part part \<longleftrightarrow>
     part \<noteq> [] \<and> part \<noteq> ''.'' \<and> part \<noteq> ''..'' \<and> list_all (\<lambda>c. is_alnum c \<or> c \<in> set ''-_.'') part"

definition valid_repository :: "string \<Rightarrow> bool" where
  "valid_repository repository =
     (case split_once (CHR ''/'') repository of
        None \<Rightarrow> False
      | Some (owner, repo) \<Rightarrow> list_all repository_part [owner, repo])"

definition api_input :: "string \<Rightarrow> string \<Rightarrow> api_error" where
  "api_input field reason = Api_InvalidInput field reason None None"

definition provenance_error :: "string \<Rightarrow> image_provenance_failure_reason list \<Rightarrow> verification_error" where
  "provenance_error digest reasons = ImageProvenanceVerificationFailed digest reasons"

definition github_api_base :: "'z net_prims_scheme \<Rightarrow> string option \<Rightarrow> url api" where
  "github_api_base P api_url =
     rbind (ok_or (api_input ''github_api_url'' ''expected absolute HTTP(S) URL'')
              (url_parse P (or_else ''https://api.github.com'' api_url))) (\<lambda>url.
     rbind (ensure (\<not> (u_scheme url \<notin> {''http'', ''https''} \<or> u_host url = None \<or> u_username url \<noteq> []
              \<or> u_password url \<noteq> None \<or> u_query url \<noteq> None \<or> u_fragment url \<noteq> None))
            (api_input ''github_api_url'' ''expected HTTP(S) URL without credentials, query or fragment'')) (\<lambda>_.
     Inr url))"

section \<open>Pages\<close>

definition max_provenance_page_bytes :: nat where
  "max_provenance_page_bytes = 16 * 1024 * 1024"

definition max_provenance_total_bytes :: nat where
  "max_provenance_total_bytes = 64 * 1024 * 1024"

definition max_provenance_pages :: nat where
  "max_provenance_pages = 32"

definition max_provenance_page_entries :: nat where
  "max_provenance_page_entries = 100"

definition max_provenance_link_bytes :: nat where
  "max_provenance_link_bytes = 8 * 1024"

definition max_provenance_cursor_bytes :: nat where
  "max_provenance_cursor_bytes = 4 * 1024"

definition pagination_error :: "string \<Rightarrow> api_error" where
  "pagination_error actual = InvalidResponse ''Link'' ''a next link with a new before or after cursor'' actual"

text \<open>\<open>str::trim_matches(c)\<close>, \<open>str::trim_end_matches(c)\<close> and, on ASCII text, \<open>split_whitespace\<close>.\<close>

definition trim_end_matches :: "char \<Rightarrow> string \<Rightarrow> string" where
  "trim_end_matches c s = rev (dropWhile (\<lambda>x. x = c) (rev s))"

definition trim_matches :: "char \<Rightarrow> string \<Rightarrow> string" where
  "trim_matches c s = trim_end_matches c (dropWhile (\<lambda>x. x = c) s)"

definition split_whitespace :: "string \<Rightarrow> string list" where
  "split_whitespace s =
     filter (\<lambda>w. w \<noteq> []) (split_on (CHR '' '') (map (\<lambda>c. if is_space c then CHR '' '' else c) s))"

text \<open>The combined size of the \<open>Link\<close> fields, one byte counted between two of them.\<close>

fun check_link_sizes :: "bool \<Rightarrow> nat \<Rightarrow> string list \<Rightarrow> unit api" where
  "check_link_sizes first link_bytes [] = Inr ()"
| "check_link_sizes first link_bytes (header # headers) =
     (let link_bytes = (if first then link_bytes else link_bytes + 1) in
      rbind (ensure (\<not> (max_provenance_link_bytes < link_bytes
               \<or> max_provenance_link_bytes - link_bytes < length header))
               (pagination_error ''provenance Link header limit exceeded'')) (\<lambda>_.
      check_link_sizes False (link_bytes + length header) headers))"

definition is_next_relation :: "string \<Rightarrow> bool" where
  "is_next_relation part =
     (case split_once (CHR ''='') (trim part) of
        None \<Rightarrow> False
      | Some (name, v) \<Rightarrow>
          eq_ignore_case (trim name) ''rel''
          \<and> list_ex (\<lambda>relation. relation = ''next'') (split_whitespace (trim_matches (char_of (34 :: nat)) (trim v))))"

definition next_page_url :: "'z net_prims_scheme \<Rightarrow> url \<Rightarrow> string \<Rightarrow> url api" where
  "next_page_url P original_url target =
     rbind (ok_or (pagination_error ''invalid next link URL'')
       (Option.bind (strip_prefix ''<'' target) (\<lambda>target.
        Option.bind (strip_suffix ''>'' target) (\<lambda>target.
        Option.bind (url_parse P target) (\<lambda>target.
        if u_scheme target \<in> {''http'', ''https''} then Some target else None))))) (\<lambda>target.
     let cursors = filter (\<lambda>(name, _). name = ''before'' \<or> name = ''after'') (url_query_pairs P target) in
     rbind (ok_or (pagination_error ''missing next link cursor'')
       (Option.bind (first_of cursors) (\<lambda>(name, v). if v \<noteq> [] then Some (name, v) else None))) (\<lambda>(name, v).
     rbind (ensure (tl cursors = []) (pagination_error ''multiple next link cursors'')) (\<lambda>_.
     let cursor = form_encode P name v in
     rbind (ensure (length cursor \<le> max_provenance_cursor_bytes)
              (pagination_error ''provenance cursor limit exceeded'')) (\<lambda>_.
     Inr (original_url\<lparr>u_query := Some (''per_page=100&'' @ cursor)\<rparr>)))))"

fun next_in_links :: "'z net_prims_scheme \<Rightarrow> url \<Rightarrow> string list \<Rightarrow> url option api" where
  "next_in_links P original_url [] = Inr None"
| "next_in_links P original_url (link # links) =
     (let parts = split_on (CHR '';'') (trim link); target = trim (hd parts) in
      if \<not> list_ex is_next_relation (tl parts) then next_in_links P original_url links
      else rbind (next_page_url P original_url target) (\<lambda>url. Inr (Some url)))"

fun next_in_headers :: "'z net_prims_scheme \<Rightarrow> url \<Rightarrow> string list \<Rightarrow> url option api" where
  "next_in_headers P original_url [] = Inr None"
| "next_in_headers P original_url (header # headers) =
     rbind (ok_or (pagination_error ''invalid Link header'') (header_to_str header)) (\<lambda>header.
     rbind (next_in_links P original_url (split_on (CHR '','') header)) (\<lambda>found.
     case found of Some url \<Rightarrow> Inr (Some url) | None \<Rightarrow> next_in_headers P original_url headers))"

definition next_attestation_page :: "'z net_prims_scheme \<Rightarrow> url \<Rightarrow> headers \<Rightarrow> url option api" where
  "next_attestation_page P original_url headers =
     (let links = header_get_all ''link'' headers in
      rbind (check_link_sizes True 0 links) (\<lambda>_. next_in_headers P original_url links))"

text \<open>
  Reading a body chunk by chunk under a limit. What was read never exceeds the limit, so the
  subtraction does not wrap.
\<close>

fun read_chunks :: "'e \<Rightarrow> 'e \<Rightarrow> nat \<Rightarrow> bool \<Rightarrow> bytes list \<Rightarrow> bytes \<Rightarrow> ('e, bytes) outcome" where
  "read_chunks too_large failed limit broken [] bytes = (if broken then fail failed else Inr bytes)"
| "read_chunks too_large failed limit broken (chunk # chunks) bytes =
     (if limit - length bytes < length chunk then fail too_large
      else read_chunks too_large failed limit broken chunks (bytes @ chunk))"

definition read_limited :: "'e \<Rightarrow> 'e \<Rightarrow> nat \<Rightarrow> http_response \<Rightarrow> ('e, bytes) outcome" where
  "read_limited too_large failed limit response =
     rbind (ensure (case rs_content_length response of None \<Rightarrow> True | Some n \<Rightarrow> n \<le> limit) too_large) (\<lambda>_.
     read_chunks too_large failed limit (rs_broken response) (rs_chunks response) [])"

definition read_provenance_body :: "http_response \<Rightarrow> nat \<Rightarrow> bytes api" where
  "read_provenance_body response limit =
     read_limited (BodyTooLarge Res_ImageProvenance) (Transport Res_ImageProvenance ResponseBody) limit response"

text \<open>A page: at most 100 entries, each an object with an inline bundle.\<close>

definition attestation_bundle_of :: "json \<Rightarrow> json option" where
  "attestation_bundle_of j =
     Option.bind (struct_view [''bundle''] 1 j) (\<lambda>kvs.
     need kvs ''bundle'' (\<lambda>bundle. if is_object bundle then Some (value_of bundle) else None))"

definition deserialize_attestations :: "json \<Rightarrow> json list option" where
  "deserialize_attestations j =
     Option.bind (as_array j) (\<lambda>xs.
     if max_provenance_page_entries < length xs then None else all_some (map attestation_bundle_of xs))"

definition github_attestations_of :: "json \<Rightarrow> json list option" where
  "github_attestations_of j =
     Option.bind (struct_view [''attestations''] 1 j) (\<lambda>kvs. need kvs ''attestations'' deserialize_attestations)"

definition decode_attestations :: "'z net_prims_scheme \<Rightarrow> bytes \<Rightarrow> json list api" where
  "decode_attestations P bytes =
     (case Option.bind (json_document P bytes) github_attestations_of of
        Some bundles \<Rightarrow> Inr bundles
      | None \<Rightarrow> fail (case serde_fault P ''GitHubAttestations'' bytes of
            None \<Rightarrow> InvalidJson Res_ImageProvenance
          | Some _ \<Rightarrow> InvalidResponse ''attestations'' ''an array of inline bundle objects''
              ''invalid attestation response''))"

text \<open>
  The headers of a page request. \<open>bearer_auth\<close> with a token no header value can hold makes the
  request fail when it is sent.
\<close>

definition github_headers :: "string \<Rightarrow> string option \<Rightarrow> headers option" where
  "github_headers accept token =
     (let h = [(''accept'', accept), (''x-github-api-version'', ''2022-11-28''),
               (''user-agent'', ''nearai-inference-sdk'')] in
      case token of
        None \<Rightarrow> Some h
      | Some t \<Rightarrow> map_option (\<lambda>v. h @ [(''authorization'', v)]) (header_value_from_bytes (as_bytes (''Bearer '' @ t))))"

definition github_get ::
  "'z net_prims_scheme \<Rightarrow> http_client \<Rightarrow> url \<Rightarrow> string \<Rightarrow> string option \<Rightarrow> http_response option" where
  "github_get P client url accept token =
     Option.bind (github_headers accept token) (\<lambda>h. http_send P client (get_request P url h))"

function fetch_image_provenance_pages ::
  "'z net_prims_scheme \<Rightarrow> http_client \<Rightarrow> url \<Rightarrow> string option \<Rightarrow> url \<Rightarrow> url list \<Rightarrow> nat \<Rightarrow> string list
     \<Rightarrow> string list api" where
  "fetch_image_provenance_pages P client original_url token url visited total_bytes bundles =
     rbind (ensure (length visited < max_provenance_pages) (pagination_error ''provenance page limit exceeded'')) (\<lambda>_.
     rbind (ensure (total_bytes < max_provenance_total_bytes) (BodyTooLarge Res_ImageProvenance)) (\<lambda>_.
     rbind (ensure (url \<notin> set visited) (pagination_error ''repeated pagination cursor'')) (\<lambda>_.
     rbind (ok_or (Transport Res_ImageProvenance Request)
              (github_get P client url ''application/vnd.github+json'' token)) (\<lambda>response.
     rbind (ensure (is_success (rs_status response)) (HttpStatus Res_ImageProvenance (rs_status response))) (\<lambda>_.
     rbind (next_attestation_page P original_url (rs_headers response)) (\<lambda>next_url.
     let limit = min max_provenance_page_bytes (max_provenance_total_bytes - total_bytes) in
     rbind (read_provenance_body response limit) (\<lambda>bytes.
     rbind (decode_attestations P bytes) (\<lambda>entries.
     let bundles = bundles @ map (json_print P) entries in
     case next_url of
       None \<Rightarrow> Inr bundles
     | Some u \<Rightarrow> fetch_image_provenance_pages P client original_url token u (visited @ [url])
                   (total_bytes + length bytes) bundles))))))))"
  by pat_completeness auto

termination
  by (relation "measure (\<lambda>(P, client, original_url, token, url, visited, total_bytes, bundles).
       max_provenance_pages - length visited)") (auto simp: outcome_simps)

declare fetch_image_provenance_pages.simps [simp del]

record provenance_fetch_options =
  pf_github_token :: "string option"
  pf_github_api_url :: "string option"

definition fetch_image_provenance_with_options ::
  "'z net_prims_scheme \<Rightarrow> string \<Rightarrow> string \<Rightarrow> provenance_fetch_options \<Rightarrow> string list api" where
  "fetch_image_provenance_with_options P repository digest options =
     rbind (ensure (valid_repository repository) (api_input ''repository'' ''expected owner/repo'')) (\<lambda>_.
     rbind (ok_or (api_input ''digest'' ''expected sha256: followed by 64 hexadecimal digits'') (image_hash digest)) (\<lambda>hash.
     rbind (github_api_base P (pf_github_api_url options)) (\<lambda>base.
     rbind (ok_or (api_input ''github_api_url'' ''invalid URL'')
              (url_parse P (trim_end_matches (CHR ''/'') (url_text P base) @ ''/repos/'' @ repository
                 @ ''/attestations/sha256:'' @ hash @ ''?per_page=100''))) (\<lambda>url.
     fetch_image_provenance_pages P no_redirect_client url
       (if pf_github_api_url options = None then pf_github_token options else None) url [] 0 []))))"

definition fetch_image_provenance ::
  "'z net_prims_scheme \<Rightarrow> string \<Rightarrow> string \<Rightarrow> string option \<Rightarrow> string list api" where
  "fetch_image_provenance P repository digest github_token =
     fetch_image_provenance_with_options P repository digest
       \<lparr>pf_github_token = github_token, pf_github_api_url = None\<rparr>"

section \<open>The in-toto statement\<close>

record source_digest =
  sdg_git_commit :: "string option"
  sdg_sha1 :: "string option"

definition no_digest :: source_digest where
  "no_digest = \<lparr>sdg_git_commit = None, sdg_sha1 = None\<rparr>"

record material =
  mt_uri :: string
  mt_digest :: source_digest

record workflow =
  wf_repository :: string
  wf_path :: string
  wf_git_ref :: string

record build_definition =
  bd_workflow :: workflow
  bd_resolved_dependencies :: "material list"

record config_source =
  cf_uri :: string
  cf_digest :: source_digest
  cf_entry_point :: string

datatype provenance = V1 build_definition | V02 config_source

record statement =
  st_type :: string
  st_subjects :: "string option list"
  st_provenance :: provenance

definition slsa_v1 :: string where "slsa_v1 = ''https://slsa.dev/provenance/v1''"
definition slsa_v02 :: string where "slsa_v02 = ''https://slsa.dev/provenance/v0.2''"

text \<open>A field with \<open>#[serde(default)]\<close>: only a missing one takes the default.\<close>

definition defaulted :: "(string \<times> json) list \<Rightarrow> string \<Rightarrow> (json \<Rightarrow> 'a option) \<Rightarrow> 'a \<Rightarrow> 'a option" where
  "defaulted kvs k decode d = (case map_of kvs k of None \<Rightarrow> Some d | Some j \<Rightarrow> decode j)"

definition source_digest_of :: "json \<Rightarrow> source_digest option" where
  "source_digest_of j =
     Option.bind (struct_view [''gitCommit'', ''sha1''] 2 j) (\<lambda>kvs.
     Option.bind (want kvs ''gitCommit'' as_str) (\<lambda>git_commit.
     Option.bind (want kvs ''sha1'' as_str) (\<lambda>sha1.
     Some \<lparr>sdg_git_commit = git_commit, sdg_sha1 = sha1\<rparr>)))"

definition material_of :: "json \<Rightarrow> material option" where
  "material_of j =
     Option.bind (struct_view [''uri'', ''digest''] 1 j) (\<lambda>kvs.
     Option.bind (need kvs ''uri'' as_str) (\<lambda>uri.
     Option.bind (defaulted kvs ''digest'' source_digest_of no_digest) (\<lambda>digest.
     Some \<lparr>mt_uri = uri, mt_digest = digest\<rparr>)))"

definition workflow_of :: "json \<Rightarrow> workflow option" where
  "workflow_of j =
     Option.bind (struct_view [''repository'', ''path'', ''ref''] 3 j) (\<lambda>kvs.
     Option.bind (need kvs ''repository'' as_str) (\<lambda>repository.
     Option.bind (need kvs ''path'' as_str) (\<lambda>path.
     Option.bind (need kvs ''ref'' as_str) (\<lambda>git_ref.
     Some \<lparr>wf_repository = repository, wf_path = path, wf_git_ref = git_ref\<rparr>))))"

definition external_parameters_of :: "json \<Rightarrow> workflow option" where
  "external_parameters_of j =
     Option.bind (struct_view [''workflow''] 1 j) (\<lambda>kvs. need kvs ''workflow'' workflow_of)"

definition build_definition_of :: "json \<Rightarrow> build_definition option" where
  "build_definition_of j =
     Option.bind (struct_view [''externalParameters'', ''resolvedDependencies''] 2 j) (\<lambda>kvs.
     Option.bind (need kvs ''externalParameters'' external_parameters_of) (\<lambda>workflow.
     Option.bind (need kvs ''resolvedDependencies'' (vec_of material_of)) (\<lambda>dependencies.
     Some \<lparr>bd_workflow = workflow, bd_resolved_dependencies = dependencies\<rparr>)))"

definition predicate_v1_of :: "json \<Rightarrow> build_definition option" where
  "predicate_v1_of j =
     Option.bind (struct_view [''buildDefinition''] 1 j) (\<lambda>kvs. need kvs ''buildDefinition'' build_definition_of)"

definition config_source_of :: "json \<Rightarrow> config_source option" where
  "config_source_of j =
     Option.bind (struct_view [''uri'', ''digest'', ''entryPoint''] 3 j) (\<lambda>kvs.
     Option.bind (need kvs ''uri'' as_str) (\<lambda>uri.
     Option.bind (defaulted kvs ''digest'' source_digest_of no_digest) (\<lambda>digest.
     Option.bind (need kvs ''entryPoint'' as_str) (\<lambda>entry_point.
     Some \<lparr>cf_uri = uri, cf_digest = digest, cf_entry_point = entry_point\<rparr>))))"

definition invocation_of :: "json \<Rightarrow> config_source option" where
  "invocation_of j =
     Option.bind (struct_view [''configSource''] 1 j) (\<lambda>kvs. need kvs ''configSource'' config_source_of)"

definition predicate_v02_of :: "json \<Rightarrow> config_source option" where
  "predicate_v02_of j =
     Option.bind (struct_view [''invocation''] 1 j) (\<lambda>kvs. need kvs ''invocation'' invocation_of)"

text \<open>
  \<open>#[serde(tag = "predicateType", content = "predicate")]\<close>, read from the flattened members; the
  tag is a unit variant, in whose object form \<open>serde\<close> also takes an empty object.
\<close>

fun variant_tag :: "json \<Rightarrow> string option" where
  "variant_tag (JObj [(s, JObj [])]) = Some s"
| "variant_tag j = unit_variant j"

definition provenance_of :: "(string \<times> json) list \<Rightarrow> provenance option" where
  "provenance_of kvs =
     (if \<not> no_repeats [''predicateType'', ''predicate''] kvs then None else
      Option.bind (need kvs ''predicateType'' variant_tag) (\<lambda>tag.
      if tag = slsa_v1 then map_option V1 (need kvs ''predicate'' predicate_v1_of)
      else if tag = slsa_v02 then map_option V02 (need kvs ''predicate'' predicate_v02_of)
      else None))"

definition subject_digest_of :: "json \<Rightarrow> string option option" where
  "subject_digest_of j = Option.bind (struct_view [''sha256''] 1 j) (\<lambda>kvs. want kvs ''sha256'' as_str)"

definition subject_of :: "json \<Rightarrow> string option option" where
  "subject_of j = Option.bind (struct_view [''digest''] 1 j) (\<lambda>kvs. need kvs ''digest'' subject_digest_of)"

definition statement_of :: "json \<Rightarrow> statement option" where
  "statement_of j =
     Option.bind (as_object j) (\<lambda>kvs.
     if \<not> no_repeats [''_type'', ''subject''] kvs then None else
     Option.bind (need kvs ''_type'' as_str) (\<lambda>statement_type.
     Option.bind (need kvs ''subject'' (vec_of subject_of)) (\<lambda>subjects.
     Option.bind (provenance_of kvs) (\<lambda>provenance.
     Some \<lparr>st_type = statement_type, st_subjects = subjects, st_provenance = provenance\<rparr>))))"

section \<open>Source claims\<close>

type_synonym 'a rejected = "(image_provenance_failure_reason, 'a) outcome"

definition source_repository_uri :: string where "source_repository_uri = ''1.3.6.1.4.1.57264.1.12''"
definition source_repository_digest :: string where "source_repository_digest = ''1.3.6.1.4.1.57264.1.13''"
definition source_repository_ref :: string where "source_repository_ref = ''1.3.6.1.4.1.57264.1.14''"
definition github_workflow_sha :: string where "github_workflow_sha = ''1.3.6.1.4.1.57264.1.3''"
definition github_workflow_repository :: string where "github_workflow_repository = ''1.3.6.1.4.1.57264.1.5''"
definition github_workflow_ref :: string where "github_workflow_ref = ''1.3.6.1.4.1.57264.1.6''"

definition source_extension ::
  "'z provenance_prims_scheme \<Rightarrow> extension list \<Rightarrow> string \<Rightarrow> string \<Rightarrow> string \<Rightarrow> string rejected" where
  "source_extension P extensions modern legacy legacy_prefix =
     (case map_of extensions modern of
        Some v \<Rightarrow> ok_or SourceMismatch (utf8_string_from_der P v)
      | None \<Rightarrow>
          rbind (ok_or SourceMismatch (map_of extensions legacy)) (\<lambda>v.
          rbind (ok_or SourceMismatch (from_utf8 v)) (\<lambda>v.
          Inr (legacy_prefix @ v))))"

definition source_commit_extension :: "'z provenance_prims_scheme \<Rightarrow> extension list \<Rightarrow> string rejected" where
  "source_commit_extension P extensions =
     rbind (source_extension P extensions source_repository_digest github_workflow_sha []) (\<lambda>commit.
     rbind (ensure (is_commit commit) SourceMismatch) (\<lambda>_.
     Inr (to_lower commit)))"

record cert_source =
  src_git_ref :: string
  src_commit :: string

definition source_extensions ::
  "'z provenance_prims_scheme \<Rightarrow> extension list \<Rightarrow> image_provenance_policy \<Rightarrow> cert_source rejected" where
  "source_extensions P extensions policy =
     rbind (source_extension P extensions source_repository_uri github_workflow_repository
              ''https://github.com/'') (\<lambda>repository.
     rbind (source_extension P extensions source_repository_ref github_workflow_ref []) (\<lambda>git_ref.
     rbind (ensure (\<not> (repository \<noteq> ''https://github.com/'' @ ip_repository policy
              \<or> \<not> starts_with ''refs/'' git_ref
              \<or> ip_git_ref policy \<noteq> None \<and> ip_git_ref policy \<noteq> Some git_ref)) SourceMismatch) (\<lambda>_.
     rbind (source_commit_extension P extensions) (\<lambda>commit.
     Inr \<lparr>src_git_ref = git_ref, src_commit = commit\<rparr>))))"

definition leaf_certificate :: "verification_material \<Rightarrow> bytes rejected" where
  "leaf_certificate material =
     (case material of
        SingleCertificate der \<Rightarrow> Inr der
      | X509CertificateChain certificates \<Rightarrow> ok_or SourceMismatch (first_of certificates)
      | PublicKey \<Rightarrow> fail SourceMismatch)"

definition certificate_source ::
  "'z provenance_prims_scheme \<Rightarrow> verification_material \<Rightarrow> image_provenance_policy \<Rightarrow> cert_source rejected" where
  "certificate_source P material policy =
     rbind (leaf_certificate material) (\<lambda>der.
     rbind (ok_or SourceMismatch (certificate_from_der P der)) (\<lambda>extensions.
     source_extensions P (or_else [] extensions) policy))"

definition github_source :: "string \<Rightarrow> (string \<times> string option) option" where
  "github_source uri =
     Option.bind (strip_prefix ''https://github.com/'' (or_else uri (strip_prefix ''git+'' uri))) (\<lambda>path.
     let (repository, reference) = (case split_once (CHR ''@'') path of
           None \<Rightarrow> (path, None) | Some (repo, reference) \<Rightarrow> (repo, Some reference))
     in Some (or_else repository (strip_suffix ''.git'' repository), reference))"

definition require_source :: "string \<Rightarrow> image_provenance_policy \<Rightarrow> string \<Rightarrow> unit rejected" where
  "require_source uri policy git_ref =
     rbind (ok_or SourceMismatch (github_source uri)) (\<lambda>(repository, reference).
     ensure (\<not> (repository \<noteq> ip_repository policy \<or> reference \<noteq> Some git_ref)) SourceMismatch)"

definition filter_commit :: "string option \<Rightarrow> string option" where
  "filter_commit commit = Option.bind commit (\<lambda>c. if is_commit c then Some c else None)"

definition predicate_commit ::
  "provenance \<Rightarrow> image_provenance_policy \<Rightarrow> string \<Rightarrow> (string \<times> string) rejected" where
  "predicate_commit provenance policy git_ref =
     (case provenance of
        V1 definition \<Rightarrow>
          (let workflow = bd_workflow definition;
               expected_repository = ''https://github.com/'' @ ip_repository policy in
           rbind (ensure (\<not> (or_else (wf_repository workflow) (strip_suffix ''.git'' (wf_repository workflow))
                      \<noteq> expected_repository
                    \<or> wf_path workflow \<noteq> ip_workflow policy
                    \<or> wf_git_ref workflow \<noteq> git_ref)) SourceMismatch) (\<lambda>_.
           rbind (ok_or SourceMismatch
             (Option.bind (find (\<lambda>m. is_ok (require_source (mt_uri m) policy git_ref))
                             (bd_resolved_dependencies definition)) (\<lambda>m.
              filter_commit (sdg_git_commit (mt_digest m))))) (\<lambda>commit.
           Inr (to_lower commit, slsa_v1))))
      | V02 source \<Rightarrow>
          rbind (ensure (cf_entry_point source = ip_workflow policy) SourceMismatch) (\<lambda>_.
          rbind (require_source (cf_uri source) policy git_ref) (\<lambda>_.
          rbind (ok_or SourceMismatch (filter_commit (sdg_sha1 (cf_digest source)))) (\<lambda>commit.
          Inr (to_lower commit, slsa_v02)))))"

definition source_commit ::
  "provenance \<Rightarrow> image_provenance_policy \<Rightarrow> string \<Rightarrow> string \<Rightarrow> (string \<times> string) rejected" where
  "source_commit provenance policy git_ref certificate_commit =
     rbind (predicate_commit provenance policy git_ref) (\<lambda>(commit, predicate_type).
     rbind (ensure (eq_ignore_case commit certificate_commit) SourceMismatch) (\<lambda>_.
     rbind (ensure (case ip_commit policy of None \<Rightarrow> True | Some expected \<Rightarrow> eq_ignore_case expected commit)
              CommitMismatch) (\<lambda>_.
     Inr (commit, predicate_type))))"

section \<open>Bundles\<close>

text \<open>Who signed: an exact identity, or the caller's own workflow at a ref, which is returned.\<close>

definition signer_ref ::
  "image_provenance_policy \<Rightarrow> string option \<Rightarrow> string \<Rightarrow> string option rejected" where
  "signer_ref policy signer_identity identity =
     (case signer_identity of
        Some expected \<Rightarrow> rbind (ensure (identity = expected) UntrustedIdentity) (\<lambda>_. Inr None)
      | None \<Rightarrow>
          rbind (ok_or UntrustedIdentity
            (Option.bind (strip_prefix (''https://github.com/'' @ ip_repository policy @ ''/'' @ ip_workflow policy @ ''@'')
                            identity) (\<lambda>v.
             if starts_with ''refs/'' v then Some v else None))) (\<lambda>signer_ref.
          rbind (ensure (case ip_git_ref policy of None \<Rightarrow> True | Some expected \<Rightarrow> expected = signer_ref)
                   UntrustedIdentity) (\<lambda>_.
          Inr (Some signer_ref))))"

definition subject_matches :: "string \<Rightarrow> string option \<Rightarrow> bool" where
  "subject_matches hash subject = (case subject of None \<Rightarrow> False | Some v \<Rightarrow> eq_ignore_case v hash)"

fun dsse_envelope_of :: "signature_content \<Rightarrow> dsse_envelope rejected" where
  "dsse_envelope_of (DsseEnvelope e) = Inr e"
| "dsse_envelope_of MessageSignature = fail InvalidStatement"

lemma dsse_envelope_of_ok [outcome_simps]: "dsse_envelope_of c = Inr e \<longleftrightarrow> c = DsseEnvelope e"
  by (cases c) auto

definition verify_bundle ::
  "'z provenance_prims_scheme \<Rightarrow> string \<Rightarrow> string \<Rightarrow> image_provenance_policy \<Rightarrow> string option \<Rightarrow> bytes
     \<Rightarrow> verified_image_provenance rejected" where
  "verify_bundle P json hash policy signer_identity root =
     rbind (ok_or InvalidBundle (bundle_from_json P json)) (\<lambda>bundle.
     rbind (dsse_envelope_of (sb_content bundle)) (\<lambda>envelope.
     rbind (ensure (length (de_signatures envelope) = 1) InvalidBundle) (\<lambda>_.
     rbind (ensure (de_payload_type envelope = ''application/vnd.in-toto+json'') InvalidStatement) (\<lambda>_.
     rbind (ok_or InvalidStatement (Option.bind (json_document P (de_payload envelope)) statement_of)) (\<lambda>statement.
     rbind (ensure (st_type statement \<in> {''https://in-toto.io/Statement/v1'', ''https://in-toto.io/Statement/v0.1''})
              InvalidStatement) (\<lambda>_.
     rbind (ensure (list_ex (subject_matches hash) (st_subjects statement)) DigestMismatch) (\<lambda>_.
     rbind (ok_or DigestMismatch (sha256_hash_from_hex P hash)) (\<lambda>artifact.
     rbind (ok_or InvalidBundle (sigstore_verify P root artifact bundle)) (\<lambda>(identity, issuer).
     rbind (ok_or UntrustedIdentity identity) (\<lambda>identity.
     rbind (ok_or UntrustedIdentity issuer) (\<lambda>issuer.
     rbind (ensure (issuer = ip_issuer policy) UntrustedIdentity) (\<lambda>_.
     rbind (signer_ref policy signer_identity identity) (\<lambda>default_signer_ref.
     rbind (certificate_source P (sb_material bundle) policy) (\<lambda>source.
     rbind (ensure (default_signer_ref = None \<or> default_signer_ref = Some (src_git_ref source)) SourceMismatch) (\<lambda>_.
     rbind (source_commit (st_provenance statement) policy (src_git_ref source) (src_commit source))
       (\<lambda>(commit, predicate_type).
     Inr \<lparr>vip_digest = ''sha256:'' @ hash, vip_repository = ip_repository policy, vip_workflow = ip_workflow policy,
          vip_git_ref = src_git_ref source, vip_commit = commit, vip_certificate_identity = identity,
          vip_issuer = issuer, vip_predicate_type = predicate_type\<rparr>))))))))))))))))"

text \<open>
  The loop over the bundles: the first that verifies is returned; else the reasons, each once. A
  panic in \<open>verify_bundle\<close> would end the loop; there is none.
\<close>

fun try_bundles ::
  "(string \<Rightarrow> verified_image_provenance rejected) \<Rightarrow> string list \<Rightarrow> image_provenance_failure_reason list
     \<Rightarrow> (image_provenance_failure_reason list, verified_image_provenance) outcome" where
  "try_bundles verify [] reasons = fail reasons"
| "try_bundles verify (bundle # bundles) reasons =
     (case verify bundle of
        Inr result \<Rightarrow> Inr result
      | Inl (Err reason) \<Rightarrow>
          try_bundles verify bundles (if reason \<in> set reasons then reasons else reasons @ [reason])
      | Inl (Panic why) \<Rightarrow> panic why)"

definition verify_image_provenance_inner ::
  "'z provenance_prims_scheme \<Rightarrow> string list \<Rightarrow> string \<Rightarrow> image_provenance_policy \<Rightarrow> string option
     \<Rightarrow> verified_image_provenance ver" where
  "verify_image_provenance_inner P bundles digest policy signer_identity =
     rbind (ok_or (Ver_InvalidInput ''digest'' ''expected sha256: followed by 64 hexadecimal digits'')
              (image_hash digest)) (\<lambda>hash.
     let normalized_digest = ''sha256:'' @ hash in
     rbind (ok_or (provenance_error normalized_digest [TrustRootUnavailable]) (sigstore_trusted_root P)) (\<lambda>root.
     map_err (\<lambda>reasons. provenance_error normalized_digest (if reasons = [] then [NoAttestations] else reasons))
       (try_bundles (\<lambda>bundle. verify_bundle P bundle hash policy signer_identity root) bundles [])))"

definition verify_image_provenance ::
  "'z provenance_prims_scheme \<Rightarrow> string list \<Rightarrow> string \<Rightarrow> image_provenance_policy \<Rightarrow> verified_image_provenance ver" where
  "verify_image_provenance P bundles digest policy = verify_image_provenance_inner P bundles digest policy None"

definition verify_image_provenance_with_signer_identity ::
  "'z provenance_prims_scheme \<Rightarrow> string list \<Rightarrow> string \<Rightarrow> image_provenance_policy \<Rightarrow> string
     \<Rightarrow> verified_image_provenance ver" where
  "verify_image_provenance_with_signer_identity P bundles digest policy signer_identity =
     verify_image_provenance_inner P bundles digest policy (Some signer_identity)"

section \<open>What an accepted bundle establishes\<close>

definition accepted_type :: "string \<Rightarrow> bool" where
  "accepted_type t \<longleftrightarrow> t \<in> {''https://in-toto.io/Statement/v1'', ''https://in-toto.io/Statement/v0.1''}"

text \<open>The predicate names this commit of the policy's repository at this ref, built by its workflow.\<close>

definition names_commit ::
  "provenance \<Rightarrow> image_provenance_policy \<Rightarrow> string \<Rightarrow> string \<Rightarrow> string \<Rightarrow> bool" where
  "names_commit p policy git_ref commit predicate_type =
     (case p of
        V1 d \<Rightarrow>
          predicate_type = slsa_v1
          \<and> wf_repository (bd_workflow d)
              \<in> {r. or_else r (strip_suffix ''.git'' r) = ''https://github.com/'' @ ip_repository policy}
          \<and> wf_path (bd_workflow d) = ip_workflow policy \<and> wf_git_ref (bd_workflow d) = git_ref
          \<and> (\<exists>m c. find (\<lambda>m. github_source (mt_uri m) = Some (ip_repository policy, Some git_ref))
                     (bd_resolved_dependencies d) = Some m
               \<and> sdg_git_commit (mt_digest m) = Some c \<and> is_commit c \<and> commit = to_lower c)
      | V02 s \<Rightarrow>
          predicate_type = slsa_v02 \<and> cf_entry_point s = ip_workflow policy
          \<and> github_source (cf_uri s) = Some (ip_repository policy, Some git_ref)
          \<and> (\<exists>c. sdg_sha1 (cf_digest s) = Some c \<and> is_commit c \<and> commit = to_lower c))"

text \<open>The leaf certificate claims the policy's repository, this ref and this commit as its source.\<close>

definition certifies_source ::
  "'z provenance_prims_scheme \<Rightarrow> verification_material \<Rightarrow> image_provenance_policy \<Rightarrow> string \<Rightarrow> string \<Rightarrow> bool" where
  "certifies_source P material policy git_ref commit \<longleftrightarrow>
     (\<exists>der extensions exts c. leaf_certificate material = Inr der \<and> certificate_from_der P der = Some extensions
        \<and> exts = or_else [] extensions
        \<and> source_extension P exts source_repository_uri github_workflow_repository ''https://github.com/''
            = Inr (''https://github.com/'' @ ip_repository policy)
        \<and> source_extension P exts source_repository_ref github_workflow_ref [] = Inr git_ref
        \<and> source_extension P exts source_repository_digest github_workflow_sha [] = Inr c
        \<and> is_commit c \<and> commit = to_lower c)
     \<and> starts_with ''refs/'' git_ref
     \<and> (ip_git_ref policy = None \<or> ip_git_ref policy = Some git_ref)"

definition signed_as :: "image_provenance_policy \<Rightarrow> string option \<Rightarrow> string \<Rightarrow> string \<Rightarrow> bool" where
  "signed_as policy signer_identity identity git_ref =
     (case signer_identity of
        Some expected \<Rightarrow> identity = expected
      | None \<Rightarrow> identity = ''https://github.com/'' @ ip_repository policy @ ''/'' @ ip_workflow policy @ ''@'' @ git_ref)"

definition attested ::
  "'z provenance_prims_scheme \<Rightarrow> bytes \<Rightarrow> string \<Rightarrow> image_provenance_policy \<Rightarrow> string option \<Rightarrow> string
     \<Rightarrow> verified_image_provenance \<Rightarrow> bool" where
  "attested P root hash policy signer_identity json v \<longleftrightarrow>
     (\<exists>bundle e st artifact.
        bundle_from_json P json = Some bundle \<and> sb_content bundle = DsseEnvelope e \<and> length (de_signatures e) = 1
        \<and> de_payload_type e = ''application/vnd.in-toto+json''
        \<and> Option.bind (json_document P (de_payload e)) statement_of = Some st \<and> accepted_type (st_type st)
        \<and> list_ex (subject_matches hash) (st_subjects st)
        \<and> sha256_hash_from_hex P hash = Some artifact
        \<and> sigstore_verify P root artifact bundle = Some (Some (vip_certificate_identity v), Some (ip_issuer policy))
        \<and> signed_as policy signer_identity (vip_certificate_identity v) (vip_git_ref v)
        \<and> certifies_source P (sb_material bundle) policy (vip_git_ref v) (vip_commit v)
        \<and> names_commit (st_provenance st) policy (vip_git_ref v) (vip_commit v) (vip_predicate_type v))
     \<and> (ip_commit policy = None \<or> map_option to_lower (ip_commit policy) = Some (vip_commit v))
     \<and> vip_digest v = ''sha256:'' @ hash \<and> vip_repository v = ip_repository policy
     \<and> vip_workflow v = ip_workflow policy \<and> vip_issuer v = ip_issuer policy"

named_theorems provenance_ok \<open>success of each provenance check as the facts it establishes\<close>

lemma image_hash_Some [provenance_ok]:
  "image_hash digest = Some hash \<longleftrightarrow>
     (\<exists>v. digest = ''sha256:'' @ v \<and> length v = 64 \<and> list_all is_hexdigit v \<and> hash = to_lower v)"
  by (auto simp: image_hash_def bind_eq_Some_conv str_simps)

lemma is_commit_lower [simp]: "is_commit (to_lower c) = is_commit c"
  by (simp add: is_commit_def to_lower_def list_all_length)

lemma require_source_ok [provenance_ok]:
  "require_source uri policy git_ref = Inr u \<longleftrightarrow> github_source uri = Some (ip_repository policy, Some git_ref)"
  by (auto simp: require_source_def outcome_simps)

lemma filter_commit_Some [provenance_ok]: "filter_commit m = Some c \<longleftrightarrow> m = Some c \<and> is_commit c"
  by (auto simp: filter_commit_def bind_eq_Some_conv split: if_splits)

lemma predicate_commit_ok [provenance_ok]:
  "predicate_commit p policy git_ref = Inr (commit, t) \<longleftrightarrow> names_commit p policy git_ref commit t"
proof -
  have source: "(\<lambda>m. is_ok (require_source (mt_uri m) policy git_ref))
      = (\<lambda>m. github_source (mt_uri m) = Some (ip_repository policy, Some git_ref))"
    by (auto simp: is_ok_iff provenance_ok)
  show ?thesis
    unfolding predicate_commit_def names_commit_def source
    by (cases p) (auto simp: Let_def outcome_simps provenance_ok bind_eq_Some_conv)
qed

lemma source_commit_ok [provenance_ok]:
  "source_commit p policy git_ref certificate_commit = Inr (commit, t) \<longleftrightarrow>
     names_commit p policy git_ref commit t \<and> to_lower commit = to_lower certificate_commit
     \<and> (ip_commit policy = None \<or> map_option to_lower (ip_commit policy) = Some (to_lower commit))"
  by (auto simp: source_commit_def outcome_simps provenance_ok eq_ignore_case_def split: option.split)

lemma names_commit_lower: "names_commit p policy git_ref commit t \<Longrightarrow> to_lower commit = commit"
  by (auto simp: names_commit_def split: provenance.splits)

lemma certificate_source_ok [provenance_ok]:
  "certificate_source P material policy = Inr src \<longleftrightarrow>
     certifies_source P material policy (src_git_ref src) (src_commit src)"
  by (cases src)
    (auto simp: certificate_source_def source_extensions_def source_commit_extension_def certifies_source_def
      outcome_simps)

lemma signer_ref_own:
  "signer_ref policy None identity = Inr r \<longleftrightarrow>
     (\<exists>t. identity = ''https://github.com/'' @ ip_repository policy @ ''/'' @ ip_workflow policy @ ''@'' @ t
        \<and> starts_with ''refs/'' t \<and> r = Some t \<and> (ip_git_ref policy = None \<or> ip_git_ref policy = Some t))"
proof -
  define q where "q = ''https://github.com/'' @ ip_repository policy @ ''/'' @ ip_workflow policy @ ''@''"
  define own where "own = starts_with ''refs/''"
  have "signer_ref policy None identity = Inr r \<longleftrightarrow>
      (\<exists>t. identity = q @ t \<and> own t \<and> r = Some t \<and> (ip_git_ref policy = None \<or> ip_git_ref policy = Some t))"
    unfolding signer_ref_def own_def [symmetric] q_def [symmetric]
    by (cases "ip_git_ref policy") (auto simp: outcome_simps bind_eq_Some_conv strip_prefix_Some split: if_splits)
  then show ?thesis by (simp only: q_def own_def append_assoc)
qed

lemma signer_ref_pinned:
  "signer_ref policy (Some expected) identity = Inr r \<longleftrightarrow> identity = expected \<and> r = None"
  by (auto simp: signer_ref_def outcome_simps)

lemma signer_ref_ok [provenance_ok]:
  assumes "starts_with ''refs/'' git_ref" "ip_git_ref policy = None \<or> ip_git_ref policy = Some git_ref"
  shows "(\<exists>r. signer_ref policy signer_identity identity = Inr r \<and> (r = None \<or> r = Some git_ref))
     \<longleftrightarrow> signed_as policy signer_identity identity git_ref"
proof (cases signer_identity)
  case None
  then show ?thesis using assms by (simp only: signer_ref_own signed_as_def) auto
next
  case (Some expected)
  then show ?thesis by (auto simp: signer_ref_pinned signed_as_def)
qed

lemma verify_bundle_ok [provenance_ok]:
  "verify_bundle P json hash policy signer_identity root = Inr v \<longleftrightarrow>
     attested P root hash policy signer_identity json v"
proof
  assume "verify_bundle P json hash policy signer_identity root = Inr v"
  then obtain bd e st artifact identity r src cmt t
    where s: "bundle_from_json P json = Some bd" "sb_content bd = DsseEnvelope e"
        "length (de_signatures e) = 1" "de_payload_type e = ''application/vnd.in-toto+json''"
        "Option.bind (json_document P (de_payload e)) statement_of = Some st" "accepted_type (st_type st)"
        "list_ex (subject_matches hash) (st_subjects st)" "sha256_hash_from_hex P hash = Some artifact"
        "sigstore_verify P root artifact bd = Some (Some identity, Some (ip_issuer policy))"
      and r: "signer_ref policy signer_identity identity = Inr r" "r = None \<or> r = Some (src_git_ref src)"
      and src: "certificate_source P (sb_material bd) policy = Inr src"
      and c: "source_commit (st_provenance st) policy (src_git_ref src) (src_commit src) = Inr (cmt, t)"
      and v: "v = \<lparr>vip_digest = ''sha256:'' @ hash, vip_repository = ip_repository policy,
        vip_workflow = ip_workflow policy, vip_git_ref = src_git_ref src, vip_commit = cmt,
        vip_certificate_identity = identity, vip_issuer = ip_issuer policy, vip_predicate_type = t\<rparr>"
    unfolding verify_bundle_def accepted_type_def [symmetric]
    by (auto simp: outcome_simps)
  have cert: "certifies_source P (sb_material bd) policy (src_git_ref src) (src_commit src)"
    using src by (simp add: provenance_ok)
  then have refs: "starts_with ''refs/'' (src_git_ref src)"
      "ip_git_ref policy = None \<or> ip_git_ref policy = Some (src_git_ref src)"
      "to_lower (src_commit src) = src_commit src"
    by (auto simp: certifies_source_def)
  have named: "names_commit (st_provenance st) policy (src_git_ref src) cmt t"
      "to_lower cmt = to_lower (src_commit src)"
      "ip_commit policy = None \<or> map_option to_lower (ip_commit policy) = Some (to_lower cmt)"
    using iffD1 [OF source_commit_ok c] by blast+
  then have cmt: "cmt = src_commit src" using names_commit_lower [OF named(1)] refs(3) by simp
  have signed: "signed_as policy signer_identity identity (src_git_ref src)"
    using r signer_ref_ok [OF refs(1,2)] by auto
  show "attested P root hash policy signer_identity json v"
    unfolding attested_def v using s cert named signed cmt refs(3) by auto
next
  assume "attested P root hash policy signer_identity json v"
  then obtain bd e st artifact
    where s: "bundle_from_json P json = Some bd" "sb_content bd = DsseEnvelope e"
        "length (de_signatures e) = 1" "de_payload_type e = ''application/vnd.in-toto+json''"
        "Option.bind (json_document P (de_payload e)) statement_of = Some st" "accepted_type (st_type st)"
        "list_ex (subject_matches hash) (st_subjects st)" "sha256_hash_from_hex P hash = Some artifact"
        "sigstore_verify P root artifact bd = Some (Some (vip_certificate_identity v), Some (ip_issuer policy))"
      and signed: "signed_as policy signer_identity (vip_certificate_identity v) (vip_git_ref v)"
      and cert: "certifies_source P (sb_material bd) policy (vip_git_ref v) (vip_commit v)"
      and named: "names_commit (st_provenance st) policy (vip_git_ref v) (vip_commit v) (vip_predicate_type v)"
      and pin: "ip_commit policy = None \<or> map_option to_lower (ip_commit policy) = Some (vip_commit v)"
      and v: "vip_digest v = ''sha256:'' @ hash" "vip_repository v = ip_repository policy"
        "vip_workflow v = ip_workflow policy" "vip_issuer v = ip_issuer policy"
    unfolding attested_def by blast
  define src where "src = \<lparr>src_git_ref = vip_git_ref v, src_commit = vip_commit v\<rparr>"
  have src: "certificate_source P (sb_material bd) policy = Inr src" "src_git_ref src = vip_git_ref v"
      "src_commit src = vip_commit v"
    using cert by (simp_all add: provenance_ok src_def)
  have refs: "starts_with ''refs/'' (vip_git_ref v)" "ip_git_ref policy = None \<or> ip_git_ref policy = Some (vip_git_ref v)"
    using cert by (auto simp: certifies_source_def)
  obtain r where r: "signer_ref policy signer_identity (vip_certificate_identity v) = Inr r"
      "r = None \<or> r = Some (vip_git_ref v)"
    using signed signer_ref_ok [OF refs] by blast
  have c: "source_commit (st_provenance st) policy (vip_git_ref v) (vip_commit v)
      = Inr (vip_commit v, vip_predicate_type v)"
    using named names_commit_lower [OF named] pin by (simp add: source_commit_ok)
  have whole: "\<lparr>vip_digest = ''sha256:'' @ hash, vip_repository = ip_repository policy,
      vip_workflow = ip_workflow policy, vip_git_ref = vip_git_ref v, vip_commit = vip_commit v,
      vip_certificate_identity = vip_certificate_identity v, vip_issuer = ip_issuer policy,
      vip_predicate_type = vip_predicate_type v\<rparr> = v"
    using v by (cases v) simp
  show "verify_bundle P json hash policy signer_identity root = Inr v"
    unfolding verify_bundle_def accepted_type_def [symmetric]
    using r(2) whole by (simp add: s r(1) src c)
qed

text \<open>\<open>try_bundles\<close> returns the first acceptance, or every bundle's reason once.\<close>

lemma try_bundles_ok:
  "try_bundles verify bundles reasons = Inr v \<longleftrightarrow>
     (\<exists>pre b post. bundles = pre @ b # post \<and> verify b = Inr v
        \<and> list_all (\<lambda>b'. \<not> is_ok (verify b') \<and> \<not> panics (verify b')) pre)"
proof (induction verify bundles reasons rule: try_bundles.induct)
  case (2 verify b bs reasons)
  have split: "(\<exists>pre b' post. b # bs = pre @ b' # post \<and> verify b' = Inr v
        \<and> list_all (\<lambda>b'. \<not> is_ok (verify b') \<and> \<not> panics (verify b')) pre)
      \<longleftrightarrow> verify b = Inr v \<or> (\<not> is_ok (verify b) \<and> \<not> panics (verify b)
        \<and> (\<exists>pre b' post. bs = pre @ b' # post \<and> verify b' = Inr v
             \<and> list_all (\<lambda>b'. \<not> is_ok (verify b') \<and> \<not> panics (verify b')) pre))" (is "?all \<longleftrightarrow> ?split")
  proof
    assume ?all
    then obtain pre b' post where *: "b # bs = pre @ b' # post" "verify b' = Inr v"
      "list_all (\<lambda>b'. \<not> is_ok (verify b') \<and> \<not> panics (verify b')) pre" by blast
    then show ?split by (cases pre) auto
  next
    assume ?split
    then show ?all
    proof
      assume "verify b = Inr v"
      then show ?all by (intro exI [of _ "[]"] exI [of _ b] exI [of _ bs]) simp
    next
      assume "\<not> is_ok (verify b) \<and> \<not> panics (verify b)
        \<and> (\<exists>pre b' post. bs = pre @ b' # post \<and> verify b' = Inr v
             \<and> list_all (\<lambda>b'. \<not> is_ok (verify b') \<and> \<not> panics (verify b')) pre)"
      then obtain pre b' post where "\<not> is_ok (verify b)" "\<not> panics (verify b)" "bs = pre @ b' # post"
        "verify b' = Inr v" "list_all (\<lambda>b'. \<not> is_ok (verify b') \<and> \<not> panics (verify b')) pre" by blast
      then show ?all by (intro exI [of _ "b # pre"]) simp
    qed
  qed
  show ?case
  proof (cases "verify b")
    case (Inl f)
    then show ?thesis using "2.IH" unfolding split by (cases f) auto
  next
    case (Inr w)
    then show ?thesis unfolding split by simp
  qed
qed simp

lemma try_bundles_fail:
  assumes "try_bundles verify bundles reasons = fail rs"
  shows "set rs = set reasons \<union> {r. \<exists>b \<in> set bundles. verify b = fail r}
     \<and> list_all (\<lambda>b. \<not> is_ok (verify b)) bundles \<and> (distinct reasons \<longrightarrow> distinct rs)"
  using assms
proof (induction verify bundles reasons rule: try_bundles.induct)
  case (2 verify b bs reasons)
  then obtain r where r: "verify b = fail r" by (auto split: sum.splits fault.splits)
  with 2 show ?case by (auto split: if_splits)
qed simp

text \<open>No step of the verification panics.\<close>

lemma panics_case_option [simp]:
  "panics (case m of None \<Rightarrow> a | Some x \<Rightarrow> f x) \<longleftrightarrow>
     (case m of None \<Rightarrow> panics a | Some x \<Rightarrow> panics (f x))"
  by (cases m) simp_all

lemma source_extension_no_panic [simp]: "\<not> panics (source_extension P extensions modern legacy q)"
  by (auto simp: source_extension_def split: option.split)

lemma certificate_source_no_panic [simp]: "\<not> panics (certificate_source P material policy)"
  by (auto simp: certificate_source_def leaf_certificate_def source_extensions_def source_commit_extension_def
      split: verification_material.splits)

lemma source_commit_no_panic [simp]: "\<not> panics (source_commit p policy git_ref c)"
  by (auto simp: source_commit_def predicate_commit_def require_source_def Let_def split: provenance.splits)

lemma signer_ref_no_panic [simp]: "\<not> panics (signer_ref policy signer_identity identity)"
  by (auto simp: signer_ref_def split: option.splits)

lemma dsse_envelope_of_no_panic [simp]: "\<not> panics (dsse_envelope_of c)"
  by (cases c) simp_all

lemma verify_bundle_no_panic [simp]: "\<not> panics (verify_bundle P json hash policy signer_identity root)"
  by (auto simp: verify_bundle_def split: prod.splits)

lemma try_bundles_no_panic: "(\<And>b. \<not> panics (verify b)) \<Longrightarrow> \<not> panics (try_bundles verify bundles reasons)"
proof (induction verify bundles reasons rule: try_bundles.induct)
  case (2 verify b bs reasons)
  show ?case
  proof (cases "verify b")
    case (Inl f)
    then show ?thesis using "2.prems" [of b] "2.IH" "2.prems" by (cases f) simp_all
  qed simp
qed simp

section \<open>What was fetched\<close>

text \<open>
  A fetch seen as the list of its pages: each the answer to a request for its URL, linked to the next by
  its \<open>Link\<close> header, the last without one.
\<close>

record page =
  pg_url :: url
  pg_response :: http_response
  pg_entries :: "json list"

definition page_read :: "'z net_prims_scheme \<Rightarrow> http_client \<Rightarrow> string option \<Rightarrow> page \<Rightarrow> bool" where
  "page_read P client token p \<longleftrightarrow>
     github_get P client (pg_url p) ''application/vnd.github+json'' token = Some (pg_response p)
     \<and> is_success (rs_status (pg_response p)) \<and> \<not> rs_broken (pg_response p)
     \<and> decode_attestations P (concat (rs_chunks (pg_response p))) = Inr (pg_entries p)"

fun page_chain ::
  "'z net_prims_scheme \<Rightarrow> http_client \<Rightarrow> url \<Rightarrow> string option \<Rightarrow> url \<Rightarrow> page list \<Rightarrow> bool" where
  "page_chain P client original_url token url [] = False"
| "page_chain P client original_url token url (p # ps) \<longleftrightarrow>
     pg_url p = url \<and> page_read P client token p
     \<and> (case next_attestation_page P original_url (rs_headers (pg_response p)) of
          Inl _ \<Rightarrow> False
        | Inr None \<Rightarrow> ps = []
        | Inr (Some u) \<Rightarrow> page_chain P client original_url token u ps)"

definition page_size :: "page \<Rightarrow> nat" where
  "page_size p = length (concat (rs_chunks (pg_response p)))"

text \<open>
  The byte budget: a page is requested only while the total is below 64 MiB, and neither its declared
  nor its actual size exceeds 16 MiB or what is left.
\<close>

fun within_budget :: "nat \<Rightarrow> page list \<Rightarrow> bool" where
  "within_budget total_bytes [] = True"
| "within_budget total_bytes (p # ps) \<longleftrightarrow>
     total_bytes < max_provenance_total_bytes
     \<and> (let limit = min max_provenance_page_bytes (max_provenance_total_bytes - total_bytes) in
        page_size p \<le> limit
        \<and> (case rs_content_length (pg_response p) of None \<Rightarrow> True | Some n \<Rightarrow> n \<le> limit))
     \<and> within_budget (total_bytes + page_size p) ps"

definition page_bundles :: "'z net_prims_scheme \<Rightarrow> page list \<Rightarrow> string list" where
  "page_bundles P ps = concat (map (\<lambda>p. map (json_print P) (pg_entries p)) ps)"

lemma page_bundles_simps [simp]:
  "page_bundles P [] = []"
  "page_bundles P (p # ps) = map (json_print P) (pg_entries p) @ page_bundles P ps"
  by (simp_all add: page_bundles_def)

lemma read_chunks_ok:
  "length bytes \<le> limit \<Longrightarrow>
     read_chunks e f limit broken chunks bytes = Inr r \<longleftrightarrow>
       \<not> broken \<and> r = bytes @ concat chunks \<and> length r \<le> limit"
proof (induction chunks arbitrary: bytes)
  case (Cons c cs)
  then show ?case
  proof (cases "limit - length bytes < length c")
    case True
    then show ?thesis using Cons.prems by auto
  next
    case False
    then show ?thesis using Cons.prems Cons.IH [of "bytes @ c"] by simp
  qed
qed auto

lemma read_limited_ok:
  "read_limited e f limit response = Inr r \<longleftrightarrow>
     \<not> rs_broken response \<and> r = concat (rs_chunks response) \<and> length r \<le> limit
     \<and> (case rs_content_length response of None \<Rightarrow> True | Some n \<Rightarrow> n \<le> limit)"
  by (auto simp: read_limited_def outcome_simps read_chunks_ok)

lemma fetch_pages_chain:
  "distinct visited \<Longrightarrow>
   fetch_image_provenance_pages P client original_url token url visited total_bytes bundles = Inr r \<longleftrightarrow>
     (\<exists>ps. page_chain P client original_url token url ps
        \<and> length visited + length ps \<le> max_provenance_pages \<and> distinct (visited @ map pg_url ps)
        \<and> within_budget total_bytes ps
        \<and> r = bundles @ page_bundles P ps)"
  (is "_ \<Longrightarrow> ?fetch \<longleftrightarrow> (\<exists>ps. ?pages ps)")
proof (induction P client original_url token url visited total_bytes bundles
    rule: fetch_image_provenance_pages.induct)
  case (1 P client original_url token url visited total_bytes bundles)
  let ?limit = "min max_provenance_page_bytes (max_provenance_total_bytes - total_bytes)"
  let ?fetch = "\<lambda>url visited total_bytes bundles. fetch_image_provenance_pages P client original_url token url visited total_bytes bundles"
  let ?pages = "\<lambda>url visited total_bytes bundles ps. page_chain P client original_url token url ps
        \<and> length visited + length ps \<le> max_provenance_pages \<and> distinct (visited @ map pg_url ps)
        \<and> within_budget total_bytes ps
        \<and> r = bundles @ page_bundles P ps"
  show ?case
  proof
    assume "?fetch url visited total_bytes bundles = Inr r"
    then obtain response next_url body entries where
        guards: "length visited < max_provenance_pages" "total_bytes < max_provenance_total_bytes" "url \<notin> set visited"
      and response: "github_get P client url ''application/vnd.github+json'' token = Some response"
        "is_success (rs_status response)"
      and next_url: "next_attestation_page P original_url (rs_headers response) = Inr next_url"
      and body: "read_provenance_body response ?limit = Inr body"
      and entries: "decode_attestations P body = Inr entries"
      and rest: "(case next_url of None \<Rightarrow> Inr (bundles @ map (json_print P) entries)
         | Some u \<Rightarrow> ?fetch u (visited @ [url]) (total_bytes + length body) (bundles @ map (json_print P) entries)) = Inr r"
      by (subst (asm) fetch_image_provenance_pages.simps) (auto simp: outcome_simps Let_def)
    define p where "p = \<lparr>pg_url = url, pg_response = response, pg_entries = entries\<rparr>"
    have body': "\<not> rs_broken response" "body = concat (rs_chunks response)" "length body \<le> ?limit"
        "case rs_content_length response of None \<Rightarrow> True | Some n \<Rightarrow> n \<le> ?limit"
      using iffD1 [OF read_limited_ok body [unfolded read_provenance_body_def]] by blast+
    have p: "pg_url p = url" "page_read P client token p" "pg_response p = response" "pg_entries p = entries"
        "page_size p = length body"
      using response entries body'(1,2) by (simp_all add: p_def page_read_def page_size_def)
    show "\<exists>ps. ?pages url visited total_bytes bundles ps"
    proof (cases next_url)
      case None
      then have "?pages url visited total_bytes bundles [p]"
        using guards next_url rest p body' "1.prems" by (simp add: Let_def)
      then show ?thesis by blast
    next
      case (Some u)
      have "distinct (visited @ [url])" using guards "1.prems" by simp
      then obtain ps where ps: "?pages u (visited @ [url]) (total_bytes + length body)
          (bundles @ map (json_print P) entries) ps"
        using "1.IH" [OF _ _ _ _ _ next_url refl body entries refl Some] guards response rest Some
        by (auto simp: outcome_simps)
      then have "?pages url visited total_bytes bundles (p # ps)"
        using guards next_url Some p body' by (simp add: Let_def)
      then show ?thesis by blast
    qed
  next
    assume "\<exists>ps. ?pages url visited total_bytes bundles ps"
    then obtain p ps where ps: "?pages url visited total_bytes bundles (p # ps)"
      by (metis page_chain.simps(1) list.exhaust)
    then obtain next_url where next_url:
        "next_attestation_page P original_url (rs_headers (pg_response p)) = Inr next_url"
      by (auto split: sum.splits)
    let ?body = "concat (rs_chunks (pg_response p))"
    have step: "github_get P client url ''application/vnd.github+json'' token = Some (pg_response p)"
        "is_success (rs_status (pg_response p))" "decode_attestations P ?body = Inr (pg_entries p)"
        "length visited < max_provenance_pages" "total_bytes < max_provenance_total_bytes" "url \<notin> set visited"
        "read_provenance_body (pg_response p) ?limit = Inr ?body"
      using ps by (auto simp: page_read_def read_provenance_body_def read_limited_ok Let_def page_size_def)
    show "?fetch url visited total_bytes bundles = Inr r"
    proof (cases next_url)
      case None
      then show ?thesis using ps next_url step
        by (subst fetch_image_provenance_pages.simps) simp
    next
      case (Some u)
      have "distinct (visited @ [url])" using step "1.prems" by simp
      moreover have "?pages u (visited @ [url]) (total_bytes + length ?body)
          (bundles @ map (json_print P) (pg_entries p)) ps"
        using ps next_url Some step by (auto simp: Let_def page_size_def)
      ultimately have "?fetch u (visited @ [url]) (total_bytes + length ?body)
          (bundles @ map (json_print P) (pg_entries p)) = Inr r"
        using "1.IH" [OF _ _ _ _ _ next_url refl step(7) step(3) refl Some] step
        by (auto simp: outcome_simps)
      then show ?thesis using next_url step Some
        by (subst fetch_image_provenance_pages.simps) simp
    qed
  qed
qed

text \<open>Every page has the first page's endpoint; only the query changes.\<close>

lemma next_in_links_Some:
  "next_in_links P original_url links = Inr (Some u) \<Longrightarrow> \<exists>q. u = original_url\<lparr>u_query := Some q\<rparr>"
  by (induction P original_url links rule: next_in_links.induct)
    (auto simp: Let_def outcome_simps next_page_url_def split: if_splits prod.splits)

lemma next_in_headers_Some:
  "next_in_headers P original_url hs = Inr (Some u) \<Longrightarrow> \<exists>q. u = original_url\<lparr>u_query := Some q\<rparr>"
proof (induction P original_url hs rule: next_in_headers.induct)
  case (2 P original_url h hs)
  then obtain line found where *: "header_to_str h = Some line"
      "next_in_links P original_url (split_on (CHR '','') line) = Inr found"
      "(case found of Some url \<Rightarrow> Inr (Some url) | None \<Rightarrow> next_in_headers P original_url hs) = Inr (Some u)"
    by (auto simp: outcome_simps)
  show ?case
  proof (cases found)
    case None
    with * show ?thesis using "2.IH" [OF _ *(2) None] by (simp add: outcome_simps)
  next
    case (Some v)
    with * show ?thesis using next_in_links_Some by auto
  qed
qed simp

lemma next_attestation_page_Some:
  "next_attestation_page P original_url h = Inr (Some u) \<Longrightarrow> \<exists>q. u = original_url\<lparr>u_query := Some q\<rparr>"
  by (auto simp: next_attestation_page_def Let_def outcome_simps dest: next_in_headers_Some)

lemma page_chain_endpoint:
  "page_chain P client original_url token url ps \<Longrightarrow> url\<lparr>u_query := q\<rparr> = original_url\<lparr>u_query := q\<rparr> \<Longrightarrow>
     list_all (\<lambda>p. (pg_url p)\<lparr>u_query := q\<rparr> = original_url\<lparr>u_query := q\<rparr>) ps"
proof (induction P client original_url token url ps rule: page_chain.induct)
  case (2 P client original_url token url p ps)
  then show ?case
    by (auto split: sum.splits option.splits dest!: next_attestation_page_Some)
qed simp

lemma page_chain_read:
  "page_chain P client original_url token url ps \<Longrightarrow> list_all (page_read P client token) ps"
  by (induction P client original_url token url ps rule: page_chain.induct)
    (auto split: sum.splits option.splits)

lemma within_budget_total:
  "within_budget total_bytes ps \<Longrightarrow> ps \<noteq> [] \<Longrightarrow> total_bytes + sum_list (map page_size ps) \<le> max_provenance_total_bytes"
proof (induction total_bytes ps rule: within_budget.induct)
  case (2 total_bytes p ps)
  then show ?case by (cases "ps = []") (auto simp: Let_def)
qed simp

lemma page_entries_bound:
  assumes "page_read P client token p"
  shows "length (pg_entries p) \<le> max_provenance_page_entries"
proof -
  have "deserialize_attestations j = Some es \<Longrightarrow> length es \<le> max_provenance_page_entries" for j es
    by (auto simp: deserialize_attestations_def bind_eq_Some_conv all_some_Some dest!: arg_cong [of _ _ length]
        split: if_splits)
  then show ?thesis
    using assms
    by (auto simp: page_read_def decode_attestations_def github_attestations_of_def bind_eq_Some_conv str_simps
        split: option.splits)
qed

lemma page_bundles_bound:
  "list_all (page_read P client token) ps \<Longrightarrow>
     length (page_bundles P ps) \<le> max_provenance_page_entries * length ps"
  by (induction ps) (auto dest!: page_entries_bound)

lemma fetch_with_options_ok:
  "fetch_image_provenance_with_options P repository digest options = Inr bundles \<longleftrightarrow>
     valid_repository repository
     \<and> (\<exists>hash base url ps. image_hash digest = Some hash \<and> github_api_base P (pf_github_api_url options) = Inr base
        \<and> url_parse P (trim_end_matches (CHR ''/'') (url_text P base) @ ''/repos/'' @ repository
                 @ ''/attestations/sha256:'' @ hash @ ''?per_page=100'') = Some url
        \<and> page_chain P no_redirect_client url
            (if pf_github_api_url options = None then pf_github_token options else None) url ps
        \<and> length ps \<le> max_provenance_pages \<and> distinct (map pg_url ps) \<and> within_budget 0 ps
        \<and> bundles = page_bundles P ps)"
  by (auto simp: fetch_image_provenance_with_options_def outcome_simps fetch_pages_chain)

section \<open>An instance with two pages\<close>

definition demo_digest_text :: string where
  "demo_digest_text = ''sha256:'' @ replicate 64 (CHR ''a'')"

definition demo_page :: "headers \<Rightarrow> http_response" where
  "demo_page h = \<lparr>rs_status = 200, rs_headers = h, rs_content_length = None,
     rs_chunks = [as_bytes (put_json (JObj [(''attestations'', JArr [JObj [(''bundle'', JObj [])]])]))],
     rs_broken = False, rs_peer_certificate = None\<rparr>"

definition demo_pages :: net_prims where
  "demo_pages = demo_net\<lparr>url_text := \<lambda>u. u_path u @ (case u_query u of None \<Rightarrow> [] | Some q \<Rightarrow> ''?'' @ q),
     url_query_pairs := \<lambda>_. [(''after'', ''c'')],
     http_send := \<lambda>_ rq. Some (demo_page
        (if strip_suffix ''&after=c'' (rq_url rq) = None then [(''link'', ''<n>; rel=next'')] else []))\<rparr>"

lemma demo_pages_fetched:
  "fetch_image_provenance demo_pages ''o/r'' demo_digest_text (Some ''t'') = Inr [''o.'', ''o.'']"
  by code_simp

section \<open>Properties\<close>

text \<open>C23: Image provenance is accepted exactly when the digest is well formed, the trust root loads, and
  some bundle (the first that does) is a Sigstore DSSE bundle with one signature over an in-toto statement about
  that digest, verified by Sigstore for the policy's issuer and for the expected signer, whose certificate and SLSA
  predicate both name the policy's repository, workflow, ref and one commit; the result is made of what they
  name. The verification never panics.\<close>

theorem image_provenance_exact:
  "(verify_image_provenance_inner P bundles digest policy signer_identity = Inr v \<longleftrightarrow>
     (\<exists>hash root pre b post. image_hash digest = Some hash \<and> sigstore_trusted_root P = Some root
        \<and> bundles = pre @ b # post \<and> attested P root hash policy signer_identity b v
        \<and> list_all (\<lambda>b'. \<not> (\<exists>v'. attested P root hash policy signer_identity b' v')) pre))
   \<and> \<not> panics (verify_image_provenance_inner P bundles digest policy signer_identity)"
  by (auto simp: verify_image_provenance_inner_def Let_def outcome_simps try_bundles_ok is_ok_iff provenance_ok
      try_bundles_no_panic)

text \<open>C24: A fetch of image provenance that succeeds has read at most 32 pages, each once, linked by their
  \<open>Link\<close> headers, all at the endpoint of the first with no redirect followed and only the query changed; together
  they hold at most 64 MiB and 3,200 bundles, and every bundle of every page is returned in order. The token is sent to
  the default endpoint only.\<close>

theorem provenance_fetch_bounded:
  assumes "fetch_image_provenance_with_options P repository digest options = Inr bundles"
  shows "\<exists>url ps.
      page_chain P no_redirect_client url
        (if pf_github_api_url options = None then pf_github_token options else None) url ps
      \<and> bundles = page_bundles P ps \<and> length ps \<le> 32 \<and> distinct (map pg_url ps)
      \<and> list_all (\<lambda>p. (pg_url p)\<lparr>u_query := u_query url\<rparr> = url) ps
      \<and> sum_list (map page_size ps) \<le> 64 * 1024 * 1024 \<and> length bundles \<le> 3200"
proof -
  obtain url ps where chain: "page_chain P no_redirect_client url
        (if pf_github_api_url options = None then pf_github_token options else None) url ps"
      "length ps \<le> max_provenance_pages" "distinct (map pg_url ps)" "within_budget 0 ps"
      "bundles = page_bundles P ps"
    using iffD1 [OF fetch_with_options_ok assms] by blast
  have "ps \<noteq> []" using chain(1) by auto
  then have "sum_list (map page_size ps) \<le> 64 * 1024 * 1024"
    using within_budget_total [OF chain(4)] by (simp add: max_provenance_total_bytes_def)
  moreover have "list_all (\<lambda>p. (pg_url p)\<lparr>u_query := u_query url\<rparr> = url) ps"
    using page_chain_endpoint [OF chain(1) refl, of "u_query url"] by simp
  moreover have "length bundles \<le> 100 * length ps"
    using page_bundles_bound [OF page_chain_read [OF chain(1)]] chain(5)
    by (simp add: max_provenance_page_entries_def)
  ultimately show ?thesis using chain by (fastforce simp: max_provenance_pages_def)
qed

lemma provenance_fetch_bounded_witness:
  "\<exists>url ps. page_chain demo_pages no_redirect_client url (Some ''t'') url ps
     \<and> [''o.'', ''o.''] = page_bundles demo_pages ps \<and> sum_list (map page_size ps) \<le> 64 * 1024 * 1024"
proof -
  have "fetch_image_provenance_with_options demo_pages ''o/r'' demo_digest_text
      \<lparr>pf_github_token = Some ''t'', pf_github_api_url = None\<rparr> = Inr [''o.'', ''o.'']"
    using demo_pages_fetched by (simp only: fetch_image_provenance_def)
  from provenance_fetch_bounded [OF this] show ?thesis by auto
qed

end
