(* ===== verification/Deployment_Provenance.thy ===== *)
theory Deployment_Provenance
  imports Provenance Reports
begin

text \<open>
  \<open>deployment_provenance.rs\<close>: which images a Compose file runs, which of them the caller's policies
  cover, and fetching and verifying the build provenance of each. \<open>BTreeMap\<close>s are association lists in
  key order. Reading YAML and merging its \<open>\<lless>\<close> keys are operations of the environment.
\<close>

section \<open>YAML accessors\<close>

fun untag :: "yaml \<Rightarrow> yaml" where
  "untag (YTagged t y) = untag y"
| "untag y = y"

fun yaml_mapping :: "yaml \<Rightarrow> (yaml \<times> yaml) list option" where
  "yaml_mapping (YMap kvs) = Some kvs"
| "yaml_mapping (YTagged t y) = yaml_mapping y"
| "yaml_mapping _ = None"

fun yaml_str :: "yaml \<Rightarrow> string option" where
  "yaml_str (YStr s) = Some s"
| "yaml_str (YTagged t y) = yaml_str y"
| "yaml_str _ = None"

definition yaml_null :: "yaml \<Rightarrow> bool" where
  "yaml_null y \<longleftrightarrow> untag y = YNull"

definition yaml_get :: "yaml \<Rightarrow> string \<Rightarrow> yaml option" where
  "yaml_get y k = Option.bind (yaml_mapping y) (\<lambda>kvs. map_of kvs (YStr k))"

section \<open>Image references\<close>

definition images_error ::
  "deployment_images_failure_reason \<Rightarrow> string option \<Rightarrow> string option \<Rightarrow> verification_error" where
  "images_error reason image_repository service = DeploymentImagesInvalid reason image_repository service"

definition tag_ok :: "string \<Rightarrow> bool" where
  "tag_ok tag \<longleftrightarrow>
     1 \<le> length tag \<and> length tag \<le> 128 \<and> (is_alnum (hd tag) \<or> hd tag = CHR ''_'')
     \<and> list_all (\<lambda>c. is_alnum c \<or> c \<in> set ''_.-'') tag"

definition pinned_digest :: "string \<Rightarrow> string option" where
  "pinned_digest reference =
     Option.bind (split_once (CHR ''@'') reference) (\<lambda>(tag, digest).
     if tag \<noteq> [] \<and> (case strip_prefix '':'' tag of None \<Rightarrow> True | Some t \<Rightarrow> \<not> tag_ok t) then None
     else Option.bind (strip_prefix ''sha256:'' digest) (\<lambda>hash.
       if length hash = 64 \<and> list_all is_hexdigit hash then Some digest else None))"

definition without_docker_hub :: "string \<Rightarrow> string" where
  "without_docker_hub reference = or_else reference (strip_prefix ''docker.io/'' reference)"

text \<open>What follows the repository in a reference to it: nothing, a tag or a digest.\<close>

definition reference_suffix :: "string \<Rightarrow> string \<Rightarrow> string option" where
  "reference_suffix normalized reference =
     Option.bind (strip_prefix normalized reference) (\<lambda>suffix.
     if suffix \<noteq> [] \<and> hd suffix \<noteq> CHR ''@'' \<and> hd suffix \<noteq> CHR '':'' then None else Some suffix)"

section \<open>Selecting images\<close>

record selected_image =
  sl_policy_key :: string
  sl_repository :: string
  sl_digest :: string
  sl_policy :: image_provenance_policy

type_synonym image_policies = "(string \<times> image_provenance_policy) list"

definition app_compose_of :: "json \<Rightarrow> string option" where
  "app_compose_of j =
     Option.bind (struct_view [''docker_compose_file''] 1 j) (\<lambda>kvs. need kvs ''docker_compose_file'' as_str)"

definition service_image :: "string \<Rightarrow> yaml \<Rightarrow> string option ver" where
  "service_image service config =
     rbind (ensure (yaml_mapping config \<noteq> None) (images_error InvalidDockerCompose None (Some service))) (\<lambda>_.
     case yaml_get config ''image'' of
       None \<Rightarrow> Inr None
     | Some img \<Rightarrow>
         if yaml_null img then Inr None
         else rbind (ok_or (images_error InvalidDockerCompose None (Some service)) (yaml_str img)) (\<lambda>img.
           rbind (ensure (CHR ''$'' \<notin> set img) (images_error UnresolvedImage None (Some service))) (\<lambda>_.
           Inr (Some (without_docker_hub img)))))"

fun service_images :: "string list option \<Rightarrow> (yaml \<times> yaml) list \<Rightarrow> (string \<times> string) list ver" where
  "service_images names [] = Inr []"
| "service_images names ((service, config) # services) =
     rbind (ok_or (images_error InvalidDockerCompose None None) (yaml_str service)) (\<lambda>service.
     if (case names of None \<Rightarrow> False | Some ns \<Rightarrow> service \<notin> set ns) then service_images names services
     else rbind (service_image service config) (\<lambda>img.
       rbind (service_images names services) (\<lambda>rest.
       Inr (case img of None \<Rightarrow> rest | Some i \<Rightarrow> (service, i) # rest))))"

fun select_policy ::
  "string \<Rightarrow> string \<Rightarrow> image_provenance_policy \<Rightarrow> (string \<times> string) list \<Rightarrow> selected_image list ver" where
  "select_policy repository normalized policy [] = Inr []"
| "select_policy repository normalized policy ((service, img) # images) =
     (case reference_suffix normalized img of
        None \<Rightarrow> select_policy repository normalized policy images
      | Some sfx \<Rightarrow>
          rbind (ok_or (images_error ImageNotPinned (Some normalized) (Some service)) (pinned_digest sfx)) (\<lambda>digest.
          rbind (select_policy repository normalized policy images) (\<lambda>selected.
          Inr (\<lparr>sl_policy_key = repository, sl_repository = normalized, sl_digest = to_lower digest,
                sl_policy = policy\<rparr> # selected))))"

text \<open>\<open>found\<close> is set exactly when something was selected.\<close>

fun select_policies :: "image_policies \<Rightarrow> (string \<times> string) list \<Rightarrow> selected_image list ver" where
  "select_policies [] images = Inr []"
| "select_policies ((repository, policy) # policies) images =
     (let normalized = without_docker_hub repository in
      rbind (select_policy repository normalized policy images) (\<lambda>selected.
      rbind (ensure (selected \<noteq> []) (images_error ImageMissing (Some normalized) None)) (\<lambda>_.
      rbind (select_policies policies images) (\<lambda>rest.
      Inr (selected @ rest)))))"

definition compose_services :: "'z provenance_prims_scheme \<Rightarrow> string \<Rightarrow> (yaml \<times> yaml) list option" where
  "compose_services P docker_compose =
     Option.bind (yaml_from_str P docker_compose) (\<lambda>y.
     Option.bind (yaml_apply_merge P y) (\<lambda>y.
     Option.bind (yaml_get y ''services'') yaml_mapping))"

definition nonempty_names :: "string list option \<Rightarrow> string list option" where
  "nonempty_names names = (if names = Some [] then None else names)"

definition select_compose_images ::
  "'z provenance_prims_scheme \<Rightarrow> string \<Rightarrow> image_policies \<Rightarrow> string list option \<Rightarrow> selected_image list ver" where
  "select_compose_images P docker_compose image_policies selected_services =
     rbind (ensure (image_policies \<noteq> []) (images_error EmptyPolicy None None)) (\<lambda>_.
     rbind (ok_or (images_error InvalidDockerCompose None None) (compose_services P docker_compose)) (\<lambda>services.
     let names = nonempty_names selected_services in
     rbind (for_each (\<lambda>name. ensure (map_of services (YStr name) \<noteq> None) (images_error ServiceMissing None (Some name)))
              (or_else [] names)) (\<lambda>_.
     rbind (service_images names services) (\<lambda>images.
     select_policies image_policies images))))"

definition select_images ::
  "'z provenance_prims_scheme \<Rightarrow> string \<Rightarrow> image_policies \<Rightarrow> selected_image list ver" where
  "select_images P app_compose image_policies =
     rbind (ensure (image_policies \<noteq> []) (images_error EmptyPolicy None None)) (\<lambda>_.
     rbind (ok_or (images_error InvalidAppCompose None None)
              (Option.bind (json_document P (as_bytes app_compose)) app_compose_of)) (\<lambda>docker_compose_file.
     select_compose_images P docker_compose_file image_policies None))"

section \<open>Verifying the selected images\<close>

definition verify_required_image_provenance ::
  "'z provenance_prims_scheme \<Rightarrow> string \<Rightarrow> string \<Rightarrow> image_provenance_policy \<Rightarrow> string option
     \<Rightarrow> provenance_fetch_options \<Rightarrow> unit ver" where
  "verify_required_image_provenance P repository digest policy signer_identity access =
     rbind (map_err (\<lambda>source. ImageProvenanceRequestFailed repository digest source)
              (fetch_image_provenance_with_options P (ip_repository policy) digest access)) (\<lambda>bundles.
     rbind (case signer_identity of
              Some identity \<Rightarrow> verify_image_provenance_with_signer_identity P bundles digest policy identity
            | None \<Rightarrow> verify_image_provenance P bundles digest policy) (\<lambda>_.
     Inr ()))"

type_synonym signer_identities = "(string \<times> string) list"

definition verify_selected_images ::
  "'z provenance_prims_scheme \<Rightarrow> selected_image list \<Rightarrow> signer_identities option \<Rightarrow> provenance_fetch_options
     \<Rightarrow> unit ver" where
  "verify_selected_images P images image_signer_identities access =
     for_each (\<lambda>img. verify_required_image_provenance P (sl_repository img) (sl_digest img) (sl_policy img)
        (Option.bind image_signer_identities (\<lambda>identities. map_of identities (sl_policy_key img))) access) images"

definition verify_compose_image_provenance ::
  "'z provenance_prims_scheme \<Rightarrow> string \<Rightarrow> image_policies \<Rightarrow> signer_identities option \<Rightarrow> string list option
     \<Rightarrow> provenance_fetch_options \<Rightarrow> unit ver" where
  "verify_compose_image_provenance P docker_compose image_policies image_signer_identities services access =
     rbind (select_compose_images P docker_compose image_policies services) (\<lambda>selected.
     verify_selected_images P selected image_signer_identities access)"

record deployment_image_options =
  do_access :: provenance_fetch_options
  do_image_signer_identities :: "signer_identities option"

text \<open>Every signer identity belongs to a policy.\<close>

definition check_identity_keys ::
  "'z provenance_prims_scheme \<Rightarrow> image_policies \<Rightarrow> signer_identities option \<Rightarrow> unit ver" where
  "check_identity_keys P image_policies identities =
     for_each (\<lambda>(repository, _). ensure (map_of image_policies repository \<noteq> None)
        (Ver_InvalidInput ''image_signer_identities''
           (debug_text P repository @ '' must be an exact key from image_policies''))) (or_else [] identities)"

definition verify_deployment_image_provenance_with_options ::
  "'z provenance_prims_scheme \<Rightarrow> string \<Rightarrow> image_policies \<Rightarrow> deployment_image_options \<Rightarrow> unit ver" where
  "verify_deployment_image_provenance_with_options P app_compose image_policies options =
     rbind (check_identity_keys P image_policies (do_image_signer_identities options)) (\<lambda>_.
     rbind (select_images P app_compose image_policies) (\<lambda>images.
     verify_selected_images P images (do_image_signer_identities options) (do_access options)))"

definition verify_deployment_image_provenance ::
  "'z provenance_prims_scheme \<Rightarrow> string \<Rightarrow> image_policies \<Rightarrow> string option \<Rightarrow> unit ver" where
  "verify_deployment_image_provenance P app_compose image_policies github_token =
     verify_deployment_image_provenance_with_options P app_compose image_policies
       \<lparr>do_access = \<lparr>pf_github_token = github_token, pf_github_api_url = None\<rparr>, do_image_signer_identities = None\<rparr>"

definition verify_deployment_image_provenance_with_signer_identities ::
  "'z provenance_prims_scheme \<Rightarrow> string \<Rightarrow> image_policies \<Rightarrow> signer_identities \<Rightarrow> string option \<Rightarrow> unit ver" where
  "verify_deployment_image_provenance_with_signer_identities P app_compose image_policies identities github_token =
     verify_deployment_image_provenance_with_options P app_compose image_policies
       \<lparr>do_access = \<lparr>pf_github_token = github_token, pf_github_api_url = None\<rparr>,
        do_image_signer_identities = Some identities\<rparr>"

section \<open>What an accepted deployment establishes\<close>

text \<open>A service of the file (one of \<open>names\<close>, when given) runs this image.\<close>

definition runs :: "string list option \<Rightarrow> (yaml \<times> yaml) list \<Rightarrow> string \<Rightarrow> string \<Rightarrow> bool" where
  "runs names services service img \<longleftrightarrow>
     (\<exists>(s, config) \<in> set services. yaml_str s = Some service
        \<and> (case names of None \<Rightarrow> True | Some ns \<Rightarrow> service \<in> set ns)
        \<and> service_image service config = Inr (Some img))"

text \<open>The build of this digest was fetched and verified under the policy.\<close>

definition vouched ::
  "'z provenance_prims_scheme \<Rightarrow> provenance_fetch_options \<Rightarrow> string option \<Rightarrow> image_provenance_policy \<Rightarrow> string \<Rightarrow> bool" where
  "vouched P access signer_identity policy digest \<longleftrightarrow>
     (\<exists>bundles v. fetch_image_provenance_with_options P (ip_repository policy) digest access = Inr bundles
        \<and> verify_image_provenance_inner P bundles digest policy signer_identity = Inr v)"

definition images_vouched ::
  "'z provenance_prims_scheme \<Rightarrow> provenance_fetch_options \<Rightarrow> signer_identities option \<Rightarrow> image_policies
     \<Rightarrow> string list option \<Rightarrow> (yaml \<times> yaml) list \<Rightarrow> bool" where
  "images_vouched P access identities policies names services \<longleftrightarrow>
     policies \<noteq> []
     \<and> (\<forall>(key, policy) \<in> set policies.
          (\<exists>service img. runs names services service img \<and> reference_suffix (without_docker_hub key) img \<noteq> None)
          \<and> (\<forall>service img sfx. runs names services service img
               \<longrightarrow> reference_suffix (without_docker_hub key) img = Some sfx
               \<longrightarrow> (\<exists>digest. pinned_digest sfx = Some digest
                     \<and> vouched P access (Option.bind identities (\<lambda>i. map_of i key)) policy (to_lower digest))))"

lemma service_images_runs:
  "service_images names services = Inr images \<Longrightarrow> (service, img) \<in> set images \<longleftrightarrow> runs names services service img"
proof (induction names services arbitrary: images rule: service_images.induct)
  case (1 names)
  then show ?case by (simp add: runs_def)
next
  case (2 names s config services)
  have runs_Cons: "runs names ((s, config) # services) service img \<longleftrightarrow>
      (yaml_str s = Some service \<and> (case names of None \<Rightarrow> True | Some ns \<Rightarrow> service \<in> set ns)
        \<and> service_image service config = Inr (Some img)) \<or> runs names services service img"
    by (auto simp: runs_def)
  from "2.prems" obtain name where name: "yaml_str s = Some name" by (auto simp: outcome_simps)
  show ?case
  proof (cases "case names of None \<Rightarrow> False | Some ns \<Rightarrow> name \<notin> set ns")
    case True
    with "2.prems" name have "service_images names services = Inr images" by simp
    from "2.IH"(1) [OF _ True this] name True show ?thesis
      unfolding runs_Cons by (auto split: option.splits)
  next
    case False
    with "2.prems" name obtain io rest where io: "service_image name config = Inr io"
        "service_images names services = Inr rest" "images = (case io of None \<Rightarrow> rest | Some i \<Rightarrow> (name, i) # rest)"
      by (auto simp: outcome_simps)
    from "2.IH"(2) [OF _ False io(1,2)] name False io show ?thesis
      unfolding runs_Cons by (auto split: option.splits)
  qed
qed

definition selects ::
  "string \<Rightarrow> image_provenance_policy \<Rightarrow> (string \<times> string) list \<Rightarrow> selected_image list \<Rightarrow> bool" where
  "selects key policy images selected \<longleftrightarrow>
     (\<forall>service img sfx. (service, img) \<in> set images \<longrightarrow> reference_suffix (without_docker_hub key) img = Some sfx \<longrightarrow>
        (\<exists>digest. pinned_digest sfx = Some digest
           \<and> \<lparr>sl_policy_key = key, sl_repository = without_docker_hub key, sl_digest = to_lower digest,
               sl_policy = policy\<rparr> \<in> set selected))"

lemma selects_mono: "selects key policy images a \<Longrightarrow> set a \<subseteq> set b \<Longrightarrow> selects key policy images b"
  unfolding selects_def by blast

lemma selects_Cons:
  "selects key policy ((service, img) # images) selected \<longleftrightarrow>
     (\<forall>sfx. reference_suffix (without_docker_hub key) img = Some sfx \<longrightarrow>
        (\<exists>digest. pinned_digest sfx = Some digest
           \<and> \<lparr>sl_policy_key = key, sl_repository = without_docker_hub key, sl_digest = to_lower digest,
               sl_policy = policy\<rparr> \<in> set selected))
     \<and> selects key policy images selected"
  unfolding selects_def set_simps insert_iff prod.inject by blast

lemma select_policy_ok:
  "select_policy key (without_docker_hub key) policy images = Inr selected \<Longrightarrow>
     selects key policy images selected
     \<and> (selected \<noteq> [] \<longrightarrow> (\<exists>(service, img) \<in> set images. reference_suffix (without_docker_hub key) img \<noteq> None))"
proof (induction images arbitrary: selected)
  case (Cons si images)
  obtain service img where si: "si = (service, img)" by (cases si)
  show ?case
  proof (cases "reference_suffix (without_docker_hub key) img")
    case None
    with Cons.prems si have "select_policy key (without_docker_hub key) policy images = Inr selected" by simp
    from Cons.IH [OF this] None si show ?thesis by (auto simp: selects_Cons)
  next
    case (Some sfx)
    with Cons.prems si obtain digest rest where *: "pinned_digest sfx = Some digest"
        "select_policy key (without_docker_hub key) policy images = Inr rest"
        "selected = \<lparr>sl_policy_key = key, sl_repository = without_docker_hub key, sl_digest = to_lower digest,
           sl_policy = policy\<rparr> # rest"
      by (auto simp: outcome_simps)
    from Cons.IH [OF *(2)] *(1,3) Some si show ?thesis
      by (auto simp: selects_Cons intro: selects_mono)
  qed
qed (simp add: selects_def)

lemma select_policies_ok:
  "select_policies policies images = Inr selected \<Longrightarrow> (key, policy) \<in> set policies \<Longrightarrow>
     selects key policy images selected
     \<and> (\<exists>(service, img) \<in> set images. reference_suffix (without_docker_hub key) img \<noteq> None)"
proof (induction policies arbitrary: selected)
  case (Cons kp policies)
  obtain key' policy' where kp: "kp = (key', policy')" by (cases kp)
  with Cons.prems obtain here rest where *: "select_policy key' (without_docker_hub key') policy' images = Inr here"
      "here \<noteq> []" "select_policies policies images = Inr rest" "selected = here @ rest"
    by (auto simp: Let_def outcome_simps)
  show ?case
  proof (cases "(key, policy) = (key', policy')")
    case True
    with select_policy_ok [OF *(1)] *(2,4) show ?thesis by (auto intro: selects_mono)
  next
    case False
    then have "(key, policy) \<in> set policies" using Cons.prems(2) kp by auto
    from Cons.IH [OF *(3) this] *(4) show ?thesis by (auto intro: selects_mono)
  qed
qed simp

lemma required_provenance_ok:
  "verify_required_image_provenance P repository digest policy signer_identity access = Inr () \<longleftrightarrow>
     vouched P access signer_identity policy digest"
  by (cases signer_identity)
    (auto simp: verify_required_image_provenance_def vouched_def outcome_simps verify_image_provenance_def
      verify_image_provenance_with_signer_identity_def)

lemma verify_compose_ok:
  assumes "verify_compose_image_provenance P compose policies identities names access = Inr ()"
  shows "\<exists>services. compose_services P compose = Some services
     \<and> images_vouched P access identities policies (nonempty_names names) services"
proof -
  obtain services images selected where
      *: "policies \<noteq> []" "compose_services P compose = Some services"
        "service_images (nonempty_names names) services = Inr images" "select_policies policies images = Inr selected"
        "verify_selected_images P selected identities access = Inr ()"
    using assms by (auto simp: verify_compose_image_provenance_def select_compose_images_def Let_def outcome_simps)
  have each: "vouched P access (Option.bind identities (\<lambda>i. map_of i (sl_policy_key s))) (sl_policy s) (sl_digest s)"
    if "s \<in> set selected" for s
    using *(5) that by (simp add: verify_selected_images_def outcome_simps required_provenance_ok)
  have "images_vouched P access identities policies (nonempty_names names) services"
    unfolding images_vouched_def
  proof (intro conjI ballI *(1))
    fix kp assume kp: "kp \<in> set policies"
    obtain key policy where kp': "kp = (key, policy)" by (cases kp)
    note sel = select_policies_ok [OF *(4) kp [unfolded kp']] and run = service_images_runs [OF *(3)]
    have "\<exists>digest. pinned_digest sfx = Some digest
        \<and> vouched P access (Option.bind identities (\<lambda>i. map_of i key)) policy (to_lower digest)"
      if runs_it: "runs (nonempty_names names) services service img"
        and sfx: "reference_suffix (without_docker_hub key) img = Some sfx" for service img sfx
    proof -
      obtain digest where "pinned_digest sfx = Some digest"
          "\<lparr>sl_policy_key = key, sl_repository = without_docker_hub key, sl_digest = to_lower digest,
             sl_policy = policy\<rparr> \<in> set selected"
        using sel sfx iffD2 [OF run runs_it] unfolding selects_def by blast
      with each show ?thesis by fastforce
    qed
    then show "case kp of (key, policy) \<Rightarrow>
        (\<exists>service img. runs (nonempty_names names) services service img \<and> reference_suffix (without_docker_hub key) img \<noteq> None)
        \<and> (\<forall>service img sfx. runs (nonempty_names names) services service img
            \<longrightarrow> reference_suffix (without_docker_hub key) img = Some sfx
            \<longrightarrow> (\<exists>digest. pinned_digest sfx = Some digest
                  \<and> vouched P access (Option.bind identities (\<lambda>i. map_of i key)) policy (to_lower digest)))"
      using sel run unfolding kp' by fastforce
  qed
  with *(2) show ?thesis by blast
qed

lemma verify_deployment_images_ok:
  assumes "verify_deployment_image_provenance_with_options P app_compose policies options = Inr ()"
  shows "\<exists>compose services. Option.bind (json_document P (as_bytes app_compose)) app_compose_of = Some compose
     \<and> compose_services P compose = Some services
     \<and> images_vouched P (do_access options) (do_image_signer_identities options) policies None services"
proof -
  obtain images where images: "select_images P app_compose policies = Inr images"
      "verify_selected_images P images (do_image_signer_identities options) (do_access options) = Inr ()"
    using assms by (auto simp: verify_deployment_image_provenance_with_options_def outcome_simps)
  then obtain compose where compose: "Option.bind (json_document P (as_bytes app_compose)) app_compose_of = Some compose"
      "select_compose_images P compose policies None = Inr images"
    by (auto simp: select_images_def outcome_simps)
  then have "verify_compose_image_provenance P compose policies (do_image_signer_identities options) None
      (do_access options) = Inr ()"
    using images(2) by (simp add: verify_compose_image_provenance_def)
  from verify_compose_ok [OF this] compose(1) show ?thesis by (auto simp: nonempty_names_def)
qed

section \<open>An instance\<close>

definition demo_statement :: json where
  "demo_statement = JObj [(''_type'', JStr ''https://in-toto.io/Statement/v1''),
     (''subject'', JArr [JObj [(''digest'', JObj [(''sha256'', JStr (replicate 64 (CHR ''A'')))])]]),
     (''predicateType'', JStr slsa_v02),
     (''predicate'', JObj [(''invocation'', JObj [(''configSource'',
        JObj [(''uri'', JStr ''git+https://github.com/o/r@refs/heads/m''),
              (''digest'', JObj [(''sha1'', JStr (replicate 40 (CHR ''C'')))]), (''entryPoint'', JStr ''w'')])])])]"

definition demo_bundle :: sigstore_bundle where
  "demo_bundle = \<lparr>sb_content = DsseEnvelope \<lparr>de_signatures = [[]],
       de_payload_type = ''application/vnd.in-toto+json'', de_payload = as_bytes (put_json demo_statement)\<rparr>,
     sb_material = SingleCertificate [], sb_log = []\<rparr>"

definition demo_extensions :: "extension list" where
  "demo_extensions = [(source_repository_uri, as_bytes ''https://github.com/o/r''),
     (github_workflow_ref, as_bytes ''refs/heads/m''), (source_repository_digest, as_bytes (replicate 40 (CHR ''c'')))]"

definition demo_compose :: yaml where
  "demo_compose = YMap [(YStr ''services'', YMap [(YStr ''s'',
     YMap [(YStr ''image'', YStr (''docker.io/i:1@'' @ demo_digest_text))])])]"

definition demo_build :: provenance_prims where
  "demo_build = net_prims.extend
     (demo_pages\<lparr>json_document := \<lambda>b. if b = [] then Some (JObj [(''docker_compose_file'', JStr ''c'')]) else demo_json_parse b\<rparr>)
     (provenance_prims.fields (Some []) (\<lambda>_. Some demo_bundle) (\<lambda>s. Some (as_bytes s))
        (\<lambda>_ _ _. Some (Some ''https://github.com/o/r/w@refs/heads/m'', Some default_image_provenance_issuer))
        (\<lambda>_. Some (Some demo_extensions)) from_utf8 (\<lambda>_. Some demo_compose) Some (\<lambda>s. s))"

declare demo_build_def [demo_defs] provenance_prims.defs [demo_defs]

definition demo_policies :: image_policies where
  "demo_policies = [(''i'', image_provenance_policy_new ''o/r'' ''w'')]"

definition demo_options :: deployment_image_options where
  "demo_options = \<lparr>do_access = \<lparr>pf_github_token = None, pf_github_api_url = None\<rparr>, do_image_signer_identities = None\<rparr>"

definition demo_provenance_verifiers :: attestation_verifiers where
  "demo_provenance_verifiers = \<lparr>av_tdx_quote = av_tdx_quote demo_verifiers,
     av_deployment = Some (\<lambda>d. verify_deployment_image_provenance_with_options demo_build (md_app_compose d)
       demo_policies demo_options)\<rparr>"

lemma demo_images_verified:
  "verify_deployment_image_provenance_with_options demo_build [] demo_policies demo_options = Inr ()"
  by code_simp

section \<open>Properties\<close>

text \<open>C25: A Gateway report accepted with this helper as its deployment verifier runs vouched images: the
  trusted quote measures the app compose, the Compose file in it parses, every policy's repository is run by some
  service, and every service's reference to such a repository is pinned to a digest whose build provenance was
  fetched and verified under that policy.\<close>

theorem verified_gateway_runs_vouched_images:
  assumes "verify_gateway_attestation P att binding policy vs = Inr v"
    and "av_deployment vs = Some (\<lambda>d. verify_deployment_image_provenance_with_options Q (md_app_compose d) policies options)"
  shows "\<exists>q compose services.
      quote_trusted P (ev_intel_quote (ga_evidence att)) policy (av_tdx_quote vs) q
      \<and> take 32 (drop 1 (q_mr_config_id q)) = sha256 P (as_bytes (md_app_compose (ve_deployment (vg_evidence v))))
      \<and> Option.bind (json_document Q (as_bytes (md_app_compose (ve_deployment (vg_evidence v))))) app_compose_of
          = Some compose
      \<and> compose_services Q compose = Some services
      \<and> images_vouched Q (do_access options) (do_image_signer_identities options) policies None services"
proof -
  obtain q where q: "quote_trusted P (ev_intel_quote (ga_evidence att)) policy (av_tdx_quote vs) q"
      "deployment_measured P q (ev_event_log (ga_evidence att)) (ev_app_compose (ga_evidence att))
         (md_runtime_measurements (ve_deployment (vg_evidence v)))"
      "provenance_run (av_deployment vs) (ve_deployment (vg_evidence v)) (ve_deployment_provenance (vg_evidence v))"
      "md_app_compose (ve_deployment (vg_evidence v)) = ev_app_compose (ga_evidence att)"
    using iffD1 [OF verify_gateway_attestation_eq assms(1)] by blast
  have "verify_deployment_image_provenance_with_options Q (md_app_compose (ve_deployment (vg_evidence v)))
      policies options = Inr ()"
    using q(3) by (simp add: provenance_run_def assms(2))
  from verify_deployment_images_ok [OF this] q show ?thesis
    unfolding deployment_measured_def by metis
qed

lemma demo_provenance_gateway_verifies:
  "verify_gateway_attestation demo_jwt demo_gateway_report demo_binding None demo_provenance_verifiers
     = Inr (demo_verified_gateway\<lparr>vg_evidence := (vg_evidence demo_verified_gateway)
         \<lparr>ve_deployment_provenance := Provenance_Verified\<rparr>\<rparr>)"
  by code_simp

lemma verified_gateway_runs_vouched_images_witness:
  "\<exists>compose services. Option.bind (json_document demo_build []) app_compose_of = Some compose
     \<and> compose_services demo_build compose = Some services
     \<and> images_vouched demo_build (do_access demo_options) None demo_policies None services"
  using verified_gateway_runs_vouched_images [OF demo_provenance_gateway_verifies, of demo_build demo_policies demo_options]
  by (auto simp: demo_provenance_verifiers_def demo_verified_gateway_def demo_options_def)

end
