(* ===== verification/Compose_Manager_Provenance.thy ===== *)
theory Compose_Manager_Provenance
  imports Deployment_Provenance
begin

text \<open>
  \<open>compose_manager_provenance.rs\<close>: from a verified Compose Manager log to build provenance. The latest
  recorded \<open>compose_up\<close> names a file at a commit with its hash; the file is fetched, compared with
  that hash and its images are checked against the policies, and so is the image the manager started from.
\<close>

definition max_compose_file_bytes :: nat where
  "max_compose_file_bytes = 8 * 1024 * 1024"

record manager_provenance_options =
  cp_compose_repository :: string
  cp_compose_file :: "string option"
  cp_access :: provenance_fetch_options
  cp_image_signer_identities :: "signer_identities option"

definition default_manager_provenance_options :: manager_provenance_options where
  "default_manager_provenance_options =
     \<lparr>cp_compose_repository = ''nearai/cvm-compose-files'', cp_compose_file = None,
      cp_access = \<lparr>pf_github_token = None, pf_github_api_url = None\<rparr>, cp_image_signer_identities = None\<rparr>"

record manager_image_policy =
  mi_image_repository :: string
  mi_build :: image_provenance_policy
  mi_signer_identity :: "string option"

definition invalid_manager :: "string \<Rightarrow> verification_error" where
  "invalid_manager reason = ComposeManagerDeploymentInvalid reason"

definition is_hex :: "string \<Rightarrow> nat \<Rightarrow> bool" where
  "is_hex v n \<longleftrightarrow> length v = n \<and> list_all is_hexdigit v"

definition latest_compose_up :: "compose_manager_action list \<Rightarrow> string option \<Rightarrow> compose_manager_action option" where
  "latest_compose_up actions compose_file =
     find (\<lambda>a. cma_action a = ''compose_up'' \<and> (compose_file = None \<or> cma_file a = compose_file)) (rev actions)"

definition manager_image :: "compose_manager_action list \<Rightarrow> string option" where
  "manager_image actions =
     Option.bind (find (\<lambda>a. cma_action a = ''compose_manager_started'') (rev actions)) cma_image"

text \<open>The repository and the digest of the image the manager started from.\<close>

definition manager_reference :: "manager_image_policy \<Rightarrow> string \<Rightarrow> (string \<times> string) ver" where
  "manager_reference manager_policy started =
     (let manager_repository = without_docker_hub (mi_image_repository manager_policy);
          normalized = without_docker_hub started in
      rbind (ensure (\<not> (manager_repository = [] \<or> \<not> (starts_with (manager_repository @ ''@'') normalized
                 \<or> starts_with (manager_repository @ '':'') normalized))) (invalid_manager ''manager_image_mismatch'')) (\<lambda>_.
      rbind (ok_or (images_error ImageNotPinned (Some manager_repository) (Some ''compose-manager''))
               (pinned_digest (drop (length manager_repository) normalized))) (\<lambda>digest.
      Inr (manager_repository, to_lower digest))))"

definition path_part_ok :: "string \<Rightarrow> bool" where
  "path_part_ok part \<longleftrightarrow> part \<noteq> [] \<and> part \<noteq> ''.'' \<and> part \<noteq> ''..''"

definition repository_name_ok :: "string \<Rightarrow> bool" where
  "repository_name_ok repository \<longleftrightarrow>
     length (split_on (CHR ''/'') repository) = 2
     \<and> list_all (\<lambda>part. path_part_ok part \<and> list_all (\<lambda>c. is_alnum c \<or> c \<in> set ''_.-'') part)
         (split_on (CHR ''/'') repository)"

record file_reference =
  fr_commit :: string
  fr_file :: string
  fr_sha256 :: string

definition file_reference_of :: "string \<Rightarrow> compose_manager_action \<Rightarrow> file_reference ver" where
  "file_reference_of repository action =
     rbind (ok_or (invalid_manager ''invalid_file_reference'')
       (case (cma_commit action, cma_file action, cma_file_sha256 action) of
          (Some commit, Some file, Some digest) \<Rightarrow> Some \<lparr>fr_commit = commit, fr_file = file, fr_sha256 = digest\<rparr>
        | _ \<Rightarrow> None)) (\<lambda>r.
     rbind (ensure (is_hex (fr_commit r) 40 \<and> is_hex (fr_sha256 r) 64
              \<and> list_all path_part_ok (split_on (CHR ''/'') (fr_file r)) \<and> repository_name_ok repository)
            (invalid_manager ''invalid_file_reference'')) (\<lambda>_.
     Inr r))"

definition compose_request_error :: "string \<Rightarrow> file_reference \<Rightarrow> u16 option \<Rightarrow> verification_error" where
  "compose_request_error repository r status =
     ComposeFileRequestFailed repository (fr_commit r) (fr_file r) status
       (case status of None \<Rightarrow> True | Some s \<Rightarrow> s = 429 \<or> 500 \<le> s)"

fun push_segments :: "'z net_prims_scheme \<Rightarrow> string list \<Rightarrow> url \<Rightarrow> url option" where
  "push_segments P [] url = Some url"
| "push_segments P (s # ss) url = Option.bind (url_push P url s) (push_segments P ss)"

definition compose_file_url ::
  "'z net_prims_scheme \<Rightarrow> string \<Rightarrow> file_reference \<Rightarrow> string option \<Rightarrow> url ver" where
  "compose_file_url P repository r api_url =
     rbind (map_err (\<lambda>_. invalid_manager ''invalid_file_reference'') (github_api_base P api_url)) (\<lambda>base.
     rbind (expect ''HTTPS URL supports path segments''
       (push_segments P ([''repos''] @ split_on (CHR ''/'') repository @ [''contents''] @ split_on (CHR ''/'') (fr_file r))
          (url_pop_if_empty P base))) (\<lambda>url.
     Inr (url_append_pairs P url [(''ref'', fr_commit r)])))"

definition fetch_compose_file ::
  "'z net_prims_scheme \<Rightarrow> string \<Rightarrow> file_reference \<Rightarrow> provenance_fetch_options \<Rightarrow> string ver" where
  "fetch_compose_file P repository r access =
     (let request_error = compose_request_error repository r in
      rbind (compose_file_url P repository r (pf_github_api_url access)) (\<lambda>url.
      rbind (ok_or (request_error None)
        (github_get P no_redirect_client url ''application/vnd.github.raw+json''
           (if pf_github_api_url access = None then pf_github_token access else None))) (\<lambda>response.
      rbind (ensure (is_success (rs_status response)) (request_error (Some (rs_status response)))) (\<lambda>_.
      rbind (read_limited (invalid_manager ''compose_file_too_large'') (request_error None) max_compose_file_bytes
               response) (\<lambda>bytes.
      rbind (ok_or (invalid_manager ''invalid_file_reference'') (hex_decode P (fr_sha256 r))) (\<lambda>expected_hash.
      rbind (ensure (sha256 P bytes = expected_hash) (ComposeFileHashMismatch repository (fr_commit r) (fr_file r))) (\<lambda>_.
      ok_or (images_error InvalidDockerCompose None None) (from_utf8 bytes))))))))"

definition verify_compose_manager_deployment_image_provenance ::
  "'z provenance_prims_scheme \<Rightarrow> measured_deployment \<Rightarrow> image_policies \<Rightarrow> manager_image_policy
     \<Rightarrow> manager_provenance_options \<Rightarrow> unit ver" where
  "verify_compose_manager_deployment_image_provenance P deployment image_policies manager_policy options =
     rbind (ensure (image_policies \<noteq> []) (images_error EmptyPolicy None None)) (\<lambda>_.
     rbind (ok_or (invalid_manager ''attestation_missing'') (md_compose_manager deployment)) (\<lambda>manager.
     rbind (ok_or (invalid_manager ''compose_up_missing'')
              (latest_compose_up (vcm_actions manager) (cp_compose_file options))) (\<lambda>action.
     rbind (ok_or (invalid_manager ''manager_image_missing'') (manager_image (vcm_actions manager))) (\<lambda>started.
     rbind (manager_reference manager_policy started) (\<lambda>(manager_repository, manager_digest).
     rbind (file_reference_of (cp_compose_repository options) action) (\<lambda>r.
     rbind (check_identity_keys P image_policies (cp_image_signer_identities options)) (\<lambda>_.
     rbind (fetch_compose_file P (cp_compose_repository options) r (cp_access options)) (\<lambda>compose.
     rbind (verify_compose_image_provenance P compose image_policies (cp_image_signer_identities options)
              (cma_services action) (cp_access options)) (\<lambda>_.
     verify_required_image_provenance P manager_repository manager_digest (mi_build manager_policy)
       (mi_signer_identity manager_policy) (cp_access options))))))))))"

section \<open>What an accepted deployment establishes\<close>

text \<open>The file's text, as fetched: its bytes hash to the recorded digest.\<close>

lemma fetch_compose_file_ok:
  assumes "fetch_compose_file P repository r access = Inr compose"
  shows "hex_decode P (fr_sha256 r) = Some (sha256 P (as_bytes compose)) \<and> length compose \<le> max_compose_file_bytes"
  using assms
  by (auto simp: fetch_compose_file_def Let_def outcome_simps from_utf8_Some read_limited_ok)

lemma manager_reference_ok:
  assumes "manager_reference manager_policy started = Inr (repository, digest)"
  shows "\<exists>sfx d. reference_suffix (without_docker_hub (mi_image_repository manager_policy)) (without_docker_hub started) = Some sfx
     \<and> pinned_digest sfx = Some d \<and> digest = to_lower d"
proof -
  let ?r = "without_docker_hub (mi_image_repository manager_policy)"
  have start: "starts_with (?r @ ''@'') (without_docker_hub started)
      \<or> starts_with (?r @ '':'') (without_docker_hub started)"
    and pinned: "\<exists>d. pinned_digest (drop (length ?r) (without_docker_hub started)) = Some d \<and> digest = to_lower d"
    using assms by (auto simp: manager_reference_def Let_def outcome_simps)
  then obtain t where t: "without_docker_hub started = ?r @ t" "t \<noteq> []" "hd t = CHR ''@'' \<or> hd t = CHR '':''"
    by (auto simp: starts_with_iff)
  then have "reference_suffix ?r (without_docker_hub started) = Some t"
    by (auto simp: reference_suffix_def)
  then show ?thesis using pinned t(1) by auto
qed

lemma file_reference_ok:
  "file_reference_of repository action = Inr r \<Longrightarrow>
     cma_commit action = Some (fr_commit r) \<and> cma_file action = Some (fr_file r)
     \<and> cma_file_sha256 action = Some (fr_sha256 r)"
  by (auto simp: file_reference_of_def outcome_simps split: option.splits)

section \<open>An instance\<close>

definition demo_action :: "string \<Rightarrow> compose_manager_action" where
  "demo_action kind = \<lparr>cma_action = kind, cma_timestamp = [], cma_commit = Some (replicate 40 (CHR ''c'')),
     cma_file = Some ''a/b'',
     cma_file_sha256 = Some (demo_hex_encode (demo_digest 32 (as_bytes (put_json
        (JObj [(''attestations'', JArr [JObj [(''bundle'', JObj [])]])]))))),
     cma_image = Some (''i:1@'' @ demo_digest_text), cma_services = Some [''s''], cma_extra = []\<rparr>"

definition demo_managed :: measured_deployment where
  "demo_managed = \<lparr>md_compose_manager = Some \<lparr>vcm_actions = map demo_action [''compose_manager_started'', ''compose_up''],
       vcm_tcb_status = UpToDate, vcm_advisory_ids = [], vcm_runtime_measurements = demo_measurements\<rparr>,
     md_app_compose = [], md_runtime_measurements = demo_measurements\<rparr>"

definition demo_manager_policy :: manager_image_policy where
  "demo_manager_policy = \<lparr>mi_image_repository = ''docker.io/i'', mi_build = image_provenance_policy_new ''o/r'' ''w'',
     mi_signer_identity = None\<rparr>"

lemma demo_managed_verified:
  "verify_compose_manager_deployment_image_provenance demo_build demo_managed demo_policies demo_manager_policy
     default_manager_provenance_options = Inr ()"
  by code_simp

section \<open>Properties\<close>

text \<open>C26: A deployment this check accepts runs what its Compose Manager log records: the latest matching
  \<open>compose_up\<close> names a commit, a file and a hash; a text with that SHA-256 hash, at most 8 MiB, is a Compose file whose
  named services, for every policy, run pinned images with verified builds; and the image the manager itself last
  started from is the policy's repository, pinned, with a verified build.\<close>

theorem managed_deployment_vouched:
  assumes "verify_compose_manager_deployment_image_provenance P deployment policies manager_policy options = Inr ()"
  shows "\<exists>manager action file digest compose services started sfx manager_digest.
      md_compose_manager deployment = Some manager
      \<and> latest_compose_up (vcm_actions manager) (cp_compose_file options) = Some action
      \<and> cma_file action = Some file \<and> cma_file_sha256 action = Some digest
      \<and> hex_decode P digest = Some (sha256 P (as_bytes compose)) \<and> length compose \<le> 8 * 1024 * 1024
      \<and> compose_services P compose = Some services
      \<and> images_vouched P (cp_access options) (cp_image_signer_identities options) policies
          (nonempty_names (cma_services action)) services
      \<and> manager_image (vcm_actions manager) = Some started
      \<and> reference_suffix (without_docker_hub (mi_image_repository manager_policy)) (without_docker_hub started) = Some sfx
      \<and> pinned_digest sfx = Some manager_digest
      \<and> vouched P (cp_access options) (mi_signer_identity manager_policy) (mi_build manager_policy) (to_lower manager_digest)"
proof -
  obtain manager action started repository digest r compose where
      log: "md_compose_manager deployment = Some manager"
        "latest_compose_up (vcm_actions manager) (cp_compose_file options) = Some action"
        "manager_image (vcm_actions manager) = Some started"
      and image_ref: "manager_reference manager_policy started = Inr (repository, digest)"
      and fref: "file_reference_of (cp_compose_repository options) action = Inr r"
        "fetch_compose_file P (cp_compose_repository options) r (cp_access options) = Inr compose"
      and images: "verify_compose_image_provenance P compose policies (cp_image_signer_identities options)
          (cma_services action) (cp_access options) = Inr ()"
      and own: "verify_required_image_provenance P repository digest (mi_build manager_policy)
          (mi_signer_identity manager_policy) (cp_access options) = Inr ()"
    using assms
    by (auto simp: verify_compose_manager_deployment_image_provenance_def outcome_simps)
  from verify_compose_ok [OF images] obtain services where services: "compose_services P compose = Some services"
      "images_vouched P (cp_access options) (cp_image_signer_identities options) policies
          (nonempty_names (cma_services action)) services" by blast
  from manager_reference_ok [OF image_ref] obtain sfx d where sfx:
      "reference_suffix (without_docker_hub (mi_image_repository manager_policy)) (without_docker_hub started) = Some sfx"
      "pinned_digest sfx = Some d" "digest = to_lower d" by blast
  have "vouched P (cp_access options) (mi_signer_identity manager_policy) (mi_build manager_policy) (to_lower d)"
    using own sfx(3) by (simp add: required_provenance_ok)
  with log services sfx(1,2) file_reference_ok [OF fref(1)] fetch_compose_file_ok [OF fref(2)] show ?thesis
    unfolding max_compose_file_bytes_def by blast
qed

lemma managed_deployment_vouched_witness:
  "\<exists>manager compose services. md_compose_manager demo_managed = Some manager
     \<and> compose_services demo_build compose = Some services
     \<and> images_vouched demo_build (cp_access default_manager_provenance_options) None demo_policies (Some [''s'']) services"
  using managed_deployment_vouched [OF demo_managed_verified]
  by (auto simp: default_manager_provenance_options_def latest_compose_up_def demo_managed_def demo_action_def
      nonempty_names_def)

end
