(* ===== verification/Inference_Session.thy ===== *)
theory Inference_Session
  imports Ohttp Direct Pinned_Tls
begin

text \<open>
  \<open>inference.rs\<close> and \<open>direct.rs\<close>, the attested session: the options of a client, the deployment policy
  as a verifier, and what is fetched and verified, in which order, before a session exists. Fresh nonces and the
  clock are arguments. Reports verify in parallel; the model takes the first failure in their order.
\<close>

section \<open>Options\<close>

record gateway_verification_options =
  go_include_spki_fingerprint :: bool
  go_policy :: "attestation_policy option"
  go_tdx_quote :: "tdx_verifier option"
  go_deployment :: "deployment_verifier option"

definition default_gateway_verification :: gateway_verification_options where
  "default_gateway_verification = \<lparr>go_include_spki_fingerprint = True, go_policy = None, go_tdx_quote = None,
     go_deployment = None\<rparr>"

record model_verification_options =
  mo_policy :: "model_attestation_policy option"
  mo_tdx_quote :: "tdx_verifier option"
  mo_gpu_evidence :: "(string \<Rightarrow> unit ver) option"
  mo_deployment :: "deployment_verifier option"

definition default_model_verification :: model_verification_options where
  "default_model_verification = \<lparr>mo_policy = None, mo_tdx_quote = None, mo_gpu_evidence = None, mo_deployment = None\<rparr>"

text \<open>\<open>DeploymentPolicy\<close>: a verifier that also sees the model's name.\<close>

type_synonym deployment_policy = "string \<Rightarrow> measured_deployment \<Rightarrow> unit ver"

text \<open>Durations and instants are in milliseconds.\<close>

record client_options =
  io_api_key :: "string option"
  io_base_url :: string
  io_headers :: headers
  io_e2ee :: bool
  io_ohttp :: bool
  io_signing_algo :: signing_algo
  io_attestation_cache_ttl :: nat
  io_response_cache_ttl :: nat
  io_gateway_verification :: gateway_verification_options
  io_model_verification :: model_verification_options
  io_deployment_policy :: "deployment_policy option"

definition default_client_options :: client_options where
  "default_client_options = \<lparr>io_api_key = None, io_base_url = default_near_ai_cloud_base_url, io_headers = [],
     io_e2ee = False, io_ohttp = False, io_signing_algo = Ed25519, io_attestation_cache_ttl = 3600000,
     io_response_cache_ttl = 3600000, io_gateway_verification = default_gateway_verification,
     io_model_verification = default_model_verification, io_deployment_policy = None\<rparr>"

text \<open>\<open>DirectInferenceClientOptions\<close>, and its two conversions.\<close>

record direct_options =
  di_api_key :: "string option"
  di_base_url :: string
  di_headers :: headers
  di_e2ee :: bool
  di_ohttp :: bool
  di_signing_algo :: signing_algo
  di_attestation_cache_ttl :: nat
  di_response_cache_ttl :: nat
  di_model_verification :: model_verification_options
  di_deployment_policy :: "deployment_policy option"

definition direct_options_of :: "client_options \<Rightarrow> direct_options" where
  "direct_options_of o' = \<lparr>di_api_key = io_api_key o', di_base_url = io_base_url o', di_headers = io_headers o',
     di_e2ee = io_e2ee o', di_ohttp = io_ohttp o', di_signing_algo = io_signing_algo o',
     di_attestation_cache_ttl = io_attestation_cache_ttl o', di_response_cache_ttl = io_response_cache_ttl o',
     di_model_verification = io_model_verification o', di_deployment_policy = io_deployment_policy o'\<rparr>"

definition client_options_of :: "direct_options \<Rightarrow> client_options" where
  "client_options_of o' = \<lparr>io_api_key = di_api_key o', io_base_url = di_base_url o', io_headers = di_headers o',
     io_e2ee = di_e2ee o', io_ohttp = di_ohttp o', io_signing_algo = di_signing_algo o',
     io_attestation_cache_ttl = di_attestation_cache_ttl o', io_response_cache_ttl = di_response_cache_ttl o',
     io_gateway_verification = default_gateway_verification,
     io_model_verification = di_model_verification o', io_deployment_policy = di_deployment_policy o'\<rparr>"

definition default_direct_options :: direct_options where
  "default_direct_options = direct_options_of default_client_options"

section \<open>Parts of a session\<close>

definition input :: "string \<Rightarrow> string \<Rightarrow> api_error" where
  "input field reason = Api_InvalidInput field reason None None"

definition ordinary_client :: http_client where
  "ordinary_client = no_redirect_client"

definition policy_verifier ::
  "string \<Rightarrow> deployment_verifier option \<Rightarrow> deployment_policy option \<Rightarrow> deployment_verifier" where
  "policy_verifier model original policy deployment =
     rbind (case original of None \<Rightarrow> Inr () | Some v \<Rightarrow> v deployment) (\<lambda>_.
     case policy of None \<Rightarrow> Inr () | Some v \<Rightarrow> v model deployment)"

definition session_deployment :: "string \<Rightarrow> client_options \<Rightarrow> deployment_verifier option" where
  "session_deployment model options =
     (let original = mo_deployment (io_model_verification options) in
      if original \<noteq> None \<or> io_deployment_policy options \<noteq> None
      then Some (policy_verifier model original (io_deployment_policy options)) else None)"

datatype evidence_api = Gateway_Api attestation_client | Direct_Api attestation_client

definition evidence_signature ::
  "'z net_prims_scheme \<Rightarrow> evidence_api \<Rightarrow> string \<Rightarrow> signing_algo \<Rightarrow> completion_signature api" where
  "evidence_signature P evidence completion_id algo =
     (case evidence of
        Gateway_Api c \<Rightarrow> fetch_completion_signature P c completion_id (Some algo)
      | Direct_Api c \<Rightarrow> direct_signature P c completion_id (Some algo))"

record session =
  se_gateway :: "verified_gateway_attestation option"
  se_models :: "verified_model_attestation list"
  se_selected :: "verified_model_attestation option"
  se_direct :: "direct_verification_result option"
  se_verified_at :: "64 word"
  se_client :: http_client
  se_api :: evidence_api
  se_ohttp :: "ohttp_client option"

definition model_key :: "session \<Rightarrow> e2ee_model_key option" where
  "model_key s = Option.bind (se_selected s) (\<lambda>m.
     map_option (\<lambda>key. \<lparr>ek_algo = si_algo (ve_signer (vm_evidence m)), ek_public_key = key\<rparr>) (vm_signing_public_key m))"

section \<open>Creating a client\<close>

text \<open>
  \<open>InferenceClient::create\<close>: the options with the base URL normalised and the key as a header; the
  state starts empty (\<open>Response_Cache\<close>, \<open>Session_Cache\<close>).
\<close>

definition create_client :: "'z net_prims_scheme \<Rightarrow> client_options \<Rightarrow> client_options inf" where
  "create_client P options =
     rbind (lift_api (parse_base_url P (io_base_url options))) (\<lambda>url.
     let options = options\<lparr>io_base_url := url_text P url\<rparr> in
     rbind (ensure (\<not> (io_ohttp options \<and> io_signing_algo options \<noteq> Ed25519))
              (Api (input ''signing_algo'' ''OHTTP requires Ed25519''))) (\<lambda>_.
     case io_api_key options of
       None \<Rightarrow> Inr options
     | Some key \<Rightarrow>
         rbind (ok_or (Api (input ''api_key'' ''invalid header'')) (header_from_str (''Bearer '' @ key))) (\<lambda>v.
         Inr (options\<lparr>io_headers :=
           header_remove ''api-key'' (header_insert ''authorization'' v (io_headers options))\<rparr>))))"

definition client_new :: "'z net_prims_scheme \<Rightarrow> string option \<Rightarrow> client_options inf" where
  "client_new P api_key = create_client P (default_client_options\<lparr>io_api_key := api_key\<rparr>)"

definition direct_client_new :: "'z net_prims_scheme \<Rightarrow> string \<Rightarrow> string option \<Rightarrow> client_options inf" where
  "direct_client_new P base_url api_key =
     create_client P (client_options_of (default_direct_options\<lparr>di_base_url := base_url, di_api_key := api_key\<rparr>))"

section \<open>A Gateway session\<close>

definition session_ohttp ::
  "('c, 'o, 'z) ohttp_prims_scheme \<Rightarrow> client_options \<Rightarrow> ohttp_attestation option \<Rightarrow> signing_identity \<Rightarrow> http_client
     \<Rightarrow> string \<Rightarrow> ohttp_client option inf" where
  "session_ohttp P options evidence signer client omitted =
     (if io_ohttp options then
        rbind (ok_or (Verification (protocol ''ohttp.attestation_required'' omitted)) evidence) (\<lambda>raw.
        rbind (lift_ver (verify_ohttp_key_config P raw signer)) (\<lambda>config.
        rbind (create_ohttp_client P config (io_base_url options) client (remdups (map fst (io_headers options)))) (\<lambda>c.
        Inr (Some c))))
      else Inr None)"

definition session_client ::
  "'z net_prims_scheme \<Rightarrow> client_options \<Rightarrow> fetched_gateway_attestation \<Rightarrow> http_client inf" where
  "session_client P options fetched =
     (if go_include_spki_fingerprint (io_gateway_verification options) then
        rbind (ok_or (Verification SpkiFingerprintRequired) (gcb_spki_fingerprint (fg_client_binding fetched))) (\<lambda>pin.
        lift_ver (create_pinned_tls_client P [pin]))
      else Inr ordinary_client)"

definition gateway_phase ::
  "('c, 'o, 'z) ohttp_prims_scheme \<Rightarrow> client_options \<Rightarrow> fetched_gateway_attestation \<Rightarrow> http_client
     \<Rightarrow> (verified_gateway_attestation \<times> ohttp_client option) inf" where
  "gateway_phase P options fetched client =
     (let o' = io_gateway_verification options in
      rbind (lift_ver (verify_gateway_attestation P (fg_attestation fetched) (fg_client_binding fetched) (go_policy o')
               \<lparr>av_tdx_quote = go_tdx_quote o', av_deployment = go_deployment o'\<rparr>)) (\<lambda>result.
      rbind (ensure (si_algo (ve_signer (vg_evidence result)) = io_signing_algo options)
               (Verification SignatureSignerMismatch)) (\<lambda>_.
      rbind (session_ohttp P options (fg_ohttp_attestation fetched) (ve_signer (vg_evidence result)) client
               ''Gateway omitted OHTTP evidence'') (\<lambda>ohttp.
      Inr (result, ohttp)))))"

definition models_phase ::
  "('c, 'o, 'z) ohttp_prims_scheme \<Rightarrow> string \<Rightarrow> client_options \<Rightarrow> string \<Rightarrow> attestation_client
     \<Rightarrow> verified_model_attestation list inf" where
  "models_phase P model options nonce c =
     (let o' = io_model_verification options in
      rbind (lift_api (fetch_model_metadata P c model)) (\<lambda>metadata.
      if provider_type metadata \<noteq> ''vllm'' \<or> \<not> attestation_supported metadata then
        rbind (ensure (\<not> (io_e2ee options \<or> mo_policy o' \<noteq> None \<or> mo_deployment o' \<noteq> None
                 \<or> io_deployment_policy options \<noteq> None))
                (Verification (protocol ''policy.model_attestation_required'' ''model does not support NEAR attestation'')))
          (\<lambda>_. Inr [])
      else
        rbind (lift_api (fetch_model_attestations P nonce c model (Some (io_signing_algo options)) None)) (\<lambda>fetched.
        rbind (ensure (fm_attestations fetched \<noteq> [])
                (Verification (protocol ''policy.model_attestation_required'' ''no model reports returned''))) (\<lambda>_.
        traverse (\<lambda>report. lift_ver (verify_model_attestation P report (fm_client_binding fetched) (mo_policy o')
            \<lparr>mv_tdx_quote = mo_tdx_quote o', mv_gpu_evidence = mo_gpu_evidence o',
             mv_deployment = session_deployment model options\<rparr>)) (fm_attestations fetched)))))"

definition select_model :: "client_options \<Rightarrow> verified_model_attestation list \<Rightarrow> verified_model_attestation option" where
  "select_model options models =
     List.find (\<lambda>m. si_algo (ve_signer (vm_evidence m)) = io_signing_algo options \<and> vm_signing_public_key m \<noteq> None) models"

definition create_session ::
  "('c, 'o, 'z) ohttp_prims_scheme \<Rightarrow> string \<Rightarrow> client_options \<Rightarrow> string \<Rightarrow> string \<Rightarrow> nat option \<Rightarrow> session inf" where
  "create_session P model options gateway_nonce model_nonce clock =
     rbind (lift_api (with_base_url P (io_api_key options) (io_base_url options))) (\<lambda>c.
     let c = with_headers c (io_headers options) in
     rbind (lift_api (fetch_gateway_attestation P gateway_nonce c
              \<lparr>gfo_signing_algo = Some (io_signing_algo options),
               gfo_include_spki_fingerprint = go_include_spki_fingerprint (io_gateway_verification options)\<rparr>)) (\<lambda>fetched.
     rbind (session_client P options fetched) (\<lambda>client.
     let c = with_http_client c client in
     rbind (gateway_phase P options fetched client) (\<lambda>(gateway, ohttp).
     rbind (models_phase P model options model_nonce c) (\<lambda>models.
     let selected = select_model options models in
     rbind (ensure (\<not> (models \<noteq> [] \<and> selected = None))
              (Verification (protocol ''e2ee.model_public_key_required'' ''no matching verified model public key''))) (\<lambda>_.
     Inr \<lparr>se_gateway = Some gateway, se_models = models, se_selected = selected, se_direct = None,
          se_verified_at = verified_at clock, se_client = client, se_api = Gateway_Api c, se_ohttp = ohttp\<rparr>))))))"

section \<open>A direct session\<close>

definition direct_api_new :: "'z net_prims_scheme \<Rightarrow> string \<Rightarrow> string option \<Rightarrow> attestation_client api" where
  "direct_api_new P base_url api_key = with_base_url P api_key base_url"

definition select_direct_model ::
  "'z prims_scheme \<Rightarrow> client_options \<Rightarrow> signing_identity \<Rightarrow> verified_direct_attestation list
     \<Rightarrow> verified_model_attestation option" where
  "select_direct_model P options serving reports =
     List.find (\<lambda>m. si_algo (ve_signer (vm_evidence m)) = io_signing_algo options \<and> vm_signing_public_key m \<noteq> None
        \<and> (\<not> io_ohttp options \<or> same_signer P (ve_signer (vm_evidence m)) serving)) (map vd_attestation reports)"

definition direct_pins ::
  "'z prims_scheme \<Rightarrow> verified_model_attestation \<Rightarrow> verified_direct_attestation list \<Rightarrow> string list" where
  "direct_pins P selected reports =
     map (\<lambda>a. the (vd_spki_fingerprint a))
       (filter (\<lambda>a. same_signer P (ve_signer (vm_evidence (vd_attestation a))) (ve_signer (vm_evidence selected))
          \<and> vd_spki_fingerprint a \<noteq> None) reports)"

definition create_direct_session ::
  "('c, 'o, 'z) ohttp_prims_scheme \<Rightarrow> string \<Rightarrow> client_options \<Rightarrow> string \<Rightarrow> nat option \<Rightarrow> session inf" where
  "create_direct_session P model options nonce clock =
     rbind (lift_api (direct_api_new P (io_base_url options) (io_api_key options))) (\<lambda>c.
     let c = with_headers c (io_headers options); o' = io_model_verification options in
     rbind (lift_api (fetch_direct_attestations P nonce c (Some (io_signing_algo options)) None)) (\<lambda>fetched.
     rbind (lift_ver (verify_direct_model_attestations P clock fetched (mo_policy o')
              \<lparr>mv_tdx_quote = mo_tdx_quote o', mv_gpu_evidence = mo_gpu_evidence o',
               mv_deployment = session_deployment model options\<rparr>)) (\<lambda>verified.
     let serving = ve_signer (vm_evidence (vd_attestation (dr_serving verified))) in
     rbind (ok_or (Verification (protocol ''e2ee.model_public_key_required'' ''no matching model key''))
              (select_direct_model P options serving (dr_attestations verified))) (\<lambda>selected.
     rbind (case dr_tls_binding verified of
              Attested _ \<Rightarrow> lift_ver (create_pinned_tls_client P (direct_pins P selected (dr_attestations verified)))
            | No_Tls_Binding \<Rightarrow> Inr ordinary_client) (\<lambda>client.
     rbind (session_ohttp P options (fd_ohttp_attestation fetched) serving client
              ''direct endpoint omitted OHTTP evidence'') (\<lambda>ohttp.
     Inr \<lparr>se_gateway = None, se_models = map vd_attestation (dr_attestations verified), se_selected = Some selected,
          se_direct = Some verified, se_verified_at = dr_verified_at verified, se_client = client,
          se_api = Direct_Api (with_http_client c client), se_ohttp = ohttp\<rparr>))))))"

definition new_session ::
  "('c, 'o, 'z) ohttp_prims_scheme \<Rightarrow> bool \<Rightarrow> string \<Rightarrow> client_options \<Rightarrow> string \<Rightarrow> string \<Rightarrow> nat option \<Rightarrow> session inf" where
  "new_session P direct model options nonce nonce' clock =
     (if direct then create_direct_session P model options nonce clock
      else create_session P model options nonce nonce' clock)"

section \<open>What a session establishes\<close>

text \<open>The steps of \<open>create_session\<close> up to the verified Gateway.\<close>

definition authenticate_gateway ::
  "('c, 'o, 'z) ohttp_prims_scheme \<Rightarrow> client_options \<Rightarrow> string
     \<Rightarrow> (attestation_client \<times> http_client \<times> verified_gateway_attestation \<times> ohttp_client option) inf" where
  "authenticate_gateway P options nonce =
     rbind (lift_api (with_base_url P (io_api_key options) (io_base_url options))) (\<lambda>c.
     let c = with_headers c (io_headers options) in
     rbind (lift_api (fetch_gateway_attestation P nonce c
              \<lparr>gfo_signing_algo = Some (io_signing_algo options),
               gfo_include_spki_fingerprint = go_include_spki_fingerprint (io_gateway_verification options)\<rparr>)) (\<lambda>fetched.
     rbind (session_client P options fetched) (\<lambda>client.
     rbind (gateway_phase P options fetched client) (\<lambda>(gateway, ohttp).
     Inr (with_http_client c client, client, gateway, ohttp)))))"

lemma create_session_split:
  "create_session P model options nonce nonce' clock =
     rbind (authenticate_gateway P options nonce) (\<lambda>(c, client, gateway, ohttp).
     rbind (models_phase P model options nonce' c) (\<lambda>models.
     let selected = select_model options models in
     rbind (ensure (\<not> (models \<noteq> [] \<and> selected = None))
              (Verification (protocol ''e2ee.model_public_key_required'' ''no matching verified model public key''))) (\<lambda>_.
     Inr \<lparr>se_gateway = Some gateway, se_models = models, se_selected = selected, se_direct = None,
          se_verified_at = verified_at clock, se_client = client, se_api = Gateway_Api c, se_ohttp = ohttp\<rparr>)))"
  by (simp add: create_session_def authenticate_gateway_def Let_def rbind_assoc case_prod_unfold)

text \<open>Whether the Gateway authenticates does not depend on the credentials.\<close>

lemma create_ohttp_client_names:
  "create_ohttp_client P config base_url client names = Inl e \<longleftrightarrow>
     create_ohttp_client P config base_url client names' = Inl e"
  by (auto simp: create_ohttp_client_def Let_def outcome_simps)

lemma gateway_phase_names:
  "io_api_key options' = k \<Longrightarrow> options' = options\<lparr>io_api_key := k, io_headers := h\<rparr> \<Longrightarrow>
     gateway_phase P options fetched client = Inl e \<longleftrightarrow> gateway_phase P options' fetched client = Inl e"
  by (auto simp: gateway_phase_def session_ohttp_def Let_def outcome_simps
      create_ohttp_client_names [of P _ _ _ "remdups (map fst (io_headers options))" _ "remdups (map fst h)"])

lemma fetch_gateway_same:
  assumes "ac_base_url c = ac_base_url c'" "ac_client c = ac_client c'" "ac_gateway_client c = ac_gateway_client c'"
    and "without_credentials (ac_headers c) = without_credentials (ac_headers c')"
  shows "fetch_gateway_attestation P nonce c o' = fetch_gateway_attestation P nonce c' o'"
proof -
  have "get_cloud_api_response P c url r None capture False = get_cloud_api_response P c' url r None capture False"
    for url r capture
    by (rule get_cloud_api_response_same) (use assms in auto)
  then show ?thesis by (simp add: fetch_gateway_attestation_def endpoint_def assms(1))
qed

lemma authenticate_gateway_credentials:
  assumes "options' = options\<lparr>io_api_key := k, io_headers := h\<rparr>"
    and "without_credentials h = without_credentials (io_headers options)"
    and "authenticate_gateway P options nonce = Inl e"
  shows "authenticate_gateway P options' nonce = Inl e"
proof -
  let ?fetch = "\<lambda>c. fetch_gateway_attestation P nonce c
      \<lparr>gfo_signing_algo = Some (io_signing_algo options),
       gfo_include_spki_fingerprint = go_include_spki_fingerprint (io_gateway_verification options)\<rparr>"
  show ?thesis
  proof (cases "parse_base_url P (io_base_url options)")
    case (Inl f)
    then show ?thesis using assms(3)
      by (cases f) (simp_all add: authenticate_gateway_def assms(1) with_base_url_def)
  next
    case (Inr url)
    let ?c = "with_headers (from_parts (io_api_key options) url) (io_headers options)"
    let ?c' = "with_headers (from_parts k url) h"
    have same: "?fetch ?c = ?fetch ?c'"
      by (rule fetch_gateway_same) (simp_all add: with_headers_def from_parts_def assms(2))
    have client: "session_client P options' f = session_client P options f" for f
      by (simp add: session_client_def assms(1))
    have phase: "gateway_phase P options f cl = Inl e \<longleftrightarrow> gateway_phase P options' f cl = Inl e" for f cl e
      by (rule gateway_phase_names [of _ k]) (simp_all add: assms(1))
    have "rbind (lift_api (?fetch ?c')) (\<lambda>fetched. rbind (session_client P options fetched) (\<lambda>client.
        gateway_phase P options fetched client)) = Inl e"
      using assms(3) Inr unfolding authenticate_gateway_def same [symmetric]
      by (auto simp: with_base_url_def outcome_simps Let_def)
    then have "rbind (lift_api (?fetch ?c')) (\<lambda>fetched. rbind (session_client P options' fetched) (\<lambda>client.
        gateway_phase P options' fetched client)) = Inl e"
      unfolding client by (auto simp: rbind_eq_Inl phase)
    then show ?thesis
      using Inr by (auto simp: authenticate_gateway_def with_base_url_def assms(1) outcome_simps Let_def)
  qed
qed

lemma models_phase_nonempty:
  "models_phase P model options nonce c = Inr [] \<Longrightarrow> \<not> io_e2ee options"
  by (auto simp: models_phase_def Let_def outcome_simps traverse_eq_Inr split: if_splits)

lemma create_ohttp_client_uses: "create_ohttp_client P config base_url client names = Inr oc \<Longrightarrow> oc_client oc = client"
  by (auto simp: create_ohttp_client_def Let_def outcome_simps)

lemma session_client_pins:
  assumes "session_client P options fetched = Inr client"
    and "verify_gateway_attestation P (fg_attestation fetched) (fg_client_binding fetched) policy vs = Inr gw"
    and "go_include_spki_fingerprint (io_gateway_verification options) \<longleftrightarrow> ga_spki_fingerprint (fg_attestation fetched) \<noteq> None"
  shows "if go_include_spki_fingerprint (io_gateway_verification options)
     then \<exists>f. length f = 32 \<and> vg_tls_binding gw = Attested (hex_encode P f)
        \<and> client = \<lparr>hc_redirects = False, hc_proxy = False, hc_tls_info = False, hc_https_only = True, hc_pins = Some [f]\<rparr>
     else client = no_redirect_client"
proof (cases "go_include_spki_fingerprint (io_gateway_verification options)")
  case True
  then obtain pin where pinned: "gcb_spki_fingerprint (fg_client_binding fetched) = Some pin"
      "pinned_client P [pin] = Inr client"
    using assms(1) by (auto simp: session_client_def outcome_simps create_pinned_tls_client_def)
  then obtain pins where pin: "gcb_spki_fingerprint (fg_client_binding fetched) = Some pin"
      "map (\<lambda>s. require_hex_length P s 32) [pin] = map Some pins"
      "client = \<lparr>hc_redirects = False, hc_proxy = False, hc_tls_info = False, hc_https_only = True, hc_pins = Some pins\<rparr>"
    unfolding pinned_client_ok by blast
  then obtain f where f: "pins = [f]" "decode_hex P pin = Some f" "length f = 32"
    by (cases pins) (auto simp: require_hex_length_Some)
  obtain q :: tdx_quote and a n where "gateway_tls_ok P (fg_attestation fetched) (fg_client_binding fetched) (q_report_data q) a n
      (vg_tls_binding gw)"
    using iffD1 [OF verify_gateway_attestation_eq assms(2)] by blast
  then have "vg_tls_binding gw = Attested (hex_encode P f)"
    using True assms(3) pin(1) f(2) by (auto simp: gateway_tls_ok_def)
  with True f pin(3) show ?thesis by simp
next
  case False
  with assms(1) show ?thesis by (simp add: session_client_def ordinary_client_def)
qed

lemma fetch_gateway_binding:
  assumes "fetch_gateway_attestation P nonce c o' = Inr f"
  shows "gcb_nonce (fg_client_binding f) = nonce
     \<and> (gfo_include_spki_fingerprint o' \<longleftrightarrow> ga_spki_fingerprint (fg_attestation f) \<noteq> None)"
  using assms unfolding fetch_gateway_attestation_def
  by (cases "gfo_include_spki_fingerprint o'")
    (auto simp: outcome_simps split: bool.splits option.splits if_splits)

section \<open>An instance\<close>

definition demo_gateway_document :: json where
  "demo_gateway_document = JObj [(''gateway_attestation'', JObj [(''request_nonce'', JStr (replicate 64 (CHR ''0''))),
     (''signing_algo'', JStr ''ecdsa''), (''signing_address'', JStr (replicate 40 (CHR ''0''))), (''intel_quote'', JStr []),
     (''event_log'', (case demo_log of Log_Entries es \<Rightarrow> JArr es | Log_Json t \<Rightarrow> JStr t)),
     (''tls_cert_fingerprint'', JStr (demo_hex_encode (replicate 32 1))),
     (''report_data'', JStr (demo_hex_encode (replicate 32 1 @ replicate 32 0))),
     (''info'', JObj [(''tcb_info'', JObj [(''app_compose'', JStr [])])])])]"

definition demo_metadata_document :: json where
  "demo_metadata_document = JObj [(''metadata'', JObj [(''providerType'', JStr ''x''), (''attestationSupported'', JBool False)])]"

definition demo_service :: "(unit, bytes) ohttp_prims" where
  "demo_service = demo_ohttp\<lparr>spki_der := \<lambda>_. Some [],
     json_document := \<lambda>b. Some (if b = [] then demo_metadata_document else demo_gateway_document),
     http_send := \<lambda>_ rq. Some \<lparr>rs_status = 200, rs_headers = [], rs_content_length = None,
       rs_chunks = (if strip_suffix ''attestation/report'' (rq_url rq) = None then [] else [[0]]),
       rs_broken = False, rs_peer_certificate = Some []\<rparr>\<rparr>"

definition demo_client_options :: client_options where
  "demo_client_options = default_client_options\<lparr>io_api_key := Some ''k'', io_signing_algo := Ecdsa,
     io_gateway_verification := default_gateway_verification\<lparr>go_tdx_quote :=
       Some (\<lambda>_. Inr (demo_quote (replicate 32 1 @ replicate 32 0)))\<rparr>\<rparr>"

definition demo_session_result :: "session inf" where
  "demo_session_result = create_session demo_service ''m'' demo_client_options (replicate 64 (CHR ''0'')) [] (Some 5)"

lemma demo_session_created: "is_ok demo_session_result"
  by code_simp

section \<open>Properties\<close>

lemma create_session_steps:
  assumes "create_session P model options nonce nonce' clock = Inr s"
  obtains c0 fetched client gw ohttp models where
      "fetch_gateway_attestation P nonce (with_headers c0 (io_headers options))
          \<lparr>gfo_signing_algo = Some (io_signing_algo options),
           gfo_include_spki_fingerprint = go_include_spki_fingerprint (io_gateway_verification options)\<rparr> = Inr fetched"
      and "session_client P options fetched = Inr client"
      and "gateway_phase P options fetched client = Inr (gw, ohttp)"
      and "models_phase P model options nonce' (with_http_client (with_headers c0 (io_headers options)) client) = Inr models"
      and "\<not> (models \<noteq> [] \<and> select_model options models = None)"
      and "s = \<lparr>se_gateway = Some gw, se_models = models, se_selected = select_model options models,
          se_direct = None, se_verified_at = verified_at clock, se_client = client,
          se_api = Gateway_Api (with_http_client (with_headers c0 (io_headers options)) client), se_ohttp = ohttp\<rparr>"
  using assms
  unfolding create_session_def Let_def rbind_eq_Inr lift_eq_Inr ensure_eq_Inr split_paired_Ex prod.case sum.inject
  by (elim exE conjE) (rule that, assumption+, erule sym)

lemma gateway_phase_ok:
  assumes "gateway_phase P options fetched client = Inr (gw, ohttp)"
  shows "verify_gateway_attestation P (fg_attestation fetched) (fg_client_binding fetched)
         (go_policy (io_gateway_verification options))
         \<lparr>av_tdx_quote = go_tdx_quote (io_gateway_verification options),
          av_deployment = go_deployment (io_gateway_verification options)\<rparr> = Inr gw"
    and "si_algo (ve_signer (vg_evidence gw)) = io_signing_algo options"
    and "map_option oc_client ohttp = (if io_ohttp options then Some client else None)"
  using assms
  by (auto simp: gateway_phase_def session_ohttp_def Let_def outcome_simps dest: create_ohttp_client_uses split: if_splits)

lemma selected_model_ok:
  assumes "models_phase P model options nonce' c = Inr models"
    and "\<not> (models \<noteq> [] \<and> select_model options models = None)"
  shows "if models = [] then select_model options models = None \<and> \<not> io_e2ee options
     else \<exists>m \<in> set models. select_model options models = Some m
       \<and> si_algo (ve_signer (vm_evidence m)) = io_signing_algo options \<and> vm_signing_public_key m \<noteq> None"
proof (cases "models = []")
  case True
  with models_phase_nonempty assms(1) show ?thesis by (simp add: select_model_def)
next
  case False
  with assms(2) obtain m where m: "select_model options models = Some m" by auto
  then have "m \<in> set models" "si_algo (ve_signer (vm_evidence m)) = io_signing_algo options"
    "vm_signing_public_key m \<noteq> None"
    unfolding select_model_def find_Some_iff by auto
  with m False show ?thesis by auto
qed

text \<open>C5: A Gateway session speaks to the Gateway that was attested. When a session exists, a report fetched
  with this fresh nonce verified under the caller's policy for the configured algorithm; unless the caller turned the
  fingerprint off, the session's only HTTP client, which every later evidence call and the OHTTP relay also use,
  refuses any peer but the one whose key the quote attests; OHTTP is there exactly when asked for; and models are
  either absent (then field encryption was not asked for) or one with the configured algorithm and a key is selected.\<close>

theorem gateway_session_attested:
  assumes "create_session P model options nonce nonce' clock = Inr s"
  shows "\<exists>gw c. \<exists>fetched :: fetched_gateway_attestation. se_gateway s = Some gw \<and> se_api s = Gateway_Api c
     \<and> ac_client c = se_client s \<and> ac_gateway_client c = se_client s
     \<and> verify_gateway_attestation P (fg_attestation fetched) (fg_client_binding fetched)
         (go_policy (io_gateway_verification options))
         \<lparr>av_tdx_quote = go_tdx_quote (io_gateway_verification options),
          av_deployment = go_deployment (io_gateway_verification options)\<rparr> = Inr gw
     \<and> gcb_nonce (fg_client_binding fetched) = nonce
     \<and> si_algo (ve_signer (vg_evidence gw)) = io_signing_algo options
     \<and> (if go_include_spki_fingerprint (io_gateway_verification options)
        then \<exists>f. length f = 32 \<and> vg_tls_binding gw = Attested (hex_encode P f)
          \<and> se_client s = \<lparr>hc_redirects = False, hc_proxy = False, hc_tls_info = False, hc_https_only = True,
               hc_pins = Some [f]\<rparr>
        else se_client s = no_redirect_client)
     \<and> map_option oc_client (se_ohttp s) = (if io_ohttp options then Some (se_client s) else None)
     \<and> (if se_models s = [] then se_selected s = None \<and> \<not> io_e2ee options
        else \<exists>m \<in> set (se_models s). se_selected s = Some m
          \<and> si_algo (ve_signer (vm_evidence m)) = io_signing_algo options \<and> vm_signing_public_key m \<noteq> None)"
proof -
  obtain c0 fetched client gw ohttp models where
      fetched: "fetch_gateway_attestation P nonce (with_headers c0 (io_headers options))
          \<lparr>gfo_signing_algo = Some (io_signing_algo options),
           gfo_include_spki_fingerprint = go_include_spki_fingerprint (io_gateway_verification options)\<rparr> = Inr fetched"
      and client: "session_client P options fetched = Inr client"
      and gateway: "gateway_phase P options fetched client = Inr (gw, ohttp)"
      and models: "models_phase P model options nonce' (with_http_client (with_headers c0 (io_headers options)) client) = Inr models"
      and selected: "\<not> (models \<noteq> [] \<and> select_model options models = None)"
      and s: "s = \<lparr>se_gateway = Some gw, se_models = models, se_selected = select_model options models,
          se_direct = None, se_verified_at = verified_at clock, se_client = client,
          se_api = Gateway_Api (with_http_client (with_headers c0 (io_headers options)) client), se_ohttp = ohttp\<rparr>"
    by (rule create_session_steps [OF assms])
  note gw = gateway_phase_ok [OF gateway]
  have binding: "gcb_nonce (fg_client_binding fetched) = nonce"
      "go_include_spki_fingerprint (io_gateway_verification options)
        \<longleftrightarrow> ga_spki_fingerprint (fg_attestation fetched) \<noteq> None"
    using fetch_gateway_binding [OF fetched] by simp_all
  note pins = session_client_pins [OF client gw(1) binding(2)]
  let ?c = "with_http_client (with_headers c0 (io_headers options)) client"
  have sel: "se_gateway s = Some gw" "se_models s = models" "se_selected s = select_model options models"
      "se_client s = client" "se_api s = Gateway_Api ?c" "se_ohttp s = ohttp" "ac_client ?c = client"
      "ac_gateway_client ?c = client"
    by (simp_all add: s with_http_client_def)
  show ?thesis
    by (rule exI [of _ gw], rule exI [of _ ?c], rule exI [of _ fetched], unfold sel)
      (intro conjI refl gw selected_model_ok [OF models selected] pins binding sel)
qed

lemma gateway_session_attested_witness:
  "\<exists>s gw f. demo_session_result = Inr s \<and> se_gateway s = Some gw
     \<and> vg_tls_binding gw = Attested (hex_encode demo_service f) \<and> hc_pins (se_client s) = Some [f]"
proof -
  obtain s where s: "demo_session_result = Inr s"
    using demo_session_created unfolding is_ok_iff by blast
  have "go_include_spki_fingerprint (io_gateway_verification demo_client_options)"
    by (simp add: demo_client_options_def default_gateway_verification_def)
  with gateway_session_attested [OF s [unfolded demo_session_result_def]] s show ?thesis by auto
qed

text \<open>C29: The Gateway is authenticated before it sees a credential. If authentication fails (the fetch, the pinned
  client, the report, its signer or the OHTTP evidence), then creating the session ends with that failure for every
  API key and every value of \<open>authorization\<close>, \<open>api-key\<close> and \<open>x-api-key\<close>, whatever the network answers to any request:
  no request made so far can depend on them.\<close>

theorem gateway_authenticated_before_credentials:
  assumes "authenticate_gateway P options nonce = Inl e"
    and "options' = options\<lparr>io_api_key := key, io_headers := h\<rparr>"
    and "without_credentials h = without_credentials (io_headers options)"
  shows "create_session P model options nonce nonce' clock = Inl e
     \<and> create_session P model options' nonce nonce' clock = Inl e"
  using assms authenticate_gateway_credentials [OF assms(2,3,1)]
  by (simp add: create_session_split)

lemma gateway_authenticated_before_credentials_witness:
  "create_session demo_service ''m'' (demo_client_options\<lparr>io_api_key := Some ''other'', io_headers := [(''x-api-key'', ''s'')]\<rparr>)
     [] [] None = create_session demo_service ''m'' demo_client_options [] [] None"
proof -
  have "\<not> is_ok (authenticate_gateway demo_service demo_client_options [])"
    by code_simp
  then obtain e where e: "authenticate_gateway demo_service demo_client_options [] = Inl e"
    unfolding is_ok_iff by (meson sumE)
  have "without_credentials [(''x-api-key'', ''s'')] = without_credentials (io_headers demo_client_options)"
    by code_simp
  from gateway_authenticated_before_credentials [OF e refl this, of "''m''" "[]" None "Some ''other''"] show ?thesis by simp
qed

end
