(* ===== verification/Expiry.thy ===== *)
theory Expiry
  imports Prelude
begin

text \<open>
  Entries that expire: both caches of \<open>inference.rs\<close> are a \<open>HashMap\<close> whose entries are dropped
  (\<open>retain\<close>) once their age reaches the time to live. Instants are milliseconds and an age is never
  negative (\<open>Instant::elapsed\<close> saturates).
\<close>

definition elapsed :: "nat \<Rightarrow> nat \<Rightarrow> nat" where
  "elapsed now instant = now - instant"

definition retain :: "('v \<Rightarrow> bool) \<Rightarrow> (string \<rightharpoonup> 'v) \<Rightarrow> (string \<rightharpoonup> 'v)" where
  "retain keep m = (\<lambda>k. case m k of None \<Rightarrow> None | Some v \<Rightarrow> if keep v then Some v else None)"

lemma retain_Some [simp]: "retain keep m k = Some v \<longleftrightarrow> m k = Some v \<and> keep v"
  by (auto simp: retain_def split: option.splits)

lemma retain_le: "retain keep m \<subseteq>\<^sub>m m"
  by (auto simp: map_le_def retain_def dom_def split: option.splits if_splits)

text \<open>
  What a client of such a cache relies on: \<open>purge\<close> keeps exactly the entries younger than the time to
  live, and \<open>put\<close> adds an entry born now.
\<close>

locale expiring_cache =
  fixes entries :: "'s \<Rightarrow> (string \<rightharpoonup> 'v)"
    and purge :: "nat \<Rightarrow> nat \<Rightarrow> 's \<Rightarrow> 's"
    and put :: "nat \<Rightarrow> string \<Rightarrow> 'x \<Rightarrow> 's \<Rightarrow> 's"
    and born :: "'s \<Rightarrow> 'v \<Rightarrow> nat"
    and content :: "'s \<Rightarrow> 'v \<Rightarrow> 'x"
    and ok :: "'s \<Rightarrow> bool"
  assumes entries_purge: "entries (purge ttl now s) k = Some v \<longleftrightarrow> entries s k = Some v \<and> elapsed now (born s v) < ttl"
    and stable_purge: "born (purge ttl now s) v = born s v \<and> content (purge ttl now s) v = content s v"
    and put_same: "ok s \<Longrightarrow> \<exists>v. entries (put now k x s) k = Some v \<and> born (put now k x s) v = now \<and> content (put now k x s) v = x"
    and put_other: "ok s \<Longrightarrow> k' \<noteq> k \<Longrightarrow> entries (put now k x s) k' = entries s k'"
    and put_keeps: "ok s \<Longrightarrow> entries s k' = Some v \<Longrightarrow> born (put now k x s) v = born s v \<and> content (put now k x s) v = content s v"
    and ok_kept: "ok s \<Longrightarrow> ok (purge ttl now s) \<and> ok (put now k x s)"
begin

lemma fresh_after_purge: "entries (purge ttl now s) k = Some v \<Longrightarrow> elapsed now (born (purge ttl now s) v) < ttl"
  by (simp add: entries_purge stable_purge)

lemma purge_forgets_nothing_fresh:
  "entries s k = Some v \<Longrightarrow> elapsed now (born s v) < ttl \<Longrightarrow> entries (purge ttl now s) k = Some v"
  by (simp add: entries_purge)

lemma purge_zero: "entries (purge 0 now s) k = None"
  by (cases "entries (purge 0 now s) k") (auto simp: entries_purge)

text \<open>What is found after a put and a later purge is what was put, within its time to live.\<close>

lemma put_then_purge:
  assumes "ok s"
  shows "(\<exists>v. entries (purge ttl now' (put now k x s)) k = Some v) \<longleftrightarrow> elapsed now' now < ttl"
    and "entries (purge ttl now' (put now k x s)) k = Some v \<Longrightarrow> content (purge ttl now' (put now k x s)) v = x"
proof -
  obtain v0 where v0: "entries (put now k x s) k = Some v0" "born (put now k x s) v0 = now"
      "content (put now k x s) v0 = x"
    using put_same [OF assms] by blast
  then show "(\<exists>v. entries (purge ttl now' (put now k x s)) k = Some v) \<longleftrightarrow> elapsed now' now < ttl"
    by (auto simp: entries_purge)
  show "entries (purge ttl now' (put now k x s)) k = Some v \<Longrightarrow> content (purge ttl now' (put now k x s)) v = x"
    using v0 by (simp add: entries_purge stable_purge)
qed

end

end
