(* ===== verification/Session_Cache.thy ===== *)
theory Session_Cache
  imports Inference_Session Expiry
begin

text \<open>
  \<open>inference.rs\<close>, \<open>InferenceClient::session\<close>: attested sessions are cached per model, and callers that ask for the
  same model while one is being created share its future. \<open>pending\<close> holds weak references, so a future lives as long
  as a caller waits for it. A run is a list of steps, as in the cache of responses.
\<close>

section \<open>State\<close>

record session_future =
  sf_model :: string
  sf_result :: "session inf option"

text \<open>A call waits for a future, was dropped while it waited, or returned.\<close>

datatype session_caller =
    Waiting string nat
  | Dropped
  | Got string "session inf"

record session_state =
  sc_sessions :: "string \<rightharpoonup> nat \<times> session"
  sc_pending :: "string \<rightharpoonup> nat"
  sc_futures :: "session_future list"
  sc_callers :: "session_caller list"

definition no_sessions :: session_state where
  "no_sessions = \<lparr>sc_sessions = Map.empty, sc_pending = Map.empty, sc_futures = [], sc_callers = []\<rparr>"

text \<open>\<open>WeakShared::upgrade\<close> succeeds while some caller holds the future.\<close>

definition future_alive :: "session_state \<Rightarrow> nat \<Rightarrow> bool" where
  "future_alive s f \<longleftrightarrow> list_ex (\<lambda>c. case c of Waiting _ g \<Rightarrow> g = f | _ \<Rightarrow> False) (sc_callers s)"

section \<open>Operations\<close>

definition purge_sessions :: "nat \<Rightarrow> nat \<Rightarrow> session_state \<Rightarrow> session_state" where
  "purge_sessions ttl now s = s\<lparr>sc_sessions := retain (\<lambda>(time, _). elapsed now time < ttl) (sc_sessions s)\<rparr>"

definition put_session :: "nat \<Rightarrow> string \<Rightarrow> session \<Rightarrow> session_state \<Rightarrow> session_state" where
  "put_session now model session s = s\<lparr>sc_sessions := (sc_sessions s)(model \<mapsto> (now, session))\<rparr>"

definition drop_dead :: "session_state \<Rightarrow> session_state" where
  "drop_dead s = s\<lparr>sc_pending := retain (future_alive s) (sc_pending s)\<rparr>"

definition add_caller :: "session_caller \<Rightarrow> session_state \<Rightarrow> session_state" where
  "add_caller c s = s\<lparr>sc_callers := sc_callers s @ [c]\<rparr>"

text \<open>The first part of \<open>session\<close>, up to the future it awaits; the last part, once the future has its result.\<close>

definition request_session :: "client_options \<Rightarrow> string \<Rightarrow> nat \<Rightarrow> session_state \<Rightarrow> session_state" where
  "request_session options model now s =
     (if model = [] \<or> model = ''.'' \<or> model = ''..'' then
        add_caller (Got model (fail (Api (input ''model'' ''expected a canonical model ID'')))) s
      else
        let s = purge_sessions (io_attestation_cache_ttl options) now s in
        (case sc_sessions s model of
           Some (_, session) \<Rightarrow> add_caller (Got model (Inr session)) s
         | None \<Rightarrow>
             let s = drop_dead s in
             (case sc_pending s model of
                Some f \<Rightarrow> add_caller (Waiting model f) s
              | None \<Rightarrow>
                  let f = length (sc_futures s) in
                  add_caller (Waiting model f)
                    (s\<lparr>sc_futures := sc_futures s @ [\<lparr>sf_model = model, sf_result = None\<rparr>],
                       sc_pending := (sc_pending s)(model \<mapsto> f)\<rparr>))))"

definition store_result :: "client_options \<Rightarrow> string \<Rightarrow> nat \<Rightarrow> nat \<Rightarrow> session inf \<Rightarrow> session_state \<Rightarrow> session_state" where
  "store_result options model f now result s =
     (if sc_pending s model = Some f \<and> future_alive s f then
        let s = s\<lparr>sc_pending := (sc_pending s)(model := None)\<rparr> in
        (case result of
           Inr session \<Rightarrow> if io_attestation_cache_ttl options \<noteq> 0 then put_session now model session s else s
         | Inl _ \<Rightarrow> s)
      else s)"

section \<open>Runs\<close>

text \<open>
  \<open>Se_Create f P nonce nonce' clock\<close> completes future \<open>f\<close> against the network \<open>P\<close>; it only runs while a caller
  polls it. \<open>Se_Drop\<close> is a caller whose own future is dropped.
\<close>

datatype 'p session_event =
    Se_Request string nat
  | Se_Create nat 'p string string "nat option"
  | Se_Finish nat nat
  | Se_Drop nat

definition complete_session ::
  "client_options \<Rightarrow> bool \<Rightarrow> nat \<Rightarrow> ('c, 'o, 'z) ohttp_prims_scheme \<Rightarrow> string \<Rightarrow> string \<Rightarrow> nat option
     \<Rightarrow> session_state \<Rightarrow> session_state" where
  "complete_session options direct f P nonce nonce' clock s =
     (if f < length (sc_futures s) \<and> future_alive s f \<and> sf_result (sc_futures s ! f) = None then
        s\<lparr>sc_futures := (sc_futures s)[f := (sc_futures s ! f)\<lparr>sf_result :=
          Some (new_session P direct (sf_model (sc_futures s ! f)) options nonce nonce' clock)\<rparr>]\<rparr>
      else s)"

definition finish_session :: "client_options \<Rightarrow> nat \<Rightarrow> nat \<Rightarrow> session_state \<Rightarrow> session_state" where
  "finish_session options k now s =
     (if k < length (sc_callers s) then
        (case sc_callers s ! k of
           Waiting model f \<Rightarrow>
             (case sf_result (sc_futures s ! f) of
                None \<Rightarrow> s
              | Some result \<Rightarrow>
                  (let s = store_result options model f now result s in
                   s\<lparr>sc_callers := (sc_callers s)[k := Got model result]\<rparr>))
         | _ \<Rightarrow> s)
      else s)"

definition drop_caller :: "nat \<Rightarrow> session_state \<Rightarrow> session_state" where
  "drop_caller k s =
     (if k < length (sc_callers s) then
        (case sc_callers s ! k of
           Waiting _ _ \<Rightarrow> s\<lparr>sc_callers := (sc_callers s)[k := Dropped]\<rparr>
         | _ \<Rightarrow> s)
      else s)"

fun session_step ::
  "client_options \<Rightarrow> bool \<Rightarrow> ('c, 'o, 'z) ohttp_prims_scheme session_event \<Rightarrow> session_state \<Rightarrow> session_state" where
  "session_step options direct (Se_Request model now) s = request_session options model now s"
| "session_step options direct (Se_Create f P nonce nonce' clock) s = complete_session options direct f P nonce nonce' clock s"
| "session_step options direct (Se_Finish k now) s = finish_session options k now s"
| "session_step options direct (Se_Drop k) s = drop_caller k s"

definition run_sessions ::
  "client_options \<Rightarrow> bool \<Rightarrow> ('c, 'o, 'z) ohttp_prims_scheme session_event list \<Rightarrow> session_state \<Rightarrow> session_state" where
  "run_sessions options direct es s = fold (session_step options direct) es s"

lemma run_sessions_simps [simp]:
  "run_sessions options direct [] s = s"
  "run_sessions options direct (e # es) s = run_sessions options direct es (session_step options direct e s)"
  "run_sessions options direct (es @ es') s = run_sessions options direct es' (run_sessions options direct es s)"
  by (simp_all add: run_sessions_def)

text \<open>\<open>InferenceClient::verify\<close> and \<open>DirectInferenceClient::verify\<close>, on the session they obtain.\<close>

record attestation_verification_result =
  ar_gateway :: verified_gateway_attestation
  ar_models :: "verified_model_attestation list"
  ar_verified_at :: "64 word"

definition verify_attestation :: "session inf \<Rightarrow> attestation_verification_result inf" where
  "verify_attestation result =
     rbind result (\<lambda>session.
     rbind (ok_or (Api (input ''client'' ''expected Gateway client'')) (se_gateway session)) (\<lambda>gateway.
     Inr \<lparr>ar_gateway = gateway, ar_models = se_models session, ar_verified_at = se_verified_at session\<rparr>))"

definition verify_direct :: "session inf \<Rightarrow> direct_verification_result inf" where
  "verify_direct result =
     rbind result (\<lambda>session. ok_or (Api (input ''client'' ''expected direct client'')) (se_direct session))"

section \<open>The cache of sessions expires its entries\<close>

interpretation session_cache: expiring_cache sc_sessions purge_sessions put_session
    "\<lambda>s v. fst v" "\<lambda>s v. snd v" "\<lambda>s. True"
  by unfold_locales (auto simp: purge_sessions_def put_session_def)

section \<open>The invariant\<close>

definition created ::
  "client_options \<Rightarrow> bool \<Rightarrow> ('c, 'o, 'z) ohttp_prims_scheme session_event list \<Rightarrow> nat \<Rightarrow> string \<Rightarrow> session inf \<Rightarrow> bool" where
  "created options direct es f model result \<longleftrightarrow>
     (\<exists>P nonce nonce' clock. Se_Create f P nonce nonce' clock \<in> set es
        \<and> result = new_session P direct model options nonce nonce' clock)"

definition future_inv ::
  "client_options \<Rightarrow> bool \<Rightarrow> ('c, 'o, 'z) ohttp_prims_scheme session_event list \<Rightarrow> session_state \<Rightarrow> nat \<Rightarrow> bool" where
  "future_inv options direct es s f \<longleftrightarrow>
     (let future = sc_futures s ! f in
      case sf_result future of
        Some r \<Rightarrow> created options direct es f (sf_model future) r
      | None \<Rightarrow> future_alive s f \<longrightarrow> sc_pending s (sf_model future) = Some f)"

definition caller_inv ::
  "client_options \<Rightarrow> bool \<Rightarrow> ('c, 'o, 'z) ohttp_prims_scheme session_event list \<Rightarrow> session_future list
     \<Rightarrow> session_caller \<Rightarrow> bool" where
  "caller_inv options direct es futures c \<longleftrightarrow> (case c of
       Waiting model f \<Rightarrow> f < length futures \<and> sf_model (futures ! f) = model
     | Dropped \<Rightarrow> True
     | Got model r \<Rightarrow> r = fail (Api (input ''model'' ''expected a canonical model ID''))
         \<or> (\<exists>f. created options direct es f model r))"

definition sessions_inv ::
  "client_options \<Rightarrow> bool \<Rightarrow> ('c, 'o, 'z) ohttp_prims_scheme session_event list \<Rightarrow> session_state \<Rightarrow> bool" where
  "sessions_inv options direct es s \<longleftrightarrow>
     (\<forall>model t x. sc_sessions s model = Some (t, x) \<longrightarrow> (\<exists>f. created options direct es f model (Inr x)))
     \<and> (\<forall>model f. sc_pending s model = Some f \<longrightarrow> f < length (sc_futures s) \<and> sf_model (sc_futures s ! f) = model)
     \<and> (\<forall>f < length (sc_futures s). future_inv options direct es s f)
     \<and> (\<forall>c \<in> set (sc_callers s). caller_inv options direct es (sc_futures s) c)"

lemma sessions_invI:
  assumes "\<And>model t x. sc_sessions s model = Some (t, x) \<Longrightarrow> \<exists>f. created options direct es f model (Inr x)"
    and "\<And>model f. sc_pending s model = Some f \<Longrightarrow> f < length (sc_futures s) \<and> sf_model (sc_futures s ! f) = model"
    and "\<And>f. f < length (sc_futures s) \<Longrightarrow> future_inv options direct es s f"
    and "\<And>c. c \<in> set (sc_callers s) \<Longrightarrow> caller_inv options direct es (sc_futures s) c"
  shows "sessions_inv options direct es s"
  using assms unfolding sessions_inv_def by blast

lemma sessions_invD:
  assumes "sessions_inv options direct es s"
  shows "sc_sessions s model = Some (t, x) \<Longrightarrow> \<exists>f. created options direct es f model (Inr x)"
    and "sc_pending s model = Some f \<Longrightarrow> f < length (sc_futures s) \<and> sf_model (sc_futures s ! f) = model"
    and "f < length (sc_futures s) \<Longrightarrow> future_inv options direct es s f"
    and "c \<in> set (sc_callers s) \<Longrightarrow> caller_inv options direct es (sc_futures s) c"
  using assms unfolding sessions_inv_def by blast+

lemma future_alive_iff: "future_alive s f \<longleftrightarrow> (\<exists>model. Waiting model f \<in> set (sc_callers s))"
proof -
  have "(case c of Waiting _ g \<Rightarrow> g = f | _ \<Rightarrow> False) \<longleftrightarrow> (\<exists>model. c = Waiting model f)" for c
    by (cases c) auto
  then show ?thesis by (auto simp: future_alive_def list_ex_iff)
qed

lemma future_alive_frame [simp]:
  "future_alive (s\<lparr>sc_sessions := m\<rparr>) f = future_alive s f"
  "future_alive (s\<lparr>sc_pending := p\<rparr>) f = future_alive s f"
  "future_alive (s\<lparr>sc_futures := fs\<rparr>) f = future_alive s f"
  "future_alive (drop_dead s) f = future_alive s f"
  "future_alive (put_session now model x s) f = future_alive s f"
  by (simp_all add: future_alive_def drop_dead_def put_session_def)

lemma add_caller_simps [simp]:
  "sc_sessions (add_caller c s) = sc_sessions s" "sc_pending (add_caller c s) = sc_pending s"
  "sc_futures (add_caller c s) = sc_futures s" "sc_callers (add_caller c s) = sc_callers s @ [c]"
  "future_alive (add_caller c s) f \<longleftrightarrow> future_alive s f \<or> (\<exists>m. c = Waiting m f)"
  by (auto simp: add_caller_def future_alive_iff)

lemma drop_dead_simps [simp]:
  "sc_sessions (drop_dead s) = sc_sessions s" "sc_futures (drop_dead s) = sc_futures s"
  "sc_callers (drop_dead s) = sc_callers s"
  "sc_pending (drop_dead s) = retain (future_alive s) (sc_pending s)"
  by (simp_all add: drop_dead_def)

lemma created_mono: "created options direct es f m r \<Longrightarrow> set es \<subseteq> set es' \<Longrightarrow> created options direct es' f m r"
  unfolding created_def by blast

lemma sessions_inv_mono:
  assumes "sessions_inv options direct es s" and "set es \<subseteq> set es'"
  shows "sessions_inv options direct es' s"
proof (rule sessions_invI)
  note D = sessions_invD [OF assms(1)] and M = created_mono [OF _ assms(2)]
  show "sc_sessions s model = Some (t, x) \<Longrightarrow> \<exists>f. created options direct es' f model (Inr x)" for model t x
    using D(1) M by blast
  show "future_inv options direct es' s f" if "f < length (sc_futures s)" for f
    using D(3) [OF that] M by (auto simp: future_inv_def Let_def split: option.splits)
  show "caller_inv options direct es' (sc_futures s) c" if "c \<in> set (sc_callers s)" for c
    using D(4) [OF that] by (auto simp: caller_inv_def split: session_caller.splits intro: M)
qed (use assms in \<open>auto simp: sessions_inv_def\<close>)

text \<open>Steps that only forget entries, or callers, keep the invariant; so do new callers that revive no future.\<close>

lemma sessions_inv_shrink:
  assumes inv: "sessions_inv options direct es s"
    and "sc_sessions s' \<subseteq>\<^sub>m sc_sessions s" and "sc_futures s' = sc_futures s"
    and "sc_pending s' = sc_pending s"
    and callers: "\<And>c. c \<in> set (sc_callers s') \<Longrightarrow>
      c \<in> set (sc_callers s) \<or> caller_inv options direct es (sc_futures s) c \<and> (\<forall>m f. c = Waiting m f \<longrightarrow> future_alive s f)"
  shows "sessions_inv options direct es s'"
proof (rule sessions_invI)
  note D = sessions_invD [OF inv]
  have "future_alive s' f \<Longrightarrow> future_alive s f" for f
    using callers by (auto simp: future_alive_iff)
  then show "future_inv options direct es s' f" if "f < length (sc_futures s')" for f
    using that D(3) [of f] assms(3,4) by (auto simp: future_inv_def Let_def split: option.splits)
  show "sc_sessions s' model = Some (t, x) \<Longrightarrow> \<exists>f. created options direct es f model (Inr x)" for model t x
    using D(1) assms(2) unfolding map_le_def by (metis domI)
  show "caller_inv options direct es (sc_futures s') c" if "c \<in> set (sc_callers s')" for c
    using callers [OF that] D(4) assms(3) by auto
qed (use sessions_invD(2) [OF inv] assms(3,4) in simp_all)

lemma drop_dead_inv: "sessions_inv options direct es s \<Longrightarrow> sessions_inv options direct es (drop_dead s)"
  by (fastforce simp: sessions_inv_def future_inv_def Let_def split: option.splits)

lemma purge_sessions_inv: "sessions_inv options direct es s \<Longrightarrow> sessions_inv options direct es (purge_sessions ttl now s)"
  by (rule sessions_inv_shrink) (auto simp: purge_sessions_def retain_le)

lemma add_caller_inv:
  assumes "sessions_inv options direct es s" and "caller_inv options direct es (sc_futures s) c"
    and "\<And>m f. c = Waiting m f \<Longrightarrow> future_alive s f"
  shows "sessions_inv options direct es (add_caller c s)"
  by (rule sessions_inv_shrink [OF assms(1)]) (use assms in \<open>auto simp: add_caller_def\<close>)

lemma new_future_inv:
  assumes inv: "sessions_inv options direct es s" and none: "sc_pending (drop_dead s) model = None"
  shows "sessions_inv options direct es (add_caller (Waiting model (length (sc_futures s)))
     (drop_dead s\<lparr>sc_futures := sc_futures s @ [\<lparr>sf_model = model, sf_result = None\<rparr>],
        sc_pending := (sc_pending (drop_dead s))(model \<mapsto> length (sc_futures s))\<rparr>))"
    (is "sessions_inv options direct es ?s")
proof (rule sessions_invI)
  note D = sessions_invD [OF inv] and E = sessions_invD [OF drop_dead_inv [OF inv]]
  show "future_inv options direct es ?s g" if "g < length (sc_futures ?s)" for g
  proof (cases "g = length (sc_futures s)")
    case True
    then show ?thesis by (simp add: future_inv_def Let_def)
  next
    case False
    with that have g: "g < length (sc_futures s)" by simp
    have "sc_pending s (sf_model (sc_futures s ! g)) = Some g \<Longrightarrow> future_alive s g \<Longrightarrow> sf_model (sc_futures s ! g) \<noteq> model"
      using none by (auto simp: retain_def)
    with E(3) [of g] g False show ?thesis
      by (auto simp: future_inv_def Let_def nth_append split: option.splits)
  qed
  show "sc_pending ?s m = Some f \<Longrightarrow> f < length (sc_futures ?s) \<and> sf_model (sc_futures ?s ! f) = m" for m f
    using E(2) [of m f] by (auto simp: nth_append less_SucI split: if_splits)
  show "caller_inv options direct es (sc_futures ?s) c" if "c \<in> set (sc_callers ?s)" for c
    using that D(4) [of c] by (auto simp: caller_inv_def nth_append split: session_caller.splits)
qed (use sessions_invD(1) [OF inv] in simp)

lemma request_inv:
  assumes "sessions_inv options direct es s"
  shows "sessions_inv options direct es (request_session options model now s)"
proof (cases "model = [] \<or> model = ''.'' \<or> model = ''..''")
  case True
  have "sessions_inv options direct es
      (add_caller (Got model (fail (Api (input ''model'' ''expected a canonical model ID'')))) s)"
    by (rule add_caller_inv [OF assms]) (simp_all add: caller_inv_def)
  with True show ?thesis unfolding request_session_def by (simp only: if_True)
next
  case False
  let ?s = "purge_sessions (io_attestation_cache_ttl options) now s"
  have inv: "sessions_inv options direct es ?s" using assms by (rule purge_sessions_inv)
  show ?thesis
  proof (cases "sc_sessions ?s model")
    case (Some v)
    then obtain t x where v: "sc_sessions ?s model = Some (t, x)" by (cases v) simp
    have "sessions_inv options direct es (add_caller (Got model (Inr x)) ?s)"
      using sessions_invD(1) [OF inv v] by (intro add_caller_inv [OF inv]) (simp_all add: caller_inv_def)
    with False v show ?thesis by (simp add: request_session_def Let_def)
  next
    case None
    show ?thesis
    proof (cases "sc_pending (drop_dead ?s) model")
      case pending: (Some f)
      have "sessions_inv options direct es (add_caller (Waiting model f) (drop_dead ?s))"
        using sessions_invD(2) [OF drop_dead_inv [OF inv] pending] pending
        by (intro add_caller_inv [OF drop_dead_inv [OF inv]])
          (auto simp: caller_inv_def)
      with False None pending show ?thesis by (simp add: request_session_def Let_def del: drop_dead_simps retain_Some)
    next
      case pending: None
      from new_future_inv [OF inv this] False None pending show ?thesis
        by (simp add: request_session_def Let_def drop_dead_def)
    qed
  qed
qed

lemma complete_inv:
  assumes inv: "sessions_inv options direct es s" and "Se_Create f P nonce nonce' clock \<in> set es"
  shows "sessions_inv options direct es (complete_session options direct f P nonce nonce' clock s)"
proof (cases "f < length (sc_futures s) \<and> future_alive s f \<and> sf_result (sc_futures s ! f) = None")
  case True
  let ?y = "(sc_futures s ! f)\<lparr>sf_result := Some (new_session P direct (sf_model (sc_futures s ! f)) options nonce nonce' clock)\<rparr>"
  let ?s = "s\<lparr>sc_futures := (sc_futures s)[f := ?y]\<rparr>"
  note D = sessions_invD [OF inv]
  have "sessions_inv options direct es ?s"
  proof (rule sessions_invI)
    show "future_inv options direct es ?s g" if "g < length (sc_futures ?s)" for g
      using that D(3) [of g] assms(2)
      by (cases "g = f") (auto simp: future_inv_def created_def Let_def split: option.splits)
    show "sc_pending ?s m = Some g \<Longrightarrow> g < length (sc_futures ?s) \<and> sf_model (sc_futures ?s ! g) = m" for m g
      using D(2) [of m g] True by (auto simp: nth_list_update)
    show "caller_inv options direct es (sc_futures ?s) c" if "c \<in> set (sc_callers ?s)" for c
      using that D(4) [of c] True by (auto simp: caller_inv_def nth_list_update split: session_caller.splits)
  qed (use sessions_invD(1) [OF inv] in simp)
  with True show ?thesis by (simp add: complete_session_def)
qed (use inv in \<open>auto simp: complete_session_def\<close>)

lemma replace_caller_inv:
  assumes "sessions_inv options direct es s" and "caller_inv options direct es (sc_futures s) c" and "\<And>m f. c \<noteq> Waiting m f"
  shows "sessions_inv options direct es (s\<lparr>sc_callers := (sc_callers s)[k := c]\<rparr>)"
  by (rule sessions_inv_shrink [OF assms(1)]) (use assms in \<open>auto dest: set_update_subset_insert [THEN subsetD]\<close>)

lemma store_result_frame [simp]:
  "sc_futures (store_result options model f now r s) = sc_futures s"
  "sc_callers (store_result options model f now r s) = sc_callers s"
  by (simp_all add: store_result_def put_session_def Let_def split: sum.split)

lemma store_result_inv:
  assumes inv: "sessions_inv options direct es s" and f: "f < length (sc_futures s)" "sf_model (sc_futures s ! f) = model"
      "sf_result (sc_futures s ! f) = Some r"
  shows "sessions_inv options direct es (store_result options model f now r s)"
proof (cases "sc_pending s model = Some f \<and> future_alive s f")
  case True
  note D = sessions_invD [OF inv]
  let ?s = "s\<lparr>sc_pending := (sc_pending s)(model := None)\<rparr>"
  have made: "created options direct es f model r" using D(3) [OF f(1)] f by (simp add: future_inv_def)
  have base: "sessions_inv options direct es ?s"
  proof (rule sessions_invI)
    show "future_inv options direct es ?s g" if "g < length (sc_futures ?s)" for g
      using that D(3) [of g] True f(3) by (auto simp: future_inv_def Let_def split: option.splits)
  qed (use D in \<open>auto split: if_splits\<close>)
  have "sessions_inv options direct es (put_session now model x ?s)" if x: "r = Inr x" for x
  proof (rule sessions_invI)
    show "sc_sessions (put_session now model x ?s) m = Some (t, y) \<Longrightarrow> \<exists>f. created options direct es f m (Inr y)" for m t y
      using made x sessions_invD(1) [OF base, of m t y] by (auto simp: put_session_def split: if_splits)
    show "future_inv options direct es (put_session now model x ?s) g"
      if "g < length (sc_futures (put_session now model x ?s))" for g
      using that sessions_invD(3) [OF base, of g]
      by (auto simp: put_session_def future_inv_def Let_def split: option.splits)
  qed (use sessions_invD(2,4) [OF base] in \<open>simp_all add: put_session_def\<close>)
  with base True show ?thesis by (simp add: store_result_def Let_def split: sum.split)
qed (use inv in \<open>auto simp: store_result_def\<close>)

lemma finish_inv:
  assumes inv: "sessions_inv options direct es s"
  shows "sessions_inv options direct es (finish_session options k now s)"
proof (cases "k < length (sc_callers s)")
  case True
  then have c: "caller_inv options direct es (sc_futures s) (sc_callers s ! k)" using sessions_invD(4) [OF inv] by simp
  show ?thesis
  proof (cases "sc_callers s ! k")
    case (Waiting model f)
    with c have f: "f < length (sc_futures s)" "sf_model (sc_futures s ! f) = model" by (simp_all add: caller_inv_def)
    show ?thesis
    proof (cases "sf_result (sc_futures s ! f)")
      case (Some r)
      from sessions_invD(3) [OF inv f(1)] f Some have "created options direct es f model r" by (simp add: future_inv_def)
      then have "sessions_inv options direct es ((store_result options model f now r s)
          \<lparr>sc_callers := (sc_callers (store_result options model f now r s))[k := Got model r]\<rparr>)"
        by (intro replace_caller_inv store_result_inv [OF inv f Some]) (auto simp: caller_inv_def)
      with True Waiting Some show ?thesis by (simp add: finish_session_def Let_def)
    qed (use True Waiting inv in \<open>simp add: finish_session_def\<close>)
  qed (use True inv in \<open>simp_all add: finish_session_def\<close>)
qed (use inv in \<open>simp add: finish_session_def\<close>)

lemma drop_inv: "sessions_inv options direct es s \<Longrightarrow> sessions_inv options direct es (drop_caller k s)"
  by (auto simp: drop_caller_def caller_inv_def split: session_caller.splits intro: replace_caller_inv)

lemma run_sessions_inv: "sessions_inv options direct es (run_sessions options direct es no_sessions)"
proof (induction es rule: rev_induct)
  case Nil
  show ?case by (simp add: sessions_inv_def no_sessions_def)
next
  case (snoc e es)
  have inv: "sessions_inv options direct (es @ [e]) (run_sessions options direct es no_sessions)"
    by (rule sessions_inv_mono [OF snoc]) auto
  then show ?case
    by (cases e) (auto intro!: request_inv complete_inv finish_inv drop_inv)
qed

section \<open>Properties\<close>

definition demo_session_run :: "(unit, bytes) ohttp_prims session_event list" where
  "demo_session_run = [Se_Request ''m'' 0, Se_Request ''m'' 1,
     Se_Create 0 demo_service (replicate 64 (CHR ''0'')) [] (Some 5), Se_Finish 0 2, Se_Finish 1 3, Se_Request ''m'' 4]"

lemma demo_session_run_returns:
  "case sc_callers (run_sessions demo_client_options False demo_session_run no_sessions) of
     Got m r # _ \<Rightarrow> m = ''m'' \<and> is_ok r | _ \<Rightarrow> False"
  by code_simp

text \<open>C27: Every session a caller gets was attested for its model, and attestation is single-flight. Whatever the
  interleaving of calls, failures, cancellations and expiry, a session returned for a model, from the cache, from a
  shared future or fresh, is the successful result of creating a session for that model with this client's options in
  this run, and so is every cached one; and at most one creation per model is unfinished and awaited.\<close>

theorem sessions_attested_single_flight:
  assumes "s = run_sessions options direct es no_sessions"
  shows "(\<forall>model x. Got model (Inr x) \<in> set (sc_callers s) \<or> (\<exists>t. sc_sessions s model = Some (t, x)) \<longrightarrow>
           (\<exists>f P nonce nonce' clock. Se_Create f P nonce nonce' clock \<in> set es
              \<and> new_session P direct model options nonce nonce' clock = Inr x))
     \<and> (\<forall>f g. f < length (sc_futures s) \<and> g < length (sc_futures s) \<and> future_alive s f \<and> future_alive s g
          \<and> sf_result (sc_futures s ! f) = None \<and> sf_result (sc_futures s ! g) = None
          \<and> sf_model (sc_futures s ! f) = sf_model (sc_futures s ! g) \<longrightarrow> f = g)"
proof (intro conjI allI impI)
  note D = sessions_invD [OF run_sessions_inv [of options direct es, folded assms]]
  fix model x
  assume "Got model (Inr x) \<in> set (sc_callers s) \<or> (\<exists>t. sc_sessions s model = Some (t, x))"
  then have "\<exists>f. created options direct es f model (Inr x)"
    using D(1) D(4) [of "Got model (Inr x)"] by (auto simp: caller_inv_def)
  then show "\<exists>f P nonce nonce' clock. Se_Create f P nonce nonce' clock \<in> set es
      \<and> new_session P direct model options nonce nonce' clock = Inr x"
    unfolding created_def by metis
next
  note D = sessions_invD(3) [OF run_sessions_inv [of options direct es, folded assms]]
  fix f g
  assume "f < length (sc_futures s) \<and> g < length (sc_futures s) \<and> future_alive s f \<and> future_alive s g
      \<and> sf_result (sc_futures s ! f) = None \<and> sf_result (sc_futures s ! g) = None
      \<and> sf_model (sc_futures s ! f) = sf_model (sc_futures s ! g)"
  with D [of f] D [of g] show "f = g" by (simp add: future_inv_def)
qed

lemma sessions_attested_single_flight_witness:
  "\<exists>s x nonce nonce' clock. s = run_sessions demo_client_options False demo_session_run no_sessions
     \<and> Got ''m'' (Inr x) \<in> set (sc_callers s)
     \<and> new_session demo_service False ''m'' demo_client_options nonce nonce' clock = Inr x"
proof -
  let ?s = "run_sessions demo_client_options False demo_session_run no_sessions"
  obtain x where x: "Got ''m'' (Inr x) \<in> set (sc_callers ?s)"
    using demo_session_run_returns
    by (cases "sc_callers ?s") (auto simp: is_ok_iff split: session_caller.splits)
  with sessions_attested_single_flight [of ?s demo_client_options False demo_session_run]
  obtain f P nonce nonce' clock where "Se_Create f P nonce nonce' clock \<in> set demo_session_run"
      "new_session P False ''m'' demo_client_options nonce nonce' clock = Inr x"
    by blast
  then have "new_session demo_service False ''m'' demo_client_options nonce nonce' clock = Inr x"
    by (simp add: demo_session_run_def)
  with x show ?thesis by blast
qed

text \<open>A session is reused for its time to live and no longer. When the caller that finishes the pending creation
  of a model stores its session, the next call for the model gets that session at once exactly while it is younger than
  the configured time to live; from then on the call awaits a new attestation.\<close>

theorem cached_session_reused_until_expiry:
  assumes "sc_pending s model = Some f" and "future_alive s f" and "io_attestation_cache_ttl options \<noteq> 0"
    and "model \<noteq> []" and "model \<noteq> ''.''" and "model \<noteq> ''..''"
  shows "last (sc_callers (request_session options model now' (store_result options model f now (Inr x) s)))
     = (if elapsed now' now < io_attestation_cache_ttl options then Got model (Inr x)
        else Waiting model (length (sc_futures s)))"
proof -
  let ?t = "s\<lparr>sc_pending := (sc_pending s)(model := None)\<rparr>"
  let ?s = "put_session now model x ?t"
  let ?ttl = "io_attestation_cache_ttl options"
  let ?p = "purge_sessions ?ttl now' ?s"
  have stored: "store_result options model f now (Inr x) s = ?s"
    using assms(1-3) by (simp add: store_result_def Let_def)
  have found: "(\<exists>v. sc_sessions ?p model = Some v) \<longleftrightarrow> elapsed now' now < ?ttl"
    by (rule session_cache.put_then_purge(1)) simp
  have frame: "sc_pending ?p model = None" "sc_futures ?p = sc_futures s"
    by (simp_all add: purge_sessions_def put_session_def)
  show ?thesis
  proof (cases "elapsed now' now < ?ttl")
    case True
    with found obtain v where v: "sc_sessions ?p model = Some v" by blast
    from session_cache.put_then_purge(2) [OF TrueI v] have "snd v = x" .
    with v True assms(4-6) show ?thesis
      by (cases v) (simp add: request_session_def stored Let_def)
  next
    case False
    with found have "sc_sessions ?p model = None" by (meson not_None_eq)
    moreover have "sc_pending (drop_dead ?p) model = None" using frame(1) by (simp add: retain_def)
    ultimately show ?thesis using False assms(4-6) frame(2)
      by (simp add: request_session_def stored Let_def del: drop_dead_simps(4))
  qed
qed

lemma cached_session_reused_until_expiry_witness:
  "\<exists>s x. s = run_sessions demo_client_options False (take 3 demo_session_run) no_sessions
     \<and> last (sc_callers (request_session demo_client_options ''m'' 9
         (store_result demo_client_options ''m'' 0 7 (Inr x) s))) = Got ''m'' (Inr x)"
proof -
  let ?s = "run_sessions demo_client_options False (take 3 demo_session_run) no_sessions"
  obtain x where "demo_session_result = Inr x" using demo_session_created unfolding is_ok_iff by blast
  have "sc_pending ?s ''m'' = Some 0" "future_alive ?s 0" by code_simp+
  from cached_session_reused_until_expiry [OF this, of demo_client_options 9 7 x] show ?thesis
    by (auto simp: demo_client_options_def default_client_options_def elapsed_def)
qed

end
