(* ===== verification/Response_Cache.thy ===== *)
theory Response_Cache
  imports Inference_Session Expiry
begin

text \<open>
  \<open>inference.rs\<close>, the captured responses and their receipts: \<open>register\<close>, \<open>clear_response_cache\<close> and
  \<open>verify_response\<close>. Calls run concurrently, so each critical section is one step: a run is a list of
  steps, chosen by the scheduler, with the clock and the answers of the network as their arguments.
\<close>

section \<open>One verification\<close>

record captured_response =
  ca_request :: bytes
  ca_response :: bytes
  ca_session :: session
  ca_gateway_only :: bool

datatype completion_attestation =
    Att_Gateway verified_gateway_attestation
  | Att_Model verified_model_attestation
  | Att_Direct "verified_direct_attestation list"

record verified_completion =
  vc_id :: string
  vc_signature :: completion_signature
  vc_attestation :: completion_attestation

text \<open>The future that \<open>verify_response\<close> shares between its callers.\<close>

definition verify_captured ::
  "('c, 'z) sig_prims_scheme \<Rightarrow> signing_algo \<Rightarrow> string \<Rightarrow> captured_response \<Rightarrow> verified_completion inf" where
  "verify_captured P algo id' captured =
     (let session = ca_session captured in
      rbind (lift_api (evidence_signature P (se_api session) id' algo)) (\<lambda>signature.
      rbind (ensure (si_algo (cs_signer signature) = algo) (Verification SignatureSignerMismatch)) (\<lambda>_.
      rbind (ensure (\<not> (ca_gateway_only captured \<and> cs_kind signature \<noteq> Gateway))
               (Verification (SignatureKindMismatch Gateway (cs_kind signature)))) (\<lambda>_.
      rbind (case cs_kind signature of
               Gateway \<Rightarrow>
                 rbind (ok_or (Verification (SignatureKindMismatch ProviderTee (cs_kind signature))) (se_gateway session)) (\<lambda>gateway.
                 rbind (lift_ver (verify_gateway_response P (ca_request captured) (ca_response captured) signature gateway)) (\<lambda>_.
                 Inr (Att_Gateway gateway)))
             | ProviderTee \<Rightarrow>
                 rbind (ok_or (Verification (SignatureKindMismatch Gateway (cs_kind signature))) (se_selected session)) (\<lambda>model.
                 rbind (lift_ver (verify_model_response P (ca_request captured) (ca_response captured) signature model)) (\<lambda>_.
                 Inr (case se_direct session of
                        Some direct \<Rightarrow> Att_Direct (filter (\<lambda>a.
                          same_signer P (ve_signer (vm_evidence (vd_attestation a))) (ve_signer (vm_evidence model)))
                          (dr_attestations direct))
                      | None \<Rightarrow> Att_Model model)))) (\<lambda>attestation.
      Inr \<lparr>vc_id = id', vc_signature = signature, vc_attestation = attestation\<rparr>)))))"

text \<open>A result after which the captured bytes are kept for another attempt.\<close>

definition receipt_retryable :: "'a inf \<Rightarrow> bool" where
  "receipt_retryable result = (case result of
     Inl (Err e) \<Rightarrow> inf_retryable e \<or> inf_code e = ''api.completion_signature_unavailable'' | _ \<Rightarrow> False)"

section \<open>State\<close>

text \<open>
  Records and futures are shared (\<open>Arc\<close>, \<open>Shared\<close>), so they live in two stores, and an address is what
  \<open>ptr_eq\<close> compares. \<open>rp_callers\<close> holds the calls of \<open>verify_response\<close>: one that has its record, one that awaits
  a future of it, one that has returned, or one whose \<open>expect\<close> panicked.
\<close>

record receipt_future =
  rf_record :: nat
  rf_id :: string
  rf_captured :: captured_response
  rf_result :: "verified_completion inf option"

record response_record =
  rr_finished :: nat
  rr_captured :: "captured_response option"
  rr_verification :: "nat option"

datatype receipt_caller =
    Looked string nat
  | Awaiting string nat nat
  | Returned string "nat option" "verified_completion inf"
  | Crashed

record response_state =
  rp_responses :: "string \<rightharpoonup> nat"
  rp_records :: "response_record list"
  rp_futures :: "receipt_future list"
  rp_callers :: "receipt_caller list"
  rp_generation :: "64 word"

definition no_responses :: response_state where
  "no_responses = \<lparr>rp_responses = Map.empty, rp_records = [], rp_futures = [], rp_callers = [], rp_generation = 0\<rparr>"

section \<open>Operations\<close>

definition purge_responses :: "nat \<Rightarrow> nat \<Rightarrow> response_state \<Rightarrow> response_state" where
  "purge_responses ttl now s =
     s\<lparr>rp_responses := retain (\<lambda>a. elapsed now (rr_finished (rp_records s ! a)) < ttl) (rp_responses s)\<rparr>"

definition put_response :: "nat \<Rightarrow> string \<Rightarrow> captured_response \<Rightarrow> response_state \<Rightarrow> response_state" where
  "put_response now id' captured s =
     s\<lparr>rp_responses := (rp_responses s)(id' \<mapsto> length (rp_records s)),
       rp_records := rp_records s @ [\<lparr>rr_finished = now, rr_captured = Some captured, rr_verification = None\<rparr>]\<rparr>"

definition register_response ::
  "client_options \<Rightarrow> nat \<Rightarrow> 64 word \<Rightarrow> string \<Rightarrow> captured_response \<Rightarrow> response_state \<Rightarrow> unit inf \<times> response_state" where
  "register_response options now generation id' captured s =
     (if generation \<noteq> rp_generation s then (Inr (), s)
      else
        let s = purge_responses (io_response_cache_ttl options) now s in
        if io_response_cache_ttl options = 0 then (Inr (), s)
        else if rp_responses s id' \<noteq> None then (fail (Api DuplicateCompletionId), s)
        else (Inr (), put_response now id' captured s))"

definition clear_response_cache :: "response_state \<Rightarrow> response_state" where
  "clear_response_cache s = s\<lparr>rp_generation := rp_generation s + 1, rp_responses := Map.empty\<rparr>"

text \<open>\<open>verify_response\<close> in its three critical sections: the lookup, the choice of the future, the release.\<close>

definition lookup_response :: "client_options \<Rightarrow> nat \<Rightarrow> string \<Rightarrow> response_state \<Rightarrow> nat inf \<times> response_state" where
  "lookup_response options now id' s =
     (let s = purge_responses (io_response_cache_ttl options) now s in
      (ok_or (Api CompletionNotFound) (rp_responses s id'), s))"

definition join_verification :: "string \<Rightarrow> nat \<Rightarrow> response_state \<Rightarrow> nat inf \<times> response_state" where
  "join_verification id' a s =
     (let record' = rp_records s ! a in
      case rr_verification record' of
        Some f \<Rightarrow> (Inr f, s)
      | None \<Rightarrow>
          (case rr_captured record' of
             None \<Rightarrow> (panic ''unverified response bytes'', s)
           | Some captured \<Rightarrow>
               (let f = length (rp_futures s) in
                (Inr f, s\<lparr>rp_futures := rp_futures s @
                    [\<lparr>rf_record = a, rf_id = id', rf_captured = captured, rf_result = None\<rparr>],
                  rp_records := (rp_records s)[a := record'\<lparr>rr_verification := Some f\<rparr>]\<rparr>))))"

definition settle_verification :: "nat \<Rightarrow> nat \<Rightarrow> 'a inf \<Rightarrow> response_state \<Rightarrow> response_state" where
  "settle_verification a f result s =
     (let record' = rp_records s ! a in
      if rr_verification record' = Some f then
        s\<lparr>rp_records := (rp_records s)[a :=
          (if receipt_retryable result then record'\<lparr>rr_verification := None\<rparr> else record'\<lparr>rr_captured := None\<rparr>)]\<rparr>
      else s)"

section \<open>Runs\<close>

text \<open>
  \<open>Ev_Resolve f P\<close> is the completion of future \<open>f\<close> against the network \<open>P\<close>. A step that does not apply (no such
  caller, a future already resolved) changes nothing.
\<close>

datatype 'p response_event =
    Ev_Register nat "64 word" string captured_response
  | Ev_Clear
  | Ev_Begin string nat
  | Ev_Join nat
  | Ev_Resolve nat 'p
  | Ev_Settle nat

definition set_caller :: "nat \<Rightarrow> receipt_caller \<Rightarrow> response_state \<Rightarrow> response_state" where
  "set_caller k caller s = s\<lparr>rp_callers := (rp_callers s)[k := caller]\<rparr>"

definition begin_call :: "client_options \<Rightarrow> string \<Rightarrow> nat \<Rightarrow> response_state \<Rightarrow> response_state" where
  "begin_call options id' now s =
     (case lookup_response options now id' s of
        (Inr a, s) \<Rightarrow> s\<lparr>rp_callers := rp_callers s @ [Looked id' a]\<rparr>
      | (Inl e, s) \<Rightarrow> s\<lparr>rp_callers := rp_callers s @ [Returned id' None (Inl e)]\<rparr>)"

definition join_call :: "nat \<Rightarrow> response_state \<Rightarrow> response_state" where
  "join_call k s =
     (if k < length (rp_callers s) then
        (case rp_callers s ! k of
           Looked id' a \<Rightarrow>
             (case join_verification id' a s of
                (Inr f, s) \<Rightarrow> set_caller k (Awaiting id' a f) s
              | (Inl _, s) \<Rightarrow> set_caller k Crashed s)
         | _ \<Rightarrow> s)
      else s)"

definition resolve_future ::
  "client_options \<Rightarrow> nat \<Rightarrow> ('c, 'z) sig_prims_scheme \<Rightarrow> response_state \<Rightarrow> response_state" where
  "resolve_future options f P s =
     (if f < length (rp_futures s) \<and> rf_result (rp_futures s ! f) = None then
        (let future = rp_futures s ! f in
         s\<lparr>rp_futures := (rp_futures s)[f := future\<lparr>rf_result :=
           Some (verify_captured P (io_signing_algo options) (rf_id future) (rf_captured future))\<rparr>]\<rparr>)
      else s)"

definition settle_call :: "nat \<Rightarrow> response_state \<Rightarrow> response_state" where
  "settle_call k s =
     (if k < length (rp_callers s) then
        (case rp_callers s ! k of
           Awaiting id' a f \<Rightarrow>
             (case rf_result (rp_futures s ! f) of
                None \<Rightarrow> s
              | Some result \<Rightarrow> set_caller k (Returned id' (Some a) result) (settle_verification a f result s))
         | _ \<Rightarrow> s)
      else s)"

fun response_step ::
  "client_options \<Rightarrow> ('c, 'z) sig_prims_scheme response_event \<Rightarrow> response_state \<Rightarrow> response_state" where
  "response_step options (Ev_Register now generation id' captured) s =
     snd (register_response options now generation id' captured s)"
| "response_step options Ev_Clear s = clear_response_cache s"
| "response_step options (Ev_Begin id' now) s = begin_call options id' now s"
| "response_step options (Ev_Join k) s = join_call k s"
| "response_step options (Ev_Resolve f P) s = resolve_future options f P s"
| "response_step options (Ev_Settle k) s = settle_call k s"

definition run_responses ::
  "client_options \<Rightarrow> ('c, 'z) sig_prims_scheme response_event list \<Rightarrow> response_state \<Rightarrow> response_state" where
  "run_responses options es s = fold (response_step options) es s"

lemma run_responses_simps [simp]:
  "run_responses options [] s = s"
  "run_responses options (e # es) s = run_responses options es (response_step options e s)"
  "run_responses options (es @ es') s = run_responses options es' (run_responses options es s)"
  by (simp_all add: run_responses_def)

section \<open>The cache of responses expires its entries\<close>

definition responses_stored :: "response_state \<Rightarrow> bool" where
  "responses_stored s \<longleftrightarrow> (\<forall>a \<in> ran (rp_responses s). a < length (rp_records s))"

lemma responses_storedD: "responses_stored s \<Longrightarrow> rp_responses s k = Some a \<Longrightarrow> a < length (rp_records s)"
  by (auto simp: responses_stored_def ran_def)

interpretation response_cache: expiring_cache rp_responses purge_responses put_response
    "\<lambda>s a. rr_finished (rp_records s ! a)" "\<lambda>s a. the (rr_captured (rp_records s ! a))" responses_stored
proof unfold_locales
  fix s :: response_state and k k' ttl now v and x :: captured_response
  assume "responses_stored s"
  show "responses_stored (purge_responses ttl now s) \<and> responses_stored (put_response now k x s)"
    using \<open>responses_stored s\<close>
    by (auto simp: responses_stored_def purge_responses_def put_response_def ran_def retain_def less_Suc_eq
        split: option.splits if_splits)
  show "rp_responses s k' = Some v \<Longrightarrow>
      rr_finished (rp_records (put_response now k x s) ! v) = rr_finished (rp_records s ! v) \<and>
      the (rr_captured (rp_records (put_response now k x s) ! v)) = the (rr_captured (rp_records s ! v))"
    using responses_storedD [OF \<open>responses_stored s\<close>] by (auto simp: put_response_def nth_append)
qed (auto simp: purge_responses_def put_response_def)

section \<open>The invariant\<close>

text \<open>
  \<open>log\<close> lists, for each record, the id and the response it was registered with. A record keeps its bytes until
  the future in its slot has a final result; the slot holds the only future of the record that is not yet resolved
  or has a final result.
\<close>

type_synonym response_log = "(string \<times> captured_response) list"

definition open_future :: "receipt_future \<Rightarrow> bool" where
  "open_future f \<longleftrightarrow> (case rf_result f of None \<Rightarrow> True | Some r \<Rightarrow> \<not> receipt_retryable r)"

definition settled_future :: "receipt_future \<Rightarrow> bool" where
  "settled_future f \<longleftrightarrow> (case rf_result f of None \<Rightarrow> False | Some r \<Rightarrow> \<not> receipt_retryable r)"

definition record_ok :: "receipt_future list \<Rightarrow> nat \<Rightarrow> captured_response \<Rightarrow> response_record \<Rightarrow> bool" where
  "record_ok futures a captured rc \<longleftrightarrow>
     (case rr_verification rc of
        None \<Rightarrow> rr_captured rc = Some captured
      | Some f \<Rightarrow> f < length futures \<and> rf_record (futures ! f) = a
          \<and> (rr_captured rc = Some captured \<or> rr_captured rc = None \<and> settled_future (futures ! f)))"

definition future_ok ::
  "client_options \<Rightarrow> ('c, 'z) sig_prims_scheme response_event list \<Rightarrow> response_log \<Rightarrow> response_record list
     \<Rightarrow> nat \<Rightarrow> receipt_future \<Rightarrow> bool" where
  "future_ok options es log records f future \<longleftrightarrow>
     rf_record future < length log \<and> log ! rf_record future = (rf_id future, rf_captured future)
     \<and> (\<forall>r. rf_result future = Some r \<longrightarrow>
         (\<exists>P. Ev_Resolve f P \<in> set es
            \<and> r = verify_captured P (io_signing_algo options) (rf_id future) (rf_captured future)))
     \<and> (open_future future \<longrightarrow> rr_verification (records ! rf_record future) = Some f)"

definition caller_ok :: "response_log \<Rightarrow> receipt_future list \<Rightarrow> receipt_caller \<Rightarrow> bool" where
  "caller_ok log futures caller \<longleftrightarrow> (case caller of
       Looked id' a \<Rightarrow> a < length log \<and> fst (log ! a) = id'
     | Awaiting id' a f \<Rightarrow> a < length log \<and> fst (log ! a) = id' \<and> f < length futures \<and> rf_record (futures ! f) = a
     | Returned id' (Some a) r \<Rightarrow> a < length log \<and> fst (log ! a) = id'
         \<and> (\<exists>f. f < length futures \<and> rf_record (futures ! f) = a \<and> rf_result (futures ! f) = Some r)
     | Returned id' None r \<Rightarrow> r = fail (Api CompletionNotFound)
     | Crashed \<Rightarrow> False)"

definition log_ok :: "client_options \<Rightarrow> ('p response_event) list \<Rightarrow> response_log \<Rightarrow> (string \<rightharpoonup> nat) \<Rightarrow> bool" where
  "log_ok options es log responses \<longleftrightarrow>
     (\<forall>id' a. responses id' = Some a \<longrightarrow> a < length log \<and> fst (log ! a) = id')
     \<and> (\<forall>id' c. (id', c) \<in> set log \<longrightarrow> (\<exists>now generation. Ev_Register now generation id' c \<in> set es))"

definition responses_inv ::
  "client_options \<Rightarrow> ('c, 'z) sig_prims_scheme response_event list \<Rightarrow> response_log \<Rightarrow> response_state \<Rightarrow> bool" where
  "responses_inv options es log s \<longleftrightarrow>
     length (rp_records s) = length log \<and> log_ok options es log (rp_responses s)
     \<and> (\<forall>a < length log. record_ok (rp_futures s) a (snd (log ! a)) (rp_records s ! a))
     \<and> (\<forall>f < length (rp_futures s). future_ok options es log (rp_records s) f (rp_futures s ! f))
     \<and> (\<forall>c \<in> set (rp_callers s). caller_ok log (rp_futures s) c)"

lemma responses_invI:
  assumes "length (rp_records s) = length log" and "log_ok options es log (rp_responses s)"
    and "\<And>a. a < length log \<Longrightarrow> record_ok (rp_futures s) a (snd (log ! a)) (rp_records s ! a)"
    and "\<And>f. f < length (rp_futures s) \<Longrightarrow> future_ok options es log (rp_records s) f (rp_futures s ! f)"
    and "\<And>c. c \<in> set (rp_callers s) \<Longrightarrow> caller_ok log (rp_futures s) c"
  shows "responses_inv options es log s"
  using assms by (simp add: responses_inv_def)

lemma responses_invD:
  assumes "responses_inv options es log s"
  shows "length (rp_records s) = length log" and "log_ok options es log (rp_responses s)"
    and "a < length log \<Longrightarrow> record_ok (rp_futures s) a (snd (log ! a)) (rp_records s ! a)"
    and "f < length (rp_futures s) \<Longrightarrow> future_ok options es log (rp_records s) f (rp_futures s ! f)"
    and "c \<in> set (rp_callers s) \<Longrightarrow> caller_ok log (rp_futures s) c"
  using assms by (simp_all add: responses_inv_def)

lemma future_ok_mono: "future_ok options es log records f x \<Longrightarrow> set es \<subseteq> set es' \<Longrightarrow> future_ok options es' log records f x"
  unfolding future_ok_def by blast

lemma log_ok_mono: "log_ok options es log m \<Longrightarrow> set es \<subseteq> set es' \<Longrightarrow> m' \<subseteq>\<^sub>m m \<Longrightarrow> log_ok options es' log m'"
  unfolding log_ok_def map_le_def by (metis domI subset_iff)

text \<open>Steps that leave records and futures alone keep the invariant when their callers are right.\<close>

lemma responses_inv_keep:
  assumes "responses_inv options es log s" and "set es \<subseteq> set es'"
    and "rp_records s' = rp_records s" and "rp_futures s' = rp_futures s" and "rp_responses s' \<subseteq>\<^sub>m rp_responses s"
    and "\<And>c. c \<in> set (rp_callers s') \<Longrightarrow> c \<in> set (rp_callers s) \<or> caller_ok log (rp_futures s) c"
  shows "responses_inv options es' log s'"
  using assms(1) unfolding responses_inv_def assms(3,4)
  by (meson assms(2,5,6) future_ok_mono log_ok_mono)

lemma caller_ok_append: "caller_ok log futures c \<Longrightarrow> caller_ok (log @ l) (futures @ fs) c"
  by (cases c) (auto simp: caller_ok_def nth_append split: option.splits)

lemma record_ok_append: "record_ok futures a c rc \<Longrightarrow> record_ok (futures @ fs) a c rc"
  by (auto simp: record_ok_def nth_append split: option.splits)

section \<open>Every step keeps the invariant\<close>

lemma set_caller_inv:
  assumes "responses_inv options es log s" and "caller_ok log (rp_futures s) c"
  shows "responses_inv options es log (set_caller k c s)"
  by (rule responses_inv_keep [OF assms(1) subset_refl])
    (use assms(2) in \<open>auto simp: set_caller_def dest: set_update_subset_insert [THEN subsetD]\<close>)

lemma purge_inv: "responses_inv options es log s \<Longrightarrow> set es \<subseteq> set es' \<Longrightarrow>
    responses_inv options es' log (purge_responses ttl now s)"
  by (rule responses_inv_keep) (auto simp: purge_responses_def retain_le)

lemma put_inv:
  assumes inv: "responses_inv options es log s" and "Ev_Register now generation id' c \<in> set es"
  shows "responses_inv options es (log @ [(id', c)]) (put_response now' id' c s)"
proof (rule responses_invI)
  note D = responses_invD [OF inv]
  show "length (rp_records (put_response now' id' c s)) = length (log @ [(id', c)])"
    using D(1) by (simp add: put_response_def)
  show "log_ok options es (log @ [(id', c)]) (rp_responses (put_response now' id' c s))"
    using D(1,2) assms(2) by (auto simp: log_ok_def put_response_def nth_append less_SucI)
  show "record_ok (rp_futures (put_response now' id' c s)) a (snd ((log @ [(id', c)]) ! a))
      (rp_records (put_response now' id' c s) ! a)" if "a < length (log @ [(id', c)])" for a
    using that D(1,3) by (auto simp: put_response_def nth_append less_Suc_eq record_ok_def)
  show "future_ok options es (log @ [(id', c)]) (rp_records (put_response now' id' c s)) f
      (rp_futures (put_response now' id' c s) ! f)" if "f < length (rp_futures (put_response now' id' c s))" for f
    using that D(1) D(4) [of f] by (auto simp: put_response_def nth_append future_ok_def)
  show "caller_ok (log @ [(id', c)]) (rp_futures (put_response now' id' c s)) k"
    if "k \<in> set (rp_callers (put_response now' id' c s))" for k
    using that D(5) caller_ok_append [of log "rp_futures s" k "[(id', c)]" "[]"] by (simp add: put_response_def)
qed

lemma register_inv:
  assumes "responses_inv options es log s" and "Ev_Register now generation id' c \<in> set es'" and "set es \<subseteq> set es'"
  shows "\<exists>log'. responses_inv options es' log' (snd (register_response options now generation id' c s))"
proof -
  let ?s = "purge_responses (io_response_cache_ttl options) now s"
  have "responses_inv options es' log s" by (rule responses_inv_keep [OF assms(1,3)]) auto
  moreover have "responses_inv options es' log ?s" using assms(1,3) by (rule purge_inv)
  moreover note put_inv [OF this assms(2), of now]
  moreover have "snd (register_response options now generation id' c s) \<in> {s, ?s, put_response now id' c ?s}"
    by (simp add: register_response_def Let_def)
  ultimately show ?thesis by auto
qed

lemma begin_inv:
  assumes "responses_inv options es log s" and "set es \<subseteq> set es'"
  shows "responses_inv options es' log (begin_call options id' now s)"
proof -
  let ?s = "purge_responses (io_response_cache_ttl options) now s"
  have inv: "responses_inv options es' log ?s" using assms by (rule purge_inv)
  show ?thesis
  proof (cases "rp_responses ?s id'")
    case None
    then have "begin_call options id' now s =
        ?s\<lparr>rp_callers := rp_callers ?s @ [Returned id' None (fail (Api CompletionNotFound))]\<rparr>"
      by (simp add: begin_call_def lookup_response_def Let_def)
    then show ?thesis
      by (auto intro!: responses_inv_keep [OF inv] simp: caller_ok_def)
  next
    case (Some a)
    with responses_invD(2) [OF inv] have "a < length log" "fst (log ! a) = id'"
      by (auto simp: log_ok_def)
    moreover have "begin_call options id' now s = ?s\<lparr>rp_callers := rp_callers ?s @ [Looked id' a]\<rparr>"
      using Some by (simp add: begin_call_def lookup_response_def Let_def)
    ultimately show ?thesis
      by (auto intro!: responses_inv_keep [OF inv] simp: caller_ok_def)
  qed
qed

lemma join_inv:
  assumes inv: "responses_inv options es log s" and a: "a < length log" "fst (log ! a) = id'"
  shows "\<exists>f s'. join_verification id' a s = (Inr f, s') \<and> f < length (rp_futures s') \<and> rf_record (rp_futures s' ! f) = a
     \<and> rr_verification (rp_records s' ! a) = Some f \<and> rp_callers s' = rp_callers s \<and> responses_inv options es log s'"
proof (cases "rr_verification (rp_records s ! a)")
  case (Some f)
  with responses_invD(3) [OF inv a(1)] inv show ?thesis
    by (auto simp: join_verification_def Let_def record_ok_def)
next
  case None
  note D = responses_invD [OF inv]
  have captured: "rr_captured (rp_records s ! a) = Some (snd (log ! a))"
    using D(3) [OF a(1)] None by (simp add: record_ok_def)
  let ?f = "length (rp_futures s)"
  let ?new = "\<lparr>rf_record = a, rf_id = id', rf_captured = snd (log ! a), rf_result = None\<rparr>"
  let ?s = "s\<lparr>rp_futures := rp_futures s @ [?new],
      rp_records := (rp_records s)[a := (rp_records s ! a)\<lparr>rr_verification := Some ?f\<rparr>]\<rparr>"
  have "responses_inv options es log ?s"
  proof (rule responses_invI)
    show "record_ok (rp_futures ?s) b (snd (log ! b)) (rp_records ?s ! b)" if "b < length log" for b
      using that a(1) D(1) D(3) [OF that] captured
      by (cases "b = a") (auto simp: record_ok_def nth_append split: option.splits)
    show "future_ok options es log (rp_records ?s) g (rp_futures ?s ! g)" if "g < length (rp_futures ?s)" for g
    proof (cases "g = ?f")
      case True
      with a D(1) show ?thesis by (auto simp: future_ok_def prod_eq_iff)
    next
      case False
      with that have g: "g < length (rp_futures s)" by simp
      from D(4) [OF g] None have "\<not> (rf_record (rp_futures s ! g) = a \<and> open_future (rp_futures s ! g))"
        by (auto simp: future_ok_def)
      with D(4) [OF g] g a(1) D(1) show ?thesis
        by (auto simp: future_ok_def nth_append nth_list_update)
    qed
    show "caller_ok log (rp_futures ?s) c" if "c \<in> set (rp_callers ?s)" for c
      using that D(5) caller_ok_append [of log "rp_futures s" c "[]"] by simp
  qed (use D(1,2) in simp_all)
  with None captured a(1) D(1) show ?thesis by (simp add: join_verification_def Let_def)
qed

lemma join_call_inv:
  assumes inv: "responses_inv options es log s"
  shows "responses_inv options es log (join_call k s)"
proof (cases "k < length (rp_callers s)")
  case True
  then have "caller_ok log (rp_futures s) (rp_callers s ! k)" using responses_invD(5) [OF inv] by simp
  then show ?thesis
  proof (cases "rp_callers s ! k")
    case (Looked id' a)
    with \<open>caller_ok _ _ _\<close> have a: "a < length log" "fst (log ! a) = id'" by (simp_all add: caller_ok_def)
    from join_inv [OF inv this] obtain f s' where s': "join_verification id' a s = (Inr f, s')"
        "f < length (rp_futures s')" "rf_record (rp_futures s' ! f) = a" "responses_inv options es log s'"
      by blast
    then have "responses_inv options es log (set_caller k (Awaiting id' a f) s')"
      using a by (intro set_caller_inv) (auto simp: caller_ok_def)
    with True Looked s'(1) show ?thesis by (simp add: join_call_def)
  qed (use inv in \<open>auto simp: join_call_def\<close>)
qed (use inv in \<open>simp add: join_call_def\<close>)

lemma resolve_inv:
  assumes inv: "responses_inv options es log s" and "Ev_Resolve f P \<in> set es'" and "set es \<subseteq> set es'"
  shows "responses_inv options es' log (resolve_future options f P s)"
proof (cases "f < length (rp_futures s) \<and> rf_result (rp_futures s ! f) = None")
  case True
  note D = responses_invD [OF inv]
  let ?x = "rp_futures s ! f"
  let ?y = "?x\<lparr>rf_result := Some (verify_captured P (io_signing_algo options) (rf_id ?x) (rf_captured ?x))\<rparr>"
  let ?s = "s\<lparr>rp_futures := (rp_futures s)[f := ?y]\<rparr>"
  have slot: "rr_verification (rp_records s ! rf_record ?x) = Some f"
    using D(4) [of f] True by (simp add: future_ok_def open_future_def)
  have "responses_inv options es' log ?s"
  proof (rule responses_invI)
    show "record_ok (rp_futures ?s) b (snd (log ! b)) (rp_records ?s ! b)" if "b < length log" for b
      using True D(3) [OF that]
      by (auto simp: record_ok_def settled_future_def nth_list_update split: option.splits)
    show "future_ok options es' log (rp_records ?s) g (rp_futures ?s ! g)" if "g < length (rp_futures ?s)" for g
    proof (cases "g = f")
      case True
      with D(4) [of f] that assms(2) slot show ?thesis by (auto simp: future_ok_def)
    next
      case False
      with D(4) [of g] that have "future_ok options es' log (rp_records s) g (rp_futures s ! g)"
        by (intro future_ok_mono [OF _ assms(3)]) simp_all
      with False show ?thesis by simp
    qed
    show "caller_ok log (rp_futures ?s) c" if "c \<in> set (rp_callers ?s)" for c
      using that True D(5) [of c]
      by (auto simp: caller_ok_def nth_list_update split: receipt_caller.splits option.splits)
  qed (use D(1) log_ok_mono [OF D(2) assms(3)] in simp_all)
  with True show ?thesis by (simp add: resolve_future_def Let_def)
qed (use responses_inv_keep [OF inv assms(3)] in \<open>auto simp: resolve_future_def\<close>)

lemma settle_verification_inv:
  assumes inv: "responses_inv options es log s" and f: "f < length (rp_futures s)" "rf_record (rp_futures s ! f) = a"
      "rf_result (rp_futures s ! f) = Some r"
  shows "responses_inv options es log (settle_verification a f r s)"
proof (cases "rr_verification (rp_records s ! a) = Some f")
  case slot: True
  note D = responses_invD [OF inv]
  from D(4) [OF f(1)] f(2) have a: "a < length log" by (auto simp: future_ok_def)
  have state: "open_future (rp_futures s ! f) \<longleftrightarrow> \<not> receipt_retryable r"
      "settled_future (rp_futures s ! f) \<longleftrightarrow> \<not> receipt_retryable r"
    by (simp_all add: open_future_def settled_future_def f(3))
  let ?rc = "if receipt_retryable r then (rp_records s ! a)\<lparr>rr_verification := None\<rparr> else (rp_records s ! a)\<lparr>rr_captured := None\<rparr>"
  let ?s = "s\<lparr>rp_records := (rp_records s)[a := ?rc]\<rparr>"
  have "responses_inv options es log ?s"
  proof (rule responses_invI)
    show "record_ok (rp_futures ?s) b (snd (log ! b)) (rp_records ?s ! b)" if "b < length log" for b
      using D(1) D(3) [OF that] that slot state by (cases "b = a") (auto simp: record_ok_def f(1,2))
    show "future_ok options es log (rp_records ?s) g (rp_futures ?s ! g)" if "g < length (rp_futures ?s)" for g
    proof (cases "rf_record (rp_futures s ! g) = a")
      case True
      have "open_future (rp_futures s ! g) \<Longrightarrow> g = f" using D(4) [of g] that slot True by (simp add: future_ok_def)
      with D(4) [of g] that True slot a D(1) state(1) show ?thesis by (auto simp: future_ok_def)
    next
      case False
      with D(4) [of g] that show ?thesis by (simp add: future_ok_def)
    qed
  qed (use D in simp_all)
  with slot show ?thesis by (simp add: settle_verification_def Let_def)
qed (use inv in \<open>simp add: settle_verification_def Let_def\<close>)

lemma settle_verification_frame [simp]:
  "rp_futures (settle_verification a f r s) = rp_futures s"
  "rp_callers (settle_verification a f r s) = rp_callers s"
  by (simp_all add: settle_verification_def Let_def)

lemma settle_call_inv:
  assumes inv: "responses_inv options es log s"
  shows "responses_inv options es log (settle_call k s)"
proof (cases "k < length (rp_callers s)")
  case True
  then have c: "caller_ok log (rp_futures s) (rp_callers s ! k)" using responses_invD(5) [OF inv] by simp
  show ?thesis
  proof (cases "rp_callers s ! k")
    case (Awaiting id' a f)
    with c have f: "a < length log" "fst (log ! a) = id'" "f < length (rp_futures s)" "rf_record (rp_futures s ! f) = a"
      by (simp_all add: caller_ok_def)
    show ?thesis
    proof (cases "rf_result (rp_futures s ! f)")
      case (Some r)
      have "responses_inv options es log (set_caller k (Returned id' (Some a) r) (settle_verification a f r s))"
        using settle_verification_inv [OF inv f(3,4) Some] f Some
        by (intro set_caller_inv) (auto simp: caller_ok_def)
      with True Awaiting Some show ?thesis by (simp add: settle_call_def)
    qed (use True Awaiting inv in \<open>simp add: settle_call_def\<close>)
  qed (use True inv in \<open>simp_all add: settle_call_def\<close>)
qed (use inv in \<open>simp add: settle_call_def\<close>)

lemma step_inv:
  assumes "responses_inv options es log s"
  shows "\<exists>log'. responses_inv options (es @ [e]) log' (response_step options e s)"
proof -
  have more': "responses_inv options (es @ [e]) log s"
    by (rule responses_inv_keep [OF assms]) auto
  show ?thesis
  proof (cases e)
    case (Ev_Register now generation id' c)
    then show ?thesis using register_inv [OF more' _ subset_refl, of now generation id' c] by simp
  next
    case Ev_Clear
    then show ?thesis using responses_inv_keep [OF more' subset_refl, of "clear_response_cache s"]
      by (auto simp: clear_response_cache_def)
  next
    case (Ev_Begin id' now)
    then show ?thesis using begin_inv [OF more' subset_refl, of id' now] by auto
  next
    case (Ev_Join k)
    then show ?thesis using join_call_inv [OF more'] by auto
  next
    case (Ev_Resolve f P)
    then show ?thesis using resolve_inv [OF more' _ subset_refl, of f P] by auto
  next
    case (Ev_Settle k)
    then show ?thesis using settle_call_inv [OF more'] by auto
  qed
qed

lemma run_inv: "\<exists>log. responses_inv options es log (run_responses options es no_responses)"
proof (induction es rule: rev_induct)
  case Nil
  have "responses_inv options [] [] no_responses" by (simp add: responses_inv_def log_ok_def no_responses_def)
  then show ?case by auto
next
  case (snoc e es)
  then show ?case using step_inv by fastforce
qed

section \<open>What a receipt establishes\<close>

definition receipt_for ::
  "('c, 'z) sig_prims_scheme \<Rightarrow> signing_algo \<Rightarrow> string \<Rightarrow> captured_response \<Rightarrow> verified_completion \<Rightarrow> bool" where
  "receipt_for P algo id' c v \<longleftrightarrow>
     vc_id v = id' \<and> si_algo (cs_signer (vc_signature v)) = algo
     \<and> (ca_gateway_only c \<longrightarrow> cs_kind (vc_signature v) = Gateway)
     \<and> (case vc_attestation v of
          Att_Gateway g \<Rightarrow> se_gateway (ca_session c) = Some g
            \<and> signature_by P (vc_signature v) Gateway (gateway_text P (ca_request c) (ca_response c)) (ve_signer (vg_evidence g))
        | Att_Model m \<Rightarrow> se_selected (ca_session c) = Some m
            \<and> (\<exists>name. request_model P (ca_request c) name
                 \<and> signature_by P (vc_signature v) ProviderTee (model_text P name (ca_request c) (ca_response c))
                     (ve_signer (vm_evidence m)))
        | Att_Direct reports \<Rightarrow> \<exists>m d name. se_selected (ca_session c) = Some m \<and> se_direct (ca_session c) = Some d
            \<and> request_model P (ca_request c) name
            \<and> signature_by P (vc_signature v) ProviderTee (model_text P name (ca_request c) (ca_response c))
                (ve_signer (vm_evidence m))
            \<and> list_all (\<lambda>r. r \<in> set (dr_attestations d)
                \<and> same_signer P (ve_signer (vm_evidence (vd_attestation r))) (ve_signer (vm_evidence m))) reports)"

lemma not_provider_tee: "k \<noteq> ProviderTee \<longleftrightarrow> k = Gateway"
  by (cases k) simp_all

lemma verify_captured_receipt:
  "verify_captured P algo id' c = Inr v \<Longrightarrow> receipt_for P algo id' c v"
  by (auto simp: verify_captured_def receipt_for_def Let_def outcome_simps sig_ok list_all_iff not_provider_tee
      split: completion_signature_kind.splits option.splits)

lemma run_facts:
  assumes "s = run_responses options es no_responses"
  shows "Crashed \<notin> set (rp_callers s)"
    and "Returned id' (Some a) r \<in> set (rp_callers s) \<Longrightarrow> \<exists>f now generation c P.
        f < length (rp_futures s) \<and> rf_record (rp_futures s ! f) = a \<and> rf_result (rp_futures s ! f) = Some r
        \<and> Ev_Register now generation id' c \<in> set es \<and> Ev_Resolve f P \<in> set es
        \<and> r = verify_captured P (io_signing_algo options) id' c"
    and "Returned id' None r \<in> set (rp_callers s) \<Longrightarrow> r = fail (Api CompletionNotFound)"
    and "f < length (rp_futures s) \<Longrightarrow> g < length (rp_futures s) \<Longrightarrow> open_future (rp_futures s ! f) \<Longrightarrow>
      open_future (rp_futures s ! g) \<Longrightarrow> rf_record (rp_futures s ! f) = rf_record (rp_futures s ! g) \<Longrightarrow> f = g"
proof -
  obtain log where inv: "responses_inv options es log s" using run_inv assms by blast
  note D = responses_invD [OF inv]
  show "Crashed \<notin> set (rp_callers s)" using D(5) [of Crashed] by (auto simp: caller_ok_def)
  show "\<exists>f now generation c P.
        f < length (rp_futures s) \<and> rf_record (rp_futures s ! f) = a \<and> rf_result (rp_futures s ! f) = Some r
        \<and> Ev_Register now generation id' c \<in> set es \<and> Ev_Resolve f P \<in> set es
        \<and> r = verify_captured P (io_signing_algo options) id' c"
    if "Returned id' (Some a) r \<in> set (rp_callers s)"
  proof -
    from D(5) [OF that] obtain f where f: "a < length log" "fst (log ! a) = id'" "f < length (rp_futures s)"
        "rf_record (rp_futures s ! f) = a" "rf_result (rp_futures s ! f) = Some r"
      by (auto simp: caller_ok_def)
    with D(4) [OF f(3)] obtain P where P: "Ev_Resolve f P \<in> set es"
        "r = verify_captured P (io_signing_algo options) id' (snd (log ! a))"
      unfolding future_ok_def by (metis fst_conv snd_conv)
    have "(id', snd (log ! a)) \<in> set log" using f(1,2) nth_mem [of a log] by (metis prod.collapse)
    with D(2) obtain now generation where "Ev_Register now generation id' (snd (log ! a)) \<in> set es"
      unfolding log_ok_def by blast
    with f P show ?thesis by blast
  qed
  show "r = fail (Api CompletionNotFound)" if "Returned id' None r \<in> set (rp_callers s)"
    using D(5) [OF that] by (simp add: caller_ok_def)
  show "f < length (rp_futures s) \<Longrightarrow> g < length (rp_futures s) \<Longrightarrow> open_future (rp_futures s ! f) \<Longrightarrow>
      open_future (rp_futures s ! g) \<Longrightarrow> rf_record (rp_futures s ! f) = rf_record (rp_futures s ! g) \<Longrightarrow> f = g"
    using D(4) [of f] D(4) [of g] by (simp add: future_ok_def)
qed

section \<open>An instance\<close>

definition demo_signature_document :: json where
  "demo_signature_document = JObj [(''text'', JStr (cs_signed_text demo_signature)),
     (''signature'', JStr (cs_signature demo_signature)), (''signing_address'', JStr (si_address (cs_signer demo_signature))),
     (''signing_algo'', JStr ''ed25519''), (''signature_kind'', JStr ''gateway'')]"

definition demo_signing :: "unit sig_prims" where
  "demo_signing = demo_sig\<lparr>json_document := \<lambda>_. Some demo_signature_document,
     http_send := \<lambda>_ _. Some \<lparr>rs_status = 200, rs_headers = [], rs_content_length = None, rs_chunks = [[0]],
       rs_broken = False, rs_peer_certificate = None\<rparr>\<rparr>"

definition demo_receipt_session :: session where
  "demo_receipt_session = \<lparr>se_gateway = Some demo_signed_gateway, se_models = [], se_selected = None, se_direct = None,
     se_verified_at = 0, se_client = no_redirect_client, se_api = Gateway_Api demo_client, se_ohttp = None\<rparr>"

definition demo_captured :: captured_response where
  "demo_captured = \<lparr>ca_request = [1], ca_response = [2], ca_session = demo_receipt_session, ca_gateway_only = True\<rparr>"

definition demo_receipt_run :: "unit sig_prims response_event list" where
  "demo_receipt_run = [Ev_Register 0 0 ''i'' demo_captured, Ev_Begin ''i'' 1, Ev_Begin ''i'' 2, Ev_Join 1, Ev_Join 0,
     Ev_Resolve 0 demo_signing, Ev_Settle 1, Ev_Settle 0]"

lemma demo_verifies: "is_ok (verify_captured demo_signing Ed25519 ''i'' demo_captured)"
  by code_simp

lemma demo_receipt_run_returns:
  "list_all (\<lambda>c. case c of Returned i a r \<Rightarrow> i = ''i'' \<and> a = Some 0 \<and> is_ok r | _ \<Rightarrow> False)
     (rp_callers (run_responses (default_client_options) demo_receipt_run no_responses))
   \<and> length (rp_callers (run_responses default_client_options demo_receipt_run no_responses)) = 2"
  by code_simp

section \<open>Properties\<close>

text \<open>C4: Receipts are sound and final under every interleaving. No caller of \<open>verify_response\<close> ever hits the
  \<open>expect\<close> on released bytes. A caller that is told a completion verified gets a receipt for a response that was
  registered under that very id, established against the network by a verification in this run: the signature is the
  configured algorithm's, of the attested signer of the session the response came through, over the registered bytes,
  and a Gateway's where only a Gateway may sign. Two callers of one record never see different final results.\<close>

theorem receipts_sound:
  fixes s :: response_state
  assumes "s = run_responses options es no_responses"
  shows "Crashed \<notin> set (rp_callers s)
     \<and> (\<forall>id' a v. Returned id' a (Inr v) \<in> set (rp_callers s) \<longrightarrow>
         (\<exists>now generation c f P. Ev_Register now generation id' c \<in> set es \<and> Ev_Resolve f P \<in> set es
            \<and> receipt_for P (io_signing_algo options) id' c v))
     \<and> (\<forall>id' a r r'. Returned id' (Some a) r \<in> set (rp_callers s) \<and> Returned id' (Some a) r' \<in> set (rp_callers s)
         \<and> \<not> receipt_retryable r \<and> \<not> receipt_retryable r' \<longrightarrow> r = r')"
proof (intro conjI allI impI)
  note F = run_facts [OF assms]
  show "Crashed \<notin> set (rp_callers s)" by (rule F(1))
  show "\<exists>now generation c f P. Ev_Register now generation id' c \<in> set es \<and> Ev_Resolve f P \<in> set es
      \<and> receipt_for P (io_signing_algo options) id' c v" if "Returned id' a (Inr v) \<in> set (rp_callers s)" for id' a v
  proof (cases a)
    case None
    with F(3) [of id' "Inr v"] that show ?thesis by simp
  next
    case (Some b)
    then show ?thesis using F(2) [of id' b "Inr v"] that verify_captured_receipt by metis
  qed
  fix id' a r r'
  assume *: "Returned id' (Some a) r \<in> set (rp_callers s) \<and> Returned id' (Some a) r' \<in> set (rp_callers s)
      \<and> \<not> receipt_retryable r \<and> \<not> receipt_retryable r'"
  then obtain f g where "f < length (rp_futures s)" "rf_record (rp_futures s ! f) = a" "rf_result (rp_futures s ! f) = Some r"
      "g < length (rp_futures s)" "rf_record (rp_futures s ! g) = a" "rf_result (rp_futures s ! g) = Some r'"
    using F(2) [of id' a r] F(2) [of id' a r'] by blast
  with F(4) [of f g] * show "r = r'" by (auto simp: open_future_def)
qed

lemma receipts_sound_witness:
  "\<exists>s v. s = run_responses default_client_options demo_receipt_run no_responses
     \<and> Returned ''i'' (Some 0) (Inr v) \<in> set (rp_callers s)
     \<and> receipt_for demo_signing Ed25519 ''i'' demo_captured v"
proof -
  let ?s = "run_responses default_client_options demo_receipt_run no_responses"
  obtain c v where "c \<in> set (rp_callers ?s)" "c = Returned ''i'' (Some 0) (Inr v)"
  proof -
    obtain c rest where c: "rp_callers ?s = c # rest"
      using demo_receipt_run_returns by (cases "rp_callers ?s") auto
    with demo_receipt_run_returns have "\<exists>r. c = Returned ''i'' (Some 0) r \<and> is_ok r"
      by (cases c) auto
    with c that show ?thesis by (auto simp: is_ok_iff)
  qed
  moreover from this receipts_sound [of ?s default_client_options demo_receipt_run]
  have "\<exists>f P now generation c. Ev_Register now generation ''i'' c \<in> set demo_receipt_run
      \<and> Ev_Resolve f P \<in> set demo_receipt_run \<and> receipt_for P (io_signing_algo default_client_options) ''i'' c v"
    by blast
  then have "receipt_for demo_signing Ed25519 ''i'' demo_captured v"
    by (auto simp: demo_receipt_run_def default_client_options_def)
  ultimately show ?thesis by blast
qed

text \<open>A cleared cache stays cleared for requests already in flight. A response whose request was sent before the
  cache was cleared is never registered, although its stream completes without an error, as long as fewer than
  \<open>2\<^sup>6\<^sup>4\<close> clears happened since, after which the wrapping generation comes round again.\<close>

fun is_clear :: "'p response_event \<Rightarrow> bool" where
  "is_clear Ev_Clear = True"
| "is_clear _ = False"

lemma step_generation:
  "rp_generation (response_step options e s) = (if is_clear e then rp_generation s + 1 else rp_generation s)"
  by (cases e) (auto simp: register_response_def begin_call_def lookup_response_def join_call_def join_verification_def
      resolve_future_def settle_call_def settle_verification_def set_caller_def clear_response_cache_def put_response_def
      purge_responses_def ok_or_def Let_def split: option.splits receipt_caller.splits)

lemma run_generation:
  "rp_generation (run_responses options es s) = rp_generation s + of_nat (length (filter is_clear es))"
  by (induction es arbitrary: s) (simp_all add: step_generation)

theorem cleared_responses_stay_forgotten:
  assumes "s' = run_responses options es s"
    and "list_ex is_clear es" and "length (filter is_clear es) < 2 ^ 64"
  shows "register_response options now (rp_generation s) id' captured s' = (Inr (), s')"
proof -
  from assms(2) have "0 < length (filter is_clear es)" by (auto simp: list_ex_iff filter_empty_conv)
  with assms(3) have "(of_nat (length (filter is_clear es)) :: 64 word) \<noteq> 0"
    by (simp add: word_of_nat_eq_0_iff nat_dvd_not_less)
  then show ?thesis by (simp add: register_response_def assms(1) run_generation)
qed

lemma cleared_responses_stay_forgotten_witness:
  "\<exists>s. s = run_responses default_client_options [Ev_Clear :: unit sig_prims response_event] no_responses
     \<and> register_response default_client_options 3 0 ''i'' demo_captured s = (Inr (), s)"
  using cleared_responses_stay_forgotten [OF refl, where es = "[Ev_Clear :: unit sig_prims response_event]"
      and options = default_client_options and s = no_responses and now = 3 and id' = "''i''" and captured = demo_captured]
  by (simp add: no_responses_def)

text \<open>A call that found its record always gets an answer. From any state a run can reach, whatever the other
  callers did to the record and its futures, the remaining steps of the call (taking or making the future, its
  completion, the release) end with a result for the caller: none blocks, panics or loses it.\<close>

theorem receipt_call_completes:
  assumes "s = run_responses options es no_responses"
    and "k < length (rp_callers s)" and "rp_callers s ! k = Looked id' a"
  shows "\<exists>f r. rp_callers (run_responses options [Ev_Join k, Ev_Resolve f P, Ev_Settle k] s) ! k = Returned id' (Some a) r"
proof -
  obtain log where inv: "responses_inv options es log s" using run_inv assms(1) by blast
  have "caller_ok log (rp_futures s) (Looked id' a)"
    using responses_invD(5) [OF inv, of "Looked id' a"] assms(2,3) nth_mem by metis
  then have a: "a < length log" "fst (log ! a) = id'" by (simp_all add: caller_ok_def)
  from join_inv [OF inv this] obtain f s' where s': "join_verification id' a s = (Inr f, s')"
      "f < length (rp_futures s')" "rp_callers s' = rp_callers s"
    by blast
  let ?s = "resolve_future options f P (set_caller k (Awaiting id' a f) s')"
  have "join_call k s = set_caller k (Awaiting id' a f) s'"
    using assms(2,3) s'(1) by (simp add: join_call_def)
  moreover have "rp_callers ?s = (rp_callers s)[k := Awaiting id' a f]"
      "\<exists>r. rf_result (rp_futures ?s ! f) = Some r"
    using s' by (auto simp: resolve_future_def set_caller_def Let_def)
  ultimately show ?thesis
    using assms(2) by (auto simp: settle_call_def set_caller_def intro!: exI [of _ f])
qed

lemma receipt_call_completes_witness:
  "\<exists>f r. rp_callers (run_responses default_client_options [Ev_Join 0, Ev_Resolve f demo_signing, Ev_Settle 0]
     (run_responses default_client_options (take 4 demo_receipt_run) no_responses)) ! 0 = Returned ''i'' (Some 0) r"
proof -
  let ?s = "run_responses default_client_options (take 4 demo_receipt_run) no_responses"
  have "case rp_callers ?s of Looked i a # _ \<Rightarrow> i = ''i'' \<and> a = 0 | _ \<Rightarrow> False" by code_simp
  then obtain cs where "rp_callers ?s = Looked ''i'' 0 # cs"
    by (auto split: list.splits receipt_caller.splits)
  then show ?thesis
    using receipt_call_completes [OF refl, where es = "take 4 demo_receipt_run" and options = default_client_options
        and k = 0 and P = demo_signing and id' = "''i''" and a = 0]
    by auto
qed

text \<open>What is registered can be looked up until it is as old as the time to live, and not after.\<close>

lemma registered_until_expiry:
  assumes "responses_stored s" and "generation = rp_generation s" and "io_response_cache_ttl options \<noteq> 0"
    and "register_response options now generation id' c s = (Inr (), s')"
  shows "is_ok (fst (lookup_response options now' id' s')) \<longleftrightarrow> elapsed now' now < io_response_cache_ttl options"
proof -
  let ?ttl = "io_response_cache_ttl options"
  have "s' = put_response now id' c (purge_responses ?ttl now s)"
    using assms(2-4) by (auto simp: register_response_def Let_def split: if_splits)
  moreover have "responses_stored (purge_responses ?ttl now s)"
    using response_cache.ok_kept assms(1) by blast
  note response_cache.put_then_purge(1) [OF this, of ?ttl now' now id' c]
  ultimately show ?thesis
    by (auto simp: lookup_response_def Let_def is_ok_iff outcome_simps)
qed

end
