(* ===== verification/Send.thy ===== *)
theory Send
  imports Response_Cache Sse
begin

text \<open>
  \<open>inference.rs\<close>, one exchange: the requests the client builds, \<open>send\<close> (the endpoint check, the session, the
  headers, field encryption, the transport) and the stream it returns, which decrypts what arrives and registers the
  exact bytes once it is complete. The session comes from \<open>Session_Cache\<close>; key material is an argument.
\<close>

section \<open>Building requests\<close>

definition creation_url :: "'z net_prims_scheme \<Rightarrow> client_options \<Rightarrow> string \<Rightarrow> url inf" where
  "creation_url P options path =
     rbind (lift_api (parse_base_url P (io_base_url options))) (\<lambda>base_url.
     ok_or (Api (input ''base_url'' ''invalid URL'')) (url_join P base_url path))"

definition json_request :: "'z net_prims_scheme \<Rightarrow> client_options \<Rightarrow> string \<Rightarrow> json \<Rightarrow> client_request inf" where
  "json_request P options path body =
     rbind (creation_url P options path) (\<lambda>url.
     Inr \<lparr>cr_method = ''POST'', cr_url = url,
          cr_headers = header_insert ''content-type'' ''application/json'' [], cr_body = Some (as_bytes (json_print P body))\<rparr>)"

definition chat_request :: "'z net_prims_scheme \<Rightarrow> client_options \<Rightarrow> json \<Rightarrow> client_request inf" where
  "chat_request P options body = json_request P options ''chat/completions'' body"

definition response_request :: "'z net_prims_scheme \<Rightarrow> client_options \<Rightarrow> json \<Rightarrow> client_request inf" where
  "response_request P options body = json_request P options ''responses'' body"

definition message_request :: "'z net_prims_scheme \<Rightarrow> client_options \<Rightarrow> json \<Rightarrow> client_request inf" where
  "message_request P options body = json_request P options ''messages'' body"

section \<open>The request that is sent\<close>

text \<open>\<open>HeaderMap::extend\<close>: each name of the second map replaces its values in the first.\<close>

definition header_extend :: "headers \<Rightarrow> headers \<Rightarrow> headers" where
  "header_extend h h' = filter (\<lambda>(k, _). \<not> header_contains k h') h @ h'"

text \<open>A credential is the client's own: the request's values are removed, then the client's value inserted.\<close>

definition own_header :: "headers \<Rightarrow> string \<Rightarrow> headers \<Rightarrow> headers" where
  "own_header own name h =
     (let h = header_remove name h in
      case header_get name own of None \<Rightarrow> h | Some v \<Rightarrow> header_insert name v h)"

definition or_insert_header :: "string \<Rightarrow> string \<Rightarrow> headers \<Rightarrow> headers" where
  "or_insert_header name v h = (if header_contains name h then h else header_insert name v h)"

definition send_headers :: "headers \<Rightarrow> bool \<Rightarrow> headers \<Rightarrow> headers" where
  "send_headers own messages request_headers =
     (let h = header_extend own request_headers;
          h = own_header own ''authorization'' h;
          h = own_header own ''api-key'' h;
          h = (if messages
               then or_insert_header ''anthropic-version'' ''2023-06-01'' (own_header own ''x-api-key'' h) else h);
          h = header_insert ''accept-encoding'' ''identity'' h
      in header_remove ''trailer'' (header_remove ''transfer-encoding'' (header_remove ''host'' h)))"

definition plain_headers :: "e2ee_model_key option \<Rightarrow> headers \<Rightarrow> headers inf" where
  "plain_headers model h =
     (let h = header_insert no_aliasing_header ''true'' (remove_e2ee_headers h) in
      case model of
        None \<Rightarrow> Inr h
      | Some model \<Rightarrow>
          rbind (ok_or (Api (input ''model_key'' ''invalid header'')) (header_from_str (ek_public_key model))) (\<lambda>v.
          Inr (header_insert ''x-model-pub-key'' v h)))"

record outgoing =
  og_request :: client_request
  og_key :: "response_key option"
  og_body :: bytes
  og_session :: session
  og_responses :: bool
  og_messages :: bool

definition og_gateway_only :: "outgoing \<Rightarrow> bool" where
  "og_gateway_only og \<longleftrightarrow> og_responses og \<or> og_messages og"

definition prepare_send ::
  "('c, 'o, 'z) ohttp_prims_scheme \<Rightarrow> bool \<Rightarrow> client_options \<Rightarrow> (string \<Rightarrow> session inf) \<Rightarrow> bytes
     \<Rightarrow> (nat \<Rightarrow> bytes \<times> bytes) \<Rightarrow> client_request \<Rightarrow> outgoing inf" where
  "prepare_send P direct options session_for seed rnd request =
     (let actual = (cr_url request)\<lparr>u_query := None\<rparr> in
      rbind (creation_url P options ''chat/completions'') (\<lambda>expected.
      rbind (creation_url P options ''responses'') (\<lambda>responses_url.
      rbind (creation_url P options ''messages'') (\<lambda>messages_url.
      let responses = (actual = responses_url); messages = (actual = messages_url);
          gateway_only = (responses \<or> messages) in
      rbind (ensure (\<not> (actual \<noteq> expected \<and> \<not> gateway_only))
               (Api (input ''request.url'' ''expected configured inference creation endpoint''))) (\<lambda>_.
      rbind (ensure (\<not> (gateway_only \<and> (direct \<or> io_e2ee options)))
               (Api (input ''request'' ''Responses and Messages require a Gateway client with field-level E2EE disabled''))) (\<lambda>_.
      rbind (lift_api (decode_request P request)) (\<lambda>parsed.
      rbind (ok_or (Api (input ''model'' ''missing model'')) (as_str (jindex parsed ''model''))) (\<lambda>model.
      rbind (session_for model) (\<lambda>session.
      let request = request\<lparr>cr_headers := send_headers (io_headers options) messages (cr_headers request)\<rparr> in
      rbind (if io_e2ee options then
               rbind (ok_or (Verification (protocol ''policy.model_attestation_required'' ''E2EE requires model evidence''))
                        (model_key session)) (\<lambda>model.
               rbind (prepare_e2ee_chat_request P seed rnd request model) (\<lambda>prepared.
               Inr (pe_request prepared, Some (pe_key prepared))))
             else
               rbind (plain_headers (if messages then None else model_key session) (cr_headers request)) (\<lambda>h.
               Inr (request\<lparr>cr_headers := h\<rparr>, None))) (\<lambda>(request, key).
      rbind (ok_or (Api (input ''body'' ''buffered body required'')) (cr_body request)) (\<lambda>body.
      Inr \<lparr>og_request = request, og_key = key, og_body = body, og_session = session,
           og_responses = responses, og_messages = messages\<rparr>)))))))))))"

section \<open>The transport\<close>

definition completion_transport :: "api_transport_reason \<Rightarrow> api_error" where
  "completion_transport reason = Transport Res_Completion reason"

definition execute :: "'z net_prims_scheme \<Rightarrow> http_client \<Rightarrow> client_request \<Rightarrow> bytes \<Rightarrow> inference_response inf" where
  "execute P client request body =
     rbind (ok_or (Api (completion_transport Request))
              (http_send P client \<lparr>rq_method = cr_method request, rq_url = url_text P (cr_url request),
                 rq_headers = cr_headers request, rq_body = body\<rparr>)) (\<lambda>response.
     Inr \<lparr>ir_status = rs_status response, ir_headers = rs_headers response,
          ir_body = map Inr (rs_chunks response)
            @ (if rs_broken response then [fail (Api (completion_transport ResponseBody))] else [])\<rparr>)"

definition transmit ::
  "('c, 'o, 'z) ohttp_prims_scheme \<Rightarrow> bytes \<Rightarrow> outgoing \<Rightarrow> inference_response inf" where
  "transmit P rnd og =
     (case se_ohttp (og_session og) of
        Some ohttp \<Rightarrow> send_ohttp P rnd ohttp (og_request og)
      | None \<Rightarrow> execute P (se_client (og_session og)) (og_request og) (og_body og))"

definition event_stream :: "headers \<Rightarrow> bool" where
  "event_stream h =
     (case Option.bind (header_get ''content-type'' h) header_to_str of
        None \<Rightarrow> False | Some s \<Rightarrow> starts_with ''text/event-stream'' (to_lower s))"

definition body_headers :: "string list" where
  "body_headers = [''content-length'', ''content-encoding'', ''etag'', ''content-md5'', ''digest'', ''content-digest'',
     ''repr-digest'', ''last-modified'']"

text \<open>
  \<open>send\<close> returns a response that is not successful as it is. Otherwise its body is the stream below:
  \<open>pr_capture\<close> says what that stream does with the source.
\<close>

record pending_response =
  pr_status :: u16
  pr_headers :: headers
  pr_source :: "bytes inf list"
  pr_capture :: "(outgoing \<times> bool) option"

definition send ::
  "('c, 'o, 'z) ohttp_prims_scheme \<Rightarrow> bool \<Rightarrow> client_options \<Rightarrow> (string \<Rightarrow> session inf) \<Rightarrow> bytes
     \<Rightarrow> (nat \<Rightarrow> bytes \<times> bytes) \<Rightarrow> bytes \<Rightarrow> client_request \<Rightarrow> pending_response inf" where
  "send P direct options session_for seed rnd ohttp_rnd request =
     rbind (prepare_send P direct options session_for seed rnd request) (\<lambda>og.
     rbind (transmit P ohttp_rnd og) (\<lambda>response.
     Inr (if \<not> is_success (ir_status response) then
            \<lparr>pr_status = ir_status response, pr_headers = ir_headers response, pr_source = ir_body response,
             pr_capture = None\<rparr>
          else
            \<lparr>pr_status = ir_status response, pr_headers = fold header_remove body_headers (ir_headers response),
             pr_source = ir_body response, pr_capture = Some (og, event_stream (ir_headers response))\<rparr>)))"

section \<open>The stream\<close>

definition byte_order_mark :: bytes where
  "byte_order_mark = [0xEF, 0xBB, 0xBF]"

record stream_state =
  st_first :: bool
  st_messages :: message_stream_state
  st_id :: "string option"

definition stream_start :: stream_state where
  "stream_start = \<lparr>st_first = True, st_messages = message_stream_default, st_id = None\<rparr>"

definition transform_record ::
  "('c, 'z) e2ee_prims_scheme \<Rightarrow> response_key option \<Rightarrow> bool \<Rightarrow> bool \<Rightarrow> stream_state \<Rightarrow> bytes
     \<Rightarrow> (bytes \<times> stream_state) inf" where
  "transform_record P key responses messages st record' =
     (let parsed = (if st_first st then or_else record' (strip_prefix byte_order_mark record') else record') in
      rbind (if messages then observe P (st_messages st) parsed else Inr (st_messages st)) (\<lambda>state.
      rbind (transform P parsed key (st_id st) responses messages) (\<lambda>(transformed, i).
      Inr (if key \<noteq> None then transformed else record', \<lparr>st_first = False, st_messages = state, st_id = i\<rparr>))))"

fun transform_records ::
  "('c, 'z) e2ee_prims_scheme \<Rightarrow> response_key option \<Rightarrow> bool \<Rightarrow> bool \<Rightarrow> stream_state \<Rightarrow> bytes list
     \<Rightarrow> bytes list \<times> stream_state inf" where
  "transform_records P key responses messages st [] = ([], Inr st)"
| "transform_records P key responses messages st (r # rs) =
     (case transform_record P key responses messages st r of
        Inl f \<Rightarrow> ([], Inl f)
      | Inr (out, st') \<Rightarrow>
          (let (outs, fin) = transform_records P key responses messages st' rs in (out # outs, fin)))"

text \<open>The loop over the source: what it yields, and the wire bytes with the state at its end.\<close>

definition decode_chunk ::
  "('c, 'z) e2ee_prims_scheme \<Rightarrow> response_key option \<Rightarrow> bool \<Rightarrow> bool \<Rightarrow> sse_decoder \<Rightarrow> stream_state \<Rightarrow> bytes \<Rightarrow> bool
     \<Rightarrow> bytes list \<times> (sse_decoder \<times> stream_state) inf" where
  "decode_chunk P key responses messages d st chunk eof =
     (case push d chunk eof of
        Inl f \<Rightarrow> ([], Inl f)
      | Inr (d', records) \<Rightarrow>
          (let (outs, fin) = transform_records P key responses messages st records in
           (outs, rbind fin (\<lambda>st'. Inr (d', st')))))"

fun read_source ::
  "('c, 'z) e2ee_prims_scheme \<Rightarrow> outgoing \<Rightarrow> bool \<Rightarrow> sse_decoder \<Rightarrow> bytes \<Rightarrow> stream_state \<Rightarrow> bytes inf list
     \<Rightarrow> bytes list \<times> (bytes \<times> stream_state) inf" where
  "read_source P og streaming d wire st [] =
     (if streaming then
        (let (outs, fin) = decode_chunk P (og_key og) (og_responses og) (og_messages og) d st [] True in
         (outs, rbind fin (\<lambda>(_, st'). Inr (wire, st'))))
      else ([], Inr (wire, st)))"
| "read_source P og streaming d wire st (Inl f # source) = ([], Inl f)"
| "read_source P og streaming d wire st (Inr chunk # source) =
     (if streaming then
        (case decode_chunk P (og_key og) (og_responses og) (og_messages og) d st chunk False of
           (outs, Inl f) \<Rightarrow> (outs, Inl f)
         | (outs, Inr (d', st')) \<Rightarrow>
             (let (outs', fin) = read_source P og streaming d' (wire @ chunk) st' source in (outs @ outs', fin)))
      else read_source P og streaming d (wire @ chunk) st source)"

text \<open>The receipt id of a complete body, and what is yielded for it.\<close>

definition streamed_id :: "outgoing \<Rightarrow> stream_state \<Rightarrow> string inf" where
  "streamed_id og st =
     rbind (ok_or (Api invalid_response) (st_id st)) (\<lambda>i.
     rbind (if og_messages og then stream_finish (st_messages st) else Inr ()) (\<lambda>_. Inr i))"

definition buffered_reply :: "('c, 'z) e2ee_prims_scheme \<Rightarrow> outgoing \<Rightarrow> bytes \<Rightarrow> (string \<times> bytes) inf" where
  "buffered_reply P og wire =
     rbind (ok_or (Api invalid_response) (json_parse P wire)) (\<lambda>v.
     rbind (ok_or (Api invalid_response)
              (Option.bind (Option.bind (jget v ''id'') as_str) (\<lambda>s. if s \<noteq> [] then Some s else None))) (\<lambda>i.
     case og_key og of
       None \<Rightarrow> Inr (i, wire)
     | Some key \<Rightarrow> rbind (lift_ver (decrypt_response P key False v)) (\<lambda>v'. Inr (i, as_bytes (json_print P v')))))"

definition captured_of :: "outgoing \<Rightarrow> bytes \<Rightarrow> captured_response" where
  "captured_of og wire = \<lparr>ca_request = og_body og, ca_response = wire, ca_session = og_session og,
     ca_gateway_only = og_gateway_only og\<rparr>"

text \<open>
  The whole body, for a consumer that reads it to its end: the items, and the state of the cache of responses, given as
  it is when the stream registers (at \<open>now\<close>); \<open>generation\<close> was read when the request was sent.
\<close>

definition capture_body ::
  "('c, 'z) e2ee_prims_scheme \<Rightarrow> client_options \<Rightarrow> 64 word \<Rightarrow> nat \<Rightarrow> outgoing \<Rightarrow> bool \<Rightarrow> bytes inf list
     \<Rightarrow> response_state \<Rightarrow> bytes inf list \<times> response_state" where
  "capture_body P options generation now og streaming source s =
     (case read_source P og streaming sse_decoder_default [] stream_start source of
        (outs, Inl f) \<Rightarrow> (map Inr outs @ [Inl f], s)
      | (outs, Inr (wire, st)) \<Rightarrow>
          (case (if streaming then rbind (streamed_id og st) (\<lambda>i. Inr (i, [])) else
                   rbind (buffered_reply P og wire) (\<lambda>(i, body). Inr (i, [body]))) of
             Inl f \<Rightarrow> (map Inr outs @ [Inl f], s)
           | Inr (i, rest) \<Rightarrow>
               (case register_response options now generation i (captured_of og wire) s of
                  (Inl f, s') \<Rightarrow> (map Inr outs @ [Inl f], s')
                | (Inr _, s') \<Rightarrow> (map Inr (outs @ rest), s'))))"

definition consume ::
  "('c, 'z) e2ee_prims_scheme \<Rightarrow> client_options \<Rightarrow> 64 word \<Rightarrow> nat \<Rightarrow> pending_response \<Rightarrow> response_state
     \<Rightarrow> bytes inf list \<times> response_state" where
  "consume P options generation now pending s =
     (case pr_capture pending of
        None \<Rightarrow> (pr_source pending, s)
      | Some (og, streaming) \<Rightarrow> capture_body P options generation now og streaming (pr_source pending) s)"

section \<open>JSON calls\<close>

text \<open>\<open>InferenceResponse::bytes\<close> and \<open>json\<close>.\<close>

definition collect_bytes :: "bytes inf list \<Rightarrow> bytes inf" where
  "collect_bytes items = rbind (traverse (\<lambda>i. i) items) (\<lambda>cs. Inr (concat cs))"

definition collect_json :: "'z prims_scheme \<Rightarrow> bytes inf list \<Rightarrow> json inf" where
  "collect_json P items = rbind (collect_bytes items) (\<lambda>b. ok_or (Api invalid_response) (json_parse P b))"

text \<open>\<open>chat_completions\<close>, \<open>create_response\<close> and \<open>create_message\<close>: one JSON call each.\<close>

definition json_call ::
  "('c, 'o, 'z) ohttp_prims_scheme \<Rightarrow> bool \<Rightarrow> client_options \<Rightarrow> (string \<Rightarrow> session inf) \<Rightarrow> bytes
     \<Rightarrow> (nat \<Rightarrow> bytes \<times> bytes) \<Rightarrow> bytes \<Rightarrow> 64 word \<Rightarrow> nat \<Rightarrow> string \<Rightarrow> client_request inf \<Rightarrow> json \<Rightarrow> response_state
     \<Rightarrow> json inf \<times> response_state" where
  "json_call P direct options session_for seed rnd ohttp_rnd generation now reason request body s =
     (case rbind (ensure (jget body ''stream'' \<noteq> Some (JBool True)) (Api (input ''stream'' reason))) (\<lambda>_.
           rbind request (\<lambda>request.
           rbind (send P direct options session_for seed rnd ohttp_rnd request) (\<lambda>response.
           rbind (ensure (is_success (pr_status response)) (Api (HttpStatus Res_Completion (pr_status response)))) (\<lambda>_.
           Inr response)))) of
        Inl f \<Rightarrow> (Inl f, s)
      | Inr response \<Rightarrow>
          (let (items, s') = consume P options generation now response s in (collect_json P items, s')))"

definition chat_completions ::
  "('c, 'o, 'z) ohttp_prims_scheme \<Rightarrow> bool \<Rightarrow> client_options \<Rightarrow> (string \<Rightarrow> session inf) \<Rightarrow> bytes
     \<Rightarrow> (nat \<Rightarrow> bytes \<times> bytes) \<Rightarrow> bytes \<Rightarrow> 64 word \<Rightarrow> nat \<Rightarrow> json \<Rightarrow> response_state \<Rightarrow> json inf \<times> response_state" where
  "chat_completions P direct options session_for seed rnd ohttp_rnd generation now body =
     json_call P direct options session_for seed rnd ohttp_rnd generation now ''use send for streaming Chat''
       (chat_request P options body) body"

definition create_response ::
  "('c, 'o, 'z) ohttp_prims_scheme \<Rightarrow> client_options \<Rightarrow> (string \<Rightarrow> session inf) \<Rightarrow> bytes
     \<Rightarrow> (nat \<Rightarrow> bytes \<times> bytes) \<Rightarrow> bytes \<Rightarrow> 64 word \<Rightarrow> nat \<Rightarrow> json \<Rightarrow> response_state \<Rightarrow> json inf \<times> response_state" where
  "create_response P options session_for seed rnd ohttp_rnd generation now body =
     json_call P False options session_for seed rnd ohttp_rnd generation now ''use send for streaming Responses''
       (response_request P options body) body"

definition create_message ::
  "('c, 'o, 'z) ohttp_prims_scheme \<Rightarrow> client_options \<Rightarrow> (string \<Rightarrow> session inf) \<Rightarrow> bytes
     \<Rightarrow> (nat \<Rightarrow> bytes \<times> bytes) \<Rightarrow> bytes \<Rightarrow> 64 word \<Rightarrow> nat \<Rightarrow> json \<Rightarrow> response_state \<Rightarrow> json inf \<times> response_state" where
  "create_message P options session_for seed rnd ohttp_rnd generation now body =
     json_call P False options session_for seed rnd ohttp_rnd generation now ''use send for streaming Messages''
       (message_request P options body) body"

section \<open>Streams do not depend on how they are cut\<close>

lemma transform_records_append:
  "transform_records P key responses messages st (rs @ rs') =
     (case transform_records P key responses messages st rs of
        (outs, Inl f) \<Rightarrow> (outs, Inl f)
      | (outs, Inr st') \<Rightarrow>
          (let (outs', fin) = transform_records P key responses messages st' rs' in (outs @ outs', fin)))"
  by (induction rs arbitrary: st) (auto split: sum.splits prod.splits)

lemma read_source_complete:
  "sse_ok d \<Longrightarrow> read_source P og streaming d wire st (map Inr cs) =
     (if streaming then
        (let (outs, fin) = transform_records P (og_key og) (og_responses og) (og_messages og) st (sse_future d (concat cs)) in
         (outs, rbind fin (\<lambda>st'. Inr (wire @ concat cs, st'))))
      else ([], Inr (wire @ concat cs, st)))"
proof (induction cs arbitrary: d wire st)
  case Nil
  then show ?case
    by (cases "snd (transform_records P (og_key og) (og_responses og) (og_messages og) st (sse_future d []))")
      (auto simp: decode_chunk_def sse.step_end split: prod.splits)
next
  case (Cons c cs)
  show ?case
  proof (cases streaming)
    case True
    from sse.step_chunk [OF Cons.prems, of c] obtain d' out where
      d': "push d c False = (Inr (d', out) :: (inference_error, _) outcome)" "sse_ok d'"
        "\<forall>rest. sse_future d (c @ rest) = out @ sse_future d' rest" by blast
    obtain outs fin where now: "transform_records P (og_key og) (og_responses og) (og_messages og) st out = (outs, fin)"
      by force
    show ?thesis
      using True d' now Cons.IH [OF d'(2), of "wire @ c"]
      by (cases fin) (auto simp: decode_chunk_def transform_records_append split: prod.splits)
  next
    case False
    with Cons show ?thesis by simp
  qed
qed

lemma delivered_simps [simp]:
  "delivered (map Inr cs) = concat cs" "complete_stream (map Inr cs)"
  "\<not> complete_stream (map Inr cs @ Inl f # rest)"
proof -
  show "delivered (map Inr cs) = concat cs" by (induction cs) auto
  show "complete_stream (map Inr cs)" "\<not> complete_stream (map Inr cs @ Inl f # rest)"
    by (simp_all add: complete_stream_def list_all_iff)
qed

lemma complete_stream_map: "complete_stream items \<longleftrightarrow> (\<exists>cs. items = map Inr cs)"
proof
  show "complete_stream items \<Longrightarrow> \<exists>cs. items = map Inr cs"
  proof (induction items)
    case (Cons i items)
    then obtain cs c where "items = map Inr cs" "i = Inr c" by (auto simp: complete_stream_def is_ok_iff)
    then have "i # items = map Inr (c # cs)" by simp
    then show ?case by (rule exI)
  qed simp
qed auto

lemma read_source_broken:
  "\<not> complete_stream source \<Longrightarrow> \<exists>outs f. read_source P og streaming d wire st source = (outs, Inl f)"
proof (induction source arbitrary: d wire st)
  case (Cons i source)
  show ?case
  proof (cases i)
    case (Inr chunk)
    with Cons.prems have rest: "\<not> complete_stream source" by (simp add: complete_stream_def)
    show ?thesis
    proof (cases streaming)
      case True
      obtain outs fin where *: "decode_chunk P (og_key og) (og_responses og) (og_messages og) d st chunk False = (outs, fin)"
        by force
      show ?thesis
      proof (cases fin)
        case fin: (Inr x)
        obtain d' st' where x: "x = (d', st')" by force
        from Cons.IH [OF rest, of d' "wire @ chunk" st'] show ?thesis
          using True Inr * fin x by auto
      qed (use True Inr * in simp)
    qed (use Inr Cons.IH [OF rest] in simp)
  qed simp
qed (simp add: complete_stream_def)

lemma transform_records_plain:
  "transform_records P None responses messages st rs = (outs, Inr st') \<Longrightarrow> outs = rs"
proof (induction rs arbitrary: st outs)
  case (Cons r rs)
  then show ?case
    by (auto simp: transform_record_def Let_def outcome_simps split: sum.splits prod.splits)
qed simp

lemma transform_id_nonempty:
  "transform P record' key rid responses messages = Inr (out, id') \<Longrightarrow> rid \<noteq> Some [] \<Longrightarrow> id' \<noteq> Some []"
  by (auto simp: transform_def Let_def outcome_simps split: if_splits option.splits)

lemma transform_records_id:
  "transform_records P key responses messages st rs = (outs, Inr st') \<Longrightarrow> st_id st \<noteq> Some [] \<Longrightarrow> st_id st' \<noteq> Some []"
proof (induction rs arbitrary: st outs)
  case (Cons r rs)
  then obtain out st1 outs1 where first: "transform_record P key responses messages st r = Inr (out, st1)"
      and rest: "transform_records P key responses messages st1 rs = (outs1, Inr st')"
    by (auto split: sum.splits prod.splits)
  have "st_id st1 \<noteq> Some []"
    using first Cons.prems(2)
    by (auto simp: transform_record_def Let_def outcome_simps dest!: transform_id_nonempty)
  with Cons.IH [OF rest] show ?case by simp
qed simp

section \<open>What is registered\<close>

text \<open>The receipt id and the items of a complete body.\<close>

definition body_result ::
  "('c, 'z) e2ee_prims_scheme \<Rightarrow> outgoing \<Rightarrow> bool \<Rightarrow> bytes \<Rightarrow> bytes list \<times> (string \<times> bytes list) inf" where
  "body_result P og streaming wire =
     (if streaming then
        (let (outs, fin) = transform_records P (og_key og) (og_responses og) (og_messages og) stream_start (ref_records wire) in
         (outs, rbind fin (\<lambda>st. rbind (streamed_id og st) (\<lambda>i. Inr (i, [])))))
      else ([], rbind (buffered_reply P og wire) (\<lambda>(i, body). Inr (i, [body]))))"

lemma capture_body_complete:
  "capture_body P options generation now og streaming (map Inr cs) s =
     (case body_result P og streaming (concat cs) of
        (outs, Inl f) \<Rightarrow> (map Inr outs @ [Inl f], s)
      | (outs, Inr (i, rest)) \<Rightarrow>
          (case register_response options now generation i (captured_of og (concat cs)) s of
             (Inl f, s') \<Rightarrow> (map Inr outs @ [Inl f], s')
           | (Inr _, s') \<Rightarrow> (map Inr (outs @ rest), s')))"
proof -
  obtain outs fin where t: "transform_records P (og_key og) (og_responses og) (og_messages og) stream_start
      (ref_records (concat cs)) = (outs, fin)"
    by force
  note simps = capture_body_def body_result_def read_source_complete [OF sse.init_ok] sse_future_init t
  show ?thesis
  proof (cases streaming)
    case True
    then show ?thesis by (cases fin) (simp_all add: simps)
  next
    case False
    then show ?thesis by (auto simp: simps split: sum.split)
  qed
qed

lemma capture_body_broken:
  "\<not> complete_stream source \<Longrightarrow>
     \<exists>items. capture_body P options generation now og streaming source s = (items, s) \<and> \<not> complete_stream items"
  using read_source_broken [of source P og streaming sse_decoder_default "[]" stream_start]
  by (auto simp: capture_body_def)

lemma body_result_ok:
  assumes "body_result P og streaming wire = (outs, Inr (i, rest))"
  shows "i \<noteq> []" and "og_key og = None \<Longrightarrow> concat (outs @ rest) = wire"
proof -
  show "i \<noteq> []"
    using assms transform_records_id [of P "og_key og" "og_responses og" "og_messages og" stream_start "ref_records wire"]
    by (auto simp: body_result_def streamed_id_def buffered_reply_def stream_start_def outcome_simps bind_eq_Some_conv
        split: if_splits prod.splits option.splits)
  show "concat (outs @ rest) = wire" if "og_key og = None"
    using assms that transform_records_plain [of P "og_responses og" "og_messages og" stream_start "ref_records wire"]
    by (auto simp: body_result_def buffered_reply_def outcome_simps concat_ref_records split: if_splits prod.splits)
qed

section \<open>Which bodies complete\<close>

text \<open>
  The text a record of a stream carries as data, if any: the events that are kept as they are (comments, \<open>[DONE]\<close>,
  errors) carry none. A receipt id is a nonempty \<open>id\<close> of the document itself, of its \<open>response\<close> or, for Messages, of
  the \<open>message\<close> of a \<open>message_start\<close>.
\<close>

definition record_payload :: "bytes \<Rightarrow> string option" where
  "record_payload record' = Option.bind (from_utf8 record') (\<lambda>text.
     let joined = join_with [lf] (data_values (lines text)) in
     if joined = [] \<or> joined = ''[DONE]'' \<or> event_name (lines text) = Some ''error'' then None else Some joined)"

definition document_receipt :: "bool \<Rightarrow> bool \<Rightarrow> json \<Rightarrow> string option" where
  "document_receipt responses messages document =
     (case Option.bind
         (if responses then jget document ''response''
          else if \<not> messages then Some document
          else if jget document ''type'' = Some (JStr ''message_start'') then jget document ''message'' else None)
         (\<lambda>j. jget j ''id'') of
        Some (JStr i) \<Rightarrow> if i = [] then None else Some i
      | _ \<Rightarrow> None)"

definition record_receipt :: "'z prims_scheme \<Rightarrow> bool \<Rightarrow> bool \<Rightarrow> bytes \<Rightarrow> string option" where
  "record_receipt P responses messages record' =
     Option.bind (Option.bind (record_payload record') (\<lambda>d. json_parse P (as_bytes d))) (document_receipt responses messages)"

text \<open>A record that passes: with a key, its data must be a JSON object whose covered fields, if any, open.\<close>

definition record_passes :: "('c, 'z) e2ee_prims_scheme \<Rightarrow> response_key option \<Rightarrow> bytes \<Rightarrow> bool" where
  "record_passes P key record' \<longleftrightarrow> from_utf8 record' \<noteq> None
     \<and> (case (key, record_payload record') of
          (Some k, Some d) \<Rightarrow> (\<exists>document. json_parse P (as_bytes d) = Some document \<and> is_object document
            \<and> (jget document ''choices'' \<noteq> None \<longrightarrow> is_ok (decrypt_response P k True document)))
        | _ \<Rightarrow> True)"

fun without_mark :: "bytes list \<Rightarrow> bytes list" where
  "without_mark [] = []"
| "without_mark (r # rs) = or_else r (strip_prefix byte_order_mark r) # rs"

text \<open>A whole body with the receipt id \<open>i\<close>: all records of a stream agree on it.\<close>

definition carries_receipt :: "('c, 'z) e2ee_prims_scheme \<Rightarrow> outgoing \<Rightarrow> bool \<Rightarrow> bytes \<Rightarrow> string \<Rightarrow> bool" where
  "carries_receipt P og streaming wire i \<longleftrightarrow>
     (if streaming then
        (let records = without_mark (ref_records wire) in
         list_all (record_passes P (og_key og)) records
         \<and> set (List.map_filter (record_receipt P (og_responses og) (og_messages og)) records) = {i}
         \<and> (og_messages og \<longrightarrow>
              (\<exists>st. observe_all P message_stream_default records = Inr st \<and> ms_started st \<and> ms_stopped st)))
      else (\<exists>document. json_parse P wire = Some document \<and> document_receipt False False document = Some i
        \<and> (\<forall>k. og_key og = Some k \<longrightarrow> is_ok (decrypt_response P k False document))))"

lemma receipt_document:
  "Option.bind (jget (receipt_of responses messages body) ''id'') as_str =
     (case Option.bind
         (if responses then jget body ''response''
          else if \<not> messages then Some body
          else if jget body ''type'' = Some (JStr ''message_start'') then jget body ''message'' else None)
         (\<lambda>j. jget j ''id'') of Some (JStr i) \<Rightarrow> Some i | _ \<Rightarrow> None)"
  by (auto simp: receipt_of_def jindex_def split: option.splits json.splits)

lemma document_receipt_eq:
  "document_receipt responses messages body =
     Option.bind (Option.bind (jget (receipt_of responses messages body) ''id'') as_str) (\<lambda>i. if i = [] then None else Some i)"
  unfolding receipt_document by (simp add: document_receipt_def split: option.splits json.splits)

lemma transform_succeeds:
  "(\<exists>out. transform P record' key rid responses messages = Inr (out, rid')) \<longleftrightarrow>
     record_passes P key record'
     \<and> (case record_receipt P responses messages record' of
          None \<Rightarrow> rid' = rid
        | Some i \<Rightarrow> (rid = None \<or> rid = Some i) \<and> rid' = Some i)"
proof (cases "from_utf8 record'")
  case None
  then show ?thesis by (simp add: transform_def record_passes_def)
next
  case (Some t)
  let ?data = "data_values (lines t)"
  show ?thesis
  proof (cases "record_payload record'")
    case None
    then have "?data = [] \<or> join_with [lf] ?data = [] \<or> join_with [lf] ?data = ''[DONE]''
        \<or> event_name (lines t) = Some ''error''"
      using Some by (auto simp: record_payload_def Let_def split: if_splits)
    then have "transform P record' key rid responses messages = Inr (record', rid)"
      by (simp add: transform_def Some Let_def)
    then show ?thesis using Some None by (auto simp: record_passes_def record_receipt_def split: option.split)
  next
    case data: (Some d)
    then have joined: "join_with [lf] ?data = d" "d \<noteq> []" "d \<noteq> ''[DONE]''" "event_name (lines t) \<noteq> Some ''error''"
      using Some by (auto simp: record_payload_def Let_def split: if_splits)
    then have "?data \<noteq> []" by auto
    show ?thesis
    proof (cases "json_parse P (as_bytes d)")
      case None
      then show ?thesis
        using Some data joined \<open>?data \<noteq> []\<close>
        by (cases key) (auto simp: transform_def record_passes_def record_receipt_def Let_def)
    next
      case document: (Some document)
      let ?id = "Option.bind (jget (receipt_of responses messages document) ''id'') as_str"
      have receipt: "record_receipt P responses messages record' = Option.bind ?id (\<lambda>i. if i = [] then None else Some i)"
        using data document by (simp add: record_receipt_def document_receipt_eq)
      have tried: "(case ?id of None \<Rightarrow> Inr rid
            | Some v \<Rightarrow> if v \<noteq> [] then rbind (ensure (rid = None \<or> rid = Some v) (Api invalid_response)) (\<lambda>_. Inr (Some v)) else Inr rid)
          = Inr i \<longleftrightarrow> (case record_receipt P responses messages record' of None \<Rightarrow> i = rid
            | Some v \<Rightarrow> (rid = None \<or> rid = Some v) \<and> i = Some v)" for i
        unfolding receipt by (cases ?id) (auto simp: outcome_simps)
      show ?thesis
        using Some data joined \<open>?data \<noteq> []\<close> document
        by (cases key; cases "jget document ''choices''") (auto simp: transform_def record_passes_def rbind_eq_Inr tried outcome_simps is_ok_iff Let_def)
    qed
  qed
qed

text \<open>One record of the stream, and all of them; the output is beside the point here.\<close>

lemma transform_record_succeeds:
  "(\<exists>out. transform_record P key responses messages st record' = Inr (out, st')) \<longleftrightarrow>
     (let parsed = (if st_first st then or_else record' (strip_prefix byte_order_mark record') else record') in
      record_passes P key parsed \<and> \<not> st_first st'
      \<and> (if messages then observe P (st_messages st) parsed = Inr (st_messages st') else st_messages st' = st_messages st)
      \<and> (case record_receipt P responses messages parsed of
           None \<Rightarrow> st_id st' = st_id st
         | Some i \<Rightarrow> (st_id st = None \<or> st_id st = Some i) \<and> st_id st' = Some i))"
proof -
  let ?parsed = "if st_first st then or_else record' (strip_prefix byte_order_mark record') else record'"
  have "(\<exists>out. transform_record P key responses messages st record' = Inr (out, st')) \<longleftrightarrow>
      \<not> st_first st'
      \<and> (if messages then observe P (st_messages st) ?parsed = Inr (st_messages st') else st_messages st' = st_messages st)
      \<and> (\<exists>out. transform P ?parsed key (st_id st) responses messages = Inr (out, st_id st'))"
    by (cases st'; cases key) (auto simp: transform_record_def Let_def outcome_simps)
  then show ?thesis unfolding transform_succeeds Let_def by blast
qed

lemma transform_records_step:
  "(\<exists>outs. transform_records P key responses messages st (r # rs) = (outs, Inr st')) \<longleftrightarrow>
     (\<exists>st1. (\<exists>out. transform_record P key responses messages st r = Inr (out, st1))
        \<and> (\<exists>outs. transform_records P key responses messages st1 rs = (outs, Inr st')))"
  by (auto split: sum.splits prod.splits)

lemma stream_state_ex: "(\<exists>st. Q st) \<longleftrightarrow> (\<exists>f m i. Q \<lparr>st_first = f, st_messages = m, st_id = i\<rparr>)"
  by (metis stream_state.cases)

lemma later_records_succeed:
  assumes "\<not> st_first st"
  shows "(\<exists>outs. transform_records P key responses messages st rs = (outs, Inr st')) \<longleftrightarrow>
     (let ids = List.map_filter (record_receipt P responses messages) rs in
      list_all (record_passes P key) rs \<and> \<not> st_first st'
      \<and> (if messages then observe_all P (st_messages st) rs = Inr (st_messages st') else st_messages st' = st_messages st)
      \<and> (\<forall>i \<in> set ids. (st_id st = None \<or> st_id st = Some i) \<and> st_id st' = Some i)
      \<and> (ids = [] \<longrightarrow> st_id st' = st_id st))"
  using assms
proof (induction rs arbitrary: st)
  case Nil
  then show ?case by (cases st; cases st') (auto simp: List.map_filter_def)
next
  case (Cons r rs)
  define later where "later = List.map_filter (record_receipt P responses messages) rs"
  note IH = Cons.IH [unfolded Let_def, folded later_def]
  have ids: "List.map_filter (record_receipt P responses messages) (r # rs) =
      (case record_receipt P responses messages r of None \<Rightarrow> later | Some i \<Rightarrow> i # later)"
    by (auto simp: later_def List.map_filter_def split: option.split)
  have "(\<exists>outs. transform_records P key responses messages st (r # rs) = (outs, Inr st')) \<longleftrightarrow>
      (\<exists>m i. record_passes P key r
        \<and> (if messages then observe P (st_messages st) r = Inr m else m = st_messages st)
        \<and> (case record_receipt P responses messages r of
             None \<Rightarrow> i = st_id st | Some v \<Rightarrow> (st_id st = None \<or> st_id st = Some v) \<and> i = Some v)
        \<and> (\<exists>outs. transform_records P key responses messages \<lparr>st_first = False, st_messages = m, st_id = i\<rparr> rs = (outs, Inr st')))"
    unfolding transform_records_step transform_record_succeeds Let_def stream_state_ex
    by (cases "record_receipt P responses messages r"; cases messages; simp add: Cons.prems ex_bool_eq conj_assoc)
  also have "\<dots> \<longleftrightarrow> (\<exists>m i. record_passes P key r
        \<and> (if messages then observe P (st_messages st) r = Inr m else m = st_messages st)
        \<and> (case record_receipt P responses messages r of
             None \<Rightarrow> i = st_id st | Some v \<Rightarrow> (st_id st = None \<or> st_id st = Some v) \<and> i = Some v)
        \<and> list_all (record_passes P key) rs \<and> \<not> st_first st'
        \<and> (if messages then observe_all P m rs = Inr (st_messages st') else st_messages st' = m)
        \<and> (\<forall>v \<in> set later. (i = None \<or> i = Some v) \<and> st_id st' = Some v)
        \<and> (later = [] \<longrightarrow> st_id st' = i))"
  proof -
    have "(\<exists>outs. transform_records P key responses messages \<lparr>st_first = False, st_messages = m, st_id = i\<rparr> rs = (outs, Inr st')) \<longleftrightarrow>
        list_all (record_passes P key) rs \<and> \<not> st_first st'
        \<and> (if messages then observe_all P m rs = Inr (st_messages st') else st_messages st' = m)
        \<and> (\<forall>v \<in> set later. (i = None \<or> i = Some v) \<and> st_id st' = Some v)
        \<and> (later = [] \<longrightarrow> st_id st' = i)" for m i
      using IH [of "\<lparr>st_first = False, st_messages = m, st_id = i\<rparr>"]
      by (simp only: stream_state.select_convs not_False_eq_True simp_thms)
    then show ?thesis by presburger
  qed
  finally show ?case
    unfolding ids Let_def
  proof (cases "record_receipt P responses messages r", goal_cases none some)
    case none
    then show ?case by (cases messages) (simp_all add: rbind_eq_Inr, blast+)
  next
    case (some v)
    have "(st_id st = None \<or> st_id st = Some v) \<and> (\<forall>w \<in> set later. (Some v = None \<or> Some v = Some w) \<and> st_id st' = Some w)
        \<and> (later = [] \<longrightarrow> st_id st' = Some v) \<longleftrightarrow>
      (\<forall>w \<in> set (v # later). (st_id st = None \<or> st_id st = Some w) \<and> st_id st' = Some w)"
      by (cases later) auto
    then show ?case using some by (cases messages) (simp_all add: rbind_eq_Inr, blast+)
  qed
qed

lemma first_record_unmarked:
  "(\<exists>out. transform_record P key responses messages stream_start r = Inr (out, st')) \<longleftrightarrow>
     (\<exists>out. transform_record P key responses messages (stream_start\<lparr>st_first := False\<rparr>)
        (or_else r (strip_prefix byte_order_mark r)) = Inr (out, st'))"
  unfolding transform_record_succeeds by (simp add: stream_start_def Let_def split: option.split)

lemma records_succeed:
  assumes "rs \<noteq> []"
  shows "(\<exists>outs. transform_records P key responses messages stream_start rs = (outs, Inr st')) \<longleftrightarrow>
     (\<exists>outs. transform_records P key responses messages (stream_start\<lparr>st_first := False\<rparr>) (without_mark rs) = (outs, Inr st'))"
proof -
  obtain r rest where "rs = r # rest" using assms by (cases rs) auto
  then show ?thesis by (simp only: transform_records_step first_record_unmarked without_mark.simps)
qed

lemma plain_receipt: "document_receipt False False document = Some i \<longleftrightarrow> jget document ''id'' = Some (JStr i) \<and> i \<noteq> []"
  by (auto simp: document_receipt_def split: option.splits json.splits if_splits)

lemma body_succeeds:
  "(\<exists>outs rest. body_result P og streaming wire = (outs, Inr (i, rest))) \<longleftrightarrow> carries_receipt P og streaming wire i"
proof (cases streaming)
  case False
  then show ?thesis
    by (cases "og_key og")
      (auto simp: body_result_def buffered_reply_def carries_receipt_def plain_receipt as_value_Some outcome_simps is_ok_iff
        bind_eq_Some_conv)
next
  case True
  let ?records = "without_mark (ref_records wire)" and ?start = "stream_start\<lparr>st_first := False\<rparr>"
  let ?ids = "List.map_filter (record_receipt P (og_responses og) (og_messages og)) ?records"
  have "(\<exists>outs rest. body_result P og streaming wire = (outs, Inr (i, rest))) \<longleftrightarrow>
      (\<exists>st. st_id st = Some i \<and> (og_messages og \<longrightarrow> ms_started (st_messages st) \<and> ms_stopped (st_messages st))
        \<and> (\<exists>outs. transform_records P (og_key og) (og_responses og) (og_messages og) stream_start (ref_records wire) = (outs, Inr st)))"
    using True
    by (cases "transform_records P (og_key og) (og_responses og) (og_messages og) stream_start (ref_records wire)")
      (auto simp: body_result_def streamed_id_def stream_finish_def outcome_simps)
  also have "\<dots> \<longleftrightarrow>
      (\<exists>st. st_id st = Some i \<and> (og_messages og \<longrightarrow> ms_started (st_messages st) \<and> ms_stopped (st_messages st))
        \<and> (\<exists>outs. transform_records P (og_key og) (og_responses og) (og_messages og) ?start ?records = (outs, Inr st)))"
  proof (cases "ref_records wire = []")
    case True
    then show ?thesis by (simp add: stream_start_def) 
  next
    case False
    show ?thesis by (simp only: records_succeed [OF False])
  qed
  also have "\<dots> \<longleftrightarrow> carries_receipt P og streaming wire i"
  proof -
    have start: "\<not> st_first ?start" "st_id ?start = None" "st_messages ?start = message_stream_default"
      by (simp_all add: stream_start_def)
    have ids: "set ?ids = {i} \<longleftrightarrow> ?ids \<noteq> [] \<and> (\<forall>v \<in> set ?ids. v = i)"
      by (cases ?ids) auto
    show ?thesis
      unfolding later_records_succeed [OF start(1)] Let_def start(2,3) carries_receipt_def if_P [OF True] ids
      by (cases "og_messages og") (auto intro: exI [of _ "\<lparr>st_first = False, st_messages = m, st_id = Some i\<rparr>" for m])
  qed
  finally show ?thesis .
qed

section \<open>Registration\<close>

text \<open>
  What a registration does: nothing once the cache was cleared, only purging when nothing is kept, a duplicate error
  while an unexpired record has the id, and otherwise one more record.
\<close>

definition duplicate_id :: "client_options \<Rightarrow> nat \<Rightarrow> string \<Rightarrow> response_state \<Rightarrow> bool" where
  "duplicate_id options now i s \<longleftrightarrow>
     (\<exists>a. rp_responses s i = Some a \<and> elapsed now (rr_finished (rp_records s ! a)) < io_response_cache_ttl options)"

definition registered :: "client_options \<Rightarrow> 64 word \<Rightarrow> nat \<Rightarrow> string \<Rightarrow> captured_response \<Rightarrow> response_state \<Rightarrow> response_state" where
  "registered options generation now i captured s =
     (if generation \<noteq> rp_generation s then s
      else if io_response_cache_ttl options = 0 then purge_responses 0 now s
      else put_response now i captured (purge_responses (io_response_cache_ttl options) now s))"

lemma purged_lookup:
  "rp_responses (purge_responses ttl now s) i = None \<longleftrightarrow>
     \<not> (\<exists>a. rp_responses s i = Some a \<and> elapsed now (rr_finished (rp_records s ! a)) < ttl)"
  by (auto simp: purge_responses_def retain_def split: option.splits if_splits)

lemma register_outcome:
  assumes "register_response options now generation i c s = (result, s')"
  shows "is_ok result \<longleftrightarrow> generation \<noteq> rp_generation s \<or> \<not> duplicate_id options now i s"
    and "is_ok result \<Longrightarrow> s' = registered options generation now i c s"
    and "\<not> is_ok result \<Longrightarrow> rp_records s' = rp_records s \<and> rp_responses s' \<subseteq>\<^sub>m rp_responses s"
proof -
  have "\<not> duplicate_id options now i s \<longleftrightarrow> rp_responses (purge_responses (io_response_cache_ttl options) now s) i = None"
    by (simp add: purged_lookup duplicate_id_def)
  moreover have "rp_responses (purge_responses 0 now s) i = None" by (simp add: purged_lookup)
  ultimately show "is_ok result \<longleftrightarrow> generation \<noteq> rp_generation s \<or> \<not> duplicate_id options now i s"
    and "is_ok result \<Longrightarrow> s' = registered options generation now i c s"
    using assms by (auto simp: register_response_def registered_def Let_def split: if_splits)
  show "\<not> is_ok result \<Longrightarrow> rp_records s' = rp_records s \<and> rp_responses s' \<subseteq>\<^sub>m rp_responses s"
    using assms by (auto simp: register_response_def Let_def purge_responses_def retain_le split: if_splits)
qed

lemma receipt_unique: "carries_receipt P og streaming wire i \<Longrightarrow> carries_receipt P og streaming wire j \<Longrightarrow> i = j"
  by (auto simp: carries_receipt_def Let_def split: if_splits)

section \<open>Properties\<close>

text \<open>C6: What is registered is what was exchanged. The stream of a successful response completes without an error
  exactly when its source is complete, its bytes carry one receipt id (in all the records of a stream that name one, which
  must all be text, open under the key, if there is one, and for Messages form an accepted event sequence; or in the JSON
  document) and no unexpired record has that id, unless the cache was cleared since the request was sent. Then, if the cache
  was not cleared and keeps anything, it holds under that nonempty id precisely the request bytes that were sent and the
  response bytes that arrived, however the network cut them; if it was cleared it is left alone, and if nothing is kept it is
  only purged. Without field encryption the bytes that arrived are also the bytes the consumer got. A stream that ends with
  an error, truncated, without an id, undecryptable or a duplicate, registers nothing.\<close>

theorem completed_body_is_registered:
  assumes "capture_body P options generation now og streaming source s = (items, s')"
  shows "(complete_stream items \<longleftrightarrow> complete_stream source
          \<and> (\<exists>i. carries_receipt P og streaming (delivered source) i
                \<and> (generation \<noteq> rp_generation s \<or> \<not> duplicate_id options now i s)))
     \<and> (if complete_stream items
        then (\<exists>i. i \<noteq> [] \<and> carries_receipt P og streaming (delivered source) i
               \<and> s' = (if generation \<noteq> rp_generation s then s
                       else if io_response_cache_ttl options = 0 then purge_responses 0 now s
                       else put_response now i
                         \<lparr>ca_request = og_body og, ca_response = delivered source, ca_session = og_session og,
                          ca_gateway_only = og_responses og \<or> og_messages og\<rparr>
                         (purge_responses (io_response_cache_ttl options) now s)))
             \<and> (og_key og = None \<longrightarrow> delivered items = delivered source)
        else rp_records s' = rp_records s \<and> rp_responses s' \<subseteq>\<^sub>m rp_responses s)"
proof (cases "complete_stream source")
  case True
  then obtain cs where cs: "source = map Inr cs" unfolding complete_stream_map by blast
  have wire: "delivered source = concat cs" by (simp add: cs)
  show ?thesis
  proof (cases "\<exists>i. carries_receipt P og streaming (concat cs) i")
    case False
    obtain outs f where "body_result P og streaming (concat cs) = (outs, Inl f)"
      using False unfolding body_succeeds [symmetric] by (metis old.prod.exhaust sumE)
    with assms(1) cs have "items = map Inr outs @ [Inl f]" "s' = s" by (auto simp: capture_body_complete)
    then show ?thesis using False wire by simp
  next
    case True
    then obtain i where i: "carries_receipt P og streaming (concat cs) i" by blast
    then obtain outs rest where body: "body_result P og streaming (concat cs) = (outs, Inr (i, rest))"
      unfolding body_succeeds [symmetric] by blast
    obtain r s1 where reg: "register_response options now generation i (captured_of og (concat cs)) s = (r, s1)" by force
    note result = register_outcome [OF reg] body_result_ok [OF body]
    have same: "j = i" if "carries_receipt P og streaming (concat cs) j" for j
      using receipt_unique [OF that i] .
    show ?thesis
    proof (cases r)
      case (Inl f)
      with assms(1) body reg cs have "items = map Inr outs @ [Inl f]" "s' = s1" by (auto simp: capture_body_complete)
      with result(1,3) Inl show ?thesis by (auto simp: wire dest: same)
    next
      case Inr
      with assms(1) body reg cs have items: "items = map Inr (outs @ rest)" "s' = s1" by (auto simp: capture_body_complete)
      then have "complete_stream items" "delivered items = concat (outs @ rest)" by (simp_all only: delivered_simps)
      with result Inr items(2) i True \<open>complete_stream source\<close> show ?thesis
        by (auto simp: wire captured_of_def og_gateway_only_def registered_def dest: same)
    qed
  qed
next
  case False
  from capture_body_broken [OF False, of P options generation now og streaming s] assms(1) False show ?thesis by auto
qed

definition demo_replying :: "unit e2ee_prims" where
  "demo_replying = demo_e2ee\<lparr>json_parse := \<lambda>_. Some (JObj [(''id'', JStr ''i'')])\<rparr>"

definition demo_outgoing :: outgoing where
  "demo_outgoing = \<lparr>og_request = demo_chat, og_key = None, og_body = [1], og_session = demo_receipt_session,
     og_responses = False, og_messages = False\<rparr>"

lemma completed_body_is_registered_witness:
  "\<exists>items s'. capture_body demo_replying default_client_options 0 4 demo_outgoing False [Inr [2], Inr [3]] no_responses = (items, s')
     \<and> complete_stream items \<and> delivered items = [2, 3] \<and> (\<exists>i. rp_responses s' i = Some 0)"
proof -
  obtain items s' where run:
      "capture_body demo_replying default_client_options 0 4 demo_outgoing False [Inr [2], Inr [3]] no_responses = (items, s')"
    by force
  have "complete_stream (fst (capture_body demo_replying default_client_options 0 4 demo_outgoing False [Inr [2], Inr [3]] no_responses))"
    unfolding complete_stream_def by code_simp
  then have complete: "complete_stream items" by (simp add: run)
  have "rp_generation no_responses = 0" "io_response_cache_ttl default_client_options \<noteq> 0" "og_key demo_outgoing = None"
    by (simp_all add: no_responses_def default_client_options_def demo_outgoing_def)
  with completed_body_is_registered [OF run] complete run show ?thesis
    by (auto simp: put_response_def purge_responses_def no_responses_def)
qed

text \<open>The specification of a body: what happens to it as one string of bytes.\<close>

definition whole_body_exchange ::
  "('c, 'z) e2ee_prims_scheme \<Rightarrow> client_options \<Rightarrow> 64 word \<Rightarrow> nat \<Rightarrow> outgoing \<Rightarrow> bool \<Rightarrow> bytes
     \<Rightarrow> response_state \<Rightarrow> bytes inf list \<times> response_state" where
  "whole_body_exchange P options generation now og streaming wire s =
     (case body_result P og streaming wire of
        (outs, Inl f) \<Rightarrow> (map Inr outs @ [Inl f], s)
      | (outs, Inr (i, rest)) \<Rightarrow>
          (case register_response options now generation i (captured_of og wire) s of
             (Inl f, s') \<Rightarrow> (map Inr outs @ [Inl f], s')
           | (Inr _, s') \<Rightarrow> (map Inr (outs @ rest), s')))"

text \<open>C28: The stream refines its specification on whole bodies. Reading a body chunk by chunk yields the same items,
  ends the same way and leaves the same cache as handling its bytes at once, split into records by the reference
  splitter, however the network cut them; and a body whose source fails part-way ends with an error and leaves the
  cache as it was.\<close>

theorem streaming_refines_whole_body:
  "capture_body P options generation now og streaming (map Inr cs) s
     = whole_body_exchange P options generation now og streaming (concat cs) s
   \<and> (\<exists>items. capture_body P options generation now og streaming (map Inr cs @ Inl f # rest) s = (items, s)
        \<and> \<not> complete_stream items)"
  using capture_body_broken [of "map Inr cs @ Inl f # rest"]
  by (simp add: capture_body_complete whole_body_exchange_def)

section \<open>What is sent\<close>

lemma header_get_all_simps [simp]:
  "header_get_all n (header_remove m h) = (if n = m then [] else header_get_all n h)"
  "header_get_all n (header_insert m v h) = (if n = m then [v] else header_get_all n h)"
proof -
  show remove: "header_get_all n (header_remove m h) = (if n = m then [] else header_get_all n h)"
    by (induction h) (auto simp: header_get_all_def header_remove_def)
  have "header_get_all n (h @ h') = header_get_all n h @ header_get_all n h'" for h h'
    by (simp add: header_get_all_def)
  then show "header_get_all n (header_insert m v h) = (if n = m then [v] else header_get_all n h)"
    by (simp add: header_insert_def remove) (simp add: header_get_all_def)
qed

lemma own_header_simps [simp]:
  "header_get_all n (own_header own m h) =
     (if n = m then (case header_get m own of None \<Rightarrow> [] | Some v \<Rightarrow> [v]) else header_get_all n h)"
  "header_contains n (own_header own m h) \<longleftrightarrow> (if n = m then header_get m own \<noteq> None else header_contains n h)"
  by (auto simp: own_header_def Let_def split: option.split)

lemma or_insert_header_simps [simp]:
  "n \<noteq> m \<Longrightarrow> header_get_all n (or_insert_header m v h) = header_get_all n h"
  by (simp add: or_insert_header_def)

lemma decode_request_headers [simp]: "decode_request P (request\<lparr>cr_headers := h\<rparr>) = decode_request P request"
  by (simp add: decode_request_def split: option.split)

text \<open>The credentials of a request, as the client's own headers set them.\<close>

definition own_values :: "headers \<Rightarrow> string \<Rightarrow> string list" where
  "own_values own name = (case header_get name own of None \<Rightarrow> [] | Some v \<Rightarrow> [v])"

definition guarded_headers :: "headers \<Rightarrow> bool \<Rightarrow> headers \<Rightarrow> bool" where
  "guarded_headers own messages h \<longleftrightarrow>
     header_get_all ''authorization'' h = own_values own ''authorization''
     \<and> header_get_all ''api-key'' h = own_values own ''api-key''
     \<and> (if messages then header_get_all ''x-api-key'' h = own_values own ''x-api-key'' else True)
     \<and> header_get_all ''accept-encoding'' h = [''identity'']
     \<and> list_all (\<lambda>n. \<not> header_contains n h) [''host'', ''transfer-encoding'', ''trailer'']"

lemma send_headers_guarded: "guarded_headers own messages (send_headers own messages h)"
  by (simp add: guarded_headers_def send_headers_def own_values_def Let_def)

lemma guarded_other:
  assumes "guarded_headers own messages h"
    and "n \<notin> {''authorization'', ''api-key'', ''x-api-key'', ''accept-encoding'', ''host'', ''transfer-encoding'', ''trailer''}"
  shows "guarded_headers own messages (header_insert n v h)" and "guarded_headers own messages (header_remove n h)"
  using assms by (auto simp: guarded_headers_def)

lemma plain_headers_guarded:
  assumes "guarded_headers own messages h" and "plain_headers model h = Inr h'"
  shows "guarded_headers own messages h'
     \<and> header_get_all no_aliasing_header h' = [''true'']
     \<and> header_get_all ''x-model-pub-key'' h' = (case model of None \<Rightarrow> [] | Some m \<Rightarrow> [ek_public_key m])
     \<and> list_all (\<lambda>n. n = ''x-model-pub-key'' \<or> \<not> header_contains n h') e2ee_headers"
  using assms
  by (auto simp: plain_headers_def Let_def outcome_simps remove_e2ee_headers_def e2ee_headers_def no_aliasing_header_def
      header_from_str_def guarded_other split: option.splits if_splits)

lemma prepare_keeps_guard:
  assumes "guarded_headers own messages (cr_headers request)" and "prepare_e2ee_chat_request P seed rnd request model = Inr p"
  shows "guarded_headers own messages (cr_headers (pe_request p)) \<and> cr_url (pe_request p) = cr_url request
     \<and> cr_method (pe_request p) = cr_method request
     \<and> (\<exists>body sealed aad. decode_request P request = Inr body \<and> request_sealed P rnd model aad body sealed
          \<and> cr_body (pe_request p) = Some (as_bytes (json_print P sealed)))"
proof -
  obtain key public where gen: "response_key_generate P (ek_algo model) seed = (key, public)" by fastforce
  from assms(2) obtain body aad sealed i headers where
      steps: "decode_request P request = Inr body" "encrypt_request P rnd model aad body 0 = Inr (sealed, i)"
    and headers: "insert_headers [(''content-type'', ''application/json''),
       (''x-signing-algo'', signing_algo_name (ek_algo model)), (''x-client-pub-key'', public),
       (''x-model-pub-key'', ek_public_key model), (''x-no-aliasing'', ''true''),
       (''x-encrypt-all-fields'', ''true'')]
       (remove_e2ee_headers (fold header_remove stale_body_headers (cr_headers request))) = Inr headers"
    and p: "p = \<lparr>pe_request = request\<lparr>cr_headers := header_insert ''x-encryption-version'' ''3'' headers,
            cr_body := Some (as_bytes (json_print P sealed))\<rparr>, pe_key = key\<rparr>"
    by (auto simp: prepare_e2ee_chat_request_def gen Let_def outcome_simps)
  have "guarded_headers own messages (remove_e2ee_headers (fold header_remove stale_body_headers (cr_headers request)))"
    using assms(1) by (simp add: guarded_headers_def remove_e2ee_headers_def e2ee_headers_def stale_body_headers_def)
  then have "guarded_headers own messages (cr_headers (pe_request p))"
    using insert_headers_ok [OF headers] by (simp add: p guarded_other)
  with steps encrypt_request_sealed_aux [OF steps(2)] show ?thesis by (auto simp: p)
qed

text \<open>The steps of a request that is prepared: the endpoint, its model's session, and the two ways to its body.\<close>

lemma prepare_send_steps:
  fixes request :: client_request and options :: client_options
  defines "url \<equiv> (cr_url request)\<lparr>u_query := None\<rparr>"
    and "h \<equiv> \<lambda>messages. send_headers (io_headers options) messages (cr_headers request)"
  assumes "prepare_send P direct options session_for seed rnd request = Inr og"
  obtains expected ru mu body model session request' key bd where
      "creation_url P options ''chat/completions'' = Inr expected" "creation_url P options ''responses'' = Inr ru"
      "creation_url P options ''messages'' = Inr mu"
    and "\<not> (url \<noteq> expected \<and> \<not> (url = ru \<or> url = mu))"
    and "\<not> ((url = ru \<or> url = mu) \<and> (direct \<or> io_e2ee options))"
    and "decode_request P request = Inr body" "as_str (jindex body ''model'') = Some model"
    and "session_for model = Inr session"
    and "(if io_e2ee options then
             rbind (ok_or (Verification (protocol ''policy.model_attestation_required'' ''E2EE requires model evidence''))
                      (model_key session)) (\<lambda>model.
             rbind (prepare_e2ee_chat_request P seed rnd (request\<lparr>cr_headers := h (url = mu)\<rparr>) model) (\<lambda>prepared.
             Inr (pe_request prepared, Some (pe_key prepared))))
           else
             rbind (plain_headers (if url = mu then None else model_key session)
                 (cr_headers (request\<lparr>cr_headers := h (url = mu)\<rparr>))) (\<lambda>h'.
             Inr (request\<lparr>cr_headers := h (url = mu), cr_headers := h'\<rparr>, None))) = Inr (request', key)"
    and "cr_body request' = Some bd"
    and "\<lparr>og_request = request', og_key = key, og_body = bd, og_session = session,
         og_responses = (url = ru), og_messages = (url = mu)\<rparr> = og"
  using assms(3)
  unfolding prepare_send_def Let_def rbind_eq_Inr lift_eq_Inr ensure_eq_Inr ok_or_eq_Inr split_paired_Ex prod.case sum.inject
    url_def h_def
  by (elim exE conjE) (rule that [unfolded url_def h_def], assumption+)

text \<open>What the second way leaves of the request, sealed or not.\<close>

definition body_prepared ::
  "('c, 'z) e2ee_prims_scheme \<Rightarrow> client_options \<Rightarrow> (nat \<Rightarrow> bytes \<times> bytes) \<Rightarrow> bool \<Rightarrow> client_request \<Rightarrow> json \<Rightarrow> session
     \<Rightarrow> client_request \<Rightarrow> response_key option \<Rightarrow> bytes \<Rightarrow> bool" where
  "body_prepared P options rnd messages request body session request' key bd \<longleftrightarrow>
     (if io_e2ee options then \<exists>model aad sealed. model_key session = Some model
        \<and> request_sealed P rnd model aad body sealed \<and> bd = as_bytes (json_print P sealed) \<and> key \<noteq> None
      else cr_body request = Some bd \<and> key = None
        \<and> header_get_all ''x-model-pub-key'' (cr_headers request') =
            (case (if messages then None else model_key session) of None \<Rightarrow> [] | Some m \<Rightarrow> [ek_public_key m])
        \<and> list_all (\<lambda>n. n = ''x-model-pub-key'' \<or> \<not> header_contains n (cr_headers request')) e2ee_headers)"

lemma prepared_body:
  assumes branch: "(if io_e2ee options then
             rbind (ok_or (Verification (protocol ''policy.model_attestation_required'' ''E2EE requires model evidence''))
                      (model_key session)) (\<lambda>model.
             rbind (prepare_e2ee_chat_request P seed rnd
                 (request\<lparr>cr_headers := send_headers (io_headers options) messages (cr_headers request)\<rparr>) model) (\<lambda>prepared.
             Inr (pe_request prepared, Some (pe_key prepared))))
           else
             rbind (plain_headers (if messages then None else model_key session)
                 (cr_headers (request\<lparr>cr_headers := send_headers (io_headers options) messages (cr_headers request)\<rparr>))) (\<lambda>h'.
             Inr (request\<lparr>cr_headers := send_headers (io_headers options) messages (cr_headers request), cr_headers := h'\<rparr>, None)))
           = Inr (request', key)"
    and parsed: "decode_request P request = Inr body" and bd: "cr_body request' = Some bd"
  shows "cr_url request' = cr_url request \<and> guarded_headers (io_headers options) messages (cr_headers request')
    \<and> body_prepared P options rnd messages request body session request' key bd"
proof (cases "io_e2ee options")
  case True
  let ?h = "send_headers (io_headers options) messages (cr_headers request)"
  from branch True obtain key' p where p: "model_key session = Some key'"
      "prepare_e2ee_chat_request P seed rnd (request\<lparr>cr_headers := ?h\<rparr>) key' = Inr p"
      "request' = pe_request p" "key = Some (pe_key p)"
    by (auto simp: outcome_simps)
  from prepare_keeps_guard [OF _ p(2), of "io_headers options" messages] send_headers_guarded bd p parsed True
  show ?thesis by (auto simp: body_prepared_def)
next
  case False
  with branch obtain h where h:
      "plain_headers (if messages then None else model_key session)
         (send_headers (io_headers options) messages (cr_headers request)) = Inr h"
      "request' = request\<lparr>cr_headers := h\<rparr>" "key = None"
    by (auto simp: outcome_simps)
  from plain_headers_guarded [OF send_headers_guarded h(1)] bd h False show ?thesis by (simp add: body_prepared_def)
qed

text \<open>C7: Nothing but the client's own credentials leaves, to a configured endpoint, under the attested session. A
  request that \<open>send\<close> puts out goes to the chat, responses or messages endpoint of the base URL, over the session of the
  model its body names; \<open>authorization\<close> and \<open>api-key\<close> (and \<open>x-api-key\<close> for messages) are exactly the client's, whatever
  the caller's request set; with field encryption its body is the sealed body for the session's attested model key, never
  on the endpoints that cannot decrypt it, and without it the caller's bytes with the attested key as the only
  encryption header.\<close>

theorem outgoing_request_guarded:
  assumes "prepare_send P direct options session_for seed rnd request = Inr og"
  shows "(\<exists>path body model. path \<in> {''chat/completions'', ''responses'', ''messages''}
        \<and> creation_url P options path = Inr ((cr_url (og_request og))\<lparr>u_query := None\<rparr>)
        \<and> decode_request P request = Inr body \<and> jindex body ''model'' = JStr model
        \<and> session_for model = Inr (og_session og)
        \<and> (if io_e2ee options then \<exists>key aad sealed. model_key (og_session og) = Some key
             \<and> request_sealed P rnd key aad body sealed \<and> og_body og = as_bytes (json_print P sealed)
             \<and> og_key og \<noteq> None \<and> \<not> og_gateway_only og
           else cr_body request = Some (og_body og) \<and> og_key og = None
             \<and> header_get_all ''x-model-pub-key'' (cr_headers (og_request og)) =
                 (case (if og_messages og then None else model_key (og_session og)) of
                    None \<Rightarrow> [] | Some m \<Rightarrow> [ek_public_key m])
             \<and> list_all (\<lambda>n. n = ''x-model-pub-key'' \<or> \<not> header_contains n (cr_headers (og_request og))) e2ee_headers))
     \<and> guarded_headers (io_headers options) (og_messages og) (cr_headers (og_request og))
     \<and> cr_body (og_request og) = Some (og_body og)
     \<and> \<not> (og_gateway_only og \<and> direct)"
proof -
  let ?url = "(cr_url request)\<lparr>u_query := None\<rparr>"
  from assms show ?thesis
  proof (cases rule: prepare_send_steps)
    case (1 expected ru mu body model session request' key bd)
    note sent = prepared_body [OF 1(9,6,10)]
    have og: "og_request og = request'" "og_key og = key" "og_body og = bd" "og_session og = session"
        "og_messages og = (?url = mu)" "og_gateway_only og = (?url = ru \<or> ?url = mu)"
      by (simp_all add: 1(11) [symmetric] og_gateway_only_def)
    have model: "jindex body ''model'' = JStr model" using 1(7) by (cases "jindex body ''model''") simp_all
    have "\<exists>path. path \<in> {''chat/completions'', ''responses'', ''messages''} \<and> creation_url P options path = Inr ?url"
      using 1(1-4) by blast
    then obtain path where path: "path \<in> {''chat/completions'', ''responses'', ''messages''}"
        "creation_url P options path = Inr ((cr_url request')\<lparr>u_query := None\<rparr>)"
      using sent by auto
    have sealed: "if io_e2ee options then \<exists>key' aad sealed. model_key session = Some key'
           \<and> request_sealed P rnd key' aad body sealed \<and> bd = as_bytes (json_print P sealed)
           \<and> key \<noteq> None \<and> \<not> (?url = ru \<or> ?url = mu)
         else cr_body request = Some bd \<and> key = None
           \<and> header_get_all ''x-model-pub-key'' (cr_headers request') =
               (case (if ?url = mu then None else model_key session) of None \<Rightarrow> [] | Some m \<Rightarrow> [ek_public_key m])
           \<and> list_all (\<lambda>n. n = ''x-model-pub-key'' \<or> \<not> header_contains n (cr_headers request')) e2ee_headers"
      using sent 1(5) by (auto simp: body_prepared_def split: if_splits)
    have "\<not> ((?url = ru \<or> ?url = mu) \<and> direct)" using 1(5) by blast
    with sent show ?thesis
      unfolding og
      by (intro conjI exI [of _ path] exI [of _ body] exI [of _ model])
        (rule path 1(6,8,10) model sealed | (elim conjE, assumption))+
  qed
qed

definition demo_call :: client_request where
  "demo_call = demo_chat\<lparr>cr_url := demo_url (default_near_ai_cloud_base_url @ ''/chat/completions''),
     cr_headers := [(''authorization'', ''Bearer other''), (''host'', ''h'')]\<rparr>"

lemma demo_call_prepared:
  "is_ok (prepare_send demo_ohttp False default_client_options (\<lambda>_. Inr demo_receipt_session) [] (\<lambda>_. ([], [])) demo_call)"
  by code_simp

lemma outgoing_request_guarded_witness:
  "\<exists>og. prepare_send demo_ohttp False default_client_options (\<lambda>_. Inr demo_receipt_session) [] (\<lambda>_. ([], [])) demo_call = Inr og
     \<and> header_get_all ''authorization'' (cr_headers (og_request og)) = [] \<and> og_key og = None"
proof -
  obtain og where og: "prepare_send demo_ohttp False default_client_options (\<lambda>_. Inr demo_receipt_session) []
      (\<lambda>_. ([], [])) demo_call = Inr og"
    using demo_call_prepared unfolding is_ok_iff by blast
  have own: "own_values (io_headers default_client_options) ''authorization'' = []" "\<not> io_e2ee default_client_options"
    by (simp_all add: own_values_def default_client_options_def header_get_def)
  from outgoing_request_guarded [OF og] have "guarded_headers (io_headers default_client_options) (og_messages og) (cr_headers (og_request og))"
      "og_key og = None"
    using own(2) by auto
  with og own(1) show ?thesis by (auto simp: guarded_headers_def)
qed

end
