(* ===== verification/Systemone.thy ===== *)
theory Systemone
  imports Send
begin

text \<open>
  \<open>systemone.rs\<close> and \<open>systemone_create\<close> of \<open>inference.rs\<close>: the decision response as its wire types accept it, its
  numeric checks, and the request whose exact bytes are registered under the decision id. Floating-point numbers are
  a parameter: a type \<open>'f\<close> with the reading of a JSON number and the comparisons the code uses.
\<close>

record 'f float_ops =
  f64_of :: "json \<Rightarrow> 'f option"
  is_finite :: "'f \<Rightarrow> bool"
  f64_le :: "'f \<Rightarrow> 'f \<Rightarrow> bool"
  f64_zero :: 'f
  f64_one :: 'f

section \<open>Wire types\<close>

text \<open>A \<open>Value\<close> read from a document: a \<open>BTreeMap\<close> keeps the last of repeated keys.\<close>

type_synonym 'v btree = "(string \<times> 'v) list"

definition btree_from :: "(string \<times> 'v) list \<Rightarrow> 'v btree" where
  "btree_from kvs = fold (\<lambda>(k, v). bt_insert k v) kvs []"

primrec json_value :: "json \<Rightarrow> json" where
  "json_value JNull = JNull"
| "json_value (JBool b) = JBool b"
| "json_value (JNum t) = JNum t"
| "json_value (JStr s) = JStr s"
| "json_value (JArr xs) = JArr (map json_value xs)"
| "json_value (JObj kvs) = JObj (btree_from (map (map_prod id json_value) kvs))"

datatype systemone_content = Text string | Object "json btree" | Array "json list"

definition content_of :: "json \<Rightarrow> systemone_content option" where
  "content_of j =
     (case json_value j of
        JStr s \<Rightarrow> Some (Text s)
      | JObj kvs \<Rightarrow> Some (Object kvs)
      | JArr xs \<Rightarrow> Some (Array xs)
      | _ \<Rightarrow> None)"

definition btree_of :: "(json \<Rightarrow> 'v option) \<Rightarrow> json \<Rightarrow> 'v btree option" where
  "btree_of decode j =
     (case j of
        JObj kvs \<Rightarrow> map_option (\<lambda>vs. btree_from (zip (map fst kvs) vs)) (all_some (map (decode \<circ> snd) kvs))
      | _ \<Rightarrow> None)"

text \<open>A struct with a flattened map reads an object only; the map takes the fields that are not its own.\<close>

definition flat_view :: "string list \<Rightarrow> json \<Rightarrow> ((string \<times> json) list \<times> json btree) option" where
  "flat_view names j =
     (case j of
        JObj kvs \<Rightarrow>
          if no_repeats names kvs
          then Some (kvs, btree_from (map (map_prod id json_value) (filter (\<lambda>(k, _). k \<notin> set names) kvs)))
          else None
      | _ \<Rightarrow> None)"

text \<open>\<open>deserialize_json_number_field\<close>: through a \<open>Value\<close>, so repeated keys are gone before the typed read.\<close>

definition number_field :: "(json \<Rightarrow> 'v option) \<Rightarrow> json \<Rightarrow> 'v option" where
  "number_field decode j = decode (json_value j)"

record 'f box_coordinates =
  bx_top :: 'f
  bx_bottom :: 'f
  bx_left :: 'f
  bx_right :: 'f
  bx_extra :: "json btree"

definition box_coordinates_of :: "'f float_ops \<Rightarrow> json \<Rightarrow> 'f box_coordinates option" where
  "box_coordinates_of F j =
     Option.bind (flat_view [''top'', ''bottom'', ''left'', ''right''] j) (\<lambda>(kvs, extra).
     Option.bind (need kvs ''top'' (f64_of F)) (\<lambda>top.
     Option.bind (need kvs ''bottom'' (f64_of F)) (\<lambda>bottom.
     Option.bind (need kvs ''left'' (f64_of F)) (\<lambda>left.
     Option.bind (need kvs ''right'' (f64_of F)) (\<lambda>right.
     Some \<lparr>bx_top = top, bx_bottom = bottom, bx_left = left, bx_right = right, bx_extra = extra\<rparr>)))))"

datatype 'f systemone_answer =
    Noul 'f "json btree"
  | Choice string 'f "'f btree" "json btree"
  | Score 'f 'f "'f btree" "systemone_content btree" "json btree"
  | Box "'f box_coordinates" "'f option" "json btree"

definition answer_of :: "'f float_ops \<Rightarrow> json \<Rightarrow> 'f systemone_answer option" where
  "answer_of F j =
     Option.bind (as_object j) (\<lambda>kvs.
     if occurrences ''type'' kvs \<noteq> 1 then None
     else
       (let rest = JObj (filter (\<lambda>(k, _). k \<noteq> ''type'') kvs); f64 = number_field (f64_of F) in
        Option.bind (need kvs ''type'' as_str) (\<lambda>tag.
        if tag = ''noul'' then
          Option.bind (flat_view [''noul''] rest) (\<lambda>(kvs, extra).
          Option.bind (need kvs ''noul'' f64) (\<lambda>noul.
          Some (Noul noul extra)))
        else if tag = ''choice'' then
          Option.bind (flat_view [''choice'', ''confidence'', ''probabilities''] rest) (\<lambda>(kvs, extra).
          Option.bind (need kvs ''choice'' as_str) (\<lambda>choice.
          Option.bind (need kvs ''confidence'' f64) (\<lambda>confidence.
          Option.bind (need kvs ''probabilities'' (number_field (btree_of (f64_of F)))) (\<lambda>probabilities.
          Some (Choice choice confidence probabilities extra)))))
        else if tag = ''score'' then
          Option.bind (flat_view [''score'', ''confidence'', ''probabilities'', ''legend''] rest) (\<lambda>(kvs, extra).
          Option.bind (need kvs ''score'' f64) (\<lambda>score.
          Option.bind (need kvs ''confidence'' f64) (\<lambda>confidence.
          Option.bind (need kvs ''probabilities'' (number_field (btree_of (f64_of F)))) (\<lambda>probabilities.
          Option.bind (need kvs ''legend'' (btree_of content_of)) (\<lambda>legend.
          Some (Score score confidence probabilities legend extra))))))
        else if tag = ''box'' then
          Option.bind (flat_view [''box'', ''confidence''] rest) (\<lambda>(kvs, extra).
          Option.bind (need kvs ''box'' (number_field (box_coordinates_of F))) (\<lambda>bounds.
          Option.bind (want kvs ''confidence'' f64) (\<lambda>confidence.
          Some (Box bounds confidence extra))))
        else None)))"

record systemone_usage =
  us_input_tokens :: nat
  us_output_tokens :: nat
  us_extra :: "json btree"

definition usage_of :: "json \<Rightarrow> systemone_usage option" where
  "usage_of j =
     Option.bind (flat_view [''input_tokens'', ''output_tokens''] j) (\<lambda>(kvs, extra).
     Option.bind (need kvs ''input_tokens'' as_u64) (\<lambda>i.
     Option.bind (need kvs ''output_tokens'' as_u64) (\<lambda>o'.
     Some \<lparr>us_input_tokens = i, us_output_tokens = o', us_extra = extra\<rparr>)))"

record 'f systemone_response =
  sr_id :: "string option"
  sr_model :: string
  sr_answers :: "'f systemone_answer btree"
  sr_usage :: systemone_usage
  sr_extra :: "json btree"

definition systemone_response_of :: "'f float_ops \<Rightarrow> json \<Rightarrow> 'f systemone_response option" where
  "systemone_response_of F j =
     Option.bind (flat_view [''id'', ''model'', ''answers'', ''usage''] j) (\<lambda>(kvs, extra).
     Option.bind (want kvs ''id'' as_str) (\<lambda>i.
     Option.bind (need kvs ''model'' as_str) (\<lambda>model.
     Option.bind (need kvs ''answers'' (btree_of (answer_of F))) (\<lambda>answers.
     Option.bind (need kvs ''usage'' usage_of) (\<lambda>usage.
     Some \<lparr>sr_id = i, sr_model = model, sr_answers = answers, sr_usage = usage, sr_extra = extra\<rparr>)))))"

section \<open>The response\<close>

definition systemone_invalid :: api_error where
  "systemone_invalid = InvalidResponse ''systemone'' ''a valid System One response'' ''missing or invalid''"

definition probability :: "'f float_ops \<Rightarrow> 'f \<Rightarrow> bool" where
  "probability F p \<longleftrightarrow> is_finite F p \<and> (f64_le F (f64_zero F) p \<and> f64_le F p (f64_one F))"

definition valid_answer :: "'f float_ops \<Rightarrow> 'f systemone_answer \<Rightarrow> bool" where
  "valid_answer F answer = (case answer of
       Noul noul _ \<Rightarrow> probability F noul
     | Choice _ confidence probabilities _ \<Rightarrow>
         probability F confidence \<and> list_all (\<lambda>(_, p). probability F p) probabilities
     | Score score confidence probabilities _ _ \<Rightarrow>
         is_finite F score \<and> probability F confidence \<and> list_all (\<lambda>(_, p). probability F p) probabilities
     | Box bounds confidence _ \<Rightarrow>
         list_all (is_finite F) [bx_top bounds, bx_bottom bounds, bx_left bounds, bx_right bounds]
         \<and> (case confidence of None \<Rightarrow> True | Some c \<Rightarrow> is_finite F c))"

definition decode_response :: "'z net_prims_scheme \<Rightarrow> 'f float_ops \<Rightarrow> bytes \<Rightarrow> 'f systemone_response api" where
  "decode_response P F bytes =
     rbind (ok_or systemone_invalid (Option.bind (json_document P bytes) (systemone_response_of F))) (\<lambda>response.
     rbind (ensure (sr_model response \<noteq> []) systemone_invalid) (\<lambda>_.
     rbind (for_each (\<lambda>(_, answer). ensure (valid_answer F answer) systemone_invalid) (sr_answers response)) (\<lambda>_.
     Inr response)))"

section \<open>The request\<close>

definition systemone_body_headers :: "string list" where
  "systemone_body_headers = [''host'', ''content-length'', ''content-encoding'', ''transfer-encoding'', ''trailer'',
     ''content-md5'', ''digest'', ''content-digest'', ''repr-digest'']"

definition systemone_headers :: "headers \<Rightarrow> headers \<Rightarrow> headers" where
  "systemone_headers own h =
     (let owned = header_extend own h;
          owned = own_header own ''api-key'' (own_header own ''authorization'' owned);
          owned = fold header_remove systemone_body_headers (remove_e2ee_headers owned)
      in header_insert ''accept-encoding'' ''identity'' (header_insert ''accept'' ''application/json''
           (header_insert ''content-type'' ''application/json'' (header_insert no_aliasing_header ''true'' owned))))"

definition systemone_model :: "'z prims_scheme \<Rightarrow> bytes \<Rightarrow> string inf" where
  "systemone_model P body =
     rbind (ok_or (Api (input ''systemone'' ''expected JSON object'')) (json_parse P body)) (\<lambda>v.
     rbind (ensure (\<not> (\<not> is_object v \<or> jget v ''stream'' \<noteq> None)) (Api (input ''systemone'' ''streaming is unsupported''))) (\<lambda>_.
     ok_or (Api (input ''model'' ''missing model''))
       (Option.bind (Option.bind (jget v ''model'') as_str) (\<lambda>s. if s \<noteq> [] then Some s else None))))"

text \<open>Up to the request; \<open>body\<close> is what \<open>serde_json::to_vec\<close> makes of the caller's request, if anything.\<close>

definition prepare_systemone ::
  "'z net_prims_scheme \<Rightarrow> bool \<Rightarrow> client_options \<Rightarrow> (string \<Rightarrow> session inf) \<Rightarrow> bytes option \<Rightarrow> headers
     \<Rightarrow> (session \<times> http_request) inf" where
  "prepare_systemone P direct options session_for body h =
     rbind (ensure (\<not> (direct \<or> io_e2ee options \<or> io_ohttp options))
              (Api (input ''systemone'' ''requires a plaintext Gateway client''))) (\<lambda>_.
     rbind (ok_or (Api (input ''systemone'' ''expected JSON request'')) body) (\<lambda>body.
     rbind (systemone_model P body) (\<lambda>model.
     let owned = systemone_headers (io_headers options) h in
     rbind (session_for model) (\<lambda>session.
     rbind (case model_key session of
              None \<Rightarrow> Inr owned
            | Some model \<Rightarrow>
                rbind (ok_or (Api (input ''model_key'' ''invalid header'')) (header_from_str (ek_public_key model))) (\<lambda>v.
                Inr (header_insert ''x-model-pub-key'' v owned))) (\<lambda>owned.
     rbind (creation_url P options ''systemone'') (\<lambda>url.
     Inr (session, \<lparr>rq_method = ''POST'', rq_url = url_text P url, rq_headers = owned, rq_body = body\<rparr>)))))))"

definition systemone_transport :: "api_transport_reason \<Rightarrow> inference_error" where
  "systemone_transport reason = Api (Transport Res_SystemOne reason)"

text \<open>The reply: the decision id, the exact bytes and the decoded response.\<close>

definition systemone_reply ::
  "'z net_prims_scheme \<Rightarrow> 'f float_ops \<Rightarrow> http_client \<Rightarrow> http_request \<Rightarrow> (string \<times> bytes \<times> 'f systemone_response) inf" where
  "systemone_reply P F client request =
     rbind (ok_or (systemone_transport Request) (http_send P client request)) (\<lambda>response.
     rbind (ensure (is_success (rs_status response)) (Api (HttpStatus Res_SystemOne (rs_status response)))) (\<lambda>_.
     rbind (ok_or (Api (InvalidResponse ''systemone.x-generation-id'' ''nonempty receipt ID'' ''missing or invalid''))
              (Option.bind (Option.bind (header_get ''x-generation-id'' (rs_headers response)) header_to_str)
                (\<lambda>s. if s \<noteq> [] then Some s else None))) (\<lambda>decision_id.
     rbind (ok_or (systemone_transport ResponseBody) (whole_body response)) (\<lambda>bytes.
     rbind (lift_api (decode_response P F bytes)) (\<lambda>data.
     Inr (decision_id, bytes, data))))))"

record 'f systemone_result =
  so_data :: "'f systemone_response"
  so_decision_id :: string

definition systemone_create ::
  "'z net_prims_scheme \<Rightarrow> 'f float_ops \<Rightarrow> bool \<Rightarrow> client_options \<Rightarrow> (string \<Rightarrow> session inf) \<Rightarrow> 64 word \<Rightarrow> nat
     \<Rightarrow> bytes option \<Rightarrow> headers \<Rightarrow> response_state \<Rightarrow> 'f systemone_result inf \<times> response_state" where
  "systemone_create P F direct options session_for generation now body h s =
     (case rbind (prepare_systemone P direct options session_for body h) (\<lambda>(session, request).
           rbind (systemone_reply P F (se_client session) request) (\<lambda>reply. Inr (session, request, reply))) of
        Inl f \<Rightarrow> (Inl f, s)
      | Inr (session, request, decision_id, bytes, decoded) \<Rightarrow>
          (case register_response options now generation decision_id
               \<lparr>ca_request = rq_body request, ca_response = bytes, ca_session = session, ca_gateway_only = False\<rparr> s of
             (Inl f, s') \<Rightarrow> (Inl f, s')
           | (Inr _, s') \<Rightarrow> (Inr \<lparr>so_data = decoded, so_decision_id = decision_id\<rparr>, s')))"

section \<open>Properties\<close>

lemma decode_response_ok:
  "decode_response P F bytes = Inr r \<longleftrightarrow>
     Option.bind (json_document P bytes) (systemone_response_of F) = Some r \<and> sr_model r \<noteq> []
     \<and> list_all (\<lambda>(_, answer). valid_answer F answer) (sr_answers r)"
  by (auto simp: decode_response_def outcome_simps list_all_iff)

lemma prepare_systemone_ok:
  assumes "prepare_systemone P direct options session_for body h = Inr (session, request)"
  shows "\<not> direct \<and> \<not> io_e2ee options \<and> \<not> io_ohttp options \<and> body = Some (rq_body request)
     \<and> (\<exists>model. systemone_model P (rq_body request) = Inr model \<and> session_for model = Inr session)
     \<and> header_get_all ''authorization'' (rq_headers request) = own_values (io_headers options) ''authorization''
     \<and> header_get_all ''api-key'' (rq_headers request) = own_values (io_headers options) ''api-key''"
  using assms
  by (auto simp: prepare_systemone_def Let_def outcome_simps systemone_headers_def own_values_def no_aliasing_header_def
      systemone_body_headers_def remove_e2ee_headers_def e2ee_headers_def split: option.splits)

lemma for_each_ensure_fail: "for_each (\<lambda>(k, v). ensure (p v) e) xs = Inl f \<Longrightarrow> f = Err e"
  by (induction xs) (auto simp: outcome_simps)

lemma decode_response_fail: "decode_response P F bytes = Inl f \<Longrightarrow> f = Err systemone_invalid"
  by (auto simp: decode_response_def outcome_simps dest: for_each_ensure_fail)

lemma systemone_reply_not_retryable:
  assumes "systemone_reply P F client request = fail e"
  shows "\<not> inf_retryable e"
proof -
  have "\<not> inf_retryable e" if "lift_api (decode_response P F bytes) = fail e" for bytes
  proof (cases "decode_response P F bytes")
    case (Inl f)
    with decode_response_fail [OF Inl] that show ?thesis by (auto simp: systemone_invalid_def)
  qed (use that in simp)
  with assms show ?thesis
    by (auto simp: systemone_reply_def systemone_transport_def outcome_simps)
qed

text \<open>
  A decision that was made: the bytes \<open>sent\<close> to the Gateway's endpoint over the model's session, and the \<open>reply\<close> that came,
  whole and successful, with the nonempty receipt id \<open>i\<close> and a body that reads as \<open>result\<close>.
\<close>

definition decision_made ::
  "'z net_prims_scheme \<Rightarrow> 'f float_ops \<Rightarrow> client_options \<Rightarrow> (string \<Rightarrow> session inf) \<Rightarrow> headers
     \<Rightarrow> bytes \<Rightarrow> session \<Rightarrow> http_response \<Rightarrow> 'f systemone_result \<Rightarrow> bool" where
  "decision_made P F options session_for h sent session reply result \<longleftrightarrow>
     (\<exists>model url headers.
        systemone_model P sent = Inr model \<and> session_for model = Inr session \<and> creation_url P options ''systemone'' = Inr url
        \<and> (case model_key session of
             None \<Rightarrow> headers = systemone_headers (io_headers options) h
           | Some k \<Rightarrow> \<exists>v. header_from_str (ek_public_key k) = Some v
               \<and> headers = header_insert ''x-model-pub-key'' v (systemone_headers (io_headers options) h))
        \<and> http_send P (se_client session)
            \<lparr>rq_method = ''POST'', rq_url = url_text P url, rq_headers = headers, rq_body = sent\<rparr> = Some reply)
     \<and> is_success (rs_status reply) \<and> \<not> rs_broken reply
     \<and> Option.bind (header_get ''x-generation-id'' (rs_headers reply)) header_to_str = Some (so_decision_id result)
     \<and> so_decision_id result \<noteq> []
     \<and> decode_response P F (concat (rs_chunks reply)) = Inr (so_data result)"

lemma whole_body_Some: "whole_body r = Some b \<longleftrightarrow> \<not> rs_broken r \<and> b = concat (rs_chunks r)"
  by (auto simp: whole_body_def)

lemma nonempty_Some: "Option.bind x (\<lambda>s. if s \<noteq> [] then Some s else None) = Some i \<longleftrightarrow> x = Some i \<and> i \<noteq> []"
  by (cases x) auto

lemma decision_made_iff:
  "(\<exists>request i bytes data. prepare_systemone P direct options session_for body h = Inr (session, request)
      \<and> systemone_reply P F (se_client session) request = Inr (i, bytes, data)
      \<and> rq_body request = sent \<and> bytes = received \<and> result = \<lparr>so_data = data, so_decision_id = i\<rparr>) \<longleftrightarrow>
   \<not> direct \<and> \<not> io_e2ee options \<and> \<not> io_ohttp options \<and> body = Some sent
   \<and> (\<exists>reply. decision_made P F options session_for h sent session reply result \<and> received = concat (rs_chunks reply))"
  by (cases "model_key session"; cases result)
    (auto simp: prepare_systemone_def systemone_reply_def decision_made_def whole_body_Some nonempty_Some outcome_simps Let_def
      simp del: bind_assoc)

lemma decision_unreplied:
  assumes "\<And>session request. prepare_systemone P direct options session_for body h = Inr (session, request) \<Longrightarrow>
      \<exists>f. systemone_reply P F (se_client session) request = Inl f"
  shows "\<not> (\<not> direct \<and> \<not> io_e2ee options \<and> \<not> io_ohttp options
      \<and> (\<exists>sent session reply r. body = Some sent \<and> decision_made P F options session_for h sent session reply r \<and> Q r))"
proof clarify
  fix sent session reply r
  assume "\<not> direct" "\<not> io_e2ee options" "\<not> io_ohttp options" "body = Some sent"
    "decision_made P F options session_for h sent session reply r"
  then show False
    using decision_made_iff [of P direct options session_for body h session F sent "concat (rs_chunks reply)" r] assms by force
qed

lemma decision_replied:
  assumes "prepare_systemone P direct options session_for body h = Inr (session, request)"
    and "systemone_reply P F (se_client session) request = Inr (i, bytes, decoded)"
  shows "\<not> direct \<and> \<not> io_e2ee options \<and> \<not> io_ohttp options \<and> body = Some (rq_body request)
      \<and> list_all (\<lambda>(_, answer). valid_answer F answer) (sr_answers decoded)
      \<and> (\<exists>reply. decision_made P F options session_for h (rq_body request) session reply \<lparr>so_data = decoded, so_decision_id = i\<rparr>
          \<and> bytes = concat (rs_chunks reply))"
    and "decision_made P F options session_for h sent session' reply' r \<Longrightarrow> body = Some sent \<Longrightarrow> so_decision_id r = i"
proof -
  note made = decision_made_iff [of P direct options session_for body h _ F, unfolded assms(1)]
  obtain reply where plain: "\<not> direct \<and> \<not> io_e2ee options \<and> \<not> io_ohttp options" "body = Some (rq_body request)"
      and reply: "decision_made P F options session_for h (rq_body request) session reply \<lparr>so_data = decoded, so_decision_id = i\<rparr>"
        "bytes = concat (rs_chunks reply)"
    using made [of session "rq_body request" bytes "\<lparr>so_data = decoded, so_decision_id = i\<rparr>"] assms(2) by auto
  moreover have "list_all (\<lambda>(_, answer). valid_answer F answer) (sr_answers decoded)"
    using reply(1) by (simp add: decision_made_def decode_response_ok)
  ultimately show "\<not> direct \<and> \<not> io_e2ee options \<and> \<not> io_ohttp options \<and> body = Some (rq_body request)
      \<and> list_all (\<lambda>(_, answer). valid_answer F answer) (sr_answers decoded)
      \<and> (\<exists>reply. decision_made P F options session_for h (rq_body request) session reply \<lparr>so_data = decoded, so_decision_id = i\<rparr>
          \<and> bytes = concat (rs_chunks reply))" by blast
  assume "decision_made P F options session_for h sent session' reply' r" "body = Some sent"
  then show "so_decision_id r = i"
    using made [of session' sent "concat (rs_chunks reply')" r] assms(2) plain by auto
qed

text \<open>C30: A decision is sent once, in plain text to a Gateway, and registered as it was exchanged. The call succeeds
  exactly when the client is a Gateway client without field encryption or OHTTP, the one HTTP request, whose body is the
  caller's bytes, was answered successfully and to the end with a nonempty decision id and a response that decodes, and no
  unexpired record has the id (or the cache was cleared since the call began); it returns that id and that response, whose
  probabilities lie in the unit interval and whose scores and coordinates are finite. Then the cache holds exactly the bytes
  sent and the bytes of that HTTP reply under the id, unless it was cleared meanwhile, which leaves it alone, or keeps nothing,
  which purges it. A failed call registers nothing, and once the session exists, no failure is marked retryable, since the
  decision may have been made.\<close>

theorem systemone_call_exact:
  assumes "systemone_create P F direct options session_for generation now body h s = (result, s')"
  shows "case result of
      Inr r \<Rightarrow> \<not> direct \<and> \<not> io_e2ee options \<and> \<not> io_ohttp options
        \<and> list_all (\<lambda>(_, answer). valid_answer F answer) (sr_answers (so_data r))
        \<and> (generation \<noteq> rp_generation s \<or> \<not> duplicate_id options now (so_decision_id r) s)
        \<and> (\<exists>sent session reply. body = Some sent \<and> decision_made P F options session_for h sent session reply r
            \<and> s' = (if generation \<noteq> rp_generation s then s
                    else if io_response_cache_ttl options = 0 then purge_responses 0 now s
                    else put_response now (so_decision_id r)
                      \<lparr>ca_request = sent, ca_response = concat (rs_chunks reply), ca_session = session, ca_gateway_only = False\<rparr>
                      (purge_responses (io_response_cache_ttl options) now s)))
    | Inl f \<Rightarrow> rp_records s' = rp_records s \<and> rp_responses s' \<subseteq>\<^sub>m rp_responses s
        \<and> \<not> (\<not> direct \<and> \<not> io_e2ee options \<and> \<not> io_ohttp options
             \<and> (\<exists>sent session reply r. body = Some sent \<and> decision_made P F options session_for h sent session reply r
                 \<and> (generation \<noteq> rp_generation s \<or> \<not> duplicate_id options now (so_decision_id r) s)))
        \<and> (is_ok (prepare_systemone P direct options session_for body h) \<longrightarrow> (\<forall>e. f = Err e \<longrightarrow> \<not> inf_retryable e))"
proof (cases "prepare_systemone P direct options session_for body h")
  case (Inl f)
  with assms have "result = Inl f" "s' = s" by (auto simp: systemone_create_def)
  moreover note decision_unreplied [of P direct options session_for body h F
    "\<lambda>r. generation \<noteq> rp_generation s \<or> \<not> duplicate_id options now (so_decision_id r) s"]
  ultimately show ?thesis using Inl by simp
next
  case prepared: (Inr x)
  obtain session request where x: "x = (session, request)" by force
  note prepared = prepared [unfolded x]
  show ?thesis
  proof (cases "systemone_reply P F (se_client session) request")
    case (Inl f)
    with assms prepared have "result = Inl f" "s' = s" by (auto simp: systemone_create_def)
    moreover have "\<not> inf_retryable e" if "f = Err e" for e
      using systemone_reply_not_retryable Inl that by blast
    moreover note decision_unreplied [of P direct options session_for body h F
      "\<lambda>r. generation \<noteq> rp_generation s \<or> \<not> duplicate_id options now (so_decision_id r) s"]
    ultimately show ?thesis using Inl prepared by simp
  next
    case (Inr y)
    obtain i bytes decoded where y: "y = (i, bytes, decoded)" using prod_cases3 by blast
    note replied = decision_replied [OF prepared Inr [unfolded y]]
    obtain r s1 where reg: "register_response options now generation i
        \<lparr>ca_request = rq_body request, ca_response = bytes, ca_session = session, ca_gateway_only = False\<rparr> s = (r, s1)" by force
    note outcome = register_outcome [OF reg]
    show ?thesis
    proof (cases r)
      case (Inl f)
      with assms prepared Inr y reg have "result = Inl f" "s' = s1" by (auto simp: systemone_create_def)
      moreover from Inl reg have "f = Err (Api DuplicateCompletionId)"
        by (auto simp: register_response_def Let_def split: if_splits)
      ultimately show ?thesis using outcome(1,3) Inl replied(2) by auto
    next
      case r: (Inr u)
      with assms prepared Inr y reg have "result = Inr \<lparr>so_data = decoded, so_decision_id = i\<rparr>" "s' = s1"
        by (auto simp: systemone_create_def)
      with replied(1) outcome(1,2) r show ?thesis by (auto simp: registered_def)
    qed
  qed
qed

definition demo_floats :: "nat float_ops" where
  "demo_floats = \<lparr>f64_of = \<lambda>j. map_option (\<lambda>_. 1) (as_u64 j), is_finite = \<lambda>_. True, f64_le = (\<le>), f64_zero = 0, f64_one = 1\<rparr>"

definition demo_decision :: json where
  "demo_decision = JObj [(''model'', JStr ''m''), (''answers'', JObj [(''a'', JObj [(''type'', JStr ''noul''), (''noul'', JNum ''1'')])]),
     (''usage'', JObj [(''input_tokens'', JNum ''3''), (''output_tokens'', JNum ''1'')])]"

definition demo_deciding :: "unit e2ee_prims" where
  "demo_deciding = demo_e2ee\<lparr>json_parse := \<lambda>_. Some (JObj [(''model'', JStr ''m'')]), json_document := \<lambda>_. Some demo_decision,
     http_send := \<lambda>_ _. Some \<lparr>rs_status = 200, rs_headers = [(''x-generation-id'', ''d'')], rs_content_length = None,
       rs_chunks = [[1], [2]], rs_broken = False, rs_peer_certificate = None\<rparr>\<rparr>"

lemma demo_decided:
  "is_ok (fst (systemone_create demo_deciding demo_floats False default_client_options (\<lambda>_. Inr demo_receipt_session) 0 4 (Some [7]) [] no_responses))"
  by code_simp

lemma systemone_call_exact_witness:
  "\<exists>r s'. systemone_create demo_deciding demo_floats False default_client_options (\<lambda>_. Inr demo_receipt_session) 0 4 (Some [7]) [] no_responses = (Inr r, s')
     \<and> rp_responses s' (so_decision_id r) = Some 0"
proof -
  obtain result s' where run: "systemone_create demo_deciding demo_floats False default_client_options (\<lambda>_. Inr demo_receipt_session)
      0 4 (Some [7]) [] no_responses = (result, s')" by force
  with demo_decided obtain r where r: "result = Inr r" by (auto simp: is_ok_iff)
  have "rp_generation no_responses = 0" "io_response_cache_ttl default_client_options \<noteq> 0"
    by (simp_all add: no_responses_def default_client_options_def)
  with systemone_call_exact [OF run] run r show ?thesis
    by (auto simp: put_response_def purge_responses_def no_responses_def)
qed

end
