(* ===== verification/Client.thy ===== *)
theory Client
  imports Session_Cache Systemone
begin

text \<open>
  \<open>inference.rs\<close>, \<open>InferenceClient\<close> as a whole: the two caches of \<open>Inner::state\<close> and the calls that are in flight on
  one client, \<open>send\<close> (and the JSON calls over it) and \<open>systemone_create\<close>. A call reads the generation, asks for the
  session of its model, exchanges its request over that session and, once its body is complete, registers what it
  exchanged; \<open>verify\<close>, \<open>verify_response\<close> and \<open>clear_response_cache\<close> run between its steps.
\<close>

section \<open>State\<close>

datatype call_work =
    Sending client_request
  | Deciding "bytes option" headers

text \<open>
  A call awaits the caller of \<open>session\<close> at that index; holds a reply that the consumer has not read to its end, or a
  decoded decision that is not registered yet; or is over.
\<close>

datatype 'f client_call =
    Call_Session call_work "64 word" nat
  | Call_Body "64 word" pending_response
  | Call_Decision "64 word" string captured_response "'f systemone_response"
  | Call_Streamed "bytes inf list"
  | Call_Decided "'f systemone_result"
  | Call_Failed "inference_error fault"

record 'f client_state =
  cl_sessions :: session_state
  cl_responses :: response_state
  cl_calls :: "'f client_call list"

definition fresh_client :: "'f client_state" where
  "fresh_client = \<lparr>cl_sessions = no_sessions, cl_responses = no_responses, cl_calls = []\<rparr>"

section \<open>Operations\<close>

text \<open>The checks of \<open>send\<close> before it asks for a session, and the model it asks for.\<close>

definition send_model :: "'z net_prims_scheme \<Rightarrow> bool \<Rightarrow> client_options \<Rightarrow> client_request \<Rightarrow> string inf" where
  "send_model P direct options request =
     (let actual = (cr_url request)\<lparr>u_query := None\<rparr> in
      rbind (creation_url P options ''chat/completions'') (\<lambda>expected.
      rbind (creation_url P options ''responses'') (\<lambda>responses_url.
      rbind (creation_url P options ''messages'') (\<lambda>messages_url.
      let gateway_only = (actual = responses_url \<or> actual = messages_url) in
      rbind (ensure (\<not> (actual \<noteq> expected \<and> \<not> gateway_only))
               (Api (input ''request.url'' ''expected configured inference creation endpoint''))) (\<lambda>_.
      rbind (ensure (\<not> (gateway_only \<and> (direct \<or> io_e2ee options)))
               (Api (input ''request'' ''Responses and Messages require a Gateway client with field-level E2EE disabled''))) (\<lambda>_.
      rbind (lift_api (decode_request P request)) (\<lambda>parsed.
      ok_or (Api (input ''model'' ''missing model'')) (as_str (jindex parsed ''model'')))))))))"

definition decision_model :: "'z net_prims_scheme \<Rightarrow> bool \<Rightarrow> client_options \<Rightarrow> bytes option \<Rightarrow> string inf" where
  "decision_model P direct options body =
     rbind (ensure (\<not> (direct \<or> io_e2ee options \<or> io_ohttp options))
              (Api (input ''systemone'' ''requires a plaintext Gateway client''))) (\<lambda>_.
     rbind (ok_or (Api (input ''systemone'' ''expected JSON request'')) body) (systemone_model P))"

definition work_model :: "'z net_prims_scheme \<Rightarrow> bool \<Rightarrow> client_options \<Rightarrow> call_work \<Rightarrow> string inf" where
  "work_model P direct options work = (case work of
       Sending request \<Rightarrow> send_model P direct options request
     | Deciding body h \<Rightarrow> decision_model P direct options body)"

text \<open>A call up to the session it awaits; the generation is read first, and the caches are not touched when a check fails.\<close>

definition start_call ::
  "'z net_prims_scheme \<Rightarrow> bool \<Rightarrow> client_options \<Rightarrow> call_work \<Rightarrow> nat \<Rightarrow> 'f client_state \<Rightarrow> 'f client_state" where
  "start_call P direct options work now s =
     (case work_model P direct options work of
        Inl f \<Rightarrow> s\<lparr>cl_calls := cl_calls s @ [Call_Failed f]\<rparr>
      | Inr model \<Rightarrow>
          s\<lparr>cl_sessions := request_session options model now (cl_sessions s),
            cl_calls := cl_calls s @
              [Call_Session work (rp_generation (cl_responses s)) (length (sc_callers (cl_sessions s)))]\<rparr>)"

text \<open>The exchange over the session the call was given: \<open>systemone_create\<close> up to its registration, or \<open>send\<close>.\<close>

definition systemone_exchange ::
  "'z net_prims_scheme \<Rightarrow> 'f float_ops \<Rightarrow> bool \<Rightarrow> client_options \<Rightarrow> (string \<Rightarrow> session inf) \<Rightarrow> bytes option \<Rightarrow> headers
     \<Rightarrow> (string \<times> captured_response \<times> 'f systemone_response) inf" where
  "systemone_exchange P F direct options session_for body h =
     rbind (prepare_systemone P direct options session_for body h) (\<lambda>(session, request).
     rbind (systemone_reply P F (se_client session) request) (\<lambda>(decision_id, bytes, decoded).
     Inr (decision_id, \<lparr>ca_request = rq_body request, ca_response = bytes, ca_session = session, ca_gateway_only = False\<rparr>,
          decoded)))"

definition exchange ::
  "('c, 'o, 'z) ohttp_prims_scheme \<Rightarrow> 'f float_ops \<Rightarrow> bool \<Rightarrow> client_options \<Rightarrow> bytes \<Rightarrow> (nat \<Rightarrow> bytes \<times> bytes) \<Rightarrow> bytes
     \<Rightarrow> session inf \<Rightarrow> 64 word \<Rightarrow> call_work \<Rightarrow> 'f client_call" where
  "exchange P F direct options seed rnd ohttp_rnd session generation work = (case work of
       Sending request \<Rightarrow>
         (case send P direct options (\<lambda>_. session) seed rnd ohttp_rnd request of
            Inl f \<Rightarrow> Call_Failed f
          | Inr pending \<Rightarrow> Call_Body generation pending)
     | Deciding body h \<Rightarrow>
         (case systemone_exchange P F direct options (\<lambda>_. session) body h of
            Inl f \<Rightarrow> Call_Failed f
          | Inr (i, captured, decoded) \<Rightarrow> Call_Decision generation i captured decoded))"

text \<open>The end of a call: the consumer reads the body to its end, or the decision is registered.\<close>

definition conclude ::
  "('c, 'z) e2ee_prims_scheme \<Rightarrow> client_options \<Rightarrow> nat \<Rightarrow> 'f client_call \<Rightarrow> response_state \<Rightarrow> 'f client_call \<times> response_state" where
  "conclude P options now call s = (case call of
       Call_Body generation pending \<Rightarrow>
         (let (items, s') = consume P options generation now pending s in (Call_Streamed items, s'))
     | Call_Decision generation i captured decoded \<Rightarrow>
         (case register_response options now generation i captured s of
            (Inl f, s') \<Rightarrow> (Call_Failed f, s')
          | (Inr _, s') \<Rightarrow> (Call_Decided \<lparr>so_data = decoded, so_decision_id = i\<rparr>, s'))
     | _ \<Rightarrow> (call, s))"

section \<open>Runs\<close>

text \<open>
  Each step of a run sees the environment \<open>P\<close> it runs against. \<open>Cl_Verify\<close> is \<open>verify\<close>; \<open>Cl_Create\<close>, \<open>Cl_Return\<close> and
  \<open>Cl_Cancel\<close> are the steps of \<open>session\<close>; \<open>Cl_Begin\<close> to \<open>Cl_Settle\<close> those of \<open>verify_response\<close>. A call exchanges its
  request when its session caller has its result, and the environment reads the model in the request as before.
\<close>

datatype 'p client_event =
    Cl_Verify string nat
  | Cl_Call 'p call_work nat
  | Cl_Create nat 'p string string "nat option"
  | Cl_Return nat nat
  | Cl_Cancel nat
  | Cl_Exchange nat 'p bytes "nat \<Rightarrow> bytes \<times> bytes" bytes
  | Cl_Conclude nat 'p nat
  | Cl_Clear
  | Cl_Begin string nat
  | Cl_Join nat
  | Cl_Resolve nat 'p
  | Cl_Settle nat

definition on_sessions :: "(session_state \<Rightarrow> session_state) \<Rightarrow> 'f client_state \<Rightarrow> 'f client_state" where
  "on_sessions f s = s\<lparr>cl_sessions := f (cl_sessions s)\<rparr>"

definition on_responses :: "(response_state \<Rightarrow> response_state) \<Rightarrow> 'f client_state \<Rightarrow> 'f client_state" where
  "on_responses f s = s\<lparr>cl_responses := f (cl_responses s)\<rparr>"

definition exchange_call ::
  "client_options \<Rightarrow> bool \<Rightarrow> 'f float_ops \<Rightarrow> nat \<Rightarrow> ('c, 'o, 'z) ohttp_prims_scheme \<Rightarrow> bytes \<Rightarrow> (nat \<Rightarrow> bytes \<times> bytes)
     \<Rightarrow> bytes \<Rightarrow> 'f client_state \<Rightarrow> 'f client_state" where
  "exchange_call options direct F j P seed rnd ohttp_rnd s =
     (if j < length (cl_calls s) then
        (case cl_calls s ! j of
           Call_Session work generation k \<Rightarrow>
             (case sc_callers (cl_sessions s) ! k of
                Got model session \<Rightarrow>
                  if work_model P direct options work = Inr model then
                    s\<lparr>cl_calls := (cl_calls s)[j := exchange P F direct options seed rnd ohttp_rnd session generation work]\<rparr>
                  else s
              | _ \<Rightarrow> s)
         | _ \<Rightarrow> s)
      else s)"

definition conclude_call ::
  "client_options \<Rightarrow> nat \<Rightarrow> ('c, 'z) e2ee_prims_scheme \<Rightarrow> nat \<Rightarrow> 'f client_state \<Rightarrow> 'f client_state" where
  "conclude_call options j P now s =
     (if j < length (cl_calls s) then
        (case conclude P options now (cl_calls s ! j) (cl_responses s) of
           (call, responses) \<Rightarrow> s\<lparr>cl_responses := responses, cl_calls := (cl_calls s)[j := call]\<rparr>)
      else s)"

fun client_step ::
  "client_options \<Rightarrow> bool \<Rightarrow> 'f float_ops \<Rightarrow> ('c, 'o, 'z) ohttp_prims_scheme client_event \<Rightarrow> 'f client_state
     \<Rightarrow> 'f client_state" where
  "client_step options direct F (Cl_Verify model now) s = on_sessions (request_session options model now) s"
| "client_step options direct F (Cl_Call P work now) s = start_call P direct options work now s"
| "client_step options direct F (Cl_Create f P nonce nonce' clock) s =
     on_sessions (complete_session options direct f P nonce nonce' clock) s"
| "client_step options direct F (Cl_Return k now) s = on_sessions (finish_session options k now) s"
| "client_step options direct F (Cl_Cancel k) s = on_sessions (drop_caller k) s"
| "client_step options direct F (Cl_Exchange j P seed rnd ohttp_rnd) s = exchange_call options direct F j P seed rnd ohttp_rnd s"
| "client_step options direct F (Cl_Conclude j P now) s = conclude_call options j P now s"
| "client_step options direct F Cl_Clear s = on_responses clear_response_cache s"
| "client_step options direct F (Cl_Begin id' now) s = on_responses (begin_call options id' now) s"
| "client_step options direct F (Cl_Join k) s = on_responses (join_call k) s"
| "client_step options direct F (Cl_Resolve f P) s = on_responses (resolve_future options f P) s"
| "client_step options direct F (Cl_Settle k) s = on_responses (settle_call k) s"

definition run_client ::
  "client_options \<Rightarrow> bool \<Rightarrow> 'f float_ops \<Rightarrow> ('c, 'o, 'z) ohttp_prims_scheme client_event list \<Rightarrow> 'f client_state
     \<Rightarrow> 'f client_state" where
  "run_client options direct F es s = fold (client_step options direct F) es s"

lemma run_client_simps [simp]:
  "run_client options direct F [] s = s"
  "run_client options direct F (e # es) s = run_client options direct F es (client_step options direct F e s)"
  "run_client options direct F (es @ es') s = run_client options direct F es' (run_client options direct F es s)"
  by (simp_all add: run_client_def)

section \<open>The stages of a call\<close>

text \<open>What is asked of the session, and what is done with it, are the two parts of the calls as they are written.\<close>

lemma prepare_send_staged:
  "prepare_send P direct options session_for seed rnd request =
     rbind (send_model P direct options request) (\<lambda>m.
       prepare_send P direct options (\<lambda>_. session_for m) seed rnd request)"
proof (cases "send_model P direct options request")
  case (Inl f)
  then show ?thesis
    by (auto simp: prepare_send_def send_model_def Let_def rbind_eq_Inl rbind_assoc)
next
  case (Inr m)
  then show ?thesis
    by (auto simp: prepare_send_def send_model_def Let_def outcome_simps)
qed

lemma prepare_systemone_staged:
  "prepare_systemone P direct options session_for body h =
     rbind (decision_model P direct options body) (\<lambda>m. prepare_systemone P direct options (\<lambda>_. session_for m) body h)"
  by (cases "decision_model P direct options body")
    (auto simp: prepare_systemone_def decision_model_def Let_def rbind_assoc outcome_simps rbind_eq_Inl)

lemma prepare_session: 
  assumes "prepare_send P direct options (\<lambda>_. session) seed rnd request = Inr og"
  shows "session = Inr (og_session og)"
  using assms
  unfolding prepare_send_def Let_def rbind_eq_Inr lift_eq_Inr ensure_eq_Inr ok_or_eq_Inr split_paired_Ex prod.case sum.inject
  by (elim exE conjE) (metis outgoing.select_convs(4))

lemma send_staged:
  "send P direct options session_for seed rnd ohttp_rnd request =
     rbind (send_model P direct options request) (\<lambda>m.
       send P direct options (\<lambda>_. session_for m) seed rnd ohttp_rnd request)"
  unfolding send_def by (subst prepare_send_staged) (simp add: rbind_assoc)

section \<open>A run of the client is a run of each cache\<close>

text \<open>What a step of the client is for the cache of sessions.\<close>

definition session_part ::
  "client_options \<Rightarrow> bool \<Rightarrow> ('c, 'o, 'z) ohttp_prims_scheme client_event
     \<Rightarrow> ('c, 'o, 'z) ohttp_prims_scheme session_event list" where
  "session_part options direct e = (case e of
       Cl_Verify model now \<Rightarrow> [Se_Request model now]
     | Cl_Call P work now \<Rightarrow>
         (case work_model P direct options work of Inl _ \<Rightarrow> [] | Inr model \<Rightarrow> [Se_Request model now])
     | Cl_Create f P nonce nonce' clock \<Rightarrow> [Se_Create f P nonce nonce' clock]
     | Cl_Return k now \<Rightarrow> [Se_Finish k now]
     | Cl_Cancel k \<Rightarrow> [Se_Drop k]
     | _ \<Rightarrow> [])"

definition session_run ::
  "client_options \<Rightarrow> bool \<Rightarrow> ('c, 'o, 'z) ohttp_prims_scheme client_event list
     \<Rightarrow> ('c, 'o, 'z) ohttp_prims_scheme session_event list" where
  "session_run options direct es = concat (map (session_part options direct) es)"

lemma session_run_simps [simp]:
  "session_run options direct [] = []"
  "session_run options direct (es @ es') = session_run options direct es @ session_run options direct es'"
  "session_run options direct [e] = session_part options direct e"
  by (simp_all add: session_run_def)

lemma client_step_sessions:
  "cl_sessions (client_step options direct F e s) = run_sessions options direct (session_part options direct e) (cl_sessions s)"
  by (cases e) (simp_all add: session_part_def on_sessions_def on_responses_def start_call_def exchange_call_def
      conclude_call_def split: sum.split client_call.split session_caller.split prod.split)

lemma run_client_sessions:
  "cl_sessions (run_client options direct F es s) = run_sessions options direct (session_run options direct es) (cl_sessions s)"
  by (induction es rule: rev_induct) (simp_all add: client_step_sessions)

lemma session_part_create: "Se_Create f P nonce nonce' clock \<in> set (session_part options direct e) \<Longrightarrow>
    e = Cl_Create f P nonce nonce' clock"
  by (cases e) (simp_all add: session_part_def split: sum.splits)

lemma session_run_create: "Se_Create f P nonce nonce' clock \<in> set (session_run options direct es) \<Longrightarrow>
    Cl_Create f P nonce nonce' clock \<in> set es"
  unfolding session_run_def using session_part_create by fastforce

text \<open>What reading a body to its end does to the cache of responses: at most the registration of what was exchanged.\<close>

lemma capture_body_effect:
  assumes "capture_body P options generation now og streaming source s = (items, s')"
  obtains (kept) "s' = s"
    | (registered) i outs rest where "complete_stream source"
        "body_result P og streaming (delivered source) = (outs, Inr (i, rest))"
        "s' = snd (register_response options now generation i (captured_of og (delivered source)) s)"
proof (cases "complete_stream source")
  case True
  then obtain cs where cs: "source = map Inr cs" unfolding complete_stream_map by blast
  show thesis
  proof (cases "body_result P og streaming (concat cs)")
    case (Pair outs result)
    show thesis
    proof (cases result)
      case (Inl f)
      with assms Pair cs have "s' = s" by (simp add: capture_body_complete)
      then show thesis by (rule kept)
    next
      case (Inr x)
      obtain i rest where x: "x = (i, rest)" by force
      obtain r t where reg: "register_response options now generation i (captured_of og (concat cs)) s = (r, t)" by force
      show thesis
      proof (rule registered)
        show "complete_stream source" by (fact True)
        show "body_result P og streaming (delivered source) = (outs, Inr (i, rest))" by (simp add: cs Pair Inr x)
        show "s' = snd (register_response options now generation i (captured_of og (delivered source)) s)"
          using assms Pair Inr x cs reg by (cases r) (auto simp: capture_body_complete)
      qed
    qed
  qed
next
  case False
  with capture_body_broken [OF False] assms kept show thesis by (metis prod.inject)
qed


section \<open>Where a call comes from\<close>

text \<open>A session that this run created for a model.\<close>

definition session_made ::
  "client_options \<Rightarrow> bool \<Rightarrow> ('c, 'o, 'z) ohttp_prims_scheme client_event list \<Rightarrow> string \<Rightarrow> session \<Rightarrow> bool" where
  "session_made options direct es model session \<longleftrightarrow>
     (\<exists>f P nonce nonce' clock. Cl_Create f P nonce nonce' clock \<in> set es
        \<and> new_session P direct model options nonce nonce' clock = Inr session)"

text \<open>A request that was prepared and answered with success over such a session, and the body of the answer.\<close>

definition sent ::
  "client_options \<Rightarrow> bool \<Rightarrow> ('c, 'o, 'z) ohttp_prims_scheme client_event list \<Rightarrow> outgoing \<Rightarrow> bytes inf list \<Rightarrow> bool" where
  "sent options direct es og source \<longleftrightarrow>
     (\<exists>P' now request j P seed rnd ohttp_rnd model reply.
        Cl_Call P' (Sending request) now \<in> set es \<and> Cl_Exchange j P seed rnd ohttp_rnd \<in> set es
        \<and> send_model P direct options request = Inr model \<and> session_made options direct es model (og_session og)
        \<and> prepare_send P direct options (\<lambda>_. Inr (og_session og)) seed rnd request = Inr og
        \<and> transmit P ohttp_rnd og = Inr reply \<and> is_success (ir_status reply) \<and> ir_body reply = source)"

text \<open>A decision that was asked for and answered over such a session.\<close>

definition decided ::
  "client_options \<Rightarrow> bool \<Rightarrow> 'f float_ops \<Rightarrow> ('c, 'o, 'z) ohttp_prims_scheme client_event list \<Rightarrow> string \<Rightarrow> captured_response
     \<Rightarrow> 'f systemone_response \<Rightarrow> bool" where
  "decided options direct F es i captured decoded \<longleftrightarrow>
     (\<exists>P' body h now j P seed rnd ohttp_rnd model.
        Cl_Call P' (Deciding body h) now \<in> set es \<and> Cl_Exchange j P seed rnd ohttp_rnd \<in> set es
        \<and> decision_model P direct options body = Inr model \<and> session_made options direct es model (ca_session captured)
        \<and> systemone_exchange P F direct options (\<lambda>_. Inr (ca_session captured)) body h = Inr (i, captured, decoded))"

text \<open>What may be registered: a complete body under the id it carries, or a decision under its own.\<close>

definition exchanged ::
  "client_options \<Rightarrow> bool \<Rightarrow> 'f float_ops \<Rightarrow> ('c, 'o, 'z) ohttp_prims_scheme client_event list \<Rightarrow> string \<Rightarrow> captured_response \<Rightarrow> bool" where
  "exchanged options direct F es i captured \<longleftrightarrow>
     (\<exists>og source j P now streaming outs rest. sent options direct es og source \<and> complete_stream source
        \<and> Cl_Conclude j P now \<in> set es \<and> body_result P og streaming (delivered source) = (outs, Inr (i, rest))
        \<and> captured = captured_of og (delivered source))
     \<or> (\<exists>decoded. decided options direct F es i captured decoded)"

definition call_ok ::
  "client_options \<Rightarrow> bool \<Rightarrow> 'f float_ops \<Rightarrow> ('c, 'o, 'z) ohttp_prims_scheme client_event list \<Rightarrow> nat \<Rightarrow> 'f client_call \<Rightarrow> bool" where
  "call_ok options direct F es n call \<longleftrightarrow> (case call of
       Call_Session work generation k \<Rightarrow> k < n \<and> (\<exists>P now. Cl_Call P work now \<in> set es)
     | Call_Body generation pending \<Rightarrow>
         (\<forall>og streaming. pr_capture pending = Some (og, streaming) \<longrightarrow> sent options direct es og (pr_source pending))
     | Call_Decision generation i captured decoded \<Rightarrow> decided options direct F es i captured decoded
     | _ \<Rightarrow> True)"

lemma session_made_mono: "session_made options direct es model x \<Longrightarrow> set es \<subseteq> set es' \<Longrightarrow> session_made options direct es' model x"
  unfolding session_made_def by blast

lemma sent_mono:
  assumes "sent options direct es og source" and sub: "set es \<subseteq> set es'"
  shows "sent options direct es' og source"
  using assms(1) unfolding sent_def
  by (elim exE conjE, intro exI conjI)
    (rule subsetD [OF sub], assumption | rule session_made_mono [OF _ sub], assumption | assumption)+

lemma decided_mono:
  assumes "decided options direct F es i c d" and sub: "set es \<subseteq> set es'"
  shows "decided options direct F es' i c d"
  using assms(1) unfolding decided_def
  by (elim exE conjE, intro exI conjI)
    (rule subsetD [OF sub], assumption | rule session_made_mono [OF _ sub], assumption | assumption)+

lemma exchanged_mono:
  assumes "exchanged options direct F es i c" and sub: "set es \<subseteq> set es'"
  shows "exchanged options direct F es' i c"
  using assms(1) unfolding exchanged_def
proof (elim disjE exE conjE)
  fix og source j P now streaming outs rest
  assume "sent options direct es og source" "complete_stream source" "Cl_Conclude j P now \<in> set es"
    "body_result P og streaming (delivered source) = (outs, Inr (i, rest))" "c = captured_of og (delivered source)"
  moreover from this(1,3) have "sent options direct es' og source" "Cl_Conclude j P now \<in> set es'"
    using sub by (auto elim: sent_mono)
  ultimately show "(\<exists>og source j P now streaming outs rest. sent options direct es' og source \<and> complete_stream source
        \<and> Cl_Conclude j P now \<in> set es' \<and> body_result P og streaming (delivered source) = (outs, Inr (i, rest))
        \<and> c = captured_of og (delivered source))
      \<or> (\<exists>decoded. decided options direct F es' i c decoded)"
    by blast
next
  fix decoded
  assume "decided options direct F es i c decoded"
  from decided_mono [OF this sub] show "(\<exists>og source j P now streaming outs rest. sent options direct es' og source \<and> complete_stream source
        \<and> Cl_Conclude j P now \<in> set es' \<and> body_result P og streaming (delivered source) = (outs, Inr (i, rest))
        \<and> c = captured_of og (delivered source))
      \<or> (\<exists>decoded. decided options direct F es' i c decoded)"
    by blast
qed

lemma call_ok_mono:
  assumes "call_ok options direct F es n call" and "set es \<subseteq> set es'" and "n \<le> m"
  shows "call_ok options direct F es' m call"
  using assms sent_mono [OF _ assms(2)] decided_mono [OF _ assms(2)]
  by (cases call) (auto simp: call_ok_def)

text \<open>A session that a caller got in this run was created in it for the model it asked for.\<close>

lemma got_session_made:
  assumes "Got model (Inr x) \<in> set (sc_callers (cl_sessions (run_client options direct F es fresh_client)))"
  shows "session_made options direct es model x"
proof -
  have run: "cl_sessions (run_client options direct F es fresh_client) = run_sessions options direct (session_run options direct es) no_sessions"
    by (simp add: run_client_sessions fresh_client_def)
  from sessions_invD(4) [OF run_sessions_inv, of "Got model (Inr x)"] assms
  obtain f where "created options direct (session_run options direct es) f model (Inr x)"
    unfolding run caller_inv_def by fastforce
  then show ?thesis unfolding created_def session_made_def by (metis session_run_create)
qed

lemma sessions_grow:
  "length (sc_callers s) \<le> length (sc_callers (run_sessions options direct es s))"
proof (induction es arbitrary: s)
  case (Cons e es)
  have "length (sc_callers s) \<le> length (sc_callers (session_step options direct e s))"
    by (cases e) (auto simp: request_session_def complete_session_def finish_session_def drop_caller_def
        purge_sessions_def Let_def split: option.splits session_caller.splits)
  also note Cons.IH
  finally show ?case by simp
qed simp

lemma request_session_callers: "length (sc_callers (request_session options model now s)) = Suc (length (sc_callers s))"
  by (simp add: request_session_def purge_sessions_def Let_def split: option.split)


section \<open>The invariant\<close>

lemma exchange_ok:
  assumes "Cl_Call P' work now \<in> set es" and "Cl_Exchange j P seed rnd ohttp_rnd \<in> set es"
    and model: "work_model P direct options work = Inr model"
    and made: "\<And>x. session = Inr x \<Longrightarrow> session_made options direct es model x"
  shows "call_ok options direct F es n (exchange P F direct options seed rnd ohttp_rnd session generation work)"
proof (cases work)
  case (Sending request)
  show ?thesis
  proof (cases "send P direct options (\<lambda>_. session) seed rnd ohttp_rnd request")
    case (Inr pending)
    have "sent options direct es og (pr_source pending)" if "pr_capture pending = Some (og, streaming)" for og streaming
    proof -
      from Inr that obtain reply where reply: "prepare_send P direct options (\<lambda>_. session) seed rnd request = Inr og"
          "transmit P ohttp_rnd og = Inr reply" "is_success (ir_status reply)" "ir_body reply = pr_source pending"
        by (auto simp: send_def outcome_simps split: if_splits)
      from prepare_session [OF reply(1)] have session: "session = Inr (og_session og)" .
      have "send_model P direct options request = Inr model" "Cl_Call P' (Sending request) now \<in> set es"
        using model assms(1) Sending by (simp_all add: work_model_def)
      then show ?thesis
        using reply [unfolded session] made [OF session] assms(2) unfolding sent_def by blast
    qed
    with Sending Inr show ?thesis by (auto simp: exchange_def call_ok_def)
  qed (simp add: Sending exchange_def call_ok_def)
next
  case (Deciding body h)
  show ?thesis
  proof (cases "systemone_exchange P F direct options (\<lambda>_. session) body h")
    case (Inr r)
    obtain i captured decoded where r: "r = (i, captured, decoded)" using prod_cases3 by blast
    obtain x request where x: "prepare_systemone P direct options (\<lambda>_. session) body h = Inr (x, request)" "ca_session captured = x"
      using Inr r by (auto simp: systemone_exchange_def outcome_simps)
    have session: "session = Inr (ca_session captured)" using prepare_systemone_ok [OF x(1)] x(2) by auto
    have "decision_model P direct options body = Inr model" "Cl_Call P' (Deciding body h) now \<in> set es"
      using model assms(1) Deciding by (simp_all add: work_model_def)
    then have "decided options direct F es i captured decoded"
      using Inr [unfolded session r] made [OF session] assms(2) unfolding decided_def by blast
    with Deciding Inr r show ?thesis by (simp add: exchange_def call_ok_def)
  qed (simp add: Deciding exchange_def call_ok_def)
qed

lemma conclude_ok:
  assumes ok: "call_ok options direct F es n call" and at: "Cl_Conclude j P now \<in> set es"
    and run: "conclude P options now call s = (call', s')"
  shows "call_ok options direct F es n call'"
    and "s' = s \<or> (\<exists>generation i c. s' = snd (register_response options now generation i c s) \<and> exchanged options direct F es i c)"
proof -
  have "call_ok options direct F es n call' \<and>
      (s' = s \<or> (\<exists>generation i c. s' = snd (register_response options now generation i c s) \<and> exchanged options direct F es i c))"
  proof (cases call)
    case (Call_Body generation pending)
    obtain items t where consumed: "consume P options generation now pending s = (items, t)" by force
    with run Call_Body have r: "call' = Call_Streamed items" "s' = t" by (simp_all add: conclude_def)
    show ?thesis
    proof (cases "pr_capture pending")
      case None
      with consumed r show ?thesis by (simp add: consume_def call_ok_def)
    next
      case (Some capture)
      obtain og streaming where capture: "capture = (og, streaming)" by force
      with ok Some Call_Body have sent: "sent options direct es og (pr_source pending)" by (simp add: call_ok_def)
      from consumed Some capture
      have "capture_body P options generation now og streaming (pr_source pending) s = (items, t)" by (simp add: consume_def)
      then show ?thesis
      proof (cases rule: capture_body_effect)
        case kept
        with r show ?thesis by (simp add: call_ok_def)
      next
        case (registered i outs rest)
        with sent at have "exchanged options direct F es i (captured_of og (delivered (pr_source pending)))"
          unfolding exchanged_def by blast
        with registered(3) r show ?thesis by (auto simp: call_ok_def)
      qed
    qed
  next
    case (Call_Decision generation i captured decoded)
    with ok have "exchanged options direct F es i captured" unfolding exchanged_def call_ok_def by auto
    with run Call_Decision show ?thesis
      by (cases "register_response options now generation i captured s")
        (auto simp: conclude_def call_ok_def split: sum.splits intro!: exI [of _ generation] exI [of _ i] exI [of _ captured])
  qed (use ok run in \<open>simp_all add: conclude_def\<close>)
  then show "call_ok options direct F es n call'"
    "s' = s \<or> (\<exists>generation i c. s' = snd (register_response options now generation i c s) \<and> exchanged options direct F es i c)"
    by blast+
qed

text \<open>
  The cache of responses ran on registrations of exchanges and on completions of this run, and every call is where
  such a run leaves it.
\<close>

definition responses_ran ::
  "client_options \<Rightarrow> bool \<Rightarrow> 'f float_ops \<Rightarrow> ('c, 'o, 'z) ohttp_prims_scheme client_event list
     \<Rightarrow> ('c, 'o, 'z) ohttp_prims_scheme response_event list \<Rightarrow> bool" where
  "responses_ran options direct F es rs \<longleftrightarrow>
     (\<forall>now generation i c. Ev_Register now generation i c \<in> set rs \<longrightarrow> exchanged options direct F es i c)
     \<and> (\<forall>f P. Ev_Resolve f P \<in> set rs \<longrightarrow> Cl_Resolve f P \<in> set es)"

definition client_inv ::
  "client_options \<Rightarrow> bool \<Rightarrow> 'f float_ops \<Rightarrow> ('c, 'o, 'z) ohttp_prims_scheme client_event list \<Rightarrow> 'f client_state \<Rightarrow> bool" where
  "client_inv options direct F es s \<longleftrightarrow>
     (\<exists>rs. cl_responses s = run_responses options rs no_responses \<and> responses_ran options direct F es rs)
     \<and> list_all (call_ok options direct F es (length (sc_callers (cl_sessions s)))) (cl_calls s)"

lemma responses_ran_mono:
  assumes "responses_ran options direct F es rs" and "set es \<subseteq> set es'"
  shows "responses_ran options direct F es' rs"
  using assms unfolding responses_ran_def by (auto intro: exchanged_mono [OF _ assms(2)])

lemma client_inv_mono:
  assumes "client_inv options direct F es s" and "set es \<subseteq> set es'"
  shows "client_inv options direct F es' s"
  using assms responses_ran_mono [OF _ assms(2)] call_ok_mono [OF _ assms(2) order_refl]
  unfolding client_inv_def list_all_iff by blast

text \<open>Steps of one cache only.\<close>

lemma on_sessions_inv:
  assumes "client_inv options direct F es s"
    and "length (sc_callers (cl_sessions s)) \<le> length (sc_callers (f (cl_sessions s)))"
  shows "client_inv options direct F es (on_sessions f s)"
  using assms(1) unfolding client_inv_def list_all_iff on_sessions_def
  by (auto intro: call_ok_mono [OF _ order_refl assms(2)])

lemma on_responses_inv:
  assumes "client_inv options direct F es s"
    and "\<And>t. f t = response_step options e t" and "responses_ran options direct F es [e]"
  shows "client_inv options direct F es (on_responses f s)"
proof -
  from assms(1) obtain rs where "cl_responses s = run_responses options rs no_responses" "responses_ran options direct F es rs"
    unfolding client_inv_def by blast
  then have "f (cl_responses s) = run_responses options (rs @ [e]) no_responses" "responses_ran options direct F es (rs @ [e])"
    using assms(2,3) by (auto simp: responses_ran_def)
  then have "\<exists>rs. f (cl_responses s) = run_responses options rs no_responses \<and> responses_ran options direct F es rs" by blast
  with assms(1) show ?thesis
    unfolding client_inv_def on_responses_def by simp
qed


text \<open>Steps of a call.\<close>

lemma set_call_inv:
  assumes "client_inv options direct F es s" and "call_ok options direct F es (length (sc_callers (cl_sessions s))) call"
  shows "client_inv options direct F es (s\<lparr>cl_calls := (cl_calls s)[j := call]\<rparr>)"
proof -
  have "x \<in> set (cl_calls s) \<or> x = call" if "x \<in> set ((cl_calls s)[j := call])" for x
    using that set_update_subset_insert [of "cl_calls s" j call] by blast
  with assms show ?thesis unfolding client_inv_def list_all_iff by auto
qed

lemma start_call_inv:
  assumes "client_inv options direct F es s" and "Cl_Call P work now \<in> set es"
  shows "client_inv options direct F es (start_call P direct options work now s)"
proof (cases "work_model P direct options work")
  case (Inl f)
  with assms show ?thesis by (simp add: start_call_def client_inv_def call_ok_def)
next
  case (Inr model)
  let ?s = "on_sessions (request_session options model now) s"
  let ?c = "Call_Session work (rp_generation (cl_responses s)) (length (sc_callers (cl_sessions s)))"
  have "client_inv options direct F es ?s"
    by (rule on_sessions_inv [OF assms(1)]) (simp add: request_session_callers)
  moreover have "call_ok options direct F es (length (sc_callers (cl_sessions ?s))) ?c"
    using assms(2) by (auto simp: call_ok_def on_sessions_def request_session_callers)
  ultimately show ?thesis using Inr by (simp add: start_call_def client_inv_def on_sessions_def)
qed

lemma exchange_call_inv:
  assumes inv: "client_inv options direct F es s" and at: "Cl_Exchange j P seed rnd ohttp_rnd \<in> set es"
    and made: "\<And>model x. Got model (Inr x) \<in> set (sc_callers (cl_sessions s)) \<Longrightarrow> session_made options direct es model x"
  shows "client_inv options direct F es (exchange_call options direct F j P seed rnd ohttp_rnd s)"
proof (cases "j < length (cl_calls s)")
  case True
  show ?thesis
  proof (cases "cl_calls s ! j")
    case (Call_Session work generation k)
    with inv True have "call_ok options direct F es (length (sc_callers (cl_sessions s))) (Call_Session work generation k)"
      unfolding client_inv_def list_all_iff by (metis nth_mem)
    then obtain P' now where k: "k < length (sc_callers (cl_sessions s))" "Cl_Call P' work now \<in> set es"
      by (auto simp: call_ok_def)
    show ?thesis
    proof (cases "sc_callers (cl_sessions s) ! k")
      case (Got model session)
      then have "Got model session \<in> set (sc_callers (cl_sessions s))" using k(1) nth_mem by metis
      with made have "session = Inr x \<Longrightarrow> session_made options direct es model x" for x by blast
      then have "call_ok options direct F es n (exchange P F direct options seed rnd ohttp_rnd session generation work)"
        if "work_model P direct options work = Inr model" for n
        using exchange_ok [OF k(2) at that] by blast
      with inv Got True Call_Session show ?thesis by (auto simp: exchange_call_def intro: set_call_inv)
    qed (use inv Call_Session in \<open>simp_all add: exchange_call_def\<close>)
  qed (use inv in \<open>simp_all add: exchange_call_def\<close>)
qed (use inv in \<open>simp add: exchange_call_def\<close>)

lemma conclude_call_inv:
  assumes inv: "client_inv options direct F es s" and at: "Cl_Conclude j P now \<in> set es"
  shows "client_inv options direct F es (conclude_call options j P now s)"
proof (cases "j < length (cl_calls s)")
  case True
  obtain call' s' where run: "conclude P options now (cl_calls s ! j) (cl_responses s) = (call', s')" by force
  from inv True have "call_ok options direct F es (length (sc_callers (cl_sessions s))) (cl_calls s ! j)"
    unfolding client_inv_def list_all_iff by (metis nth_mem)
  note ended = conclude_ok [OF this at run]
  have "client_inv options direct F es (s\<lparr>cl_responses := s'\<rparr>)"
  proof (cases "s' = cl_responses s")
    case False
    with ended(2) obtain generation i c where c: "s' = snd (register_response options now generation i c (cl_responses s))"
        "exchanged options direct F es i c"
      by blast
    have "client_inv options direct F es (on_responses (\<lambda>t. snd (register_response options now generation i c t)) s)"
      by (rule on_responses_inv [OF inv, of _ "Ev_Register now generation i c"]) (use c(2) in \<open>simp_all add: responses_ran_def\<close>)
    with c(1) show ?thesis by (simp add: on_responses_def)
  qed (use inv in simp)
  from set_call_inv [OF this, of call' j] ended(1) run True show ?thesis by (simp add: conclude_call_def)
qed (use inv in \<open>simp add: conclude_call_def\<close>)

lemma run_client_inv: "client_inv options direct F es (run_client options direct F es fresh_client)"
proof (induction es rule: rev_induct)
  case Nil
  then show ?case by (auto simp: client_inv_def fresh_client_def responses_ran_def intro: exI [of _ "[]"])
next
  case (snoc e es)
  let ?s = "run_client options direct F es fresh_client"
  have inv: "client_inv options direct F (es @ [e]) ?s" by (rule client_inv_mono [OF snoc]) auto
  have made: "session_made options direct (es @ [e]) model x" if "Got model (Inr x) \<in> set (sc_callers (cl_sessions ?s))" for model x
    by (rule session_made_mono [OF got_session_made [OF that]]) auto
  have grow: "length (sc_callers (cl_sessions ?s)) \<le> length (sc_callers (session_step options direct x (cl_sessions ?s)))" for x
    using sessions_grow [of "cl_sessions ?s" options direct "[x]"] by simp
  have ran: "responses_ran options direct F (es @ [e]) [Ev_Resolve f P]" if "e = Cl_Resolve f P" for f P
    using that by (simp add: responses_ran_def)
  show ?case
  proof (cases e)
    case (Cl_Verify model now)
    with inv grow [of "Se_Request model now"] show ?thesis by (simp add: on_sessions_inv)
  next
    case (Cl_Call P work now)
    with inv show ?thesis by (simp add: start_call_inv [of _ _ _ _ _ P work now])
  next
    case (Cl_Create f P nonce nonce' clock)
    with inv grow [of "Se_Create f P nonce nonce' clock"] show ?thesis by (simp add: on_sessions_inv)
  next
    case (Cl_Return k now)
    with inv grow [of "Se_Finish k now"] show ?thesis by (simp add: on_sessions_inv)
  next
    case (Cl_Cancel k)
    with inv grow [of "Se_Drop k"] show ?thesis by (simp add: on_sessions_inv)
  next
    case (Cl_Exchange j P seed rnd ohttp_rnd)
    with exchange_call_inv [OF inv _ made, of j P seed rnd ohttp_rnd] show ?thesis by simp
  next
    case (Cl_Conclude j P now)
    with conclude_call_inv [OF inv, of j P now] show ?thesis by simp
  next
    case Cl_Clear
    with inv show ?thesis by (simp add: on_responses_inv [of _ _ _ _ _ _ Ev_Clear] responses_ran_def)
  next
    case (Cl_Begin i now)
    with inv show ?thesis by (simp add: on_responses_inv [of _ _ _ _ _ _ "Ev_Begin i now"] responses_ran_def)
  next
    case (Cl_Join k)
    with inv show ?thesis by (simp add: on_responses_inv [of _ _ _ _ _ _ "Ev_Join k"] responses_ran_def)
  next
    case (Cl_Resolve f P)
    with inv ran show ?thesis by (simp add: on_responses_inv [of _ _ _ _ _ _ "Ev_Resolve f P"])
  next
    case (Cl_Settle k)
    with inv show ?thesis by (simp add: on_responses_inv [of _ _ _ _ _ _ "Ev_Settle k"] responses_ran_def)
  qed
qed

section \<open>A caller that waits\<close>

text \<open>Once its future can be polled, a waiting caller of \<open>session\<close> gets the future's result.\<close>

lemma waiting_caller_gets:
  assumes inv: "sessions_inv options direct es s" and k: "k < length (sc_callers s)" "sc_callers s ! k = Waiting model f"
  shows "\<exists>r. sc_callers (run_sessions options direct [Se_Create f P nonce nonce' clock, Se_Finish k now] s) ! k = Got model r"
proof -
  let ?s = "complete_session options direct f P nonce nonce' clock s"
  have w: "Waiting model f \<in> set (sc_callers s)" using k nth_mem by metis
  then have "f < length (sc_futures s)" "future_alive s f"
    using sessions_invD(4) [OF inv w] by (auto simp: caller_inv_def future_alive_iff)
  then have "\<exists>r. sf_result (sc_futures ?s ! f) = Some r" "sc_callers ?s = sc_callers s"
    by (auto simp: complete_session_def)
  then show ?thesis using k by (auto simp: finish_session_def Let_def)
qed

section \<open>Clearing the cache of responses\<close>

definition call_generation :: "'f client_call \<Rightarrow> 64 word option" where
  "call_generation call = (case call of
       Call_Session _ g _ \<Rightarrow> Some g | Call_Body g _ \<Rightarrow> Some g | Call_Decision g _ _ _ \<Rightarrow> Some g | _ \<Rightarrow> None)"

fun clears :: "'p client_event \<Rightarrow> bool" where
  "clears Cl_Clear = True"
| "clears _ = False"

text \<open>A call keeps the generation it read until it is over.\<close>

lemma step_keeps_generation:
  assumes "j < length (cl_calls s)"
  shows "j < length (cl_calls (client_step options direct F e s))
     \<and> call_generation (cl_calls (client_step options direct F e s) ! j) \<in> {None, call_generation (cl_calls s ! j)}"
proof (cases e)
  case (Cl_Call P work now)
  with assms show ?thesis by (simp add: start_call_def nth_append split: sum.split)
next
  case (Cl_Exchange i P seed rnd ohttp_rnd)
  have "call_generation (exchange P F direct options seed rnd ohttp_rnd x g work) \<in> {None, Some g}" for x g work
    by (auto simp: exchange_def call_generation_def split: call_work.split sum.split)
  with Cl_Exchange assms show ?thesis
    by (auto simp: exchange_call_def nth_list_update call_generation_def [of "Call_Session _ _ _"]
        split: client_call.split session_caller.split)
next
  case (Cl_Conclude i P now)
  have "call_generation (fst (conclude P options now c t)) \<in> {None, call_generation c}" for c :: "'a client_call" and t
    by (auto simp: conclude_def call_generation_def split: client_call.split prod.split sum.split)
  with Cl_Conclude assms show ?thesis
    by (auto simp: conclude_call_def nth_list_update case_prod_beta)
qed (use assms in \<open>simp_all add: on_sessions_def on_responses_def\<close>)

lemma run_keeps_generation:
  assumes "j < length (cl_calls s)"
  shows "j < length (cl_calls (run_client options direct F es s))
     \<and> call_generation (cl_calls (run_client options direct F es s) ! j) \<in> {None, call_generation (cl_calls s ! j)}"
proof (induction es rule: rev_induct)
  case (snoc e es)
  with step_keeps_generation [of j "run_client options direct F es s" options direct F e] show ?case by auto
qed (use assms in simp)

lemma register_generation: "rp_generation (snd (register_response options now g i c s)) = rp_generation s"
  using step_generation [of options "Ev_Register now g i c" s] by simp

lemma conclude_generation: "rp_generation (snd (conclude P options now call s)) = rp_generation s"
proof (cases call)
  case (Call_Body g pending)
  show ?thesis
  proof (cases "pr_capture pending")
    case (Some capture)
    obtain og streaming where "capture = (og, streaming)" by force
    moreover obtain items s' where "capture_body P options g now og streaming (pr_source pending) s = (items, s')" by force
    moreover from this have "rp_generation s' = rp_generation s"
      by (cases rule: capture_body_effect) (simp_all add: register_generation)
    ultimately show ?thesis using Some Call_Body by (simp add: conclude_def consume_def)
  qed (simp add: Call_Body conclude_def consume_def)
next
  case (Call_Decision g i captured decoded)
  then show ?thesis
    using register_generation [of options now g i captured s]
    by (auto simp: conclude_def split: prod.split sum.split)
qed (simp_all add: conclude_def)

lemma client_step_generation:
  "rp_generation (cl_responses (client_step options direct F e s)) =
     (if clears e then rp_generation (cl_responses s) + 1 else rp_generation (cl_responses s))"
proof (cases e)
  case Cl_Clear
  then show ?thesis using step_generation [of options Ev_Clear] by (simp add: on_responses_def clear_response_cache_def)
next
  case (Cl_Begin i now)
  then show ?thesis using step_generation [of options "Ev_Begin i now"] by (simp add: on_responses_def)
next
  case (Cl_Join k)
  then show ?thesis using step_generation [of options "Ev_Join k"] by (simp add: on_responses_def)
next
  case (Cl_Resolve f P)
  then show ?thesis using step_generation [of options "Ev_Resolve f P"] by (simp add: on_responses_def)
next
  case (Cl_Settle k)
  then show ?thesis using step_generation [of options "Ev_Settle k"] by (simp add: on_responses_def)
next
  case (Cl_Conclude j P now)
  then show ?thesis by (simp add: conclude_call_def case_prod_beta conclude_generation)
next
  case (Cl_Exchange j P seed rnd ohttp_rnd)
  then show ?thesis by (simp add: exchange_call_def split: client_call.split session_caller.split)
qed (simp_all add: on_sessions_def start_call_def split: sum.split)

lemma run_client_generation:
  "rp_generation (cl_responses (run_client options direct F es s)) =
     rp_generation (cl_responses s) + of_nat (length (filter clears es))"
  by (induction es arbitrary: s) (simp_all add: client_step_generation)

text \<open>A body or decision whose generation is over leaves the records alone.\<close>

lemma conclude_stale:
  assumes "call_generation call \<noteq> Some (rp_generation s)"
  shows "snd (conclude P options now call s) = s"
proof (cases call)
  case (Call_Body g pending)
  with assms have stale: "snd (register_response options now g i c s) = s" for i c
    by (simp add: call_generation_def register_response_def)
  show ?thesis
  proof (cases "pr_capture pending")
    case (Some capture)
    obtain og streaming where "capture = (og, streaming)" by force
    moreover obtain items s' where "capture_body P options g now og streaming (pr_source pending) s = (items, s')" by force
    moreover from this have "s' = s" by (cases rule: capture_body_effect) (simp_all add: stale)
    ultimately show ?thesis using Some Call_Body by (simp add: conclude_def consume_def)
  qed (simp add: Call_Body conclude_def consume_def)
next
  case (Call_Decision g i captured decoded)
  with assms show ?thesis by (simp add: conclude_def call_generation_def register_response_def)
qed (simp_all add: conclude_def)

section \<open>A lone call\<close>

text \<open>The session of a model as a fresh client's only call gets it.\<close>

definition lone_session ::
  "('c, 'o, 'z) ohttp_prims_scheme \<Rightarrow> bool \<Rightarrow> client_options \<Rightarrow> string \<Rightarrow> string \<Rightarrow> nat option \<Rightarrow> string \<Rightarrow> session inf" where
  "lone_session P direct options nonce nonce' clock model =
     (if model = [] \<or> model = ''.'' \<or> model = ''..'' then fail (Api (input ''model'' ''expected a canonical model ID''))
      else new_session P direct model options nonce nonce' clock)"

lemma lone_session_got:
  "\<exists>t. run_sessions options direct [Se_Request model now, Se_Create 0 P nonce nonce' clock, Se_Finish 0 now'] no_sessions
      = t \<and> sc_callers t = [Got model (lone_session P direct options nonce nonce' clock model)]"
  by (simp add: request_session_def no_sessions_def complete_session_def finish_session_def lone_session_def
      purge_sessions_def drop_dead_def retain_def Let_def add_caller_def future_alive_def store_result_def put_session_def
      split: sum.split)

abbreviation lone_run ::
  "('c, 'o, 'z) ohttp_prims_scheme \<Rightarrow> call_work \<Rightarrow> nat \<Rightarrow> nat \<Rightarrow> nat \<Rightarrow> string \<Rightarrow> string \<Rightarrow> nat option \<Rightarrow> bytes
     \<Rightarrow> (nat \<Rightarrow> bytes \<times> bytes) \<Rightarrow> bytes \<Rightarrow> ('c, 'o, 'z) ohttp_prims_scheme client_event list" where
  "lone_run P work t t' t'' nonce nonce' clock seed rnd ohttp_rnd \<equiv>
     [Cl_Call P work t, Cl_Create 0 P nonce nonce' clock, Cl_Return 0 t', Cl_Exchange 0 P seed rnd ohttp_rnd, Cl_Conclude 0 P t'']"

text \<open>How the calls of a client ended, and what it has registered.\<close>

definition results :: "'f client_state \<Rightarrow> 'f client_call list \<times> response_state" where
  "results s = (cl_calls s, cl_responses s)"

lemma lone_run_ends:
  "results (run_client options direct F (lone_run P work t t' t'' nonce nonce' clock seed rnd ohttp_rnd) fresh_client) =
     (case work_model P direct options work of
        Inl f \<Rightarrow> ([Call_Failed f], no_responses)
      | Inr model \<Rightarrow> map_prod (\<lambda>c. [c]) id (conclude P options t''
          (exchange P F direct options seed rnd ohttp_rnd (lone_session P direct options nonce nonce' clock model) 0 work)
          no_responses))"
proof (cases "work_model P direct options work")
  case (Inl f)
  then show ?thesis
    by (simp add: results_def start_call_def fresh_client_def on_sessions_def exchange_call_def conclude_call_def conclude_def)
next
  case (Inr model)
  have "sc_callers (finish_session options 0 t' (complete_session options direct 0 P nonce nonce' clock
      (request_session options model t no_sessions))) = [Got model (lone_session P direct options nonce nonce' clock model)]"
    using lone_session_got [of options direct model t P nonce nonce' clock t'] by simp
  moreover have "length (sc_callers no_sessions) = 0" "rp_generation no_responses = 0"
    by (simp_all add: no_sessions_def no_responses_def)
  ultimately show ?thesis using Inr
    by (simp add: results_def start_call_def fresh_client_def on_sessions_def exchange_call_def conclude_call_def case_prod_beta
        map_prod_def)
qed

section \<open>Receipts, end to end\<close>

lemma created_gateway:
  assumes "new_session P direct model options nonce nonce' clock = Inr x" and "se_gateway x = Some g"
  shows "\<not> direct \<and> (\<exists>c. authenticate_gateway P options nonce = Inr (c, se_client x, g, se_ohttp x))"
proof (cases direct)
  case True
  with assms show ?thesis
    by (auto simp: new_session_def create_direct_session_def Let_def outcome_simps)
next
  case False
  with assms show ?thesis
    by (auto simp: new_session_def create_session_split Let_def outcome_simps)
qed

text \<open>A model whose report verified under the caller's options.\<close>

definition model_attested ::
  "('c, 'o, 'z) ohttp_prims_scheme \<Rightarrow> client_options \<Rightarrow> string \<Rightarrow> verified_model_attestation \<Rightarrow> bool" where
  "model_attested P options model m \<longleftrightarrow>
     (\<exists>report. \<exists>binding :: model_client_binding. verify_model_attestation P report binding (mo_policy (io_model_verification options))
        \<lparr>mv_tdx_quote = mo_tdx_quote (io_model_verification options),
         mv_gpu_evidence = mo_gpu_evidence (io_model_verification options),
         mv_deployment = session_deployment model options\<rparr> = Inr m)"

lemma created_model:
  assumes "new_session P False model options nonce nonce' clock = Inr x" and "se_selected x = Some m"
  shows "model_attested P options model m"
proof -
  obtain c models where models: "models_phase P model options nonce' c = Inr models" "select_model options models = Some m"
    using assms by (auto simp: new_session_def create_session_split Let_def outcome_simps)
  then have "m \<in> set models" unfolding select_model_def find_Some_iff by auto
  with models(1) show ?thesis
    by (auto simp: model_attested_def models_phase_def Let_def outcome_simps traverse_eq_Inr in_set_conv_nth split: if_splits
        dest: list_all2_nthD2)
qed

text \<open>A receipt over bytes that this run exchanged, by a Gateway or a model that it attested.\<close>

definition receipt_traced ::
  "client_options \<Rightarrow> bool \<Rightarrow> 'f float_ops \<Rightarrow> ('c, 'o, 'z) ohttp_prims_scheme client_event list \<Rightarrow> string
     \<Rightarrow> verified_completion \<Rightarrow> bool" where
  "receipt_traced options direct F es i v \<longleftrightarrow>
     (\<exists>c f P. Cl_Resolve f P \<in> set es \<and> exchanged options direct F es i c \<and> receipt_for P (io_signing_algo options) i c v
       \<and> (\<forall>g. vc_attestation v = Att_Gateway g \<longrightarrow> \<not> direct \<and> (\<exists>f P nonce nonce' clock api.
            Cl_Create f P nonce nonce' clock \<in> set es
            \<and> authenticate_gateway P options nonce = Inr (api, se_client (ca_session c), g, se_ohttp (ca_session c))))
       \<and> (\<forall>m. vc_attestation v = Att_Model m \<and> \<not> direct \<longrightarrow> (\<exists>f P nonce nonce' clock model.
            Cl_Create f P nonce nonce' clock \<in> set es \<and> model_attested P options model m)))"

lemma returned_traced:
  assumes "s = run_client options direct F es fresh_client"
    and "Returned i a (Inr v) \<in> set (rp_callers (cl_responses s))"
  shows "receipt_traced options direct F es i v"
proof -
  obtain rs where rs: "cl_responses s = run_responses options rs no_responses" "responses_ran options direct F es rs"
    using run_client_inv [of options direct F es] unfolding client_inv_def assms(1) by blast
  note R = run_facts [OF rs(1)]
  obtain b where "a = Some b" using R(3) [of i "Inr v"] assms(2) by (cases a) auto
  with R(2) [of i b "Inr v"] assms(2) obtain f now generation c P where c:
      "Ev_Register now generation i c \<in> set rs" "Ev_Resolve f P \<in> set rs"
      "verify_captured P (io_signing_algo options) i c = Inr v"
    by (metis (no_types))
  have "Cl_Resolve f P \<in> set es" "exchanged options direct F es i c" using rs(2) c(1,2) unfolding responses_ran_def by blast+
  moreover note verify_captured_receipt [OF c(3)]
  moreover obtain model where made: "session_made options direct es model (ca_session c)"
    using calculation(2) unfolding exchanged_def sent_def decided_def captured_of_def by auto
  moreover have "\<not> direct \<and> (\<exists>f P nonce nonce' clock api. Cl_Create f P nonce nonce' clock \<in> set es
      \<and> authenticate_gateway P options nonce = Inr (api, se_client (ca_session c), g, se_ohttp (ca_session c)))"
    if "vc_attestation v = Att_Gateway g" for g
  proof -
    have "se_gateway (ca_session c) = Some g" using calculation(3) that by (simp add: receipt_for_def)
    with made show ?thesis unfolding session_made_def by (blast dest: created_gateway)
  qed
  moreover have "\<exists>f P nonce nonce' clock model. Cl_Create f P nonce nonce' clock \<in> set es \<and> model_attested P options model m"
    if "vc_attestation v = Att_Model m \<and> \<not> direct" for m
  proof -
    have "se_selected (ca_session c) = Some m" using calculation(3) that by (simp add: receipt_for_def)
    with made that show ?thesis unfolding session_made_def by (metis created_model)
  qed
  ultimately show ?thesis unfolding receipt_traced_def by blast
qed

section \<open>An instance\<close>

definition demo_paid :: bytes where
  "demo_paid = (case cr_body demo_call of Some b \<Rightarrow> b | None \<Rightarrow> [])"

definition demo_receipt_document :: json where
  "demo_receipt_document = JObj [(''text'', JStr (gateway_text demo_ohttp demo_paid [2, 3])),
     (''signature'', JStr (replicate 130 (CHR ''0''))), (''signing_address'', JStr (replicate 40 (CHR ''0''))),
     (''signing_algo'', JStr ''ecdsa''), (''signature_kind'', JStr ''gateway'')]"

definition demo_answering :: "(unit, bytes) ohttp_prims" where
  "demo_answering = demo_ohttp\<lparr>json_document := \<lambda>_. Some demo_receipt_document,
     http_send := \<lambda>_ _. Some \<lparr>rs_status = 200, rs_headers = [], rs_content_length = None, rs_chunks = [[2], [3]],
       rs_broken = False, rs_peer_certificate = None\<rparr>\<rparr>"

definition demo_client_run :: "(unit, bytes) ohttp_prims client_event list" where
  "demo_client_run = [Cl_Verify ''m'' 0, Cl_Call demo_answering (Sending demo_call) 1,
     Cl_Create 0 demo_service (replicate 64 (CHR ''0'')) [] (Some 5), Cl_Return 1 2, Cl_Return 0 2,
     Cl_Exchange 0 demo_answering [] (\<lambda>_. ([], [])) [],
     Cl_Conclude 0 (demo_answering\<lparr>json_parse := \<lambda>_. Some (JObj [(''id'', JStr ''i'')])\<rparr>) 3,
     Cl_Begin ''i'' 4, Cl_Join 0, Cl_Resolve 0 demo_answering, Cl_Settle 0]"

lemma demo_client_run_returns:
  "case rp_callers (cl_responses (run_client demo_client_options False demo_floats demo_client_run fresh_client)) of
     Returned i a r # _ \<Rightarrow> i = ''i'' \<and> a = Some 0 \<and> is_ok r | _ \<Rightarrow> False"
  by code_simp

section \<open>Properties\<close>

text \<open>C3: A receipt traces back to an attested exchange. In any run of a client, whatever its calls, caches, cancellations and
  clears interleave to, a caller of \<open>verify_response\<close> that is told a completion verified gets a receipt over bytes that
  this client exchanged in this run: either a call's request went out, as \<open>send\<close> prepares it, over a session created
  in the run for the very model the request names, and the registered bytes are its body and the complete body of the
  successful answer that carries this id; or they are those of a decision asked for in the same way. The attestation in
  the receipt is that of the Gateway the session authenticated, or of a model whose report verified under the
  client's options.\<close>

theorem receipts_trace_to_attested_exchanges:
  assumes "s = run_client options direct F es fresh_client"
    and "Returned i a (Inr v) \<in> set (rp_callers (cl_responses s))"
  shows "\<exists>c f P. Cl_Resolve f P \<in> set es \<and> exchanged options direct F es i c \<and> receipt_for P (io_signing_algo options) i c v
     \<and> (\<forall>g. vc_attestation v = Att_Gateway g \<longrightarrow> \<not> direct \<and> (\<exists>f P nonce nonce' clock api.
          Cl_Create f P nonce nonce' clock \<in> set es
          \<and> authenticate_gateway P options nonce = Inr (api, se_client (ca_session c), g, se_ohttp (ca_session c))))
     \<and> (\<forall>m. vc_attestation v = Att_Model m \<and> \<not> direct \<longrightarrow> (\<exists>f P nonce nonce' clock model.
          Cl_Create f P nonce nonce' clock \<in> set es \<and> model_attested P options model m))"
  using returned_traced [OF assms] unfolding receipt_traced_def .

lemma receipts_trace_to_attested_exchanges_witness:
  "\<exists>v c. Returned ''i'' (Some 0) (Inr v)
       \<in> set (rp_callers (cl_responses (run_client demo_client_options False demo_floats demo_client_run fresh_client)))
     \<and> exchanged demo_client_options False demo_floats demo_client_run ''i'' c \<and> receipt_for demo_answering Ecdsa ''i'' c v"
proof -
  let ?s = "run_client demo_client_options False demo_floats demo_client_run fresh_client"
  obtain v where v: "Returned ''i'' (Some 0) (Inr v) \<in> set (rp_callers (cl_responses ?s))"
    using demo_client_run_returns
    by (cases "rp_callers (cl_responses ?s)") (auto simp: is_ok_iff split: receipt_caller.splits)
  from receipts_trace_to_attested_exchanges [OF refl v] obtain c f P where
      "Cl_Resolve f P \<in> set demo_client_run" "exchanged demo_client_options False demo_floats demo_client_run ''i'' c"
      "receipt_for P (io_signing_algo demo_client_options) ''i'' c v"
    by blast
  with v show ?thesis by (auto simp: demo_client_run_def demo_client_options_def)
qed

text \<open>The step relation is the code as written. The only call of a fresh client, taken through the steps of the
  run, ends like \<open>send\<close> (with its body read to the end) or \<open>systemone_create\<close> called as one function, with the
  session the model's creation gives, and leaves the same cache; so what the runs add is interleaving alone.\<close>

lemma lone_call_runs_as_written:
  "results (run_client options direct F (lone_run P (Sending request) t t' t'' nonce nonce' clock seed rnd ohttp_rnd) fresh_client) =
     (case send P direct options (lone_session P direct options nonce nonce' clock) seed rnd ohttp_rnd request of
        Inl f \<Rightarrow> ([Call_Failed f], no_responses)
      | Inr pending \<Rightarrow> (case consume P options 0 t'' pending no_responses of (items, r) \<Rightarrow> ([Call_Streamed items], r)))
   \<and> results (run_client options direct F (lone_run P (Deciding body h) t t' t'' nonce nonce' clock seed rnd ohttp_rnd) fresh_client) =
     (case systemone_create P F direct options (lone_session P direct options nonce nonce' clock) 0 t'' body h no_responses of
        (Inl f, r) \<Rightarrow> ([Call_Failed f], r)
      | (Inr result, r) \<Rightarrow> ([Call_Decided result], r))"
proof (intro conjI)
  let ?session = "lone_session P direct options nonce nonce' clock"
  note send = send_staged [of P direct options ?session seed rnd ohttp_rnd request]
  show "results (run_client options direct F (lone_run P (Sending request) t t' t'' nonce nonce' clock seed rnd ohttp_rnd) fresh_client) =
     (case send P direct options ?session seed rnd ohttp_rnd request of
        Inl f \<Rightarrow> ([Call_Failed f], no_responses)
      | Inr pending \<Rightarrow> (case consume P options 0 t'' pending no_responses of (items, r) \<Rightarrow> ([Call_Streamed items], r)))"
  proof (cases "send_model P direct options request")
    case (Inl f)
    then show ?thesis unfolding lone_run_ends send by (simp add: work_model_def)
  next
    case (Inr model)
    then show ?thesis unfolding lone_run_ends send
      by (simp add: work_model_def exchange_def conclude_def split: sum.split prod.split)
  qed
  note prepare = prepare_systemone_staged [of P direct options ?session body h]
  show "results (run_client options direct F (lone_run P (Deciding body h) t t' t'' nonce nonce' clock seed rnd ohttp_rnd) fresh_client) =
     (case systemone_create P F direct options ?session 0 t'' body h no_responses of
        (Inl f, r) \<Rightarrow> ([Call_Failed f], r)
      | (Inr result, r) \<Rightarrow> ([Call_Decided result], r))"
  proof (cases "decision_model P direct options body")
    case (Inl f)
    then show ?thesis unfolding lone_run_ends systemone_create_def prepare by (simp add: work_model_def)
  next
    case (Inr model)
    show ?thesis
    proof (cases "prepare_systemone P direct options (\<lambda>_. ?session model) body h")
      case (Inl f)
      with Inr show ?thesis unfolding lone_run_ends systemone_create_def prepare
        by (simp add: work_model_def exchange_def systemone_exchange_def conclude_def)
    next
      case prepared: (Inr x)
      obtain session request where x: "x = (session, request)" by force
      show ?thesis
        using Inr prepared unfolding lone_run_ends systemone_create_def prepare x
        by (cases "systemone_reply P F (se_client session) request")
          (auto simp: work_model_def exchange_def systemone_exchange_def conclude_def split: sum.splits prod.splits)
    qed
  qed
qed

text \<open>C31: A cleared cache stays cleared for every call in flight. A call that read its generation before the cache was
  cleared registers nothing, however far it had come and whatever ran in between, as long as fewer than \<open>2\<^sup>6\<^sup>4\<close> clears
  happened, after which the wrapping generation comes round again.\<close>

theorem cleared_calls_stay_forgotten:
  assumes "s' = run_client options direct F es s" and "j < length (cl_calls s)"
    and "call_generation (cl_calls s ! j) = Some (rp_generation (cl_responses s))"
    and "list_ex clears es" and "length (filter clears es) < 2 ^ 64"
  shows "cl_responses (conclude_call options j P now s') = cl_responses s'"
proof -
  from assms(4) have "0 < length (filter clears es)" by (auto simp: list_ex_iff filter_empty_conv)
  with assms(5) have "(of_nat (length (filter clears es)) :: 64 word) \<noteq> 0"
    by (simp add: word_of_nat_eq_0_iff nat_dvd_not_less)
  then have "call_generation (cl_calls s' ! j) \<noteq> Some (rp_generation (cl_responses s'))" "j < length (cl_calls s')"
    using run_keeps_generation [OF assms(2), of options direct F es] assms(3) by (auto simp: assms(1) run_client_generation)
  then show ?thesis by (simp add: conclude_call_def case_prod_beta conclude_stale)
qed

lemma cleared_calls_stay_forgotten_witness:
  "\<exists>s s'. s = run_client demo_client_options False demo_floats (take 6 demo_client_run) fresh_client
     \<and> s' = run_client demo_client_options False demo_floats [Cl_Clear :: (unit, bytes) ohttp_prims client_event] s
     \<and> cl_responses (conclude_call demo_client_options 0 demo_answering 3 s') = cl_responses s'"
proof -
  let ?s = "run_client demo_client_options False demo_floats (take 6 demo_client_run) fresh_client"
  have "case cl_calls ?s of [c] \<Rightarrow> call_generation c = Some (rp_generation (cl_responses ?s)) | _ \<Rightarrow> False"
    by code_simp
  then have "0 < length (cl_calls ?s)" "call_generation (cl_calls ?s ! 0) = Some (rp_generation (cl_responses ?s))"
    by (auto split: list.splits)
  from cleared_calls_stay_forgotten [OF refl this, where es = "[Cl_Clear :: (unit, bytes) ohttp_prims client_event]"]
  show ?thesis by simp
qed

end
