(* ===== verification/Error_Texts.thy ===== *)
theory Error_Texts
  imports Errors
begin

text \<open>
  \<open>errors.rs\<close>, the \<open>Display\<close> texts: those of the two small enums and the \<open>#[error]\<close> attribute of every variant.
  \<open>{x:?}\<close> prints the \<open>Debug\<close> text of a value, for an enum without fields the name of its variant.
\<close>

section \<open>Debug texts\<close>

definition debug_tcb_status :: "tcb_status \<Rightarrow> string" where
  "debug_tcb_status s = (case s of
      UpToDate \<Rightarrow> ''UpToDate'' | SwHardeningNeeded \<Rightarrow> ''SwHardeningNeeded'' | ConfigurationNeeded \<Rightarrow> ''ConfigurationNeeded''
    | ConfigurationAndSwHardeningNeeded \<Rightarrow> ''ConfigurationAndSwHardeningNeeded'' | OutOfDate \<Rightarrow> ''OutOfDate''
    | OutOfDateConfigurationNeeded \<Rightarrow> ''OutOfDateConfigurationNeeded'' | TdRelaunchAdvised \<Rightarrow> ''TdRelaunchAdvised''
    | TdRelaunchAdvisedConfigurationNeeded \<Rightarrow> ''TdRelaunchAdvisedConfigurationNeeded''
    | Revoked \<Rightarrow> ''Revoked'' | Unknown \<Rightarrow> ''Unknown'')"

definition debug_provenance_reason :: "image_provenance_failure_reason \<Rightarrow> string" where
  "debug_provenance_reason r = (case r of
      NoAttestations \<Rightarrow> ''NoAttestations'' | InvalidBundle \<Rightarrow> ''InvalidBundle'' | UntrustedIdentity \<Rightarrow> ''UntrustedIdentity''
    | InvalidStatement \<Rightarrow> ''InvalidStatement'' | DigestMismatch \<Rightarrow> ''DigestMismatch'' | SourceMismatch \<Rightarrow> ''SourceMismatch''
    | CommitMismatch \<Rightarrow> ''CommitMismatch'' | TrustRootUnavailable \<Rightarrow> ''TrustRootUnavailable'')"

definition debug_images_reason :: "deployment_images_failure_reason \<Rightarrow> string" where
  "debug_images_reason r = (case r of
      EmptyPolicy \<Rightarrow> ''EmptyPolicy'' | InvalidAppCompose \<Rightarrow> ''InvalidAppCompose'' | InvalidDockerCompose \<Rightarrow> ''InvalidDockerCompose''
    | UnresolvedImage \<Rightarrow> ''UnresolvedImage'' | ImageMissing \<Rightarrow> ''ImageMissing'' | ImageNotPinned \<Rightarrow> ''ImageNotPinned''
    | ServiceMissing \<Rightarrow> ''ServiceMissing'')"

definition debug_signature_kind :: "completion_signature_kind \<Rightarrow> string" where
  "debug_signature_kind k = (case k of ProviderTee \<Rightarrow> ''ProviderTee'' | Gateway \<Rightarrow> ''Gateway'')"

definition debug_signing_algo :: "signing_algo \<Rightarrow> string" where
  "debug_signing_algo a = (case a of Ecdsa \<Rightarrow> ''Ecdsa'' | Ed25519 \<Rightarrow> ''Ed25519'')"

definition debug_status :: "u16 option \<Rightarrow> string" where
  "debug_status s = (case s of None \<Rightarrow> ''None'' | Some n \<Rightarrow> ''Some('' @ decimal (unat n) @ '')'')"

definition debug_vec :: "('a \<Rightarrow> string) \<Rightarrow> 'a list \<Rightarrow> string" where
  "debug_vec f xs = ''['' @ join_with '', '' (map f xs) @ '']''"

section \<open>Display texts\<close>

definition transport_reason_text :: "api_transport_reason \<Rightarrow> string" where
  "transport_reason_text r = (case r of Request \<Rightarrow> ''request'' | ResponseBody \<Rightarrow> ''response body'')"

definition resource_text :: "api_resource \<Rightarrow> string" where
  "resource_text r = (case r of
      Res_ModelMetadata \<Rightarrow> ''model metadata'' | Res_Completion \<Rightarrow> ''completion'' | Res_SystemOne \<Rightarrow> ''systemone''
    | Res_Ohttp \<Rightarrow> ''OHTTP'' | Res_ModelAttestation \<Rightarrow> ''model attestation'' | Res_GatewayAttestation \<Rightarrow> ''gateway attestation''
    | Res_CompletionSignature \<Rightarrow> ''completion signature'' | Res_ImageProvenance \<Rightarrow> ''image provenance'')"

fun api_text :: "api_error \<Rightarrow> string" where
  "api_text CompletionNotFound = ''completion not retained; consume the entire response before verification''"
| "api_text DuplicateCompletionId = ''a response with this ID is already retained by this client''"
| "api_text (Api_InvalidInput field reason _ _) = ''invalid API input '' @ field @ '': '' @ reason"
| "api_text (Transport resource reason) = ''API '' @ resource_text resource @ '' '' @ transport_reason_text reason @ '' failed''"
| "api_text (HttpStatus resource status) = ''API '' @ resource_text resource @ '' returned HTTP '' @ decimal (unat status)"
| "api_text (InvalidJson resource) = ''API '' @ resource_text resource @ '' returned invalid JSON''"
| "api_text (BodyTooLarge resource) = ''API '' @ resource_text resource @ '' response exceeds its byte limit''"
| "api_text (InvalidResponse path expected actual) =
     ''API response has an invalid '' @ path @ '': expected '' @ expected @ '', received '' @ actual"
| "api_text (Api_NonceMismatch resource) = resource_text resource @ '' response nonce does not match the request''"
| "api_text ModelAttestationSignerNotFound = ''Cloud API returned no model attestation for the requested signer''"
| "api_text (AmbiguousModelAttestationSigner matching_count total_count) =
     ''Cloud API returned '' @ decimal matching_count @ '' model attestations for the requested signer ('' @ decimal total_count @ '' total)''"
| "api_text (CompletionSignatureUnavailable error_code message) =
     ''Cloud API did not provide a completion signature ('' @ error_code @ ''): '' @ message"

fun ver_text :: "verification_error \<Rightarrow> string" where
  "ver_text (Protocol code reason) = code @ '': '' @ reason"
| "ver_text (Ver_InvalidInput field reason) = ''invalid input '' @ field @ '': '' @ reason"
| "ver_text QuoteCollateralUnavailable = ''Intel quote collateral is unavailable''"
| "ver_text (QuoteVerificationFailed reason) = ''Intel quote verification failed: '' @ reason"
| "ver_text (QuoteInvalidResult reason) = ''Intel quote verifier returned an invalid result: '' @ reason"
| "ver_text QuoteUnsupportedReportType = ''Intel quote report type is unsupported; expected TD10''"
| "ver_text DebugEnabled = ''quote was created with debug enabled''"
| "ver_text (TcbStatusNotAllowed actual _ _) = ''TCB status '' @ debug_tcb_status actual @ '' is not accepted by policy''"
| "ver_text GpuEvidenceRequired = ''GPU evidence is required by policy but was not provided''"
| "ver_text SpkiFingerprintRequired = ''Gateway attestation requires an observed TLS peer fingerprint''"
| "ver_text (Ver_NonceMismatch binding) = ''attestation nonce binding did not match ('' @ binding @ '')''"
| "ver_text (ReportDataInvalid reason) = ''quote report data is invalid: '' @ reason"
| "ver_text (ReportDataMismatch binding) = ''quote report data binding did not match ('' @ binding @ '')''"
| "ver_text SpkiFingerprintMismatch = ''attestation TLS SPKI fingerprint does not match the observed peer''"
| "ver_text (EventLogInvalid path reason) = ''event log is invalid at '' @ path @ '': '' @ reason"
| "ver_text (Rtmr3Mismatch reason) = ''RTMR3 replay did not match: '' @ reason"
| "ver_text (MrConfigIdInvalid reason) = ''MRCONFIGID is invalid: '' @ reason"
| "ver_text AppComposeMrConfigIdMismatch = ''app compose does not match the MRCONFIGID measurement''"
| "ver_text (GpuPayloadInvalid reason) = ''NVIDIA payload is invalid: '' @ reason"
| "ver_text (NrasRequestFailed reason _ _) = ''NVIDIA NRAS request failed: '' @ reason"
| "ver_text (NrasResponseInvalid reason) = ''NVIDIA NRAS response is invalid: '' @ reason"
| "ver_text (NvidiaJwksRequestFailed reason _ _) = ''NVIDIA JWKS request failed: '' @ reason"
| "ver_text (NvidiaJwtVerificationFailed reason) = ''NVIDIA JWT verification failed: '' @ reason"
| "ver_text (GpuAttestationRejected origin) = ''NVIDIA attestation was rejected ('' @ origin @ '')''"
| "ver_text DeploymentProvenanceRejected = ''deployment provenance verifier rejected the measured deployment''"
| "ver_text ComposeManagerActionsMismatch = ''Compose Manager actions do not match the quote-authenticated hash''"
| "ver_text (ComposeManagerDeploymentInvalid reason) = ''Compose Manager deployment cannot be verified: '' @ reason"
| "ver_text (ComposeFileRequestFailed repository commit file status _) =
     ''compose file retrieval failed for '' @ repository @ ''@'' @ commit @ ''/'' @ file @ '' (HTTP '' @ debug_status status @ '')''"
| "ver_text (ComposeFileHashMismatch repository commit file) =
     ''compose file does not match its recorded hash: '' @ repository @ ''@'' @ commit @ ''/'' @ file"
| "ver_text (ImageProvenanceVerificationFailed digest reasons) =
     ''no trusted image provenance for '' @ digest @ '': '' @ debug_vec debug_provenance_reason reasons"
| "ver_text (DeploymentImagesInvalid reason _ _) = ''deployment images cannot be verified: '' @ debug_images_reason reason"
| "ver_text (ImageProvenanceRequestFailed image_repository digest _) =
     ''image provenance request failed for '' @ image_repository @ ''@'' @ digest"
| "ver_text (SignatureKindMismatch expected actual) =
     ''completion signature kind '' @ debug_signature_kind actual @ '' cannot be used here; expected '' @ debug_signature_kind expected"
| "ver_text (SignaturePayloadMismatch reason) = ''completion signed payload does not match ('' @ reason @ '')''"
| "ver_text (SignatureFormatInvalid field reason) = ''completion signature format is invalid for '' @ field @ '': '' @ reason"
| "ver_text (SignatureInvalid signing_algo) = ''completion signature is invalid for '' @ debug_signing_algo signing_algo"
| "ver_text SignatureSignerMismatch = ''completion signature signer does not match verified attestation evidence''"

fun inf_text :: "inference_error \<Rightarrow> string" where
  "inf_text (Api e) = api_text e"
| "inf_text (Verification e) = ver_text e"

end
