(* ===== verification/Public_Api.thy ===== *)
theory Public_Api
  imports Client Error_Texts
begin

text \<open>
  The public functions that only name a component's operation: fresh nonces (\<open>util.rs\<close>), the default verifiers
  (\<open>quote.rs\<close>, \<open>nvidia.rs\<close>), the constructors and accessors of the clients and the methods \<open>DirectInferenceClient\<close> and
  \<open>DirectAttestationClient\<close> pass on (\<open>inference.rs\<close>, \<open>direct.rs\<close>).
\<close>

section \<open>Nonces\<close>

definition nonce_bytes :: nat where
  "nonce_bytes = 32"

text \<open>The bytes are what \<open>OsRng\<close> filled the array with.\<close>

definition generate_nonce :: "'z prims_scheme \<Rightarrow> bytes \<Rightarrow> string" where
  "generate_nonce P random = hex_encode P random"

text \<open>A generated nonce passes the length check every verifier makes, and two generated nonces match only when they are equal.\<close>

lemma generated_nonce_accepted:
  assumes "hex_format P" and "hex_roundtrip P" and "length random = nonce_bytes"
  shows "require_hex_length P (generate_nonce P random) 32 = Some random"
  using decode_hex_encode [OF assms(1,2)] assms(3) by (simp add: generate_nonce_def require_hex_length_def nonce_bytes_def)

lemma generated_nonces_distinct:
  "hex_roundtrip P \<Longrightarrow> generate_nonce P a = generate_nonce P b \<Longrightarrow> a = b"
  by (metis generate_nonce_def hex_roundtrip_def option.inject)

section \<open>Default verifiers\<close>

record default_tdx_quote_verifier =
  dq_pccs_url :: string

definition tdx_quote_verifier_new :: "string \<Rightarrow> default_tdx_quote_verifier" where
  "tdx_quote_verifier_new pccs_url = \<lparr>dq_pccs_url = pccs_url\<rparr>"

definition tdx_quote_verifier_default :: default_tdx_quote_verifier where
  "tdx_quote_verifier_default = tdx_quote_verifier_new default_intel_pccs_url"

definition tdx_quote_verifier_verify :: "('c, 'z) dcap_prims_scheme \<Rightarrow> default_tdx_quote_verifier \<Rightarrow> tdx_verifier" where
  "tdx_quote_verifier_verify P v intel_quote = verify_tdx_quote P (dq_pccs_url v) intel_quote"

text \<open>Leaving the verifier out is passing the default one.\<close>

lemma default_tdx_quote_verifier_in_force:
  "verify_tdx_quote_policy P intel_quote policy None =
     verify_tdx_quote_policy P intel_quote policy (Some (tdx_quote_verifier_verify P tdx_quote_verifier_default))"
proof -
  have "verify_tdx_quote P default_intel_pccs_url = tdx_quote_verifier_verify P tdx_quote_verifier_default"
    by (simp add: fun_eq_iff tdx_quote_verifier_verify_def tdx_quote_verifier_default_def tdx_quote_verifier_new_def)
  then show ?thesis by (simp add: verify_tdx_quote_policy_def)
qed

type_synonym gpu_evidence_verifier = "string \<Rightarrow> unit ver"

definition nras_verifier_default :: nras_verifier where
  "nras_verifier_default = nras_verifier_new default_nvidia_nras_url"

section \<open>Clients\<close>

definition with_options :: "'z net_prims_scheme \<Rightarrow> client_options \<Rightarrow> (client_options \<times> bool) inf" where
  "with_options P options = rbind (create_client P options) (\<lambda>options. Inr (options, False))"

definition direct_with_options :: "'z net_prims_scheme \<Rightarrow> direct_options \<Rightarrow> (client_options \<times> bool) inf" where
  "direct_with_options P options = rbind (create_client P (client_options_of options)) (\<lambda>options. Inr (options, True))"

definition base_url :: "client_options \<times> bool \<Rightarrow> string" where
  "base_url client = io_base_url (fst client)"

definition signature_kind :: "verified_completion \<Rightarrow> completion_signature_kind" where
  "signature_kind result = cs_kind (vc_signature result)"

definition systemone_create_plain ::
  "'z net_prims_scheme \<Rightarrow> 'f float_ops \<Rightarrow> client_options \<times> bool \<Rightarrow> (string \<Rightarrow> session inf) \<Rightarrow> 64 word \<Rightarrow> nat
     \<Rightarrow> bytes option \<Rightarrow> response_state \<Rightarrow> 'f systemone_result inf \<times> response_state" where
  "systemone_create_plain P F client session_for generation now body s =
     systemone_create P F (snd client) (fst client) session_for generation now body [] s"

text \<open>A request made for a client goes to an endpoint of its own base URL, in canonical form.\<close>

lemma with_options_base_url:
  "with_options P options = Inr client \<Longrightarrow>
     \<exists>u. parse_base_url P (io_base_url options) = Inr u \<and> base_url client = url_text P u \<and> \<not> snd client
       \<and> (io_ohttp (fst client) \<longrightarrow> io_signing_algo (fst client) = Ed25519)"
  by (auto simp: with_options_def base_url_def create_client_def outcome_simps Let_def split: option.splits)

section \<open>The direct clients\<close>

definition direct_with_headers :: "attestation_client \<Rightarrow> headers \<Rightarrow> attestation_client" where
  "direct_with_headers api h = with_headers api h"

definition direct_with_http_client :: "attestation_client \<Rightarrow> http_client \<Rightarrow> attestation_client" where
  "direct_with_http_client api client = with_http_client api client"

definition direct_fetch_completion_signature ::
  "'z net_prims_scheme \<Rightarrow> attestation_client \<Rightarrow> string \<Rightarrow> signing_algo option \<Rightarrow> completion_signature api" where
  "direct_fetch_completion_signature P api i algo = direct_signature P api i algo"

definition direct_base_url :: "client_options \<times> bool \<Rightarrow> string" where
  "direct_base_url client = base_url client"

definition direct_clear_response_cache :: "response_state \<Rightarrow> response_state" where
  "direct_clear_response_cache s = clear_response_cache s"

definition direct_chat_request :: "'z net_prims_scheme \<Rightarrow> client_options \<times> bool \<Rightarrow> json \<Rightarrow> client_request inf" where
  "direct_chat_request P client body = chat_request P (fst client) body"

definition direct_chat_completions ::
  "('c, 'o, 'z) ohttp_prims_scheme \<Rightarrow> client_options \<times> bool \<Rightarrow> (string \<Rightarrow> session inf) \<Rightarrow> bytes
     \<Rightarrow> (nat \<Rightarrow> bytes \<times> bytes) \<Rightarrow> bytes \<Rightarrow> 64 word \<Rightarrow> nat \<Rightarrow> json \<Rightarrow> response_state \<Rightarrow> json inf \<times> response_state" where
  "direct_chat_completions P client session_for seed rnd ohttp_rnd generation now body =
     chat_completions P (snd client) (fst client) session_for seed rnd ohttp_rnd generation now body"

definition direct_send ::
  "('c, 'o, 'z) ohttp_prims_scheme \<Rightarrow> client_options \<times> bool \<Rightarrow> (string \<Rightarrow> session inf) \<Rightarrow> bytes
     \<Rightarrow> (nat \<Rightarrow> bytes \<times> bytes) \<Rightarrow> bytes \<Rightarrow> client_request \<Rightarrow> pending_response inf" where
  "direct_send P client session_for seed rnd ohttp_rnd request =
     send P (snd client) (fst client) session_for seed rnd ohttp_rnd request"

end
