(* ===== verification/Systemone_Request.thy ===== *)
theory Systemone_Request
  imports Systemone Json_Text
begin

text \<open>
  \<open>systemone.rs\<close>, the request a caller of \<open>systemone_create\<close> may build: its wire types, the derived \<open>Serialize\<close> and
  \<open>Deserialize\<close>, and what values decoded from the wire, requests and responses, have in common: every map in them is a
  \<open>BTreeMap\<close>, ordered and without repeated keys.
\<close>

section \<open>Wire types\<close>

datatype systemone_question =
    Q_Noul systemone_content "systemone_content btree option"
  | Q_Choice systemone_content "systemone_content option btree"
  | Q_Score systemone_content "systemone_content list"
  | Q_Box systemone_content

datatype image_asset_type = Asset_Image

datatype image_format = Png | Jpg | Jpeg

record image_asset =
  ia_asset_type :: "image_asset_type option"
  ia_format :: image_format
  ia_data_base64 :: string

record systemone_request =
  sq_model :: string
  sq_state :: systemone_content
  sq_questions :: "systemone_question btree"
  sq_assets :: "image_asset btree option"

section \<open>Serialize\<close>

definition content_json :: "systemone_content \<Rightarrow> json" where
  "content_json c = (case c of Text s \<Rightarrow> JStr s | Object kvs \<Rightarrow> JObj kvs | Array xs \<Rightarrow> JArr xs)"

definition btree_json :: "('v \<Rightarrow> json) \<Rightarrow> 'v btree \<Rightarrow> json" where
  "btree_json enc kvs = JObj (map (map_prod id enc) kvs)"

definition option_json :: "('v \<Rightarrow> json) \<Rightarrow> 'v option \<Rightarrow> json" where
  "option_json enc m = (case m of None \<Rightarrow> JNull | Some v \<Rightarrow> enc v)"

text \<open>\<open>skip_serializing_if = "Option::is_none"\<close>\<close>

definition skip_none :: "string \<Rightarrow> ('v \<Rightarrow> json) \<Rightarrow> 'v option \<Rightarrow> (string \<times> json) list" where
  "skip_none k enc m = (case m of None \<Rightarrow> [] | Some v \<Rightarrow> [(k, enc v)])"

definition question_json :: "systemone_question \<Rightarrow> json" where
  "question_json q = (case q of
       Q_Noul instructions criteria \<Rightarrow>
         JObj ([(''type'', JStr ''noul''), (''instructions'', content_json instructions)]
           @ skip_none ''criteria'' (btree_json content_json) criteria)
     | Q_Choice instructions criteria \<Rightarrow>
         JObj [(''type'', JStr ''choice''), (''instructions'', content_json instructions),
           (''criteria'', btree_json (option_json content_json) criteria)]
     | Q_Score instructions criteria \<Rightarrow>
         JObj [(''type'', JStr ''score''), (''instructions'', content_json instructions),
           (''criteria'', JArr (map content_json criteria))]
     | Q_Box instructions \<Rightarrow> JObj [(''type'', JStr ''box''), (''instructions'', content_json instructions)])"

definition asset_type_json :: "image_asset_type \<Rightarrow> json" where
  "asset_type_json t = (case t of Asset_Image \<Rightarrow> JStr ''image'')"

definition image_format_json :: "image_format \<Rightarrow> json" where
  "image_format_json f = (case f of Png \<Rightarrow> JStr ''png'' | Jpg \<Rightarrow> JStr ''jpg'' | Jpeg \<Rightarrow> JStr ''jpeg'')"

definition image_asset_json :: "image_asset \<Rightarrow> json" where
  "image_asset_json a = JObj (skip_none ''type'' asset_type_json (ia_asset_type a)
     @ [(''format'', image_format_json (ia_format a)), (''data_base64'', JStr (ia_data_base64 a))])"

definition systemone_request_json :: "systemone_request \<Rightarrow> json" where
  "systemone_request_json r = JObj ([(''model'', JStr (sq_model r)), (''state'', content_json (sq_state r)),
       (''questions'', btree_json question_json (sq_questions r))]
     @ skip_none ''assets'' (btree_json image_asset_json) (sq_assets r))"

section \<open>Deserialize\<close>

definition option_of :: "(json \<Rightarrow> 'v option) \<Rightarrow> json \<Rightarrow> 'v option option" where
  "option_of decode j = (case j of JNull \<Rightarrow> Some None | _ \<Rightarrow> map_option Some (decode j))"

text \<open>A variant of an internally tagged enum, from the content left beside the tag.\<close>

definition question_variant :: "string \<Rightarrow> json \<Rightarrow> systemone_question option" where
  "question_variant tag rest =
     (if tag = ''noul'' then
        Option.bind (struct_view [''instructions'', ''criteria''] 2 rest) (\<lambda>kvs.
        Option.bind (need kvs ''instructions'' content_of) (\<lambda>instructions.
        Option.bind (want kvs ''criteria'' (btree_of content_of)) (\<lambda>criteria.
        Some (Q_Noul instructions criteria))))
      else if tag = ''choice'' then
        Option.bind (struct_view [''instructions'', ''criteria''] 2 rest) (\<lambda>kvs.
        Option.bind (need kvs ''instructions'' content_of) (\<lambda>instructions.
        Option.bind (need kvs ''criteria'' (btree_of (option_of content_of))) (\<lambda>criteria.
        Some (Q_Choice instructions criteria))))
      else if tag = ''score'' then
        Option.bind (struct_view [''instructions'', ''criteria''] 2 rest) (\<lambda>kvs.
        Option.bind (need kvs ''instructions'' content_of) (\<lambda>instructions.
        Option.bind (need kvs ''criteria'' (vec_of content_of)) (\<lambda>criteria.
        Some (Q_Score instructions criteria))))
      else if tag = ''box'' then
        Option.bind (struct_view [''instructions''] 1 rest) (\<lambda>kvs.
        Option.bind (need kvs ''instructions'' content_of) (\<lambda>instructions.
        Some (Q_Box instructions)))
      else None)"

text \<open>The tag is a key of an object, or the first element of an array.\<close>

definition question_of :: "json \<Rightarrow> systemone_question option" where
  "question_of j =
     (case j of
        JObj kvs \<Rightarrow>
          if occurrences ''type'' kvs \<noteq> 1 then None
          else Option.bind (need kvs ''type'' as_str) (\<lambda>tag.
            question_variant tag (JObj (filter (\<lambda>(k, _). k \<noteq> ''type'') kvs)))
      | JArr (t # rest) \<Rightarrow> Option.bind (as_str t) (\<lambda>tag. question_variant tag (JArr rest))
      | _ \<Rightarrow> None)"

definition asset_type_of :: "json \<Rightarrow> image_asset_type option" where
  "asset_type_of j = Option.bind (unit_variant j) (\<lambda>s. if s = ''image'' then Some Asset_Image else None)"

definition image_format_of :: "json \<Rightarrow> image_format option" where
  "image_format_of j = Option.bind (unit_variant j) (\<lambda>s.
     if s = ''png'' then Some Png else if s = ''jpg'' then Some Jpg else if s = ''jpeg'' then Some Jpeg else None)"

definition image_asset_of :: "json \<Rightarrow> image_asset option" where
  "image_asset_of j =
     Option.bind (struct_view [''type'', ''format'', ''data_base64''] 3 j) (\<lambda>kvs.
     Option.bind (want kvs ''type'' asset_type_of) (\<lambda>t.
     Option.bind (need kvs ''format'' image_format_of) (\<lambda>f.
     Option.bind (need kvs ''data_base64'' as_str) (\<lambda>d.
     Some \<lparr>ia_asset_type = t, ia_format = f, ia_data_base64 = d\<rparr>))))"

definition systemone_request_of :: "json \<Rightarrow> systemone_request option" where
  "systemone_request_of j =
     Option.bind (struct_view [''model'', ''state'', ''questions'', ''assets''] 3 j) (\<lambda>kvs.
     Option.bind (need kvs ''model'' as_str) (\<lambda>model.
     Option.bind (need kvs ''state'' content_of) (\<lambda>state.
     Option.bind (need kvs ''questions'' (btree_of question_of)) (\<lambda>questions.
     Option.bind (want kvs ''assets'' (btree_of image_asset_of)) (\<lambda>assets.
     Some \<lparr>sq_model = model, sq_state = state, sq_questions = questions, sq_assets = assets\<rparr>)))))"

section \<open>Well-formed values\<close>

primrec wf_json :: "json \<Rightarrow> bool" where
  "wf_json JNull \<longleftrightarrow> True"
| "wf_json (JBool b) \<longleftrightarrow> True"
| "wf_json (JNum t) \<longleftrightarrow> True"
| "wf_json (JStr s) \<longleftrightarrow> True"
| "wf_json (JArr xs) \<longleftrightarrow> list_all id (map wf_json xs)"
| "wf_json (JObj kvs) \<longleftrightarrow> ordered_keys kvs \<and> list_all snd (map (map_prod id wf_json) kvs)"

definition wf_btree :: "('v \<Rightarrow> bool) \<Rightarrow> 'v btree \<Rightarrow> bool" where
  "wf_btree ok kvs \<longleftrightarrow> ordered_keys kvs \<and> list_all (\<lambda>(_, v). ok v) kvs"

definition wf_content :: "systemone_content \<Rightarrow> bool" where
  "wf_content c = (case c of Text s \<Rightarrow> True | Object kvs \<Rightarrow> wf_btree wf_json kvs | Array xs \<Rightarrow> list_all wf_json xs)"

definition wf_question :: "systemone_question \<Rightarrow> bool" where
  "wf_question q = (case q of
       Q_Noul i c \<Rightarrow> wf_content i \<and> pred_option (wf_btree wf_content) c
     | Q_Choice i c \<Rightarrow> wf_content i \<and> wf_btree (pred_option wf_content) c
     | Q_Score i c \<Rightarrow> wf_content i \<and> list_all wf_content c
     | Q_Box i \<Rightarrow> wf_content i)"

definition wf_request :: "systemone_request \<Rightarrow> bool" where
  "wf_request r \<longleftrightarrow> wf_content (sq_state r) \<and> wf_btree wf_question (sq_questions r)
     \<and> pred_option (wf_btree (\<lambda>_. True)) (sq_assets r)"

definition wf_answer :: "'f systemone_answer \<Rightarrow> bool" where
  "wf_answer a = (case a of
       Noul noul extra \<Rightarrow> wf_btree wf_json extra
     | Choice choice confidence probabilities extra \<Rightarrow> wf_btree (\<lambda>_. True) probabilities \<and> wf_btree wf_json extra
     | Score score confidence probabilities legend extra \<Rightarrow>
         wf_btree (\<lambda>_. True) probabilities \<and> wf_btree wf_content legend \<and> wf_btree wf_json extra
     | Box bounds confidence extra \<Rightarrow> wf_btree wf_json (bx_extra bounds) \<and> wf_btree wf_json extra)"

definition wf_response :: "'f systemone_response \<Rightarrow> bool" where
  "wf_response r \<longleftrightarrow> wf_btree wf_answer (sr_answers r) \<and> wf_btree wf_json (us_extra (sr_usage r)) \<and> wf_btree wf_json (sr_extra r)"

lemma wf_JObj [simp]: "wf_json (JObj kvs) \<longleftrightarrow> wf_btree wf_json kvs"
  by (auto simp: wf_btree_def list_all_iff)

lemma wf_JArr [simp]: "wf_json (JArr xs) \<longleftrightarrow> list_all wf_json xs"
  by (auto simp: list_all_iff)

declare wf_json.simps(5,6) [simp del]

section \<open>Maps from the wire\<close>

lemma bt_insert_ordered: "ordered_keys kvs \<Longrightarrow> ordered_keys (bt_insert k v kvs)"
proof (induction k v kvs rule: bt_insert.induct)
  case (2 k v k' v' kvs)
  then show ?case by (auto dest: str_less_trans str_less_total)
qed simp

lemma set_bt_insert: "set (bt_insert k v kvs) \<subseteq> insert (k, v) (set kvs)"
  by (induction k v kvs rule: bt_insert.induct) auto

lemma btree_from_aux:
  "ordered_keys acc \<Longrightarrow> ordered_keys (fold (\<lambda>(k, v). bt_insert k v) kvs acc)
     \<and> set (fold (\<lambda>(k, v). bt_insert k v) kvs acc) \<subseteq> set kvs \<union> set acc"
proof (induction kvs arbitrary: acc)
  case (Cons x kvs)
  obtain k v where x: "x = (k, v)" by force
  from Cons.IH [OF bt_insert_ordered [OF Cons.prems, of k v]] set_bt_insert [of k v acc] x show ?case by auto
qed simp

lemma btree_from_ordered: "ordered_keys (btree_from kvs)" and btree_from_set: "set (btree_from kvs) \<subseteq> set kvs"
  using btree_from_aux [of "[]" kvs] by (simp_all add: btree_from_def)

lemma map_of_btree_from: "map_of (btree_from kvs) k = map_of (rev kvs) k"
  using map_of_fold_bt_insert [of "\<lambda>v. v" kvs "[]" k] by (simp add: btree_from_def split: option.split)

lemma btree_from_id [simp]: "ordered_keys kvs \<Longrightarrow> btree_from kvs = kvs"
  by (rule ordered_keys_eq) (simp_all add: btree_from_ordered fun_eq_iff map_of_btree_from map_of_rev_ordered)

lemma ordered_keys_map [simp]: "ordered_keys (map (map_prod id f) kvs) = ordered_keys kvs"
  by (induction kvs rule: ordered_keys.induct) (auto simp: image_image)

lemma wf_json_value: "wf_json (json_value j)"
proof (induction j)
  case (JObj kvs)
  have "wf_json v" if "(k, v) \<in> set (btree_from (map (map_prod id json_value) kvs))" for k v
    using subsetD [OF btree_from_set that] JObj by (auto simp: snds.simps)
  then show ?case by (auto simp: wf_btree_def btree_from_ordered list_all_iff)
qed (auto simp: list_all_iff)

lemma json_value_wf: "wf_json j \<Longrightarrow> json_value j = j"
proof (induction j)
  case (JArr xs)
  then show ?case by (auto simp: list_all_iff intro: map_idI)
next
  case (JObj kvs)
  have "map (map_prod id json_value) kvs = kvs"
    using JObj by (intro map_idI) (auto simp: wf_btree_def list_all_iff snds.simps)
  with JObj.prems show ?case by (simp add: wf_btree_def)
qed simp_all


section \<open>Decoded values are well-formed\<close>

lemma content_of_wf: "content_of j = Some c \<Longrightarrow> wf_content c"
  using wf_json_value [of j] by (auto simp: content_of_def wf_content_def split: json.splits)

lemma btree_of_wf:
  assumes "btree_of decode j = Some kvs" and "\<And>x v. decode x = Some v \<Longrightarrow> ok v"
  shows "wf_btree ok kvs"
proof -
  from assms(1) obtain fields vs where *: "all_some (map (decode \<circ> snd) fields) = Some vs"
      "kvs = btree_from (zip (map fst fields) vs)"
    by (auto simp: btree_of_def split: json.splits)
  have "ok v" if v: "(k, v) \<in> set kvs" for k v
  proof -
    from subsetD [OF btree_from_set v [unfolded *(2)]] have "v \<in> set vs" by (rule set_zip_rightD)
    then have "Some v \<in> set (map Some vs)" by simp
    also have "map Some vs = map (decode \<circ> snd) fields" using *(1) by (simp add: all_some_Some)
    finally obtain x where "decode x = Some v" by auto
    then show ?thesis by (rule assms(2))
  qed
  then show ?thesis by (auto simp: wf_btree_def *(2) btree_from_ordered list_all_iff)
qed

lemma flat_view_wf: "flat_view names j = Some (kvs, extra) \<Longrightarrow> wf_btree wf_json extra"
  using btree_from_set wf_json_value
  by (fastforce simp: flat_view_def wf_btree_def btree_from_ordered list_all_iff split: json.splits if_splits)

lemma option_of_wf: "option_of decode j = Some m \<Longrightarrow> (\<And>x v. decode x = Some v \<Longrightarrow> ok v) \<Longrightarrow> pred_option ok m"
  by (auto simp: option_of_def split: json.splits)

lemma want_wf: "want kvs k decode = Some m \<Longrightarrow> (\<And>x v. decode x = Some v \<Longrightarrow> ok v) \<Longrightarrow> pred_option ok m"
  by (auto simp: want_def split: option.splits json.splits)

lemma vec_of_wf: "vec_of decode j = Some vs \<Longrightarrow> (\<And>x v. decode x = Some v \<Longrightarrow> ok v) \<Longrightarrow> list_all ok vs"
proof -
  assume *: "vec_of decode j = Some vs" "\<And>x v. decode x = Some v \<Longrightarrow> ok v"
  then obtain xs where xs: "map decode xs = map Some vs"
    by (auto simp: vec_of_def bind_eq_Some_conv all_some_Some)
  show "list_all ok vs"
    unfolding list_all_iff
  proof
    fix v
    assume "v \<in> set vs"
    then have "Some v \<in> set (map decode xs)" by (simp add: xs)
    then obtain x where "decode x = Some v" by auto
    then show "ok v" by (rule *(2))
  qed
qed

lemma question_variant_wf: "question_variant tag rest = Some q \<Longrightarrow> wf_question q"
  by (auto simp: question_variant_def wf_question_def bind_eq_Some_conv need_Some intro: content_of_wf
      dest!: want_wf [where ok = "wf_btree wf_content"] btree_of_wf [where ok = "pred_option wf_content"]
        vec_of_wf [where ok = wf_content]
      elim!: option_of_wf btree_of_wf split: if_splits)

lemma question_of_wf: "question_of j = Some q \<Longrightarrow> wf_question q"
  by (auto simp: question_of_def bind_eq_Some_conv split: json.splits list.splits if_splits dest: question_variant_wf)

lemma systemone_request_of_wf: "systemone_request_of j = Some r \<Longrightarrow> wf_request r"
  by (auto simp: systemone_request_of_def wf_request_def bind_eq_Some_conv need_Some
      intro: content_of_wf btree_of_wf question_of_wf want_wf [OF _ btree_of_wf])

lemma answer_of_wf: "answer_of F j = Some a \<Longrightarrow> wf_answer a"
  by (auto simp: answer_of_def wf_answer_def Let_def bind_eq_Some_conv need_Some number_field_def box_coordinates_of_def
      split: if_splits)
    (erule flat_view_wf | erule btree_of_wf, rule TrueI | erule btree_of_wf, erule content_of_wf)+

lemma systemone_response_of_wf: "systemone_response_of F j = Some r \<Longrightarrow> wf_response r"
  by (auto simp: systemone_response_of_def wf_response_def usage_of_def bind_eq_Some_conv need_Some
      intro: flat_view_wf btree_of_wf answer_of_wf)

section \<open>Round trips\<close>

lemma content_round_trip: "wf_content c \<Longrightarrow> content_of (content_json c) = Some c"
  by (cases c) (auto simp: content_of_def content_json_def wf_content_def json_value_wf
      json_value_wf [of "JArr _", simplified] json_value_wf [of "JObj _", simplified] simp del: json_value.simps(5,6))

lemma btree_round_trip:
  assumes "wf_btree ok kvs" and "\<And>v. ok v \<Longrightarrow> decode (enc v) = Some v"
  shows "btree_of decode (btree_json enc kvs) = Some kvs"
proof -
  have "map (decode \<circ> snd) (map (map_prod id enc) kvs) = map Some (map snd kvs)"
    using assms by (auto simp: wf_btree_def list_all_iff)
  then have "all_some (map (decode \<circ> snd) (map (map_prod id enc) kvs)) = Some (map snd kvs)"
    unfolding all_some_Some .
  then show ?thesis using assms(1) by (simp add: btree_of_def btree_json_def wf_btree_def zip_map_fst_snd comp_def)
qed

lemma option_round_trip:
  "pred_option ok m \<Longrightarrow> (\<And>v. ok v \<Longrightarrow> decode (enc v) = Some v) \<Longrightarrow> (\<And>v. enc v \<noteq> JNull) \<Longrightarrow>
     option_of decode (option_json enc m) = Some m"
proof -
  assume m: "pred_option ok m" "\<And>v. ok v \<Longrightarrow> decode (enc v) = Some v" "\<And>v. enc v \<noteq> JNull"
  have "option_of decode j = map_option Some (decode j)" if "j \<noteq> JNull" for j
    using that by (cases j) (simp_all add: option_of_def)
  with m show ?thesis by (cases m) (simp_all add: option_json_def option_of_def [of _ JNull])
qed

lemma vec_round_trip:
  "list_all ok vs \<Longrightarrow> (\<And>v. ok v \<Longrightarrow> decode (enc v) = Some v) \<Longrightarrow> vec_of decode (JArr (map enc vs)) = Some vs"
  by (auto simp: vec_of_def all_some_Some list_all_iff)

lemma content_json_nonnull [simp]: "content_json c \<noteq> JNull"
  by (cases c) (simp_all add: content_json_def)

lemma btree_json_nonnull: "btree_json enc kvs \<noteq> JNull" and asset_type_json_nonnull: "asset_type_json t \<noteq> JNull"
  by (simp_all add: btree_json_def asset_type_json_def split: image_asset_type.split)

lemma want_simps:
  "want [] k d = Some None"
  "want ((k', v) # kvs) k d = (if k = k' then (if v = JNull then Some None else map_option Some (d v)) else want kvs k d)"
  by (auto simp: want_def split: json.splits)

lemma question_round_trip:
  assumes "wf_question q"
  shows "question_of (question_json q) = Some q"
proof (cases q)
  case (Q_Noul i c)
  then show ?thesis using assms
    by (cases c) (auto simp: question_json_def question_of_def question_variant_def wf_question_def need_def skip_none_def
        struct_view_def no_repeats_def content_round_trip btree_round_trip [OF _ content_round_trip] btree_json_nonnull want_simps)
next
  case (Q_Choice i c)
  have "option_of content_of (option_json content_json m) = Some m" if "pred_option wf_content m" for m
    using that by (rule option_round_trip) (simp_all add: content_round_trip)
  then have "btree_of (option_of content_of) (btree_json (option_json content_json) c) = Some c"
    using btree_round_trip [of "pred_option wf_content" c "option_of content_of" "option_json content_json"] Q_Choice assms
    by (simp add: wf_question_def)
  with Q_Choice assms show ?thesis
    by (simp add: question_json_def question_of_def question_variant_def wf_question_def need_def struct_view_def no_repeats_def
        content_round_trip)
next
  case (Q_Score i c)
  then have "vec_of content_of (JArr (map content_json c)) = Some c"
    using assms by (intro vec_round_trip [of wf_content]) (simp_all add: wf_question_def content_round_trip)
  with Q_Score assms show ?thesis
    by (simp add: question_json_def question_of_def question_variant_def wf_question_def need_def struct_view_def no_repeats_def
        content_round_trip)
next
  case (Q_Box i)
  with assms show ?thesis
    by (simp add: question_json_def question_of_def question_variant_def wf_question_def need_def struct_view_def no_repeats_def
        content_round_trip)
qed

lemma image_asset_round_trip: "image_asset_of (image_asset_json a) = Some a"
proof -
  have f: "image_format_of (image_format_json (ia_format a)) = Some (ia_format a)"
    by (cases "ia_format a") (simp_all add: image_format_of_def image_format_json_def)
  show ?thesis
    by (cases "ia_asset_type a"; cases a)
      (use f in \<open>auto simp: image_asset_of_def image_asset_json_def skip_none_def struct_view_def no_repeats_def need_def want_def
        asset_type_of_def asset_type_json_def split: image_asset_type.splits\<close>)
qed

lemma systemone_request_round_trip:
  assumes "wf_request r"
  shows "systemone_request_of (systemone_request_json r) = Some r"
proof -
  have q: "btree_of question_of (btree_json question_json (sq_questions r)) = Some (sq_questions r)"
    using assms by (auto simp: wf_request_def intro: btree_round_trip question_round_trip)
  have a: "btree_of image_asset_of (btree_json image_asset_json kvs) = Some kvs" if "wf_btree (\<lambda>_. True) kvs" for kvs
    using that by (rule btree_round_trip) (rule image_asset_round_trip)
  show ?thesis
    using assms q a
    by (cases "sq_assets r") (auto simp: systemone_request_of_def systemone_request_json_def wf_request_def skip_none_def
        struct_view_def no_repeats_def need_def content_round_trip want_simps btree_json_nonnull)
qed


section \<open>Properties\<close>

text \<open>
  Documented behaviour of \<open>serde_json\<close>: a document it can hold, printed, reads back if it nests no deeper than its reader
  goes, and as a \<open>Value\<close> it has each object's keys ordered, the last of repeated ones kept.
\<close>

definition document_laws :: "'z net_prims_scheme \<Rightarrow> bool" where
  "document_laws P \<longleftrightarrow> (\<forall>j. readable j \<longrightarrow>
     json_document P (as_bytes (json_print P j)) = Some j \<and> json_parse P (as_bytes (json_print P j)) = Some (json_value j))"

text \<open>C33: A typed request reaches the other side as it was built, as long as its JSON nests no deeper than 127 levels. The
  bytes \<open>serde_json::to_vec\<close> makes of a request pass \<open>systemone_create\<close>'s own checks, which ask for a session of
  the very model it names, and decode to the same request, with every question, criterion and asset in place.\<close>

theorem typed_request_round_trips:
  assumes "document_laws P" and "wf_request r" and "sq_model r \<noteq> []" and "readable (systemone_request_json r)"
    and "body = as_bytes (json_print P (systemone_request_json r))"
  shows "Option.bind (json_document P body) systemone_request_of = Some r \<and> systemone_model P body = Inr (sq_model r)"
proof
  have body: "json_document P body = Some (systemone_request_json r)" "json_parse P body = Some (json_value (systemone_request_json r))"
    using assms(1,4,5) by (simp_all add: document_laws_def)
  then show "Option.bind (json_document P body) systemone_request_of = Some r"
    by (simp add: systemone_request_round_trip [OF assms(2)])
  obtain kvs where kvs: "json_value (systemone_request_json r) = JObj kvs"
      "map_of kvs ''model'' = Some (JStr (sq_model r))" "map_of kvs ''stream'' = None"
    by (cases "sq_assets r") (simp_all add: systemone_request_json_def map_of_btree_from skip_none_def)
  then show "systemone_model P body = Inr (sq_model r)" using body(2) assms(3) by (simp add: systemone_model_def)
qed

definition demo_request :: systemone_request where
  "demo_request = \<lparr>sq_model = ''m'', sq_state = Object [(''a'', JNull), (''b'', JArr [])],
     sq_questions = [(''p'', Q_Choice (Text ''t'') [(''x'', None), (''y'', Some (Array [JNum ''1'']))]), (''q'', Q_Noul (Text ''u'') None)],
     sq_assets = Some [(''i'', \<lparr>ia_asset_type = Some Asset_Image, ia_format = Png, ia_data_base64 = ''AA''\<rparr>)]\<rparr>"

definition demo_documents :: "unit e2ee_prims" where
  "demo_documents = demo_e2ee\<lparr>json_document := json_parse demo_e2ee, json_parse := \<lambda>b. map_option json_value (json_parse demo_e2ee b)\<rparr>"

lemma demo_documents_laws: "document_laws demo_documents"
  using demo_e2ee_laws(3) by (simp add: document_laws_def json_roundtrip_def demo_documents_def)

lemma demo_request_wf: "wf_request demo_request"
  by (simp add: demo_request_def wf_request_def wf_content_def wf_question_def wf_btree_def)

lemma demo_request_readable: "readable (systemone_request_json demo_request)"
proof -
  have "number_literal ''1''" by code_simp
  then show ?thesis
    by (simp add: demo_request_def systemone_request_json_def content_json_def btree_json_def question_json_def option_json_def
        image_asset_json_def asset_type_json_def image_format_json_def skip_none_def readable_def rust_ascii number_key_def)
qed

lemma typed_request_round_trips_witness:
  "\<exists>body. body = as_bytes (json_print demo_documents (systemone_request_json demo_request))
     \<and> Option.bind (json_document demo_documents body) systemone_request_of = Some demo_request
     \<and> systemone_model demo_documents body = Inr ''m''"
  using typed_request_round_trips [OF demo_documents_laws demo_request_wf _ demo_request_readable refl] by (simp add: demo_request_def)

end
