(* ===== verification/Dcap_Helper.thy ===== *)
theory Dcap_Helper
  imports Systemone_Request
begin

text \<open>
  \<open>wasm-src/src/main.rs\<close> and \<open>serialization.rs\<close>: the DCAP helper the Go SDK runs as a WebAssembly program. It reads one
  JSON request, calls \<open>dcap_qvl\<close> and prints one JSON answer. The crate \<open>dcap_qvl\<close>, the texts of foreign errors and
  the codecs are operations of the environment; the reports are as the code takes them apart.
\<close>

section \<open>What the environment provides\<close>

record enclave_report =
  er_cpu_svn :: bytes
  er_misc_select :: "32 word"
  er_attributes :: bytes
  er_mr_enclave :: bytes
  er_mr_signer :: bytes
  er_isv_prod_id :: u16
  er_isv_svn :: u16
  er_report_data :: bytes

record td_report10 =
  td_tee_tcb_svn :: bytes
  td_mr_seam :: bytes
  td_mr_signer_seam :: bytes
  td_seam_attributes :: bytes
  td_td_attributes :: bytes
  td_xfam :: bytes
  td_mr_td :: bytes
  td_mr_config_id :: bytes
  td_mr_owner :: bytes
  td_mr_owner_config :: bytes
  td_rt_mr0 :: bytes
  td_rt_mr1 :: bytes
  td_rt_mr2 :: bytes
  td_rt_mr3 :: bytes
  td_report_data :: bytes

record td_report15 =
  t15_base :: td_report10
  t15_tee_tcb_svn2 :: bytes
  t15_mr_service_td :: bytes

text \<open>
  A report is one of \<open>dcap_qvl\<close>'s structs: the fields the helper reads, and whatever else the struct holds (reserved bytes,
  the extension of a \<open>TD15Ex\<close>), a type parameter.
\<close>

datatype 'x qvl_report =
    Sgx_Enclave enclave_report 'x
  | TD10 td_report10 'x
  | TD15 td_report15 'x
  | TD15Ex td_report15 'x

record ppid_params =
  pp_encrypted_ppid :: bytes
  pp_cpusvn :: bytes
  pp_pcesvn :: u16
  pp_pceid :: bytes

record 'x qvl_verified =
  qv_status :: string
  qv_advisory_ids :: "string list"
  qv_report :: "'x qvl_report"
  qv_ppid :: bytes
  qv_qe_status :: json
  qv_platform_status :: json

record pck_extension =
  pk_ppid :: bytes
  pk_cpu_svn :: bytes
  pk_pce_svn :: u16
  pk_pce_id :: bytes
  pk_fmspc :: bytes
  pk_sgx_type :: "64 word"
  pk_platform_instance_id :: "bytes option"
  pk_raw_extension :: bytes

text \<open>An \<open>anyhow::Result\<close>: the error is the text \<open>{error:#}\<close> prints.\<close>

type_synonym 'a any = "(string, 'a) outcome"

record ('c, 'q, 'x) qvl_prims = net_prims +
  collateral_of :: "json \<Rightarrow> 'c option"
  request_fault :: "bytes \<Rightarrow> string"
  hex_fault :: "string \<Rightarrow> string"
  hex_encode_upper :: "bytes \<Rightarrow> string"
  quote_decode :: "bytes \<Rightarrow> 'q any"
  quote_header :: "'q \<Rightarrow> json"
  quote_is_sgx :: "'q \<Rightarrow> bool"
  quote_body :: "'q \<Rightarrow> 'x qvl_report"
  inner_cert_type :: "'q \<Rightarrow> u16"
  raw_cert_chain :: "'q \<Rightarrow> bytes option"
  quote_fmspc :: "'q \<Rightarrow> bytes any"
  quote_ca :: "'q \<Rightarrow> string any"
  encrypted_ppid_params :: "'q \<Rightarrow> ppid_params option"
  quote_qeid :: "'q \<Rightarrow> bytes"
  qvl_verify :: "bytes option \<Rightarrow> bytes \<Rightarrow> 'c \<Rightarrow> nat \<Rightarrow> 'x qvl_verified any"
  parse_pck_extension :: "bytes \<Rightarrow> pck_extension any"

section \<open>Reports as JSON\<close>

record ffi_report =
  fr_type :: string
  fr_report_data :: bytes
  fr_tee_tcb_svn :: "bytes option"
  fr_mr_seam :: "bytes option"
  fr_mr_signer_seam :: "bytes option"
  fr_seam_attributes :: "bytes option"
  fr_td_attributes :: "bytes option"
  fr_xfam :: "bytes option"
  fr_mr_td :: "bytes option"
  fr_mr_config_id :: "bytes option"
  fr_mr_owner :: "bytes option"
  fr_mr_owner_config :: "bytes option"
  fr_rt_mr0 :: "bytes option"
  fr_rt_mr1 :: "bytes option"
  fr_rt_mr2 :: "bytes option"
  fr_rt_mr3 :: "bytes option"
  fr_tee_tcb_svn2 :: "bytes option"
  fr_mr_service_td :: "bytes option"
  fr_cpu_svn :: "bytes option"
  fr_misc_select :: "32 word option"
  fr_attributes :: "bytes option"
  fr_mr_enclave :: "bytes option"
  fr_mr_signer :: "bytes option"
  fr_isv_prod_id :: "u16 option"
  fr_isv_svn :: "u16 option"

definition from_td10 :: "td_report10 \<Rightarrow> ffi_report" where
  "from_td10 r = \<lparr>fr_type = ''TD10'', fr_report_data = td_report_data r,
     fr_tee_tcb_svn = Some (td_tee_tcb_svn r), fr_mr_seam = Some (td_mr_seam r),
     fr_mr_signer_seam = Some (td_mr_signer_seam r), fr_seam_attributes = Some (td_seam_attributes r),
     fr_td_attributes = Some (td_td_attributes r), fr_xfam = Some (td_xfam r), fr_mr_td = Some (td_mr_td r),
     fr_mr_config_id = Some (td_mr_config_id r), fr_mr_owner = Some (td_mr_owner r),
     fr_mr_owner_config = Some (td_mr_owner_config r), fr_rt_mr0 = Some (td_rt_mr0 r), fr_rt_mr1 = Some (td_rt_mr1 r),
     fr_rt_mr2 = Some (td_rt_mr2 r), fr_rt_mr3 = Some (td_rt_mr3 r), fr_tee_tcb_svn2 = None, fr_mr_service_td = None,
     fr_cpu_svn = None, fr_misc_select = None, fr_attributes = None, fr_mr_enclave = None, fr_mr_signer = None,
     fr_isv_prod_id = None, fr_isv_svn = None\<rparr>"

definition from_td15 :: "td_report15 \<Rightarrow> ffi_report" where
  "from_td15 r = (from_td10 (t15_base r))\<lparr>fr_type := ''TD15'', fr_tee_tcb_svn2 := Some (t15_tee_tcb_svn2 r),
     fr_mr_service_td := Some (t15_mr_service_td r)\<rparr>"

definition from_sgx :: "enclave_report \<Rightarrow> ffi_report" where
  "from_sgx r = \<lparr>fr_type = ''SGX'', fr_report_data = er_report_data r,
     fr_tee_tcb_svn = None, fr_mr_seam = None, fr_mr_signer_seam = None, fr_seam_attributes = None,
     fr_td_attributes = None, fr_xfam = None, fr_mr_td = None, fr_mr_config_id = None, fr_mr_owner = None,
     fr_mr_owner_config = None, fr_rt_mr0 = None, fr_rt_mr1 = None, fr_rt_mr2 = None, fr_rt_mr3 = None,
     fr_tee_tcb_svn2 = None, fr_mr_service_td = None, fr_cpu_svn = Some (er_cpu_svn r),
     fr_misc_select = Some (er_misc_select r), fr_attributes = Some (er_attributes r),
     fr_mr_enclave = Some (er_mr_enclave r), fr_mr_signer = Some (er_mr_signer r),
     fr_isv_prod_id = Some (er_isv_prod_id r), fr_isv_svn = Some (er_isv_svn r)\<rparr>"

definition from_report :: "'x qvl_report \<Rightarrow> ffi_report" where
  "from_report report = (case report of
       Sgx_Enclave r _ \<Rightarrow> from_sgx r
     | TD10 r _ \<Rightarrow> from_td10 r
     | TD15 r _ \<Rightarrow> from_td15 r
     | TD15Ex r _ \<Rightarrow> (from_td15 r)\<lparr>fr_type := ''TD15Ex''\<rparr>)"

text \<open>\<open>serde_bytes\<close> is the crate \<open>serde-human-bytes\<close>, which writes bytes as hexadecimal text; \<open>opt_hex\<close> is it under \<open>Some\<close>.\<close>

definition hex_json :: "'z prims_scheme \<Rightarrow> bytes \<Rightarrow> json" where
  "hex_json P b = JStr (hex_encode P b)"

definition number_json :: "'a::len word \<Rightarrow> json" where
  "number_json w = JNum (decimal (unat w))"

definition field_some :: "string \<Rightarrow> ('v \<Rightarrow> json) \<Rightarrow> 'v option \<Rightarrow> (string \<times> json) list" where
  "field_some k enc m = (case m of None \<Rightarrow> [] | Some v \<Rightarrow> [(k, enc v)])"

definition ffi_report_json :: "'z prims_scheme \<Rightarrow> ffi_report \<Rightarrow> json" where
  "ffi_report_json P r = (let opt_hex = (\<lambda>k. field_some k (hex_json P)) in
     JObj ([(''type'', JStr (fr_type r)), (''report_data'', hex_json P (fr_report_data r))]
       @ opt_hex ''tee_tcb_svn'' (fr_tee_tcb_svn r) @ opt_hex ''mr_seam'' (fr_mr_seam r)
       @ opt_hex ''mr_signer_seam'' (fr_mr_signer_seam r) @ opt_hex ''seam_attributes'' (fr_seam_attributes r)
       @ opt_hex ''td_attributes'' (fr_td_attributes r) @ opt_hex ''xfam'' (fr_xfam r) @ opt_hex ''mr_td'' (fr_mr_td r)
       @ opt_hex ''mr_config_id'' (fr_mr_config_id r) @ opt_hex ''mr_owner'' (fr_mr_owner r)
       @ opt_hex ''mr_owner_config'' (fr_mr_owner_config r) @ opt_hex ''rt_mr0'' (fr_rt_mr0 r)
       @ opt_hex ''rt_mr1'' (fr_rt_mr1 r) @ opt_hex ''rt_mr2'' (fr_rt_mr2 r) @ opt_hex ''rt_mr3'' (fr_rt_mr3 r)
       @ opt_hex ''tee_tcb_svn2'' (fr_tee_tcb_svn2 r) @ opt_hex ''mr_service_td'' (fr_mr_service_td r)
       @ opt_hex ''cpu_svn'' (fr_cpu_svn r) @ field_some ''misc_select'' number_json (fr_misc_select r)
       @ opt_hex ''attributes'' (fr_attributes r) @ opt_hex ''mr_enclave'' (fr_mr_enclave r)
       @ opt_hex ''mr_signer'' (fr_mr_signer r) @ field_some ''isv_prod_id'' number_json (fr_isv_prod_id r)
       @ field_some ''isv_svn'' number_json (fr_isv_svn r)))"

section \<open>The operations\<close>

text \<open>\<open>String::from_utf8_lossy\<close>: each maximal ill-formed part becomes one U+FFFD.\<close>

definition replacement_character :: string where
  "replacement_character = map char_at [0xEF, 0xBF, 0xBD]"

fun from_utf8_lossy :: "bytes \<Rightarrow> string" where
  "from_utf8_lossy [] = []"
| "from_utf8_lossy (b # bs) =
     (let n = unat b in
      if n < 128 then char_at b # from_utf8_lossy bs
      else if 194 \<le> n \<and> n \<le> 223 then
        (case bs of
           c # r \<Rightarrow> if utf8_tail c then char_at b # char_at c # from_utf8_lossy r
                     else replacement_character @ from_utf8_lossy bs
         | [] \<Rightarrow> replacement_character)
      else if 224 \<le> n \<and> n \<le> 239 then
        (case bs of
           c # r \<Rightarrow>
             if utf8_tail c \<and> (n = 224 \<longrightarrow> 160 \<le> unat c) \<and> (n = 237 \<longrightarrow> unat c \<le> 159) then
               (case r of
                  d # s \<Rightarrow> if utf8_tail d then char_at b # char_at c # char_at d # from_utf8_lossy s
                           else replacement_character @ from_utf8_lossy r
                | [] \<Rightarrow> replacement_character)
             else replacement_character @ from_utf8_lossy bs
         | [] \<Rightarrow> replacement_character)
      else if 240 \<le> n \<and> n \<le> 244 then
        (case bs of
           c # r \<Rightarrow>
             if utf8_tail c \<and> (n = 240 \<longrightarrow> 144 \<le> unat c) \<and> (n = 244 \<longrightarrow> unat c \<le> 143) then
               (case r of
                  d # s \<Rightarrow>
                    if utf8_tail d then
                      (case s of
                         e # t \<Rightarrow> if utf8_tail e then char_at b # char_at c # char_at d # char_at e # from_utf8_lossy t
                                  else replacement_character @ from_utf8_lossy s
                       | [] \<Rightarrow> replacement_character)
                    else replacement_character @ from_utf8_lossy r
                | [] \<Rightarrow> replacement_character)
             else replacement_character @ from_utf8_lossy bs
         | [] \<Rightarrow> replacement_character)
      else replacement_character @ from_utf8_lossy bs)"

declare from_utf8_lossy.simps(2) [simp del]

definition rposition :: "('a \<Rightarrow> bool) \<Rightarrow> 'a list \<Rightarrow> nat option" where
  "rposition p xs = (case filter (\<lambda>i. p (xs ! i)) [0..<length xs] of [] \<Rightarrow> None | is \<Rightarrow> Some (last is))"

definition cert_chain_text :: "bytes \<Rightarrow> string" where
  "cert_chain_text raw = (case rposition (\<lambda>b. b \<noteq> 0) raw of
       None \<Rightarrow> from_utf8_lossy [] | Some end' \<Rightarrow> from_utf8_lossy (take (Suc end') raw))"

record ffi_quote =
  fq_header :: json
  fq_report :: ffi_report
  fq_cert_type :: u16
  fq_cert_chain_pem :: "string option"
  fq_fmspc :: "string option"
  fq_ca :: "string option"
  fq_quote_type :: string
  fq_qe_id :: "bytes option"
  fq_encrypted_ppid :: "bytes option"
  fq_cert_cpusvn :: "bytes option"
  fq_cert_pcesvn :: "u16 option"
  fq_cert_pceid :: "bytes option"

definition ffi_quote_json :: "'z prims_scheme \<Rightarrow> ffi_quote \<Rightarrow> json" where
  "ffi_quote_json P x = JObj ([(''header'', fq_header x), (''report'', ffi_report_json P (fq_report x)),
       (''cert_type'', number_json (fq_cert_type x))]
     @ field_some ''cert_chain_pem'' JStr (fq_cert_chain_pem x) @ field_some ''fmspc'' JStr (fq_fmspc x)
     @ field_some ''ca'' JStr (fq_ca x) @ [(''quote_type'', JStr (fq_quote_type x))]
     @ field_some ''qe_id'' (hex_json P) (fq_qe_id x) @ field_some ''encrypted_ppid'' (hex_json P) (fq_encrypted_ppid x)
     @ field_some ''cert_cpusvn'' (hex_json P) (fq_cert_cpusvn x) @ field_some ''cert_pcesvn'' number_json (fq_cert_pcesvn x)
     @ field_some ''cert_pceid'' (hex_json P) (fq_cert_pceid x))"

text \<open>\<open>serde_json::to_value\<close> makes a \<open>Value\<close> of a struct: \<open>json_value\<close> orders its fields.\<close>

definition parse_quote :: "('c, 'q, 'x, 'z) qvl_prims_scheme \<Rightarrow> bytes \<Rightarrow> json any" where
  "parse_quote P raw =
     rbind (quote_decode P raw) (\<lambda>parsed.
     let cert_type = inner_cert_type P parsed;
         quote_type = (if quote_is_sgx P parsed then ''SGX'' else ''TDX'');
         cert_chain_pem = map_option cert_chain_text (raw_cert_chain P parsed) in
     rbind (if cert_chain_pem \<noteq> None then
              rbind (quote_fmspc P parsed) (\<lambda>fmspc.
              rbind (quote_ca P parsed) (\<lambda>ca.
              Inr (Some (hex_encode_upper P fmspc), Some ca)))
            else Inr (None, None)) (\<lambda>(fmspc, ca).
     let params = encrypted_ppid_params P parsed in
     Inr (json_value (ffi_quote_json P
       \<lparr>fq_header = quote_header P parsed, fq_report = from_report (quote_body P parsed), fq_cert_type = cert_type,
        fq_cert_chain_pem = cert_chain_pem, fq_fmspc = fmspc, fq_ca = ca, fq_quote_type = quote_type,
        fq_qe_id = map_option (\<lambda>_. quote_qeid P parsed) params, fq_encrypted_ppid = map_option pp_encrypted_ppid params,
        fq_cert_cpusvn = map_option pp_cpusvn params, fq_cert_pcesvn = map_option pp_pcesvn params,
        fq_cert_pceid = map_option pp_pceid params\<rparr>))))"

definition verified_report_json :: "'z prims_scheme \<Rightarrow> 'x qvl_verified \<Rightarrow> json" where
  "verified_report_json P vr = JObj [(''status'', JStr (qv_status vr)), (''advisory_ids'', JArr (map JStr (qv_advisory_ids vr))),
     (''report'', ffi_report_json P (from_report (qv_report vr))), (''ppid'', hex_json P (qv_ppid vr)),
     (''qe_status'', qv_qe_status vr), (''platform_status'', qv_platform_status vr)]"

definition verify_quote :: "('c, 'q, 'x, 'z) qvl_prims_scheme \<Rightarrow> bytes \<Rightarrow> 'c \<Rightarrow> nat \<Rightarrow> bytes option \<Rightarrow> json any" where
  "verify_quote P raw collateral now root =
     rbind (qvl_verify P root raw collateral now) (\<lambda>report. Inr (json_value (verified_report_json P report)))"

definition pck_extension_json :: "'z prims_scheme \<Rightarrow> pck_extension \<Rightarrow> json" where
  "pck_extension_json P x = JObj ([(''ppid'', hex_json P (pk_ppid x)), (''cpu_svn'', hex_json P (pk_cpu_svn x)),
       (''pce_svn'', number_json (pk_pce_svn x)), (''pce_id'', hex_json P (pk_pce_id x)), (''fmspc'', hex_json P (pk_fmspc x)),
       (''sgx_type'', number_json (pk_sgx_type x))]
     @ field_some ''platform_instance_id'' (hex_json P) (pk_platform_instance_id x)
     @ [(''raw_extension'', hex_json P (pk_raw_extension x))])"

definition pck :: "('c, 'q, 'x, 'z) qvl_prims_scheme \<Rightarrow> bytes \<Rightarrow> json any" where
  "pck P raw = rbind (parse_pck_extension P raw) (\<lambda>x. Inr (json_value (pck_extension_json P x)))"

section \<open>The program\<close>

record 'c helper_request =
  hq_operation :: string
  hq_input :: string
  hq_collateral :: "'c option"
  hq_now :: "nat option"
  hq_root :: "string option"

definition helper_request_of :: "('c, 'q, 'x, 'z) qvl_prims_scheme \<Rightarrow> json \<Rightarrow> 'c helper_request option" where
  "helper_request_of P j =
     Option.bind (struct_view [''operation'', ''input'', ''collateral'', ''now'', ''root''] 5 j) (\<lambda>kvs.
     Option.bind (need kvs ''operation'' as_str) (\<lambda>operation.
     Option.bind (need kvs ''input'' as_str) (\<lambda>inp.
     Option.bind (want kvs ''collateral'' (collateral_of P)) (\<lambda>collateral.
     Option.bind (want kvs ''now'' as_u64) (\<lambda>now.
     Option.bind (want kvs ''root'' as_str) (\<lambda>root.
     Some \<lparr>hq_operation = operation, hq_input = inp, hq_collateral = collateral, hq_now = now, hq_root = root\<rparr>))))))"

text \<open>Standard input: its bytes, and the error that ends them, if one does.\<close>

record stdin_source =
  in_bytes :: bytes
  in_error :: "string option"

definition verifier_limit :: nat where
  "verifier_limit = 16 * 1024 * 1024"

text \<open>\<open>stdin().take(n).read_to_end(..)\<close>\<close>

definition read_take :: "nat \<Rightarrow> stdin_source \<Rightarrow> bytes any" where
  "read_take n source =
     (if n \<le> length (in_bytes source) then Inr (take n (in_bytes source))
      else case in_error source of None \<Rightarrow> Inr (in_bytes source) | Some e \<Rightarrow> fail e)"

definition hex_any :: "('c, 'q, 'x, 'z) qvl_prims_scheme \<Rightarrow> string \<Rightarrow> bytes any" where
  "hex_any P s = ok_or (hex_fault P s) (hex_decode P s)"

definition run_helper :: "('c, 'q, 'x, 'z) qvl_prims_scheme \<Rightarrow> stdin_source \<Rightarrow> json any" where
  "run_helper P source =
     rbind (read_take (verifier_limit + 1) source) (\<lambda>inp.
     rbind (ensure (\<not> verifier_limit < length inp) ''input exceeds verifier limit'') (\<lambda>_.
     rbind (ok_or (request_fault P inp) (Option.bind (json_document P inp) (helper_request_of P))) (\<lambda>request.
     rbind (hex_any P (hq_input request)) (\<lambda>raw.
     if hq_operation request = ''parse'' then parse_quote P raw
     else if hq_operation request = ''pck'' then pck P raw
     else if hq_operation request = ''verify'' then
       rbind (ok_or ''missing collateral'' (hq_collateral request)) (\<lambda>collateral.
       rbind (ok_or ''missing verification time'' (hq_now request)) (\<lambda>now.
       rbind (case hq_root request of None \<Rightarrow> Inr None | Some s \<Rightarrow> rbind (hex_any P s) (\<lambda>b. Inr (Some b))) (\<lambda>root.
       verify_quote P raw collateral now root)))
     else fail ''unknown operation''))))"

text \<open>\<open>main\<close>, as the line it prints; a panic prints none.\<close>

definition helper_main :: "('c, 'q, 'x, 'z) qvl_prims_scheme \<Rightarrow> stdin_source \<Rightarrow> string option" where
  "helper_main P source =
     (case run_helper P source of
        Inr value' \<Rightarrow> Some (json_print P (JObj [(''result'', value')]) @ [CHR 10])
      | Inl (Err e) \<Rightarrow> Some (json_print P (JObj [(''error'', JStr e)]) @ [CHR 10])
      | Inl (Panic _) \<Rightarrow> None)"


section \<open>Reading the answers\<close>

lemma jget_json_value: "jget (json_value (JObj kvs)) k = map_option json_value (map_of (rev kvs) k)"
  by (simp add: map_of_btree_from rev_map map_of_map map_prod_def)

lemma rev_field_some [simp]: "rev (field_some k enc m) = field_some k enc m"
  by (simp add: field_some_def split: option.split)

lemma map_of_field_some [simp]: "map_of (field_some k enc m) k' = (if k' = k then map_option enc m else None)"
  by (simp add: field_some_def split: option.split)

lemma hex_json_inject: "hex_roundtrip P \<Longrightarrow> hex_json P b = hex_json P c \<longleftrightarrow> b = c"
  by (simp add: hex_json_def hex_encode_inject)

lemma number_json_inject [simp]: "number_json v = number_json w \<longleftrightarrow> v = w"
  by (simp add: number_json_def word_unat_eq_iff)

lemma json_value_leaf [simp]: "json_value (hex_json P b) = hex_json P b" "json_value (number_json w) = number_json w"
  by (simp_all add: hex_json_def number_json_def)

lemma report_field:
  "jget (json_value (ffi_report_json P r)) ''type'' = Some (JStr (fr_type r))"
  "jget (json_value (ffi_report_json P r)) ''report_data'' = Some (hex_json P (fr_report_data r))"
  "jget (json_value (ffi_report_json P r)) ''tee_tcb_svn'' = map_option (hex_json P) (fr_tee_tcb_svn r)"
  "jget (json_value (ffi_report_json P r)) ''mr_seam'' = map_option (hex_json P) (fr_mr_seam r)"
  "jget (json_value (ffi_report_json P r)) ''mr_signer_seam'' = map_option (hex_json P) (fr_mr_signer_seam r)"
  "jget (json_value (ffi_report_json P r)) ''seam_attributes'' = map_option (hex_json P) (fr_seam_attributes r)"
  "jget (json_value (ffi_report_json P r)) ''td_attributes'' = map_option (hex_json P) (fr_td_attributes r)"
  "jget (json_value (ffi_report_json P r)) ''xfam'' = map_option (hex_json P) (fr_xfam r)"
  "jget (json_value (ffi_report_json P r)) ''mr_td'' = map_option (hex_json P) (fr_mr_td r)"
  "jget (json_value (ffi_report_json P r)) ''mr_config_id'' = map_option (hex_json P) (fr_mr_config_id r)"
  "jget (json_value (ffi_report_json P r)) ''mr_owner'' = map_option (hex_json P) (fr_mr_owner r)"
  "jget (json_value (ffi_report_json P r)) ''mr_owner_config'' = map_option (hex_json P) (fr_mr_owner_config r)"
  "jget (json_value (ffi_report_json P r)) ''rt_mr0'' = map_option (hex_json P) (fr_rt_mr0 r)"
  "jget (json_value (ffi_report_json P r)) ''rt_mr1'' = map_option (hex_json P) (fr_rt_mr1 r)"
  "jget (json_value (ffi_report_json P r)) ''rt_mr2'' = map_option (hex_json P) (fr_rt_mr2 r)"
  "jget (json_value (ffi_report_json P r)) ''rt_mr3'' = map_option (hex_json P) (fr_rt_mr3 r)"
  "jget (json_value (ffi_report_json P r)) ''tee_tcb_svn2'' = map_option (hex_json P) (fr_tee_tcb_svn2 r)"
  "jget (json_value (ffi_report_json P r)) ''mr_service_td'' = map_option (hex_json P) (fr_mr_service_td r)"
  "jget (json_value (ffi_report_json P r)) ''cpu_svn'' = map_option (hex_json P) (fr_cpu_svn r)"
  "jget (json_value (ffi_report_json P r)) ''misc_select'' = map_option number_json (fr_misc_select r)"
  "jget (json_value (ffi_report_json P r)) ''attributes'' = map_option (hex_json P) (fr_attributes r)"
  "jget (json_value (ffi_report_json P r)) ''mr_enclave'' = map_option (hex_json P) (fr_mr_enclave r)"
  "jget (json_value (ffi_report_json P r)) ''mr_signer'' = map_option (hex_json P) (fr_mr_signer r)"
  "jget (json_value (ffi_report_json P r)) ''isv_prod_id'' = map_option number_json (fr_isv_prod_id r)"
  "jget (json_value (ffi_report_json P r)) ''isv_svn'' = map_option number_json (fr_isv_svn r)"
  unfolding ffi_report_json_def Let_def jget_json_value
  by (simp_all add: map_add_def option.map_comp comp_def split: option.split)

lemma option_inject: "(\<And>x y. f x = f y \<longleftrightarrow> x = y) \<Longrightarrow> map_option f m = map_option f n \<longleftrightarrow> m = n"
  by (cases m; cases n) auto

text \<open>The JSON of a report determines the report.\<close>

lemma ffi_report_inject:
  assumes "hex_roundtrip P" and "json_value (ffi_report_json P a) = json_value (ffi_report_json P b)"
  shows "a = b"
proof -
  note hex = hex_json_inject [OF assms(1)]
  have opt: "map_option (hex_json P) m = map_option (hex_json P) n \<longleftrightarrow> m = n" for m n by (rule option_inject) (rule hex)
  have num: "map_option number_json m = map_option number_json n \<longleftrightarrow> m = n" for m n :: "'w::len word option"
    by (rule option_inject) simp
  have eq: "jget (json_value (ffi_report_json P a)) k = jget (json_value (ffi_report_json P b)) k" for k by (simp add: assms(2))
  note fields =
    eq [of "''type''"] eq [of "''report_data''"] eq [of "''tee_tcb_svn''"] eq [of "''mr_seam''"]
    eq [of "''mr_signer_seam''"] eq [of "''seam_attributes''"] eq [of "''td_attributes''"] eq [of "''xfam''"]
    eq [of "''mr_td''"] eq [of "''mr_config_id''"] eq [of "''mr_owner''"] eq [of "''mr_owner_config''"]
    eq [of "''rt_mr0''"] eq [of "''rt_mr1''"] eq [of "''rt_mr2''"] eq [of "''rt_mr3''"] eq [of "''tee_tcb_svn2''"]
    eq [of "''mr_service_td''"] eq [of "''cpu_svn''"] eq [of "''misc_select''"] eq [of "''attributes''"]
    eq [of "''mr_enclave''"] eq [of "''mr_signer''"] eq [of "''isv_prod_id''"] eq [of "''isv_svn''"]
  show ?thesis
    by (rule ffi_report.equality) (use fields in \<open>simp_all add: report_field opt num hex\<close>)
qed

text \<open>Reports of one kind with the same fields, as far as the helper reads them.\<close>

fun same_report :: "'x qvl_report \<Rightarrow> 'x qvl_report \<Rightarrow> bool" where
  "same_report (Sgx_Enclave r _) (Sgx_Enclave r' _) \<longleftrightarrow> r = r'"
| "same_report (TD10 r _) (TD10 r' _) \<longleftrightarrow> r = r'"
| "same_report (TD15 r _) (TD15 r' _) \<longleftrightarrow> r = r'"
| "same_report (TD15Ex r _) (TD15Ex r' _) \<longleftrightarrow> r = r'"
| "same_report _ _ \<longleftrightarrow> False"

lemma from_report_same: "from_report r = from_report r' \<longleftrightarrow> same_report r r'"
  by (cases r; cases r') (auto simp: from_report_def from_td10_def from_td15_def from_sgx_def
      intro: td_report10.equality td_report15.equality enclave_report.equality)

text \<open>A well-formed certificate chain is its own text, without the zero bytes that pad it.\<close>

lemma from_utf8_lossy_valid: "utf8_valid bs \<Longrightarrow> from_utf8_lossy bs = map char_at bs"
proof (induction "length bs" arbitrary: bs rule: less_induct)
  case less
  show ?case
  proof (cases bs)
    case (Cons b cs)
    note valid = less.prems [unfolded Cons utf8_valid.simps(2) [of b cs] Let_def]
    note lossy = from_utf8_lossy.simps(2) [of b, unfolded Let_def]
    have rest: "from_utf8_lossy r = map char_at r" if "length r \<le> length cs" "utf8_valid r" for r
      using less.hyps [of r] that Cons by simp
    consider "unat b < 128" | "194 \<le> unat b" "unat b \<le> 223" | "224 \<le> unat b" "unat b \<le> 239" | "240 \<le> unat b" "unat b \<le> 244"
      using valid by (auto split: if_splits)
    then show ?thesis
    proof cases
      case 1
      with valid rest [of cs] show ?thesis by (simp add: Cons lossy)
    next
      case 2
      with valid obtain c r where "cs = c # r" "utf8_tail c" "utf8_valid r" by (auto split: list.splits)
      with 2 rest [of r] show ?thesis by (simp add: Cons lossy)
    next
      case 3
      with valid obtain c d r where "cs = c # d # r" "utf8_tail c" "unat b = 224 \<longrightarrow> 160 \<le> unat c" "unat b = 237 \<longrightarrow> unat c \<le> 159"
          "utf8_tail d" "utf8_valid r"
        by (auto split: list.splits)
      with 3 rest [of r] show ?thesis by (simp add: Cons lossy)
    next
      case 4
      with valid obtain c d e r where "cs = c # d # e # r" "utf8_tail c" "unat b = 240 \<longrightarrow> 144 \<le> unat c"
          "unat b = 244 \<longrightarrow> unat c \<le> 143" "utf8_tail d" "utf8_tail e" "utf8_valid r"
        by (auto split: list.splits)
      with 4 rest [of r] show ?thesis by (simp add: Cons lossy)
    qed
  qed simp
qed

lemma rposition_Some:
  assumes "i < length xs" and "p (xs ! i)" and "\<And>j. i < j \<Longrightarrow> j < length xs \<Longrightarrow> \<not> p (xs ! j)"
  shows "rposition p xs = Some i"
proof -
  have "[0..<length xs] = [0..<i] @ i # [Suc i..<length xs]"
    using assms(1) by (metis le_add1 less_imp_add_positive plus_nat.add_0 upt_add_eq_append upt_conv_Cons)
  moreover have "filter (\<lambda>j. p (xs ! j)) [Suc i..<length xs] = []"
    using assms(3) by (auto simp: filter_empty_conv)
  ultimately have "filter (\<lambda>j. p (xs ! j)) [0..<length xs] = filter (\<lambda>j. p (xs ! j)) [0..<i] @ [i]"
    using assms(2) by simp
  then show ?thesis by (cases "filter (\<lambda>j. p (xs ! j)) [0..<i]") (simp_all add: rposition_def)
qed

lemma cert_chain_text_padded:
  assumes "raw \<noteq> []" and "last raw \<noteq> 0"
  shows "cert_chain_text (raw @ replicate n 0) = from_utf8_lossy raw"
proof -
  obtain ys y where raw: "raw = ys @ [y]" "y \<noteq> 0" using assms by (metis append_butlast_last_id)
  have "rposition (\<lambda>b. b \<noteq> 0) (raw @ replicate n 0) = Some (length ys)"
    by (rule rposition_Some) (auto simp: raw nth_append)
  then show ?thesis by (simp add: cert_chain_text_def raw)
qed


section \<open>Properties\<close>

text \<open>C40: The helper's answer to a quote carries the quote. What \<open>parse\<close> returns holds a report that determines the
  kind of the quote's report and every field the helper reads of it: a report has that JSON exactly when it is of the same kind
  and agrees in those fields, whatever \<open>dcap_qvl\<close> keeps beside them (the extension of a \<open>TD15Ex\<close> and reserved
  bytes are dropped); the certificate type; and the
  certificate chain exactly when the quote has one, then with the platform family and the issuing authority, as the very
  text of the chain when it is well-formed UTF-8, without the zero bytes that pad it.\<close>

theorem parsed_quote_faithful:
  assumes "hex_roundtrip P" and "quote_decode P raw = Inr q" and "parse_quote P raw = Inr answer"
  shows "(\<exists>j. jget answer ''report'' = Some j \<and> (\<forall>r. json_value (ffi_report_json P (from_report r)) = j \<longleftrightarrow> same_report r (quote_body P q)))
     \<and> jget answer ''cert_type'' = Some (number_json (inner_cert_type P q))
     \<and> jget answer ''quote_type'' = Some (JStr (if quote_is_sgx P q then ''SGX'' else ''TDX''))
     \<and> (case raw_cert_chain P q of
          None \<Rightarrow> list_all (\<lambda>k. jget answer k = None) [''cert_chain_pem'', ''fmspc'', ''ca'']
        | Some raw_chain \<Rightarrow> jget answer ''cert_chain_pem'' = Some (JStr (cert_chain_text raw_chain))
            \<and> (\<exists>fmspc ca. quote_fmspc P q = Inr fmspc \<and> quote_ca P q = Inr ca
                \<and> jget answer ''fmspc'' = Some (JStr (hex_encode_upper P fmspc)) \<and> jget answer ''ca'' = Some (JStr ca))
            \<and> (\<forall>chain n. raw_chain = as_bytes chain @ replicate n 0 \<and> utf8_valid (as_bytes chain) \<and> chain \<noteq> [] \<and> byte_of (last chain) \<noteq> 0
                \<longrightarrow> cert_chain_text raw_chain = chain))"
proof -
  obtain fmspc ca where parts: "(if raw_cert_chain P q \<noteq> None then
              rbind (quote_fmspc P q) (\<lambda>fmspc. rbind (quote_ca P q) (\<lambda>ca. Inr (Some (hex_encode_upper P fmspc), Some ca)))
            else Inr (None, None)) = Inr (fmspc, ca)"
      and answer: "answer = json_value (ffi_quote_json P
       \<lparr>fq_header = quote_header P q, fq_report = from_report (quote_body P q), fq_cert_type = inner_cert_type P q,
        fq_cert_chain_pem = map_option cert_chain_text (raw_cert_chain P q), fq_fmspc = fmspc, fq_ca = ca,
        fq_quote_type = (if quote_is_sgx P q then ''SGX'' else ''TDX''),
        fq_qe_id = map_option (\<lambda>_. quote_qeid P q) (encrypted_ppid_params P q),
        fq_encrypted_ppid = map_option pp_encrypted_ppid (encrypted_ppid_params P q),
        fq_cert_cpusvn = map_option pp_cpusvn (encrypted_ppid_params P q),
        fq_cert_pcesvn = map_option pp_pcesvn (encrypted_ppid_params P q),
        fq_cert_pceid = map_option pp_pceid (encrypted_ppid_params P q)\<rparr>)"
    using assms(2,3) by (auto simp: parse_quote_def Let_def outcome_simps)
  have get: "jget answer ''report'' = Some (json_value (ffi_report_json P (from_report (quote_body P q))))"
      "jget answer ''cert_type'' = Some (number_json (inner_cert_type P q))"
      "jget answer ''quote_type'' = Some (JStr (if quote_is_sgx P q then ''SGX'' else ''TDX''))"
      "jget answer ''cert_chain_pem'' = map_option JStr (map_option cert_chain_text (raw_cert_chain P q))"
      "jget answer ''fmspc'' = map_option JStr fmspc" "jget answer ''ca'' = map_option JStr ca"
    unfolding answer ffi_quote_json_def jget_json_value ffi_quote.select_convs
    by (simp_all add: map_add_def option.map_comp comp_def split: option.split)
  have report: "json_value (ffi_report_json P (from_report r)) = json_value (ffi_report_json P (from_report (quote_body P q)))
      \<longleftrightarrow> same_report r (quote_body P q)" for r
    using ffi_report_inject [OF assms(1)] unfolding from_report_same [symmetric] by auto
  have chain: "cert_chain_text (as_bytes chain @ replicate n 0) = chain"
    if "utf8_valid (as_bytes chain)" "chain \<noteq> []" "byte_of (last chain) \<noteq> 0" for chain n
  proof -
    have "as_bytes chain \<noteq> []" "last (as_bytes chain) \<noteq> 0" using that(2,3) by (simp_all add: as_bytes_def last_map)
    from cert_chain_text_padded [OF this] have "cert_chain_text (as_bytes chain @ replicate n 0) = map char_at (as_bytes chain)"
      by (simp only: from_utf8_lossy_valid [OF that(1)])
    also have "\<dots> = chain" by (simp add: as_bytes_def map_idI)
    finally show ?thesis .
  qed
  show ?thesis
    unfolding get(1-4) using parts chain
    by (auto simp: get(4-6) report outcome_simps split: option.split)
qed

definition demo_qvl :: "(unit, unit qvl_report, unit) qvl_prims" where
  "demo_qvl = net_prims.extend demo_net (qvl_prims.fields (\<lambda>_. Some ()) (\<lambda>_. ''bad request'') (\<lambda>_. ''bad hex'') demo_hex_encode
     (\<lambda>b. Inr (Sgx_Enclave \<lparr>er_cpu_svn = b, er_misc_select = 1, er_attributes = [], er_mr_enclave = [], er_mr_signer = [],
        er_isv_prod_id = 2, er_isv_svn = 3, er_report_data = [9]\<rparr> ())) (\<lambda>_. JNull) (\<lambda>_. True) (\<lambda>q. q) (\<lambda>_. 5)
     (\<lambda>_. Some [65, 0, 0]) (\<lambda>_. Inr [1]) (\<lambda>_. Inr ''platform'') (\<lambda>_. None) (\<lambda>_. []) (\<lambda>_ _ _ _. fail ''no'') (\<lambda>_. fail ''no''))"

declare demo_qvl_def [demo_defs] qvl_prims.defs [demo_defs]

lemma parsed_quote_faithful_witness:
  "\<exists>answer. parse_quote demo_qvl [7] = Inr answer \<and> jget answer ''cert_chain_pem'' = Some (JStr ''A'')"
proof -
  have hex: "hex_roundtrip demo_qvl" by (simp add: hex_roundtrip_def demo_defs demo_hex_roundtrip)
  obtain q where q: "quote_decode demo_qvl [7] = Inr q" by (simp add: demo_defs)
  have "is_ok (parse_quote demo_qvl [7])" by code_simp
  then obtain answer where answer: "parse_quote demo_qvl [7] = Inr answer" unfolding is_ok_iff by blast
  have chain: "raw_cert_chain demo_qvl q = Some (as_bytes ''A'' @ replicate 2 0)" by (simp add: demo_defs) code_simp
  have "utf8_valid (as_bytes ''A'')" "byte_of (last ''A'') \<noteq> 0" by code_simp+
  then have "jget answer ''cert_chain_pem'' = Some (JStr (cert_chain_text (as_bytes ''A'' @ replicate 2 0)))"
      "cert_chain_text (as_bytes ''A'' @ replicate 2 0) = ''A''"
    using parsed_quote_faithful [OF hex q answer] unfolding chain option.case by blast+
  with answer show ?thesis by simp
qed


text \<open>The helper answers exactly what its operations give, on bounded input. It prints a result exactly when standard
  input is a request of at most 16 MiB whose hexadecimal input decodes and whose operation succeeds: a \<open>parse\<close> or
  \<open>pck\<close>, or a \<open>verify\<close> with collateral and a time, under the root certificate the request gives and the
  production root otherwise. Beyond the limit it always prints the same error and no byte past the limit's successor can matter.\<close>

theorem helper_answers_exact:
  "(run_helper P source = Inr answer \<longleftrightarrow>
      (\<exists>request raw. read_take (verifier_limit + 1) source = Inr (in_bytes source) \<and> length (in_bytes source) \<le> verifier_limit
        \<and> Option.bind (json_document P (in_bytes source)) (helper_request_of P) = Some request
        \<and> hex_decode P (hq_input request) = Some raw
        \<and> (hq_operation request = ''parse'' \<and> parse_quote P raw = Inr answer
          \<or> hq_operation request = ''pck'' \<and> pck P raw = Inr answer
          \<or> hq_operation request = ''verify'' \<and> (\<exists>collateral now root. hq_collateral request = Some collateral
              \<and> hq_now request = Some now \<and> map_option (hex_decode P) (hq_root request) = map_option Some root
              \<and> verify_quote P raw collateral now root = Inr answer))))
   \<and> (verifier_limit < length (in_bytes source) \<longrightarrow> helper_main P source =
        Some (json_print P (JObj [(''error'', JStr ''input exceeds verifier limit'')]) @ [CHR 10]))
   \<and> (in_error other = in_error source \<and> take (verifier_limit + 1) (in_bytes other) = take (verifier_limit + 1) (in_bytes source)
        \<longrightarrow> helper_main P other = helper_main P source)"
proof (intro conjI impI)
  have read: "read_take (verifier_limit + 1) source = Inr inp \<and> \<not> verifier_limit < length inp \<longleftrightarrow>
      read_take (verifier_limit + 1) source = Inr (in_bytes source) \<and> length (in_bytes source) \<le> verifier_limit \<and> inp = in_bytes source" for inp
    by (auto simp: read_take_def split: option.splits if_splits)
  have root: "(case r of None \<Rightarrow> Inr None | Some s \<Rightarrow> rbind (hex_any P s) (\<lambda>b. Inr (Some b))) = Inr root
      \<longleftrightarrow> map_option (hex_decode P) r = map_option Some root" for r root
    by (cases r; cases root) (auto simp: hex_any_def outcome_simps)
  show "run_helper P source = Inr answer \<longleftrightarrow>
      (\<exists>request raw. read_take (verifier_limit + 1) source = Inr (in_bytes source) \<and> length (in_bytes source) \<le> verifier_limit
        \<and> Option.bind (json_document P (in_bytes source)) (helper_request_of P) = Some request
        \<and> hex_decode P (hq_input request) = Some raw
        \<and> (hq_operation request = ''parse'' \<and> parse_quote P raw = Inr answer
          \<or> hq_operation request = ''pck'' \<and> pck P raw = Inr answer
          \<or> hq_operation request = ''verify'' \<and> (\<exists>collateral now root. hq_collateral request = Some collateral
              \<and> hq_now request = Some now \<and> map_option (hex_decode P) (hq_root request) = map_option Some root
              \<and> verify_quote P raw collateral now root = Inr answer)))"
  proof -
    have operation: "(if hq_operation request = ''parse'' then parse_quote P raw
        else if hq_operation request = ''pck'' then pck P raw
        else if hq_operation request = ''verify'' then
          rbind (ok_or ''missing collateral'' (hq_collateral request)) (\<lambda>collateral.
          rbind (ok_or ''missing verification time'' (hq_now request)) (\<lambda>now.
          rbind (case hq_root request of None \<Rightarrow> Inr None | Some s \<Rightarrow> rbind (hex_any P s) (\<lambda>b. Inr (Some b))) (\<lambda>root.
          verify_quote P raw collateral now root)))
        else fail ''unknown operation'') = Inr answer
      \<longleftrightarrow> hq_operation request = ''parse'' \<and> parse_quote P raw = Inr answer
          \<or> hq_operation request = ''pck'' \<and> pck P raw = Inr answer
          \<or> hq_operation request = ''verify'' \<and> (\<exists>collateral now root. hq_collateral request = Some collateral
              \<and> hq_now request = Some now \<and> map_option (hex_decode P) (hq_root request) = map_option Some root
              \<and> verify_quote P raw collateral now root = Inr answer)" for request raw
      by (simp add: rbind_eq_Inr root ok_or_eq_Inr)
    let ?op = "\<lambda>request raw. hq_operation request = ''parse'' \<and> parse_quote P raw = Inr answer
          \<or> hq_operation request = ''pck'' \<and> pck P raw = Inr answer
          \<or> hq_operation request = ''verify'' \<and> (\<exists>collateral now root. hq_collateral request = Some collateral
              \<and> hq_now request = Some now \<and> map_option (hex_decode P) (hq_root request) = map_option Some root
              \<and> verify_quote P raw collateral now root = Inr answer)"
    have "run_helper P source = Inr answer \<longleftrightarrow> (\<exists>inp. (read_take (verifier_limit + 1) source = Inr inp \<and> \<not> verifier_limit < length inp)
        \<and> (\<exists>request. Option.bind (json_document P inp) (helper_request_of P) = Some request
          \<and> (\<exists>raw. hex_decode P (hq_input request) = Some raw \<and> ?op request raw)))"
      unfolding run_helper_def rbind_eq_Inr ensure_eq_Inr ok_or_eq_Inr hex_any_def [of P "hq_input _"] operation
      by (intro iff_exI) blast
    then show ?thesis unfolding read by blast
  qed
  show "helper_main P source = Some (json_print P (JObj [(''error'', JStr ''input exceeds verifier limit'')]) @ [CHR 10])"
    if "verifier_limit < length (in_bytes source)"
    using that by (simp add: helper_main_def run_helper_def read_take_def)
  assume same: "in_error other = in_error source \<and> take (verifier_limit + 1) (in_bytes other) = take (verifier_limit + 1) (in_bytes source)"
  then have "verifier_limit + 1 \<le> length (in_bytes other) \<longleftrightarrow> verifier_limit + 1 \<le> length (in_bytes source)"
    by (metis length_take min.absorb_iff2)
  with same have "read_take (verifier_limit + 1) other = read_take (verifier_limit + 1) source"
    by (auto simp: read_take_def split: option.split)
  then show "helper_main P other = helper_main P source" by (simp add: helper_main_def run_helper_def)
qed


definition demo_question :: "(unit, unit qvl_report, unit) qvl_prims" where
  "demo_question = demo_qvl\<lparr>json_document := \<lambda>_. Some (JObj [(''operation'', JStr ''parse''), (''input'', JStr ''07'')])\<rparr>"

lemma helper_answers_exact_witness:
  "\<exists>answer. run_helper demo_question \<lparr>in_bytes = [1], in_error = None\<rparr> = Inr answer
     \<and> (\<exists>raw. hex_decode demo_question ''07'' = Some raw \<and> parse_quote demo_question raw = Inr answer)"
proof -
  let ?in = "\<lparr>in_bytes = [1], in_error = None\<rparr>"
  have "Option.bind (json_document demo_question [1]) (helper_request_of demo_question)
      = Some \<lparr>hq_operation = ''parse'', hq_input = ''07'', hq_collateral = None, hq_now = None, hq_root = None\<rparr>"
    by (simp add: demo_question_def helper_request_of_def struct_view_def no_repeats_def need_def want_def)
  moreover have "read_take (verifier_limit + 1) ?in = Inr [1]" "length (in_bytes ?in) \<le> verifier_limit"
    by (simp_all add: read_take_def verifier_limit_def)
  moreover have "case hex_decode demo_question ''07'' of Some raw \<Rightarrow> is_ok (parse_quote demo_question raw) | None \<Rightarrow> False" by code_simp
  then obtain raw answer where "hex_decode demo_question ''07'' = Some raw" "parse_quote demo_question raw = Inr answer"
    unfolding is_ok_iff by (auto split: option.splits)
  ultimately show ?thesis using helper_answers_exact [of demo_question ?in answer ?in] by auto
qed

end
