(* ===== verification/Example_Events.thy ===== *)
theory Example_Events
  imports Send Compose_Manager_Provenance
begin

text \<open>
  \<open>example-rs/src/utils/mod.rs\<close>: what the Rust example programs share. The event decoder rescans its pending bytes on
  each chunk, keeps what does not end with an empty line, and reads each complete record at once, so an error ends it
  part-way. Environment variables and printed text are an argument and a result.
\<close>

section \<open>One record\<close>

text \<open>A boxed error: of the standard library, \<open>serde_json\<close>, \<open>reqwest\<close> or \<open>tokio\<close>, a text, or one of the SDK's.\<close>

datatype example_error =
    Not_Utf8 | Not_Json | Not_Present | Request_Failed | Io_Failed | Elapsed | Message string
  | Boxed_Api api_error | Boxed_Verification verification_error | Boxed_Inference inference_error

type_synonym 'a example = "(example_error, 'a) outcome"

text \<open>\<open>replace("\r\n", "\n")\<close>\<close>

fun replace_crlf :: "string \<Rightarrow> string" where
  "replace_crlf (a # b # s) = (if a = cr \<and> b = lf then lf # replace_crlf s else a # replace_crlf (b # s))"
| "replace_crlf s = s"

definition data_line :: "string \<Rightarrow> string option" where
  "data_line line =
     (if line = ''data'' then Some []
      else map_option (\<lambda>s. or_else s (strip_prefix '' '' s)) (strip_prefix ''data:'' line))"

definition record_data :: "string \<Rightarrow> string" where
  "record_data record' =
     join_with [lf] (List.map_filter data_line
       (split_on lf (map (\<lambda>c. if c = cr then lf else c) (replace_crlf record'))))"

datatype record_event = Stream_Done | Nothing | Event json

definition event_of_record :: "'z prims_scheme \<Rightarrow> bytes \<Rightarrow> record_event example" where
  "event_of_record P bytes =
     rbind (ok_or Not_Utf8 (from_utf8 bytes)) (\<lambda>record'.
     let content = record_data record' in
     if content = ''[DONE]'' then Inr Stream_Done
     else if content \<noteq> [] then
       rbind (ok_or Not_Json (json_parse P (as_bytes content))) (\<lambda>v.
       rbind (ensure (\<not> (jget v ''error'' \<noteq> None \<or> jindex v ''type'' = JStr ''error'')) (Message ''Stream returned an error'')) (\<lambda>_.
       Inr (Event v)))
     else Inr Nothing)"

section \<open>The decoder\<close>

record event_decoder =
  ed_pending :: bytes
  ed_started :: bool
  ed_done :: bool

definition event_decoder_default :: event_decoder where
  "event_decoder_default = \<lparr>ed_pending = [], ed_started = False, ed_done = False\<rparr>"

definition line_end :: "bytes \<Rightarrow> nat \<Rightarrow> nat" where
  "line_end pending index =
     index + (if pending ! index = 13 \<and> index + 1 < length pending \<and> pending ! (index + 1) = 10 then 2 else 1)"

text \<open>
  The \<open>while\<close> loop of \<open>push\<close>; neither that it ends nor that the slice of a record is in range is built in. The first
  result is \<open>done\<close>.
\<close>

partial_function (option) event_loop ::
  "'z prims_scheme \<Rightarrow> bool \<Rightarrow> bytes \<Rightarrow> nat \<Rightarrow> nat \<Rightarrow> nat \<Rightarrow> bool \<Rightarrow> json list
     \<Rightarrow> (bool \<times> (nat \<times> json list) example) option" where
  "event_loop P eof pending start line index ended values =
     (if index < length pending then
        if pending ! index \<noteq> 13 \<and> pending ! index \<noteq> 10 then
          event_loop P eof pending start line (index + 1) ended values
        else if pending ! index = 13 \<and> index + 1 = length pending \<and> \<not> eof then Some (ended, Inr (start, values))
        else
          let stop = line_end pending index in
          if index = line then
            (case rbind (subslice start stop pending) (event_of_record P) of
               Inl e \<Rightarrow> Some (ended, Inl e)
             | Inr Stream_Done \<Rightarrow> event_loop P eof pending stop stop stop True values
             | Inr Nothing \<Rightarrow> event_loop P eof pending stop stop stop ended values
             | Inr (Event v) \<Rightarrow> event_loop P eof pending stop stop stop ended (values @ [v]))
          else event_loop P eof pending start stop stop ended values
      else Some (ended, Inr (start, values)))"

definition event_pending :: "event_decoder \<Rightarrow> bytes \<Rightarrow> bytes" where
  "event_pending d chunk =
     (let pending = ed_pending d @ chunk in
      if ed_started d then pending else or_else pending (strip_prefix byte_order_mark pending))"

text \<open>\<open>pending.drain(..start)\<close>, which panics out of range\<close>

definition drained :: "nat \<Rightarrow> bytes \<Rightarrow> bytes example" where
  "drained start pending =
     (if start \<le> length pending then Inr (drop start pending) else panic ''range end index out of range'')"

definition event_result ::
  "bytes \<Rightarrow> (bool \<times> (nat \<times> json list) example) option \<Rightarrow> (event_decoder \<times> json list example) option" where
  "event_result pending = map_option (\<lambda>(ended, result). case result of
       Inl e \<Rightarrow> (\<lparr>ed_pending = pending, ed_started = True, ed_done = ended\<rparr>, Inl e)
     | Inr (start, values) \<Rightarrow> (case drained start pending of
           Inl e \<Rightarrow> (\<lparr>ed_pending = pending, ed_started = True, ed_done = ended\<rparr>, Inl e)
         | Inr left \<Rightarrow> (\<lparr>ed_pending = left, ed_started = True, ed_done = ended\<rparr>, Inr values)))"

definition event_push ::
  "'z prims_scheme \<Rightarrow> event_decoder \<Rightarrow> bytes \<Rightarrow> bool \<Rightarrow> (event_decoder \<times> json list example) option" where
  "event_push P d chunk eof =
     (if \<not> ed_started d \<and> length (ed_pending d @ chunk) < 3 \<and> \<not> eof then Some (d\<lparr>ed_pending := ed_pending d @ chunk\<rparr>, Inr [])
      else let pending = event_pending d chunk in event_result pending (event_loop P eof pending 0 0 0 (ed_done d) []))"

definition events :: "'z prims_scheme \<Rightarrow> bytes \<Rightarrow> json list example option" where
  "events P bytes = map_option snd (event_push P event_decoder_default bytes True)"

section \<open>Reading a stream\<close>

text \<open>\<open>&value[n]\<close>\<close>

definition jelement :: "json \<Rightarrow> nat \<Rightarrow> json" where
  "jelement j n = (case j of JArr xs \<Rightarrow> if n < length xs then xs ! n else JNull | _ \<Rightarrow> JNull)"

definition delta :: "json \<Rightarrow> string" where
  "delta event' = or_else []
     (let t = as_str (jindex event' ''type'') in
      if t = Some ''content_block_delta'' then as_str (jindex (jindex event' ''delta'') ''text'')
      else if t = Some ''response.output_text.delta'' then as_str (jindex event' ''delta'')
      else as_str (jindex (jindex (jelement (jindex event' ''choices'') 0) ''delta'') ''content''))"

fun read_events ::
  "'z prims_scheme \<Rightarrow> event_decoder \<Rightarrow> bytes \<Rightarrow> string \<Rightarrow> bytes example list \<Rightarrow> (string \<times> bytes example) option" where
  "read_events P d body printed [] =
     (case event_push P d [] True of
        None \<Rightarrow> None
      | Some (_, Inl e) \<Rightarrow> Some (printed, Inl e)
      | Some (_, Inr values) \<Rightarrow> Some (printed @ concat (map delta values) @ [lf], Inr body))"
| "read_events P d body printed (Inl f # source) = Some (printed, Inl f)"
| "read_events P d body printed (Inr chunk # source) =
     (case event_push P d chunk False of
        None \<Rightarrow> None
      | Some (_, Inl e) \<Rightarrow> Some (printed, Inl e)
      | Some (d', Inr values) \<Rightarrow> read_events P d' (body @ chunk) (printed @ concat (map delta values)) source)"

definition read_stream :: "'z prims_scheme \<Rightarrow> bytes example list \<Rightarrow> (string \<times> bytes example) option" where
  "read_stream P source = read_events P event_decoder_default [] [] source"

definition event_id :: "json \<Rightarrow> string example" where
  "event_id v = ok_or (Message ''Missing completion ID'')
     (Option.bind (as_str (jindex v ''id'')) (\<lambda>s. if s \<noteq> [] then Some s else None))"

fun found_id :: "json list \<Rightarrow> string option \<Rightarrow> string option example" where
  "found_id [] found = Inr found"
| "found_id (v # vs) found =
     (if jget v ''id'' \<noteq> None then
        rbind (event_id v) (\<lambda>next'.
        rbind (ensure (\<not> (found \<noteq> None \<and> found \<noteq> Some next')) (Message ''Conflicting completion IDs'')) (\<lambda>_.
        found_id vs (Some next')))
      else found_id vs found)"

definition completion_id :: "'z prims_scheme \<Rightarrow> bytes \<Rightarrow> bool \<Rightarrow> string example option" where
  "completion_id P bytes stream =
     (if \<not> stream then Some (rbind (ok_or Not_Json (json_parse P bytes)) event_id)
      else map_option (\<lambda>(d, result).
          rbind result (\<lambda>values.
          rbind (ensure (ed_done d) (Message ''Stream ended without [DONE]'')) (\<lambda>_.
          rbind (found_id values None) (\<lambda>found.
          ok_or (Message ''Stream has no completion ID'') found))))
        (event_push P event_decoder_default bytes True))"

text \<open>What \<open>display\<close> prints.\<close>

definition display :: "'z prims_scheme \<Rightarrow> bytes \<Rightarrow> bool \<Rightarrow> string example" where
  "display P bytes stream =
     (if stream then Inr []
      else rbind (ok_or Not_Json (json_parse P bytes)) (\<lambda>v.
        Inr (or_else [] (as_str (jindex (jindex (jelement (jindex v ''choices'') 0) ''message'') ''content'')) @ [lf])))"

section \<open>Configuration\<close>

type_synonym environment = "string \<Rightarrow> string option"

definition default_model :: string where "default_model = ''z-ai/glm-5.3-flash''"
definition default_gateway :: string where "default_gateway = ''https://cloud-api.near.ai/v1/''"
definition default_direct :: string where "default_direct = ''https://glm-5-3-flash.completions.near.ai/v1/''"

definition example_api_key :: "environment \<Rightarrow> string example" where
  "example_api_key env = ok_or Not_Present (env ''NEARAI_API_KEY'')"

definition example_model :: "environment \<Rightarrow> string" where
  "example_model env = or_else default_model (env ''NEARAI_MODEL'')"

definition example_gateway :: "environment \<Rightarrow> string" where
  "example_gateway env = trim_end_matches (CHR ''/'') (or_else default_gateway (env ''NEARAI_BASE_URL'')) @ ''/''"

definition example_direct :: "environment \<Rightarrow> string" where
  "example_direct env = trim_end_matches (CHR ''/'') (or_else default_direct (env ''NEARAI_BASE_URL'')) @ ''/''"

definition example_algo :: "environment \<Rightarrow> signing_algo example" where
  "example_algo env =
     (let v = or_else ''ed25519'' (env ''NEARAI_SIGNING_ALGO'') in
      if v = ''ed25519'' then Inr Ed25519
      else if v = ''ecdsa'' then Inr Ecdsa
      else fail (Message ''NEARAI_SIGNING_ALGO must be ed25519 or ecdsa''))"

definition example_ohttp :: "environment \<Rightarrow> bool" where
  "example_ohttp env \<longleftrightarrow> (case env ''NEARAI_OHTTP'' of None \<Rightarrow> False | Some v \<Rightarrow> v = ''true'')"

definition example_body :: "environment \<Rightarrow> bool \<Rightarrow> json" where
  "example_body env stream = JObj [(''max_completion_tokens'', JNum ''1024''),
     (''messages'', JArr [JObj [(''content'', JStr ''Reply with the word ok.''), (''role'', JStr ''user'')]]),
     (''model'', JStr (example_model env)), (''stream'', JBool stream)]"

definition example_request ::
  "'z net_prims_scheme \<Rightarrow> environment \<Rightarrow> string \<Rightarrow> string \<Rightarrow> bool \<Rightarrow> client_request example" where
  "example_request P env base key stream =
     rbind (ok_or Request_Failed (url_parse P (base @ ''chat/completions''))) (\<lambda>url.
     rbind (ok_or Request_Failed (header_from_str (''Bearer '' @ key))) (\<lambda>bearer.
     Inr \<lparr>cr_method = ''POST'', cr_url = url,
          cr_headers = [(''authorization'', bearer), (''accept-encoding'', ''identity''), (''x-no-aliasing'', ''true''),
            (''content-type'', ''application/json'')],
          cr_body = Some (as_bytes (json_print P (example_body env stream)))\<rparr>))"

section \<open>Deployment policies\<close>

definition gateway_images :: image_policies where
  "gateway_images = fold (\<lambda>(name, workflow). bt_insert (''nearaidev/'' @ name)
       (image_provenance_policy_new (''nearai/'' @ name) (''.github/workflows/'' @ workflow)))
     [(''cloud-api'', ''build.yml''), (''cvm-ingress'', ''build-push.yml''), (''dstack-vpc'', ''build.yml''),
      (''dstack-vpc-client'', ''build.yml'')] []"

definition gateway_images_verifier :: "'z provenance_prims_scheme \<Rightarrow> deployment_verifier" where
  "gateway_images_verifier P deployment = verify_deployment_image_provenance P (md_app_compose deployment) gateway_images None"

definition model_images_verifier :: "'z provenance_prims_scheme \<Rightarrow> deployment_verifier" where
  "model_images_verifier P deployment =
     verify_compose_manager_deployment_image_provenance P deployment
       (bt_insert ''nearaidev/vllm-proxy-rs'' (image_provenance_policy_new ''nearai/inference-proxy'' ''.github/workflows/build.yml'') [])
       \<lparr>mi_image_repository = ''nearaidev/compose-manager'',
        mi_build = image_provenance_policy_new ''nearai/compose-manager'' ''.github/workflows/build.yml'',
        mi_signer_identity = None\<rparr> default_manager_provenance_options"

section \<open>The loop ends\<close>

lemma line_end_bounds: "index < length pending \<Longrightarrow> index < line_end pending index \<and> line_end pending index \<le> length pending"
  by (simp add: line_end_def)

lemma event_of_record_error: "event_of_record P b = Inl x \<Longrightarrow> \<exists>e. x = Err e"
  by (auto simp: event_of_record_def Let_def rbind_def ok_or_def ensure_def split: option.splits if_splits)

lemma record_error: "a \<le> b \<Longrightarrow> b \<le> length p \<Longrightarrow> rbind (subslice a b p) (event_of_record P) = Inl x \<Longrightarrow> \<exists>e. x = Err e"
  by (simp add: subslice_def event_of_record_error)

text \<open>The record that is read always starts at or before the line that ends it, so no slice is out of range.\<close>

lemma event_loop_ends:
  "start \<le> index \<Longrightarrow> index \<le> length pending \<Longrightarrow> \<exists>ended result. event_loop P eof pending start line index fin vs = Some (ended, result)
     \<and> \<not> panics result \<and> (\<forall>s out. result = Inr (s, out) \<longrightarrow> s \<le> length pending)"
proof (induction "length pending - index" arbitrary: start line index fin vs rule: less_induct)
  case less
  show ?case
  proof (cases "index < length pending")
    case True
    let ?stop = "line_end pending index"
    have stop: "index < ?stop" "?stop \<le> length pending" using line_end_bounds [OF True] by simp_all
    have step: "length pending - Suc index < length pending - index" "length pending - ?stop < length pending - index"
      using True stop by simp_all
    note nxt = less.hyps [OF step(1), of start line fin vs]
    note record' = less.hyps [OF step(2), of ?stop ?stop] stop(2)
    note line' = less.hyps [OF step(2), of start ?stop fin vs]
    have slice: "\<forall>x. rbind (subslice start ?stop pending) (event_of_record P) = Inl x \<longrightarrow> (\<exists>e. x = Err e)"
      using record_error [of start ?stop pending P] less.prems(1) stop by auto
    have ?thesis if "index = line"
      using nxt record' line' less.prems(1) stop True slice unfolding that
      by (subst (1) event_loop.simps) (auto simp: Let_def split: sum.split record_event.split)
    moreover have ?thesis if "index \<noteq> line"
      using nxt record' line' less.prems(1) stop True that
      by (subst (1) event_loop.simps) (auto simp: Let_def)
    ultimately show ?thesis by blast
  next
    case False
    with less.prems show ?thesis by (subst event_loop.simps) simp
  qed
qed

section \<open>Resuming the loop\<close>

lemma event_loop_resume:
  assumes "event_loop P False p s l i d vs = Some (d', result)" and "s \<le> l" and "l \<le> i" and "i \<le> length p"
    and "\<And>eof q d vs. event_loop P eof (p @ q) s s s d vs = event_loop P eof (p @ q) s l i d vs"
  shows "case result of
      Inl e \<Rightarrow> event_loop P eof (p @ q) s l i d vs = Some (d', Inl e)
    | Inr (s', vs') \<Rightarrow> event_loop P eof (p @ q) s l i d vs = event_loop P eof (p @ q) s' s' s' d' vs'"
  using assms
proof (induction "length p - i" arbitrary: s l i d vs rule: less_induct)
  case less
  show ?case
  proof (cases "i < length p")
    case False
    with less.prems(1) have "d' = d" "result = Inr (s, vs)" by (subst (asm) event_loop.simps, simp)+
    then show ?thesis by (simp add: less.prems(5))
  next
    case i: True
    then have nth: "(p @ q) ! i = p ! i" "i < length (p @ q)" for q by (simp_all add: nth_append)
    show ?thesis
    proof (cases "p ! i \<noteq> 13 \<and> p ! i \<noteq> 10")
      case True
      have whole: "event_loop P eof (p @ q) s l i d vs = event_loop P eof (p @ q) s l (i + 1) d vs" for eof q d vs
        using True by (subst event_loop.simps) (simp add: nth del: length_append)
      from less.prems(1) have "event_loop P False p s l (i + 1) d vs = Some (d', result)"
        by (subst (asm) event_loop.simps) (simp add: i True)
      moreover have "length p - (i + 1) < length p - i" using i by simp
      ultimately show ?thesis unfolding whole
        using less.prems i by (intro less.hyps) (simp_all add: whole)
    next
      case newline: False
      show ?thesis
      proof (cases "p ! i = 13 \<and> i + 1 = length p")
        case True
        with less.prems(1) i have "d' = d" "result = Inr (s, vs)" by (subst (asm) event_loop.simps, simp)+
        then show ?thesis by (simp add: less.prems(5))
      next
        case False
        let ?stop = "line_end p i"
        have stop: "line_end (p @ q) i = ?stop" for q
          using False i by (auto simp: line_end_def nth_append)
        have bounds: "i < ?stop" "?stop \<le> length p" using line_end_bounds [OF i] by simp_all
        have goes: "\<not> (p ! i \<noteq> 13 \<and> p ! i \<noteq> 10)" "\<not> (p ! i = 13 \<and> i + 1 = length (p @ q) \<and> \<not> eof)" for q eof
          using newline False i by (auto simp: nth_append)
        have dec: "length p - ?stop < length p - i" using bounds i by simp
        show ?thesis
        proof (cases "i = l")
          case False
          have whole: "event_loop P eof (p @ q) s l i d vs = event_loop P eof (p @ q) s ?stop ?stop d vs" for eof q d vs
            by (subst event_loop.simps) (simp only: nth goes stop if_True if_False Let_def False)
          from less.prems(1) whole [of False "[]"] have "event_loop P False p s ?stop ?stop d vs = Some (d', result)" by simp
          then show ?thesis unfolding whole
            using less.prems bounds by (intro less.hyps [OF dec]) (simp_all add: whole)
        next
          case True
          let ?r = "take (?stop - s) (drop s p)"
          have r: "rbind (subslice s ?stop (p @ q)) (event_of_record P) = event_of_record P ?r" for q
            using bounds less.prems(2,3) by (simp add: subslice_def)
          have whole: "event_loop P eof (p @ q) s l i d vs =
              (case event_of_record P ?r of
                 Inl e \<Rightarrow> Some (d, Inl e)
               | Inr Stream_Done \<Rightarrow> event_loop P eof (p @ q) ?stop ?stop ?stop True vs
               | Inr Nothing \<Rightarrow> event_loop P eof (p @ q) ?stop ?stop ?stop d vs
               | Inr (Event v) \<Rightarrow> event_loop P eof (p @ q) ?stop ?stop ?stop d (vs @ [v]))" for eof q d vs
            by (subst event_loop.simps) (simp only: nth goes stop r if_True if_False Let_def eqTrueI [OF True])
          note here = less.prems(1) [unfolded whole [of False "[]" d vs, simplified append_Nil2]]
          show ?thesis
          proof (cases "event_of_record P ?r")
            case (Inl e)
            with here show ?thesis by (auto simp: whole)
          next
            case (Inr x)
            obtain d1 vs1 where jump: "event_loop P eof (p @ q) s l i d vs = event_loop P eof (p @ q) ?stop ?stop ?stop d1 vs1" for eof q
              using whole Inr by (cases x) simp_all
            from less.prems(1) jump [of False "[]"] have "event_loop P False p ?stop ?stop ?stop d1 vs1 = Some (d', result)" by simp
            then show ?thesis unfolding jump using bounds(2) by (intro less.hyps [OF dec]) simp_all
          qed
        qed
      qed
    qed
  qed
qed


text \<open>A run from a later start is a run over what is left; values are only appended.\<close>

definition later :: "nat \<Rightarrow> json list \<Rightarrow> (bool \<times> (nat \<times> json list) example) option \<Rightarrow> (bool \<times> (nat \<times> json list) example) option" where
  "later a ws = map_option (apsnd (\<lambda>r. rbind r (\<lambda>(start, vs). Inr (a + start, ws @ vs))))"

lemma later_simps [simp]:
  "later a ws (Some (d, Inl e)) = Some (d, Inl e)" "later a ws (Some (d, Inr (s, xs))) = Some (d, Inr (a + s, ws @ xs))"
  by (simp_all add: later_def)

lemma event_loop_shift:
  assumes "a \<le> length p"
  shows "event_loop P eof p (a + s) (a + l) (a + i) d (ws @ vs) = later a ws (event_loop P eof (drop a p) s l i d vs)"
proof (induction "length p - (a + i)" arbitrary: s l i d vs rule: less_induct)
  case less
  have IH: "event_loop P eof p (a + s') (a + l') (a + i') d' (ws @ vs') = later a ws (event_loop P eof (drop a p) s' l' i' d' vs')"
    if "i < i'" "a + i < length p" for s' l' i' d' vs'
    using that by (intro less.hyps) simp
  show ?case
  proof (cases "a + i < length p")
    case False
    then have over: "\<not> i < length (drop a p)" by simp
    show ?thesis
      unfolding event_loop.simps [of P eof "drop a p" s l i d vs] event_loop.simps [of P eof p "a + s" "a + l" "a + i"]
      by (simp only: False over if_False later_simps)
  next
    case i: True
    have nth: "drop a p ! i = p ! (a + i)" "i < length (drop a p)" using i by simp_all
    have stop: "line_end p (a + i) = a + line_end (drop a p) i" using i by (auto simp: line_end_def)
    have dec: "i < line_end (drop a p) i" using line_end_bounds [OF nth(2)] by simp
    let ?stop = "line_end (drop a p) i"
    have record': "(subslice (a + s) (a + ?stop) p :: bytes example) = subslice s ?stop (drop a p)"
      using assms by (auto simp: subslice_def add.commute)
    have last': "a + i + 1 = length p \<longleftrightarrow> i + 1 = length (drop a p)" using i by auto
    note left = event_loop.simps [of P eof p "a + s" "a + l" "a + i" d "ws @ vs", unfolded Let_def stop record' last']
    note right = event_loop.simps [of P eof "drop a p" s l i d vs, unfolded Let_def nth(1)]
    consider "p ! (a + i) \<noteq> 13 \<and> p ! (a + i) \<noteq> 10"
      | "\<not> (p ! (a + i) \<noteq> 13 \<and> p ! (a + i) \<noteq> 10)" "p ! (a + i) = 13 \<and> i + 1 = length (drop a p) \<and> \<not> eof"
      | "\<not> (p ! (a + i) \<noteq> 13 \<and> p ! (a + i) \<noteq> 10)" "\<not> (p ! (a + i) = 13 \<and> i + 1 = length (drop a p) \<and> \<not> eof)" by blast
    then show ?thesis
    proof cases
      case 1
      then show ?thesis using IH [of "i + 1"] i nth(2) unfolding left right by simp
    next
      case 2
      then show ?thesis using i nth(2) unfolding left right by simp
    next
      case 3
      have whole: "event_loop P eof p (a + s) (a + l) (a + i) d (ws @ vs) =
          (if i = l then
             (case rbind (subslice s ?stop (drop a p)) (event_of_record P) of
                Inl e \<Rightarrow> Some (d, Inl e)
              | Inr Stream_Done \<Rightarrow> event_loop P eof p (a + ?stop) (a + ?stop) (a + ?stop) True (ws @ vs)
              | Inr Nothing \<Rightarrow> event_loop P eof p (a + ?stop) (a + ?stop) (a + ?stop) d (ws @ vs)
              | Inr (Event v) \<Rightarrow> event_loop P eof p (a + ?stop) (a + ?stop) (a + ?stop) d ((ws @ vs) @ [v]))
           else event_loop P eof p (a + s) (a + ?stop) (a + ?stop) d (ws @ vs))"
        using 3 i unfolding left by (simp only: if_True if_False add_left_cancel)
      have rest: "event_loop P eof (drop a p) s l i d vs =
          (if i = l then
             (case rbind (subslice s ?stop (drop a p)) (event_of_record P) of
                Inl e \<Rightarrow> Some (d, Inl e)
              | Inr Stream_Done \<Rightarrow> event_loop P eof (drop a p) ?stop ?stop ?stop True vs
              | Inr Nothing \<Rightarrow> event_loop P eof (drop a p) ?stop ?stop ?stop d vs
              | Inr (Event v) \<Rightarrow> event_loop P eof (drop a p) ?stop ?stop ?stop d (vs @ [v]))
           else event_loop P eof (drop a p) s ?stop ?stop d vs)"
        using 3 nth(2) unfolding right by (simp only: if_True if_False)
      show ?thesis
        unfolding whole rest append_assoc IH [OF dec i] by (simp split: sum.split record_event.split)
    qed
  qed
qed


lemma event_loop_chunk:
  assumes "event_loop P False p 0 0 0 d [] = Some (d', Inr (s', vs'))"
  shows "event_loop P eof (p @ q) 0 0 0 d [] = later s' vs' (event_loop P eof (drop s' p @ q) 0 0 0 d' [])"
proof -
  have le: "s' \<le> length p" using event_loop_ends [of 0 0 p P False 0 d "[]"] assms by auto
  have "event_loop P eof (p @ q) 0 0 0 d [] = event_loop P eof (p @ q) s' s' s' d' vs'"
    using event_loop_resume [OF assms] by simp
  also have "\<dots> = later s' vs' (event_loop P eof (drop s' (p @ q)) 0 0 0 d' [])"
    using event_loop_shift [of s' "p @ q" P eof 0 0 0 d' vs' "[]"] le by simp
  finally show ?thesis using le by simp
qed

section \<open>The decoder, fed in chunks\<close>

text \<open>A successful push, with the decoder it leaves.\<close>

definition pushed :: "(event_decoder \<times> json list example) option \<Rightarrow> (event_decoder \<times> json list) example option" where
  "pushed = map_option (\<lambda>(d, r). rbind r (\<lambda>vs. Inr (d, vs)))"

lemma pushed_simps [simp]: "pushed None = None" "pushed (Some (d, Inl e)) = Some (Inl e)" "pushed (Some (d, Inr vs)) = Some (Inr (d, vs))"
  by (simp_all add: pushed_def)

definition prefixed :: "json list \<Rightarrow> (event_decoder \<times> json list) example option \<Rightarrow> (event_decoder \<times> json list) example option" where
  "prefixed ws = map_option (\<lambda>r. rbind r (\<lambda>(d, vs). Inr (d, ws @ vs)))"

lemma prefixed_simps [simp]: "prefixed ws (Some (Inl e)) = Some (Inl e)" "prefixed ws (Some (Inr (d, vs))) = Some (Inr (d, ws @ vs))"
  by (simp_all add: prefixed_def)

lemma prefixed_Nil [simp]: "prefixed [] m = m"
proof (cases m)
  case (Some r)
  then show ?thesis by (cases r) auto
qed (simp add: prefixed_def)

lemma event_result_simps [simp]:
  "event_result p (Some (x, Inl e)) = Some (\<lparr>ed_pending = p, ed_started = True, ed_done = x\<rparr>, Inl e)"
  "s \<le> length p \<Longrightarrow>
     event_result p (Some (x, Inr (s, vs))) = Some (\<lparr>ed_pending = drop s p, ed_started = True, ed_done = x\<rparr>, Inr vs)"
  by (simp_all add: event_result_def drained_def)

lemma event_loop_cases:
  obtains (failed) x e where "event_loop P eof p 0 0 0 d [] = Some (x, fail e)"
  | (read) x s vs where "event_loop P eof p 0 0 0 d [] = Some (x, Inr (s, vs))" "s \<le> length p"
proof -
  obtain x r where r: "event_loop P eof p 0 0 0 d [] = Some (x, r)" "\<not> panics r" "\<forall>s out. r = Inr (s, out) \<longrightarrow> s \<le> length p"
    using event_loop_ends [of 0 0 p P eof 0 d "[]"] by auto
  show thesis
  proof (cases r)
    case (Inl f)
    with r failed show thesis by (cases f) auto
  next
    case (Inr y)
    with r read show thesis by (cases y) auto
  qed
qed

lemma event_pending_chunk:
  "ed_started d \<or> 3 \<le> length (ed_pending d @ c) \<Longrightarrow> event_pending d (c @ r) = event_pending d c @ r"
  by (auto simp: event_pending_def Let_def strip_prefix_def byte_order_mark_def)

lemma event_push_waits:
  "\<not> ed_started d \<Longrightarrow> length (ed_pending d @ chunk) < 3 \<Longrightarrow> event_push P d chunk False = Some (d\<lparr>ed_pending := ed_pending d @ chunk\<rparr>, Inr [])"
  by (simp add: event_push_def)

lemma event_push_reads:
  "ed_started d \<or> 3 \<le> length (ed_pending d @ chunk) \<or> eof \<Longrightarrow>
     event_push P d chunk eof = event_result (event_pending d chunk) (event_loop P eof (event_pending d chunk) 0 0 0 (ed_done d) [])"
  by (auto simp: event_push_def Let_def)

lemma event_pending_length: "length (event_pending d chunk) \<le> length (ed_pending d @ chunk)"
  by (cases "strip_prefix byte_order_mark (ed_pending d @ chunk)")
    (auto simp: event_pending_def Let_def strip_prefix_def split: if_splits)

lemma event_push_returns:
  "\<exists>d' r. event_push P d chunk eof = Some (d', r) \<and> \<not> panics r \<and> length (ed_pending d') \<le> length (ed_pending d @ chunk)"
proof (cases "ed_started d \<or> 3 \<le> length (ed_pending d @ chunk) \<or> eof")
  case True
  have "length (drop s (event_pending d chunk)) \<le> length (ed_pending d @ chunk)" for s
    using event_pending_length [of d chunk] unfolding length_drop by linarith
  then show ?thesis
    unfolding event_push_reads [OF True]
    by (cases rule: event_loop_cases [of P eof "event_pending d chunk" "ed_done d"])
      (use event_pending_length [of d chunk] in auto)
next
  case False
  then show ?thesis by (simp add: event_push_def)
qed

lemma drop_append_later: "s \<le> length p \<Longrightarrow> drop (s + t) (p @ r) = drop t (drop s p @ r)"
  by (metis add.commute diff_is_0_eq drop0 drop_append drop_drop)

lemma pushed_later:
  assumes "s \<le> length p"
  shows "pushed (event_result (p @ r) (later s vs m)) = prefixed vs (pushed (event_result (drop s p @ r) m))"
proof (cases m)
  case (Some y)
  obtain x result where y: "y = (x, result)" by (cases y)
  show ?thesis
  proof (cases result)
    case (Inr z)
    obtain t ws where z: "z = (t, ws)" by (cases z)
    show ?thesis
    proof (cases "t \<le> length (drop s p @ r)")
      case True
      then have "s + t \<le> length (p @ r)" using assms by simp
      with True show ?thesis
        by (simp only: Some y Inr z later_simps event_result_simps pushed_simps prefixed_simps drop_append_later [OF assms])
    next
      case False
      then have "\<not> s + t \<le> length (p @ r)" using assms by auto
      with False show ?thesis by (simp add: Some y Inr z event_result_def drained_def)
    qed
  qed (simp add: Some y)
qed (simp add: event_result_def later_def prefixed_def)

lemma event_push_chunk:
  assumes "event_push P d c False = Some (d', Inr vs)"
  shows "pushed (event_push P d (c @ r) eof) = prefixed vs (pushed (event_push P d' r eof))"
proof (cases "ed_started d \<or> 3 \<le> length (ed_pending d @ c)")
  case False
  with assms have "d' = d\<lparr>ed_pending := ed_pending d @ c\<rparr>" "vs = []" by (auto simp: event_push_def)
  then show ?thesis by (simp add: event_push_def event_pending_def Let_def)
next
  case True
  let ?p = "event_pending d c"
  from True have reads: "event_push P d c False = event_result ?p (event_loop P False ?p 0 0 0 (ed_done d) [])"
    by (intro event_push_reads) auto
  from assms [unfolded reads] obtain x s where loop: "event_loop P False ?p 0 0 0 (ed_done d) [] = Some (x, Inr (s, vs))" "s \<le> length ?p"
      and d': "d' = \<lparr>ed_pending = drop s ?p, ed_started = True, ed_done = x\<rparr>"
    by (cases rule: event_loop_cases [of P False ?p "ed_done d"]) auto
  have rest: "event_pending d' r = drop s ?p @ r" "ed_started d'" "ed_done d' = x" by (simp_all add: event_pending_def d')
  have "event_push P d (c @ r) eof = event_result (?p @ r) (event_loop P eof (?p @ r) 0 0 0 (ed_done d) [])"
    using True event_push_reads [of d "c @ r" eof P] event_pending_chunk [of d c r] by auto
  also have "event_loop P eof (?p @ r) 0 0 0 (ed_done d) [] = later s vs (event_loop P eof (drop s ?p @ r) 0 0 0 x [])"
    by (rule event_loop_chunk [OF loop(1)])
  finally have whole: "event_push P d (c @ r) eof = event_result (?p @ r) (later s vs (event_loop P eof (drop s ?p @ r) 0 0 0 x []))" .
  have after: "event_push P d' r eof = event_result (drop s ?p @ r) (event_loop P eof (drop s ?p @ r) 0 0 0 x [])"
    using event_push_reads [of d' r eof P] rest by simp
  show ?thesis
    unfolding whole after by (rule pushed_later [OF loop(2)])
qed

lemma event_push_chunk_error:
  assumes "event_push P d c False = Some (d', Inl e)"
  shows "pushed (event_push P d (c @ r) eof) = Some (Inl e)"
proof -
  have long: "ed_started d \<or> 3 \<le> length (ed_pending d @ c)" using assms by (auto simp: event_push_def split: if_splits)
  let ?p = "event_pending d c"
  have reads: "event_push P d c False = event_result ?p (event_loop P False ?p 0 0 0 (ed_done d) [])"
    using long by (intro event_push_reads) auto
  from assms [unfolded reads] obtain x where loop: "event_loop P False ?p 0 0 0 (ed_done d) [] = Some (x, Inl e)"
    by (cases rule: event_loop_cases [of P False ?p "ed_done d"]) auto
  have "event_loop P eof (?p @ r) 0 0 0 (ed_done d) [] = Some (x, Inl e)"
    using event_loop_resume [OF loop] by simp
  moreover have "event_push P d (c @ r) eof = event_result (?p @ r) (event_loop P eof (?p @ r) 0 0 0 (ed_done d) [])"
    using long event_push_reads [of d "c @ r" eof P] event_pending_chunk [of d c r] by auto
  ultimately show ?thesis by simp
qed


lemma panics_failed: "panics (Inl x) \<longleftrightarrow> (\<exists>w. x = Panic w)"
  by (cases x) simp_all

lemma read_events_returns:
  "\<exists>shown r. read_events P d body printed source = Some (shown, r)
     \<and> (case r of Inl (Panic w) \<Rightarrow> Inl (Panic w) \<in> set source | _ \<Rightarrow> True)"
proof (induction source arbitrary: d body printed)
  case Nil
  obtain d' r where "event_push P d [] True = Some (d', r)" "\<not> panics r" using event_push_returns [of P d "[]" True] by auto
  then show ?case by (cases r) (auto simp: panics_failed split: fault.split)
next
  case (Cons x source)
  have fin: "(case r of Inl (Panic w) \<Rightarrow> Inl (Panic w) \<in> set (x # source) | _ \<Rightarrow> True)"
    if "case r of Inl (Panic w) \<Rightarrow> Inl (Panic w) \<in> set source | _ \<Rightarrow> True" for r :: "bytes example"
    using that by (auto split: sum.splits fault.splits)
  show ?case
  proof (cases x)
    case (Inr chunk)
    obtain d' r where push: "event_push P d chunk False = Some (d', r)" "\<not> panics r"
      using event_push_returns [of P d chunk False] by auto
    show ?thesis
    proof (cases r)
      case failed: (Inl f)
      with push show ?thesis by (cases f) (simp_all add: Inr)
    next
      case read: (Inr vs)
      obtain shown r' where "read_events P d' (body @ chunk) (printed @ concat (map delta vs)) source = Some (shown, r')"
          "case r' of Inl (Panic w) \<Rightarrow> Inl (Panic w) \<in> set source | _ \<Rightarrow> True"
        using Cons.IH by blast
      then show ?thesis using push read fin [of r'] by (intro exI [of _ shown] exI [of _ r']) (simp add: Inr)
    qed
  next
    case (Inl f)
    then show ?thesis by (cases f) simp_all
  qed
qed

text \<open>C36: reading a stream always ends. \<open>EventDecoder::push\<close> returns from every decoder state, for every chunk, without
  a panic, although its loop restarts at moving offsets; what stays pending never outgrows what was pending and the chunk,
  and below three bytes only before the first line is looked at. So \<open>read_stream\<close> returns for every sequence of chunks and
  read errors, and panics only when the stream it reads does.\<close>

theorem stream_reading_ends:
  "(\<exists>d' r. event_push P d chunk eof = Some (d', r) \<and> \<not> panics r
      \<and> length (ed_pending d') \<le> length (ed_pending d) + length chunk
      \<and> (ed_started d' \<or> \<not> eof \<and> r = Inr [] \<and> length (ed_pending d') < 3))
   \<and> (\<exists>printed r. read_stream P source = Some (printed, r)
      \<and> (case r of Inl (Panic w) \<Rightarrow> Inl (Panic w) \<in> set source | _ \<Rightarrow> True))"
proof -
  obtain d' r where r: "event_push P d chunk eof = Some (d', r)" "\<not> panics r" "length (ed_pending d') \<le> length (ed_pending d @ chunk)"
    using event_push_returns [of P d chunk eof] by auto
  from r(1) have "ed_started d' \<or> \<not> eof \<and> r = Inr [] \<and> length (ed_pending d') < 3"
    by (cases rule: event_loop_cases [of P eof "event_pending d chunk" "ed_done d"])
      (auto simp: event_push_def Let_def split: if_splits)
  with r read_events_returns [of P event_decoder_default "[]" "[]" source] show ?thesis by (auto simp: read_stream_def)
qed

definition streamed :: "string \<Rightarrow> bytes \<Rightarrow> (event_decoder \<times> json list) example \<Rightarrow> string \<times> bytes example \<Rightarrow> bool" where
  "streamed printed body result shown \<longleftrightarrow> (case result of
       Inr (d, vs) \<Rightarrow> shown = (printed @ concat (map delta vs) @ [lf], Inr body)
     | Inl e \<Rightarrow> (\<exists>text'. shown = (printed @ text', Inl e)))"

lemma streamed_pushed:
  "event_push P d [] True = Some (d', r) \<Longrightarrow> pushed (event_push P d [] True) = Some (case r of Inl e \<Rightarrow> Inl e | Inr vs \<Rightarrow> Inr (d', vs))"
  by (cases r) auto

lemma read_events_chunks:
  "\<exists>result shown. pushed (event_push P d (concat cs) True) = Some result
     \<and> read_events P d body printed (map Inr cs) = Some shown \<and> streamed printed (body @ concat cs) result shown"
proof (induction cs arbitrary: d body printed)
  case Nil
  obtain d' r where "event_push P d [] True = Some (d', r)" using event_push_returns [of P d "[]" True] by auto
  then show ?case by (cases r) (auto simp: streamed_def)
next
  case (Cons c cs)
  obtain d' r where push: "event_push P d c False = Some (d', r)" using event_push_returns [of P d c False] by auto
  show ?case
  proof (cases r)
    case (Inl e)
    then show ?thesis using push event_push_chunk_error [of P d c d' e "concat cs" True] by (auto simp: streamed_def)
  next
    case (Inr vs)
    obtain result shown where IH: "pushed (event_push P d' (concat cs) True) = Some result"
        "read_events P d' (body @ c) (printed @ concat (map delta vs)) (map Inr cs) = Some shown"
        "streamed (printed @ concat (map delta vs)) ((body @ c) @ concat cs) result shown"
      using Cons.IH [of d' "body @ c" "printed @ concat (map delta vs)"] by auto
    have "pushed (event_push P d (c @ concat cs) True) = prefixed vs (Some result)"
      using event_push_chunk [of P d c d' vs "concat cs" True] push Inr IH(1) by simp
    with IH push Inr show ?thesis by (cases result) (auto simp: streamed_def)
  qed
qed

text \<open>How the network cuts a stream does not matter. Whatever the chunks, \<open>read_stream\<close> on them agrees with
  \<open>events\<close> on the whole body: when every record reads, it prints the deltas of exactly the body's events, in order, and one
  newline, and returns the body; otherwise it fails with the error \<open>events\<close> fails with. Chunks may split a line ending, the
  byte order mark or a character.\<close>

theorem chunks_do_not_matter:
  "\<exists>result. events P (concat cs) = Some result
     \<and> (case result of
          Inr vs \<Rightarrow> read_stream P (map Inr cs) = Some (concat (map delta vs) @ [lf], Inr (concat cs))
        | Inl e \<Rightarrow> map_option snd (read_stream P (map Inr cs)) = Some (Inl e))"
proof -
  obtain d' r where push: "event_push P event_decoder_default (concat cs) True = Some (d', r)"
    using event_push_returns [of P event_decoder_default "concat cs" True] by auto
  obtain shown where "read_stream P (map Inr cs) = Some shown"
      "streamed [] (concat cs) (case r of Inl e \<Rightarrow> Inl e | Inr vs \<Rightarrow> Inr (d', vs)) shown"
    using read_events_chunks [of P event_decoder_default cs "[]" "[]"] push by (cases r) (auto simp: read_stream_def)
  with push show ?thesis by (cases r) (auto simp: events_def streamed_def)
qed

section \<open>Completion ids\<close>

lemma event_id_exact: "event_id v = Inr s \<longleftrightarrow> s \<noteq> [] \<and> as_str (jindex v ''id'') = Some s"
  by (cases "as_str (jindex v ''id'')") (auto simp: event_id_def)

lemma found_id_exact:
  "found_id vs found = Inr (Some s) \<longleftrightarrow>
     (found = Some s \<or> (found = None \<and> (\<exists>v\<in>set vs. jget v ''id'' \<noteq> None)))
     \<and> (\<forall>v\<in>set vs. jget v ''id'' \<noteq> None \<longrightarrow> event_id v = Inr s)"
proof (induction vs found rule: found_id.induct)
  case (2 v vs found)
  show ?case
  proof (cases "jget v ''id''")
    case None
    then show ?thesis using 2 by auto
  next
    case (Some x)
    then show ?thesis using 2 by (cases "event_id v") (auto simp: ensure_def)
  qed
qed auto

text \<open>A stream's completion id is the non-empty \<open>id\<close> its events agree on, and only of a stream that said \<open>[DONE]\<close>.\<close>

lemma completion_id_exact:
  "completion_id P body True = Some (Inr s) \<longleftrightarrow>
     (\<exists>d vs. event_push P event_decoder_default body True = Some (d, Inr vs) \<and> ed_done d
        \<and> (\<exists>v\<in>set vs. jget v ''id'' \<noteq> None) \<and> (\<forall>v\<in>set vs. jget v ''id'' \<noteq> None \<longrightarrow> event_id v = Inr s))"
proof -
  obtain d r where push: "event_push P event_decoder_default body True = Some (d, r)"
    using event_push_returns [of P event_decoder_default body True] by auto
  show ?thesis
  proof (cases r)
    case (Inr vs)
    have "rbind (found_id vs None) (ok_or (Message ''Stream has no completion ID'')) = Inr s \<longleftrightarrow> found_id vs None = Inr (Some s)"
      by (cases "found_id vs None") (auto simp: ok_or_def split: option.splits)
    then show ?thesis by (simp add: completion_id_def push Inr ensure_def found_id_exact)
  qed (simp add: completion_id_def push)
qed

end
