(* ===== verification/Example_Standalone.thy ===== *)
theory Example_Standalone
  imports Example_Events Public_Api
begin

text \<open>
  \<open>example-rs/src/gateway/chat_completions_bare.rs\<close> and \<open>direct/chat_completions_bare.rs\<close>: the programs that put the
  SDK's separate steps together themselves, attestation first, then two exchanges whose receipts they verify before
  they print the answer.
\<close>

section \<open>Programs\<close>

text \<open>What \<open>main\<close> prints and what it returns; \<open>None\<close> if it never does. \<open>then_do\<close> is \<open>;\<close> with the \<open>?\<close> of its first part.\<close>

type_synonym ('e, 'a) printing = "(string \<times> ('e, 'a) outcome) option"

type_synonym 'a program = "(example_error, 'a) printing"

definition attempt :: "('e, 'a) outcome \<Rightarrow> ('e, 'a) printing" where
  "attempt r = Some ([], r)"

definition println :: "string \<Rightarrow> ('e, unit) printing" where
  "println text' = Some (text' @ [lf], Inr ())"

definition then_do :: "('e, 'a) printing \<Rightarrow> ('a \<Rightarrow> ('e, 'b) printing) \<Rightarrow> ('e, 'b) printing" where
  "then_do m f = (case m of
       None \<Rightarrow> None
     | Some (out, Inl e) \<Rightarrow> Some (out, Inl e)
     | Some (out, Inr a) \<Rightarrow> map_option (apfst (\<lambda>out'. out @ out')) (f a))"

definition boxed_api :: "'a api \<Rightarrow> 'a example" where "boxed_api m = map_err Boxed_Api m"
definition boxed_ver :: "'a ver \<Rightarrow> 'a example" where "boxed_ver m = map_err Boxed_Verification m"
definition boxed_inf :: "'a inf \<Rightarrow> 'a example" where "boxed_inf m = map_err Boxed_Inference m"

section \<open>Exchanges\<close>

text \<open>\<open>Client::execute\<close> and \<open>error_for_status\<close>, which only objects to statuses from 400 to 599.\<close>

definition http_execute :: "'z net_prims_scheme \<Rightarrow> http_client \<Rightarrow> client_request \<Rightarrow> http_response example" where
  "http_execute P client request =
     rbind (ok_or Request_Failed (http_send P client \<lparr>rq_method = cr_method request, rq_url = url_text P (cr_url request),
              rq_headers = cr_headers request, rq_body = or_else [] (cr_body request)\<rparr>)) (\<lambda>response.
     rbind (ensure (\<not> (400 \<le> rs_status response \<and> rs_status response < 600)) Request_Failed) (\<lambda>_.
     Inr response))"

text \<open>\<open>bytes_stream()\<close> as it is read to its end, with the error each side makes of a broken body.\<close>

definition byte_stream :: "'e \<Rightarrow> http_response \<Rightarrow> ('e + bytes) list" where
  "byte_stream e response = map Inr (rs_chunks response) @ (if rs_broken response then [Inl e] else [])"

text \<open>\<open>response.bytes().await?.to_vec()\<close>\<close>

definition body_bytes :: "http_response \<Rightarrow> bytes example" where
  "body_bytes response = ok_or Request_Failed (whole_body response)"

section \<open>The Gateway program\<close>

definition body_broken :: inference_error where
  "body_broken = Api (Transport Res_Completion ResponseBody)"

text \<open>What \<open>read_stream\<close> gets from \<open>decrypt_sse\<close>.\<close>

definition read_decrypted :: "'z prims_scheme \<Rightarrow> bytes list \<times> string option inf \<Rightarrow> bytes program" where
  "read_decrypted P decrypted = (case decrypted of
       (items, fin) \<Rightarrow> read_stream P (map Inr items @ (case fin of Inl f \<Rightarrow> [boxed_inf (Inl f)] | Inr _ \<Rightarrow> [])))"

record standalone =
  sa_key :: string
  sa_algo :: signing_algo
  sa_api :: attestation_client
  sa_gateway :: verified_gateway_attestation
  sa_http :: http_client
  sa_recipient :: verified_model_attestation
  sa_model_key :: e2ee_model_key

definition gateway_verifiers :: "'v provenance_prims_scheme \<Rightarrow> attestation_verifiers" where
  "gateway_verifiers Q = \<lparr>av_tdx_quote = None, av_deployment = Some (gateway_images_verifier Q)\<rparr>"

definition standalone_verifiers :: "'v provenance_prims_scheme \<Rightarrow> model_verifiers" where
  "standalone_verifiers Q = \<lparr>mv_tdx_quote = None, mv_gpu_evidence = None, mv_deployment = Some (model_images_verifier Q)\<rparr>"

definition is_recipient :: "signing_algo \<Rightarrow> verified_model_attestation \<Rightarrow> bool" where
  "is_recipient algo m \<longleftrightarrow> si_algo (ve_signer (vm_evidence m)) = algo \<and> vm_signing_public_key m \<noteq> None"

text \<open>Up to the first line printed; the random bytes of the two nonces are arguments.\<close>

definition standalone_setup ::
  "('c, 'z) e2ee_prims_scheme \<Rightarrow> 'v provenance_prims_scheme \<Rightarrow> environment \<Rightarrow> bytes \<Rightarrow> bytes \<Rightarrow> standalone example" where
  "standalone_setup P Q env random random' =
     rbind (example_api_key env) (\<lambda>key.
     rbind (boxed_api (with_base_url P (Some key) (example_gateway env))) (\<lambda>api.
     rbind (example_algo env) (\<lambda>algo.
     rbind (boxed_api (fetch_gateway_attestation P (generate_nonce P random) api
              (default_gateway_fetch_options\<lparr>gfo_signing_algo := Some algo\<rparr>))) (\<lambda>fetched.
     rbind (boxed_ver (verify_gateway_attestation P (fg_attestation fetched) (fg_client_binding fetched) None
              (gateway_verifiers Q))) (\<lambda>gateway.
     rbind (case vg_tls_binding gateway of
              Attested pin \<Rightarrow> Inr pin
            | No_Tls_Binding \<Rightarrow> fail (Message ''Gateway did not supply attested TLS binding'')) (\<lambda>pin.
     rbind (boxed_ver (create_pinned_tls_client P [pin])) (\<lambda>http.
     rbind (boxed_api (fetch_model_attestations P (generate_nonce P random') api (example_model env) (Some algo) None)) (\<lambda>fetched_models.
     rbind (traverse (\<lambda>report. boxed_ver (verify_model_attestation P report (fm_client_binding fetched_models) None (standalone_verifiers Q)))
              (fm_attestations fetched_models)) (\<lambda>models.
     rbind (ok_or (Message ''No verified model public key'') (List.find (is_recipient algo) models)) (\<lambda>recipient.
     rbind (expect ''unwrap'' (vm_signing_public_key recipient)) (\<lambda>public_key.
     Inr \<lparr>sa_key = key, sa_algo = algo, sa_api = api, sa_gateway = gateway, sa_http = http, sa_recipient = recipient,
          sa_model_key = \<lparr>ek_algo = algo, ek_public_key = public_key\<rparr>\<rparr>)))))))))))"

text \<open>
  The bytes received and their plaintext. \<open>recording\<close> collects the chunks as the stream is pulled, and \<open>read_stream\<close>
  succeeds only at its end: then it has collected all of them.
\<close>

definition standalone_reply ::
  "('c, 'z) e2ee_prims_scheme \<Rightarrow> prepared_e2ee_request \<Rightarrow> bool \<Rightarrow> http_response \<Rightarrow> (bytes \<times> bytes) program" where
  "standalone_reply P prepared stream response =
     (if stream then
        then_do (read_decrypted P (decrypt_sse P prepared (byte_stream (Err body_broken) response))) (\<lambda>output.
        attempt (Inr (concat (rs_chunks response), output)))
      else
        then_do (attempt (body_bytes response)) (\<lambda>wire.
        then_do (attempt (boxed_inf (decrypt_json P prepared wire))) (\<lambda>value'.
        attempt (Inr (wire, as_bytes (json_print P value'))))))"

definition check_receipt ::
  "('c, 'z) sig_prims_scheme \<Rightarrow> standalone \<Rightarrow> bytes \<Rightarrow> bytes \<Rightarrow> completion_signature \<Rightarrow> unit example" where
  "check_receipt P s request response signature = boxed_ver (case cs_kind signature of
       ProviderTee \<Rightarrow> verify_model_response P request response signature (sa_recipient s)
     | Gateway \<Rightarrow> verify_gateway_response P request response signature (sa_gateway s))"

text \<open>A request whose body is buffered can be cloned.\<close>

definition standalone_round ::
  "('c, 'z) e2ee_prims_scheme \<Rightarrow> environment \<Rightarrow> standalone \<Rightarrow> bytes \<Rightarrow> (nat \<Rightarrow> bytes \<times> bytes) \<Rightarrow> bool \<Rightarrow> unit program" where
  "standalone_round P env s seed rnd stream =
     then_do (attempt (example_request P env (example_gateway env) (sa_key s) stream)) (\<lambda>request.
     then_do (attempt (boxed_inf (prepare_e2ee_chat_request P seed rnd request (sa_model_key s)))) (\<lambda>prepared.
     then_do (attempt (ok_or (Message ''Missing request body'') (cr_body (pe_request prepared)))) (\<lambda>wire_request.
     then_do (attempt (http_execute P (sa_http s) (pe_request prepared))) (\<lambda>response.
     then_do (standalone_reply P prepared stream response) (\<lambda>(wire_response, plaintext).
     then_do (map_option (\<lambda>r. ([], r)) (completion_id P plaintext stream)) (\<lambda>i.
     then_do (attempt (boxed_api (fetch_completion_signature P (sa_api s) i (Some (sa_algo s))))) (\<lambda>signature.
     then_do (attempt (check_receipt P s wire_request wire_response signature)) (\<lambda>_.
     then_do (println (''Verified '' @ debug_signature_kind (cs_kind signature) @ '' ciphertext receipt'')) (\<lambda>_.
     then_do (attempt (display P plaintext stream)) (\<lambda>text'. Some (text', Inr ())))))))))))"

text \<open>
  Each round runs against its own environment and random bytes, the first (\<open>False\<close>) for the JSON and the second
  (\<open>True\<close>) for the streamed exchange.
\<close>

definition standalone_main ::
  "('c, 'z) e2ee_prims_scheme \<Rightarrow> 'v provenance_prims_scheme \<Rightarrow> (bool \<Rightarrow> ('c, 'z) e2ee_prims_scheme) \<Rightarrow> environment
     \<Rightarrow> bytes \<Rightarrow> bytes \<Rightarrow> (bool \<Rightarrow> bytes) \<Rightarrow> (bool \<Rightarrow> nat \<Rightarrow> bytes \<times> bytes) \<Rightarrow> unit program" where
  "standalone_main P Q rounds env random random' seed rnd =
     then_do (attempt (standalone_setup P Q env random random')) (\<lambda>s.
     then_do (println ''Gateway/model deployments and Gateway images verified'') (\<lambda>_.
     then_do (standalone_round (rounds False) env s (seed False) (rnd False) False) (\<lambda>_.
     standalone_round (rounds True) env s (seed True) (rnd True) True)))"

section \<open>The direct program\<close>

record direct_example =
  xd_key :: string
  xd_algo :: signing_algo
  xd_api :: attestation_client
  xd_verified :: direct_verification_result

definition no_model_verifiers :: model_verifiers where
  "no_model_verifiers = \<lparr>mv_tdx_quote = None, mv_gpu_evidence = None, mv_deployment = None\<rparr>"

definition direct_setup ::
  "('c, 'z) e2ee_prims_scheme \<Rightarrow> environment \<Rightarrow> bytes \<Rightarrow> nat option \<Rightarrow> direct_example example" where
  "direct_setup P env random clock =
     rbind (example_api_key env) (\<lambda>key.
     rbind (boxed_api (direct_api_new P (example_direct env) (Some key))) (\<lambda>api.
     rbind (example_algo env) (\<lambda>algo.
     rbind (boxed_api (fetch_direct_attestations P (generate_nonce P random) api (Some algo) None)) (\<lambda>fetched.
     rbind (boxed_ver (verify_direct_model_attestations P clock fetched None no_model_verifiers)) (\<lambda>verified.
     Inr \<lparr>xd_key = key, xd_algo = algo, xd_api = api, xd_verified = verified\<rparr>)))))"

definition direct_reply :: "'z prims_scheme \<Rightarrow> bool \<Rightarrow> http_response \<Rightarrow> bytes program" where
  "direct_reply P stream response =
     (if stream then read_stream P (byte_stream (Err Request_Failed) response) else attempt (body_bytes response))"

definition direct_round ::
  "('c, 'z) e2ee_prims_scheme \<Rightarrow> environment \<Rightarrow> direct_example \<Rightarrow> bool \<Rightarrow> unit program" where
  "direct_round P env s stream =
     then_do (attempt (example_request P env (example_direct env) (xd_key s) stream)) (\<lambda>request.
     then_do (attempt (ok_or (Message ''Missing request body'') (cr_body request))) (\<lambda>wire_request.
     then_do (attempt (http_execute P no_redirect_client request)) (\<lambda>response.
     then_do (direct_reply P stream response) (\<lambda>bytes.
     then_do (map_option (\<lambda>r. ([], r)) (completion_id P bytes stream)) (\<lambda>i.
     then_do (attempt (boxed_api (direct_fetch_completion_signature P (xd_api s) i (Some (xd_algo s))))) (\<lambda>signature.
     then_do (attempt (boxed_ver (verify_direct_model_response P wire_request bytes signature
                (dr_attestations (xd_verified s))))) (\<lambda>matching.
     then_do (println (''Verified receipt against '' @ decimal (length matching) @ '' matching reports'')) (\<lambda>_.
     then_do (attempt (display P bytes stream)) (\<lambda>text'. Some (text', Inr ()))))))))))"

definition direct_main ::
  "('c, 'z) e2ee_prims_scheme \<Rightarrow> (bool \<Rightarrow> ('c, 'z) e2ee_prims_scheme) \<Rightarrow> environment \<Rightarrow> bytes \<Rightarrow> nat option \<Rightarrow> unit program" where
  "direct_main P rounds env random clock =
     then_do (attempt (direct_setup P env random clock)) (\<lambda>s.
     then_do (println (''Verified '' @ decimal (length (dr_attestations (xd_verified s))) @ '' model reports'')) (\<lambda>_.
     then_do (direct_round (rounds False) env s False) (\<lambda>_.
     direct_round (rounds True) env s True)))"

section \<open>What a program that succeeds did\<close>

lemma then_do_success:
  "then_do m f = Some (out, Inr b) \<longleftrightarrow>
     (\<exists>out1 a out2. m = Some (out1, Inr a) \<and> f a = Some (out2, Inr b) \<and> out = out1 @ out2)"
  by (auto simp: then_do_def split: option.splits prod.splits sum.splits)

lemma attempt_success: "attempt r = Some (out, Inr a) \<longleftrightarrow> r = Inr a \<and> out = []"
  by (auto simp: attempt_def)

lemma println_success: "println t = Some (out, Inr u) \<longleftrightarrow> out = t @ [lf]"
  by (auto simp: println_def)

lemma wait_success: "map_option (\<lambda>r. ([], r)) m = Some (out, Inr a) \<longleftrightarrow> m = Some (Inr a) \<and> out = []"
  by auto

lemma boxed_success:
  "boxed_api m = Inr a \<longleftrightarrow> m = Inr a" "boxed_ver n = Inr b \<longleftrightarrow> n = Inr b" "boxed_inf k = Inr c \<longleftrightarrow> k = Inr c"
  by (simp_all add: boxed_api_def boxed_ver_def boxed_inf_def map_err_eq_Inr)

lemmas program_success = then_do_success attempt_success println_success wait_success boxed_success outcome_simps

text \<open>A program returns when its parts do.\<close>

lemma then_do_None: "then_do m f = None \<longleftrightarrow> m = None \<or> (\<exists>out a. m = Some (out, Inr a) \<and> f a = None)"
  by (auto simp: then_do_def split: option.splits prod.splits sum.splits)

lemma then_do_returns: "m \<noteq> None \<Longrightarrow> (\<And>a. f a \<noteq> None) \<Longrightarrow> then_do m f \<noteq> None"
  by (auto simp: then_do_None)

lemma basic_returns: "attempt r \<noteq> None" "println t \<noteq> None"
  by (simp_all add: attempt_def println_def)

section \<open>Reading a stream to its end\<close>

text \<open>A stream that was read without an error was complete, and what was printed is what its body says.\<close>

lemma read_events_success:
  assumes "read_events P d body printed source = Some (out, Inr whole)"
  shows "\<exists>cs. source = map Inr cs"
  using assms
proof (induction source arbitrary: d body printed)
  case (Cons x source)
  then show ?case
    by (cases x) (auto split: option.splits prod.splits sum.splits, metis list.simps(9))
qed simp

lemma read_stream_success:
  "read_stream P source = Some (out, Inr whole) \<longleftrightarrow>
     (\<exists>cs vs. source = map Inr cs \<and> whole = concat cs \<and> events P (concat cs) = Some (Inr vs)
        \<and> out = concat (map delta vs) @ [lf])"
proof
  assume read: "read_stream P source = Some (out, Inr whole)"
  then obtain cs where cs: "source = map Inr cs" using read_events_success unfolding read_stream_def by blast
  obtain result shown where r: "pushed (event_push P event_decoder_default (concat cs) True) = Some result"
      "read_events P event_decoder_default [] [] (map Inr cs) = Some shown" "streamed [] (concat cs) result shown"
    using read_events_chunks [of P event_decoder_default cs "[]" "[]"] by auto
  with read cs have "shown = (out, Inr whole)" by (simp add: read_stream_def)
  with r(3) obtain d vs where "result = Inr (d, vs)" "out = concat (map delta vs) @ [lf]" "whole = concat cs"
    by (cases result) (auto simp: streamed_def)
  moreover from r(1) this(1) have "events P (concat cs) = Some (Inr vs)"
    by (auto simp: events_def pushed_def rbind_eq_Inr)
  ultimately show "\<exists>cs vs. source = map Inr cs \<and> whole = concat cs \<and> events P (concat cs) = Some (Inr vs)
        \<and> out = concat (map delta vs) @ [lf]"
    using cs by blast
next
  assume "\<exists>cs vs. source = map Inr cs \<and> whole = concat cs \<and> events P (concat cs) = Some (Inr vs)
        \<and> out = concat (map delta vs) @ [lf]"
  then obtain cs vs where cs: "source = map Inr cs" "whole = concat cs" "events P (concat cs) = Some (Inr vs)"
      "out = concat (map delta vs) @ [lf]" by blast
  obtain result shown where r: "pushed (event_push P event_decoder_default (concat cs) True) = Some result"
      "read_events P event_decoder_default [] [] (map Inr cs) = Some shown" "streamed [] (concat cs) result shown"
    using read_events_chunks [of P event_decoder_default cs "[]" "[]"] by auto
  from cs(3) obtain d where "event_push P event_decoder_default (concat cs) True = Some (d, Inr vs)"
    by (auto simp: events_def)
  with r(1) have "result = Inr (d, vs)" by simp
  with r(3) cs have "shown = (out, Inr whole)" by (simp add: streamed_def)
  with r(2) cs(1) show "read_stream P source = Some (out, Inr whole)" by (simp add: read_stream_def)
qed

lemma read_stream_returns: "read_stream P source \<noteq> None"
  using read_events_returns [of P event_decoder_default "[]" "[]" source] by (auto simp: read_stream_def)

lemma read_stream_some: "\<exists>out r. read_stream P source = Some (out, r)"
  using read_stream_returns [of P source] by auto

lemma completion_id_returns: "completion_id P body stream \<noteq> None"
  using event_push_returns [of P event_decoder_default body True] by (auto simp: completion_id_def)

text \<open>Decryption hands an error of its source on.\<close>

lemma decrypt_sse_broken:
  "decrypt_sse_from P key d rid (map Inr cs @ Inl f # rest) = (items, fin) \<Longrightarrow> \<exists>f. fin = Inl f"
proof (induction cs arbitrary: d rid items fin)
  case (Cons c cs)
  then show ?case by (auto simp: Let_def split: sum.splits prod.splits)
qed auto

lemma read_decrypted_success:
  "read_decrypted P (items, fin) = Some (out, Inr whole) \<longleftrightarrow>
     (\<exists>rid vs. fin = Inr rid \<and> whole = concat items \<and> events P (concat items) = Some (Inr vs)
        \<and> out = concat (map delta vs) @ [lf])"
proof (cases fin)
  case (Inl f)
  have "map Inr items @ [Inl e] \<noteq> map Inr cs" for e :: "example_error fault" and cs :: "bytes list"
    by (auto simp: append_eq_map_conv)
  then show ?thesis
    unfolding read_decrypted_def prod.case Inl sum.case by (cases f) (auto simp: read_stream_success boxed_inf_def)
next
  case (Inr rid)
  have "map Inr items = map (Inr :: bytes \<Rightarrow> bytes example) cs \<longleftrightarrow> cs = items" for cs
    by (metis inj_Inr inj_map_eq_map)
  then show ?thesis unfolding read_decrypted_def prod.case Inr sum.case read_stream_success by auto
qed

section \<open>The exchanges of the Gateway program\<close>

text \<open>What one exchange of the program comes to, in terms of what went over the wire.\<close>

definition receipt_holds ::
  "('c, 'z) sig_prims_scheme \<Rightarrow> standalone \<Rightarrow> bytes \<Rightarrow> bytes \<Rightarrow> completion_signature \<Rightarrow> bool" where
  "receipt_holds P s request response signature \<longleftrightarrow>
     (\<exists>model. request_model P request model
        \<and> signature_by P signature ProviderTee (model_text P model request response) (ve_signer (vm_evidence (sa_recipient s))))
     \<or> signature_by P signature Gateway (gateway_text P request response) (ve_signer (vg_evidence (sa_gateway s)))"

definition reply_read ::
  "('c, 'z) e2ee_prims_scheme \<Rightarrow> prepared_e2ee_request \<Rightarrow> bool \<Rightarrow> http_response \<Rightarrow> bytes \<Rightarrow> string \<Rightarrow> bool" where
  "reply_read P prepared stream response plaintext printed \<longleftrightarrow> \<not> rs_broken response
     \<and> (if stream then
          \<exists>items rid vs. decrypt_sse P prepared (map Inr (rs_chunks response)) = (items, Inr rid) \<and> plaintext = concat items
            \<and> events P plaintext = Some (Inr vs) \<and> printed = concat (map delta vs) @ [lf]
        else
          \<exists>j. decrypt_json P prepared (concat (rs_chunks response)) = Inr j \<and> plaintext = as_bytes (json_print P j) \<and> printed = [])"

lemma standalone_reply_success:
  "standalone_reply P prepared stream response = Some (printed, Inr (wire, plaintext)) \<longleftrightarrow>
     wire = concat (rs_chunks response) \<and> reply_read P prepared stream response plaintext printed"
proof (cases stream)
  case True
  show ?thesis
  proof (cases "rs_broken response")
    case broken: True
    obtain items fin where d: "decrypt_sse P prepared (byte_stream (Err body_broken) response) = (items, fin)" by fastforce
    then obtain f where "fin = Inl f" using decrypt_sse_broken [of P _ _ _ _ _ "[]"] broken
      unfolding decrypt_sse_def byte_stream_def by force
    then show ?thesis using broken True
      by (simp add: standalone_reply_def then_do_success attempt_success d read_decrypted_success reply_read_def)
  next
    case False
    obtain items fin where d: "decrypt_sse P prepared (map Inr (rs_chunks response)) = (items, fin)" by fastforce
    then show ?thesis using False True
      by (auto simp: standalone_reply_def byte_stream_def then_do_success attempt_success d read_decrypted_success reply_read_def)
  qed
next
  case False
  then show ?thesis
    by (auto simp: standalone_reply_def program_success body_bytes_def whole_body_def reply_read_def)
qed

lemma check_receipt_success:
  "check_receipt P s request response signature = Inr u \<longleftrightarrow> receipt_holds P s request response signature"
  by (cases "cs_kind signature")
    (auto simp: check_receipt_def boxed_success verify_model_response_eq verify_gateway_response_eq receipt_holds_def signature_by_def)

definition round_answer ::
  "('c, 'z) e2ee_prims_scheme \<Rightarrow> environment \<Rightarrow> standalone \<Rightarrow> bytes \<Rightarrow> (nat \<Rightarrow> bytes \<times> bytes) \<Rightarrow> bool \<Rightarrow> string \<Rightarrow> bool" where
  "round_answer P env s seed rnd stream out \<longleftrightarrow>
     (\<exists>request prepared wire response plaintext printed i signature shown.
        example_request P env (example_gateway env) (sa_key s) stream = Inr request
        \<and> prepare_e2ee_chat_request P seed rnd request (sa_model_key s) = Inr prepared
        \<and> cr_body (pe_request prepared) = Some wire
        \<and> http_execute P (sa_http s) (pe_request prepared) = Inr response
        \<and> reply_read P prepared stream response plaintext printed
        \<and> completion_id P plaintext stream = Some (Inr i)
        \<and> fetch_completion_signature P (sa_api s) i (Some (sa_algo s)) = Inr signature
        \<and> receipt_holds P s wire (concat (rs_chunks response)) signature
        \<and> display P plaintext stream = Inr shown
        \<and> out = printed @ ''Verified '' @ debug_signature_kind (cs_kind signature) @ '' ciphertext receipt'' @ [lf] @ shown)"

lemma standalone_round_success:
  "standalone_round P env s seed rnd stream = Some (out, Inr ()) \<longleftrightarrow> round_answer P env s seed rnd stream out"
  unfolding standalone_round_def round_answer_def then_do_success attempt_success println_success wait_success boxed_success
    ok_or_eq_Inr check_receipt_success split_paired_Ex prod.case standalone_reply_success
  by (simp add: append_assoc) blast

section \<open>What the first line of the Gateway program means\<close>

text \<open>
  The Gateway of the pinned client: a fresh report whose trusted quote binds its signer and the one TLS key the client
  admits, and measures a deployment whose images are pinned and vouched for under every one of the four policies.
\<close>

definition gateway_trusted ::
  "('c, 'z) dcap_prims_scheme \<Rightarrow> 'v provenance_prims_scheme \<Rightarrow> string \<Rightarrow> standalone \<Rightarrow> bool" where
  "gateway_trusted P Q nonce s \<longleftrightarrow>
     (\<exists>(att :: gateway_attestation) n a (q :: tdx_quote) f pin compose services.
        evidence_fresh P (ga_evidence att) nonce n a
        \<and> quote_trusted P (ev_intel_quote (ga_evidence att)) None None q
        \<and> binds_tls P (q_report_data q) a n f
        \<and> ve_signer (vg_evidence (sa_gateway s)) = ev_signer (ga_evidence att)
        \<and> decode_hex P (hex_encode P f) = Some pin
        \<and> sa_http s = \<lparr>hc_redirects = False, hc_proxy = False, hc_tls_info = False, hc_https_only = True, hc_pins = Some [pin]\<rparr>
        \<and> take 32 (drop 1 (q_mr_config_id q)) = sha256 P (as_bytes (ev_app_compose (ga_evidence att)))
        \<and> Option.bind (json_document Q (as_bytes (ev_app_compose (ga_evidence att)))) app_compose_of = Some compose
        \<and> compose_services Q compose = Some services
        \<and> images_vouched Q \<lparr>pf_github_token = None, pf_github_api_url = None\<rparr> None gateway_images None services)"

text \<open>
  The model the requests are sealed to: a fresh report whose trusted quote binds its signer, whose key belongs to that
  signer, and whose deployment the Compose Manager images check accepted.
\<close>

definition recipient_trusted ::
  "('c, 'z) jwt_prims_scheme \<Rightarrow> 'v provenance_prims_scheme \<Rightarrow> string \<Rightarrow> standalone \<Rightarrow> bool" where
  "recipient_trusted P Q nonce s \<longleftrightarrow>
     (\<exists>(att :: model_attestation) n a (q :: tdx_quote) t decoded key.
        evidence_fresh P (ma_evidence att) nonce n a
        \<and> quote_trusted P (ev_intel_quote (ma_evidence att)) None None q
        \<and> binds_signer (q_report_data q) a n
        \<and> ve_signer (vm_evidence (sa_recipient s)) = ev_signer (ma_evidence att)
        \<and> si_algo (ev_signer (ma_evidence att)) = sa_algo s
        \<and> ma_signing_public_key att = Some t \<and> decode_hex P t = Some decoded \<and> key_of_signer P (sa_algo s) a decoded key
        \<and> sa_model_key s = \<lparr>ek_algo = sa_algo s, ek_public_key = hex_encode P key\<rparr>
        \<and> model_images_verifier Q (ve_deployment (vm_evidence (sa_recipient s))) = Inr ())"

lemma fetch_models_binding:
  "fetch_model_attestations P nonce c model algo address = Inr f \<Longrightarrow> mcb_nonce (fm_client_binding f) = nonce"
  by (auto simp: fetch_model_attestations_def outcome_simps)

lemma gateway_images_ok:
  assumes "gateway_images_verifier Q d = Inr ()"
  obtains compose services where "Option.bind (json_document Q (as_bytes (md_app_compose d))) app_compose_of = Some compose"
    "compose_services Q compose = Some services"
    "images_vouched Q \<lparr>pf_github_token = None, pf_github_api_url = None\<rparr> None gateway_images None services"
  using verify_deployment_images_ok [of Q "md_app_compose d" gateway_images] assms
  unfolding gateway_images_verifier_def verify_deployment_image_provenance_def
  by (metis deployment_image_options.select_convs)

lemma attested_pin:
  "(case b of Attested pin \<Rightarrow> Inr pin | No_Tls_Binding \<Rightarrow> fail e) = Inr p \<longleftrightarrow> b = Attested p"
  by (cases b) auto

lemma standalone_setup_trusted:
  assumes "standalone_setup P Q env random random' = Inr s"
  shows "gateway_trusted P Q (generate_nonce P random) s" and "recipient_trusted P Q (generate_nonce P random') s"
proof -
  obtain key api algo fetched gateway pin http fetched_models models recipient public_key where
      "fetch_gateway_attestation P (generate_nonce P random) api (default_gateway_fetch_options\<lparr>gfo_signing_algo := Some algo\<rparr>)
         = Inr fetched"
      "verify_gateway_attestation P (fg_attestation fetched) (fg_client_binding fetched) None (gateway_verifiers Q) = Inr gateway"
      "vg_tls_binding gateway = Attested pin" "pinned_client P [pin] = Inr http"
      "fetch_model_attestations P (generate_nonce P random') api (example_model env) (Some algo) None = Inr fetched_models"
      "traverse (\<lambda>report. boxed_ver (verify_model_attestation P report (fm_client_binding fetched_models) None (standalone_verifiers Q)))
         (fm_attestations fetched_models) = Inr models"
      "List.find (is_recipient algo) models = Some recipient" "vm_signing_public_key recipient = Some public_key"
      "s = \<lparr>sa_key = key, sa_algo = algo, sa_api = api, sa_gateway = gateway, sa_http = http, sa_recipient = recipient,
          sa_model_key = \<lparr>ek_algo = algo, ek_public_key = public_key\<rparr>\<rparr>"
    using assms unfolding standalone_setup_def rbind_eq_Inr boxed_success attested_pin ok_or_eq_Inr expect_eq_Inr
      create_pinned_tls_client_def
    by (elim exE conjE) (rule that, (assumption | rule sym, erule iffD1 [OF sum.inject(2)])+)
  then have g: "gcb_nonce (fg_client_binding fetched) = generate_nonce P random"
        "verify_gateway_attestation P (fg_attestation fetched) (fg_client_binding fetched) None (gateway_verifiers Q) = Inr (sa_gateway s)"
        "vg_tls_binding (sa_gateway s) = Attested pin" "pinned_client P [pin] = Inr (sa_http s)"
      and m: "mcb_nonce (fm_client_binding fetched_models) = generate_nonce P random'"
        "traverse (\<lambda>report. boxed_ver (verify_model_attestation P report (fm_client_binding fetched_models) None (standalone_verifiers Q)))
           (fm_attestations fetched_models) = Inr models"
        "List.find (is_recipient (sa_algo s)) models = Some (sa_recipient s)"
        "vm_signing_public_key (sa_recipient s) = Some public_key"
        "sa_model_key s = \<lparr>ek_algo = sa_algo s, ek_public_key = public_key\<rparr>"
    by (simp_all add: fetch_gateway_binding fetch_models_binding)
  let ?att = "fg_attestation fetched"
  obtain n a q where q: "evidence_fresh P (ga_evidence ?att) (generate_nonce P random) n a"
      "quote_trusted P (ev_intel_quote (ga_evidence ?att)) None None q"
      "gateway_tls_ok P ?att (fg_client_binding fetched) (q_report_data q) a n (vg_tls_binding (sa_gateway s))"
      "deployment_measured P q (ev_event_log (ga_evidence ?att)) (ev_app_compose (ga_evidence ?att))
         (md_runtime_measurements (ve_deployment (vg_evidence (sa_gateway s))))"
      "provenance_run (av_deployment (gateway_verifiers Q)) (ve_deployment (vg_evidence (sa_gateway s)))
         (ve_deployment_provenance (vg_evidence (sa_gateway s)))"
      "md_app_compose (ve_deployment (vg_evidence (sa_gateway s))) = ev_app_compose (ga_evidence ?att)"
      "ve_signer (vg_evidence (sa_gateway s)) = ev_signer (ga_evidence ?att)"
    using iffD1 [OF verify_gateway_attestation_eq g(2)] unfolding g(1) by (auto simp: gateway_verifiers_def)
  obtain f where f: "binds_tls P (q_report_data q) a n f" "pin = hex_encode P f"
    using q(3) g(3) by (auto simp: gateway_tls_ok_def split: option.splits)
  obtain p where p: "decode_hex P (hex_encode P f) = Some p"
      "sa_http s = \<lparr>hc_redirects = False, hc_proxy = False, hc_tls_info = False, hc_https_only = True, hc_pins = Some [p]\<rparr>"
    using g(4) unfolding pinned_client_ok f(2) by (auto simp: require_hex_length_Some Cons_eq_map_conv)
  have "gateway_images_verifier Q (ve_deployment (vg_evidence (sa_gateway s))) = Inr ()"
    using q(5) by (simp add: provenance_run_def gateway_verifiers_def)
  then obtain compose services where "Option.bind (json_document Q (as_bytes (ev_app_compose (ga_evidence ?att)))) app_compose_of = Some compose"
    "compose_services Q compose = Some services"
    "images_vouched Q \<lparr>pf_github_token = None, pf_github_api_url = None\<rparr> None gateway_images None services"
    by (rule gateway_images_ok) (auto simp: q(6))
  with q(1,2,4,7) f p show "gateway_trusted P Q (generate_nonce P random) s"
    unfolding gateway_trusted_def deployment_measured_def by blast
  have find: "sa_recipient s \<in> set models" "is_recipient (sa_algo s) (sa_recipient s)"
    using m(3) by (auto simp: find_Some_iff)
  then obtain att where "verify_model_attestation P att (fm_client_binding fetched_models) None (standalone_verifiers Q) = Inr (sa_recipient s)"
    using m(2) by (auto simp: traverse_eq_Inr boxed_success in_set_conv_nth dest: list_all2_nthD2)
  then obtain n a q where r: "evidence_fresh P (ma_evidence att) (generate_nonce P random') n a"
      "quote_trusted P (ev_intel_quote (ma_evidence att)) None None q" "model_layout_ok P None (q_report_data q) a n"
      "provenance_run (Some (model_images_verifier Q)) (ve_deployment (vm_evidence (sa_recipient s)))
         (ve_deployment_provenance (vm_evidence (sa_recipient s)))"
      "model_key_ok P att a (Some public_key)" "ve_signer (vm_evidence (sa_recipient s)) = ev_signer (ma_evidence att)"
    unfolding verify_model_attestation_def verify_model_with_tls_eq m(1,4) common_policy_def standalone_verifiers_def
    by (auto simp: common_policy_def)
  moreover from this(5) find(2) obtain t decoded key' where "ma_signing_public_key att = Some t" "decode_hex P t = Some decoded"
      "key_of_signer P (sa_algo s) a decoded key'" "public_key = hex_encode P key'" "si_algo (ev_signer (ma_evidence att)) = sa_algo s"
    using r(6) by (auto simp: model_key_ok_def is_recipient_def split: option.splits)
  moreover have "binds_signer (q_report_data q) a n" "model_images_verifier Q (ve_deployment (vm_evidence (sa_recipient s))) = Inr ()"
    using r(3,4) by (simp_all add: model_layout_ok_def provenance_run_def)
  ultimately show "recipient_trusted P Q (generate_nonce P random') s"
    using m(5) unfolding recipient_trusted_def by blast
qed

section \<open>Properties\<close>

text \<open>C35: The standalone Gateway program succeeds exactly on answers that are vouched for end to end. It returns without
  an error exactly when its setup succeeds (then the one TLS key its client admits, the Gateway's signer and the key the
  requests are sealed to are bound by trusted quotes over its two nonces, and both deployments' images are vouched for) and
  both exchanges, the JSON and the streamed one, are answered in full, their completion's signature is by the attested
  model or Gateway over the very bytes sent and received, and the text printed is what those bytes decrypt to.\<close>

theorem standalone_program_exact:
  "standalone_main P Q rounds env random random' seed rnd = Some (out, Inr ()) \<longleftrightarrow>
     (\<exists>s answer streamed_answer.
        standalone_setup P Q env random random' = Inr s
        \<and> gateway_trusted P Q (generate_nonce P random) s
        \<and> recipient_trusted P Q (generate_nonce P random') s
        \<and> round_answer (rounds False) env s (seed False) (rnd False) False answer
        \<and> round_answer (rounds True) env s (seed True) (rnd True) True streamed_answer
        \<and> out = ''Gateway/model deployments and Gateway images verified'' @ [lf] @ answer @ streamed_answer)"
proof -
  have "standalone_main P Q rounds env random random' seed rnd = Some (out, Inr ()) \<longleftrightarrow>
     (\<exists>s answer streamed_answer.
        standalone_setup P Q env random random' = Inr s
        \<and> round_answer (rounds False) env s (seed False) (rnd False) False answer
        \<and> round_answer (rounds True) env s (seed True) (rnd True) True streamed_answer
        \<and> out = ''Gateway/model deployments and Gateway images verified'' @ [lf] @ answer @ streamed_answer)"
    by (auto simp: standalone_main_def then_do_success attempt_success println_success standalone_round_success)
  then show ?thesis using standalone_setup_trusted by metis
qed

lemma programs_return:
  "standalone_main P Q rounds env random random' seed rnd \<noteq> None" "direct_main P' rounds' env' random'' clock \<noteq> None"
proof -
  have decrypted: "read_decrypted p x \<noteq> None" for p and x :: "bytes list \<times> string option inf"
    by (cases x) (simp only: read_decrypted_def prod.case read_stream_returns not_False_eq_True)
  have wait: "map_option (\<lambda>r. ([], r)) (completion_id p b stream) \<noteq> None" for p b stream
    by (simp add: completion_id_returns)
  have reply: "standalone_reply p prepared stream response \<noteq> None" for p prepared stream response
    unfolding standalone_reply_def
    by (cases stream) (simp_all only: if_True if_False, (intro then_do_returns decrypted basic_returns)+)
  have direct: "direct_reply p stream response \<noteq> None" for p stream response
    unfolding direct_reply_def by (cases stream) (simp_all only: if_True if_False read_stream_returns basic_returns not_False_eq_True)
  have "standalone_round p env s seed rnd stream \<noteq> None" for p env s seed rnd stream
    unfolding standalone_round_def case_prod_beta
    by (intro then_do_returns basic_returns wait reply) simp
  then show "standalone_main P Q rounds env random random' seed rnd \<noteq> None"
    unfolding standalone_main_def by (intro then_do_returns basic_returns)
  have "direct_round p env s stream \<noteq> None" for p env s stream
    unfolding direct_round_def by (intro then_do_returns basic_returns wait direct) simp
  then show "direct_main P' rounds' env' random'' clock \<noteq> None"
    unfolding direct_main_def by (intro then_do_returns basic_returns)
qed

end
