(* ===== verification/Example_Clients.thy ===== *)
theory Example_Clients
  imports Example_Standalone Client Systemone_Request
begin

text \<open>
  \<open>example-rs\<close>, the programs on the integrated clients: \<open>gateway/chat_completions.rs\<close>, \<open>direct/chat_completions.rs\<close>,
  \<open>gateway/responses.rs\<close>, \<open>gateway/messages.rs\<close> and \<open>gateway/systemone.rs\<close>. Each awaits one call of its client after the
  other, so a program takes its client through one run of \<open>Client\<close>, the steps of its calls in the order of the code.
\<close>

section \<open>A client and the steps it has taken\<close>

type_synonym ('c, 'o, 'z) history = "('c, 'o, 'z) ohttp_prims_scheme client_event list"

definition client_at :: "'f float_ops \<Rightarrow> client_options \<times> bool \<Rightarrow> ('c, 'o, 'z) history \<Rightarrow> 'f client_state" where
  "client_at F client h = run_client (fst client) (snd client) F h fresh_client"

text \<open>What a call meets: the network, the time when it starts, has its session and ends, and its random bytes.\<close>

record 'p circumstances =
  ct_net :: 'p
  ct_start :: nat
  ct_attested :: nat
  ct_end :: nat
  ct_nonce :: string
  ct_model_nonce :: string
  ct_clock :: "nat option"
  ct_seed :: bytes
  ct_rnd :: "nat \<Rightarrow> bytes \<times> bytes"
  ct_ohttp_rnd :: bytes

section \<open>The calls of a client, awaited one at a time\<close>

text \<open>A call's result comes with the history it leaves; a call that never returns is \<open>None\<close>.\<close>

definition await_session ::
  "'f float_ops \<Rightarrow> client_options \<times> bool \<Rightarrow> ('c, 'o, 'z) ohttp_prims_scheme circumstances \<Rightarrow> ('c, 'o, 'z) history
     \<Rightarrow> ('c, 'o, 'z) history" where
  "await_session F client ct h =
     (let callers = sc_callers (cl_sessions (client_at F client h)) in
      case last callers of
        Waiting model f \<Rightarrow> h @ [Cl_Create f (ct_net ct) (ct_nonce ct) (ct_model_nonce ct) (ct_clock ct),
          Cl_Return (length callers - 1) (ct_attested ct)]
      | _ \<Rightarrow> h)"

definition client_verify ::
  "'f float_ops \<Rightarrow> client_options \<times> bool \<Rightarrow> (session inf \<Rightarrow> 'r inf) \<Rightarrow> ('c, 'o, 'z) ohttp_prims_scheme circumstances
     \<Rightarrow> string \<Rightarrow> ('c, 'o, 'z) history \<Rightarrow> ('r \<times> ('c, 'o, 'z) history) program" where
  "client_verify F client view ct model h =
     (let h = await_session F client ct (h @ [Cl_Verify model (ct_start ct)]) in
      case last (sc_callers (cl_sessions (client_at F client h))) of
        Got _ r \<Rightarrow> attempt (rbind (boxed_inf (view r)) (\<lambda>v. Inr (v, h)))
      | _ \<Rightarrow> None)"

definition client_exchange ::
  "'f float_ops \<Rightarrow> client_options \<times> bool \<Rightarrow> ('c, 'o, 'z) ohttp_prims_scheme circumstances \<Rightarrow> call_work
     \<Rightarrow> ('c, 'o, 'z) history \<Rightarrow> ('c, 'o, 'z) history" where
  "client_exchange F client ct work h =
     (let h = h @ [Cl_Call (ct_net ct) work (ct_start ct)]; calls = cl_calls (client_at F client h) in
      case last calls of
        Call_Session _ _ _ \<Rightarrow>
          await_session F client ct h @ [Cl_Exchange (length calls - 1) (ct_net ct) (ct_seed ct) (ct_rnd ct) (ct_ohttp_rnd ct)]
      | _ \<Rightarrow> h)"

definition client_conclude ::
  "'f float_ops \<Rightarrow> client_options \<times> bool \<Rightarrow> ('c, 'o, 'z) ohttp_prims_scheme circumstances \<Rightarrow> ('c, 'o, 'z) history
     \<Rightarrow> ('c, 'o, 'z) history" where
  "client_conclude F client ct h =
     h @ [Cl_Conclude (length (cl_calls (client_at F client h)) - 1) (ct_net ct) (ct_end ct)]"

definition client_send ::
  "'f float_ops \<Rightarrow> client_options \<times> bool \<Rightarrow> ('c, 'o, 'z) ohttp_prims_scheme circumstances \<Rightarrow> client_request
     \<Rightarrow> ('c, 'o, 'z) history \<Rightarrow> (pending_response \<times> ('c, 'o, 'z) history) program" where
  "client_send F client ct request h =
     (let h = client_exchange F client ct (Sending request) h in
      case last (cl_calls (client_at F client h)) of
        Call_Failed f \<Rightarrow> attempt (boxed_inf (Inl f))
      | Call_Body _ pending \<Rightarrow> attempt (Inr (pending, h))
      | _ \<Rightarrow> None)"

text \<open>The body of the response that was received last, read to its end.\<close>

definition client_body ::
  "'f float_ops \<Rightarrow> client_options \<times> bool \<Rightarrow> ('c, 'o, 'z) ohttp_prims_scheme circumstances \<Rightarrow> ('c, 'o, 'z) history
     \<Rightarrow> (bytes inf list \<times> ('c, 'o, 'z) history) program" where
  "client_body F client ct h =
     (let h = client_conclude F client ct h in
      case last (cl_calls (client_at F client h)) of
        Call_Streamed items \<Rightarrow> attempt (Inr (items, h))
      | _ \<Rightarrow> None)"

text \<open>\<open>chat_completions\<close>, \<open>create_response\<close> and \<open>create_message\<close>, as \<open>json_call\<close> has them.\<close>

definition client_json ::
  "'f float_ops \<Rightarrow> client_options \<times> bool \<Rightarrow> ('c, 'o, 'z) ohttp_prims_scheme circumstances \<Rightarrow> string \<Rightarrow> client_request inf
     \<Rightarrow> json \<Rightarrow> ('c, 'o, 'z) history \<Rightarrow> (json \<times> ('c, 'o, 'z) history) program" where
  "client_json F client ct reason request body h =
     then_do (attempt (boxed_inf (ensure (jget body ''stream'' \<noteq> Some (JBool True)) (Api (input ''stream'' reason))))) (\<lambda>_.
     then_do (attempt (boxed_inf request)) (\<lambda>request.
     then_do (client_send F client ct request h) (\<lambda>(response, h).
     then_do (attempt (boxed_inf (ensure (is_success (pr_status response))
                (Api (HttpStatus Res_Completion (pr_status response)))))) (\<lambda>_.
     then_do (client_body F client ct h) (\<lambda>(items, h).
     then_do (attempt (boxed_inf (collect_json (ct_net ct) items))) (\<lambda>value'.
     attempt (Inr (value', h))))))))"

definition client_decide ::
  "'f float_ops \<Rightarrow> client_options \<times> bool \<Rightarrow> ('c, 'o, 'z) ohttp_prims_scheme circumstances \<Rightarrow> bytes option
     \<Rightarrow> ('c, 'o, 'z) history \<Rightarrow> ('f systemone_result \<times> ('c, 'o, 'z) history) program" where
  "client_decide F client ct body h =
     (let h = client_exchange F client ct (Deciding body []) h in
      case last (cl_calls (client_at F client h)) of
        Call_Failed f \<Rightarrow> attempt (boxed_inf (Inl f))
      | Call_Decision _ _ _ _ \<Rightarrow>
          (let h = client_conclude F client ct h in
           case last (cl_calls (client_at F client h)) of
             Call_Decided result \<Rightarrow> attempt (Inr (result, h))
           | Call_Failed f \<Rightarrow> attempt (boxed_inf (Inl f))
           | _ \<Rightarrow> None)
      | _ \<Rightarrow> None)"

definition response_steps ::
  "'f float_ops \<Rightarrow> client_options \<times> bool \<Rightarrow> ('c, 'o, 'z) ohttp_prims_scheme circumstances \<Rightarrow> string
     \<Rightarrow> ('c, 'o, 'z) history \<Rightarrow> ('c, 'o, 'z) history" where
  "response_steps F client ct i h =
     (let k = length (rp_callers (cl_responses (client_at F client h)));
          h = h @ [Cl_Begin i (ct_start ct), Cl_Join k] in
      case last (rp_callers (cl_responses (client_at F client h))) of
        Awaiting _ _ f \<Rightarrow> h @ [Cl_Resolve f (ct_net ct), Cl_Settle k]
      | _ \<Rightarrow> h)"

definition receipt_outcome ::
  "'f float_ops \<Rightarrow> client_options \<times> bool \<Rightarrow> ('c, 'o, 'z) history \<Rightarrow> verified_completion inf option" where
  "receipt_outcome F client h = (case last (rp_callers (cl_responses (client_at F client h))) of
       Returned _ _ r \<Rightarrow> Some r
     | Crashed \<Rightarrow> Some (panic ''unverified response bytes'')
     | _ \<Rightarrow> None)"

definition client_verify_response ::
  "'f float_ops \<Rightarrow> client_options \<times> bool \<Rightarrow> ('c, 'o, 'z) ohttp_prims_scheme circumstances \<Rightarrow> string
     \<Rightarrow> ('c, 'o, 'z) history \<Rightarrow> (verified_completion \<times> ('c, 'o, 'z) history) program" where
  "client_verify_response F client ct i h =
     (let h = response_steps F client ct i h in
      Option.bind (receipt_outcome F client h) (\<lambda>r. attempt (rbind (boxed_inf r) (\<lambda>v. Inr (v, h)))))"

section \<open>The chat programs\<close>

text \<open>
  A program has its environment variables, the library it parses and prints with, what its calls meet (numbered in the
  order of the code), the text of a status, and the point of its output where the timeout cuts it, if it does.
\<close>

record 'p program_setting =
  pg_env :: environment
  pg_lib :: 'p
  pg_calls :: "nat \<Rightarrow> 'p circumstances"
  pg_status_text :: "u16 \<Rightarrow> string"
  pg_cut :: "nat option"

definition succeeded :: "'p program_setting \<Rightarrow> string \<Rightarrow> pending_response \<Rightarrow> unit example" where
  "succeeded C what response =
     ensure (is_success (pr_status response)) (Message (what @ pg_status_text C (pr_status response)))"

text \<open>The answer to \<open>chat_request\<close> in one of the two modes, as the bytes the program goes on with.\<close>

definition chat_bytes ::
  "'f float_ops \<Rightarrow> ('c, 'o, 'z) ohttp_prims_scheme program_setting \<Rightarrow> client_options \<times> bool
     \<Rightarrow> ('c, 'o, 'z) ohttp_prims_scheme circumstances \<Rightarrow> bool \<Rightarrow> ('c, 'o, 'z) history
     \<Rightarrow> (bytes \<times> ('c, 'o, 'z) history) program" where
  "chat_bytes F C client ct stream h =
     (let request = chat_request (ct_net ct) (fst client) (example_body (pg_env C) stream) in
      if stream then
        then_do (attempt (boxed_inf request)) (\<lambda>request.
        then_do (client_send F client ct request h) (\<lambda>(response, h).
        then_do (attempt (succeeded C ''Chat failed: '' response)) (\<lambda>_.
        then_do (client_body F client ct h) (\<lambda>(items, h).
        then_do (read_stream (pg_lib C) (map boxed_inf items)) (\<lambda>bytes.
        attempt (Inr (bytes, h)))))))
      else
        then_do (client_json F client ct ''use send for streaming Chat'' request (example_body (pg_env C) stream) h) (\<lambda>(value', h).
        attempt (Inr (as_bytes (json_print (pg_lib C) value'), h))))"

definition waited :: "'a example option \<Rightarrow> 'a program" where
  "waited m = map_option (\<lambda>r. ([], r)) m"

definition gateway_chat_round ::
  "'f float_ops \<Rightarrow> ('c, 'o, 'z) ohttp_prims_scheme program_setting \<Rightarrow> client_options \<times> bool
     \<Rightarrow> ('c, 'o, 'z) ohttp_prims_scheme circumstances \<Rightarrow> ('c, 'o, 'z) ohttp_prims_scheme circumstances \<Rightarrow> bool
     \<Rightarrow> ('c, 'o, 'z) history \<Rightarrow> ('c, 'o, 'z) history program" where
  "gateway_chat_round F C client ct ct' stream h =
     then_do (chat_bytes F C client ct stream h) (\<lambda>(bytes, h).
     then_do (waited (completion_id (pg_lib C) bytes stream)) (\<lambda>i.
     then_do (client_verify_response F client ct' i h) (\<lambda>(receipt, h).
     then_do (println (''Verified '' @ debug_signature_kind (signature_kind receipt) @ '' receipt'')) (\<lambda>_.
     then_do (attempt (display (pg_lib C) bytes stream)) (\<lambda>text'.
     Some (text', Inr h))))))"

definition gateway_chat_options ::
  "'v provenance_prims_scheme \<Rightarrow> environment \<Rightarrow> client_options example" where
  "gateway_chat_options Q env =
     rbind (example_api_key env) (\<lambda>key.
     rbind (example_algo env) (\<lambda>algo.
     Inr (default_client_options\<lparr>io_api_key := Some key, io_base_url := example_gateway env, io_signing_algo := algo,
       io_e2ee := True, io_ohttp := example_ohttp env,
       io_model_verification := default_model_verification\<lparr>mo_deployment := Some (model_images_verifier Q)\<rparr>,
       io_gateway_verification := default_gateway_verification\<lparr>go_deployment := Some (gateway_images_verifier Q)\<rparr>\<rparr>)))"

definition gateway_chat_main ::
  "'f float_ops \<Rightarrow> 'v provenance_prims_scheme \<Rightarrow> ('c, 'o, 'z) ohttp_prims_scheme program_setting
     \<Rightarrow> ('c, 'o, 'z) history program" where
  "gateway_chat_main F Q C =
     then_do (attempt (gateway_chat_options Q (pg_env C))) (\<lambda>options.
     then_do (attempt (boxed_inf (with_options (pg_lib C) options))) (\<lambda>client.
     then_do (client_verify F client verify_attestation (pg_calls C 0) (example_model (pg_env C)) []) (\<lambda>(verified, h).
     then_do (println (''Gateway/model deployments and Gateway images verified at '' @ decimal (unat (ar_verified_at verified)))) (\<lambda>_.
     then_do (gateway_chat_round F C client (pg_calls C 1) (pg_calls C 2) False h)
       (gateway_chat_round F C client (pg_calls C 3) (pg_calls C 4) True)))))"

definition direct_chat_round ::
  "'f float_ops \<Rightarrow> ('c, 'o, 'z) ohttp_prims_scheme program_setting \<Rightarrow> client_options \<times> bool
     \<Rightarrow> ('c, 'o, 'z) ohttp_prims_scheme circumstances \<Rightarrow> ('c, 'o, 'z) ohttp_prims_scheme circumstances \<Rightarrow> bool
     \<Rightarrow> ('c, 'o, 'z) history \<Rightarrow> ('c, 'o, 'z) history program" where
  "direct_chat_round F C client ct ct' stream h =
     then_do (chat_bytes F C client ct stream h) (\<lambda>(bytes, h).
     then_do (waited (completion_id (pg_lib C) bytes stream)) (\<lambda>i.
     then_do (client_verify_response F client ct' i h) (\<lambda>(receipt, h).
     then_do (println ''Verified direct receipt'') (\<lambda>_.
     then_do (attempt (display (pg_lib C) bytes stream)) (\<lambda>text'.
     Some (text', Inr h))))))"

definition direct_chat_options :: "environment \<Rightarrow> direct_options example" where
  "direct_chat_options env =
     rbind (example_api_key env) (\<lambda>key.
     rbind (example_algo env) (\<lambda>algo.
     Inr (default_direct_options\<lparr>di_api_key := Some key, di_base_url := example_direct env, di_signing_algo := algo,
       di_e2ee := True, di_ohttp := example_ohttp env\<rparr>)))"

definition direct_chat_main ::
  "'f float_ops \<Rightarrow> ('c, 'o, 'z) ohttp_prims_scheme program_setting \<Rightarrow> ('c, 'o, 'z) history program" where
  "direct_chat_main F C =
     then_do (attempt (direct_chat_options (pg_env C))) (\<lambda>options.
     then_do (attempt (boxed_inf (direct_with_options (pg_lib C) options))) (\<lambda>client.
     then_do (client_verify F client verify_direct (pg_calls C 0) (example_model (pg_env C)) []) (\<lambda>(verified, h).
     then_do (println (''Verified '' @ decimal (length (dr_attestations verified)) @ '' model reports'')) (\<lambda>_.
     then_do (direct_chat_round F C client (pg_calls C 1) (pg_calls C 2) False h)
       (direct_chat_round F C client (pg_calls C 3) (pg_calls C 4) True)))))"

section \<open>The Responses and Messages programs\<close>

text \<open>\<open>timeout(120 s, run())\<close>: when the time is up the run is dropped, with what it had printed.\<close>

definition timeout_120 :: "'p program_setting \<Rightarrow> 'a program \<Rightarrow> 'a program" where
  "timeout_120 C run = (case pg_cut C of
       None \<Rightarrow> run
     | Some n \<Rightarrow> map_option (\<lambda>(out, _). (take n out, fail Elapsed)) run)"

definition plain_options :: "environment \<Rightarrow> client_options example" where
  "plain_options env =
     rbind (example_api_key env) (\<lambda>key.
     rbind (example_algo env) (\<lambda>algo.
     Inr (default_client_options\<lparr>io_api_key := Some key, io_base_url := example_gateway env, io_signing_algo := algo,
       io_ohttp := example_ohttp env\<rparr>)))"

definition array_items :: "json \<Rightarrow> json list" where
  "array_items j = or_else [] (as_array j)"

definition block_texts :: "json list \<Rightarrow> string" where
  "block_texts blocks = concat (List.map_filter (\<lambda>block. as_str (jindex block ''text'')) blocks)"

definition answer_id :: "json \<Rightarrow> string example" where
  "answer_id response = ok_or (Message ''missing response ID'') (as_str (jindex response ''id''))"

definition responses_fields :: "environment \<Rightarrow> (string \<times> json) list" where
  "responses_fields env = [(''input'', JStr ''Reply with the word ok.''), (''max_output_tokens'', JNum ''1024''),
     (''model'', JStr (or_else ''z-ai/glm-5.3-flash'' (env ''NEARAI_MODEL''))), (''store'', JBool False)]"

definition responses_streamed ::
  "'f float_ops \<Rightarrow> ('c, 'o, 'z) ohttp_prims_scheme program_setting \<Rightarrow> client_options \<times> bool \<Rightarrow> json
     \<Rightarrow> ('c, 'o, 'z) history \<Rightarrow> ('c, 'o, 'z) history program" where
  "responses_streamed F C client request h =
     then_do (attempt (boxed_inf (response_request (ct_net (pg_calls C 2)) (fst client) request))) (\<lambda>request.
     then_do (client_send F client (pg_calls C 2) request h) (\<lambda>(response, h).
     then_do (attempt (succeeded C ''HTTP status: '' response)) (\<lambda>_.
     then_do (client_body F client (pg_calls C 2) h) (\<lambda>(items, h).
     then_do (read_stream (pg_lib C) (map boxed_inf items)) (\<lambda>bytes.
     then_do (waited (events (pg_lib C) bytes)) (\<lambda>events'.
     then_do (attempt (ok_or (Message ''missing response ID'')
                (first_of (List.map_filter (\<lambda>event'. as_str (jindex (jindex event' ''response'') ''id'')) events')))) (\<lambda>i.
     then_do (client_verify_response F client (pg_calls C 3) i h) (\<lambda>(receipt, h).
     then_do (println (''Verified '' @ debug_signature_kind (signature_kind receipt) @ '' streaming response.'')) (\<lambda>_.
     attempt (Inr h))))))))))"

definition responses_run ::
  "'f float_ops \<Rightarrow> ('c, 'o, 'z) ohttp_prims_scheme program_setting \<Rightarrow> ('c, 'o, 'z) history program" where
  "responses_run F C =
     then_do (attempt (plain_options (pg_env C))) (\<lambda>options.
     then_do (attempt (boxed_inf (with_options (pg_lib C) options))) (\<lambda>client.
     let request = JObj (responses_fields (pg_env C)) in
     then_do (client_json F client (pg_calls C 0) ''use send for streaming Responses''
                (response_request (ct_net (pg_calls C 0)) (fst client) request) request []) (\<lambda>(response, h).
     then_do (attempt (answer_id response)) (\<lambda>i.
     then_do (client_verify_response F client (pg_calls C 1) i h) (\<lambda>(receipt, h).
     then_do (println (''Verified '' @ debug_signature_kind (signature_kind receipt) @ '' response.'')) (\<lambda>_.
     then_do (println (block_texts (concat (map (\<lambda>item. array_items (jindex item ''content''))
                (array_items (jindex response ''output'')))))) (\<lambda>_.
     responses_streamed F C client (JObj (bt_insert ''stream'' (JBool True) (responses_fields (pg_env C)))) h)))))))"

definition responses_main ::
  "'f float_ops \<Rightarrow> ('c, 'o, 'z) ohttp_prims_scheme program_setting \<Rightarrow> ('c, 'o, 'z) history program" where
  "responses_main F C = timeout_120 C (responses_run F C)"

definition message_id :: "string option \<Rightarrow> json \<Rightarrow> string option" where
  "message_id i event' =
     (if jindex event' ''type'' = JStr ''message_start'' then as_str (jindex (jindex event' ''message'') ''id'') else i)"

definition text_delta :: "json \<Rightarrow> string" where
  "text_delta event' =
     (if jindex event' ''type'' = JStr ''content_block_delta'' \<and> jindex (jindex event' ''delta'') ''type'' = JStr ''text_delta''
      then or_else [] (as_str (jindex (jindex event' ''delta'') ''text'')) else [])"

fun display_events ::
  "'z prims_scheme \<Rightarrow> event_decoder \<Rightarrow> string option \<Rightarrow> string \<Rightarrow> bytes example list \<Rightarrow> string program" where
  "display_events P d i printed [] = Some (printed @ [lf], ok_or (Message ''missing response ID'') i)"
| "display_events P d i printed (Inl f # source) = Some (printed, Inl f)"
| "display_events P d i printed (Inr record' # source) =
     (case event_push P d record' False of
        None \<Rightarrow> None
      | Some (_, Inl e) \<Rightarrow> Some (printed, Inl e)
      | Some (d', Inr events') \<Rightarrow>
          display_events P d' (fold (\<lambda>event' i. message_id i event') events' i)
            (printed @ concat (map text_delta events')) source)"

definition display_stream :: "'z prims_scheme \<Rightarrow> bytes example list \<Rightarrow> string program" where
  "display_stream P source = display_events P event_decoder_default None [] source"

definition messages_fields :: "environment \<Rightarrow> (string \<times> json) list" where
  "messages_fields env = [(''max_tokens'', JNum ''128''),
     (''messages'', JArr [JObj [(''content'', JStr ''Reply with the word ok.''), (''role'', JStr ''user'')]]),
     (''model'', JStr (or_else ''anthropic/claude-haiku-4-5'' (env ''NEARAI_MODEL'')))]"

definition messages_streamed ::
  "'f float_ops \<Rightarrow> ('c, 'o, 'z) ohttp_prims_scheme program_setting \<Rightarrow> client_options \<times> bool \<Rightarrow> json
     \<Rightarrow> ('c, 'o, 'z) history \<Rightarrow> ('c, 'o, 'z) history program" where
  "messages_streamed F C client request h =
     then_do (attempt (boxed_inf (message_request (ct_net (pg_calls C 2)) (fst client) request))) (\<lambda>request.
     then_do (client_send F client (pg_calls C 2) request h) (\<lambda>(response, h).
     then_do (attempt (succeeded C ''Messages HTTP status: '' response)) (\<lambda>_.
     then_do (client_body F client (pg_calls C 2) h) (\<lambda>(items, h).
     then_do (display_stream (pg_lib C) (map boxed_inf items)) (\<lambda>i.
     then_do (client_verify_response F client (pg_calls C 3) i h) (\<lambda>(verified, h).
     then_do (println (''Verified '' @ debug_signature_kind (signature_kind verified) @ '' streaming response.'')) (\<lambda>_.
     attempt (Inr h))))))))"

definition messages_run ::
  "'f float_ops \<Rightarrow> ('c, 'o, 'z) ohttp_prims_scheme program_setting \<Rightarrow> ('c, 'o, 'z) history program" where
  "messages_run F C =
     then_do (attempt (plain_options (pg_env C))) (\<lambda>options.
     then_do (attempt (boxed_inf (with_options (pg_lib C) options))) (\<lambda>client.
     let request = JObj (messages_fields (pg_env C)) in
     then_do (client_json F client (pg_calls C 0) ''use send for streaming Messages''
                (message_request (ct_net (pg_calls C 0)) (fst client) request) request []) (\<lambda>(response, h).
     then_do (attempt (answer_id response)) (\<lambda>i.
     then_do (client_verify_response F client (pg_calls C 1) i h) (\<lambda>(verified, h).
     then_do (println (''Verified '' @ debug_signature_kind (signature_kind verified) @ '' response.'')) (\<lambda>_.
     then_do (println (block_texts (array_items (jindex response ''content'')))) (\<lambda>_.
     messages_streamed F C client (JObj (bt_insert ''stream'' (JBool True) (messages_fields (pg_env C)))) h)))))))"

definition messages_main ::
  "'f float_ops \<Rightarrow> ('c, 'o, 'z) ohttp_prims_scheme program_setting \<Rightarrow> ('c, 'o, 'z) history program" where
  "messages_main F C = timeout_120 C (messages_run F C)"

section \<open>The System One program\<close>

text \<open>The derived \<open>Serialize\<close> of what a decision answers; \<open>f64_json\<close> is how \<open>serde_json\<close> makes a value of a number.\<close>

definition box_coordinates_json :: "('f \<Rightarrow> json) \<Rightarrow> 'f box_coordinates \<Rightarrow> json" where
  "box_coordinates_json f64_json b = JObj ([(''top'', f64_json (bx_top b)), (''bottom'', f64_json (bx_bottom b)),
     (''left'', f64_json (bx_left b)), (''right'', f64_json (bx_right b))] @ bx_extra b)"

definition answer_json :: "('f \<Rightarrow> json) \<Rightarrow> 'f systemone_answer \<Rightarrow> json" where
  "answer_json f64_json a = (case a of
       Noul noul extra \<Rightarrow> JObj ([(''type'', JStr ''noul''), (''noul'', f64_json noul)] @ extra)
     | Choice choice confidence probabilities extra \<Rightarrow>
         JObj ([(''type'', JStr ''choice''), (''choice'', JStr choice), (''confidence'', f64_json confidence),
           (''probabilities'', btree_json f64_json probabilities)] @ extra)
     | Score score confidence probabilities legend extra \<Rightarrow>
         JObj ([(''type'', JStr ''score''), (''score'', f64_json score), (''confidence'', f64_json confidence),
           (''probabilities'', btree_json f64_json probabilities), (''legend'', btree_json content_json legend)] @ extra)
     | Box bounds confidence extra \<Rightarrow>
         JObj ([(''type'', JStr ''box''), (''box'', box_coordinates_json f64_json bounds)]
           @ skip_none ''confidence'' f64_json confidence @ extra))"

definition usage_json :: "systemone_usage \<Rightarrow> json" where
  "usage_json u = JObj ([(''input_tokens'', JNum (decimal (us_input_tokens u))),
     (''output_tokens'', JNum (decimal (us_output_tokens u)))] @ us_extra u)"

text \<open>What the program takes from outside: files, \<open>STANDARD.encode\<close>, the making of numbers and \<open>to_string_pretty\<close>.\<close>

record 'f systemone_setting =
  so_read :: "string \<Rightarrow> bytes option"
  so_base64 :: "bytes \<Rightarrow> string"
  so_f64_json :: "'f \<Rightarrow> json"
  so_pretty :: "json \<Rightarrow> string"

definition expected_kind :: "environment \<Rightarrow> completion_signature_kind example" where
  "expected_kind env =
     (let kind = or_else ''gateway'' (env ''NEARAI_EXPECT_SIGNATURE_KIND'') in
      if kind = ''gateway'' then Inr Gateway
      else if kind = ''provider_tee'' then Inr ProviderTee
      else fail (Message ''NEARAI_EXPECT_SIGNATURE_KIND must be gateway or provider_tee''))"

definition default_model_policy :: model_attestation_policy where
  "default_model_policy = \<lparr>mp_accepted_tcb_statuses = None, mp_gpu_evidence = IfPresent\<rparr>"

definition systemone_options :: "environment \<Rightarrow> completion_signature_kind \<Rightarrow> client_options example" where
  "systemone_options env expected =
     rbind (example_api_key env) (\<lambda>key.
     rbind (example_algo env) (\<lambda>algo.
     Inr (default_client_options\<lparr>io_api_key := Some key, io_base_url := example_gateway env, io_signing_algo := algo,
       io_model_verification := default_model_verification\<lparr>mo_policy :=
         if expected = ProviderTee then Some default_model_policy else None\<rparr>\<rparr>)))"

definition ticket_fields :: "(string \<times> json) list" where
  "ticket_fields = [(''questions'', JObj [
       (''billing'', JObj [(''instructions'', JStr ''Is this about billing?''), (''type'', JStr ''noul'')]),
       (''team'', JObj [(''criteria'', JObj [(''billing'', JStr ''Payments and subscriptions''), (''support'', JStr ''Technical issues'')]),
          (''instructions'', JStr ''Which team should handle this?''), (''type'', JStr ''choice'')]),
       (''urgency'', JObj [(''criteria'', JArr [JStr ''Routine'', JStr ''Needs prompt attention'', JStr ''Critical'']),
          (''instructions'', JStr ''How urgent is this request?''), (''type'', JStr ''score'')])]),
     (''state'', JObj [(''message'', JStr ''I was charged twice for my subscription. Please help.'')])]"

definition photo_fields :: "string \<Rightarrow> (string \<times> json) list" where
  "photo_fields encoded = [(''questions'', JObj [
       (''region'', JObj [(''instructions'', JStr ''the main object in `photo`''), (''type'', JStr ''box'')])]),
     (''state'', JObj [(''photo'', JObj [(''image_url'', JObj [(''url'', JStr (''data:image/png;base64,'' @ encoded))]),
        (''type'', JStr ''image_url'')])])]"

definition decision_fields :: "'f systemone_setting \<Rightarrow> environment \<Rightarrow> (string \<times> json) list example" where
  "decision_fields S env = (case env ''NEARAI_IMAGE_PATH'' of
       None \<Rightarrow> Inr ticket_fields
     | Some path \<Rightarrow> rbind (ok_or Io_Failed (so_read S path)) (\<lambda>bytes. Inr (photo_fields (so_base64 S bytes))))"

definition decision_shown :: "'f systemone_setting \<Rightarrow> 'f systemone_response \<Rightarrow> string" where
  "decision_shown S decided_data = so_pretty S (json_value (JObj
     [(''answers'', btree_json (answer_json (so_f64_json S)) (sr_answers decided_data)), (''usage'', usage_json (sr_usage decided_data))]))"

definition systemone_run ::
  "'f float_ops \<Rightarrow> 'f systemone_setting \<Rightarrow> ('c, 'o, 'z) ohttp_prims_scheme program_setting \<Rightarrow> ('c, 'o, 'z) history program" where
  "systemone_run F S C =
     then_do (attempt (ok_or Not_Present (pg_env C ''NEARAI_MODEL''))) (\<lambda>model.
     then_do (attempt (expected_kind (pg_env C))) (\<lambda>expected.
     then_do (attempt (systemone_options (pg_env C) expected)) (\<lambda>options.
     then_do (attempt (boxed_inf (with_options (pg_lib C) options))) (\<lambda>client.
     then_do (attempt (decision_fields S (pg_env C))) (\<lambda>decision.
     let request = JObj (bt_insert ''model'' (JStr model) decision) in
     then_do (client_decide F client (pg_calls C 0) (Some (as_bytes (json_print (ct_net (pg_calls C 0)) request))) []) (\<lambda>(result, h).
     then_do (client_verify_response F client (pg_calls C 1) (so_decision_id result) h) (\<lambda>(receipt, h).
     then_do (attempt (ensure (signature_kind receipt = expected) (Message ''Unexpected signature kind''))) (\<lambda>_.
     then_do (println (''Verified '' @ debug_signature_kind (signature_kind receipt) @ '' receipt '' @ so_decision_id result @ ''.'')) (\<lambda>_.
     then_do (println (decision_shown S (so_data result))) (\<lambda>_.
     attempt (Inr h)))))))))))"

definition systemone_main ::
  "'f float_ops \<Rightarrow> 'f systemone_setting \<Rightarrow> ('c, 'o, 'z) ohttp_prims_scheme program_setting \<Rightarrow> ('c, 'o, 'z) history program" where
  "systemone_main F S C = timeout_120 C (systemone_run F S C)"

section \<open>The calls return\<close>

lemma client_at_sessions:
  "cl_sessions (client_at F client h) =
     run_sessions (fst client) (snd client) (session_run (fst client) (snd client) h) no_sessions"
  by (simp add: client_at_def run_client_sessions fresh_client_def)

lemma client_at_append [simp]:
  "client_at F client (h @ es) = run_client (fst client) (snd client) F es (client_at F client h)"
  by (simp add: client_at_def)

text \<open>Who asks for a session is the last caller, and gets one from the future it waits for.\<close>

lemma request_session_caller:
  "\<exists>c. sc_callers (request_session options model now s) = sc_callers s @ [c]
     \<and> ((\<exists>f. c = Waiting model f) \<or> (\<exists>r. c = Got model r))"
  by (auto simp: request_session_def purge_sessions_def Let_def split: option.split)

lemma await_session_gets:
  assumes callers: "sc_callers (cl_sessions (client_at F client h)) = cs @ [c]"
    and c: "(\<exists>f. c = Waiting model f) \<or> (\<exists>r. c = Got model r)"
  shows "\<exists>r. sc_callers (cl_sessions (client_at F client (await_session F client ct h))) = cs @ [Got model r]"
    and "cl_calls (client_at F client (await_session F client ct h)) = cl_calls (client_at F client h)"
    and "\<exists>es. await_session F client ct h = h @ es"
proof -
  show "\<exists>es. await_session F client ct h = h @ es" 
    by (auto simp: await_session_def Let_def split: session_caller.split)
  show "cl_calls (client_at F client (await_session F client ct h)) = cl_calls (client_at F client h)"
    by (auto simp: await_session_def Let_def on_sessions_def split: session_caller.split)
  show "\<exists>r. sc_callers (cl_sessions (client_at F client (await_session F client ct h))) = cs @ [Got model r]"
  proof (cases c)
    case (Waiting m f)
    with c have m: "m = model" by simp
    let ?s = "cl_sessions (client_at F client h)"
    have k: "length cs < length (sc_callers ?s)" "sc_callers ?s ! length cs = Waiting model f"
      using callers Waiting m by simp_all
    from waiting_caller_gets [OF _ k, of "fst client" "snd client" "session_run (fst client) (snd client) h" "ct_net ct" "ct_nonce ct"
        "ct_model_nonce ct" "ct_clock ct" "ct_attested ct"]
    obtain r where r: "sc_callers (run_sessions (fst client) (snd client) [Se_Create f (ct_net ct) (ct_nonce ct)
        (ct_model_nonce ct) (ct_clock ct), Se_Finish (length cs) (ct_attested ct)] ?s) ! length cs = Got model r"
      using run_sessions_inv by (auto simp: client_at_sessions)
    then have "sc_callers (finish_session (fst client) (length cs) (ct_attested ct) (complete_session (fst client) (snd client) f
        (ct_net ct) (ct_nonce ct) (ct_model_nonce ct) (ct_clock ct) ?s)) = cs @ [Got model r]"
      using callers
      by (auto simp: finish_session_def complete_session_def Let_def store_result_def put_session_def
          split: session_caller.splits option.splits sum.splits if_splits)
    then show ?thesis using callers Waiting m by (auto simp: await_session_def Let_def on_sessions_def)
  qed (use c callers in \<open>auto simp: await_session_def\<close>)
qed

lemma client_verify_returns: "\<exists>r h'. client_verify F client view ct model h = Some ([], rbind (boxed_inf (view r)) (\<lambda>v. Inr (v, h')))"
proof -
  let ?h = "h @ [Cl_Verify model (ct_start ct)]"
  obtain c where "sc_callers (cl_sessions (client_at F client ?h)) = sc_callers (cl_sessions (client_at F client h)) @ [c]"
      "(\<exists>f. c = Waiting model f) \<or> (\<exists>r. c = Got model r)"
    using request_session_caller [of "fst client" model "ct_start ct" "cl_sessions (client_at F client h)"]
    by (auto simp: on_sessions_def)
  from await_session_gets(1) [OF this, of ct] obtain r where
      "sc_callers (cl_sessions (client_at F client (await_session F client ct ?h))) =
         sc_callers (cl_sessions (client_at F client h)) @ [Got model r]"
    by blast
  then show ?thesis by (auto simp: client_verify_def Let_def attempt_def simp del: client_at_append)
qed

text \<open>An exchange that was begun is over, or has its answer.\<close>

lemma client_exchange_ends:
  obtains cs c where "cl_calls (client_at F client (client_exchange F client ct work h)) = cs @ [c]"
    and "\<And>request. work = Sending request \<Longrightarrow> (\<exists>f. c = Call_Failed f) \<or> (\<exists>g pending. c = Call_Body g pending)"
    and "\<And>body h'. work = Deciding body h' \<Longrightarrow> (\<exists>f. c = Call_Failed f) \<or> (\<exists>g i captured decoded. c = Call_Decision g i captured decoded)"
proof -
  let ?s = "client_at F client h" and ?h = "h @ [Cl_Call (ct_net ct) work (ct_start ct)]"
  show thesis
  proof (cases "work_model (ct_net ct) (snd client) (fst client) work")
    case (Inl f)
    then have "cl_calls (client_at F client ?h) = cl_calls ?s @ [Call_Failed f]" by (simp add: start_call_def)
    then show thesis by (intro that) (auto simp: client_exchange_def Let_def simp del: client_at_append)
  next
    case (Inr model)
    let ?k = "length (sc_callers (cl_sessions ?s))" and ?g = "rp_generation (cl_responses ?s)"
    have calls: "cl_calls (client_at F client ?h) = cl_calls ?s @ [Call_Session work ?g ?k]"
      and sessions: "cl_sessions (client_at F client ?h) = request_session (fst client) model (ct_start ct) (cl_sessions ?s)"
      using Inr by (simp_all add: start_call_def)
    obtain c where c: "sc_callers (cl_sessions (client_at F client ?h)) = sc_callers (cl_sessions ?s) @ [c]"
        "(\<exists>f. c = Waiting model f) \<or> (\<exists>r. c = Got model r)"
      unfolding sessions using request_session_caller by blast
    let ?h' = "await_session F client ct ?h"
    obtain r where r: "sc_callers (cl_sessions (client_at F client ?h')) ! ?k = Got model r"
      using await_session_gets(1) [OF c] by (metis nth_append_length)
    have calls': "cl_calls (client_at F client ?h') = cl_calls ?s @ [Call_Session work ?g ?k]"
      using await_session_gets(2) [OF c] calls by simp
    have ex: "client_exchange F client ct work h =
        ?h' @ [Cl_Exchange (length (cl_calls ?s)) (ct_net ct) (ct_seed ct) (ct_rnd ct) (ct_ohttp_rnd ct)]"
      by (simp add: client_exchange_def Let_def calls del: client_at_append)
    have "cl_calls (client_at F client (client_exchange F client ct work h)) = cl_calls ?s @
        [exchange (ct_net ct) F (snd client) (fst client) (ct_seed ct) (ct_rnd ct) (ct_ohttp_rnd ct) r ?g work]"
      unfolding ex client_at_append [of F client ?h'] by (simp add: exchange_call_def calls' r Inr)
    then show thesis by (rule that) (auto simp: exchange_def split: sum.split)
  qed
qed

lemma client_conclude_last:
  assumes "cl_calls (client_at F client h) = cs @ [c]"
  shows "cl_calls (client_at F client (client_conclude F client ct h)) =
     cs @ [fst (conclude (ct_net ct) (fst client) (ct_end ct) c (cl_responses (client_at F client h)))]"
  using assms by (simp add: client_conclude_def conclude_call_def case_prod_beta)

lemma client_send_returns:
  obtains (failed) f where "client_send F client ct request h = Some ([], boxed_inf (Inl f))"
  | (answered) pending h' cs g where "client_send F client ct request h = Some ([], Inr (pending, h'))"
      "cl_calls (client_at F client h') = cs @ [Call_Body g pending]"
proof (rule client_exchange_ends [of F client ct "Sending request" h])
  fix cs c
  assume calls: "cl_calls (client_at F client (client_exchange F client ct (Sending request) h)) = cs @ [c]"
    and "\<And>request'. Sending request = Sending request' \<Longrightarrow> (\<exists>f. c = Call_Failed f) \<or> (\<exists>g pending. c = Call_Body g pending)"
  then consider f where "c = Call_Failed f" | g pending where "c = Call_Body g pending" by blast
  then show thesis
  proof cases
    case 1
    with calls show thesis by (intro failed) (simp add: client_send_def Let_def attempt_def)
  next
    case 2
    with calls show thesis by (intro answered) (simp_all add: client_send_def Let_def attempt_def)
  qed
qed

lemma client_body_returns:
  assumes "cl_calls (client_at F client h) = cs @ [Call_Body g pending]"
  shows "\<exists>items. client_body F client ct h = Some ([], Inr (items, client_conclude F client ct h))"
  using client_conclude_last [OF assms, of ct]
  by (auto simp: client_body_def Let_def attempt_def conclude_def split: prod.splits)

lemma client_json_returns: "client_json F client ct reason request body h \<noteq> None"
proof -
  have "then_do (client_send F client ct req h) (\<lambda>(response, h).
     then_do (attempt (boxed_inf (ensure (is_success (pr_status response))
                (Api (HttpStatus Res_Completion (pr_status response)))))) (\<lambda>_.
     then_do (client_body F client ct h) (\<lambda>(items, h).
     then_do (attempt (boxed_inf (collect_json (ct_net ct) items))) (\<lambda>value'. attempt (Inr (value', h)))))) \<noteq> None" for req
  proof (cases rule: client_send_returns [of F client ct req h])
    case (answered pending h' cs g)
    with client_body_returns [OF answered(2), of ct] show ?thesis
      by (auto simp: then_do_None attempt_def)
  next
    case (failed f)
    then show ?thesis by (cases f) (simp_all add: then_do_def boxed_inf_def)
  qed
  note sent = this
  show ?thesis unfolding client_json_def by (rule then_do_returns [OF basic_returns(1)], rule then_do_returns [OF basic_returns(1)], rule sent)
qed

lemma client_decide_returns: "client_decide F client ct body h \<noteq> None"
proof (rule client_exchange_ends [of F client ct "Deciding body []" h])
  fix cs c
  assume calls: "cl_calls (client_at F client (client_exchange F client ct (Deciding body []) h)) = cs @ [c]"
    and "\<And>body' h'. Deciding body [] = Deciding body' h' \<Longrightarrow>
      (\<exists>f. c = Call_Failed f) \<or> (\<exists>g i captured decoded. c = Call_Decision g i captured decoded)"
  then consider f where "c = Call_Failed f" | g i captured decoded where "c = Call_Decision g i captured decoded" by blast
  then show ?thesis
  proof cases
    case 1
    with calls show ?thesis by (simp add: client_decide_def Let_def attempt_def)
  next
    case 2
    with client_conclude_last [OF calls, of ct] calls show ?thesis
      by (auto simp: client_decide_def Let_def attempt_def conclude_def split: sum.split prod.splits)
  qed
qed

text \<open>\<open>verify_response\<close> returns, to the caller that began it; only the \<open>expect\<close> could have stopped it, and never does.\<close>

lemma begin_call_last:
  "\<exists>c. rp_callers (begin_call options i now s) = rp_callers s @ [c] \<and> ((\<exists>a. c = Looked i a) \<or> (\<exists>e. c = Returned i None e))"
  by (auto simp: begin_call_def lookup_response_def purge_responses_def Let_def ok_or_def split: option.split sum.split)

lemma join_call_last:
  assumes "rp_callers s = cs @ [c]" and "(\<exists>a. c = Looked i a) \<or> (\<exists>e. c = Returned i None e)"
  shows "\<exists>c'. rp_callers (join_call (length cs) s) = cs @ [c']
     \<and> (c' = Crashed \<or> (\<exists>a f. c' = Awaiting i a f) \<or> (\<exists>e. c' = Returned i None e))"
  using assms
  by (auto simp: join_call_def join_verification_def set_caller_def Let_def split: option.split)

lemma client_responses_ok:
  fixes h :: "('c, 'o, 'z) history"
  shows "\<exists>(es :: ('c, 'o, 'z) ohttp_prims_scheme response_event list) log.
    responses_inv (fst client) es log (cl_responses (client_at F client h))"
  using run_client_inv [of "fst client" "snd client" F h] run_inv unfolding client_at_def client_inv_def by metis

lemma client_verify_response_returns:
  "\<exists>a r es. client_verify_response F client ct i h = Some ([], rbind (boxed_inf r) (\<lambda>v. Inr (v, h @ es)))
     \<and> Returned i a r \<in> set (rp_callers (cl_responses (client_at F client (h @ es))))"
proof -
  let ?s = "cl_responses (client_at F client h)"
  let ?k = "length (rp_callers ?s)" and ?h = "h @ [Cl_Begin i (ct_start ct), Cl_Join (length (rp_callers ?s))]"
  obtain b where b: "rp_callers (begin_call (fst client) i (ct_start ct) ?s) = rp_callers ?s @ [b]"
      "(\<exists>a. b = Looked i a) \<or> (\<exists>e. b = Returned i None e)"
    using begin_call_last by blast
  have state: "cl_responses (client_at F client ?h) = join_call ?k (begin_call (fst client) i (ct_start ct) ?s)"
    by (simp add: on_responses_def)
  obtain c where c: "rp_callers (cl_responses (client_at F client ?h)) = rp_callers ?s @ [c]"
      "c = Crashed \<or> (\<exists>a f. c = Awaiting i a f) \<or> (\<exists>e. c = Returned i None e)"
    using join_call_last [OF b] unfolding state by blast
  from client_responses_ok [of client F ?h] obtain es :: "('a, 'b, 'c) ohttp_prims_scheme response_event list" and log where
      inv: "responses_inv (fst client) es log (cl_responses (client_at F client ?h))"
    by blast
  have ok: "caller_ok log (rp_futures (cl_responses (client_at F client ?h))) c"
    by (rule responses_invD(5) [OF inv]) (simp add: c(1) del: client_at_append)
  from c(2) consider "c = Crashed" | a f where "c = Awaiting i a f" | e where "c = Returned i None e" by blast
  then show ?thesis
  proof cases
    case 1
    with ok show ?thesis by (simp add: caller_ok_def)
  next
    case (2 a f)
    let ?t = "cl_responses (client_at F client ?h)" and ?es = "[Cl_Resolve f (ct_net ct), Cl_Settle ?k]"
    have f: "f < length (rp_futures ?t)" using ok 2 by (simp add: caller_ok_def)
    then obtain r where r: "rf_result (rp_futures (resolve_future (fst client) f (ct_net ct) ?t) ! f) = Some r"
        "rp_callers (resolve_future (fst client) f (ct_net ct) ?t) = rp_callers ?t"
      by (cases "rf_result (rp_futures ?t ! f)") (auto simp: resolve_future_def Let_def)
    have "cl_responses (client_at F client (?h @ ?es)) = settle_call ?k (resolve_future (fst client) f (ct_net ct) ?t)"
      unfolding client_at_append [of F client ?h] by (simp add: on_responses_def)
    then have last': "rp_callers (cl_responses (client_at F client (?h @ ?es))) = rp_callers ?s @ [Returned i (Some a) r]"
      using c(1) r 2 by (simp add: settle_call_def set_caller_def settle_verification_def Let_def del: client_at_append)
    have "client_verify_response F client ct i h = Some ([], rbind (boxed_inf r) (\<lambda>v. Inr (v, ?h @ ?es)))"
      using c(1) last' 2 by (simp add: client_verify_response_def response_steps_def receipt_outcome_def Let_def attempt_def del: client_at_append)
    then show ?thesis using last'
      by (intro exI [of _ "Some a"] exI [of _ r] exI [of _ "[Cl_Begin i (ct_start ct), Cl_Join ?k] @ ?es"])
        (simp del: client_at_append)
  next
    case (3 e)
    then have "client_verify_response F client ct i h = Some ([], rbind (boxed_inf e) (\<lambda>v. Inr (v, ?h)))"
      using c(1) by (simp add: client_verify_response_def response_steps_def receipt_outcome_def Let_def attempt_def del: client_at_append)
    then show ?thesis using c(1) 3
      by (intro exI [of _ None] exI [of _ e] exI [of _ "[Cl_Begin i (ct_start ct), Cl_Join ?k]"]) (simp del: client_at_append)
  qed
qed

text \<open>A receipt that a program gets traces back to an exchange of its client.\<close>

lemma client_verify_response_traced:
  assumes "client_verify_response F client ct i h = Some (out, Inr (v, h'))"
  shows "out = [] \<and> (\<exists>es. h' = h @ es) \<and> receipt_traced (fst client) (snd client) F h' i v"
proof -
  obtain a r es where r: "client_verify_response F client ct i h = Some ([], rbind (boxed_inf r) (\<lambda>v. Inr (v, h @ es)))"
      "Returned i a r \<in> set (rp_callers (cl_responses (client_at F client (h @ es))))"
    using client_verify_response_returns by blast
  from assms r(1) have "r = Inr v" "h' = h @ es" "out = []" by (auto simp: program_success)
  with r(2) returned_traced [OF refl, of i a v "fst client" "snd client" F "h @ es"] show ?thesis
    unfolding client_at_def by auto
qed

section \<open>What an answer of the Gateway program rests on\<close>

text \<open>The deployment of the Gateway, or of the model, that signed for an answer is vouched for.\<close>

definition signer_vouched :: "'v provenance_prims_scheme \<Rightarrow> verified_completion \<Rightarrow> bool" where
  "signer_vouched Q v \<longleftrightarrow> (case vc_attestation v of
       Att_Gateway g \<Rightarrow> \<exists>compose services.
         Option.bind (json_document Q (as_bytes (md_app_compose (ve_deployment (vg_evidence g))))) app_compose_of = Some compose
         \<and> compose_services Q compose = Some services
         \<and> images_vouched Q \<lparr>pf_github_token = None, pf_github_api_url = None\<rparr> None gateway_images None services
     | Att_Model m \<Rightarrow> model_images_verifier Q (ve_deployment (vm_evidence m)) = Inr ()
     | Att_Direct _ \<Rightarrow> False)"

definition chat_answer ::
  "'f float_ops \<Rightarrow> 'v provenance_prims_scheme \<Rightarrow> ('c, 'o, 'z) ohttp_prims_scheme \<Rightarrow> client_options \<Rightarrow> ('c, 'o, 'z) history
     \<Rightarrow> bool \<Rightarrow> string \<Rightarrow> bool" where
  "chat_answer F Q L options h stream answer \<longleftrightarrow>
     (\<exists>bytes printed i v shown.
        completion_id L bytes stream = Some (Inr i)
        \<and> (if stream then \<exists>vs. events L bytes = Some (Inr vs) \<and> printed = concat (map delta vs) @ [lf] else printed = [])
        \<and> receipt_traced options False F h i v \<and> signer_vouched Q v
        \<and> display L bytes stream = Inr shown
        \<and> answer = printed @ ''Verified '' @ debug_signature_kind (signature_kind v) @ '' receipt'' @ [lf] @ shown)"

lemma receipt_traced_mono:
  assumes "receipt_traced options direct F es i v" and sub: "set es \<subseteq> set es'"
  shows "receipt_traced options direct F es' i v"
proof -
  obtain c f P where c: "Cl_Resolve f P \<in> set es" "exchanged options direct F es i c" "receipt_for P (io_signing_algo options) i c v"
      "\<forall>g. vc_attestation v = Att_Gateway g \<longrightarrow> \<not> direct \<and> (\<exists>f P nonce nonce' clock api.
          Cl_Create f P nonce nonce' clock \<in> set es
          \<and> authenticate_gateway P options nonce = Inr (api, se_client (ca_session c), g, se_ohttp (ca_session c)))"
      "\<forall>m. vc_attestation v = Att_Model m \<and> \<not> direct \<longrightarrow> (\<exists>f P nonce nonce' clock model.
          Cl_Create f P nonce nonce' clock \<in> set es \<and> model_attested P options model m)"
    using assms(1) unfolding receipt_traced_def by (elim exE conjE) (rule that)
  show ?thesis
    unfolding receipt_traced_def
  proof (intro exI conjI)
    show "Cl_Resolve f P \<in> set es'" "exchanged options direct F es' i c" "receipt_for P (io_signing_algo options) i c v"
      using c(1) exchanged_mono [OF c(2) sub] c(3) sub by blast+
    show "\<forall>g. vc_attestation v = Att_Gateway g \<longrightarrow> \<not> direct \<and> (\<exists>f P nonce nonce' clock api.
          Cl_Create f P nonce nonce' clock \<in> set es'
          \<and> authenticate_gateway P options nonce = Inr (api, se_client (ca_session c), g, se_ohttp (ca_session c)))"
      using c(4) sub by blast
    show "\<forall>m. vc_attestation v = Att_Model m \<and> \<not> direct \<longrightarrow> (\<exists>f P nonce nonce' clock model.
          Cl_Create f P nonce nonce' clock \<in> set es' \<and> model_attested P options model m)"
      using c(5) sub by blast
  qed
qed

lemma authenticated_gateway_images:
  assumes "authenticate_gateway P options nonce = Inr (api, client, g, ohttp)"
    and "go_deployment (io_gateway_verification options) = Some verifier"
  shows "verifier (ve_deployment (vg_evidence g)) = Inr ()"
proof -
  obtain fetched c where "gateway_phase P options fetched c = Inr (g, ohttp)"
    using assms(1) by (auto simp: authenticate_gateway_def Let_def outcome_simps)
  from iffD1 [OF verify_gateway_attestation_eq gateway_phase_ok(1) [OF this]] assms(2)
  show ?thesis by (auto simp: provenance_run_def)
qed

lemma attested_model_images:
  assumes "model_attested P options model m" and "mo_deployment (io_model_verification options) = Some verifier"
  shows "verifier (ve_deployment (vm_evidence m)) = Inr ()"
proof -
  obtain report and binding :: model_client_binding where
      v: "verify_model_attestation P report binding (mo_policy (io_model_verification options))
        \<lparr>mv_tdx_quote = mo_tdx_quote (io_model_verification options),
         mv_gpu_evidence = mo_gpu_evidence (io_model_verification options),
         mv_deployment = session_deployment model options\<rparr> = Inr m"
    using assms(1) unfolding model_attested_def by blast
  have "provenance_run (session_deployment model options) (ve_deployment (vm_evidence m)) (ve_deployment_provenance (vm_evidence m))"
    using iffD1 [OF verify_model_with_tls_eq v [unfolded verify_model_attestation_def]] by auto
  then show ?thesis
    using assms(2) by (auto simp: provenance_run_def session_deployment_def policy_verifier_def outcome_simps)
qed

lemma gateway_session_not_direct:
  assumes "exchanged options False F es i c"
  shows "se_direct (ca_session c) = None"
proof -
  obtain model where "session_made options False es model (ca_session c)"
    using assms unfolding exchanged_def sent_def decided_def captured_of_def by auto
  then show ?thesis by (auto simp: session_made_def new_session_def elim: create_session_steps)
qed

lemma traced_signer_vouched:
  fixes h :: "('c, 'o, 'z) history"
  assumes traced: "receipt_traced options False F h i v"
    and "go_deployment (io_gateway_verification options) = Some (gateway_images_verifier Q)"
    and "mo_deployment (io_model_verification options) = Some (model_images_verifier Q)"
  shows "signer_vouched Q v"
proof -
  obtain c and P :: "('c, 'o, 'z) ohttp_prims_scheme" where c: "exchanged options False F h i c"
      "receipt_for P (io_signing_algo options) i c v"
    using traced unfolding receipt_traced_def by blast
  show ?thesis
  proof (cases "vc_attestation v")
    case (Att_Gateway g)
    then obtain P' :: "('c, 'o, 'z) ohttp_prims_scheme" and nonce api client ohttp where
        "authenticate_gateway P' options nonce = Inr (api, client, g, ohttp)"
      using traced unfolding receipt_traced_def by blast
    from authenticated_gateway_images [OF this assms(2)] show ?thesis
      by (auto simp: signer_vouched_def Att_Gateway elim!: gateway_images_ok)
  next
    case (Att_Model m)
    then obtain P' :: "('c, 'o, 'z) ohttp_prims_scheme" and model where "model_attested P' options model m"
      using traced unfolding receipt_traced_def by blast
    from attested_model_images [OF this assms(3)] show ?thesis by (simp add: signer_vouched_def Att_Model)
  next
    case (Att_Direct reports)
    with c gateway_session_not_direct [OF c(1)] show ?thesis by (auto simp: receipt_for_def)
  qed
qed

section \<open>Successful rounds\<close>

lemma waited_success: "waited m = Some (out, Inr a) \<longleftrightarrow> m = Some (Inr a) \<and> out = []"
  by (auto simp: waited_def)

lemma waited_returns: "m \<noteq> None \<Longrightarrow> waited m \<noteq> None"
  by (simp add: waited_def)

lemma client_send_extends: "client_send F client ct request h = Some (out, Inr (pending, h')) \<Longrightarrow> out = []"
  by (cases rule: client_send_returns [of F client ct request h]) (simp_all add: boxed_inf_def)

lemma client_body_silent: "client_body F client ct h = Some (out, Inr (items, h')) \<Longrightarrow> out = []"
  by (auto simp: client_body_def Let_def attempt_def split: client_call.splits)

lemma client_json_silent: "client_json F client ct reason request body h = Some (out, Inr r) \<Longrightarrow> out = []"
  by (auto simp: client_json_def program_success dest!: client_send_extends client_body_silent split: prod.splits)

lemma chat_bytes_success:
  assumes "chat_bytes F C client ct stream h = Some (printed, Inr (bytes, h'))"
  shows "if stream then \<exists>vs. events (pg_lib C) bytes = Some (Inr vs) \<and> printed = concat (map delta vs) @ [lf] else printed = []"
  using assms
  by (auto simp: chat_bytes_def Let_def program_success read_stream_success split: prod.splits if_splits
      dest!: client_send_extends client_body_silent client_json_silent)

lemma gateway_chat_round_success:
  assumes "gateway_chat_round F C (options, False) ct ct' stream h = Some (out, Inr h')"
    and "go_deployment (io_gateway_verification options) = Some (gateway_images_verifier Q)"
    and "mo_deployment (io_model_verification options) = Some (model_images_verifier Q)"
  shows "chat_answer F Q (pg_lib C) options h' stream out"
proof -
  obtain printed bytes h1 i v shown where steps:
      "chat_bytes F C (options, False) ct stream h = Some (printed, Inr (bytes, h1))"
      "completion_id (pg_lib C) bytes stream = Some (Inr i)"
      "client_verify_response F (options, False) ct' i h1 = Some ([], Inr (v, h'))"
      "display (pg_lib C) bytes stream = Inr shown"
      "out = printed @ ''Verified '' @ debug_signature_kind (signature_kind v) @ '' receipt'' @ [lf] @ shown"
    using assms(1) client_verify_response_traced
    unfolding gateway_chat_round_def then_do_success attempt_success println_success waited_success split_paired_Ex prod.case
    by (fastforce simp only: append_assoc append_Nil option.inject prod.inject sum.inject)
  have "receipt_traced options False F h' i v" using client_verify_response_traced [OF steps(3)] by simp
  with steps chat_bytes_success [OF steps(1)] traced_signer_vouched [OF this assms(2,3)] show ?thesis
    unfolding chat_answer_def by blast
qed

section \<open>The programs return\<close>

lemma client_send_then:
  assumes "\<And>pending h' cs g. cl_calls (client_at F client h') = cs @ [Call_Body g pending] \<Longrightarrow> f (pending, h') \<noteq> None"
  shows "then_do (client_send F client ct request h) f \<noteq> None"
proof (cases rule: client_send_returns [of F client ct request h])
  case (failed e)
  then show ?thesis by (cases e) (simp_all add: then_do_def boxed_inf_def)
next
  case (answered pending h' cs g)
  with assms [OF answered(2)] show ?thesis by (simp add: then_do_None)
qed

lemma client_body_then:
  assumes "cl_calls (client_at F client h) = cs @ [Call_Body g pending]" and "\<And>items h'. f (items, h') \<noteq> None"
  shows "then_do (client_body F client ct h) f \<noteq> None"
  using client_body_returns [OF assms(1), of ct] assms(2) by (auto simp: then_do_None)

lemma client_verify_then: "(\<And>x. f x \<noteq> None) \<Longrightarrow> then_do (client_verify F client view ct model h) f \<noteq> None"
  using client_verify_returns [of F client view ct model h] by (auto simp: then_do_None)

lemma client_verify_response_then: "(\<And>x. f x \<noteq> None) \<Longrightarrow> then_do (client_verify_response F client ct i h) f \<noteq> None"
  using client_verify_response_returns [of F client ct i h] by (auto simp: then_do_None)

lemma display_stream_returns: "display_stream P source \<noteq> None"
proof -
  have "display_events P d i printed source \<noteq> None" for d i printed
  proof (induction source arbitrary: d i printed)
    case (Cons x source)
    show ?case
    proof (cases x)
      case (Inr record')
      obtain d' r where "event_push P d record' False = Some (d', r)" using event_push_returns [of P d record' False] by auto
      then show ?thesis using Cons.IH by (cases r) (simp_all add: Inr)
    qed simp
  qed simp
  then show ?thesis by (simp add: display_stream_def)
qed

lemma events_returns: "events P b \<noteq> None"
  using event_push_returns [of P event_decoder_default b True] by (auto simp: events_def)

lemma timeout_returns: "m \<noteq> None \<Longrightarrow> timeout_120 C m \<noteq> None"
  by (simp add: timeout_120_def split: option.split)

lemma chat_bytes_returns: "chat_bytes F C client ct stream h \<noteq> None"
proof (cases stream)
  case True
  have "then_do (client_send F client ct request h) (\<lambda>(response, h).
        then_do (attempt (succeeded C ''Chat failed: '' response)) (\<lambda>_.
        then_do (client_body F client ct h) (\<lambda>(items, h).
        then_do (read_stream (pg_lib C) (map boxed_inf items)) (\<lambda>bytes. attempt (Inr (bytes, h)))))) \<noteq> None" for request
    by (rule client_send_then, unfold prod.case, rule then_do_returns [OF basic_returns(1)], rule client_body_then, assumption)
      (simp add: then_do_returns read_stream_returns basic_returns)
  then show ?thesis using True unfolding chat_bytes_def Let_def by (simp add: then_do_returns basic_returns)
next
  case False
  then show ?thesis unfolding chat_bytes_def Let_def
    by (simp add: then_do_returns client_json_returns basic_returns case_prod_beta)
qed

lemmas program_returns = then_do_returns basic_returns waited_returns completion_id_returns chat_bytes_returns
  client_verify_then client_verify_response_then client_json_returns client_decide_returns

lemma chat_rounds_return: "gateway_chat_round F C client ct ct' stream h \<noteq> None" "direct_chat_round F C client ct ct' stream h \<noteq> None"
  unfolding gateway_chat_round_def direct_chat_round_def case_prod_beta
  by (intro then_do_returns chat_bytes_returns waited_returns completion_id_returns client_verify_response_then basic_returns
      option.distinct(2))+

lemma chat_programs_return: "gateway_chat_main F Q C \<noteq> None" "direct_chat_main F C \<noteq> None"
  unfolding gateway_chat_main_def direct_chat_main_def case_prod_beta
  by (intro then_do_returns client_verify_then basic_returns chat_rounds_return)+

lemma responses_streamed_returns: "responses_streamed F C client request h \<noteq> None"
  unfolding responses_streamed_def
  by (rule then_do_returns [OF basic_returns(1)], rule client_send_then, unfold prod.case,
      rule then_do_returns [OF basic_returns(1)], rule client_body_then, assumption, unfold case_prod_beta)
    (intro then_do_returns read_stream_returns waited_returns events_returns client_verify_response_then basic_returns)

lemma messages_streamed_returns: "messages_streamed F C client request h \<noteq> None"
  unfolding messages_streamed_def
  by (rule then_do_returns [OF basic_returns(1)], rule client_send_then, unfold prod.case,
      rule then_do_returns [OF basic_returns(1)], rule client_body_then, assumption, unfold case_prod_beta)
    (intro then_do_returns display_stream_returns client_verify_response_then basic_returns)

lemma timed_programs_return: "responses_main F C \<noteq> None" "messages_main F C \<noteq> None" "systemone_main F S C \<noteq> None"
  unfolding responses_main_def responses_run_def messages_main_def messages_run_def systemone_main_def systemone_run_def
    Let_def case_prod_beta
  by (intro timeout_returns then_do_returns basic_returns client_json_returns client_decide_returns
      client_verify_response_then responses_streamed_returns messages_streamed_returns)+

section \<open>Histories only grow\<close>

lemma await_session_extends: "\<exists>es. await_session F client ct h = h @ es"
  by (auto simp: await_session_def Let_def split: session_caller.split)

lemma client_exchange_extends: "\<exists>es. client_exchange F client ct work h = h @ es"
proof -
  obtain es where "await_session F client ct (h @ [Cl_Call (ct_net ct) work (ct_start ct)]) =
      (h @ [Cl_Call (ct_net ct) work (ct_start ct)]) @ es"
    using await_session_extends by blast
  then show ?thesis by (auto simp: client_exchange_def Let_def split: client_call.split)
qed

lemma boxed_inf_failed: "boxed_inf (Inl f) \<noteq> Inr x"
  by (cases f) (simp_all add: boxed_inf_def)

lemma client_send_grows:
  assumes "client_send F client ct request h = Some (out, Inr (pending, h'))"
  shows "set h \<subseteq> set h'"
proof -
  have "h' = client_exchange F client ct (Sending request) h"
    using assms by (auto simp: client_send_def Let_def attempt_def boxed_inf_failed split: client_call.splits)
  then show ?thesis using client_exchange_extends [of F client ct "Sending request" h] by auto
qed

lemma client_body_grows: "client_body F client ct h = Some (out, Inr (items, h')) \<Longrightarrow> set h \<subseteq> set h'"
  by (auto simp: client_body_def client_conclude_def Let_def attempt_def split: client_call.splits)

lemma client_json_grows: "client_json F client ct reason request body h = Some (out, Inr (v, h')) \<Longrightarrow> set h \<subseteq> set h'"
  by (auto simp: client_json_def program_success dest!: client_send_grows client_body_grows split: prod.splits)

lemma chat_bytes_grows: "chat_bytes F C client ct stream h = Some (out, Inr (bytes, h')) \<Longrightarrow> set h \<subseteq> set h'"
  by (auto simp: chat_bytes_def Let_def program_success split: prod.splits if_splits
      dest!: client_send_grows client_body_grows client_json_grows)

lemma gateway_chat_round_grows:
  assumes "gateway_chat_round F C client ct ct' stream h = Some (out, Inr h')"
  shows "set h \<subseteq> set h'"
  using assms unfolding gateway_chat_round_def then_do_success attempt_success println_success waited_success split_paired_Ex prod.case
  by (elim exE conjE) (frule chat_bytes_grows, frule client_verify_response_traced, auto)

lemma chat_answer_mono:
  assumes "chat_answer F Q L options h stream answer" and "set h \<subseteq> set h'"
  shows "chat_answer F Q L options h' stream answer"
  using assms(1) unfolding chat_answer_def
  by (elim exE conjE, intro exI conjI) (assumption | rule receipt_traced_mono [OF _ assms(2)])+

lemma gateway_client_verifiers:
  assumes "gateway_chat_options Q env = Inr options" and "with_options P options = Inr client"
  obtains own where "client = (own, False)"
    and "go_deployment (io_gateway_verification own) = Some (gateway_images_verifier Q)"
    and "mo_deployment (io_model_verification own) = Some (model_images_verifier Q)"
  using assms
  by (cases client)
    (auto simp: gateway_chat_options_def with_options_def create_client_def Let_def outcome_simps split: option.splits)

section \<open>Property\<close>

text \<open>C37: The integrated Gateway program shows answers with a vouched-for receipt only. It always returns, whatever its
  environment, the network and the server do; and when it returns without an error, what it printed is its first line and two
  answers, the JSON and the streamed one, where the completion id each answer carries has a receipt that verified over bytes
  this client exchanged, over a session it created, and the deployment of the Gateway that signed (or of the model) is the one
  whose images the program's verifiers accept: for the Gateway, every service's image is pinned and vouched for under its four
  policies.\<close>

theorem gateway_program_shows_vouched_answers:
  "case gateway_chat_main F Q C of
     None \<Rightarrow> False
   | Some (out, Inl e) \<Rightarrow> True
   | Some (out, Inr h) \<Rightarrow> \<exists>options client at answer streamed_answer.
       gateway_chat_options Q (pg_env C) = Inr options \<and> with_options (pg_lib C) options = Inr client
       \<and> chat_answer F Q (pg_lib C) (fst client) h False answer
       \<and> chat_answer F Q (pg_lib C) (fst client) h True streamed_answer
       \<and> out = ''Gateway/model deployments and Gateway images verified at '' @ decimal at @ [lf] @ answer @ streamed_answer"
proof (cases "\<exists>out h. gateway_chat_main F Q C = Some (out, Inr h)")
  case True
  then obtain out h where main: "gateway_chat_main F Q C = Some (out, Inr h)" by blast
  obtain options client verified h0 h1 answer streamed_answer out0 where steps:
      "gateway_chat_options Q (pg_env C) = Inr options" "with_options (pg_lib C) options = Inr client"
      "client_verify F client verify_attestation (pg_calls C 0) (example_model (pg_env C)) [] = Some (out0, Inr (verified, h0))"
      "gateway_chat_round F C client (pg_calls C 1) (pg_calls C 2) False h0 = Some (answer, Inr h1)"
      "gateway_chat_round F C client (pg_calls C 3) (pg_calls C 4) True h1 = Some (streamed_answer, Inr h)"
      "out = out0 @ (''Gateway/model deployments and Gateway images verified at '' @ decimal (unat (ar_verified_at verified))) @ [lf]
         @ answer @ streamed_answer"
    using main unfolding gateway_chat_main_def then_do_success attempt_success println_success boxed_success split_paired_Ex prod.case
    by (elim exE conjE) (rule that, assumption+, simp only: append_assoc append_Nil)
  have "out0 = []" using client_verify_returns [of F client verify_attestation "pg_calls C 0" "example_model (pg_env C)" "[]"] steps(3) by auto
  obtain own where own: "client = (own, False)"
      "go_deployment (io_gateway_verification own) = Some (gateway_images_verifier Q)"
      "mo_deployment (io_model_verification own) = Some (model_images_verifier Q)"
    by (rule gateway_client_verifiers [OF steps(1,2)])
  have "chat_answer F Q (pg_lib C) own h False answer" "chat_answer F Q (pg_lib C) own h True streamed_answer"
    using gateway_chat_round_success [OF steps(4) [unfolded own(1)] own(2,3)] gateway_chat_round_grows [OF steps(5)]
      gateway_chat_round_success [OF steps(5) [unfolded own(1)] own(2,3)] chat_answer_mono by blast+
  then show ?thesis using steps(1,2,6) \<open>out0 = []\<close> own(1) main by auto
next
  case False
  then show ?thesis using chat_programs_return(1) [of F Q C] by (auto split: option.split prod.split sum.split)
qed

end
