(* ===== verification/Live_Support.thy ===== *)
theory Live_Support
  imports Example_Standalone
begin

text \<open>
  \<open>src/rs/e2e/gateway.rs\<close>, what the live tests of the SDK share: their environment, the models they run on, the event
  streams they read themselves, and the retries of a receipt that is not there yet. A failed assertion of a test is an
  outcome of its own, beside the errors it returns and the panics of the code it calls.
\<close>

section \<open>Outcomes of a test\<close>

text \<open>
  The assertions, by what they compare. The first group is about the service the test runs against, the second about what
  the SDK promises.
\<close>

datatype assertion =
    Models_Given | Near_Models | Single_Model | Two_Models | Status_Success | Finished_Stop | Content_Given | Last_Done
  | Same_Chunk_Id | Near_Evidence | Gpu_Checked | Model_Key_Given | No_Model_Evidence | Gateway_Signed | Algo_Signed
  | Answer_Type | Answer_Complete | Answer_Given | Same_Response | Tokens_Counted | Answer_Kinds | Answer_Present | Known_Choice
  | Receipt_Id | Receipt_Algo | Receipt_By_Gateway | Receipt_Kept | Tls_Attested | Attested_By_Gateway | Time_Kept | Model_Named
  | Altered_Response | Altered_Request

text \<open>What a test may find the service not to do.\<close>

definition service_assertions :: "assertion set" where
  "service_assertions = {Models_Given, Near_Models, Single_Model, Two_Models, Status_Success, Finished_Stop, Content_Given, Last_Done,
     Same_Chunk_Id, Near_Evidence, Gpu_Checked, Model_Key_Given, No_Model_Evidence, Gateway_Signed, Algo_Signed,
     Answer_Type, Answer_Complete, Answer_Given, Same_Response, Tokens_Counted, Answer_Kinds, Answer_Present, Known_Choice}"

datatype live_error = Failed assertion | Stopped example_error

type_synonym 'a live = "(live_error, 'a) outcome"
type_synonym 'a live_test = "(live_error, 'a) printing"

text \<open>\<open>assert!\<close>, and the \<open>?\<close> on the results of the code under test.\<close>

definition assert_that :: "assertion \<Rightarrow> bool \<Rightarrow> unit live" where
  "assert_that a b = ensure b (Failed a)"

definition got :: "'a example \<Rightarrow> 'a live" where
  "got m = map_err Stopped m"

definition running :: "'a program \<Rightarrow> 'a live_test" where
  "running m = map_option (apsnd got) m"

section \<open>Environment and models\<close>

record live_model =
  lm_id :: string
  lm_provider :: string
  lm_endpoint :: string

definition live_model_of :: "json \<Rightarrow> live_model option" where
  "live_model_of j =
     Option.bind (struct_view [''id'', ''provider'', ''endpoint''] 3 j) (\<lambda>kvs.
     Option.bind (need kvs ''id'' as_str) (\<lambda>i.
     Option.bind (need kvs ''provider'' as_str) (\<lambda>p.
     Option.bind (need kvs ''endpoint'' as_str) (\<lambda>e.
     Some \<lparr>lm_id = i, lm_provider = p, lm_endpoint = e\<rparr>))))"

definition select_models :: "'z net_prims_scheme \<Rightarrow> string \<Rightarrow> string \<Rightarrow> live_model list live" where
  "select_models P document for_endpoint =
     rbind (got (ok_or Not_Json (Option.bind (json_document P (as_bytes document)) (vec_of live_model_of)))) (\<lambda>models.
     let models = filter (\<lambda>m. lm_endpoint m = for_endpoint) models in
     rbind (assert_that Models_Given (models \<noteq> [])) (\<lambda>_. Inr models))"

definition required_env :: "environment \<Rightarrow> string \<Rightarrow> string live" where
  "required_env env name =
     got (ok_or (Message (name @ '' is required for live E2E tests''))
       (Option.bind (env name) (\<lambda>v. if v \<noteq> [] then Some v else None)))"

section \<open>What is asked\<close>

definition live_chat_body :: "string \<Rightarrow> bool \<Rightarrow> json" where
  "live_chat_body model stream = JObj [(''max_completion_tokens'', JNum ''1024''),
     (''messages'', JArr [JObj [(''content'', JStr ''Reply with the single word OK.''), (''role'', JStr ''user'')]]),
     (''model'', JStr model), (''stream'', JBool stream)]"

definition has_attested_tls :: "verified_gateway_attestation \<Rightarrow> bool" where
  "has_attested_tls g \<longleftrightarrow> (case vg_tls_binding g of Attested _ \<Rightarrow> True | No_Tls_Binding \<Rightarrow> False)"

section \<open>Reading what was answered\<close>

text \<open>\<open>split("\n\n")\<close>\<close>

fun split_blank :: "string \<Rightarrow> string list" where
  "split_blank (a # b # s) =
     (if a = lf \<and> b = lf then [] # split_blank s
      else case split_blank (b # s) of [] \<Rightarrow> [[a]] | r # rs \<Rightarrow> (a # r) # rs)"
| "split_blank s = [s]"

definition sse_record :: "string \<Rightarrow> string" where
  "sse_record r = join_with [lf] (List.map_filter data_line (split_on lf r))"

definition sse_data :: "bytes \<Rightarrow> string list example" where
  "sse_data bytes =
     rbind (ok_or Not_Utf8 (from_utf8 bytes)) (\<lambda>text'.
     let text' = map (\<lambda>c. if c = cr then lf else c) (replace_crlf text') in
     Inr (filter (\<lambda>content. content \<noteq> []) (map sse_record (butlast (split_blank text')))))"

definition chat_id :: "json \<Rightarrow> string example" where
  "chat_id v = ok_or (Message ''Chat has no completion ID'')
     (Option.bind (as_str (jindex v ''id'')) (\<lambda>s. if s \<noteq> [] then Some s else None))"

definition first_choice :: "json \<Rightarrow> json" where
  "first_choice v = jelement (jindex v ''choices'') 0"

record chunks_read =
  kr_id :: "string option"
  kr_content :: string
  kr_finish :: "string option"

fun read_chat_chunks :: "'z prims_scheme \<Rightarrow> string list \<Rightarrow> chunks_read \<Rightarrow> chunks_read live" where
  "read_chat_chunks P [] k = Inr k"
| "read_chat_chunks P (event' # events') k =
     rbind (got (ok_or Not_Json (json_parse P (as_bytes event')))) (\<lambda>chunk.
     rbind (got (chat_id chunk)) (\<lambda>chunk_id.
     rbind (case kr_id k of None \<Rightarrow> Inr () | Some i \<Rightarrow> assert_that Same_Chunk_Id (i = chunk_id)) (\<lambda>_.
     read_chat_chunks P events' \<lparr>kr_id = Some (or_else chunk_id (kr_id k)),
       kr_content = kr_content k @ or_else [] (as_str (jindex (jindex (first_choice chunk) ''delta'') ''content'')),
       kr_finish = (case as_str (jindex (first_choice chunk) ''finish_reason'') of None \<Rightarrow> kr_finish k | Some r \<Rightarrow> Some r)\<rparr>)))"

definition read_completion_id :: "'z prims_scheme \<Rightarrow> bytes \<Rightarrow> bool \<Rightarrow> string live" where
  "read_completion_id P body stream =
     (if \<not> stream then
        rbind (got (ok_or Not_Json (json_parse P body))) (\<lambda>completion.
        rbind (assert_that Finished_Stop (as_str (jindex (first_choice completion) ''finish_reason'') = Some ''stop'')) (\<lambda>_.
        rbind (assert_that Content_Given
                 (trim (or_else [] (as_str (jindex (jindex (first_choice completion) ''message'') ''content''))) \<noteq> [])) (\<lambda>_.
        got (chat_id completion))))
      else
        rbind (got (sse_data body)) (\<lambda>events'.
        rbind (assert_that Last_Done (events' \<noteq> [] \<and> last events' = ''[DONE]'')) (\<lambda>_.
        rbind (read_chat_chunks P (filter (\<lambda>e. e \<noteq> ''[DONE]'') events') \<lparr>kr_id = None, kr_content = [], kr_finish = None\<rparr>) (\<lambda>k.
        rbind (assert_that Finished_Stop (kr_finish k = Some ''stop'')) (\<lambda>_.
        rbind (assert_that Content_Given (trim (kr_content k) \<noteq> [])) (\<lambda>_.
        got (ok_or (Message ''SSE has no completion ID'') (kr_id k))))))))"

section \<open>Retries\<close>

text \<open>The pauses between attempts, in milliseconds; attempt \<open>k\<close> meets the network \<open>nets k\<close>.\<close>

definition backoffs :: "nat list" where
  "backoffs = [500, 1000, 2000, 4000]"

fun signature_with_retry ::
  "(nat \<Rightarrow> 'z net_prims_scheme) \<Rightarrow> nat \<Rightarrow> nat list \<Rightarrow> attestation_client \<Rightarrow> string \<Rightarrow> signing_algo \<Rightarrow> completion_signature api" where
  "signature_with_retry nets k [] client i algo = fetch_completion_signature (nets k) client i (Some algo)"
| "signature_with_retry nets k (ms # pauses) client i algo =
     (let result = fetch_completion_signature (nets k) client i (Some algo) in
      case result of
        Inl (Err e) \<Rightarrow> if api_retryable e then signature_with_retry nets (k + 1) pauses client i algo else result
      | _ \<Rightarrow> result)"

definition fetch_signature_with_retry ::
  "(nat \<Rightarrow> 'z net_prims_scheme) \<Rightarrow> attestation_client \<Rightarrow> string \<Rightarrow> signing_algo \<Rightarrow> completion_signature api" where
  "fetch_signature_with_retry nets client i algo = signature_with_retry nets 0 backoffs client i algo"

text \<open>A signature that was retried for came in one attempt, and every earlier one failed in a way that may pass.\<close>

lemma signature_with_retry_ok:
  "signature_with_retry nets k pauses client i algo = Inr signature \<longleftrightarrow>
     (\<exists>n \<le> length pauses. fetch_completion_signature (nets (k + n)) client i (Some algo) = Inr signature
        \<and> (\<forall>m < n. \<exists>e. fetch_completion_signature (nets (k + m)) client i (Some algo) = fail e \<and> api_retryable e))"
proof (induction pauses arbitrary: k)
  case (Cons ms pauses)
  let ?f = "\<lambda>k. fetch_completion_signature (nets k) client i (Some algo)"
  show ?case
  proof (cases "\<exists>e. ?f k = fail e \<and> api_retryable e")
    case True
    then have "signature_with_retry nets k (ms # pauses) client i algo = signature_with_retry nets (k + 1) pauses client i algo"
      by auto
    moreover have "(\<exists>n < Suc (Suc (length pauses)). ?f (k + n) = Inr signature \<and> (\<forall>m < n. \<exists>e. ?f (k + m) = fail e \<and> api_retryable e))
        \<longleftrightarrow> (\<exists>n < Suc (length pauses). ?f (k + 1 + n) = Inr signature \<and> (\<forall>m < n. \<exists>e. ?f (k + 1 + m) = fail e \<and> api_retryable e))"
      using True by (subst Ex_less_Suc2) (auto simp: All_less_Suc2)
    ultimately show ?thesis using Cons.IH [of "k + 1"] by (simp add: less_Suc_eq_le)
  next
    case False
    then have first: "signature_with_retry nets k (ms # pauses) client i algo = ?f k"
      by (auto simp: Let_def split: sum.split fault.split)
    show ?thesis
    proof
      assume "signature_with_retry nets k (ms # pauses) client i algo = Inr signature"
      then show "\<exists>n\<le>length (ms # pauses). ?f (k + n) = Inr signature \<and> (\<forall>m<n. \<exists>e. ?f (k + m) = fail e \<and> api_retryable e)"
        unfolding first by (intro exI [of _ 0]) simp
    next
      assume "\<exists>n\<le>length (ms # pauses). ?f (k + n) = Inr signature \<and> (\<forall>m<n. \<exists>e. ?f (k + m) = fail e \<and> api_retryable e)"
      then obtain n where n: "?f (k + n) = Inr signature" "\<forall>m<n. \<exists>e. ?f (k + m) = fail e \<and> api_retryable e" by blast
      with False have "n = 0" by (cases n) auto
      with n(1) show "signature_with_retry nets k (ms # pauses) client i algo = Inr signature" unfolding first by simp
    qed
  qed
qed simp

section \<open>Limits and loops\<close>

text \<open>\<open>timeout(limit, test)\<close>: when the time is up the test is dropped, with what it had printed.\<close>

definition within_limit :: "nat option \<Rightarrow> 'a live_test \<Rightarrow> 'a live_test" where
  "within_limit at m = (case at of
       None \<Rightarrow> m
     | Some n \<Rightarrow> map_option (\<lambda>(out, _). (take n out, fail (Stopped Elapsed))) m)"

text \<open>\<open>for\<close> over a list, each element against its own run.\<close>

fun each_in_turn :: "(nat \<Rightarrow> 'a \<Rightarrow> unit live_test) \<Rightarrow> nat \<Rightarrow> 'a list \<Rightarrow> unit live_test" where
  "each_in_turn test n [] = attempt (Inr ())"
| "each_in_turn test n (a # as) = then_do (test n a) (\<lambda>_. each_in_turn test (n + 1) as)"

definition show_bool :: "bool \<Rightarrow> string" where
  "show_bool b = (if b then ''true'' else ''false'')"

section \<open>Assertions that can fail\<close>

text \<open>
  \<open>tested S m Q\<close>: the test \<open>m\<close> returns; if an assertion failed it is one of \<open>S\<close>, and if none did and nothing else went
  wrong then \<open>Q\<close> holds of the value. The rules follow the sequencing of a test, as Hoare's rules do that of a program.
\<close>

definition asserts_only :: "assertion set \<Rightarrow> 'a live \<Rightarrow> bool" where
  "asserts_only S m \<longleftrightarrow> (case m of Inl (Err (Failed a)) \<Rightarrow> a \<in> S | _ \<Rightarrow> True)"

definition tested :: "assertion set \<Rightarrow> 'a live_test \<Rightarrow> ('a \<Rightarrow> bool) \<Rightarrow> bool" where
  "tested S m Q \<longleftrightarrow> (case m of None \<Rightarrow> False | Some (_, r) \<Rightarrow> asserts_only S r \<and> (\<forall>a. r = Inr a \<longrightarrow> Q a))"

definition fails_only :: "assertion set \<Rightarrow> 'a live_test \<Rightarrow> bool" where
  "fails_only S m \<longleftrightarrow> tested S m (\<lambda>_. True)"

lemma asserts_only_simps [simp]:
  "asserts_only S (Inr x)" "asserts_only S (got m)" "asserts_only S (assert_that a b) \<longleftrightarrow> b \<or> a \<in> S"
  by (auto simp: asserts_only_def got_def map_err_def assert_that_def ensure_def split: sum.split fault.split)

lemma asserts_only_rbind:
  "asserts_only S m \<Longrightarrow> (\<And>a. m = Inr a \<Longrightarrow> asserts_only S (f a)) \<Longrightarrow> asserts_only S (rbind m f)"
  by (cases m) (auto simp: asserts_only_def)

lemma tested_attempt: "asserts_only S r \<Longrightarrow> (\<And>a. r = Inr a \<Longrightarrow> Q a) \<Longrightarrow> tested S (attempt r) Q"
  by (simp add: tested_def attempt_def)

lemma tested_assert: "b \<or> a \<in> S \<Longrightarrow> (b \<Longrightarrow> Q ()) \<Longrightarrow> tested S (attempt (assert_that a b)) Q"
  by (rule tested_attempt) (auto simp: asserts_only_def assert_that_def ensure_def split: if_splits)

lemma tested_return: "Q a \<Longrightarrow> tested S (attempt (Inr a)) Q"
  by (rule tested_attempt) simp_all

lemma tested_println: "Q () \<Longrightarrow> tested S (println t) Q"
  by (simp add: tested_def println_def)

lemma tested_running: "m \<noteq> None \<Longrightarrow> (\<And>out a. m = Some (out, Inr a) \<Longrightarrow> Q a) \<Longrightarrow> tested S (running m) Q"
  by (cases m) (auto simp: tested_def running_def got_def map_err_eq_Inr asserts_only_simps(2) [unfolded got_def])

lemma tested_then:
  assumes "tested S m Q" and "\<And>a. Q a \<Longrightarrow> tested S (f a) R"
  shows "tested S (then_do m f) R"
proof (cases m)
  case None
  then show ?thesis using assms(1) by (simp add: tested_def)
next
  case (Some x)
  obtain out r where x: "x = (out, r)" by force
  show ?thesis
  proof (cases r)
    case (Inl e)
    then show ?thesis using assms(1) by (simp add: Some x tested_def then_do_def asserts_only_def)
  next
    case (Inr a)
    with assms Some x have "tested S (f a) R" by (simp add: tested_def)
    then show ?thesis by (cases "f a") (auto simp: Some x Inr tested_def then_do_def)
  qed
qed

lemma tested_weaken: "tested S m Q \<Longrightarrow> (\<And>a. Q a \<Longrightarrow> R a) \<Longrightarrow> tested S m R"
  by (auto simp: tested_def split: option.splits)

lemma tested_within: "tested S m Q \<Longrightarrow> tested S (within_limit at m) Q"
  by (auto simp: within_limit_def tested_def asserts_only_def split: option.splits)

lemma tested_each:
  "(\<And>n a. tested S (test n a) (\<lambda>_. True)) \<Longrightarrow> tested S (each_in_turn test n as) (\<lambda>_. True)"
  by (induction "as" arbitrary: n) (auto intro: tested_then tested_return)

lemma running_success: "running m = Some (out, Inr a) \<longleftrightarrow> m = Some (out, Inr a)"
proof -
  have "got r = Inr a \<longleftrightarrow> r = Inr a" for r by (simp add: got_def map_err_eq_Inr)
  then show ?thesis by (auto simp: running_def)
qed

lemma got_success: "got m = Inr a \<longleftrightarrow> m = Inr a"
  by (simp add: got_def map_err_eq_Inr)

lemma assert_success: "assert_that a b = Inr u \<longleftrightarrow> b"
  by (simp add: assert_that_def ensure_def)

lemma select_models_asserts: "Models_Given \<in> S \<Longrightarrow> asserts_only S (select_models P document e)"
  unfolding select_models_def Let_def by (intro asserts_only_rbind) simp_all

lemma read_chat_chunks_asserts: "Same_Chunk_Id \<in> S \<Longrightarrow> asserts_only S (read_chat_chunks P es k)"
  by (induction es arbitrary: k) (auto intro!: asserts_only_rbind split: option.split)

lemma read_completion_id_asserts:
  assumes "service_assertions \<subseteq> S"
  shows "asserts_only S (read_completion_id P body stream)"
  using assms unfolding read_completion_id_def service_assertions_def
  by (cases stream) (auto intro!: asserts_only_rbind read_chat_chunks_asserts)

lemma traverse_asserts: "(\<And>x. asserts_only S (f x)) \<Longrightarrow> asserts_only S (traverse f xs)"
proof (induction xs)
  case (Cons x xs)
  then have "asserts_only S (traverse f xs)" by blast
  then show ?case
    using Cons.prems [of x] by (cases "f x"; cases "traverse f xs") (auto simp: asserts_only_def split: sum.splits fault.splits)
qed simp

end
