(* ===== verification/Live_Standalone.thy ===== *)
theory Live_Standalone
  imports Live_Support Example_Clients
begin

text \<open>
  \<open>src/rs/e2e/gateway.rs\<close> and the second test of \<open>src/rs/e2e/systemone.rs\<close>: the live tests of the separate steps. They attest
  the Gateway, send over the pinned client, and check that the receipt covers the exact bytes: one byte more on either side
  must be refused.
\<close>

section \<open>One run of a test\<close>

text \<open>The network during the setup, each exchange and each attempt for its signature; the limit's cut of the output.\<close>

record 'p live_run =
  lr_net :: 'p
  lr_exchange :: "bool \<Rightarrow> 'p"
  lr_attempt :: "bool \<Rightarrow> nat \<Rightarrow> 'p"
  lr_random :: bytes
  lr_model_random :: bytes
  lr_cut :: "nat option"

definition bearer_post ::
  "'z net_prims_scheme \<Rightarrow> http_client \<Rightarrow> string \<Rightarrow> string \<Rightarrow> bytes \<Rightarrow> http_response example" where
  "bearer_post P http url key body =
     rbind (ok_or Request_Failed (url_parse P url)) (\<lambda>url.
     rbind (ok_or Request_Failed (header_from_str (''Bearer '' @ key))) (\<lambda>bearer.
     ok_or Request_Failed (http_send P http \<lparr>rq_method = ''POST'', rq_url = url_text P url,
       rq_headers = [(''authorization'', bearer), (''content-type'', ''application/json''), (''accept-encoding'', ''identity''),
         (''x-no-aliasing'', ''true'')], rq_body = body\<rparr>)))"

section \<open>Chat\<close>

record live_gateway =
  lg_key :: string
  lg_base :: string
  lg_api :: attestation_client
  lg_gateway :: verified_gateway_attestation
  lg_models :: "verified_model_attestation list"
  lg_http :: http_client

definition no_verifiers :: attestation_verifiers where
  "no_verifiers = \<lparr>av_tdx_quote = None, av_deployment = None\<rparr>"

definition near_models ::
  "('c, 'z) e2ee_prims_scheme live_run \<Rightarrow> attestation_client \<Rightarrow> signing_algo \<Rightarrow> live_model \<Rightarrow> verified_model_attestation list live" where
  "near_models run api algo model =
     rbind (got (boxed_api (fetch_model_attestations (lr_net run) (generate_nonce (lr_net run) (lr_model_random run)) api
              (lm_id model) (Some algo) None))) (\<lambda>fetched.
     rbind (assert_that Near_Evidence (fm_attestations fetched \<noteq> [])) (\<lambda>_.
     traverse (\<lambda>attestation.
         rbind (got (boxed_ver (verify_model_attestation (lr_net run) attestation (fm_client_binding fetched) None
                  no_model_verifiers))) (\<lambda>verified.
         rbind (assert_that Gpu_Checked (vm_gpu_evidence verified = Gpu_Verified)) (\<lambda>_. Inr verified)))
       (fm_attestations fetched)))"

definition live_gateway_setup ::
  "('c, 'z) e2ee_prims_scheme live_run \<Rightarrow> environment \<Rightarrow> signing_algo \<Rightarrow> live_model \<Rightarrow> live_gateway live" where
  "live_gateway_setup run env algo model =
     (let P = lr_net run in
      rbind (required_env env ''NEARAI_BASE_URL'') (\<lambda>base.
      rbind (required_env env ''NEARAI_API_KEY'') (\<lambda>key.
      rbind (got (boxed_api (with_base_url P (Some key) base))) (\<lambda>api.
      rbind (got (boxed_api (fetch_gateway_attestation P (generate_nonce P (lr_random run)) api
               (default_gateway_fetch_options\<lparr>gfo_signing_algo := Some algo\<rparr>)))) (\<lambda>fetched.
      rbind (got (boxed_ver (verify_gateway_attestation P (fg_attestation fetched) (fg_client_binding fetched) None no_verifiers)))
        (\<lambda>gateway.
      rbind (assert_that Tls_Attested (has_attested_tls gateway)) (\<lambda>_.
      rbind (if lm_provider model = ''near'' then near_models run api algo model else Inr []) (\<lambda>models.
      rbind (got (case vg_tls_binding gateway of
                Attested pin \<Rightarrow> Inr pin
              | No_Tls_Binding \<Rightarrow> fail (Message ''Missing Gateway TLS binding''))) (\<lambda>pin.
      rbind (got (boxed_ver (create_pinned_tls_client P [pin]))) (\<lambda>http.
      Inr \<lparr>lg_key = key, lg_base = base, lg_api = api, lg_gateway = gateway, lg_models = models, lg_http = http\<rparr>))))))))))"

text \<open>The receipt holds for the bytes, and not with a space after the response.\<close>

definition exact_receipt ::
  "('c, 'z) sig_prims_scheme \<Rightarrow> live_gateway \<Rightarrow> bytes \<Rightarrow> bytes \<Rightarrow> completion_signature \<Rightarrow> unit live" where
  "exact_receipt P s request body signature =
     (let altered = body @ [32] in
      case cs_kind signature of
        ProviderTee \<Rightarrow>
          rbind (got (boxed_api (find_model_attestation_for_signature P (lg_models s) signature))) (\<lambda>attestation.
          rbind (got (boxed_ver (verify_model_response P request body signature attestation))) (\<lambda>_.
          assert_that Altered_Response (\<not> is_ok (verify_model_response P request altered signature attestation))))
      | Gateway \<Rightarrow>
          rbind (got (boxed_ver (verify_gateway_response P request body signature (lg_gateway s)))) (\<lambda>_.
          assert_that Altered_Response (\<not> is_ok (verify_gateway_response P request altered signature (lg_gateway s)))))"

definition live_gateway_round ::
  "('c, 'z) e2ee_prims_scheme live_run \<Rightarrow> live_gateway \<Rightarrow> signing_algo \<Rightarrow> live_model \<Rightarrow> bool \<Rightarrow> completion_signature live" where
  "live_gateway_round run s algo model stream =
     (let P = lr_exchange run stream; request = as_bytes (json_print P (live_chat_body (lm_id model) stream)) in
      rbind (got (bearer_post P (lg_http s) (trim_end_matches (CHR ''/'') (lg_base s) @ ''/chat/completions'') (lg_key s) request))
        (\<lambda>response.
      rbind (assert_that Status_Success (is_success (rs_status response))) (\<lambda>_.
      rbind (got (body_bytes response)) (\<lambda>body.
      rbind (read_completion_id P body stream) (\<lambda>i.
      rbind (got (boxed_api (fetch_signature_with_retry (lr_attempt run stream) (lg_api s) i algo))) (\<lambda>signature.
      rbind (assert_that Algo_Signed (si_algo (cs_signer signature) = algo)) (\<lambda>_.
      rbind (assert_that Gateway_Signed (lm_provider model = ''near'' \<or> cs_kind signature = Gateway)) (\<lambda>_.
      rbind (exact_receipt P s request body signature) (\<lambda>_.
      Inr signature)))))))))"

definition live_gateway_chat ::
  "('c, 'z) e2ee_prims_scheme live_run \<Rightarrow> environment \<Rightarrow> signing_algo \<Rightarrow> live_model \<Rightarrow> unit live_test" where
  "live_gateway_chat run env algo model =
     (let round = (\<lambda>s stream.
        then_do (attempt (live_gateway_round run s algo model stream)) (\<lambda>signature.
        println (signing_algo_name algo @ '', stream='' @ show_bool stream @ '': verified deployment and ''
          @ debug_signature_kind (cs_kind signature) @ '' receipt''))) in
      then_do (attempt (live_gateway_setup run env algo model)) (\<lambda>s.
      then_do (round s False) (\<lambda>_.
      if lm_provider model = ''chutes'' then attempt (Inr ()) else round s True)))"

definition gateway_chat_receipts ::
  "'z net_prims_scheme \<Rightarrow> (nat \<Rightarrow> ('c, 'y) e2ee_prims_scheme live_run) \<Rightarrow> environment \<Rightarrow> signing_algo \<Rightarrow> unit live_test" where
  "gateway_chat_receipts P turns env algo =
     then_do (attempt (rbind (required_env env ''NEARAI_E2E_MODELS'') (\<lambda>d. select_models P d ''chat''))) (\<lambda>models.
     each_in_turn (\<lambda>n model.
       then_do (println (lm_provider model @ '': '' @ lm_id model @ '', '' @ signing_algo_name algo)) (\<lambda>_.
       within_limit (lr_cut (turns n)) (live_gateway_chat (turns n) env algo model))) 0 models)"

definition ed25519_gateway_chat_receipts ::
  "'z net_prims_scheme \<Rightarrow> (nat \<Rightarrow> ('c, 'y) e2ee_prims_scheme live_run) \<Rightarrow> environment \<Rightarrow> unit live_test" where
  "ed25519_gateway_chat_receipts P turns env = gateway_chat_receipts P turns env Ed25519"

definition ecdsa_gateway_chat_receipts ::
  "'z net_prims_scheme \<Rightarrow> (nat \<Rightarrow> ('c, 'y) e2ee_prims_scheme live_run) \<Rightarrow> environment \<Rightarrow> unit live_test" where
  "ecdsa_gateway_chat_receipts P turns env = gateway_chat_receipts P turns env Ecdsa"

section \<open>A decision\<close>

definition live_decision :: "string \<Rightarrow> json" where
  "live_decision model = JObj (bt_insert ''model'' (JStr model) ticket_fields)"

definition decision_receipt ::
  "('c, 'z) sig_prims_scheme \<Rightarrow> verified_gateway_attestation \<Rightarrow> bytes \<Rightarrow> bytes \<Rightarrow> completion_signature \<Rightarrow> unit live" where
  "decision_receipt P gateway request body signature =
     rbind (assert_that Gateway_Signed (cs_kind signature = Gateway)) (\<lambda>_.
     rbind (got (boxed_ver (verify_gateway_response P request body signature gateway))) (\<lambda>_.
     rbind (assert_that Altered_Request (\<not> is_ok (verify_gateway_response P (request @ [32]) body signature gateway))) (\<lambda>_.
     assert_that Altered_Response (\<not> is_ok (verify_gateway_response P request (body @ [32]) signature gateway)))))"

definition standalone_systemone_run ::
  "('c, 'z) e2ee_prims_scheme live_run \<Rightarrow> environment \<Rightarrow> unit live" where
  "standalone_systemone_run run env =
     (let P = lr_net run; X = lr_exchange run False in
      rbind (required_env env ''NEARAI_BASE_URL'') (\<lambda>base.
      rbind (required_env env ''NEARAI_API_KEY'') (\<lambda>key.
      rbind (got (boxed_api (with_base_url P (Some key) base))) (\<lambda>api.
      rbind (got (boxed_api (fetch_gateway_attestation P (generate_nonce P (lr_random run)) api
               (default_gateway_fetch_options\<lparr>gfo_signing_algo := Some Ed25519\<rparr>)))) (\<lambda>fetched.
      rbind (got (boxed_ver (verify_gateway_attestation P (fg_attestation fetched) (fg_client_binding fetched) None no_verifiers)))
        (\<lambda>gateway.
      rbind (got (case vg_tls_binding gateway of
                Attested pin \<Rightarrow> Inr pin
              | No_Tls_Binding \<Rightarrow> fail (Message ''missing attested TLS binding''))) (\<lambda>pin.
      rbind (got (boxed_ver (create_pinned_tls_client P [pin]))) (\<lambda>http.
      rbind (required_env env ''NEARAI_E2E_MODELS'') (\<lambda>d.
      rbind (select_models P d ''systemone'') (\<lambda>models.
      rbind (got (index_at models 0)) (\<lambda>model.
      let request = as_bytes (json_print X (live_decision (lm_id model))) in
      rbind (got (bearer_post X http (trim_end_matches (CHR ''/'') base @ ''/systemone'') key request)) (\<lambda>response.
      rbind (assert_that Status_Success (is_success (rs_status response))) (\<lambda>_.
      rbind (got (ok_or (Message ''missing decision ID'') (header_get ''x-generation-id'' (rs_headers response)))) (\<lambda>v.
      rbind (got (ok_or Not_Utf8 (header_to_str v))) (\<lambda>i.
      rbind (got (body_bytes response)) (\<lambda>raw.
      rbind (got (boxed_api (fetch_signature_with_retry (lr_attempt run False) api i Ed25519))) (\<lambda>signature.
      decision_receipt X gateway request raw signature)))))))))))))))))"

definition standalone_systemone_binds_exact_bytes ::
  "('c, 'z) e2ee_prims_scheme live_run \<Rightarrow> environment \<Rightarrow> unit live_test" where
  "standalone_systemone_binds_exact_bytes run env =
     within_limit (lr_cut run) (attempt (standalone_systemone_run run env))"

section \<open>What the tests can find\<close>

text \<open>Adding a space to these bytes leaves their printed SHA-256 digest as it was: a collision of two named texts.\<close>

definition space_hidden :: "'z prims_scheme \<Rightarrow> bytes \<Rightarrow> bool" where
  "space_hidden P b \<longleftrightarrow> hex_encode P (sha256 P (b @ [32])) = hex_encode P (sha256 P b)"

text \<open>
  The bytes the tests put to the verifier. \<open>chat_tested\<close>: the body that came back in the \<open>n\<close>-th turn of the chat test, for the
  model selected there, over the client its setup pinned. \<open>decision_tested\<close>: the request of the decision test, and the body of
  its answer.
\<close>

definition chat_tested ::
  "'z net_prims_scheme \<Rightarrow> (nat \<Rightarrow> ('c, 'y) e2ee_prims_scheme live_run) \<Rightarrow> environment \<Rightarrow> signing_algo \<Rightarrow> nat \<Rightarrow> bool \<Rightarrow> bytes \<Rightarrow> bool"
where
  "chat_tested P turns env algo n stream body \<longleftrightarrow> (\<exists>d models s response.
     required_env env ''NEARAI_E2E_MODELS'' = Inr d \<and> select_models P d ''chat'' = Inr models \<and> n < length models
     \<and> live_gateway_setup (turns n) env algo (models ! n) = Inr s
     \<and> bearer_post (lr_exchange (turns n) stream) (lg_http s)
          (trim_end_matches (CHR ''/'') (lg_base s) @ ''/chat/completions'') (lg_key s)
          (as_bytes (json_print (lr_exchange (turns n) stream) (live_chat_body (lm_id (models ! n)) stream))) = Inr response
     \<and> body_bytes response = Inr body)"

definition decision_tested :: "('c, 'z) e2ee_prims_scheme live_run \<Rightarrow> environment \<Rightarrow> bytes \<Rightarrow> bytes \<Rightarrow> bool" where
  "decision_tested run env request body \<longleftrightarrow> (\<exists>base key api fetched gateway pin http d models model response.
     required_env env ''NEARAI_BASE_URL'' = Inr base \<and> required_env env ''NEARAI_API_KEY'' = Inr key
     \<and> with_base_url (lr_net run) (Some key) base = Inr api
     \<and> fetch_gateway_attestation (lr_net run) (generate_nonce (lr_net run) (lr_random run)) api
          (default_gateway_fetch_options\<lparr>gfo_signing_algo := Some Ed25519\<rparr>) = Inr fetched
     \<and> verify_gateway_attestation (lr_net run) (fg_attestation fetched) (fg_client_binding fetched) None no_verifiers = Inr gateway
     \<and> vg_tls_binding gateway = Attested pin \<and> create_pinned_tls_client (lr_net run) [pin] = Inr http
     \<and> required_env env ''NEARAI_E2E_MODELS'' = Inr d \<and> select_models (lr_net run) d ''systemone'' = Inr models
     \<and> models \<noteq> [] \<and> model = hd models
     \<and> request = as_bytes (json_print (lr_exchange run False) (live_decision (lm_id model)))
     \<and> bearer_post (lr_exchange run False) http (trim_end_matches (CHR ''/'') base @ ''/systemone'') key request = Inr response
     \<and> body_bytes response = Inr body)"

lemma gateway_response_altered:
  assumes "verify_gateway_response P request body signature g = Inr ()"
  shows "is_ok (verify_gateway_response P request (body @ [32]) signature g) \<Longrightarrow> space_hidden P body"
    and "is_ok (verify_gateway_response P (request @ [32]) body signature g) \<Longrightarrow> space_hidden P request"
  using assms
  by (auto simp: is_ok_iff verify_gateway_response_eq signature_by_def gateway_text_def space_hidden_def)

lemma model_response_altered:
  assumes "verify_model_response P request body signature m = Inr ()"
  shows "is_ok (verify_model_response P request (body @ [32]) signature m) \<Longrightarrow> space_hidden P body"
  using assms
  by (auto simp: is_ok_iff verify_model_response_eq signature_by_def model_text_def request_model_def space_hidden_def)

lemma exact_receipt_asserts:
  assumes "space_hidden P body \<Longrightarrow> Altered_Response \<in> S"
  shows "asserts_only S (exact_receipt P s request body signature)"
  unfolding exact_receipt_def Let_def
  by (cases "cs_kind signature")
    (auto intro!: asserts_only_rbind simp: got_success boxed_success
      dest: gateway_response_altered(1) [THEN assms] model_response_altered [THEN assms])

lemma decision_receipt_asserts:
  assumes "space_hidden P body \<Longrightarrow> Altered_Response \<in> S" and "space_hidden P request \<Longrightarrow> Altered_Request \<in> S"
    and "Gateway_Signed \<in> S"
  shows "asserts_only S (decision_receipt P g request body signature)"
  using assms(3) unfolding decision_receipt_def
  by (auto intro!: asserts_only_rbind assms(1,2) simp: got_success boxed_success dest: gateway_response_altered)

lemma required_env_asserts: "asserts_only S (required_env env name)"
  by (simp add: required_env_def)

lemma near_models_asserts: "service_assertions \<subseteq> S \<Longrightarrow> asserts_only S (near_models run api algo model)"
  unfolding near_models_def service_assertions_def by (intro asserts_only_rbind traverse_asserts) simp_all

text \<open>The default options ask for the TLS key, and a verified report that was asked for it has it.\<close>

lemma fetched_gateway_attested_tls:
  assumes "fetch_gateway_attestation P nonce c options = Inr fetched" and "gfo_include_spki_fingerprint options"
    and "verify_gateway_attestation P (fg_attestation fetched) (fg_client_binding fetched) policy vs = Inr g"
  shows "has_attested_tls g"
proof -
  have "ga_spki_fingerprint (fg_attestation fetched) \<noteq> None" using fetch_gateway_binding [OF assms(1)] assms(2) by simp
  then show ?thesis
    using iffD1 [OF verify_gateway_attestation_eq assms(3)] by (auto simp: gateway_tls_ok_def has_attested_tls_def split: option.splits)
qed

lemma live_gateway_setup_asserts:
  assumes "service_assertions \<subseteq> S"
  shows "asserts_only S (live_gateway_setup run env algo model)"
  unfolding live_gateway_setup_def Let_def required_env_def
  by (intro asserts_only_rbind)
    (auto simp: got_success boxed_success default_gateway_fetch_options_def near_models_asserts [OF assms]
      dest: fetched_gateway_attested_tls)

lemma live_gateway_round_asserts:
  assumes "service_assertions \<subseteq> S"
    and "\<And>response body.
      bearer_post (lr_exchange run stream) (lg_http s) (trim_end_matches (CHR ''/'') (lg_base s) @ ''/chat/completions'') (lg_key s)
        (as_bytes (json_print (lr_exchange run stream) (live_chat_body (lm_id model) stream))) = Inr response \<Longrightarrow>
      body_bytes response = Inr body \<Longrightarrow> space_hidden (lr_exchange run stream) body \<Longrightarrow> Altered_Response \<in> S"
  shows "asserts_only S (live_gateway_round run s algo model stream)"
proof -
  have "{Status_Success, Algo_Signed, Gateway_Signed} \<subseteq> S" using assms(1) by (auto simp: service_assertions_def)
  then show ?thesis
    unfolding live_gateway_round_def Let_def
    by (intro asserts_only_rbind read_completion_id_asserts [OF assms(1)] exact_receipt_asserts)
      (simp_all add: got_success assms(2))
qed

lemma live_gateway_chat_tested:
  assumes "service_assertions \<subseteq> S"
    and "\<And>s stream. live_gateway_setup run env algo model = Inr s \<Longrightarrow> asserts_only S (live_gateway_round run s algo model stream)"
  shows "tested S (live_gateway_chat run env algo model) (\<lambda>_. True)"
  unfolding live_gateway_chat_def Let_def
proof (rule tested_then)
  show "tested S (attempt (live_gateway_setup run env algo model)) (\<lambda>s. live_gateway_setup run env algo model = Inr s)"
    by (intro tested_attempt live_gateway_setup_asserts assms(1))
next
  fix s
  assume s: "live_gateway_setup run env algo model = Inr s"
  have once: "tested S (then_do (attempt (live_gateway_round run s algo model stream)) (\<lambda>signature. println (t signature))) (\<lambda>_. True)"
    for stream t
    by (intro tested_then [where Q = "\<lambda>_. True", OF tested_attempt] assms(2) [OF s] tested_println) simp_all
  show "tested S (then_do (then_do (attempt (live_gateway_round run s algo model False)) (\<lambda>signature.
        println (signing_algo_name algo @ '', stream='' @ show_bool False @ '': verified deployment and ''
          @ debug_signature_kind (cs_kind signature) @ '' receipt''))) (\<lambda>_.
      if lm_provider model = ''chutes'' then attempt (Inr ())
      else then_do (attempt (live_gateway_round run s algo model True)) (\<lambda>signature.
        println (signing_algo_name algo @ '', stream='' @ show_bool True @ '': verified deployment and ''
          @ debug_signature_kind (cs_kind signature) @ '' receipt'')))) (\<lambda>_. True)"
    by (intro tested_then [OF once]) (simp add: once tested_return)
qed

lemma tested_each_turn:
  "(\<And>i. i < length as \<Longrightarrow> tested S (test (n + i) (as ! i)) (\<lambda>_. True)) \<Longrightarrow> tested S (each_in_turn test n as) (\<lambda>_. True)"
proof (induction "as" arbitrary: n)
  case (Cons a "as")
  have "tested S (test n a) (\<lambda>_. True)" using Cons.prems [of 0] by simp
  moreover have "tested S (test (n + 1 + i) (as ! i)) (\<lambda>_. True)" if "i < length as" for i
    using Cons.prems [of "Suc i"] that by simp
  ultimately show ?case by (simp del: add_Suc) (intro tested_then [where Q = "\<lambda>_. True"] Cons.IH, simp_all)
qed (simp add: tested_return)

lemma gateway_chat_receipts_fails:
  assumes "service_assertions \<subseteq> S"
    and "\<And>n stream body. chat_tested P turns env algo n stream body \<Longrightarrow> space_hidden (lr_exchange (turns n) stream) body \<Longrightarrow>
      Altered_Response \<in> S"
  shows "fails_only S (gateway_chat_receipts P turns env algo)"
  unfolding gateway_chat_receipts_def fails_only_def
proof (rule tested_then)
  let ?given = "rbind (required_env env ''NEARAI_E2E_MODELS'') (\<lambda>d. select_models P d ''chat'')"
  have "Models_Given \<in> S" using assms(1) by (auto simp: service_assertions_def)
  then show "tested S (attempt ?given) (\<lambda>models. ?given = Inr models)"
    unfolding required_env_def by (intro tested_attempt asserts_only_rbind select_models_asserts) simp_all
next
  fix models
  assume "rbind (required_env env ''NEARAI_E2E_MODELS'') (\<lambda>d. select_models P d ''chat'') = Inr models"
  then obtain d where d: "required_env env ''NEARAI_E2E_MODELS'' = Inr d" "select_models P d ''chat'' = Inr models"
    by (auto simp: rbind_eq_Inr)
  have "tested S (live_gateway_chat (turns n) env algo (models ! n)) (\<lambda>_. True)" if "n < length models" for n
  proof (intro live_gateway_chat_tested live_gateway_round_asserts assms(1))
    fix s stream response body
    assume "live_gateway_setup (turns n) env algo (models ! n) = Inr s"
      and "bearer_post (lr_exchange (turns n) stream) (lg_http s)
            (trim_end_matches (CHR ''/'') (lg_base s) @ ''/chat/completions'') (lg_key s)
            (as_bytes (json_print (lr_exchange (turns n) stream) (live_chat_body (lm_id (models ! n)) stream))) = Inr response"
      and "body_bytes response = Inr body"
    with d that have "chat_tested P turns env algo n stream body" unfolding chat_tested_def by blast
    then show "space_hidden (lr_exchange (turns n) stream) body \<Longrightarrow> Altered_Response \<in> S" by (rule assms(2))
  qed
  then show "tested S (each_in_turn (\<lambda>n model.
       then_do (println (lm_provider model @ '': '' @ lm_id model @ '', '' @ signing_algo_name algo)) (\<lambda>_.
       within_limit (lr_cut (turns n)) (live_gateway_chat (turns n) env algo model))) 0 models) (\<lambda>_. True)"
    by (intro tested_each_turn tested_then [where Q = "\<lambda>_. True", OF tested_println] tested_within) simp_all
qed

lemma pin_attested: "(case b of Attested pin \<Rightarrow> Inr pin | No_Tls_Binding \<Rightarrow> fail e) = Inr p \<longleftrightarrow> b = Attested p"
  by (cases b) simp_all

lemma first_index: "index_at xs 0 = Inr x \<longleftrightarrow> xs \<noteq> [] \<and> x = hd xs"
  by (auto simp: index_at_def hd_conv_nth)

lemma standalone_systemone_fails:
  assumes "service_assertions \<subseteq> S"
    and "\<And>request body. decision_tested run env request body \<Longrightarrow> space_hidden (lr_exchange run False) body \<Longrightarrow> Altered_Response \<in> S"
    and "\<And>request body. decision_tested run env request body \<Longrightarrow> space_hidden (lr_exchange run False) request \<Longrightarrow> Altered_Request \<in> S"
  shows "fails_only S (standalone_systemone_binds_exact_bytes run env)"
proof -
  have S: "{Models_Given, Status_Success, Gateway_Signed} \<subseteq> S" using assms(1) by (auto simp: service_assertions_def)
  have receipt: "asserts_only S (decision_receipt (lr_exchange run False) g request body signature)"
    if "decision_tested run env request body" for g request body signature
    using S by (intro decision_receipt_asserts assms(2,3) [OF that]) simp_all
  have "asserts_only S (standalone_systemone_run run env)"
    unfolding standalone_systemone_run_def Let_def
    by (intro asserts_only_rbind select_models_asserts receipt;
      simp add: S [THEN subsetD] required_env_asserts got_success boxed_success pin_attested first_index)
      (unfold decision_tested_def, blast)
  then show ?thesis
    unfolding standalone_systemone_binds_exact_bytes_def fails_only_def by (intro tested_within tested_attempt) simp_all
qed

section \<open>Property\<close>

text \<open>C39: The SDK never fails the live tests of its separate steps. Whatever the service answers, the tests return, and an
  assertion that fails is one about the service (its status, its answer's text and end, its models' evidence, who signed);
  the verified Gateway always has the TLS key the tests pin, and a receipt that verified is refused with one more space after
  the response, or after the request. The exception is named by its bytes: the refusal can fail only if the body that this
  very test received (or the request it sent) has the same printed SHA-256 digest as itself with a space added.\<close>

theorem standalone_tests_hold:
  "fails_only (service_assertions \<union> {a. a = Altered_Response
       \<and> (\<exists>n stream body. chat_tested P turns env algo n stream body \<and> space_hidden (lr_exchange (turns n) stream) body)})
     (gateway_chat_receipts P turns env algo)
   \<and> fails_only (service_assertions \<union> {a. \<exists>request body. decision_tested run env request body
       \<and> (a = Altered_Response \<and> space_hidden (lr_exchange run False) body
          \<or> a = Altered_Request \<and> space_hidden (lr_exchange run False) request)})
     (standalone_systemone_binds_exact_bytes run env)"
  by (intro conjI gateway_chat_receipts_fails standalone_systemone_fails) auto

end
