(* ===== verification/Awaited_Client.thy ===== *)
theory Awaited_Client
  imports Example_Clients
begin

text \<open>
  A client whose calls are awaited one at a time, as in the example programs and the live tests: no call waits between two
  of them, a session that was handed out is handed out again until it expires, a receipt that verified is returned again,
  and a client that only used Responses and Messages has receipts of the Gateway only.
\<close>

section \<open>Sessions\<close>

definition idle_sessions :: "session_state \<Rightarrow> bool" where
  "idle_sessions s \<longleftrightarrow> (\<forall>f. \<not> future_alive s f)"

definition kept_session :: "session_state \<Rightarrow> string \<Rightarrow> session \<Rightarrow> bool" where
  "kept_session s model x \<longleftrightarrow> (\<exists>t. sc_sessions s model = Some (t, x))"

lemma idle_sessions_iff: "idle_sessions s \<longleftrightarrow> (\<forall>model f. Waiting model f \<notin> set (sc_callers s))"
  by (auto simp: idle_sessions_def future_alive_iff)

lemma kept_purged: "kept_session s m x \<Longrightarrow> now < ttl \<Longrightarrow> kept_session (purge_sessions ttl now s) m x"
  by (auto simp: kept_session_def purge_sessions_def retain_def elapsed_def)

lemma kept_frame [simp]:
  "kept_session (add_caller c s) m x = kept_session s m x"
  "kept_session (drop_dead s) m x = kept_session s m x"
  "kept_session (s\<lparr>sc_pending := p\<rparr>) m x = kept_session s m x"
  "kept_session (s\<lparr>sc_futures := fs\<rparr>) m x = kept_session s m x"
  "kept_session (s\<lparr>sc_callers := cs\<rparr>) m x = kept_session s m x"
  by (simp_all add: kept_session_def)

text \<open>A caller that asks while no other waits has a cached session, or is the first to wait for a new one.\<close>

lemma request_kept:
  assumes "kept_session s m x" and "now < io_attestation_cache_ttl options"
  shows "kept_session (request_session options model now s) m x"
  using kept_purged [OF assms] by (simp add: request_session_def Let_def assms(1) split: option.split)

lemma request_idle:
  assumes "idle_sessions s"
  obtains (got) r where "sc_callers (request_session options model now s) = sc_callers s @ [Got model r]"
      "idle_sessions (request_session options model now s)"
      "\<And>x. r = Inr x \<Longrightarrow> kept_session (request_session options model now s) model x"
  | (waits) f where "sc_callers (request_session options model now s) = sc_callers s @ [Waiting model f]"
      "sc_pending (request_session options model now s) model = Some f"
      "f < length (sc_futures (request_session options model now s))"
      "sf_result (sc_futures (request_session options model now s) ! f) = None"
      "\<And>x. \<not> kept_session (request_session options model now s) model x"
proof -
  let ?p = "purge_sessions (io_attestation_cache_ttl options) now s" and ?s = "request_session options model now s"
  have frame: "sc_callers ?p = sc_callers s" "future_alive ?p f \<longleftrightarrow> False" for f
    using assms by (simp_all add: purge_sessions_def idle_sessions_def)
  consider (bad) "model = [] \<or> model = ''.'' \<or> model = ''..''"
    | (cached) t x where "\<not> (model = [] \<or> model = ''.'' \<or> model = ''..'')" "sc_sessions ?p model = Some (t, x)"
    | (new) "\<not> (model = [] \<or> model = ''.'' \<or> model = ''..'')" "sc_sessions ?p model = None"
    by (cases "sc_sessions ?p model") auto
  then show thesis
  proof cases
    case bad
    then have "?s = add_caller (Got model (fail (Api (input ''model'' ''expected a canonical model ID'')))) s"
      by (auto simp: request_session_def)
    with assms show thesis by (intro got) (auto simp: idle_sessions_iff)
  next
    case cached
    then have "?s = add_caller (Got model (Inr x)) ?p" by (simp add: request_session_def Let_def)
    with cached frame assms show thesis by (intro got) (auto simp: idle_sessions_iff kept_session_def)
  next
    case new
    have "sc_pending (drop_dead ?p) model = None"
      using frame(2) by (simp add: retain_def split: option.split)
    with new have "?s = add_caller (Waiting model (length (sc_futures ?p))) ((drop_dead ?p)\<lparr>
        sc_futures := sc_futures ?p @ [\<lparr>sf_model = model, sf_result = None\<rparr>],
        sc_pending := (sc_pending (drop_dead ?p))(model \<mapsto> length (sc_futures ?p))\<rparr>)"
      by (simp add: request_session_def Let_def del: drop_dead_simps(4))
    with new frame show thesis by (intro waits) (auto simp: kept_session_def)
  qed
qed

lemma finish_waiting:
  assumes callers: "sc_callers s = cs @ [Waiting model f]" and idle: "\<And>m g. Waiting m g \<notin> set cs"
    and pending: "sc_pending s model = Some f" "f < length (sc_futures s)" "sf_result (sc_futures s ! f) = None"
    and ttl: "io_attestation_cache_ttl options \<noteq> 0"
  obtains r where
      "sc_callers (finish_session options (length cs) now (complete_session options direct f P nonce nonce' clock s)) = cs @ [Got model r]"
    and "idle_sessions (finish_session options (length cs) now (complete_session options direct f P nonce nonce' clock s))"
    and "\<And>x. r = Inr x \<Longrightarrow>
      kept_session (finish_session options (length cs) now (complete_session options direct f P nonce nonce' clock s)) model x"
    and "\<And>m x. m \<noteq> model \<Longrightarrow> kept_session s m x \<Longrightarrow>
      kept_session (finish_session options (length cs) now (complete_session options direct f P nonce nonce' clock s)) m x"
proof -
  let ?r = "new_session P direct (sf_model (sc_futures s ! f)) options nonce nonce' clock"
  let ?c = "complete_session options direct f P nonce nonce' clock s"
  have alive: "future_alive s f" by (auto simp: future_alive_iff callers)
  then have c: "?c = s\<lparr>sc_futures := (sc_futures s)[f := (sc_futures s ! f)\<lparr>sf_result := Some ?r\<rparr>]\<rparr>"
    using pending(2,3) by (simp add: complete_session_def)
  have "finish_session options (length cs) now ?c =
      (store_result options model f now ?r ?c)\<lparr>sc_callers := cs @ [Got model ?r]\<rparr>"
    using callers pending(2) by (simp add: finish_session_def c Let_def)
  moreover have "store_result options model f now ?r ?c = (case ?r of
      Inr x \<Rightarrow> put_session now model x (?c\<lparr>sc_pending := (sc_pending s)(model := None)\<rparr>)
    | Inl _ \<Rightarrow> ?c\<lparr>sc_pending := (sc_pending s)(model := None)\<rparr>)"
    using pending(1) alive ttl by (simp add: store_result_def c split: sum.split)
  ultimately show thesis
    using idle by (intro that [of ?r]) (auto simp: idle_sessions_iff kept_session_def put_session_def c split: sum.splits)
qed

text \<open>The sessions of a client, after what it has done.\<close>

definition client_sessions :: "'f float_ops \<Rightarrow> client_options \<times> bool \<Rightarrow> ('c, 'o, 'z) history \<Rightarrow> session_state" where
  "client_sessions F client h = cl_sessions (client_at F client h)"

text \<open>What awaiting a session does, begun by an event that asks for one.\<close>

lemma awaited_session:
  fixes h :: "('c, 'o, 'z) history"
  assumes idle: "idle_sessions (client_sessions F client h)"
    and event: "client_sessions F client (h @ [e]) = request_session (fst client) model now (client_sessions F client h)"
    and ttl: "now < io_attestation_cache_ttl (fst client)"
  obtains r where
      "sc_callers (client_sessions F client (await_session F client ct (h @ [e]))) =
         sc_callers (client_sessions F client h) @ [Got model r]"
    and "idle_sessions (client_sessions F client (await_session F client ct (h @ [e])))"
    and "\<And>x. r = Inr x \<Longrightarrow> kept_session (client_sessions F client (await_session F client ct (h @ [e]))) model x"
    and "\<And>m x. kept_session (client_sessions F client h) m x \<Longrightarrow>
      kept_session (client_sessions F client (await_session F client ct (h @ [e]))) m x"
proof (rule request_idle [OF idle, of "fst client" model now])
  let ?s = "client_sessions F client h" and ?h = "h @ [e]" and ?s' = "request_session (fst client) model now (client_sessions F client h)"
  note state = event [unfolded client_sessions_def [of F client ?h]]
  {
    fix r
    assume "sc_callers ?s' = sc_callers ?s @ [Got model r]" "idle_sessions ?s'" "\<And>x. r = Inr x \<Longrightarrow> kept_session ?s' model x"
    moreover from this(1) have "await_session F client ct ?h = ?h" by (simp add: await_session_def Let_def state del: client_at_append)
    ultimately show thesis using request_kept [OF _ ttl] by (intro that) (simp_all add: event)
  next
    fix f
    assume waits: "sc_callers ?s' = sc_callers ?s @ [Waiting model f]" "sc_pending ?s' model = Some f"
      "f < length (sc_futures ?s')" "sf_result (sc_futures ?s' ! f) = None" "\<And>x. \<not> kept_session ?s' model x"
    have "await_session F client ct ?h = ?h @ [Cl_Create f (ct_net ct) (ct_nonce ct) (ct_model_nonce ct) (ct_clock ct),
        Cl_Return (length (sc_callers ?s)) (ct_attested ct)]"
      using waits(1) by (simp add: await_session_def Let_def state del: client_at_append)
    note awaited = this
    have after: "client_sessions F client (await_session F client ct ?h) =
        finish_session (fst client) (length (sc_callers ?s)) (ct_attested ct)
          (complete_session (fst client) (snd client) f (ct_net ct) (ct_nonce ct) (ct_model_nonce ct) (ct_clock ct) ?s')"
      unfolding awaited client_sessions_def client_at_append [of F client ?h]
      by (simp add: on_sessions_def state [unfolded client_sessions_def] del: client_at_append)
    have "io_attestation_cache_ttl (fst client) \<noteq> 0" using ttl by simp
    moreover have "Waiting m g \<notin> set (sc_callers ?s)" for m g using idle by (simp add: idle_sessions_iff)
    moreover note finish_waiting [where now = "ct_attested ct" and direct = "snd client" and P = "ct_net ct" and nonce = "ct_nonce ct"
        and nonce' = "ct_model_nonce ct" and clock = "ct_clock ct", OF waits(1) calculation(2) waits(2-4) calculation(1), folded after]
    ultimately obtain r where r: "sc_callers (client_sessions F client (await_session F client ct ?h)) = sc_callers ?s @ [Got model r]"
        "idle_sessions (client_sessions F client (await_session F client ct ?h))"
        "\<And>x. r = Inr x \<Longrightarrow> kept_session (client_sessions F client (await_session F client ct ?h)) model x"
        "\<And>m x. m \<noteq> model \<Longrightarrow> kept_session ?s' m x \<Longrightarrow> kept_session (client_sessions F client (await_session F client ct ?h)) m x"
      by blast
    show thesis
    proof (rule that [OF r(1-3)])
      fix m x
      assume "kept_session ?s m x"
      then have "kept_session ?s' m x" using ttl by (rule request_kept)
      with waits(5) r(4) show "kept_session (client_sessions F client (await_session F client ct ?h)) m x" by metis
    qed
  }
qed

section \<open>Receipts\<close>

text \<open>A record whose verification has the result \<open>r\<close>, found under an id.\<close>

definition receipt_known :: "response_state \<Rightarrow> string \<Rightarrow> verified_completion inf \<Rightarrow> bool" where
  "receipt_known s i r \<longleftrightarrow> (\<exists>a f. rp_responses s i = Some a \<and> rr_verification (rp_records s ! a) = Some f
     \<and> rf_result (rp_futures s ! f) = Some r)"

lemma begin_call_looked:
  assumes "rp_callers (begin_call options i now s) = cs @ [Looked i' a]"
  shows "rp_responses (begin_call options i now s) i = Some a"
  using assms by (auto simp: begin_call_def lookup_response_def ok_or_def purge_responses_def Let_def split: option.splits)

lemma begin_call_not_found:
  assumes "rp_callers (begin_call options i now s) = cs @ [Returned i' b r]"
  shows "r \<noteq> Inr v"
  using assms by (auto simp: begin_call_def lookup_response_def ok_or_def purge_responses_def Let_def split: option.splits)

lemma begin_call_finds:
  assumes "rp_responses s i = Some a" and "now < io_response_cache_ttl options"
  obtains s' where "begin_call options i now s = s'\<lparr>rp_callers := rp_callers s @ [Looked i a]\<rparr>"
    and "rp_records s' = rp_records s" and "rp_futures s' = rp_futures s"
proof (rule that)
  let ?s = "purge_responses (io_response_cache_ttl options) now s"
  have "elapsed now t < io_response_cache_ttl options" for t using assms(2) by (simp add: elapsed_def)
  then have "rp_responses ?s i = Some a" using assms(1) by (simp add: purge_responses_def retain_def)
  then show "begin_call options i now s = ?s\<lparr>rp_callers := rp_callers s @ [Looked i a]\<rparr>"
    by (simp add: begin_call_def lookup_response_def Let_def) (simp add: purge_responses_def)
qed (simp_all add: purge_responses_def)

lemma client_responses:
  "cl_responses (client_at F client (response_steps F client ct i h)) =
     (let k = length (rp_callers (cl_responses (client_at F client h)));
          s = join_call k (begin_call (fst client) i (ct_start ct) (cl_responses (client_at F client h))) in
      case last (rp_callers s) of
        Awaiting _ _ f \<Rightarrow> settle_call k (resolve_future (fst client) f (ct_net ct) s)
      | _ \<Rightarrow> s)"
proof -
  let ?h = "h @ [Cl_Begin i (ct_start ct), Cl_Join (length (rp_callers (cl_responses (client_at F client h))))]"
  have "cl_responses (client_at F client ?h) = join_call (length (rp_callers (cl_responses (client_at F client h))))
      (begin_call (fst client) i (ct_start ct) (cl_responses (client_at F client h)))"
    by (simp add: on_responses_def)
  note j = this
  have "cl_responses (client_at F client (?h @ [Cl_Resolve f (ct_net ct), Cl_Settle k])) =
      settle_call k (resolve_future (fst client) f (ct_net ct) (cl_responses (client_at F client ?h)))" for f k
    unfolding client_at_append [of F client ?h] by (simp add: on_responses_def del: client_at_append)
  then show ?thesis
    unfolding response_steps_def Let_def j
    by (cases "last (rp_callers (join_call (length (rp_callers (cl_responses (client_at F client h))))
        (begin_call (fst client) i (ct_start ct) (cl_responses (client_at F client h)))))")
      (simp_all add: j del: client_at_append)
qed

text \<open>A receipt that verified stays known.\<close>

lemma receipt_becomes_known:
  fixes h :: "('c, 'o, 'z) history"
  assumes "receipt_outcome F client (response_steps F client ct i h) = Some (Inr v)"
  shows "receipt_known (cl_responses (client_at F client (response_steps F client ct i h))) i (Inr v)"
proof -
  let ?s = "cl_responses (client_at F client h)"
  let ?k = "length (rp_callers ?s)"
  let ?b = "begin_call (fst client) i (ct_start ct) ?s" and ?h = "h @ [Cl_Begin i (ct_start ct), Cl_Join ?k]"
  let ?j = "join_call ?k ?b"
  have j: "cl_responses (client_at F client ?h) = ?j" by (simp add: on_responses_def)
  obtain es :: "('c, 'o, 'z) ohttp_prims_scheme response_event list" and log where inv: "responses_inv (fst client) es log ?j"
    using client_responses_ok [of client F ?h] unfolding j by blast
  obtain b where b: "rp_callers ?b = rp_callers ?s @ [b]" "(\<exists>a. b = Looked i a) \<or> (\<exists>e. b = Returned i None e)"
    using begin_call_last by blast
  show ?thesis
  proof (cases b)
    case (Returned i' a' r)
    then have "?j = ?b" using b(1) by (simp add: join_call_def)
    moreover have "r \<noteq> Inr v" using begin_call_not_found b(1) Returned by blast
    ultimately show ?thesis
      using assms b(1) Returned by (simp add: receipt_outcome_def client_responses Let_def)
  next
    case (Looked i' a)
    then have a: "rp_responses ?b i = Some a" using begin_call_looked b(1) by blast
    obtain r s' where joined: "join_verification i' a ?b = (r, s')" by force
    show ?thesis
    proof (cases r)
      case (Inl e)
      then have "last (rp_callers ?j) = Crashed" using b(1) Looked joined by (simp add: join_call_def set_caller_def join_verification_def Let_def split: option.splits prod.splits)
      with assms show ?thesis by (simp add: receipt_outcome_def client_responses Let_def)
    next
      case (Inr f)
      have frame: "rp_callers s' = rp_callers ?b" "rp_responses s' = rp_responses ?b"
        using joined Inr by (auto simp: join_verification_def Let_def split: option.splits)
      have state: "?j = set_caller ?k (Awaiting i' a f) s'" using b(1) Looked joined Inr by (simp add: join_call_def)
      then have callers: "rp_callers ?j = rp_callers ?s @ [Awaiting i' a f]" using b(1) frame by (simp add: set_caller_def)
      have "caller_ok log (rp_futures ?j) (Awaiting i' a f)" by (rule responses_invD(5) [OF inv]) (simp add: callers)
      with responses_invD(1) [OF inv] have bounds: "a < length (rp_records ?j)" "f < length (rp_futures ?j)"
        by (simp_all add: caller_ok_def)
      have slot: "rr_verification (rp_records ?j ! a) = Some f"
        using joined Inr bounds(1) unfolding state
        by (auto simp: join_verification_def Let_def set_caller_def split: option.splits)
      let ?r = "resolve_future (fst client) f (ct_net ct) ?j"
      obtain res where res: "rf_result (rp_futures ?r ! f) = Some res"
        using bounds(2) by (cases "rf_result (rp_futures ?j ! f)") (auto simp: resolve_future_def Let_def)
      have same: "rp_callers ?r = rp_callers ?j" "rp_records ?r = rp_records ?j" "rp_responses ?r = rp_responses ?j"
        by (simp_all add: resolve_future_def Let_def)
      have final: "settle_call ?k ?r = set_caller ?k (Returned i' (Some a) res) (settle_verification a f res ?r)"
        using callers same res by (simp add: settle_call_def)
      then have "res = Inr v"
        using assms callers same by (simp add: receipt_outcome_def client_responses Let_def set_caller_def)
      moreover have "rp_responses ?j i = Some a" using a frame by (simp add: state set_caller_def)
      ultimately show ?thesis
        using final callers same slot bounds res
        by (simp add: client_responses Let_def receipt_known_def set_caller_def settle_verification_def receipt_retryable_def)
    qed
  qed (use b in auto)
qed

text \<open>What is known is answered without asking the service.\<close>

lemma known_receipt_returned:
  assumes known: "receipt_known (cl_responses (client_at F client h)) i (Inr v)"
    and ttl: "ct_start ct < io_response_cache_ttl (fst client)"
  shows "receipt_outcome F client (response_steps F client ct i h) = Some (Inr v)"
proof -
  let ?s = "cl_responses (client_at F client h)"
  let ?b = "begin_call (fst client) i (ct_start ct) ?s" and ?k = "length (rp_callers ?s)"
  obtain a f where a: "rp_responses ?s i = Some a" "rr_verification (rp_records ?s ! a) = Some f"
      "rf_result (rp_futures ?s ! f) = Some (Inr v)"
    using known unfolding receipt_known_def by blast
  obtain s' where b: "?b = s'\<lparr>rp_callers := rp_callers ?s @ [Looked i a]\<rparr>" "rp_records s' = rp_records ?s" "rp_futures s' = rp_futures ?s"
    using begin_call_finds [OF a(1) ttl] .
  have j: "join_call ?k ?b = set_caller ?k (Awaiting i a f) ?b"
    using b a(2) by (simp add: join_call_def join_verification_def)
  have r: "resolve_future (fst client) f (ct_net ct) (join_call ?k ?b) = join_call ?k ?b"
    unfolding j using a(3) b by (simp add: resolve_future_def set_caller_def)
  have settled: "settle_call ?k (join_call ?k ?b) = set_caller ?k (Returned i (Some a) (Inr v)) (settle_verification a f (Inr v) (join_call ?k ?b))"
    unfolding j using a(3) b by (simp add: settle_call_def set_caller_def)
  have callers: "rp_callers (join_call ?k ?b) = rp_callers ?s @ [Awaiting i a f]" unfolding j using b(1) by (simp add: set_caller_def)
  then have "last (rp_callers (join_call ?k ?b)) = Awaiting i a f" by simp
  moreover have "last (rp_callers (settle_call ?k (join_call ?k ?b))) = Returned i (Some a) (Inr v)"
    unfolding settled by (simp add: callers set_caller_def settle_verification_def Let_def)
  ultimately show ?thesis by (simp add: receipt_outcome_def client_responses Let_def r)
qed

lemma receipt_kept:
  assumes "client_verify_response F client ct i h = Some (out, Inr (v, h'))" and "ct_start ct' < io_response_cache_ttl (fst client)"
  shows "client_verify_response F client ct' i h' = Some ([], Inr (v, response_steps F client ct' i h'))"
proof -
  obtain r where r: "receipt_outcome F client (response_steps F client ct i h) = Some r"
      "rbind (boxed_inf r) (\<lambda>v. Inr (v, response_steps F client ct i h)) = Inr (v, h')"
    using assms(1) by (auto simp: client_verify_response_def Let_def attempt_def bind_eq_Some_conv)
  then have "r = Inr v" "h' = response_steps F client ct i h" by (auto simp: boxed_success rbind_eq_Inr)
  then have "receipt_outcome F client (response_steps F client ct' i h') = Some (Inr v)"
    using known_receipt_returned [OF receipt_becomes_known assms(2)] r(1) by metis
  then show ?thesis by (simp add: client_verify_response_def Let_def attempt_def boxed_inf_def)
qed

section \<open>Clients of Responses and Messages only\<close>

definition same_urls :: "'y net_prims_scheme \<Rightarrow> 'z net_prims_scheme \<Rightarrow> bool" where
  "same_urls L P \<longleftrightarrow> url_parse P = url_parse L \<and> url_join P = url_join L"

text \<open>A URL library that puts a query into the URL of a plain path.\<close>

definition path_queried :: "'y net_prims_scheme \<Rightarrow> bool" where
  "path_queried L \<longleftrightarrow> (\<exists>base path u. path \<in> {''responses'', ''messages''} \<and> url_join L base path = Some u \<and> u_query u \<noteq> None)"

definition gateway_event ::
  "'y net_prims_scheme \<Rightarrow> client_options \<Rightarrow> ('c, 'o, 'z) ohttp_prims_scheme client_event \<Rightarrow> bool" where
  "gateway_event L options e \<longleftrightarrow> (case e of
       Cl_Call P work now \<Rightarrow> \<exists>path body request. work = Sending request \<and> same_urls L P \<and> path \<in> {''responses'', ''messages''}
         \<and> json_request P options path body = Inr request
     | Cl_Exchange j P seed rnd ohttp_rnd \<Rightarrow> same_urls L P
     | _ \<Rightarrow> True)"

lemma creation_url_same: "same_urls L P \<Longrightarrow> creation_url P options path = creation_url L options path"
  by (simp add: creation_url_def parse_base_url_def same_urls_def)

lemma creation_url_plain:
  assumes "creation_url L options path = Inr url" and "path \<in> {''responses'', ''messages''}" and "\<not> path_queried L"
  shows "url\<lparr>u_query := None\<rparr> = url"
proof -
  have "u_query url = None" using assms unfolding path_queried_def creation_url_def by (auto simp: outcome_simps)
  then show ?thesis by (cases url) simp
qed

lemma exchanged_by_gateway:
  assumes "exchanged options direct F h i c" and events: "\<forall>e \<in> set h. gateway_event L options e" and plain: "\<not> path_queried L"
  shows "ca_gateway_only c"
proof -
  have "\<not> decided options direct F h i c decoded" for decoded
    using events by (fastforce simp: decided_def gateway_event_def)
  with assms(1) obtain og source b where og: "sent options direct h og source" "c = captured_of og b"
    unfolding exchanged_def by blast
  obtain P' now request j P seed rnd ohttp_rnd where sent: "Cl_Call P' (Sending request) now \<in> set h"
      "Cl_Exchange j P seed rnd ohttp_rnd \<in> set h"
      "prepare_send P direct options (\<lambda>_. Inr (og_session og)) seed rnd request = Inr og"
    using og(1) unfolding sent_def by blast
  have P: "same_urls L P" using events sent(2) by (fastforce simp: gateway_event_def)
  have "gateway_event L options (Cl_Call P' (Sending request) now)" using events sent(1) by blast
  then obtain path body where path: "same_urls L P'" "path \<in> {''responses'', ''messages''}"
      "json_request P' options path body = Inr request"
    by (auto simp: gateway_event_def)
  then have url: "creation_url L options path = Inr (cr_url request)"
    using creation_url_same [OF path(1)] by (auto simp: json_request_def outcome_simps)
  from sent(3) have "og_gateway_only og"
  proof (rule prepare_send_steps)
    fix expected ru mu body' model session request' key bd
    assume "creation_url P options ''responses'' = Inr ru" "creation_url P options ''messages'' = Inr mu"
      and *: "\<lparr>og_request = request', og_key = key, og_body = bd, og_session = session,
         og_responses = ((cr_url request)\<lparr>u_query := None\<rparr> = ru), og_messages = ((cr_url request)\<lparr>u_query := None\<rparr> = mu)\<rparr> = og"
    then have "cr_url request = ru \<or> cr_url request = mu" using url path(2) unfolding creation_url_same [OF P] by auto
    then show "og_gateway_only og"
      unfolding *[symmetric] og_gateway_only_def using creation_url_plain [OF url path(2) plain] by simp
  qed
  with og(2) show ?thesis by (simp add: captured_of_def)
qed

lemma traced_by_gateway:
  assumes "receipt_traced options direct F h i v" and "\<forall>e \<in> set h. gateway_event L options e" and "\<not> path_queried L"
  shows "signature_kind v = Gateway"
  using assms exchanged_by_gateway unfolding receipt_traced_def receipt_for_def signature_kind_def by blast

lemma traced_receipt:
  assumes "receipt_traced options direct F h i v"
  shows "vc_id v = i" and "si_algo (cs_signer (vc_signature v)) = io_signing_algo options"
  using assms unfolding receipt_traced_def receipt_for_def by blast+

section \<open>Steady histories\<close>

text \<open>
  No call waits, the sessions \<open>K\<close> are kept, and every event satisfies \<open>E\<close>, which says nothing of the events that neither
  begin a call nor exchange its request.
\<close>

definition steady ::
  "'f float_ops \<Rightarrow> client_options \<times> bool \<Rightarrow> (string \<times> session) set
     \<Rightarrow> (('c, 'o, 'z) ohttp_prims_scheme client_event \<Rightarrow> bool) \<Rightarrow> ('c, 'o, 'z) history \<Rightarrow> bool" where
  "steady F client K E h \<longleftrightarrow> idle_sessions (client_sessions F client h)
     \<and> (\<forall>(m, x) \<in> K. kept_session (client_sessions F client h) m x) \<and> (\<forall>e \<in> set h. E e)"

definition passive_ok :: "('p client_event \<Rightarrow> bool) \<Rightarrow> bool" where
  "passive_ok E \<longleftrightarrow> (\<forall>e. (case e of Cl_Call _ _ _ \<Rightarrow> False | Cl_Exchange _ _ _ _ _ \<Rightarrow> False | _ \<Rightarrow> True) \<longrightarrow> E e)"

lemma passive_okD:
  assumes "passive_ok E"
  shows "E (Cl_Verify m t)" "E (Cl_Create f P n n' c)" "E (Cl_Return k t)" "E (Cl_Conclude j P t)" "E (Cl_Begin i t)" "E (Cl_Join k)"
    "E (Cl_Resolve f P)" "E (Cl_Settle k)"
  using assms by (simp_all add: passive_ok_def)

lemma steady_fresh: "steady F client {} E []"
  by (simp add: steady_def idle_sessions_iff client_sessions_def client_at_def fresh_client_def no_sessions_def)

lemma steady_kept: "steady F client K E h \<Longrightarrow> (m, x) \<in> K \<Longrightarrow> kept_session (client_sessions F client h) m x"
  by (auto simp: steady_def)

lemma steady_unique: "steady F client K E h \<Longrightarrow> (m, x) \<in> K \<Longrightarrow> (m, y) \<in> K \<Longrightarrow> x = y"
  using steady_kept [of F client K E h m x] steady_kept [of F client K E h m y] by (auto simp: kept_session_def)

lemma await_session_events: "passive_ok E \<Longrightarrow> \<forall>e \<in> set h. E e \<Longrightarrow> e \<in> set (await_session F client ct h) \<Longrightarrow> E e"
  by (auto simp: await_session_def Let_def passive_okD split: session_caller.splits)

lemma await_steady:
  assumes h: "steady F client K E h" and E: "passive_ok E" "E e"
    and event: "client_sessions F client (h @ [e]) = request_session (fst client) model now (client_sessions F client h)"
    and ttl: "now < io_attestation_cache_ttl (fst client)"
  obtains r where
      "sc_callers (client_sessions F client (await_session F client ct (h @ [e]))) =
         sc_callers (client_sessions F client h) @ [Got model r]"
    and "steady F client K E (await_session F client ct (h @ [e]))"
    and "\<And>x. r = Inr x \<Longrightarrow> steady F client (insert (model, x) K) E (await_session F client ct (h @ [e]))"
proof (rule awaited_session [OF _ event ttl, of ct])
  show "idle_sessions (client_sessions F client h)" using h by (simp add: steady_def)
  fix r
  assume r: "sc_callers (client_sessions F client (await_session F client ct (h @ [e]))) =
         sc_callers (client_sessions F client h) @ [Got model r]"
    "idle_sessions (client_sessions F client (await_session F client ct (h @ [e])))"
    "\<And>x. r = Inr x \<Longrightarrow> kept_session (client_sessions F client (await_session F client ct (h @ [e]))) model x"
    "\<And>m x. kept_session (client_sessions F client h) m x \<Longrightarrow>
      kept_session (client_sessions F client (await_session F client ct (h @ [e]))) m x"
  have "E x" if "x \<in> set (await_session F client ct (h @ [e]))" for x
    using await_session_events [OF E(1) _ that] h E(2) by (auto simp: steady_def)
  with r(2,4) h have "steady F client K E (await_session F client ct (h @ [e]))" by (auto simp: steady_def)
  with r(1,3) show thesis by (intro that) (auto simp: steady_def)
qed

lemma steady_conclude:
  assumes "steady F client K E h" and "passive_ok E"
  shows "steady F client K E (client_conclude F client ct h)"
proof -
  have "client_sessions F client (client_conclude F client ct h) = client_sessions F client h"
    by (simp add: client_sessions_def client_conclude_def conclude_call_def split: prod.split)
  then show ?thesis using assms passive_okD(4) [OF assms(2)] by (auto simp: steady_def client_conclude_def)
qed

lemma steady_response_steps:
  assumes "steady F client K E h" and "passive_ok E"
  shows "steady F client K E (response_steps F client ct i h)"
proof -
  have "client_sessions F client (response_steps F client ct i h) = client_sessions F client h"
    by (simp add: client_sessions_def response_steps_def Let_def on_responses_def split: receipt_caller.split)
  then show ?thesis using assms passive_okD [OF assms(2)]
    by (auto simp: steady_def response_steps_def Let_def split: receipt_caller.splits)
qed

lemma steady_exchange:
  assumes h: "steady F client K E h" and E: "passive_ok E" "E (Cl_Call (ct_net ct) work (ct_start ct))"
      "\<And>j. E (Cl_Exchange j (ct_net ct) (ct_seed ct) (ct_rnd ct) (ct_ohttp_rnd ct))"
    and ttl: "ct_start ct < io_attestation_cache_ttl (fst client)"
  shows "steady F client K E (client_exchange F client ct work h)"
proof -
  let ?e = "Cl_Call (ct_net ct) work (ct_start ct)"
  show ?thesis
  proof (cases "work_model (ct_net ct) (snd client) (fst client) work")
    case (Inl f)
    then have "client_exchange F client ct work h = h @ [?e]"
        "client_sessions F client (h @ [?e]) = client_sessions F client h"
      by (simp_all add: client_exchange_def client_sessions_def start_call_def Let_def)
    then show ?thesis using h E(2) by (simp add: steady_def)
  next
    case (Inr model)
    then have event: "client_sessions F client (h @ [?e]) = request_session (fst client) model (ct_start ct) (client_sessions F client h)"
      by (simp add: client_sessions_def start_call_def)
    from await_steady [OF h E(1,2) event ttl, of ct]
    have awaited: "steady F client K E (await_session F client ct (h @ [?e]))" by metis
    obtain c where c: "client_exchange F client ct work h = await_session F client ct (h @ [?e])
        @ [Cl_Exchange c (ct_net ct) (ct_seed ct) (ct_rnd ct) (ct_ohttp_rnd ct)]"
      using Inr by (simp add: client_exchange_def start_call_def Let_def)
    have "client_sessions F client (client_exchange F client ct work h) = client_sessions F client (await_session F client ct (h @ [?e]))"
      unfolding c client_sessions_def
      by (simp add: exchange_call_def del: append_assoc split: client_call.split session_caller.split)
    with awaited E(3) show ?thesis by (simp add: steady_def c)
  qed
qed

text \<open>What a verified session is, and that it is kept.\<close>

lemma verify_steady:
  assumes h: "steady F client K E h" and E: "passive_ok E" and ttl: "ct_start ct < io_attestation_cache_ttl (fst client)"
    and run: "client_verify F client verify_attestation ct model h = Some (out, Inr (v, h'))"
  obtains x where "verify_attestation (Inr x) = Inr v" and "steady F client (insert (model, x) K) E h'"
    and "session_made (fst client) (snd client) h' model x"
proof -
  let ?e = "Cl_Verify model (ct_start ct)"
  have event: "client_sessions F client (h @ [?e]) = request_session (fst client) model (ct_start ct) (client_sessions F client h)"
    by (simp add: client_sessions_def on_sessions_def)
  obtain r where r: "sc_callers (client_sessions F client (await_session F client ct (h @ [?e]))) =
         sc_callers (client_sessions F client h) @ [Got model r]"
      "\<And>x. r = Inr x \<Longrightarrow> steady F client (insert (model, x) K) E (await_session F client ct (h @ [?e]))"
    using await_steady [OF h E passive_okD(1) [OF E] event ttl, of ct] by metis
  then have "verify_attestation r = Inr v" "h' = await_session F client ct (h @ [?e])"
    using run by (auto simp: client_verify_def client_sessions_def Let_def attempt_def rbind_eq_Inr boxed_success
        simp del: client_at_append)
  moreover from this obtain x where "r = Inr x" by (cases r) (simp_all add: verify_attestation_def)
  ultimately show thesis using r got_session_made [of model x "fst client" "snd client" F h']
    by (intro that [of x]) (simp_all add: client_sessions_def client_at_def)
qed

end
