(* ===== verification/Live_Calls.thy ===== *)
theory Live_Calls
  imports Live_Standalone Awaited_Client
begin

text \<open>
  \<open>src/rs/e2e\<close>, what the live tests of the integrated client share: a client with their options, calls that start within
  the limit, a streamed answer and the receipt they retry for. Each test takes its client through one history of
  \<open>Client\<close>, as the example programs do; the lemmas give each call its rule.
\<close>

section \<open>One run of a test\<close>

text \<open>The calls of a test, named by where they stand, with the mode of the answer and the number of the attempt.\<close>

datatype call_site =
    Preflight | Chatting bool | Receiving bool nat | Receiving_Again bool | Verifying bool | Verifying_Again bool

text \<open>Times count from the start of the limit of 180 s; the second limit, of 15 s, is that of the receipt.\<close>

record 'p live_client_run =
  lc_lib :: 'p
  lc_call :: "call_site \<Rightarrow> 'p circumstances"
  lc_receipt_cut :: "bool \<Rightarrow> nat option"
  lc_cut :: "nat option"

text \<open>The URL library is the same at every call.\<close>

definition at_site ::
  "('c, 'o, 'z) ohttp_prims_scheme live_client_run \<Rightarrow> call_site \<Rightarrow> ('c, 'o, 'z) ohttp_prims_scheme circumstances" where
  "at_site R site = (lc_call R site)\<lparr>ct_net := (ct_net (lc_call R site))
     \<lparr>url_parse := url_parse (lc_lib R), url_join := url_join (lc_lib R)\<rparr>\<rparr>"

text \<open>A call that would start when the limit is over is not made.\<close>

definition in_time :: "'p circumstances \<Rightarrow> 'a live_test \<Rightarrow> 'a live_test" where
  "in_time ct m = (if ct_start ct < 180000 then m else Some ([], fail (Stopped Elapsed)))"

definition live_client ::
  "'z net_prims_scheme \<Rightarrow> environment \<Rightarrow> bool \<Rightarrow> signing_algo \<Rightarrow> bool \<Rightarrow> (client_options \<times> bool) live" where
  "live_client P env e2ee algo ohttp =
     rbind (required_env env ''NEARAI_API_KEY'') (\<lambda>key.
     rbind (required_env env ''NEARAI_BASE_URL'') (\<lambda>base.
     got (boxed_inf (with_options P (default_client_options\<lparr>io_api_key := Some key, io_base_url := base, io_e2ee := e2ee,
       io_signing_algo := algo, io_ohttp := ohttp\<rparr>)))))"

text \<open>A request that is streamed, its status and its body; a failed call prints nothing.\<close>

definition live_streamed ::
  "'f float_ops \<Rightarrow> client_options \<times> bool \<Rightarrow> ('c, 'o, 'z) ohttp_prims_scheme circumstances \<Rightarrow> client_request inf
     \<Rightarrow> ('c, 'o, 'z) history \<Rightarrow> (bytes \<times> ('c, 'o, 'z) history) live_test" where
  "live_streamed F client ct request h =
     then_do (attempt (got (boxed_inf request))) (\<lambda>request.
     then_do (running (client_send F client ct request h)) (\<lambda>(response, h).
     then_do (attempt (assert_that Status_Success (is_success (pr_status response)))) (\<lambda>_.
     then_do (running (client_body F client ct h)) (\<lambda>(items, h).
     then_do (attempt (got (boxed_inf (collect_bytes items)))) (\<lambda>bytes.
     attempt (Inr (bytes, h)))))))"

fun receipt_attempts ::
  "'f float_ops \<Rightarrow> client_options \<times> bool \<Rightarrow> (nat \<Rightarrow> ('c, 'o, 'z) ohttp_prims_scheme circumstances) \<Rightarrow> nat \<Rightarrow> nat list \<Rightarrow> string
     \<Rightarrow> ('c, 'o, 'z) history \<Rightarrow> (verified_completion \<times> ('c, 'o, 'z) history) live_test" where
  "receipt_attempts F client calls k [] i h = in_time (calls k) (running (client_verify_response F client (calls k) i h))"
| "receipt_attempts F client calls k (ms # pauses) i h = in_time (calls k)
     (let h = response_steps F client (calls k) i h in
      case receipt_outcome F client h of
        None \<Rightarrow> None
      | Some result \<Rightarrow>
          if receipt_retryable result then receipt_attempts F client calls (k + 1) pauses i h
          else running (attempt (rbind (boxed_inf result) (\<lambda>v. Inr (v, h)))))"

definition verify_receipt_with_retry ::
  "'f float_ops \<Rightarrow> client_options \<times> bool \<Rightarrow> (nat \<Rightarrow> ('c, 'o, 'z) ohttp_prims_scheme circumstances) \<Rightarrow> string
     \<Rightarrow> ('c, 'o, 'z) history \<Rightarrow> (verified_completion \<times> ('c, 'o, 'z) history) live_test" where
  "verify_receipt_with_retry F client calls i h = receipt_attempts F client calls 0 backoffs i h"

section \<open>The calls, as a test uses them\<close>

lemma tested_in_time: "(ct_start ct < 180000 \<Longrightarrow> tested S m Q) \<Longrightarrow> tested S (in_time ct m) Q"
  by (simp add: in_time_def tested_def asserts_only_def)

text \<open>What the tests' options leave as they are.\<close>

definition live_options :: "client_options \<times> bool \<Rightarrow> signing_algo \<Rightarrow> bool" where
  "live_options client algo \<longleftrightarrow> \<not> snd client \<and> io_attestation_cache_ttl (fst client) = 3600000
     \<and> io_response_cache_ttl (fst client) = 3600000 \<and> io_signing_algo (fst client) = algo
     \<and> go_include_spki_fingerprint (io_gateway_verification (fst client))"

lemma live_client_options: "live_client P env e2ee algo ohttp = Inr client \<Longrightarrow> live_options client algo"
  by (auto simp: live_client_def required_env_def with_options_def create_client_def Let_def live_options_def outcome_simps got_success
      boxed_success default_client_options_def default_gateway_verification_def split: option.splits)

lemma live_client_asserts: "asserts_only S (live_client P env e2ee algo ohttp)"
  unfolding live_client_def required_env_def by (intro asserts_only_rbind) simp_all

lemma verify_tested:
  assumes "steady F client K E h" and "passive_ok E" and "live_options client algo" and "ct_start ct < 180000"
  shows "tested S (running (client_verify F client verify_attestation ct model h)) (\<lambda>(v, h'). \<exists>x.
     verify_attestation (Inr x) = Inr v \<and> steady F client (insert (model, x) K) E h'
     \<and> session_made (fst client) (snd client) h' model x)"
proof (rule tested_running)
  show "client_verify F client verify_attestation ct model h \<noteq> None"
    using client_verify_returns [of F client verify_attestation ct model h] by auto
  fix out a
  assume run: "client_verify F client verify_attestation ct model h = Some (out, Inr a)"
  obtain v h' where a: "a = (v, h')" by force
  have "ct_start ct < io_attestation_cache_ttl (fst client)" using assms(3,4) by (simp add: live_options_def)
  from verify_steady [OF assms(1,2) this run [unfolded a]]
  show "case a of (v, h') \<Rightarrow> \<exists>x. verify_attestation (Inr x) = Inr v \<and> steady F client (insert (model, x) K) E h'
     \<and> session_made (fst client) (snd client) h' model x"
    unfolding a by auto
qed

lemma client_send_history:
  assumes "client_send F client ct request h = Some (out, Inr (pending, h'))"
  shows "h' = client_exchange F client ct (Sending request) h"
  using assms by (auto simp: client_send_def Let_def attempt_def boxed_inf_failed split: client_call.splits)

lemma client_body_history:
  assumes "client_body F client ct h = Some (out, Inr (items, h'))"
  shows "h' = client_conclude F client ct h"
  using assms by (auto simp: client_body_def Let_def attempt_def split: client_call.splits)

lemma client_json_history:
  assumes "client_json F client ct reason request body h = Some (out, Inr (v, h'))"
  obtains req where "request = Inr req" and "h' = client_conclude F client ct (client_exchange F client ct (Sending req) h)"
  using assms
  by (auto simp: client_json_def program_success dest!: client_send_history client_body_history split: prod.splits)

lemma client_decide_history:
  assumes "client_decide F client ct body h = Some (out, Inr (result, h'))"
  shows "h' = client_conclude F client ct (client_exchange F client ct (Deciding body []) h)"
  using assms by (auto simp: client_decide_def Let_def attempt_def boxed_inf_failed split: client_call.splits)

text \<open>\<open>E\<close> allows what the call \<open>work\<close> does.\<close>

definition allows ::
  "(('c, 'o, 'z) ohttp_prims_scheme client_event \<Rightarrow> bool) \<Rightarrow> ('c, 'o, 'z) ohttp_prims_scheme circumstances \<Rightarrow> call_work \<Rightarrow> bool" where
  "allows E ct work \<longleftrightarrow> passive_ok E \<and> E (Cl_Call (ct_net ct) work (ct_start ct))
     \<and> (\<forall>j. E (Cl_Exchange j (ct_net ct) (ct_seed ct) (ct_rnd ct) (ct_ohttp_rnd ct)))"

lemma allowed_exchange:
  assumes "steady F client K E h" and "allows E ct work" and "live_options client algo" and "ct_start ct < 180000"
  shows "steady F client K E (client_exchange F client ct work h)"
  using assms by (intro steady_exchange) (simp_all add: allows_def live_options_def)

lemma streamed_tested:
  assumes "steady F client K E h" and "live_options client algo" and "ct_start ct < 180000" and "Status_Success \<in> S"
    and "\<And>req. request = Inr req \<Longrightarrow> allows E ct (Sending req)"
  shows "tested S (live_streamed F client ct request h) (\<lambda>(bytes, h'). steady F client K E h')"
proof -
  let ?Q = "\<lambda>(pending, h'). steady F client K E h' \<and> passive_ok E \<and> (\<exists>cs g. cl_calls (client_at F client h') = cs @ [Call_Body g pending])"
  have sent: "tested S (running (client_send F client ct req h)) ?Q" if "request = Inr req" for req
  proof (rule tested_running)
    have steady: "steady F client K E (client_exchange F client ct (Sending req) h)"
      by (rule allowed_exchange [OF assms(1) assms(5) [OF that] assms(2,3)])
    show "client_send F client ct req h \<noteq> None"
      by (cases rule: client_send_returns [of F client ct req h]) (simp_all)
    fix out a
    assume run: "client_send F client ct req h = Some (out, Inr a)"
    obtain pending h' where a: "a = (pending, h')" by force
    show "?Q a"
    proof (cases rule: client_send_returns [of F client ct req h])
      case (failed f)
      with run show ?thesis by (simp add: boxed_inf_failed)
    next
      case (answered pending' h'' cs g)
      with run a have "pending' = pending" "h'' = h'" by auto
      with answered(2) client_send_history [OF run [unfolded a]] a steady assms(5) [OF that] show ?thesis by (auto simp: allows_def)
    qed
  qed
  have body: "tested S (running (client_body F client ct h')) (\<lambda>(items, h'). steady F client K E h')"
    if "?Q (pending, h')" for pending h'
    using that client_body_returns [of F client h' _ _ pending ct] steady_conclude [of F client K E h' ct]
    by (intro tested_running) (auto dest: client_body_history)
  have rest: "tested S (then_do (running (client_body F client ct h')) (\<lambda>(items, h).
      then_do (attempt (got (boxed_inf (collect_bytes items)))) (\<lambda>bytes. attempt (Inr (bytes, h)))))
      (\<lambda>(bytes, h'). steady F client K E h')" if "?Q (pending, h')" for pending h'
    by (rule tested_then [OF body [OF that]]) (auto intro!: tested_then [OF tested_attempt, of _ _ "\<lambda>_. True"] tested_return)
  show ?thesis
    unfolding live_streamed_def
  proof (rule tested_then [OF tested_attempt, of _ _ "\<lambda>req. request = Inr req"])
    fix req
    assume "request = Inr req"
    from sent [OF this] show "tested S (then_do (running (client_send F client ct req h)) (\<lambda>(response, h).
        then_do (attempt (assert_that Status_Success (is_success (pr_status response)))) (\<lambda>_.
        then_do (running (client_body F client ct h)) (\<lambda>(items, h).
        then_do (attempt (got (boxed_inf (collect_bytes items)))) (\<lambda>bytes. attempt (Inr (bytes, h)))))))
        (\<lambda>(bytes, h'). steady F client K E h')"
      by (rule tested_then) (use assms(4) rest in \<open>auto intro!: tested_then [OF tested_assert, of _ _ _ "\<lambda>_. True"]\<close>)
  qed (simp_all add: got_success boxed_success)
qed

lemma json_tested:
  assumes "steady F client K E h" and "live_options client algo" and "ct_start ct < 180000"
    and "\<And>req. request = Inr req \<Longrightarrow> allows E ct (Sending req)"
  shows "tested S (running (client_json F client ct reason request body h)) (\<lambda>(v, h'). steady F client K E h')"
proof (rule tested_running [OF client_json_returns])
  fix out a
  assume run: "client_json F client ct reason request body h = Some (out, Inr a)"
  obtain v h' where a: "a = (v, h')" by force
  from client_json_history [OF run [unfolded a]] obtain req where req: "request = Inr req"
      "h' = client_conclude F client ct (client_exchange F client ct (Sending req) h)" .
  then show "case a of (v, h') \<Rightarrow> steady F client K E h'"
    using allowed_exchange [OF assms(1) assms(4) [OF req(1)] assms(2,3)] assms(4) [OF req(1)]
    by (simp add: a steady_conclude allows_def)
qed

text \<open>A receipt that was retried for was the answer of one of the calls.\<close>

definition receipt_given ::
  "'f float_ops \<Rightarrow> client_options \<times> bool \<Rightarrow> string \<Rightarrow> verified_completion \<Rightarrow> ('c, 'o, 'z) history \<Rightarrow> bool" where
  "receipt_given F client i v h' \<longleftrightarrow> (\<exists>ct h. client_verify_response F client ct i h = Some ([], Inr (v, h')))"

lemma verify_response_tested:
  assumes "steady F client K E h" and "passive_ok E"
  shows "tested S (running (client_verify_response F client ct i h)) (\<lambda>(v, h'). steady F client K E h' \<and> receipt_given F client i v h')"
proof (rule tested_running)
  show "client_verify_response F client ct i h \<noteq> None"
    using client_verify_response_returns [of F client ct i h] by auto
  fix out a
  assume run: "client_verify_response F client ct i h = Some (out, Inr a)"
  obtain v h' where a: "a = (v, h')" by force
  have "out = []" using client_verify_response_traced [OF run [unfolded a]] by blast
  moreover have "h' = response_steps F client ct i h"
    using run a by (auto simp: client_verify_response_def Let_def attempt_def bind_eq_Some_conv rbind_eq_Inr)
  ultimately show "case a of (v, h') \<Rightarrow> steady F client K E h' \<and> receipt_given F client i v h'"
    using run steady_response_steps [OF assms, of ct i] unfolding a receipt_given_def by auto
qed

lemma receipt_outcome_some: "receipt_outcome F client (response_steps F client ct i h) \<noteq> None"
  using client_verify_response_returns [of F client ct i h]
  by (cases "receipt_outcome F client (response_steps F client ct i h)") (simp_all add: client_verify_response_def Let_def)

lemma receipt_attempts_tested:
  assumes "steady F client K E h" and "passive_ok E"
  shows "tested S (receipt_attempts F client calls k pauses i h) (\<lambda>(v, h'). steady F client K E h' \<and> receipt_given F client i v h')"
  using assms(1)
proof (induction pauses arbitrary: k h)
  case Nil
  then show ?case by (simp add: tested_in_time verify_response_tested assms(2))
next
  case (Cons ms pauses)
  let ?h = "response_steps F client (calls k) i h"
  obtain result where result: "receipt_outcome F client ?h = Some result"
    using receipt_outcome_some by blast
  show ?case
  proof (cases "receipt_retryable result")
    case True
    with result Cons.IH steady_response_steps [OF Cons.prems assms(2)] show ?thesis by (simp add: Let_def tested_in_time)
  next
    case False
    have "client_verify_response F client (calls k) i h = attempt (rbind (boxed_inf result) (\<lambda>v. Inr (v, ?h)))"
      using result by (simp add: client_verify_response_def)
    then have "tested S (running (attempt (rbind (boxed_inf result) (\<lambda>v. Inr (v, ?h)))))
        (\<lambda>(v, h'). steady F client K E h' \<and> receipt_given F client i v h')"
      using verify_response_tested [OF Cons.prems assms(2), where ct = "calls k" and i = i] by simp
    with False result show ?thesis by (simp add: Let_def tested_in_time)
  qed
qed

text \<open>What a receipt that was given is, whatever the service did.\<close>

lemma receipt_given_facts:
  assumes "receipt_given F client i v h" and "live_options client algo"
  shows "vc_id v = i" and "si_algo (cs_signer (vc_signature v)) = algo"
    and "receipt_traced (fst client) False F h i v"
proof -
  from assms have traced: "receipt_traced (fst client) False F h i v"
    unfolding receipt_given_def live_options_def using client_verify_response_traced by metis
  then show "vc_id v = i" "si_algo (cs_signer (vc_signature v)) = algo" "receipt_traced (fst client) False F h i v"
    using traced_receipt [OF traced] assms(2) by (simp_all add: live_options_def)
qed

lemma authenticated_tls:
  assumes "authenticate_gateway P options nonce = Inr (api, client, g, ohttp)"
    and "go_include_spki_fingerprint (io_gateway_verification options)"
  shows "has_attested_tls g"
proof -
  obtain c fetched where "fetch_gateway_attestation P nonce c \<lparr>gfo_signing_algo = Some (io_signing_algo options),
        gfo_include_spki_fingerprint = go_include_spki_fingerprint (io_gateway_verification options)\<rparr> = Inr fetched"
      "gateway_phase P options fetched client = Inr (g, ohttp)"
    using assms(1) by (auto simp: authenticate_gateway_def Let_def outcome_simps)
  from fetched_gateway_attested_tls [OF this(1) _ gateway_phase_ok(1) [OF this(2)]] assms(2) show ?thesis by simp
qed

lemma session_made_tls:
  fixes h :: "('c, 'o, 'z) history"
  assumes "session_made (fst client) (snd client) h model x" and "live_options client algo" and "se_gateway x = Some g"
  shows "has_attested_tls g"
proof -
  obtain P :: "('c, 'o, 'z) ohttp_prims_scheme" and nonce nonce' clock where "new_session P (snd client) model (fst client) nonce nonce' clock = Inr x"
    using assms(1) unfolding session_made_def by blast
  from created_gateway [OF this assms(3)] assms(2) authenticated_tls show ?thesis unfolding live_options_def by blast
qed

lemma verify_attestation_ok:
  "verify_attestation (Inr x) = Inr v \<longleftrightarrow> se_gateway x = Some (ar_gateway v) \<and> ar_models v = se_models x \<and> ar_verified_at v = se_verified_at x"
  by (cases v) (auto simp: verify_attestation_def outcome_simps)

lemma live_models_asserts: "service_assertions \<subseteq> S \<Longrightarrow>
    asserts_only S (rbind (required_env env ''NEARAI_E2E_MODELS'') (\<lambda>d. select_models L d e))"
  unfolding required_env_def service_assertions_def by (intro asserts_only_rbind select_models_asserts) simp_all

end
