(* ===== verification/Live_Chat.thy ===== *)
theory Live_Chat
  imports Live_Calls
begin

text \<open>
  \<open>src/rs/e2e/integrated.rs\<close>: the live tests of Chat, with and without encryption, over the Gateway and OHTTP.
\<close>

section \<open>The tests\<close>

definition integrated_chat ::
  "'f float_ops \<Rightarrow> ('c, 'o, 'z) ohttp_prims_scheme live_client_run \<Rightarrow> client_options \<times> bool \<Rightarrow> live_model \<Rightarrow> bool
     \<Rightarrow> ('c, 'o, 'z) history \<Rightarrow> (bytes \<times> ('c, 'o, 'z) history) live_test" where
  "integrated_chat F R client model stream h =
     (let ct = at_site R (Chatting stream); body = live_chat_body (lm_id model) stream;
          request = chat_request (ct_net ct) (fst client) body in
      in_time ct
        (if stream then live_streamed F client ct request h
         else then_do (running (client_json F client ct ''use send for streaming Chat'' request body h)) (\<lambda>(value', h).
              attempt (Inr (as_bytes (json_print (lc_lib R) value'), h)))))"

definition models_expected :: "live_model \<Rightarrow> verified_model_attestation list \<Rightarrow> unit live" where
  "models_expected model models =
     (if lm_provider model = ''near'' then
        rbind (assert_that Near_Evidence (models \<noteq> [])) (\<lambda>_.
        rbind (traverse (\<lambda>report.
            rbind (assert_that Gpu_Checked (vm_gpu_evidence report = Gpu_Verified)) (\<lambda>_.
            assert_that Model_Key_Given (vm_signing_public_key report \<noteq> None))) models) (\<lambda>_. Inr ()))
      else assert_that No_Model_Evidence (models = []))"

definition client_shown :: "signing_algo \<Rightarrow> bool \<Rightarrow> bool \<Rightarrow> string" where
  "client_shown algo e2ee ohttp =
     signing_algo_name algo @ '', e2ee='' @ show_bool e2ee @ '', ohttp='' @ show_bool ohttp"

definition session_checks ::
  "'f float_ops \<Rightarrow> ('c, 'o, 'z) ohttp_prims_scheme live_client_run \<Rightarrow> client_options \<times> bool \<Rightarrow> live_model
     \<Rightarrow> attestation_verification_result option \<Rightarrow> bool \<Rightarrow> ('c, 'o, 'z) history \<Rightarrow> ('c, 'o, 'z) history live_test" where
  "session_checks F R client model preflight stream h =
     (let verify = (\<lambda>ct h. in_time ct (running (client_verify F client verify_attestation ct (lm_id model) h))) in
      then_do (verify (at_site R (Verifying stream)) h) (\<lambda>(verified, h).
      then_do (attempt (assert_that Tls_Attested (has_attested_tls (ar_gateway verified)))) (\<lambda>_.
      then_do (attempt (assert_that Time_Kept
                (case preflight of None \<Rightarrow> True | Some p \<Rightarrow> ar_verified_at verified = ar_verified_at p))) (\<lambda>_.
      then_do (verify (at_site R (Verifying_Again stream)) h) (\<lambda>(again, h).
      then_do (attempt (assert_that Time_Kept (ar_verified_at again = ar_verified_at verified))) (\<lambda>_.
      then_do (attempt (models_expected model (ar_models verified))) (\<lambda>_.
      attempt (Inr h))))))))"

definition integrated_round ::
  "'f float_ops \<Rightarrow> ('c, 'o, 'z) ohttp_prims_scheme live_client_run \<Rightarrow> client_options \<times> bool \<Rightarrow> bool \<times> signing_algo \<times> bool
     \<Rightarrow> live_model \<Rightarrow> attestation_verification_result option \<Rightarrow> bool \<Rightarrow> ('c, 'o, 'z) history \<Rightarrow> ('c, 'o, 'z) history live_test" where
  "integrated_round F R client mode model preflight stream h =
     (let (e2ee, algo, ohttp) = mode; ct = at_site R (Receiving_Again stream) in
      then_do (integrated_chat F R client model stream h) (\<lambda>(response, h).
      then_do (attempt (read_completion_id (lc_lib R) response stream)) (\<lambda>i.
      then_do (verify_receipt_with_retry F client (\<lambda>k. at_site R (Receiving stream k)) i h) (\<lambda>(receipt, h).
      then_do (attempt (assert_that Receipt_Algo (si_algo (cs_signer (vc_signature receipt)) = algo))) (\<lambda>_.
      then_do (attempt (assert_that Gateway_Signed (lm_provider model = ''near'' \<or> signature_kind receipt = Gateway))) (\<lambda>_.
      then_do (in_time ct (running (client_verify_response F client ct i h))) (\<lambda>(cached, h).
      then_do (attempt (assert_that Receipt_Kept
                (cs_signature (vc_signature cached) = cs_signature (vc_signature receipt)))) (\<lambda>_.
      then_do (session_checks F R client model preflight stream h) (\<lambda>h.
      then_do (println (''integrated '' @ client_shown algo e2ee ohttp @ '', stream='' @ show_bool stream @ '': verified ''
                @ debug_signature_kind (signature_kind receipt) @ '' receipt'')) (\<lambda>_.
      attempt (Inr h)))))))))))"

definition integrated_verify_chat ::
  "'f float_ops \<Rightarrow> ('c, 'o, 'z) ohttp_prims_scheme live_client_run \<Rightarrow> environment \<Rightarrow> bool \<times> signing_algo \<times> bool \<Rightarrow> live_model
     \<Rightarrow> unit live_test" where
  "integrated_verify_chat F R env mode model =
     (let (e2ee, algo, ohttp) = mode in
      then_do (attempt (live_client (lc_lib R) env e2ee algo ohttp)) (\<lambda>client.
      then_do (if e2ee then attempt (Inr (None, []))
               else in_time (at_site R Preflight)
                 (then_do (running (client_verify F client verify_attestation (at_site R Preflight) (lm_id model) [])) (\<lambda>(v, h).
                  attempt (Inr (Some v, h))))) (\<lambda>(preflight, h).
      then_do (integrated_round F R client mode model preflight False h) (\<lambda>h.
      if lm_provider model = ''chutes'' then attempt (Inr ())
      else then_do (integrated_round F R client mode model preflight True h) (\<lambda>_. attempt (Inr ()))))))"

definition integrated_verify_models ::
  "'f float_ops \<Rightarrow> 'y net_prims_scheme \<Rightarrow> (nat \<Rightarrow> ('c, 'o, 'z) ohttp_prims_scheme live_client_run) \<Rightarrow> environment
     \<Rightarrow> bool \<times> signing_algo \<times> bool \<Rightarrow> unit live_test" where
  "integrated_verify_models F L turns env mode =
     (let (e2ee, algo, ohttp) = mode in
      then_do (attempt (rbind (required_env env ''NEARAI_E2E_MODELS'') (\<lambda>d. select_models L d ''chat''))) (\<lambda>models.
      then_do (attempt (if e2ee \<or> ohttp then
                 let selected = filter (\<lambda>m. lm_provider m = ''near'') models in
                 rbind (assert_that Near_Models (selected \<noteq> [])) (\<lambda>_. Inr selected)
               else Inr models)) (\<lambda>selected.
      each_in_turn (\<lambda>n model.
        then_do (println (''integrated '' @ lm_provider model @ '': '' @ lm_id model @ '', '' @ client_shown algo e2ee ohttp)) (\<lambda>_.
        within_limit (lc_cut (turns n)) (integrated_verify_chat F (turns n) env mode model))) 0 selected)))"

definition unencrypted_chat_receipts ::
  "'f float_ops \<Rightarrow> 'y net_prims_scheme \<Rightarrow> (nat \<Rightarrow> ('c, 'o, 'z) ohttp_prims_scheme live_client_run) \<Rightarrow> environment
     \<Rightarrow> unit live_test" where
  "unencrypted_chat_receipts F L turns env = integrated_verify_models F L turns env (False, Ed25519, False)"

definition ed25519_e2ee_chat_receipts ::
  "'f float_ops \<Rightarrow> 'y net_prims_scheme \<Rightarrow> (nat \<Rightarrow> ('c, 'o, 'z) ohttp_prims_scheme live_client_run) \<Rightarrow> environment
     \<Rightarrow> unit live_test" where
  "ed25519_e2ee_chat_receipts F L turns env = integrated_verify_models F L turns env (True, Ed25519, False)"

definition ecdsa_e2ee_chat_receipts ::
  "'f float_ops \<Rightarrow> 'y net_prims_scheme \<Rightarrow> (nat \<Rightarrow> ('c, 'o, 'z) ohttp_prims_scheme live_client_run) \<Rightarrow> environment
     \<Rightarrow> unit live_test" where
  "ecdsa_e2ee_chat_receipts F L turns env = integrated_verify_models F L turns env (True, Ecdsa, False)"

definition ohttp_e2ee_chat_receipts ::
  "'f float_ops \<Rightarrow> 'y net_prims_scheme \<Rightarrow> (nat \<Rightarrow> ('c, 'o, 'z) ohttp_prims_scheme live_client_run) \<Rightarrow> environment
     \<Rightarrow> unit live_test" where
  "ohttp_e2ee_chat_receipts F L turns env = integrated_verify_models F L turns env (True, Ed25519, True)"

section \<open>What they can find\<close>

text \<open>Events of any kind are allowed in a Chat test.\<close>

lemma allows_any [simp]: "allows (\<lambda>_. True) ct work" "passive_ok (\<lambda>_. True)"
  by (simp_all add: allows_def passive_ok_def)

lemma integrated_chat_tested:
  assumes "steady F client K (\<lambda>_. True) h" and "live_options client algo" and "Status_Success \<in> S"
  shows "tested S (integrated_chat F R client model stream h) (\<lambda>(bytes, h'). steady F client K (\<lambda>_. True) h')"
  unfolding integrated_chat_def Let_def
  by (rule tested_in_time, cases stream)
    (use assms in \<open>auto intro!: streamed_tested tested_then [OF json_tested] tested_return\<close>)

lemma models_expected_asserts:
  assumes "service_assertions \<subseteq> S"
  shows "asserts_only S (models_expected model models)"
  using assms unfolding models_expected_def service_assertions_def
  by (auto intro!: asserts_only_rbind traverse_asserts)


lemma receipt_again_tested:
  assumes "steady F client K E h" and "passive_ok E" and "live_options client algo" and "receipt_given F client i v h"
  shows "tested S (in_time ct (running (client_verify_response F client ct i h))) (\<lambda>(again, h'). again = v \<and> steady F client K E h')"
proof (rule tested_in_time)
  assume "ct_start ct < 180000"
  then have "ct_start ct < io_response_cache_ttl (fst client)" using assms(3) by (simp add: live_options_def)
  with receipt_kept assms(4) have "client_verify_response F client ct i h = Some ([], Inr (v, response_steps F client ct i h))"
    unfolding receipt_given_def by blast
  with steady_response_steps [OF assms(1,2)]
  show "tested S (running (client_verify_response F client ct i h)) (\<lambda>(again, h'). again = v \<and> steady F client K E h')"
    by (intro tested_running) auto
qed

text \<open>The second verification has the session of the first, and that of the preflight if there was one.\<close>

definition preflight_kept :: "string \<Rightarrow> (string \<times> session) set \<Rightarrow> attestation_verification_result option \<Rightarrow> bool" where
  "preflight_kept model K preflight \<longleftrightarrow>
     (\<forall>p. preflight = Some p \<longrightarrow> (\<exists>x. (model, x) \<in> K \<and> verify_attestation (Inr x) = Inr p))"

lemma verify_in_time:
  assumes "steady F client K (\<lambda>_. True) h" and "live_options client algo"
  shows "tested S (in_time ct (running (client_verify F client verify_attestation ct model h))) (\<lambda>(v, h'). \<exists>x.
     verify_attestation (Inr x) = Inr v \<and> steady F client (insert (model, x) K) (\<lambda>_. True) h'
     \<and> session_made (fst client) (snd client) h' model x)"
  by (rule tested_in_time, rule verify_tested [OF assms(1) _ assms(2)]) simp_all

lemma second_verification_tested:
  fixes h :: "('c, 'o, 'z) history"
  assumes h: "steady F client (insert (lm_id model, x) K) (\<lambda>_. True) h" and client: "live_options client algo"
    and S: "service_assertions \<subseteq> S" and v: "verify_attestation (Inr x) = Inr v"
  shows "tested S (then_do (in_time ct (running (client_verify F client verify_attestation ct (lm_id model) h))) (\<lambda>(again, h).
      then_do (attempt (assert_that Time_Kept (ar_verified_at again = ar_verified_at v))) (\<lambda>_.
      then_do (attempt (models_expected model (ar_models v))) (\<lambda>_. attempt (Inr h))))) (steady F client K (\<lambda>_. True))"
proof (rule tested_then [OF verify_in_time [OF h client]], clarify)
  let ?m = "lm_id model"
  fix w and h' :: "('c, 'o, 'z) history" and y
  assume y: "verify_attestation (Inr y) = Inr w" "steady F client (insert (?m, y) (insert (?m, x) K)) (\<lambda>_. True) h'"
  have "ar_verified_at w = ar_verified_at v"
    using steady_unique [OF y(2), of ?m x y] y(1) v by (simp add: verify_attestation_ok)
  moreover have "steady F client K (\<lambda>_. True) h'" using y(2) by (simp add: steady_def)
  ultimately show "tested S (then_do (attempt (assert_that Time_Kept (ar_verified_at w = ar_verified_at v))) (\<lambda>_.
      then_do (attempt (models_expected model (ar_models v))) (\<lambda>_. attempt (Inr h')))) (steady F client K (\<lambda>_. True))"
    by (auto intro!: tested_then [OF tested_assert, of _ _ _ "\<lambda>_. True"] tested_then [OF tested_attempt, of _ _ "\<lambda>_. True"]
        tested_return models_expected_asserts S)
qed

lemma session_checks_tested:
  fixes h :: "('c, 'o, 'z) history" and R :: "('c, 'o, 'z) ohttp_prims_scheme live_client_run"
  assumes h: "steady F client K (\<lambda>_. True) h" and client: "live_options client algo" and S: "service_assertions \<subseteq> S"
    and pre: "preflight_kept (lm_id model) K preflight"
  shows "tested S (session_checks F R client model preflight stream h) (steady F client K (\<lambda>_. True))"
  unfolding session_checks_def Let_def
proof (rule tested_then [OF verify_in_time [OF h client]], clarify)
  let ?m = "lm_id model" and ?ct = "at_site R (Verifying_Again stream)"
  fix v and h' :: "('c, 'o, 'z) history" and x
  assume x: "verify_attestation (Inr x) = Inr v" "steady F client (insert (?m, x) K) (\<lambda>_. True) h'"
    "session_made (fst client) (snd client) h' ?m x"
  have "has_attested_tls (ar_gateway v)" using session_made_tls [OF x(3) client] x(1) by (simp add: verify_attestation_ok)
  moreover have "case preflight of None \<Rightarrow> True | Some p \<Rightarrow> ar_verified_at v = ar_verified_at p"
  proof (cases preflight)
    case (Some p)
    with pre obtain y where "(?m, y) \<in> K" "verify_attestation (Inr y) = Inr p" by (auto simp: preflight_kept_def)
    with Some x(1) steady_unique [OF x(2), of ?m x y] show ?thesis by (simp add: verify_attestation_ok)
  qed simp
  ultimately show "tested S (then_do (attempt (assert_that Tls_Attested (has_attested_tls (ar_gateway v)))) (\<lambda>_.
      then_do (attempt (assert_that Time_Kept (case preflight of None \<Rightarrow> True | Some p \<Rightarrow> ar_verified_at v = ar_verified_at p))) (\<lambda>_.
      then_do (in_time ?ct (running (client_verify F client verify_attestation ?ct ?m h'))) (\<lambda>(again, h).
      then_do (attempt (assert_that Time_Kept (ar_verified_at again = ar_verified_at v))) (\<lambda>_.
      then_do (attempt (models_expected model (ar_models v))) (\<lambda>_. attempt (Inr h))))))) (steady F client K (\<lambda>_. True))"
    by (intro tested_then [OF tested_assert, of _ _ _ "\<lambda>_. True"] second_verification_tested [OF x(2) client S x(1)]) simp_all
qed

lemma integrated_round_tested:
  fixes h :: "('c, 'o, 'z) history" and R :: "('c, 'o, 'z) ohttp_prims_scheme live_client_run"
  assumes h: "steady F client K (\<lambda>_. True) h" and client: "live_options client (fst (snd mode))" and S: "service_assertions \<subseteq> S"
    and pre: "preflight_kept (lm_id model) K preflight"
  shows "tested S (integrated_round F R client mode model preflight stream h) (steady F client K (\<lambda>_. True))"
proof -
  let ?E = "\<lambda>_. True" and ?ct = "at_site R (Receiving_Again stream)"
  have in_S: "Status_Success \<in> S" "Gateway_Signed \<in> S" using S by (auto simp: service_assertions_def)
  have given: "tested S (then_do (attempt (assert_that Receipt_Algo (si_algo (cs_signer (vc_signature v)) = fst (snd mode)))) (\<lambda>_.
      then_do (attempt (assert_that Gateway_Signed (lm_provider model = ''near'' \<or> signature_kind v = Gateway))) (\<lambda>_.
      then_do (in_time ?ct (running (client_verify_response F client ?ct i h'))) (\<lambda>(cached, h).
      then_do (attempt (assert_that Receipt_Kept (cs_signature (vc_signature cached) = cs_signature (vc_signature v)))) (\<lambda>_.
      then_do (session_checks F R client model preflight stream h) (\<lambda>h.
      then_do (println (t v)) (\<lambda>_. attempt (Inr h)))))))) (steady F client K ?E)"
    if "steady F client K ?E h' \<and> receipt_given F client i v h'" for v i t and h' :: "('c, 'o, 'z) history"
  proof -
    have again: "tested S (in_time ?ct (running (client_verify_response F client ?ct i h'))) (\<lambda>(again, h'). again = v \<and> steady F client K ?E h')"
      by (rule receipt_again_tested [OF _ _ client]) (use that in simp_all)
    have checks: "tested S (then_do (session_checks F R client model preflight stream h'') (\<lambda>h.
        then_do (println (t v)) (\<lambda>_. attempt (Inr h)))) (steady F client K ?E)"
      if "steady F client K ?E h''" for h'' :: "('c, 'o, 'z) history"
      by (rule tested_then [OF session_checks_tested [OF that client S pre]])
        (auto intro!: tested_then [OF tested_println, of "\<lambda>_. True"] tested_return)
    show ?thesis
      using receipt_given_facts(2) [OF _ client] that in_S checks
      by (intro tested_then [OF tested_assert, of _ _ _ "\<lambda>_. True"] tested_then [OF again])
        (auto intro!: tested_then [OF tested_assert, of _ _ _ "\<lambda>_. True"])
  qed
  have receipt: "tested S (verify_receipt_with_retry F client calls i h')
      (\<lambda>(v, h'). steady F client K ?E h' \<and> receipt_given F client i v h')"
    if "steady F client K ?E h'" for calls i and h' :: "('c, 'o, 'z) history"
    unfolding verify_receipt_with_retry_def by (rule receipt_attempts_tested [OF that]) simp
  obtain e2ee algo ohttp where mode: "mode = (e2ee, algo, ohttp)" using prod_cases3 by blast
  show ?thesis
    unfolding integrated_round_def Let_def mode prod.case
    by (rule tested_then [OF integrated_chat_tested [OF h client in_S(1)]], clarify,
        rule tested_then [OF tested_attempt, of _ _ "\<lambda>_. True"], rule read_completion_id_asserts [OF S], rule TrueI,
        rule tested_then [OF receipt], assumption, clarify, rule given [unfolded mode fst_conv snd_conv], simp)
qed

lemma integrated_verify_chat_tested:
  fixes R :: "('c, 'o, 'z) ohttp_prims_scheme live_client_run"
  assumes S: "service_assertions \<subseteq> S"
  shows "tested S (integrated_verify_chat F R env mode model) (\<lambda>_. True)"
proof -
  obtain e2ee algo ohttp where mode: "mode = (e2ee, algo, ohttp)" using prod_cases3 by blast
  let ?E = "\<lambda>_. True"
  have rounds: "tested S (then_do (integrated_round F R client mode model preflight False h) (\<lambda>h.
      if lm_provider model = ''chutes'' then attempt (Inr ())
      else then_do (integrated_round F R client mode model preflight True h) (\<lambda>_. attempt (Inr ())))) (\<lambda>_. True)"
    if client: "live_options client algo" and h: "steady F client K ?E h" "preflight_kept (lm_id model) K preflight"
    for client K preflight and h :: "('c, 'o, 'z) history"
  proof -
    have round': "tested S (integrated_round F R client mode model preflight stream h) (steady F client K ?E)"
      if "steady F client K ?E h" for stream and h :: "('c, 'o, 'z) history"
      by (rule integrated_round_tested [OF that _ S h(2)]) (simp add: mode client)
    show ?thesis
      by (rule tested_then [OF round' [OF h(1)]]) (auto intro: tested_then [OF round'] tested_return)
  qed
  have preflight: "tested S (if e2ee then attempt (Inr (None, []))
      else in_time (at_site R Preflight)
        (then_do (running (client_verify F client verify_attestation (at_site R Preflight) (lm_id model) [])) (\<lambda>(v, h).
         attempt (Inr (Some v, h))))) (\<lambda>(preflight, h). \<exists>K. steady F client K ?E h \<and> preflight_kept (lm_id model) K preflight)"
    if "live_options client algo" for client
  proof (cases e2ee)
    case True
    have "steady F client {} ?E ([] :: ('c, 'o, 'z) history)" by (rule steady_fresh)
    then show ?thesis using True by (auto intro!: tested_return simp: preflight_kept_def)
  next
    case False
    have "tested S (in_time (at_site R Preflight)
        (then_do (running (client_verify F client verify_attestation (at_site R Preflight) (lm_id model) [])) (\<lambda>(v, h).
         attempt (Inr (Some v, h))))) (\<lambda>(preflight, h). \<exists>K. steady F client K ?E h \<and> preflight_kept (lm_id model) K preflight)"
      by (rule tested_in_time, rule tested_then [OF verify_tested [OF steady_fresh _ that]])
        (auto intro!: tested_return simp: preflight_kept_def)
    then show ?thesis using False by simp
  qed
  show ?thesis
    unfolding integrated_verify_chat_def mode Let_def prod.case
    by (rule tested_then [OF tested_attempt [OF live_client_asserts], of _ _ _ _ _ "\<lambda>client. live_options client algo"],
        erule live_client_options, rule tested_then [OF preflight], assumption, clarify, rule rounds [unfolded mode], assumption+)
qed

lemma integrated_verify_models_tested:
  assumes S: "service_assertions \<subseteq> S"
  shows "fails_only S (integrated_verify_models F L turns env mode)"
proof -
  have "Near_Models \<in> S" using S by (auto simp: service_assertions_def)
  moreover obtain e2ee algo ohttp where mode: "mode = (e2ee, algo, ohttp)" using prod_cases3 by blast
  ultimately show ?thesis
    unfolding integrated_verify_models_def fails_only_def mode prod.case Let_def
    by (intro tested_then [OF tested_attempt, of _ _ "\<lambda>_. True"] live_models_asserts S tested_each tested_within
        tested_then [OF tested_println, of "\<lambda>_. True"] integrated_verify_chat_tested) (auto intro!: asserts_only_rbind)
qed

end
