(* ===== verification/Live_Endpoints.thy ===== *)
theory Live_Endpoints
  imports Live_Calls
begin

text \<open>
  \<open>src/rs/e2e/messages.rs\<close> and \<open>responses.rs\<close>: the live tests of the two endpoints whose answers the Gateway alone signs.
\<close>

section \<open>Messages\<close>

definition stream_values :: "'z prims_scheme \<Rightarrow> bytes \<Rightarrow> json list example" where
  "stream_values P bytes =
     rbind (sse_data bytes) (\<lambda>events'.
     traverse (\<lambda>event'. ok_or Not_Json (json_parse P (as_bytes event'))) (filter (\<lambda>event'. event' \<noteq> ''[DONE]'') events'))"

definition of_type :: "string \<Rightarrow> json \<Rightarrow> bool" where
  "of_type name event' \<longleftrightarrow> jindex event' ''type'' = JStr name"

definition streamed_message :: "json list \<Rightarrow> (string \<times> string) live" where
  "streamed_message events' =
     rbind (got (ok_or (Message ''missing message_start'') (List.find (of_type ''message_start'') events'))) (\<lambda>start.
     rbind (got (ok_or (Message ''missing message ID'') (as_str (jindex (jindex start ''message'') ''id'')))) (\<lambda>i.
     rbind (assert_that Answer_Complete (list_ex (of_type ''message_stop'') events')) (\<lambda>_.
     rbind (assert_that Answer_Complete (list_ex (\<lambda>event'. of_type ''message_delta'' event'
              \<and> jindex (jindex event' ''delta'') ''stop_reason'' = JStr ''end_turn'') events')) (\<lambda>_.
     Inr (i, concat (List.map_filter (\<lambda>event'. as_str (jindex (jindex event' ''delta'') ''text''))
       (filter (\<lambda>event'. of_type ''content_block_delta'' event' \<and> of_type ''text_delta'' (jindex event' ''delta'')) events')))))))"

definition whole_message :: "json \<Rightarrow> (string \<times> string) live" where
  "whole_message message =
     rbind (assert_that Answer_Type (of_type ''message'' message)) (\<lambda>_.
     rbind (assert_that Answer_Complete (jindex message ''stop_reason'' = JStr ''end_turn'')) (\<lambda>_.
     rbind (got (ok_or (Message ''missing message ID'') (as_str (jindex message ''id'')))) (\<lambda>i.
     rbind (got (ok_or (Message ''missing content'') (as_array (jindex message ''content'')))) (\<lambda>blocks.
     Inr (i, block_texts (filter (of_type ''text'') blocks))))))"

definition live_message_body :: "string \<Rightarrow> bool \<Rightarrow> json" where
  "live_message_body model stream = JObj [(''max_tokens'', JNum ''128''),
     (''messages'', JArr [JObj [(''content'', JStr ''Reply with the word OK.''), (''role'', JStr ''user'')]]),
     (''model'', JStr model), (''stream'', JBool stream)]"

definition live_message ::
  "'f float_ops \<Rightarrow> ('c, 'o, 'z) ohttp_prims_scheme live_client_run \<Rightarrow> client_options \<times> bool \<Rightarrow> string \<Rightarrow> bool
     \<Rightarrow> ('c, 'o, 'z) history \<Rightarrow> ((string \<times> string) \<times> ('c, 'o, 'z) history) live_test" where
  "live_message F R client model stream h =
     (let ct = at_site R (Chatting stream); body = live_message_body model stream;
          request = message_request (ct_net ct) (fst client) body in
      in_time ct
        (if stream then
           then_do (live_streamed F client ct request h) (\<lambda>(bytes, h).
           then_do (attempt (rbind (got (stream_values (lc_lib R) bytes)) streamed_message)) (\<lambda>answer.
           attempt (Inr (answer, h))))
         else
           then_do (running (client_json F client ct ''use send for streaming Messages'' request body h)) (\<lambda>(message, h).
           then_do (attempt (whole_message message)) (\<lambda>answer.
           attempt (Inr (answer, h))))))"

text \<open>The receipt of an answer of one of the Gateway's own endpoints.\<close>

definition gateway_receipt ::
  "'f float_ops \<Rightarrow> ('c, 'o, 'z) ohttp_prims_scheme live_client_run \<Rightarrow> client_options \<times> bool \<Rightarrow> signing_algo \<Rightarrow> bool \<Rightarrow> string
     \<Rightarrow> ('c, 'o, 'z) history \<Rightarrow> ('c, 'o, 'z) history live_test" where
  "gateway_receipt F R client algo stream i h =
     then_do (within_limit (lc_receipt_cut R stream)
       (verify_receipt_with_retry F client (\<lambda>k. at_site R (Receiving stream k)) i h)) (\<lambda>(receipt, h).
     then_do (attempt (assert_that Receipt_Id (vc_id receipt = i))) (\<lambda>_.
     then_do (attempt (assert_that Receipt_Algo (si_algo (cs_signer (vc_signature receipt)) = algo))) (\<lambda>_.
     then_do (attempt (assert_that Receipt_By_Gateway (signature_kind receipt = Gateway))) (\<lambda>_.
     attempt (Inr h)))))"

definition messages_round ::
  "'f float_ops \<Rightarrow> ('c, 'o, 'z) ohttp_prims_scheme live_client_run \<Rightarrow> client_options \<times> bool \<Rightarrow> signing_algo \<times> bool \<Rightarrow> string
     \<Rightarrow> bool \<Rightarrow> ('c, 'o, 'z) history \<Rightarrow> ('c, 'o, 'z) history live_test" where
  "messages_round F R client mode model stream h =
     then_do (live_message F R client model stream h) (\<lambda>((i, text'), h).
     then_do (attempt (assert_that Answer_Given (i \<noteq> [] \<and> trim text' \<noteq> []))) (\<lambda>_.
     then_do (gateway_receipt F R client (fst mode) stream i h) (\<lambda>h.
     then_do (println (''Messages model='' @ model @ '', stream='' @ show_bool stream @ '', signing_algo='' @ signing_algo_name (fst mode)
                @ '', ohttp='' @ show_bool (snd mode) @ '': verified Gateway receipt'')) (\<lambda>_.
     attempt (Inr h)))))"

definition verify_messages ::
  "'f float_ops \<Rightarrow> ('c, 'o, 'z) ohttp_prims_scheme live_client_run \<Rightarrow> environment \<Rightarrow> string \<Rightarrow> signing_algo \<times> bool
     \<Rightarrow> unit live_test" where
  "verify_messages F R env model mode =
     then_do (attempt (live_client (lc_lib R) env False (fst mode) (snd mode))) (\<lambda>client.
     then_do (messages_round F R client mode model False []) (\<lambda>h.
     then_do (messages_round F R client mode model True h) (\<lambda>_. attempt (Inr ()))))"

definition tested_modes :: "(signing_algo \<times> bool) list" where
  "tested_modes = [(Ed25519, False), (Ecdsa, False), (Ed25519, True)]"

definition verified_messages_json_and_sse ::
  "'f float_ops \<Rightarrow> 'y net_prims_scheme \<Rightarrow> (nat \<Rightarrow> ('c, 'o, 'z) ohttp_prims_scheme live_client_run) \<Rightarrow> environment
     \<Rightarrow> unit live_test" where
  "verified_messages_json_and_sse F L turns env =
     then_do (attempt (rbind (required_env env ''NEARAI_E2E_MODELS'') (\<lambda>d. select_models L d ''messages''))) (\<lambda>models.
     then_do (attempt (assert_that Single_Model (length models = 1))) (\<lambda>_.
     each_in_turn (\<lambda>n mode. within_limit (lc_cut (turns n)) (verify_messages F (turns n) env (lm_id (models ! 0)) mode))
       0 tested_modes))"

section \<open>Responses\<close>

definition live_response_body :: "string \<Rightarrow> bool \<Rightarrow> json" where
  "live_response_body model stream = JObj [(''input'', JStr ''Reply with the word OK.''), (''max_output_tokens'', JNum ''1024''),
     (''model'', JStr model), (''store'', JBool False), (''stream'', JBool stream)]"

definition streamed_response :: "json list \<Rightarrow> json live" where
  "streamed_response events' =
     rbind (got (ok_or (Message ''missing response.created'') (List.find (of_type ''response.created'') events'))) (\<lambda>created.
     rbind (got (ok_or (Message ''missing response.completed'') (List.find (of_type ''response.completed'') events'))) (\<lambda>completed.
     rbind (assert_that Same_Response
              (jindex (jindex created ''response'') ''id'' = jindex (jindex completed ''response'') ''id'')) (\<lambda>_.
     Inr (jindex completed ''response''))))"

definition response_id :: "json \<Rightarrow> string live" where
  "response_id result =
     rbind (assert_that Answer_Complete (jindex result ''status'' = JStr ''completed'')) (\<lambda>_.
     rbind (got (ok_or (Message ''missing output'') (as_array (jindex result ''output'')))) (\<lambda>output.
     rbind (assert_that Answer_Given (output \<noteq> [])) (\<lambda>_.
     got (ok_or (Message ''missing response ID'') (as_str (jindex result ''id''))))))"

definition live_response ::
  "'f float_ops \<Rightarrow> ('c, 'o, 'z) ohttp_prims_scheme live_client_run \<Rightarrow> client_options \<times> bool \<Rightarrow> string \<Rightarrow> bool
     \<Rightarrow> ('c, 'o, 'z) history \<Rightarrow> (json \<times> ('c, 'o, 'z) history) live_test" where
  "live_response F R client model stream h =
     (let ct = at_site R (Chatting stream); body = live_response_body model stream;
          request = response_request (ct_net ct) (fst client) body in
      in_time ct
        (if stream then
           then_do (live_streamed F client ct request h) (\<lambda>(bytes, h).
           then_do (attempt (rbind (got (stream_values (lc_lib R) bytes)) streamed_response)) (\<lambda>result.
           attempt (Inr (result, h))))
         else running (client_json F client ct ''use send for streaming Responses'' request body h)))"

definition responses_round ::
  "'f float_ops \<Rightarrow> ('c, 'o, 'z) ohttp_prims_scheme live_client_run \<Rightarrow> client_options \<times> bool \<Rightarrow> signing_algo \<times> bool \<Rightarrow> string
     \<Rightarrow> bool \<Rightarrow> ('c, 'o, 'z) history \<Rightarrow> ('c, 'o, 'z) history live_test" where
  "responses_round F R client mode model stream h =
     then_do (live_response F R client model stream h) (\<lambda>(result, h).
     then_do (attempt (response_id result)) (\<lambda>i.
     then_do (gateway_receipt F R client (fst mode) stream i h) (\<lambda>h.
     then_do (println (''Responses model='' @ model @ '', stream='' @ show_bool stream @ '', ohttp='' @ show_bool (snd mode)
                @ '': verified Gateway receipt'')) (\<lambda>_.
     attempt (Inr h)))))"

definition verify_responses ::
  "'f float_ops \<Rightarrow> ('c, 'o, 'z) ohttp_prims_scheme live_client_run \<Rightarrow> environment \<Rightarrow> string \<Rightarrow> signing_algo \<times> bool
     \<Rightarrow> unit live_test" where
  "verify_responses F R env model mode =
     then_do (attempt (live_client (lc_lib R) env False (fst mode) (snd mode))) (\<lambda>client.
     then_do (responses_round F R client mode model False []) (\<lambda>h.
     then_do (responses_round F R client mode model True h) (\<lambda>_. attempt (Inr ()))))"

definition verified_responses_json_and_sse ::
  "'f float_ops \<Rightarrow> 'y net_prims_scheme \<Rightarrow> (nat \<Rightarrow> nat \<Rightarrow> ('c, 'o, 'z) ohttp_prims_scheme live_client_run) \<Rightarrow> environment
     \<Rightarrow> unit live_test" where
  "verified_responses_json_and_sse F L turns env =
     then_do (attempt (rbind (required_env env ''NEARAI_E2E_MODELS'') (\<lambda>d. select_models L d ''responses''))) (\<lambda>models.
     then_do (attempt (assert_that Two_Models (length models = 2))) (\<lambda>_.
     each_in_turn (\<lambda>m model.
       each_in_turn (\<lambda>n mode. within_limit (lc_cut (turns m n)) (verify_responses F (turns m n) env (lm_id model) mode))
         0 tested_modes) 0 models))"

section \<open>What they can find\<close>

lemma at_site_urls: "same_urls (lc_lib R) (ct_net (at_site R site))"
  by (simp add: same_urls_def at_site_def)

text \<open>What a test of these endpoints does to its client, and no more.\<close>

abbreviation gateway_run ::
  "('c, 'o, 'z) ohttp_prims_scheme live_client_run \<Rightarrow> client_options \<times> bool \<Rightarrow> ('c, 'o, 'z) ohttp_prims_scheme client_event \<Rightarrow> bool" where
  "gateway_run R client \<equiv> gateway_event (lc_lib R) (fst client)"

lemma gateway_run_passive: "passive_ok (gateway_event L options)"
  by (auto simp: passive_ok_def gateway_event_def split: client_event.splits)

lemma gateway_run_allows:
  assumes "json_request (ct_net (at_site R site)) (fst client) path body = Inr request" and "path \<in> {''responses'', ''messages''}"
  shows "allows (gateway_run R client) (at_site R site) (Sending request)"
  using assms at_site_urls [of R site] gateway_run_passive
  by (auto simp: allows_def gateway_event_def)

lemma gateway_receipt_tested:
  fixes h :: "('c, 'o, 'z) history" and R :: "('c, 'o, 'z) ohttp_prims_scheme live_client_run"
  assumes h: "steady F client K (gateway_run R client) h" and client: "live_options client algo"
    and S: "\<not> path_queried (lc_lib R) \<or> Receipt_By_Gateway \<in> S"
  shows "tested S (gateway_receipt F R client algo stream i h) (steady F client K (gateway_run R client))"
proof -
  have receipt: "tested S (within_limit (lc_receipt_cut R stream) (verify_receipt_with_retry F client calls i h))
      (\<lambda>(v, h'). steady F client K (gateway_run R client) h' \<and> receipt_given F client i v h')" for calls
    unfolding verify_receipt_with_retry_def by (rule tested_within [OF receipt_attempts_tested [OF h gateway_run_passive]])
  have checks: "tested S (then_do (attempt (assert_that Receipt_Id (vc_id v = i))) (\<lambda>_.
      then_do (attempt (assert_that Receipt_Algo (si_algo (cs_signer (vc_signature v)) = algo))) (\<lambda>_.
      then_do (attempt (assert_that Receipt_By_Gateway (signature_kind v = Gateway))) (\<lambda>_.
      attempt (Inr h'))))) (steady F client K (gateway_run R client))"
    if "steady F client K (gateway_run R client) h' \<and> receipt_given F client i v h'" for v and h' :: "('c, 'o, 'z) history"
  proof -
    note facts = receipt_given_facts [OF conjunct2 [OF that] client]
    have "\<forall>e \<in> set h'. gateway_run R client e" using that by (simp add: steady_def)
    with traced_by_gateway [OF facts(3)] S have "signature_kind v = Gateway \<or> Receipt_By_Gateway \<in> S" by blast
    with facts(1,2) that show ?thesis
      by (intro tested_then [OF tested_assert, of _ _ _ "\<lambda>_. True"] tested_return) simp_all
  qed
  show ?thesis unfolding gateway_receipt_def by (rule tested_then [OF receipt], clarify, rule checks, simp)
qed

lemma stream_asserts:
  assumes "service_assertions \<subseteq> S"
  shows "asserts_only S (streamed_message es)" "asserts_only S (whole_message j)" "asserts_only S (streamed_response es)"
    "asserts_only S (response_id j)"
  using assms unfolding streamed_message_def whole_message_def streamed_response_def response_id_def service_assertions_def
  by (auto intro!: asserts_only_rbind)

lemma live_message_tested:
  fixes h :: "('c, 'o, 'z) history" and R :: "('c, 'o, 'z) ohttp_prims_scheme live_client_run"
  assumes h: "steady F client K (gateway_run R client) h" and client: "live_options client algo" and S: "service_assertions \<subseteq> S"
  shows "tested S (live_message F R client model stream h) (\<lambda>(a, h'). steady F client K (gateway_run R client) h')"
proof -
  have "Status_Success \<in> S" using S by (auto simp: service_assertions_def)
  moreover have "allows (gateway_run R client) (at_site R site) (Sending request)"
    if "message_request (ct_net (at_site R site)) (fst client) body = Inr request" for site body request
    using that gateway_run_allows unfolding message_request_def by blast
  moreover have "asserts_only S (rbind (got m) streamed_message)" for m by (rule asserts_only_rbind) (simp_all add: stream_asserts S)
  ultimately show ?thesis
    unfolding live_message_def Let_def
    by (cases stream)
      (auto intro!: tested_in_time tested_then [OF streamed_tested [OF h client]] tested_then [OF json_tested [OF h client]]
        tested_then [OF tested_attempt, of _ _ "\<lambda>_. True"] tested_return stream_asserts S)
qed

lemma live_response_tested:
  fixes h :: "('c, 'o, 'z) history" and R :: "('c, 'o, 'z) ohttp_prims_scheme live_client_run"
  assumes h: "steady F client K (gateway_run R client) h" and client: "live_options client algo" and S: "service_assertions \<subseteq> S"
  shows "tested S (live_response F R client model stream h) (\<lambda>(a, h'). steady F client K (gateway_run R client) h')"
proof -
  have "Status_Success \<in> S" using S by (auto simp: service_assertions_def)
  moreover have "allows (gateway_run R client) (at_site R site) (Sending request)"
    if "response_request (ct_net (at_site R site)) (fst client) body = Inr request" for site body request
    using that gateway_run_allows unfolding response_request_def by blast
  moreover have "asserts_only S (rbind (got m) streamed_response)" for m by (rule asserts_only_rbind) (simp_all add: stream_asserts S)
  ultimately show ?thesis
    unfolding live_response_def Let_def
    by (cases stream)
      (auto intro!: tested_in_time tested_then [OF streamed_tested [OF h client]] json_tested [OF h client]
        tested_then [OF tested_attempt, of _ _ "\<lambda>_. True"] tested_return)
qed

lemma gateway_rounds_tested:
  fixes h :: "('c, 'o, 'z) history" and R :: "('c, 'o, 'z) ohttp_prims_scheme live_client_run"
  assumes h: "steady F client K (gateway_run R client) h" and client: "live_options client (fst mode)" and S: "service_assertions \<subseteq> S"
    and by_gateway: "\<not> path_queried (lc_lib R) \<or> Receipt_By_Gateway \<in> S"
  shows "tested S (messages_round F R client mode model stream h) (steady F client K (gateway_run R client))"
    and "tested S (responses_round F R client mode model stream h) (steady F client K (gateway_run R client))"
proof -
  have "Answer_Given \<in> S" using S by (auto simp: service_assertions_def)
  note receipt = gateway_receipt_tested [OF _ client by_gateway]
  note answers = live_message_tested [OF h client S] live_response_tested [OF h client S]
  show "tested S (messages_round F R client mode model stream h) (steady F client K (gateway_run R client))"
    unfolding messages_round_def
    by (rule tested_then [OF answers(1)])
      (use \<open>Answer_Given \<in> S\<close> in \<open>auto intro!: tested_then [OF tested_assert, of _ _ _ "\<lambda>_. True"] tested_then [OF receipt]
        tested_then [OF tested_println, of "\<lambda>_. True"] tested_return\<close>)
  show "tested S (responses_round F R client mode model stream h) (steady F client K (gateway_run R client))"
    unfolding responses_round_def
    by (rule tested_then [OF answers(2)])
      (auto intro!: tested_then [OF tested_attempt, of _ _ "\<lambda>_. True"] stream_asserts S tested_then [OF receipt]
        tested_then [OF tested_println, of "\<lambda>_. True"] tested_return)
qed

lemma gateway_endpoint_tests:
  fixes R :: "('c, 'o, 'z) ohttp_prims_scheme live_client_run"
  assumes "service_assertions \<subseteq> S" and "\<not> path_queried (lc_lib R) \<or> Receipt_By_Gateway \<in> S"
  shows "tested S (verify_messages F R env model mode) (\<lambda>_. True)" and "tested S (verify_responses F R env model mode) (\<lambda>_. True)"
proof -
  have fresh: "steady F client {} (gateway_run R client) []" for client by (rule steady_fresh)
  note client = tested_attempt [OF live_client_asserts, where Q = "\<lambda>client. live_options client (fst mode)"]
  note rounds = gateway_rounds_tested [OF _ _ assms]
  show "tested S (verify_messages F R env model mode) (\<lambda>_. True)"
    unfolding verify_messages_def
    by (rule tested_then [OF client], erule live_client_options, rule tested_then [OF rounds(1) [OF fresh]], assumption,
        rule tested_then [OF rounds(1)], assumption, assumption) (rule tested_return, simp)
  show "tested S (verify_responses F R env model mode) (\<lambda>_. True)"
    unfolding verify_responses_def
    by (rule tested_then [OF client], erule live_client_options, rule tested_then [OF rounds(2) [OF fresh]], assumption,
        rule tested_then [OF rounds(2)], assumption, assumption) (rule tested_return, simp)
qed

lemma messages_and_responses_fail_only:
  assumes S: "service_assertions \<subseteq> S"
  shows "(\<And>n. \<not> path_queried (lc_lib (turns n)) \<or> Receipt_By_Gateway \<in> S) \<Longrightarrow> fails_only S (verified_messages_json_and_sse F L turns env)"
    and "(\<And>m n. \<not> path_queried (lc_lib (turns' m n)) \<or> Receipt_By_Gateway \<in> S) \<Longrightarrow>
      fails_only S (verified_responses_json_and_sse F L turns' env)"
proof -
  have "{Single_Model, Two_Models} \<subseteq> S" using S by (auto simp: service_assertions_def)
  then show "(\<And>n. \<not> path_queried (lc_lib (turns n)) \<or> Receipt_By_Gateway \<in> S) \<Longrightarrow> fails_only S (verified_messages_json_and_sse F L turns env)"
    "(\<And>m n. \<not> path_queried (lc_lib (turns' m n)) \<or> Receipt_By_Gateway \<in> S) \<Longrightarrow>
      fails_only S (verified_responses_json_and_sse F L turns' env)"
    unfolding verified_messages_json_and_sse_def verified_responses_json_and_sse_def fails_only_def
    by (auto intro!: tested_then [OF tested_attempt, of _ _ "\<lambda>_. True"] live_models_asserts S tested_each tested_within
        gateway_endpoint_tests)
qed

end
