(* ===== verification/Live_Clients.thy ===== *)
theory Live_Clients
  imports Live_Chat Live_Endpoints
begin

text \<open>
  \<open>src/rs/e2e/systemone.rs\<close>, the first test, and what all live tests of the integrated client show.
\<close>

section \<open>System One\<close>

text \<open>The loop of this test, written out in it: the first call, then the delays.\<close>

fun receipt_delays ::
  "'f float_ops \<Rightarrow> client_options \<times> bool \<Rightarrow> (nat \<Rightarrow> ('c, 'o, 'z) ohttp_prims_scheme circumstances) \<Rightarrow> nat \<Rightarrow> nat list \<Rightarrow> string
     \<Rightarrow> ('c, 'o, 'z) history \<Rightarrow> (verified_completion \<times> ('c, 'o, 'z) history) live_test" where
  "receipt_delays F client calls k [] i h =
     Option.bind (receipt_outcome F client h) (\<lambda>receipt. running (attempt (rbind (boxed_inf receipt) (\<lambda>v. Inr (v, h)))))"
| "receipt_delays F client calls k (ms # delays) i h =
     Option.bind (receipt_outcome F client h) (\<lambda>receipt.
       if \<not> receipt_retryable receipt then running (attempt (rbind (boxed_inf receipt) (\<lambda>v. Inr (v, h))))
       else in_time (calls k) (receipt_delays F client calls (k + 1) delays i (response_steps F client (calls k) i h)))"

text \<open>Indexing a map panics when the key is missing.\<close>

definition answer_at :: "'f systemone_response \<Rightarrow> string \<Rightarrow> 'f systemone_answer live" where
  "answer_at r name = ok_or (Failed Answer_Present) (map_of (sr_answers r) name)"

definition decision_checks :: "signing_algo \<Rightarrow> 'f systemone_result \<Rightarrow> verified_completion \<Rightarrow> unit live" where
  "decision_checks algo result receipt =
     (let answers = answer_at (so_data result) in
      rbind (assert_that Receipt_Id (vc_id receipt = so_decision_id result)) (\<lambda>_.
      rbind (assert_that Model_Named (sr_model (so_data result) \<noteq> [])) (\<lambda>_.
      rbind (assert_that Tokens_Counted (0 < us_input_tokens (sr_usage (so_data result)))) (\<lambda>_.
      rbind (answers ''team'') (\<lambda>team.
      rbind (case team of
               Choice choice _ _ _ \<Rightarrow> assert_that Known_Choice (choice \<in> {''billing'', ''support''})
             | _ \<Rightarrow> Inr ()) (\<lambda>_.
      rbind (assert_that Gateway_Signed (signature_kind receipt = Gateway)) (\<lambda>_.
      rbind (assert_that Receipt_Algo (si_algo (cs_signer (vc_signature receipt)) = algo)) (\<lambda>_.
      rbind (case vc_attestation receipt of
               Att_Gateway g \<Rightarrow> assert_that Tls_Attested (has_attested_tls g)
             | _ \<Rightarrow> fail (Failed Attested_By_Gateway)) (\<lambda>_.
      rbind (answers ''billing'') (\<lambda>billing.
      rbind (assert_that Answer_Kinds (case billing of Noul _ _ \<Rightarrow> True | _ \<Rightarrow> False)) (\<lambda>_.
      rbind (assert_that Answer_Kinds (case team of Choice _ _ _ _ \<Rightarrow> True | _ \<Rightarrow> False)) (\<lambda>_.
      rbind (answers ''urgency'') (\<lambda>urgency.
      assert_that Answer_Kinds (case urgency of Score _ _ _ _ _ \<Rightarrow> True | _ \<Rightarrow> False))))))))))))))"

definition live_decision_test ::
  "'f float_ops \<Rightarrow> ('c, 'o, 'z) ohttp_prims_scheme live_client_run \<Rightarrow> environment \<Rightarrow> live_model list \<Rightarrow> signing_algo
     \<Rightarrow> unit live_test" where
  "live_decision_test F R env models algo =
     (let ct = at_site R (Chatting False); calls = (\<lambda>k. at_site R (Receiving False k)) in
      then_do (attempt (live_client (lc_lib R) env False algo False)) (\<lambda>client.
      then_do (attempt (got (index_at models 0))) (\<lambda>model.
      then_do (in_time ct (running (client_decide F client ct
                (Some (as_bytes (json_print (ct_net ct) (live_decision (lm_id model))))) []))) (\<lambda>(result, h).
      then_do (in_time (calls 0) (receipt_delays F client calls 1 backoffs (so_decision_id result)
                (response_steps F client (calls 0) (so_decision_id result) h))) (\<lambda>(receipt, h).
      then_do (attempt (decision_checks algo result receipt)) (\<lambda>_.
      println (signing_algo_name algo @ '': verified System One Gateway receipt'')))))))"

definition verified_systemone_decisions ::
  "'f float_ops \<Rightarrow> 'y net_prims_scheme \<Rightarrow> (nat \<Rightarrow> ('c, 'o, 'z) ohttp_prims_scheme live_client_run) \<Rightarrow> environment
     \<Rightarrow> unit live_test" where
  "verified_systemone_decisions F L turns env =
     then_do (attempt (rbind (required_env env ''NEARAI_E2E_MODELS'') (\<lambda>d. select_models L d ''systemone''))) (\<lambda>models.
     each_in_turn (\<lambda>n algo. within_limit (lc_cut (turns n)) (live_decision_test F (turns n) env models algo)) 0 [Ed25519, Ecdsa])"

text \<open>The loop of the test of System One is the one of the other tests.\<close>

lemma receipt_delays_attempts:
  "in_time (calls k) (receipt_delays F client calls (k + 1) delays i (response_steps F client (calls k) i h)) =
     receipt_attempts F client calls k delays i h"
proof (induction delays arbitrary: k h)
  case Nil
  have "client_verify_response F client (calls k) i h \<noteq> None" using client_verify_response_returns [of F client "calls k" i h] by auto
  then show ?case
    by (cases "receipt_outcome F client (response_steps F client (calls k) i h)")
      (simp_all add: client_verify_response_def Let_def)
next
  case (Cons d delays)
  obtain result where "receipt_outcome F client (response_steps F client (calls k) i h) = Some result"
    using receipt_outcome_some by blast
  with Cons.IH [of "k + 1" "response_steps F client (calls k) i h"] show ?case by (simp add: Let_def)
qed

section \<open>What the test can find\<close>

text \<open>A decision that was returned names its model.\<close>

lemma client_decide_names_model:
  assumes "client_decide F client ct body h = Some (out, Inr (result, h'))"
  shows "sr_model (so_data result) \<noteq> []"
proof (rule client_exchange_ends [of F client ct "Deciding body []" h])
  let ?h = "client_exchange F client ct (Deciding body []) h"
  fix cs c
  assume calls: "cl_calls (client_at F client ?h) = cs @ [c]"
    and "\<And>body' h'. Deciding body [] = Deciding body' h' \<Longrightarrow>
      (\<exists>f. c = Call_Failed f) \<or> (\<exists>g i captured decoded. c = Call_Decision g i captured decoded)"
  then consider f where "c = Call_Failed f" | g i captured decoded where "c = Call_Decision g i captured decoded" by blast
  then show ?thesis
  proof cases
    case 1
    with calls assms show ?thesis by (simp add: client_decide_def Let_def attempt_def boxed_inf_failed)
  next
    case (2 g i captured decoded)
    have "call_ok (fst client) (snd client) F ?h n c" if "n = length (sc_callers (cl_sessions (client_at F client ?h)))" for n
      using run_client_inv [of "fst client" "snd client" F ?h] calls that unfolding client_inv_def client_at_def by simp
    then have "decided (fst client) (snd client) F ?h i captured decoded" by (simp add: call_ok_def 2)
    then have "sr_model decoded \<noteq> []"
      unfolding decided_def by (auto simp: systemone_exchange_def systemone_reply_def outcome_simps decode_response_ok)
    moreover have "so_data result = decoded"
      using assms client_conclude_last [OF calls, of ct] calls 2
      by (auto simp: client_decide_def Let_def attempt_def conclude_def boxed_inf_failed split: sum.splits prod.splits)
    ultimately show ?thesis by simp
  qed
qed

lemma decide_tested:
  assumes "steady F client K (\<lambda>_. True) h" and "live_options client algo"
  shows "tested S (in_time ct (running (client_decide F client ct body h)))
     (\<lambda>(result, h'). steady F client K (\<lambda>_. True) h' \<and> sr_model (so_data result) \<noteq> [])"
proof (rule tested_in_time, rule tested_running [OF client_decide_returns])
  fix out a
  assume "ct_start ct < 180000" and run: "client_decide F client ct body h = Some (out, Inr a)"
  then have "steady F client K (\<lambda>_. True) (client_exchange F client ct (Deciding body []) h)"
    by (intro allowed_exchange [OF assms(1) _ assms(2)]) simp_all
  then show "case a of (result, h') \<Rightarrow> steady F client K (\<lambda>_. True) h' \<and> sr_model (so_data result) \<noteq> []"
    using run client_decide_names_model [of F client ct body h out] client_decide_history [of F client ct body h out]
    by (cases a) (auto simp: steady_conclude)
qed

text \<open>Who signed is who was attested.\<close>

lemma gateway_receipt_attested:
  assumes "receipt_given F client i v h" and "live_options client algo" and "signature_kind v = Gateway"
  obtains g where "vc_attestation v = Att_Gateway g" and "has_attested_tls g"
proof (cases "vc_attestation v")
  case (Att_Gateway g)
  from receipt_given_facts(3) [OF assms(1,2)] obtain P :: "('b, 'c, 'd) ohttp_prims_scheme" and nonce api x o'
    where "authenticate_gateway P (fst client) nonce = Inr (api, x, g, o')"
    unfolding receipt_traced_def using Att_Gateway by metis
  with assms(2) Att_Gateway show thesis by (intro that [of g]) (auto simp: live_options_def dest: authenticated_tls)
qed (use receipt_given_facts(3) [OF assms(1,2)] assms(3) in
    \<open>auto simp: receipt_traced_def receipt_for_def signature_kind_def signature_by_def\<close>)

lemma decision_checks_asserts:
  fixes result :: "'f systemone_result"
  assumes "receipt_given F client (so_decision_id result) v h" and "live_options client algo" and "sr_model (so_data result) \<noteq> []"
    and S: "service_assertions \<subseteq> S"
  shows "asserts_only S (decision_checks algo result v)"
proof -
  have in_S: "{Tokens_Counted, Known_Choice, Gateway_Signed, Answer_Kinds, Answer_Present} \<subseteq> S"
    using S by (auto simp: service_assertions_def)
  have answers: "asserts_only S (answer_at r name)" for r :: "'f systemone_response" and name
    using in_S by (auto simp: answer_at_def asserts_only_def ok_or_def split: option.split)
  have attested: "asserts_only S (case vc_attestation v of Att_Gateway g \<Rightarrow> assert_that Tls_Attested (has_attested_tls g)
      | _ \<Rightarrow> fail (Failed Attested_By_Gateway))" if "signature_kind v = Gateway"
    by (rule gateway_receipt_attested [OF assms(1,2) that]) simp
  show ?thesis
    unfolding decision_checks_def Let_def
    by (intro asserts_only_rbind answers)
      (use in_S receipt_given_facts [OF assms(1,2)] assms(3) attested in
        \<open>auto simp: assert_success split: systemone_answer.split\<close>)
qed

lemma verified_systemone_decisions_fail_only:
  fixes turns :: "nat \<Rightarrow> ('c, 'o, 'z) ohttp_prims_scheme live_client_run"
  assumes S: "service_assertions \<subseteq> S"
  shows "fails_only S (verified_systemone_decisions F L turns env)"
proof -
  have "tested S (live_decision_test F R env models algo) (\<lambda>_. True)" for R :: "('c, 'o, 'z) ohttp_prims_scheme live_client_run"
    and models algo
  proof -
    have receipt: "tested S (in_time (calls 0) (receipt_delays F client calls 1 backoffs i (response_steps F client (calls 0) i h)))
        (\<lambda>(v, h'). steady F client {} (\<lambda>_. True) h' \<and> receipt_given F client i v h')"
      if "steady F client {} (\<lambda>_. True) h" for client calls i and h :: "('c, 'o, 'z) history"
      using receipt_attempts_tested [OF that, of S calls 0 backoffs i] receipt_delays_attempts [of calls 0 F client backoffs i h]
      by simp
    have decided: "tested S (in_time ct (running (client_decide F client ct body ([] :: ('c, 'o, 'z) history))))
        (\<lambda>(result, h'). steady F client {} (\<lambda>_. True) h' \<and> sr_model (so_data result) \<noteq> [])"
      if "live_options client algo" for client ct body
      by (rule decide_tested [OF steady_fresh that])
    show ?thesis
      unfolding live_decision_test_def Let_def
      by (rule tested_then [OF tested_attempt [OF live_client_asserts, where Q = "\<lambda>client. live_options client algo"]],
          erule live_client_options, rule tested_then [OF tested_attempt, of _ _ "\<lambda>_. True"], simp, simp,
          rule tested_then [OF decided], assumption, clarify, rule tested_then [OF receipt [where calls = "\<lambda>k. at_site R (Receiving False k)"]], assumption, clarify,
          rule tested_then [OF tested_attempt, of _ _ "\<lambda>_. True"], rule decision_checks_asserts [OF _ _ _ S], assumption+,
          rule tested_println, rule TrueI)
  qed
  then show ?thesis
    unfolding verified_systemone_decisions_def fails_only_def
    by (intro tested_then [OF tested_attempt, of _ _ "\<lambda>_. True"] live_models_asserts S tested_each tested_within) simp_all
qed

section \<open>Property\<close>

text \<open>C38: The SDK never fails the live tests of its integrated client. Whatever the service answers and whenever the limits
  strike, the tests return, and an assertion that fails is one about the service. What the tests demand of the client always
  holds: a receipt has the id it was asked for and the client's algorithm, asking again returns the same signature, the
  Gateway's TLS key is attested, later verifications have the time of the first, a decision names its model, a receipt
  signed by the Gateway carries the Gateway's attestation, and Messages and Responses have receipts of the Gateway (unless the
  URL library puts a query into the URL of a plain path, which would make their requests Chat requests).\<close>

theorem client_tests_hold:
  "fails_only service_assertions (unencrypted_chat_receipts F L turns env)
   \<and> fails_only service_assertions (ed25519_e2ee_chat_receipts F L turns env)
   \<and> fails_only service_assertions (ecdsa_e2ee_chat_receipts F L turns env)
   \<and> fails_only service_assertions (ohttp_e2ee_chat_receipts F L turns env)
   \<and> fails_only service_assertions (verified_systemone_decisions F L turns env)
   \<and> fails_only (service_assertions \<union> (if \<exists>n. path_queried (lc_lib (turns n)) then {Receipt_By_Gateway} else {}))
       (verified_messages_json_and_sse F L turns env)
   \<and> fails_only (service_assertions \<union> (if \<exists>m n. path_queried (lc_lib (turns' m n)) then {Receipt_By_Gateway} else {}))
       (verified_responses_json_and_sse F L turns' env)"
  unfolding unencrypted_chat_receipts_def ed25519_e2ee_chat_receipts_def ecdsa_e2ee_chat_receipts_def ohttp_e2ee_chat_receipts_def
  by (intro conjI integrated_verify_models_tested verified_systemone_decisions_fail_only messages_and_responses_fail_only) auto

end
