(* ===== verification/Unit_Support.thy ===== *)
theory Unit_Support
  imports Direct
begin

text \<open>
  What the unit tests inside the source files of \<open>src/rs/src\<close> share. A test is a predicate: it
  holds when the test function returns, so a failing assertion, \<open>unwrap\<close> or \<open>unwrap_err\<close> makes it
  false. A \<open>json!\<close> literal is its value; the texts the tests parse and the crates they call are
  those of the environment, whose documented behaviour is stated here.
\<close>

named_theorems unit_tests \<open>the definitions of the tests and of what they assert\<close>

section \<open>Assertions\<close>

text \<open>\<open>unwrap()\<close> followed by assertions on the value, and \<open>unwrap_err()\<close> or \<open>matches!\<close> on the error.\<close>

definition unwraps :: "('a \<Rightarrow> bool) \<Rightarrow> ('e, 'a) outcome \<Rightarrow> bool" where
  "unwraps test r = (case r of Inr a \<Rightarrow> test a | Inl _ \<Rightarrow> False)"

definition fails_as :: "('e \<Rightarrow> bool) \<Rightarrow> ('e, 'a) outcome \<Rightarrow> bool" where
  "fails_as test r = (case r of Inl (Err e) \<Rightarrow> test e | _ \<Rightarrow> False)"

text \<open>\<open>is_err()\<close>\<close>

definition is_error :: "('e, 'a) outcome \<Rightarrow> bool" where
  "is_error r = fails_as (\<lambda>_. True) r"

text \<open>\<open>matches!(error, ApiError::InvalidResponse { path, .. } if path == expected)\<close>\<close>

fun invalid_at :: "string \<Rightarrow> api_error \<Rightarrow> bool" where
  "invalid_at expected (InvalidResponse path _ _) = (path = expected)"
| "invalid_at _ _ = False"

text \<open>\<open>text.repeat(n)\<close>\<close>

definition repeated :: "string \<Rightarrow> nat \<Rightarrow> string" where
  "repeated text n = concat (replicate n text)"

lemma unwraps_simps [simp]:
  "unwraps test (Inr a) = test a" "\<not> unwraps test (Inl f)"
  by (simp_all add: unwraps_def)

lemma fails_as_simps [simp]:
  "fails_as test (fail e) = test e" "\<not> fails_as test (panic m)" "\<not> fails_as test (Inr a)"
  by (simp_all add: fails_as_def)

lemma is_error_simps [simp]:
  "is_error (fail e)" "\<not> is_error (panic m)" "\<not> is_error (Inr a)"
  by (simp_all add: is_error_def)

lemma unwraps_rbind: "unwraps test (rbind r f) = unwraps (\<lambda>a. unwraps test (f a)) r"
  by (cases r) (simp_all add: unwraps_def)

lemma fails_as_rbind_Inr [simp]: "fails_as test (rbind (Inr a) f) = fails_as test (f a)"
  by simp

section \<open>The crates\<close>

text \<open>
  The \<open>hex\<close> crate reads pairs of digits in either case and writes them in lower case.
\<close>

definition standard_hex :: "'z prims_scheme \<Rightarrow> bool" where
  "standard_hex P \<longleftrightarrow> hex_decode P = demo_hex_decode \<and> hex_encode P = demo_hex_encode"

lemma repeated_simps: "repeated t 0 = []" "repeated t (Suc n) = t @ repeated t n"
  by (simp_all add: repeated_def)

lemma length_repeated [simp]: "length (repeated t n) = n * length t"
  by (induction n) (simp_all add: repeated_simps)

lemma demo_hex_repeated:
  assumes "nibble_val c = Some h" "nibble_val d = Some l"
  shows "demo_hex_decode (repeated [c, d] n) = Some (replicate n (of_nat (16 * h + l)))"
  using assms by (induction n) (simp_all add: repeated_simps)

lemma not_prefixed:
  assumes "nibble_val d = Some l"
  shows "strip_prefix ''0x'' (repeated [c, d] n) = None" "strip_prefix ''0X'' (repeated [c, d] n) = None"
proof -
  have "nibble_val (CHR ''x'') = None" "nibble_val (CHR ''X'') = None"
    by (simp_all add: nibble_val_def)
  with assms have "d \<noteq> CHR ''x''" "d \<noteq> CHR ''X''" by auto
  then show "strip_prefix ''0x'' (repeated [c, d] n) = None" "strip_prefix ''0X'' (repeated [c, d] n) = None"
    by (cases n; simp add: strip_prefix_def repeated_simps)+
qed

lemma decode_repeated:
  assumes "standard_hex P" "nibble_val c = Some h" "nibble_val d = Some l"
  shows "decode_hex P (repeated [c, d] n) = Some (replicate n (of_nat (16 * h + l)))"
  using assms by (simp add: decode_hex_def standard_hex_def demo_hex_repeated not_prefixed)

lemma required_repeated:
  assumes "standard_hex P" "nibble_val c = Some h" "nibble_val d = Some l"
  shows "require_hex_length P (repeated [c, d] n) m =
     (if n = m then Some (replicate n (of_nat (16 * h + l))) else None)"
  using assms by (simp add: require_hex_length_def decode_repeated)

lemma hex_texts:
  assumes "standard_hex P"
  shows "decode_hex P (repeated ''11'' n) = Some (replicate n 17)"
    and "decode_hex P (repeated ''22'' n) = Some (replicate n 34)"
    and "decode_hex P (repeated ''00'' n) = Some (replicate n 0)"
    and "decode_hex P (repeated ''ab'' n) = Some (replicate n 171)"
    and "decode_hex P (repeated ''AB'' n) = Some (replicate n 171)"
    and "decode_hex P (''0X'' @ repeated ''AB'' n) = Some (replicate n 171)"
proof -
  have "decode_hex P (''0X'' @ repeated ''AB'' n) = hex_decode P (repeated ''AB'' n)"
    by (simp add: decode_hex_def strip_prefix_def)
  then show "decode_hex P (''0X'' @ repeated ''AB'' n) = Some (replicate n 171)"
    using assms by (simp add: standard_hex_def demo_hex_repeated nibble_val_def)
qed (simp_all add: decode_repeated [OF assms] nibble_val_def)

section \<open>Texts\<close>

text \<open>\<open>text.contains(part)\<close>\<close>

definition contains_text :: "string \<Rightarrow> string \<Rightarrow> bool" where
  "contains_text text part \<longleftrightarrow> list_ex (\<lambda>i. starts_with part (drop i text)) [0..<Suc (length text)]"

definition quoted :: "string \<Rightarrow> string" where
  "quoted text = CHR 0x22 # text @ [CHR 0x22]"

lemma ascii_valid: "list_all (\<lambda>c. (of_char c :: nat) < 128) s \<Longrightarrow> utf8_valid (as_bytes s)"
  by (induction s) (simp_all add: utf8_valid.simps(2) [of "byte_of c" for c] unat_byte_of)

lemma ascii_text: "list_all (\<lambda>c. (of_char c :: nat) < 128) s \<Longrightarrow> from_utf8 (as_bytes s) = Some s"
  by (simp add: from_utf8_Some ascii_valid)

end
