(* ===== verification/Unit_Reports.thy ===== *)
theory Unit_Reports
  imports Unit_Support
begin

text \<open>
  The unit tests of \<open>cloud_api.rs\<close> as predicates, and the lemmas that the model passes them in every
  environment with the documented behaviour of its crates.
\<close>

section \<open>Wire decoding (\<open>cloud_api.rs\<close>)\<close>

definition decode_test_wire ::
  "'z net_prims_scheme \<Rightarrow> (json \<Rightarrow> 'a option) \<Rightarrow> json \<Rightarrow> api_resource \<Rightarrow> string \<Rightarrow> 'a api" where
  "decode_test_wire P decode v resource root_path = decode_as P decode (json_print P v) resource root_path"

text \<open>The members every report of these tests has, and the two forms of \<open>info\<close>.\<close>

definition report_members :: "string \<Rightarrow> string \<Rightarrow> string \<Rightarrow> (string \<times> json) list" where
  "report_members nonce algo address =
     [(''request_nonce'', JStr nonce), (''signing_algo'', JStr algo), (''signing_address'', JStr address),
      (''intel_quote'', JStr ''aa''), (''event_log'', JArr [])]"

definition info_member :: "json \<Rightarrow> string \<times> json" where
  "info_member tcb_info = (''info'', JObj [(''tcb_info'', tcb_info)])"

definition empty_compose :: json where
  "empty_compose = JObj [(''app_compose'', JStr ''{}'')]"

definition ecdsa_members :: "(string \<times> json) list" where
  "ecdsa_members = report_members (repeated ''11'' 32) ''ecdsa'' (repeated ''22'' 20)"

text \<open>\<open>.model_attestations.into_iter().next().expect(..)\<close>, mapped under its path\<close>

definition first_model :: "'z prims_scheme \<Rightarrow> wire_model_attestation list \<Rightarrow> model_attestation api" where
  "first_model P records =
     rbind (expect ''one model attestation'' (first_of records)) (\<lambda>record.
     map_model_attestation P record ''model_attestations[0]'')"

definition models_of_test :: "'z net_prims_scheme \<Rightarrow> json \<Rightarrow> wire_model_attestation list api" where
  "models_of_test P record =
     decode_test_wire P (model_attestations_of P) (JObj [(''model_attestations'', JArr [record])])
       Res_ModelAttestation ''model_attestations''"

definition default_base_url_preserves_the_v1_path_when_resolving_an_endpoint :: "'z net_prims_scheme \<Rightarrow> bool" where
  "default_base_url_preserves_the_v1_path_when_resolving_an_endpoint P \<longleftrightarrow>
     unwraps (\<lambda>url. url_text P url = ''https://cloud-api.near.ai/v1/attestation/report'')
       (rbind (attestation_client_new P (Some ''test-key'')) (\<lambda>client. endpoint P client ''attestation/report''))"

definition malformed_model_public_key_is_a_response_error :: "'z net_prims_scheme \<Rightarrow> bool" where
  "malformed_model_public_key_is_a_response_error P \<longleftrightarrow>
     fails_as (invalid_at ''attestation.signing_public_key'')
       (decode_model_value P (JObj (report_members (repeated ''11'' 32) ''ed25519'' (repeated ''22'' 32)
          @ [(''signing_public_key'', JStr ''not hex''), info_member empty_compose])))"

definition normalizes_optional_model_wire_fields_to_none :: "'z net_prims_scheme \<Rightarrow> bool" where
  "normalizes_optional_model_wire_fields_to_none P \<longleftrightarrow>
     list_all (\<lambda>v. unwraps (unwraps (\<lambda>attestation. ma_reported_quote_data attestation = None
           \<and> ma_nvidia_payload attestation = None) \<circ> first_model P) (models_of_test P v))
       [JObj (ecdsa_members @ [info_member empty_compose]),
        JObj (ecdsa_members @ [(''tls_cert_fingerprint'', JNull), (''report_data'', JNull),
          (''nvidia_payload'', JNull), info_member empty_compose])]"

definition gateway_of_test :: "'z net_prims_scheme \<Rightarrow> json \<Rightarrow> wire_gateway_response api" where
  "gateway_of_test P v =
     decode_test_wire P (gateway_response_of P) v Res_GatewayAttestation ''gateway_attestation''"

definition gateway_response_requires_report_data :: "'z net_prims_scheme \<Rightarrow> bool" where
  "gateway_response_requires_report_data P \<longleftrightarrow>
     unwraps (\<lambda>response. fails_as (invalid_at ''gateway_attestation.report_data'')
         (map_gateway_attestation P (wg_gateway_attestation response) ''gateway_attestation''))
       (gateway_of_test P (JObj [(''gateway_attestation'', JObj (ecdsa_members
          @ [(''tls_cert_fingerprint'', JStr (repeated ''33'' 32)), info_member empty_compose]))]))"

definition gateway_response_allows_an_omitted_tls_fingerprint :: "'z net_prims_scheme \<Rightarrow> bool" where
  "gateway_response_allows_an_omitted_tls_fingerprint P \<longleftrightarrow>
     unwraps (\<lambda>response. unwraps (\<lambda>attestation. ga_spki_fingerprint attestation = None)
         (map_gateway_attestation P (wg_gateway_attestation response) ''gateway_attestation''))
       (gateway_of_test P (JObj [(''gateway_attestation'', JObj (ecdsa_members
          @ [(''report_data'', JStr (repeated ''00'' 64)), info_member empty_compose]))]))"

definition wire_decoder_keeps_malformed_json_as_an_api_json_error :: "'z net_prims_scheme \<Rightarrow> bool" where
  "wire_decoder_keeps_malformed_json_as_an_api_json_error P \<longleftrightarrow>
     fails_as (\<lambda>e. e = InvalidJson Res_ModelAttestation)
       (decode_as P (model_attestations_of P) ''{'' Res_ModelAttestation ''model_attestations'')"

definition typed_model_records_preserve_wire_nonce_and_signer_validation :: "'z net_prims_scheme \<Rightarrow> bool" where
  "typed_model_records_preserve_wire_nonce_and_signer_validation P \<longleftrightarrow>
     list_all (\<lambda>(request_nonce, signing_address, expected_path).
         unwraps (fails_as (invalid_at (''model_attestations[0].'' @ expected_path)) \<circ> first_model P)
           (models_of_test P (JObj (report_members request_nonce ''ecdsa'' signing_address
              @ [info_member empty_compose]))))
       [(''aa'', repeated ''22'' 20, ''request_nonce''), (repeated ''11'' 32, ''aa'', ''signing_address'')]"

definition compose_text :: string where
  "compose_text = [CHR 0x7B, CHR 0x22] @ ''app_compose'' @ [CHR 0x22, CHR 0x3A, CHR 0x22, CHR 0x7B, CHR 0x7D, CHR 0x22, CHR 0x7D]"

definition typed_model_records_accept_json_string_tcb_info :: "'z net_prims_scheme \<Rightarrow> bool" where
  "typed_model_records_accept_json_string_tcb_info P \<longleftrightarrow>
     unwraps (unwraps (\<lambda>attestation. ev_app_compose (ma_evidence attestation) = ''{}'') \<circ> first_model P)
       (models_of_test P (JObj (ecdsa_members @ [info_member (JStr compose_text)])))"

definition accepts_an_equivalent_nonce_encoding :: "'z net_prims_scheme \<Rightarrow> bool" where
  "accepts_an_equivalent_nonce_encoding P \<longleftrightarrow>
     unwraps (\<lambda>_. True) (require_matching_api_nonce P (''0X'' @ repeated ''AB'' 32) (repeated ''ab'' 32)
       Res_ModelAttestation)"

definition typed_model_records_reject_invalid_json_string_tcb_info :: "'z net_prims_scheme \<Rightarrow> bool" where
  "typed_model_records_reject_invalid_json_string_tcb_info P \<longleftrightarrow>
     fails_as (\<lambda>e. case e of InvalidResponse path _ _ \<Rightarrow> starts_with ''model_attestations[0]'' path | _ \<Rightarrow> False)
       (models_of_test P (JObj (ecdsa_members @ [info_member (JStr ''not JSON'')])))"

definition signature_of_test :: "'z net_prims_scheme \<Rightarrow> json \<Rightarrow> wire_signature_response api" where
  "signature_of_test P response =
     decode_test_wire P signature_response_of response Res_CompletionSignature ''signature''"

fun is_invalid_response :: "api_error \<Rightarrow> bool" where
  "is_invalid_response (InvalidResponse _ _ _) = True"
| "is_invalid_response _ = False"

definition signed_members :: "(string \<times> json) list" where
  "signed_members = [(''text'', JStr ''signed''), (''signature'', JStr ''aa''),
     (''signing_address'', JStr (repeated ''22'' 20)), (''signing_algo'', JStr ''ecdsa'')]"

definition rejects_missing_or_unknown_completion_signature_kind :: "'z net_prims_scheme \<Rightarrow> bool" where
  "rejects_missing_or_unknown_completion_signature_kind P \<longleftrightarrow>
     list_all (\<lambda>response. fails_as is_invalid_response
         (rbind (signature_of_test P response) (map_completion_signature P)))
       [JObj signed_members, JObj (signed_members @ [(''signature_kind'', JStr ''unknown'')])]"

definition unsupported_members :: "(string \<times> json) list" where
  "unsupported_members = [(''error_code'', JStr ''SIGNATURE_UNSUPPORTED''),
     (''message'', JStr ''the provider does not support completion signatures'')]"

definition signature_fields_prevent_an_error_envelope_from_being_treated_as_unavailable ::
  "'z net_prims_scheme \<Rightarrow> bool" where
  "signature_fields_prevent_an_error_envelope_from_being_treated_as_unavailable P \<longleftrightarrow>
     list_all (\<lambda>response. unwraps (fails_as is_invalid_response \<circ> map_completion_signature P)
         (signature_of_test P response))
       [JObj (unsupported_members @ [(''text'', JStr ''partial signature'')]),
        JObj (unsupported_members @ [(''signature'', JNull)])]"

text \<open>
  The behaviour of \<open>url\<close> and \<open>serde_json\<close> the tests of \<open>cloud_api.rs\<close> observe: the default base URL
  and a relative path resolved against it, a text that is no JSON, the text of a \<open>tcb_info\<close>, and an
  error below the value whose shape is wrong.
\<close>

definition cloud_url :: "string \<Rightarrow> url" where
  "cloud_url path = \<lparr>u_scheme = ''https'', u_username = [], u_password = None, u_host = Some ''cloud-api.near.ai'',
     u_port = None, u_path = path, u_query = None, u_fragment = None\<rparr>"

definition cloud_url_texts :: "'z net_prims_scheme \<Rightarrow> bool" where
  "cloud_url_texts P \<longleftrightarrow> url_parse P ''https://cloud-api.near.ai/v1'' = Some (cloud_url ''/v1'')
     \<and> url_join P (cloud_url ''/v1/'') ''attestation/report'' = Some (cloud_url ''/v1/attestation/report'')
     \<and> url_text P (cloud_url ''/v1/attestation/report'') = ''https://cloud-api.near.ai/v1/attestation/report''"

definition bad_tcb_info :: json where
  "bad_tcb_info = JObj (ecdsa_members @ [info_member (JStr ''not JSON'')])"

definition wire_texts :: "'z net_prims_scheme \<Rightarrow> bool" where
  "wire_texts P \<longleftrightarrow> document_roundtrip P
     \<and> json_document P (as_bytes ''{'') = None \<and> serde_fault P ''model_attestations'' (as_bytes ''{'') = None
     \<and> json_document P (as_bytes compose_text) = Some empty_compose
     \<and> json_document P (as_bytes ''not JSON'') = None
     \<and> (\<exists>below. serde_fault P ''model_attestations''
            (as_bytes (json_print P (JObj [(''model_attestations'', JArr [bad_tcb_info])])))
          = Some (''model_attestations[0].'' @ below))
     \<and> (\<forall>j. is_object j \<and> signature_response_of j = None \<longrightarrow>
          serde_fault P ''signature'' (as_bytes (json_print P j)) \<noteq> None)"

declare decode_test_wire_def [unit_tests] report_members_def [unit_tests] info_member_def [unit_tests]
  empty_compose_def [unit_tests] ecdsa_members_def [unit_tests] first_model_def [unit_tests]
  models_of_test_def [unit_tests] gateway_of_test_def [unit_tests] signature_of_test_def [unit_tests]
  signed_members_def [unit_tests] unsupported_members_def [unit_tests] cloud_url_def [unit_tests]

lemmas reading_reports = model_attestations_of_def wire_model_attestation_of_def wire_attestation_members_def
  wire_attestation_of_def gateway_response_of_def struct_view_def no_repeats_def wire_attestation_fields_def
  need_def want_def vec_of_def signing_algo_of_def tcb_info_of_def tcb_info_object_of_def

lemma decode_printed:
  assumes "document_roundtrip P"
  shows "decode_as P decode (json_print P j) resource root =
     (case decode j of
        Some v \<Rightarrow> Inr v
      | None \<Rightarrow> fail (case serde_fault P root (as_bytes (json_print P j)) of
            None \<Rightarrow> InvalidJson resource
          | Some path \<Rightarrow> InvalidResponse (response_error_path root path)
              ''the documented Cloud API response shape'' ''invalid''))"
  using assms by (simp add: decode_as_def decode_wire_response_def document_roundtrip_def)

lemma reading_signatures:
  "wire_texts P \<Longrightarrow> is_object j \<Longrightarrow> signature_response_of j = None
     \<Longrightarrow> serde_fault P ''signature'' (as_bytes (json_print P j)) \<noteq> None"
  unfolding wire_texts_def by blast

lemma default_base_url_test:
  assumes "cloud_url_texts P"
  shows "default_base_url_preserves_the_v1_path_when_resolving_an_endpoint P"
  using assms
  by (simp add: default_base_url_preserves_the_v1_path_when_resolving_an_endpoint_def attestation_client_new_def
      parse_base_url_def default_near_ai_cloud_base_url_def cloud_url_texts_def cloud_url_def strip_suffix_def strip_prefix_def
      from_parts_def endpoint_def)

lemma reading_texts:
  assumes "wire_texts P"
  shows "document_roundtrip P" "json_document P (as_bytes ''{'') = None"
    "serde_fault P ''model_attestations'' (as_bytes ''{'') = None"
    "json_document P (as_bytes compose_text) = Some (JObj [(''app_compose'', JStr ''{}'')])"
    "json_document P (as_bytes ''not JSON'') = None"
  using assms by (simp_all add: wire_texts_def empty_compose_def)

lemmas mapping_reports = map_model_attestation_def map_gateway_attestation_def map_evidence_def
  validate_api_nonce_def validate_api_signing_identity_def require_hex_length_def

lemma short_texts:
  assumes "standard_hex P"
  shows "decode_hex P ''not hex'' = None" "decode_hex P ''aa'' = Some [170]"
  using assms by (simp_all add: decode_hex_def standard_hex_def strip_prefix_def nibble_val_def)

lemma malformed_key_test:
  assumes "standard_hex P" "wire_texts P"
  shows "malformed_model_public_key_is_a_response_error P"
  using hex_texts [OF assms(1)] short_texts [OF assms(1)] reading_texts [OF assms(2)]
  by (simp add: malformed_model_public_key_is_a_response_error_def decode_model_value_def decode_printed
      reading_reports unit_tests mapping_reports)

lemma optional_fields_test:
  assumes "standard_hex P" "wire_texts P"
  shows "normalizes_optional_model_wire_fields_to_none P"
  using hex_texts [OF assms(1)] reading_texts [OF assms(2)]
  by (simp add: normalizes_optional_model_wire_fields_to_none_def decode_printed reading_reports unit_tests
      mapping_reports first_of_def)

lemma gateway_report_data_test:
  assumes "standard_hex P" "wire_texts P"
  shows "gateway_response_requires_report_data P"
  using hex_texts [OF assms(1)] reading_texts [OF assms(2)]
  by (simp add: gateway_response_requires_report_data_def decode_printed reading_reports unit_tests mapping_reports)

lemma gateway_fingerprint_test:
  assumes "standard_hex P" "wire_texts P"
  shows "gateway_response_allows_an_omitted_tls_fingerprint P"
  using hex_texts [OF assms(1)] reading_texts [OF assms(2)]
  by (simp add: gateway_response_allows_an_omitted_tls_fingerprint_def decode_printed reading_reports unit_tests
      mapping_reports)

lemma malformed_json_test:
  assumes "wire_texts P"
  shows "wire_decoder_keeps_malformed_json_as_an_api_json_error P"
  using reading_texts [OF assms]
  by (simp add: wire_decoder_keeps_malformed_json_as_an_api_json_error_def decode_as_def decode_wire_response_def)

lemma nonce_and_signer_test:
  assumes "standard_hex P" "wire_texts P"
  shows "typed_model_records_preserve_wire_nonce_and_signer_validation P"
  using hex_texts [OF assms(1)] short_texts [OF assms(1)] reading_texts [OF assms(2)]
  by (simp add: typed_model_records_preserve_wire_nonce_and_signer_validation_def decode_printed reading_reports
      unit_tests mapping_reports first_of_def)

lemma string_tcb_info_test:
  assumes "standard_hex P" "wire_texts P"
  shows "typed_model_records_accept_json_string_tcb_info P"
  using hex_texts [OF assms(1)] reading_texts [OF assms(2)]
  by (simp add: typed_model_records_accept_json_string_tcb_info_def decode_printed reading_reports unit_tests
      mapping_reports first_of_def)

lemma nonce_encoding_test:
  assumes "standard_hex P"
  shows "accepts_an_equivalent_nonce_encoding P"
  using hex_texts [OF assms] by (simp add: accepts_an_equivalent_nonce_encoding_def require_matching_api_nonce_def)

lemma bad_tcb_info_test:
  assumes "wire_texts P"
  shows "typed_model_records_reject_invalid_json_string_tcb_info P"
proof -
  obtain below where "serde_fault P ''model_attestations''
      (as_bytes (json_print P (JObj [(''model_attestations'', JArr [bad_tcb_info])])))
        = Some (''model_attestations[0].'' @ below)"
    using assms by (auto simp: wire_texts_def)
  with reading_texts [OF assms] show ?thesis
    by (simp add: typed_model_records_reject_invalid_json_string_tcb_info_def decode_printed reading_reports
        unit_tests bad_tcb_info_def response_error_path_def starts_with_def)
qed

lemma signature_kind_test:
  assumes "standard_hex P" "wire_texts P"
  shows "rejects_missing_or_unknown_completion_signature_kind P"
proof -
  have "signature_response_of (JObj (signed_members @ [(''signature_kind'', JStr ''unknown'')])) = None"
    by (simp add: signature_response_of_def struct_view_def no_repeats_def unit_tests
        deserialize_optional_signature_field_def signing_algo_of_def completion_signature_kind_of_def)
  moreover from this obtain path where "serde_fault P ''signature'' (as_bytes (json_print P
      (JObj (signed_members @ [(''signature_kind'', JStr ''unknown'')])))) = Some path"
    using reading_signatures [OF assms(2)] by (metis is_object.simps(1) option.exhaust)
  moreover have "\<exists>r. signature_response_of (JObj signed_members) = Some r
      \<and> ws_signature_kind r = Missing_Field \<and> unavailable r = None"
    by (simp add: signature_response_of_def struct_view_def no_repeats_def unit_tests
        deserialize_optional_signature_field_def signing_algo_of_def unavailable_def want_def)
  ultimately show ?thesis
    using reading_texts [OF assms(2)]
    by (auto simp: rejects_missing_or_unknown_completion_signature_kind_def signature_of_test_def
        decode_test_wire_def decode_printed map_completion_signature_def require_signature_def
        require_signature_field_def Let_def rbind_def split: sum.split signature_field.split)
qed

lemma signature_fields_test:
  assumes "wire_texts P"
  shows "signature_fields_prevent_an_error_envelope_from_being_treated_as_unavailable P"
  using reading_texts [OF assms]
  by (simp add: signature_fields_prevent_an_error_envelope_from_being_treated_as_unavailable_def unit_tests
      decode_printed signature_response_of_def struct_view_def no_repeats_def want_def
      deserialize_optional_signature_field_def map_completion_signature_def unavailable_def require_signature_def
      require_signature_field_def)

end
