(* ===== verification/Unit_Verifiers.thy ===== *)
theory Unit_Verifiers
  imports Unit_Support Pinned_Tls Sse Systemone_Request Public_Api
begin

text \<open>
  The unit tests of \<open>quote.rs\<close>, \<open>nvidia.rs\<close>, \<open>pinned_tls.rs\<close>, \<open>systemone.rs\<close> and \<open>sse.rs\<close> that need no
  socket of their own, and the lemmas that the model passes them. A mock server is the function that
  answers the requests it expects; that a test sees no request is the generality of its lemma, which
  holds whatever the server would answer.
\<close>

section \<open>Quotes (\<open>quote.rs\<close>)\<close>

definition uses_the_official_intel_endpoint_by_default :: bool where
  "uses_the_official_intel_endpoint_by_default \<longleftrightarrow>
     dq_pccs_url tdx_quote_verifier_default = ''https://api.trustedservices.intel.com''"

definition rejects_invalid_quotes_before_contacting_the_custom_pccs ::
  "('c, 'z) dcap_prims_scheme \<Rightarrow> (string \<Rightarrow> bytes \<Rightarrow> 'c option) \<Rightarrow> string \<Rightarrow> bool" where
  "rejects_invalid_quotes_before_contacting_the_custom_pccs P server uri \<longleftrightarrow>
     list_all (\<lambda>(quote, expected). fails_as (\<lambda>e. e = QuoteVerificationFailed expected)
         (tdx_quote_verifier_verify (P\<lparr>dcap_collateral := server\<rparr>) (tdx_quote_verifier_new uri) quote))
       [(''zz'', ''invalid_encoding''), (''00'', ''invalid_quote'')]"

definition rejects_an_unrecognized_tcb_status :: bool where
  "rejects_an_unrecognized_tcb_status \<longleftrightarrow>
     fails_as (\<lambda>e. e = QuoteInvalidResult ''unsupported_tcb_status'') (parse_tcb_status ''FutureStatus'')"

section \<open>GPU evidence (\<open>nvidia.rs\<close>)\<close>

text \<open>The key set and the claims of the tests; \<open>sign_claims\<close> is an argument of the tests.\<close>

definition test_jwks :: "jwk list" where
  "test_jwks = [\<lparr>jwk_kid = Some ''test-nras'', jwk_key = JObj [(''kty'', JStr ''EC''), (''crv'', JStr ''P-384''),
     (''x'', JStr ''9uCh4qFT8Idqvm8karI3-EUkMx8E8qaA6PO5f0-nMQjP1ObTuxxq4JNF48Ol1T3u''),
     (''y'', JStr ''Lxk6aUWaQ6rImuChlOzNXoXdleFN-yoDabPajxy60re_5-I95s6y1rhN_xptrFA9'')]\<rparr>]"

definition test_claims :: "nat \<Rightarrow> json" where
  "test_claims now = JObj [(''iss'', JStr nvidia_issuer), (''exp'', JNum (decimal (now + 3600))),
     (''nbf'', JNum (decimal (now - 60))), (''iat'', JNum (decimal (now - 60))),
     (''eat_nonce'', JStr (repeated ''11'' 32)), (''x-nvidia-overall-att-result'', JBool True)]"

definition verifies_the_signed_overall_token :: "('c, 'z) jwt_prims_scheme \<Rightarrow> (json \<Rightarrow> string \<Rightarrow> string) \<Rightarrow> bool" where
  "verifies_the_signed_overall_token P sign_claims \<longleftrightarrow>
     unwraps (\<lambda>jwt. unwraps (\<lambda>_. True) (verify_nras_jwt P jwt test_jwks (replicate 32 0x11)))
       (decode_nras_overall_attestation_jwt (JArr
          [JArr [JStr ''JWT'', JStr (sign_claims (test_claims (jwt_now P)) ''test-nras''),
             JObj [(''extra_entry_value'', JBool True)]],
           JObj [(''later_entry'', JStr ''ignored'')]]))"

definition rejects_an_invalid_nras_jwt_envelope :: bool where
  "rejects_an_invalid_nras_jwt_envelope \<longleftrightarrow>
     fails_as (\<lambda>e. e = NrasResponseInvalid ''invalid_schema'')
       (decode_nras_overall_attestation_jwt (JArr [JArr [JStr ''TOKEN'', JStr ''value'']]))"

definition rejects_unacceptable_signed_claims :: "('c, 'z) jwt_prims_scheme \<Rightarrow> (json \<Rightarrow> string \<Rightarrow> string) \<Rightarrow> bool" where
  "rejects_unacceptable_signed_claims P sign_claims \<longleftrightarrow>
     list_all (\<lambda>(name, v, reason).
         fails_as (\<lambda>e. e = NvidiaJwtVerificationFailed reason)
           (verify_nras_jwt P (sign_claims (jset (test_claims (jwt_now P)) name v) ''test-nras'')
              test_jwks (replicate 32 0x11)))
       [(''exp'', JNum ''1'', ''expired''), (''nbf'', JNum ''4102444800'', ''not_yet_valid''),
        (''iat'', JNum ''4102444800'', ''not_yet_valid''),
        (''iss'', JStr ''https://untrusted.example'', ''invalid_claims''),
        (''exp'', JNull, ''invalid_claims''), (''eat_nonce'', JNull, ''invalid_claims''),
        (''eat_nonce'', JStr (repeated ''44'' 32), ''nonce_mismatch''),
        (''x-nvidia-overall-att-result'', JStr ''PASS'', ''invalid_claims'')]"

text \<open>The first character of the signature is replaced: the part behind the last dot.\<close>

definition tampered_token :: "string \<Rightarrow> string" where
  "tampered_token token =
     (let signature = rev (takeWhile (\<lambda>c. c \<noteq> CHR ''.'') (rev token));
          signature_start = length token - length signature
      in token[signature_start := (if take 1 signature = ''A'' then CHR ''B'' else CHR ''A'')])"

definition rejects_a_modified_signature_and_unknown_key ::
  "('c, 'z) jwt_prims_scheme \<Rightarrow> (json \<Rightarrow> string \<Rightarrow> string) \<Rightarrow> bool" where
  "rejects_a_modified_signature_and_unknown_key P sign_claims \<longleftrightarrow>
     fails_as (\<lambda>e. e = NvidiaJwtVerificationFailed ''invalid_signature'')
       (verify_nras_jwt P (tampered_token (sign_claims (test_claims (jwt_now P)) ''test-nras''))
          test_jwks (replicate 32 0x11))
     \<and> fails_as (\<lambda>e. e = NvidiaJwtVerificationFailed ''key_not_found'')
       (verify_nras_jwt P (sign_claims (test_claims (jwt_now P)) ''unknown-key'') test_jwks (replicate 32 0x11))"

definition rejects_an_unsigned_token_and_a_signed_false_verdict ::
  "('c, 'z) jwt_prims_scheme \<Rightarrow> (json \<Rightarrow> string \<Rightarrow> string) \<Rightarrow> bool" where
  "rejects_an_unsigned_token_and_a_signed_false_verdict P sign_claims \<longleftrightarrow>
     fails_as (\<lambda>e. e = NvidiaJwtVerificationFailed ''invalid_claims'')
       (verify_nras_jwt P ''eyJhbGciOiJub25lIn0.e30.'' test_jwks (replicate 32 0x11))
     \<and> fails_as (\<lambda>e. e = GpuAttestationRejected ''nras'')
       (verify_nras_jwt P
          (sign_claims (jset (test_claims (jwt_now P)) ''x-nvidia-overall-att-result'' (JBool False)) ''test-nras'')
          test_jwks (replicate 32 0x11))"

definition uses_the_official_nras_and_jwks_endpoints_by_default :: bool where
  "uses_the_official_nras_and_jwks_endpoints_by_default \<longleftrightarrow>
     (let verifier = nras_verifier_default in
      nras_url verifier = ''https://nras.attestation.nvidia.com/v3/attest/gpu''
      \<and> nras_jwks_url verifier = ''https://nras.attestation.nvidia.com/.well-known/jwks.json''
      \<and> nras_jwks_url (nras_verifier_new ''https://proxy.example/attest'') = nras_jwks_url verifier)"

text \<open>A response of a mock server with this status and body.\<close>

definition replied :: "u16 \<Rightarrow> bytes \<Rightarrow> http_response" where
  "replied status body = \<lparr>rs_status = status, rs_headers = [], rs_content_length = Some (length body),
     rs_chunks = [body], rs_broken = False, rs_peer_certificate = None\<rparr>"

definition attesting_proxy ::
  "('c, 'z) jwt_prims_scheme \<Rightarrow> string \<Rightarrow> string \<Rightarrow> string \<Rightarrow> bytes \<Rightarrow> http_client \<Rightarrow> http_request \<Rightarrow> http_response option" where
  "attesting_proxy P uri payload jwt keys client request =
     Some (if rq_method request = ''POST'' \<and> rq_url request = uri @ ''/proxy/attest'' \<and> rq_body request = as_bytes payload
           then replied 200 (as_bytes (json_print P (JArr [JArr [JStr ''JWT'', JStr jwt]])))
           else if rq_method request = ''GET'' \<and> rq_url request = uri @ ''/proxy/jwks'' then replied 200 keys
           else replied 404 [])"

definition verifies_proxy_responses_with_custom_nras_and_jwks_urls_and_a_fixed_issuer ::
  "('c, 'z) jwt_prims_scheme \<Rightarrow> (json \<Rightarrow> string \<Rightarrow> string) \<Rightarrow> bytes \<Rightarrow> string \<Rightarrow> bool" where
  "verifies_proxy_responses_with_custom_nras_and_jwks_urls_and_a_fixed_issuer P sign_claims keys uri \<longleftrightarrow>
     list_all (\<lambda>issuer.
       let payload = json_print P (JObj [(''nonce'', JStr (repeated ''11'' 32))]);
           claims = jset (test_claims (jwt_now P)) ''iss'' (JStr issuer);
           jwt = sign_claims claims ''test-nras'';
           verifier = with_jwks_url (with_client (default_client\<lparr>hc_proxy := False\<rparr>) (uri @ ''/proxy/attest''))
             (uri @ ''/proxy/jwks'');
           result = nras_verify (P\<lparr>http_send := attesting_proxy P uri payload jwt keys\<rparr>) verifier payload
       in if issuer = nvidia_issuer then unwraps (\<lambda>_. True) result
          else fails_as (\<lambda>e. e = NvidiaJwtVerificationFailed ''invalid_claims'') result)
       [nvidia_issuer, ''https://proxy.example.com'']"

definition opaque_payload :: string where
  "opaque_payload = ''{ '' @ quoted ''nonce'' @ '': '' @ quoted (''0X'' @ repeated ''AB'' 32) @ '', ''
     @ quoted ''evidence'' @ '': ['' @ quoted ''opaque'' @ ''] }''"

definition opaque_proxy ::
  "('c, 'z) jwt_prims_scheme \<Rightarrow> string \<Rightarrow> string \<Rightarrow> http_client \<Rightarrow> http_request \<Rightarrow> http_response option" where
  "opaque_proxy P uri payload client request =
     Some (if rq_method request = ''POST'' \<and> rq_url request = uri @ ''/proxy/nras''
             \<and> header_get ''content-type'' (rq_headers request) = Some ''application/json''
             \<and> rq_body request = as_bytes payload
           then replied 200 (as_bytes (json_print P (JObj [(''result'', JBool True)])))
           else replied 404 [])"

definition submits_the_unchanged_payload_to_the_custom_endpoint :: "('c, 'z) jwt_prims_scheme \<Rightarrow> string \<Rightarrow> bool" where
  "submits_the_unchanged_payload_to_the_custom_endpoint P uri \<longleftrightarrow>
     fails_as (\<lambda>e. e = NrasResponseInvalid ''invalid_schema'')
       (nras_verify (P\<lparr>http_send := opaque_proxy P uri opaque_payload\<rparr>)
          (nras_verifier_new (uri @ ''/proxy/nras'')) opaque_payload)"

definition rejects_invalid_payload_nonces_before_contacting_the_custom_endpoint ::
  "('c, 'z) jwt_prims_scheme \<Rightarrow> (http_client \<Rightarrow> http_request \<Rightarrow> http_response option) \<Rightarrow> string \<Rightarrow> bool" where
  "rejects_invalid_payload_nonces_before_contacting_the_custom_endpoint P server uri \<longleftrightarrow>
     (let verify = nras_verify (P\<lparr>http_send := server\<rparr>) (nras_verifier_new uri) in
      list_all (\<lambda>nonce. fails_as (\<lambda>e. case e of Ver_InvalidInput field _ \<Rightarrow> field = ''nvidia_payload.nonce'' | _ \<Rightarrow> False)
          (verify (json_print P (JObj [(''nonce'', JStr nonce)]))))
        [[], repeated ''11'' 31, repeated ''11'' 33, repeated ''GG'' 32, repeated ''1'' 63]
      \<and> list_all (\<lambda>payload. fails_as (\<lambda>e. e = GpuPayloadInvalid ''nonce_missing'') (verify payload))
        [''{}'', ''null'', ''{'' @ quoted ''nonce'' @ '': 1}'', json_print P (JArr [JStr (repeated ''11'' 32)])]
      \<and> fails_as (\<lambda>e. e = GpuPayloadInvalid ''invalid_json'') (verify ''{''))"

section \<open>Pinned clients (\<open>pinned_tls.rs\<close>)\<close>

definition rejects_empty_and_invalid_pins :: "'z net_prims_scheme \<Rightarrow> bool" where
  "rejects_empty_and_invalid_pins P \<longleftrightarrow>
     fails_as (\<lambda>e. ver_code e = ''binding.spki_fingerprint_required'') (create_pinned_tls_client P [])
     \<and> is_error (create_pinned_tls_client P [''not-hex''])"

section \<open>Decisions (\<open>systemone.rs\<close>)\<close>

text \<open>The values \<open>serde_json\<close> reads from the texts of the test; the last four keep their own text.\<close>

definition content_rejects_number_primitives_even_with_arbitrary_precision :: "'z net_prims_scheme \<Rightarrow> bool" where
  "content_rejects_number_primitives_even_with_arbitrary_precision P \<longleftrightarrow>
     list_all (\<lambda>text. Option.bind (json_document P (as_bytes text)) content_of = None)
       [''0'', ''-0.0'', ''1e400'', ''18446744073709551616'', ''true'', ''null'']"

text \<open>\<open>question[key] = value\<close> on an object\<close>

fun index_set :: "json \<Rightarrow> string \<Rightarrow> json \<Rightarrow> json" where
  "index_set (JObj kvs) k v = JObj (bt_insert k v kvs)"
| "index_set j k v = j"

definition question_instructions_are_required :: bool where
  "question_instructions_are_required \<longleftrightarrow>
     list_all (\<lambda>question. question_of question = None
         \<and> question_of (index_set question ''instructions'' JNull) = None
         \<and> list_all (\<lambda>instructions. case question_of (index_set question ''instructions'' instructions) of
               None \<Rightarrow> False
             | Some parsed \<Rightarrow> jindex (question_json parsed) ''instructions'' = instructions)
           [JStr ''Evaluate this request.'', JObj [(''task'', JStr ''Evaluate this request.'')],
            JArr [JStr ''Evaluate this request.'']])
       [JObj [(''type'', JStr ''noul'')],
        JObj [(''criteria'', JObj [(''billing'', JNull), (''other'', JNull)]), (''type'', JStr ''choice'')],
        JObj [(''criteria'', JArr [JStr ''low'', JStr ''high'']), (''type'', JStr ''score'')],
        JObj [(''type'', JStr ''box'')]]"

section \<open>Server-sent events (\<open>sse.rs\<close>)\<close>

definition split_records :: "bytes list" where
  "split_records = [as_bytes ''data: '' @ [0xF0, 0x9F, 0x8C, 0x8D] @ [13, 10, 13, 10],
     as_bytes '': heartbeat'' @ [13, 13], as_bytes ''data: [DONE]'' @ [10, 10], as_bytes '': tail'']"

text \<open>The records two pushes give, the second at the end of the input.\<close>

definition pushed_in_two :: "bytes \<Rightarrow> nat \<Rightarrow> (string, bytes list) outcome" where
  "pushed_in_two inp split =
     rbind (push sse_decoder_default (take split inp) False) (\<lambda>(decoder, got).
     rbind (push decoder (drop split inp) True) (\<lambda>(_, more).
     Inr (got @ more)))"

definition every_split_preserves_records_and_utf8 :: bool where
  "every_split_preserves_records_and_utf8 \<longleftrightarrow>
     (let inp = concat split_records in
      list_all (\<lambda>split. unwraps (\<lambda>got. got = split_records) (pushed_in_two inp split)) [0..<Suc (length inp)])"

definition large_records_preserve_payload_across_chunks :: bool where
  "large_records_preserve_payload_across_chunks \<longleftrightarrow>
     (let inp = as_bytes (''data: '' @ repeated ''x'' (1024 * 1024 + 1)) @ [10, 10] in
      unwraps (\<lambda>(_, records). records = [inp])
        (feed push sse_decoder_default (chunks_of 17 inp) :: (string, _) outcome))"

section \<open>The crates\<close>

text \<open>
  What \<open>jsonwebtoken\<close> does with a token the tests sign: it reads the claims into the wire struct, compares the
  expiry and the begin of validity with the clock and then the issuer. A token with another signature fails as such,
  and a header that names no algorithm is no header.
\<close>

definition claims_of :: "json \<Rightarrow> (nras_claims \<times> nat) option" where
  "claims_of j =
     Option.bind (struct_view [''x-nvidia-overall-att-result'', ''eat_nonce'', ''exp'', ''iat'', ''nbf''] 5 j) (\<lambda>kvs.
     Option.bind (need kvs ''x-nvidia-overall-att-result'' as_bool) (\<lambda>result.
     Option.bind (need kvs ''eat_nonce'' as_str) (\<lambda>nonce.
     Option.bind (need kvs ''exp'' as_u64) (\<lambda>exp.
     Option.bind (need kvs ''iat'' as_u64) (\<lambda>iat.
     Option.bind (need kvs ''nbf'' as_u64) (\<lambda>nbf.
     Some (\<lparr>overall_attestation_result = result, eat_nonce = nonce, claim_exp = exp, claim_iat = iat\<rparr>, nbf)))))))"

definition checked_claims :: "nat \<Rightarrow> json \<Rightarrow> jwt_error_kind + nras_claims" where
  "checked_claims now claims =
     (case claims_of claims of
        None \<Rightarrow> Inl OtherJwtError
      | Some (c, nbf) \<Rightarrow>
          if claim_exp c < now then Inl ExpiredSignature
          else if now < nbf then Inl ImmatureSignature
          else if jget claims ''iss'' \<noteq> Some (JStr nvidia_issuer) then Inl OtherJwtError
          else Inr c)"

definition jwt_library :: "('c, 'z) jwt_prims_scheme \<Rightarrow> (json \<Rightarrow> string \<Rightarrow> string) \<Rightarrow> bytes \<Rightarrow> bool" where
  "jwt_library P sign_claims key \<longleftrightarrow>
     60 \<le> jwt_now P \<and> jwt_now P < 4102444800
     \<and> decoding_key P (hd test_jwks) = Some key
     \<and> jwt_decode_header P ''eyJhbGciOiJub25lIn0.e30.'' = Inl OtherJwtError
     \<and> (\<forall>claims kid. let header = Inr \<lparr>jh_alg = ES384, jh_kid = Some kid\<rparr>; token = sign_claims claims kid in
          jwt_decode_header P token = header
          \<and> jwt_decode P token key nras_validation = checked_claims (jwt_now P) claims
          \<and> jwt_decode_header P (tampered_token token) = header
          \<and> jwt_decode P (tampered_token token) key nras_validation = Inl InvalidSignature)"

text \<open>The JSON texts the tests spell out.\<close>

definition payload_texts :: "'z prims_scheme \<Rightarrow> bool" where
  "payload_texts P \<longleftrightarrow> json_roundtrip P \<and> json_parse P (as_bytes ''{'') = None
     \<and> json_parse P (as_bytes ''{}'') = Some (JObj []) \<and> json_parse P (as_bytes ''null'') = Some JNull
     \<and> json_parse P (as_bytes (''{'' @ quoted ''nonce'' @ '': 1}'')) = Some (JObj [(''nonce'', JNum ''1'')])
     \<and> json_parse P (as_bytes opaque_payload) = Some (JObj [(''evidence'', JArr [JStr ''opaque'']),
         (''nonce'', JStr (''0X'' @ repeated ''AB'' 32))])"

definition number_texts :: "'z net_prims_scheme \<Rightarrow> bool" where
  "number_texts P \<longleftrightarrow>
     list_all (\<lambda>text. json_document P (as_bytes text) = Some (JNum text)) [''0'', ''-0.0'', ''1e400'', ''18446744073709551616'']
     \<and> json_document P (as_bytes ''true'') = Some (JBool True) \<and> json_document P (as_bytes ''null'') = Some JNull"

section \<open>The model passes the tests\<close>

lemma quote_tests:
  assumes "standard_hex P" "\<not> dcap_parse P [0]"
  shows "uses_the_official_intel_endpoint_by_default"
    and "rejects_invalid_quotes_before_contacting_the_custom_pccs P server uri"
    and "rejects_an_unrecognized_tcb_status"
  using assms
  by (simp_all add: uses_the_official_intel_endpoint_by_default_def tdx_quote_verifier_default_def
      tdx_quote_verifier_new_def default_intel_pccs_url_def rejects_an_unrecognized_tcb_status_def
      parse_tcb_status_def rejects_invalid_quotes_before_contacting_the_custom_pccs_def
      tdx_quote_verifier_verify_def verify_tdx_quote_def decode_hex_def standard_hex_def strip_prefix_def
      nibble_val_def)

lemma pin_tests:
  assumes "standard_hex P"
  shows "rejects_empty_and_invalid_pins P"
  using assms
  by (simp add: rejects_empty_and_invalid_pins_def create_pinned_tls_client_def pinned_client_def protocol_def
      require_hex_length_def decode_hex_def standard_hex_def strip_prefix_def nibble_val_def)

lemma content_tests:
  assumes "number_texts P"
  shows "content_rejects_number_primitives_even_with_arbitrary_precision P"
  using assms
  by (simp add: content_rejects_number_primitives_even_with_arbitrary_precision_def number_texts_def content_of_def)

lemma question_tests: "question_instructions_are_required"
  by code_simp

lemma split_test: "ref_records (concat split_records) = split_records"
  by code_simp

lemma every_split_test: "every_split_preserves_records_and_utf8"
proof -
  have "pushed_in_two bs n = Inr (ref_records bs)" for bs n
  proof -
    obtain d out where "push sse_decoder_default (take n bs) False = (Inr (d, out) :: (string, _) outcome)"
        "sse_ok d" "\<forall>rest. sse_future sse_decoder_default (take n bs @ rest) = out @ sse_future d rest"
      using push_chunk [of sse_decoder_default "take n bs"] by (auto simp: sse.init_ok)
    moreover from this(3) have "out @ sse_future d (drop n bs) = ref_records bs"
      by (metis append_take_drop_id sse_future_init)
    ultimately show ?thesis by (simp add: pushed_in_two_def push_end)
  qed
  then show ?thesis
    by (simp add: every_split_preserves_records_and_utf8_def split_test list_all_iff)
qed

lemma one_record:
  assumes "\<forall>x \<in> set text. x \<noteq> 13 \<and> x \<noteq> 10" "text \<noteq> []"
  shows "ref_records (text @ [10, 10]) = [text @ [10, 10]]"
  using assms(2) by (simp add: ref_records_def ref_lines_plain [OF assms(1)])

lemma large_record_test: "large_records_preserve_payload_across_chunks"
proof -
  have "\<forall>x \<in> set (as_bytes (''data: '' @ repeated ''x'' n)). x \<noteq> 13 \<and> x \<noteq> (10 :: byte)" for n
    by (auto simp: as_bytes_def repeated_def byte_of_def)
  then have "ref_records (as_bytes (''data: '' @ repeated ''x'' n) @ [10, 10])
      = [as_bytes (''data: '' @ repeated ''x'' n) @ [10, 10]]" for n
    by (intro one_record) (simp_all add: as_bytes_def)
  then show ?thesis
    by (simp only: large_records_preserve_payload_across_chunks_def Let_def sse.feed_all sse_future_init
        concat_chunks_of unwraps_simps split)
qed

section \<open>Signed tokens\<close>

lemma jwt_libraryD:
  assumes "jwt_library P sign_claims key"
  shows "decoding_key P (hd test_jwks) = Some key"
    and "jwt_decode_header P ''eyJhbGciOiJub25lIn0.e30.'' = Inl OtherJwtError"
    and "jwt_decode_header P (sign_claims claims kid) = Inr \<lparr>jh_alg = ES384, jh_kid = Some kid\<rparr>"
    and "jwt_decode P (sign_claims claims kid) key nras_validation = checked_claims (jwt_now P) claims"
    and "jwt_decode_header P (tampered_token (sign_claims claims kid)) = Inr \<lparr>jh_alg = ES384, jh_kid = Some kid\<rparr>"
    and "jwt_decode P (tampered_token (sign_claims claims kid)) key nras_validation = Inl InvalidSignature"
    and "60 \<le> jwt_now P" "jwt_now P < 4102444800"
  using assms by (simp_all add: jwt_library_def Let_def)

lemma jwt_result_simps [simp]: "jwt_result (Inr a) = Inr a" "jwt_result (Inl kind) = fail (map_jwt_error kind)"
  by (simp_all add: jwt_result_def)

lemma test_times [simp]: "\<not> n < n - (60 :: nat)" "\<not> n + 3600 < (n :: nat)"
  by simp_all

lemma parse_literals [simp]: "parse_u64 ''1'' = Some 1" "parse_u64 ''4102444800'' = Some 4102444800"
  by (simp_all add: parse_u64_def is_digit_def digits_val_def digit_val_def)

lemma test_key: "List.find (\<lambda>k. jwk_kid k = Some kid) test_jwks = (if kid = ''test-nras'' then Some (hd test_jwks) else None)"
  by (simp add: test_jwks_def)

lemma signed_token:
  assumes "jwt_library P sign_claims key" "kid = ''test-nras''"
  shows "verify_nras_jwt P (sign_claims claims kid) test_jwks nonce =
     rbind (jwt_result (checked_claims (jwt_now P) claims)) (\<lambda>claims.
     let now = jwt_now P in
     rbind (ensure (\<not> claim_exp claims \<le> now) (jwt_failure ''expired'')) (\<lambda>_.
     rbind (ensure (\<not> claim_iat claims > now) (jwt_failure ''not_yet_valid'')) (\<lambda>_.
     rbind (ok_or (jwt_failure ''invalid_claims'') (hex_decode P (eat_nonce claims))) (\<lambda>actual_nonce.
     rbind (ensure (length actual_nonce = 32) (jwt_failure ''invalid_claims'')) (\<lambda>_.
     rbind (ensure (actual_nonce = nonce) (jwt_failure ''nonce_mismatch'')) (\<lambda>_.
     ensure (overall_attestation_result claims) (GpuAttestationRejected ''nras'')))))))"
  using jwt_libraryD [OF assms(1)] assms(2) by (simp add: verify_nras_jwt_def test_key)

lemmas reading_claims = checked_claims_def claims_of_def struct_view_def no_repeats_def need_def test_claims_def

lemma test_nonces:
  "standard_hex P \<Longrightarrow> hex_decode P (repeated ''11'' 32) = Some (replicate 32 17)"
  "standard_hex P \<Longrightarrow> hex_decode P (repeated ''44'' 32) = Some (replicate 32 68)"
  by (simp_all add: standard_hex_def demo_hex_repeated nibble_val_def)

lemma overall_token_test:
  assumes "standard_hex P" "jwt_library P sign_claims key"
  shows "verifies_the_signed_overall_token P sign_claims"
  using jwt_libraryD(7,8) [OF assms(2)] test_nonces [OF assms(1)]
  by (simp add: verifies_the_signed_overall_token_def decode_nras_overall_attestation_jwt_def first_of_def
      signed_token [OF assms(2)] reading_claims Let_def)

lemma envelope_test: "rejects_an_invalid_nras_jwt_envelope"
  by (simp add: rejects_an_invalid_nras_jwt_envelope_def decode_nras_overall_attestation_jwt_def first_of_def
      invalid_nras_response_def)

lemma unacceptable_claims_test:
  assumes "standard_hex P" "jwt_library P sign_claims key"
  shows "rejects_unacceptable_signed_claims P sign_claims"
  using jwt_libraryD(7,8) [OF assms(2)] test_nonces [OF assms(1)]
  by (simp add: rejects_unacceptable_signed_claims_def signed_token [OF assms(2)] reading_claims Let_def map_jwt_error_def
      jwt_failure_def nvidia_issuer_def)

lemma modified_signature_test:
  assumes "jwt_library P sign_claims key"
  shows "rejects_a_modified_signature_and_unknown_key P sign_claims"
  using jwt_libraryD [OF assms]
  by (simp add: rejects_a_modified_signature_and_unknown_key_def verify_nras_jwt_def test_key map_jwt_error_def
      jwt_failure_def)

lemma unsigned_token_test:
  assumes "standard_hex P" "jwt_library P sign_claims key"
  shows "rejects_an_unsigned_token_and_a_signed_false_verdict P sign_claims"
proof -
  have "verify_nras_jwt P ''eyJhbGciOiJub25lIn0.e30.'' test_jwks nonce = fail (NvidiaJwtVerificationFailed ''invalid_claims'')" for nonce
    using jwt_libraryD(2) [OF assms(2)]
    by (simp add: verify_nras_jwt_def map_jwt_error_def jwt_failure_def)
  then show ?thesis
    using jwt_libraryD(7,8) [OF assms(2)] test_nonces [OF assms(1)]
    by (simp add: rejects_an_unsigned_token_and_a_signed_false_verdict_def signed_token [OF assms(2)] reading_claims
        Let_def)
qed

lemma endpoint_test: "uses_the_official_nras_and_jwks_endpoints_by_default"
  by (simp add: uses_the_official_nras_and_jwks_endpoints_by_default_def nras_verifier_default_def
      nras_verifier_new_def with_client_def default_nvidia_nras_url_def default_nvidia_jwks_url_def Let_def)

section \<open>The adapter against a server\<close>

lemma payload_textsD:
  assumes "payload_texts P"
  shows "json_parse P (as_bytes (json_print P j)) = Some j" "json_parse P (as_bytes ''{'') = None"
    "json_parse P (as_bytes ''{}'') = Some (JObj [])" "json_parse P (as_bytes ''null'') = Some JNull"
    "json_parse P (as_bytes (''{'' @ quoted ''nonce'' @ '': 1}'')) = Some (JObj [(''nonce'', JNum ''1'')])"
    "json_parse P (as_bytes opaque_payload) = Some (JObj [(''evidence'', JArr [JStr ''opaque'']),
       (''nonce'', JStr (''0X'' @ repeated ''AB'' 32))])"
  using assms by (simp_all only: payload_texts_def json_roundtrip_def)

lemma decode_hex_update [simp]: "decode_hex (P\<lparr>http_send := server\<rparr>) = decode_hex P"
  "require_hex_length (P\<lparr>http_send := server\<rparr>) = require_hex_length P"
  by (simp_all add: fun_eq_iff decode_hex_def require_hex_length_def)

lemma verify_nras_jwt_update [simp]: "verify_nras_jwt (P\<lparr>http_send := server\<rparr>) = verify_nras_jwt P"
  by (simp add: fun_eq_iff verify_nras_jwt_def)

lemma replied_simps [simp]: "whole_body (replied status body) = Some body" "rs_status (replied status body) = status"
  by (simp_all add: whole_body_def replied_def)

lemma proxy_test:
  assumes "standard_hex P" "jwt_library P sign_claims key" "payload_texts P" "jwks_decode P keys = Some test_jwks"
  shows "verifies_proxy_responses_with_custom_nras_and_jwks_urls_and_a_fixed_issuer P sign_claims keys uri"
  using jwt_libraryD(7,8) [OF assms(2)] test_nonces [OF assms(1)] payload_textsD(1) [OF assms(3)] hex_texts [OF assms(1)]
    assms(4)
  by (simp add: verifies_proxy_responses_with_custom_nras_and_jwks_urls_and_a_fixed_issuer_def nras_verify_def
      with_jwks_url_def with_client_def attesting_proxy_def post_evidence_def get_plain_def require_hex_length_def
      decode_nras_overall_attestation_jwt_def first_of_def signed_token [OF assms(2)] reading_claims
      Let_def map_jwt_error_def jwt_failure_def nvidia_issuer_def is_success_def)

lemma unchanged_payload_test:
  assumes "standard_hex P" "payload_texts P"
  shows "submits_the_unchanged_payload_to_the_custom_endpoint P uri"
  using payload_textsD(1,6) [OF assms(2)] hex_texts(6) [OF assms(1)]
  by (simp add: submits_the_unchanged_payload_to_the_custom_endpoint_def nras_verify_def nras_verifier_new_def
      with_client_def opaque_proxy_def post_evidence_def header_get_def require_hex_length_def
      decode_nras_overall_attestation_jwt_def invalid_nras_response_def is_success_def del: append.simps as_bytes_simps)

lemma odd_hex: "odd (length s) \<Longrightarrow> demo_hex_decode s = None"
  by (induction s rule: demo_hex_decode.induct) (auto split: option.splits)

lemma payload_nonce_test:
  assumes "standard_hex P" "payload_texts P"
  shows "rejects_invalid_payload_nonces_before_contacting_the_custom_endpoint P server uri"
proof -
  have "decode_hex P (repeated ''1'' 63) = hex_decode P (repeated ''1'' 63)"
    by (simp add: decode_hex_def strip_prefix_def repeated_def numeral_eq_Suc)
  then have odd: "decode_hex P (repeated ''1'' 63) = None"
    using assms(1) by (simp add: standard_hex_def odd_hex)
  have "demo_hex_decode (repeated ''GG'' 32) = None"
    by (simp add: repeated_def numeral_eq_Suc nibble_val_def)
  then have letters: "decode_hex P (repeated ''GG'' 32) = None"
    using assms(1) by (simp add: standard_hex_def decode_hex_def strip_prefix_def repeated_def numeral_eq_Suc)
  have empty: "decode_hex P [] = Some []"
    using assms(1) by (simp add: standard_hex_def decode_hex_def strip_prefix_def)
  show ?thesis
    using payload_textsD [OF assms(2)] hex_texts [OF assms(1)] odd letters empty
    by (simp add: rejects_invalid_payload_nonces_before_contacting_the_custom_endpoint_def nras_verify_def
        require_hex_length_def Let_def del: append.simps as_bytes_simps)
qed

end
