(* ===== verification/Unit_Provenance.thy ===== *)
theory Unit_Provenance
  imports Unit_Support Provenance
begin

text \<open>
  The unit tests of \<open>provenance.rs\<close> as predicates, and the lemmas that the model passes them: source
  claims of certificates, SLSA statements, pages and cursors. The DER encoder of the tests is an argument.
  A mock server answers as a function of the request; how often these tests ask it is left out.
\<close>

section \<open>Source claims of certificates\<close>

definition commit_text :: string where
  "commit_text = ''8e07c3583909c9ab9da94d883e87add1ae90832d''"

definition manager_policy :: image_provenance_policy where
  "manager_policy = image_provenance_policy_new ''nearai/compose-manager'' ''.github/workflows/build.yml''"

definition raw_extension :: "string \<Rightarrow> string \<Rightarrow> extension" where
  "raw_extension oid v = (oid, as_bytes v)"

definition text_extension :: "(string \<Rightarrow> bytes) \<Rightarrow> string \<Rightarrow> string \<Rightarrow> extension" where
  "text_extension to_der oid v = (oid, to_der v)"

definition legacy_extensions :: "extension list" where
  "legacy_extensions = [raw_extension github_workflow_repository ''nearai/compose-manager'',
     raw_extension github_workflow_ref ''refs/heads/master'', raw_extension github_workflow_sha commit_text]"

definition extracts_source_repository_and_ref_with_independent_legacy_fallback ::
  "'z provenance_prims_scheme \<Rightarrow> (string \<Rightarrow> bytes) \<Rightarrow> bool" where
  "extracts_source_repository_and_ref_with_independent_legacy_fallback P to_der \<longleftrightarrow>
     list_all (\<lambda>extensions. unwraps (\<lambda>source. src_git_ref source = ''refs/heads/master'' \<and> src_commit source = commit_text)
         (source_extensions P extensions manager_policy))
       [[text_extension to_der source_repository_uri ''https://github.com/nearai/compose-manager'',
         text_extension to_der source_repository_ref ''refs/heads/master'',
         text_extension to_der source_repository_digest commit_text,
         raw_extension github_workflow_repository ''ignored/legacy'',
         raw_extension github_workflow_ref ''refs/heads/ignored''],
        legacy_extensions,
        text_extension to_der source_repository_uri ''https://github.com/nearai/compose-manager'' # tl legacy_extensions]"

definition rejects_missing_or_malformed_source_identity_without_legacy_downgrade ::
  "'z provenance_prims_scheme \<Rightarrow> (string \<Rightarrow> bytes) \<Rightarrow> bool" where
  "rejects_missing_or_malformed_source_identity_without_legacy_downgrade P to_der \<longleftrightarrow>
     list_all (\<lambda>modern. fails_as (\<lambda>e. e = SourceMismatch)
         (source_extensions P (legacy_extensions @ [modern]) manager_policy))
       [raw_extension source_repository_uri ''https://github.com/nearai/compose-manager'',
        text_extension to_der source_repository_uri ''https://github.com/another/repository'',
        text_extension to_der source_repository_uri [],
        raw_extension source_repository_ref ''refs/heads/master'',
        text_extension to_der source_repository_ref ''master'',
        text_extension to_der source_repository_ref []]
     \<and> list_all (\<lambda>missing. fails_as (\<lambda>e. e = SourceMismatch)
         (source_extensions P (filter (\<lambda>(oid, _). oid \<noteq> missing) legacy_extensions) manager_policy))
       [github_workflow_repository, github_workflow_ref]"

definition to_upper :: "string \<Rightarrow> string" where
  "to_upper = map (\<lambda>c. if is_lower c then char_of ((of_char c :: nat) - 32) else c)"

definition extracts_the_certificate_source_digest_with_legacy_fallback ::
  "'z provenance_prims_scheme \<Rightarrow> (string \<Rightarrow> bytes) \<Rightarrow> bool" where
  "extracts_the_certificate_source_digest_with_legacy_fallback P to_der \<longleftrightarrow>
     (let modern = text_extension to_der source_repository_digest;
          legacy = raw_extension github_workflow_sha commit_text;
          signer = text_extension to_der ''1.3.6.1.4.1.57264.1.10'' (repeated ''b'' 40);
          config = (''1.3.6.1.4.1.57264.1.19'', snd signer)
      in list_all (\<lambda>(extensions, expected). source_commit_extension P extensions = expected)
        [([modern (to_upper commit_text), raw_extension github_workflow_sha ''not-the-source'', signer, config],
            Inr commit_text),
         ([legacy], Inr commit_text),
         ([raw_extension source_repository_digest commit_text, legacy], fail SourceMismatch),
         ([modern ''not-a-sha'', legacy], fail SourceMismatch),
         ([signer, config], fail SourceMismatch),
         ([], fail SourceMismatch)])"

section \<open>SLSA statements\<close>

definition requires_certificate_source_commit_even_when_statement_matches_pin ::
  "'z provenance_prims_scheme \<Rightarrow> (string \<Rightarrow> bytes) \<Rightarrow> bool" where
  "requires_certificate_source_commit_even_when_statement_matches_pin P to_der \<longleftrightarrow>
     unwraps (\<lambda>certificate_commit.
       list_all (\<lambda>pin.
         let policy = manager_policy\<lparr>ip_commit := pin\<rparr>;
             provenance = V02 \<lparr>cf_uri = ''git+https://github.com/nearai/compose-manager@refs/heads/master'',
               cf_digest = no_digest\<lparr>sdg_sha1 := Some commit_text\<rparr>, cf_entry_point = ip_workflow policy\<rparr>
         in source_commit provenance policy ''refs/heads/master'' certificate_commit = fail SourceMismatch)
       [None, Some commit_text])
     (source_commit_extension P [text_extension to_der source_repository_digest (repeated ''b'' 40)])"

definition v02_statement :: "(string \<times> json) list" where
  "v02_statement = [(''predicateType'', JStr slsa_v02),
     (''predicate'', JObj [(''invocation'', JObj [(''configSource'', JObj
        [(''uri'', JStr ''git+https://github.com/nearai/compose-manager.git@refs/heads/master''),
         (''entryPoint'', JStr ''.github/workflows/build.yml''),
         (''digest'', JObj [(''sha1'', JStr commit_text)])])])])]"

definition parses_slsa_v02_invoked_source_and_commit :: bool where
  "parses_slsa_v02_invoked_source_and_commit \<longleftrightarrow>
     (case provenance_of v02_statement of
        None \<Rightarrow> False
      | Some provenance \<Rightarrow>
          source_commit provenance manager_policy ''refs/heads/master'' commit_text = Inr (commit_text, slsa_v02))"

definition v1_statement :: "(string \<times> json) list" where
  "v1_statement = [(''predicateType'', JStr slsa_v1),
     (''predicate'', JObj [(''buildDefinition'', JObj
        [(''externalParameters'', JObj [(''workflow'', JObj
            [(''repository'', JStr ''https://github.com/nearai/compose-manager''),
             (''path'', JStr ''.github/workflows/build.yml''), (''ref'', JStr ''refs/heads/master'')])]),
         (''resolvedDependencies'', JArr
            [JObj [(''uri'', JStr ''git+https://github.com/other/repo@refs/heads/main''),
                (''digest'', JObj [(''gitCommit'', JStr (repeated ''a'' 40))])],
             JObj [(''uri'', JStr ''git+https://github.com/nearai/compose-manager@refs/heads/master''),
                (''digest'', JObj [(''gitCommit'', JStr commit_text)])]])])])]"

definition selects_the_exact_slsa_v1_source_instead_of_the_first_dependency :: bool where
  "selects_the_exact_slsa_v1_source_instead_of_the_first_dependency \<longleftrightarrow>
     (case provenance_of v1_statement of
        None \<Rightarrow> False
      | Some provenance \<Rightarrow>
          source_commit provenance manager_policy ''refs/heads/master'' commit_text = Inr (commit_text, slsa_v1)
          \<and> source_commit provenance manager_policy ''refs/heads/feature'' commit_text = fail SourceMismatch)"

section \<open>Pages\<close>

text \<open>A mock page: its status is 200; a chunked one does not announce its length.\<close>

definition mock_page :: "bool \<Rightarrow> headers \<Rightarrow> bytes \<Rightarrow> http_response" where
  "mock_page chunked h body = \<lparr>rs_status = 200, rs_headers = h,
     rs_content_length = (if chunked then None else Some (length body)), rs_chunks = [body], rs_broken = False,
     rs_peer_certificate = None\<rparr>"

definition rejects_oversized_proxy_pages_before_json_parsing :: "'z net_prims_scheme \<Rightarrow> string \<Rightarrow> bool" where
  "rejects_oversized_proxy_pages_before_json_parsing P proxy \<longleftrightarrow>
     list_all (\<lambda>chunked.
       let server = (\<lambda>_ _. Some (mock_page chunked [] (replicate (max_provenance_page_bytes + 1) (byte_of (CHR ''x''))))) in
       fails_as (\<lambda>error. error = BodyTooLarge Res_ImageProvenance \<and> api_code error = ''api.body_too_large''
            \<and> \<not> api_retryable error)
         (fetch_image_provenance_with_options (P\<lparr>http_send := server\<rparr>) ''nearai/compose-manager''
            (''sha256:'' @ repeated ''ab'' 32) \<lparr>pf_github_token = None, pf_github_api_url = Some proxy\<rparr>))
       [False, True]"

text \<open>\<open>fetch_image_provenance_pages(&client, initial, token)\<close>\<close>

definition fetch_pages :: "'z net_prims_scheme \<Rightarrow> url \<Rightarrow> string option \<Rightarrow> string list api" where
  "fetch_pages P initial token = fetch_image_provenance_pages P (default_client\<lparr>hc_proxy := False\<rparr>) initial token initial [] 0 []"

definition limit_page :: string where
  "limit_page = ''{'' @ quoted ''attestations'' @ '':[{'' @ quoted ''bundle'' @ '':{'' @ quoted ''at_limit'' @ '':true}}]}''"

definition at_limit_text :: string where
  "at_limit_text = ''{'' @ quoted ''at_limit'' @ '':true}''"

text \<open>\<open>body.resize(n, b' ')\<close>\<close>

definition padded_to :: "nat \<Rightarrow> string \<Rightarrow> bytes" where
  "padded_to n text = take n (as_bytes text) @ replicate (n - length text) (byte_of (CHR '' ''))"

definition accepts_provenance_page_at_the_exact_byte_limit :: "'z net_prims_scheme \<Rightarrow> url \<Rightarrow> bool" where
  "accepts_provenance_page_at_the_exact_byte_limit P uri \<longleftrightarrow>
     (let server = (\<lambda>_ _. Some (mock_page False [] (padded_to max_provenance_page_bytes limit_page))) in
      unwraps (\<lambda>bundles. bundles = [at_limit_text]) (fetch_pages (P\<lparr>http_send := server\<rparr>) uri None))"

definition counted_page :: "nat \<Rightarrow> json" where
  "counted_page count = JObj [(''attestations'', JArr (replicate count (JObj [(''bundle'', JObj [])])))]"

definition bounds_attestation_count_per_page :: "'z net_prims_scheme \<Rightarrow> url \<Rightarrow> bool" where
  "bounds_attestation_count_per_page P uri \<longleftrightarrow>
     list_all (\<lambda>count.
       let server = (\<lambda>_ _. Some (mock_page False [] (as_bytes (json_print P (counted_page count)))));
           result = fetch_pages (P\<lparr>http_send := server\<rparr>) uri None
       in if count = 100 then unwraps (\<lambda>bundles. length bundles = count) result
          else fails_as (\<lambda>e. api_code e = ''api.invalid_response'') result)
       [100, 101]"

section \<open>Cursors\<close>

definition malformed_links :: "string list" where
  "malformed_links =
     [''<not-a-url>; rel='' @ quoted ''next'',
      ''<https://api.github.com/attestations?per_page=100>; rel='' @ quoted ''next'',
      ''<https://api.github.com/attestations?after=>; rel='' @ quoted ''next'',
      ''<https://api.github.com/attestations?after=a&before=b>; rel='' @ quoted ''next'']"

definition rejects_malformed_or_missing_next_cursors :: "'z net_prims_scheme \<Rightarrow> bool" where
  "rejects_malformed_or_missing_next_cursors P \<longleftrightarrow>
     (case url_parse P ''https://api.github.com/attestations?per_page=100'' of
        None \<Rightarrow> False
      | Some initial \<Rightarrow>
          list_all (\<lambda>link. fails_as (invalid_at ''Link'') (next_attestation_page P initial (header_insert ''link'' link [])))
            malformed_links
          \<and> unwraps (\<lambda>next. next = None) (next_attestation_page P initial
              (header_insert ''link'' (''<https://api.github.com/attestations?before=a>; rel='' @ quoted ''prev'') [])))"

section \<open>The crates\<close>

text \<open>A DER \<open>UTF8String\<close> starts with its tag, 0x0C, and reads back.\<close>

definition der_texts :: "'z provenance_prims_scheme \<Rightarrow> (string \<Rightarrow> bytes) \<Rightarrow> bool" where
  "der_texts P to_der \<longleftrightarrow> (\<forall>s. utf8_string_from_der P (to_der s) = Some s)
     \<and> (\<forall>b bs. b \<noteq> 0x0C \<longrightarrow> utf8_string_from_der P (b # bs) = None)"

definition proxy_texts :: "'z net_prims_scheme \<Rightarrow> string \<Rightarrow> bool" where
  "proxy_texts P proxy \<longleftrightarrow>
     (\<exists>u v. url_parse P proxy = Some u \<and> u_scheme u = ''http'' \<and> u_host u \<noteq> None \<and> u_username u = []
        \<and> u_password u = None \<and> u_query u = None \<and> u_fragment u = None
        \<and> url_parse P (trim_end_matches (CHR ''/'') (url_text P u) @ ''/repos/'' @ ''nearai/compose-manager'' @ ''/attestations/sha256:''
             @ repeated ''ab'' 32 @ ''?per_page=100'') = Some v)"

definition limit_texts :: "'z net_prims_scheme \<Rightarrow> bool" where
  "limit_texts P \<longleftrightarrow>
     json_document P (padded_to max_provenance_page_bytes limit_page)
       = Some (JObj [(''attestations'', JArr [JObj [(''bundle'', JObj [(''at_limit'', JBool True)])]])])
     \<and> json_print P (JObj [(''at_limit'', JBool True)]) = at_limit_text"

text \<open>A document with one entry too many is a fault of its shape; both are far below the byte limit.\<close>

definition count_texts :: "'z net_prims_scheme \<Rightarrow> bool" where
  "count_texts P \<longleftrightarrow>
     list_all (\<lambda>count. json_document P (as_bytes (json_print P (counted_page count))) = Some (counted_page count)
        \<and> length (json_print P (counted_page count)) \<le> max_provenance_page_bytes) [100, 101]
     \<and> serde_fault P ''GitHubAttestations'' (as_bytes (json_print P (counted_page 101))) \<noteq> None"

definition github_url :: "string option \<Rightarrow> url" where
  "github_url query = \<lparr>u_scheme = ''https'', u_username = [], u_password = None, u_host = Some ''api.github.com'',
     u_port = None, u_path = ''/attestations'', u_query = query, u_fragment = None\<rparr>"

definition cursor_texts :: "'z net_prims_scheme \<Rightarrow> bool" where
  "cursor_texts P \<longleftrightarrow> url_parse P ''not-a-url'' = None
     \<and> list_all (\<lambda>(query, pairs). url_parse P (''https://api.github.com/attestations?'' @ query) = Some (github_url (Some query))
          \<and> url_query_pairs P (github_url (Some query)) = pairs)
        [(''per_page=100'', [(''per_page'', ''100'')]), (''after='', [(''after'', [])]),
         (''after=a&before=b'', [(''after'', ''a''), (''before'', ''b'')])]"

section \<open>The model passes the tests\<close>

lemma raw_not_der:
  assumes "der_texts P to_der"
  shows "utf8_string_from_der P (as_bytes ''https://github.com/nearai/compose-manager'') = None"
    "utf8_string_from_der P (as_bytes ''refs/heads/master'') = None"
    "utf8_string_from_der P (as_bytes commit_text) = None"
    "utf8_string_from_der P (to_der s) = Some s"
  using assms by (simp_all add: der_texts_def commit_text_def byte_of_def)

lemma legacy_texts:
  "from_utf8 (as_bytes ''nearai/compose-manager'') = Some ''nearai/compose-manager''"
  "from_utf8 (as_bytes ''refs/heads/master'') = Some ''refs/heads/master''"
  "from_utf8 (as_bytes commit_text) = Some commit_text"
  by (rule ascii_text, simp add: commit_text_def)+

lemma commit_facts:
  "is_commit commit_text" "to_lower commit_text = commit_text" "is_commit (to_upper commit_text)"
  "to_lower (to_upper commit_text) = commit_text" "\<not> is_commit ''not-a-sha''" "is_commit (repeated ''b'' 40)"
  "to_lower (repeated ''b'' 40) = repeated ''b'' 40" "\<not> eq_ignore_case commit_text (repeated ''b'' 40)"
  by code_simp+

lemmas source_oids = source_repository_uri_def source_repository_digest_def source_repository_ref_def
  github_workflow_sha_def github_workflow_repository_def github_workflow_ref_def

lemma legacy_fallback_test:
  assumes "der_texts P to_der"
  shows "extracts_source_repository_and_ref_with_independent_legacy_fallback P to_der"
  using raw_not_der [OF assms] legacy_texts commit_facts
  by (simp add: extracts_source_repository_and_ref_with_independent_legacy_fallback_def source_extensions_def
      source_extension_def source_commit_extension_def text_extension_def raw_extension_def legacy_extensions_def
      source_oids manager_policy_def image_provenance_policy_new_def starts_with_def strip_prefix_def del: as_bytes_simps)

lemma no_legacy_downgrade_test:
  assumes "der_texts P to_der"
  shows "rejects_missing_or_malformed_source_identity_without_legacy_downgrade P to_der"
  using raw_not_der [OF assms] legacy_texts commit_facts
  by (simp add: rejects_missing_or_malformed_source_identity_without_legacy_downgrade_def source_extensions_def
      source_extension_def source_commit_extension_def text_extension_def raw_extension_def legacy_extensions_def
      source_oids manager_policy_def image_provenance_policy_new_def starts_with_def strip_prefix_def del: as_bytes_simps)

lemma source_digest_test:
  assumes "der_texts P to_der"
  shows "extracts_the_certificate_source_digest_with_legacy_fallback P to_der"
  using raw_not_der [OF assms] legacy_texts commit_facts
  by (simp add: extracts_the_certificate_source_digest_with_legacy_fallback_def source_extension_def
      source_commit_extension_def text_extension_def raw_extension_def source_oids Let_def del: as_bytes_simps)

lemma certificate_commit_test:
  assumes "der_texts P to_der"
  shows "requires_certificate_source_commit_even_when_statement_matches_pin P to_der"
proof -
  have "source_commit_extension P [text_extension to_der source_repository_digest (repeated ''b'' 40)] = Inr (repeated ''b'' 40)"
    using raw_not_der [OF assms] commit_facts by (simp add: source_commit_extension_def source_extension_def text_extension_def)
  moreover have "predicate_commit (V02 \<lparr>cf_uri = ''git+https://github.com/nearai/compose-manager@refs/heads/master'',
        cf_digest = no_digest\<lparr>sdg_sha1 := Some commit_text\<rparr>, cf_entry_point = ip_workflow manager_policy\<rparr>)
      (manager_policy\<lparr>ip_commit := pin\<rparr>) ''refs/heads/master'' = Inr (commit_text, slsa_v02)" for pin
    using commit_facts by (simp add: predicate_commit_def require_source_def github_source_def strip_prefix_def
        strip_suffix_def manager_policy_def image_provenance_policy_new_def filter_commit_def)
  ultimately show ?thesis
    using commit_facts by (simp add: requires_certificate_source_commit_even_when_statement_matches_pin_def source_commit_def)
qed

lemma slsa_tests: "parses_slsa_v02_invoked_source_and_commit"
    "selects_the_exact_slsa_v1_source_instead_of_the_first_dependency"
  by code_simp+

section \<open>Pages of a mock server\<close>

lemma read_mock_page:
  "read_provenance_body (mock_page chunked h body) limit =
     (if length body \<le> limit then Inr body else fail (BodyTooLarge Res_ImageProvenance))"
  by (simp add: read_provenance_body_def read_limited_def mock_page_def)

lemma mock_page_simps [simp]: "rs_status (mock_page chunked h body) = 200" "rs_headers (mock_page chunked h body) = h"
  by (simp_all add: mock_page_def)

lemma no_links [simp]: "next_attestation_page P url [] = Inr None"
  by (simp add: next_attestation_page_def header_get_all_def)

text \<open>A server that answers one page without a next link.\<close>

lemma fetch_one_page:
  assumes "P' = P\<lparr>http_send := \<lambda>_ _. Some (mock_page chunked [] body)\<rparr>"
  shows "fetch_image_provenance_pages P' client original None url [] 0 [] =
     (if length body \<le> max_provenance_page_bytes
      then rbind (decode_attestations P' body) (\<lambda>entries. Inr (map (json_print P') entries))
      else fail (BodyTooLarge Res_ImageProvenance))"
  unfolding assms
  by (subst fetch_image_provenance_pages.simps)
     (simp add: github_get_def github_headers_def read_mock_page is_success_def max_provenance_pages_def
        max_provenance_total_bytes_def max_provenance_page_bytes_def)

lemma oversized_page_test:
  assumes "standard_hex P" "proxy_texts P proxy"
  shows "rejects_oversized_proxy_pages_before_json_parsing P proxy"
proof -
  have "image_hash (''sha256:'' @ repeated ''ab'' 32) = Some (repeated ''ab'' 32)"
    and "valid_repository ''nearai/compose-manager''"
    by code_simp+
  with assms(2) show ?thesis
    by (auto simp: rejects_oversized_proxy_pages_before_json_parsing_def fetch_image_provenance_with_options_def
        github_api_base_def proxy_texts_def fetch_one_page [OF refl] or_else_def simp del: append.simps)
qed

lemma length_padded_to [simp]: "length text \<le> n \<Longrightarrow> length (padded_to n text) = n"
  by (simp add: padded_to_def)

lemma page_limit_test:
  assumes "limit_texts P"
  shows "accepts_provenance_page_at_the_exact_byte_limit P uri"
proof -
  have "length limit_page \<le> max_provenance_page_bytes"
    by (simp add: limit_page_def quoted_def max_provenance_page_bytes_def)
  with assms show ?thesis
    by (simp add: accepts_provenance_page_at_the_exact_byte_limit_def fetch_pages_def fetch_one_page [OF refl]
        decode_attestations_def limit_texts_def github_attestations_of_def struct_view_def no_repeats_def need_def
        deserialize_attestations_def max_provenance_page_entries_def attestation_bundle_of_def)
qed

lemma counted_entries:
  "github_attestations_of (counted_page count) = (if count \<le> 100 then Some (replicate count (JObj [])) else None)"
proof -
  have "all_some (map attestation_bundle_of (replicate n (JObj [(''bundle'', JObj [])]))) = Some (replicate n (JObj []))" for n
    by (induction n) (simp_all add: attestation_bundle_of_def struct_view_def no_repeats_def need_def)
  then show ?thesis
    by (simp add: counted_page_def github_attestations_of_def struct_view_def no_repeats_def need_def
        deserialize_attestations_def max_provenance_page_entries_def)
qed

lemma entry_count_test:
  assumes "count_texts P"
  shows "bounds_attestation_count_per_page P uri"
proof -
  obtain path where "serde_fault P ''GitHubAttestations'' (as_bytes (json_print P (counted_page 101))) = Some path"
    using assms by (auto simp: count_texts_def)
  with assms show ?thesis
    by (simp add: bounds_attestation_count_per_page_def fetch_pages_def fetch_one_page [OF refl] count_texts_def
        decode_attestations_def counted_entries Let_def)
qed

definition single_link :: "string \<Rightarrow> string \<Rightarrow> string \<Rightarrow> bool" where
  "single_link link target relation \<longleftrightarrow>
     header_to_str link = Some link \<and> split_on (CHR '','') link = [link]
     \<and> split_on (CHR '';'') (trim link) = [target, relation] \<and> trim target = target \<and> length link \<le> max_provenance_link_bytes"

lemma page_of_single_link:
  assumes "single_link link target relation"
  shows "next_attestation_page P url (header_insert ''link'' link []) =
     (if is_next_relation relation then rbind (next_page_url P url target) (\<lambda>u. Inr (Some u)) else Inr None)"
proof -
  have "header_get_all ''link'' (header_insert ''link'' link []) = [link]"
    by (simp add: header_get_all_def header_insert_def header_remove_def)
  moreover have "rbind (rbind (next_page_url P url target) (\<lambda>u. Inr (Some u))) (\<lambda>found.
      case found of None \<Rightarrow> Inr None | Some url \<Rightarrow> Inr (Some url)) = rbind (next_page_url P url target) (\<lambda>u. Inr (Some u))"
    by (cases "next_page_url P url target") simp_all
  ultimately show ?thesis
    using assms by (simp add: next_attestation_page_def single_link_def)
qed

definition next_rel :: string where
  "next_rel = '' rel='' @ quoted ''next''"

lemma test_links:
  "single_link (malformed_links ! 0) ''<not-a-url>'' next_rel"
  "single_link (malformed_links ! 1) ''<https://api.github.com/attestations?per_page=100>'' next_rel"
  "single_link (malformed_links ! 2) ''<https://api.github.com/attestations?after=>'' next_rel"
  "single_link (malformed_links ! 3) ''<https://api.github.com/attestations?after=a&before=b>'' next_rel"
  "single_link (''<https://api.github.com/attestations?before=a>; rel='' @ quoted ''prev'')
     ''<https://api.github.com/attestations?before=a>'' ('' rel='' @ quoted ''prev'')"
  "is_next_relation next_rel" "\<not> is_next_relation ('' rel='' @ quoted ''prev'')"
  by code_simp+

lemma next_page_of_bracketed:
  "next_page_url P original (CHR ''<'' # target @ ''>'') =
     rbind (ok_or (pagination_error ''invalid next link URL'')
       (Option.bind (url_parse P target) (\<lambda>u. if u_scheme u \<in> {''http'', ''https''} then Some u else None))) (\<lambda>u.
     let cursors = filter (\<lambda>(name, _). name = ''before'' \<or> name = ''after'') (url_query_pairs P u) in
     rbind (ok_or (pagination_error ''missing next link cursor'')
       (Option.bind (first_of cursors) (\<lambda>(name, v). if v \<noteq> [] then Some (name, v) else None))) (\<lambda>(name, v).
     rbind (ensure (tl cursors = []) (pagination_error ''multiple next link cursors'')) (\<lambda>_.
     let cursor = form_encode P name v in
     rbind (ensure (length cursor \<le> max_provenance_cursor_bytes)
              (pagination_error ''provenance cursor limit exceeded'')) (\<lambda>_.
     Inr (original\<lparr>u_query := Some (''per_page=100&'' @ cursor)\<rparr>)))))"
  by (simp add: next_page_url_def strip_prefix_def strip_suffix_def)

lemma cursor_pages:
  assumes "cursor_texts P"
  shows "fails_as (invalid_at ''Link'') (rbind (next_page_url P url ''<not-a-url>'') f)"
    "fails_as (invalid_at ''Link'') (rbind (next_page_url P url ''<https://api.github.com/attestations?per_page=100>'') f)"
    "fails_as (invalid_at ''Link'') (rbind (next_page_url P url ''<https://api.github.com/attestations?after=>'') f)"
    "fails_as (invalid_at ''Link'') (rbind (next_page_url P url ''<https://api.github.com/attestations?after=a&before=b>'') f)"
  using assms
    next_page_of_bracketed [of P url "''not-a-url''"]
    next_page_of_bracketed [of P url "''https://api.github.com/attestations?per_page=100''"]
    next_page_of_bracketed [of P url "''https://api.github.com/attestations?after=''"]
    next_page_of_bracketed [of P url "''https://api.github.com/attestations?after=a&before=b''"]
  by (simp_all add: cursor_texts_def github_url_def first_of_def pagination_error_def Let_def)

lemma cursor_test:
  assumes "cursor_texts P"
  shows "rejects_malformed_or_missing_next_cursors P"
proof -
  have links: "malformed_links = map ((!) malformed_links) [0, 1, 2, 3]"
    by (simp add: malformed_links_def)
  note rejects = cursor_pages [OF assms]
  have "fails_as (invalid_at ''Link'') (next_attestation_page P url (header_insert ''link'' (malformed_links ! i) []))"
    if "i \<in> {0, 1, 2, 3}" for url i
    using that rejects test_links(1-4,6) by (auto simp: page_of_single_link)
  moreover have "next_attestation_page P url (header_insert ''link''
      (''<https://api.github.com/attestations?before=a>; rel='' @ quoted ''prev'') []) = Inr None" for url
    using page_of_single_link [OF test_links(5)] test_links(7) by simp
  ultimately show ?thesis
    using assms unfolding rejects_malformed_or_missing_next_cursors_def
    by (subst links) (auto simp: cursor_texts_def)
qed

end
