(* ===== verification/Unit_Deployment.thy ===== *)
theory Unit_Deployment
  imports Unit_Support Deployment_Provenance
begin

text \<open>
  The unit tests of \<open>deployment_provenance.rs\<close> as predicates, and the lemmas that the model passes them. The
  YAML texts of the tests are spelled out; what \<open>serde_yaml_ng\<close> reads from them, aliases included, is
  behaviour of the environment stated here.
\<close>

section \<open>The texts\<close>

definition test_digest :: string where
  "test_digest = ''sha256:'' @ repeated ''a'' 64"

definition example_policy :: image_provenance_policy where
  "example_policy = image_provenance_policy_new ''example/source'' ''.github/workflows/build.yml''"

definition test_policies :: image_policies where
  "test_policies = [(''example/app'', example_policy)]"

text \<open>\<open>json!({ "docker_compose_file": yaml }).to_string()\<close>\<close>

definition app_compose_text :: "'z prims_scheme \<Rightarrow> string \<Rightarrow> string" where
  "app_compose_text P yaml = json_print P (JObj [(''docker_compose_file'', JStr yaml)])"

definition text_lines :: "string list \<Rightarrow> string" where
  "text_lines ls = concat (map (\<lambda>l. l @ [CHR 0x0A]) ls)"

section \<open>The tests\<close>

definition merged_yaml :: string where
  "merged_yaml = text_lines
     [''x-app: &app'', ''  image: docker.io/example/app@'' @ test_digest, ''services:'', ''  a: *app'', ''  b:'',
      ''    <<: *app'', ''    image: example/app:release-1@sha256:'' @ repeated ''A'' 64, ''  unrelated:'',
      ''    image: example/other:latest'', ''  empty: {}'', ''  null_image:'', ''    image: null'']"

definition selects_all_pinned_references_with_aliases_merges_and_registry_aliases ::
  "'z provenance_prims_scheme \<Rightarrow> bool" where
  "selects_all_pinned_references_with_aliases_merges_and_registry_aliases P \<longleftrightarrow>
     (let second_policy = example_policy\<lparr>ip_workflow := ''.github/workflows/release.yml''\<rparr>;
          policies = bt_insert ''docker.io/example/app'' second_policy test_policies in
      unwraps (\<lambda>images. length images = 4 \<and> list_all (\<lambda>img. sl_digest img = test_digest) images
           \<and> sl_repository (images ! 0) = ''example/app''
           \<and> ip_workflow (sl_policy (images ! 0)) = ''.github/workflows/release.yml''
           \<and> sl_repository (images ! 2) = ''example/app''
           \<and> ip_workflow (sl_policy (images ! 2)) = ''.github/workflows/build.yml'')
        (select_images P (app_compose_text P merged_yaml) policies))"

fun images_invalid :: "deployment_images_failure_reason \<Rightarrow> verification_error \<Rightarrow> bool" where
  "images_invalid expected (DeploymentImagesInvalid reason _ _) = (reason = expected)"
| "images_invalid _ _ = False"

definition rejects_empty_policies_and_invalid_compose_shapes :: "'z provenance_prims_scheme \<Rightarrow> bool" where
  "rejects_empty_policies_and_invalid_compose_shapes P \<longleftrightarrow>
     fails_as (images_invalid EmptyPolicy) (select_images P ''{}'' [])
     \<and> list_all (\<lambda>(app, expected). fails_as (images_invalid expected) (select_images P app test_policies))
       [(''not JSON'', InvalidAppCompose), (''{}'', InvalidAppCompose),
        (app_compose_text P ''services: ['', InvalidDockerCompose),
        (app_compose_text P ''services: []'', InvalidDockerCompose),
        (app_compose_text P ''services: {app: null}'', InvalidDockerCompose),
        (app_compose_text P ''services: {app: {image: 42}}'', InvalidDockerCompose)]"

definition unpinned_references :: "string list" where
  "unpinned_references = [''example/app'', ''example/app:latest'', ''example/app@sha256:abc'',
     ''example/app:-bad@'' @ test_digest, ''example/app:'' @ [CHR 0xC3, CHR 0xA9] @ ''@'' @ test_digest,
     ''example/app:'' @ repeated ''a'' 129 @ ''@'' @ test_digest]"

definition beside_pinned :: "string \<Rightarrow> string" where
  "beside_pinned reference = text_lines
     [''services:'', ''  valid:'', ''    image: example/app@'' @ test_digest, ''  invalid:'', ''    image: '' @ reference]"

definition rejects_every_unpinned_matching_reference_even_beside_a_pinned_one ::
  "'z provenance_prims_scheme \<Rightarrow> bool" where
  "rejects_every_unpinned_matching_reference_even_beside_a_pinned_one P \<longleftrightarrow>
     list_all (\<lambda>reference.
       fails_as (\<lambda>e. e = DeploymentImagesInvalid ImageNotPinned (Some ''example/app'') (Some ''invalid''))
         (select_images P (app_compose_text P (beside_pinned reference)) test_policies))
       unpinned_references"

definition variable_yaml :: string where
  "variable_yaml = text_lines
     [''services:'', ''  app:'', ''    image: example/app@'' @ test_digest, ''  other:'',
      ''    image: ${OTHER_IMAGE:-example/other:latest}'']"

definition requires_each_repository_and_rejects_variables_in_unrelated_images ::
  "'z provenance_prims_scheme \<Rightarrow> bool" where
  "requires_each_repository_and_rejects_variables_in_unrelated_images P \<longleftrightarrow>
     fails_as (images_invalid ImageMissing)
       (select_images P (app_compose_text P ''services: {app: {image: example/app-extra:latest}}'') test_policies)
     \<and> fails_as (\<lambda>e. case e of DeploymentImagesInvalid reason _ service \<Rightarrow>
            reason = UnresolvedImage \<and> service = Some ''other'' | _ \<Rightarrow> False)
         (select_images P (app_compose_text P variable_yaml) test_policies)"

definition invalid_source_policies :: image_policies where
  "invalid_source_policies = [(''example/app'', example_policy\<lparr>ip_repository := ''invalid''\<rparr>)]"

definition one_app_yaml :: string where
  "one_app_yaml = text_lines [''services:'', ''  app:'', ''    image: example/app@'' @ test_digest]"

definition rejects_unmatched_signer_keys_before_fetch :: "'z provenance_prims_scheme \<Rightarrow> bool" where
  "rejects_unmatched_signer_keys_before_fetch P \<longleftrightarrow>
     list_all (\<lambda>key.
       fails_as (\<lambda>e. case e of Ver_InvalidInput field reason \<Rightarrow>
            field = ''image_signer_identities'' \<and> contains_text reason key | _ \<Rightarrow> False)
         (verify_deployment_image_provenance_with_signer_identities P (app_compose_text P one_app_yaml)
            invalid_source_policies [(key, ''signer'')] None))
       [''example/ap'', ''docker.io/example/app'']"

definition two_images_yaml :: string where
  "two_images_yaml = text_lines
     [''services:'', ''  app:'', ''    image: example/app@'' @ test_digest, ''  other:'', ''    image: example/other:latest'']"

definition validates_all_references_before_fetch_and_preserves_request_errors ::
  "'z provenance_prims_scheme \<Rightarrow> bool" where
  "validates_all_references_before_fetch_and_preserves_request_errors P \<longleftrightarrow>
     (let app = app_compose_text P two_images_yaml;
          other = (''example/other'', example_policy\<lparr>ip_repository := ''invalid''\<rparr>);
          retryable = ImageProvenanceRequestFailed ''example/app'' test_digest (HttpStatus Res_ImageProvenance 503) in
      fails_as (\<lambda>error. images_invalid ImageNotPinned error \<and> ver_code error = ''provenance.deployment_images_invalid'')
        (verify_deployment_image_provenance P app (invalid_source_policies @ [other]) None)
      \<and> fails_as (\<lambda>error. ver_code error = ''provenance.image_request_failed'' \<and> \<not> ver_retryable error
           \<and> (case error of ImageProvenanceRequestFailed image_repository digest (Api_InvalidInput _ _ _ _) \<Rightarrow>
                image_repository = ''example/app'' \<and> digest = test_digest | _ \<Rightarrow> False))
        (verify_deployment_image_provenance P app invalid_source_policies None)
      \<and> ver_retryable retryable)"

section \<open>The crates\<close>

text \<open>
  \<open>reads_yaml P text v\<close>: the text parses and its merge keys resolve to this value. A merged key keeps its
  own value where the mapping has one.
\<close>

definition reads_yaml :: "'z provenance_prims_scheme \<Rightarrow> string \<Rightarrow> yaml \<Rightarrow> bool" where
  "reads_yaml P text v \<longleftrightarrow> Option.bind (yaml_from_str P text) (yaml_apply_merge P) = Some v"

definition with_image :: "string \<Rightarrow> yaml" where
  "with_image img = YMap [(YStr ''image'', YStr img)]"

definition with_services :: "(string \<times> yaml) list \<Rightarrow> yaml" where
  "with_services services = YMap [(YStr ''services'', YMap (map (map_prod YStr id) services))]"

definition pinned_app :: yaml where
  "pinned_app = with_image (''example/app@'' @ test_digest)"

definition yaml_texts :: "'z provenance_prims_scheme \<Rightarrow> bool" where
  "yaml_texts P \<longleftrightarrow>
     reads_yaml P merged_yaml (YMap [(YStr ''x-app'', with_image (''docker.io/example/app@'' @ test_digest)),
          (YStr ''services'', YMap
            [(YStr ''a'', with_image (''docker.io/example/app@'' @ test_digest)),
             (YStr ''b'', with_image (''example/app:release-1@sha256:'' @ repeated ''A'' 64)),
             (YStr ''unrelated'', with_image ''example/other:latest''), (YStr ''empty'', YMap []),
             (YStr ''null_image'', YMap [(YStr ''image'', YNull)])])])
     \<and> Option.bind (yaml_from_str P ''services: ['') (yaml_apply_merge P) = None
     \<and> reads_yaml P ''services: []'' (YMap [(YStr ''services'', YSeq [])])
     \<and> reads_yaml P ''services: {app: null}'' (with_services [(''app'', YNull)])
     \<and> reads_yaml P ''services: {app: {image: 42}}'' (with_services [(''app'', YMap [(YStr ''image'', YNum ''42'')])])
     \<and> list_all (\<lambda>reference. reads_yaml P (beside_pinned reference)
          (with_services [(''valid'', pinned_app), (''invalid'', with_image reference)])) unpinned_references
     \<and> reads_yaml P ''services: {app: {image: example/app-extra:latest}}''
          (with_services [(''app'', with_image ''example/app-extra:latest'')])
     \<and> reads_yaml P variable_yaml
          (with_services [(''app'', pinned_app), (''other'', with_image ''${OTHER_IMAGE:-example/other:latest}'')])
     \<and> reads_yaml P two_images_yaml (with_services [(''app'', pinned_app), (''other'', with_image ''example/other:latest'')])"

text \<open>An input check fails before \<open>fetch_image_provenance\<close> sends anything, and \<open>{:?}\<close> of a plain text quotes it.\<close>

definition document_texts :: "'z provenance_prims_scheme \<Rightarrow> bool" where
  "document_texts P \<longleftrightarrow> document_roundtrip P \<and> json_document P (as_bytes ''not JSON'') = None
     \<and> json_document P (as_bytes ''{}'') = Some (JObj [])
     \<and> list_all (\<lambda>key. debug_text P key = CHR 0x22 # key @ [CHR 0x22]) [''example/ap'', ''docker.io/example/app'']"

section \<open>The model passes the tests\<close>

lemma read_services:
  assumes "reads_yaml P text v"
  shows "compose_services P text = Option.bind (yaml_get v ''services'') yaml_mapping"
  using assms by (cases "yaml_from_str P text") (auto simp: reads_yaml_def compose_services_def)

lemma pinned_facts:
  "pinned_digest (''@'' @ test_digest) = Some test_digest"
  "pinned_digest (''@sha256:'' @ repeated ''a'' 64) = Some test_digest"
  "pinned_digest (CHR ''@'' # test_digest) = Some test_digest"
  "pinned_digest (CHR '':'' # ''release-1@sha256:'' @ repeated ''A'' 64) = Some (''sha256:'' @ repeated ''A'' 64)"
  "to_lower (''sha256:'' @ repeated ''A'' 64) = test_digest" "to_lower test_digest = test_digest"
  "CHR ''$'' \<notin> set test_digest" "CHR ''$'' \<notin> set (repeated ''A'' 64)"
  by code_simp+

lemma unpinned_facts:
  "list_all (\<lambda>reference. CHR ''$'' \<notin> set reference \<and> strip_prefix ''docker.io/'' reference = None
     \<and> (case reference_suffix ''example/app'' reference of None \<Rightarrow> False | Some sfx \<Rightarrow> pinned_digest sfx = None))
     unpinned_references"
  by code_simp

lemma read_with_services:
  assumes "reads_yaml P text (with_services services)"
  shows "compose_services P text = Some (map (map_prod YStr id) services)"
  using assms by (simp add: read_services yaml_get_def with_services_def)

text \<open>The services of each text.\<close>

lemma read_merged:
  assumes "yaml_texts P"
  shows "compose_services P merged_yaml = Some
       [(YStr ''a'', with_image (''docker.io/example/app@'' @ test_digest)),
        (YStr ''b'', with_image (''example/app:release-1@sha256:'' @ repeated ''A'' 64)),
        (YStr ''unrelated'', with_image ''example/other:latest''), (YStr ''empty'', YMap []),
        (YStr ''null_image'', YMap [(YStr ''image'', YNull)])]"
proof -
  have "reads_yaml P merged_yaml (YMap [(YStr ''x-app'', with_image (''docker.io/example/app@'' @ test_digest)),
      (YStr ''services'', YMap
        [(YStr ''a'', with_image (''docker.io/example/app@'' @ test_digest)),
         (YStr ''b'', with_image (''example/app:release-1@sha256:'' @ repeated ''A'' 64)),
         (YStr ''unrelated'', with_image ''example/other:latest''), (YStr ''empty'', YMap []),
         (YStr ''null_image'', YMap [(YStr ''image'', YNull)])])])"
    using assms unfolding yaml_texts_def by blast
  from read_services [OF this] show ?thesis by (simp add: yaml_get_def del: append.simps)
qed

lemma read_texts:
  assumes "yaml_texts P"
  shows "compose_services P ''services: ['' = None" "compose_services P ''services: []'' = None"
    and "compose_services P ''services: {app: null}'' = Some [(YStr ''app'', YNull)]"
    and "compose_services P ''services: {app: {image: 42}}'' = Some [(YStr ''app'', YMap [(YStr ''image'', YNum ''42'')])]"
    and "reference \<in> set unpinned_references \<Longrightarrow> compose_services P (beside_pinned reference)
       = Some [(YStr ''valid'', pinned_app), (YStr ''invalid'', with_image reference)]"
    and "compose_services P ''services: {app: {image: example/app-extra:latest}}''
       = Some [(YStr ''app'', with_image ''example/app-extra:latest'')]"
    and "compose_services P variable_yaml
       = Some [(YStr ''app'', pinned_app), (YStr ''other'', with_image ''${OTHER_IMAGE:-example/other:latest}'')]"
    and "compose_services P two_images_yaml
       = Some [(YStr ''app'', pinned_app), (YStr ''other'', with_image ''example/other:latest'')]"
proof -
  have "Option.bind (yaml_from_str P ''services: ['') (yaml_apply_merge P) = None"
    and seq: "reads_yaml P ''services: []'' (YMap [(YStr ''services'', YSeq [])])"
    and texts: "reads_yaml P ''services: {app: null}'' (with_services [(''app'', YNull)])"
      "reads_yaml P ''services: {app: {image: 42}}'' (with_services [(''app'', YMap [(YStr ''image'', YNum ''42'')])])"
      "reads_yaml P ''services: {app: {image: example/app-extra:latest}}''
          (with_services [(''app'', with_image ''example/app-extra:latest'')])"
      "reads_yaml P variable_yaml
          (with_services [(''app'', pinned_app), (''other'', with_image ''${OTHER_IMAGE:-example/other:latest}'')])"
      "reads_yaml P two_images_yaml (with_services [(''app'', pinned_app), (''other'', with_image ''example/other:latest'')])"
    using assms unfolding yaml_texts_def by blast+
  then show "compose_services P ''services: ['' = None"
    by (simp add: compose_services_def Option.bind_eq_None_conv) auto
  show "compose_services P ''services: []'' = None"
    using read_services [OF seq] by (simp add: yaml_get_def)
  show "compose_services P (beside_pinned reference) = Some [(YStr ''valid'', pinned_app), (YStr ''invalid'', with_image reference)]"
    if "reference \<in> set unpinned_references"
  proof -
    have "reads_yaml P (beside_pinned reference) (with_services [(''valid'', pinned_app), (''invalid'', with_image reference)])"
      using assms that unfolding yaml_texts_def list_all_iff by blast
    from read_with_services [OF this] show ?thesis by simp
  qed
  show "compose_services P ''services: {app: null}'' = Some [(YStr ''app'', YNull)]"
    using read_with_services [OF texts(1)] by simp
  show "compose_services P ''services: {app: {image: 42}}'' = Some [(YStr ''app'', YMap [(YStr ''image'', YNum ''42'')])]"
    using read_with_services [OF texts(2)] by simp
  show "compose_services P ''services: {app: {image: example/app-extra:latest}}''
       = Some [(YStr ''app'', with_image ''example/app-extra:latest'')]"
    using read_with_services [OF texts(3)] by simp
  show "compose_services P variable_yaml
       = Some [(YStr ''app'', pinned_app), (YStr ''other'', with_image ''${OTHER_IMAGE:-example/other:latest}'')]"
    using read_with_services [OF texts(4)] by simp
  show "compose_services P two_images_yaml
       = Some [(YStr ''app'', pinned_app), (YStr ''other'', with_image ''example/other:latest'')]"
    using read_with_services [OF texts(5)] by simp
qed

lemma select_images_text:
  assumes "document_texts P" "policies \<noteq> []"
  shows "select_images P (app_compose_text P text) policies =
     rbind (ok_or (images_error InvalidDockerCompose None None) (compose_services P text)) (\<lambda>services.
     rbind (service_images None services) (select_policies policies))"
  using assms
  by (simp add: select_images_def app_compose_text_def document_texts_def document_roundtrip_def app_compose_of_def
      struct_view_def no_repeats_def need_def select_compose_images_def nonempty_names_def or_else_def)

text \<open>The image of each service as the selection sees it.\<close>

lemma image_services:
  "service_image s (with_image img) =
     (if CHR ''$'' \<in> set img then fail (images_error UnresolvedImage None (Some s))
      else Inr (Some (without_docker_hub img)))"
  "service_image s (YMap []) = Inr None" "service_image s (YMap [(YStr ''image'', YNull)]) = Inr None"
  "service_image s YNull = fail (images_error InvalidDockerCompose None (Some s))"
  "service_image s (YMap [(YStr ''image'', YNum n)]) = fail (images_error InvalidDockerCompose None (Some s))"
  by (simp_all add: service_image_def yaml_get_def with_image_def yaml_null_def)

lemma hub_references:
  "without_docker_hub (''docker.io/example/app@'' @ test_digest) = ''example/app@'' @ test_digest"
  "without_docker_hub (''example/app@'' @ x) = ''example/app@'' @ x"
  "without_docker_hub (''example/app:'' @ x) = ''example/app:'' @ x"
  "without_docker_hub (''example/app:release-1@sha256:'' @ x) = ''example/app:release-1@sha256:'' @ x"
  "without_docker_hub ''example/other:latest'' = ''example/other:latest''"
  "without_docker_hub ''example/app-extra:latest'' = ''example/app-extra:latest''"
  "without_docker_hub ''docker.io/example/app'' = ''example/app''"
  "without_docker_hub ''example/app'' = ''example/app''"
  "without_docker_hub ''example/other'' = ''example/other''"
  by (simp_all add: without_docker_hub_def strip_prefix_def or_else_def)

lemma app_suffixes:
  "reference_suffix ''example/app'' (''example/app@'' @ x) = Some (CHR ''@'' # x)"
  "reference_suffix ''example/app'' (''example/app:'' @ x) = Some (CHR '':'' # x)"
  "reference_suffix ''example/app'' (''example/app:release-1@sha256:'' @ x) = Some (CHR '':'' # ''release-1@sha256:'' @ x)"
  "reference_suffix ''example/app'' ''example/other:latest'' = None"
  "reference_suffix ''example/app'' ''example/app-extra:latest'' = None"
  "reference_suffix ''example/other'' ''example/other:latest'' = Some '':latest''"
  "reference_suffix ''example/other'' (''example/app@'' @ x) = None"
  by (simp_all add: reference_suffix_def strip_prefix_def)

lemma merged_references_test:
  assumes "document_texts P" "yaml_texts P"
  shows "selects_all_pinned_references_with_aliases_merges_and_registry_aliases P"
proof -
  have "bt_insert ''docker.io/example/app'' second test_policies = [(''docker.io/example/app'', second), (''example/app'', example_policy)]" for second
    by (simp add: test_policies_def)
  then show ?thesis
    using pinned_facts read_merged [OF assms(2)]
    by (simp add: selects_all_pinned_references_with_aliases_merges_and_registry_aliases_def
        select_images_text [OF assms(1)] image_services hub_references app_suffixes
        example_policy_def image_provenance_policy_new_def Let_def nth_append del: append.simps to_lower_simps)
qed

lemma policies_nonempty: "test_policies \<noteq> []" "invalid_source_policies \<noteq> []"
  by (simp_all add: test_policies_def invalid_source_policies_def)

lemma compose_shapes_test:
  assumes "document_texts P" "yaml_texts P"
  shows "rejects_empty_policies_and_invalid_compose_shapes P"
proof -
  have "select_images P ''not JSON'' test_policies = fail (images_error InvalidAppCompose None None)"
    "select_images P ''{}'' test_policies = fail (images_error InvalidAppCompose None None)"
    using assms(1) policies_nonempty
    by (simp_all add: select_images_def document_texts_def app_compose_of_def struct_view_def no_repeats_def need_def)
  moreover have "select_images P ''{}'' [] = fail (images_error EmptyPolicy None None)"
    by (simp add: select_images_def)
  ultimately show ?thesis
    using read_texts(1-4) [OF assms(2)]
    by (simp add: rejects_empty_policies_and_invalid_compose_shapes_def select_images_text [OF assms(1) policies_nonempty(1)]
        image_services images_error_def del: append.simps)
qed

lemma image_of_pinned: "service_image s pinned_app = Inr (Some (''example/app@'' @ test_digest))"
  using pinned_facts by (simp add: pinned_app_def image_services hub_references del: append.simps)

lemma select_test_policies:
  "select_policies test_policies images =
     rbind (select_policy ''example/app'' ''example/app'' example_policy images) (\<lambda>selected.
     rbind (ensure (selected \<noteq> []) (images_error ImageMissing (Some ''example/app'') None)) (\<lambda>_. Inr selected))"
  by (simp add: test_policies_def hub_references Let_def)

lemma unpinned_test:
  assumes "document_texts P" "yaml_texts P"
  shows "rejects_every_unpinned_matching_reference_even_beside_a_pinned_one P"
proof -
  have "select_images P (app_compose_text P (beside_pinned reference)) test_policies
      = fail (DeploymentImagesInvalid ImageNotPinned (Some ''example/app'') (Some ''invalid''))"
    if reference: "reference \<in> set unpinned_references" for reference
  proof -
    obtain sfx where facts: "CHR ''$'' \<notin> set reference" "strip_prefix ''docker.io/'' reference = None"
        "reference_suffix ''example/app'' reference = Some sfx" "pinned_digest sfx = None"
      using unpinned_facts reference by (auto simp: list_all_iff split: option.splits)
    then have "service_image ''invalid'' (with_image reference) = Inr (Some reference)"
      by (simp add: image_services without_docker_hub_def or_else_def)
    with facts show ?thesis
      using read_texts(5) [OF assms(2) reference] pinned_facts
      by (simp add: select_images_text [OF assms(1) policies_nonempty(1)] image_of_pinned select_test_policies
          app_suffixes images_error_def del: append.simps)
  qed
  then show ?thesis
    by (simp add: rejects_every_unpinned_matching_reference_even_beside_a_pinned_one_def list_all_iff)
qed

lemma repositories_test:
  assumes "document_texts P" "yaml_texts P"
  shows "requires_each_repository_and_rejects_variables_in_unrelated_images P"
  using read_texts(6,7) [OF assms(2)]
  by (simp add: requires_each_repository_and_rejects_variables_in_unrelated_images_def
      select_images_text [OF assms(1) policies_nonempty(1)] image_services image_of_pinned hub_references
      select_test_policies app_suffixes images_error_def del: append.simps)

lemma signer_keys_test:
  assumes "document_texts P"
  shows "rejects_unmatched_signer_keys_before_fetch P"
proof -
  have "contains_text ((CHR 0x22 # ''example/ap'' @ [CHR 0x22]) @ '' must be an exact key from image_policies'') ''example/ap''"
    "contains_text ((CHR 0x22 # ''docker.io/example/app'' @ [CHR 0x22]) @ '' must be an exact key from image_policies'')
       ''docker.io/example/app''"
    by code_simp+
  with assms show ?thesis
    by (simp add: rejects_unmatched_signer_keys_before_fetch_def
        verify_deployment_image_provenance_with_signer_identities_def
        verify_deployment_image_provenance_with_options_def check_identity_keys_def or_else_def
        invalid_source_policies_def document_texts_def)
qed

lemma two_policies: "[a] @ [b] = [a, b :: string \<times> image_provenance_policy]"
  by simp

lemma references_before_fetch_test:
  assumes "document_texts P" "yaml_texts P"
  shows "validates_all_references_before_fetch_and_preserves_request_errors P"
proof -
  have "pinned_digest '':latest'' = None" by code_simp
  moreover have "valid_repository ''invalid'' = False" by code_simp
  ultimately show ?thesis
    using read_texts(8) [OF assms(2)] pinned_facts
    by (simp add: validates_all_references_before_fetch_and_preserves_request_errors_def
        verify_deployment_image_provenance_def verify_deployment_image_provenance_with_options_def
        check_identity_keys_def or_else_def select_images_text [OF assms(1)] image_services image_of_pinned
        hub_references app_suffixes images_error_def invalid_source_policies_def Let_def
        verify_selected_images_def verify_required_image_provenance_def fetch_image_provenance_with_options_def
        api_input_def example_policy_def image_provenance_policy_new_def two_policies del: append.simps to_lower_simps)
qed

end
