(* ===== verification/Unit_Receipts.thy ===== *)
theory Unit_Receipts
  imports Unit_Reports Response_Cache
begin

text \<open>
  The unit tests of \<open>inference.rs\<close> (\<open>cache_tests\<close>) as predicates, and the lemmas that the model passes them. They
  register a response, put a verification that is already finished into its record and look at what
  \<open>verify_response\<close> returns and keeps. The weak references of the tests upgrade exactly while the record
  holds the captured bytes. A test ends long before an entry expires: its clock stands still.
\<close>

definition fixture_session :: "attestation_client \<Rightarrow> session" where
  "fixture_session api = \<lparr>se_gateway = None, se_models = [], se_selected = None, se_direct = None, se_verified_at = 0,
     se_client = default_client, se_api = Gateway_Api api, se_ohttp = None\<rparr>"

text \<open>The client of the tests: the state after \<open>register\<close>, and the address of the record.\<close>

definition captured_client :: "'z net_prims_scheme \<Rightarrow> nat \<Rightarrow> (response_state \<times> nat) inf" where
  "captured_client P now =
     rbind (lift_api (attestation_client_new P None)) (\<lambda>api.
     case register_response default_client_options now 0 ''receipt''
         \<lparr>ca_request = replicate 1024 1, ca_response = replicate 1024 2, ca_session = fixture_session api,
          ca_gateway_only = False\<rparr> no_responses of
       (registered, s) \<Rightarrow>
         rbind registered (\<lambda>_.
         rbind (expect ''responses[receipt]'' (rp_responses s ''receipt'')) (\<lambda>record.
         Inr (s, record))))"

definition verified_result :: verified_completion where
  "verified_result = \<lparr>vc_id = ''receipt'',
     vc_signature = \<lparr>cs_kind = ProviderTee, cs_signed_text = ''fixture hashes'', cs_signature = ''fixture signature'',
       cs_signer = \<lparr>si_algo = Ed25519, si_address = ''fixture signer''\<rparr>\<rparr>,
     vc_attestation = Att_Direct []\<rparr>"

text \<open>\<open>state.verification = Some(..)\<close>: a future of the test's own, finished or not, in the record's slot.\<close>

definition plant :: "nat \<Rightarrow> verified_completion inf option \<Rightarrow> response_state \<Rightarrow> response_state inf" where
  "plant record result s =
     (let entry = rp_records s ! record in
      rbind (expect ''captured'' (rr_captured entry)) (\<lambda>captured.
      Inr (s\<lparr>rp_futures := rp_futures s @
               [\<lparr>rf_record = record, rf_id = ''receipt'', rf_captured = captured, rf_result = result\<rparr>],
             rp_records := (rp_records s)[record := entry\<lparr>rr_verification := Some (length (rp_futures s))\<rparr>]\<rparr>)))"

text \<open>The last future finishes.\<close>

definition finish_last :: "verified_completion inf \<Rightarrow> response_state \<Rightarrow> response_state" where
  "finish_last result s =
     (let f = length (rp_futures s) - 1 in
      s\<lparr>rp_futures := (rp_futures s)[f := (rp_futures s ! f)\<lparr>rf_result := Some result\<rparr>]\<rparr>)"

text \<open>
  A call of \<open>verify_response\<close> whose future has its result by the time it is awaited: what it returns, if it
  returns, and the state. \<open>meanwhile\<close> is what happens between joining the future and its result.
\<close>

definition verify_receipt ::
  "nat \<Rightarrow> (response_state \<Rightarrow> response_state) \<Rightarrow> response_state \<Rightarrow> verified_completion inf option \<times> response_state" where
  "verify_receipt now meanwhile s =
     (let call = length (rp_callers s);
          s = settle_call call (meanwhile (join_call call (begin_call default_client_options ''receipt'' now s)))
      in (case rp_callers s ! call of Returned _ _ result \<Rightarrow> Some result | _ \<Rightarrow> None, s))"

text \<open>\<open>actual.unwrap().id == expected.id\<close>, or the same with \<open>unwrap_err()\<close> and the codes.\<close>

definition same_outcome :: "verified_completion inf option \<Rightarrow> verified_completion inf \<Rightarrow> bool" where
  "same_outcome actual expected =
     (case actual of
        None \<Rightarrow> False
      | Some result \<Rightarrow> (case expected of
            Inr completion \<Rightarrow> unwraps (\<lambda>v. vc_id v = vc_id completion) result
          | Inl (Err error) \<Rightarrow> fails_as (\<lambda>e. inf_code e = inf_code error) result
          | Inl (Panic _) \<Rightarrow> False))"

definition released :: "nat \<Rightarrow> response_state \<Rightarrow> bool" where
  "released record s \<longleftrightarrow> rr_captured (rp_records s ! record) = None"

definition terminal_results :: "verified_completion inf list" where
  "terminal_results = [Inr verified_result, fail (Verification SignatureSignerMismatch)]"

definition terminal_receipts_release_bytes_and_session_but_keep_result_and_expiry ::
  "'z net_prims_scheme \<Rightarrow> nat \<Rightarrow> bool" where
  "terminal_receipts_release_bytes_and_session_but_keep_result_and_expiry P now \<longleftrightarrow>
     list_all (\<lambda>result. unwraps (\<lambda>(s, record). unwraps (\<lambda>planted.
         let (first, once) = verify_receipt now id planted;
             (second, twice) = verify_receipt now id once;
             (cleared, _) = verify_receipt now id (clear_response_cache twice)
         in same_outcome first result \<and> same_outcome second result \<and> released record twice
            \<and> rr_finished (rp_records twice ! record) = rr_finished (rp_records s ! record)
            \<and> rp_responses twice ''receipt'' = Some record
            \<and> (case cleared of None \<Rightarrow> False
               | Some r \<Rightarrow> fails_as (\<lambda>e. inf_code e = ''api.completion_not_found'') r))
           (plant record (Some result) s)) (captured_client P now))
       terminal_results"

definition terminal_capture_release_cannot_be_cancelled_after_verification ::
  "'z net_prims_scheme \<Rightarrow> nat \<Rightarrow> bool" where
  "terminal_capture_release_cannot_be_cancelled_after_verification P now \<longleftrightarrow>
     list_all (\<lambda>result. unwraps (\<lambda>(s, record). unwraps (\<lambda>planted.
         let (_, dropped) = verify_receipt now (finish_last result) planted;
             (cached, _) = verify_receipt now id dropped
         in rf_result (last (rp_futures dropped)) \<noteq> None \<and> released record dropped \<and> same_outcome cached result)
           (plant record None s)) (captured_client P now))
       terminal_results"

definition retryable_errors :: "inference_error list" where
  "retryable_errors = [Api (HttpStatus Res_CompletionSignature 503),
     Api (CompletionSignatureUnavailable ''fixture'' ''not ready'')]"

definition retryable_receipts_keep_bytes_for_a_later_lookup :: "'z net_prims_scheme \<Rightarrow> nat \<Rightarrow> bool" where
  "retryable_receipts_keep_bytes_for_a_later_lookup P now \<longleftrightarrow>
     list_all (\<lambda>error. unwraps (\<lambda>(s, record). unwraps (\<lambda>planted.
         let (failed, after) = verify_receipt now id planted in
         (case failed of None \<Rightarrow> False | Some r \<Rightarrow> is_error r)
         \<and> rr_verification (rp_records after ! record) = None \<and> \<not> released record after
         \<and> unwraps (\<lambda>replanted.
              let (verified, final) = verify_receipt now id replanted in
              (case verified of None \<Rightarrow> False | Some r \<Rightarrow> unwraps (\<lambda>_. True) r) \<and> released record final)
            (plant record (Some (Inr verified_result)) after))
           (plant record (Some (fail error)) s)) (captured_client P now))
       retryable_errors"

section \<open>The model passes the tests\<close>

lemma captured_client_state:
  assumes "cloud_url_texts P"
  shows "\<exists>captured. captured_client P now = Inr
     (\<lparr>rp_responses = [''receipt'' \<mapsto> 0], rp_records = [\<lparr>rr_finished = now, rr_captured = Some captured, rr_verification = None\<rparr>],
       rp_futures = [], rp_callers = [], rp_generation = 0\<rparr>, 0)"
proof -
  obtain api where "attestation_client_new P None = Inr api"
    using assms
    by (auto simp: attestation_client_new_def parse_base_url_def default_near_ai_cloud_base_url_def cloud_url_texts_def
        cloud_url_def strip_suffix_def strip_prefix_def)
  then show ?thesis
    by (simp add: captured_client_def register_response_def no_responses_def purge_responses_def retain_def
        default_client_options_def put_response_def Let_def)
qed

lemma terminal_not_retryable:
  "result \<in> set terminal_results \<Longrightarrow> \<not> receipt_retryable result"
  by (auto simp: terminal_results_def receipt_retryable_def)

lemma errors_retryable: "error \<in> set retryable_errors \<Longrightarrow> receipt_retryable (fail error :: 'a inf)"
  by (auto simp: retryable_errors_def receipt_retryable_def)

lemma completion_final: "\<not> receipt_retryable (Inr completion)"
  by (simp add: receipt_retryable_def)

lemma same_outcome_refl: "result \<in> set terminal_results \<Longrightarrow> same_outcome (Some result) result"
  by (auto simp: same_outcome_def terminal_results_def)

text \<open>The states of the tests: one record under its id, with the future in its slot and what it holds.\<close>

definition receipt_state ::
  "nat \<Rightarrow> captured_response option \<Rightarrow> nat option \<Rightarrow> receipt_future list \<Rightarrow> receipt_caller list \<Rightarrow> response_state" where
  "receipt_state now captured verification futures callers =
     \<lparr>rp_responses = [''receipt'' \<mapsto> 0],
      rp_records = [\<lparr>rr_finished = now, rr_captured = captured, rr_verification = verification\<rparr>],
      rp_futures = futures, rp_callers = callers, rp_generation = 0\<rparr>"

lemma receipt_state_simps [simp]:
  "rp_callers (receipt_state now captured verification futures callers) = callers"
  "rp_futures (receipt_state now captured verification futures callers) = futures"
  "rp_responses (receipt_state now captured verification futures callers) = [''receipt'' \<mapsto> 0]"
  "rp_records (receipt_state now captured verification futures callers) =
     [\<lparr>rr_finished = now, rr_captured = captured, rr_verification = verification\<rparr>]"
  by (simp_all add: receipt_state_def)

lemma client_of_test:
  assumes "cloud_url_texts P"
  obtains captured where "captured_client P now = Inr (receipt_state now (Some captured) None [] [], 0)"
  using captured_client_state [OF assms, of now] by (auto simp: receipt_state_def)

lemma plant_receipt:
  "plant 0 result (receipt_state now (Some captured) verification futures callers) =
     Inr (receipt_state now (Some captured) (Some (length futures))
       (futures @ [\<lparr>rf_record = 0, rf_id = ''receipt'', rf_captured = captured, rf_result = result\<rparr>]) callers)"
  by (simp add: plant_def receipt_state_def Let_def)

lemma begin_receipt:
  "begin_call default_client_options ''receipt'' now (receipt_state now captured verification futures callers) =
     receipt_state now captured verification futures (callers @ [Looked ''receipt'' 0])"
proof -
  have "retain (\<lambda>a. a = 0) [''receipt'' \<mapsto> 0] = [''receipt'' \<mapsto> (0 :: nat)]"
    by (simp add: retain_def fun_eq_iff)
  then show ?thesis
    by (simp add: begin_call_def lookup_response_def purge_responses_def receipt_state_def default_client_options_def
        elapsed_def retain_def Let_def fun_eq_iff)
qed

lemma join_receipt:
  "join_call (length callers) (receipt_state now captured (Some f) futures (callers @ [Looked ''receipt'' 0])) =
     receipt_state now captured (Some f) futures (callers @ [Awaiting ''receipt'' 0 f])"
  by (simp add: join_call_def join_verification_def set_caller_def receipt_state_def Let_def)

lemma settle_receipt:
  assumes "rf_result (futures ! f) = Some result"
  shows "settle_call (length callers) (receipt_state now captured (Some f) futures (callers @ [Awaiting ''receipt'' 0 f])) =
     receipt_state now (if receipt_retryable result then captured else None)
       (if receipt_retryable result then None else Some f) futures (callers @ [Returned ''receipt'' (Some 0) result])"
  using assms
  by (simp add: settle_call_def settle_verification_def set_caller_def receipt_state_def Let_def)

lemma verify_with:
  assumes "meanwhile (receipt_state now captured (Some f) futures (callers @ [Awaiting ''receipt'' 0 f]))
      = receipt_state now captured (Some f) futures' (callers @ [Awaiting ''receipt'' 0 f])"
    and "rf_result (futures' ! f) = Some result"
  shows "verify_receipt now meanwhile (receipt_state now captured (Some f) futures callers) =
     (Some result, receipt_state now (if receipt_retryable result then captured else None)
        (if receipt_retryable result then None else Some f) futures' (callers @ [Returned ''receipt'' (Some 0) result]))"
  by (simp add: verify_receipt_def begin_receipt join_receipt assms settle_receipt Let_def)

lemma verify_planted:
  assumes "rf_result (futures ! f) = Some result"
  shows "verify_receipt now id (receipt_state now captured (Some f) futures callers) =
     (Some result, receipt_state now (if receipt_retryable result then captured else None)
        (if receipt_retryable result then None else Some f) futures (callers @ [Returned ''receipt'' (Some 0) result]))"
  using assms by (simp add: verify_with)

lemma finish_receipt:
  "finish_last result (receipt_state now captured verification (futures @ [future]) callers) =
     receipt_state now captured verification (futures @ [future\<lparr>rf_result := Some result\<rparr>]) callers"
  by (simp add: finish_last_def receipt_state_def Let_def)

lemma verify_cleared:
  "fst (verify_receipt now id (clear_response_cache (receipt_state now captured verification futures callers)))
     = Some (fail (Api CompletionNotFound))"
  by (simp add: verify_receipt_def clear_response_cache_def begin_call_def lookup_response_def purge_responses_def
      retain_def join_call_def settle_call_def Let_def)

lemma terminal_receipts_test:
  assumes "cloud_url_texts P"
  shows "terminal_receipts_release_bytes_and_session_but_keep_result_and_expiry P now"
proof -
  obtain captured where client: "captured_client P now = Inr (receipt_state now (Some captured) None [] [], 0)"
    using client_of_test [OF assms] .
  show ?thesis
    using same_outcome_refl terminal_not_retryable verify_cleared
    by (auto simp: terminal_receipts_release_bytes_and_session_but_keep_result_and_expiry_def client list_all_iff
        plant_receipt verify_planted released_def case_prod_unfold Let_def)
qed

lemma release_not_cancelled_test:
  assumes "cloud_url_texts P"
  shows "terminal_capture_release_cannot_be_cancelled_after_verification P now"
proof -
  obtain captured where client: "captured_client P now = Inr (receipt_state now (Some captured) None [] [], 0)"
    using client_of_test [OF assms] .
  have "verify_receipt now (finish_last result) (receipt_state now (Some captured) (Some 0) [future] []) =
      (Some result, receipt_state now (if receipt_retryable result then Some captured else None)
        (if receipt_retryable result then None else Some 0) [future\<lparr>rf_result := Some result\<rparr>]
        [Returned ''receipt'' (Some 0) result])" for result future
    using finish_receipt [of result now "Some captured" "Some 0" "[]" future]
      verify_with [of "finish_last result" now "Some captured" 0 "[future]" "[]" "[future\<lparr>rf_result := Some result\<rparr>]" result]
    by simp
  then show ?thesis
    using same_outcome_refl terminal_not_retryable
    by (auto simp: terminal_capture_release_cannot_be_cancelled_after_verification_def client list_all_iff
        plant_receipt verify_planted released_def Let_def)
qed

lemma retryable_receipts_test:
  assumes "cloud_url_texts P"
  shows "retryable_receipts_keep_bytes_for_a_later_lookup P now"
proof -
  obtain captured where client: "captured_client P now = Inr (receipt_state now (Some captured) None [] [], 0)"
    using client_of_test [OF assms] .
  show ?thesis
    using errors_retryable
    by (auto simp: retryable_receipts_keep_bytes_for_a_later_lookup_def client list_all_iff
        plant_receipt verify_planted released_def completion_final Let_def)
qed

end
