(* ===== verification/Unit_Encryption.thy ===== *)
theory Unit_Encryption
  imports Unit_Verifiers Ohttp
begin

text \<open>
  The unit tests of \<open>e2ee.rs\<close> and \<open>ohttp.rs\<close> that replay no recorded ciphertext and hold no live relay, as
  predicates, and the lemmas that the model passes them. Randomness is an argument: \<open>rnd algo i\<close> feeds the
  \<open>i\<close>-th sealing of the suite, and \<open>seed\<close> the reply key.
\<close>

section \<open>Requests (\<open>e2ee.rs\<close>)\<close>

definition both_algos :: "signing_algo list" where
  "both_algos = [Ed25519, Ecdsa]"

definition fixed_key :: "('c, 'z) e2ee_prims_scheme \<Rightarrow> signing_algo \<Rightarrow> response_key \<times> e2ee_model_key" where
  "fixed_key P algo =
     (case response_key_generate P algo (replicate 32 7) of
        (key, public) \<Rightarrow> (key, \<lparr>ek_algo = algo, ek_public_key = public\<rparr>))"

definition rich_request :: json where
  "rich_request = JObj
     [(''model'', JStr ''vendor/model''),
      (''messages'', JArr [JObj
        [(''role'', JStr ''user''), (''name'', JStr ''Alice''),
         (''content'', JArr [JObj [(''type'', JStr ''text''), (''text'', JStr ''secret'')]]),
         (''reasoning'', JStr ''thought''),
         (''tool_calls'', JArr [JObj [(''id'', JStr ''call-1''),
            (''function'', JObj [(''name'', JStr ''run''), (''arguments'', JStr ''{}'')])]])]]),
      (''tools'', JArr [JObj [(''type'', JStr ''function''),
         (''function'', JObj [(''name'', JStr ''run''), (''description'', JStr ''desc''),
            (''parameters'', JObj [(''type'', JStr ''object'')])])]]),
      (''tool_choice'', JObj [(''type'', JStr ''function''), (''function'', JObj [(''name'', JStr ''run'')])]),
      (''temperature'', JNum ''0.5'')]"

text \<open>\<open>value[index]\<close> of an array, and \<open>as_str().unwrap()\<close> passed on.\<close>

definition jnth :: "json \<Rightarrow> nat \<Rightarrow> json" where
  "jnth j i = (case j of JArr xs \<Rightarrow> if i < length xs then xs ! i else JNull | _ \<Rightarrow> JNull)"

definition opens_to :: "('c, 'z) e2ee_prims_scheme \<Rightarrow> response_key \<Rightarrow> bytes \<Rightarrow> string \<Rightarrow> json \<Rightarrow> (string \<Rightarrow> bool) \<Rightarrow> bool" where
  "opens_to P key aad field v test =
     (case as_str v of
        None \<Rightarrow> False
      | Some sealed \<Rightarrow> unwraps test (decrypt_with_aad P key sealed (field_aad aad field)))"

definition encrypts_supported_fields_without_changing_routing_or_unknown_fields ::
  "('c, 'z) e2ee_prims_scheme \<Rightarrow> (signing_algo \<Rightarrow> nat \<Rightarrow> bytes \<times> bytes) \<Rightarrow> bool" where
  "encrypts_supported_fields_without_changing_routing_or_unknown_fields P rnd \<longleftrightarrow>
     list_all (\<lambda>algo. let (key, model) = fixed_key P algo in
       unwraps (\<lambda>aad. unwraps (\<lambda>(body, _).
           let message = jnth (jindex body ''messages'') 0 in
           jindex body ''model'' = JStr ''vendor/model'' \<and> jindex body ''temperature'' = JNum ''0.5''
           \<and> jindex message ''role'' = JStr ''user''
           \<and> opens_to P key aad ''messages[].name'' (jindex message ''name'') (\<lambda>t. t = ''Alice'')
           \<and> opens_to P key aad ''messages[].content'' (jindex message ''content'')
               (\<lambda>t. json_parse P (as_bytes t) = Some (JArr [JObj [(''type'', JStr ''text''), (''text'', JStr ''secret'')]]))
           \<and> opens_to P key aad ''tools[].function.parameters''
               (jindex (jindex (jnth (jindex body ''tools'') 0) ''function'') ''parameters'')
               (\<lambda>t. t = ''{'' @ quoted ''type'' @ '':'' @ quoted ''object'' @ ''}'')
           \<and> jindex (jnth (jindex message ''tool_calls'') 0) ''id'' = JStr ''call-1'')
         (encrypt_request P (rnd algo) model aad rich_request 0))
         (request_aad P algo (ek_public_key model)))
       both_algos"

definition stale_request :: "('c, 'z) e2ee_prims_scheme \<Rightarrow> url \<Rightarrow> client_request" where
  "stale_request P address =
     \<lparr>cr_method = ''POST'', cr_url = address,
      cr_headers = fold (\<lambda>(n, v). header_insert n v)
        [(''content-length'', ''1''), (''x-client-pub-key'', ''attacker''), (''x-encryption-version'', ''99''),
         (''digest'', ''stale'')] [],
      cr_body = Some (as_bytes (json_print P (JObj [(''model'', JStr ''vendor/model''),
        (''messages'', JArr [JObj [(''content'', JStr ''private'')]])])))\<rparr>"

definition each_prepared_request_has_fresh_key_and_replaces_encryption_headers ::
  "('c, 'z) e2ee_prims_scheme \<Rightarrow> bytes \<Rightarrow> bytes \<Rightarrow> (signing_algo \<Rightarrow> nat \<Rightarrow> bytes \<times> bytes) \<Rightarrow> url \<Rightarrow> bool" where
  "each_prepared_request_has_fresh_key_and_replaces_encryption_headers P seed seed' rnd address \<longleftrightarrow>
     list_all (\<lambda>algo. let (_, model) = fixed_key P algo in
       unwraps (\<lambda>a. unwraps (\<lambda>b.
           let headers = cr_headers (pe_request a) in
           header_get ''x-client-pub-key'' headers \<noteq> header_get ''x-client-pub-key'' (cr_headers (pe_request b))
           \<and> \<not> header_contains ''digest'' headers \<and> \<not> header_contains ''content-length'' headers
           \<and> header_get ''x-encryption-version'' headers = Some ''3'')
         (prepare_e2ee_chat_request P seed' (rnd algo) (stale_request P address) model))
         (prepare_e2ee_chat_request P seed (rnd algo) (stale_request P address) model))
       both_algos"

section \<open>Responses (\<open>e2ee.rs\<close>)\<close>

text \<open>\<open>encrypt(value, &model)\<close>: no associated data.\<close>

definition encrypt :: "('c, 'z) e2ee_prims_scheme \<Rightarrow> bytes \<times> bytes \<Rightarrow> string \<Rightarrow> e2ee_model_key \<Rightarrow> string ver" where
  "encrypt P randomness value model = encrypt_with_aad P randomness value model []"

definition decrypts_tools_reasoning_audio_and_logprobs ::
  "('c, 'z) e2ee_prims_scheme \<Rightarrow> (signing_algo \<Rightarrow> nat \<Rightarrow> bytes \<times> bytes) \<Rightarrow> bool" where
  "decrypts_tools_reasoning_audio_and_logprobs P rnd \<longleftrightarrow>
     (let (key, model) = fixed_key P Ed25519 in
      unwraps (\<lambda>sealed. case sealed of [answer, thought, audio, run, arguments, output, word, bytes, other] \<Rightarrow>
        let body = JObj [(''choices'', JArr [JObj
            [(''delta'', JObj
               [(''content'', JStr answer), (''reasoning_content'', JStr thought),
                (''audio'', JObj [(''data'', JStr audio)]),
                (''tool_calls'', JArr [JObj [(''function'', JObj [(''name'', JStr run), (''arguments'', JStr arguments)])]]),
                (''nearai_tool_result'', JObj [(''output'', JStr output)])]),
             (''logprobs'', JObj [(''content'', JArr [JObj
                [(''token'', JStr word), (''bytes'', JStr bytes),
                 (''top_logprobs'', JArr [JObj [(''token'', JStr other)]])]])])]])] in
        unwraps (\<lambda>opened.
          let choice = jnth (jindex opened ''choices'') 0; delta = jindex choice ''delta'' in
          jindex delta ''content'' = JStr ''answer''
          \<and> jindex (jindex delta ''nearai_tool_result'') ''output'' = JStr ''output''
          \<and> jindex (jnth (jindex (jindex choice ''logprobs'') ''content'') 0) ''bytes'' = JArr [JNum ''1'', JNum ''2'', JNum ''3''])
          (decrypt_response P key True body)
      | _ \<Rightarrow> False)
      (traverse (\<lambda>(i, t). encrypt P (rnd Ed25519 i) t model)
         (enumerate 0 [''answer'', ''thought'', ''audio'', ''run'', ''{}'', ''output'', ''word'', ''[1,2,3]'', ''other''])))"

definition v3_validates_rich_content_parts :: "('c, 'z) e2ee_prims_scheme \<Rightarrow> (signing_algo \<Rightarrow> nat \<Rightarrow> bytes \<times> bytes) \<Rightarrow> bool" where
  "v3_validates_rich_content_parts P rnd \<longleftrightarrow>
     list_all (\<lambda>algo. let (key, model) = fixed_key P algo in
       unwraps (\<lambda>sealed.
         let part = JObj [(''type'', JStr ''text''), (''text'', JStr sealed)] in
         list_all (\<lambda>streaming.
           let field = (if streaming then ''delta'' else ''message'');
               body = (\<lambda>parts. JObj [(''choices'', JArr [JObj [(field, JObj [(''content'', JArr parts)])]])]);
               content = (\<lambda>opened. jindex (jindex (jnth (jindex opened ''choices'') 0) field) ''content'')
           in unwraps (\<lambda>opened. content opened = JArr [JObj [(''type'', JStr ''text''), (''text'', JStr ''answer'')]])
                (decrypt_response P key streaming (body [part]))
              \<and> unwraps (\<lambda>opened. content opened = JArr []) (decrypt_response P key streaming (body []))
              \<and> list_all (\<lambda>invalid. fails_as (\<lambda>e. ver_code e = ''e2ee.decryption_failed'')
                  (decrypt_response P key streaming (body [part, invalid])))
                [JStr ''plaintext'', JNum ''0'', JBool True, JNull, JArr [JStr ''nested'']])
         [False, True])
       (encrypt P (rnd algo 0) ''answer'' model))
     both_algos"

definition malformed_choices :: "json list" where
  "malformed_choices =
     [JObj [(''message'', JObj [(''tool_calls'', JObj [(''function'', JObj [(''arguments'', JStr ''plaintext'')])])])],
      JObj [(''message'', JObj [(''tool_calls'', JArr [JNull])])],
      JObj [(''message'', JObj [(''tool_calls'', JArr [JObj [(''function'', JArr [JStr ''plaintext''])]])])],
      JObj [(''message'', JObj [(''audio'', JArr [JObj [(''data'', JStr ''plaintext'')]])])],
      JObj [(''message'', JObj [(''function_call'', JArr [JStr ''plaintext''])])],
      JObj [(''logprobs'', JArr [])],
      JObj [(''logprobs'', JObj [(''content'', JObj [(''token'', JStr ''plaintext'')])])],
      JObj [(''logprobs'', JObj [(''content'', JArr [JNull])])],
      JObj [(''logprobs'', JObj [(''content'', JArr [JObj [(''top_logprobs'', JObj [(''token'', JStr ''plaintext'')])]])])]]"

text \<open>The message moves to \<open>delta\<close>.\<close>

definition as_delta :: "json \<Rightarrow> json" where
  "as_delta choice =
     (case choice of
        JObj kvs \<Rightarrow> (case map_of kvs ''message'' of
            None \<Rightarrow> JObj kvs
          | Some message \<Rightarrow> JObj (bt_insert ''delta'' message (filter (\<lambda>(k, _). k \<noteq> ''message'') kvs)))
      | _ \<Rightarrow> choice)"

definition response_with :: "json \<Rightarrow> json" where
  "response_with choice = JObj [(''choices'', JArr [choice]), (''id'', JStr ''chat-containers'')]"

definition v3_rejects_malformed_response_containers_in_json_and_sse ::
  "('c, 'z) e2ee_prims_scheme \<Rightarrow> url \<Rightarrow> bool" where
  "v3_rejects_malformed_response_containers_in_json_and_sse P address \<longleftrightarrow>
     list_all (\<lambda>algo.
       let key = fst (fixed_key P algo);
           prepared = \<lparr>pe_request = \<lparr>cr_method = ''POST'', cr_url = address, cr_headers = [], cr_body = None\<rparr>,
             pe_key = key\<rparr> in
       list_all (\<lambda>choice.
         is_error (decrypt_json P prepared (as_bytes (json_print P (response_with choice))))
         \<and> (case decrypt_sse P prepared [Inr (as_bytes (''data: '' @ json_print P (response_with (as_delta choice))) @ [10, 10])] of
              ([], end) \<Rightarrow> is_error end
            | _ \<Rightarrow> False))
         malformed_choices
       \<and> unwraps (\<lambda>_. True) (decrypt_response P key True (JObj [(''choices'', JArr [JObj
           [(''delta'', JObj [(''tool_calls'', JArr [JObj [(''index'', JNum ''0''), (''id'', JStr ''call-1'')]]),
              (''audio'', JNull)]), (''logprobs'', JNull)]])])))
     both_algos"

section \<open>The relay (\<open>ohttp.rs\<close>)\<close>

text \<open>A reader over a cursor of zeros.\<close>

definition zeros :: "nat \<Rightarrow> reader" where
  "zeros n = \<lparr>rd_pieces = [replicate n 0], rd_intact = True\<rparr>"

definition padding_counts_toward_message_limit_across_reads :: bool where
  "padding_counts_toward_message_limit_across_reads \<longleftrightarrow>
     (let allowance = chunk_size + 10 in
      list_all (\<lambda>padding.
        let result = drain_padding (message_limit - allowance) (zeros padding) in
        if padding \<le> allowance then unwraps (\<lambda>_. True) result
        else fails_as (\<lambda>e. ver_code e = ''ohttp.decryption_failed'') result)
        [0, allowance, allowance + 1]
      \<and> is_error (drain_padding message_limit (zeros 1)))"

text \<open>The loop returns at the first error, and panics when none came.\<close>

fun capacity_error_within :: "(headers \<Rightarrow> string \<Rightarrow> bool) \<Rightarrow> nat \<Rightarrow> nat \<Rightarrow> headers \<Rightarrow> bool" where
  "capacity_error_within room 0 index headers = False"
| "capacity_error_within room (Suc n) index headers =
     (case insert_field room headers (as_bytes (''x-'' @ decimal index)) (as_bytes ''v'') of
        Inr headers \<Rightarrow> capacity_error_within room n (index + 1) headers
      | Inl (Err _) \<Rightarrow> True
      | Inl (Panic _) \<Rightarrow> False)"

definition excess_header_count_returns_error_without_panicking :: "(headers \<Rightarrow> string \<Rightarrow> bool) \<Rightarrow> bool" where
  "excess_header_count_returns_error_without_panicking room \<longleftrightarrow> capacity_error_within room 40000 0 []"

text \<open>The signing key of the test is its public key and the function that signs.\<close>

definition signed_config_requires_verified_signer_and_rejects_tampering ::
  "('c, 'o, 'z) ohttp_prims_scheme \<Rightarrow> bytes \<Rightarrow> (bytes \<Rightarrow> bytes) \<Rightarrow> bytes \<Rightarrow> bool" where
  "signed_config_requires_verified_signer_and_rejects_tampering P verifying_key sign raw \<longleftrightarrow>
     (let signer = \<lparr>si_algo = Ed25519, si_address = hex_encode P verifying_key\<rparr>;
          attestation = \<lparr>oa_signing_algo = Ed25519, oa_signing_key = si_address signer, oa_key_config = hex_encode P raw,
            oa_signature = hex_encode P (sign raw)\<rparr>;
          tampered = attestation\<lparr>oa_key_config := oa_key_config attestation @ ''00''\<rparr>;
          foreign = tampered\<lparr>oa_signing_key := repeated ''00'' 32\<rparr>
      in unwraps (\<lambda>config. config = raw) (verify_ohttp_key_config P attestation signer)
         \<and> fails_as (\<lambda>e. ver_code e = ''ohttp.signature_invalid'') (verify_ohttp_key_config P tampered signer)
         \<and> fails_as (\<lambda>e. ver_code e = ''ohttp.signer_mismatch'') (verify_ohttp_key_config P foreign signer))"

section \<open>The crates\<close>

text \<open>
  Sealing under the test key succeeds, with nonces of the suite's length, and the key forms a bound header; the
  texts of two small documents.
\<close>

definition sealing :: "('c, 'z) e2ee_prims_scheme \<Rightarrow> (signing_algo \<Rightarrow> nat \<Rightarrow> bytes \<times> bytes) \<Rightarrow> bool" where
  "sealing P rnd \<longleftrightarrow> hex_format P \<and> hex_roundtrip P \<and> aead_laws P \<and> dh_laws P
     \<and> (\<forall>algo i t aad. is_ok (encrypt_with_aad P (rnd algo i) t (snd (fixed_key P algo)) aad)
          \<and> length (snd (rnd algo i)) = nonce_length algo)
     \<and> (\<forall>algo. is_ok (request_aad P algo (ek_public_key (snd (fixed_key P algo)))))"

definition chat_texts :: "'z prims_scheme \<Rightarrow> bool" where
  "chat_texts P \<longleftrightarrow> json_roundtrip P \<and> (\<forall>j. utf8_valid (as_bytes (json_print P j)))
     \<and> json_print P (JObj [(''type'', JStr ''object'')]) = ''{'' @ quoted ''type'' @ '':'' @ quoted ''object'' @ ''}''
     \<and> json_parse P (as_bytes ''[1,2,3]'') = Some (JArr [JNum ''1'', JNum ''2'', JNum ''3''])"

section \<open>The model passes the tests\<close>

lemma test_cipher:
  assumes "sealing P rnd"
  obtains key model cipher where "fixed_key P algo = (key, model)" "ek_algo model = algo"
    and "\<And>i t aad. encrypt_with_aad P (rnd algo i) t model aad = Inr (cipher i t aad)"
    and "\<And>i t aad. utf8_valid (as_bytes t) \<Longrightarrow> decrypt_with_aad P key (cipher i t aad) aad = Inr t"
    and "\<exists>aad. request_aad P algo (ek_public_key model) = Inr aad"
proof -
  obtain key public where gen: "response_key_generate P algo (replicate 32 7) = (key, public)" by fastforce
  define model where "model = \<lparr>ek_algo = algo, ek_public_key = public\<rparr>"
  have fixed: "fixed_key P algo = (key, model)" by (simp add: fixed_key_def gen model_def)
  define cipher where "cipher i t aad = (case encrypt_with_aad P (rnd algo i) t model aad of Inr c \<Rightarrow> c)" for i t aad
  have enc: "encrypt_with_aad P (rnd algo i) t model aad = Inr (cipher i t aad)" for i t aad
  proof -
    have "is_ok (encrypt_with_aad P (rnd algo i) t (snd (fixed_key P algo)) aad)"
      using assms unfolding sealing_def by blast
    then show ?thesis by (auto simp: fixed is_ok_iff cipher_def)
  qed
  have dec: "decrypt_with_aad P key (cipher i t aad) aad = Inr t" if "utf8_valid (as_bytes t)" for i t aad
  proof -
    have "encrypt_with_aad P (fst (rnd algo i), snd (rnd algo i)) t \<lparr>ek_algo = algo, ek_public_key = public\<rparr> aad = Inr (cipher i t aad)"
      using enc [of i t aad] by (simp add: model_def)
    moreover have "length (snd (rnd algo i)) = nonce_length algo" using assms by (simp add: sealing_def)
    moreover have "hex_format P" "hex_roundtrip P" "aead_laws P" "dh_laws P" using assms by (simp_all add: sealing_def)
    ultimately show ?thesis using field_roundtrip_aux [OF _ _ _ _ gen] that by blast
  qed
  have "\<exists>aad. request_aad P algo (ek_public_key model) = Inr aad"
  proof -
    have "is_ok (request_aad P algo (ek_public_key (snd (fixed_key P algo))))"
      using assms unfolding sealing_def by blast
    then show ?thesis by (simp add: fixed is_ok_iff)
  qed
  with that fixed enc dec show ?thesis by (simp add: model_def)
qed

lemma short_utf8:
  "utf8_valid (as_bytes ''Alice'')" "utf8_valid (as_bytes ''answer'')" "utf8_valid (as_bytes ''thought'')"
  "utf8_valid (as_bytes ''audio'')" "utf8_valid (as_bytes ''run'')" "utf8_valid (as_bytes ''{}'')"
  "utf8_valid (as_bytes ''output'')" "utf8_valid (as_bytes ''word'')" "utf8_valid (as_bytes ''[1,2,3]'')"
  "utf8_valid (as_bytes ''other'')"
  "utf8_valid (as_bytes (''{'' @ quoted ''type'' @ '':'' @ quoted ''object'' @ ''}''))"
  by (rule ascii_valid, simp add: quoted_def)+

lemma supported_fields_test:
  assumes "sealing P rnd" "chat_texts P"
  shows "encrypts_supported_fields_without_changing_routing_or_unknown_fields P rnd"
  unfolding encrypts_supported_fields_without_changing_routing_or_unknown_fields_def list_all_iff
proof
  fix algo
  obtain key model cipher aad where model: "fixed_key P algo = (key, model)" and aad: "request_aad P algo (ek_public_key model) = Inr aad"
    and enc: "\<And>i t aad. encrypt_with_aad P (rnd algo i) t model aad = Inr (cipher i t aad)"
    and dec: "\<And>i t aad. utf8_valid (as_bytes t) \<Longrightarrow> decrypt_with_aad P key (cipher i t aad) aad = Inr t"
    using test_cipher [OF assms(1)] by metis
  have "seal P (rnd algo) model a t i = Inr (cipher i t a, i + 1)" for a t i
    by (simp add: seal_def enc)
  then show "let (key, model) = fixed_key P algo in
       unwraps (\<lambda>aad. unwraps (\<lambda>(body, _).
           let message = jnth (jindex body ''messages'') 0 in
           jindex body ''model'' = JStr ''vendor/model'' \<and> jindex body ''temperature'' = JNum ''0.5''
           \<and> jindex message ''role'' = JStr ''user''
           \<and> opens_to P key aad ''messages[].name'' (jindex message ''name'') (\<lambda>t. t = ''Alice'')
           \<and> opens_to P key aad ''messages[].content'' (jindex message ''content'')
               (\<lambda>t. json_parse P (as_bytes t) = Some (JArr [JObj [(''type'', JStr ''text''), (''text'', JStr ''secret'')]]))
           \<and> opens_to P key aad ''tools[].function.parameters''
               (jindex (jindex (jnth (jindex body ''tools'') 0) ''function'') ''parameters'')
               (\<lambda>t. t = ''{'' @ quoted ''type'' @ '':'' @ quoted ''object'' @ ''}'')
           \<and> jindex (jnth (jindex message ''tool_calls'') 0) ''id'' = JStr ''call-1'')
         (encrypt_request P (rnd algo) model aad rich_request 0))
         (request_aad P algo (ek_public_key model))"
    using assms(2) dec short_utf8
    by (simp add: model aad encrypt_request_def rich_request_def at_field_def objects_def encrypt_message_def
        encrypt_content_def field_step_def encrypt_tool_def jindex_def jnth_def opens_to_def chat_texts_def
        json_roundtrip_def quoted_def Let_def)
qed

lemmas opening_responses = decrypt_response_def on_field_def response_objects_def decrypt_choice_def decrypt_message_def
  response_object_def fields_plain_def field_step_def decrypt_logprobs.simps decrypt_bytes_def jindex_def jnth_def

lemma opened_everything_test:
  assumes "sealing P rnd" "chat_texts P"
  shows "decrypts_tools_reasoning_audio_and_logprobs P rnd"
proof -
  obtain key model cipher where model: "fixed_key P Ed25519 = (key, model)"
    and enc: "\<And>i t aad. encrypt_with_aad P (rnd Ed25519 i) t model aad = Inr (cipher i t aad)"
    and dec: "\<And>i t aad. utf8_valid (as_bytes t) \<Longrightarrow> decrypt_with_aad P key (cipher i t aad) aad = Inr t"
    using test_cipher [OF assms(1)] by metis
  show ?thesis
    using assms(2) dec short_utf8
    by (simp add: decrypts_tools_reasoning_audio_and_logprobs_def model encrypt_def enc decrypt_def opening_responses
        chat_texts_def enumerate_eq_zip Let_def)
qed

lemma rich_parts_test:
  assumes "sealing P rnd"
  shows "v3_validates_rich_content_parts P rnd"
  unfolding v3_validates_rich_content_parts_def list_all_iff
proof
  fix algo
  obtain key model cipher where model: "fixed_key P algo = (key, model)"
    and enc: "\<And>i t aad. encrypt_with_aad P (rnd algo i) t model aad = Inr (cipher i t aad)"
    and dec: "\<And>i t aad. utf8_valid (as_bytes t) \<Longrightarrow> decrypt_with_aad P key (cipher i t aad) aad = Inr t"
    using test_cipher [OF assms(1)] by metis
  show "let (key, model) = fixed_key P algo in
       unwraps (\<lambda>sealed.
         let part = JObj [(''type'', JStr ''text''), (''text'', JStr sealed)] in
         \<forall>streaming \<in> set [False, True].
           let field = (if streaming then ''delta'' else ''message'');
               body = (\<lambda>parts. JObj [(''choices'', JArr [JObj [(field, JObj [(''content'', JArr parts)])]])]);
               content = (\<lambda>opened. jindex (jindex (jnth (jindex opened ''choices'') 0) field) ''content'')
           in unwraps (\<lambda>opened. content opened = JArr [JObj [(''type'', JStr ''text''), (''text'', JStr ''answer'')]])
                (decrypt_response P key streaming (body [part]))
              \<and> unwraps (\<lambda>opened. content opened = JArr []) (decrypt_response P key streaming (body []))
              \<and> (\<forall>invalid \<in> set [JStr ''plaintext'', JNum ''0'', JBool True, JNull, JArr [JStr ''nested'']].
                  fails_as (\<lambda>e. ver_code e = ''e2ee.decryption_failed'')
                  (decrypt_response P key streaming (body [part, invalid]))))
       (encrypt P (rnd algo 0) ''answer'' model)"
    using dec short_utf8
    by (simp add: model encrypt_def enc decrypt_def opening_responses decryption_failed_def protocol_def Let_def)
qed

text \<open>Two reply keys, fresh when their public keys differ.\<close>

definition fresh_keys :: "('c, 'z) e2ee_prims_scheme \<Rightarrow> bytes \<Rightarrow> bytes \<Rightarrow> bool" where
  "fresh_keys P seed seed' \<longleftrightarrow>
     (\<forall>algo. is_ok (request_aad P algo (snd (response_key_generate P algo seed)))
        \<and> is_ok (request_aad P algo (snd (response_key_generate P algo seed')))
        \<and> snd (response_key_generate P algo seed) \<noteq> snd (response_key_generate P algo seed'))"

lemma visible_hex:
  assumes "hex_format P"
  shows "header_from_str (hex_encode P b) = Some (hex_encode P b)"
proof -
  have "visible_ascii c" if "is_hexdigit c" for c
    using that by (auto simp: is_hexdigit_def is_digit_def visible_ascii_def)
  with assms show ?thesis
    by (auto simp: hex_format_def header_from_str_def list_all_iff)
qed

lemma reply_key_text: "\<exists>b. snd (response_key_generate P algo seed) = hex_encode P b"
  by (cases algo) (auto simp: response_key_generate_def)

lemma prepared_headers:
  assumes "sealing P rnd" "json_roundtrip P" "is_ok (request_aad P algo (snd (response_key_generate P algo seed)))"
  obtains request where "prepare_e2ee_chat_request P seed (rnd algo) (stale_request P address) (snd (fixed_key P algo)) = Inr request"
    and "header_get ''x-client-pub-key'' (cr_headers (pe_request request)) = Some (snd (response_key_generate P algo seed))"
    and "\<not> header_contains ''digest'' (cr_headers (pe_request request))"
    and "\<not> header_contains ''content-length'' (cr_headers (pe_request request))"
    and "header_get ''x-encryption-version'' (cr_headers (pe_request request)) = Some ''3''"
proof -
  obtain key model cipher where model: "fixed_key P algo = (key, model)" "ek_algo model = algo"
    and enc: "\<And>i t aad. encrypt_with_aad P (rnd algo i) t model aad = Inr (cipher i t aad)"
    using test_cipher [OF assms(1)] by metis
  obtain reply public where reply: "response_key_generate P algo seed = (reply, public)" by fastforce
  obtain aad where aad: "request_aad P algo public = Inr aad"
    using assms(3) by (auto simp: reply is_ok_iff)
  have hex: "hex_format P" using assms(1) by (simp add: sealing_def)
  have "header_from_str public = Some public"
    using reply_key_text [of P algo seed] visible_hex [OF hex] by (auto simp: reply)
  moreover have "ek_public_key model = snd (response_key_generate P algo (replicate 32 7))"
    using model by (cases model) (auto simp: fixed_key_def split: prod.splits)
  then have "header_from_str (ek_public_key model) = Some (ek_public_key model)"
    using reply_key_text [of P algo "replicate 32 7"] visible_hex [OF hex] by metis
  moreover have "header_from_str (signing_algo_name algo) = Some (signing_algo_name algo)"
    by (cases algo) (simp_all add: signing_algo_name_def header_from_str_def visible_ascii_def)
  moreover have "header_from_str ''application/json'' = Some ''application/json''" "header_from_str ''true'' = Some ''true''"
    by (simp_all add: header_from_str_def visible_ascii_def)
  moreover have "seal P (rnd algo) model a t i = Inr (cipher i t a, i + 1)" for a t i
    by (simp add: seal_def enc)
  ultimately show ?thesis
    using assms(2) that
    by (simp add: prepare_e2ee_chat_request_def stale_request_def decode_request_def json_roundtrip_def model reply aad
        encrypt_request_def at_field_def objects_def encrypt_message_def encrypt_content_def field_step_def
        remove_e2ee_headers_def e2ee_headers_def stale_body_headers_def Let_def)
qed

lemma fresh_key_test:
  assumes "sealing P rnd" "json_roundtrip P" "fresh_keys P seed seed'"
  shows "each_prepared_request_has_fresh_key_and_replaces_encryption_headers P seed seed' rnd address"
  unfolding each_prepared_request_has_fresh_key_and_replaces_encryption_headers_def list_all_iff
proof
  fix algo
  have fresh: "is_ok (request_aad P algo (snd (response_key_generate P algo seed)))"
    "is_ok (request_aad P algo (snd (response_key_generate P algo seed')))"
    "snd (response_key_generate P algo seed) \<noteq> snd (response_key_generate P algo seed')"
    using assms(3) unfolding fresh_keys_def by blast+
  obtain a where a: "prepare_e2ee_chat_request P seed (rnd algo) (stale_request P address) (snd (fixed_key P algo)) = Inr a"
    "header_get ''x-client-pub-key'' (cr_headers (pe_request a)) = Some (snd (response_key_generate P algo seed))"
    "\<not> header_contains ''digest'' (cr_headers (pe_request a))" "\<not> header_contains ''content-length'' (cr_headers (pe_request a))"
    "header_get ''x-encryption-version'' (cr_headers (pe_request a)) = Some ''3''"
    using prepared_headers [OF assms(1,2) fresh(1)] .
  obtain b where b: "prepare_e2ee_chat_request P seed' (rnd algo) (stale_request P address) (snd (fixed_key P algo)) = Inr b"
    "header_get ''x-client-pub-key'' (cr_headers (pe_request b)) = Some (snd (response_key_generate P algo seed'))"
    using prepared_headers [OF assms(1,2) fresh(2)] .
  show "let (_, model) = fixed_key P algo in
       unwraps (\<lambda>a. unwraps (\<lambda>b.
           let headers = cr_headers (pe_request a) in
           header_get ''x-client-pub-key'' headers \<noteq> header_get ''x-client-pub-key'' (cr_headers (pe_request b))
           \<and> \<not> header_contains ''digest'' headers \<and> \<not> header_contains ''content-length'' headers
           \<and> header_get ''x-encryption-version'' headers = Some ''3'')
         (prepare_e2ee_chat_request P seed' (rnd algo) (stale_request P address) model))
         (prepare_e2ee_chat_request P seed (rnd algo) (stale_request P address) model)"
    by (simp add: case_prod_unfold a b fresh(3) Let_def)
qed

section \<open>Containers\<close>

text \<open>The documents of the test print as plain text on one line, and two texts are no documents.\<close>

definition plain_document :: "'z prims_scheme \<Rightarrow> json \<Rightarrow> bool" where
  "plain_document P j \<longleftrightarrow> list_all (\<lambda>c. 32 \<le> (of_char c :: nat) \<and> (of_char c :: nat) < 127) (json_print P j)"

definition event_texts :: "'z prims_scheme \<Rightarrow> bool" where
  "event_texts P \<longleftrightarrow> json_roundtrip P \<and> json_parse P [] = None \<and> json_parse P (as_bytes ''[DONE]'') = None
     \<and> list_all (\<lambda>choice. plain_document P (response_with (as_delta choice))) malformed_choices"

lemma plain_line:
  assumes "list_all (\<lambda>c. 32 \<le> (of_char c :: nat) \<and> (of_char c :: nat) < 127) js"
  shows "lines ((''data: '' @ js) @ [lf, lf]) = [(''data: '' @ js, [lf]), ([], [lf])]"
proof -
  have "\<forall>c \<in> set (''data: '' @ js). c \<noteq> cr \<and> c \<noteq> lf"
    using assms by (auto simp: list_all_iff)
  then have "ref_lines cr lf [] ((''data: '' @ js) @ [lf, lf]) = ref_lines cr lf ([] @ (''data: '' @ js)) [lf, lf]"
    by (rule ref_lines_plain)
  then show ?thesis by (simp add: lines_ref)
qed

lemma rejected_event:
  assumes texts: "json_roundtrip P" "json_parse P [] = None" "json_parse P (as_bytes ''[DONE]'') = None"
    and plain: "plain_document P body" and body: "is_object body" "jget body ''choices'' \<noteq> None"
    and rejected: "decrypt_response P (pe_key prepared) True body = fail e"
  shows "fst (decrypt_sse P prepared [Inr (as_bytes (''data: '' @ json_print P body) @ [10, 10])]) = []
     \<and> is_error (snd (decrypt_sse P prepared [Inr (as_bytes (''data: '' @ json_print P body) @ [10, 10])]))"
proof -
  define js where "js = json_print P body"
  define event where "event = as_bytes (''data: '' @ js) @ [10, 10 :: byte]"
  have chars: "list_all (\<lambda>c. 32 \<le> (of_char c :: nat) \<and> (of_char c :: nat) < 127) js"
    using plain by (simp add: plain_document_def js_def)
  have parse: "json_parse P (as_bytes js) = Some body"
    using texts(1) by (simp add: json_roundtrip_def js_def)
  then have js: "js \<noteq> []" "js \<noteq> ''[DONE]''" using texts(2,3) by auto
  have bytes: "event = as_bytes ((''data: '' @ js) @ [lf, lf])"
    by (simp add: event_def byte_of_def)
  have "\<forall>x \<in> set (as_bytes (''data: '' @ js)). x \<noteq> 13 \<and> x \<noteq> (10 :: byte)"
  proof -
    have "byte_of c \<noteq> b" if "32 \<le> (of_char c :: nat)" "unat b < 32" for c b
    proof
      assume "byte_of c = b"
      then have "unat (byte_of c) = unat b" by (rule arg_cong)
      with that show False by simp
    qed
    then have "byte_of c \<noteq> 13 \<and> byte_of c \<noteq> 10" if "32 \<le> (of_char c :: nat)" for c
      using that by simp
    with chars show ?thesis by (auto simp: as_bytes_def list_all_iff)
  qed
  then have "ref_records event = [event]"
    unfolding event_def by (rule one_record) simp
  then have stream: "decrypt_sse P prepared [Inr event] = decrypt_records P (pe_key prepared) None [event]"
    using decrypt_sse_from_future [OF sse.init_ok, of P "pe_key prepared" None "[event]"]
    by (simp add: decrypt_sse_def sse_future_init)
  have "from_utf8 event = Some ((''data: '' @ js) @ [lf, lf])"
    unfolding bytes using chars by (intro ascii_text) (auto simp: list_all_iff)
  moreover have "data_values [(''data: '' @ js, [lf]), ([], [lf])] = [js]"
    "event_name [(''data: '' @ js, [lf]), ([], [lf])] = None"
    by (simp_all add: data_values_def event_name_def data_def strip_prefix_def List.map_filter_def first_of_def)
  ultimately have "\<exists>e. transform P event (Some (pe_key prepared)) None False False = fail e"
    using plain_line [OF chars] js parse body rejected
    by (cases "Option.bind (jget body ''id'') as_str") (auto simp: transform_def receipt_of_def join_with.simps Let_def)
  with stream show ?thesis
    by (auto simp: event_def js_def)
qed

lemma malformed_rejected:
  assumes "choice \<in> set malformed_choices"
  shows "\<exists>e. decrypt_response P key False (response_with choice) = fail e"
    and "\<exists>e. decrypt_response P key True (response_with (as_delta choice)) = fail e"
    and "is_object (response_with choice)" "jget (response_with choice) ''choices'' \<noteq> None"
  using assms
  by (auto simp: malformed_choices_def as_delta_def response_with_def opening_responses decryption_failed_def Let_def)

lemma containers_test:
  assumes "event_texts P"
  shows "v3_rejects_malformed_response_containers_in_json_and_sse P address"
proof -
  have texts: "json_roundtrip P" "json_parse P [] = None" "json_parse P (as_bytes ''[DONE]'') = None"
    and plain: "\<And>choice. choice \<in> set malformed_choices \<Longrightarrow> plain_document P (response_with (as_delta choice))"
    using assms by (auto simp: event_texts_def list_all_iff)
  have json: "is_error (decrypt_json P prepared (as_bytes (json_print P (response_with choice))))"
    if "choice \<in> set malformed_choices" for prepared choice
    using malformed_rejected(1) [OF that, of P "pe_key prepared"] malformed_rejected(3) [OF that] texts(1)
    by (auto simp: decrypt_json_def json_roundtrip_def)
  have stream: "case decrypt_sse P prepared [Inr (as_bytes (''data: '' @ json_print P (response_with (as_delta choice))) @ [10, 10])] of
      ([], end) \<Rightarrow> is_error end | _ \<Rightarrow> False"
    if choice: "choice \<in> set malformed_choices" for prepared choice
  proof -
    obtain e where "decrypt_response P (pe_key prepared) True (response_with (as_delta choice)) = fail e"
      using malformed_rejected(2) [OF choice] by blast
    from rejected_event [OF texts plain [OF choice] _ _ this] show ?thesis
      by (auto simp: response_with_def split: prod.split list.split)
  qed
  have valid: "unwraps (\<lambda>_. True) (decrypt_response P key True (JObj [(''choices'', JArr [JObj
      [(''delta'', JObj [(''tool_calls'', JArr [JObj [(''index'', JNum ''0''), (''id'', JStr ''call-1'')]]),
        (''audio'', JNull)]), (''logprobs'', JNull)]])]))" for key
    by (simp add: opening_responses Let_def)
  show ?thesis
    unfolding v3_rejects_malformed_response_containers_in_json_and_sse_def list_all_iff Let_def
    by (intro ballI conjI) (simp_all only: json stream valid)
qed

section \<open>The relay\<close>

lemma padding_test: "padding_counts_toward_message_limit_across_reads"
proof -
  have passes: "drain_padding so_far (zeros n) = Inr u \<longleftrightarrow> n = 0 \<or> so_far + n \<le> message_limit" for so_far n u
    by (simp add: drain_padding_ok zeros_def stream_text_def list_all_iff)
  have fails: "\<exists>reason. drain_padding so_far r = fail (bhttp_error reason)" if "drain_padding so_far r \<noteq> Inr ()" for so_far r
    using that
  proof (induction so_far r rule: drain_padding.induct)
    case (1 so_far r)
    then show ?case
      by (subst drain_padding.simps, subst (asm) (2) drain_padding.simps)
        (auto simp: rbind_def ok_or_def ensure_def split: option.splits prod.splits if_splits)
  qed
  have big: "chunk_size + 10 + 1 \<le> message_limit" by (simp add: chunk_size_def message_limit_def)
  have "unwraps (\<lambda>_. True) (drain_padding (message_limit - (chunk_size + 10)) (zeros n))" if "n \<le> chunk_size + 10" for n
  proof -
    have "message_limit - (chunk_size + 10) + n \<le> message_limit" using that big by linarith
    then have "drain_padding (message_limit - (chunk_size + 10)) (zeros n) = Inr ()" by (simp add: passes)
    then show ?thesis by simp
  qed
  moreover have "fails_as (\<lambda>e. ver_code e = ''ohttp.decryption_failed'') (drain_padding (message_limit - (chunk_size + 10)) (zeros (chunk_size + 10 + 1)))"
    using fails [of "message_limit - (chunk_size + 10)" "zeros (chunk_size + 10 + 1)"]
      passes [of "message_limit - (chunk_size + 10)" "chunk_size + 10 + 1" "()"] big
    by (auto simp: bhttp_error_def protocol_def)
  moreover have "is_error (drain_padding message_limit (zeros 1))"
    using fails [of message_limit "zeros 1"] passes [of message_limit 1 "()"] by auto
  ultimately show ?thesis
    by (simp add: padding_counts_toward_message_limit_across_reads_def Let_def)
qed

text \<open>A \<open>HeaderMap\<close> holds at most 32768 values.\<close>

lemma header_count_test:
  assumes "\<And>h name. room h name \<Longrightarrow> length h < 32768"
  shows "excess_header_count_returns_error_without_panicking room"
proof -
  have "capacity_error_within room n index headers" if "32768 < length headers + n" "length headers \<le> 32768" for n index headers
    using that
  proof (induction n arbitrary: index headers)
    case (Suc n)
    let ?inserted = "insert_field room headers (as_bytes (''x-'' @ decimal index)) (as_bytes ''v'')"
    have total: "\<not> panics ?inserted" by (simp add: insert_field_def)
    show ?case
    proof (cases ?inserted)
      case (Inr headers')
      then have "length headers' = Suc (length headers)" "length headers < 32768"
        using assms by (auto simp: insert_field_def outcome_simps)
      then show ?thesis using Suc Inr by simp
    next
      case (Inl f)
      then show ?thesis using total by (cases f) simp_all
    qed
  qed simp
  then show ?thesis
    by (simp add: excess_header_count_returns_error_without_panicking_def)
qed

lemma signed_config_test:
  assumes "hex_format P" "hex_roundtrip P" "\<And>b. hex_decode P (hex_encode P b @ ''00'') = Some (b @ [0])"
    and "\<And>n. hex_decode P (repeated ''00'' n) = Some (replicate n 0)"
    and "length verifying_key = 32" "verifying_key \<noteq> replicate 32 0" "ed25519_key P verifying_key"
    and "\<And>m. length (sign m) = 64" "\<And>m m'. ed25519_verify_strict P verifying_key m' (sign m) \<longleftrightarrow> m' = m"
  shows "signed_config_requires_verified_signer_and_rejects_tampering P verifying_key sign raw"
proof -
  have tampered: "decode_hex P (hex_encode P b @ ''00'') = Some (b @ [0])" for b
  proof (cases "hex_encode P b")
    case Nil
    then show ?thesis using assms(3) [of b] by (simp add: decode_hex_def strip_prefix_def)
  next
    case (Cons c cs)
    then obtain d ds where cs: "cs = d # ds"
      using assms(1) [unfolded hex_format_def, THEN spec, of b] by (cases cs) auto
    then have "d \<noteq> CHR ''x''" "d \<noteq> CHR ''X''"
      using assms(1) [unfolded hex_format_def, THEN spec, of b] Cons by (auto simp: is_hexdigit_def is_digit_def)
    then show ?thesis
      using assms(3) [of b] Cons cs by (simp add: decode_hex_def strip_prefix_def)
  qed
  have zeros: "decode_hex P (repeated ''00'' 32) = Some (replicate 32 0)"
    using assms(4) [of 32] by (simp add: decode_hex_def strip_prefix_def repeated_def numeral_eq_Suc)
  show ?thesis
    using assms decode_hex_encode [OF assms(1,2)] tampered zeros
    by (simp add: signed_config_requires_verified_signer_and_rejects_tampering_def verify_ohttp_key_config_def
        protocol_def Let_def)
qed

end
