(* ===== verification/Unit_Pages.thy ===== *)
theory Unit_Pages
  imports Unit_Provenance
begin

text \<open>
  The tests of \<open>provenance.rs\<close> that follow next links, as predicates, and the lemmas that the model passes them.
  What these tests assert of the requests a mock received is a restriction on the server: it fails a request beyond
  the expected number, and one whose query is not the asserted one, so a model that sends more or others does not
  get the asserted result.
\<close>

section \<open>Form encoding\<close>

text \<open>
  \<open>form_urlencoded\<close>, which the \<open>url\<close> crate uses for queries: letters, digits and four marks stay, a space
  becomes a plus, any other byte is escaped.
\<close>

definition form_char :: "char \<Rightarrow> string" where
  "form_char c =
     (if is_alnum c \<or> c \<in> set ''*-._'' then [c] else if c = CHR '' '' then ''+''
      else CHR ''%'' # to_upper (demo_hex_encode [byte_of c]))"

definition form_text :: "string \<Rightarrow> string" where
  "form_text v = concat (map form_char v)"

fun percent_decode :: "string \<Rightarrow> string" where
  "percent_decode [] = []"
| "percent_decode (c # cs) =
     (if c = CHR ''+'' then CHR '' '' # percent_decode cs
      else if c = CHR ''%'' then
        (case cs of
           h # l # rest \<Rightarrow>
             (case (nibble_val h, nibble_val l) of
                (Some x, Some y) \<Rightarrow> char_of (16 * x + y) # percent_decode rest
              | _ \<Rightarrow> c # percent_decode cs)
         | _ \<Rightarrow> c # percent_decode cs)
      else c # percent_decode cs)"

definition form_pairs :: "string \<Rightarrow> (string \<times> string) list" where
  "form_pairs q = map (\<lambda>part. case split_once (CHR ''='') part of
       None \<Rightarrow> (percent_decode part, [])
     | Some (name, v) \<Rightarrow> (percent_decode name, percent_decode v))
     (filter (\<lambda>part. part \<noteq> []) (split_on (CHR ''&'') q))"

section \<open>Mock servers\<close>

definition server_uri :: "nat \<Rightarrow> string" where
  "server_uri port = ''http://127.0.0.1:'' @ decimal port"

definition at_server :: "nat \<Rightarrow> string \<Rightarrow> string option \<Rightarrow> url" where
  "at_server port path query = \<lparr>u_scheme = ''http'', u_username = [], u_password = None, u_host = Some ''127.0.0.1'',
     u_port = Some port, u_path = path, u_query = query, u_fragment = None\<rparr>"

definition elsewhere :: "string \<Rightarrow> string \<Rightarrow> string \<Rightarrow> url" where
  "elsewhere host path query = \<lparr>u_scheme = ''https'', u_username = [], u_password = None, u_host = Some host,
     u_port = None, u_path = path, u_query = Some query, u_fragment = None\<rparr>"

text \<open>\<open><target>; rel="next"\<close>\<close>

definition next_link :: "string \<Rightarrow> string" where
  "next_link target = CHR ''<'' # target @ ''>; rel='' @ quoted ''next''"

text \<open>The query pairs of a request's URL.\<close>

definition requested :: "'z net_prims_scheme \<Rightarrow> http_request \<Rightarrow> (url \<times> (string \<times> string) list) option" where
  "requested P request = map_option (\<lambda>u. (u, url_query_pairs P u)) (url_parse P (rq_url request))"

definition ok_page :: string where
  "ok_page = ''{'' @ quoted ''attestations'' @ '':[{'' @ quoted ''bundle'' @ '':{'' @ quoted ''ok'' @ '':true}}]}''"

section \<open>The tests\<close>

text \<open>\<open>find(|(key, _)| key == "after")\<close>, its value as a number, or 1\<close>

definition page_number :: "(string \<times> string) list \<Rightarrow> nat option" where
  "page_number pairs =
     (case List.find (\<lambda>(key, _). key = ''after'') pairs of None \<Rightarrow> Some 1 | Some (_, v) \<Rightarrow> parse_u64 v)"

definition numbered_server ::
  "'z net_prims_scheme \<Rightarrow> string \<Rightarrow> nat \<Rightarrow> nat \<Rightarrow> nat \<Rightarrow> bool \<Rightarrow> http_client \<Rightarrow> http_request \<Rightarrow> http_response option" where
  "numbered_server P base pages page_bytes expected_calls chunked client request =
     Option.bind (if rq_method request = ''GET'' then requested P request else None) (\<lambda>(_, pairs).
     Option.bind (page_number pairs) (\<lambda>page.
     if expected_calls < page then None
     else Some (mock_page chunked
       (if page < pages then header_insert ''link'' (next_link (base @ ''?after='' @ decimal (page + 1))) [] else [])
       (padded_to page_bytes ok_page))))"

definition bounds_entire_provenance_pagination :: "'z net_prims_scheme \<Rightarrow> nat \<Rightarrow> bool" where
  "bounds_entire_provenance_pagination P port \<longleftrightarrow>
     list_all (\<lambda>(pages, page_bytes, expected_calls, error_code).
       list_all (\<lambda>chunked.
         case url_parse P (server_uri port) of
           None \<Rightarrow> False
         | Some initial \<Rightarrow>
             let result = fetch_pages (P\<lparr>http_send :=
                   numbered_server P (server_uri port) pages page_bytes expected_calls chunked\<rparr>) initial None
             in (case error_code of
                   Some code \<Rightarrow> fails_as (\<lambda>error. api_code error = code \<and> \<not> api_retryable error) result
                 | None \<Rightarrow> unwraps (\<lambda>bundles. length bundles = pages) result))
         [False, True])
       [(32, 128, 32, None), (33, 128, 32, Some ''api.invalid_response''),
        (4, 16 * 1024 * 1024, 4, None), (5, 13 * 1024 * 1024, 5, Some ''api.body_too_large'')]"

definition test_link :: "string \<Rightarrow> string" where
  "test_link query = next_link (''https://example.test/?'' @ query)"

definition titled :: "string \<Rightarrow> nat \<Rightarrow> string" where
  "titled link n = link @ ''; title='' @ quoted (repeated ''x'' (n - length link - 10))"

definition link_cases :: "(string list \<times> bool) list" where
  "link_cases = (let next = test_link ''after=next'' in
     [([titled next 8192], True), ([titled next 8193], False),
      ([next, repeated ''x'' (8192 - length next - 1)], True),
      ([next, repeated ''x'' (8193 - length next - 1)], False),
      ([test_link (''after='' @ repeated ''x'' (4096 - 6))], True),
      ([test_link (''after='' @ repeated ''x'' (4097 - 6))], False),
      ([test_link (''after='' @ repeated ''!'' 1363 @ ''x'')], True),
      ([test_link (''after='' @ repeated ''!'' 1364)], False)])"

definition link_server ::
  "'z net_prims_scheme \<Rightarrow> string list \<Rightarrow> bool \<Rightarrow> http_client \<Rightarrow> http_request \<Rightarrow> http_response option" where
  "link_server P links valid client request =
     Option.bind (if rq_method request = ''GET'' then requested P request else None) (\<lambda>(_, pairs).
     if \<not> list_ex (\<lambda>(name, _). name = ''after'') pairs
     then Some (mock_page False (map (Pair ''link'') links) (as_bytes ok_page))
     else if valid then Some (mock_page False [] (as_bytes ok_page)) else None)"

definition bounds_pagination_link_headers_and_reencoded_cursors :: "'z net_prims_scheme \<Rightarrow> nat \<Rightarrow> bool" where
  "bounds_pagination_link_headers_and_reencoded_cursors P port \<longleftrightarrow>
     list_all (\<lambda>(links, valid).
       case url_parse P (server_uri port) of
         None \<Rightarrow> False
       | Some initial \<Rightarrow>
           let result = fetch_pages (P\<lparr>http_send := link_server P links valid\<rparr>) initial None
           in if valid then unwraps (\<lambda>bundles. length bundles = 2) result
              else fails_as (invalid_at ''Link'') result)
       link_cases"

definition bundle_page :: "json list \<Rightarrow> json" where
  "bundle_page bundles = JObj [(''attestations'', JArr (map (\<lambda>bundle. JObj [(''bundle'', bundle)]) bundles))]"

definition endpoint_path :: string where
  "endpoint_path = ''/repos/nearai/compose-manager/attestations/sha256:abc''"

definition first_bundle :: json where
  "first_bundle = JObj [(''page'', JNum ''1'')]"

definition final_bundles :: "json list" where
  "final_bundles = map (\<lambda>index. JObj [(''index'', JNum (decimal index))]) [0..<100]"

text \<open>Both mocks of the test; the queries are those the test asserts of the received requests.\<close>

definition cursor_server ::
  "'z net_prims_scheme \<Rightarrow> string \<Rightarrow> http_client \<Rightarrow> http_request \<Rightarrow> http_response option" where
  "cursor_server P cursor_name client request =
     Option.bind (requested P request) (\<lambda>(u, pairs).
     if rq_method request = ''GET'' \<and> u_path u = endpoint_path \<and> (''per_page'', ''100'') \<in> set pairs
       \<and> header_get ''authorization'' (rq_headers request) = Some ''Bearer test-token''
     then if u_query u = Some ''per_page=100'' \<and> \<not> list_ex (\<lambda>(name, _). name = cursor_name) pairs
       then Some (mock_page False (header_insert ''link''
         (next_link (''https://example.com/untrusted?per_page=1&page=2&'' @ cursor_name @ ''=a%2B%2F%3D%26'')) [])
         (as_bytes (json_print P (bundle_page [first_bundle]))))
       else if u_query u = Some (''per_page=100&'' @ cursor_name @ ''=a%2B%2F%3D%26'')
         \<and> (cursor_name, ''a+/=&'') \<in> set pairs
       then Some (mock_page False [] (as_bytes (json_print P (bundle_page final_bundles))))
       else None
     else None)"

definition fetches_cursor_pages_at_the_original_origin_and_path :: "'z net_prims_scheme \<Rightarrow> nat \<Rightarrow> bool" where
  "fetches_cursor_pages_at_the_original_origin_and_path P port \<longleftrightarrow>
     list_all (\<lambda>cursor_name.
       case url_parse P (server_uri port @ endpoint_path @ ''?per_page=100'') of
         None \<Rightarrow> False
       | Some initial \<Rightarrow>
           unwraps (\<lambda>bundles. bundles = json_print P first_bundle # map (json_print P) final_bundles)
             (fetch_pages (P\<lparr>http_send := cursor_server P cursor_name\<rparr>) initial (Some ''test-token'')))
       [''before'', ''after'']"

definition repeating_server ::
  "'z net_prims_scheme \<Rightarrow> url \<Rightarrow> http_client \<Rightarrow> http_request \<Rightarrow> http_response option" where
  "repeating_server P initial client request =
     (if rq_method request = ''GET'' \<and> rq_url request \<in> {url_text P initial, url_text P initial @ ''&after=repeated''}
      then Some (mock_page False (header_insert ''link'' (next_link (url_text P initial @ ''&after=repeated'')) [])
        (as_bytes (json_print P (counted_page 1))))
      else None)"

definition rejects_repeated_pagination_before_repeating_a_request :: "'z net_prims_scheme \<Rightarrow> nat \<Rightarrow> bool" where
  "rejects_repeated_pagination_before_repeating_a_request P port \<longleftrightarrow>
     (case url_parse P (server_uri port @ ''/attestations?per_page=100'') of
        None \<Rightarrow> False
      | Some initial \<Rightarrow>
          fails_as (invalid_at ''Link'') (fetch_pages (P\<lparr>http_send := repeating_server P initial\<rparr>) initial None))"

section \<open>The crates\<close>

text \<open>Characters a query keeps as they are; URLs of the mock and of the links.\<close>

definition url_char :: "char \<Rightarrow> bool" where
  "url_char c \<longleftrightarrow> 33 \<le> (of_char c :: nat) \<and> (of_char c :: nat) < 127 \<and> c \<notin> {CHR 0x22, CHR ''#'', CHR ''<'', CHR ''>'', CHR 0x27}"

definition url_library :: "'z net_prims_scheme \<Rightarrow> nat \<Rightarrow> bool" where
  "url_library P port \<longleftrightarrow>
     url_parse P (server_uri port) = Some (at_server port ''/'' None)
     \<and> url_parse P (server_uri port @ ''/'') = Some (at_server port ''/'' None)
     \<and> url_text P (at_server port ''/'' None) = server_uri port @ ''/''
     \<and> (\<forall>q. list_all url_char q \<longrightarrow> url_parse P (server_uri port @ ''?'' @ q) = Some (at_server port ''/'' (Some q)))
     \<and> (\<forall>q path. list_all url_char q \<and> path \<in> {''/'', ''/attestations'', endpoint_path} \<longrightarrow>
          url_parse P (server_uri port @ path @ ''?'' @ q) = Some (at_server port path (Some q)))
     \<and> (\<forall>q path. list_all url_char q \<and> path \<in> {''/'', ''/attestations'', endpoint_path} \<longrightarrow>
          url_text P (at_server port path (Some q)) = server_uri port @ path @ ''?'' @ q)
     \<and> (\<forall>q. list_all url_char q \<longrightarrow>
          url_parse P (''https://example.test/?'' @ q) = Some (elsewhere ''example.test'' ''/'' q))
     \<and> (\<forall>q. list_all url_char q \<longrightarrow>
          url_parse P (''https://example.com/untrusted?'' @ q) = Some (elsewhere ''example.com'' ''/untrusted'' q))
     \<and> (\<forall>name v. form_encode P name v = form_text name @ ''='' @ form_text v)
     \<and> (\<forall>u. u_query u = None \<longrightarrow> url_query_pairs P u = [])
     \<and> (\<forall>u q. u_query u = Some q \<and> list_all (\<lambda>c. (of_char c :: nat) < 128) (percent_decode q) \<longrightarrow>
          url_query_pairs P u = form_pairs q)"

text \<open>The page of the mocks, alone and with spaces behind it, and the size of two printed pages.\<close>

definition page_texts :: "'z net_prims_scheme \<Rightarrow> bool" where
  "page_texts P \<longleftrightarrow> document_roundtrip P
     \<and> (\<forall>n. length ok_page \<le> n \<longrightarrow>
          json_document P (padded_to n ok_page) = Some (bundle_page [JObj [(''ok'', JBool True)]]))
     \<and> list_all (\<lambda>page. length (json_print P page) \<le> max_provenance_page_bytes)
        [bundle_page [first_bundle], bundle_page final_bundles, counted_page 1]"

section \<open>Texts\<close>

lemma split_on_plain: "c \<notin> set s \<Longrightarrow> split_on c s = [s]"
  by (induction s) auto

lemma split_on_append: "c \<notin> set s \<Longrightarrow> split_on c (s @ c # t) = s # split_on c t"
  by (induction s) auto

lemma split_once_append: "c \<notin> set s \<Longrightarrow> split_once c (s @ c # t) = Some (s, t)"
  by (simp add: split_once_Some)

lemma set_repeated [simp]: "set (repeated t n) = (if n = 0 then {} else set t)"
  by (induction n) (auto simp: repeated_simps)

lemma list_all_repeated [simp]: "list_all test (repeated t n) \<longleftrightarrow> n = 0 \<or> list_all test t"
  by (auto simp: list_all_iff)

lemma form_text_append [simp]: "form_text (s @ t) = form_text s @ form_text t"
  by (simp add: form_text_def)

lemma form_text_repeated: "form_text (repeated t n) = repeated (form_text t) n"
  by (induction n) (simp_all add: repeated_simps, simp add: form_text_def)

lemma form_text_plain: "list_all is_alnum v \<Longrightarrow> form_text v = v"
  by (induction v) (simp_all add: form_text_def form_char_def)

lemma percent_decode_plain:
  "CHR ''+'' \<notin> set s \<Longrightarrow> CHR ''%'' \<notin> set s \<Longrightarrow> percent_decode (s @ t) = s @ percent_decode t"
  by (induction s) auto

lemma upper_nibble: "n < 16 \<Longrightarrow> \<exists>u. to_upper [nibble_char n] = [u] \<and> nibble_val u = Some n"
  by (auto simp: to_upper_def nibble_char_def nibble_val_def is_lower_def of_char_of Let_def)

lemma form_char_decoded: "percent_decode (form_char c @ s) = c # percent_decode s"
proof (cases "is_alnum c \<or> c \<in> set ''*-._''")
  case True
  then have "c \<noteq> CHR ''+''" "c \<noteq> CHR ''%''" by (auto simp: is_alnum_def is_digit_def is_upper_def is_lower_def)
  with True show ?thesis by (simp add: form_char_def)
next
  case False
  let ?n = "unat (byte_of c)"
  have "?n div 16 < 16" "?n mod 16 < 16" using unat_byte_less [of "byte_of c"] by linarith+
  then obtain h l where hl: "to_upper [nibble_char (?n div 16)] = [h]" "nibble_val h = Some (?n div 16)"
      "to_upper [nibble_char (?n mod 16)] = [l]" "nibble_val l = Some (?n mod 16)"
    using upper_nibble by meson
  have "char_of (16 * (?n div 16) + ?n mod 16) = c" by (simp add: unat_byte_of)
  with False hl show ?thesis by (simp add: form_char_def to_upper_def del: unat_byte_of)
qed

text \<open>What \<open>form_urlencoded\<close> writes, it reads back.\<close>

lemma form_round_trip: "percent_decode (form_text v @ t) = v @ percent_decode t"
  by (induction v) (simp_all add: form_text_def form_char_decoded)

section \<open>Links\<close>

lemma trim_closed: "\<not> is_space a \<Longrightarrow> \<not> is_space b \<Longrightarrow> trim (a # s @ [b]) = a # s @ [b]"
  by (simp add: trim_def)

text \<open>A URL without a comma or semicolon, as the links of the tests hold.\<close>

definition link_url :: "string \<Rightarrow> bool" where
  "link_url target \<longleftrightarrow> list_all (\<lambda>c. visible_ascii c \<and> c \<noteq> CHR '','' \<and> c \<noteq> CHR '';'') target"

lemma link_url_simps [simp]:
  "link_url []"
  "link_url (c # s) \<longleftrightarrow> visible_ascii c \<and> c \<noteq> CHR '','' \<and> c \<noteq> CHR '';'' \<and> link_url s"
  by (simp_all add: link_url_def)

lemma link_url_append [simp]: "link_url (s @ t) \<longleftrightarrow> link_url s \<and> link_url t"
  by (simp add: link_url_def)

lemma link_url_decimal [simp]: "link_url (decimal n)"
  using decimal_digits [of n]
  by (auto simp: link_url_def list_all_iff is_digit_def visible_ascii_def)

lemma link_url_repeated [simp]: "link_url t \<Longrightarrow> link_url (repeated t n)"
  by (simp add: link_url_def)

lemma next_link_parts:
  assumes "link_url target"
  shows "header_to_str (next_link target) = Some (next_link target)"
    "split_on (CHR '','') (next_link target) = [next_link target]"
    "trim (next_link target) = next_link target"
    "next_link target = (CHR ''<'' # target @ ''>'') @ CHR '';'' # next_rel"
    "CHR '';'' \<notin> set (CHR ''<'' # target @ ''>'')" "CHR '';'' \<notin> set next_rel" "CHR '','' \<notin> set (next_link target)"
proof -
  have shape: "next_link target = CHR ''<'' # (target @ ''>; rel='' @ [CHR 0x22] @ ''next'') @ [CHR 0x22]"
    by (simp add: next_link_def quoted_def)
  show "trim (next_link target) = next_link target"
    unfolding shape by (rule trim_closed) (simp_all add: is_space_def)
  show plain: "CHR '','' \<notin> set (next_link target)"
    using assms by (auto simp: shape link_url_def list_all_iff)
  have "list_all visible_ascii (next_link target)"
    using assms by (auto simp: shape link_url_def list_all_iff visible_ascii_def)
  with plain show "header_to_str (next_link target) = Some (next_link target)"
    "split_on (CHR '','') (next_link target) = [next_link target]"
    by (simp_all add: header_to_str_def split_on_plain)
qed (use assms in \<open>auto simp: next_link_def next_rel_def quoted_def link_url_def list_all_iff\<close>)

lemma single_next_link:
  assumes "link_url target" "length target \<le> 8000"
  shows "single_link (next_link target) (CHR ''<'' # target @ ''>'') next_rel"
proof -
  note parts = next_link_parts [OF assms(1)]
  have "split_on (CHR '';'') (next_link target) = [CHR ''<'' # target @ ''>'', next_rel]"
    using split_on_append [OF parts(5), of next_rel] split_on_plain [OF parts(6)] parts(4) by simp
  moreover have "trim (CHR ''<'' # target @ ''>'') = CHR ''<'' # target @ ''>''"
    by (rule trim_closed) (simp_all add: is_space_def)
  moreover have "length (next_link target) \<le> max_provenance_link_bytes"
    using assms(2) by (simp add: next_link_def quoted_def max_provenance_link_bytes_def)
  ultimately show ?thesis using parts(1-3) by (simp add: single_link_def)
qed

text \<open>A link to the next page, whose URL has one cursor.\<close>

lemma followed_link:
  assumes "url_parse P target = Some u" "u_scheme u \<in> {''http'', ''https''}"
    and "filter (\<lambda>(name, _). name = ''before'' \<or> name = ''after'') (url_query_pairs P u) = [(name, v)]" "v \<noteq> []"
    and "form_encode P name v = cursor"
  shows "next_page_url P original (CHR ''<'' # target @ ''>'') =
     (if length cursor \<le> max_provenance_cursor_bytes
      then Inr (original\<lparr>u_query := Some (''per_page=100&'' @ cursor)\<rparr>)
      else fail (pagination_error ''provenance cursor limit exceeded''))"
  using assms by (simp add: next_page_of_bracketed first_of_def Let_def)

section \<open>Queries\<close>

lemma url_libraryD:
  assumes "url_library P port"
  shows "url_parse P (server_uri port) = Some (at_server port ''/'' None)"
    and "url_parse P (server_uri port @ ''/'') = Some (at_server port ''/'' None)"
    and "url_text P (at_server port ''/'' None) = server_uri port @ ''/''"
    and "list_all url_char q \<Longrightarrow> url_parse P (server_uri port @ ''?'' @ q) = Some (at_server port ''/'' (Some q))"
    and "list_all url_char q \<Longrightarrow> path \<in> {''/'', ''/attestations'', endpoint_path} \<Longrightarrow>
      url_parse P (server_uri port @ path @ ''?'' @ q) = Some (at_server port path (Some q))"
    and "list_all url_char q \<Longrightarrow> path \<in> {''/'', ''/attestations'', endpoint_path} \<Longrightarrow>
      url_text P (at_server port path (Some q)) = server_uri port @ path @ ''?'' @ q"
    and "list_all url_char q \<Longrightarrow> url_parse P (''https://example.test/?'' @ q) = Some (elsewhere ''example.test'' ''/'' q)"
    and "list_all url_char q \<Longrightarrow>
      url_parse P (''https://example.com/untrusted?'' @ q) = Some (elsewhere ''example.com'' ''/untrusted'' q)"
    and "form_encode P name v = form_text name @ ''='' @ form_text v"
    and "u_query u = None \<Longrightarrow> url_query_pairs P u = []"
    and "u_query u = Some q \<Longrightarrow> list_all (\<lambda>c. (of_char c :: nat) < 128) (percent_decode q) \<Longrightarrow>
      url_query_pairs P u = form_pairs q"
  using assms unfolding url_library_def by ((elim conjE, simp; fail) | (elim conjE, iprover))+

lemma form_pairs_one: "CHR ''&'' \<notin> set q \<Longrightarrow> q \<noteq> [] \<Longrightarrow>
     form_pairs q = [case split_once (CHR ''='') q of
       None \<Rightarrow> (percent_decode q, []) | Some (name, v) \<Rightarrow> (percent_decode name, percent_decode v)]"
  by (simp add: form_pairs_def split_on_plain)

lemma form_pairs_more: "CHR ''&'' \<notin> set part \<Longrightarrow> part \<noteq> [] \<Longrightarrow>
     form_pairs (part @ CHR ''&'' # q) = form_pairs part @ form_pairs q"
  by (simp add: form_pairs_def split_on_plain split_on_append)

definition form_output :: "char \<Rightarrow> bool" where
  "form_output c \<longleftrightarrow> is_alnum c \<or> c \<in> set ''*-._+%''"

lemma form_output_text: "list_all form_output (form_text v)"
proof -
  have hex: "is_alnum u" if "nibble_val u = Some n" for u n
    using that by (auto simp: nibble_val_def is_alnum_def is_digit_def is_upper_def is_lower_def Let_def split: if_splits)
  have "list_all form_output (form_char c)" for c
  proof -
    let ?n = "unat (byte_of c)"
    have "?n div 16 < 16" "?n mod 16 < 16" using unat_byte_less [of "byte_of c"] by linarith+
    then obtain h l where "to_upper [nibble_char (?n div 16)] = [h]" "is_alnum h"
        "to_upper [nibble_char (?n mod 16)] = [l]" "is_alnum l"
      using upper_nibble hex by meson
    then show ?thesis by (auto simp: form_char_def form_output_def to_upper_def)
  qed
  then show ?thesis by (simp add: form_text_def list_all_iff)
qed

lemma form_output_safe:
  assumes "list_all form_output s"
  shows "CHR ''&'' \<notin> set s" "list_all url_char s" "link_url s"
  using assms
  by (auto simp: list_all_iff form_output_def url_char_def link_url_def visible_ascii_def is_alnum_def is_digit_def
      is_upper_def is_lower_def)

lemma decimal_output: "list_all form_output (decimal n)" "form_text (decimal n) = decimal n"
  "list_all (\<lambda>c. (of_char c :: nat) < 128) (decimal n)"
proof -
  have digits: "list_all is_digit (decimal n)" using decimal_digits by blast
  then show "list_all form_output (decimal n)" "list_all (\<lambda>c. (of_char c :: nat) < 128) (decimal n)"
    by (auto simp: list_all_iff form_output_def is_alnum_def is_digit_def)
  show "form_text (decimal n) = decimal n"
    using digits by (auto intro!: form_text_plain simp: list_all_iff is_alnum_def)
qed

lemma form_pairs_single:
  assumes "CHR ''&'' \<notin> set v" "name \<in> {''per_page'', ''page'', ''before'', ''after''}"
  shows "form_pairs (name @ ''='' @ v) = [(name, percent_decode v)]"
proof -
  have name: "CHR ''&'' \<notin> set name" "CHR ''='' \<notin> set name" "percent_decode name = name"
    using assms(2) by auto
  then have "split_once (CHR ''='') (name @ ''='' @ v) = Some (name, v)" by (simp add: split_once_Some)
  with name assms(1) show ?thesis by (simp add: form_pairs_one)
qed

text \<open>A query with one cursor, as links hold it and as the model writes it.\<close>

lemma cursor_queries:
  assumes "url_library P port" "name \<in> {''before'', ''after''}" "list_all (\<lambda>c. (of_char c :: nat) < 128) v"
  shows "u_query u = Some (name @ ''='' @ form_text v) \<Longrightarrow> url_query_pairs P u = [(name, v)]"
    and "u_query u = Some (''per_page=100&'' @ name @ ''='' @ form_text v) \<Longrightarrow>
      url_query_pairs P u = [(''per_page'', ''100''), (name, v)]"
proof -
  note out = form_output_safe [OF form_output_text, of v]
  have name: "CHR ''+'' \<notin> set name" "CHR ''%'' \<notin> set name" using assms(2) by auto
  have dec: "percent_decode (name @ ''='' @ form_text v) = name @ ''='' @ v"
    using percent_decode_plain [of "name @ ''=''" "form_text v"] name form_round_trip [of v "[]"] by simp
  have ascii: "list_all (\<lambda>c. (of_char c :: nat) < 128) (name @ ''='' @ v)"
    using assms(2,3) by auto
  have pairs: "form_pairs (name @ ''='' @ form_text v) = [(name, v)]"
    using form_pairs_single [of "form_text v" name] out(1) assms(2) form_round_trip [of v "[]"] by auto
  then show "u_query u = Some (name @ ''='' @ form_text v) \<Longrightarrow> url_query_pairs P u = [(name, v)]"
    using url_libraryD(11) [OF assms(1)] dec ascii by metis
  have "form_pairs (''per_page=100'' @ CHR ''&'' # name @ ''='' @ form_text v)
      = form_pairs ''per_page=100'' @ form_pairs (name @ ''='' @ form_text v)"
    by (rule form_pairs_more) simp_all
  then have "form_pairs (''per_page=100&'' @ name @ ''='' @ form_text v) = [(''per_page'', ''100''), (name, v)]"
    using form_pairs_single [of "''100''" "''per_page''"] pairs by simp
  moreover have "percent_decode (''per_page=100&'' @ name @ ''='' @ form_text v) = ''per_page=100&'' @ name @ ''='' @ v"
    using percent_decode_plain [of "''per_page=100&''" "name @ ''='' @ form_text v"] dec by simp
  moreover have "list_all (\<lambda>c. (of_char c :: nat) < 128) (''per_page=100&'' @ name @ ''='' @ v)"
    using ascii by simp
  ultimately show "u_query u = Some (''per_page=100&'' @ name @ ''='' @ form_text v) \<Longrightarrow>
      url_query_pairs P u = [(''per_page'', ''100''), (name, v)]"
    using url_libraryD(11) [OF assms(1)] by metis
qed

section \<open>The model passes the tests\<close>

lemma ok_entries:
  assumes "page_texts P" "length ok_page \<le> n"
  shows "decode_attestations (P\<lparr>http_send := server\<rparr>) (padded_to n ok_page) = Inr [JObj [(''ok'', JBool True)]]"
  using assms
  by (simp add: page_texts_def decode_attestations_def bundle_page_def github_attestations_of_def struct_view_def
      no_repeats_def need_def deserialize_attestations_def max_provenance_page_entries_def attestation_bundle_of_def)

text \<open>The page that the numbered server gives for a URL, and the URL of a page.\<close>

definition numbered_url :: "nat \<Rightarrow> nat \<Rightarrow> url" where
  "numbered_url port page =
     at_server port ''/'' (if page = 1 then None else Some (''per_page=100&after='' @ decimal page))"

lemma numbered_url_inject [simp]: "numbered_url port i = numbered_url port j \<longleftrightarrow> i = j"
  by (simp add: numbered_url_def at_server_def)

lemma numbered_request:
  assumes laws: "url_library P port" and small: "page < 2 ^ 64" and path: "0 < page"
  shows "Option.bind (map_option snd (requested P (get_request P (numbered_url port page) h))) page_number = Some page"
proof (cases "page = 1")
  case True
  then show ?thesis
    using url_libraryD(2,3,10) [OF laws]
    by (simp add: requested_def get_request_def numbered_url_def page_number_def at_server_def)
next
  case False
  let ?q = "''per_page=100&after='' @ decimal page"
  have "list_all url_char ?q"
    using form_output_safe(2) [OF decimal_output(1), of page] by (simp add: url_char_def)
  then have "url_parse P (url_text P (at_server port ''/'' (Some ?q))) = Some (at_server port ''/'' (Some ?q))"
    using url_libraryD(5,6) [OF laws, of ?q "''/''"] by simp
  moreover have "url_query_pairs P (at_server port ''/'' (Some ?q)) = [(''per_page'', ''100''), (''after'', decimal page)]"
    using cursor_queries(2) [OF laws _ decimal_output(3), of "''after''" _ page] decimal_output(2) [of page]
    by (simp add: at_server_def)
  ultimately show ?thesis
    using False small by (simp add: requested_def get_request_def numbered_url_def page_number_def)
qed

lemma decimal_length: "n < 10 ^ k \<Longrightarrow> 0 < k \<Longrightarrow> length (decimal n) \<le> k"
proof (induction k arbitrary: n)
  case (Suc k)
  show ?case
  proof (cases "n < 10")
    case True
    then show ?thesis by (simp add: decimal.simps [of n])
  next
    case False
    with Suc.prems have "n div 10 < 10 ^ k" "0 < k" by (cases k; simp add: less_mult_imp_div_less)+
    with Suc.IH False show ?thesis by (simp add: decimal.simps [of n])
  qed
qed simp

lemma server_uri_link: "port < 65536 \<Longrightarrow> link_url (server_uri port) \<and> length (server_uri port) \<le> 30"
  using decimal_length [of port 5]
  by (simp add: server_uri_def visible_ascii_def)

lemma cursor_encoded: "url_library P port \<Longrightarrow> name \<in> {''before'', ''after''} \<Longrightarrow>
     form_encode P name v = name @ ''='' @ form_text v"
  by (auto simp: url_libraryD(9) form_text_plain is_alnum_def is_digit_def is_lower_def)

text \<open>A next link whose URL carries one cursor in the form the crate writes.\<close>

lemma numbered_link:
  assumes laws: "url_library P port" and port: "port < 65536" and page: "page < 65536"
  shows "next_attestation_page (P\<lparr>http_send := server\<rparr>) (numbered_url port 1)
     (header_insert ''link'' (next_link (server_uri port @ ''?after='' @ decimal (page + 1))) []) =
     Inr (Some (at_server port ''/'' (Some (''per_page=100&after='' @ decimal (page + 1)))))"
proof -
  let ?P = "P\<lparr>http_send := server\<rparr>"
  let ?n = "decimal (page + 1)" and ?target = "server_uri port @ ''?after='' @ decimal (page + 1)"
  let ?u = "at_server port ''/'' (Some (''after='' @ ?n))"
  have "list_all url_char (''after='' @ ?n)"
    using form_output_safe(2) [OF decimal_output(1), of "page + 1"] by (simp add: url_char_def)
  then have parsed: "url_parse ?P ?target = Some ?u"
    using url_libraryD(4) [OF laws] by simp
  have "url_query_pairs ?P ?u = [(''after'', ?n)]"
    using cursor_queries(1) [OF laws _ decimal_output(3), of "''after''" ?u "page + 1"] decimal_output(2) [of "page + 1"]
    by (simp add: at_server_def)
  then have "filter (\<lambda>(name, _). name = ''before'' \<or> name = ''after'') (url_query_pairs ?P ?u) = [(''after'', ?n)]" by simp
  moreover have "form_encode ?P ''after'' ?n = ''after='' @ ?n"
    using cursor_encoded [OF laws] decimal_output(2) [of "page + 1"] by simp
  moreover have "length (''after='' @ ?n) \<le> max_provenance_cursor_bytes"
    using decimal_length [of "page + 1" 5] page by (simp add: max_provenance_cursor_bytes_def)
  moreover have "?n \<noteq> []" using decimal_digits by blast
  ultimately have "next_page_url ?P (numbered_url port 1) (CHR ''<'' # ?target @ ''>'') =
      Inr ((numbered_url port 1)\<lparr>u_query := Some (''per_page=100&'' @ ''after='' @ ?n)\<rparr>)"
    using followed_link [OF parsed, of "''after''" ?n "''after='' @ ?n" "numbered_url port 1"]
    by (simp add: at_server_def)
  moreover have "single_link (next_link ?target) (CHR ''<'' # ?target @ ''>'') next_rel"
    using server_uri_link [OF port] decimal_length [of "page + 1" 5] page
    by (intro single_next_link) (simp_all add: visible_ascii_def)
  ultimately show ?thesis
    using test_links(6) by (simp add: page_of_single_link numbered_url_def at_server_def)
qed

text \<open>The loop of the model on the numbered pages, from a page on.\<close>

definition from_page ::
  "'z net_prims_scheme \<Rightarrow> nat \<Rightarrow> nat \<Rightarrow> nat \<Rightarrow> nat \<Rightarrow> bool \<Rightarrow> nat \<Rightarrow> string list \<Rightarrow> string list api" where
  "from_page P port pages page_bytes calls chunked page bundles =
     fetch_image_provenance_pages (P\<lparr>http_send := numbered_server P (server_uri port) pages page_bytes calls chunked\<rparr>)
       (default_client\<lparr>hc_proxy := False\<rparr>) (numbered_url port 1) None (numbered_url port page)
       (map (numbered_url port) [1..<page]) ((page - 1) * page_bytes) bundles"

lemma unvisited: "numbered_url port page \<notin> set (map (numbered_url port) [1..<page])"
  by auto

lemma numbered_answer:
  assumes "url_library P port" "0 < page" "page \<le> calls" "page < 65536"
  shows "github_get (P\<lparr>http_send := numbered_server P (server_uri port) pages page_bytes calls chunked\<rparr>) client
       (numbered_url port page) accept None =
     Some (mock_page chunked
       (if page < pages then header_insert ''link'' (next_link (server_uri port @ ''?after='' @ decimal (page + 1))) [] else [])
       (padded_to page_bytes ok_page))"
proof -
  let ?request = "get_request P (numbered_url port page)
    [(''accept'', accept), (''x-github-api-version'', ''2022-11-28''), (''user-agent'', ''nearai-inference-sdk'')]"
  have "Option.bind (map_option snd (requested P ?request)) page_number = Some page"
    using numbered_request [OF assms(1)] assms(2,4) by simp
  then obtain u pairs where "requested P ?request = Some (u, pairs)" "page_number pairs = Some page"
    by (cases "requested P ?request") auto
  then show ?thesis
    using assms(3) by (simp add: github_get_def github_headers_def numbered_server_def get_request_def)
qed

text \<open>One round of the loop on a page of a mock.\<close>

lemma one_page:
  assumes "length visited < max_provenance_pages" "spent < max_provenance_total_bytes" "url \<notin> set visited"
    and "github_get P client url ''application/vnd.github+json'' token = Some (mock_page chunked h body)"
    and "next_attestation_page P original h = Inr next"
    and "length body \<le> max_provenance_page_bytes" "spent + length body \<le> max_provenance_total_bytes"
    and "decode_attestations P body = Inr entries"
  shows "fetch_image_provenance_pages P client original token url visited spent bundles =
     (let bundles = bundles @ map (json_print P) entries in
      case next of
        None \<Rightarrow> Inr bundles
      | Some u \<Rightarrow> fetch_image_provenance_pages P client original token u (visited @ [url]) (spent + length body) bundles)"
proof -
  have "length body \<le> min max_provenance_page_bytes (max_provenance_total_bytes - spent)" using assms(6,7) by simp
  then show ?thesis
    using assms by (subst fetch_image_provenance_pages.simps) (simp add: read_mock_page is_success_def Let_def)
qed

lemma page_step:
  assumes laws: "url_library P port" "page_texts P" "port < 65536"
    and page: "0 < page" "page \<le> calls" "page \<le> pages" "page \<le> max_provenance_pages" "length ok_page \<le> page_bytes"
    and budget: "page * page_bytes \<le> max_provenance_total_bytes" "page_bytes \<le> max_provenance_page_bytes"
  shows "from_page P port pages page_bytes calls chunked page bundles =
     (let bundles = bundles @ [json_print P (JObj [(''ok'', JBool True)])] in
      if page < pages then from_page P port pages page_bytes calls chunked (page + 1) bundles else Inr bundles)"
proof -
  let ?P = "P\<lparr>http_send := numbered_server P (server_uri port) pages page_bytes calls chunked\<rparr>"
  have small: "page < 65536" using page(4) by (simp add: max_provenance_pages_def)
  have spent: "(page - 1) * page_bytes + page_bytes = page * page_bytes"
    using page(1) by (cases page) simp_all
  have "0 < page_bytes" using page(5) by (simp add: ok_page_def)
  with spent budget(1) have total: "(page - 1) * page_bytes < max_provenance_total_bytes"
    "page_bytes \<le> max_provenance_total_bytes - (page - 1) * page_bytes" by linarith+
  have numbered: "numbered_url port (page + 1) = at_server port ''/'' (Some (''per_page=100&after='' @ decimal (page + 1)))"
    using page(1) by (simp add: numbered_url_def)
  let ?links = "if page < pages then header_insert ''link'' (next_link (server_uri port @ ''?after='' @ decimal (page + 1))) [] else []"
  have answer: "github_get ?P (default_client\<lparr>hc_proxy := False\<rparr>) (numbered_url port page) ''application/vnd.github+json'' None
      = Some (mock_page chunked ?links (padded_to page_bytes ok_page))"
    by (rule numbered_answer [OF laws(1) page(1,2) small])
  have following: "next_attestation_page ?P (numbered_url port 1) ?links =
      Inr (if page < pages then Some (numbered_url port (page + 1)) else None)"
    using numbered_link [OF laws(1,3) small, folded numbered] by simp
  have "length (padded_to page_bytes ok_page) = page_bytes" using page(5) by simp
  then show ?thesis
    unfolding from_page_def
    using one_page [OF _ total(1) unvisited answer following _ _ ok_entries [OF laws(2) page(5)]] page(1,4) total budget(2) spent
    by (simp add: Let_def)
qed

lemma pages_before:
  assumes laws: "url_library P port" "page_texts P" "port < 65536"
    and bounds: "length ok_page \<le> page_bytes" "page_bytes \<le> max_provenance_page_bytes"
    and page: "page < pages" "page \<le> calls" "page \<le> max_provenance_pages"
      "page * page_bytes \<le> max_provenance_total_bytes"
  shows "from_page P port pages page_bytes calls chunked 1 [] =
     from_page P port pages page_bytes calls chunked (page + 1) (replicate page (json_print P (JObj [(''ok'', JBool True)])))"
  using page
proof (induction page)
  case (Suc page)
  then have "page * page_bytes \<le> max_provenance_total_bytes" by simp
  with Suc page_step [OF laws, of "page + 1" calls pages page_bytes chunked] bounds show ?case
    by (simp add: Let_def replicate_append_same)
qed simp

text \<open>Within the bounds every page is read.\<close>

lemma numbered_pages_read:
  assumes laws: "url_library P port" "page_texts P" "port < 65536"
    and bounds: "length ok_page \<le> page_bytes" "page_bytes \<le> max_provenance_page_bytes"
    and pages: "0 < pages" "pages \<le> calls" "pages \<le> max_provenance_pages" "pages * page_bytes \<le> max_provenance_total_bytes"
  shows "from_page P port pages page_bytes calls chunked 1 [] = Inr (replicate pages (json_print P (JObj [(''ok'', JBool True)])))"
proof -
  obtain n where n: "pages = Suc n" using pages(1) by (cases pages) auto
  with pages have "n * page_bytes \<le> max_provenance_total_bytes" by simp
  then show ?thesis
    using pages_before [OF laws bounds, of n pages calls chunked] page_step [OF laws, of pages calls pages page_bytes chunked] pages bounds n
    by (simp add: replicate_append_same)
qed

lemma fetch_numbered:
  "url_library P port \<Longrightarrow> url_parse P (server_uri port) = Some (numbered_url port 1)
    \<and> fetch_pages (P\<lparr>http_send := numbered_server P (server_uri port) pages page_bytes calls chunked\<rparr>) (numbered_url port 1) None
      = from_page P port pages page_bytes calls chunked 1 []"
  using url_libraryD(1) [of P port] by (simp add: numbered_url_def from_page_def fetch_pages_def)

lemma pagination_test:
  assumes laws: "url_library P port" "page_texts P" "port < 65536"
  shows "bounds_entire_provenance_pagination P port"
proof -
  note before = pages_before [OF laws] and read = numbered_pages_read [OF laws]
  have size: "length ok_page \<le> 128" by (simp add: ok_page_def quoted_def)
  then have sizes: "length ok_page \<le> 16 * 1024 * 1024" "length ok_page \<le> 13 * 1024 * 1024" by simp_all
  note limits = max_provenance_page_bytes_def max_provenance_total_bytes_def max_provenance_pages_def
  have many: "from_page P port 33 128 32 chunked 1 [] = fail (pagination_error ''provenance page limit exceeded'')" for chunked
    using before [OF size, of 32 33 32 chunked]
    by (simp add: limits from_page_def fetch_image_provenance_pages.simps)
  have large: "from_page P port 5 (13 * 1024 * 1024) 5 chunked 1 [] = fail (BodyTooLarge Res_ImageProvenance)" for chunked
  proof -
    let ?P = "P\<lparr>http_send := numbered_server P (server_uri port) 5 (13 * 1024 * 1024) 5 chunked\<rparr>"
    have "github_get ?P (default_client\<lparr>hc_proxy := False\<rparr>) (numbered_url port 5) ''application/vnd.github+json'' None
        = Some (mock_page chunked [] (padded_to (13 * 1024 * 1024) ok_page))"
      using numbered_answer [OF laws(1), of 5 5] by simp
    moreover have "read_provenance_body (mock_page chunked [] (padded_to (13 * 1024 * 1024) ok_page)) (12 * 1024 * 1024)
        = fail (BodyTooLarge Res_ImageProvenance)"
      using length_padded_to [OF sizes(2)] by (simp add: read_mock_page)
    ultimately have "from_page P port 5 (13 * 1024 * 1024) 5 chunked 5 bundles = fail (BodyTooLarge Res_ImageProvenance)" for bundles
      using unvisited [of port 5] unfolding from_page_def
      by (subst fetch_image_provenance_pages.simps) (simp add: limits is_success_def Let_def)
    then show ?thesis
      using before [OF sizes(2), of 4 5 5 chunked] by (simp add: limits)
  qed
  have "from_page P port 32 128 32 chunked 1 [] = Inr (replicate 32 (json_print P (JObj [(''ok'', JBool True)])))" for chunked
    by (rule read [OF size]) (simp_all add: limits)
  moreover have "from_page P port 4 (16 * 1024 * 1024) 4 chunked 1 [] =
      Inr (replicate 4 (json_print P (JObj [(''ok'', JBool True)])))" for chunked
    by (rule read [OF sizes(1)]) (simp_all add: limits)
  ultimately show ?thesis
    using many large fetch_numbered [OF laws(1)]
    by (simp add: bounds_entire_provenance_pagination_def pagination_error_def)
qed

text \<open>The pages of the other mocks.\<close>

lemma printed_page:
  assumes "page_texts P" "github_attestations_of page = Some entries"
  shows "decode_attestations (P\<lparr>http_send := server\<rparr>) (as_bytes (json_print P page)) = Inr entries"
  using assms by (simp add: page_texts_def document_roundtrip_def decode_attestations_def)

lemma repeated_page_test:
  assumes laws: "url_library P port" "page_texts P" "port < 65536"
  shows "rejects_repeated_pagination_before_repeating_a_request P port"
proof -
  let ?initial = "at_server port ''/attestations'' (Some ''per_page=100'')"
  let ?again = "at_server port ''/attestations'' (Some ''per_page=100&after=repeated'')"
  let ?P = "P\<lparr>http_send := repeating_server P ?initial\<rparr>"
  let ?target = "url_text P ?initial @ ''&after=repeated''"
  let ?body = "as_bytes (json_print P (counted_page 1))"
  have urls: "url_parse P (server_uri port @ ''/attestations?per_page=100'') = Some ?initial"
      "url_text P ?initial = server_uri port @ ''/attestations?per_page=100''"
      "url_text P ?again = ?target" "url_parse P ?target = Some ?again"
    using url_libraryD(5,6) [OF laws(1), of "''per_page=100''" "''/attestations''"]
      url_libraryD(5,6) [OF laws(1), of "''per_page=100&after=repeated''" "''/attestations''"]
    by (simp_all add: url_char_def)
  have plain: "form_text ''repeated'' = ''repeated''" by (simp add: form_text_plain is_alnum_def is_digit_def is_lower_def)
  have "url_query_pairs ?P ?again = [(''per_page'', ''100''), (''after'', ''repeated'')]"
    using cursor_queries(2) [OF laws(1), of "''after''" "''repeated''" ?again] plain by (simp add: at_server_def)
  then have "next_page_url ?P ?initial (CHR ''<'' # ?target @ ''>'') = Inr ?again"
    using followed_link [of ?P ?target ?again "''after''" "''repeated''" "''after=repeated''" ?initial] urls(4) plain
      cursor_encoded [OF laws(1), of "''after''" "''repeated''"]
    by (simp add: at_server_def max_provenance_cursor_bytes_def)
  moreover have "single_link (next_link ?target) (CHR ''<'' # ?target @ ''>'') next_rel"
    using server_uri_link [OF laws(3)] by (intro single_next_link) (simp_all add: urls(2) visible_ascii_def)
  ultimately have following: "next_attestation_page ?P ?initial (header_insert ''link'' (next_link ?target) []) = Inr (Some ?again)"
    using test_links(6) by (simp add: page_of_single_link)
  have answer: "github_get ?P client u accept None = Some (mock_page False (header_insert ''link'' (next_link ?target) []) ?body)"
    if "u \<in> {?initial, ?again}" for client u accept
    using that urls(3) by (auto simp: github_get_def github_headers_def repeating_server_def get_request_def)
  have size: "length ?body \<le> max_provenance_page_bytes" using laws(2) by (simp add: page_texts_def)
  have entries: "decode_attestations ?P ?body = Inr [JObj []]"
    by (rule printed_page [OF laws(2)]) (simp add: counted_entries)
  note step = one_page [OF _ _ _ answer following _ _ entries]
  let ?fetch = "fetch_image_provenance_pages ?P (default_client\<lparr>hc_proxy := False\<rparr>) ?initial None"
  have limits: "length ?body \<le> max_provenance_page_bytes" "length ?body + length ?body < max_provenance_total_bytes"
    "2 < max_provenance_pages"
    using size by (simp_all add: max_provenance_page_bytes_def max_provenance_total_bytes_def max_provenance_pages_def)
  have "?initial \<noteq> ?again" by (simp add: at_server_def)
  then have "fetch_pages ?P ?initial None =
      ?fetch ?again [?initial, ?again] (length ?body + length ?body) [json_print P (JObj []), json_print P (JObj [])]"
    using step [of "[]" 0 ?initial] step [of "[?initial]" "length ?body" ?again] limits
    by (simp add: fetch_pages_def Let_def)
  then have "fetch_pages ?P ?initial None = fail (pagination_error ''repeated pagination cursor'')"
    using limits by (simp add: fetch_image_provenance_pages.simps)
  then show ?thesis
    by (simp add: rejects_repeated_pagination_before_repeating_a_request_def urls(1) pagination_error_def)
qed

text \<open>The links to \<open>example.test\<close>: what the model makes of their cursor.\<close>

definition raw_cursor :: "string \<Rightarrow> bool" where
  "raw_cursor v \<longleftrightarrow> v \<noteq> [] \<and> list_all (\<lambda>c. url_char c \<and> c \<notin> set ''&=+%,;'') v"

lemma raw_cursorD:
  assumes "raw_cursor v"
  shows "v \<noteq> []" "list_all url_char (''after='' @ v)" "link_url v" "list_all (\<lambda>c. (of_char c :: nat) < 128) v"
    "percent_decode v = v" "CHR ''&'' \<notin> set v"
proof -
  have chars: "url_char c" "c \<noteq> CHR ''&''" "c \<noteq> CHR ''+''" "c \<noteq> CHR ''%''" "c \<noteq> CHR '',''" "c \<noteq> CHR '';''" if "c \<in> set v" for c
    using assms that by (auto simp: raw_cursor_def list_all_iff)
  show "v \<noteq> []" using assms by (simp add: raw_cursor_def)
  show "list_all url_char (''after='' @ v)" using chars(1) by (simp add: list_all_iff) (simp add: url_char_def)
  show "link_url v" "list_all (\<lambda>c. (of_char c :: nat) < 128) v"
    using chars(1,5,6) by (fastforce simp: list_all_iff link_url_def url_char_def visible_ascii_def)+
  show "CHR ''&'' \<notin> set v" using chars(2) by blast
  show "percent_decode v = v" using percent_decode_plain [of v "[]"] chars(3,4) by auto
qed

lemma test_link_page:
  assumes laws: "url_library P port" and v: "raw_cursor v"
  shows "next_page_url (P\<lparr>http_send := server\<rparr>) original (CHR ''<'' # (''https://example.test/?after='' @ v) @ ''>'') =
     (if 6 + length (form_text v) \<le> max_provenance_cursor_bytes
      then Inr (original\<lparr>u_query := Some (''per_page=100&after='' @ form_text v)\<rparr>)
      else fail (pagination_error ''provenance cursor limit exceeded''))"
proof -
  let ?P = "P\<lparr>http_send := server\<rparr>" and ?q = "''after='' @ v"
  let ?u = "elsewhere ''example.test'' ''/'' ?q"
  note raw = raw_cursorD [OF v]
  have parsed: "url_parse ?P (''https://example.test/?after='' @ v) = Some ?u"
    using url_libraryD(7) [OF laws raw(2)] by simp
  have "percent_decode ?q = ?q" using percent_decode_plain [of "''after=''" v] raw(5) by simp
  moreover have "form_pairs ?q = [(''after'', v)]"
    using form_pairs_single [of v "''after''"] raw(5,6) by simp
  ultimately have "url_query_pairs ?P ?u = [(''after'', v)]"
    using url_libraryD(11) [OF laws, of ?u ?q] raw(4) by (simp add: elsewhere_def)
  then have "filter (\<lambda>(name, _). name = ''before'' \<or> name = ''after'') (url_query_pairs ?P ?u) = [(''after'', v)]" by simp
  moreover have "form_encode ?P ''after'' v = ''after='' @ form_text v"
    using cursor_encoded [OF laws, of "''after''" v] by simp
  ultimately show ?thesis
    using followed_link [OF parsed, of "''after''" v "''after='' @ form_text v" original] raw(1) by (simp add: elsewhere_def)
qed

text \<open>Both pages of the test, and the first one alone.\<close>

lemma linked_pages:
  assumes laws: "url_library P port" "page_texts P" and v: "list_all (\<lambda>c. (of_char c :: nat) < 128) v"
    and following: "next_attestation_page (P\<lparr>http_send := link_server P links valid\<rparr>) (numbered_url port 1)
      (map (Pair ''link'') links) = (if valid then Inr (Some (at_server port ''/'' (Some (''per_page=100&after='' @ form_text v))))
         else fail (pagination_error reason))"
  shows "if valid then unwraps (\<lambda>bundles. length bundles = 2)
        (fetch_pages (P\<lparr>http_send := link_server P links valid\<rparr>) (numbered_url port 1) None)
      else fails_as (invalid_at ''Link'') (fetch_pages (P\<lparr>http_send := link_server P links valid\<rparr>) (numbered_url port 1) None)"
proof -
  let ?P = "P\<lparr>http_send := link_server P links valid\<rparr>"
  let ?initial = "numbered_url port 1" and ?q = "''per_page=100&after='' @ form_text v"
  let ?second = "at_server port ''/'' (Some ?q)"
  have initial: "?initial = at_server port ''/'' None" by (simp add: numbered_url_def)
  have q: "list_all url_char ?q" using form_output_safe(2) [OF form_output_text, of v] by (simp add: url_char_def)
  have pairs: "url_query_pairs P ?second = [(''per_page'', ''100''), (''after'', v)]"
    using cursor_queries(2) [OF laws(1) _ v, of "''after''" ?second] by (simp add: at_server_def)
  have "url_query_pairs P ?initial = []" unfolding initial by (rule url_libraryD(10) [OF laws(1)]) (simp add: at_server_def)
  then have first: "github_get ?P client ?initial accept None = Some (mock_page False (map (Pair ''link'') links) (as_bytes ok_page))"
    for client accept
    using url_libraryD(2,3) [OF laws(1), folded initial]
    by (simp add: github_get_def github_headers_def link_server_def requested_def get_request_def)
  have second: "github_get ?P client ?second accept None = Some (mock_page False [] (as_bytes ok_page))"
    if valid for client accept
    using that pairs url_libraryD(5,6) [OF laws(1) q, of "''/''"]
    by (simp add: github_get_def github_headers_def link_server_def requested_def get_request_def)
  have entries: "decode_attestations ?P (as_bytes ok_page) = Inr [JObj [(''ok'', JBool True)]]"
    using ok_entries [OF laws(2), of "length ok_page"] by (simp add: padded_to_def)
  have limits: "length (as_bytes ok_page) \<le> max_provenance_page_bytes" "2 < max_provenance_pages"
    "length (as_bytes ok_page) + length (as_bytes ok_page) < max_provenance_total_bytes"
    by (simp_all add: ok_page_def quoted_def max_provenance_page_bytes_def max_provenance_total_bytes_def max_provenance_pages_def)
  let ?fetch = "fetch_image_provenance_pages ?P (default_client\<lparr>hc_proxy := False\<rparr>) ?initial None"
  show ?thesis
  proof (cases valid)
    case True
    have "?initial \<noteq> ?second" unfolding initial by (simp add: at_server_def)
    moreover have "next_attestation_page ?P ?initial (map (Pair ''link'') links) = Inr (Some ?second)"
      using following True by simp
    ultimately have "unwraps (\<lambda>bundles. length bundles = 2) (?fetch ?initial [] 0 [])"
      using one_page [of "[]" 0 ?initial, OF _ _ _ first _ _ _ entries]
        one_page [of "[?initial]" "length (as_bytes ok_page)" ?second, OF _ _ _ second [OF True] no_links _ _ entries] limits
      by (simp add: Let_def)
    with True show ?thesis by (simp add: fetch_pages_def)
  next
    case False
    then have "?fetch ?initial [] 0 [] = fail (pagination_error reason)"
      using first following limits
      by (subst fetch_image_provenance_pages.simps) (simp add: is_success_def max_provenance_total_bytes_def)
    with False show ?thesis by (simp add: fetch_pages_def pagination_error_def)
  qed
qed

text \<open>The headers of the cases: one link, with a title, and beside another field.\<close>

definition example_url :: "string \<Rightarrow> string" where
  "example_url v = ''https://example.test/?after='' @ v"

lemma example_link: "test_link (''after='' @ v) = next_link (example_url v)"
  by (simp add: test_link_def example_url_def)

lemma example_link_url [simp]: "raw_cursor v \<Longrightarrow> link_url (example_url v)"
  using raw_cursorD(3) [of v] by (simp add: example_url_def visible_ascii_def)

lemma example_page:
  assumes "url_library P port" "raw_cursor v"
  shows "next_page_url (P\<lparr>http_send := server\<rparr>) (numbered_url port 1) (CHR ''<'' # example_url v @ ''>'') =
     (if 6 + length (form_text v) \<le> max_provenance_cursor_bytes
      then Inr (at_server port ''/'' (Some (''per_page=100&after='' @ form_text v)))
      else fail (pagination_error ''provenance cursor limit exceeded''))"
  unfolding example_url_def test_link_page [OF assms] by (simp add: numbered_url_def at_server_def)

lemma one_link_page:
  assumes "raw_cursor v" "length v \<le> 5000"
  shows "next_attestation_page P url (map (Pair ''link'') [next_link (example_url v)]) =
     rbind (next_page_url P url (CHR ''<'' # example_url v @ ''>'')) (\<lambda>u. Inr (Some u))"
proof -
  have "length (example_url v) \<le> 8000" using assms(2) by (simp add: example_url_def)
  then show ?thesis
    using page_of_single_link [OF single_next_link [of "example_url v"], of P url] assms(1) test_links(6)
    by (simp add: header_insert_def header_remove_def)
qed

lemma beside_page:
  assumes "raw_cursor v"
  shows "next_attestation_page P url (map (Pair ''link'') [next_link (example_url v), other]) =
     (if length (next_link (example_url v)) + 1 + length other \<le> max_provenance_link_bytes
      then rbind (next_page_url P url (CHR ''<'' # example_url v @ ''>'')) (\<lambda>u. Inr (Some u))
      else fail (pagination_error ''provenance Link header limit exceeded''))"
proof -
  note parts = next_link_parts [OF example_link_url [OF assms]]
  have "split_on (CHR '';'') (next_link (example_url v)) = [CHR ''<'' # example_url v @ ''>'', next_rel]"
    using split_on_append [OF parts(5), of next_rel] split_on_plain [OF parts(6)] parts(4) by simp
  moreover have "trim (CHR ''<'' # example_url v @ ''>'') = CHR ''<'' # example_url v @ ''>''"
    by (rule trim_closed) (simp_all add: is_space_def)
  ultimately have "next_in_headers P url [next_link (example_url v), other] =
      rbind (next_page_url P url (CHR ''<'' # example_url v @ ''>'')) (\<lambda>u. Inr (Some u))"
    using parts(1-3) test_links(6)
    by (cases "next_page_url P url (CHR ''<'' # example_url v @ ''>'')") simp_all
  moreover have "header_get_all ''link'' (map (Pair ''link'') links) = links" for links
    by (induction links) (simp_all add: header_get_all_def)
  moreover have "check_link_sizes True 0 [a, b] =
      (if length a + 1 + length b \<le> max_provenance_link_bytes then Inr ()
       else fail (pagination_error ''provenance Link header limit exceeded''))" for a b
    by (auto simp: ensure_def Let_def)
  ultimately show ?thesis
    by (simp add: next_attestation_page_def del: check_link_sizes.simps next_in_headers.simps list.map)
qed

text \<open>The fields of the first two cases.\<close>

lemma titled_page:
  assumes "raw_cursor v" and n: "length (next_link (example_url v)) + 10 \<le> n"
  shows "next_attestation_page P url (map (Pair ''link'') [titled (next_link (example_url v)) n]) =
     (if n \<le> max_provenance_link_bytes
      then rbind (next_page_url P url (CHR ''<'' # example_url v @ ''>'')) (\<lambda>u. Inr (Some u))
      else fail (pagination_error ''provenance Link header limit exceeded''))"
proof -
  let ?next = "next_link (example_url v)" and ?target = "CHR ''<'' # example_url v @ ''>''"
  define xs where "xs = repeated ''x'' (n - length ?next - 10)"
  define title where "title = '' title='' @ quoted xs"
  let ?h = "titled ?next n"
  note parts = next_link_parts [OF example_link_url [OF assms(1)]]
  have h: "?h = ?next @ CHR '';'' # title" by (simp add: titled_def title_def xs_def)
  have xs: "set xs \<subseteq> {CHR ''x''}" by (simp add: xs_def)
  have shape: "title = ('' title='' @ [CHR 0x22] @ xs) @ [CHR 0x22]" by (simp add: title_def quoted_def)
  then have "title = butlast title @ [CHR 0x22]" by (metis butlast_snoc)
  moreover have "CHR '';'' \<notin> set title" "CHR '','' \<notin> set title" using xs by (auto simp: shape)
  moreover have "list_all visible_ascii title"
    using xs by (auto simp: shape list_all_iff) (auto simp: visible_ascii_def)
  ultimately have title: "CHR '';'' \<notin> set title" "CHR '','' \<notin> set title" "list_all visible_ascii title"
    "title = butlast title @ [CHR 0x22]" by blast+
  have "length ?h = n" using n by (simp add: titled_def quoted_def)
  moreover have "header_to_str ?h = Some ?h"
    using parts(1) title(3) by (simp add: h header_to_str_def visible_ascii_def split: if_splits)
  moreover have "split_on (CHR '','') ?h = [?h]"
    using parts(7) title(2) by (intro split_on_plain) (simp add: h)
  moreover have "split_on (CHR '';'') ?h = [?target, next_rel, title]"
  proof -
    have "?h = ?target @ CHR '';'' # next_rel @ CHR '';'' # title" unfolding h by (subst parts(4)) simp
    then show ?thesis
      using split_on_append [OF parts(5)] split_on_append [OF parts(6)] split_on_plain [OF title(1)] by simp
  qed
  moreover have "trim ?h = ?h"
  proof -
    let ?inner = "example_url v @ ''>'' @ CHR '';'' # next_rel @ CHR '';'' # butlast title"
    have "?h = CHR ''<'' # ?inner @ [CHR 0x22]"
      unfolding h by (subst parts(4), subst title(4)) simp
    then show ?thesis using trim_closed [of "CHR ''<''" "CHR 0x22" ?inner] by (simp add: is_space_def)
  qed
  moreover have "trim ?target = ?target"
    by (rule trim_closed) (simp_all add: is_space_def)
  moreover have "header_get_all ''link'' (map (Pair ''link'') [?h]) = [?h]"
    by (simp add: header_get_all_def)
  ultimately show ?thesis
    using test_links(6)
    by (cases "next_page_url P url ?target")
      (simp_all add: next_attestation_page_def ensure_def del: append.simps list.map)
qed

lemma link_headers_test:
  assumes laws: "url_library P port" "page_texts P"
  shows "bounds_pagination_link_headers_and_reencoded_cursors P port"
proof -
  have raw: "raw_cursor ''next''" "raw_cursor (repeated ''x'' (Suc n))" "raw_cursor (repeated ''!'' n @ ''x'')"
    "raw_cursor (repeated ''!'' (Suc n))" for n
    by (simp_all add: raw_cursor_def url_char_def repeated_simps)
  have plain: "length (form_text ''next'') = 4" "length (form_text (repeated ''x'' n)) = n" for n
    by (simp_all add: form_text_repeated) (simp_all add: form_text_def form_char_def is_alnum_def is_digit_def is_lower_def)
  have "form_char (CHR ''!'') = ''%21''" by code_simp
  then have escaped: "length (form_text (repeated ''!'' n)) = 3 * n" for n
    by (simp add: form_text_repeated) (simp add: form_text_def)
  have x: "length (form_text ''x'') = 1" using plain(2) [of 1] by (simp add: repeated_simps)
  have nxt: "test_link ''after=next'' = next_link (example_url ''next'')" using example_link [of "''next''"] by simp
  have size: "length (next_link (example_url ''next'')) = 46" by (simp add: next_link_def example_url_def quoted_def)
  let ?case = "\<lambda>links valid. let result = fetch_pages (P\<lparr>http_send := link_server P links valid\<rparr>) (numbered_url port 1) None in
    if valid then unwraps (\<lambda>bundles. length bundles = 2) result else fails_as (invalid_at ''Link'') result"
  have fits: "?case links (length (form_text v) \<le> 4090)"
    if "raw_cursor v" "\<And>server. next_attestation_page (P\<lparr>http_send := server\<rparr>) (numbered_url port 1) (map (Pair ''link'') links) =
      rbind (next_page_url (P\<lparr>http_send := server\<rparr>) (numbered_url port 1) (CHR ''<'' # example_url v @ ''>'')) (\<lambda>u. Inr (Some u))"
    for links v
    unfolding Let_def
    by (rule linked_pages [OF laws raw_cursorD(4) [OF that(1)], where reason = "''provenance cursor limit exceeded''"])
      (simp add: that(2) example_page [OF laws(1) that(1)] max_provenance_cursor_bytes_def del: One_nat_def)
  have large: "?case links False"
    if "\<And>server. next_attestation_page (P\<lparr>http_send := server\<rparr>) (numbered_url port 1) (map (Pair ''link'') links) =
      fail (pagination_error ''provenance Link header limit exceeded'')" for links
    unfolding Let_def
    by (rule linked_pages [OF laws raw_cursorD(4) [OF raw(1)]]) (simp add: that del: One_nat_def)
  note limit = max_provenance_link_bytes_def
  let ?next = "next_link (example_url ''next'')" and ?beside = "repeated ''x'' (8192 - 46 - 1)"
  have read: "next_attestation_page Q url (map (Pair ''link'') links) =
      rbind (next_page_url Q url (CHR ''<'' # example_url ''next'' @ ''>'')) (\<lambda>u. Inr (Some u))"
    if "links \<in> {[titled ?next 8192], [?next, ?beside]}" for links url and Q :: "'a net_prims_scheme"
    using that by (elim insertE emptyE) (simp_all add: titled_page [OF raw(1)] beside_page [OF raw(1)] size limit del: list.map)
  have "?case [titled ?next 8192] True" "?case [?next, ?beside] True"
    using fits [OF raw(1) read, of "[titled ?next 8192]"] fits [OF raw(1) read, of "[?next, ?beside]"] plain(1) by simp_all
  moreover have "?case [titled ?next 8193] False"
    by (rule large) (simp add: titled_page [OF raw(1)] size limit del: list.map)
  moreover have "?case [next_link (example_url ''next''), repeated ''x'' (8193 - 46 - 1)] False"
    by (rule large) (simp add: beside_page [OF raw(1)] size limit del: list.map)
  moreover have "?case [test_link (''after='' @ repeated ''x'' (4096 - 6))] True"
    "?case [test_link (''after='' @ repeated ''x'' (4097 - 6))] False"
  proof -
    have "?case [test_link (''after='' @ repeated ''x'' n)] (n \<le> 4090)" if "0 < n" "n < 5000" for n
      using fits [of "repeated ''x'' n", OF _ one_link_page, folded example_link] raw(2) [of "n - 1"] that plain(2) [of n]
      by simp
    from this [of 4090] this [of 4091] show "?case [test_link (''after='' @ repeated ''x'' (4096 - 6))] True"
      "?case [test_link (''after='' @ repeated ''x'' (4097 - 6))] False" by simp_all
  qed
  moreover have "?case [test_link (''after='' @ repeated ''!'' 1363 @ ''x'')] True"
    using fits [OF raw(3) one_link_page [OF raw(3)], of 1363, folded example_link] escaped [of 1363] x by simp
  moreover have "?case [test_link (''after='' @ repeated ''!'' 1364)] False"
    using fits [OF raw(4) one_link_page [OF raw(4)], of 1363, folded example_link] escaped [of 1364] by simp
  ultimately show ?thesis
    using fetch_numbered [OF laws(1)]
    unfolding bounds_pagination_link_headers_and_reencoded_cursors_def link_cases_def nxt
    by (simp add: size Let_def)
qed

lemma bundle_page_entries:
  assumes "list_all is_object bundles" "length bundles \<le> 100"
  shows "github_attestations_of (bundle_page bundles) = Some (map value_of bundles)"
proof -
  have "all_some (map attestation_bundle_of (map (\<lambda>bundle. JObj [(''bundle'', bundle)]) bundles)) = Some (map value_of bundles)"
    using assms(1)
    by (induction bundles) (simp_all add: attestation_bundle_of_def struct_view_def no_repeats_def need_def)
  then show ?thesis
    using assms(2)
    by (simp add: bundle_page_def github_attestations_of_def struct_view_def no_repeats_def need_def
        deserialize_attestations_def max_provenance_page_entries_def)
qed

lemma untrusted_cursor:
  assumes laws: "url_library P port" and name: "name \<in> {''before'', ''after''}"
  shows "filter (\<lambda>(name, _). name = ''before'' \<or> name = ''after'')
      (url_query_pairs P (elsewhere ''example.com'' ''/untrusted'' (''per_page=1&page=2&'' @ name @ ''=a%2B%2F%3D%26''))) =
    [(name, ''a+/=&'')]"
proof -
  let ?u = "elsewhere ''example.com'' ''/untrusted'' (''per_page=1&page=2&'' @ name @ ''=a%2B%2F%3D%26'')"
  have more: "form_pairs (''per_page=1'' @ CHR ''&'' # ''page=2'' @ CHR ''&'' # name @ ''='' @ ''a%2B%2F%3D%26'') =
      form_pairs ''per_page=1'' @ form_pairs ''page=2'' @ form_pairs (name @ ''='' @ ''a%2B%2F%3D%26'')"
    by (subst form_pairs_more, simp, simp, subst form_pairs_more) simp_all
  have "percent_decode ''a%2B%2F%3D%26'' = ''a+/=&''" by code_simp
  then have "form_pairs (name @ ''='' @ ''a%2B%2F%3D%26'') = [(name, ''a+/=&'')]"
    using form_pairs_single [of "''a%2B%2F%3D%26''" name] name by auto
  then have "form_pairs (''per_page=1&page=2&'' @ name @ ''=a%2B%2F%3D%26'') =
      [(''per_page'', ''1''), (''page'', ''2''), (name, ''a+/=&'')]"
    using more form_pairs_single [of "''1''" "''per_page''"] form_pairs_single [of "''2''" "''page''"] by simp
  moreover have "list_all (\<lambda>c. (of_char c :: nat) < 128) (percent_decode (''per_page=1&page=2&'' @ name @ ''=a%2B%2F%3D%26''))"
    using name by (elim insertE emptyE; hypsubst; code_simp)
  ultimately have "url_query_pairs P ?u = [(''per_page'', ''1''), (''page'', ''2''), (name, ''a+/=&'')]"
    using url_libraryD(11) [OF laws, of ?u] by (simp add: elsewhere_def)
  then show ?thesis using name by auto
qed

lemma bearer_headers:
  "github_headers accept (Some ''test-token'') = Some [(''accept'', accept), (''x-github-api-version'', ''2022-11-28''),
    (''user-agent'', ''nearai-inference-sdk''), (''authorization'', ''Bearer test-token'')]"
proof -
  have "header_value_from_bytes (as_bytes ''Bearer test-token'') = Some ''Bearer test-token''" by code_simp
  then show ?thesis by (simp add: github_headers_def)
qed

lemma bundle_entries:
  assumes texts: "page_texts P"
  shows "decode_attestations (P\<lparr>http_send := server\<rparr>) (as_bytes (json_print P (bundle_page [first_bundle]))) = Inr [first_bundle]"
    "decode_attestations (P\<lparr>http_send := server\<rparr>) (as_bytes (json_print P (bundle_page final_bundles))) = Inr final_bundles"
proof -
  have "map value_of [first_bundle] = [first_bundle]" "map value_of final_bundles = final_bundles"
    "list_all is_object [first_bundle]" "list_all is_object final_bundles"
    by (simp_all add: first_bundle_def final_bundles_def list_all_iff)
  then show "decode_attestations (P\<lparr>http_send := server\<rparr>) (as_bytes (json_print P (bundle_page [first_bundle]))) = Inr [first_bundle]"
    "decode_attestations (P\<lparr>http_send := server\<rparr>) (as_bytes (json_print P (bundle_page final_bundles))) = Inr final_bundles"
    using printed_page [OF texts bundle_page_entries [of "[first_bundle]"]]
      printed_page [OF texts bundle_page_entries [of final_bundles]]
    by (simp_all add: final_bundles_def del: list.map)
qed

lemma cursor_pages_test:
  assumes laws: "url_library P port" "page_texts P"
  shows "fetches_cursor_pages_at_the_original_origin_and_path P port"
proof -
  have one: "unwraps (\<lambda>bundles. bundles = json_print P first_bundle # map (json_print P) final_bundles)
      (fetch_pages (P\<lparr>http_send := cursor_server P name\<rparr>) (at_server port endpoint_path (Some ''per_page=100'')) (Some ''test-token''))"
    if name: "name \<in> {''before'', ''after''}" for name
  proof -
    let ?P = "P\<lparr>http_send := cursor_server P name\<rparr>"
    let ?q = "''per_page=100&'' @ name @ ''=a%2B%2F%3D%26''"
    let ?initial = "at_server port endpoint_path (Some ''per_page=100'')" and ?second = "at_server port endpoint_path (Some ?q)"
    let ?u = "elsewhere ''example.com'' ''/untrusted'' (''per_page=1&page=2&'' @ name @ ''=a%2B%2F%3D%26'')"
    let ?target = "''https://example.com/untrusted?per_page=1&page=2&'' @ name @ ''=a%2B%2F%3D%26''"
    have enc: "form_text ''a+/=&'' = ''a%2B%2F%3D%26''" by code_simp
    have chars: "list_all url_char (name @ ''=a%2B%2F%3D%26'')" "link_url (name @ ''=a%2B%2F%3D%26'')" "length name \<le> 6"
      using name by (auto simp: url_char_def visible_ascii_def)
    have first_pairs: "url_query_pairs P ?initial = [(''per_page'', ''100'')]"
      using url_libraryD(11) [OF laws(1), of ?initial "''per_page=100''"] form_pairs_single [of "''100''" "''per_page''"]
      by (simp add: at_server_def)
    have second_pairs: "url_query_pairs P ?second = [(''per_page'', ''100''), (name, ''a+/=&'')]"
      using cursor_queries(2) [OF laws(1) name, of "''a+/=&''" ?second] by (simp add: enc at_server_def)
    have "next_page_url ?P ?initial (CHR ''<'' # ?target @ ''>'') = Inr ?second"
      using followed_link [of ?P ?target ?u name "''a+/=&''" "name @ ''='' @ ''a%2B%2F%3D%26''" ?initial]
        url_libraryD(8) [OF laws(1), of "''per_page=1&page=2&'' @ name @ ''=a%2B%2F%3D%26''"] chars untrusted_cursor [OF laws(1) name]
        cursor_encoded [OF laws(1) name, of "''a+/=&''"] enc
      by (simp add: at_server_def elsewhere_def url_char_def max_provenance_cursor_bytes_def)
    then have following: "next_attestation_page ?P ?initial (header_insert ''link'' (next_link ?target) []) = Inr (Some ?second)"
      using page_of_single_link [OF single_next_link [of ?target], of ?P ?initial] test_links(6) chars
      by (simp add: visible_ascii_def)
    let ?first = "mock_page False (header_insert ''link'' (next_link ?target) []) (as_bytes (json_print P (bundle_page [first_bundle])))"
      and ?last = "mock_page False [] (as_bytes (json_print P (bundle_page final_bundles)))"
    note address = url_libraryD(5,6) [OF laws(1), of _ endpoint_path]
    have answers: "github_get ?P client ?initial ''application/vnd.github+json'' (Some ''test-token'') = Some ?first"
      "github_get ?P client ?second ''application/vnd.github+json'' (Some ''test-token'') = Some ?last" for client
      using address [of "''per_page=100''"] address [of ?q] chars first_pairs second_pairs name
      by (auto simp: github_get_def bearer_headers cursor_server_def requested_def get_request_def url_char_def at_server_def header_get_def)
    let ?sizes = "\<lambda>page. length (as_bytes (json_print P page))"
    have limits: "?sizes (bundle_page [first_bundle]) \<le> max_provenance_page_bytes" "?sizes (bundle_page final_bundles) \<le> max_provenance_page_bytes"
      "2 < max_provenance_pages"
      "?sizes (bundle_page [first_bundle]) + ?sizes (bundle_page final_bundles) < max_provenance_total_bytes"
      using laws(2) by (simp_all add: page_texts_def max_provenance_page_bytes_def max_provenance_total_bytes_def max_provenance_pages_def)
    have "?initial \<noteq> ?second" by (simp add: at_server_def)
    then show ?thesis
      using one_page [of "[]" 0 ?initial, OF _ _ _ answers(1) following _ _ bundle_entries(1) [OF laws(2)]]
        one_page [of "[?initial]" "?sizes (bundle_page [first_bundle])" ?second, OF _ _ _ answers(2) no_links _ _ bundle_entries(2) [OF laws(2)]] limits
      by (simp add: fetch_pages_def Let_def)
  qed
  then show ?thesis
    using url_libraryD(5) [OF laws(1), of "''per_page=100''" endpoint_path]
    by (simp add: fetches_cursor_pages_at_the_original_origin_and_path_def url_char_def)
qed

end
