(* ===== verification/Unit_Events.thy ===== *)
theory Unit_Events
  imports Unit_Encryption
begin

text \<open>
  The test of \<open>e2ee.rs\<close> that decrypts a stream delivered byte by byte, as a predicate, and the lemma that the model
  passes it.
\<close>

section \<open>The test\<close>

text \<open>The globe, U+1F30D, as its UTF-8 bytes; a line break of two characters.\<close>

definition globe :: string where
  "globe = map char_at [0xF0, 0x9F, 0x8C, 0x8D]"

abbreviation crlf :: string where "crlf \<equiv> [cr, lf]"

definition event_head :: string where
  "event_head = '': heartbeat'' @ crlf @ ''id: event-1'' @ crlf @ ''event: message'' @ crlf"

definition first_data :: string where
  "first_data = ''{'' @ quoted ''id'' @ '':'' @ quoted ''chat-1'' @ '',''"

definition second_data :: "string \<Rightarrow> string" where
  "second_data ciphertext =
     quoted ''choices'' @ '':[{'' @ quoted ''delta'' @ '':{'' @ quoted ''content'' @ '':'' @ quoted ciphertext @ ''}}]}''"

definition fragmented_source :: "string \<Rightarrow> string" where
  "fragmented_source ciphertext = event_head @ ''data: '' @ first_data @ crlf @ ''data: '' @ second_data ciphertext @ crlf @ crlf
     @ ''data: [DONE]'' @ [lf, lf] @ '': tail''"

definition decrypts_fragmented_sse_and_preserves_controls_and_newlines ::
  "('c, 'z) e2ee_prims_scheme \<Rightarrow> (signing_algo \<Rightarrow> nat \<Rightarrow> bytes \<times> bytes) \<Rightarrow> url \<Rightarrow> bool" where
  "decrypts_fragmented_sse_and_preserves_controls_and_newlines P rnd address \<longleftrightarrow>
     (let (key, model) = fixed_key P Ed25519 in
      unwraps (\<lambda>ciphertext.
        let inp = map (\<lambda>b. Inr [b]) (as_bytes (fragmented_source ciphertext));
            prepared = \<lparr>pe_request = \<lparr>cr_method = ''POST'', cr_url = address, cr_headers = [], cr_body = None\<rparr>,
              pe_key = key\<rparr>
        in case decrypt_sse P prepared inp of (chunks, ended) \<Rightarrow>
             unwraps (\<lambda>_. True) ended
             \<and> (case from_utf8 (concat chunks) of
                  None \<Rightarrow> False
                | Some output \<Rightarrow>
                    starts_with (event_head @ ''data: '') output \<and> contains_text output globe
                    \<and> strip_suffix (crlf @ crlf @ ''data: [DONE]'' @ [lf, lf] @ '': tail'') output \<noteq> None))
        (encrypt P (rnd Ed25519 0) globe model))"

section \<open>The crates\<close>

text \<open>
  What \<open>serde_json\<close> reads from the two data lines, joined by a line feed, for a hexadecimal ciphertext; a printed
  document shows a character beyond ASCII as it is, on one line.
\<close>

definition opened_event :: "string \<Rightarrow> json" where
  "opened_event content = JObj [(''id'', JStr ''chat-1''),
     (''choices'', JArr [JObj [(''delta'', JObj [(''content'', JStr content)])]])]"

definition fragment_texts :: "'z prims_scheme \<Rightarrow> bool" where
  "fragment_texts P \<longleftrightarrow>
     (\<forall>ciphertext. list_all is_hexdigit ciphertext \<longrightarrow>
        json_parse P (as_bytes (first_data @ [lf] @ second_data ciphertext)) = Some (opened_event ciphertext))
     \<and> (\<forall>j. utf8_valid (as_bytes (json_print P j)))
     \<and> (\<exists>before after. json_print P (opened_event globe) = before @ globe @ after)"

section \<open>The model passes the test\<close>

lemma utf8_valid_append: "utf8_valid xs \<Longrightarrow> utf8_valid (xs @ ys) = utf8_valid ys"
proof (induction xs rule: utf8_valid.induct)
  case (2 b bs)
  then show ?case
    by (auto simp: utf8_valid.simps(2) Let_def split: if_splits list.splits)
qed simp

lemma contains_middle: "contains_text (before @ part @ after) part"
  unfolding contains_text_def list_ex_iff
  by (rule bexI [of _ "length before"]) (simp_all add: starts_with_iff)

lemma as_bytes_Nil [simp]: "as_bytes s = [] \<longleftrightarrow> s = []"
  by (simp add: as_bytes_def)

lemma ref_lines_bytes:
  "ref_lines 13 10 (as_bytes cur) (as_bytes xs) = map (map_prod as_bytes as_bytes) (ref_lines cr lf cur xs)"
proof (induction xs arbitrary: cur rule: measure_induct_rule [of length])
  case (less xs)
  have ends: "byte_of x = 13 \<longleftrightarrow> x = cr" "byte_of x = 10 \<longleftrightarrow> x = lf" for x
    using byte_of_inject [of x cr] byte_of_inject [of x lf] by (simp_all add: byte_of_def)
  have crlf_bytes: "byte_of cr = 13" "byte_of lf = 10" using ends by simp_all
  show ?case
  proof (cases xs)
    case (Cons x ys)
    have rest: "ref_lines 13 10 (as_bytes c) (as_bytes zs) = map (map_prod as_bytes as_bytes) (ref_lines cr lf c zs)"
      if "length zs < length xs" for c zs
      using less [of zs c] that by simp
    show ?thesis
    proof (cases "x \<noteq> cr \<and> x \<noteq> lf")
      case True
      then show ?thesis using rest [of ys "cur @ [x]"] Cons ends by simp
    next
      case False
      then consider "x = lf" | "x = cr" "ys = []" | zs where "x = cr" "ys = lf # zs" | y zs where "x = cr" "ys = y # zs" "y \<noteq> lf"
        by (cases ys) auto
      then show ?thesis
      proof cases
        case 1
        then show ?thesis using rest [of ys "[]"] Cons crlf_bytes by simp
      next
        case 2
        then show ?thesis using Cons crlf_bytes by simp
      next
        case (3 zs)
        then show ?thesis using rest [of zs "[]"] Cons crlf_bytes by simp
      next
        case (4 y zs)
        then have "byte_of y \<noteq> 10" using ends(2) by simp
        with 4 show ?thesis using rest [of ys "[]"] Cons crlf_bytes 
          by (simp add: ref_lines.simps(2) [of _ _ _ 13] ref_lines.simps(2) [of cr lf _ cr] del: ref_lines.simps(2))
      qed
    qed
  qed simp
qed

lemma ref_group_bytes:
  "ref_group (as_bytes cur) (map (map_prod as_bytes as_bytes) ls) = map as_bytes (ref_group cur ls)"
  by (induction cur ls rule: ref_group.induct) simp_all

lemma ref_records_text: "ref_records (as_bytes s) = map as_bytes (ref_group [] (lines s))"
  using ref_group_bytes [of "[]" "lines s"] ref_lines_bytes [of "[]" s] by (simp add: ref_records_def lines_ref)

lemma line_ends:
  assumes "cr \<notin> set l" "lf \<notin> set l"
  shows "lines (l @ cr # lf # s) = (l, crlf) # lines s"
    and "lines (l @ lf # s) = (l, [lf]) # lines s" and "l \<noteq> [] \<Longrightarrow> lines l = [(l, [])]"
proof -
  have "\<forall>x \<in> set l. x \<noteq> cr \<and> x \<noteq> lf" using assms by blast
  from ref_lines_plain [OF this, of "[]"]
  show "lines (l @ cr # lf # s) = (l, crlf) # lines s"
    and "lines (l @ lf # s) = (l, [lf]) # lines s" and "l \<noteq> [] \<Longrightarrow> lines l = [(l, [])]"
    using ref_lines_plain [of l cr lf "[]" "[]"] assms by (auto simp: lines_ref)
qed

text \<open>The lines of the three records, and what replaces the first one.\<close>

definition event_lines :: "string list \<Rightarrow> (string \<times> string) list" where
  "event_lines vs = map (\<lambda>l. (l, crlf))
     ([('': heartbeat''), ''id: event-1'', ''event: message''] @ map ((@) ''data: '') vs @ [[]])"

lemma event_lines_read:
  assumes "list_all (\<lambda>v. cr \<notin> set v \<and> lf \<notin> set v) vs"
  shows "lines (event_head @ concat (map (\<lambda>v. ''data: '' @ v @ crlf) vs) @ crlf @ s) = event_lines vs @ lines s"
proof -
  have value_lines: "lines (concat (map (\<lambda>v. ''data: '' @ v @ crlf) vs) @ s) = map (\<lambda>v. (''data: '' @ v, crlf)) vs @ lines s" for s
    using assms
  proof (induction vs)
    case (Cons v vs)
    then show ?case using line_ends(1) [of "''data: '' @ v"] by simp
  qed simp
  have head: "event_head = '': heartbeat'' @ cr # lf # ''id: event-1'' @ cr # lf # ''event: message'' @ crlf"
    by (simp add: event_head_def)
  have "lines (event_head @ t) = take 3 (event_lines vs) @ lines t" for t
    using line_ends(1) [of "'': heartbeat''"] line_ends(1) [of "''id: event-1''"] line_ends(1) [of "''event: message''"]
    by (simp add: head event_lines_def)
  then show ?thesis
    using value_lines [of "crlf @ s"] line_ends(1) [of "[]" s] by (simp add: event_lines_def)
qed

definition done_and_tail :: string where
  "done_and_tail = ''data: [DONE]'' @ [lf, lf] @ '': tail''"

lemma done_and_tail_lines: "lines done_and_tail = [(''data: [DONE]'', [lf]), ([], [lf]), ('': tail'', [])]"
  using line_ends(2) [of "''data: [DONE]''" "lf # '': tail''"] line_ends(2) [of "[]" "'': tail''"] line_ends(3) [of "'': tail''"]
  by (simp add: done_and_tail_def)

definition whole_event :: "string list \<Rightarrow> string" where
  "whole_event vs = event_head @ concat (map (\<lambda>v. ''data: '' @ v @ crlf) vs) @ crlf"

lemma event_records:
  assumes "list_all (\<lambda>v. cr \<notin> set v \<and> lf \<notin> set v) vs"
  shows "ref_records (as_bytes (whole_event vs @ done_and_tail)) =
     [as_bytes (whole_event vs), as_bytes (''data: [DONE]'' @ [lf, lf]), as_bytes '': tail'']"
proof -
  have "lines (whole_event vs @ done_and_tail) = event_lines vs @ lines done_and_tail"
    using event_lines_read [OF assms] by (simp add: whole_event_def)
  moreover have "ref_group cur (map (\<lambda>v. (''data: '' @ v, crlf)) vs @ rest) =
      ref_group (cur @ concat (map (\<lambda>v. ''data: '' @ v @ crlf) vs)) rest" for cur and rest :: "(string \<times> string) list"
    by (induction vs arbitrary: cur) simp_all
  then have "ref_group [] (event_lines vs @ lines done_and_tail) = [whole_event vs, ''data: [DONE]'' @ [lf, lf], '': tail'']"
    by (simp add: done_and_tail_lines event_lines_def whole_event_def event_head_def comp_def)
  ultimately show ?thesis
    unfolding ref_records_text by simp
qed

lemma two_values:
  assumes "hd v \<noteq> CHR '' ''" "hd w \<noteq> CHR '' ''" "v \<noteq> []" "w \<noteq> []"
  shows "data_values (event_lines [v, w]) = [v, w]" "event_name (event_lines [v, w]) = Some ''message''"
    "rebuild body (length [v, w]) (event_lines [v, w]) = whole_event [body]"
proof -
  have "strip_prefix '' '' v = None" "strip_prefix '' '' w = None"
    using assms by (cases v; cases w; simp add: strip_prefix_def)+
  then show "data_values (event_lines [v, w]) = [v, w]" "event_name (event_lines [v, w]) = Some ''message''"
    "rebuild body (length [v, w]) (event_lines [v, w]) = whole_event [body]"
    by (simp_all add: event_lines_def data_values_def event_name_def data_def strip_prefix_def List.map_filter_def first_of_def
        whole_event_def event_head_def or_else_def)
qed

lemma sealed_hex:
  assumes "sealing P rnd" "encrypt P (rnd algo i) t model = Inr c"
  shows "list_all is_hexdigit c"
proof -
  have "hex_format P" using assms(1) by (simp add: sealing_def)
  moreover obtain d where "c = hex_encode P d"
    using assms(2) by (auto simp: encrypt_def encrypt_with_aad_ok)
  ultimately show ?thesis by (simp add: hex_format_def)
qed

text \<open>The event with the ciphertext is printed anew with its opened text; the lines after it pass as they are.\<close>

lemma event_opened:
  assumes hex: "list_all is_hexdigit ct" and texts: "fragment_texts P" and opens: "decrypt_with_aad P key ct [] = Inr globe"
  shows "transform P (as_bytes (whole_event [first_data, second_data ct])) (Some key) None False False =
      Inr (as_bytes (whole_event [json_print P (opened_event globe)]), Some ''chat-1'')"
    and "list_all (\<lambda>v. cr \<notin> set v \<and> lf \<notin> set v) [first_data, second_data ct]"
proof -
  let ?vs = "[first_data, second_data ct]"
  have digit: "(of_char c :: nat) < 128 \<and> c \<noteq> cr \<and> c \<noteq> lf" if "is_hexdigit c" for c
    using that by (auto simp: is_hexdigit_def is_digit_def)
  have ascii: "list_all (\<lambda>c. (of_char c :: nat) < 128) (whole_event ?vs)"
    using hex digit by (simp add: whole_event_def event_head_def first_data_def second_data_def quoted_def list_all_iff)
  show plain: "list_all (\<lambda>v. cr \<notin> set v \<and> lf \<notin> set v) ?vs"
    using hex digit by (auto simp: first_data_def second_data_def quoted_def list_all_iff)
  have heads: "hd first_data \<noteq> CHR '' ''" "hd (second_data ct) \<noteq> CHR '' ''" "first_data \<noteq> []" "second_data ct \<noteq> []"
    by (simp_all add: first_data_def second_data_def quoted_def)
  have event: "lines (whole_event ?vs) = event_lines ?vs"
    using event_lines_read [OF plain, of "[]"] by (simp add: whole_event_def lines_ref)
  have "join_with [lf] ?vs \<noteq> []" "join_with [lf] ?vs \<noteq> ''[DONE]''" "join_with [lf] ?vs = first_data @ [lf] @ second_data ct"
    by (simp_all add: first_data_def)
  moreover have "json_parse P (as_bytes (first_data @ [lf] @ second_data ct)) = Some (opened_event ct)"
    using texts hex by (simp add: fragment_texts_def)
  moreover have "decrypt_response P key True (opened_event ct) = Inr (opened_event globe)"
    using opens by (simp add: opened_event_def opening_responses decrypt_def)
  moreover have "Option.bind (jget (opened_event ct) ''id'') as_str = Some ''chat-1''" "is_object (opened_event ct)"
    "jget (opened_event ct) ''choices'' = Some (JArr [JObj [(''delta'', JObj [(''content'', JStr ct)])]])"
    by (simp_all add: opened_event_def)
  ultimately show "transform P (as_bytes (whole_event ?vs)) (Some key) None False False =
      Inr (as_bytes (whole_event [json_print P (opened_event globe)]), Some ''chat-1'')"
    using two_values [OF heads] event
    by (simp add: transform_def ascii_text [OF ascii] receipt_of_def Let_def)
qed

lemma closing_records:
  "transform P (as_bytes (''data: [DONE]'' @ [lf, lf])) (Some key) rid False False = Inr (as_bytes (''data: [DONE]'' @ [lf, lf]), rid)"
  "transform P (as_bytes '': tail'') (Some key) rid False False = Inr (as_bytes '': tail'', rid)"
proof -
  have ends: "lines (''data: [DONE]'' @ [lf, lf]) = [(''data: [DONE]'', [lf]), ([], [lf])]" "lines '': tail'' = [('': tail'', [])]"
    using line_ends(2) [of "''data: [DONE]''" "[lf]"] line_ends(2) [of "[]" "[]"] line_ends(3) [of "'': tail''"]
    by (simp_all add: lines_ref)
  show "transform P (as_bytes (''data: [DONE]'' @ [lf, lf])) (Some key) rid False False = Inr (as_bytes (''data: [DONE]'' @ [lf, lf]), rid)"
    "transform P (as_bytes '': tail'') (Some key) rid False False = Inr (as_bytes '': tail'', rid)"
    using ends ascii_text [of "''data: [DONE]'' @ [lf, lf]"] ascii_text [of "'': tail''"]
    by (simp_all add: transform_def data_values_def data_def strip_prefix_def List.map_filter_def Let_def)
qed

lemma fragments_decrypted:
  assumes hex: "list_all is_hexdigit ct" and texts: "fragment_texts P" and opens: "decrypt_with_aad P key ct [] = Inr globe"
  shows "decrypt_sse P \<lparr>pe_request = request, pe_key = key\<rparr> (map (\<lambda>b. Inr [b]) (as_bytes (fragmented_source ct))) =
      ([as_bytes (whole_event [json_print P (opened_event globe)]), as_bytes (''data: [DONE]'' @ [lf, lf]), as_bytes '': tail''],
       Inr (Some ''chat-1''))"
proof -
  let ?prepared = "\<lparr>pe_request = request, pe_key = key\<rparr>"
  have source: "fragmented_source ct = whole_event [first_data, second_data ct] @ done_and_tail"
    by (simp add: fragmented_source_def whole_event_def done_and_tail_def)
  have "decrypt_sse P ?prepared (map (\<lambda>b. Inr [b]) (as_bytes (fragmented_source ct))) =
      decrypt_records P key None (ref_records (as_bytes (fragmented_source ct)))"
    using decrypt_sse_chunking [of P ?prepared "map (\<lambda>b. [b]) (as_bytes (fragmented_source ct))"] by (simp add: comp_def)
  then show ?thesis
    by (simp add: source event_records [OF event_opened(2) [OF assms]] event_opened(1) [OF assms] closing_records
        del: as_bytes_simps append.simps)
qed

text \<open>What is delivered reads as one text, around the printed event.\<close>

lemma delivered_text:
  assumes texts: "fragment_texts P"
  defines "opened \<equiv> whole_event [json_print P (opened_event globe)] @ done_and_tail"
  shows "from_utf8 (as_bytes opened) = Some opened" "starts_with (event_head @ ''data: '') opened"
    "contains_text opened globe" "strip_suffix (crlf @ crlf @ ''data: [DONE]'' @ [lf, lf] @ '': tail'') opened \<noteq> None"
proof -
  let ?doc = "json_print P (opened_event globe)" and ?rest = "crlf @ crlf @ ''data: [DONE]'' @ [lf, lf] @ '': tail''"
  obtain before after where doc: "?doc = before @ globe @ after" using texts by (auto simp: fragment_texts_def)
  have out: "opened = (event_head @ ''data: '') @ ?doc @ ?rest"
    by (simp add: opened_def whole_event_def done_and_tail_def)
  have "utf8_valid (as_bytes (event_head @ ''data: ''))" "utf8_valid (as_bytes ?rest)"
    by (rule ascii_valid; simp add: event_head_def)+
  then have "utf8_valid (as_bytes opened)"
    using texts unfolding out by (simp only: as_bytes_simps(3) utf8_valid_append fragment_texts_def)
  then show "from_utf8 (as_bytes opened) = Some opened" by (simp only: from_utf8_Some simp_thms)
  show "starts_with (event_head @ ''data: '') opened" unfolding out starts_with_iff by blast
  show "contains_text opened globe"
    using contains_middle [of "(event_head @ ''data: '') @ before" globe "after @ ?rest"]
    unfolding out unfolding doc by (simp only: append_assoc)
  have "strip_suffix ?rest opened = Some ((event_head @ ''data: '') @ ?doc)"
    by (simp only: strip_suffix_Some out append_assoc)
  then show "strip_suffix ?rest opened \<noteq> None" by (simp only: option.distinct simp_thms)
qed

lemma fragmented_test:
  assumes sealing: "sealing P rnd" and texts: "fragment_texts P"
  shows "decrypts_fragmented_sse_and_preserves_controls_and_newlines P rnd address"
proof -
  obtain key model cipher where model: "fixed_key P Ed25519 = (key, model)"
    and enc: "\<And>i t aad. encrypt_with_aad P (rnd Ed25519 i) t model aad = Inr (cipher i t aad)"
    and dec: "\<And>i t aad. utf8_valid (as_bytes t) \<Longrightarrow> decrypt_with_aad P key (cipher i t aad) aad = Inr t"
    using test_cipher [OF sealing] by metis
  define ct where "ct = cipher 0 globe []"
  have sealed: "encrypt P (rnd Ed25519 0) globe model = Inr ct" by (simp add: encrypt_def enc ct_def)
  then have hex: "list_all is_hexdigit ct" by (rule sealed_hex [OF sealing])
  have "as_bytes globe = [0xF0, 0x9F, 0x8C, 0x8D]" by (simp add: globe_def byte_of_char_at)
  moreover have "utf8_valid [0xF0, 0x9F, 0x8C, 0x8D]" by code_simp
  ultimately have opens: "decrypt_with_aad P key ct [] = Inr globe"
    using dec [of globe 0 "[]"] by (simp add: ct_def)
  have chunks: "concat [as_bytes (whole_event [v]), as_bytes (''data: [DONE]'' @ [lf, lf]), as_bytes '': tail''] =
      as_bytes (whole_event [v] @ done_and_tail)" for v
    by (simp add: done_and_tail_def)
  show ?thesis
    by (simp add: decrypts_fragmented_sse_and_preserves_controls_and_newlines_def model sealed chunks
        fragments_decrypted [OF hex texts opens] delivered_text [OF texts]
        del: concat.simps as_bytes_simps append.simps)
qed

end
