(* ===== verification/Unit_Vectors.thy ===== *)
theory Unit_Vectors
  imports Unit_Support Systemone
begin

text \<open>
  The response vectors that the SDKs share (\<open>test-fixtures/systemone-responses.json\<close>), the test of
  \<open>systemone.rs\<close> that reads them, and the lemma that the model passes it. Numbers keep their text.
\<close>

section \<open>The vectors\<close>

definition plain_usage :: json where
  "plain_usage = JObj [(''input_tokens'', JNum ''4''), (''output_tokens'', JNum ''2'')]"

definition extra_usage :: json where
  "extra_usage = JObj [(''input_tokens'', JNum ''4''), (''output_tokens'', JNum ''2''), (''extra_tokens'', JNum ''1'')]"

definition one_probability :: json where
  "one_probability = JObj [(''2.5'', JNum ''1'')]"

definition two_probabilities :: json where
  "two_probabilities = JObj [(''constructor'', JNum ''0.7''), (''toString'', JNum ''0.3'')]"

definition plain_box :: json where
  "plain_box = JObj [(''top'', JNum ''0.31''), (''bottom'', JNum ''0.69''), (''left'', JNum ''0.25''),
     (''right'', JNum ''0.75''), (''future'', JBool True)]"

definition full_legend :: json where
  "full_legend = JObj [(''1'', JStr ''low''), (''2'', JObj [(''text'', JStr ''high'')]), (''3'', JArr [JStr ''yes''])]"

definition noul_answer :: json where
  "noul_answer = JObj [(''type'', JStr ''noul''), (''noul'', JNum ''0.8''), (''future'', JObj [(''ok'', JBool True)])]"

definition choice_answer :: json where
  "choice_answer = JObj [(''type'', JStr ''choice''), (''choice'', JStr []), (''confidence'', JNum ''0.7''),
     (''probabilities'', two_probabilities)]"

definition score_answer :: json where
  "score_answer = JObj [(''type'', JStr ''score''), (''score'', JNum ''2.5''), (''confidence'', JNum ''1''),
     (''probabilities'', one_probability), (''legend'', full_legend)]"

definition answering :: "(string \<times> json) list \<Rightarrow> json" where
  "answering answers =
     JObj [(''model'', JStr ''vendor/model''), (''answers'', JObj answers), (''usage'', plain_usage)]"

definition valid_responses :: "json list" where
  "valid_responses =
     [JObj [(''id'', JNull), (''model'', JStr ''vendor/model''), (''answers'', JObj [(''__proto__'', noul_answer),
        (''choice'', choice_answer), (''score'', score_answer), (''region'', JObj [(''type'', JStr ''box''),
        (''box'', plain_box), (''confidence'', JNum ''0.82''), (''future'', JBool True)])]), (''usage'', extra_usage),
        (''future'', JObj [(''preserved'', JBool True)])],
      JObj [(''id'', JStr ''body-id''), (''model'', JStr ''vendor/model''), (''answers'', JObj [(''__proto__'', noul_answer),
        (''choice'', choice_answer), (''score'', score_answer), (''region'', JObj [(''type'', JStr ''box''),
        (''box'', JObj [(''top'', JNum ''2''), (''bottom'', JNum ''-1''), (''left'', JNum ''4''),
        (''right'', JNum ''3''), (''future'', JBool True)]), (''confidence'', JNull), (''future'', JBool True)]),
        (''unscored_region'', JObj [(''type'', JStr ''box''), (''box'', plain_box)])]), (''usage'', extra_usage),
        (''future'', JObj [(''preserved'', JBool True)])]]"

definition invalid_responses :: "(string \<times> json) list" where
  "invalid_responses =
     [(''empty model'', JObj [(''model'', JStr []), (''answers'', JObj []), (''usage'', plain_usage)]),
      (''null answers'', JObj [(''model'', JStr ''vendor/model''), (''answers'', JNull), (''usage'', plain_usage)]),
      (''noul above one'', answering [(''__proto__'', JObj [(''type'', JStr ''noul''), (''noul'', JNum ''1.2'')])]),
      (''null noul'', answering [(''__proto__'', JObj [(''type'', JStr ''noul''), (''noul'', JNull)])]),
      (''unknown answer type'', answering [(''__proto__'', JObj [(''type'', JStr ''future''), (''noul'', JNum ''0.8'')])]),
      (''negative confidence'', answering [(''choice'', JObj [(''type'', JStr ''choice''), (''choice'', JStr []),
        (''confidence'', JNum ''-0.1''), (''probabilities'', two_probabilities)])]),
      (''null probability'', answering [(''choice'', JObj [(''type'', JStr ''choice''), (''choice'', JStr []),
        (''confidence'', JNum ''0.7''), (''probabilities'', JObj [(''constructor'', JNull),
        (''toString'', JNum ''0.3'')])])]),
      (''numeric choice'', answering [(''choice'', JObj [(''type'', JStr ''choice''), (''choice'', JNum ''7''),
        (''confidence'', JNum ''0.7''), (''probabilities'', two_probabilities)])]),
      (''null score'', answering [(''score'', JObj [(''type'', JStr ''score''), (''score'', JNull),
        (''confidence'', JNum ''1''), (''probabilities'', one_probability),
        (''legend'', JObj [(''1'', JStr ''low'')])])]),
      (''boolean legend'', answering [(''score'', JObj [(''type'', JStr ''score''), (''score'', JNum ''2.5''),
        (''confidence'', JNum ''1''), (''probabilities'', one_probability), (''legend'', JObj [(''1'', JBool False)])])]),
      (''null input tokens'', JObj [(''model'', JStr ''vendor/model''), (''answers'', JObj []),
        (''usage'', JObj [(''input_tokens'', JNull), (''output_tokens'', JNum ''2'')])]),
      (''negative input tokens'', JObj [(''model'', JStr ''vendor/model''), (''answers'', JObj []),
        (''usage'', JObj [(''input_tokens'', JNum ''-1''), (''output_tokens'', JNum ''2'')])]),
      (''fractional output tokens'', JObj [(''model'', JStr ''vendor/model''), (''answers'', JObj []),
        (''usage'', JObj [(''input_tokens'', JNum ''4''), (''output_tokens'', JNum ''1.5'')])]),
      (''numeric body id'', JObj [(''model'', JStr ''vendor/model''), (''answers'', JObj []), (''usage'', plain_usage),
        (''id'', JNum ''17'')]),
      (''null usage'', JObj [(''model'', JStr ''vendor/model''), (''answers'', JObj []), (''usage'', JNull)]),
      (''missing model'', JObj [(''answers'', JObj []), (''usage'', plain_usage)]),
      (''missing answers'', JObj [(''model'', JStr ''vendor/model''), (''usage'', plain_usage)]),
      (''missing usage'', JObj [(''model'', JStr ''vendor/model''), (''answers'', JObj [])]),
      (''missing input tokens'', JObj [(''model'', JStr ''vendor/model''), (''answers'', JObj []),
        (''usage'', JObj [(''output_tokens'', JNum ''2'')])]),
      (''missing probabilities'', answering [(''choice'', JObj [(''type'', JStr ''choice''), (''choice'', JStr []),
        (''confidence'', JNum ''0.7'')])]),
      (''missing legend'', answering [(''score'', JObj [(''type'', JStr ''score''), (''score'', JNum ''2.5''),
        (''confidence'', JNum ''1''), (''probabilities'', one_probability)])]),
      (''missing noul'', answering [(''__proto__'', JObj [(''type'', JStr ''noul'')])]),
      (''missing box'', answering [(''region'', JObj [(''type'', JStr ''box'')])]),
      (''null box'', answering [(''region'', JObj [(''type'', JStr ''box''), (''box'', JNull)])]),
      (''missing box coordinate'', answering [(''region'', JObj [(''type'', JStr ''box''),
        (''box'', JObj [(''bottom'', JNum ''0.69''), (''left'', JNum ''0.25''), (''right'', JNum ''0.75''),
        (''future'', JBool True)])])]),
      (''null box coordinate'', answering [(''region'', JObj [(''type'', JStr ''box''), (''box'', JObj [(''top'', JNull),
        (''bottom'', JNum ''0.69''), (''left'', JNum ''0.25''), (''right'', JNum ''0.75''),
        (''future'', JBool True)])])]),
      (''string box coordinate'', answering [(''region'', JObj [(''type'', JStr ''box''),
        (''box'', JObj [(''top'', JStr ''0.31''), (''bottom'', JNum ''0.69''), (''left'', JNum ''0.25''),
        (''right'', JNum ''0.75''), (''future'', JBool True)])])]),
      (''boolean box coordinate'', answering [(''region'', JObj [(''type'', JStr ''box''),
        (''box'', JObj [(''top'', JBool True), (''bottom'', JNum ''0.69''), (''left'', JNum ''0.25''),
        (''right'', JNum ''0.75''), (''future'', JBool True)])])]),
      (''overflow box coordinate'', answering [(''region'', JObj [(''type'', JStr ''box''),
        (''box'', JObj [(''top'', JNum ''1e400''), (''bottom'', JNum ''0.69''), (''left'', JNum ''0.25''),
        (''right'', JNum ''0.75''), (''future'', JBool True)])])]),
      (''invalid box confidence'', answering [(''region'', JObj [(''type'', JStr ''box''), (''box'', plain_box),
        (''confidence'', JStr ''0.82'')])]),
      (''overflow box confidence'', answering [(''region'', JObj [(''type'', JStr ''box''), (''box'', plain_box),
        (''confidence'', JNum ''1e400'')])])]"

section \<open>The test\<close>

definition vector_bytes :: "'z net_prims_scheme \<Rightarrow> json \<Rightarrow> bytes" where
  "vector_bytes P v = as_bytes (json_print P v)"

text \<open>What the test asserts of a valid response; an index of a missing key panics.\<close>

definition valid_vector :: "'z net_prims_scheme \<Rightarrow> 'f float_ops \<Rightarrow> json \<Rightarrow> bool" where
  "valid_vector P F v \<longleftrightarrow>
     unwraps (\<lambda>response.
       map_of (sr_answers response) ''__proto__'' \<noteq> None
       \<and> map_of (sr_extra response) ''future'' = Some (jindex v ''future'')
       \<and> (case map_of (sr_answers response) ''region'' of
            Some (Box bounds confidence extra) \<Rightarrow>
              (let region = jindex (jindex v ''answers'') ''region'' in
               Some (bx_top bounds) = f64_of F (jindex (jindex region ''box'') ''top'')
               \<and> confidence = f64_of F (jindex region ''confidence'')
               \<and> map_of (bx_extra bounds) ''future'' = Some (JBool True)
               \<and> map_of extra ''future'' = Some (JBool True))
          | _ \<Rightarrow> False))
       (decode_response P F (vector_bytes P v))"

definition shared_response_vectors :: "'z net_prims_scheme \<Rightarrow> 'f float_ops \<Rightarrow> bool" where
  "shared_response_vectors P F \<longleftrightarrow>
     list_all (valid_vector P F) valid_responses
     \<and> list_all (\<lambda>(name, v). is_error (decode_response P F (vector_bytes P v))) invalid_responses"

section \<open>The numbers\<close>

text \<open>
  How \<open>f64\<close> reads the numbers of the vectors: nothing but a number is one, those between 0 and 1 compare so, and a
  number out of range is either refused or infinite.
\<close>

definition vector_numbers :: "'f float_ops \<Rightarrow> bool" where
  "vector_numbers F \<longleftrightarrow>
     (\<forall>j. f64_of F j \<noteq> None \<longrightarrow> (\<exists>t. j = JNum t))
     \<and> list_all (\<lambda>t. \<exists>x. f64_of F (JNum t) = Some x \<and> probability F x) [''0.8'', ''0.7'', ''0.3'', ''1'']
     \<and> list_all (\<lambda>t. \<exists>x. f64_of F (JNum t) = Some x \<and> is_finite F x)
        [''2.5'', ''0.31'', ''0.69'', ''0.25'', ''0.75'', ''0.82'', ''2'', ''-1'', ''4'', ''3'']
     \<and> list_all (\<lambda>t. \<forall>x. f64_of F (JNum t) = Some x \<longrightarrow> \<not> probability F x) [''1.2'', ''-0.1'']
     \<and> (\<forall>x. f64_of F (JNum ''1e400'') = Some x \<longrightarrow> \<not> is_finite F x)"

section \<open>The model passes the test\<close>

lemmas reading_responses = systemone_response_of_def flat_view_def no_repeats_def need_def want_def btree_of_def
  btree_from_def answer_of_def usage_of_def number_field_def box_coordinates_of_def content_of_def as_u64.simps

lemmas vectors = plain_usage_def extra_usage_def one_probability_def two_probabilities_def plain_box_def full_legend_def
  noul_answer_def choice_answer_def score_answer_def answering_def

lemma vector_numbersD:
  assumes "vector_numbers F"
  shows "f64_of F JNull = None" "f64_of F (JBool b) = None" "f64_of F (JStr s) = None" "f64_of F (JObj kvs) = None"
    "f64_of F (JArr xs) = None"
  using assms unfolding vector_numbers_def by (metis json.distinct)+

lemma token_counts: "parse_u64 ''4'' = Some 4" "parse_u64 ''2'' = Some 2" "parse_u64 ''-1'' = None" "parse_u64 ''1.5'' = None"
  by code_simp+

lemma finite_coordinates:
  assumes "vector_numbers F"
  obtains f where "\<And>t. t \<in> {''2.5'', ''0.31'', ''0.69'', ''0.25'', ''0.75'', ''0.82'', ''2'', ''-1'', ''4'', ''3''} \<Longrightarrow>
    f64_of F (JNum t) = Some (f t) \<and> is_finite F (f t)"
proof
  fix t assume "t \<in> {''2.5'', ''0.31'', ''0.69'', ''0.25'', ''0.75'', ''0.82'', ''2'', ''-1'', ''4'', ''3''}"
  with assms have "\<exists>x. f64_of F (JNum t) = Some x \<and> is_finite F x"
    unfolding vector_numbers_def list_all_iff by (metis insert_iff empty_iff list.set)
  then show "f64_of F (JNum t) = Some (the (f64_of F (JNum t))) \<and> is_finite F (the (f64_of F (JNum t)))" by auto
qed

lemma unit_numbers:
  assumes "vector_numbers F"
  obtains g where "\<And>t. t \<in> {''0.8'', ''0.7'', ''0.3'', ''1''} \<Longrightarrow> f64_of F (JNum t) = Some (g t) \<and> probability F (g t)"
proof
  fix t assume "t \<in> {''0.8'', ''0.7'', ''0.3'', ''1''}"
  with assms have "\<exists>x. f64_of F (JNum t) = Some x \<and> probability F x"
    unfolding vector_numbers_def list_all_iff by (metis insert_iff empty_iff list.set)
  then show "f64_of F (JNum t) = Some (the (f64_of F (JNum t))) \<and> probability F (the (f64_of F (JNum t)))" by auto
qed

lemma valid_vectorI:
  assumes "document_roundtrip P" "systemone_response_of F v = Some r" "sr_model r \<noteq> []"
    and "list_all (\<lambda>(_, answer). valid_answer F answer) (sr_answers r)"
    and "map_of (sr_answers r) ''__proto__'' \<noteq> None" "map_of (sr_extra r) ''future'' = Some (jindex v ''future'')"
    and "map_of (sr_answers r) ''region'' = Some (Box bounds confidence [(''future'', JBool True)])"
    and "Some (bx_top bounds) = f64_of F (jindex (jindex (jindex (jindex v ''answers'') ''region'') ''box'') ''top'')"
    and "confidence = f64_of F (jindex (jindex (jindex v ''answers'') ''region'') ''confidence'')"
    and "map_of (bx_extra bounds) ''future'' = Some (JBool True)"
  shows "valid_vector P F v"
proof -
  have "decode_response P F (vector_bytes P v) = Inr r"
    using assms by (simp add: decode_response_ok vector_bytes_def document_roundtrip_def)
  with assms show ?thesis by (simp add: valid_vector_def Let_def)
qed

lemma valid_test:
  assumes "document_roundtrip P" "vector_numbers F"
  shows "list_all (valid_vector P F) valid_responses"
proof -
  obtain f where f: "\<And>t. t \<in> {''2.5'', ''0.31'', ''0.69'', ''0.25'', ''0.75'', ''0.82'', ''2'', ''-1'', ''4'', ''3''} \<Longrightarrow>
      f64_of F (JNum t) = Some (f t) \<and> is_finite F (f t)"
    using finite_coordinates [OF assms(2)] by metis
  obtain g where g: "\<And>t. t \<in> {''0.8'', ''0.7'', ''0.3'', ''1''} \<Longrightarrow> f64_of F (JNum t) = Some (g t) \<and> probability F (g t)"
    using unit_numbers [OF assms(2)] by metis
  note none = vector_numbersD [OF assms(2)]
  have noul: "answer_of F noul_answer = Some (Noul (g ''0.8'') [(''future'', JObj [(''ok'', JBool True)])])"
    using g by (simp add: reading_responses vectors)
  have choice: "answer_of F choice_answer =
      Some (Choice [] (g ''0.7'') [(''constructor'', g ''0.7''), (''toString'', g ''0.3'')] [])"
    using g by (simp add: reading_responses vectors)
  have score: "answer_of F score_answer = Some (Score (f ''2.5'') (g ''1'') [(''2.5'', g ''1'')] [(''1'', Text ''low''),
      (''2'', Object [(''text'', JStr ''high'')]), (''3'', Array [JStr ''yes''])] [])"
    using f g by (simp add: reading_responses vectors)
  have valid: "valid_answer F (Noul (g ''0.8'') e)" "valid_answer F (Choice [] (g ''0.7'') [(''constructor'', g ''0.7''), (''toString'', g ''0.3'')] e)"
    "valid_answer F (Score (f ''2.5'') (g ''1'') [(''2.5'', g ''1'')] l e)" for e l
    using f g by (simp_all add: valid_answer_def)
  have usage: "usage_of extra_usage = Some \<lparr>us_input_tokens = 4, us_output_tokens = 2, us_extra = [(''extra_tokens'', JNum ''1'')]\<rparr>"
    by (simp add: usage_of_def flat_view_def no_repeats_def need_def extra_usage_def btree_from_def token_counts)
  let ?plain = "\<lparr>bx_top = f ''0.31'', bx_bottom = f ''0.69'', bx_left = f ''0.25'', bx_right = f ''0.75'',
    bx_extra = [(''future'', JBool True)]\<rparr>"
  let ?odd = "\<lparr>bx_top = f ''2'', bx_bottom = f ''-1'', bx_left = f ''4'', bx_right = f ''3'', bx_extra = [(''future'', JBool True)]\<rparr>"
  have boxes: "answer_of F (JObj [(''type'', JStr ''box''), (''box'', plain_box), (''confidence'', JNum ''0.82''), (''future'', JBool True)])
      = Some (Box ?plain (Some (f ''0.82'')) [(''future'', JBool True)])"
    "answer_of F (JObj [(''type'', JStr ''box''), (''box'', JObj [(''top'', JNum ''2''), (''bottom'', JNum ''-1''),
        (''left'', JNum ''4''), (''right'', JNum ''3''), (''future'', JBool True)]), (''confidence'', JNull), (''future'', JBool True)])
      = Some (Box ?odd None [(''future'', JBool True)])"
    "answer_of F (JObj [(''type'', JStr ''box''), (''box'', plain_box)]) = Some (Box ?plain None [])"
    using f by (simp_all add: reading_responses plain_box_def)
  have valid_boxes: "valid_answer F (Box ?plain None e)" "valid_answer F (Box ?odd None e)" "valid_answer F (Box ?plain (Some (f ''0.82'')) e)" for e
    using f by (simp_all add: valid_answer_def)
  note parts = systemone_response_of_def flat_view_def no_repeats_def need_def want_def btree_of_def btree_from_def jindex_def
  let ?noul = "Noul (g ''0.8'') [(''future'', JObj [(''ok'', JBool True)])]"
  let ?choice = "Choice [] (g ''0.7'') [(''constructor'', g ''0.7''), (''toString'', g ''0.3'')] []"
  let ?score = "Score (f ''2.5'') (g ''1'') [(''2.5'', g ''1'')] [(''1'', Text ''low''),
      (''2'', Object [(''text'', JStr ''high'')]), (''3'', Array [JStr ''yes''])] []"
  let ?usage = "\<lparr>us_input_tokens = 4, us_output_tokens = 2, us_extra = [(''extra_tokens'', JNum ''1'')]\<rparr>"
  let ?extra = "[(''future'', JObj [(''preserved'', JBool True)])]"
  let ?first = "\<lparr>sr_id = None, sr_model = ''vendor/model'', sr_answers = [(''__proto__'', ?noul), (''choice'', ?choice),
      (''region'', Box ?plain (Some (f ''0.82'')) [(''future'', JBool True)]), (''score'', ?score)],
    sr_usage = ?usage, sr_extra = ?extra\<rparr>"
  let ?second = "\<lparr>sr_id = Some ''body-id'', sr_model = ''vendor/model'', sr_answers = [(''__proto__'', ?noul), (''choice'', ?choice),
      (''region'', Box ?odd None [(''future'', JBool True)]), (''score'', ?score), (''unscored_region'', Box ?plain None [])],
    sr_usage = ?usage, sr_extra = ?extra\<rparr>"
  have read: "systemone_response_of F (valid_responses ! 0) = Some ?first" "systemone_response_of F (valid_responses ! 1) = Some ?second"
    by (simp_all add: valid_responses_def parts noul choice score boxes usage)
  have "valid_vector P F (valid_responses ! 0)"
    by (rule valid_vectorI [OF assms(1) read(1), where bounds = ?plain and confidence = "Some (f ''0.82'')"])
      (simp_all add: valid valid_boxes f none valid_responses_def jindex_def plain_box_def)
  moreover have "valid_vector P F (valid_responses ! 1)"
    by (rule valid_vectorI [OF assms(1) read(2), where bounds = ?odd and confidence = None])
      (simp_all add: valid valid_boxes f none valid_responses_def jindex_def plain_box_def)
  moreover have "valid_responses = [valid_responses ! 0, valid_responses ! 1]" by (simp add: valid_responses_def)
  ultimately show ?thesis by (metis list.pred_inject)
qed

text \<open>A refused value: it does not decode, has no model, or holds an answer that is refused.\<close>

definition refused_answer :: "'f float_ops \<Rightarrow> json \<Rightarrow> bool" where
  "refused_answer F j \<longleftrightarrow> (\<forall>a. answer_of F j = Some a \<longrightarrow> \<not> valid_answer F a)"

definition refused :: "'f float_ops \<Rightarrow> json \<Rightarrow> bool" where
  "refused F v \<longleftrightarrow> (\<forall>r. systemone_response_of F v = Some r \<longrightarrow> sr_model r = []
     \<or> \<not> list_all (\<lambda>(_, answer). valid_answer F answer) (sr_answers r))"

lemma decode_refused:
  assumes "document_roundtrip P" "refused F v"
  shows "is_error (decode_response P F (vector_bytes P v))"
proof (cases "decode_response P F (vector_bytes P v)")
  case (Inl e)
  then show ?thesis using decode_response_fail [OF Inl] by simp
next
  case (Inr r)
  with assms show ?thesis
    by (auto simp: refused_def decode_response_ok vector_bytes_def document_roundtrip_def)
qed

lemma plain_usage_read: "usage_of plain_usage = Some \<lparr>us_input_tokens = 4, us_output_tokens = 2, us_extra = []\<rparr>"
  by (simp add: usage_of_def flat_view_def no_repeats_def need_def plain_usage_def btree_from_def token_counts)

lemma answering_refused: "refused_answer F j \<Longrightarrow> refused F (answering [(k, j)])"
  by (cases "answer_of F j")
    (auto simp: refused_def refused_answer_def answering_def systemone_response_of_def flat_view_def no_repeats_def need_def
      want_def btree_of_def btree_from_def plain_usage_read)

lemma undecoded_refused: "systemone_response_of F v = None \<Longrightarrow> refused F v"
  by (simp add: refused_def)

lemma invalid_test:
  assumes "document_roundtrip P" "vector_numbers F"
  shows "list_all (\<lambda>(name, v). is_error (decode_response P F (vector_bytes P v))) invalid_responses"
proof -
  obtain f where f: "\<And>t. t \<in> {''2.5'', ''0.31'', ''0.69'', ''0.25'', ''0.75'', ''0.82'', ''2'', ''-1'', ''4'', ''3''} \<Longrightarrow>
      f64_of F (JNum t) = Some (f t) \<and> is_finite F (f t)"
    using finite_coordinates [OF assms(2)] by metis
  obtain g where g: "\<And>t. t \<in> {''0.8'', ''0.7'', ''0.3'', ''1''} \<Longrightarrow> f64_of F (JNum t) = Some (g t) \<and> probability F (g t)"
    using unit_numbers [OF assms(2)] by metis
  have bad: "f64_of F (JNum ''1.2'') = Some x \<Longrightarrow> \<not> probability F x" "f64_of F (JNum ''-0.1'') = Some x \<Longrightarrow> \<not> probability F x"
    "f64_of F (JNum ''1e400'') = Some x \<Longrightarrow> \<not> is_finite F x" for x
    using assms(2) by (simp_all add: vector_numbers_def)
  note none = vector_numbersD [OF assms(2)]
  have answers: "list_all (\<lambda>(_, v). \<forall>k j. v = answering [(k, j)] \<longrightarrow> refused_answer F j) invalid_responses"
    using f g bad none
    by (cases "f64_of F (JNum ''1.2'')"; cases "f64_of F (JNum ''-0.1'')"; cases "f64_of F (JNum ''1e400'')")
      (simp_all add: invalid_responses_def reading_responses vectors refused_answer_def valid_answer_def)
  have "list_all (\<lambda>(_, v). (\<nexists>k j. v = answering [(k, j)]) \<longrightarrow> refused F v) invalid_responses"
    by (simp add: invalid_responses_def refused_def reading_responses vectors token_counts)
  with answers have "list_all (\<lambda>(_, v). refused F v) invalid_responses"
    using answering_refused by (fastforce simp: list_all_iff)
  then show ?thesis
    using decode_refused [OF assms(1)] by (fastforce simp: list_all_iff)
qed

lemma vectors_test:
  assumes "document_roundtrip P" "vector_numbers F"
  shows "shared_response_vectors P F"
  unfolding shared_response_vectors_def using valid_test [OF assms] invalid_test [OF assms] by blast

end
