(* ===== verification/Spec2Isabelle.thy ===== *)
theory Spec2Isabelle
  imports Reports Nvidia Response_Signature Pinned_Tls Direct Ohttp Compose_Manager_Provenance Session_Cache Systemone
    Client Public_Api Systemone_Request Dcap_Helper Example_Events Example_Standalone
    Example_Clients Live_Standalone Live_Clients
    Unit_Reports Unit_Verifiers Unit_Provenance Unit_Deployment Unit_Receipts Unit_Encryption
    Unit_Pages Unit_Events Unit_Vectors
begin

text \<open>
  The Rust SDK of the repository (\<open>src/rs/src\<close>): a client of an inference gateway that trusts only what hardware
  attestation vouches for. This library models it as functions and step relations and proves what makes it correct.

  \<^bold>\<open>The program.\<close> A client fetches a report of the Gateway, and of the model's enclaves, that answers a fresh nonce; each
  report's TDX quote binds a signing key, a TLS key and measurements, an event log explains the measurements, and policies
  decide on them, down to where the running images were built. The result is a session, whose connections are pinned to the
  attested key. Requests go through it in clear, with encrypted fields, or inside Oblivious HTTP; the exact bytes of each
  exchange are kept, and a later call verifies the enclave's signature over them.

  \<^bold>\<open>Theories and sources\<close>, in the order they build on one another:

  \<^item> \<open>Prelude\<close>: outcomes (\<open>Ok\<close>, \<open>Err\<close> and panic), bytes, UTF-8 and the string operations of Rust's library. \<open>Json\<close>,
    \<open>Instances\<close>: JSON values, the environment record of operations outside the repository, and an instance of it.
    \<open>Json_Text\<close>: the documents \<open>serde_json\<close> can print, and how deep they nest.
  \<^item> \<open>Types\<close>, \<open>Errors\<close>: \<open>types.rs\<close>, \<open>errors.rs\<close>. \<open>Http\<close>: headers, requests, responses and derived deserialisation, as
    \<open>reqwest\<close>, \<open>http\<close> and \<open>serde\<close> give them to the sources.
  \<^item> \<open>Bindings\<close>, \<open>Event_Log\<close>, \<open>Quote\<close>, \<open>Attestation\<close>, \<open>Compose_Manager\<close>, \<open>Nvidia\<close>: the files of those names (and
    \<open>deployment_verifier.rs\<close>), one function per function. \<open>Reports\<close>: \<open>gateway.rs\<close> and \<open>model.rs\<close>, which combine them.
  \<^item> \<open>Response_Signature\<close>: \<open>response.rs\<close>. \<open>E2ee\<close>, \<open>Sse\<close>: \<open>e2ee.rs\<close>, \<open>sse.rs\<close>. \<open>Pinned_Tls\<close>, \<open>Cloud_Api\<close>, \<open>Direct\<close>:
    \<open>pinned_tls.rs\<close>, \<open>cloud_api.rs\<close>, the evidence part of \<open>direct.rs\<close>. \<open>Bhttp\<close>, \<open>Ohttp\<close>: \<open>ohttp.rs\<close>.
  \<^item> \<open>Provenance\<close>, \<open>Deployment_Provenance\<close>, \<open>Compose_Manager_Provenance\<close>: the files of those names.
  \<^item> \<open>Inference_Session\<close>: the options of \<open>inference.rs\<close> and \<open>direct.rs\<close> and the creation of a session (\<open>create_session\<close>
    in both). \<open>Expiry\<close>, \<open>Session_Cache\<close>, \<open>Response_Cache\<close>: the state behind \<open>InferenceClient\<close>, that is \<open>session\<close>,
    \<open>register\<close>, \<open>clear_response_cache\<close> and \<open>verify_response\<close>. \<open>Send\<close>: \<open>send\<close>, its stream and the JSON calls.
    \<open>Systemone\<close>: the responses of \<open>systemone.rs\<close> and \<open>systemone_create_with_headers\<close>; \<open>Systemone_Request\<close>: its requests.
  \<^item> \<open>Client\<close>: \<open>InferenceClient\<close> as a whole, both caches and the calls in flight on one client. \<open>Error_Texts\<close>: the \<open>Display\<close>
    texts of \<open>errors.rs\<close>. \<open>Public_Api\<close>: the functions that only name another, of \<open>util.rs\<close>, \<open>quote.rs\<close>, \<open>nvidia.rs\<close>,
    \<open>inference.rs\<close> and \<open>direct.rs\<close>.
  \<^item> \<open>Dcap_Helper\<close>: the program under \<open>src/go/internal/dcap/wasm-src\<close>. \<open>Example_Events\<close>, \<open>Example_Standalone\<close>: what the
    programs under \<open>src/examples/example-rs\<close> share (\<open>utils/mod.rs\<close>), and the two that use the SDK's steps separately
    (\<open>gateway/chat_completions_bare.rs\<close>, \<open>direct/chat_completions_bare.rs\<close>). \<open>Example_Clients\<close>: the five on the integrated
    clients (\<open>chat_completions.rs\<close> of \<open>gateway\<close> and \<open>direct\<close>, \<open>responses.rs\<close>, \<open>messages.rs\<close>, \<open>systemone.rs\<close>), whose
    calls are steps of \<open>Client\<close>, awaited one after the other.
  \<^item> \<open>Awaited_Client\<close>: what such a client keeps between its calls. \<open>Live_Support\<close>, \<open>Live_Standalone\<close>, \<open>Live_Calls\<close>,
    \<open>Live_Chat\<close>, \<open>Live_Endpoints\<close>, \<open>Live_Clients\<close>: the live tests of \<open>src/rs/e2e\<close> (\<open>gateway.rs\<close>, \<open>integrated.rs\<close>,
    \<open>messages.rs\<close>, \<open>responses.rs\<close>, \<open>systemone.rs\<close>), whose failed assertions are outcomes of their own.
  \<^item> \<open>Unit_Support\<close>, \<open>Unit_Reports\<close> (\<open>cloud_api.rs\<close>), \<open>Unit_Verifiers\<close> (\<open>quote.rs\<close>, \<open>nvidia.rs\<close>, \<open>pinned_tls.rs\<close>,
    \<open>systemone.rs\<close>, \<open>sse.rs\<close>), \<open>Unit_Provenance\<close>, \<open>Unit_Deployment\<close>, \<open>Unit_Receipts\<close> (\<open>inference.rs\<close>), \<open>Unit_Encryption\<close>
    (\<open>e2ee.rs\<close>, \<open>ohttp.rs\<close>): the unit tests inside these files, as predicates over the definitions above. \<open>Unit_Pages\<close>: the
    tests of \<open>provenance.rs\<close> that follow a mocked server's pages; \<open>Unit_Events\<close>: the test of \<open>e2ee.rs\<close> that decrypts a
    stream byte by byte; \<open>Unit_Vectors\<close>: the test of \<open>systemone.rs\<close> over \<open>test-fixtures/systemone-responses.json\<close>.

  \<^bold>\<open>State.\<close> A \<open>Result\<close> is a sum whose left side is an error or a panic (an index, an \<open>expect\<close>). A \<open>HashMap\<close> is a map,
  a \<open>HeaderMap\<close> and a JSON object are association lists, machine integers are words where they wrap (the generation of
  the response cache, Binary HTTP integers) and naturals elsewhere, checked where the code bounds them. Futures and records
  shared through \<open>Arc\<close> and \<open>Shared\<close> live in stores, and their addresses are what \<open>ptr_eq\<close> compares. Calls on one client
  run concurrently: each critical section is a step, a run is any list of steps, and the properties of
  \<open>Session_Cache\<close>, \<open>Response_Cache\<close> and \<open>Client\<close> hold for every run; a run of the client projects to a run of each
  cache. Network, clock, nonces and key material are arguments. A program is what it prints and returns.

  \<^bold>\<open>Interfaces.\<close> \<open>stream_decoder\<close> (\<open>Sse\<close>): what a client of an incremental decoder may assume, interpreted by the SSE
  scanner and used by \<open>decrypt_sse\<close> and by the stream of \<open>send\<close>. \<open>expiring_cache\<close> (\<open>Expiry\<close>): what both caches promise
  about ages, interpreted by each.

  \<^bold>\<open>What the lemmas show.\<close> For each verifier, success is equivalent to a predicate over the evidence (\<open>_exact\<close>), from
  which uniqueness follows (one nonce, one action log, one exchange per signature). Encryption is complete, opens, and
  admits authenticated text only. Scanners and readers agree with reference definitions for every chunking and stay
  within their limits. Session creation pins what was attested and lets no credential out before; sending uses the client's
  own credentials only; what is registered is what was exchanged; receipts are sound, final and obtainable under every
  interleaving; sessions are attested, shared and expire. For the client as a whole these compose: a receipt traces back
  to an exchange of the same run over an attested session, and a call that began before the cache was cleared leaves
  nothing in it. The
  standalone program prints only what all of its parts vouch for, the integrated one only answers with such a receipt. What
  the live tests assert of the SDK holds whatever the service does (a Hoare calculus over their steps, \<open>tested\<close>). The unit
  tests of the crate hold of the model in every environment whose crates read the texts the tests spell out as documented,
  which checks the definitions against the behaviour the authors wrote down.

  \<^bold>\<open>Termination and bounds.\<close> Loops are total: structural, or with a measure (bytes left to scan or to read, nesting of a
  log-probability tree, pages left). The event decoder of the examples is a partial function whose slices and drains panic out of range; that it
  returns, and never panics, is proved. No definition uses fuel. The page, byte and message limits are those of the sources.

  \<^bold>\<open>Hypotheses\<close> on what is outside the repository are named predicates: digest lengths, the hexadecimal round trip, AEAD and
  Diffie-Hellman laws, that the JSON printer writes two documents differently, and that it reads back what it printed as long
  as the document nests at most 127 levels, which is where \<open>serde_json\<close> stops (the lemmas on the unit tests, whose documents are small, and
  \<open>direct_report_set_fetched\<close> state this for every document). No hypothesis says that a digest has no
  collision: where one would matter, the conclusion names the two texts that would collide. \<open>Instances\<close> and the
  \<open>demo\<close> definitions instantiate the hypotheses, and witnesses evaluate there.

  \<^bold>\<open>Not modelled.\<close> DCAP quote verification, Sigstore and X.509 decoding, curve arithmetic, AEADs, HKDF, HPKE, URL and YAML
  libraries and sending itself are operations of the environment. Building an HTTP client does not fail; the handshake
  callbacks of \<open>pinned_tls.rs\<close> other than the certificate decision delegate to rustls. The bytes of \<open>generate_nonce\<close> are an
  argument. \<open>lib.rs\<close> only re-exports. Unit tests that replay recorded ciphertexts, hold a live relay or TLS socket or
  only observe a request to a PCCS of the caller's choice are left out, and so are the integration tests of
  \<open>src/rs/tests\<close>. Reports verified with
  \<open>try_join_all\<close> run in parallel; the model takes the first failure in their order. A consumer that drops a stream early
  simply never reaches its registration. Floating-point numbers are a parameter of the System One types, and \<open>dcap_qvl\<close>
  one of the DCAP helper, whose reports keep what the serializer does not write as one opaque value. The timeouts of programs and tests cut their
  output at a point that is an argument.
\<close>

end
